(* ===== verification/Prelude.thy ===== *)
theory Prelude
  imports Main "HOL-Library.Word" "HOL-Library.Sublist"
begin

text \<open>
  Shared vocabulary of the development: the machine integer types of the Rust code, the
  result type of fallible operations, checked integer arithmetic, the parts of Rust's
  vectors and strings the code uses, little-endian byte strings, and the collections of
  rules the component theories extend.

  Conventions.  Rust's \<open>Result<T, ArcadiaTioError>\<close> is the sum \<open>error + 'a\<close> with \<open>Inl\<close> for
  \<open>Err\<close> and \<open>Inr\<close> for \<open>Ok\<close>; the \<open>?\<close> operator is \<open>sbind\<close>.  Integers of fixed width are
  words; \<open>usize\<close> is a natural number with its bound written out, for the 64-bit targets
  (\<open>usize\<close> values there are below \<open>2 ^ 64\<close> and no allocation exceeds \<open>isize::MAX\<close> bytes).
  A byte buffer \<open>Vec<u8>\<close> or \<open>[u8; n]\<close> is a list of 8-bit words.
\<close>

unbundle bit_operations_syntax

section \<open>Rule collections\<close>

named_theorems reads_intros "rules that prove what a reader makes of given bytes"
named_theorems codec_simps "lengths and shapes of encoded records"
named_theorems errs_intros "rules that classify the errors an operation can report"
named_theorems reader_simps "successful runs of the reader combinators"

section \<open>Machine integers\<close>

type_synonym u8 = "8 word"
type_synonym u16 = "16 word"
type_synonym u32 = "32 word"
type_synonym u64 = "64 word"
type_synonym i32 = "32 word"
type_synonym i64 = "64 word"
type_synonym usize = nat
type_synonym bytes = "u8 list"

definition usize_max :: nat where
  "usize_max = 2 ^ 64 - 1"

definition isize_max :: nat where
  "isize_max = 2 ^ 63 - 1"

definition usize_try_from :: "nat \<Rightarrow> usize option" where
  "usize_try_from n = (if n \<le> usize_max then Some n else None)"

definition u64_try_from :: "nat \<Rightarrow> u64 option" where
  "u64_try_from n = (if n < 2 ^ 64 then Some (of_nat n) else None)"

definition u32_try_from :: "nat \<Rightarrow> u32 option" where
  "u32_try_from n = (if n < 2 ^ 32 then Some (of_nat n) else None)"

definition u16_try_from :: "nat \<Rightarrow> u16 option" where
  "u16_try_from n = (if n < 2 ^ 16 then Some (of_nat n) else None)"

definition checked_add :: "'a::len word \<Rightarrow> 'a word \<Rightarrow> 'a word option" where
  "checked_add a b = (if unat a + unat b < 2 ^ LENGTH('a) then Some (a + b) else None)"

definition checked_sub :: "'a::len word \<Rightarrow> 'a word \<Rightarrow> 'a word option" where
  "checked_sub a b = (if b \<le> a then Some (a - b) else None)"

definition checked_mul :: "'a::len word \<Rightarrow> 'a word \<Rightarrow> 'a word option" where
  "checked_mul a b = (if unat a * unat b < 2 ^ LENGTH('a) then Some (a * b) else None)"

definition saturating_add :: "'a::len word \<Rightarrow> 'a word \<Rightarrow> 'a word" where
  "saturating_add a b = (case checked_add a b of Some c \<Rightarrow> c | None \<Rightarrow> - 1)"

definition usize_checked_add :: "usize \<Rightarrow> usize \<Rightarrow> usize option" where
  "usize_checked_add a b = usize_try_from (a + b)"

definition usize_checked_mul :: "usize \<Rightarrow> usize \<Rightarrow> usize option" where
  "usize_checked_mul a b = usize_try_from (a * b)"

definition usize_checked_sub :: "usize \<Rightarrow> usize \<Rightarrow> usize option" where
  "usize_checked_sub a b = (if b \<le> a then Some (a - b) else None)"

section \<open>Fallible results\<close>

definition sbind :: "'e + 'a \<Rightarrow> ('a \<Rightarrow> 'e + 'b) \<Rightarrow> 'e + 'b" where
  "sbind r k = (case r of Inl e \<Rightarrow> Inl e | Inr x \<Rightarrow> k x)"

definition ok_or :: "'a option \<Rightarrow> 'e \<Rightarrow> 'e + 'a" where
  "ok_or x e = (case x of None \<Rightarrow> Inl e | Some v \<Rightarrow> Inr v)"

definition is_ok :: "'e + 'a \<Rightarrow> bool" where
  "is_ok r = (case r of Inl _ \<Rightarrow> False | Inr _ \<Rightarrow> True)"

fun for_each :: "('a \<Rightarrow> 's \<Rightarrow> 'e + 's) \<Rightarrow> 'a list \<Rightarrow> 's \<Rightarrow> 'e + 's" where
  "for_each f [] s = Inr s"
| "for_each f (x # xs) s = sbind (f x s) (\<lambda>t. for_each f xs t)"

fun try_map :: "('a \<Rightarrow> 'e + 'b) \<Rightarrow> 'a list \<Rightarrow> 'e + 'b list" where
  "try_map f [] = Inr []"
| "try_map f (x # xs) = sbind (f x) (\<lambda>y. sbind (try_map f xs) (\<lambda>ys. Inr (y # ys)))"

section \<open>Vectors and strings\<close>

definition vec_resize :: "nat \<Rightarrow> 'a \<Rightarrow> 'a list \<Rightarrow> 'a list" where
  "vec_resize n x xs = take n xs @ replicate (n - length xs) x"

definition slice :: "nat \<Rightarrow> nat \<Rightarrow> 'a list \<Rightarrow> 'a list" where
  "slice start stop xs = take (stop - start) (drop start xs)"

definition vec_get_range :: "'a list \<Rightarrow> nat \<Rightarrow> nat \<Rightarrow> 'a list option" where
  "vec_get_range xs start stop =
     (if start \<le> stop \<and> stop \<le> length xs then Some (slice start stop xs) else None)"

definition vec_get :: "'a list \<Rightarrow> nat \<Rightarrow> 'a option" where
  "vec_get xs i = (if i < length xs then Some (xs ! i) else None)"

fun str_contains :: "string \<Rightarrow> string \<Rightarrow> bool" where
  "str_contains [] pat = (pat = [])"
| "str_contains (c # cs) pat = (prefix pat (c # cs) \<or> str_contains cs pat)"

section \<open>Little-endian byte strings\<close>

definition to_le_bytes :: "nat \<Rightarrow> 'a::len word \<Rightarrow> bytes" where
  "to_le_bytes n w = map (\<lambda>i. ucast (drop_bit (8 * i) w)) [0..<n]"

fun from_le_bytes :: "bytes \<Rightarrow> 'a::len word" where
  "from_le_bytes [] = 0"
| "from_le_bytes (b # bs) = ucast b OR push_bit 8 (from_le_bytes bs)"

section \<open>Lemmas on results\<close>

lemma sbind_Inl [simp]: "sbind (Inl e) k = Inl e"
  by (simp add: sbind_def)

lemma sbind_Inr [simp]: "sbind (Inr x) k = k x"
  by (simp add: sbind_def)

lemma sbind_eq_Inr: "sbind r k = Inr y \<longleftrightarrow> (\<exists>x. r = Inr x \<and> k x = Inr y)"
  by (cases r) auto

lemma sbind_InrE: "sbind r k = Inr z \<Longrightarrow> (\<And>x. r = Inr x \<Longrightarrow> k x = Inr z \<Longrightarrow> thesis) \<Longrightarrow> thesis"
  by (auto simp: sbind_eq_Inr)

lemma sbind_pairE:
  "sbind r (\<lambda>(x, y). f x y) = Inr z \<Longrightarrow> (\<And>x y. r = Inr (x, y) \<Longrightarrow> f x y = Inr z \<Longrightarrow> thesis) \<Longrightarrow> thesis"
  by (auto simp: sbind_eq_Inr)

lemma sbind_unit_Inr: "sbind r (\<lambda>_ :: unit. k) = Inr y \<longleftrightarrow> r = Inr () \<and> k = Inr y"
  by (cases r) simp_all

lemma sbind_eq_Inl: "sbind r k = Inl e \<longleftrightarrow> r = Inl e \<or> (\<exists>x. r = Inr x \<and> k x = Inl e)"
  by (cases r) auto

lemma sbind_assoc: "sbind (sbind r f) g = sbind r (\<lambda>x. sbind (f x) g)"
  by (cases r) auto

lemma ok_or_simps [simp]:
  "ok_or None e = Inl e"
  "ok_or (Some x) e = Inr x"
  by (simp_all add: ok_or_def)

lemma ok_or_eq_Inr [simp]: "ok_or x e = Inr v \<longleftrightarrow> x = Some v"
  by (cases x) auto

lemma ok_or_eq_Inl [simp]: "ok_or x e = Inl e' \<longleftrightarrow> x = None \<and> e' = e"
  by (cases x) auto

lemma is_ok_simps [simp]: "is_ok (Inl e) = False" "is_ok (Inr x) = True"
  by (simp_all add: is_ok_def)

lemma for_each_append: "for_each f (xs @ ys) s = sbind (for_each f xs s) (\<lambda>t. for_each f ys t)"
  by (induction xs arbitrary: s) (auto simp: sbind_def split: sum.split)

text \<open>A loop whose body keeps an invariant on success keeps it over the whole list.\<close>

lemma for_each_invariant:
  assumes "for_each f xs s = Inr t" and "P s"
    and "\<And>x s t. x \<in> set xs \<Longrightarrow> P s \<Longrightarrow> f x s = Inr t \<Longrightarrow> P t"
  shows "P t"
  using assms
proof (induction xs arbitrary: s)
  case Nil
  then show ?case by simp
next
  case (Cons x xs)
  then obtain u where u: "f x s = Inr u" "for_each f xs u = Inr t"
    by (auto simp: sbind_eq_Inr)
  have "P u" using Cons.prems(2,3) u(1) by (metis list.set_intros(1))
  then show ?case using Cons.IH [OF u(2)] Cons.prems(3) by (metis list.set_intros(2))
qed

lemma try_map_Inr_iff: "try_map f xs = Inr ys \<longleftrightarrow> list_all2 (\<lambda>x y. f x = Inr y) xs ys"
proof (induction xs arbitrary: ys)
  case Nil
  then show ?case by auto
next
  case (Cons x xs)
  then show ?case by (auto simp: sbind_eq_Inr list_all2_Cons1)
qed

lemma try_map_length: "try_map f xs = Inr ys \<Longrightarrow> length ys = length xs"
  by (simp add: try_map_Inr_iff list_all2_lengthD)

text \<open>\<open>errs P r\<close>: whatever error \<open>r\<close> reports satisfies \<open>P\<close>.\<close>

definition errs :: "('e \<Rightarrow> bool) \<Rightarrow> 'e + 'a \<Rightarrow> bool" where
  "errs P r \<longleftrightarrow> (\<forall>e. r = Inl e \<longrightarrow> P e)"

lemma errsD: "errs P r \<Longrightarrow> r = Inl e \<Longrightarrow> P e"
  by (simp add: errs_def)

lemma errs_basic [errs_intros]:
  "errs P (Inr x)"
  "P e \<Longrightarrow> errs P (Inl e)"
  "P e \<Longrightarrow> errs P (ok_or y e)"
  by (simp_all add: errs_def)

lemma errs_sbind [errs_intros]: "errs P r \<Longrightarrow> (\<And>x. r = Inr x \<Longrightarrow> errs P (k x)) \<Longrightarrow> errs P (sbind r k)"
  by (auto simp: errs_def sbind_eq_Inl)

lemma errs_if [errs_intros]:
  "(b \<Longrightarrow> errs P r) \<Longrightarrow> (\<not> b \<Longrightarrow> errs P s) \<Longrightarrow> errs P (if b then r else s)"
  by simp

lemma errs_case_option [errs_intros]:
  "(z = None \<Longrightarrow> errs P r) \<Longrightarrow> (\<And>x. z = Some x \<Longrightarrow> errs P (k x)) \<Longrightarrow>
     errs P (case z of None \<Rightarrow> r | Some x \<Rightarrow> k x)"
  by (cases z) simp_all

lemma errs_for_each [errs_intros]:
  "(\<And>x s. x \<in> set xs \<Longrightarrow> errs P (f x s)) \<Longrightarrow> errs P (for_each f xs s)"
proof (induction xs arbitrary: s)
  case Nil
  then show ?case by (simp add: errs_def)
next
  case (Cons x xs)
  then show ?case by (auto intro!: errs_sbind)
qed

lemma errs_try_map [errs_intros]: "(\<And>x. x \<in> set xs \<Longrightarrow> errs P (f x)) \<Longrightarrow> errs P (try_map f xs)"
  by (induction xs) (auto intro!: errs_sbind simp: errs_basic)

section \<open>Lemmas on checked arithmetic\<close>

lemma checked_add_Some: "checked_add a b = Some c \<Longrightarrow> unat c = unat a + unat b"
  by (auto simp: checked_add_def unat_word_ariths split: if_splits)

lemma checked_add_None: "checked_add (a :: 'a::len word) b = None \<longleftrightarrow> 2 ^ LENGTH('a) \<le> unat a + unat b"
  by (auto simp: checked_add_def not_less)

lemma checked_mul_Some: "checked_mul a b = Some c \<Longrightarrow> unat c = unat a * unat b"
  by (auto simp: checked_mul_def unat_word_ariths split: if_splits)

lemma checked_mul_None: "checked_mul (a :: 'a::len word) b = None \<longleftrightarrow> 2 ^ LENGTH('a) \<le> unat a * unat b"
  by (auto simp: checked_mul_def not_less)

lemma checked_sub_Some: "checked_sub a b = Some c \<Longrightarrow> unat c = unat a - unat b \<and> unat b \<le> unat a"
  by (auto simp: checked_sub_def unat_sub word_le_nat_alt split: if_splits)

lemma usize_try_from_Some [simp]: "usize_try_from n = Some m \<longleftrightarrow> m = n \<and> n \<le> usize_max"
  by (auto simp: usize_try_from_def)

lemma u64_unat_le_usize_max [simp]: "unat (w :: u64) \<le> usize_max"
  using unsigned_less [of w, where ?'a = nat] by (simp add: usize_max_def)

lemma usize_try_from_u64 [simp]: "usize_try_from (unat (w :: u64)) = Some (unat w)"
  by simp

lemma u32_unat_le_usize_max [simp]: "unat (w :: u32) \<le> usize_max"
  using unsigned_less [of w, where ?'a = nat] by (simp add: usize_max_def)

lemma isize_max_less_usize_max: "n \<le> isize_max \<Longrightarrow> n \<le> usize_max"
  by (simp add: isize_max_def usize_max_def)

lemma unat_of_nat_u64: "n < 2 ^ 64 \<Longrightarrow> unat (of_nat n :: u64) = n"
  by (simp add: unat_of_nat take_bit_nat_eq_self)

lemma unat_of_nat_u32: "n < 2 ^ 32 \<Longrightarrow> unat (of_nat n :: u32) = n"
  by (simp add: unat_of_nat take_bit_nat_eq_self)

lemma unat_of_nat_u16: "n < 2 ^ 16 \<Longrightarrow> unat (of_nat n :: u16) = n"
  by (simp add: unat_of_nat take_bit_nat_eq_self)

lemma unat_ucast_u32_u64 [simp]: "unat (ucast (w :: u32) :: u64) = unat w"
  using unsigned_less [of w, where ?'a = nat] by (simp add: unsigned_ucast_eq take_bit_nat_eq_self)

lemma unat_ucast_u16_u64 [simp]: "unat (ucast (w :: u16) :: u64) = unat w"
  using unsigned_less [of w, where ?'a = nat] by (simp add: unsigned_ucast_eq take_bit_nat_eq_self)

lemma u32_try_from_Some: "u32_try_from n = Some w \<longleftrightarrow> n < 2 ^ 32 \<and> w = of_nat n"
  by (auto simp: u32_try_from_def)

lemma u16_try_from_Some: "u16_try_from n = Some w \<longleftrightarrow> n < 2 ^ 16 \<and> w = of_nat n"
  by (auto simp: u16_try_from_def)

lemma u64_try_from_Some: "u64_try_from n = Some w \<longleftrightarrow> n < 2 ^ 64 \<and> w = of_nat n"
  by (auto simp: u64_try_from_def)

section \<open>Lemmas on vectors\<close>

lemma length_vec_resize [simp]: "length (vec_resize n x xs) = n"
  by (simp add: vec_resize_def)

lemma vec_resize_longer: "length xs \<le> n \<Longrightarrow> vec_resize n x xs = xs @ replicate (n - length xs) x"
  by (simp add: vec_resize_def)

lemma length_slice [simp]: "stop \<le> length xs \<Longrightarrow> length (slice start stop xs) = stop - start"
  by (simp add: slice_def)

section \<open>Little-endian round trips\<close>

lemma length_to_le_bytes [simp, codec_simps]: "length (to_le_bytes n w) = n"
  by (simp add: to_le_bytes_def)

lemma to_le_bytes_nth: "i < n \<Longrightarrow> to_le_bytes n w ! i = ucast (drop_bit (8 * i) w)"
  by (simp add: to_le_bytes_def)

text \<open>Bit \<open>i\<close> of the word read is bit \<open>i mod 8\<close> of byte \<open>i div 8\<close>.\<close>

lemma bit_from_le_bytes:
  "bit (from_le_bytes bs :: 'a::len word) i \<longleftrightarrow>
     i < LENGTH('a) \<and> i div 8 < length bs \<and> bit (bs ! (i div 8)) (i mod 8)"
proof (induction bs arbitrary: i)
  case Nil
  then show ?case by simp
next
  case (Cons b bs)
  show ?case
  proof (cases "i < 8")
    case True
    then show ?thesis by (auto simp: bit_simps)
  next
    case False
    then obtain j where j: "i = j + 8" by (metis add.commute le_Suc_ex not_less)
    have "\<not> bit b i" using False bit_imp_le_length [of b i] by auto
    moreover have "(j + 8) div 8 = Suc (j div 8)" by simp
    ultimately show ?thesis using Cons.IH [of j] by (auto simp: bit_simps j)
  qed
qed

lemma from_to_le_bytes:
  fixes w :: "'a::len word"
  assumes "LENGTH('a) = 8 * n"
  shows "from_le_bytes (to_le_bytes n w) = w"
proof (rule bit_word_eqI)
  fix i assume i: "i < LENGTH('a)"
  then have "i div 8 < n" using assms by simp
  then show "bit (from_le_bytes (to_le_bytes n w) :: 'a word) i \<longleftrightarrow> bit w i"
    using i by (simp add: bit_from_le_bytes to_le_bytes_nth bit_simps)
qed

lemma to_from_le_bytes:
  assumes "LENGTH('a::len) = 8 * length bs"
  shows "to_le_bytes (length bs) (from_le_bytes bs :: 'a word) = bs"
proof (rule nth_equalityI)
  fix i assume "i < length (to_le_bytes (length bs) (from_le_bytes bs :: 'a word))"
  then have i: "i < length bs" by simp
  show "to_le_bytes (length bs) (from_le_bytes bs :: 'a word) ! i = bs ! i"
  proof (rule bit_word_eqI)
    fix k assume k: "k < LENGTH(8)"
    then have "8 * i + k < LENGTH('a)" and "(8 * i + k) div 8 = i" and "(8 * i + k) mod 8 = k"
      using i assms by auto
    then show "bit (to_le_bytes (length bs) (from_le_bytes bs :: 'a word) ! i) k \<longleftrightarrow> bit (bs ! i) k"
      using i k by (simp add: to_le_bytes_nth bit_simps bit_from_le_bytes)
  qed
qed simp

lemma to_le_bytes_inject:
  fixes v w :: "'a::len word"
  assumes "LENGTH('a) = 8 * n" and "to_le_bytes n v = to_le_bytes n w"
  shows "v = w"
  using assms by (metis from_to_le_bytes)

lemma to_le_bytes_0 [simp]: "to_le_bytes n (0 :: 'a::len word) = replicate n 0"
  by (rule nth_equalityI) (simp_all add: to_le_bytes_nth)

end
