(* ===== verification/Errors.thy ===== *)
theory Errors
  imports Prelude
begin

text \<open>
  The error values of the reader (\<open>error.rs\<close>) and their public classification
  (\<open>OcbErrorKind\<close> of \<open>column_bundle.rs\<close>): error codes, failure causes, the constructors every
  component uses to report a failure, and the message-based classifier of legacy errors.
  A message is the text the code carries; \<open>std::io::Error\<close> is its kind and its text.
\<close>

section \<open>Error data\<close>

datatype ArcadiaTioErrorCode =
    Code_Ok
  | Code_InvalidArgument
  | Code_Unimplemented
  | Code_Io
  | Code_Flatbuffers

datatype OcbFailureCause =
    Cause_InvalidInput
  | Cause_UnsupportedFormat
  | Cause_CorruptFile
  | Cause_LockUnavailable
  | Cause_Io

datatype OcbErrorKind =
    Kind_InvalidInput
  | Kind_UnsupportedFormat
  | Kind_CorruptFile
  | Kind_UnsupportedSchemaVersion
  | Kind_InvalidManifest
  | Kind_UnsafeManifestPath
  | Kind_MissingArtifact
  | Kind_FixedBinaryWidthMismatch
  | Kind_PayloadHeaderMismatch
  | Kind_PayloadCrcMismatch
  | Kind_ChannelIdMismatch
  | Kind_BizIndexDuplicate
  | Kind_BizIndexGap
  | Kind_BizIndexRegression
  | Kind_RowCountMismatch
  | Kind_ChecksumMismatch
  | Kind_LockUnavailable
  | Kind_Io

datatype io_error_kind = IoKind_OutOfMemory | IoKind_UnexpectedEof | IoKind_InvalidInput | IoKind_Other

datatype io_error = IoError (io_kind: io_error_kind) (io_message: string)

datatype ArcadiaTioError =
    Unimplemented string
  | InvalidArgument string
  | Ocb ArcadiaTioErrorCode OcbFailureCause string
  | OcbDiagnostic ArcadiaTioErrorCode OcbFailureCause OcbErrorKind string
  | Io io_error

type_synonym 'a result = "ArcadiaTioError + 'a"

section \<open>Stable names\<close>

fun ArcadiaTioErrorCode_as_str :: "ArcadiaTioErrorCode \<Rightarrow> string" where
  "ArcadiaTioErrorCode_as_str Code_Ok = ''ok''"
| "ArcadiaTioErrorCode_as_str Code_InvalidArgument = ''invalid_argument''"
| "ArcadiaTioErrorCode_as_str Code_Unimplemented = ''unimplemented''"
| "ArcadiaTioErrorCode_as_str Code_Io = ''io''"
| "ArcadiaTioErrorCode_as_str Code_Flatbuffers = ''flatbuffers''"

fun OcbFailureCause_as_str :: "OcbFailureCause \<Rightarrow> string" where
  "OcbFailureCause_as_str Cause_InvalidInput = ''invalid_input''"
| "OcbFailureCause_as_str Cause_UnsupportedFormat = ''unsupported_format''"
| "OcbFailureCause_as_str Cause_CorruptFile = ''corrupt_file''"
| "OcbFailureCause_as_str Cause_LockUnavailable = ''lock_unavailable''"
| "OcbFailureCause_as_str Cause_Io = ''io''"

fun OcbErrorKind_as_str :: "OcbErrorKind \<Rightarrow> string" where
  "OcbErrorKind_as_str Kind_InvalidInput = ''invalid_input''"
| "OcbErrorKind_as_str Kind_UnsupportedFormat = ''unsupported_format''"
| "OcbErrorKind_as_str Kind_CorruptFile = ''corrupt_file''"
| "OcbErrorKind_as_str Kind_UnsupportedSchemaVersion = ''unsupported_schema_version''"
| "OcbErrorKind_as_str Kind_InvalidManifest = ''invalid_manifest''"
| "OcbErrorKind_as_str Kind_UnsafeManifestPath = ''unsafe_manifest_path''"
| "OcbErrorKind_as_str Kind_MissingArtifact = ''missing_artifact''"
| "OcbErrorKind_as_str Kind_FixedBinaryWidthMismatch = ''fixed_binary_width_mismatch''"
| "OcbErrorKind_as_str Kind_PayloadHeaderMismatch = ''payload_header_mismatch''"
| "OcbErrorKind_as_str Kind_PayloadCrcMismatch = ''payload_crc_mismatch''"
| "OcbErrorKind_as_str Kind_ChannelIdMismatch = ''channel_id_mismatch''"
| "OcbErrorKind_as_str Kind_BizIndexDuplicate = ''biz_index_duplicate''"
| "OcbErrorKind_as_str Kind_BizIndexGap = ''biz_index_gap''"
| "OcbErrorKind_as_str Kind_BizIndexRegression = ''biz_index_regression''"
| "OcbErrorKind_as_str Kind_RowCountMismatch = ''row_count_mismatch''"
| "OcbErrorKind_as_str Kind_ChecksumMismatch = ''checksum_mismatch''"
| "OcbErrorKind_as_str Kind_LockUnavailable = ''lock_unavailable''"
| "OcbErrorKind_as_str Kind_Io = ''io''"

section \<open>Accessors and constructors\<close>

fun error_code :: "ArcadiaTioError \<Rightarrow> ArcadiaTioErrorCode" where
  "error_code (Unimplemented _) = Code_Unimplemented"
| "error_code (InvalidArgument _) = Code_InvalidArgument"
| "error_code (Ocb code _ _) = code"
| "error_code (OcbDiagnostic code _ _ _) = code"
| "error_code (Io _) = Code_Io"

fun ocb_failure_cause :: "ArcadiaTioError \<Rightarrow> OcbFailureCause option" where
  "ocb_failure_cause (Ocb _ cause _) = Some cause"
| "ocb_failure_cause (OcbDiagnostic _ cause _ _) = Some cause"
| "ocb_failure_cause _ = None"

definition ocb_invalid_input :: "string \<Rightarrow> ArcadiaTioError" where
  "ocb_invalid_input message = Ocb Code_InvalidArgument Cause_InvalidInput message"

definition ocb_unsupported_format :: "string \<Rightarrow> ArcadiaTioError" where
  "ocb_unsupported_format message = Ocb Code_InvalidArgument Cause_UnsupportedFormat message"

definition ocb_corrupt_file :: "string \<Rightarrow> ArcadiaTioError" where
  "ocb_corrupt_file message = Ocb Code_InvalidArgument Cause_CorruptFile message"

definition ocb_lock_unavailable :: "string \<Rightarrow> ArcadiaTioError" where
  "ocb_lock_unavailable message = Ocb Code_Io Cause_LockUnavailable message"

definition ocb_diagnostic :: "OcbErrorKind \<Rightarrow> string \<Rightarrow> ArcadiaTioError" where
  "ocb_diagnostic kind message =
     (let cause =
        (case kind of
           Kind_UnsupportedFormat \<Rightarrow> Cause_UnsupportedFormat
         | Kind_UnsupportedSchemaVersion \<Rightarrow> Cause_UnsupportedFormat
         | Kind_LockUnavailable \<Rightarrow> Cause_LockUnavailable
         | Kind_Io \<Rightarrow> Cause_Io
         | Kind_CorruptFile \<Rightarrow> Cause_CorruptFile
         | Kind_PayloadCrcMismatch \<Rightarrow> Cause_CorruptFile
         | Kind_ChecksumMismatch \<Rightarrow> Cause_CorruptFile
         | _ \<Rightarrow> Cause_InvalidInput);
          code = (case kind of Kind_Io \<Rightarrow> Code_Io | Kind_LockUnavailable \<Rightarrow> Code_Io
                  | _ \<Rightarrow> Code_InvalidArgument)
      in OcbDiagnostic code cause kind message)"

definition code_prefixed :: "ArcadiaTioErrorCode \<Rightarrow> string \<Rightarrow> string" where
  "code_prefixed code message =
     (case code of
        Code_Unimplemented \<Rightarrow> ''unimplemented: '' @ message
      | Code_InvalidArgument \<Rightarrow> ''invalid argument: '' @ message
      | Code_Io \<Rightarrow> ''io error: '' @ message
      | Code_Ok \<Rightarrow> message
      | Code_Flatbuffers \<Rightarrow> message)"

fun error_display :: "ArcadiaTioError \<Rightarrow> string" where
  "error_display (Unimplemented message) = ''unimplemented: '' @ message"
| "error_display (InvalidArgument message) = ''invalid argument: '' @ message"
| "error_display (Ocb code _ message) = code_prefixed code message"
| "error_display (OcbDiagnostic code _ _ message) = code_prefixed code message"
| "error_display (Io err) = ''io error: '' @ io_message err"

section \<open>Public classification\<close>

fun OcbErrorKind_from_cause :: "OcbFailureCause \<Rightarrow> OcbErrorKind" where
  "OcbErrorKind_from_cause Cause_InvalidInput = Kind_InvalidInput"
| "OcbErrorKind_from_cause Cause_UnsupportedFormat = Kind_UnsupportedFormat"
| "OcbErrorKind_from_cause Cause_CorruptFile = Kind_CorruptFile"
| "OcbErrorKind_from_cause Cause_LockUnavailable = Kind_LockUnavailable"
| "OcbErrorKind_from_cause Cause_Io = Kind_Io"

definition classify_ocb_invalid_argument :: "string \<Rightarrow> OcbErrorKind option" where
  "classify_ocb_invalid_argument message =
     (if \<not> str_contains message ''OCB'' then None
      else if str_contains message ''unsupported''
            \<or> str_contains message ''invalid OCB bootstrap magic''
            \<or> str_contains message ''not a TensorFile''
        then Some Kind_UnsupportedFormat
      else if str_contains message ''crc''
            \<or> str_contains message ''checksum''
            \<or> str_contains message ''root selection''
            \<or> str_contains message ''truncated''
            \<or> str_contains message ''shorter than bootstrap''
            \<or> str_contains message ''out of bounds''
            \<or> str_contains message ''is inconsistent''
        then Some Kind_CorruptFile
      else Some Kind_InvalidInput)"

fun OcbErrorKind_from_error :: "ArcadiaTioError \<Rightarrow> OcbErrorKind option" where
  "OcbErrorKind_from_error (OcbDiagnostic _ _ kind _) = Some kind"
| "OcbErrorKind_from_error (Ocb _ cause _) = Some (OcbErrorKind_from_cause cause)"
| "OcbErrorKind_from_error (Io io) =
     (if str_contains (io_message io) ''OCB mutation lock'' then Some Kind_LockUnavailable
      else Some Kind_Io)"
| "OcbErrorKind_from_error (InvalidArgument message) = classify_ocb_invalid_argument message"
| "OcbErrorKind_from_error (Unimplemented message) =
     (if str_contains message ''OCB'' then Some Kind_UnsupportedFormat else None)"

text \<open>Out-of-memory reports of fallible allocations (\<open>ocb_allocation_error\<close> of \<open>format.rs\<close>).\<close>

definition ocb_allocation_error :: "string \<Rightarrow> ArcadiaTioError" where
  "ocb_allocation_error message = Io (IoError IoKind_OutOfMemory message)"

section \<open>Facts about errors\<close>

lemmas ocb_error_defs =
  ocb_invalid_input_def ocb_unsupported_format_def ocb_corrupt_file_def ocb_lock_unavailable_def

lemma ocb_failure_cause_constructors [simp]:
  "ocb_failure_cause (ocb_invalid_input m) = Some Cause_InvalidInput"
  "ocb_failure_cause (ocb_unsupported_format m) = Some Cause_UnsupportedFormat"
  "ocb_failure_cause (ocb_corrupt_file m) = Some Cause_CorruptFile"
  "ocb_failure_cause (ocb_lock_unavailable m) = Some Cause_LockUnavailable"
  "ocb_failure_cause (ocb_allocation_error m) = None"
  by (simp_all add: ocb_error_defs ocb_allocation_error_def)

lemma error_code_constructors [simp]:
  "error_code (ocb_invalid_input m) = Code_InvalidArgument"
  "error_code (ocb_unsupported_format m) = Code_InvalidArgument"
  "error_code (ocb_corrupt_file m) = Code_InvalidArgument"
  "error_code (ocb_lock_unavailable m) = Code_Io"
  "error_code (ocb_allocation_error m) = Code_Io"
  by (simp_all add: ocb_error_defs ocb_allocation_error_def)

lemma ocb_error_distinct [simp]:
  "ocb_corrupt_file m \<noteq> ocb_allocation_error m'"
  "ocb_invalid_input m \<noteq> ocb_allocation_error m'"
  "ocb_unsupported_format m \<noteq> ocb_allocation_error m'"
  "ocb_corrupt_file m \<noteq> ocb_invalid_input m'"
  "ocb_invalid_input m \<noteq> ocb_corrupt_file m'"
  by (simp_all add: ocb_error_defs ocb_allocation_error_def)

end
