(* ===== verification/Resource_Limits.thy ===== *)
theory Resource_Limits
  imports Errors
begin

text \<open>
  Finite resource limits of untrusted reads (\<open>resource_limits.rs\<close>): the policy record with its
  validated constructor and field updates, the compatibility policy A, and the metadata
  materialization budget that the object readers charge.
\<close>

section \<open>Policy\<close>

definition OCB_POLICY_A_MAX_ENCODED_OBJECT_BYTES :: u64 where
  "OCB_POLICY_A_MAX_ENCODED_OBJECT_BYTES = 1073741824"

definition OCB_POLICY_A_MAX_COMPRESSED_CHUNK_BYTES :: u64 where
  "OCB_POLICY_A_MAX_COMPRESSED_CHUNK_BYTES = 536870912"

definition OCB_POLICY_A_MAX_DECOMPRESSED_CHUNK_BYTES :: u64 where
  "OCB_POLICY_A_MAX_DECOMPRESSED_CHUNK_BYTES = 536870912"

definition OCB_POLICY_A_MAX_PROJECTED_ROW_GROUP_BYTES :: u64 where
  "OCB_POLICY_A_MAX_PROJECTED_ROW_GROUP_BYTES = 1073741824"

definition OCB_POLICY_A_MAX_OWNED_SELECTED_COMPRESSED_BYTES :: u64 where
  "OCB_POLICY_A_MAX_OWNED_SELECTED_COMPRESSED_BYTES = 8589934592"

definition OCB_POLICY_A_MAX_OWNED_DECODED_MATERIALIZED_BYTES :: u64 where
  "OCB_POLICY_A_MAX_OWNED_DECODED_MATERIALIZED_BYTES = 17179869184"

record OcbResourceLimits =
  max_encoded_object_bytes :: u64
  max_compressed_chunk_bytes :: u64
  max_decompressed_chunk_bytes :: u64
  max_projected_row_group_bytes :: u64
  max_owned_selected_compressed_bytes :: u64
  max_owned_decoded_materialized_bytes :: u64

definition validate_direct_allocation_limit :: "u64 \<Rightarrow> unit result" where
  "validate_direct_allocation_limit value =
     (if unat value > isize_max
      then Inl (ocb_invalid_input
        ''OCB direct-allocation resource limit exceeds the platform addressable size'')
      else Inr ())"

definition OcbResourceLimits_new ::
  "u64 \<Rightarrow> u64 \<Rightarrow> u64 \<Rightarrow> u64 \<Rightarrow> u64 \<Rightarrow> u64 \<Rightarrow> OcbResourceLimits result" where
  "OcbResourceLimits_new encoded compressed decompressed projected owned_selected owned_decoded =
     sbind (validate_direct_allocation_limit encoded) (\<lambda>_.
     sbind (validate_direct_allocation_limit compressed) (\<lambda>_.
     sbind (validate_direct_allocation_limit decompressed) (\<lambda>_.
     sbind (validate_direct_allocation_limit projected) (\<lambda>_.
     Inr \<lparr>max_encoded_object_bytes = encoded,
          max_compressed_chunk_bytes = compressed,
          max_decompressed_chunk_bytes = decompressed,
          max_projected_row_group_bytes = projected,
          max_owned_selected_compressed_bytes = owned_selected,
          max_owned_decoded_materialized_bytes = owned_decoded\<rparr>))))"

definition policy_a :: OcbResourceLimits where
  "policy_a =
     \<lparr>max_encoded_object_bytes = OCB_POLICY_A_MAX_ENCODED_OBJECT_BYTES,
      max_compressed_chunk_bytes = OCB_POLICY_A_MAX_COMPRESSED_CHUNK_BYTES,
      max_decompressed_chunk_bytes = OCB_POLICY_A_MAX_DECOMPRESSED_CHUNK_BYTES,
      max_projected_row_group_bytes = OCB_POLICY_A_MAX_PROJECTED_ROW_GROUP_BYTES,
      max_owned_selected_compressed_bytes = OCB_POLICY_A_MAX_OWNED_SELECTED_COMPRESSED_BYTES,
      max_owned_decoded_materialized_bytes = OCB_POLICY_A_MAX_OWNED_DECODED_MATERIALIZED_BYTES\<rparr>"

definition with_max_encoded_object_bytes :: "OcbResourceLimits \<Rightarrow> u64 \<Rightarrow> OcbResourceLimits result" where
  "with_max_encoded_object_bytes self value =
     OcbResourceLimits_new value (max_compressed_chunk_bytes self)
       (max_decompressed_chunk_bytes self) (max_projected_row_group_bytes self)
       (max_owned_selected_compressed_bytes self) (max_owned_decoded_materialized_bytes self)"

definition with_max_compressed_chunk_bytes :: "OcbResourceLimits \<Rightarrow> u64 \<Rightarrow> OcbResourceLimits result" where
  "with_max_compressed_chunk_bytes self value =
     OcbResourceLimits_new (max_encoded_object_bytes self) value
       (max_decompressed_chunk_bytes self) (max_projected_row_group_bytes self)
       (max_owned_selected_compressed_bytes self) (max_owned_decoded_materialized_bytes self)"

definition with_max_decompressed_chunk_bytes :: "OcbResourceLimits \<Rightarrow> u64 \<Rightarrow> OcbResourceLimits result" where
  "with_max_decompressed_chunk_bytes self value =
     OcbResourceLimits_new (max_encoded_object_bytes self) (max_compressed_chunk_bytes self)
       value (max_projected_row_group_bytes self)
       (max_owned_selected_compressed_bytes self) (max_owned_decoded_materialized_bytes self)"

definition with_max_projected_row_group_bytes :: "OcbResourceLimits \<Rightarrow> u64 \<Rightarrow> OcbResourceLimits result" where
  "with_max_projected_row_group_bytes self value =
     OcbResourceLimits_new (max_encoded_object_bytes self) (max_compressed_chunk_bytes self)
       (max_decompressed_chunk_bytes self) value
       (max_owned_selected_compressed_bytes self) (max_owned_decoded_materialized_bytes self)"

definition with_max_owned_selected_compressed_bytes :: "OcbResourceLimits \<Rightarrow> u64 \<Rightarrow> OcbResourceLimits result" where
  "with_max_owned_selected_compressed_bytes self value =
     OcbResourceLimits_new (max_encoded_object_bytes self) (max_compressed_chunk_bytes self)
       (max_decompressed_chunk_bytes self) (max_projected_row_group_bytes self)
       value (max_owned_decoded_materialized_bytes self)"

definition with_max_owned_decoded_materialized_bytes :: "OcbResourceLimits \<Rightarrow> u64 \<Rightarrow> OcbResourceLimits result" where
  "with_max_owned_decoded_materialized_bytes self value =
     OcbResourceLimits_new (max_encoded_object_bytes self) (max_compressed_chunk_bytes self)
       (max_decompressed_chunk_bytes self) (max_projected_row_group_bytes self)
       (max_owned_selected_compressed_bytes self) value"

section \<open>Metadata materialization budget\<close>

record MetadataMaterializationBudget =
  limit_bytes :: u64
  charged_bytes :: u64

definition budget_new :: "u64 \<Rightarrow> MetadataMaterializationBudget" where
  "budget_new limit = \<lparr>limit_bytes = limit, charged_bytes = 0\<rparr>"

definition budget_from_limits :: "OcbResourceLimits \<Rightarrow> MetadataMaterializationBudget" where
  "budget_from_limits limits = budget_new (max_owned_decoded_materialized_bytes limits)"

definition remaining_bytes :: "MetadataMaterializationBudget \<Rightarrow> u64" where
  "remaining_bytes b = limit_bytes b - charged_bytes b"

definition charge :: "MetadataMaterializationBudget \<Rightarrow> u64 \<Rightarrow> MetadataMaterializationBudget result" where
  "charge b amount =
     (case checked_add (charged_bytes b) amount of
        None \<Rightarrow> Inl (ocb_invalid_input ''OCB open metadata materialization exceeds resource limit'')
      | Some charged \<Rightarrow>
          if charged > limit_bytes b
          then Inl (ocb_invalid_input ''OCB open metadata materialization exceeds resource limit'')
          else Inr (b\<lparr>charged_bytes := charged\<rparr>))"

definition policy_a_metadata_materialization_budget :: MetadataMaterializationBudget where
  "policy_a_metadata_materialization_budget = budget_from_limits policy_a"

text \<open>The type invariant of a budget: no more is charged than the limit allows.\<close>

definition budget_ok :: "MetadataMaterializationBudget \<Rightarrow> bool" where
  "budget_ok b \<longleftrightarrow> charged_bytes b \<le> limit_bytes b"

definition limits_ok :: "OcbResourceLimits \<Rightarrow> bool" where
  "limits_ok l \<longleftrightarrow>
     unat (max_encoded_object_bytes l) \<le> isize_max \<and>
     unat (max_compressed_chunk_bytes l) \<le> isize_max \<and>
     unat (max_decompressed_chunk_bytes l) \<le> isize_max \<and>
     unat (max_projected_row_group_bytes l) \<le> isize_max"

section \<open>Facts\<close>

lemma validate_direct_allocation_limit_Inr [simp]:
  "validate_direct_allocation_limit v = Inr u \<longleftrightarrow> unat v \<le> isize_max"
  by (simp add: validate_direct_allocation_limit_def)

lemma OcbResourceLimits_new_ok: "OcbResourceLimits_new a b c d e f = Inr l \<Longrightarrow> limits_ok l"
  by (auto simp: OcbResourceLimits_new_def sbind_eq_Inr limits_ok_def)

lemma OcbResourceLimits_new_Inr:
  "unat a \<le> isize_max \<Longrightarrow> unat b \<le> isize_max \<Longrightarrow> unat c \<le> isize_max \<Longrightarrow> unat d \<le> isize_max \<Longrightarrow>
   OcbResourceLimits_new a b c d e f =
     Inr \<lparr>max_encoded_object_bytes = a, max_compressed_chunk_bytes = b,
          max_decompressed_chunk_bytes = c, max_projected_row_group_bytes = d,
          max_owned_selected_compressed_bytes = e, max_owned_decoded_materialized_bytes = f\<rparr>"
  by (simp add: OcbResourceLimits_new_def validate_direct_allocation_limit_def)

lemma limits_ok_policy_a: "limits_ok policy_a"
  by (simp add: limits_ok_def policy_a_def isize_max_def
      OCB_POLICY_A_MAX_ENCODED_OBJECT_BYTES_def OCB_POLICY_A_MAX_COMPRESSED_CHUNK_BYTES_def
      OCB_POLICY_A_MAX_DECOMPRESSED_CHUNK_BYTES_def OCB_POLICY_A_MAX_PROJECTED_ROW_GROUP_BYTES_def)

lemma budget_ok_new [simp]: "budget_ok (budget_new n)"
  by (simp add: budget_ok_def budget_new_def)

lemma charge_Inr:
  assumes "charge b n = Inr b'"
  shows "unat (charged_bytes b') = unat (charged_bytes b) + unat n"
    and "limit_bytes b' = limit_bytes b"
    and "budget_ok b'"
  using assms
  by (auto simp: charge_def budget_ok_def not_less dest: checked_add_Some
      split: option.splits if_splits)

lemma charge_Inr_iff:
  "(\<exists>b'. charge b n = Inr b') \<longleftrightarrow> unat (charged_bytes b) + unat n \<le> unat (limit_bytes b)"
proof
  assume "\<exists>b'. charge b n = Inr b'"
  then obtain b' where b': "charge b n = Inr b'" ..
  from charge_Inr [OF b'] show "unat (charged_bytes b) + unat n \<le> unat (limit_bytes b)"
    by (simp add: budget_ok_def word_le_nat_alt)
next
  assume le: "unat (charged_bytes b) + unat n \<le> unat (limit_bytes b)"
  moreover have "unat (limit_bytes b) < 2 ^ 64"
    using unsigned_less [of "limit_bytes b", where ?'a = nat] by simp
  ultimately have "checked_add (charged_bytes b) n = Some (charged_bytes b + n)"
    by (simp add: checked_add_def)
  moreover from this have "unat (charged_bytes b + n) = unat (charged_bytes b) + unat n"
    by (rule checked_add_Some)
  ultimately show "\<exists>b'. charge b n = Inr b'"
    using le by (simp add: charge_def word_less_nat_alt)
qed

lemma charge_Inl: "charge b n = Inl e \<Longrightarrow> ocb_failure_cause e = Some Cause_InvalidInput"
  by (auto simp: charge_def split: option.splits if_splits)

end
