(* ===== verification/Crc32c.thy ===== *)
theory Crc32c
  imports Prelude
begin

text \<open>
  The CRC-32C checksum of the format (end of \<open>format.rs\<close>): the compile-time table, the
  byte-at-a-time update, initial and final values, and the trailing-checksum helpers.  The
  lemmas show that the table-driven update is the bit-serial reference, that it is a linear
  bijection of the state, and hence that corruption confined to four consecutive bytes
  always changes the checksum.
\<close>

section \<open>The code\<close>

definition CRC32C_POLY :: u32 where
  "CRC32C_POLY = 0x82F63B78"

definition crc32c_bit :: "u32 \<Rightarrow> u32" where
  "crc32c_bit crc =
     (if (crc AND 1) \<noteq> 0 then (drop_bit 1 crc) XOR CRC32C_POLY else drop_bit 1 crc)"

function crc32c_table_entry :: "nat \<Rightarrow> u32 \<Rightarrow> u32" where
  "crc32c_table_entry j crc = (if j < 8 then crc32c_table_entry (j + 1) (crc32c_bit crc) else crc)"
  by pat_completeness auto
termination
  by (relation "measure (\<lambda>(j, crc). 8 - j)") auto

function crc32c_table_loop :: "nat \<Rightarrow> u32 list \<Rightarrow> u32 list" where
  "crc32c_table_loop i table =
     (if i < 256
      then crc32c_table_loop (i + 1) (table[i := crc32c_table_entry 0 (of_nat i)])
      else table)"
  by pat_completeness auto
termination
  by (relation "measure (\<lambda>(i, table). 256 - i)") auto

declare crc32c_table_entry.simps [simp del] crc32c_table_loop.simps [simp del]

definition build_crc32c_table :: "u32 list" where
  "build_crc32c_table = crc32c_table_loop 0 (replicate 256 0)"

definition CRC32C_TABLE :: "u32 list" where
  "CRC32C_TABLE = build_crc32c_table"

definition crc32c_init :: u32 where
  "crc32c_init = 0xFFFFFFFF"

fun crc32c_update :: "u32 \<Rightarrow> bytes \<Rightarrow> u32" where
  "crc32c_update state [] = state"
| "crc32c_update state (byte # rest) =
     (let idx = unat ((state XOR ucast byte) AND 0xFF)
      in crc32c_update (CRC32C_TABLE ! idx XOR drop_bit 8 state) rest)"

definition crc32c_finish :: "u32 \<Rightarrow> u32" where
  "crc32c_finish state = NOT state"

definition crc32c :: "bytes \<Rightarrow> u32" where
  "crc32c bs = crc32c_finish (crc32c_update crc32c_init bs)"

section \<open>The bit-serial reference\<close>

text \<open>One byte enters at the low end of the shift register, which is then clocked eight times.\<close>

definition crc32c_ref :: "u32 \<Rightarrow> bytes \<Rightarrow> u32" where
  "crc32c_ref state bs = fold (\<lambda>b s. (crc32c_bit ^^ 8) (s XOR ucast b)) bs state"

section \<open>The shift register is linear and injective\<close>

lemma and_one_word: "(w AND 1 \<noteq> 0) \<longleftrightarrow> bit (w :: 'a::len word) 0"
  by (simp add: and_one_eq bit_0 mod_2_eq_odd)

lemma crc32c_bit_alt: "crc32c_bit c = drop_bit 1 c XOR (if bit c 0 then CRC32C_POLY else 0)"
  by (simp add: crc32c_bit_def and_one_word)

lemma drop_bit_xor_word: "drop_bit n (a XOR b) = drop_bit n a XOR drop_bit n (b :: 'a::len word)"
  by (rule bit_word_eqI) (simp add: bit_simps)

lemma word_xor_eq_0: "a XOR b = 0 \<longleftrightarrow> a = (b :: 'a::len word)"
  by (auto simp: bit_eq_iff bit_simps)

lemma word_xor_cancel_left: "c XOR a = c XOR b \<longleftrightarrow> a = (b :: 'a::len word)"
  by (auto simp: bit_eq_iff bit_simps)

lemma word_xor_cancel_right: "a XOR c = b XOR c \<longleftrightarrow> a = (b :: 'a::len word)"
  by (auto simp: bit_eq_iff bit_simps)

lemma crc32c_bit_xor: "crc32c_bit (a XOR b) = crc32c_bit a XOR crc32c_bit b"
  by (rule bit_word_eqI) (auto simp: crc32c_bit_alt drop_bit_xor_word bit_simps)

lemma crc32c_bits_xor: "(crc32c_bit ^^ n) (a XOR b) = (crc32c_bit ^^ n) a XOR (crc32c_bit ^^ n) b"
  by (induction n) (simp_all add: crc32c_bit_xor)

lemma crc32c_bit_eq_0: "crc32c_bit c = 0 \<Longrightarrow> c = 0"
proof -
  assume z: "crc32c_bit c = 0"
  have "bit (crc32c_bit c) 31 \<longleftrightarrow> bit c 0"
    by (auto simp: crc32c_bit_alt bit_simps CRC32C_POLY_def dest: bit_imp_le_length)
  with z have b0: "\<not> bit c 0" by simp
  with z have d: "drop_bit 1 c = 0" by (simp add: crc32c_bit_alt)
  show "c = 0"
  proof (rule bit_word_eqI)
    fix i assume "i < LENGTH(32)"
    show "bit c i \<longleftrightarrow> bit (0 :: u32) i"
    proof (cases i)
      case 0
      with b0 show ?thesis by simp
    next
      case (Suc k)
      have "bit (drop_bit 1 c) k \<longleftrightarrow> bit c i" by (simp add: Suc bit_simps)
      with d show ?thesis by simp
    qed
  qed
qed

lemma crc32c_bits_inj: "(crc32c_bit ^^ n) a = (crc32c_bit ^^ n) b \<Longrightarrow> a = b"
proof (induction n)
  case 0
  then show ?case by simp
next
  case (Suc n)
  then have "crc32c_bit ((crc32c_bit ^^ n) a XOR (crc32c_bit ^^ n) b) = 0"
    by (simp add: crc32c_bit_xor)
  then have "(crc32c_bit ^^ n) a XOR (crc32c_bit ^^ n) b = 0"
    by (rule crc32c_bit_eq_0)
  then have "(crc32c_bit ^^ n) a = (crc32c_bit ^^ n) b"
    by (simp add: word_xor_eq_0)
  then show ?case by (rule Suc.IH)
qed

lemma crc32c_bits_drop: "take_bit n w = 0 \<Longrightarrow> (crc32c_bit ^^ n) w = drop_bit n w"
proof (induction n)
  case 0
  then show ?case by simp
next
  case (Suc n)
  have low: "\<not> bit w i" if "i < Suc n" for i
  proof -
    have "bit (take_bit (Suc n) w) i \<longleftrightarrow> bit w i" using that by (simp add: bit_simps)
    with Suc.prems show ?thesis by simp
  qed
  have "take_bit n w = 0" by (rule bit_word_eqI) (auto simp: bit_simps low)
  then have "(crc32c_bit ^^ Suc n) w = crc32c_bit (drop_bit n w)" using Suc.IH by simp
  also have "\<dots> = drop_bit 1 (drop_bit n w)"
    using low [of n] by (simp add: crc32c_bit_alt bit_simps)
  also have "\<dots> = drop_bit (Suc n) w" by simp
  finally show ?case .
qed

section \<open>The table\<close>

lemma crc32c_table_entry_funpow:
  "j \<le> 8 \<Longrightarrow> crc32c_table_entry j c = (crc32c_bit ^^ (8 - j)) c"
proof (induction j c rule: crc32c_table_entry.induct)
  case (1 j c)
  show ?case
  proof (cases "j < 8")
    case True
    then have "8 - j = Suc (8 - (j + 1))" by simp
    with True 1 show ?thesis
      by (simp add: crc32c_table_entry.simps [of j c] funpow_swap1)
  next
    case False
    with 1 show ?thesis by (subst crc32c_table_entry.simps) simp
  qed
qed

lemma crc32c_table_loop_nth:
  "length t = 256 \<Longrightarrow> k < 256 \<Longrightarrow>
   length (crc32c_table_loop i t) = 256 \<and>
   crc32c_table_loop i t ! k = (if i \<le> k then crc32c_table_entry 0 (of_nat k) else t ! k)"
proof (induction i t rule: crc32c_table_loop.induct)
  case (1 i t)
  show ?case
  proof (cases "i < 256")
    case True
    with 1 show ?thesis
      by (auto simp: crc32c_table_loop.simps [of i t] nth_list_update not_less_eq_eq dest: le_antisym)
  next
    case False
    with 1 show ?thesis by (simp add: crc32c_table_loop.simps [of i t])
  qed
qed

lemma length_CRC32C_TABLE: "length CRC32C_TABLE = 256"
  using crc32c_table_loop_nth [of "replicate 256 0" 0 0]
  by (simp add: CRC32C_TABLE_def build_crc32c_table_def)

lemma CRC32C_TABLE_nth: "k < 256 \<Longrightarrow> CRC32C_TABLE ! k = (crc32c_bit ^^ 8) (of_nat k)"
  using crc32c_table_loop_nth [of "replicate 256 0" k 0]
  by (simp add: CRC32C_TABLE_def build_crc32c_table_def crc32c_table_entry_funpow)

text \<open>One table step clocks the register eight times.\<close>

lemma take_bit_and_mask8: "(s :: u32) AND 0xFF = take_bit 8 s"
  by (simp add: take_bit_eq_mask mask_eq_exp_minus_1)

lemma crc32c_table_step:
  "CRC32C_TABLE ! unat ((s XOR ucast b) AND 0xFF) XOR drop_bit 8 s
     = (crc32c_bit ^^ 8) (s XOR ucast (b :: u8))"
proof -
  define x where "x = s XOR ucast b"
  have split: "x = take_bit 8 x XOR push_bit 8 (drop_bit 8 x)"
    by (rule bit_word_eqI) (auto simp: bit_simps)
  have hi: "(crc32c_bit ^^ 8) (push_bit 8 (drop_bit 8 x)) = drop_bit 8 x"
  proof -
    have "take_bit 8 (push_bit 8 (drop_bit 8 x)) = 0"
      by (rule bit_word_eqI) (simp add: bit_simps)
    then have "(crc32c_bit ^^ 8) (push_bit 8 (drop_bit 8 x)) = drop_bit 8 (push_bit 8 (drop_bit 8 x))"
      by (rule crc32c_bits_drop)
    also have "\<dots> = drop_bit 8 x"
      by (rule bit_word_eqI) (auto simp: bit_simps dest: bit_imp_le_length)
    finally show ?thesis .
  qed
  have idx: "unat (take_bit 8 x) < 256"
    using take_bit_nat_less_exp [of 8 "unat x"] by (simp add: unsigned_take_bit_eq)
  have "drop_bit 8 x = drop_bit 8 s"
    by (rule bit_word_eqI) (auto simp: x_def bit_simps dest: bit_imp_le_length)
  moreover have "(crc32c_bit ^^ 8) x = (crc32c_bit ^^ 8) (take_bit 8 x) XOR drop_bit 8 x"
    by (subst split) (simp only: crc32c_bits_xor hi)
  ultimately have "(crc32c_bit ^^ 8) x = (crc32c_bit ^^ 8) (take_bit 8 x) XOR drop_bit 8 s"
    by simp
  with CRC32C_TABLE_nth [OF idx] show ?thesis
    by (simp add: take_bit_and_mask8 flip: x_def)
qed

lemma crc32c_update_eq_ref: "crc32c_update s bs = crc32c_ref s bs"
  by (induction bs arbitrary: s) (simp_all add: crc32c_ref_def Let_def crc32c_table_step)

lemma crc32c_update_append: "crc32c_update s (as @ bs) = crc32c_update (crc32c_update s as) bs"
  by (simp add: crc32c_update_eq_ref crc32c_ref_def)

lemma crc32c_update_inj: "crc32c_update s bs = crc32c_update t bs \<Longrightarrow> s = t"
proof (induction bs arbitrary: s t)
  case Nil
  then show ?case by simp
next
  case (Cons b bs)
  then have "(crc32c_bit ^^ 8) (s XOR ucast b) = (crc32c_bit ^^ 8) (t XOR ucast b)"
    by (auto simp: crc32c_table_step Let_def dest: Cons.IH)
  then have "s XOR ucast b = t XOR ucast b" by (rule crc32c_bits_inj)
  then show ?case by (simp add: word_xor_cancel_right)
qed

section \<open>Bursts of at most four bytes\<close>

lemma ucast_or_push_bit8: "(ucast (b :: u8) :: u32) OR push_bit 8 y = ucast b XOR push_bit 8 y"
  by (rule bit_word_eqI) (auto simp: bit_simps dest: bit_imp_le_length)

text \<open>Up to four bytes act on the register as one exclusive or of their little-endian word.\<close>

lemma crc32c_ref_burst:
  "length w \<le> 4 \<Longrightarrow> crc32c_ref s w = (crc32c_bit ^^ (8 * length w)) (s XOR from_le_bytes w)"
proof (induction w arbitrary: s)
  case Nil
  then show ?case by (simp add: crc32c_ref_def)
next
  case (Cons b w)
  define y :: u32 where "y = from_le_bytes w"
  have small: "drop_bit 8 (push_bit 8 y) = y"
    using Cons.prems by (intro bit_word_eqI) (auto simp: y_def bit_simps bit_from_le_bytes)
  have "take_bit 8 (push_bit 8 y) = 0" by (rule bit_word_eqI) (simp add: bit_simps)
  then have "(crc32c_bit ^^ 8) (push_bit 8 y) = y"
    using crc32c_bits_drop small by metis
  then have step: "(crc32c_bit ^^ 8) (s XOR ucast b) XOR y
      = (crc32c_bit ^^ 8) (s XOR from_le_bytes (b # w))"
    by (simp add: crc32c_bits_xor y_def ucast_or_push_bit8 xor.assoc)
  have "crc32c_ref s (b # w) = crc32c_ref ((crc32c_bit ^^ 8) (s XOR ucast b)) w"
    by (simp add: crc32c_ref_def)
  also have "\<dots> = (crc32c_bit ^^ (8 * length w)) ((crc32c_bit ^^ 8) (s XOR ucast b) XOR y)"
    using Cons by (simp add: y_def)
  also have "\<dots> = (crc32c_bit ^^ (8 * length w + 8)) (s XOR from_le_bytes (b # w))"
    unfolding step by (simp only: funpow_add comp_apply)
  also have "8 * length w + 8 = 8 * length (b # w)" by simp
  finally show ?case .
qed

lemma from_le_bytes_u32_inj:
  assumes "length v = length w" and "length w \<le> 4" and "(from_le_bytes v :: u32) = from_le_bytes w"
  shows "v = w"
proof (rule nth_equalityI)
  show "length v = length w" by fact
next
  fix i assume i: "i < length v"
  show "v ! i = w ! i"
  proof (rule bit_word_eqI)
    fix k assume "k < LENGTH(8)"
    then have "8 * i + k < 32" and "(8 * i + k) div 8 = i" and "(8 * i + k) mod 8 = k"
      using i assms by auto
    then show "bit (v ! i) k \<longleftrightarrow> bit (w ! i) k"
      using bit_from_le_bytes [of v "8 * i + k", where ?'a = 32]
        bit_from_le_bytes [of w "8 * i + k", where ?'a = 32] assms i by simp
  qed
qed

lemma crc32c_update_burst:
  assumes "length v = length w" and "length w \<le> 4"
    and "crc32c_update s v = crc32c_update s w"
  shows "v = w"
proof -
  have "(crc32c_bit ^^ (8 * length w)) (s XOR from_le_bytes v)
      = (crc32c_bit ^^ (8 * length w)) (s XOR from_le_bytes w)"
    using assms(3) assms(1,2) crc32c_ref_burst [of v s] crc32c_ref_burst [of w s]
    unfolding crc32c_update_eq_ref by metis
  then have "s XOR from_le_bytes v = s XOR (from_le_bytes w :: u32)" by (rule crc32c_bits_inj)
  then have "(from_le_bytes v :: u32) = from_le_bytes w"
    by (simp add: word_xor_cancel_left)
  with assms show ?thesis by (intro from_le_bytes_u32_inj)
qed

lemma crc32c_finish_inj: "crc32c_finish s = crc32c_finish t \<longleftrightarrow> s = t"
  by (simp add: crc32c_finish_def)

lemma crc32c_burst_detected:
  assumes "length v = length w" and "length w \<le> 4" and "v \<noteq> w"
  shows "crc32c (p @ v @ q) \<noteq> crc32c (p @ w @ q)"
proof
  assume "crc32c (p @ v @ q) = crc32c (p @ w @ q)"
  then have "crc32c_update (crc32c_update (crc32c_update crc32c_init p) v) q
      = crc32c_update (crc32c_update (crc32c_update crc32c_init p) w) q"
    by (simp add: crc32c_def crc32c_finish_inj crc32c_update_append)
  then have "crc32c_update (crc32c_update crc32c_init p) v = crc32c_update (crc32c_update crc32c_init p) w"
    by (rule crc32c_update_inj)
  with assms show False by (blast dest: crc32c_update_burst)
qed

section \<open>Evaluation on literals\<close>

lemma crc32c_bit_numeral [simp]:
  "crc32c_bit 0 = 0"
  "crc32c_bit 1 = CRC32C_POLY"
  "crc32c_bit (numeral n) =
     (if odd (numeral n :: u32) then drop_bit 1 (numeral n) XOR CRC32C_POLY
      else drop_bit 1 (numeral n))"
  by (simp_all add: crc32c_bit_alt bit_0)

section \<open>Properties\<close>

text \<open>C32. The table-driven checksum of the code is the bit-serial CRC-32C: for every byte
  string, the 256-entry table built at compile time and the byte-at-a-time update compute the
  reflected division by the Castagnoli polynomial, bit by bit.\<close>

theorem crc32c_is_bit_serial: "crc32c bs = crc32c_finish (crc32c_ref crc32c_init bs)"
  by (simp add: crc32c_def crc32c_update_eq_ref)

end
