(* ===== verification/Byte_IO.thy ===== *)
theory Byte_IO
  imports Resource_Limits Crc32c
begin

text \<open>
  Byte-level input and output of \<open>format.rs\<close>: an in-memory cursor, the fixed-width integer
  readers and writers, the bounds checks every object reader performs before it allocates,
  the two-pass reading of record sequences, fallible allocation, and the trailing checksum.

  A reader is a function from a cursor to an error or a value with the advanced cursor;
  \<open>rbind\<close> is sequencing with \<open>?\<close>.  Writers append to a byte vector and are modelled by the bytes
  they append.
\<close>

section \<open>The host: allocation and record sizes\<close>

text \<open>
  \<open>host_alloc site n\<close> says whether an allocation of \<open>n\<close> bytes requested at a call site (named by
  its error message) is granted; \<open>host_size_of\<close> is \<open>std::mem::size_of\<close> of the vector element
  types, which the compiler chooses.
\<close>

datatype rust_type =
    TyU8
  | TyString
  | TyVecU8
  | TyColumnDesc
  | TyDictionaryDesc
  | TyRowGroupDesc
  | TyColumnChunkDesc
  | TyColumnStats
  | TyOrderingKey
  | TyRowGroupOrderingProof
  | TyU16
  | TyU32
  | TyU64
  | TyReference
  | TyBundleColumn
  | TyDictionaryDescriptor
  | TyBundleOrderingKey
  | TyRowGroupPredicate
  | TyResolvedPredicate
  | TyChunkSummary
  | TyStatsSummary
  | TyRowGroupSummary
  | TyFootprint
  | TyColumnArray
  | TyColumnBatch
  | TyResolvedColumnFill
  | TyColumnFillReport
  | TyFillBuffer
  | TyReusableColumnBuffer
  | TyReusableBuffers
  | TyProjectedFieldBuffer
  | TyProjectionBuffer
  | TyPayload
  | TyTaskSpec

record host =
  host_alloc :: "string \<Rightarrow> nat \<Rightarrow> bool"
  host_size_of :: "rust_type \<Rightarrow> nat"

definition try_reserve_exact :: "host \<Rightarrow> rust_type \<Rightarrow> usize \<Rightarrow> string \<Rightarrow> bool" where
  "try_reserve_exact h ty additional site =
     (let size = additional * host_size_of h ty
      in size = 0 \<or> (size \<le> isize_max \<and> host_alloc h site size))"

definition try_vec_with_capacity :: "host \<Rightarrow> rust_type \<Rightarrow> usize \<Rightarrow> string \<Rightarrow> 'a list result" where
  "try_vec_with_capacity h ty capacity allocation_message =
     (if try_reserve_exact h ty capacity allocation_message then Inr []
      else Inl (ocb_allocation_error allocation_message))"

definition copy_bytes_fallibly :: "host \<Rightarrow> bytes \<Rightarrow> string \<Rightarrow> bytes result" where
  "copy_bytes_fallibly h bs allocation_message =
     (if try_reserve_exact h TyU8 (length bs) allocation_message then Inr bs
      else Inl (ocb_allocation_error allocation_message))"

definition allocate_zeroed_bytes_fallibly :: "host \<Rightarrow> usize \<Rightarrow> string \<Rightarrow> bytes result" where
  "allocate_zeroed_bytes_fallibly h len allocation_message =
     (if try_reserve_exact h TyU8 len allocation_message then Inr (vec_resize len 0 [])
      else Inl (ocb_allocation_error allocation_message))"

section \<open>Cursors and readers\<close>

record cursor =
  cur_bytes :: bytes
  cur_pos :: nat

definition cursor_new :: "bytes \<Rightarrow> cursor" where
  "cursor_new bs = \<lparr>cur_bytes = bs, cur_pos = 0\<rparr>"

type_synonym 'a reader = "cursor \<Rightarrow> ('a \<times> cursor) result"

definition rret :: "'a \<Rightarrow> 'a reader" where
  "rret x c = Inr (x, c)"

definition rfail :: "ArcadiaTioError \<Rightarrow> 'a reader" where
  "rfail e c = Inl e"

definition rbind :: "'a reader \<Rightarrow> ('a \<Rightarrow> 'b reader) \<Rightarrow> 'b reader" where
  "rbind m k c = sbind (m c) (\<lambda>xc. k (fst xc) (snd xc))"

text \<open>A step that does not touch the cursor: \<open>let x = expression?;\<close>\<close>

definition rtry :: "'a result \<Rightarrow> ('a \<Rightarrow> 'b reader) \<Rightarrow> 'b reader" where
  "rtry r k c = sbind r (\<lambda>x. k x c)"

text \<open>\<open>cursor.position()\<close> and \<open>cursor.set_position(p)\<close>.\<close>

definition rmark :: "(nat \<Rightarrow> 'a reader) \<Rightarrow> 'a reader" where
  "rmark k c = k (cur_pos c) c"

definition rset_position :: "nat \<Rightarrow> 'a reader \<Rightarrow> 'a reader" where
  "rset_position p k c = k (c\<lparr>cur_pos := p\<rparr>)"

text \<open>\<open>&bytes[start..end]\<close> of the buffer the cursor runs over.\<close>

definition rslice :: "nat \<Rightarrow> nat \<Rightarrow> (bytes \<Rightarrow> 'a reader) \<Rightarrow> 'a reader" where
  "rslice start stop k c = k (slice start stop (cur_bytes c)) c"

text \<open>Run a reader and keep its value.\<close>

definition run_reader :: "'a reader \<Rightarrow> bytes \<Rightarrow> 'a result" where
  "run_reader r bs = sbind (r (cursor_new bs)) (\<lambda>xc. Inr (fst xc))"

definition read_exact_ocb :: "nat \<Rightarrow> bytes reader" where
  "read_exact_ocb n c =
     (if n \<le> length (drop (cur_pos c) (cur_bytes c))
      then Inr (take n (drop (cur_pos c) (cur_bytes c)), c\<lparr>cur_pos := cur_pos c + n\<rparr>)
      else Inl (ocb_corrupt_file ''OCB object is truncated''))"

definition read_u16 :: "u16 reader" where
  "read_u16 = rbind (read_exact_ocb 2) (\<lambda>buf. rret (from_le_bytes buf))"

definition read_u32 :: "u32 reader" where
  "read_u32 = rbind (read_exact_ocb 4) (\<lambda>buf. rret (from_le_bytes buf))"

definition read_i32 :: "i32 reader" where
  "read_i32 = rbind (read_exact_ocb 4) (\<lambda>buf. rret (from_le_bytes buf))"

definition read_u64 :: "u64 reader" where
  "read_u64 = rbind (read_exact_ocb 8) (\<lambda>buf. rret (from_le_bytes buf))"

section \<open>Writers\<close>

definition write_u16 :: "u16 \<Rightarrow> bytes" where
  "write_u16 value = to_le_bytes 2 value"

definition write_u32 :: "u32 \<Rightarrow> bytes" where
  "write_u32 value = to_le_bytes 4 value"

definition write_i32 :: "i32 \<Rightarrow> bytes" where
  "write_i32 value = to_le_bytes 4 value"

definition write_u64 :: "u64 \<Rightarrow> bytes" where
  "write_u64 value = to_le_bytes 8 value"

text \<open>\<open>for x in xs { x.write_to(&mut buf)?; }\<close>\<close>

definition write_each :: "('a \<Rightarrow> bytes result) \<Rightarrow> 'a list \<Rightarrow> bytes result" where
  "write_each wr xs = sbind (try_map wr xs) (\<lambda>bss. Inr (concat bss))"

section \<open>Bounds checks\<close>

definition remaining_before_crc :: "usize \<Rightarrow> nat \<Rightarrow> usize result" where
  "remaining_before_crc total_len position =
     sbind (ok_or (usize_try_from position)
        (ocb_corrupt_file ''OCB cursor position exceeds usize'')) (\<lambda>position.
     sbind (ok_or (usize_checked_sub total_len 4)
        (ocb_corrupt_file ''OCB object is too short'')) (\<lambda>payload_end.
     if position > payload_end
     then Inl (ocb_corrupt_file ''OCB cursor advanced beyond object payload'')
     else Inr (payload_end - position)))"

definition checked_payload_len :: "usize \<Rightarrow> nat \<Rightarrow> u64 \<Rightarrow> string \<Rightarrow> usize result" where
  "checked_payload_len total_len position len what =
     sbind (ok_or (usize_try_from (unat len))
        (ocb_corrupt_file ''OCB payload length exceeds usize'')) (\<lambda>len.
     sbind (remaining_before_crc total_len position) (\<lambda>remaining.
     if len > remaining then Inl (ocb_corrupt_file what) else Inr len))"

definition checked_record_count :: "usize \<Rightarrow> nat \<Rightarrow> u64 \<Rightarrow> usize \<Rightarrow> string \<Rightarrow> usize result" where
  "checked_record_count total_len position count record_len what =
     sbind (ok_or (usize_try_from (unat count))
        (ocb_corrupt_file ''OCB record count exceeds usize'')) (\<lambda>count.
     sbind (ok_or (usize_checked_mul count record_len)
        (ocb_corrupt_file ''OCB record byte count overflows'')) (\<lambda>needed.
     sbind (remaining_before_crc total_len position) (\<lambda>remaining.
     if needed > remaining then Inl (ocb_corrupt_file what) else Inr count)))"

text \<open>\<open>checked_record_count(bytes.len(), cursor.position(), ...)?\<close> as a step of a reader.\<close>

definition rcount :: "usize \<Rightarrow> u64 \<Rightarrow> usize \<Rightarrow> string \<Rightarrow> (usize \<Rightarrow> 'a reader) \<Rightarrow> 'a reader" where
  "rcount total_len count record_len what k c =
     sbind (checked_record_count total_len (cur_pos c) count record_len what) (\<lambda>n. k n c)"

definition rpayload :: "usize \<Rightarrow> u64 \<Rightarrow> string \<Rightarrow> (usize \<Rightarrow> 'a reader) \<Rightarrow> 'a reader" where
  "rpayload total_len len what k c =
     sbind (checked_payload_len total_len (cur_pos c) len what) (\<lambda>n. k n c)"

definition checked_materialized_vec_bytes :: "host \<Rightarrow> rust_type \<Rightarrow> usize \<Rightarrow> u64 result" where
  "checked_materialized_vec_bytes h ty count =
     sbind (ok_or (u64_try_from count)
        (ocb_corrupt_file ''OCB metadata vector count exceeds u64'')) (\<lambda>count.
     sbind (ok_or (u64_try_from (host_size_of h ty))
        (ocb_corrupt_file ''OCB metadata record size exceeds u64'')) (\<lambda>item_bytes.
     ok_or (checked_mul count item_bytes)
        (ocb_corrupt_file ''OCB metadata materialized byte count overflows'')))"

definition checked_materialized_sum :: "u64 list \<Rightarrow> u64 result" where
  "checked_materialized_sum parts =
     for_each (\<lambda>part total. ok_or (checked_add total part)
        (ocb_corrupt_file ''OCB metadata materialized byte count overflows'')) parts 0"

section \<open>Record sequences, read in two passes\<close>

fun validate_record_sequence :: "'a reader \<Rightarrow> nat \<Rightarrow> unit reader" where
  "validate_record_sequence rd 0 = rret ()"
| "validate_record_sequence rd (Suc n) = rbind rd (\<lambda>_. validate_record_sequence rd n)"

fun read_records :: "'a reader \<Rightarrow> nat \<Rightarrow> 'a list reader" where
  "read_records rd 0 = rret []"
| "read_records rd (Suc n) = rbind rd (\<lambda>x. rbind (read_records rd n) (\<lambda>xs. rret (x # xs)))"

definition read_record_sequence :: "host \<Rightarrow> rust_type \<Rightarrow> nat \<Rightarrow> string \<Rightarrow> 'a reader \<Rightarrow> 'a list reader" where
  "read_record_sequence h ty count allocation_message rd =
     rtry (try_vec_with_capacity h ty count allocation_message) (\<lambda>records :: 'a list.
     rbind (read_records rd count) (\<lambda>xs. rret (records @ xs)))"

section \<open>Trailing checksums\<close>

definition read_u32_at_end :: "bytes \<Rightarrow> u32 result" where
  "read_u32_at_end bs =
     (if length bs < 4 then Inl (ocb_corrupt_file ''buffer too short for trailing crc'')
      else Inr (from_le_bytes (drop (length bs - 4) bs)))"

text \<open>
  Overwrites the last four bytes.  The code indexes from \<open>len - 4\<close> and so needs four bytes; every
  caller either has just read a trailing checksum or has just appended four zero bytes.
\<close>

definition write_u32_at_end :: "bytes \<Rightarrow> u32 \<Rightarrow> bytes" where
  "write_u32_at_end bs value = take (length bs - 4) bs @ to_le_bytes 4 value"

text \<open>The shared shape of the \<open>write_to\<close> methods: checksum the buffer, store it at the end.\<close>

definition seal_object :: "bytes \<Rightarrow> bytes" where
  "seal_object buf = write_u32_at_end buf (crc32c buf)"

section \<open>Resources\<close>

text \<open>
  A host that has memory: element types have the sizes of ordinary Rust types, and allocations
  up to \<open>isize::MAX\<close> bytes are granted.  \<open>fits\<close> is an amount a budget has room for.
\<close>

definition host_ready :: "host \<Rightarrow> bool" where
  "host_ready h \<longleftrightarrow> host_size_of h TyU8 = 1 \<and>
     (\<forall>ty. 0 < host_size_of h ty \<and> host_size_of h ty \<le> isize_max) \<and>
     (\<forall>site n. n \<le> isize_max \<longrightarrow> host_alloc h site n)"

definition fits :: "MetadataMaterializationBudget \<Rightarrow> nat \<Rightarrow> bool" where
  "fits b n \<longleftrightarrow> n \<le> isize_max \<and> unat (charged_bytes b) + n \<le> unat (limit_bytes b)"

definition charged :: "MetadataMaterializationBudget \<Rightarrow> nat \<Rightarrow> MetadataMaterializationBudget" where
  "charged b n = b\<lparr>charged_bytes := charged_bytes b + of_nat n\<rparr>"

lemma isize_max_less: "n \<le> isize_max \<Longrightarrow> n < 2 ^ 64"
  by (simp add: isize_max_def)

lemma charge_fits: "fits b n \<Longrightarrow> charge b (of_nat n) = Inr (charged b n)"
proof -
  assume f: "fits b n"
  then have n: "unat (of_nat n :: u64) = n" by (auto simp: fits_def intro: unat_of_nat_u64 isize_max_less)
  moreover from f have "unat (charged_bytes b) + n < 2 ^ 64"
    using unsigned_less [of "limit_bytes b", where ?'a = nat] by (auto simp: fits_def)
  ultimately have "checked_add (charged_bytes b) (of_nat n) = Some (charged_bytes b + of_nat n)"
    by (simp add: checked_add_def)
  moreover from checked_add_Some [OF this] f have "\<not> limit_bytes b < charged_bytes b + of_nat n"
    by (simp add: n fits_def word_less_nat_alt)
  ultimately show ?thesis by (simp add: charge_def charged_def)
qed

lemma checked_materialized_vec_bytes_ready:
  assumes "host_ready h" and "n * host_size_of h ty \<le> isize_max"
  shows "checked_materialized_vec_bytes h ty n = Inr (of_nat (n * host_size_of h ty))"
proof -
  have s: "0 < host_size_of h ty" "host_size_of h ty < 2 ^ 64"
    using assms(1) isize_max_less by (auto simp: host_ready_def)
  have t: "n * host_size_of h ty < 2 ^ 64" using assms(2) by (rule isize_max_less)
  moreover have "n \<le> n * host_size_of h ty" using s(1) by simp
  ultimately have n: "n < 2 ^ 64" by linarith
  show ?thesis
    using s(2) t n
    by (simp add: checked_materialized_vec_bytes_def u64_try_from_def checked_mul_def unat_of_nat_u64)
qed

lemma checked_materialized_sum_of_nats:
  assumes "sum_list ns < 2 ^ 64"
  shows "checked_materialized_sum (map of_nat ns) = Inr (of_nat (sum_list ns))"
proof -
  let ?f = "\<lambda>part tot :: u64. ok_or (checked_add tot part)
    (ocb_corrupt_file ''OCB metadata materialized byte count overflows'')"
  have "for_each ?f (map of_nat ns) (of_nat a) = Inr (of_nat (a + sum_list ns))"
    if "a + sum_list ns < 2 ^ 64" for a
    using that
  proof (induction ns arbitrary: a)
    case Nil
    then show ?case by simp
  next
    case (Cons n ns)
    then have "?f (of_nat n) (of_nat a) = Inr (of_nat (a + n))"
      by (simp add: checked_add_def unat_of_nat_u64)
    then show ?case using Cons.IH [of "a + n"] Cons.prems by (simp add: add.assoc)
  qed
  from this [of 0] assms show ?thesis by (simp add: checked_materialized_sum_def)
qed

lemma try_vec_with_capacity_ready:
  "host_ready h \<Longrightarrow> n * host_size_of h ty \<le> isize_max \<Longrightarrow> try_vec_with_capacity h ty n msg = Inr []"
  "host_ready h \<Longrightarrow> n * host_size_of h ty \<le> isize_max \<Longrightarrow> try_reserve_exact h ty n msg"
  by (simp_all add: try_vec_with_capacity_def try_reserve_exact_def host_ready_def)

lemma allocate_ready:
  assumes "host_ready h" and "n \<le> isize_max"
  shows "allocate_zeroed_bytes_fallibly h n msg = Inr (replicate n 0)"
    and "length bs = n \<Longrightarrow> copy_bytes_fallibly h bs msg = Inr bs"
  using assms
  by (simp_all add: allocate_zeroed_bytes_fallibly_def copy_bytes_fallibly_def try_reserve_exact_def
      host_ready_def vec_resize_def)

section \<open>Unfolding rules\<close>

lemmas reader_defs = rret_def rfail_def rbind_def rtry_def rmark_def rset_position_def rslice_def
  rcount_def rpayload_def

lemma cursor_new_simps [simp]: "cur_bytes (cursor_new bs) = bs" "cur_pos (cursor_new bs) = 0"
  by (simp_all add: cursor_new_def)

section \<open>Successful reads\<close>

lemma reader_Inr [reader_simps]:
  "rret x c = Inr r \<longleftrightarrow> r = (x, c)"
  "rfail e c = Inr r \<longleftrightarrow> False"
  "rbind m k c = Inr r \<longleftrightarrow> (\<exists>x c'. m c = Inr (x, c') \<and> k x c' = Inr r)"
  "rtry t f c = Inr r \<longleftrightarrow> (\<exists>x. t = Inr x \<and> f x c = Inr r)"
  "rmark g c = Inr r \<longleftrightarrow> g (cur_pos c) c = Inr r"
  "rset_position p s c = Inr r \<longleftrightarrow> s (c\<lparr>cur_pos := p\<rparr>) = Inr r"
  "rslice i j d c = Inr r \<longleftrightarrow> d (slice i j (cur_bytes c)) c = Inr r"
  "rcount t0 n l w q c = Inr r \<longleftrightarrow> (\<exists>m. checked_record_count t0 (cur_pos c) n l w = Inr m \<and> q m c = Inr r)"
  "rpayload t0 n w q c = Inr r \<longleftrightarrow> (\<exists>m. checked_payload_len t0 (cur_pos c) n w = Inr m \<and> q m c = Inr r)"
  "(if P then s else u) c = Inr r \<longleftrightarrow> (if P then s c = Inr r else u c = Inr r)"
  by (auto simp: reader_defs sbind_eq_Inr)

lemma run_reader_Inr: "run_reader r bs = Inr x \<longleftrightarrow> (\<exists>c'. r (cursor_new bs) = Inr (x, c'))"
  by (auto simp: run_reader_def sbind_eq_Inr)

lemma read_records_length: "read_records rd n c = Inr (xs, c') \<Longrightarrow> length xs = n"
  by (induction n arbitrary: c xs) (auto simp: reader_Inr)

lemma read_record_sequence_length:
  "read_record_sequence h ty n msg rd c = Inr (xs, c') \<Longrightarrow> length xs = n"
  by (auto simp: read_record_sequence_def try_vec_with_capacity_def reader_Inr
      dest: read_records_length split: if_splits)

lemma checked_materialized_vec_bytes_Inr:
  "checked_materialized_vec_bytes h ty n = Inr w \<Longrightarrow> unat w = n * host_size_of h ty"
  by (auto simp: checked_materialized_vec_bytes_def sbind_eq_Inr u64_try_from_Some unat_of_nat_u64
      dest!: checked_mul_Some)

lemma checked_materialized_sum_Inr:
  "checked_materialized_sum parts = Inr w \<Longrightarrow> unat w = sum_list (map unat parts)"
proof -
  let ?f = "\<lambda>part tot :: u64. ok_or (checked_add tot part)
    (ocb_corrupt_file ''OCB metadata materialized byte count overflows'')"
  have "for_each ?f parts a = Inr w \<Longrightarrow> unat w = unat a + sum_list (map unat parts)" for a
    by (induction parts arbitrary: a) (auto simp: sbind_eq_Inr dest: checked_add_Some)
  from this [of 0] show "checked_materialized_sum parts = Inr w \<Longrightarrow> ?thesis"
    by (simp add: checked_materialized_sum_def)
qed

text \<open>\<open>charges b b' n\<close>: \<open>b'\<close> is \<open>b\<close> with \<open>n\<close> more bytes charged, still within its limit.\<close>

definition charges :: "MetadataMaterializationBudget \<Rightarrow> MetadataMaterializationBudget \<Rightarrow> nat \<Rightarrow> bool" where
  "charges b b' n \<longleftrightarrow>
     unat (charged_bytes b') = unat (charged_bytes b) + n \<and> limit_bytes b' = limit_bytes b \<and> budget_ok b'"

lemma charge_charges: "charge b w = Inr b' \<Longrightarrow> charges b b' (unat w)"
  using charge_Inr by (simp add: charges_def)

section \<open>The errors a reader can report\<close>

definition rerrs :: "(ArcadiaTioError \<Rightarrow> bool) \<Rightarrow> 'a reader \<Rightarrow> bool" where
  "rerrs P r \<longleftrightarrow> (\<forall>c. errs P (r c))"

lemma rerrs_combinators [errs_intros]:
  "rerrs P (rret x)"
  "P e \<Longrightarrow> rerrs P (rfail e)"
  "rerrs P m \<Longrightarrow> (\<And>x. rerrs P (k x)) \<Longrightarrow> rerrs P (rbind m k)"
  "errs P r \<Longrightarrow> (\<And>x. r = Inr x \<Longrightarrow> rerrs P (k x)) \<Longrightarrow> rerrs P (rtry r k)"
  "(\<And>q. rerrs P (k' q)) \<Longrightarrow> rerrs P (rmark k')"
  "rerrs P s \<Longrightarrow> rerrs P (rset_position q s)"
  "(\<And>d. rerrs P (k'' d)) \<Longrightarrow> rerrs P (rslice a b k'')"
  by (auto simp: rerrs_def reader_defs intro!: errs_intros)

lemma rerrs_if [errs_intros]:
  "(b \<Longrightarrow> rerrs P r) \<Longrightarrow> (\<not> b \<Longrightarrow> rerrs P s) \<Longrightarrow> rerrs P (if b then r else s)"
  by simp

lemma errs_checks [errs_intros]:
  assumes "\<And>m. P (ocb_corrupt_file m)"
  shows "errs P (remaining_before_crc t p)"
    and "errs P (checked_payload_len t p l w)"
    and "errs P (checked_record_count t p cnt rl w)"
    and "errs P (checked_materialized_vec_bytes h ty n)"
    and "errs P (checked_materialized_sum parts)"
    and "errs P (read_u32_at_end bs)"
  using assms
  by (auto simp: remaining_before_crc_def checked_payload_len_def checked_record_count_def
      checked_materialized_vec_bytes_def checked_materialized_sum_def read_u32_at_end_def
      intro!: errs_intros)

lemma rerrs_reads [errs_intros]:
  assumes "\<And>m. P (ocb_corrupt_file m)"
  shows "rerrs P (read_exact_ocb n)" and "rerrs P read_u16" and "rerrs P read_u32"
    and "rerrs P read_i32" and "rerrs P read_u64"
    and "(\<And>x. rerrs P (k x)) \<Longrightarrow> rerrs P (rcount t cnt rl w k)"
    and "(\<And>x. rerrs P (k x)) \<Longrightarrow> rerrs P (rpayload t len w k)"
proof -
  show exact: "rerrs P (read_exact_ocb n)" for n
    using assms by (simp add: rerrs_def read_exact_ocb_def errs_def)
  show "rerrs P read_u16" "rerrs P read_u32" "rerrs P read_i32" "rerrs P read_u64"
    unfolding read_u16_def read_u32_def read_i32_def read_u64_def
    by (rule rerrs_combinators exact)+
  show "rerrs P (rcount t cnt rl w k)" "rerrs P (rpayload t len w k)" if "\<And>x. rerrs P (k x)"
    using that assms by (auto simp: rerrs_def rcount_def rpayload_def intro!: errs_intros)
qed

lemma errs_run_reader [errs_intros]: "rerrs P r \<Longrightarrow> errs P (run_reader r bs)"
  by (auto simp: rerrs_def run_reader_def intro!: errs_intros)

lemma rerrs_sequences [errs_intros]:
  "rerrs P rd \<Longrightarrow> rerrs P (validate_record_sequence rd n)"
  "rerrs P rd \<Longrightarrow> rerrs P (read_records rd n)"
  by (induction n) (auto intro!: errs_intros)

lemma rerrs_record_sequence [errs_intros]:
  assumes "rerrs P rd" and "P (ocb_allocation_error msg)"
  shows "rerrs P (read_record_sequence h ty n msg rd)"
  unfolding read_record_sequence_def try_vec_with_capacity_def
  using assms by (auto intro!: errs_intros)

section \<open>What a reader makes of given bytes\<close>

text \<open>
  \<open>reads r bs x\<close>: wherever the bytes \<open>bs\<close> lie next under the cursor, \<open>r\<close> returns \<open>x\<close> and advances
  past exactly those bytes, whatever precedes or follows them.
\<close>

definition reads :: "'a reader \<Rightarrow> bytes \<Rightarrow> 'a \<Rightarrow> bool" where
  "reads r bs x \<longleftrightarrow>
     (\<forall>c rest. drop (cur_pos c) (cur_bytes c) = bs @ rest \<longrightarrow>
        r c = Inr (x, c\<lparr>cur_pos := cur_pos c + length bs\<rparr>))"

lemma reads_ret [reads_intros]: "reads (rret x) [] x"
  by (simp add: reads_def rret_def)

lemma reads_ret_eq: "x = y \<Longrightarrow> reads (rret x) [] y"
  by (simp add: reads_ret)

lemma drop_after: "drop p b = xs @ ys \<Longrightarrow> drop (p + length xs) b = ys"
  by (metis append_eq_conv_conj add.commute drop_drop)

lemma reads_bind [reads_intros]:
  assumes "reads m as x" and "reads (k x) bs y"
  shows "reads (rbind m k) (as @ bs) y"
  unfolding reads_def
proof (intro allI impI)
  fix c :: cursor and rest
  assume d: "drop (cur_pos c) (cur_bytes c) = (as @ bs) @ rest"
  then have "drop (cur_pos c) (cur_bytes c) = as @ (bs @ rest)" by simp
  moreover from this have "drop (cur_pos c + length as) (cur_bytes c) = bs @ rest" by (rule drop_after)
  ultimately show "rbind m k c = Inr (y, c\<lparr>cur_pos := cur_pos c + length (as @ bs)\<rparr>)"
    using assms by (simp add: reads_def rbind_def add.assoc)
qed

lemma reads_bind_ret [reads_intros]: "reads m bs x \<Longrightarrow> y = f x \<Longrightarrow> reads (rbind m (\<lambda>x. rret (f x))) bs y"
  using reads_bind [of m bs x "\<lambda>x. rret (f x)" "[]" y] reads_ret [of "f x"] by simp

lemma reads_bind_last: "reads m bs x \<Longrightarrow> reads (k x) [] y \<Longrightarrow> reads (rbind m k) bs y"
  using reads_bind [of m bs x k "[]" y] by simp

lemma reads_try [reads_intros]: "r = Inr x \<Longrightarrow> reads (k x) bs y \<Longrightarrow> reads (rtry r k) bs y"
  by (simp add: reads_def rtry_def)

lemma reads_if_not [reads_intros]: "\<not> P \<Longrightarrow> reads r bs x \<Longrightarrow> reads (if P then rfail e else r) bs x"
  by simp

lemma reads_exact [reads_intros]: "length bs = n \<Longrightarrow> reads (read_exact_ocb n) bs bs"
  by (auto simp: reads_def read_exact_ocb_def dest: arg_cong [where f = length])

lemma reads_u16 [reads_intros]: "reads read_u16 (write_u16 v) v"
  unfolding read_u16_def write_u16_def
  by (rule reads_bind_ret [OF reads_exact]) (simp_all add: from_to_le_bytes)

lemma reads_u32 [reads_intros]: "reads read_u32 (write_u32 v) v"
  unfolding read_u32_def write_u32_def
  by (rule reads_bind_ret [OF reads_exact]) (simp_all add: from_to_le_bytes)

lemma reads_i32 [reads_intros]: "reads read_i32 (write_i32 v) v"
  unfolding read_i32_def write_i32_def
  by (rule reads_bind_ret [OF reads_exact]) (simp_all add: from_to_le_bytes)

lemma reads_u64 [reads_intros]: "reads read_u64 (write_u64 v) v"
  unfolding read_u64_def write_u64_def
  by (rule reads_bind_ret [OF reads_exact]) (simp_all add: from_to_le_bytes)

lemma length_writes [simp, codec_simps]:
  "length (write_u16 a) = 2" "length (write_u32 b) = 4" "length (write_i32 i) = 4" "length (write_u64 d) = 8"
  by (simp_all add: write_u16_def write_u32_def write_i32_def write_u64_def)

lemma reads_run: "reads r bs x \<Longrightarrow> run_reader r bs = Inr x"
  unfolding reads_def run_reader_def by (drule spec [of _ "cursor_new bs"]) simp

end
