(* ===== verification/Codec.thy ===== *)
theory Codec
  imports Byte_IO
begin

text \<open>
  Interfaces shared by all encoded objects and the facts proved once against them.
  \<open>enum_codec\<close> is an enumeration stored as a number, \<open>record_codec\<close> a fixed-width record with its
  writer and reader, \<open>sealed_codec\<close> an object whose last four bytes are a checksum of the rest.
  \<open>oreads\<close> extends \<open>reads\<close> to the body of an object: the reader knows the total length of the
  object, at least four checksum bytes follow, and the cursor may be moved back to a mark.
\<close>

section \<open>Object bodies\<close>

text \<open>
  \<open>oreads N p pre r bs x\<close>: on an object of \<open>N\<close> bytes, with the cursor \<open>length pre\<close> bytes after
  position \<open>p\<close> and exactly the bytes \<open>bs\<close> left, \<open>r\<close> returns \<open>x\<close>.
\<close>

definition oreads :: "nat \<Rightarrow> nat \<Rightarrow> bytes \<Rightarrow> 'a reader \<Rightarrow> bytes \<Rightarrow> 'a \<Rightarrow> bool" where
  "oreads N p pre r bs x \<longleftrightarrow>
     (\<forall>c. length (cur_bytes c) = N \<and> p \<le> N \<and> cur_pos c = p + length pre \<and>
        drop p (cur_bytes c) = pre @ bs \<longrightarrow> (\<exists>c'. r c = Inr (x, c')))"

lemma oreads_ret [reads_intros]: "x = y \<Longrightarrow> oreads N p pre (rret x) bs y"
  by (simp add: oreads_def rret_def)

lemma oreads_bind [reads_intros]:
  assumes "reads m as x" and "oreads N p (pre @ as) (k x) bs y"
  shows "oreads N p pre (rbind m k) (as @ bs) y"
  unfolding oreads_def
proof (intro allI impI, elim conjE)
  fix c :: cursor
  assume c: "length (cur_bytes c) = N" "p \<le> N" "cur_pos c = p + length pre"
    and d: "drop p (cur_bytes c) = pre @ as @ bs"
  from d have "drop (cur_pos c) (cur_bytes c) = as @ bs"
    using drop_after [of p "cur_bytes c" pre "as @ bs"] by (simp add: c)
  then have "m c = Inr (x, c\<lparr>cur_pos := cur_pos c + length as\<rparr>)"
    using assms(1) by (simp add: reads_def)
  moreover have "\<exists>c'. k x (c\<lparr>cur_pos := cur_pos c + length as\<rparr>) = Inr (y, c')"
    using assms(2) c d unfolding oreads_def by (auto simp: add.assoc)
  ultimately show "\<exists>c'. rbind m k c = Inr (y, c')" by (auto simp: rbind_def)
qed

lemma oreads_try [reads_intros]: "r = Inr x \<Longrightarrow> oreads N p pre (k x) bs y \<Longrightarrow> oreads N p pre (rtry r k) bs y"
  by (simp add: oreads_def rtry_def)

lemma oreads_if_not [reads_intros]:
  "\<not> P \<Longrightarrow> oreads N p pre r bs x \<Longrightarrow> oreads N p pre (if P then rfail e else r) bs x"
  by simp

lemma oreads_let: "v = w \<Longrightarrow> oreads N p pre (f w) bs y \<Longrightarrow> oreads N p pre (Let v f) bs y"
  by simp

lemma oreads_mark:
  assumes "\<And>q. oreads N q [] (k q) bs y"
  shows "oreads N p pre (rmark k) bs y"
  unfolding oreads_def
proof (intro allI impI, elim conjE)
  fix c :: cursor
  assume c: "length (cur_bytes c) = N" "p \<le> N" "cur_pos c = p + length pre"
    "drop p (cur_bytes c) = pre @ bs"
  then have "N - p = length pre + length bs" by (metis length_append length_drop)
  with c(2) have "p + length pre \<le> N" by arith
  with c show "\<exists>c'. rmark k c = Inr (y, c')"
    using assms [of "cur_pos c"] drop_after [of p "cur_bytes c" pre bs]
    by (simp add: oreads_def rmark_def)
qed

text \<open>The position is read but the mark is kept; a slice of the bytes under the cursor.\<close>

lemma oreads_position:
  assumes "p + length pre + length bs = N \<Longrightarrow> oreads N p pre (k (p + length pre)) bs y"
  shows "oreads N p pre (rmark k) bs y"
  unfolding oreads_def
proof (intro allI impI, elim conjE)
  fix c :: cursor
  assume c: "length (cur_bytes c) = N" "p \<le> N" "cur_pos c = p + length pre"
    "drop p (cur_bytes c) = pre @ bs"
  then have "N - p = length pre + length bs" by (metis length_append length_drop)
  with c(2) have "p + length pre + length bs = N" by arith
  from assms [OF this] c show "\<exists>c'. rmark k c = Inr (y, c')"
    by (simp add: oreads_def rmark_def)
qed

lemma oreads_range:
  assumes "N \<le> usize_max" and "n \<le> length bs"
    and "oreads N p pre (k (p + length pre) (p + length pre + n)) bs y"
  shows "oreads N p pre (rmark (\<lambda>position. rtry (ok_or (usize_try_from position) e) (\<lambda>start.
      rtry (ok_or (usize_checked_add start n) e') (\<lambda>stop. k start stop)))) bs y"
proof (rule oreads_position)
  assume N: "p + length pre + length bs = N"
  with assms(1,2) have "usize_try_from (p + length pre) = Some (p + length pre)"
    "usize_checked_add (p + length pre) n = Some (p + length pre + n)"
    by (simp_all add: usize_checked_add_def)
  with assms(3) show "oreads N p pre (rtry (ok_or (usize_try_from (p + length pre)) e) (\<lambda>start.
      rtry (ok_or (usize_checked_add start n) e') (\<lambda>stop. k start stop))) bs y"
    by (simp add: oreads_try)
qed

lemma oreads_slice:
  assumes "a = p + length pre" and "b = a + length as" and "oreads N p pre (k as) (as @ bs) y"
  shows "oreads N p pre (rslice a b k) (as @ bs) y"
  unfolding oreads_def
proof (intro allI impI, elim conjE)
  fix c :: cursor
  assume c: "length (cur_bytes c) = N" "p \<le> N" "cur_pos c = p + length pre"
    "drop p (cur_bytes c) = pre @ as @ bs"
  then have "slice a b (cur_bytes c) = as"
    using assms(1,2) drop_after [OF c(4)] by (simp add: slice_def)
  with assms(3) c show "\<exists>c'. rslice a b k c = Inr (y, c')"
    by (simp add: oreads_def rslice_def)
qed

lemma oreads_rewind:
  "oreads N p [] k (pre @ bs) y \<Longrightarrow> oreads N p pre (rset_position p k) bs y"
  unfolding oreads_def rset_position_def by auto

lemma oreads_rewinds:
  "oreads N p [] k (a @ bs) y \<Longrightarrow> oreads N p ([] @ a) (rset_position p k) bs y"
  "oreads N p [] k (a @ b @ bs) y \<Longrightarrow> oreads N p (([] @ a) @ b) (rset_position p k) bs y"
  "oreads N p [] k (a @ b @ c @ bs) y \<Longrightarrow> oreads N p ((([] @ a) @ b) @ c) (rset_position p k) bs y"
  "oreads N p [] k (a @ b @ c @ d @ e @ bs) y \<Longrightarrow>
     oreads N p ((((([] @ a) @ b) @ c) @ d) @ e) (rset_position p k) bs y"
  by (rule oreads_rewind, simp)+

lemma remaining_before_crc_Inr:
  "remaining_before_crc tot position = Inr r \<longleftrightarrow>
     position \<le> usize_max \<and> position + r + 4 = tot"
  by (auto simp: remaining_before_crc_def usize_checked_sub_def sbind_eq_Inr split: if_splits)

lemma checked_record_count_Inr:
  "checked_record_count tot position count len what = Inr n \<longleftrightarrow>
     n = unat count \<and> n * len \<le> usize_max \<and> position \<le> usize_max \<and> position + n * len + 4 \<le> tot"
proof -
  have "checked_record_count tot position count len what = Inr n \<longleftrightarrow>
     n = unat count \<and> n * len \<le> usize_max \<and>
     (\<exists>r. remaining_before_crc tot position = Inr r \<and> n * len \<le> r)"
    by (cases "remaining_before_crc tot position")
      (auto simp: checked_record_count_def usize_checked_mul_def sbind_eq_Inr not_less)
  also have "\<dots> \<longleftrightarrow> n = unat count \<and> n * len \<le> usize_max \<and> position \<le> usize_max \<and>
      position + n * len + 4 \<le> tot"
    by (auto simp: remaining_before_crc_Inr intro!: exI [of _ "tot - 4 - position"])
  finally show ?thesis .
qed

lemma checked_payload_len_Inr:
  "checked_payload_len tot position len what = Inr n \<longleftrightarrow>
     n = unat len \<and> position \<le> usize_max \<and> position + n + 4 \<le> tot"
proof -
  have "checked_payload_len tot position len what = Inr n \<longleftrightarrow>
     n = unat len \<and> (\<exists>r. remaining_before_crc tot position = Inr r \<and> n \<le> r)"
    by (cases "remaining_before_crc tot position")
      (auto simp: checked_payload_len_def sbind_eq_Inr not_less)
  also have "\<dots> \<longleftrightarrow> n = unat len \<and> position \<le> usize_max \<and> position + n + 4 \<le> tot"
    by (auto simp: remaining_before_crc_Inr intro!: exI [of _ "tot - 4 - position"])
  finally show ?thesis .
qed

lemma checks_Inl_corrupt:
  "remaining_before_crc t p = Inl e \<Longrightarrow> ocb_failure_cause e = Some Cause_CorruptFile"
  "checked_payload_len t p l w = Inl e \<Longrightarrow> ocb_failure_cause e = Some Cause_CorruptFile"
  "checked_record_count t p l n w = Inl e \<Longrightarrow> ocb_failure_cause e = Some Cause_CorruptFile"
  by (auto simp: remaining_before_crc_def checked_payload_len_def checked_record_count_def
      sbind_eq_Inl split: if_splits)

lemma oreads_remaining:
  assumes "N \<le> usize_max" and "length bs = n + 4" and "oreads N p pre (k n) bs y"
  shows "oreads N p pre (rmark (\<lambda>position. rtry (remaining_before_crc N position) (\<lambda>m. k m))) bs y"
proof (rule oreads_position)
  assume "p + length pre + length bs = N"
  with assms have "remaining_before_crc N (p + length pre) = Inr n" by (simp add: remaining_before_crc_Inr)
  then show "oreads N p pre (rtry (remaining_before_crc N (p + length pre)) (\<lambda>m. k m)) bs y"
    using assms(3) by (rule oreads_try)
qed

text \<open>A bounds check passes when the bytes that follow really hold that many records.\<close>

lemma oreads_count:
  assumes "N \<le> usize_max" and "n = unat count" and "n * len + 4 \<le> length bs"
    and "oreads N p pre (k n) bs y"
  shows "oreads N p pre (rcount N count len what k) bs y"
  unfolding oreads_def
proof (intro allI impI, elim conjE)
  fix c :: cursor
  assume c: "length (cur_bytes c) = N" "p \<le> N" "cur_pos c = p + length pre"
    "drop p (cur_bytes c) = pre @ bs"
  then have "N - p = length pre + length bs" by (metis length_append length_drop)
  with c(2) have "checked_record_count N (cur_pos c) count len what = Inr n"
    using assms(1-3) c(3) by (auto simp: checked_record_count_Inr)
  moreover have "\<exists>c'. k n c = Inr (y, c')" using assms(4) c by (auto simp: oreads_def)
  ultimately show "\<exists>c'. rcount N count len what k c = Inr (y, c')" by (simp add: rcount_def)
qed

lemma oreads_payload:
  assumes "N \<le> usize_max" and "n = unat len" and "n + 4 \<le> length bs"
    and "oreads N p pre (k n) bs y"
  shows "oreads N p pre (rpayload N len what k) bs y"
  unfolding oreads_def
proof (intro allI impI, elim conjE)
  fix c :: cursor
  assume c: "length (cur_bytes c) = N" "p \<le> N" "cur_pos c = p + length pre"
    "drop p (cur_bytes c) = pre @ bs"
  then have "N - p = length pre + length bs" by (metis length_append length_drop)
  with c(2) have "checked_payload_len N (cur_pos c) len what = Inr n"
    using assms(1-3) c(3) by (auto simp: checked_payload_len_Inr)
  moreover have "\<exists>c'. k n c = Inr (y, c')" using assms(4) c by (auto simp: oreads_def)
  ultimately show "\<exists>c'. rpayload N len what k c = Inr (y, c')" by (simp add: rpayload_def)
qed

lemma oreads_run: "oreads (length bs) 0 [] r bs x \<Longrightarrow> run_reader r bs = Inr x"
  unfolding oreads_def run_reader_def by (drule spec [of _ "cursor_new bs"]) auto

text \<open>
  A part of an object body whose reader looks at the object's length: \<open>ireads N r bs x\<close> is \<open>reads\<close>
  for objects of \<open>N\<close> bytes in which at least the checksum follows.
\<close>

definition ireads :: "nat \<Rightarrow> 'a reader \<Rightarrow> bytes \<Rightarrow> 'a \<Rightarrow> bool" where
  "ireads N r bs x \<longleftrightarrow>
     (\<forall>c rest. length (cur_bytes c) = N \<and> drop (cur_pos c) (cur_bytes c) = bs @ rest \<and> 4 \<le> length rest \<longrightarrow>
        r c = Inr (x, c\<lparr>cur_pos := cur_pos c + length bs\<rparr>))"

lemma ireads_reads: "reads r bs x \<Longrightarrow> ireads N r bs x"
  by (simp add: reads_def ireads_def)

lemma ireads_ret [reads_intros]: "x = y \<Longrightarrow> ireads N (rret x) [] y"
  by (simp add: ireads_def rret_def)

lemma ireads_try [reads_intros]: "r = Inr x \<Longrightarrow> ireads N (k x) bs y \<Longrightarrow> ireads N (rtry r k) bs y"
  by (simp add: ireads_def rtry_def)

lemma ireads_if_not [reads_intros]: "\<not> P \<Longrightarrow> ireads N r bs x \<Longrightarrow> ireads N (if P then rfail e else r) bs x"
  by simp

lemma ireads_bind:
  assumes "ireads N m as x" and "ireads N (k x) bs y"
  shows "ireads N (rbind m k) (as @ bs) y"
  unfolding ireads_def
proof (intro allI impI, elim conjE)
  fix c :: cursor and rest
  assume c: "length (cur_bytes c) = N" "4 \<le> length rest"
    and d: "drop (cur_pos c) (cur_bytes c) = (as @ bs) @ rest"
  then have d1: "drop (cur_pos c) (cur_bytes c) = as @ (bs @ rest)" by simp
  then have "drop (cur_pos c + length as) (cur_bytes c) = bs @ rest" by (rule drop_after)
  moreover from assms(1) c d1 have "m c = Inr (x, c\<lparr>cur_pos := cur_pos c + length as\<rparr>)"
    unfolding ireads_def by simp
  ultimately show "rbind m k c = Inr (y, c\<lparr>cur_pos := cur_pos c + length (as @ bs)\<rparr>)"
    using assms(2) c by (simp add: ireads_def rbind_def add.assoc)
qed

lemma ireads_bind_ret: "ireads N m bs x \<Longrightarrow> y = f x \<Longrightarrow> ireads N (rbind m (\<lambda>x. rret (f x))) bs y"
  using ireads_bind [of N m bs x "\<lambda>x. rret (f x)" "[]" y] ireads_ret [of "f x" y N] by simp

lemma ireads_payload:
  assumes "N \<le> usize_max" and "n = unat len" and "n \<le> length bs" and "ireads N (k n) bs y"
  shows "ireads N (rpayload N len what k) bs y"
  unfolding ireads_def
proof (intro allI impI, elim conjE)
  fix c :: cursor and rest
  assume c: "length (cur_bytes c) = N" "drop (cur_pos c) (cur_bytes c) = bs @ rest" "4 \<le> length rest"
  then have "N - cur_pos c = length bs + length rest" by (metis length_append length_drop)
  with c(3) have "checked_payload_len N (cur_pos c) len what = Inr n"
    using assms(1-3) by (auto simp: checked_payload_len_Inr)
  moreover have "k n c = Inr (y, c\<lparr>cur_pos := cur_pos c + length bs\<rparr>)"
    using assms(4) c by (auto simp: ireads_def)
  ultimately show "rpayload N len what k c = Inr (y, c\<lparr>cur_pos := cur_pos c + length bs\<rparr>)"
    by (simp add: rpayload_def)
qed

lemma oreads_ibind:
  assumes "ireads N m as x" and "4 \<le> length bs" and "oreads N p (pre @ as) (k x) bs y"
  shows "oreads N p pre (rbind m k) (as @ bs) y"
  unfolding oreads_def
proof (intro allI impI, elim conjE)
  fix c :: cursor
  assume c: "length (cur_bytes c) = N" "p \<le> N" "cur_pos c = p + length pre"
    and d: "drop p (cur_bytes c) = pre @ as @ bs"
  from d have "drop (cur_pos c) (cur_bytes c) = as @ bs"
    using drop_after [of p "cur_bytes c" pre "as @ bs"] by (simp add: c)
  then have "m c = Inr (x, c\<lparr>cur_pos := cur_pos c + length as\<rparr>)"
    using assms(1,2) c(1) by (simp add: ireads_def)
  moreover have "\<exists>c'. k x (c\<lparr>cur_pos := cur_pos c + length as\<rparr>) = Inr (y, c')"
    using assms(3) c d unfolding oreads_def by (auto simp: add.assoc)
  ultimately show "\<exists>c'. rbind m k c = Inr (y, c')" by (auto simp: rbind_def)
qed

text \<open>What a successful read has consumed.\<close>

definition consumed :: "cursor \<Rightarrow> bytes \<Rightarrow> cursor \<Rightarrow> bool" where
  "consumed c bs c' \<longleftrightarrow>
     c' = c\<lparr>cur_pos := cur_pos c + length bs\<rparr> \<and>
     drop (cur_pos c) (cur_bytes c) = bs @ drop (cur_pos c') (cur_bytes c)"

lemma consumed_Nil: "consumed c [] c"
  by (simp add: consumed_def)

lemma consumed_append: "consumed c as c1 \<Longrightarrow> consumed c1 bs c2 \<Longrightarrow> consumed c (as @ bs) c2"
  by (auto simp: consumed_def add.assoc)

lemma read_exact_consumed: "read_exact_ocb n c = Inr (bs, c') \<Longrightarrow> consumed c bs c' \<and> length bs = n"
  by (auto simp: read_exact_ocb_def consumed_def min_def add.commute simp flip: drop_drop split: if_splits)

lemma read_uint_consumed:
  "read_u16 c = Inr (a, c') \<Longrightarrow> consumed c (write_u16 a) c'"
  "read_u32 c = Inr (b, c') \<Longrightarrow> consumed c (write_u32 b) c'"
  "read_i32 c = Inr (i, c') \<Longrightarrow> consumed c (write_i32 i) c'"
  "read_u64 c = Inr (d, c') \<Longrightarrow> consumed c (write_u64 d) c'"
  using to_from_le_bytes [where ?'a = 16] to_from_le_bytes [where ?'a = 32] to_from_le_bytes [where ?'a = 64]
  by (auto simp: read_u16_def read_u32_def read_i32_def read_u64_def write_u16_def write_u32_def
      write_i32_def write_u64_def rbind_def rret_def sbind_eq_Inr dest!: read_exact_consumed)

text \<open>Readers move the position and leave the bytes alone.\<close>

definition keeps_bytes :: "'a reader \<Rightarrow> bool" where
  "keeps_bytes r \<longleftrightarrow> (\<forall>c x c'. r c = Inr (x, c') \<longrightarrow> cur_bytes c' = cur_bytes c)"

lemma keeps_bytes_reads [simp]:
  "keeps_bytes (read_exact_ocb n)" "keeps_bytes read_u16" "keeps_bytes read_u32"
  "keeps_bytes read_i32" "keeps_bytes read_u64"
  unfolding keeps_bytes_def by (auto simp: consumed_def dest!: read_exact_consumed read_uint_consumed)

lemma keeps_bytes_ret [simp]: "keeps_bytes (rret x)"
  by (simp add: keeps_bytes_def reader_Inr)

lemma keeps_bytesD: "keeps_bytes m \<Longrightarrow> m c = Inr (x, c') \<Longrightarrow> c' = c\<lparr>cur_pos := cur_pos c'\<rparr>"
  by (simp add: keeps_bytes_def)

lemma rbind_keeps_bytes:
  "keeps_bytes m \<Longrightarrow> rbind m k c = Inr r \<longleftrightarrow>
     (\<exists>x p. m c = Inr (x, c\<lparr>cur_pos := p\<rparr>) \<and> k x (c\<lparr>cur_pos := p\<rparr>) = Inr r)"
  unfolding reader_Inr(3) by (metis keeps_bytesD)

lemma keeps_bytes_intros:
  "keeps_bytes (rfail e)"
  "keeps_bytes m \<Longrightarrow> (\<And>x. keeps_bytes (k x)) \<Longrightarrow> keeps_bytes (rbind m k)"
  "(\<And>x. keeps_bytes (k' x)) \<Longrightarrow> keeps_bytes (rtry t k')"
  "keeps_bytes s \<Longrightarrow> keeps_bytes u \<Longrightarrow> keeps_bytes (if P then s else u)"
  "(\<And>q. keeps_bytes (g q)) \<Longrightarrow> keeps_bytes (rmark g)"
  "keeps_bytes s \<Longrightarrow> keeps_bytes (rset_position p s)"
  "(\<And>d. keeps_bytes (g' d)) \<Longrightarrow> keeps_bytes (rslice i j g')"
  "(\<And>n. keeps_bytes (g'' n)) \<Longrightarrow> keeps_bytes (rpayload t0 l w g'')"
  "(\<And>n. keeps_bytes (g'' n)) \<Longrightarrow> keeps_bytes (rcount t0 cnt rl w g'')"
  unfolding keeps_bytes_def reader_Inr by (auto split: if_splits)

lemmas keeps_bytes_Inr = reader_Inr(1,2,4-10) rbind_keeps_bytes

lemma consumed_reads: "reads r bs x \<Longrightarrow> consumed c bs c' \<Longrightarrow> r c = Inr (x, c')"
  by (auto simp: reads_def consumed_def)

text \<open>A fixed-size object is read from the front of any longer stream.\<close>

lemma rbind_exact_decode:
  assumes "decode bs = Inr x" and "length bs = n"
  shows "reads (rbind (read_exact_ocb n) (\<lambda>buf. rtry (decode buf) rret)) bs x"
proof -
  have "reads (rtry (decode bs) rret) [] x" by (rule reads_try [OF assms(1) reads_ret])
  from reads_bind [where k = "\<lambda>buf. rtry (decode buf) rret", OF reads_exact [OF assms(2)] this]
  show ?thesis by simp
qed

section \<open>Enumerations\<close>

locale enum_codec =
  fixes to_raw :: "'k \<Rightarrow> 'w"
    and from_raw :: "'w \<Rightarrow> 'k result"
  assumes from_to: "from_raw (to_raw k) = Inr k"
    and to_from: "from_raw w = Inr k \<Longrightarrow> to_raw k = w"
begin

lemma from_raw_iff: "from_raw w = Inr k \<longleftrightarrow> w = to_raw k"
  using from_to to_from by blast

lemma to_raw_inject: "to_raw a = to_raw b \<longleftrightarrow> a = b"
  by (metis from_to sum.inject(2))

lemma reads_try_enum: "reads (f k) bs y \<Longrightarrow> reads (rtry (from_raw (to_raw k)) f) bs y"
  by (simp add: reads_try from_to)

end

section \<open>Fixed-width records\<close>

locale record_codec =
  fixes wr :: "'a \<Rightarrow> bytes result"
    and rd :: "'a reader"
    and width :: nat
  assumes reads_wr: "wr x = Inr bs \<Longrightarrow> reads rd bs x"
    and wr_width: "wr x = Inr bs \<Longrightarrow> length bs = width"
begin

lemma write_each_Nil: "write_each wr [] = Inr []"
  by (simp add: write_each_def)

lemma write_each_Cons:
  "write_each wr (x # xs) = Inr bs \<longleftrightarrow>
     (\<exists>b bs'. wr x = Inr b \<and> write_each wr xs = Inr bs' \<and> bs = b @ bs')"
  by (auto simp: write_each_def sbind_eq_Inr)

lemma length_write_each: "write_each wr xs = Inr bs \<Longrightarrow> length bs = length xs * width"
proof (induction xs arbitrary: bs)
  case Nil
  then show ?case by (simp add: write_each_Nil)
next
  case (Cons x xs)
  then show ?case by (auto simp: write_each_Cons wr_width)
qed

lemma reads_validate:
  "write_each wr xs = Inr bs \<Longrightarrow> reads (validate_record_sequence rd (length xs)) bs ()"
proof (induction xs arbitrary: bs)
  case Nil
  then show ?case by (simp add: write_each_Nil reads_ret)
next
  case (Cons x xs)
  then obtain b bs' where "wr x = Inr b" "write_each wr xs = Inr bs'" and bs: "bs = b @ bs'"
    by (auto simp: write_each_Cons)
  then show ?case
    using reads_bind [OF reads_wr, of x b "\<lambda>_. validate_record_sequence rd (length xs)"] Cons.IH
    by (simp add: bs)
qed

lemma reads_records: "write_each wr xs = Inr bs \<Longrightarrow> reads (read_records rd (length xs)) bs xs"
proof (induction xs arbitrary: bs)
  case Nil
  then show ?case by (simp add: write_each_Nil reads_ret)
next
  case (Cons x xs)
  then obtain b bs' where w: "wr x = Inr b" "write_each wr xs = Inr bs'" and bs: "bs = b @ bs'"
    by (auto simp: write_each_Cons)
  have "reads (rbind (read_records rd (length xs)) (\<lambda>ys. rret (x # ys))) bs' (x # xs)"
    using Cons.IH [OF w(2)] by (rule reads_bind_ret) simp
  then show ?case
    using reads_bind [OF reads_wr [OF w(1)], of "\<lambda>x. rbind (read_records rd (length xs)) (\<lambda>ys. rret (x # ys))"]
    by (simp add: bs)
qed

lemma reads_record_sequence:
  assumes "write_each wr xs = Inr bs" and "try_reserve_exact h ty (length xs) msg"
  shows "reads (read_record_sequence h ty (length xs) msg rd) bs xs"
proof -
  have "reads (rbind (read_records rd (length xs)) (\<lambda>ys. rret ([] @ ys))) bs xs"
    by (rule reads_bind_ret [OF reads_records [OF assms(1)]]) simp
  then show ?thesis
    unfolding read_record_sequence_def
    by (rule reads_try [rotated]) (simp add: try_vec_with_capacity_def assms(2))
qed

end

text \<open>
  A record whose bytes are all kept: the reader accepts exactly the images of the writer, so
  decoding is injective and re-encoding gives back the very bytes that were read.
\<close>

locale lossless_codec = record_codec +
  assumes rd_consumed: "rd c = Inr (x, c') \<Longrightarrow> \<exists>bs. wr x = Inr bs \<and> consumed c bs c'"
begin

lemma rd_iff: "rd c = Inr (x, c') \<longleftrightarrow> (\<exists>bs. wr x = Inr bs \<and> consumed c bs c')"
  by (auto dest: rd_consumed intro: consumed_reads [OF reads_wr])

lemma read_records_consumed:
  "read_records rd n c = Inr (xs, c') \<Longrightarrow> \<exists>bs. write_each wr xs = Inr bs \<and> consumed c bs c'"
proof (induction n arbitrary: c xs)
  case 0
  then show ?case by (auto simp: rret_def write_each_Nil consumed_Nil)
next
  case (Suc n)
  then obtain x c1 ys where x: "rd c = Inr (x, c1)" and ys: "read_records rd n c1 = Inr (ys, c')"
    and xs: "xs = x # ys"
    by (auto simp: rbind_def rret_def sbind_eq_Inr)
  from rd_consumed [OF x] Suc.IH [OF ys] show ?case
    by (auto simp: xs write_each_Cons intro: consumed_append)
qed

end

text \<open>
  The second pass of a two-pass reader cannot meet malformed data: where validation
  succeeded, reading the same records succeeds and ends at the same position.
\<close>

lemma read_records_after_validate:
  "validate_record_sequence rd n c = Inr (u, c') \<Longrightarrow>
     \<exists>xs. length xs = n \<and> read_records rd n c = Inr (xs, c')"
proof (induction n arbitrary: c)
  case 0
  then show ?case by (simp add: rret_def)
next
  case (Suc n)
  then obtain x c1 where x: "rd c = Inr (x, c1)"
    and v: "validate_record_sequence rd n c1 = Inr (u, c')"
    by (auto simp: rbind_def sbind_eq_Inr)
  from Suc.IH [OF v] obtain xs where "length xs = n" "read_records rd n c1 = Inr (xs, c')" by blast
  with x show ?case by (auto simp: rbind_def rret_def intro!: exI [of _ "x # xs"])
qed

section \<open>Sealed objects\<close>

lemma length_seal_object [simp]: "4 \<le> length buf \<Longrightarrow> length (seal_object buf) = length buf"
  by (simp add: seal_object_def write_u32_at_end_def)

lemma take_seal_object: "take (length buf - 4) (seal_object buf) = take (length buf - 4) buf"
  by (simp add: seal_object_def write_u32_at_end_def)

lemma read_u32_at_end_append [simp]: "read_u32_at_end (body @ write_u32 v) = Inr v"
  by (simp add: read_u32_at_end_def write_u32_def from_to_le_bytes)

lemma write_u32_at_end_append:
  "length tr = 4 \<Longrightarrow> write_u32_at_end (body @ tr) v = body @ write_u32 v"
  by (simp add: write_u32_at_end_def write_u32_def)

lemma seal_object_append: "seal_object (body @ write_u32 0) = body @ write_u32 (crc32c (body @ write_u32 0))"
  by (simp add: seal_object_def write_u32_at_end_append)

lemma write_u32_0: "write_u32 0 = replicate 4 0"
  by (simp add: write_u32_def)

text \<open>The verification every object reader starts with.\<close>

definition crc_verified :: "bytes \<Rightarrow> bool" where
  "crc_verified bs \<longleftrightarrow>
     4 \<le> length bs \<and> read_u32_at_end bs = Inr (crc32c (write_u32_at_end bs 0))"

lemma crc_verified_append:
  "crc_verified (body @ write_u32 v) \<longleftrightarrow> v = crc32c (body @ write_u32 0)"
  by (auto simp: crc_verified_def write_u32_at_end_append)

lemma crc_verified_seal: "crc_verified (seal_object (body @ write_u32 0))"
  by (simp add: seal_object_append crc_verified_append)

text \<open>Buffers that end in the four zero bytes the checksum is stored over.\<close>

definition has_trailer :: "bytes \<Rightarrow> bool" where
  "has_trailer buf \<longleftrightarrow> (\<exists>body. buf = body @ write_u32 0)"

lemma has_trailer_intros [intro]:
  "has_trailer (write_u32 0)"
  "has_trailer bs \<Longrightarrow> has_trailer (as @ bs)"
  by (auto simp: has_trailer_def intro: exI [of _ "[]"])

lemma has_trailer_length: "has_trailer bs \<Longrightarrow> 4 \<le> length bs"
  by (auto simp: has_trailer_def)

text \<open>
  The opening steps of every object reader: take the stored checksum, zero it, compare it
  with the checksum of the buffer, and go on with the zeroed buffer.
\<close>

definition open_object :: "string \<Rightarrow> bytes \<Rightarrow> (u32 \<Rightarrow> bytes \<Rightarrow> 'a result) \<Rightarrow> 'a result" where
  "open_object mismatch_message bs k =
     sbind (read_u32_at_end bs) (\<lambda>actual_crc.
       let bs = write_u32_at_end bs 0;
           expected_crc = crc32c bs
       in if actual_crc \<noteq> expected_crc then Inl (ocb_corrupt_file mismatch_message)
          else k actual_crc bs)"

lemma open_object_rejects:
  "4 \<le> length bs \<Longrightarrow> \<not> crc_verified bs \<Longrightarrow> open_object m bs k = Inl (ocb_corrupt_file m)"
  by (auto simp: open_object_def crc_verified_def read_u32_at_end_def Let_def)

lemma open_object_seal: "has_trailer buf \<Longrightarrow> open_object m (seal_object buf) k = k (crc32c buf) buf"
  by (auto simp: has_trailer_def open_object_def seal_object_append write_u32_at_end_append Let_def)

lemma open_object_Inr:
  "open_object m bs k = Inr x \<longleftrightarrow>
     crc_verified bs \<and> k (crc32c (write_u32_at_end bs 0)) (write_u32_at_end bs 0) = Inr x"
  by (auto simp: open_object_def crc_verified_def read_u32_at_end_def sbind_eq_Inr Let_def
      split: if_splits)

locale sealed_codec =
  fixes enc :: "'a \<Rightarrow> bytes result"
    and wr :: "'a \<Rightarrow> bytes result"
    and rd :: "bytes \<Rightarrow> 'b result"
    and message :: string
  assumes wr_seal: "wr x = sbind (enc x) (\<lambda>buf. Inr (seal_object buf))"
    and enc_trailer: "enc x = Inr buf \<Longrightarrow> has_trailer buf"
    and rd_crc: "4 \<le> length bs \<Longrightarrow> \<not> crc_verified bs \<Longrightarrow> rd bs = Inl (ocb_corrupt_file message)"
begin

lemma wr_body:
  assumes "wr x = Inr bs"
  obtains body where "enc x = Inr (body @ write_u32 0)"
    and "bs = body @ write_u32 (crc32c (body @ write_u32 0))"
proof -
  from assms obtain buf where buf: "enc x = Inr buf" "bs = seal_object buf"
    by (auto simp: wr_seal sbind_eq_Inr)
  from enc_trailer [OF buf(1)] obtain body where "buf = body @ write_u32 0"
    by (auto simp: has_trailer_def)
  with buf that show thesis by (simp add: seal_object_append)
qed

text \<open>Any change confined to four consecutive body bytes, and any change of the stored checksum, is refused.\<close>

lemma body_burst_rejected:
  assumes "wr x = Inr (p @ w @ q)" and "4 \<le> length q"
    and "length v = length w" and "length w \<le> 4" and "v \<noteq> w"
  shows "rd (p @ v @ q) = Inl (ocb_corrupt_file message)"
proof -
  from assms(1) obtain body where body:
    "p @ w @ q = body @ write_u32 (crc32c (body @ write_u32 0))"
    by (rule wr_body)
  define q' where "q' = take (length q - 4) q"
  have "body = take (length (p @ w @ q) - 4) (p @ w @ q)" using body by simp
  then have b: "body = p @ w @ q'" using assms(2) by (simp add: q'_def)
  with body have q: "q = q' @ write_u32 (crc32c ((p @ w @ q') @ write_u32 0))" by simp
  have "crc32c (p @ v @ (q' @ write_u32 0)) \<noteq> crc32c (p @ w @ (q' @ write_u32 0))"
    using assms(3-5) by (rule crc32c_burst_detected)
  then have "\<not> crc_verified ((p @ v @ q') @ write_u32 (crc32c ((p @ w @ q') @ write_u32 0)))"
    unfolding crc_verified_append by (metis append.assoc)
  then show ?thesis using rd_crc by (simp add: q)
qed

lemma trailer_rejected:
  assumes "wr x = Inr (body @ t)" and "length t = 4" and "length t' = 4" and "t' \<noteq> t"
  shows "rd (body @ t') = Inl (ocb_corrupt_file message)"
proof -
  from assms(1) obtain body' where body:
    "body @ t = body' @ write_u32 (crc32c (body' @ write_u32 0))"
    by (rule wr_body)
  with assms(2) have t: "t = write_u32 (crc32c (body @ write_u32 0))" by simp
  have t': "t' = write_u32 (from_le_bytes t')"
    using to_from_le_bytes [of t', where ?'a = 32] assms(3) by (simp add: write_u32_def)
  have "\<not> crc_verified (body @ write_u32 (from_le_bytes t'))"
    unfolding crc_verified_append using assms(4) t t' by metis
  then show ?thesis using rd_crc [of "body @ t'"] assms(3) t' by simp
qed

end

section \<open>Objects read within a budget\<close>

text \<open>
  The metadata objects share one contract: their writer seals an encoding, their reader opens
  the seal and reads the fields; it gives back what was written when memory and budget allow,
  and on any bytes at all a successful read has charged exactly what the result retains.
\<close>

locale budgeted_codec =
  fixes enc :: "'a \<Rightarrow> bytes result"
    and wr :: "'a \<Rightarrow> bytes result"
    and fields :: "host \<Rightarrow> usize \<Rightarrow> u32 \<Rightarrow> MetadataMaterializationBudget \<Rightarrow>
      ('a \<times> MetadataMaterializationBudget) reader"
    and rd :: "host \<Rightarrow> bytes \<Rightarrow> MetadataMaterializationBudget \<Rightarrow>
      ('a \<times> MetadataMaterializationBudget) result"
    and message :: string
    and ok :: "'a \<Rightarrow> bool"
    and retained :: "host \<Rightarrow> 'a \<Rightarrow> nat"
    and stored :: "u32 \<Rightarrow> 'a \<Rightarrow> 'a"
  assumes wr_enc: "wr x = sbind (enc x) (\<lambda>buf. Inr (seal_object buf))"
    and rd_open: "rd h bs b =
      open_object message bs (\<lambda>crc bs. run_reader (fields h (length bs) crc b) bs)"
    and enc_has_trailer: "enc x = Inr buf \<Longrightarrow> has_trailer buf"
    and fields_enc: "enc x = Inr buf \<Longrightarrow> ok x \<Longrightarrow> host_ready h \<Longrightarrow> fits b (retained h x) \<Longrightarrow> N \<le> isize_max \<Longrightarrow>
      oreads N 0 [] (fields h N crc b) buf (stored crc x, charged b (retained h x))"
    and fields_charge: "fields h N crc b c = Inr ((x, b'), c') \<Longrightarrow> length (cur_bytes c) = N \<Longrightarrow>
      charges b b' (retained h x)"
begin

sublocale sealed: sealed_codec enc wr "\<lambda>bs. rd h bs b" message for h b
  by unfold_locales (simp_all add: wr_enc rd_open enc_has_trailer open_object_rejects)

lemma round_trip:
  assumes "wr x = Inr bs" and "ok x" and "length bs \<le> isize_max"
    and "host_ready h" and "fits b (retained h x)"
  shows "\<exists>buf. enc x = Inr buf \<and> rd h bs b = Inr (stored (crc32c buf) x, charged b (retained h x))"
proof -
  from assms(1) obtain buf where buf: "enc x = Inr buf" and bs: "bs = seal_object buf"
    by (auto simp: wr_enc sbind_eq_Inr)
  note tr = enc_has_trailer [OF buf]
  have "length buf \<le> isize_max" using assms(3) has_trailer_length [OF tr] by (simp add: bs)
  from oreads_run [OF fields_enc [OF buf assms(2,4,5) this]] buf show ?thesis
    by (auto simp: bs rd_open open_object_seal tr)
qed

lemma rd_charges: "rd h bs b = Inr (x, b') \<Longrightarrow> charges b b' (retained h x)"
  by (auto simp: rd_open open_object_Inr run_reader_Inr dest!: fields_charge)

lemma rd_crc_verified: "rd h bs b = Inr r \<Longrightarrow> crc_verified bs"
  by (simp add: rd_open open_object_Inr)

end

end
