(* ===== verification/Format_Enums.thy ===== *)
theory Format_Enums
  imports Codec
begin

text \<open>
  The enumerations of \<open>format.rs\<close> with the numbers they are stored as: each datatype lists the
  source's variants, \<open>..._to_u16\<close>/\<open>..._to_u8\<close> is the cast \<open>as u16\<close>/\<open>as u8\<close>, \<open>..._from_u16\<close>/\<open>..._from_u8\<close> the
  checked decoder.  Every one of them interprets \<open>enum_codec\<close>.
\<close>

section \<open>Variants and their numbers\<close>

datatype OcbBodyKindV1 =
    BodyKind_Unknown
  | BodyKind_Root
  | BodyKind_Schema
  | BodyKind_DictionaryIndex
  | BodyKind_DictionaryValues
  | BodyKind_RowGroupIndex
  | BodyKind_OrderingProof
  | BodyKind_ColumnChunk
  | BodyKind_StringTable
  | BodyKind_DebugJsonMetadata
  | BodyKind_ValidityBitmap
  | BodyKind_KeyTuple
  | BodyKind_RowGroupIndexDelta

datatype OcbChecksumKindV1 =
    ChecksumKind_None
  | ChecksumKind_Crc32c

datatype OcbPhysicalTypeV1 =
    Phys_I32
  | Phys_I64
  | Phys_F32
  | Phys_F64
  | Phys_FixedBinary

datatype OcbLogicalKindV1 =
    Logical_Plain
  | Logical_TimestampNanosLike
  | Logical_ScaledInteger
  | Logical_DictionaryCode
  | Logical_EnumCode
  | Logical_OpaqueKey

datatype OcbNullabilityV1 =
    Nullability_NonNull
  | Nullability_Nullable

datatype OcbChunkCodecV1 =
    Codec_None
  | Codec_Zstd

datatype OcbDictionaryValueKindV1 =
    DictValue_Utf8
  | DictValue_Bytes
  | DictValue_FixedBytes
  | DictValue_EnumLabels

datatype OcbOrderingDirectionV1 =
    Direction_Ascending
  | Direction_Descending

datatype OcbNullOrderV1 =
    NullOrder_NullsFirst
  | NullOrder_NullsLast
  | NullOrder_NoNulls

fun OcbBodyKindV1_to_u16 :: "OcbBodyKindV1 \<Rightarrow> u16" where
  "OcbBodyKindV1_to_u16 BodyKind_Unknown = 0"
| "OcbBodyKindV1_to_u16 BodyKind_Root = 1"
| "OcbBodyKindV1_to_u16 BodyKind_Schema = 2"
| "OcbBodyKindV1_to_u16 BodyKind_DictionaryIndex = 3"
| "OcbBodyKindV1_to_u16 BodyKind_DictionaryValues = 4"
| "OcbBodyKindV1_to_u16 BodyKind_RowGroupIndex = 5"
| "OcbBodyKindV1_to_u16 BodyKind_OrderingProof = 6"
| "OcbBodyKindV1_to_u16 BodyKind_ColumnChunk = 7"
| "OcbBodyKindV1_to_u16 BodyKind_StringTable = 8"
| "OcbBodyKindV1_to_u16 BodyKind_DebugJsonMetadata = 9"
| "OcbBodyKindV1_to_u16 BodyKind_ValidityBitmap = 10"
| "OcbBodyKindV1_to_u16 BodyKind_KeyTuple = 11"
| "OcbBodyKindV1_to_u16 BodyKind_RowGroupIndexDelta = 12"

definition OcbBodyKindV1_from_u16 :: "u16 \<Rightarrow> OcbBodyKindV1 result" where
  "OcbBodyKindV1_from_u16 value =
     (if value = 0 then Inr BodyKind_Unknown
      else if value = 1 then Inr BodyKind_Root
      else if value = 2 then Inr BodyKind_Schema
      else if value = 3 then Inr BodyKind_DictionaryIndex
      else if value = 4 then Inr BodyKind_DictionaryValues
      else if value = 5 then Inr BodyKind_RowGroupIndex
      else if value = 6 then Inr BodyKind_OrderingProof
      else if value = 7 then Inr BodyKind_ColumnChunk
      else if value = 8 then Inr BodyKind_StringTable
      else if value = 9 then Inr BodyKind_DebugJsonMetadata
      else if value = 10 then Inr BodyKind_ValidityBitmap
      else if value = 11 then Inr BodyKind_KeyTuple
      else if value = 12 then Inr BodyKind_RowGroupIndexDelta
      else Inl (ocb_corrupt_file ''unknown OCB body kind''))"

fun OcbChecksumKindV1_to_u16 :: "OcbChecksumKindV1 \<Rightarrow> u16" where
  "OcbChecksumKindV1_to_u16 ChecksumKind_None = 0"
| "OcbChecksumKindV1_to_u16 ChecksumKind_Crc32c = 1"

definition OcbChecksumKindV1_from_u16 :: "u16 \<Rightarrow> OcbChecksumKindV1 result" where
  "OcbChecksumKindV1_from_u16 value =
     (if value = 0 then Inr ChecksumKind_None
      else if value = 1 then Inr ChecksumKind_Crc32c
      else Inl (ocb_corrupt_file ''unknown OCB checksum kind''))"

fun OcbPhysicalTypeV1_to_u16 :: "OcbPhysicalTypeV1 \<Rightarrow> u16" where
  "OcbPhysicalTypeV1_to_u16 Phys_I32 = 1"
| "OcbPhysicalTypeV1_to_u16 Phys_I64 = 2"
| "OcbPhysicalTypeV1_to_u16 Phys_F32 = 3"
| "OcbPhysicalTypeV1_to_u16 Phys_F64 = 4"
| "OcbPhysicalTypeV1_to_u16 Phys_FixedBinary = 5"

definition OcbPhysicalTypeV1_from_u16 :: "u16 \<Rightarrow> OcbPhysicalTypeV1 result" where
  "OcbPhysicalTypeV1_from_u16 value =
     (if value = 1 then Inr Phys_I32
      else if value = 2 then Inr Phys_I64
      else if value = 3 then Inr Phys_F32
      else if value = 4 then Inr Phys_F64
      else if value = 5 then Inr Phys_FixedBinary
      else Inl (ocb_corrupt_file ''unknown OCB physical type''))"

fun OcbLogicalKindV1_to_u16 :: "OcbLogicalKindV1 \<Rightarrow> u16" where
  "OcbLogicalKindV1_to_u16 Logical_Plain = 0"
| "OcbLogicalKindV1_to_u16 Logical_TimestampNanosLike = 1"
| "OcbLogicalKindV1_to_u16 Logical_ScaledInteger = 2"
| "OcbLogicalKindV1_to_u16 Logical_DictionaryCode = 3"
| "OcbLogicalKindV1_to_u16 Logical_EnumCode = 4"
| "OcbLogicalKindV1_to_u16 Logical_OpaqueKey = 5"

definition OcbLogicalKindV1_from_u16 :: "u16 \<Rightarrow> OcbLogicalKindV1 result" where
  "OcbLogicalKindV1_from_u16 value =
     (if value = 0 then Inr Logical_Plain
      else if value = 1 then Inr Logical_TimestampNanosLike
      else if value = 2 then Inr Logical_ScaledInteger
      else if value = 3 then Inr Logical_DictionaryCode
      else if value = 4 then Inr Logical_EnumCode
      else if value = 5 then Inr Logical_OpaqueKey
      else Inl (ocb_corrupt_file ''unknown OCB logical kind''))"

fun OcbNullabilityV1_to_u16 :: "OcbNullabilityV1 \<Rightarrow> u16" where
  "OcbNullabilityV1_to_u16 Nullability_NonNull = 0"
| "OcbNullabilityV1_to_u16 Nullability_Nullable = 1"

definition OcbNullabilityV1_from_u16 :: "u16 \<Rightarrow> OcbNullabilityV1 result" where
  "OcbNullabilityV1_from_u16 value =
     (if value = 0 then Inr Nullability_NonNull
      else if value = 1 then Inr Nullability_Nullable
      else Inl (ocb_corrupt_file ''unknown OCB nullability''))"

fun OcbChunkCodecV1_to_u16 :: "OcbChunkCodecV1 \<Rightarrow> u16" where
  "OcbChunkCodecV1_to_u16 Codec_None = 0"
| "OcbChunkCodecV1_to_u16 Codec_Zstd = 1"

definition OcbChunkCodecV1_from_u16 :: "u16 \<Rightarrow> OcbChunkCodecV1 result" where
  "OcbChunkCodecV1_from_u16 value =
     (if value = 0 then Inr Codec_None
      else if value = 1 then Inr Codec_Zstd
      else Inl (ocb_unsupported_format ''unknown OCB chunk codec''))"

fun OcbDictionaryValueKindV1_to_u16 :: "OcbDictionaryValueKindV1 \<Rightarrow> u16" where
  "OcbDictionaryValueKindV1_to_u16 DictValue_Utf8 = 1"
| "OcbDictionaryValueKindV1_to_u16 DictValue_Bytes = 2"
| "OcbDictionaryValueKindV1_to_u16 DictValue_FixedBytes = 3"
| "OcbDictionaryValueKindV1_to_u16 DictValue_EnumLabels = 4"

definition OcbDictionaryValueKindV1_from_u16 :: "u16 \<Rightarrow> OcbDictionaryValueKindV1 result" where
  "OcbDictionaryValueKindV1_from_u16 value =
     (if value = 1 then Inr DictValue_Utf8
      else if value = 2 then Inr DictValue_Bytes
      else if value = 3 then Inr DictValue_FixedBytes
      else if value = 4 then Inr DictValue_EnumLabels
      else Inl (ocb_corrupt_file ''unknown OCB dictionary value kind''))"

fun OcbOrderingDirectionV1_to_u8 :: "OcbOrderingDirectionV1 \<Rightarrow> u8" where
  "OcbOrderingDirectionV1_to_u8 Direction_Ascending = 0"
| "OcbOrderingDirectionV1_to_u8 Direction_Descending = 1"

definition OcbOrderingDirectionV1_from_u8 :: "u8 \<Rightarrow> OcbOrderingDirectionV1 result" where
  "OcbOrderingDirectionV1_from_u8 value =
     (if value = 0 then Inr Direction_Ascending
      else if value = 1 then Inr Direction_Descending
      else Inl (ocb_corrupt_file ''unknown OCB ordering direction''))"

fun OcbNullOrderV1_to_u8 :: "OcbNullOrderV1 \<Rightarrow> u8" where
  "OcbNullOrderV1_to_u8 NullOrder_NullsFirst = 0"
| "OcbNullOrderV1_to_u8 NullOrder_NullsLast = 1"
| "OcbNullOrderV1_to_u8 NullOrder_NoNulls = 2"

definition OcbNullOrderV1_from_u8 :: "u8 \<Rightarrow> OcbNullOrderV1 result" where
  "OcbNullOrderV1_from_u8 value =
     (if value = 0 then Inr NullOrder_NullsFirst
      else if value = 1 then Inr NullOrder_NullsLast
      else if value = 2 then Inr NullOrder_NoNulls
      else Inl (ocb_corrupt_file ''unknown OCB null order''))"

fun primitive_byte_width :: "OcbPhysicalTypeV1 \<Rightarrow> usize option" where
  "primitive_byte_width Phys_I32 = Some 4"
| "primitive_byte_width Phys_F32 = Some 4"
| "primitive_byte_width Phys_I64 = Some 8"
| "primitive_byte_width Phys_F64 = Some 8"
| "primitive_byte_width Phys_FixedBinary = None"

section \<open>Every enumeration is an enum codec\<close>

interpretation body_kind: enum_codec OcbBodyKindV1_to_u16 OcbBodyKindV1_from_u16
proof
  fix k show "OcbBodyKindV1_from_u16 (OcbBodyKindV1_to_u16 k) = Inr k"
    by (cases k) (simp_all add: OcbBodyKindV1_from_u16_def)
next
  fix w k show "OcbBodyKindV1_from_u16 w = Inr k \<Longrightarrow> OcbBodyKindV1_to_u16 k = w"
    by (auto simp: OcbBodyKindV1_from_u16_def split: if_splits)
qed

interpretation checksum_kind: enum_codec OcbChecksumKindV1_to_u16 OcbChecksumKindV1_from_u16
proof
  fix k show "OcbChecksumKindV1_from_u16 (OcbChecksumKindV1_to_u16 k) = Inr k"
    by (cases k) (simp_all add: OcbChecksumKindV1_from_u16_def)
next
  fix w k show "OcbChecksumKindV1_from_u16 w = Inr k \<Longrightarrow> OcbChecksumKindV1_to_u16 k = w"
    by (auto simp: OcbChecksumKindV1_from_u16_def split: if_splits)
qed

interpretation physical_type: enum_codec OcbPhysicalTypeV1_to_u16 OcbPhysicalTypeV1_from_u16
proof
  fix k show "OcbPhysicalTypeV1_from_u16 (OcbPhysicalTypeV1_to_u16 k) = Inr k"
    by (cases k) (simp_all add: OcbPhysicalTypeV1_from_u16_def)
next
  fix w k show "OcbPhysicalTypeV1_from_u16 w = Inr k \<Longrightarrow> OcbPhysicalTypeV1_to_u16 k = w"
    by (auto simp: OcbPhysicalTypeV1_from_u16_def split: if_splits)
qed

interpretation logical_kind: enum_codec OcbLogicalKindV1_to_u16 OcbLogicalKindV1_from_u16
proof
  fix k show "OcbLogicalKindV1_from_u16 (OcbLogicalKindV1_to_u16 k) = Inr k"
    by (cases k) (simp_all add: OcbLogicalKindV1_from_u16_def)
next
  fix w k show "OcbLogicalKindV1_from_u16 w = Inr k \<Longrightarrow> OcbLogicalKindV1_to_u16 k = w"
    by (auto simp: OcbLogicalKindV1_from_u16_def split: if_splits)
qed

interpretation nullability: enum_codec OcbNullabilityV1_to_u16 OcbNullabilityV1_from_u16
proof
  fix k show "OcbNullabilityV1_from_u16 (OcbNullabilityV1_to_u16 k) = Inr k"
    by (cases k) (simp_all add: OcbNullabilityV1_from_u16_def)
next
  fix w k show "OcbNullabilityV1_from_u16 w = Inr k \<Longrightarrow> OcbNullabilityV1_to_u16 k = w"
    by (auto simp: OcbNullabilityV1_from_u16_def split: if_splits)
qed

interpretation chunk_codec: enum_codec OcbChunkCodecV1_to_u16 OcbChunkCodecV1_from_u16
proof
  fix k show "OcbChunkCodecV1_from_u16 (OcbChunkCodecV1_to_u16 k) = Inr k"
    by (cases k) (simp_all add: OcbChunkCodecV1_from_u16_def)
next
  fix w k show "OcbChunkCodecV1_from_u16 w = Inr k \<Longrightarrow> OcbChunkCodecV1_to_u16 k = w"
    by (auto simp: OcbChunkCodecV1_from_u16_def split: if_splits)
qed

interpretation dict_value_kind: enum_codec OcbDictionaryValueKindV1_to_u16 OcbDictionaryValueKindV1_from_u16
proof
  fix k show "OcbDictionaryValueKindV1_from_u16 (OcbDictionaryValueKindV1_to_u16 k) = Inr k"
    by (cases k) (simp_all add: OcbDictionaryValueKindV1_from_u16_def)
next
  fix w k show "OcbDictionaryValueKindV1_from_u16 w = Inr k \<Longrightarrow> OcbDictionaryValueKindV1_to_u16 k = w"
    by (auto simp: OcbDictionaryValueKindV1_from_u16_def split: if_splits)
qed

interpretation ordering_direction: enum_codec OcbOrderingDirectionV1_to_u8 OcbOrderingDirectionV1_from_u8
proof
  fix k show "OcbOrderingDirectionV1_from_u8 (OcbOrderingDirectionV1_to_u8 k) = Inr k"
    by (cases k) (simp_all add: OcbOrderingDirectionV1_from_u8_def)
next
  fix w k show "OcbOrderingDirectionV1_from_u8 w = Inr k \<Longrightarrow> OcbOrderingDirectionV1_to_u8 k = w"
    by (auto simp: OcbOrderingDirectionV1_from_u8_def split: if_splits)
qed

interpretation null_order: enum_codec OcbNullOrderV1_to_u8 OcbNullOrderV1_from_u8
proof
  fix k show "OcbNullOrderV1_from_u8 (OcbNullOrderV1_to_u8 k) = Inr k"
    by (cases k) (simp_all add: OcbNullOrderV1_from_u8_def)
next
  fix w k show "OcbNullOrderV1_from_u8 w = Inr k \<Longrightarrow> OcbNullOrderV1_to_u8 k = w"
    by (auto simp: OcbNullOrderV1_from_u8_def split: if_splits)
qed

lemmas enum_from_to [reads_intros, codec_simps] =
  body_kind.from_to
  checksum_kind.from_to
  physical_type.from_to
  logical_kind.from_to
  nullability.from_to
  chunk_codec.from_to
  dict_value_kind.from_to
  ordering_direction.from_to
  null_order.from_to

end
