(* ===== verification/Body_Ref.thy ===== *)
theory Body_Ref
  imports Format_Enums
begin

text \<open>
  Body references (\<open>OcbBodyRefV2\<close> of \<open>format.rs\<close>): the 32-byte pointers that connect all objects of
  a file, their validation against the file length, and the checks for optional references.
\<close>

section \<open>References\<close>

record OcbBodyRefV2 =
  br_offset :: u64
  br_length :: u64
  br_kind :: OcbBodyKindV1
  br_flags :: u16
  br_checksum_kind :: OcbChecksumKindV1
  br_reserved0 :: u16
  br_checksum :: u32
  br_reserved1 :: u32

definition OCB_BODY_REF_V2_LEN :: nat where
  "OCB_BODY_REF_V2_LEN = 32"

definition OcbBodyRefV2_NULL :: OcbBodyRefV2 where
  "OcbBodyRefV2_NULL =
     \<lparr>br_offset = 0, br_length = 0, br_kind = BodyKind_Unknown, br_flags = 0,
      br_checksum_kind = ChecksumKind_None, br_reserved0 = 0, br_checksum = 0, br_reserved1 = 0\<rparr>"

definition OcbBodyRefV2_new :: "u64 \<Rightarrow> u64 \<Rightarrow> OcbBodyKindV1 \<Rightarrow> u32 \<Rightarrow> OcbBodyRefV2" where
  "OcbBodyRefV2_new off len kind checksum =
     \<lparr>br_offset = off, br_length = len, br_kind = kind, br_flags = 0,
      br_checksum_kind = ChecksumKind_Crc32c, br_reserved0 = 0, br_checksum = checksum,
      br_reserved1 = 0\<rparr>"

definition is_null :: "OcbBodyRefV2 \<Rightarrow> bool" where
  "is_null r \<longleftrightarrow> br_offset r = 0 \<and> br_length r = 0 \<and> br_kind r = BodyKind_Unknown"

definition OcbBodyRefV2_validate :: "OcbBodyRefV2 \<Rightarrow> OcbBodyKindV1 \<Rightarrow> u64 \<Rightarrow> unit result" where
  "OcbBodyRefV2_validate self expected_kind file_len =
     (if is_null self then Inl (ocb_corrupt_file ''OCB body reference is null'')
      else if br_kind self \<noteq> expected_kind
        then Inl (ocb_corrupt_file ''OCB body reference kind mismatch'')
      else sbind (ok_or (checked_add (br_offset self) (br_length self))
                   (ocb_corrupt_file ''OCB body reference range overflows'')) (\<lambda>stop.
           if stop > file_len
           then Inl (ocb_corrupt_file ''OCB body reference extends beyond file length'')
           else Inr ()))"

definition OcbBodyRefV2_write_to :: "OcbBodyRefV2 \<Rightarrow> bytes" where
  "OcbBodyRefV2_write_to self =
     write_u64 (br_offset self) @
     write_u64 (br_length self) @
     write_u16 (OcbBodyKindV1_to_u16 (br_kind self)) @
     write_u16 (br_flags self) @
     write_u16 (OcbChecksumKindV1_to_u16 (br_checksum_kind self)) @
     write_u16 (br_reserved0 self) @
     write_u32 (br_checksum self) @
     write_u32 (br_reserved1 self)"

definition OcbBodyRefV2_read_from :: "OcbBodyRefV2 reader" where
  "OcbBodyRefV2_read_from =
     rbind read_u64 (\<lambda>off.
     rbind read_u64 (\<lambda>len.
     rbind read_u16 (\<lambda>kind_raw.
     rtry (OcbBodyKindV1_from_u16 kind_raw) (\<lambda>kind.
     rbind read_u16 (\<lambda>flags.
     rbind read_u16 (\<lambda>checksum_kind_raw.
     rtry (OcbChecksumKindV1_from_u16 checksum_kind_raw) (\<lambda>checksum_kind.
     rbind read_u16 (\<lambda>reserved0.
     rbind read_u32 (\<lambda>checksum.
     rbind read_u32 (\<lambda>reserved1.
     rret \<lparr>br_offset = off, br_length = len, br_kind = kind, br_flags = flags,
           br_checksum_kind = checksum_kind, br_reserved0 = reserved0, br_checksum = checksum,
           br_reserved1 = reserved1\<rparr>))))))))))"

section \<open>Optional references\<close>

definition validate_optional_ref_any_kind ::
  "OcbBodyRefV2 \<Rightarrow> OcbBodyKindV1 list \<Rightarrow> u64 \<Rightarrow> unit result" where
  "validate_optional_ref_any_kind reference expected_kinds file_len =
     (if is_null reference then Inr ()
      else if br_kind reference \<in> set expected_kinds
        then OcbBodyRefV2_validate reference (br_kind reference) file_len
      else Inl (ocb_invalid_input ''OCB body reference has unexpected kind''))"

definition validate_optional_ref :: "OcbBodyRefV2 \<Rightarrow> OcbBodyKindV1 \<Rightarrow> u64 \<Rightarrow> unit result" where
  "validate_optional_ref reference expected_kind file_len =
     validate_optional_ref_any_kind reference [expected_kind] file_len"

definition validate_optional_ref_kinds ::
  "OcbBodyRefV2 \<Rightarrow> OcbBodyKindV1 list \<Rightarrow> string \<Rightarrow> unit result" where
  "validate_optional_ref_kinds reference expected_kinds message =
     (if \<not> is_null reference \<and> br_kind reference \<notin> set expected_kinds
      then Inl (ocb_invalid_input message) else Inr ())"

definition validate_optional_ref_kind :: "OcbBodyRefV2 \<Rightarrow> OcbBodyKindV1 \<Rightarrow> string \<Rightarrow> unit result" where
  "validate_optional_ref_kind reference expected_kind message =
     validate_optional_ref_kinds reference [expected_kind] message"

text \<open>What a validated reference points at: a non-empty range of the file of the right kind.\<close>

definition ref_in_file :: "OcbBodyRefV2 \<Rightarrow> OcbBodyKindV1 \<Rightarrow> u64 \<Rightarrow> bool" where
  "ref_in_file r kind file_len \<longleftrightarrow>
     \<not> is_null r \<and> br_kind r = kind \<and> unat (br_offset r) + unat (br_length r) \<le> unat file_len"

text \<open>An absent reference, or one that points at an object of one of the kinds.\<close>

definition optional_ref_in_file :: "OcbBodyRefV2 \<Rightarrow> OcbBodyKindV1 list \<Rightarrow> u64 \<Rightarrow> bool" where
  "optional_ref_in_file r kinds file_len \<longleftrightarrow>
     is_null r \<or> (br_kind r \<in> set kinds \<and> ref_in_file r (br_kind r) file_len)"

section \<open>Validation\<close>

lemma is_null_NULL [simp]: "is_null OcbBodyRefV2_NULL"
  by (simp add: is_null_def OcbBodyRefV2_NULL_def)

lemma OcbBodyRefV2_validate_Inr:
  "OcbBodyRefV2_validate r kind file_len = Inr u \<longleftrightarrow> ref_in_file r kind file_len"
proof -
  have fl: "unat file_len < 2 ^ 64" using unsigned_less [of file_len, where ?'a = nat] by simp
  show ?thesis
  proof (cases "checked_add (br_offset r) (br_length r)")
    case None
    then have "\<not> unat (br_offset r) + unat (br_length r) \<le> unat file_len"
      using fl by (simp add: checked_add_None)
    with None show ?thesis by (simp add: OcbBodyRefV2_validate_def ref_in_file_def)
  next
    case (Some stop)
    from checked_add_Some [OF this] Some show ?thesis
      by (simp add: OcbBodyRefV2_validate_def ref_in_file_def not_less word_le_nat_alt word_less_nat_alt)
  qed
qed

lemma OcbBodyRefV2_validate_Inl:
  "OcbBodyRefV2_validate r kind file_len = Inl e \<Longrightarrow> ocb_failure_cause e = Some Cause_CorruptFile"
  by (auto simp: OcbBodyRefV2_validate_def sbind_eq_Inl split: if_splits)

lemma validate_optional_ref_any_kind_Inr:
  "validate_optional_ref_any_kind r kinds file_len = Inr u \<longleftrightarrow>
     is_null r \<or> (br_kind r \<in> set kinds \<and> ref_in_file r (br_kind r) file_len)"
  by (auto simp: validate_optional_ref_any_kind_def OcbBodyRefV2_validate_Inr ref_in_file_def)

lemma validate_optional_ref_Inr:
  "validate_optional_ref r kind file_len = Inr u \<longleftrightarrow> is_null r \<or> ref_in_file r kind file_len"
  by (auto simp: validate_optional_ref_def validate_optional_ref_any_kind_Inr ref_in_file_def)

lemma optional_ref_Inr:
  "validate_optional_ref_any_kind r kinds file_len = Inr u \<longleftrightarrow> optional_ref_in_file r kinds file_len"
  "validate_optional_ref r kind file_len = Inr u \<longleftrightarrow> optional_ref_in_file r [kind] file_len"
  by (simp_all add: optional_ref_in_file_def validate_optional_ref_def validate_optional_ref_any_kind_Inr)

lemma validate_optional_ref_kinds_Inr:
  "validate_optional_ref_kinds r kinds msg = Inr u \<longleftrightarrow> is_null r \<or> br_kind r \<in> set kinds"
  by (auto simp: validate_optional_ref_kinds_def)

lemma validate_optional_ref_kind_Inr:
  "validate_optional_ref_kind r kind msg = Inr u \<longleftrightarrow> is_null r \<or> br_kind r = kind"
  by (auto simp: validate_optional_ref_kind_def validate_optional_ref_kinds_Inr)

lemma optional_ref_errs [errs_intros]:
  assumes "\<And>m. P (ocb_invalid_input m)"
  shows "errs P (validate_optional_ref_kinds r kinds msg)"
    and "errs P (validate_optional_ref_kind r kind msg)"
    and "(\<And>m. P (ocb_corrupt_file m)) \<Longrightarrow> errs P (validate_optional_ref_any_kind r kinds file_len)"
    and "(\<And>m. P (ocb_corrupt_file m)) \<Longrightarrow> errs P (validate_optional_ref r kind file_len)"
  using assms
  by (auto simp: validate_optional_ref_kinds_def validate_optional_ref_kind_def
      validate_optional_ref_any_kind_def validate_optional_ref_def OcbBodyRefV2_validate_def
      intro!: errs_intros)

section \<open>Encoding\<close>

lemma length_OcbBodyRefV2_write_to [simp, codec_simps]: "length (OcbBodyRefV2_write_to r) = 32"
  by (simp add: OcbBodyRefV2_write_to_def)

lemma reads_OcbBodyRefV2 [reads_intros]: "reads OcbBodyRefV2_read_from (OcbBodyRefV2_write_to r) r"
  unfolding OcbBodyRefV2_read_from_def OcbBodyRefV2_write_to_def
  by (rule reads_intros | simp; fail)+

interpretation body_ref: record_codec "\<lambda>r. Inr (OcbBodyRefV2_write_to r)" OcbBodyRefV2_read_from OCB_BODY_REF_V2_LEN
  by unfold_locales (auto simp: OCB_BODY_REF_V2_LEN_def intro: reads_OcbBodyRefV2)

text \<open>References carry all their bytes.\<close>

lemma OcbBodyRefV2_read_from_consumed:
  assumes "OcbBodyRefV2_read_from c = Inr (r, c')"
  shows "consumed c (OcbBodyRefV2_write_to r) c'"
proof -
  from assms obtain c1 c2 c3 c4 c5 c6 c7 where
    "consumed c (write_u64 (br_offset r)) c1"
    "consumed c1 (write_u64 (br_length r)) c2"
    "consumed c2 (write_u16 (OcbBodyKindV1_to_u16 (br_kind r))) c3"
    "consumed c3 (write_u16 (br_flags r)) c4"
    "consumed c4 (write_u16 (OcbChecksumKindV1_to_u16 (br_checksum_kind r))) c5"
    "consumed c5 (write_u16 (br_reserved0 r)) c6"
    "consumed c6 (write_u32 (br_checksum r)) c7"
    "consumed c7 (write_u32 (br_reserved1 r)) c'"
    by (auto simp: OcbBodyRefV2_read_from_def rbind_def rtry_def rret_def sbind_eq_Inr
        body_kind.from_raw_iff checksum_kind.from_raw_iff dest!: read_uint_consumed)
  then show ?thesis
    unfolding OcbBodyRefV2_write_to_def by (intro consumed_append)
qed

interpretation body_ref: lossless_codec "\<lambda>r. Inr (OcbBodyRefV2_write_to r)" OcbBodyRefV2_read_from OCB_BODY_REF_V2_LEN
  by unfold_locales (auto dest: OcbBodyRefV2_read_from_consumed)

end
