(* ===== verification/Read_Source.thy ===== *)
theory Read_Source
  imports Body_Ref
begin

text \<open>
  The read source and its cursor (\<open>OcbReadSource\<close>, \<open>OcbReadCursor\<close> of \<open>read.rs\<close>), and
  \<open>Read::read_exact\<close> of the standard library on such a cursor.

  The file is what positioned reads of it return: \<open>rs_read_at off n\<close> is the result of one
  \<open>FileExt::read_at\<close> with a buffer of \<open>n\<close> bytes, the bytes it stored or an error.  A read may be
  short.  Interrupted reads are retried by \<open>read_exact\<close>, and the value stands for the outcome after
  the retries.
\<close>

section \<open>Sources and cursors\<close>

type_synonym 'a io_result = "io_error + 'a"

record OcbReadSource =
  rs_read_at :: "u64 \<Rightarrow> nat \<Rightarrow> bytes io_result"
  rs_file_len :: u64

record OcbReadCursor =
  rc_source :: OcbReadSource
  rc_position :: u64

definition OcbReadSource_cursor :: "OcbReadSource \<Rightarrow> OcbReadCursor" where
  "OcbReadSource_cursor self = \<lparr>rc_source = self, rc_position = 0\<rparr>"

definition saturating_sub :: "u64 \<Rightarrow> u64 \<Rightarrow> u64" where
  "saturating_sub a b = (if b \<le> a then a - b else 0)"

definition OcbReadCursor_read :: "OcbReadCursor \<Rightarrow> nat \<Rightarrow> (bytes \<times> OcbReadCursor) io_result" where
  "OcbReadCursor_read self buffer_len =
     (let remaining = saturating_sub (rs_file_len (rc_source self)) (rc_position self) in
      if buffer_len = 0 \<or> remaining = 0 then Inr ([], self) else
      let available = unat remaining;
          read_len = min buffer_len available in
      sbind (rs_read_at (rc_source self) (rc_position self) read_len) (\<lambda>got.
      sbind (ok_or (checked_add (rc_position self) (of_nat (length got)))
         (IoError IoKind_Other ''OCB read-source cursor position overflows'')) (\<lambda>position.
      Inr (got, self\<lparr>rc_position := position\<rparr>))))"

datatype SeekFrom = Start u64 | End i64 | Current i64

definition OcbReadCursor_seek :: "OcbReadCursor \<Rightarrow> SeekFrom \<Rightarrow> OcbReadCursor io_result" where
  "OcbReadCursor_seek self position =
     (let target =
        (case position of
           Start off \<Rightarrow> uint off
         | End delta \<Rightarrow> uint (rs_file_len (rc_source self)) + sint delta
         | Current delta \<Rightarrow> uint (rc_position self) + sint delta)
      in if 0 \<le> target \<and> target < 2 ^ 64 then Inr (self\<lparr>rc_position := of_int target\<rparr>)
         else Inl (IoError IoKind_InvalidInput ''OCB read-source cursor seek is outside the file envelope''))"

section \<open>Filling a buffer\<close>

function file_read_exact :: "OcbReadCursor \<Rightarrow> nat \<Rightarrow> (bytes \<times> OcbReadCursor) io_result" where
  "file_read_exact c n =
     (if n = 0 then Inr ([], c) else
      sbind (OcbReadCursor_read c n) (\<lambda>(got, c).
      if got = [] then Inl (IoError IoKind_UnexpectedEof ''failed to fill whole buffer'') else
      sbind (file_read_exact c (n - length got)) (\<lambda>(rest, c).
      Inr (got @ rest, c))))"
  by pat_completeness auto
termination
  by (relation "measure snd") auto

declare file_read_exact.simps [simp del]

definition file_read_exact_ocb :: "OcbReadCursor \<Rightarrow> nat \<Rightarrow> (bytes \<times> OcbReadCursor) result" where
  "file_read_exact_ocb reader len =
     (case file_read_exact reader len of
        Inr r \<Rightarrow> Inr r
      | Inl err \<Rightarrow>
          if io_kind err = IoKind_UnexpectedEof then Inl (ocb_corrupt_file ''OCB object is truncated'')
          else Inl (Io err))"

text \<open>\<open>file.seek(SeekFrom::Start(offset))?\<close> with the error converted by \<open>From<io::Error>\<close>.\<close>

definition seek_start :: "OcbReadCursor \<Rightarrow> u64 \<Rightarrow> OcbReadCursor result" where
  "seek_start c off =
     (case OcbReadCursor_seek c (Start off) of Inl err \<Rightarrow> Inl (Io err) | Inr c \<Rightarrow> Inr c)"

section \<open>What a source promises\<close>

text \<open>
  \<open>source_serves src content\<close> is the documented behaviour of positioned reads on an unchanging
  file: what a read returns is what the file holds there, and a read at a position inside the
  file with room in its buffer returns at least one byte.  \<open>source_reliable\<close>: no read fails.
\<close>

definition source_serves :: "OcbReadSource \<Rightarrow> bytes \<Rightarrow> bool" where
  "source_serves src content \<longleftrightarrow>
     length content = unat (rs_file_len src) \<and>
     (\<forall>off n bs. rs_read_at src off n = Inr bs \<longrightarrow>
        prefix bs (take n (drop (unat off) content)) \<and>
        (0 < n \<and> unat off < length content \<longrightarrow> bs \<noteq> []))"

definition source_reliable :: "OcbReadSource \<Rightarrow> bool" where
  "source_reliable src \<longleftrightarrow> (\<forall>off n. is_ok (rs_read_at src off n))"

text \<open>A source over bytes in memory that returns at most \<open>k + 1\<close> bytes per read.\<close>

definition memory_source :: "nat \<Rightarrow> bytes \<Rightarrow> OcbReadSource" where
  "memory_source k content =
     \<lparr>rs_read_at = (\<lambda>off n. Inr (take (Suc k) (take n (drop (unat off) content)))),
      rs_file_len = of_nat (length content)\<rparr>"

lemma memory_source_serves: "length content < 2 ^ 64 \<Longrightarrow> source_serves (memory_source k content) content"
  by (auto simp: source_serves_def memory_source_def unat_of_nat_u64 take_is_prefix simp del: take_take)

lemma memory_source_reliable: "source_reliable (memory_source k content)"
  by (simp add: source_reliable_def memory_source_def)

section \<open>Reading exactly\<close>

lemma seek_start_Inr [simp]: "seek_start c off = Inr (c\<lparr>rc_position := off\<rparr>)"
proof -
  have "uint off < 2 ^ 64" using uint_lt2p [of off] by simp
  then show ?thesis by (simp add: seek_start_def OcbReadCursor_seek_def Let_def)
qed

lemma unat_saturating_sub: "unat (saturating_sub a b) = unat a - unat b"
  by (simp add: saturating_sub_def unat_sub word_le_nat_alt)

text \<open>One read at a position inside the file, by a source that serves \<open>content\<close>.\<close>

lemma OcbReadCursor_read_serves:
  assumes "source_serves (rc_source c) content" and "OcbReadCursor_read c n = Inr (got, c')"
  shows "prefix got (take n (drop (unat (rc_position c)) content))"
    and "c' = c\<lparr>rc_position := rc_position c + of_nat (length got)\<rparr>"
    and "unat (rc_position c') = unat (rc_position c) + length got"
    and "0 < n \<and> unat (rc_position c) < length content \<longrightarrow> got \<noteq> []"
proof -
  let ?r = "saturating_sub (rs_file_len (rc_source c)) (rc_position c)"
  have len: "length content = unat (rs_file_len (rc_source c))"
    using assms(1) by (simp add: source_serves_def)
  have r: "unat ?r = length content - unat (rc_position c)" by (simp add: unat_saturating_sub len)
  have "prefix got (take n (drop (unat (rc_position c)) content)) \<and>
      c' = c\<lparr>rc_position := rc_position c + of_nat (length got)\<rparr> \<and>
      unat (rc_position c') = unat (rc_position c) + length got \<and>
      (0 < n \<and> unat (rc_position c) < length content \<longrightarrow> got \<noteq> [])"
  proof (cases "n = 0 \<or> ?r = 0")
    case True
    then have "got = [] \<and> c' = c" using assms(2) by (auto simp: OcbReadCursor_read_def Let_def)
    moreover have "?r = 0 \<Longrightarrow> length content - unat (rc_position c) = 0" using r by simp
    ultimately show ?thesis using True by auto
  next
    case False
    then have rd: "rs_read_at (rc_source c) (rc_position c) (min n (unat ?r)) = Inr got"
      and pos: "checked_add (rc_position c) (of_nat (length got)) = Some (rc_position c')"
      and c': "c' = c\<lparr>rc_position := rc_position c'\<rparr>"
      using assms(2) by (auto simp: OcbReadCursor_read_def Let_def sbind_eq_Inr)
    have p: "prefix got (take (min n (unat ?r)) (drop (unat (rc_position c)) content))"
      and ne: "0 < min n (unat ?r) \<and> unat (rc_position c) < length content \<longrightarrow> got \<noteq> []"
      using assms(1) rd unfolding source_serves_def by blast+
    have "length got \<le> unat ?r" using prefix_length_le [OF p] by simp
    also have "\<dots> < 2 ^ 64" using unsigned_less [of ?r, where ?'a = nat] by simp
    finally have g: "unat (of_nat (length got) :: u64) = length got" by (rule unat_of_nat_u64)
    have "prefix (take (min n (unat ?r)) (drop (unat (rc_position c)) content))
        (take n (drop (unat (rc_position c)) content))"
      by (metis min.commute take_is_prefix take_take)
    with p have "prefix got (take n (drop (unat (rc_position c)) content))"
      by (rule prefix_order.trans)
    moreover have "rc_position c' = rc_position c + of_nat (length got)"
      using pos by (simp add: checked_add_def split: if_splits)
    moreover have "unat ?r \<noteq> 0" using False by (simp add: unat_eq_zero)
    ultimately show ?thesis using checked_add_Some [OF pos] ne False c' by (auto simp: g)
  qed
  then show "prefix got (take n (drop (unat (rc_position c)) content))"
    and "c' = c\<lparr>rc_position := rc_position c + of_nat (length got)\<rparr>"
    and "unat (rc_position c') = unat (rc_position c) + length got"
    and "0 < n \<and> unat (rc_position c) < length content \<longrightarrow> got \<noteq> []"
    by blast+
qed

lemma OcbReadCursor_read_reliable:
  assumes "source_serves (rc_source c) content" and "source_reliable (rc_source c)"
  shows "is_ok (OcbReadCursor_read c n)"
proof -
  let ?r = "saturating_sub (rs_file_len (rc_source c)) (rc_position c)"
  obtain got where rd: "rs_read_at (rc_source c) (rc_position c) (min n (unat ?r)) = Inr got"
    using assms(2) unfolding source_reliable_def by (metis is_ok_def old.sum.exhaust old.sum.simps(5))
  have p: "prefix got (take (min n (unat ?r)) (drop (unat (rc_position c)) content))"
    using assms(1) rd unfolding source_serves_def by blast
  have "length got \<le> unat ?r" using prefix_length_le [OF p] by simp
  moreover have "unat ?r = unat (rs_file_len (rc_source c)) - unat (rc_position c)"
    by (rule unat_saturating_sub)
  moreover have "unat (rs_file_len (rc_source c)) < 2 ^ 64"
    using unsigned_less [of "rs_file_len (rc_source c)", where ?'a = nat] by simp
  moreover have "unat (rc_position c) < 2 ^ 64"
    using unsigned_less [of "rc_position c", where ?'a = nat] by simp
  ultimately have "unat (rc_position c) + length got < 2 ^ 64" by linarith
  moreover from this have "unat (of_nat (length got) :: u64) = length got"
    by (intro unat_of_nat_u64) simp
  ultimately have "checked_add (rc_position c) (of_nat (length got)) = Some (rc_position c + of_nat (length got))"
    by (simp add: checked_add_def)
  with rd show ?thesis by (simp add: OcbReadCursor_read_def Let_def)
qed

text \<open>\<open>advanced c n\<close>: the cursor after \<open>n\<close> bytes have been read through it.\<close>

definition advanced :: "OcbReadCursor \<Rightarrow> nat \<Rightarrow> OcbReadCursor" where
  "advanced c n = c\<lparr>rc_position := rc_position c + of_nat n\<rparr>"

lemma advanced_simps [simp]:
  "rc_source (advanced c n) = rc_source c"
  "advanced c 0 = c"
  "advanced (advanced c m) n = advanced c (m + n)"
  by (simp_all add: advanced_def)

lemma file_read_exact_serves:
  assumes "source_serves (rc_source c) content" and "file_read_exact c n = Inr (bs, c')"
  shows "bs = take n (drop (unat (rc_position c)) content) \<and> length bs = n \<and> c' = advanced c n \<and>
    unat (rc_position c') = unat (rc_position c) + n"
  using assms
proof (induction c n arbitrary: bs c' rule: file_read_exact.induct)
  case (1 c n)
  show ?case
  proof (cases "n = 0")
    case True
    with 1(3) show ?thesis by (simp add: file_read_exact.simps [of c 0])
  next
    case False
    with 1(3) obtain got c1 rest where rd: "OcbReadCursor_read c n = Inr (got, c1)" "got \<noteq> []"
      and rest: "file_read_exact c1 (n - length got) = Inr (rest, c')" and bs: "bs = got @ rest"
      by (auto simp: file_read_exact.simps [of c n] sbind_eq_Inr split: if_splits)
    note r = OcbReadCursor_read_serves [OF 1(2) rd(1)]
    have c1: "c1 = advanced c (length got)" using r(2) by (simp add: advanced_def)
    have IH: "rest = take (n - length got) (drop (unat (rc_position c1)) content) \<and> length rest = n - length got \<and>
        c' = advanced c1 (n - length got) \<and> unat (rc_position c') = unat (rc_position c1) + (n - length got)"
    proof (rule 1(1) [OF False rd(2) _ rest])
      show "source_serves (rc_source c1) content" using 1(2) by (simp add: c1)
    qed
    have le: "length got \<le> n" using prefix_length_le [OF r(1)] by simp
    from r(1) obtain tl where tl: "take n (drop (unat (rc_position c)) content) = got @ tl" by (auto simp: prefix_def)
    have "drop (length got) (take n (drop (unat (rc_position c)) content)) = rest"
      using IH r(3) by (simp add: drop_take add.commute)
    with tl have "bs = take n (drop (unat (rc_position c)) content)" by (simp add: bs)
    moreover have "length rest = n - length got" using IH by blast
    then have "length bs = n" using le by (simp add: bs)
    moreover have "c' = advanced c n" using IH le by (simp add: c1)
    moreover have "unat (rc_position c') = unat (rc_position c) + n" using IH r(3) le by linarith
    ultimately show ?thesis by blast
  qed
qed

lemma file_read_exact_reliable:
  assumes "source_serves (rc_source c) content" and "source_reliable (rc_source c)"
    and "unat (rc_position c) + n \<le> length content"
  shows "is_ok (file_read_exact c n)"
  using assms
proof (induction c n rule: file_read_exact.induct)
  case (1 c n)
  show ?case
  proof (cases "n = 0")
    case True
    then show ?thesis by (simp add: file_read_exact.simps [of c 0])
  next
    case False
    obtain got c1 where rd: "OcbReadCursor_read c n = Inr (got, c1)"
      using OcbReadCursor_read_reliable [OF 1(2,3), of n]
      by (cases "OcbReadCursor_read c n") auto
    note r = OcbReadCursor_read_serves [OF 1(2) rd]
    have ne: "got \<noteq> []" using r(4) False 1(4) by simp
    have le: "length got \<le> n" using prefix_length_le [OF r(1)] by simp
    have "is_ok (file_read_exact c1 (n - length got))"
      using 1(1) [OF False ne, of c1] r(2,3) 1(2-4) le by simp
    then obtain rest c2 where "file_read_exact c1 (n - length got) = Inr (rest, c2)"
      by (cases "file_read_exact c1 (n - length got)") auto
    then show ?thesis using False rd ne by (simp add: file_read_exact.simps [of c n])
  qed
qed

section \<open>The reader's view of a file\<close>

lemma file_read_exact_ocb_serves:
  assumes "source_serves (rc_source c) content" and "file_read_exact_ocb c n = Inr (bs, c')"
  shows "bs = take n (drop (unat (rc_position c)) content)" and "length bs = n" and "c' = advanced c n"
    and "unat (rc_position c') = unat (rc_position c) + n"
  using file_read_exact_serves [OF assms(1), of n bs c'] assms(2)
  by (auto simp: file_read_exact_ocb_def split: sum.splits if_splits)

lemma file_read_exact_ocb_reliable:
  assumes "source_serves (rc_source c) content" and "source_reliable (rc_source c)"
    and "unat (rc_position c) + n \<le> length content"
  shows "file_read_exact_ocb c n = Inr (take n (drop (unat (rc_position c)) content), advanced c n)"
proof -
  obtain bs c' where r: "file_read_exact c n = Inr (bs, c')"
    using file_read_exact_reliable [OF assms] by (cases "file_read_exact c n") auto
  with file_read_exact_serves [OF assms(1) r] show ?thesis by (simp add: file_read_exact_ocb_def)
qed

lemma unat_rc_position_advanced:
  assumes "source_serves (rc_source c) content" and "unat (rc_position c) + n \<le> length content"
  shows "unat (rc_position (advanced c n)) = unat (rc_position c) + n"
proof -
  have "length content < 2 ^ 64"
    using assms(1) unsigned_less [of "rs_file_len (rc_source c)", where ?'a = nat]
    by (simp add: source_serves_def)
  then have lt: "unat (rc_position c) + n < 2 ^ 64" using assms(2) by simp
  then have "unat (of_nat n :: u64) = n" by (intro unat_of_nat_u64) simp
  with lt show ?thesis by (simp add: advanced_def unat_word_ariths)
qed

end
