(* ===== verification/String_Table.thy ===== *)
theory String_Table
  imports Codec
begin

text \<open>
  Length-prefixed strings and the string table object (\<open>OcbStringTableV1\<close> of \<open>format.rs\<close>).
  A Rust \<open>String\<close> is its UTF-8 bytes; \<open>valid_utf8\<close> is the check of \<open>std::str::from_utf8\<close>, after the
  table of well-formed byte sequences of the Unicode standard.

  Like all metadata readers, the table reader makes two passes over the body: the first
  validates and measures, then the budget is charged, and only then the second allocates.
  A reader that fails leaves its budget to a caller that drops it, so budgets are returned
  with results only.
\<close>

section \<open>UTF-8\<close>

definition utf8_cont :: "u8 \<Rightarrow> bool" where
  "utf8_cont b \<longleftrightarrow> 0x80 \<le> b \<and> b \<le> 0xBF"

fun valid_utf8 :: "bytes \<Rightarrow> bool" where
  "valid_utf8 [] = True"
| "valid_utf8 (b # bs) =
     (if b < 0x80 then valid_utf8 bs
      else if 0xC2 \<le> b \<and> b \<le> 0xDF then
        (case bs of c1 # rest \<Rightarrow> utf8_cont c1 \<and> valid_utf8 rest | _ \<Rightarrow> False)
      else if 0xE0 \<le> b \<and> b \<le> 0xEF then
        (case bs of c1 # c2 # rest \<Rightarrow>
           (if b = 0xE0 then 0xA0 \<le> c1 \<and> c1 \<le> 0xBF
            else if b = 0xED then 0x80 \<le> c1 \<and> c1 \<le> 0x9F
            else utf8_cont c1) \<and> utf8_cont c2 \<and> valid_utf8 rest
         | _ \<Rightarrow> False)
      else if 0xF0 \<le> b \<and> b \<le> 0xF4 then
        (case bs of c1 # c2 # c3 # rest \<Rightarrow>
           (if b = 0xF0 then 0x90 \<le> c1 \<and> c1 \<le> 0xBF
            else if b = 0xF4 then 0x80 \<le> c1 \<and> c1 \<le> 0x8F
            else utf8_cont c1) \<and> utf8_cont c2 \<and> utf8_cont c3 \<and> valid_utf8 rest
         | _ \<Rightarrow> False)
      else False)"

section \<open>Length-prefixed strings\<close>

definition write_bytes_u32 :: "bytes \<Rightarrow> bytes result" where
  "write_bytes_u32 bs =
     sbind (ok_or (u32_try_from (length bs))
       (ocb_invalid_input ''OCB byte payload length exceeds u32'')) (\<lambda>len.
     Inr (write_u32 len @ bs))"

definition write_string_u32 :: "bytes \<Rightarrow> bytes result" where
  "write_string_u32 value = write_bytes_u32 value"

definition read_string_u32_bounded :: "host \<Rightarrow> usize \<Rightarrow> bytes reader" where
  "read_string_u32_bounded h total_len =
     rpayload total_len 4 ''OCB string byte length'' (\<lambda>_.
     rbind read_u32 (\<lambda>len.
     rpayload total_len (ucast len) ''OCB string byte length'' (\<lambda>len.
     rtry (allocate_zeroed_bytes_fallibly h len ''OCB string allocation failed within resource limit'') (\<lambda>buf.
     rbind (read_exact_ocb (length buf)) (\<lambda>bs.
     if \<not> valid_utf8 bs then rfail (ocb_corrupt_file ''OCB string is not valid UTF-8'') else
     rret bs)))))"

text \<open>\<open>reader.get_ref()[start..end]\<close> is in range after the length check.\<close>

definition inspect_string_u32_bounded :: "usize \<Rightarrow> usize reader" where
  "inspect_string_u32_bounded total_len =
     rpayload total_len 4 ''OCB string byte length'' (\<lambda>_.
     rbind read_u32 (\<lambda>len.
     rpayload total_len (ucast len) ''OCB string byte length'' (\<lambda>len.
     rmark (\<lambda>position.
     rtry (ok_or (usize_try_from position) (ocb_corrupt_file ''OCB string offset exceeds usize'')) (\<lambda>start.
     rtry (ok_or (usize_checked_add start len) (ocb_corrupt_file ''OCB string byte range overflows'')) (\<lambda>stop.
     rslice start stop (\<lambda>bs.
     if \<not> valid_utf8 bs then rfail (ocb_corrupt_file ''OCB string is not valid UTF-8'') else
     rset_position stop (rret len))))))))"

section \<open>The table\<close>

definition OCB_STRING_TABLE_MAGIC_V1 :: bytes where
  "OCB_STRING_TABLE_MAGIC_V1 = [0x4F, 0x43, 0x42, 0x53, 0x54, 0x52, 0x31, 0x00]"

definition OCB_STRING_TABLE_V1_HEADER_LEN :: u16 where
  "OCB_STRING_TABLE_V1_HEADER_LEN = 20"

record OcbStringTableV1 =
  st_version :: u16
  st_strings :: "bytes list"
  st_crc32c :: u32

text \<open>The first pass: validate every string and add up the bytes.\<close>

fun inspect_strings :: "usize \<Rightarrow> nat \<Rightarrow> u64 \<Rightarrow> u64 reader" where
  "inspect_strings total_len 0 string_bytes = rret string_bytes"
| "inspect_strings total_len (Suc n) string_bytes =
     rbind (inspect_string_u32_bounded total_len) (\<lambda>len.
     rtry (ok_or (u64_try_from len) (ocb_corrupt_file ''OCB string length exceeds u64'')) (\<lambda>len.
     rtry (ok_or (checked_add string_bytes len)
        (ocb_corrupt_file ''OCB string table materialized byte count overflows'')) (\<lambda>string_bytes.
     inspect_strings total_len n string_bytes)))"

definition OcbStringTableV1_fields ::
  "host \<Rightarrow> usize \<Rightarrow> u32 \<Rightarrow> MetadataMaterializationBudget \<Rightarrow>
     (OcbStringTableV1 \<times> MetadataMaterializationBudget) reader" where
  "OcbStringTableV1_fields h total_len actual_crc budget =
     rbind (read_exact_ocb 8) (\<lambda>magic.
     if magic \<noteq> OCB_STRING_TABLE_MAGIC_V1
     then rfail (ocb_corrupt_file ''invalid OCB string table magic'') else
     rbind read_u16 (\<lambda>version.
     if version \<noteq> 1 then rfail (ocb_unsupported_format ''unsupported OCB string table version'') else
     rbind read_u16 (\<lambda>header_bytes.
     if header_bytes \<noteq> OCB_STRING_TABLE_V1_HEADER_LEN
     then rfail (ocb_corrupt_file ''invalid OCB string table header length'') else
     rbind read_u32 (\<lambda>string_count.
     rbind read_u32 (\<lambda>reserved0.
     rcount total_len (ucast string_count) 4 ''OCB string table string count'' (\<lambda>string_count.
     rmark (\<lambda>strings_start.
     rbind (inspect_strings total_len string_count 0) (\<lambda>string_bytes.
     rtry (checked_materialized_vec_bytes h TyString string_count) (\<lambda>vec_bytes.
     rtry (checked_materialized_sum [vec_bytes, string_bytes]) (\<lambda>retained_bytes.
     rtry (charge budget retained_bytes) (\<lambda>budget.
     rset_position strings_start (
     rbind (read_record_sequence h TyString string_count
        ''OCB string-table allocation failed within resource limit''
        (read_string_u32_bounded h total_len)) (\<lambda>strings.
     rret (\<lparr>st_version = version, st_strings = strings, st_crc32c = actual_crc\<rparr>, budget))))))))))))))"

definition OcbStringTableV1_read_from_bytes_with_budget ::
  "host \<Rightarrow> bytes \<Rightarrow> MetadataMaterializationBudget \<Rightarrow>
     (OcbStringTableV1 \<times> MetadataMaterializationBudget) result" where
  "OcbStringTableV1_read_from_bytes_with_budget h bs budget =
     open_object ''OCB string table crc mismatch'' bs (\<lambda>actual_crc bs.
       run_reader (OcbStringTableV1_fields h (length bs) actual_crc budget) bs)"

definition OcbStringTableV1_read_from_bytes :: "host \<Rightarrow> bytes \<Rightarrow> OcbStringTableV1 result" where
  "OcbStringTableV1_read_from_bytes h bs =
     sbind (OcbStringTableV1_read_from_bytes_with_budget h bs policy_a_metadata_materialization_budget)
       (\<lambda>r. Inr (fst r))"

definition OcbStringTableV1_encode_without_checksum :: "OcbStringTableV1 \<Rightarrow> bytes result" where
  "OcbStringTableV1_encode_without_checksum self =
     sbind (ok_or (u32_try_from (length (st_strings self)))
       (ocb_invalid_input ''OCB string table has too many strings'')) (\<lambda>string_count.
     sbind (write_each write_string_u32 (st_strings self)) (\<lambda>strings.
     Inr (OCB_STRING_TABLE_MAGIC_V1 @
          write_u16 (st_version self) @
          write_u16 OCB_STRING_TABLE_V1_HEADER_LEN @
          write_u32 string_count @
          write_u32 0 @
          strings @
          write_u32 0)))"

definition OcbStringTableV1_write_to :: "OcbStringTableV1 \<Rightarrow> bytes result" where
  "OcbStringTableV1_write_to self =
     sbind (OcbStringTableV1_encode_without_checksum self) (\<lambda>buf. Inr (seal_object buf))"

section \<open>Round trip\<close>

text \<open>A table value of the code: its strings are Rust strings.\<close>

definition string_table_ok :: "OcbStringTableV1 \<Rightarrow> bool" where
  "string_table_ok t \<longleftrightarrow> st_version t = 1 \<and> (\<forall>s\<in>set (st_strings t). valid_utf8 s)"

definition string_table_retained :: "host \<Rightarrow> OcbStringTableV1 \<Rightarrow> nat" where
  "string_table_retained h t =
     length (st_strings t) * host_size_of h TyString + sum_list (map length (st_strings t))"

lemma write_string_u32_Inr:
  "write_string_u32 s = Inr bs \<longleftrightarrow> length s < 2 ^ 32 \<and> bs = write_u32 (of_nat (length s)) @ s"
  by (auto simp: write_string_u32_def write_bytes_u32_def sbind_eq_Inr u32_try_from_Some)

lemma ireads_inspect_string:
  assumes "write_string_u32 s = Inr bs" and "valid_utf8 s" and "N \<le> isize_max"
  shows "ireads N (inspect_string_u32_bounded N) bs (length s)"
proof -
  from assms(1) have s: "length s < 2 ^ 32" and bs: "bs = write_u32 (of_nat (length s)) @ s"
    by (simp_all add: write_string_u32_Inr)
  have N: "N \<le> usize_max" using assms(3) by (rule isize_max_less_usize_max)
  let ?k = "\<lambda>len. rmark (\<lambda>position.
     rtry (ok_or (usize_try_from position) (ocb_corrupt_file ''OCB string offset exceeds usize'')) (\<lambda>start.
     rtry (ok_or (usize_checked_add start len) (ocb_corrupt_file ''OCB string byte range overflows'')) (\<lambda>stop.
     rslice start stop (\<lambda>bs.
     if \<not> valid_utf8 bs then rfail (ocb_corrupt_file ''OCB string is not valid UTF-8'') else
     rset_position stop (rret len)))))"
  have k: "ireads N (?k (length s)) s (length s)"
    unfolding ireads_def
  proof (intro allI impI, elim conjE)
    fix c :: cursor and rest
    assume c: "length (cur_bytes c) = N" "drop (cur_pos c) (cur_bytes c) = s @ rest" "4 \<le> length rest"
    then have "N - cur_pos c = length s + length rest" by (metis length_append length_drop)
    with c(3) N have "cur_pos c + length s \<le> usize_max" by linarith
    then show "?k (length s) c = Inr (length s, c\<lparr>cur_pos := cur_pos c + length s\<rparr>)"
      using c(2) assms(2)
      by (simp add: rmark_def rtry_def usize_try_from_def usize_checked_add_def slice_def
          rset_position_def rslice_def rret_def)
  qed
  have "ireads N (rpayload N (ucast (of_nat (length s) :: u32)) ''OCB string byte length'' ?k) s (length s)"
    by (rule ireads_payload [where n = "length s"]) (simp_all add: N k unat_of_nat_u32 [OF s])
  then have "ireads N (rbind read_u32 (\<lambda>len. rpayload N (ucast len) ''OCB string byte length'' ?k))
      (write_u32 (of_nat (length s)) @ s) (length s)"
    by (intro ireads_bind [OF ireads_reads [OF reads_u32]])
  then show ?thesis
    unfolding inspect_string_u32_bounded_def bs
    by (intro ireads_payload [where n = 4]) (simp_all add: N)
qed

lemma ireads_read_string:
  assumes "write_string_u32 s = Inr bs" and "valid_utf8 s" and "N \<le> isize_max"
    and "host_ready h" and "length s \<le> isize_max"
  shows "ireads N (read_string_u32_bounded h N) bs s"
proof -
  from assms(1) have s: "length s < 2 ^ 32" and bs: "bs = write_u32 (of_nat (length s)) @ s"
    by (simp_all add: write_string_u32_Inr)
  have N: "N \<le> usize_max" using assms(3) by (rule isize_max_less_usize_max)
  let ?k = "\<lambda>len. rtry (allocate_zeroed_bytes_fallibly h len ''OCB string allocation failed within resource limit'') (\<lambda>buf.
     rbind (read_exact_ocb (length buf)) (\<lambda>bs.
     if \<not> valid_utf8 bs then rfail (ocb_corrupt_file ''OCB string is not valid UTF-8'') else
     rret bs))"
  have "reads (rbind (read_exact_ocb (length s)) (\<lambda>bs.
     if \<not> valid_utf8 bs then rfail (ocb_corrupt_file ''OCB string is not valid UTF-8'') else
     rret bs)) s s"
    using reads_bind [OF reads_exact [OF refl], of "\<lambda>bs. if \<not> valid_utf8 bs
        then rfail (ocb_corrupt_file ''OCB string is not valid UTF-8'') else rret bs" s "[]" s] assms(2)
    by (simp add: reads_ret)
  then have "ireads N (?k (length s)) s s"
    by (intro ireads_reads reads_try [OF allocate_ready(1)]) (simp_all add: assms)
  then have "ireads N (rpayload N (ucast (of_nat (length s) :: u32)) ''OCB string byte length'' ?k) s s"
    by (intro ireads_payload [where n = "length s"]) (simp_all add: N unat_of_nat_u32 [OF s])
  then have "ireads N (rbind read_u32 (\<lambda>len. rpayload N (ucast len) ''OCB string byte length'' ?k))
      (write_u32 (of_nat (length s)) @ s) s"
    by (intro ireads_bind [OF ireads_reads [OF reads_u32]])
  then show ?thesis
    unfolding read_string_u32_bounded_def bs
    by (intro ireads_payload [where n = 4]) (simp_all add: N)
qed

lemma write_strings_Cons:
  "write_each write_string_u32 (s # ss) = Inr bs \<longleftrightarrow>
     (\<exists>b bs'. write_string_u32 s = Inr b \<and> write_each write_string_u32 ss = Inr bs' \<and> bs = b @ bs')"
  by (auto simp: write_each_def sbind_eq_Inr)

lemma write_strings_length:
  "write_each write_string_u32 ss = Inr bs \<Longrightarrow> length bs = 4 * length ss + sum_list (map length ss)"
proof (induction ss arbitrary: bs)
  case Nil
  then show ?case by (simp add: write_each_def)
next
  case (Cons s ss)
  then show ?case by (auto simp: write_strings_Cons write_string_u32_Inr)
qed

lemma ireads_inspect_strings:
  assumes "write_each write_string_u32 ss = Inr bs" and "\<forall>s\<in>set ss. valid_utf8 s" and "N \<le> isize_max"
    and "n + sum_list (map length ss) < 2 ^ 64"
  shows "ireads N (inspect_strings N (length ss) (of_nat n)) bs (of_nat (n + sum_list (map length ss)))"
  using assms
proof (induction ss arbitrary: bs n)
  case Nil
  then show ?case by (simp add: write_each_def ireads_ret)
next
  case (Cons s ss)
  then obtain b bs' where w: "write_string_u32 s = Inr b" "write_each write_string_u32 ss = Inr bs'"
    and bs: "bs = b @ bs'"
    by (auto simp: write_strings_Cons)
  have "ireads N (inspect_strings N (length ss) (of_nat (n + length s))) bs'
      (of_nat (n + length s + sum_list (map length ss)))"
    using Cons.prems by (intro Cons.IH [OF w(2)]) auto
  moreover have "checked_add (of_nat n) (of_nat (length s) :: u64) = Some (of_nat (n + length s))"
    using Cons.prems(4) by (simp add: checked_add_def unat_of_nat_u64)
  moreover have "ireads N (inspect_string_u32_bounded N) b (length s)"
    using Cons.prems by (intro ireads_inspect_string [OF w(1)]) auto
  moreover have "u64_try_from (length s) = Some (of_nat (length s))"
    using Cons.prems(4) by (simp add: u64_try_from_def)
  ultimately show ?case
    unfolding bs by (auto intro!: ireads_bind ireads_try simp: add.assoc)
qed

lemma ireads_read_strings:
  assumes "write_each write_string_u32 ss = Inr bs" and "\<forall>s\<in>set ss. valid_utf8 s" and "N \<le> isize_max"
    and "host_ready h" and "sum_list (map length ss) \<le> isize_max"
  shows "ireads N (read_records (read_string_u32_bounded h N) (length ss)) bs ss"
  using assms
proof (induction ss arbitrary: bs)
  case Nil
  then show ?case by (simp add: write_each_def ireads_ret)
next
  case (Cons s ss)
  then obtain b bs' where w: "write_string_u32 s = Inr b" "write_each write_string_u32 ss = Inr bs'"
    and bs: "bs = b @ bs'"
    by (auto simp: write_strings_Cons)
  have "ireads N (read_records (read_string_u32_bounded h N) (length ss)) bs' ss"
    using Cons.prems by (intro Cons.IH [OF w(2)]) auto
  then have "ireads N (rbind (read_records (read_string_u32_bounded h N) (length ss)) (\<lambda>xs. rret (s # xs))) bs' (s # ss)"
    by (rule ireads_bind_ret) simp
  moreover have "ireads N (read_string_u32_bounded h N) b s"
    using Cons.prems by (intro ireads_read_string [OF w(1)]) auto
  ultimately show ?case
    using ireads_bind [of N _ b s "\<lambda>x. rbind (read_records (read_string_u32_bounded h N) (length ss)) (\<lambda>xs. rret (x # xs))"]
    by (simp add: bs)
qed

definition OcbStringTableV1_layout :: "OcbStringTableV1 \<Rightarrow> bytes \<Rightarrow> bytes" where
  "OcbStringTableV1_layout self strings =
     OCB_STRING_TABLE_MAGIC_V1 @ write_u16 (st_version self) @ write_u16 OCB_STRING_TABLE_V1_HEADER_LEN @
     write_u32 (of_nat (length (st_strings self))) @ write_u32 0 @ strings @ write_u32 0"

lemma OcbStringTableV1_encode_Inr:
  "OcbStringTableV1_encode_without_checksum x = Inr buf \<longleftrightarrow>
     length (st_strings x) < 2 ^ 32 \<and>
     (\<exists>strings. write_each write_string_u32 (st_strings x) = Inr strings \<and> buf = OcbStringTableV1_layout x strings)"
  by (auto simp: OcbStringTableV1_encode_without_checksum_def OcbStringTableV1_layout_def sbind_eq_Inr
      u32_try_from_Some)

lemma has_trailer_string_table: "has_trailer (OcbStringTableV1_layout x strings)"
  unfolding OcbStringTableV1_layout_def by (intro has_trailer_intros)

lemma length_string_table_magic [simp]: "length OCB_STRING_TABLE_MAGIC_V1 = 8"
  by (simp add: OCB_STRING_TABLE_MAGIC_V1_def)

lemma oreads_string_table:
  assumes "write_each write_string_u32 (st_strings x) = Inr strings" and "length (st_strings x) < 2 ^ 32"
    and "string_table_ok x" and "host_ready h" and "fits b (string_table_retained h x)" and "N \<le> isize_max"
  shows "oreads N 0 [] (OcbStringTableV1_fields h N crc b) (OcbStringTableV1_layout x strings)
      (x\<lparr>st_crc32c := crc\<rparr>, charged b (string_table_retained h x))"
proof -
  let ?n = "length (st_strings x)" let ?sum = "sum_list (map length (st_strings x))"
  note ok = assms(3) [unfolded string_table_ok_def]
  have fit: "?n * host_size_of h TyString + ?sum \<le> isize_max"
    using assms(5) by (simp add: fits_def string_table_retained_def)
  have sum: "?n * host_size_of h TyString + ?sum < 2 ^ 64" using fit by (rule isize_max_less)
  have count: "?n = unat (ucast (of_nat ?n :: u32) :: u64)" using assms(2) by (simp add: unat_of_nat_u32)
  have ins: "ireads N (inspect_strings N ?n 0) strings (of_nat ?sum)"
    using ireads_inspect_strings [OF assms(1) _ assms(6), of 0] ok sum by simp
  have rd: "ireads N (read_record_sequence h TyString ?n
        ''OCB string-table allocation failed within resource limit'' (read_string_u32_bounded h N)) strings (st_strings x)"
    unfolding read_record_sequence_def
    using ireads_read_strings [OF assms(1) _ assms(6,4)] ok fit
    by (intro ireads_try [OF try_vec_with_capacity_ready(1)] ireads_bind_ret) (auto simp: assms(4))
  have vec: "checked_materialized_vec_bytes h TyString ?n = Inr (of_nat (?n * host_size_of h TyString))"
    using fit by (intro checked_materialized_vec_bytes_ready assms) simp
  have mat: "checked_materialized_sum [of_nat (?n * host_size_of h TyString), of_nat ?sum] =
      Inr (of_nat (string_table_retained h x))"
    using checked_materialized_sum_of_nats [of "[?n * host_size_of h TyString, ?sum]"] sum
    by (simp add: string_table_retained_def)
  have len: "?n * 4 + 4 \<le> length (strings @ write_u32 0)" using write_strings_length [OF assms(1)] by simp
  show ?thesis
    unfolding OcbStringTableV1_fields_def OcbStringTableV1_layout_def
    by (rule oreads_ibind [OF ins] oreads_ibind [OF rd] oreads_try [OF vec] oreads_try [OF mat]
        oreads_try [OF charge_fits [OF assms(5)]] oreads_mark oreads_rewinds
        oreads_count [OF isize_max_less_usize_max [OF assms(6)] count len] reads_intros
      | simp add: ok; fail)+
qed

text \<open>The two passes see the same strings.\<close>

lemma inspect_read_string:
  assumes "inspect_string_u32_bounded N c = Inr (l, c1)" and "read_string_u32_bounded h N c = Inr (s, c2)"
  shows "length s = l \<and> c1 = c2 \<and> c1\<lparr>cur_pos := cur_pos c\<rparr> = c"
proof -
  from assms(1) obtain len c3 where len: "read_u32 c = Inr (len, c3)"
    and l: "checked_payload_len N (cur_pos c3) (ucast len) ''OCB string byte length'' = Inr l"
    and c1: "c1 = c3\<lparr>cur_pos := cur_pos c3 + l\<rparr>"
    by (auto simp: inspect_string_u32_bounded_def reader_Inr usize_checked_add_def split: if_splits)
  from assms(2) len l have "read_exact_ocb l c3 = Inr (s, c2)"
    by (auto simp: read_string_u32_bounded_def reader_Inr allocate_zeroed_bytes_fallibly_def split: if_splits)
  moreover have "consumed c (write_u32 len) c3" using len by (rule read_uint_consumed)
  ultimately show ?thesis
    by (auto simp: c1 consumed_def dest: read_exact_consumed)
qed

lemma inspect_read_strings:
  assumes "inspect_strings N n a c = Inr (w, c1)"
    and "read_records (read_string_u32_bounded h N) n c = Inr (ss, c2)"
  shows "unat w = unat a + sum_list (map length ss)"
  using assms
proof (induction n arbitrary: a c ss)
  case 0
  then show ?case by (simp add: reader_Inr)
next
  case (Suc n)
  from Suc.prems(1) obtain l c3 w' where l: "inspect_string_u32_bounded N c = Inr (l, c3)"
    and l64: "l < 2 ^ 64" and a: "checked_add a (of_nat l) = Some w'"
    and rest: "inspect_strings N n w' c3 = Inr (w, c1)"
    by (auto simp: reader_Inr u64_try_from_Some)
  from Suc.prems(2) obtain s c4 ss' where s: "read_string_u32_bounded h N c = Inr (s, c4)"
    and rest': "read_records (read_string_u32_bounded h N) n c4 = Inr (ss', c2)" and ss: "ss = s # ss'"
    by (auto simp: reader_Inr)
  from inspect_read_string [OF l s] have "length s = l" "c3 = c4" by simp_all
  with Suc.IH [OF rest] rest' checked_add_Some [OF a] l64 show ?case
    by (simp add: ss unat_of_nat_u64)
qed

lemma keeps_bytes_inspect_string [simp]: "keeps_bytes (inspect_string_u32_bounded N)"
  unfolding inspect_string_u32_bounded_def by (intro keeps_bytes_intros keeps_bytes_reads keeps_bytes_ret)

lemma keeps_bytes_inspect_strings [simp]: "keeps_bytes (inspect_strings N n a)"
  by (induction n arbitrary: a) (auto intro!: keeps_bytes_intros)

lemma OcbStringTableV1_fields_charge:
  assumes "OcbStringTableV1_fields h N crc b c = Inr ((x, b'), c')"
  shows "charges b b' (string_table_retained h x)"
proof -
  from assms obtain n d w d1 v r ss c2 where
    ins: "inspect_strings N n 0 d = Inr (w, d1)"
    and v: "checked_materialized_vec_bytes h TyString n = Inr v"
    and r: "checked_materialized_sum [v, w] = Inr r"
    and b': "charge b r = Inr b'"
    and rd: "read_record_sequence h TyString n
        ''OCB string-table allocation failed within resource limit'' (read_string_u32_bounded h N)
        (d1\<lparr>cur_pos := cur_pos d\<rparr>) = Inr (ss, c2)"
    and x: "st_strings x = ss"
    unfolding OcbStringTableV1_fields_def by (auto simp: reader_Inr split: if_split_asm)
  have "d1\<lparr>cur_pos := cur_pos d\<rparr> = d"
    using keeps_bytes_inspect_strings ins unfolding keeps_bytes_def by fastforce
  with rd have "read_records (read_string_u32_bounded h N) n d = Inr (ss, c2)"
    by (auto simp: read_record_sequence_def try_vec_with_capacity_def reader_Inr split: if_splits)
  from inspect_read_strings [OF ins this] checked_materialized_sum_Inr [OF r]
    checked_materialized_vec_bytes_Inr [OF v] read_record_sequence_length [OF rd]
  have "unat r = string_table_retained h x" by (simp add: string_table_retained_def x)
  with charge_charges [OF b'] show ?thesis by simp
qed

interpretation string_table: budgeted_codec OcbStringTableV1_encode_without_checksum
    OcbStringTableV1_write_to OcbStringTableV1_fields OcbStringTableV1_read_from_bytes_with_budget
    "''OCB string table crc mismatch''" string_table_ok string_table_retained
    "\<lambda>crc x. x\<lparr>st_crc32c := crc\<rparr>"
  by unfold_locales
    (auto simp: OcbStringTableV1_write_to_def OcbStringTableV1_read_from_bytes_with_budget_def
      OcbStringTableV1_encode_Inr has_trailer_string_table
      intro: oreads_string_table OcbStringTableV1_fields_charge)

end
