(* ===== verification/Schema.thy ===== *)
theory Schema
  imports Body_Ref String_Table
begin

text \<open>
  Column descriptors and the schema object (\<open>OcbColumnDescV1\<close> and \<open>OcbSchemaV1\<close> of \<open>format.rs\<close>),
  with the value widths from which all chunk sizes are derived.
\<close>

section \<open>Column descriptors\<close>

definition OCB_NULL_U32 :: u32 where
  "OCB_NULL_U32 = 0xFFFFFFFF"

definition OCB_COLUMN_DESC_V1_LEN :: nat where
  "OCB_COLUMN_DESC_V1_LEN = 32"

record OcbColumnDescV1 =
  col_column_id :: u32
  col_name_string_id :: u32
  col_physical_type :: OcbPhysicalTypeV1
  col_logical_kind :: OcbLogicalKindV1
  col_flags :: u32
  col_dictionary_id :: u32
  col_scale :: i32
  col_nullability :: OcbNullabilityV1
  col_reserved0 :: u16
  col_fixed_binary_width :: u32

definition value_byte_width :: "OcbColumnDescV1 \<Rightarrow> u32 result" where
  "value_byte_width self =
     (case col_physical_type self of
        Phys_FixedBinary \<Rightarrow>
          if col_fixed_binary_width self = 0
          then Inl (ocb_corrupt_file ''OCB fixed-binary column requires fixed width'')
          else Inr (col_fixed_binary_width self)
      | ty \<Rightarrow>
          if col_fixed_binary_width self \<noteq> 0
          then Inl (ocb_corrupt_file ''OCB primitive column has unexpected fixed-binary width'')
          else Inr (of_nat (the (primitive_byte_width ty))))"

definition expected_value_bytes :: "OcbColumnDescV1 \<Rightarrow> u64 \<Rightarrow> u64 result" where
  "expected_value_bytes self row_count =
     sbind (value_byte_width self) (\<lambda>width.
     ok_or (checked_mul row_count (ucast width))
       (ocb_corrupt_file ''OCB column chunk value byte length overflows''))"

definition OcbColumnDescV1_write_to :: "OcbColumnDescV1 \<Rightarrow> bytes result" where
  "OcbColumnDescV1_write_to self =
     (if col_logical_kind self = Logical_DictionaryCode \<and> col_dictionary_id self = OCB_NULL_U32
      then Inl (ocb_invalid_input ''OCB dictionary-coded column must reference a dictionary'')
      else if col_physical_type self = Phys_FixedBinary \<and> col_fixed_binary_width self = 0
      then Inl (ocb_invalid_input ''OCB fixed-binary column requires fixed width'')
      else if col_physical_type self \<noteq> Phys_FixedBinary \<and> col_fixed_binary_width self \<noteq> 0
      then Inl (ocb_invalid_input ''OCB primitive column has unexpected fixed-binary width'')
      else Inr (
        write_u32 (col_column_id self) @
        write_u32 (col_name_string_id self) @
        write_u16 (OcbPhysicalTypeV1_to_u16 (col_physical_type self)) @
        write_u16 (OcbLogicalKindV1_to_u16 (col_logical_kind self)) @
        write_u32 (col_flags self) @
        write_u32 (col_dictionary_id self) @
        write_i32 (col_scale self) @
        write_u16 (OcbNullabilityV1_to_u16 (col_nullability self)) @
        write_u16 (col_reserved0 self) @
        write_u32 (col_fixed_binary_width self)))"

definition OcbColumnDescV1_read_from :: "OcbColumnDescV1 reader" where
  "OcbColumnDescV1_read_from =
     rbind read_u32 (\<lambda>column_id.
     rbind read_u32 (\<lambda>name_string_id.
     rbind read_u16 (\<lambda>physical_type.
     rtry (OcbPhysicalTypeV1_from_u16 physical_type) (\<lambda>physical_type.
     rbind read_u16 (\<lambda>logical_kind.
     rtry (OcbLogicalKindV1_from_u16 logical_kind) (\<lambda>logical_kind.
     rbind read_u32 (\<lambda>flags.
     rbind read_u32 (\<lambda>dictionary_id.
     rbind read_i32 (\<lambda>scale.
     rbind read_u16 (\<lambda>nullability.
     rtry (OcbNullabilityV1_from_u16 nullability) (\<lambda>nullability.
     rbind read_u16 (\<lambda>reserved0.
     rbind read_u32 (\<lambda>fixed_binary_width.
     rret \<lparr>col_column_id = column_id, col_name_string_id = name_string_id,
           col_physical_type = physical_type, col_logical_kind = logical_kind, col_flags = flags,
           col_dictionary_id = dictionary_id, col_scale = scale, col_nullability = nullability,
           col_reserved0 = reserved0, col_fixed_binary_width = fixed_binary_width\<rparr>)))))))))))))"

section \<open>The schema\<close>

definition OCB_SCHEMA_MAGIC_V1 :: bytes where
  "OCB_SCHEMA_MAGIC_V1 = [0x4F, 0x43, 0x42, 0x53, 0x43, 0x48, 0x31, 0x00]"

definition OCB_SCHEMA_V1_HEADER_LEN :: u16 where
  "OCB_SCHEMA_V1_HEADER_LEN = 52"

record OcbSchemaV1 =
  sch_version :: u16
  sch_string_table_ref :: OcbBodyRefV2
  sch_columns :: "OcbColumnDescV1 list"
  sch_crc32c :: u32

definition OcbSchemaV1_fields ::
  "host \<Rightarrow> usize \<Rightarrow> u32 \<Rightarrow> MetadataMaterializationBudget \<Rightarrow>
     (OcbSchemaV1 \<times> MetadataMaterializationBudget) reader" where
  "OcbSchemaV1_fields h total_len actual_crc budget =
     rbind (read_exact_ocb 8) (\<lambda>magic.
     if magic \<noteq> OCB_SCHEMA_MAGIC_V1 then rfail (ocb_corrupt_file ''invalid OCB schema magic'') else
     rbind read_u16 (\<lambda>version.
     if version \<noteq> 1 then rfail (ocb_unsupported_format ''unsupported OCB schema version'') else
     rbind read_u16 (\<lambda>header_bytes.
     if header_bytes \<noteq> OCB_SCHEMA_V1_HEADER_LEN
     then rfail (ocb_corrupt_file ''invalid OCB schema header length'') else
     rbind read_u32 (\<lambda>column_count.
     rbind OcbBodyRefV2_read_from (\<lambda>string_table_ref.
     rbind read_u32 (\<lambda>reserved0.
     rcount total_len (ucast column_count) OCB_COLUMN_DESC_V1_LEN ''OCB schema column count'' (\<lambda>column_count.
     rmark (\<lambda>columns_start.
     rbind (validate_record_sequence OcbColumnDescV1_read_from column_count) (\<lambda>_.
     rtry (checked_materialized_vec_bytes h TyColumnDesc column_count) (\<lambda>retained_bytes.
     rtry (charge budget retained_bytes) (\<lambda>budget.
     rset_position columns_start (
     rbind (read_record_sequence h TyColumnDesc column_count
        ''OCB schema allocation failed within resource limit'' OcbColumnDescV1_read_from) (\<lambda>columns.
     rret (\<lparr>sch_version = version, sch_string_table_ref = string_table_ref, sch_columns = columns,
            sch_crc32c = actual_crc\<rparr>, budget))))))))))))))"

definition OcbSchemaV1_read_from_bytes_with_budget ::
  "host \<Rightarrow> bytes \<Rightarrow> MetadataMaterializationBudget \<Rightarrow>
     (OcbSchemaV1 \<times> MetadataMaterializationBudget) result" where
  "OcbSchemaV1_read_from_bytes_with_budget h bs budget =
     open_object ''OCB schema crc mismatch'' bs (\<lambda>actual_crc bs.
       run_reader (OcbSchemaV1_fields h (length bs) actual_crc budget) bs)"

definition OcbSchemaV1_read_from_bytes :: "host \<Rightarrow> bytes \<Rightarrow> OcbSchemaV1 result" where
  "OcbSchemaV1_read_from_bytes h bs =
     sbind (OcbSchemaV1_read_from_bytes_with_budget h bs policy_a_metadata_materialization_budget)
       (\<lambda>r. Inr (fst r))"

definition OcbSchemaV1_encode_without_checksum :: "OcbSchemaV1 \<Rightarrow> bytes result" where
  "OcbSchemaV1_encode_without_checksum self =
     (if br_kind (sch_string_table_ref self) \<noteq> BodyKind_StringTable
      then Inl (ocb_invalid_input ''OCB schema string_table_ref must reference string table'') else
     sbind (ok_or (u32_try_from (length (sch_columns self)))
       (ocb_invalid_input ''OCB schema has too many columns'')) (\<lambda>column_count.
     sbind (write_each OcbColumnDescV1_write_to (sch_columns self)) (\<lambda>columns.
     Inr (OCB_SCHEMA_MAGIC_V1 @
          write_u16 (sch_version self) @
          write_u16 OCB_SCHEMA_V1_HEADER_LEN @
          write_u32 column_count @
          OcbBodyRefV2_write_to (sch_string_table_ref self) @
          write_u32 0 @
          columns @
          write_u32 0))))"

definition OcbSchemaV1_write_to :: "OcbSchemaV1 \<Rightarrow> bytes result" where
  "OcbSchemaV1_write_to self =
     sbind (OcbSchemaV1_encode_without_checksum self) (\<lambda>buf. Inr (seal_object buf))"

section \<open>Widths\<close>

text \<open>The descriptors the writer accepts are those with a width, dictionary codes apart.\<close>

lemma value_byte_width_Inr:
  "value_byte_width c = Inr w \<longleftrightarrow>
     (if col_physical_type c = Phys_FixedBinary
      then w = col_fixed_binary_width c \<and> w \<noteq> 0
      else col_fixed_binary_width c = 0 \<and> w = of_nat (the (primitive_byte_width (col_physical_type c))))"
  by (cases "col_physical_type c") (auto simp: value_byte_width_def)

lemma value_byte_width_pos: "value_byte_width c = Inr w \<Longrightarrow> 0 < unat w"
  by (cases "col_physical_type c") (auto simp: value_byte_width_Inr word_gt_0 unat_gt_0)

lemma OcbColumnDescV1_write_to_width:
  "(\<exists>bs. OcbColumnDescV1_write_to c = Inr bs) \<longleftrightarrow>
     (\<exists>w. value_byte_width c = Inr w) \<and>
     (col_logical_kind c = Logical_DictionaryCode \<longrightarrow> col_dictionary_id c \<noteq> OCB_NULL_U32)"
  by (auto simp: OcbColumnDescV1_write_to_def value_byte_width_Inr)

lemma expected_value_bytes_Inr:
  "expected_value_bytes c n = Inr m \<longleftrightarrow>
     (\<exists>w. value_byte_width c = Inr w \<and> unat n * unat w < 2 ^ 64 \<and> unat m = unat n * unat w)"
  by (auto simp: expected_value_bytes_def sbind_eq_Inr checked_mul_def unat_word_ariths
      word_unat_eq_iff split: if_splits)

section \<open>Round trips\<close>

lemma reads_OcbColumnDescV1: "OcbColumnDescV1_write_to c = Inr bs \<Longrightarrow> reads OcbColumnDescV1_read_from bs c"
  unfolding OcbColumnDescV1_write_to_def OcbColumnDescV1_read_from_def
  by (clarsimp split: if_split_asm) (rule reads_intros | simp; fail)+

interpretation column_desc: record_codec OcbColumnDescV1_write_to OcbColumnDescV1_read_from OCB_COLUMN_DESC_V1_LEN
proof
  show "OcbColumnDescV1_write_to x = Inr bs \<Longrightarrow> reads OcbColumnDescV1_read_from bs x" for x bs
    by (rule reads_OcbColumnDescV1)
  show "OcbColumnDescV1_write_to x = Inr bs \<Longrightarrow> length bs = OCB_COLUMN_DESC_V1_LEN" for x bs
    by (auto simp: OcbColumnDescV1_write_to_def OCB_COLUMN_DESC_V1_LEN_def split: if_splits)
qed

definition OcbSchemaV1_layout :: "OcbSchemaV1 \<Rightarrow> bytes \<Rightarrow> bytes" where
  "OcbSchemaV1_layout self columns =
     OCB_SCHEMA_MAGIC_V1 @ write_u16 (sch_version self) @ write_u16 OCB_SCHEMA_V1_HEADER_LEN @
     write_u32 (of_nat (length (sch_columns self))) @ OcbBodyRefV2_write_to (sch_string_table_ref self) @
     write_u32 0 @ columns @ write_u32 0"

lemma OcbSchemaV1_encode_Inr:
  "OcbSchemaV1_encode_without_checksum x = Inr buf \<longleftrightarrow>
     br_kind (sch_string_table_ref x) = BodyKind_StringTable \<and> length (sch_columns x) < 2 ^ 32 \<and>
     (\<exists>columns. write_each OcbColumnDescV1_write_to (sch_columns x) = Inr columns \<and> buf = OcbSchemaV1_layout x columns)"
  by (auto simp: OcbSchemaV1_encode_without_checksum_def OcbSchemaV1_layout_def sbind_eq_Inr u32_try_from_Some)

lemma has_trailer_schema: "has_trailer (OcbSchemaV1_layout x columns)"
  unfolding OcbSchemaV1_layout_def by (intro has_trailer_intros)

definition schema_retained :: "host \<Rightarrow> OcbSchemaV1 \<Rightarrow> nat" where
  "schema_retained h x = length (sch_columns x) * host_size_of h TyColumnDesc"

lemma length_schema_magic [simp]: "length OCB_SCHEMA_MAGIC_V1 = 8"
  by (simp add: OCB_SCHEMA_MAGIC_V1_def)

lemma oreads_schema:
  assumes "write_each OcbColumnDescV1_write_to (sch_columns x) = Inr columns"
    and "length (sch_columns x) < 2 ^ 32" and "sch_version x = 1"
    and "host_ready h" and "fits b (schema_retained h x)" and "N \<le> isize_max"
  shows "oreads N 0 [] (OcbSchemaV1_fields h N crc b) (OcbSchemaV1_layout x columns)
      (x\<lparr>sch_crc32c := crc\<rparr>, charged b (schema_retained h x))"
proof -
  let ?n = "length (sch_columns x)"
  have fit: "?n * host_size_of h TyColumnDesc \<le> isize_max"
    using assms(5) by (simp add: fits_def schema_retained_def)
  have count: "?n = unat (ucast (of_nat ?n :: u32) :: u64)" using assms(2) by (simp add: unat_of_nat_u32)
  have len: "?n * OCB_COLUMN_DESC_V1_LEN + 4 \<le> length (columns @ write_u32 0)"
    using column_desc.length_write_each [OF assms(1)] by simp
  note pass1 = column_desc.reads_validate [OF assms(1)]
  note pass2 = column_desc.reads_record_sequence [OF assms(1) try_vec_with_capacity_ready(2) [OF assms(4) fit]]
  note vec = checked_materialized_vec_bytes_ready [OF assms(4) fit]
  note chg = charge_fits [OF assms(5), unfolded schema_retained_def]
  show ?thesis
    unfolding OcbSchemaV1_fields_def OcbSchemaV1_layout_def schema_retained_def
    by (rule oreads_bind [OF pass1] oreads_bind [OF pass2] oreads_try [OF vec] oreads_try [OF chg]
        oreads_mark oreads_rewinds
        oreads_count [OF isize_max_less_usize_max [OF assms(6)] count len] reads_intros
      | simp add: assms(3); fail)+
qed

lemma OcbSchemaV1_fields_charge:
  "OcbSchemaV1_fields h N crc b c = Inr ((x, b'), c') \<Longrightarrow> charges b b' (schema_retained h x)"
  unfolding OcbSchemaV1_fields_def
  by (auto simp: reader_Inr schema_retained_def dest!: checked_materialized_vec_bytes_Inr
      read_record_sequence_length charge_charges split: if_split_asm)

interpretation schema: budgeted_codec OcbSchemaV1_encode_without_checksum
    OcbSchemaV1_write_to OcbSchemaV1_fields OcbSchemaV1_read_from_bytes_with_budget
    "''OCB schema crc mismatch''" "\<lambda>x. sch_version x = 1" schema_retained "\<lambda>crc x. x\<lparr>sch_crc32c := crc\<rparr>"
  by unfold_locales
    (auto simp: OcbSchemaV1_write_to_def OcbSchemaV1_read_from_bytes_with_budget_def
      OcbSchemaV1_encode_Inr has_trailer_schema intro: oreads_schema OcbSchemaV1_fields_charge)

end
