(* ===== verification/Row_Groups.thy ===== *)
theory Row_Groups
  imports Schema
begin

text \<open>
  Column statistics, row-group and column-chunk descriptors and the row-group index object
  (\<open>OcbStatScalarV1\<close>, \<open>OcbColumnStatsV1\<close>, \<open>OcbRowGroupDescV1\<close>, \<open>OcbColumnChunkDescV1\<close>,
  \<open>OcbRowGroupIndexV1\<close> of \<open>format.rs\<close>).  A floating-point statistic is its bit pattern: the code
  only stores and loads it with \<open>to_bits\<close> and \<open>from_bits\<close>.
\<close>

section \<open>Statistics\<close>

definition OCB_COLUMN_STATS_V1_LEN :: nat where
  "OCB_COLUMN_STATS_V1_LEN = 48"

definition OCB_ROW_GROUP_DESC_V1_LEN :: nat where
  "OCB_ROW_GROUP_DESC_V1_LEN = 120"

definition OCB_COLUMN_CHUNK_DESC_V1_LEN :: nat where
  "OCB_COLUMN_CHUNK_DESC_V1_LEN = 96"

datatype OcbStatScalarV1 =
    Scalar_I32 i32
  | Scalar_I64 i64
  | Scalar_F32 u32
  | Scalar_F64 u64

fun OcbStatScalarV1_physical_type :: "OcbStatScalarV1 \<Rightarrow> OcbPhysicalTypeV1" where
  "OcbStatScalarV1_physical_type (Scalar_I32 _) = Phys_I32"
| "OcbStatScalarV1_physical_type (Scalar_I64 _) = Phys_I64"
| "OcbStatScalarV1_physical_type (Scalar_F32 _) = Phys_F32"
| "OcbStatScalarV1_physical_type (Scalar_F64 _) = Phys_F64"

definition OcbStatScalarV1_write_to :: "OcbStatScalarV1 \<Rightarrow> bytes" where
  "OcbStatScalarV1_write_to self =
     write_u16 (OcbPhysicalTypeV1_to_u16 (OcbStatScalarV1_physical_type self)) @
     write_u16 0 @
     (case self of
        Scalar_I32 v \<Rightarrow> write_u64 (scast v)
      | Scalar_I64 v \<Rightarrow> write_u64 v
      | Scalar_F32 bits \<Rightarrow> write_u64 (ucast bits)
      | Scalar_F64 bits \<Rightarrow> write_u64 bits) @
     write_u32 0"

definition OcbStatScalarV1_read_from :: "OcbStatScalarV1 reader" where
  "OcbStatScalarV1_read_from =
     rbind read_u16 (\<lambda>physical_type.
     rtry (OcbPhysicalTypeV1_from_u16 physical_type) (\<lambda>physical_type.
     rbind read_u16 (\<lambda>reserved0.
     rbind read_u64 (\<lambda>raw.
     rbind read_u32 (\<lambda>reserved1.
     case physical_type of
       Phys_I32 \<Rightarrow> rret (Scalar_I32 (ucast raw))
     | Phys_I64 \<Rightarrow> rret (Scalar_I64 raw)
     | Phys_F32 \<Rightarrow> rret (Scalar_F32 (ucast raw))
     | Phys_F64 \<Rightarrow> rret (Scalar_F64 raw)
     | Phys_FixedBinary \<Rightarrow>
         rfail (ocb_corrupt_file ''OCB fixed-binary columns do not support scalar stats''))))))"

record OcbColumnStatsV1 =
  stat_row_group_id :: u32
  stat_column_id :: u32
  stat_physical_type :: OcbPhysicalTypeV1
  stat_flags :: u16
  stat_null_count :: u32
  stat_min_value :: OcbStatScalarV1
  stat_max_value :: OcbStatScalarV1

definition OcbColumnStatsV1_write_to :: "OcbColumnStatsV1 \<Rightarrow> bytes result" where
  "OcbColumnStatsV1_write_to self =
     (if OcbStatScalarV1_physical_type (stat_min_value self) \<noteq> stat_physical_type self
         \<or> OcbStatScalarV1_physical_type (stat_max_value self) \<noteq> stat_physical_type self
      then Inl (ocb_invalid_input ''OCB stats scalar type must match stats physical type'')
      else Inr (
        write_u32 (stat_row_group_id self) @
        write_u32 (stat_column_id self) @
        write_u16 (OcbPhysicalTypeV1_to_u16 (stat_physical_type self)) @
        write_u16 (stat_flags self) @
        write_u32 (stat_null_count self) @
        OcbStatScalarV1_write_to (stat_min_value self) @
        OcbStatScalarV1_write_to (stat_max_value self)))"

definition OcbColumnStatsV1_read_from :: "OcbColumnStatsV1 reader" where
  "OcbColumnStatsV1_read_from =
     rbind read_u32 (\<lambda>row_group_id.
     rbind read_u32 (\<lambda>column_id.
     rbind read_u16 (\<lambda>physical_type.
     rtry (OcbPhysicalTypeV1_from_u16 physical_type) (\<lambda>physical_type.
     rbind read_u16 (\<lambda>flags.
     rbind read_u32 (\<lambda>null_count.
     rbind OcbStatScalarV1_read_from (\<lambda>min_value.
     rbind OcbStatScalarV1_read_from (\<lambda>max_value.
     if OcbStatScalarV1_physical_type min_value \<noteq> physical_type
        \<or> OcbStatScalarV1_physical_type max_value \<noteq> physical_type
     then rfail (ocb_corrupt_file ''OCB stats scalar type does not match stats physical type'') else
     rret \<lparr>stat_row_group_id = row_group_id, stat_column_id = column_id,
           stat_physical_type = physical_type, stat_flags = flags, stat_null_count = null_count,
           stat_min_value = min_value, stat_max_value = max_value\<rparr>))))))))"

section \<open>Descriptors\<close>

record OcbRowGroupDescV1 =
  rg_row_group_id :: u32
  rg_flags :: u32
  rg_base_row :: u64
  rg_row_count :: u64
  rg_chunk_desc_begin :: u64
  rg_chunk_desc_count :: u32
  rg_stat_begin :: u64
  rg_stat_count :: u32
  rg_first_key_tuple_ref :: OcbBodyRefV2
  rg_last_key_tuple_ref :: OcbBodyRefV2

definition OcbRowGroupDescV1_write_to :: "OcbRowGroupDescV1 \<Rightarrow> bytes result" where
  "OcbRowGroupDescV1_write_to self = Inr (
     write_u32 (rg_row_group_id self) @
     write_u32 (rg_flags self) @
     write_u64 (rg_base_row self) @
     write_u64 (rg_row_count self) @
     write_u64 (rg_chunk_desc_begin self) @
     write_u32 (rg_chunk_desc_count self) @
     write_u32 0 @
     write_u64 (rg_stat_begin self) @
     write_u32 (rg_stat_count self) @
     write_u32 0 @
     OcbBodyRefV2_write_to (rg_first_key_tuple_ref self) @
     OcbBodyRefV2_write_to (rg_last_key_tuple_ref self))"

definition OcbRowGroupDescV1_read_from :: "OcbRowGroupDescV1 reader" where
  "OcbRowGroupDescV1_read_from =
     rbind read_u32 (\<lambda>row_group_id.
     rbind read_u32 (\<lambda>flags.
     rbind read_u64 (\<lambda>base_row.
     rbind read_u64 (\<lambda>row_count.
     rbind read_u64 (\<lambda>chunk_desc_begin.
     rbind read_u32 (\<lambda>chunk_desc_count.
     rbind read_u32 (\<lambda>reserved0.
     rbind read_u64 (\<lambda>stat_begin.
     rbind read_u32 (\<lambda>stat_count.
     rbind read_u32 (\<lambda>reserved1.
     rbind OcbBodyRefV2_read_from (\<lambda>first_key_tuple_ref.
     rbind OcbBodyRefV2_read_from (\<lambda>last_key_tuple_ref.
     rret \<lparr>rg_row_group_id = row_group_id, rg_flags = flags, rg_base_row = base_row,
           rg_row_count = row_count, rg_chunk_desc_begin = chunk_desc_begin,
           rg_chunk_desc_count = chunk_desc_count, rg_stat_begin = stat_begin,
           rg_stat_count = stat_count, rg_first_key_tuple_ref = first_key_tuple_ref,
           rg_last_key_tuple_ref = last_key_tuple_ref\<rparr>))))))))))))"

record OcbColumnChunkDescV1 =
  chunk_row_group_id :: u32
  chunk_column_id :: u32
  chunk_physical_type :: OcbPhysicalTypeV1
  chunk_codec :: OcbChunkCodecV1
  chunk_flags :: u32
  chunk_value_ref :: OcbBodyRefV2
  chunk_validity_ref :: OcbBodyRefV2
  chunk_row_count :: u64
  chunk_uncompressed_bytes :: u64

definition OcbColumnChunkDescV1_write_to :: "OcbColumnChunkDescV1 \<Rightarrow> bytes result" where
  "OcbColumnChunkDescV1_write_to self =
     (if br_kind (chunk_value_ref self) \<noteq> BodyKind_ColumnChunk
      then Inl (ocb_invalid_input ''OCB chunk value_ref must reference column chunk'')
      else if \<not> is_null (chunk_validity_ref self) \<and> br_kind (chunk_validity_ref self) \<noteq> BodyKind_ValidityBitmap
      then Inl (ocb_invalid_input ''OCB chunk validity_ref must reference validity bitmap'')
      else Inr (
        write_u32 (chunk_row_group_id self) @
        write_u32 (chunk_column_id self) @
        write_u16 (OcbPhysicalTypeV1_to_u16 (chunk_physical_type self)) @
        write_u16 (OcbChunkCodecV1_to_u16 (chunk_codec self)) @
        write_u32 (chunk_flags self) @
        OcbBodyRefV2_write_to (chunk_value_ref self) @
        OcbBodyRefV2_write_to (chunk_validity_ref self) @
        write_u64 (chunk_row_count self) @
        write_u64 (chunk_uncompressed_bytes self)))"

definition OcbColumnChunkDescV1_read_from :: "OcbColumnChunkDescV1 reader" where
  "OcbColumnChunkDescV1_read_from =
     rbind read_u32 (\<lambda>row_group_id.
     rbind read_u32 (\<lambda>column_id.
     rbind read_u16 (\<lambda>physical_type.
     rtry (OcbPhysicalTypeV1_from_u16 physical_type) (\<lambda>physical_type.
     rbind read_u16 (\<lambda>codec.
     rtry (OcbChunkCodecV1_from_u16 codec) (\<lambda>codec.
     rbind read_u32 (\<lambda>flags.
     rbind OcbBodyRefV2_read_from (\<lambda>value_ref.
     rbind OcbBodyRefV2_read_from (\<lambda>validity_ref.
     rbind read_u64 (\<lambda>row_count.
     rbind read_u64 (\<lambda>uncompressed_bytes.
     rret \<lparr>chunk_row_group_id = row_group_id, chunk_column_id = column_id,
           chunk_physical_type = physical_type, chunk_codec = codec, chunk_flags = flags,
           chunk_value_ref = value_ref, chunk_validity_ref = validity_ref,
           chunk_row_count = row_count, chunk_uncompressed_bytes = uncompressed_bytes\<rparr>)))))))))))"

section \<open>The row-group index\<close>

definition OCB_ROW_GROUP_INDEX_MAGIC_V1 :: bytes where
  "OCB_ROW_GROUP_INDEX_MAGIC_V1 = [0x4F, 0x43, 0x42, 0x52, 0x47, 0x49, 0x31, 0x00]"

definition OCB_ROW_GROUP_INDEX_V1_HEADER_LEN :: u16 where
  "OCB_ROW_GROUP_INDEX_V1_HEADER_LEN = 32"

record OcbRowGroupIndexV1 =
  rgi_version :: u16
  rgi_flags :: u32
  rgi_row_groups :: "OcbRowGroupDescV1 list"
  rgi_column_chunks :: "OcbColumnChunkDescV1 list"
  rgi_stats :: "OcbColumnStatsV1 list"
  rgi_crc32c :: u32

definition OcbRowGroupIndexV1_fields ::
  "host \<Rightarrow> usize \<Rightarrow> u32 \<Rightarrow> MetadataMaterializationBudget \<Rightarrow>
     (OcbRowGroupIndexV1 \<times> MetadataMaterializationBudget) reader" where
  "OcbRowGroupIndexV1_fields h total_len actual_crc budget =
     rbind (read_exact_ocb 8) (\<lambda>magic.
     if magic \<noteq> OCB_ROW_GROUP_INDEX_MAGIC_V1
     then rfail (ocb_corrupt_file ''invalid OCB row-group index magic'') else
     rbind read_u16 (\<lambda>version.
     if version \<noteq> 1 then rfail (ocb_unsupported_format ''unsupported OCB row-group index version'') else
     rbind read_u16 (\<lambda>header_bytes.
     if header_bytes \<noteq> OCB_ROW_GROUP_INDEX_V1_HEADER_LEN
     then rfail (ocb_corrupt_file ''invalid OCB row-group index header length'') else
     rbind read_u32 (\<lambda>row_group_count.
     rbind read_u32 (\<lambda>column_chunk_count.
     rbind read_u32 (\<lambda>stat_count.
     rbind read_u32 (\<lambda>flags.
     rbind read_u32 (\<lambda>reserved0.
     rcount total_len (ucast row_group_count) OCB_ROW_GROUP_DESC_V1_LEN
        ''OCB row-group index row-group count'' (\<lambda>row_group_count.
     rmark (\<lambda>records_start.
     rbind (validate_record_sequence OcbRowGroupDescV1_read_from row_group_count) (\<lambda>_.
     rcount total_len (ucast column_chunk_count) OCB_COLUMN_CHUNK_DESC_V1_LEN
        ''OCB row-group index column-chunk count'' (\<lambda>column_chunk_count.
     rbind (validate_record_sequence OcbColumnChunkDescV1_read_from column_chunk_count) (\<lambda>_.
     rcount total_len (ucast stat_count) OCB_COLUMN_STATS_V1_LEN
        ''OCB row-group index stat count'' (\<lambda>stat_count.
     rbind (validate_record_sequence OcbColumnStatsV1_read_from stat_count) (\<lambda>_.
     rtry (checked_materialized_vec_bytes h TyRowGroupDesc row_group_count) (\<lambda>row_group_bytes.
     rtry (checked_materialized_vec_bytes h TyColumnChunkDesc column_chunk_count) (\<lambda>chunk_bytes.
     rtry (checked_materialized_vec_bytes h TyColumnStats stat_count) (\<lambda>stat_bytes.
     rtry (checked_materialized_sum [row_group_bytes, chunk_bytes, stat_bytes]) (\<lambda>retained_bytes.
     rtry (charge budget retained_bytes) (\<lambda>budget.
     rset_position records_start (
     rbind (read_record_sequence h TyRowGroupDesc row_group_count
        ''OCB row-group allocation failed within resource limit'' OcbRowGroupDescV1_read_from) (\<lambda>row_groups.
     rbind (read_record_sequence h TyColumnChunkDesc column_chunk_count
        ''OCB column-chunk descriptor allocation failed within resource limit''
        OcbColumnChunkDescV1_read_from) (\<lambda>column_chunks.
     rbind (read_record_sequence h TyColumnStats stat_count
        ''OCB column-stat allocation failed within resource limit'' OcbColumnStatsV1_read_from) (\<lambda>stats.
     rret (\<lparr>rgi_version = version, rgi_flags = flags, rgi_row_groups = row_groups,
            rgi_column_chunks = column_chunks, rgi_stats = stats, rgi_crc32c = actual_crc\<rparr>,
           budget)))))))))))))))))))))))))"

definition OcbRowGroupIndexV1_read_from_bytes_with_budget ::
  "host \<Rightarrow> bytes \<Rightarrow> MetadataMaterializationBudget \<Rightarrow>
     (OcbRowGroupIndexV1 \<times> MetadataMaterializationBudget) result" where
  "OcbRowGroupIndexV1_read_from_bytes_with_budget h bs budget =
     open_object ''OCB row-group index crc mismatch'' bs (\<lambda>actual_crc bs.
       run_reader (OcbRowGroupIndexV1_fields h (length bs) actual_crc budget) bs)"

definition OcbRowGroupIndexV1_read_from_bytes :: "host \<Rightarrow> bytes \<Rightarrow> OcbRowGroupIndexV1 result" where
  "OcbRowGroupIndexV1_read_from_bytes h bs =
     sbind (OcbRowGroupIndexV1_read_from_bytes_with_budget h bs policy_a_metadata_materialization_budget)
       (\<lambda>r. Inr (fst r))"

definition OcbRowGroupIndexV1_encode_without_checksum :: "OcbRowGroupIndexV1 \<Rightarrow> bytes result" where
  "OcbRowGroupIndexV1_encode_without_checksum self =
     sbind (ok_or (u32_try_from (length (rgi_row_groups self)))
       (ocb_invalid_input ''OCB row-group index has too many row groups'')) (\<lambda>row_group_count.
     sbind (ok_or (u32_try_from (length (rgi_column_chunks self)))
       (ocb_invalid_input ''OCB row-group index has too many column chunks'')) (\<lambda>column_chunk_count.
     sbind (ok_or (u32_try_from (length (rgi_stats self)))
       (ocb_invalid_input ''OCB row-group index has too many stats'')) (\<lambda>stat_count.
     sbind (write_each OcbRowGroupDescV1_write_to (rgi_row_groups self)) (\<lambda>row_groups.
     sbind (write_each OcbColumnChunkDescV1_write_to (rgi_column_chunks self)) (\<lambda>chunks.
     sbind (write_each OcbColumnStatsV1_write_to (rgi_stats self)) (\<lambda>stats.
     Inr (OCB_ROW_GROUP_INDEX_MAGIC_V1 @
          write_u16 (rgi_version self) @
          write_u16 OCB_ROW_GROUP_INDEX_V1_HEADER_LEN @
          write_u32 row_group_count @
          write_u32 column_chunk_count @
          write_u32 stat_count @
          write_u32 (rgi_flags self) @
          write_u32 0 @
          row_groups @
          chunks @
          stats @
          write_u32 0)))))))"

definition OcbRowGroupIndexV1_write_to :: "OcbRowGroupIndexV1 \<Rightarrow> bytes result" where
  "OcbRowGroupIndexV1_write_to self =
     sbind (OcbRowGroupIndexV1_encode_without_checksum self) (\<lambda>buf. Inr (seal_object buf))"

section \<open>Round trips of the records\<close>

lemma ucast_scast_i32 [simp]: "ucast (scast (v :: i32) :: u64) = v"
  by (rule bit_word_eqI) (auto simp: bit_simps)

lemma ucast_ucast_u32 [simp]: "ucast (ucast (v :: u32) :: u64) = v"
  by (rule bit_word_eqI) (auto simp: bit_simps)

lemma reads_OcbStatScalarV1 [reads_intros]: "reads OcbStatScalarV1_read_from (OcbStatScalarV1_write_to s) s"
  unfolding OcbStatScalarV1_read_from_def OcbStatScalarV1_write_to_def
  by (cases s; simp only: OcbStatScalarV1_physical_type.simps OcbStatScalarV1.case;
      (rule reads_intros)+) (simp_all add: reads_bind_ret [OF reads_u32])

lemma length_OcbStatScalarV1_write_to [simp]: "length (OcbStatScalarV1_write_to s) = 16"
  by (cases s) (simp_all add: OcbStatScalarV1_write_to_def)

lemma reads_OcbColumnStatsV1: "OcbColumnStatsV1_write_to s = Inr bs \<Longrightarrow> reads OcbColumnStatsV1_read_from bs s"
  unfolding OcbColumnStatsV1_write_to_def OcbColumnStatsV1_read_from_def
  by (clarsimp simp del: de_Morgan_disj split: if_split_asm) (rule reads_intros reads_bind_last reads_ret_eq | simp; fail)+

interpretation column_stats: record_codec OcbColumnStatsV1_write_to OcbColumnStatsV1_read_from OCB_COLUMN_STATS_V1_LEN
proof
  show "OcbColumnStatsV1_write_to x = Inr bs \<Longrightarrow> reads OcbColumnStatsV1_read_from bs x" for x bs
    by (rule reads_OcbColumnStatsV1)
  show "OcbColumnStatsV1_write_to x = Inr bs \<Longrightarrow> length bs = OCB_COLUMN_STATS_V1_LEN" for x bs
    by (auto simp: OcbColumnStatsV1_write_to_def OCB_COLUMN_STATS_V1_LEN_def split: if_splits)
qed

lemma reads_OcbRowGroupDescV1: "OcbRowGroupDescV1_write_to g = Inr bs \<Longrightarrow> reads OcbRowGroupDescV1_read_from bs g"
  unfolding OcbRowGroupDescV1_write_to_def OcbRowGroupDescV1_read_from_def sum.inject
  by (erule subst) (rule reads_intros | simp; fail)+

interpretation row_group_desc: record_codec OcbRowGroupDescV1_write_to OcbRowGroupDescV1_read_from OCB_ROW_GROUP_DESC_V1_LEN
  by unfold_locales
    (auto simp: reads_OcbRowGroupDescV1 OcbRowGroupDescV1_write_to_def OCB_ROW_GROUP_DESC_V1_LEN_def)

lemma reads_OcbColumnChunkDescV1:
  "OcbColumnChunkDescV1_write_to d = Inr bs \<Longrightarrow> reads OcbColumnChunkDescV1_read_from bs d"
  unfolding OcbColumnChunkDescV1_write_to_def OcbColumnChunkDescV1_read_from_def
  by (clarsimp split: if_split_asm; (rule reads_intros | simp; fail)+)

interpretation column_chunk_desc: record_codec OcbColumnChunkDescV1_write_to OcbColumnChunkDescV1_read_from
    OCB_COLUMN_CHUNK_DESC_V1_LEN
proof
  show "OcbColumnChunkDescV1_write_to x = Inr bs \<Longrightarrow> reads OcbColumnChunkDescV1_read_from bs x" for x bs
    by (rule reads_OcbColumnChunkDescV1)
  show "OcbColumnChunkDescV1_write_to x = Inr bs \<Longrightarrow> length bs = OCB_COLUMN_CHUNK_DESC_V1_LEN" for x bs
    by (auto simp: OcbColumnChunkDescV1_write_to_def OCB_COLUMN_CHUNK_DESC_V1_LEN_def split: if_splits)
qed

section \<open>Round trip of the index\<close>

definition row_group_index_retained :: "host \<Rightarrow> OcbRowGroupIndexV1 \<Rightarrow> nat" where
  "row_group_index_retained h x =
     length (rgi_row_groups x) * host_size_of h TyRowGroupDesc +
     length (rgi_column_chunks x) * host_size_of h TyColumnChunkDesc +
     length (rgi_stats x) * host_size_of h TyColumnStats"

lemma length_row_group_index_magic [simp]: "length OCB_ROW_GROUP_INDEX_MAGIC_V1 = 8"
  by (simp add: OCB_ROW_GROUP_INDEX_MAGIC_V1_def)

lemma OcbRowGroupIndexV1_encode_has_trailer:
  "OcbRowGroupIndexV1_encode_without_checksum x = Inr buf \<Longrightarrow> has_trailer buf"
  by (auto simp: OcbRowGroupIndexV1_encode_without_checksum_def sbind_eq_Inr intro!: has_trailer_intros)

lemma oreads_row_group_index:
  assumes "OcbRowGroupIndexV1_encode_without_checksum x = Inr buf" and "rgi_version x = 1"
    and "host_ready h" and "fits b (row_group_index_retained h x)" and "N \<le> isize_max"
  shows "oreads N 0 [] (OcbRowGroupIndexV1_fields h N crc b) buf
      (x\<lparr>rgi_crc32c := crc\<rparr>, charged b (row_group_index_retained h x))"
proof -
  let ?ng = "length (rgi_row_groups x)" let ?nc = "length (rgi_column_chunks x)" let ?ns = "length (rgi_stats x)"
  let ?sg = "?ng * host_size_of h TyRowGroupDesc" let ?sc = "?nc * host_size_of h TyColumnChunkDesc"
  let ?ss = "?ns * host_size_of h TyColumnStats"
  from assms(1) obtain gs cs ss where n: "?ng < 2 ^ 32" "?nc < 2 ^ 32" "?ns < 2 ^ 32"
    and g: "write_each OcbRowGroupDescV1_write_to (rgi_row_groups x) = Inr gs"
    and c: "write_each OcbColumnChunkDescV1_write_to (rgi_column_chunks x) = Inr cs"
    and s: "write_each OcbColumnStatsV1_write_to (rgi_stats x) = Inr ss"
    and buf: "buf = OCB_ROW_GROUP_INDEX_MAGIC_V1 @ write_u16 (rgi_version x) @
      write_u16 OCB_ROW_GROUP_INDEX_V1_HEADER_LEN @ write_u32 (of_nat ?ng) @ write_u32 (of_nat ?nc) @
      write_u32 (of_nat ?ns) @ write_u32 (rgi_flags x) @ write_u32 0 @ gs @ cs @ ss @ write_u32 0"
    by (auto simp: OcbRowGroupIndexV1_encode_without_checksum_def sbind_eq_Inr u32_try_from_Some)
  have fit: "?sg + ?sc + ?ss \<le> isize_max"
    using assms(4) by (simp add: fits_def row_group_index_retained_def)
  then have f: "?sg \<le> isize_max" "?sc \<le> isize_max" "?ss \<le> isize_max" by simp_all
  have count: "?ng = unat (ucast (of_nat ?ng :: u32) :: u64)" "?nc = unat (ucast (of_nat ?nc :: u32) :: u64)"
    "?ns = unat (ucast (of_nat ?ns :: u32) :: u64)"
    using n by (simp_all add: unat_of_nat_u32)
  have len: "?ng * OCB_ROW_GROUP_DESC_V1_LEN + 4 \<le> length (gs @ cs @ ss @ write_u32 0)"
    "?nc * OCB_COLUMN_CHUNK_DESC_V1_LEN + 4 \<le> length (cs @ ss @ write_u32 0)"
    "?ns * OCB_COLUMN_STATS_V1_LEN + 4 \<le> length (ss @ write_u32 0)"
    using row_group_desc.length_write_each [OF g] column_chunk_desc.length_write_each [OF c]
      column_stats.length_write_each [OF s] by simp_all
  have mat: "checked_materialized_sum [of_nat ?sg, of_nat ?sc, of_nat ?ss] = Inr (of_nat (row_group_index_retained h x))"
    using checked_materialized_sum_of_nats [of "[?sg, ?sc, ?ss]"] isize_max_less [OF fit]
    by (simp add: row_group_index_retained_def add.assoc)
  note N = isize_max_less_usize_max [OF assms(5)]
  note counts = oreads_count [OF N count(1) len(1)] oreads_count [OF N count(2) len(2)]
    oreads_count [OF N count(3) len(3)]
  note pass1 = row_group_desc.reads_validate [OF g] column_chunk_desc.reads_validate [OF c]
    column_stats.reads_validate [OF s]
  note alloc = f [THEN try_vec_with_capacity_ready(2) [OF assms(3)]]
  note pass2 = row_group_desc.reads_record_sequence [OF g alloc(1)]
    column_chunk_desc.reads_record_sequence [OF c alloc(2)] column_stats.reads_record_sequence [OF s alloc(3)]
  note vec = f [THEN checked_materialized_vec_bytes_ready [OF assms(3)]]
  show ?thesis
    unfolding OcbRowGroupIndexV1_fields_def buf
    by (rule pass1 [THEN oreads_bind] pass2 [THEN oreads_bind] vec [THEN oreads_try] oreads_try [OF mat]
        oreads_try [OF charge_fits [OF assms(4)]] oreads_mark oreads_rewinds counts reads_intros
      | simp add: assms(2); fail)+
qed

lemma OcbRowGroupIndexV1_fields_charge:
  "OcbRowGroupIndexV1_fields h N crc b c = Inr ((x, b'), c') \<Longrightarrow> charges b b' (row_group_index_retained h x)"
  unfolding OcbRowGroupIndexV1_fields_def
  by (auto simp: reader_Inr row_group_index_retained_def add.assoc dest!: checked_materialized_vec_bytes_Inr
      checked_materialized_sum_Inr read_record_sequence_length charge_charges split: if_split_asm)

interpretation row_group_index: budgeted_codec OcbRowGroupIndexV1_encode_without_checksum
    OcbRowGroupIndexV1_write_to OcbRowGroupIndexV1_fields OcbRowGroupIndexV1_read_from_bytes_with_budget
    "''OCB row-group index crc mismatch''" "\<lambda>x. rgi_version x = 1" row_group_index_retained
    "\<lambda>crc x. x\<lparr>rgi_crc32c := crc\<rparr>"
  by unfold_locales
    (auto simp: OcbRowGroupIndexV1_write_to_def OcbRowGroupIndexV1_read_from_bytes_with_budget_def
      OcbRowGroupIndexV1_encode_has_trailer
      intro: oreads_row_group_index OcbRowGroupIndexV1_fields_charge)

end
