(* ===== verification/Column_Chunk.thy ===== *)
theory Column_Chunk
  imports Row_Groups
begin

text \<open>
  Column chunk objects (\<open>OcbColumnChunkObjectV1\<close> of \<open>format.rs\<close>): the stored values of one column in
  one row group, and the bounded decoding of their payload.

  The zstd decompressor is a library the code calls; it is a parameter of the model.  For a
  compressed input and a window limit it either refuses the input or behaves as a stream: some
  output bytes, after which it ends cleanly or fails.  How the output is split over reads does
  not matter to a byte stream, and the model only uses the stream.
\<close>

section \<open>The decompressor\<close>

record zstd_stream =
  zs_output :: bytes
  zs_clean_end :: bool

type_synonym zstd = "bytes \<Rightarrow> nat \<Rightarrow> zstd_stream option"

definition OCB_ZSTD_WRITER_COMPAT_WINDOW_LOG :: nat where
  "OCB_ZSTD_WRITER_COMPAT_WINDOW_LOG = 27"

definition OCB_ZSTD_PLATFORM_MAX_WINDOW_LOG :: nat where
  "OCB_ZSTD_PLATFORM_MAX_WINDOW_LOG = 31"

text \<open>\<open>u64::leading_zeros\<close>.\<close>

fun leading_zeros_below :: "nat \<Rightarrow> u64 \<Rightarrow> nat" where
  "leading_zeros_below 0 w = 0"
| "leading_zeros_below (Suc n) w = (if bit w n then 0 else Suc (leading_zeros_below n w))"

definition leading_zeros :: "u64 \<Rightarrow> nat" where
  "leading_zeros w = leading_zeros_below 64 w"

definition zstd_window_log_for_decoded_limit :: "u64 \<Rightarrow> nat" where
  "zstd_window_log_for_decoded_limit max_decoded_bytes =
     (let floor_log = (if max_decoded_bytes = 0 then 0 else 64 - 1 - leading_zeros max_decoded_bytes)
      in max OCB_ZSTD_WRITER_COMPAT_WINDOW_LOG (min OCB_ZSTD_PLATFORM_MAX_WINDOW_LOG floor_log))"

text \<open>
  \<open>read_exact\<close> succeeds when the stream yields enough bytes, and otherwise fails whatever the
  reason; the final one-byte read tells a clean end from surplus output and from a failure.
\<close>

definition decode_zstd_payload_bounded :: "host \<Rightarrow> zstd \<Rightarrow> bytes \<Rightarrow> u64 \<Rightarrow> u64 \<Rightarrow> bytes result" where
  "decode_zstd_payload_bounded h zstd encoded expected_bytes max_decoded_bytes =
     sbind (ok_or (checked_add expected_bytes 1)
        (ocb_corrupt_file ''OCB decoded column chunk byte length overflows'')) (\<lambda>_.
     sbind (ok_or (usize_try_from (unat expected_bytes))
        (ocb_corrupt_file ''OCB decoded column chunk byte length exceeds addressable memory'')) (\<lambda>expected_len.
     if expected_bytes > max_decoded_bytes
     then Inl (ocb_invalid_input ''OCB decoded column chunk exceeds resource limit'') else
     sbind (allocate_zeroed_bytes_fallibly h expected_len
        ''OCB decoded payload allocation failed within resource limit'') (\<lambda>decoded.
     sbind (ok_or (zstd encoded (zstd_window_log_for_decoded_limit max_decoded_bytes))
        (ocb_corrupt_file ''OCB zstd column chunk decode failed'')) (\<lambda>decoder.
     sbind (if decoded \<noteq> []
            then (if length decoded \<le> length (zs_output decoder)
                  then Inr (take (length decoded) (zs_output decoder))
                  else Inl (ocb_corrupt_file ''OCB zstd column chunk decode failed''))
            else Inr decoded) (\<lambda>decoded.
     if length (zs_output decoder) > length decoded
     then Inl (ocb_corrupt_file ''OCB zstd column chunk decoded byte length does not match header'')
     else if zs_clean_end decoder then Inr decoded
     else Inl (ocb_corrupt_file ''OCB zstd column chunk decode failed''))))))"

section \<open>Chunk objects\<close>

definition OCB_COLUMN_CHUNK_MAGIC_V1 :: bytes where
  "OCB_COLUMN_CHUNK_MAGIC_V1 = [0x4F, 0x43, 0x42, 0x43, 0x48, 0x4B, 0x31, 0x00]"

definition OCB_COLUMN_CHUNK_V1_HEADER_LEN :: u16 where
  "OCB_COLUMN_CHUNK_V1_HEADER_LEN = 44"

record OcbColumnChunkObjectV1 =
  cco_version :: u16
  cco_physical_type :: OcbPhysicalTypeV1
  cco_codec :: OcbChunkCodecV1
  cco_flags :: u32
  cco_row_group_id :: u32
  cco_column_id :: u32
  cco_row_count :: u64
  cco_uncompressed_bytes :: u64
  cco_payload :: bytes
  cco_crc32c :: u32

text \<open>The length check of primitive columns, with the two messages each caller passes.\<close>

definition check_primitive_value_bytes ::
  "(string \<Rightarrow> ArcadiaTioError) \<Rightarrow> OcbPhysicalTypeV1 \<Rightarrow> u64 \<Rightarrow> u64 \<Rightarrow> unit result" where
  "check_primitive_value_bytes err physical_type row_count value_bytes =
     (case primitive_byte_width physical_type of
        None \<Rightarrow> Inr ()
      | Some byte_width \<Rightarrow>
          sbind (ok_or (checked_mul row_count (of_nat byte_width))
             (err ''OCB column chunk value byte length overflows'')) (\<lambda>expected_value_bytes.
          if value_bytes \<noteq> expected_value_bytes
          then Inl (err ''OCB column chunk value byte length does not match row count and physical type'')
          else Inr ()))"

definition OcbColumnChunkObjectV1_fields :: "usize \<Rightarrow> u32 \<Rightarrow> OcbColumnChunkObjectV1 reader" where
  "OcbColumnChunkObjectV1_fields total_len actual_crc =
     rbind (read_exact_ocb 8) (\<lambda>magic.
     if magic \<noteq> OCB_COLUMN_CHUNK_MAGIC_V1
     then rfail (ocb_corrupt_file ''invalid OCB column chunk magic'') else
     rbind read_u16 (\<lambda>version.
     if version \<noteq> 1 then rfail (ocb_unsupported_format ''unsupported OCB column chunk version'') else
     rbind read_u16 (\<lambda>header_bytes.
     if header_bytes \<noteq> OCB_COLUMN_CHUNK_V1_HEADER_LEN
     then rfail (ocb_corrupt_file ''invalid OCB column chunk header length'') else
     rbind read_u16 (\<lambda>physical_type.
     rtry (OcbPhysicalTypeV1_from_u16 physical_type) (\<lambda>physical_type.
     rbind read_u16 (\<lambda>codec.
     rtry (OcbChunkCodecV1_from_u16 codec) (\<lambda>codec.
     rbind read_u32 (\<lambda>flags.
     rbind read_u32 (\<lambda>row_group_id.
     rbind read_u32 (\<lambda>column_id.
     rbind read_u64 (\<lambda>row_count.
     rbind read_u64 (\<lambda>value_bytes.
     rtry (check_primitive_value_bytes ocb_corrupt_file physical_type row_count value_bytes) (\<lambda>_.
     rmark (\<lambda>position.
     rtry (remaining_before_crc total_len position) (\<lambda>payload_len.
     if codec = Codec_None \<and> of_nat payload_len \<noteq> value_bytes
     then rfail (ocb_corrupt_file ''OCB uncompressed column chunk value byte length does not match header'') else
     rmark (\<lambda>position.
     rtry (ok_or (usize_try_from position)
        (ocb_corrupt_file ''OCB column chunk payload offset exceeds addressable memory'')) (\<lambda>payload_start.
     rtry (ok_or (usize_checked_add payload_start payload_len)
        (ocb_corrupt_file ''OCB column chunk payload range overflows'')) (\<lambda>payload_end.
     rslice payload_start payload_end (\<lambda>payload.
     rret \<lparr>cco_version = version, cco_physical_type = physical_type, cco_codec = codec,
           cco_flags = flags, cco_row_group_id = row_group_id, cco_column_id = column_id,
           cco_row_count = row_count, cco_uncompressed_bytes = value_bytes,
           cco_payload = payload, cco_crc32c = actual_crc\<rparr>)))))))))))))))))))"

text \<open>
  \<open>copy_within(payload_start..payload_end, 0)\<close> followed by \<open>truncate(payload_len)\<close> leaves the bytes of
  the range; they are taken with \<open>rslice\<close>.
\<close>

definition OcbColumnChunkObjectV1_read_from_bytes :: "bytes \<Rightarrow> OcbColumnChunkObjectV1 result" where
  "OcbColumnChunkObjectV1_read_from_bytes bs =
     open_object ''OCB column chunk crc mismatch'' bs (\<lambda>actual_crc bs.
       run_reader (OcbColumnChunkObjectV1_fields (length bs) actual_crc) bs)"

definition uncompressed_value_bytes :: "OcbColumnChunkObjectV1 \<Rightarrow> u64 result" where
  "uncompressed_value_bytes self =
     sbind (check_primitive_value_bytes ocb_corrupt_file (cco_physical_type self) (cco_row_count self)
        (cco_uncompressed_bytes self)) (\<lambda>_.
     Inr (cco_uncompressed_bytes self))"

definition decode_payload_with_limits ::
  "host \<Rightarrow> zstd \<Rightarrow> OcbColumnChunkObjectV1 \<Rightarrow> u64 \<Rightarrow> u64 \<Rightarrow> bytes result" where
  "decode_payload_with_limits h zstd self max_compressed_bytes max_decompressed_bytes =
     sbind (uncompressed_value_bytes self) (\<lambda>expected_value_bytes.
     case cco_codec self of
       Codec_None \<Rightarrow>
         if of_nat (length (cco_payload self)) \<noteq> expected_value_bytes
         then Inl (ocb_corrupt_file ''OCB uncompressed column chunk value byte length does not match header'') else
         sbind (ok_or (u64_try_from (length (cco_payload self)))
            (ocb_corrupt_file ''OCB uncompressed column chunk payload exceeds addressable length'')) (\<lambda>encoded_bytes.
         if encoded_bytes > max_compressed_bytes
         then Inl (ocb_invalid_input ''OCB encoded column chunk exceeds resource limit'') else
         if expected_value_bytes > max_decompressed_bytes
         then Inl (ocb_invalid_input ''OCB decoded column chunk exceeds resource limit'') else
         copy_bytes_fallibly h (cco_payload self)
           ''OCB decoded payload allocation failed within resource limit'')
     | Codec_Zstd \<Rightarrow>
         if cco_payload self = []
         then Inl (ocb_corrupt_file ''OCB zstd column chunk payload must not be empty'') else
         sbind (ok_or (u64_try_from (length (cco_payload self)))
            (ocb_corrupt_file ''OCB zstd column chunk payload exceeds addressable length'')) (\<lambda>compressed_bytes.
         if compressed_bytes > max_compressed_bytes
         then Inl (ocb_invalid_input ''OCB compressed column chunk exceeds resource limit'') else
         decode_zstd_payload_bounded h zstd (cco_payload self) expected_value_bytes max_decompressed_bytes))"

definition decode_payload :: "host \<Rightarrow> zstd \<Rightarrow> OcbColumnChunkObjectV1 \<Rightarrow> bytes result" where
  "decode_payload h zstd self =
     decode_payload_with_limits h zstd self OCB_POLICY_A_MAX_COMPRESSED_CHUNK_BYTES
       OCB_POLICY_A_MAX_DECOMPRESSED_CHUNK_BYTES"

definition into_decoded_payload_with_limits ::
  "host \<Rightarrow> zstd \<Rightarrow> OcbColumnChunkObjectV1 \<Rightarrow> u64 \<Rightarrow> u64 \<Rightarrow> bytes result" where
  "into_decoded_payload_with_limits h zstd self max_compressed_bytes max_decompressed_bytes =
     sbind (uncompressed_value_bytes self) (\<lambda>expected_value_bytes.
     case cco_codec self of
       Codec_None \<Rightarrow>
         if of_nat (length (cco_payload self)) \<noteq> expected_value_bytes
         then Inl (ocb_corrupt_file ''OCB uncompressed column chunk value byte length does not match header'') else
         sbind (ok_or (u64_try_from (length (cco_payload self)))
            (ocb_corrupt_file ''OCB uncompressed column chunk payload exceeds addressable length'')) (\<lambda>encoded_bytes.
         if encoded_bytes > max_compressed_bytes
         then Inl (ocb_invalid_input ''OCB encoded column chunk exceeds resource limit'') else
         if expected_value_bytes > max_decompressed_bytes
         then Inl (ocb_invalid_input ''OCB decoded column chunk exceeds resource limit'') else
         Inr (cco_payload self))
     | Codec_Zstd \<Rightarrow>
         if cco_payload self = []
         then Inl (ocb_corrupt_file ''OCB zstd column chunk payload must not be empty'') else
         sbind (ok_or (u64_try_from (length (cco_payload self)))
            (ocb_corrupt_file ''OCB zstd column chunk payload exceeds addressable length'')) (\<lambda>compressed_bytes.
         if compressed_bytes > max_compressed_bytes
         then Inl (ocb_invalid_input ''OCB compressed column chunk exceeds resource limit'') else
         decode_zstd_payload_bounded h zstd (cco_payload self) expected_value_bytes max_decompressed_bytes))"

definition OcbColumnChunkObjectV1_layout :: "OcbColumnChunkObjectV1 \<Rightarrow> bytes" where
  "OcbColumnChunkObjectV1_layout self =
     OCB_COLUMN_CHUNK_MAGIC_V1 @
     write_u16 (cco_version self) @
     write_u16 OCB_COLUMN_CHUNK_V1_HEADER_LEN @
     write_u16 (OcbPhysicalTypeV1_to_u16 (cco_physical_type self)) @
     write_u16 (OcbChunkCodecV1_to_u16 (cco_codec self)) @
     write_u32 (cco_flags self) @
     write_u32 (cco_row_group_id self) @
     write_u32 (cco_column_id self) @
     write_u64 (cco_row_count self) @
     write_u64 (cco_uncompressed_bytes self) @
     cco_payload self @
     write_u32 0"

definition OcbColumnChunkObjectV1_encode_without_checksum :: "OcbColumnChunkObjectV1 \<Rightarrow> bytes result" where
  "OcbColumnChunkObjectV1_encode_without_checksum self =
     sbind (check_primitive_value_bytes ocb_invalid_input (cco_physical_type self) (cco_row_count self)
        (cco_uncompressed_bytes self)) (\<lambda>_.
     if cco_codec self = Codec_None \<and> of_nat (length (cco_payload self)) \<noteq> cco_uncompressed_bytes self
     then Inl (ocb_invalid_input ''OCB column chunk payload length does not match row count and physical type'') else
     if cco_codec self = Codec_Zstd \<and> cco_payload self = []
     then Inl (ocb_invalid_input ''OCB zstd column chunk payload must not be empty'') else
     Inr (OcbColumnChunkObjectV1_layout self))"

definition OcbColumnChunkObjectV1_write_to :: "OcbColumnChunkObjectV1 \<Rightarrow> bytes result" where
  "OcbColumnChunkObjectV1_write_to self =
     sbind (OcbColumnChunkObjectV1_encode_without_checksum self) (\<lambda>buf. Inr (seal_object buf))"

section \<open>Round trip\<close>

lemma check_primitive_value_bytes_Inr:
  "check_primitive_value_bytes err ty n m = Inr u \<longleftrightarrow>
     (\<forall>w. primitive_byte_width ty = Some w \<longrightarrow> checked_mul n (of_nat w) = Some m)"
  by (auto simp: check_primitive_value_bytes_def sbind_eq_Inr split: option.splits if_splits)

lemma OcbColumnChunkObjectV1_encode_Inr:
  "OcbColumnChunkObjectV1_encode_without_checksum x = Inr buf \<longleftrightarrow>
     buf = OcbColumnChunkObjectV1_layout x \<and>
     check_primitive_value_bytes ocb_corrupt_file (cco_physical_type x) (cco_row_count x)
       (cco_uncompressed_bytes x) = Inr () \<and>
     (cco_codec x = Codec_None \<longrightarrow> of_nat (length (cco_payload x)) = cco_uncompressed_bytes x) \<and>
     (cco_codec x = Codec_Zstd \<longrightarrow> cco_payload x \<noteq> [])"
  by (auto simp: OcbColumnChunkObjectV1_encode_without_checksum_def sbind_eq_Inr
      check_primitive_value_bytes_Inr split: if_splits)

lemma has_trailer_column_chunk: "has_trailer (OcbColumnChunkObjectV1_layout x)"
  unfolding OcbColumnChunkObjectV1_layout_def by (intro has_trailer_intros)

interpretation column_chunk: sealed_codec OcbColumnChunkObjectV1_encode_without_checksum
    OcbColumnChunkObjectV1_write_to OcbColumnChunkObjectV1_read_from_bytes "''OCB column chunk crc mismatch''"
  by unfold_locales
    (auto simp: OcbColumnChunkObjectV1_write_to_def OcbColumnChunkObjectV1_read_from_bytes_def
      open_object_rejects OcbColumnChunkObjectV1_encode_Inr has_trailer_column_chunk)

lemma length_column_chunk_magic [simp]: "length OCB_COLUMN_CHUNK_MAGIC_V1 = 8"
  by (simp add: OCB_COLUMN_CHUNK_MAGIC_V1_def)

lemma oreads_column_chunk:
  assumes "OcbColumnChunkObjectV1_encode_without_checksum x = Inr buf" and "cco_version x = 1" and "N \<le> isize_max"
  shows "oreads N 0 [] (OcbColumnChunkObjectV1_fields N crc) buf (x\<lparr>cco_crc32c := crc\<rparr>)"
proof -
  from assms(1) have buf: "buf = OcbColumnChunkObjectV1_layout x"
    and prim: "check_primitive_value_bytes ocb_corrupt_file (cco_physical_type x) (cco_row_count x)
       (cco_uncompressed_bytes x) = Inr ()"
    and none: "\<not> (cco_codec x = Codec_None \<and> of_nat (length (cco_payload x)) \<noteq> cco_uncompressed_bytes x)"
    by (auto simp: OcbColumnChunkObjectV1_encode_Inr)
  note N = isize_max_less_usize_max [OF assms(3)]
  show ?thesis
    unfolding OcbColumnChunkObjectV1_fields_def buf OcbColumnChunkObjectV1_layout_def
    by (rule oreads_try [OF prim] oreads_remaining [OF N, where n = "length (cco_payload x)"]
        oreads_if_not [OF none] oreads_range [OF N] oreads_slice reads_intros
      | simp add: assms(2); fail)+
qed

lemma OcbColumnChunkObjectV1_write_read:
  assumes "OcbColumnChunkObjectV1_write_to x = Inr bs" and "cco_version x = 1" and "length bs \<le> isize_max"
  shows "OcbColumnChunkObjectV1_read_from_bytes bs =
      Inr (x\<lparr>cco_crc32c := crc32c (OcbColumnChunkObjectV1_layout x)\<rparr>)"
proof -
  from assms(1) have enc: "OcbColumnChunkObjectV1_encode_without_checksum x = Inr (OcbColumnChunkObjectV1_layout x)"
    and bs: "bs = seal_object (OcbColumnChunkObjectV1_layout x)"
    by (auto simp: OcbColumnChunkObjectV1_write_to_def OcbColumnChunkObjectV1_encode_Inr sbind_eq_Inr)
  note tr = has_trailer_column_chunk [of x]
  have "length (OcbColumnChunkObjectV1_layout x) \<le> isize_max"
    using assms(3) has_trailer_length [OF tr] by (simp add: bs)
  from oreads_run [OF oreads_column_chunk [OF enc assms(2) this]] show ?thesis
    by (simp add: bs OcbColumnChunkObjectV1_read_from_bytes_def open_object_seal tr)
qed

section \<open>Bounded decoding\<close>

text \<open>The decoder returns the output of a stream that ends cleanly after exactly the expected bytes, and nothing else.\<close>

lemma decode_zstd_payload_bounded_Inr:
  "decode_zstd_payload_bounded h zstd enc n m = Inr out \<longleftrightarrow>
     unat n + 1 < 2 ^ 64 \<and> n \<le> m \<and>
     try_reserve_exact h TyU8 (unat n) ''OCB decoded payload allocation failed within resource limit'' \<and>
     zstd enc (zstd_window_log_for_decoded_limit m) = Some \<lparr>zs_output = out, zs_clean_end = True\<rparr> \<and>
     length out = unat n" (is "?lhs = ?rhs")
proof (cases "zstd enc (zstd_window_log_for_decoded_limit m)")
  case None
  then show ?thesis by (simp add: decode_zstd_payload_bounded_def sbind_eq_Inr)
next
  case (Some st)
  obtain o1 cl where st: "st = \<lparr>zs_output = o1, zs_clean_end = cl\<rparr>" by (cases st)
  have len: "length (vec_resize (unat n) (0 :: u8) []) = unat n" by simp
  have nil: "vec_resize (unat n) (0 :: u8) [] \<noteq> [] \<longleftrightarrow> unat n \<noteq> 0" by (simp add: vec_resize_def)
  show ?thesis
  proof
    assume ?lhs
    then show ?rhs
      by (auto simp: decode_zstd_payload_bounded_def sbind_eq_Inr Some st checked_add_def
          allocate_zeroed_bytes_fallibly_def nil not_less vec_resize_def split: if_splits)
  next
    assume ?rhs
    then show ?lhs
      by (auto simp: decode_zstd_payload_bounded_def Some st checked_add_def
          allocate_zeroed_bytes_fallibly_def not_less vec_resize_def)
  qed
qed

lemma decode_zstd_payload_bounded_errs [errs_intros]:
  assumes "\<And>m. P (ocb_corrupt_file m)" and "\<And>m. P (ocb_invalid_input m)" and "\<And>m. P (ocb_allocation_error m)"
  shows "errs P (decode_zstd_payload_bounded h zstd enc n m)"
  unfolding decode_zstd_payload_bounded_def allocate_zeroed_bytes_fallibly_def
  by (intro errs_intros assms)

text \<open>A decoded payload has the length the header promises and obeys both limits.\<close>

lemma decode_payload_with_limits_Inr:
  assumes "decode_payload_with_limits h zstd x maxc maxd = Inr out"
  shows "length out = unat (cco_uncompressed_bytes x)" and "length out \<le> unat maxd"
    and "length (cco_payload x) \<le> unat maxc"
proof -
  have "length out = unat (cco_uncompressed_bytes x) \<and> length out \<le> unat maxd \<and> length (cco_payload x) \<le> unat maxc"
  proof (cases "cco_codec x")
    case Codec_None
    with assms have "of_nat (length (cco_payload x)) = cco_uncompressed_bytes x" "length (cco_payload x) < 2 ^ 64"
      and le: "cco_uncompressed_bytes x \<le> maxc" "cco_uncompressed_bytes x \<le> maxd" "out = cco_payload x"
      by (auto simp: decode_payload_with_limits_def uncompressed_value_bytes_def copy_bytes_fallibly_def
          sbind_eq_Inr u64_try_from_Some not_less split: if_splits)
    then have "length (cco_payload x) = unat (cco_uncompressed_bytes x)" by (metis unat_of_nat_u64)
    with le show ?thesis by (simp add: word_le_nat_alt)
  next
    case Codec_Zstd
    with assms show ?thesis
      by (auto simp: decode_payload_with_limits_def uncompressed_value_bytes_def sbind_eq_Inr
          decode_zstd_payload_bounded_Inr u64_try_from_Some unat_of_nat_u64 not_less word_le_nat_alt
          split: if_splits)
  qed
  then show "length out = unat (cco_uncompressed_bytes x)" "length out \<le> unat maxd"
    "length (cco_payload x) \<le> unat maxc" by simp_all
qed

text \<open>Decoding by reference and by value agree wherever memory for the copy is granted.\<close>

lemma into_decoded_payload_eq:
  assumes "host_ready h" and "length (cco_payload x) \<le> isize_max"
  shows "into_decoded_payload_with_limits h zstd x maxc maxd = decode_payload_with_limits h zstd x maxc maxd"
proof -
  have copy: "copy_bytes_fallibly h (cco_payload x) msg = Inr (cco_payload x)" for msg
    using allocate_ready(2) [OF assms] by simp
  show ?thesis
    unfolding into_decoded_payload_with_limits_def decode_payload_with_limits_def copy ..
qed

section \<open>Window sizes\<close>

lemma leading_zeros_below_less:
  "take_bit n w \<noteq> 0 \<Longrightarrow> leading_zeros_below n w < n \<and> bit w (n - 1 - leading_zeros_below n w) \<and>
     (\<forall>i. n - 1 - leading_zeros_below n w < i \<and> i < n \<longrightarrow> \<not> bit w i)"
proof (induction n)
  case 0
  then show ?case by simp
next
  case (Suc n)
  show ?case
  proof (cases "bit w n")
    case True
    then show ?thesis by auto
  next
    case False
    then have "take_bit (Suc n) w = take_bit n w"
      by (intro bit_word_eqI) (auto simp: bit_take_bit_iff less_Suc_eq)
    with Suc.prems have "take_bit n w \<noteq> 0" by simp
    with Suc.IH False show ?thesis by (auto simp: less_Suc_eq)
  qed
qed

lemma bit_le_unat: "bit (w :: 'a::len word) k \<Longrightarrow> 2 ^ k \<le> unat w"
proof (rule ccontr)
  assume b: "bit w k" and "\<not> 2 ^ k \<le> unat w"
  then have "take_bit k (unat w) = unat w" by (simp add: take_bit_nat_eq_self)
  then have "\<not> bit (unat w) k" by (metis bit_take_bit_iff less_irrefl)
  moreover from b have "bit (unat w) k" by (simp add: bit_unsigned_iff)
  ultimately show False by simp
qed

lemma floor_log_bounds:
  assumes "w \<noteq> 0"
  shows "2 ^ (63 - leading_zeros w) \<le> unat w" and "unat w < 2 ^ (64 - leading_zeros w)"
proof -
  let ?k = "63 - leading_zeros w"
  have "take_bit 64 w \<noteq> 0" using assms by (simp add: take_bit_word_eq_self)
  from leading_zeros_below_less [OF this] have k: "leading_zeros w < 64" "bit w ?k"
    and above: "\<And>i. ?k < i \<Longrightarrow> i < 64 \<Longrightarrow> \<not> bit w i"
    by (auto simp: leading_zeros_def)
  show "2 ^ ?k \<le> unat w" using k(2) by (rule bit_le_unat)
  have "n \<le> ?k" if "n < 64" "bit w n" for n using above [of n] that by (meson not_le)
  then have "take_bit (Suc ?k) w = w"
    by (intro bit_word_eqI) (auto simp: bit_take_bit_iff less_Suc_eq_le)
  then have "unat w = take_bit (Suc ?k) (unat w)" by (metis unsigned_take_bit_eq)
  then have "unat w < 2 ^ Suc ?k" by (metis take_bit_nat_less_exp)
  moreover have "Suc ?k = 64 - leading_zeros w" using k(1) by arith
  ultimately show "unat w < 2 ^ (64 - leading_zeros w)" by simp
qed

lemma zstd_window_log_bounds:
  "27 \<le> zstd_window_log_for_decoded_limit m \<and> zstd_window_log_for_decoded_limit m \<le> 31"
  by (simp add: zstd_window_log_for_decoded_limit_def OCB_ZSTD_WRITER_COMPAT_WINDOW_LOG_def
      OCB_ZSTD_PLATFORM_MAX_WINDOW_LOG_def Let_def)

end
