(* ===== verification/Object_Read.thy ===== *)
theory Object_Read
  imports Read_Source Column_Chunk
begin

text \<open>
  Reading referenced objects (\<open>read_object_bytes*\<close>, the column chunk readers and
  \<open>validate_column_chunk_object_streaming\<close> of \<open>read.rs\<close>).

  Every operation seeks before it reads, so the cursor \<open>file\<close> an operation is given only
  contributes its source; where one operation goes on reading behind another, the first
  returns the advanced cursor.  The timing attribution the code can collect is not modelled: it
  is written by these functions and never read by them.
\<close>

section \<open>Whole objects\<close>

definition allocate_object_bytes_fallibly :: "host \<Rightarrow> usize \<Rightarrow> bytes result" where
  "allocate_object_bytes_fallibly h object_len =
     (if try_reserve_exact h TyU8 object_len ''OCB object allocation failed within resource limit''
      then Inr (vec_resize object_len 0 [])
      else Inl (Io (IoError IoKind_OutOfMemory ''OCB object allocation failed within resource limit'')))"

definition read_object_bytes_inner_with_limits ::
  "host \<Rightarrow> OcbReadCursor \<Rightarrow> u64 \<Rightarrow> OcbBodyRefV2 \<Rightarrow> OcbBodyKindV1 \<Rightarrow> u64 \<Rightarrow> u64 \<Rightarrow> bytes result" where
  "read_object_bytes_inner_with_limits h reader file_len reference expected_kind max_object_bytes addressable_bytes =
     sbind (OcbBodyRefV2_validate reference expected_kind file_len) (\<lambda>_.
     if br_length reference > addressable_bytes
     then Inl (ocb_corrupt_file ''OCB body reference length exceeds addressable memory'') else
     sbind (ok_or (usize_try_from (unat (br_length reference)))
        (ocb_corrupt_file ''OCB body reference length exceeds addressable memory'')) (\<lambda>object_len.
     if br_length reference > max_object_bytes
     then Inl (ocb_invalid_input ''OCB encoded object exceeds resource limit'') else
     sbind (seek_start reader (br_offset reference)) (\<lambda>reader.
     sbind (allocate_object_bytes_fallibly h object_len) (\<lambda>bs.
     sbind (file_read_exact_ocb reader (length bs)) (\<lambda>(bs, reader).
     case br_checksum_kind reference of
       ChecksumKind_None \<Rightarrow> Inr bs
     | ChecksumKind_Crc32c \<Rightarrow>
         (let actual = crc32c bs in
          if actual \<noteq> br_checksum reference
          then Inl (ocb_corrupt_file ''OCB body reference checksum mismatch'')
          else Inr bs))))))"

definition read_object_bytes_inner ::
  "host \<Rightarrow> OcbReadCursor \<Rightarrow> u64 \<Rightarrow> OcbBodyRefV2 \<Rightarrow> OcbBodyKindV1 \<Rightarrow> bytes result" where
  "read_object_bytes_inner h file file_len reference expected_kind =
     read_object_bytes_inner_with_limits h file file_len reference expected_kind
       OCB_POLICY_A_MAX_ENCODED_OBJECT_BYTES (of_nat usize_max)"

definition read_object_bytes ::
  "host \<Rightarrow> OcbReadCursor \<Rightarrow> u64 \<Rightarrow> OcbBodyRefV2 \<Rightarrow> OcbBodyKindV1 \<Rightarrow> bytes result" where
  "read_object_bytes h file file_len reference expected_kind =
     read_object_bytes_inner h file file_len reference expected_kind"

definition read_object_bytes_with_resource_limits ::
  "host \<Rightarrow> OcbReadCursor \<Rightarrow> u64 \<Rightarrow> OcbBodyRefV2 \<Rightarrow> OcbBodyKindV1 \<Rightarrow> OcbResourceLimits \<Rightarrow> bytes result" where
  "read_object_bytes_with_resource_limits h file file_len reference expected_kind resource_limits =
     read_object_bytes_inner_with_limits h file file_len reference expected_kind
       (max_encoded_object_bytes resource_limits) (of_nat usize_max)"

definition validate_optional_object ::
  "host \<Rightarrow> OcbReadCursor \<Rightarrow> u64 \<Rightarrow> OcbBodyRefV2 \<Rightarrow> OcbBodyKindV1 \<Rightarrow> OcbResourceLimits \<Rightarrow> unit result" where
  "validate_optional_object h file file_len reference kind resource_limits =
     (if \<not> is_null reference
      then sbind (read_object_bytes_with_resource_limits h file file_len reference kind resource_limits) (\<lambda>_. Inr ())
      else Inr ())"

section \<open>Column chunks\<close>

definition header_u16 :: "bytes \<Rightarrow> nat \<Rightarrow> u16" where
  "header_u16 header i = from_le_bytes (slice i (i + 2) header)"

definition header_u32 :: "bytes \<Rightarrow> nat \<Rightarrow> u32" where
  "header_u32 header i = from_le_bytes (slice i (i + 4) header)"

definition header_u64 :: "bytes \<Rightarrow> nat \<Rightarrow> u64" where
  "header_u64 header i = from_le_bytes (slice i (i + 8) header)"

definition validate_column_chunk_object_header ::
  "OcbReadCursor \<Rightarrow> u64 \<Rightarrow> OcbColumnChunkDescV1 \<Rightarrow> OcbResourceLimits \<Rightarrow> (bytes \<times> OcbReadCursor) result" where
  "validate_column_chunk_object_header file file_len chunk resource_limits =
     (let reference = chunk_value_ref chunk;
          min_object_len = ucast OCB_COLUMN_CHUNK_V1_HEADER_LEN + 4 :: u64 in
     sbind (OcbBodyRefV2_validate reference BodyKind_ColumnChunk file_len) (\<lambda>_.
     if br_length reference < min_object_len
     then Inl (ocb_corrupt_file ''OCB column chunk object is too short'') else
     sbind (seek_start file (br_offset reference)) (\<lambda>file.
     sbind (file_read_exact_ocb file (unat OCB_COLUMN_CHUNK_V1_HEADER_LEN)) (\<lambda>(header, file).
     if slice 0 8 header \<noteq> OCB_COLUMN_CHUNK_MAGIC_V1
     then Inl (ocb_corrupt_file ''invalid OCB column chunk magic'') else
     let version = header_u16 header 8;
         header_len = header_u16 header 10;
         physical_type_raw = header_u16 header 12;
         codec_raw = header_u16 header 14;
         row_group_id = header_u32 header 20;
         column_id = header_u32 header 24;
         row_count = header_u64 header 28;
         value_bytes = header_u64 header 36 in
     if version \<noteq> 1
     then Inl (ocb_unsupported_format ''unsupported OCB column chunk object version'') else
     if header_len \<noteq> OCB_COLUMN_CHUNK_V1_HEADER_LEN
        \<or> physical_type_raw \<noteq> OcbPhysicalTypeV1_to_u16 (chunk_physical_type chunk)
        \<or> codec_raw \<noteq> OcbChunkCodecV1_to_u16 (chunk_codec chunk)
        \<or> row_group_id \<noteq> chunk_row_group_id chunk
        \<or> column_id \<noteq> chunk_column_id chunk
        \<or> row_count \<noteq> chunk_row_count chunk
        \<or> value_bytes \<noteq> chunk_uncompressed_bytes chunk
     then Inl (ocb_corrupt_file ''OCB column chunk object does not match descriptor'') else
     if br_length reference < min_object_len
     then Inl (ocb_corrupt_file ''OCB column chunk value byte length does not match descriptor'') else
     sbind (ok_or (checked_sub (br_length reference) min_object_len)
        (ocb_corrupt_file ''OCB column chunk object is too short'')) (\<lambda>encoded_bytes.
     if chunk_codec chunk = Codec_None
        \<and> Option.bind (checked_add (ucast OCB_COLUMN_CHUNK_V1_HEADER_LEN) value_bytes)
             (\<lambda>len. checked_add len 4) \<noteq> Some (br_length reference)
     then Inl (ocb_corrupt_file ''OCB uncompressed column chunk object length does not match descriptor'') else
     if chunk_codec chunk = Codec_Zstd \<and> br_length reference = min_object_len
     then Inl (ocb_corrupt_file ''OCB zstd column chunk object has empty payload'') else
     if unat (br_length reference) > usize_max
     then Inl (ocb_corrupt_file ''OCB column chunk object exceeds addressable memory'') else
     if br_length reference > max_encoded_object_bytes resource_limits
     then Inl (ocb_invalid_input ''OCB encoded object exceeds resource limit'') else
     if encoded_bytes > max_compressed_chunk_bytes resource_limits
     then Inl (ocb_invalid_input ''OCB encoded column chunk payload exceeds resource limit'') else
     if chunk_uncompressed_bytes chunk > max_decompressed_chunk_bytes resource_limits
     then Inl (ocb_invalid_input ''OCB decoded column chunk payload exceeds resource limit'') else
     Inr (header, file))))))"

definition read_column_chunk_from_reader_with_resource_limits ::
  "host \<Rightarrow> OcbReadCursor \<Rightarrow> u64 \<Rightarrow> OcbColumnChunkDescV1 \<Rightarrow> OcbResourceLimits \<Rightarrow> OcbColumnChunkObjectV1 result" where
  "read_column_chunk_from_reader_with_resource_limits h file file_len chunk resource_limits =
     sbind (validate_column_chunk_object_header file file_len chunk resource_limits) (\<lambda>_.
     sbind (read_object_bytes_with_resource_limits h file file_len (chunk_value_ref chunk)
        BodyKind_ColumnChunk resource_limits) (\<lambda>bs.
     OcbColumnChunkObjectV1_read_from_bytes bs))"

definition read_column_chunk_from_source_with_resource_limits ::
  "host \<Rightarrow> OcbReadSource \<Rightarrow> u64 \<Rightarrow> OcbColumnChunkDescV1 \<Rightarrow> OcbResourceLimits \<Rightarrow> OcbColumnChunkObjectV1 result" where
  "read_column_chunk_from_source_with_resource_limits h source file_len chunk resource_limits =
     read_column_chunk_from_reader_with_resource_limits h (OcbReadSource_cursor source) file_len chunk resource_limits"

text \<open>
  The direct fill writes the payload into the caller's buffer \<open>out\<close>, of which only the length
  matters beforehand; the result is the buffer's new contents.
\<close>

definition read_uncompressed_fixed_binary_chunk_from_source_into_inner ::
  "OcbReadSource \<Rightarrow> u64 \<Rightarrow> OcbColumnChunkDescV1 \<Rightarrow> nat \<Rightarrow> OcbResourceLimits \<Rightarrow> bytes result" where
  "read_uncompressed_fixed_binary_chunk_from_source_into_inner source file_len chunk out_len resource_limits =
     (if chunk_physical_type chunk \<noteq> Phys_FixedBinary \<or> chunk_codec chunk \<noteq> Codec_None
      then Inl (ocb_invalid_input ''OCB direct chunk fill requires uncompressed fixed-binary data'') else
      sbind (validate_column_chunk_object_header (OcbReadSource_cursor source) file_len chunk resource_limits) (\<lambda>(header, file).
      sbind (ok_or (checked_sub (br_length (chunk_value_ref chunk)) (ucast OCB_COLUMN_CHUNK_V1_HEADER_LEN + 4))
         (ocb_corrupt_file ''OCB column chunk object is too short'')) (\<lambda>payload_bytes.
      if payload_bytes \<noteq> of_nat out_len
      then Inl (ocb_invalid_input ''OCB direct fill buffer byte length does not match uncompressed fixed-binary chunk'') else
      sbind (file_read_exact_ocb file out_len) (\<lambda>(out, file).
      sbind (file_read_exact_ocb file 4) (\<lambda>(trailing_crc, file).
      let content_crc = crc32c_update (crc32c_update crc32c_init header) out;
          actual_body_checksum = crc32c_finish (crc32c_update content_crc trailing_crc);
          actual_object_checksum = crc32c_finish (crc32c_update content_crc [0, 0, 0, 0]) in
      if br_checksum_kind (chunk_value_ref chunk) = ChecksumKind_Crc32c
         \<and> actual_body_checksum \<noteq> br_checksum (chunk_value_ref chunk)
      then Inl (ocb_corrupt_file ''OCB body reference checksum mismatch'') else
      if actual_object_checksum \<noteq> from_le_bytes trailing_crc
      then Inl (ocb_corrupt_file ''OCB column chunk crc mismatch'') else
      Inr out)))))"

text \<open>The loop of the streaming validation: 8192 bytes at a time, both checksums updated.\<close>

definition stream_step :: "u64 \<Rightarrow> nat" where
  "stream_step remaining = (if remaining > 8192 then 8192 else unat remaining)"

lemma unat_minus_stream_step: "unat (r - of_nat (stream_step r)) = unat r - stream_step r"
proof -
  have le: "stream_step r \<le> unat r" by (simp add: stream_step_def word_less_nat_alt)
  then have "unat (of_nat (stream_step r) :: u64) = stream_step r"
    using unsigned_less [of r, where ?'a = nat] by (intro unat_of_nat_u64) simp
  with le show ?thesis by (simp add: unat_sub word_le_nat_alt)
qed

lemma stream_step_decreases: "0 < r \<Longrightarrow> unat (r - of_nat (stream_step r)) < unat r"
  unfolding unat_minus_stream_step by (auto simp: stream_step_def word_less_nat_alt unat_gt_0)

function stream_column_chunk_payload ::
  "OcbReadCursor \<Rightarrow> u64 \<Rightarrow> u32 \<Rightarrow> u32 \<Rightarrow> bytes option \<Rightarrow> (OcbReadCursor \<times> u32 \<times> u32 \<times> bytes option) result" where
  "stream_column_chunk_payload file remaining body_crc object_crc compressed_payload =
     (if remaining > 0 then
        (let n = stream_step remaining in
         sbind (file_read_exact_ocb file n) (\<lambda>(buf, file).
         stream_column_chunk_payload file (remaining - of_nat n)
           (crc32c_update body_crc buf) (crc32c_update object_crc buf)
           (map_option (\<lambda>payload. payload @ buf) compressed_payload)))
      else Inr (file, body_crc, object_crc, compressed_payload))"
  by pat_completeness auto
termination
  by (relation "measure (\<lambda>(_, remaining, _). unat remaining)") (simp_all add: stream_step_decreases)

definition validate_column_chunk_object_streaming ::
  "host \<Rightarrow> zstd \<Rightarrow> OcbReadCursor \<Rightarrow> u64 \<Rightarrow> OcbColumnChunkDescV1 \<Rightarrow> OcbResourceLimits \<Rightarrow> unit result" where
  "validate_column_chunk_object_streaming h zstd file file_len chunk resource_limits =
     (let reference = chunk_value_ref chunk in
     sbind (validate_column_chunk_object_header file file_len chunk resource_limits) (\<lambda>(header, file).
     sbind (ok_or (checked_sub (br_length reference) (ucast OCB_COLUMN_CHUNK_V1_HEADER_LEN + 4))
        (ocb_corrupt_file ''OCB column chunk object is too short'')) (\<lambda>encoded_bytes.
     let body_crc = crc32c_update crc32c_init header;
         object_crc = crc32c_update crc32c_init header in
     sbind (if chunk_codec chunk = Codec_Zstd
            then sbind (ok_or (usize_try_from (unat encoded_bytes))
                   (ocb_corrupt_file ''OCB zstd column chunk payload exceeds addressable memory'')) (\<lambda>encoded_len.
                 if try_reserve_exact h TyU8 encoded_len ''OCB compressed payload allocation failed within resource limit''
                 then Inr (Some [])
                 else Inl (Io (IoError IoKind_OutOfMemory ''OCB compressed payload allocation failed within resource limit'')))
            else Inr None) (\<lambda>compressed_payload.
     sbind (stream_column_chunk_payload file encoded_bytes body_crc object_crc compressed_payload)
       (\<lambda>(file, body_crc, object_crc, compressed_payload).
     sbind (file_read_exact_ocb file 4) (\<lambda>(trailing_crc, file).
     let body_crc = crc32c_update body_crc trailing_crc;
         object_crc = crc32c_update object_crc [0, 0, 0, 0] in
     if br_checksum_kind reference = ChecksumKind_Crc32c \<and> crc32c_finish body_crc \<noteq> br_checksum reference
     then Inl (ocb_corrupt_file ''OCB body reference checksum mismatch'') else
     if crc32c_finish object_crc \<noteq> from_le_bytes trailing_crc
     then Inl (ocb_corrupt_file ''OCB column chunk crc mismatch'') else
     case compressed_payload of
       Some payload \<Rightarrow>
         sbind (decode_payload_with_limits h zstd
            \<lparr>cco_version = 1, cco_physical_type = chunk_physical_type chunk, cco_codec = chunk_codec chunk,
             cco_flags = 0, cco_row_group_id = chunk_row_group_id chunk, cco_column_id = chunk_column_id chunk,
             cco_row_count = chunk_row_count chunk, cco_uncompressed_bytes = chunk_uncompressed_bytes chunk,
             cco_payload = payload, cco_crc32c = from_le_bytes trailing_crc\<rparr>
            (max_compressed_chunk_bytes resource_limits) (max_decompressed_chunk_bytes resource_limits)) (\<lambda>decoded.
         if of_nat (length decoded) \<noteq> chunk_uncompressed_bytes chunk
         then Inl (ocb_corrupt_file ''OCB zstd column chunk decoded byte length does not match descriptor'')
         else Inr ())
     | None \<Rightarrow> Inr ()))))))"

declare stream_column_chunk_payload.simps [simp del]

section \<open>What an object read returns\<close>

text \<open>The bytes a reference points at.\<close>

definition referenced :: "OcbBodyRefV2 \<Rightarrow> bytes \<Rightarrow> bytes" where
  "referenced r content = take (unat (br_length r)) (drop (unat (br_offset r)) content)"

definition checksum_matches :: "OcbBodyRefV2 \<Rightarrow> bytes \<Rightarrow> bool" where
  "checksum_matches r bs \<longleftrightarrow> (br_checksum_kind r = ChecksumKind_Crc32c \<longrightarrow> crc32c bs = br_checksum r)"

lemma length_referenced:
  "ref_in_file r kind file_len \<Longrightarrow> unat file_len \<le> length content \<Longrightarrow>
     length (referenced r content) = unat (br_length r)"
  by (auto simp: referenced_def ref_in_file_def)

lemma checksum_case:
  "(case br_checksum_kind r of
      ChecksumKind_None \<Rightarrow> Inr bs
    | ChecksumKind_Crc32c \<Rightarrow> (let actual = crc32c bs in if actual \<noteq> br_checksum r then Inl e else Inr bs)) =
   (if checksum_matches r bs then Inr bs else Inl e)"
  by (simp add: checksum_matches_def Let_def split: OcbChecksumKindV1.split)

lemma not_usize_max_less: "\<not> (of_nat usize_max :: u64) < w"
proof -
  have "unat (of_nat usize_max :: u64) = usize_max" by (rule unat_of_nat_u64) (simp add: usize_max_def)
  then show ?thesis by (simp add: word_less_nat_alt not_less)
qed

lemma read_object_bytes_sound:
  assumes "read_object_bytes_inner_with_limits h file file_len r kind maxb addr = Inr bs"
    and "source_serves (rc_source file) content"
  shows "ref_in_file r kind file_len" and "br_length r \<le> maxb" and "bs = referenced r content"
    and "length bs = unat (br_length r)" and "checksum_matches r bs"
proof -
  from assms(1) obtain c' where v: "ref_in_file r kind file_len" and m: "br_length r \<le> maxb"
    and rd: "file_read_exact_ocb (file\<lparr>rc_position := br_offset r\<rparr>) (unat (br_length r)) = Inr (bs, c')"
    and ck: "checksum_matches r bs"
    by (auto simp: read_object_bytes_inner_with_limits_def sbind_eq_Inr OcbBodyRefV2_validate_Inr
        allocate_object_bytes_fallibly_def checksum_case not_less split: if_splits)
  from file_read_exact_ocb_serves [OF _ rd, of content] assms(2) v m ck
  show "ref_in_file r kind file_len" "br_length r \<le> maxb" "bs = referenced r content"
    "length bs = unat (br_length r)" "checksum_matches r bs"
    by (simp_all add: referenced_def)
qed

text \<open>With memory and a reliable file, the read succeeds exactly on references into the file that match their checksum.\<close>

lemma read_object_bytes_complete:
  assumes "source_serves (rc_source file) content" and "source_reliable (rc_source file)"
    and "host_ready h" and "unat maxb \<le> isize_max"
    and "ref_in_file r kind (rs_file_len (rc_source file))" and "br_length r \<le> maxb"
  shows "read_object_bytes_inner_with_limits h file (rs_file_len (rc_source file)) r kind maxb (of_nat usize_max) =
     (if checksum_matches r (referenced r content) then Inr (referenced r content)
      else Inl (ocb_corrupt_file ''OCB body reference checksum mismatch''))"
proof -
  have len: "unat (br_length r) \<le> isize_max" using assms(4,6) by (simp add: word_le_nat_alt)
  have "unat (br_offset r) + unat (br_length r) \<le> length content"
    using assms(1,5) by (simp add: source_serves_def ref_in_file_def)
  then have "file_read_exact_ocb (file\<lparr>rc_position := br_offset r\<rparr>) (unat (br_length r)) =
      Inr (referenced r content, advanced (file\<lparr>rc_position := br_offset r\<rparr>) (unat (br_length r)))"
    using file_read_exact_ocb_reliable [of "file\<lparr>rc_position := br_offset r\<rparr>" content] assms(1,2)
    by (simp add: referenced_def)
  moreover have "allocate_object_bytes_fallibly h (unat (br_length r)) = Inr (replicate (unat (br_length r)) 0)"
    using assms(3) len
    by (simp add: allocate_object_bytes_fallibly_def try_reserve_exact_def host_ready_def vec_resize_def)
  moreover have "OcbBodyRefV2_validate r kind (rs_file_len (rc_source file)) = Inr ()"
    using assms(5) by (simp add: OcbBodyRefV2_validate_Inr)
  ultimately show ?thesis
    using assms(6)
    by (simp add: read_object_bytes_inner_with_limits_def not_usize_max_less checksum_case not_less)
qed

lemma read_object_bytes_with_resource_limits_iff:
  assumes "source_serves (rc_source file) content" and "source_reliable (rc_source file)"
    and "host_ready h" and "limits_ok limits"
  shows "read_object_bytes_with_resource_limits h file (rs_file_len (rc_source file)) r kind limits = Inr bs \<longleftrightarrow>
     ref_in_file r kind (rs_file_len (rc_source file)) \<and> br_length r \<le> max_encoded_object_bytes limits \<and>
     bs = referenced r content \<and> checksum_matches r bs"
proof -
  have "unat (max_encoded_object_bytes limits) \<le> isize_max" using assms(4) by (simp add: limits_ok_def)
  note complete = read_object_bytes_complete [OF assms(1-3) this]
  show ?thesis (is "?lhs \<longleftrightarrow> ?rhs")
  proof
    assume ?lhs
    from read_object_bytes_sound [OF this [unfolded read_object_bytes_with_resource_limits_def] assms(1)]
    show ?rhs by blast
  next
    assume ?rhs
    then show ?lhs using complete [of r kind] by (auto simp: read_object_bytes_with_resource_limits_def)
  qed
qed

section \<open>Column chunk headers\<close>

text \<open>The object a descriptor promises, with the flags, payload and checksum the file adds.\<close>

definition chunk_object :: "OcbColumnChunkDescV1 \<Rightarrow> u32 \<Rightarrow> bytes \<Rightarrow> u32 \<Rightarrow> OcbColumnChunkObjectV1" where
  "chunk_object chunk flags payload crc =
     \<lparr>cco_version = 1, cco_physical_type = chunk_physical_type chunk, cco_codec = chunk_codec chunk,
      cco_flags = flags, cco_row_group_id = chunk_row_group_id chunk, cco_column_id = chunk_column_id chunk,
      cco_row_count = chunk_row_count chunk, cco_uncompressed_bytes = chunk_uncompressed_bytes chunk,
      cco_payload = payload, cco_crc32c = crc\<rparr>"

definition chunk_header :: "OcbColumnChunkDescV1 \<Rightarrow> u32 \<Rightarrow> bytes" where
  "chunk_header chunk flags = take 44 (OcbColumnChunkObjectV1_layout (chunk_object chunk flags [] 0))"

lemma chunk_layout:
  "OcbColumnChunkObjectV1_layout (chunk_object chunk flags payload crc) =
     chunk_header chunk flags @ payload @ write_u32 0"
  by (simp add: chunk_header_def chunk_object_def OcbColumnChunkObjectV1_layout_def take_Cons')

lemma length_chunk_header [simp]: "length (chunk_header chunk flags) = 44"
  by (simp add: chunk_header_def OcbColumnChunkObjectV1_layout_def)

lemma write_header_fields:
  "i + 2 \<le> length hdr \<Longrightarrow> write_u16 (header_u16 hdr i) = slice i (i + 2) hdr"
  "i + 4 \<le> length hdr \<Longrightarrow> write_u32 (header_u32 hdr i) = slice i (i + 4) hdr"
  "i + 8 \<le> length hdr \<Longrightarrow> write_u64 (header_u64 hdr i) = slice i (i + 8) hdr"
  using to_from_le_bytes [of "slice i (i + 2) hdr", where ?'a = 16]
    to_from_le_bytes [of "slice i (i + 4) hdr", where ?'a = 32]
    to_from_le_bytes [of "slice i (i + 8) hdr", where ?'a = 64]
  by (simp_all add: header_u16_def header_u32_def header_u64_def write_u16_def write_u32_def write_u64_def)

lemma slice_append: "i \<le> j \<Longrightarrow> j \<le> k \<Longrightarrow> slice i j xs @ slice j k xs = slice i k xs"
  using take_add [of "j - i" "k - j" "drop i xs"] by (simp add: slice_def)

lemma slice_append_assoc: "i \<le> j \<Longrightarrow> j \<le> k \<Longrightarrow> slice i j xs @ slice j k xs @ ys = slice i k xs @ ys"
  by (metis append.assoc slice_append)

text \<open>A header whose fields agree with the descriptor is the header the writer lays out.\<close>

lemma chunk_header_fields:
  assumes "length hdr = 44" and "slice 0 8 hdr = OCB_COLUMN_CHUNK_MAGIC_V1"
    and "header_u16 hdr 8 = 1" and "header_u16 hdr 10 = OCB_COLUMN_CHUNK_V1_HEADER_LEN"
    and "header_u16 hdr 12 = OcbPhysicalTypeV1_to_u16 (chunk_physical_type chunk)"
    and "header_u16 hdr 14 = OcbChunkCodecV1_to_u16 (chunk_codec chunk)"
    and "header_u32 hdr 20 = chunk_row_group_id chunk" and "header_u32 hdr 24 = chunk_column_id chunk"
    and "header_u64 hdr 28 = chunk_row_count chunk" and "header_u64 hdr 36 = chunk_uncompressed_bytes chunk"
  shows "hdr = chunk_header chunk (header_u32 hdr 16)"
proof -
  have "chunk_header chunk (header_u32 hdr 16) =
      slice 0 8 hdr @ slice 8 10 hdr @ slice 10 12 hdr @ slice 12 14 hdr @ slice 14 16 hdr @ slice 16 20 hdr @
      slice 20 24 hdr @ slice 24 28 hdr @ slice 28 36 hdr @ slice 36 44 hdr"
    using write_header_fields(1) [of 8 hdr] write_header_fields(1) [of 10 hdr]
      write_header_fields(1) [of 12 hdr] write_header_fields(1) [of 14 hdr]
      write_header_fields(2) [of 16 hdr] write_header_fields(2) [of 20 hdr] write_header_fields(2) [of 24 hdr]
      write_header_fields(3) [of 28 hdr] write_header_fields(3) [of 36 hdr] assms
    by (simp add: chunk_header_def OcbColumnChunkObjectV1_layout_def chunk_object_def)
  also have "\<dots> = slice 0 44 hdr" by (simp add: slice_append_assoc slice_append)
  finally show ?thesis using assms(1) by (simp add: slice_def)
qed

text \<open>What an accepted header says of the file and of the descriptor.\<close>

lemma column_chunk_min_len: "unat (ucast OCB_COLUMN_CHUNK_V1_HEADER_LEN + 4 :: u64) = 48"
  by (simp add: OCB_COLUMN_CHUNK_V1_HEADER_LEN_def)

lemma validate_column_chunk_object_header_sound:
  assumes "validate_column_chunk_object_header file file_len chunk limits = Inr (hdr, file')"
    and "source_serves (rc_source file) content"
  shows "ref_in_file (chunk_value_ref chunk) BodyKind_ColumnChunk file_len"
    and "48 \<le> unat (br_length (chunk_value_ref chunk))"
    and "hdr = take 44 (drop (unat (br_offset (chunk_value_ref chunk))) content)"
    and "\<exists>flags. hdr = chunk_header chunk flags"
    and "file' = advanced (file\<lparr>rc_position := br_offset (chunk_value_ref chunk)\<rparr>) 44"
    and "chunk_codec chunk = Codec_None \<Longrightarrow>
      unat (br_length (chunk_value_ref chunk)) = 48 + unat (chunk_uncompressed_bytes chunk)"
    and "chunk_codec chunk = Codec_Zstd \<Longrightarrow> 48 < unat (br_length (chunk_value_ref chunk))"
    and "br_length (chunk_value_ref chunk) \<le> max_encoded_object_bytes limits"
    and "unat (br_length (chunk_value_ref chunk)) - 48 \<le> unat (max_compressed_chunk_bytes limits)"
    and "chunk_uncompressed_bytes chunk \<le> max_decompressed_chunk_bytes limits"
proof -
  let ?r = "chunk_value_ref chunk"
  let ?f = "file\<lparr>rc_position := br_offset ?r\<rparr>"
  let ?m = "ucast OCB_COLUMN_CHUNK_V1_HEADER_LEN + 4 :: u64"
  have H: "unat OCB_COLUMN_CHUNK_V1_HEADER_LEN = 44" by (simp add: OCB_COLUMN_CHUNK_V1_HEADER_LEN_def)
  from assms(1) obtain n where
    v: "ref_in_file ?r BodyKind_ColumnChunk file_len" and rd: "file_read_exact_ocb ?f 44 = Inr (hdr, file')"
    and magic: "slice 0 8 hdr = OCB_COLUMN_CHUNK_MAGIC_V1"
    and fields: "header_u16 hdr 8 = 1" "header_u16 hdr 10 = OCB_COLUMN_CHUNK_V1_HEADER_LEN"
      "header_u16 hdr 12 = OcbPhysicalTypeV1_to_u16 (chunk_physical_type chunk)"
      "header_u16 hdr 14 = OcbChunkCodecV1_to_u16 (chunk_codec chunk)"
      "header_u32 hdr 20 = chunk_row_group_id chunk" "header_u32 hdr 24 = chunk_column_id chunk"
      "header_u64 hdr 28 = chunk_row_count chunk" "header_u64 hdr 36 = chunk_uncompressed_bytes chunk"
    and min_len: "\<not> br_length ?r < ?m" and n: "checked_sub (br_length ?r) ?m = Some n"
    and codec: "\<not> (chunk_codec chunk = Codec_None \<and>
        Option.bind (checked_add (ucast OCB_COLUMN_CHUNK_V1_HEADER_LEN) (header_u64 hdr 36))
          (\<lambda>len. checked_add len 4) \<noteq> Some (br_length ?r))"
      "\<not> (chunk_codec chunk = Codec_Zstd \<and> br_length ?r = ?m)"
    and limits: "\<not> br_length ?r > max_encoded_object_bytes limits" "\<not> n > max_compressed_chunk_bytes limits"
      "\<not> chunk_uncompressed_bytes chunk > max_decompressed_chunk_bytes limits"
    unfolding validate_column_chunk_object_header_def Let_def H
    by (auto simp: sbind_eq_Inr OcbBodyRefV2_validate_Inr split: if_splits)
  have s: "source_serves (rc_source ?f) content" using assms(2) by simp
  note r = file_read_exact_ocb_serves [OF s rd]
  show "ref_in_file ?r BodyKind_ColumnChunk file_len" by (rule v)
  show len: "48 \<le> unat (br_length ?r)" using min_len by (simp add: word_less_nat_alt column_chunk_min_len)
  show "hdr = take 44 (drop (unat (br_offset ?r)) content)" using r(1) by simp
  show "\<exists>flags. hdr = chunk_header chunk flags" using chunk_header_fields [OF r(2) magic fields] by blast
  show "file' = advanced ?f 44" using r(3) by simp
  show "unat (br_length ?r) = 48 + unat (chunk_uncompressed_bytes chunk)" if "chunk_codec chunk = Codec_None"
    using codec(1) that fields(8)
    by (auto simp: OCB_COLUMN_CHUNK_V1_HEADER_LEN_def bind_eq_Some_conv dest!: checked_add_Some)
  show "48 < unat (br_length ?r)" if "chunk_codec chunk = Codec_Zstd"
    using codec(2) that len column_chunk_min_len by (metis le_neq_implies_less word_unat_eq_iff)
  show "br_length ?r \<le> max_encoded_object_bytes limits" using limits(1) by simp
  show "unat (br_length ?r) - 48 \<le> unat (max_compressed_chunk_bytes limits)"
    using limits(2) checked_sub_Some [OF n] by (simp add: word_less_nat_alt column_chunk_min_len)
  show "chunk_uncompressed_bytes chunk \<le> max_decompressed_chunk_bytes limits" using limits(3) by simp
qed

section \<open>Streaming agrees with reading\<close>

lemma stream_column_chunk_payload_reliable:
  assumes "source_serves (rc_source file) content" and "source_reliable (rc_source file)"
    and "unat (rc_position file) + unat n \<le> length content"
  shows "stream_column_chunk_payload file n b q p =
     (let P = take (unat n) (drop (unat (rc_position file)) content)
      in Inr (advanced file (unat n), crc32c_update b P, crc32c_update q P, map_option (\<lambda>x. x @ P) p))"
  using assms
proof (induction "file" n b q p rule: stream_column_chunk_payload.induct)
  case (1 fl n b q p)
  show ?case
  proof (cases "0 < n")
    case False
    then have "n = 0" by (simp add: word_gt_0)
    then show ?thesis by (simp add: stream_column_chunk_payload.simps [of fl 0] option.map_ident)
  next
    case True
    let ?k = "stream_step n"
    let ?A = "take ?k (drop (unat (rc_position fl)) content)"
    let ?P = "take (unat n) (drop (unat (rc_position fl)) content)"
    let ?R = "take (unat n - ?k) (drop (unat (rc_position fl) + ?k) content)"
    have k: "?k \<le> unat n" by (simp add: stream_step_def word_less_nat_alt)
    then have le: "unat (rc_position fl) + ?k \<le> length content" using 1(4) by simp
    have pos: "unat (rc_position (advanced fl ?k)) = unat (rc_position fl) + ?k"
      using 1(2) le by (rule unat_rc_position_advanced)
    have rd: "file_read_exact_ocb fl ?k = Inr (?A, advanced fl ?k)"
      using 1(2,3) le by (rule file_read_exact_ocb_reliable)
    have P: "?P = ?A @ ?R" 
      using take_add [of ?k "unat n - ?k" "drop (unat (rc_position fl)) content"] k by (simp add: add.commute)
    have "stream_column_chunk_payload (advanced fl ?k) (n - of_nat ?k) (crc32c_update b ?A) (crc32c_update q ?A)
        (map_option (\<lambda>x. x @ ?A) p) =
       Inr (advanced (advanced fl ?k) (unat n - ?k), crc32c_update (crc32c_update b ?A) ?R,
         crc32c_update (crc32c_update q ?A) ?R, map_option (\<lambda>x. x @ ?R) (map_option (\<lambda>x. x @ ?A) p))"
      using 1(1) [OF True refl, of "advanced fl ?k" ?A] 1(2-4) k
      by (simp add: pos unat_minus_stream_step Let_def)
    then show ?thesis
      using True rd k
      by (simp add: stream_column_chunk_payload.simps [of fl n] P crc32c_update_append option.map_comp comp_def
          Let_def)
  qed
qed

text \<open>The object a reference names, cut into header, payload and trailing checksum.\<close>

lemma referenced_split:
  assumes "48 \<le> unat (br_length r)" and "unat (br_offset r) + unat (br_length r) \<le> length content"
  shows "referenced r content =
      take 44 (drop (unat (br_offset r)) content) @
      take (unat (br_length r) - 48) (drop (unat (br_offset r) + 44) content) @
      take 4 (drop (unat (br_offset r) + (unat (br_length r) - 4)) content)"
proof -
  define n where "n = unat (br_length r) - 48"
  have len: "unat (br_length r) = 44 + (n + 4)" using assms(1) by (simp add: n_def)
  have "unat (br_offset r) + (unat (br_length r) - 4) = unat (br_offset r) + 44 + n" by (simp add: len)
  then show ?thesis
    unfolding referenced_def len take_add by (simp add: add.commute add.left_commute)
qed

lemma accepted_chunk:
  assumes "validate_column_chunk_object_header file (rs_file_len (rc_source file)) chunk limits = Inr (hdr, file')"
    and "source_serves (rc_source file) content"
  obtains flags P t where "hdr = chunk_header chunk flags"
    and "referenced (chunk_value_ref chunk) content = hdr @ P @ t"
    and "length P = unat (br_length (chunk_value_ref chunk)) - 48" and "length t = 4"
    and "P = take (length P) (drop (unat (rc_position file')) content)"
    and "t = take 4 (drop (unat (rc_position file') + length P) content)"
    and "unat (rc_position file') + length P + 4 \<le> length content"
    and "rc_source file' = rc_source file"
proof -
  let ?r = "chunk_value_ref chunk"
  note h = validate_column_chunk_object_header_sound [OF assms]
  let ?P = "take (unat (br_length ?r) - 48) (drop (unat (br_offset ?r) + 44) content)"
  let ?t = "take 4 (drop (unat (br_offset ?r) + (unat (br_length ?r) - 4)) content)"
  have le: "unat (br_offset ?r) + unat (br_length ?r) \<le> length content"
    using h(1) assms(2) by (simp add: ref_in_file_def source_serves_def)
  have pos: "unat (rc_position file') = unat (br_offset ?r) + 44"
    using unat_rc_position_advanced [of "file\<lparr>rc_position := br_offset ?r\<rparr>" content 44] assms(2) le h(2)
    by (simp add: h(5))
  have lenP: "length ?P = unat (br_length ?r) - 48" using le h(2) by simp
  obtain flags where "hdr = chunk_header chunk flags" using h(4) by blast
  moreover have "referenced ?r content = hdr @ ?P @ ?t"
    using referenced_split [OF h(2) le] h(3) by simp
  moreover have "length ?t = 4" using le h(2) by simp
  moreover have "?P = take (length ?P) (drop (unat (rc_position file')) content)" by (simp only: lenP pos)
  moreover have "unat (br_offset ?r) + (unat (br_length ?r) - 4) = unat (rc_position file') + length ?P"
    unfolding lenP pos using h(2) by simp
  then have "?t = take 4 (drop (unat (rc_position file') + length ?P) content)" by (simp only:)
  moreover have "unat (rc_position file') + length ?P + 4 \<le> length content"
    unfolding lenP pos using le h(2) by simp
  moreover have "rc_source file' = rc_source file" by (simp add: h(5))
  ultimately show thesis using lenP by (intro that)
qed

lemma OcbColumnChunkObjectV1_read_from_bytes_chunk:
  assumes "check_primitive_value_bytes ocb_corrupt_file (chunk_physical_type chunk) (chunk_row_count chunk)
       (chunk_uncompressed_bytes chunk) = Inr ()"
    and "chunk_codec chunk = Codec_None \<Longrightarrow> of_nat (length P) = chunk_uncompressed_bytes chunk"
    and "chunk_codec chunk = Codec_Zstd \<Longrightarrow> P \<noteq> []"
    and "length t = 4" and "length P + 48 \<le> isize_max"
  shows "OcbColumnChunkObjectV1_read_from_bytes (chunk_header chunk flags @ P @ t) =
     (if crc_verified (chunk_header chunk flags @ P @ t)
      then Inr (chunk_object chunk flags P (from_le_bytes t))
      else Inl (ocb_corrupt_file ''OCB column chunk crc mismatch''))"
proof (cases "crc_verified (chunk_header chunk flags @ P @ t)")
  case False
  then show ?thesis using column_chunk.rd_crc [of "chunk_header chunk flags @ P @ t"] by simp
next
  case True
  let ?x = "chunk_object chunk flags P 0"
  have t: "t = write_u32 (from_le_bytes t)"
    using to_from_le_bytes [of t, where ?'a = 32] assms(4) by (simp add: write_u32_def)
  have enc: "OcbColumnChunkObjectV1_encode_without_checksum ?x = Inr (OcbColumnChunkObjectV1_layout ?x)"
    using assms(1-3) by (simp add: OcbColumnChunkObjectV1_encode_Inr chunk_object_def)
  have zeroed: "write_u32_at_end (chunk_header chunk flags @ P @ t) 0 = OcbColumnChunkObjectV1_layout ?x"
    using write_u32_at_end_append [OF assms(4), of "chunk_header chunk flags @ P" 0] by (simp add: chunk_layout)
  have crc: "crc32c (OcbColumnChunkObjectV1_layout ?x) = from_le_bytes t"
    using True crc_verified_append [of "chunk_header chunk flags @ P" "from_le_bytes t"] t
    by (metis append.assoc chunk_layout)
  have len: "length (OcbColumnChunkObjectV1_layout ?x) \<le> isize_max" using assms(5) by (simp add: chunk_layout)
  have "cco_version ?x = 1" by (simp add: chunk_object_def)
  from oreads_run [OF oreads_column_chunk [OF enc this len]] True
  have "OcbColumnChunkObjectV1_read_from_bytes (chunk_header chunk flags @ P @ t) =
      Inr (?x\<lparr>cco_crc32c := from_le_bytes t\<rparr>)"
    unfolding OcbColumnChunkObjectV1_read_from_bytes_def open_object_Inr zeroed crc by simp
  with True show ?thesis by (simp add: chunk_object_def)
qed

text \<open>What reading an accepted chunk gives: both checksums are verified, and the object is the promised one.\<close>

lemma read_column_chunk_accepted:
  assumes "source_serves (rc_source file) content" and "source_reliable (rc_source file)"
    and "host_ready h" and "limits_ok limits"
    and "check_primitive_value_bytes ocb_corrupt_file (chunk_physical_type chunk) (chunk_row_count chunk)
       (chunk_uncompressed_bytes chunk) = Inr ()"
    and hdr: "validate_column_chunk_object_header file (rs_file_len (rc_source file)) chunk limits =
       Inr (chunk_header chunk flags, file')"
    and B: "referenced (chunk_value_ref chunk) content = chunk_header chunk flags @ P @ t"
    and P: "length P = unat (br_length (chunk_value_ref chunk)) - 48" and t: "length t = 4"
  shows "read_column_chunk_from_reader_with_resource_limits h file (rs_file_len (rc_source file)) chunk limits =
     (if \<not> checksum_matches (chunk_value_ref chunk) (chunk_header chunk flags @ P @ t)
      then Inl (ocb_corrupt_file ''OCB body reference checksum mismatch'')
      else if \<not> crc_verified (chunk_header chunk flags @ P @ t)
      then Inl (ocb_corrupt_file ''OCB column chunk crc mismatch'')
      else Inr (chunk_object chunk flags P (from_le_bytes t)))"
proof -
  note h = validate_column_chunk_object_header_sound [OF hdr assms(1)]
  have maxb: "unat (max_encoded_object_bytes limits) \<le> isize_max" using assms(4) by (simp add: limits_ok_def)
  have rd: "read_object_bytes_with_resource_limits h file (rs_file_len (rc_source file)) (chunk_value_ref chunk)
      BodyKind_ColumnChunk limits =
      (if checksum_matches (chunk_value_ref chunk) (chunk_header chunk flags @ P @ t)
       then Inr (chunk_header chunk flags @ P @ t)
       else Inl (ocb_corrupt_file ''OCB body reference checksum mismatch''))"
    using read_object_bytes_complete [OF assms(1-3) maxb h(1,8)]
    by (simp add: read_object_bytes_with_resource_limits_def B)
  have small: "length P + 48 \<le> isize_max" using h(2,8) maxb P by (simp add: word_le_nat_alt)
  have none: "of_nat (length P) = chunk_uncompressed_bytes chunk" if "chunk_codec chunk = Codec_None"
    using h(6) [OF that] P by simp
  have zstd: "P \<noteq> []" if "chunk_codec chunk = Codec_Zstd" using h(7) [OF that] P by auto
  show ?thesis
    using OcbColumnChunkObjectV1_read_from_bytes_chunk [OF assms(5) none zstd t small]
    by (simp add: read_column_chunk_from_reader_with_resource_limits_def hdr rd)
qed

lemma crc_verified_split:
  assumes "length t = 4"
  shows "crc_verified (hdr @ P @ t) \<longleftrightarrow>
    crc32c_finish (crc32c_update (crc32c_update (crc32c_update crc32c_init hdr) P) [0, 0, 0, 0]) = from_le_bytes t"
proof -
  have "t = write_u32 (from_le_bytes t)"
    using to_from_le_bytes [of t, where ?'a = 32] assms by (simp add: write_u32_def)
  then have "crc_verified (hdr @ P @ t) \<longleftrightarrow> from_le_bytes t = crc32c ((hdr @ P) @ write_u32 0)"
    using crc_verified_append [of "hdr @ P" "from_le_bytes t"] by simp
  moreover have "write_u32 0 = [0, 0, 0, 0]" by (simp add: write_u32_0 numeral_eq_Suc)
  ultimately show ?thesis by (auto simp: crc32c_def crc32c_update_append simp del: crc32c_update.simps)
qed

lemma checksum_matches_split:
  "checksum_matches r (hdr @ P @ t) \<longleftrightarrow> \<not> (br_checksum_kind r = ChecksumKind_Crc32c \<and>
     crc32c_finish (crc32c_update (crc32c_update (crc32c_update crc32c_init hdr) P) t) \<noteq> br_checksum r)"
  by (simp add: checksum_matches_def crc32c_def crc32c_update_append)

lemma chunk_object_simps:
  "cco_physical_type (chunk_object chunk flags P crc) = chunk_physical_type chunk"
  "cco_codec (chunk_object chunk flags P crc) = chunk_codec chunk"
  "cco_row_count (chunk_object chunk flags P crc) = chunk_row_count chunk"
  "cco_uncompressed_bytes (chunk_object chunk flags P crc) = chunk_uncompressed_bytes chunk"
  "cco_payload (chunk_object chunk flags P crc) = P"
  by (simp_all add: chunk_object_def)

lemma decode_payload_with_limits_flags:
  "decode_payload_with_limits h zstd (chunk_object chunk flags P crc) maxc maxd =
   decode_payload_with_limits h zstd (chunk_object chunk 0 P crc) maxc maxd"
  unfolding decode_payload_with_limits_def uncompressed_value_bytes_def chunk_object_simps ..

lemma chunk_object_literal:
  "\<lparr>cco_version = 1, cco_physical_type = chunk_physical_type chunk, cco_codec = chunk_codec chunk,
    cco_flags = 0, cco_row_group_id = chunk_row_group_id chunk, cco_column_id = chunk_column_id chunk,
    cco_row_count = chunk_row_count chunk, cco_uncompressed_bytes = chunk_uncompressed_bytes chunk,
    cco_payload = payload, cco_crc32c = crc\<rparr> = chunk_object chunk 0 payload crc"
  by (simp add: chunk_object_def)

text \<open>The reads behind an accepted header deliver the payload and the trailing checksum.\<close>

lemma accepted_chunk_reads:
  assumes "source_serves (rc_source file) content" and "source_reliable (rc_source file)"
    and hdr: "validate_column_chunk_object_header file (rs_file_len (rc_source file)) chunk limits = Inr (hdr, file')"
  obtains flags P t n where "hdr = chunk_header chunk flags"
    and "referenced (chunk_value_ref chunk) content = hdr @ P @ t"
    and "length P = unat (br_length (chunk_value_ref chunk)) - 48" and "length t = 4"
    and "checked_sub (br_length (chunk_value_ref chunk)) (ucast OCB_COLUMN_CHUNK_V1_HEADER_LEN + 4) = Some n"
    and "unat n = length P"
    and "file_read_exact_ocb file' (length P) = Inr (P, advanced file' (length P))"
    and "file_read_exact_ocb (advanced file' (length P)) 4 = Inr (t, advanced (advanced file' (length P)) 4)"
    and "\<And>b q p. stream_column_chunk_payload file' n b q p =
      Inr (advanced file' (length P), crc32c_update b P, crc32c_update q P, map_option (\<lambda>x. x @ P) p)"
proof -
  let ?r = "chunk_value_ref chunk"
  obtain flags P t where f: "hdr = chunk_header chunk flags" and B: "referenced ?r content = hdr @ P @ t"
    and P: "length P = unat (br_length ?r) - 48" and t: "length t = 4"
    and P': "P = take (length P) (drop (unat (rc_position file')) content)"
    and t': "t = take 4 (drop (unat (rc_position file') + length P) content)"
    and le: "unat (rc_position file') + length P + 4 \<le> length content"
    and src: "rc_source file' = rc_source file"
    using accepted_chunk [OF hdr assms(1)] by metis
  obtain n where n: "checked_sub (br_length ?r) (ucast OCB_COLUMN_CHUNK_V1_HEADER_LEN + 4) = Some n"
    and un: "unat n = length P"
    using validate_column_chunk_object_header_sound(2) [OF hdr assms(1)] P column_chunk_min_len
    by (simp add: checked_sub_def word_le_nat_alt unat_sub)
  have s: "source_serves (rc_source file') content" "source_reliable (rc_source file')"
    using assms(1,2) by (simp_all add: src)
  have "file_read_exact_ocb file' (length P) = Inr (P, advanced file' (length P))"
    using file_read_exact_ocb_reliable [OF s, of "length P"] le P' by simp
  moreover have "file_read_exact_ocb (advanced file' (length P)) 4 = Inr (t, advanced (advanced file' (length P)) 4)"
    using file_read_exact_ocb_reliable [of "advanced file' (length P)" content 4] s le
      unat_rc_position_advanced [OF s(1), of "length P"] t' by simp
  moreover have "stream_column_chunk_payload file' n b q p =
      Inr (advanced file' (length P), crc32c_update b P, crc32c_update q P, map_option (\<lambda>x. x @ P) p)" for b q p
    using stream_column_chunk_payload_reliable [OF s, of n b q p] le P' by (simp add: un Let_def)
  ultimately show thesis using that [OF f B P t n un] by blast
qed

text \<open>C19. The streaming validation of a stored chunk, which never holds an uncompressed payload in
  memory, gives the same verdict with the same error as reading the whole object and, for a
  compressed chunk, decoding its payload: on a file that can be read, with memory available, for
  a descriptor whose byte count fits its primitive type.\<close>

theorem validate_column_chunk_object_streaming_eq:
  assumes "source_serves (rc_source file) content" and "source_reliable (rc_source file)"
    and "host_ready h" and "limits_ok limits"
    and "check_primitive_value_bytes ocb_corrupt_file (chunk_physical_type chunk) (chunk_row_count chunk)
       (chunk_uncompressed_bytes chunk) = Inr ()"
  shows "validate_column_chunk_object_streaming h zstd file (rs_file_len (rc_source file)) chunk limits =
     sbind (read_column_chunk_from_reader_with_resource_limits h file (rs_file_len (rc_source file)) chunk limits) (\<lambda>obj.
     if chunk_codec chunk = Codec_Zstd
     then sbind (decode_payload_with_limits h zstd obj (max_compressed_chunk_bytes limits)
            (max_decompressed_chunk_bytes limits)) (\<lambda>_. Inr ())
     else Inr ())"
proof (cases "validate_column_chunk_object_header file (rs_file_len (rc_source file)) chunk limits")
  case (Inl e)
  then show ?thesis
    by (simp add: validate_column_chunk_object_streaming_def read_column_chunk_from_reader_with_resource_limits_def
        Let_def)
next
  case (Inr r)
  then obtain hdr file' where hdr: "validate_column_chunk_object_header file (rs_file_len (rc_source file)) chunk limits =
      Inr (hdr, file')" by (cases r) auto
  from accepted_chunk_reads [OF assms(1,2) hdr] obtain flags P t n where f: "hdr = chunk_header chunk flags"
    and B: "referenced (chunk_value_ref chunk) content = hdr @ P @ t"
    and P: "length P = unat (br_length (chunk_value_ref chunk)) - 48" and t: "length t = 4"
    and reads: "checked_sub (br_length (chunk_value_ref chunk)) (ucast OCB_COLUMN_CHUNK_V1_HEADER_LEN + 4) = Some n"
      "unat n = length P"
      "file_read_exact_ocb (advanced file' (length P)) 4 = Inr (t, advanced (advanced file' (length P)) 4)"
      "\<And>b q p. stream_column_chunk_payload file' n b q p =
        Inr (advanced file' (length P), crc32c_update b P, crc32c_update q P, map_option (\<lambda>x. x @ P) p)"
    by metis
  have reserve: "try_reserve_exact h TyU8 (length P) msg" for msg
    using assms(3,4) validate_column_chunk_object_header_sound(9) [OF hdr assms(1)] P
    by (simp add: try_reserve_exact_def host_ready_def limits_ok_def)
  have len: "of_nat (length out) = chunk_uncompressed_bytes chunk"
    if "decode_payload_with_limits h zstd (chunk_object chunk 0 P crc) maxc maxd = Inr out" for crc maxc maxd out
    using decode_payload_with_limits_Inr(1) [OF that] by (simp add: chunk_object_simps)
  have "sbind (decode_payload_with_limits h zstd (chunk_object chunk 0 P crc) maxc maxd) (\<lambda>decoded.
      if of_nat (length decoded) \<noteq> chunk_uncompressed_bytes chunk then Inl e else Inr ()) =
      sbind (decode_payload_with_limits h zstd (chunk_object chunk flags P crc) maxc maxd) (\<lambda>_. Inr ())"
    for crc maxc maxd e
    unfolding decode_payload_with_limits_flags [of h zstd chunk flags]
    using len by (cases "decode_payload_with_limits h zstd (chunk_object chunk 0 P crc) maxc maxd") simp_all
  moreover have "length P \<le> usize_max" using reads(2) by (metis u64_unat_le_usize_max)
  ultimately show ?thesis
    using hdr reads reserve read_column_chunk_accepted [OF assms hdr [unfolded f] B [unfolded f] P t]
    unfolding validate_column_chunk_object_streaming_def chunk_object_literal
    by (cases "chunk_codec chunk")
      (auto simp: Let_def f checksum_matches_split crc_verified_split [OF t] simp del: crc32c_update.simps)
qed

text \<open>The direct fill of an uncompressed fixed-binary chunk is the payload of the chunk object.\<close>

lemma direct_fill_matches_read:
  assumes "source_serves src content" and "source_reliable src"
    and "host_ready h" and "limits_ok limits"
    and "chunk_physical_type chunk = Phys_FixedBinary" and "chunk_codec chunk = Codec_None"
    and len: "is_ok (validate_column_chunk_object_header (OcbReadSource_cursor src) (rs_file_len src) chunk limits) \<Longrightarrow>
      unat (br_length (chunk_value_ref chunk)) = 48 + out_len"
  shows "read_uncompressed_fixed_binary_chunk_from_source_into_inner src (rs_file_len src) chunk out_len limits =
     sbind (read_column_chunk_from_source_with_resource_limits h src (rs_file_len src) chunk limits) (\<lambda>obj.
     Inr (cco_payload obj))"
proof -
  let ?f = "OcbReadSource_cursor src"
  have src: "rc_source ?f = src" by (simp add: OcbReadSource_cursor_def)
  have prim: "check_primitive_value_bytes ocb_corrupt_file (chunk_physical_type chunk) (chunk_row_count chunk)
      (chunk_uncompressed_bytes chunk) = Inr ()"
    by (simp add: check_primitive_value_bytes_def assms(5))
  show ?thesis
  proof (cases "validate_column_chunk_object_header ?f (rs_file_len src) chunk limits")
    case (Inl e)
    then show ?thesis
      using assms(5,6)
      by (simp add: read_uncompressed_fixed_binary_chunk_from_source_into_inner_def
          read_column_chunk_from_source_with_resource_limits_def
          read_column_chunk_from_reader_with_resource_limits_def)
  next
    case (Inr r)
    then obtain hdr file' where hdr: "validate_column_chunk_object_header ?f (rs_file_len (rc_source ?f)) chunk limits =
        Inr (hdr, file')" by (cases r) (auto simp: src)
    from accepted_chunk_reads [OF _ _ hdr, unfolded src, OF assms(1,2)] obtain flags P t n
      where f: "hdr = chunk_header chunk flags"
      and B: "referenced (chunk_value_ref chunk) content = hdr @ P @ t"
      and P: "length P = unat (br_length (chunk_value_ref chunk)) - 48" and t: "length t = 4"
      and reads: "checked_sub (br_length (chunk_value_ref chunk)) (ucast OCB_COLUMN_CHUNK_V1_HEADER_LEN + 4) = Some n"
        "unat n = length P"
        "file_read_exact_ocb file' (length P) = Inr (P, advanced file' (length P))"
        "file_read_exact_ocb (advanced file' (length P)) 4 = Inr (t, advanced (advanced file' (length P)) 4)"
      by metis
    have out: "length P = out_len" using len Inr P by simp
    then have n: "n = of_nat out_len" using reads(2) by (metis of_nat_unat ucast_id)
    note rd = read_column_chunk_accepted [OF _ _ assms(3,4) prim hdr [unfolded f] B [unfolded f] P t,
      unfolded src, OF assms(1,2)]
    show ?thesis
      using hdr reads assms(5,6)
      by (simp add: read_uncompressed_fixed_binary_chunk_from_source_into_inner_def
          read_column_chunk_from_source_with_resource_limits_def rd src f n out Let_def chunk_object_simps
          checksum_matches_split crc_verified_split [OF t] del: crc32c_update.simps)
  qed
qed

text \<open>C20. Filling a caller's buffer directly with an uncompressed fixed-binary chunk gives exactly
  the payload, or exactly the error, of reading the chunk object, when the buffer has the
  payload's length.\<close>

theorem direct_fill_eq_read:
  assumes "source_serves src content" and "source_reliable src"
    and "host_ready h" and "limits_ok limits"
    and "chunk_physical_type chunk = Phys_FixedBinary" and "chunk_codec chunk = Codec_None"
    and "br_length (chunk_value_ref chunk) = 48 + of_nat out_len" and "out_len + 48 < 2 ^ 64"
  shows "read_uncompressed_fixed_binary_chunk_from_source_into_inner src (rs_file_len src) chunk out_len limits =
     sbind (read_column_chunk_from_source_with_resource_limits h src (rs_file_len src) chunk limits) (\<lambda>obj.
     Inr (cco_payload obj))"
proof -
  have "unat (of_nat out_len :: u64) = out_len" using assms(8) by (intro unat_of_nat_u64) simp
  then have "unat (br_length (chunk_value_ref chunk)) = 48 + out_len" using assms(7,8) by (simp add: unat_word_ariths)
  then show ?thesis by (intro direct_fill_matches_read [OF assms(1-6)])
qed

section \<open>A concrete chunk\<close>

definition example_host :: host where
  "example_host = \<lparr>host_alloc = (\<lambda>_ _. True), host_size_of = (\<lambda>ty. if ty = TyU8 then 1 else 32)\<rparr>"

definition example_chunk :: OcbColumnChunkDescV1 where
  "example_chunk =
     \<lparr>chunk_row_group_id = 3, chunk_column_id = 1, chunk_physical_type = Phys_FixedBinary,
      chunk_codec = Codec_None, chunk_flags = 0,
      chunk_value_ref = \<lparr>br_offset = 0, br_length = 50, br_kind = BodyKind_ColumnChunk, br_flags = 0,
        br_checksum_kind = ChecksumKind_None, br_reserved0 = 0, br_checksum = 0, br_reserved1 = 0\<rparr>,
      chunk_validity_ref = OcbBodyRefV2_NULL, chunk_row_count = 1, chunk_uncompressed_bytes = 2\<rparr>"

definition example_chunk_file :: bytes where
  "example_chunk_file = seal_object (OcbColumnChunkObjectV1_layout (chunk_object example_chunk 0 [7, 9] 0))"

lemma example_host_ready: "host_ready example_host"
  by (simp add: host_ready_def example_host_def isize_max_def)

lemma example_chunk_file_eq:
  obtains crc where "example_chunk_file = chunk_header example_chunk 0 @ [7, 9] @ write_u32 crc"
    and "crc_verified (chunk_header example_chunk 0 @ [7, 9] @ write_u32 crc)"
proof -
  let ?body = "chunk_header example_chunk 0 @ [7, 9]"
  have "example_chunk_file = ?body @ write_u32 (crc32c (?body @ write_u32 0))"
    using seal_object_append [of ?body] by (simp add: example_chunk_file_def chunk_layout)
  moreover have "crc_verified (?body @ write_u32 (crc32c (?body @ write_u32 0)))"
    unfolding crc_verified_append ..
  ultimately show thesis using that by simp
qed

lemma length_example_chunk_file [simp]: "length example_chunk_file = 50"
  by (rule example_chunk_file_eq, drule arg_cong [where f = length]) simp

lemma example_chunk_header:
  "chunk_header example_chunk 0 =
     [0x4F, 0x43, 0x42, 0x43, 0x48, 0x4B, 0x31, 0x00, 1, 0, 44, 0, 5, 0, 0, 0, 0, 0, 0, 0, 3, 0, 0, 0,
      1, 0, 0, 0, 1, 0, 0, 0, 0, 0, 0, 0, 2, 0, 0, 0, 0, 0, 0, 0]"
  by (simp add: chunk_header_def OcbColumnChunkObjectV1_layout_def chunk_object_def example_chunk_def
      OCB_COLUMN_CHUNK_MAGIC_V1_def OCB_COLUMN_CHUNK_V1_HEADER_LEN_def write_u16_def write_u32_def write_u64_def
      to_le_bytes_def upt_rec)

lemma example_source: "source_serves (memory_source 9 example_chunk_file) example_chunk_file"
  "source_reliable (memory_source 9 example_chunk_file)"
  "rs_file_len (memory_source 9 example_chunk_file) = 50"
  using memory_source_serves [of example_chunk_file 9]
  by (simp_all add: memory_source_reliable, simp add: memory_source_def)

abbreviation example_cursor :: OcbReadCursor where
  "example_cursor \<equiv> OcbReadSource_cursor (memory_source 9 example_chunk_file)"

lemma example_chunk_header_ok:
  "validate_column_chunk_object_header example_cursor 50 example_chunk policy_a =
     Inr (chunk_header example_chunk 0, advanced example_cursor 44)"
proof -
  have "example_cursor\<lparr>rc_position := 0\<rparr> = example_cursor" by (simp add: OcbReadSource_cursor_def)
  moreover have "file_read_exact_ocb example_cursor 44 =
      Inr (take 44 example_chunk_file, advanced example_cursor 44)"
    using file_read_exact_ocb_reliable [of example_cursor example_chunk_file 44] example_source
    by (simp add: OcbReadSource_cursor_def)
  moreover have "take 44 example_chunk_file = chunk_header example_chunk 0"
    by (rule example_chunk_file_eq, drule arg_cong [where f = "take 44"]) simp
  moreover have "OcbBodyRefV2_validate (chunk_value_ref example_chunk) BodyKind_ColumnChunk 50 = Inr ()"
    by (simp add: OcbBodyRefV2_validate_Inr example_chunk_def ref_in_file_def is_null_def)
  moreover have "slice 0 8 (chunk_header example_chunk 0) = OCB_COLUMN_CHUNK_MAGIC_V1"
    "header_u16 (chunk_header example_chunk 0) 8 = 1" "header_u16 (chunk_header example_chunk 0) 10 = 44"
    "header_u16 (chunk_header example_chunk 0) 12 = 5" "header_u16 (chunk_header example_chunk 0) 14 = 0"
    "header_u32 (chunk_header example_chunk 0) 20 = 3" "header_u32 (chunk_header example_chunk 0) 24 = 1"
    "header_u64 (chunk_header example_chunk 0) 28 = 1" "header_u64 (chunk_header example_chunk 0) 36 = 2"
    unfolding example_chunk_header
    by (simp_all add: slice_def header_u16_def header_u32_def header_u64_def OCB_COLUMN_CHUNK_MAGIC_V1_def)
  ultimately show ?thesis
    by (simp add: validate_column_chunk_object_header_def example_chunk_def OCB_COLUMN_CHUNK_V1_HEADER_LEN_def
        checked_sub_def checked_add_def policy_a_def OCB_POLICY_A_MAX_ENCODED_OBJECT_BYTES_def
        OCB_POLICY_A_MAX_COMPRESSED_CHUNK_BYTES_def OCB_POLICY_A_MAX_DECOMPRESSED_CHUNK_BYTES_def usize_max_def)
qed

lemma example_chunk_facts:
  "checksum_matches (chunk_value_ref example_chunk) bs"
  "chunk_codec example_chunk = Codec_None" "chunk_physical_type example_chunk = Phys_FixedBinary"
  "br_length (chunk_value_ref example_chunk) = 50"
  "check_primitive_value_bytes ocb_corrupt_file (chunk_physical_type example_chunk)
     (chunk_row_count example_chunk) (chunk_uncompressed_bytes example_chunk) = Inr ()"
  "referenced (chunk_value_ref example_chunk) example_chunk_file = example_chunk_file"
  by (simp_all add: checksum_matches_def check_primitive_value_bytes_def example_chunk_def referenced_def)

lemma example_cursor_source:
  "source_serves (rc_source example_cursor) example_chunk_file"
  "source_reliable (rc_source example_cursor)"
  "rs_file_len (rc_source example_cursor) = 50"
  using example_source by (simp_all add: OcbReadSource_cursor_def)

lemma example_chunk_read:
  "\<exists>obj. read_column_chunk_from_reader_with_resource_limits example_host example_cursor 50 example_chunk policy_a = Inr obj
     \<and> cco_payload obj = [7, 9]"
proof -
  obtain crc where eq: "example_chunk_file = chunk_header example_chunk 0 @ [7, 9] @ write_u32 crc"
    and v: "crc_verified (chunk_header example_chunk 0 @ [7, 9] @ write_u32 crc)"
    by (rule example_chunk_file_eq)
  have len: "length ([7, 9] :: bytes) = unat (br_length (chunk_value_ref example_chunk)) - 48"
    by (simp add: example_chunk_facts)
  have "read_column_chunk_from_reader_with_resource_limits example_host example_cursor 50 example_chunk policy_a =
      Inr (chunk_object example_chunk 0 [7, 9] (from_le_bytes (write_u32 crc)))"
    using read_column_chunk_accepted [OF example_cursor_source(1,2) example_host_ready limits_ok_policy_a
        example_chunk_facts(5) _ trans [OF example_chunk_facts(6) eq] len length_writes(2),
        unfolded example_cursor_source(3), OF example_chunk_header_ok] v example_chunk_facts(1)
    by simp
  then show ?thesis by (simp add: chunk_object_simps)
qed

theorem validate_column_chunk_object_streaming_eq_witness:
  "validate_column_chunk_object_streaming example_host (\<lambda>_ _. None) example_cursor 50 example_chunk policy_a = Inr ()"
  using validate_column_chunk_object_streaming_eq [OF example_cursor_source(1,2) example_host_ready
      limits_ok_policy_a example_chunk_facts(5), of "\<lambda>_ _. None"] example_chunk_read
  by (auto simp: example_cursor_source(3) example_chunk_facts(2))

theorem direct_fill_eq_read_witness:
  "read_uncompressed_fixed_binary_chunk_from_source_into_inner (memory_source 9 example_chunk_file) 50
     example_chunk 2 policy_a = Inr [7, 9]"
  using direct_fill_eq_read [OF example_source(1,2) example_host_ready limits_ok_policy_a
      example_chunk_facts(3,2), of 2] example_chunk_read
  by (auto simp: example_source(3) example_chunk_facts(4) read_column_chunk_from_source_with_resource_limits_def)

end
