(* ===== verification/Ordering_Proof.thy ===== *)
theory Ordering_Proof
  imports Schema
begin

text \<open>
  Ordering keys, per-row-group ordering proofs and the ordering-proof object (\<open>OcbOrderingKeyV1\<close>,
  \<open>OcbRowGroupOrderingProofV1\<close>, \<open>OcbOrderingProofV1\<close> of \<open>format.rs\<close>).
\<close>

section \<open>Records\<close>

definition OCB_ORDERING_KEY_V1_LEN :: nat where
  "OCB_ORDERING_KEY_V1_LEN = 8"

definition OCB_ROW_GROUP_ORDERING_PROOF_V1_LEN :: nat where
  "OCB_ROW_GROUP_ORDERING_PROOF_V1_LEN = 72"

record OcbOrderingKeyV1 =
  okey_column_id :: u32
  okey_direction :: OcbOrderingDirectionV1
  okey_null_order :: OcbNullOrderV1
  okey_reserved0 :: u16

definition OcbOrderingKeyV1_write_to :: "OcbOrderingKeyV1 \<Rightarrow> bytes result" where
  "OcbOrderingKeyV1_write_to self =
     Inr (write_u32 (okey_column_id self) @
          [OcbOrderingDirectionV1_to_u8 (okey_direction self), OcbNullOrderV1_to_u8 (okey_null_order self)] @
          write_u16 (okey_reserved0 self))"

definition OcbOrderingKeyV1_read_from :: "OcbOrderingKeyV1 reader" where
  "OcbOrderingKeyV1_read_from =
     rbind read_u32 (\<lambda>column_id.
     rbind (read_exact_ocb 2) (\<lambda>pair.
     rtry (OcbOrderingDirectionV1_from_u8 (pair ! 0)) (\<lambda>direction.
     rtry (OcbNullOrderV1_from_u8 (pair ! 1)) (\<lambda>null_order.
     rbind read_u16 (\<lambda>reserved0.
     rret \<lparr>okey_column_id = column_id, okey_direction = direction, okey_null_order = null_order,
           okey_reserved0 = reserved0\<rparr>)))))"

record OcbRowGroupOrderingProofV1 =
  rgop_row_group_id :: u32
  rgop_flags :: u32
  rgop_first_tuple_ref :: OcbBodyRefV2
  rgop_last_tuple_ref :: OcbBodyRefV2

definition OcbRowGroupOrderingProofV1_write_to :: "OcbRowGroupOrderingProofV1 \<Rightarrow> bytes result" where
  "OcbRowGroupOrderingProofV1_write_to self =
     (if \<not> is_null (rgop_first_tuple_ref self) \<and> br_kind (rgop_first_tuple_ref self) \<noteq> BodyKind_KeyTuple
      then Inl (ocb_invalid_input ''OCB ordering first_tuple_ref must reference key tuple'')
      else if \<not> is_null (rgop_last_tuple_ref self) \<and> br_kind (rgop_last_tuple_ref self) \<noteq> BodyKind_KeyTuple
      then Inl (ocb_invalid_input ''OCB ordering last_tuple_ref must reference key tuple'')
      else Inr (
        write_u32 (rgop_row_group_id self) @
        write_u32 (rgop_flags self) @
        OcbBodyRefV2_write_to (rgop_first_tuple_ref self) @
        OcbBodyRefV2_write_to (rgop_last_tuple_ref self)))"

definition OcbRowGroupOrderingProofV1_read_from :: "OcbRowGroupOrderingProofV1 reader" where
  "OcbRowGroupOrderingProofV1_read_from =
     rbind read_u32 (\<lambda>row_group_id.
     rbind read_u32 (\<lambda>flags.
     rbind OcbBodyRefV2_read_from (\<lambda>first_tuple_ref.
     rbind OcbBodyRefV2_read_from (\<lambda>last_tuple_ref.
     rret \<lparr>rgop_row_group_id = row_group_id, rgop_flags = flags,
           rgop_first_tuple_ref = first_tuple_ref, rgop_last_tuple_ref = last_tuple_ref\<rparr>))))"

section \<open>The ordering-proof object\<close>

definition OCB_ORDERING_PROOF_MAGIC_V1 :: bytes where
  "OCB_ORDERING_PROOF_MAGIC_V1 = [0x4F, 0x43, 0x42, 0x4F, 0x52, 0x44, 0x31, 0x00]"

definition OCB_ORDERING_PROOF_V1_HEADER_LEN :: u16 where
  "OCB_ORDERING_PROOF_V1_HEADER_LEN = 28"

record OcbOrderingProofV1 =
  op_version :: u16
  op_flags :: u16
  op_keys :: "OcbOrderingKeyV1 list"
  op_row_group_proofs :: "OcbRowGroupOrderingProofV1 list"
  op_crc32c :: u32

definition OcbOrderingProofV1_fields ::
  "host \<Rightarrow> usize \<Rightarrow> u32 \<Rightarrow> MetadataMaterializationBudget \<Rightarrow>
     (OcbOrderingProofV1 \<times> MetadataMaterializationBudget) reader" where
  "OcbOrderingProofV1_fields h total_len actual_crc budget =
     rbind (read_exact_ocb 8) (\<lambda>magic.
     if magic \<noteq> OCB_ORDERING_PROOF_MAGIC_V1
     then rfail (ocb_corrupt_file ''invalid OCB ordering proof magic'') else
     rbind read_u16 (\<lambda>version.
     if version \<noteq> 1 then rfail (ocb_unsupported_format ''unsupported OCB ordering proof version'') else
     rbind read_u16 (\<lambda>header_bytes.
     if header_bytes \<noteq> OCB_ORDERING_PROOF_V1_HEADER_LEN
     then rfail (ocb_corrupt_file ''invalid OCB ordering proof header length'') else
     rbind read_u16 (\<lambda>key_count.
     rbind read_u16 (\<lambda>flags.
     rbind read_u32 (\<lambda>row_group_count.
     rbind read_u64 (\<lambda>reserved0.
     rcount total_len (ucast key_count) OCB_ORDERING_KEY_V1_LEN ''OCB ordering proof key count'' (\<lambda>key_count.
     rmark (\<lambda>records_start.
     rbind (validate_record_sequence OcbOrderingKeyV1_read_from key_count) (\<lambda>_.
     rcount total_len (ucast row_group_count) OCB_ROW_GROUP_ORDERING_PROOF_V1_LEN
        ''OCB ordering proof row-group count'' (\<lambda>row_group_count.
     rbind (validate_record_sequence OcbRowGroupOrderingProofV1_read_from row_group_count) (\<lambda>_.
     rtry (checked_materialized_vec_bytes h TyOrderingKey key_count) (\<lambda>key_bytes.
     rtry (checked_materialized_vec_bytes h TyRowGroupOrderingProof row_group_count) (\<lambda>proof_bytes.
     rtry (checked_materialized_sum [key_bytes, proof_bytes]) (\<lambda>retained_bytes.
     rtry (charge budget retained_bytes) (\<lambda>budget.
     rset_position records_start (
     rbind (read_record_sequence h TyOrderingKey key_count
        ''OCB ordering-key allocation failed within resource limit'' OcbOrderingKeyV1_read_from) (\<lambda>keys.
     rbind (read_record_sequence h TyRowGroupOrderingProof row_group_count
        ''OCB ordering-proof allocation failed within resource limit''
        OcbRowGroupOrderingProofV1_read_from) (\<lambda>row_group_proofs.
     rret (\<lparr>op_version = version, op_flags = flags, op_keys = keys,
            op_row_group_proofs = row_group_proofs, op_crc32c = actual_crc\<rparr>, budget))))))))))))))))))))"

definition OcbOrderingProofV1_read_from_bytes_with_budget ::
  "host \<Rightarrow> bytes \<Rightarrow> MetadataMaterializationBudget \<Rightarrow>
     (OcbOrderingProofV1 \<times> MetadataMaterializationBudget) result" where
  "OcbOrderingProofV1_read_from_bytes_with_budget h bs budget =
     open_object ''OCB ordering proof crc mismatch'' bs (\<lambda>actual_crc bs.
       run_reader (OcbOrderingProofV1_fields h (length bs) actual_crc budget) bs)"

definition OcbOrderingProofV1_read_from_bytes :: "host \<Rightarrow> bytes \<Rightarrow> OcbOrderingProofV1 result" where
  "OcbOrderingProofV1_read_from_bytes h bs =
     sbind (OcbOrderingProofV1_read_from_bytes_with_budget h bs policy_a_metadata_materialization_budget)
       (\<lambda>r. Inr (fst r))"

definition OcbOrderingProofV1_encode_without_checksum :: "OcbOrderingProofV1 \<Rightarrow> bytes result" where
  "OcbOrderingProofV1_encode_without_checksum self =
     sbind (ok_or (u16_try_from (length (op_keys self)))
       (ocb_invalid_input ''OCB ordering proof has too many keys'')) (\<lambda>key_count.
     sbind (ok_or (u32_try_from (length (op_row_group_proofs self)))
       (ocb_invalid_input ''OCB ordering proof has too many row groups'')) (\<lambda>row_group_count.
     sbind (write_each OcbOrderingKeyV1_write_to (op_keys self)) (\<lambda>keys.
     sbind (write_each OcbRowGroupOrderingProofV1_write_to (op_row_group_proofs self)) (\<lambda>proofs.
     Inr (OCB_ORDERING_PROOF_MAGIC_V1 @
          write_u16 (op_version self) @
          write_u16 OCB_ORDERING_PROOF_V1_HEADER_LEN @
          write_u16 key_count @
          write_u16 (op_flags self) @
          write_u32 row_group_count @
          write_u64 0 @
          keys @
          proofs @
          write_u32 0)))))"

definition OcbOrderingProofV1_write_to :: "OcbOrderingProofV1 \<Rightarrow> bytes result" where
  "OcbOrderingProofV1_write_to self =
     sbind (OcbOrderingProofV1_encode_without_checksum self) (\<lambda>buf. Inr (seal_object buf))"

section \<open>Round trips\<close>

lemma reads_OcbOrderingKeyV1: "OcbOrderingKeyV1_write_to k = Inr bs \<Longrightarrow> reads OcbOrderingKeyV1_read_from bs k"
  unfolding OcbOrderingKeyV1_write_to_def OcbOrderingKeyV1_read_from_def sum.inject
  by (erule subst) (rule reads_intros | simp add: ordering_direction.from_to null_order.from_to; fail)+

interpretation ordering_key: record_codec OcbOrderingKeyV1_write_to OcbOrderingKeyV1_read_from OCB_ORDERING_KEY_V1_LEN
  by unfold_locales
    (auto simp: reads_OcbOrderingKeyV1 OcbOrderingKeyV1_write_to_def OCB_ORDERING_KEY_V1_LEN_def)

lemma reads_OcbRowGroupOrderingProofV1:
  "OcbRowGroupOrderingProofV1_write_to p = Inr bs \<Longrightarrow> reads OcbRowGroupOrderingProofV1_read_from bs p"
  unfolding OcbRowGroupOrderingProofV1_write_to_def OcbRowGroupOrderingProofV1_read_from_def
  by (clarsimp split: if_split_asm; (rule reads_intros | simp; fail)+)

interpretation row_group_ordering_proof: record_codec OcbRowGroupOrderingProofV1_write_to
    OcbRowGroupOrderingProofV1_read_from OCB_ROW_GROUP_ORDERING_PROOF_V1_LEN
proof
  show "OcbRowGroupOrderingProofV1_write_to x = Inr bs \<Longrightarrow> reads OcbRowGroupOrderingProofV1_read_from bs x" for x bs
    by (rule reads_OcbRowGroupOrderingProofV1)
  show "OcbRowGroupOrderingProofV1_write_to x = Inr bs \<Longrightarrow> length bs = OCB_ROW_GROUP_ORDERING_PROOF_V1_LEN" for x bs
    by (auto simp: OcbRowGroupOrderingProofV1_write_to_def OCB_ROW_GROUP_ORDERING_PROOF_V1_LEN_def split: if_splits)
qed

definition ordering_proof_retained :: "host \<Rightarrow> OcbOrderingProofV1 \<Rightarrow> nat" where
  "ordering_proof_retained h x =
     length (op_keys x) * host_size_of h TyOrderingKey +
     length (op_row_group_proofs x) * host_size_of h TyRowGroupOrderingProof"

lemma length_ordering_proof_magic [simp]: "length OCB_ORDERING_PROOF_MAGIC_V1 = 8"
  by (simp add: OCB_ORDERING_PROOF_MAGIC_V1_def)

lemma OcbOrderingProofV1_encode_has_trailer:
  "OcbOrderingProofV1_encode_without_checksum x = Inr buf \<Longrightarrow> has_trailer buf"
  by (auto simp: OcbOrderingProofV1_encode_without_checksum_def sbind_eq_Inr intro!: has_trailer_intros)

lemma oreads_ordering_proof:
  assumes "OcbOrderingProofV1_encode_without_checksum x = Inr buf" and "op_version x = 1"
    and "host_ready h" and "fits b (ordering_proof_retained h x)" and "N \<le> isize_max"
  shows "oreads N 0 [] (OcbOrderingProofV1_fields h N crc b) buf
      (x\<lparr>op_crc32c := crc\<rparr>, charged b (ordering_proof_retained h x))"
proof -
  let ?nk = "length (op_keys x)" let ?np = "length (op_row_group_proofs x)"
  from assms(1) obtain keys proofs where n: "?nk < 2 ^ 16" "?np < 2 ^ 32"
    and k: "write_each OcbOrderingKeyV1_write_to (op_keys x) = Inr keys"
    and p: "write_each OcbRowGroupOrderingProofV1_write_to (op_row_group_proofs x) = Inr proofs"
    and buf: "buf = OCB_ORDERING_PROOF_MAGIC_V1 @ write_u16 (op_version x) @
      write_u16 OCB_ORDERING_PROOF_V1_HEADER_LEN @ write_u16 (of_nat ?nk) @ write_u16 (op_flags x) @
      write_u32 (of_nat ?np) @ write_u64 0 @ keys @ proofs @ write_u32 0"
    by (auto simp: OcbOrderingProofV1_encode_without_checksum_def sbind_eq_Inr u32_try_from_Some u16_try_from_Some)
  have fit: "?nk * host_size_of h TyOrderingKey + ?np * host_size_of h TyRowGroupOrderingProof \<le> isize_max"
    using assms(4) by (simp add: fits_def ordering_proof_retained_def)
  then have fk: "?nk * host_size_of h TyOrderingKey \<le> isize_max"
    and fp: "?np * host_size_of h TyRowGroupOrderingProof \<le> isize_max" by simp_all
  have ck: "?nk = unat (ucast (of_nat ?nk :: u16) :: u64)" using n by (simp add: unat_of_nat_u16)
  have cp: "?np = unat (ucast (of_nat ?np :: u32) :: u64)" using n by (simp add: unat_of_nat_u32)
  have lk: "?nk * OCB_ORDERING_KEY_V1_LEN + 4 \<le> length (keys @ proofs @ write_u32 0)"
    and lp: "?np * OCB_ROW_GROUP_ORDERING_PROOF_V1_LEN + 4 \<le> length (proofs @ write_u32 0)"
    using ordering_key.length_write_each [OF k] row_group_ordering_proof.length_write_each [OF p] by simp_all
  have mat: "checked_materialized_sum [of_nat (?nk * host_size_of h TyOrderingKey),
      of_nat (?np * host_size_of h TyRowGroupOrderingProof)] = Inr (of_nat (ordering_proof_retained h x))"
    using checked_materialized_sum_of_nats [of "[?nk * host_size_of h TyOrderingKey,
      ?np * host_size_of h TyRowGroupOrderingProof]"] isize_max_less [OF fit]
    by (simp add: ordering_proof_retained_def)
  note N = isize_max_less_usize_max [OF assms(5)]
  note pass1 = ordering_key.reads_validate [OF k] row_group_ordering_proof.reads_validate [OF p]
  note pass2 = ordering_key.reads_record_sequence [OF k try_vec_with_capacity_ready(2) [OF assms(3) fk]]
    row_group_ordering_proof.reads_record_sequence [OF p try_vec_with_capacity_ready(2) [OF assms(3) fp]]
  note vec = checked_materialized_vec_bytes_ready [OF assms(3) fk] checked_materialized_vec_bytes_ready [OF assms(3) fp]
  show ?thesis
    unfolding OcbOrderingProofV1_fields_def buf
    by (rule pass1 [THEN oreads_bind] pass2 [THEN oreads_bind] vec [THEN oreads_try] oreads_try [OF mat]
        oreads_try [OF charge_fits [OF assms(4)]] oreads_mark oreads_rewinds
        oreads_count [OF N ck lk] oreads_count [OF N cp lp] reads_intros
      | simp add: assms(2); fail)+
qed

lemma OcbOrderingProofV1_fields_charge:
  "OcbOrderingProofV1_fields h N crc b c = Inr ((x, b'), c') \<Longrightarrow> charges b b' (ordering_proof_retained h x)"
  unfolding OcbOrderingProofV1_fields_def
  by (auto simp: reader_Inr ordering_proof_retained_def dest!: checked_materialized_vec_bytes_Inr
      checked_materialized_sum_Inr read_record_sequence_length charge_charges split: if_split_asm)

interpretation ordering_proof: budgeted_codec OcbOrderingProofV1_encode_without_checksum
    OcbOrderingProofV1_write_to OcbOrderingProofV1_fields OcbOrderingProofV1_read_from_bytes_with_budget
    "''OCB ordering proof crc mismatch''" "\<lambda>x. op_version x = 1" ordering_proof_retained
    "\<lambda>crc x. x\<lparr>op_crc32c := crc\<rparr>"
  by unfold_locales
    (auto simp: OcbOrderingProofV1_write_to_def OcbOrderingProofV1_read_from_bytes_with_budget_def
      OcbOrderingProofV1_encode_has_trailer
      intro: oreads_ordering_proof OcbOrderingProofV1_fields_charge)

end
