(* ===== verification/Row_Group_Delta.thy ===== *)
theory Row_Group_Delta
  imports Row_Groups Ordering_Proof
begin

text \<open>
  The row-group index delta object (\<open>OcbRowGroupIndexDeltaV1\<close> of \<open>format.rs\<close>): the rows groups, chunk
  descriptors, statistics and ordering proofs an append adds to the index it is based on.
\<close>

section \<open>The object\<close>

definition OCB_ROW_GROUP_INDEX_DELTA_MAGIC_V1 :: bytes where
  "OCB_ROW_GROUP_INDEX_DELTA_MAGIC_V1 = [0x4F, 0x43, 0x42, 0x52, 0x47, 0x44, 0x31, 0x00]"

definition OCB_ROW_GROUP_INDEX_DELTA_V1_HEADER_LEN :: u16 where
  "OCB_ROW_GROUP_INDEX_DELTA_V1_HEADER_LEN = 56"

record OcbRowGroupIndexDeltaV1 =
  rgd_version :: u16
  rgd_flags :: u32
  rgd_base_row_group_count :: u32
  rgd_base_column_chunk_count :: u32
  rgd_base_stat_count :: u32
  rgd_base_ordering_proof_count :: u32
  rgd_row_groups :: "OcbRowGroupDescV1 list"
  rgd_column_chunks :: "OcbColumnChunkDescV1 list"
  rgd_stats :: "OcbColumnStatsV1 list"
  rgd_ordering_keys :: "OcbOrderingKeyV1 list"
  rgd_row_group_ordering_proofs :: "OcbRowGroupOrderingProofV1 list"
  rgd_crc32c :: u32

definition OcbRowGroupIndexDeltaV1_fields ::
  "host \<Rightarrow> usize \<Rightarrow> u32 \<Rightarrow> MetadataMaterializationBudget \<Rightarrow>
     (OcbRowGroupIndexDeltaV1 \<times> MetadataMaterializationBudget) reader" where
  "OcbRowGroupIndexDeltaV1_fields h total_len actual_crc budget =
     rbind (read_exact_ocb 8) (\<lambda>magic.
     if magic \<noteq> OCB_ROW_GROUP_INDEX_DELTA_MAGIC_V1
     then rfail (ocb_corrupt_file ''invalid OCB row-group index delta magic'') else
     rbind read_u16 (\<lambda>version.
     if version \<noteq> 1
     then rfail (ocb_unsupported_format ''unsupported OCB row-group index delta version'') else
     rbind read_u16 (\<lambda>header_bytes.
     if header_bytes \<noteq> OCB_ROW_GROUP_INDEX_DELTA_V1_HEADER_LEN
     then rfail (ocb_corrupt_file ''invalid OCB row-group index delta header length'') else
     rbind read_u32 (\<lambda>base_row_group_count.
     rbind read_u32 (\<lambda>base_column_chunk_count.
     rbind read_u32 (\<lambda>base_stat_count.
     rbind read_u32 (\<lambda>base_ordering_proof_count.
     rbind read_u32 (\<lambda>row_group_count.
     rbind read_u32 (\<lambda>column_chunk_count.
     rbind read_u32 (\<lambda>stat_count.
     rbind read_u16 (\<lambda>ordering_key_count.
     rbind read_u16 (\<lambda>reserved0.
     rbind read_u32 (\<lambda>ordering_proof_count.
     rbind read_u32 (\<lambda>flags.
     rbind read_u32 (\<lambda>reserved1.
     rcount total_len (ucast row_group_count) OCB_ROW_GROUP_DESC_V1_LEN
        ''OCB row-group index delta row-group count'' (\<lambda>row_group_count.
     rmark (\<lambda>records_start.
     rbind (validate_record_sequence OcbRowGroupDescV1_read_from row_group_count) (\<lambda>_.
     rcount total_len (ucast column_chunk_count) OCB_COLUMN_CHUNK_DESC_V1_LEN
        ''OCB row-group index delta column-chunk count'' (\<lambda>column_chunk_count.
     rbind (validate_record_sequence OcbColumnChunkDescV1_read_from column_chunk_count) (\<lambda>_.
     rcount total_len (ucast stat_count) OCB_COLUMN_STATS_V1_LEN
        ''OCB row-group index delta stat count'' (\<lambda>stat_count.
     rbind (validate_record_sequence OcbColumnStatsV1_read_from stat_count) (\<lambda>_.
     rcount total_len (ucast ordering_key_count) OCB_ORDERING_KEY_V1_LEN
        ''OCB row-group index delta ordering-key count'' (\<lambda>ordering_key_count.
     rbind (validate_record_sequence OcbOrderingKeyV1_read_from ordering_key_count) (\<lambda>_.
     rcount total_len (ucast ordering_proof_count) OCB_ROW_GROUP_ORDERING_PROOF_V1_LEN
        ''OCB row-group index delta ordering-proof count'' (\<lambda>ordering_proof_count.
     rbind (validate_record_sequence OcbRowGroupOrderingProofV1_read_from ordering_proof_count) (\<lambda>_.
     rtry (checked_materialized_vec_bytes h TyRowGroupDesc row_group_count) (\<lambda>row_group_bytes.
     rtry (checked_materialized_vec_bytes h TyColumnChunkDesc column_chunk_count) (\<lambda>chunk_bytes.
     rtry (checked_materialized_vec_bytes h TyColumnStats stat_count) (\<lambda>stat_bytes.
     rtry (checked_materialized_vec_bytes h TyOrderingKey ordering_key_count) (\<lambda>key_bytes.
     rtry (checked_materialized_vec_bytes h TyRowGroupOrderingProof ordering_proof_count) (\<lambda>proof_bytes.
     rtry (checked_materialized_sum
        [row_group_bytes, chunk_bytes, stat_bytes, key_bytes, proof_bytes]) (\<lambda>retained_bytes.
     rtry (charge budget retained_bytes) (\<lambda>budget.
     rset_position records_start (
     rbind (read_record_sequence h TyRowGroupDesc row_group_count
        ''OCB row-group delta allocation failed within resource limit''
        OcbRowGroupDescV1_read_from) (\<lambda>row_groups.
     rbind (read_record_sequence h TyColumnChunkDesc column_chunk_count
        ''OCB column-chunk delta allocation failed within resource limit''
        OcbColumnChunkDescV1_read_from) (\<lambda>column_chunks.
     rbind (read_record_sequence h TyColumnStats stat_count
        ''OCB column-stat delta allocation failed within resource limit''
        OcbColumnStatsV1_read_from) (\<lambda>stats.
     rbind (read_record_sequence h TyOrderingKey ordering_key_count
        ''OCB ordering-key delta allocation failed within resource limit''
        OcbOrderingKeyV1_read_from) (\<lambda>ordering_keys.
     rbind (read_record_sequence h TyRowGroupOrderingProof ordering_proof_count
        ''OCB ordering-proof delta allocation failed within resource limit''
        OcbRowGroupOrderingProofV1_read_from) (\<lambda>row_group_ordering_proofs.
     rret (\<lparr>rgd_version = version, rgd_flags = flags,
            rgd_base_row_group_count = base_row_group_count,
            rgd_base_column_chunk_count = base_column_chunk_count,
            rgd_base_stat_count = base_stat_count,
            rgd_base_ordering_proof_count = base_ordering_proof_count,
            rgd_row_groups = row_groups, rgd_column_chunks = column_chunks, rgd_stats = stats,
            rgd_ordering_keys = ordering_keys,
            rgd_row_group_ordering_proofs = row_group_ordering_proofs,
            rgd_crc32c = actual_crc\<rparr>, budget))))))))))))))))))))))))))))))))))))))))"

definition OcbRowGroupIndexDeltaV1_read_from_bytes_with_budget ::
  "host \<Rightarrow> bytes \<Rightarrow> MetadataMaterializationBudget \<Rightarrow>
     (OcbRowGroupIndexDeltaV1 \<times> MetadataMaterializationBudget) result" where
  "OcbRowGroupIndexDeltaV1_read_from_bytes_with_budget h bs budget =
     open_object ''OCB row-group index delta crc mismatch'' bs (\<lambda>actual_crc bs.
       run_reader (OcbRowGroupIndexDeltaV1_fields h (length bs) actual_crc budget) bs)"

definition OcbRowGroupIndexDeltaV1_read_from_bytes :: "host \<Rightarrow> bytes \<Rightarrow> OcbRowGroupIndexDeltaV1 result" where
  "OcbRowGroupIndexDeltaV1_read_from_bytes h bs =
     sbind (OcbRowGroupIndexDeltaV1_read_from_bytes_with_budget h bs policy_a_metadata_materialization_budget)
       (\<lambda>r. Inr (fst r))"

definition OcbRowGroupIndexDeltaV1_encode_without_checksum :: "OcbRowGroupIndexDeltaV1 \<Rightarrow> bytes result" where
  "OcbRowGroupIndexDeltaV1_encode_without_checksum self =
     sbind (ok_or (u32_try_from (length (rgd_row_groups self)))
       (ocb_invalid_input ''OCB row-group index delta has too many row groups'')) (\<lambda>row_group_count.
     sbind (ok_or (u32_try_from (length (rgd_column_chunks self)))
       (ocb_invalid_input ''OCB row-group index delta has too many column chunks'')) (\<lambda>column_chunk_count.
     sbind (ok_or (u32_try_from (length (rgd_stats self)))
       (ocb_invalid_input ''OCB row-group index delta has too many stats'')) (\<lambda>stat_count.
     sbind (ok_or (u16_try_from (length (rgd_ordering_keys self)))
       (ocb_invalid_input ''OCB row-group index delta has too many ordering keys'')) (\<lambda>ordering_key_count.
     sbind (ok_or (u32_try_from (length (rgd_row_group_ordering_proofs self)))
       (ocb_invalid_input ''OCB row-group index delta has too many ordering proofs'')) (\<lambda>ordering_proof_count.
     sbind (write_each OcbRowGroupDescV1_write_to (rgd_row_groups self)) (\<lambda>row_groups.
     sbind (write_each OcbColumnChunkDescV1_write_to (rgd_column_chunks self)) (\<lambda>chunks.
     sbind (write_each OcbColumnStatsV1_write_to (rgd_stats self)) (\<lambda>stats.
     sbind (write_each OcbOrderingKeyV1_write_to (rgd_ordering_keys self)) (\<lambda>keys.
     sbind (write_each OcbRowGroupOrderingProofV1_write_to (rgd_row_group_ordering_proofs self)) (\<lambda>proofs.
     Inr (OCB_ROW_GROUP_INDEX_DELTA_MAGIC_V1 @
          write_u16 (rgd_version self) @
          write_u16 OCB_ROW_GROUP_INDEX_DELTA_V1_HEADER_LEN @
          write_u32 (rgd_base_row_group_count self) @
          write_u32 (rgd_base_column_chunk_count self) @
          write_u32 (rgd_base_stat_count self) @
          write_u32 (rgd_base_ordering_proof_count self) @
          write_u32 row_group_count @
          write_u32 column_chunk_count @
          write_u32 stat_count @
          write_u16 ordering_key_count @
          write_u16 0 @
          write_u32 ordering_proof_count @
          write_u32 (rgd_flags self) @
          write_u32 0 @
          row_groups @
          chunks @
          stats @
          keys @
          proofs @
          write_u32 0)))))))))))"

definition OcbRowGroupIndexDeltaV1_write_to :: "OcbRowGroupIndexDeltaV1 \<Rightarrow> bytes result" where
  "OcbRowGroupIndexDeltaV1_write_to self =
     sbind (OcbRowGroupIndexDeltaV1_encode_without_checksum self) (\<lambda>buf. Inr (seal_object buf))"

section \<open>Round trip\<close>

definition row_group_delta_retained :: "host \<Rightarrow> OcbRowGroupIndexDeltaV1 \<Rightarrow> nat" where
  "row_group_delta_retained h x =
     length (rgd_row_groups x) * host_size_of h TyRowGroupDesc +
     length (rgd_column_chunks x) * host_size_of h TyColumnChunkDesc +
     length (rgd_stats x) * host_size_of h TyColumnStats +
     length (rgd_ordering_keys x) * host_size_of h TyOrderingKey +
     length (rgd_row_group_ordering_proofs x) * host_size_of h TyRowGroupOrderingProof"

lemma length_row_group_delta_magic [simp]: "length OCB_ROW_GROUP_INDEX_DELTA_MAGIC_V1 = 8"
  by (simp add: OCB_ROW_GROUP_INDEX_DELTA_MAGIC_V1_def)

lemma OcbRowGroupIndexDeltaV1_encode_has_trailer:
  "OcbRowGroupIndexDeltaV1_encode_without_checksum x = Inr buf \<Longrightarrow> has_trailer buf"
  by (auto simp: OcbRowGroupIndexDeltaV1_encode_without_checksum_def sbind_eq_Inr intro!: has_trailer_intros)

lemma oreads_row_group_delta:
  assumes "OcbRowGroupIndexDeltaV1_encode_without_checksum x = Inr buf" and "rgd_version x = 1"
    and "host_ready h" and "fits b (row_group_delta_retained h x)" and "N \<le> isize_max"
  shows "oreads N 0 [] (OcbRowGroupIndexDeltaV1_fields h N crc b) buf
      (x\<lparr>rgd_crc32c := crc\<rparr>, charged b (row_group_delta_retained h x))"
proof -
  let ?ng = "length (rgd_row_groups x)" let ?nc = "length (rgd_column_chunks x)" let ?ns = "length (rgd_stats x)"
  let ?nk = "length (rgd_ordering_keys x)" let ?np = "length (rgd_row_group_ordering_proofs x)"
  let ?sg = "?ng * host_size_of h TyRowGroupDesc" let ?sc = "?nc * host_size_of h TyColumnChunkDesc"
  let ?ss = "?ns * host_size_of h TyColumnStats" let ?sk = "?nk * host_size_of h TyOrderingKey"
  let ?sp = "?np * host_size_of h TyRowGroupOrderingProof"
  from assms(1) obtain gs cs ss ks ps
    where n: "?ng < 2 ^ 32" "?nc < 2 ^ 32" "?ns < 2 ^ 32" "?np < 2 ^ 32" "?nk < 2 ^ 16"
    and g: "write_each OcbRowGroupDescV1_write_to (rgd_row_groups x) = Inr gs"
    and c: "write_each OcbColumnChunkDescV1_write_to (rgd_column_chunks x) = Inr cs"
    and s: "write_each OcbColumnStatsV1_write_to (rgd_stats x) = Inr ss"
    and k: "write_each OcbOrderingKeyV1_write_to (rgd_ordering_keys x) = Inr ks"
    and p: "write_each OcbRowGroupOrderingProofV1_write_to (rgd_row_group_ordering_proofs x) = Inr ps"
    and buf: "buf = OCB_ROW_GROUP_INDEX_DELTA_MAGIC_V1 @ write_u16 (rgd_version x) @
      write_u16 OCB_ROW_GROUP_INDEX_DELTA_V1_HEADER_LEN @ write_u32 (rgd_base_row_group_count x) @
      write_u32 (rgd_base_column_chunk_count x) @ write_u32 (rgd_base_stat_count x) @
      write_u32 (rgd_base_ordering_proof_count x) @ write_u32 (of_nat ?ng) @ write_u32 (of_nat ?nc) @
      write_u32 (of_nat ?ns) @ write_u16 (of_nat ?nk) @ write_u16 0 @ write_u32 (of_nat ?np) @
      write_u32 (rgd_flags x) @ write_u32 0 @ gs @ cs @ ss @ ks @ ps @ write_u32 0"
    by (auto simp: OcbRowGroupIndexDeltaV1_encode_without_checksum_def sbind_eq_Inr u32_try_from_Some
        u16_try_from_Some)
  have fit: "?sg + ?sc + ?ss + ?sk + ?sp \<le> isize_max"
    using assms(4) by (simp add: fits_def row_group_delta_retained_def)
  then have f: "?sg \<le> isize_max" "?sc \<le> isize_max" "?ss \<le> isize_max" "?sk \<le> isize_max" "?sp \<le> isize_max"
    by simp_all
  have count: "?ng = unat (ucast (of_nat ?ng :: u32) :: u64)" "?nc = unat (ucast (of_nat ?nc :: u32) :: u64)"
    "?ns = unat (ucast (of_nat ?ns :: u32) :: u64)" "?nk = unat (ucast (of_nat ?nk :: u16) :: u64)"
    "?np = unat (ucast (of_nat ?np :: u32) :: u64)"
    using n by (simp_all add: unat_of_nat_u32 unat_of_nat_u16)
  have len: "?ng * OCB_ROW_GROUP_DESC_V1_LEN + 4 \<le> length (gs @ cs @ ss @ ks @ ps @ write_u32 0)"
    "?nc * OCB_COLUMN_CHUNK_DESC_V1_LEN + 4 \<le> length (cs @ ss @ ks @ ps @ write_u32 0)"
    "?ns * OCB_COLUMN_STATS_V1_LEN + 4 \<le> length (ss @ ks @ ps @ write_u32 0)"
    "?nk * OCB_ORDERING_KEY_V1_LEN + 4 \<le> length (ks @ ps @ write_u32 0)"
    "?np * OCB_ROW_GROUP_ORDERING_PROOF_V1_LEN + 4 \<le> length (ps @ write_u32 0)"
    using row_group_desc.length_write_each [OF g] column_chunk_desc.length_write_each [OF c]
      column_stats.length_write_each [OF s] ordering_key.length_write_each [OF k]
      row_group_ordering_proof.length_write_each [OF p] by simp_all
  have mat: "checked_materialized_sum [of_nat ?sg, of_nat ?sc, of_nat ?ss, of_nat ?sk, of_nat ?sp] =
      Inr (of_nat (row_group_delta_retained h x))"
    using checked_materialized_sum_of_nats [of "[?sg, ?sc, ?ss, ?sk, ?sp]"] isize_max_less [OF fit]
    by (simp add: row_group_delta_retained_def add.assoc)
  note N = isize_max_less_usize_max [OF assms(5)]
  note counts = oreads_count [OF N count(1) len(1)] oreads_count [OF N count(2) len(2)]
    oreads_count [OF N count(3) len(3)] oreads_count [OF N count(4) len(4)] oreads_count [OF N count(5) len(5)]
  note pass1 = row_group_desc.reads_validate [OF g] column_chunk_desc.reads_validate [OF c]
    column_stats.reads_validate [OF s] ordering_key.reads_validate [OF k]
    row_group_ordering_proof.reads_validate [OF p]
  note alloc = f [THEN try_vec_with_capacity_ready(2) [OF assms(3)]]
  note pass2 = row_group_desc.reads_record_sequence [OF g alloc(1)]
    column_chunk_desc.reads_record_sequence [OF c alloc(2)] column_stats.reads_record_sequence [OF s alloc(3)]
    ordering_key.reads_record_sequence [OF k alloc(4)]
    row_group_ordering_proof.reads_record_sequence [OF p alloc(5)]
  note vec = f [THEN checked_materialized_vec_bytes_ready [OF assms(3)]]
  show ?thesis
    unfolding OcbRowGroupIndexDeltaV1_fields_def buf
    by (rule pass1 [THEN oreads_bind] pass2 [THEN oreads_bind] vec [THEN oreads_try] oreads_try [OF mat]
        oreads_try [OF charge_fits [OF assms(4)]] oreads_mark oreads_rewinds counts reads_intros
      | simp add: assms(2); fail)+
qed

lemma OcbRowGroupIndexDeltaV1_fields_charge:
  "OcbRowGroupIndexDeltaV1_fields h N crc b c = Inr ((x, b'), c') \<Longrightarrow> charges b b' (row_group_delta_retained h x)"
  unfolding OcbRowGroupIndexDeltaV1_fields_def
  by (auto simp: reader_Inr row_group_delta_retained_def add.assoc dest!: checked_materialized_vec_bytes_Inr
      checked_materialized_sum_Inr read_record_sequence_length charge_charges split: if_split_asm)

interpretation row_group_delta: budgeted_codec OcbRowGroupIndexDeltaV1_encode_without_checksum
    OcbRowGroupIndexDeltaV1_write_to OcbRowGroupIndexDeltaV1_fields
    OcbRowGroupIndexDeltaV1_read_from_bytes_with_budget
    "''OCB row-group index delta crc mismatch''" "\<lambda>x. rgd_version x = 1" row_group_delta_retained
    "\<lambda>crc x. x\<lparr>rgd_crc32c := crc\<rparr>"
  by unfold_locales
    (auto simp: OcbRowGroupIndexDeltaV1_write_to_def OcbRowGroupIndexDeltaV1_read_from_bytes_with_budget_def
      OcbRowGroupIndexDeltaV1_encode_has_trailer
      intro: oreads_row_group_delta OcbRowGroupIndexDeltaV1_fields_charge)

end
