(* ===== verification/Dictionary.thy ===== *)
theory Dictionary
  imports Schema
begin

text \<open>
  Dictionaries (\<open>OcbDictionaryDescV1\<close>, \<open>OcbDictionaryIndexV1\<close> and \<open>OcbDictionaryValuesV1\<close> of
  \<open>format.rs\<close>): the index of dictionary descriptors, and the value object of one dictionary, a
  table of \<open>n + 1\<close> offsets into a block of bytes.
\<close>

section \<open>Descriptors and the index\<close>

record OcbDictionaryDescV1 =
  dict_dictionary_id :: u32
  dict_name_string_id :: u32
  dict_code_physical_type :: OcbPhysicalTypeV1
  dict_value_kind :: OcbDictionaryValueKindV1
  dict_flags :: u32
  dict_values_ref :: OcbBodyRefV2
  dict_entry_count :: u32
  dict_reserved0 :: u32

definition OcbDictionaryDescV1_write_to :: "OcbDictionaryDescV1 \<Rightarrow> bytes result" where
  "OcbDictionaryDescV1_write_to self =
     (if br_kind (dict_values_ref self) \<noteq> BodyKind_DictionaryValues
      then Inl (ocb_invalid_input ''OCB dictionary values_ref must reference dictionary values'')
      else Inr (
        write_u32 (dict_dictionary_id self) @
        write_u32 (dict_name_string_id self) @
        write_u16 (OcbPhysicalTypeV1_to_u16 (dict_code_physical_type self)) @
        write_u16 (OcbDictionaryValueKindV1_to_u16 (dict_value_kind self)) @
        write_u32 (dict_flags self) @
        OcbBodyRefV2_write_to (dict_values_ref self) @
        write_u32 (dict_entry_count self) @
        write_u32 (dict_reserved0 self)))"

definition OcbDictionaryDescV1_read_from :: "OcbDictionaryDescV1 reader" where
  "OcbDictionaryDescV1_read_from =
     rbind read_u32 (\<lambda>dictionary_id.
     rbind read_u32 (\<lambda>name_string_id.
     rbind read_u16 (\<lambda>code_physical_type.
     rtry (OcbPhysicalTypeV1_from_u16 code_physical_type) (\<lambda>code_physical_type.
     rbind read_u16 (\<lambda>value_kind.
     rtry (OcbDictionaryValueKindV1_from_u16 value_kind) (\<lambda>value_kind.
     rbind read_u32 (\<lambda>flags.
     rbind OcbBodyRefV2_read_from (\<lambda>values_ref.
     rbind read_u32 (\<lambda>entry_count.
     rbind read_u32 (\<lambda>reserved0.
     rret \<lparr>dict_dictionary_id = dictionary_id, dict_name_string_id = name_string_id,
           dict_code_physical_type = code_physical_type, dict_value_kind = value_kind,
           dict_flags = flags, dict_values_ref = values_ref, dict_entry_count = entry_count,
           dict_reserved0 = reserved0\<rparr>))))))))))"

definition OCB_DICTIONARY_INDEX_MAGIC_V1 :: bytes where
  "OCB_DICTIONARY_INDEX_MAGIC_V1 = [0x4F, 0x43, 0x42, 0x44, 0x49, 0x58, 0x31, 0x00]"

definition OCB_DICTIONARY_INDEX_V1_HEADER_LEN :: u16 where
  "OCB_DICTIONARY_INDEX_V1_HEADER_LEN = 20"

record OcbDictionaryIndexV1 =
  dix_version :: u16
  dix_dictionaries :: "OcbDictionaryDescV1 list"
  dix_crc32c :: u32

definition OcbDictionaryIndexV1_fields ::
  "host \<Rightarrow> usize \<Rightarrow> u32 \<Rightarrow> MetadataMaterializationBudget \<Rightarrow>
     (OcbDictionaryIndexV1 \<times> MetadataMaterializationBudget) reader" where
  "OcbDictionaryIndexV1_fields h total_len actual_crc budget =
     rbind (read_exact_ocb 8) (\<lambda>magic.
     if magic \<noteq> OCB_DICTIONARY_INDEX_MAGIC_V1
     then rfail (ocb_corrupt_file ''invalid OCB dictionary index magic'') else
     rbind read_u16 (\<lambda>version.
     if version \<noteq> 1 then rfail (ocb_unsupported_format ''unsupported OCB dictionary index version'') else
     rbind read_u16 (\<lambda>header_bytes.
     if header_bytes \<noteq> OCB_DICTIONARY_INDEX_V1_HEADER_LEN
     then rfail (ocb_corrupt_file ''invalid OCB dictionary index header length'') else
     rbind read_u32 (\<lambda>dictionary_count.
     rbind read_u32 (\<lambda>reserved0.
     rcount total_len (ucast dictionary_count) 56 ''OCB dictionary index count'' (\<lambda>dictionary_count.
     rmark (\<lambda>dictionaries_start.
     rbind (validate_record_sequence OcbDictionaryDescV1_read_from dictionary_count) (\<lambda>_.
     rtry (checked_materialized_vec_bytes h TyDictionaryDesc dictionary_count) (\<lambda>retained_bytes.
     rtry (charge budget retained_bytes) (\<lambda>budget.
     rset_position dictionaries_start (
     rbind (read_record_sequence h TyDictionaryDesc dictionary_count
        ''OCB dictionary-index allocation failed within resource limit''
        OcbDictionaryDescV1_read_from) (\<lambda>dictionaries.
     rret (\<lparr>dix_version = version, dix_dictionaries = dictionaries, dix_crc32c = actual_crc\<rparr>,
           budget)))))))))))))"

definition OcbDictionaryIndexV1_read_from_bytes_with_budget ::
  "host \<Rightarrow> bytes \<Rightarrow> MetadataMaterializationBudget \<Rightarrow>
     (OcbDictionaryIndexV1 \<times> MetadataMaterializationBudget) result" where
  "OcbDictionaryIndexV1_read_from_bytes_with_budget h bs budget =
     open_object ''OCB dictionary index crc mismatch'' bs (\<lambda>actual_crc bs.
       run_reader (OcbDictionaryIndexV1_fields h (length bs) actual_crc budget) bs)"

definition OcbDictionaryIndexV1_read_from_bytes :: "host \<Rightarrow> bytes \<Rightarrow> OcbDictionaryIndexV1 result" where
  "OcbDictionaryIndexV1_read_from_bytes h bs =
     sbind (OcbDictionaryIndexV1_read_from_bytes_with_budget h bs policy_a_metadata_materialization_budget)
       (\<lambda>r. Inr (fst r))"

definition OcbDictionaryIndexV1_encode_without_checksum :: "OcbDictionaryIndexV1 \<Rightarrow> bytes result" where
  "OcbDictionaryIndexV1_encode_without_checksum self =
     sbind (ok_or (u32_try_from (length (dix_dictionaries self)))
       (ocb_invalid_input ''OCB dictionary index has too many dictionaries'')) (\<lambda>dictionary_count.
     sbind (write_each OcbDictionaryDescV1_write_to (dix_dictionaries self)) (\<lambda>dictionaries.
     Inr (OCB_DICTIONARY_INDEX_MAGIC_V1 @
          write_u16 (dix_version self) @
          write_u16 OCB_DICTIONARY_INDEX_V1_HEADER_LEN @
          write_u32 dictionary_count @
          write_u32 0 @
          dictionaries @
          write_u32 0)))"

definition OcbDictionaryIndexV1_write_to :: "OcbDictionaryIndexV1 \<Rightarrow> bytes result" where
  "OcbDictionaryIndexV1_write_to self =
     sbind (OcbDictionaryIndexV1_encode_without_checksum self) (\<lambda>buf. Inr (seal_object buf))"

section \<open>Dictionary values\<close>

definition OCB_DICTIONARY_VALUES_MAGIC_V1 :: bytes where
  "OCB_DICTIONARY_VALUES_MAGIC_V1 = [0x4F, 0x43, 0x42, 0x44, 0x56, 0x4C, 0x31, 0x00]"

definition OCB_DICTIONARY_VALUES_V1_HEADER_LEN :: u16 where
  "OCB_DICTIONARY_VALUES_V1_HEADER_LEN = 40"

record OcbDictionaryValuesV1 =
  dv_version :: u16
  dv_value_kind :: OcbDictionaryValueKindV1
  dv_fixed_width :: u32
  dv_values :: "bytes list"
  dv_crc32c :: u32

text \<open>First pass over the offsets: they start at 0, never fall, stay inside the data and cover it.\<close>

fun check_dictionary_offsets ::
  "OcbDictionaryValueKindV1 \<Rightarrow> u32 \<Rightarrow> u64 \<Rightarrow> nat \<Rightarrow> u64 \<Rightarrow> u64 reader" where
  "check_dictionary_offsets value_kind fixed_width data_bytes 0 previous_offset = rret previous_offset"
| "check_dictionary_offsets value_kind fixed_width data_bytes (Suc n) previous_offset =
     rbind read_u64 (\<lambda>next_offset.
     if previous_offset > next_offset \<or> next_offset > data_bytes
     then rfail (ocb_corrupt_file ''OCB dictionary values offsets are invalid'') else
     if value_kind = DictValue_FixedBytes \<and> next_offset - previous_offset \<noteq> ucast fixed_width
     then rfail (ocb_corrupt_file ''OCB fixed-byte dictionary value length does not match fixed width'') else
     check_dictionary_offsets value_kind fixed_width data_bytes n next_offset)"

text \<open>Second pass: copy the value between consecutive offsets out of the data.\<close>

fun read_dictionary_values :: "host \<Rightarrow> bytes \<Rightarrow> nat \<Rightarrow> u64 \<Rightarrow> bytes list reader" where
  "read_dictionary_values h data 0 previous_offset = rret []"
| "read_dictionary_values h data (Suc n) previous_offset =
     rbind read_u64 (\<lambda>next_offset.
     rtry (ok_or (usize_try_from (unat previous_offset))
        (ocb_corrupt_file ''OCB dictionary value offset exceeds usize'')) (\<lambda>value_start.
     rtry (ok_or (usize_try_from (unat next_offset))
        (ocb_corrupt_file ''OCB dictionary value offset exceeds usize'')) (\<lambda>value_end.
     rtry (copy_bytes_fallibly h (slice value_start value_end data)
        ''OCB dictionary-entry allocation failed within resource limit'') (\<lambda>v.
     rbind (read_dictionary_values h data n next_offset) (\<lambda>vs. rret (v # vs))))))"

definition OcbDictionaryValuesV1_fields ::
  "host \<Rightarrow> usize \<Rightarrow> u32 \<Rightarrow> MetadataMaterializationBudget \<Rightarrow>
     (OcbDictionaryValuesV1 \<times> MetadataMaterializationBudget) reader" where
  "OcbDictionaryValuesV1_fields h total_len actual_crc budget =
     rbind (read_exact_ocb 8) (\<lambda>magic.
     if magic \<noteq> OCB_DICTIONARY_VALUES_MAGIC_V1
     then rfail (ocb_corrupt_file ''invalid OCB dictionary values magic'') else
     rbind read_u16 (\<lambda>version.
     if version \<noteq> 1 then rfail (ocb_unsupported_format ''unsupported OCB dictionary values version'') else
     rbind read_u16 (\<lambda>header_bytes.
     if header_bytes \<noteq> OCB_DICTIONARY_VALUES_V1_HEADER_LEN
     then rfail (ocb_corrupt_file ''invalid OCB dictionary values header length'') else
     rbind read_u16 (\<lambda>value_kind.
     rtry (OcbDictionaryValueKindV1_from_u16 value_kind) (\<lambda>value_kind.
     rbind read_u16 (\<lambda>reserved0.
     rbind read_u32 (\<lambda>entry_count.
     rbind read_u32 (\<lambda>fixed_width.
     rbind read_u64 (\<lambda>data_bytes.
     rbind read_u32 (\<lambda>flags.
     rbind read_u32 (\<lambda>reserved1.
     rtry (ok_or (checked_add entry_count 1)
        (ocb_corrupt_file ''OCB dictionary values offset count overflows'')) (\<lambda>offset_count.
     rcount total_len (ucast offset_count) 8 ''OCB dictionary values offset count'' (\<lambda>offset_count.
     let entry_count = offset_count - 1 in
     rmark (\<lambda>offsets_start.
     rbind read_u64 (\<lambda>previous_offset.
     if previous_offset \<noteq> 0
     then rfail (ocb_corrupt_file ''OCB dictionary values offsets do not cover data bytes'') else
     rbind (check_dictionary_offsets value_kind fixed_width data_bytes entry_count previous_offset) (\<lambda>previous_offset.
     if previous_offset \<noteq> data_bytes
     then rfail (ocb_corrupt_file ''OCB dictionary values offsets do not cover data bytes'') else
     rpayload total_len data_bytes ''OCB dictionary values data length'' (\<lambda>data_len.
     rmark (\<lambda>position.
     rtry (ok_or (usize_try_from position)
        (ocb_corrupt_file ''OCB dictionary data offset exceeds addressable memory'')) (\<lambda>data_start.
     rtry (ok_or (usize_checked_add data_start data_len)
        (ocb_corrupt_file ''OCB dictionary data range overflows'')) (\<lambda>data_end.
     rtry (checked_materialized_vec_bytes h TyVecU8 entry_count) (\<lambda>vec_bytes.
     rtry (ok_or (u64_try_from data_len)
        (ocb_corrupt_file ''OCB dictionary data length exceeds u64'')) (\<lambda>data_len.
     rtry (checked_materialized_sum [vec_bytes, data_len]) (\<lambda>retained_bytes.
     rtry (charge budget retained_bytes) (\<lambda>budget.
     rslice data_start data_end (\<lambda>data.
     rtry (try_vec_with_capacity h TyVecU8 entry_count
        ''OCB dictionary-value allocation failed within resource limit'') (\<lambda>values :: bytes list.
     rset_position offsets_start (
     rbind read_u64 (\<lambda>previous_offset.
     rbind (read_dictionary_values h data entry_count previous_offset) (\<lambda>vs.
     rret (\<lparr>dv_version = version, dv_value_kind = value_kind, dv_fixed_width = fixed_width,
            dv_values = values @ vs, dv_crc32c = actual_crc\<rparr>, budget))))))))))))))))))))))))))))))"

definition OcbDictionaryValuesV1_read_from_bytes_with_budget ::
  "host \<Rightarrow> bytes \<Rightarrow> MetadataMaterializationBudget \<Rightarrow>
     (OcbDictionaryValuesV1 \<times> MetadataMaterializationBudget) result" where
  "OcbDictionaryValuesV1_read_from_bytes_with_budget h bs budget =
     open_object ''OCB dictionary values crc mismatch'' bs (\<lambda>actual_crc bs.
       run_reader (OcbDictionaryValuesV1_fields h (length bs) actual_crc budget) bs)"

definition OcbDictionaryValuesV1_read_from_bytes :: "host \<Rightarrow> bytes \<Rightarrow> OcbDictionaryValuesV1 result" where
  "OcbDictionaryValuesV1_read_from_bytes h bs =
     sbind (OcbDictionaryValuesV1_read_from_bytes_with_budget h bs policy_a_metadata_materialization_budget)
       (\<lambda>r. Inr (fst r))"

text \<open>The writer collects the data and the offset after each value; \<open>value.len() as u32\<close> truncates.\<close>

definition push_dictionary_value ::
  "OcbDictionaryValuesV1 \<Rightarrow> bytes \<Rightarrow> bytes \<times> u64 list \<Rightarrow> (bytes \<times> u64 list) result" where
  "push_dictionary_value self v acc =
     (if dv_value_kind self = DictValue_FixedBytes \<and> of_nat (length v) \<noteq> dv_fixed_width self
      then Inl (ocb_invalid_input ''OCB fixed-byte dictionary value length does not match fixed width'')
      else let data = fst acc @ v in Inr (data, snd acc @ [of_nat (length data)]))"

definition OcbDictionaryValuesV1_encode_without_checksum :: "OcbDictionaryValuesV1 \<Rightarrow> bytes result" where
  "OcbDictionaryValuesV1_encode_without_checksum self =
     sbind (ok_or (u32_try_from (length (dv_values self)))
       (ocb_invalid_input ''OCB dictionary values have too many entries'')) (\<lambda>entry_count.
     if dv_value_kind self = DictValue_FixedBytes \<and> dv_fixed_width self = 0
     then Inl (ocb_invalid_input ''OCB fixed-byte dictionary values require fixed_width > 0'') else
     if dv_value_kind self \<noteq> DictValue_FixedBytes \<and> dv_fixed_width self \<noteq> 0
     then Inl (ocb_invalid_input ''OCB non-fixed dictionary values must use fixed_width 0'') else
     sbind (for_each (push_dictionary_value self) (dv_values self) ([], [0])) (\<lambda>(data, offsets).
     Inr (OCB_DICTIONARY_VALUES_MAGIC_V1 @
          write_u16 (dv_version self) @
          write_u16 OCB_DICTIONARY_VALUES_V1_HEADER_LEN @
          write_u16 (OcbDictionaryValueKindV1_to_u16 (dv_value_kind self)) @
          write_u16 0 @
          write_u32 entry_count @
          write_u32 (dv_fixed_width self) @
          write_u64 (of_nat (length data)) @
          write_u32 0 @
          write_u32 0 @
          concat (map write_u64 offsets) @
          data @
          write_u32 0)))"

definition OcbDictionaryValuesV1_write_to :: "OcbDictionaryValuesV1 \<Rightarrow> bytes result" where
  "OcbDictionaryValuesV1_write_to self =
     sbind (OcbDictionaryValuesV1_encode_without_checksum self) (\<lambda>buf. Inr (seal_object buf))"

section \<open>Index: round trip\<close>

lemma reads_OcbDictionaryDescV1:
  "OcbDictionaryDescV1_write_to d = Inr bs \<Longrightarrow> reads OcbDictionaryDescV1_read_from bs d"
  unfolding OcbDictionaryDescV1_write_to_def OcbDictionaryDescV1_read_from_def
  by (clarsimp split: if_split_asm) (rule reads_intros | simp; fail)+

interpretation dictionary_desc: record_codec OcbDictionaryDescV1_write_to OcbDictionaryDescV1_read_from 56
proof
  show "OcbDictionaryDescV1_write_to x = Inr bs \<Longrightarrow> reads OcbDictionaryDescV1_read_from bs x" for x bs
    by (rule reads_OcbDictionaryDescV1)
  show "OcbDictionaryDescV1_write_to x = Inr bs \<Longrightarrow> length bs = 56" for x bs
    by (auto simp: OcbDictionaryDescV1_write_to_def split: if_splits)
qed

definition OcbDictionaryIndexV1_layout :: "OcbDictionaryIndexV1 \<Rightarrow> bytes \<Rightarrow> bytes" where
  "OcbDictionaryIndexV1_layout self dictionaries =
     OCB_DICTIONARY_INDEX_MAGIC_V1 @ write_u16 (dix_version self) @ write_u16 OCB_DICTIONARY_INDEX_V1_HEADER_LEN @
     write_u32 (of_nat (length (dix_dictionaries self))) @ write_u32 0 @ dictionaries @ write_u32 0"

lemma OcbDictionaryIndexV1_encode_Inr:
  "OcbDictionaryIndexV1_encode_without_checksum x = Inr buf \<longleftrightarrow>
     length (dix_dictionaries x) < 2 ^ 32 \<and>
     (\<exists>ds. write_each OcbDictionaryDescV1_write_to (dix_dictionaries x) = Inr ds \<and>
        buf = OcbDictionaryIndexV1_layout x ds)"
  by (auto simp: OcbDictionaryIndexV1_encode_without_checksum_def OcbDictionaryIndexV1_layout_def
      sbind_eq_Inr u32_try_from_Some)

lemma has_trailer_dictionary_index: "has_trailer (OcbDictionaryIndexV1_layout x ds)"
  unfolding OcbDictionaryIndexV1_layout_def by (intro has_trailer_intros)

definition dictionary_index_retained :: "host \<Rightarrow> OcbDictionaryIndexV1 \<Rightarrow> nat" where
  "dictionary_index_retained h x = length (dix_dictionaries x) * host_size_of h TyDictionaryDesc"

lemma length_dictionary_magics [simp]:
  "length OCB_DICTIONARY_INDEX_MAGIC_V1 = 8" "length OCB_DICTIONARY_VALUES_MAGIC_V1 = 8"
  by (simp_all add: OCB_DICTIONARY_INDEX_MAGIC_V1_def OCB_DICTIONARY_VALUES_MAGIC_V1_def)

lemma oreads_dictionary_index:
  assumes "write_each OcbDictionaryDescV1_write_to (dix_dictionaries x) = Inr ds"
    and "length (dix_dictionaries x) < 2 ^ 32" and "dix_version x = 1"
    and "host_ready h" and "fits b (dictionary_index_retained h x)" and "N \<le> isize_max"
  shows "oreads N 0 [] (OcbDictionaryIndexV1_fields h N crc b) (OcbDictionaryIndexV1_layout x ds)
      (x\<lparr>dix_crc32c := crc\<rparr>, charged b (dictionary_index_retained h x))"
proof -
  let ?n = "length (dix_dictionaries x)"
  have fit: "?n * host_size_of h TyDictionaryDesc \<le> isize_max"
    using assms(5) by (simp add: fits_def dictionary_index_retained_def)
  have count: "?n = unat (ucast (of_nat ?n :: u32) :: u64)" using assms(2) by (simp add: unat_of_nat_u32)
  have len: "?n * 56 + 4 \<le> length (ds @ write_u32 0)"
    using dictionary_desc.length_write_each [OF assms(1)] by simp
  note pass1 = dictionary_desc.reads_validate [OF assms(1)]
  note pass2 = dictionary_desc.reads_record_sequence [OF assms(1) try_vec_with_capacity_ready(2) [OF assms(4) fit]]
  note vec = checked_materialized_vec_bytes_ready [OF assms(4) fit]
  note chg = charge_fits [OF assms(5), unfolded dictionary_index_retained_def]
  show ?thesis
    unfolding OcbDictionaryIndexV1_fields_def OcbDictionaryIndexV1_layout_def dictionary_index_retained_def
    by (rule oreads_bind [OF pass1] oreads_bind [OF pass2] oreads_try [OF vec] oreads_try [OF chg]
        oreads_mark oreads_rewinds
        oreads_count [OF isize_max_less_usize_max [OF assms(6)] count len] reads_intros
      | simp add: assms(3); fail)+
qed

lemma OcbDictionaryIndexV1_fields_charge:
  "OcbDictionaryIndexV1_fields h N crc b c = Inr ((x, b'), c') \<Longrightarrow> charges b b' (dictionary_index_retained h x)"
  unfolding OcbDictionaryIndexV1_fields_def
  by (auto simp: reader_Inr dictionary_index_retained_def dest!: checked_materialized_vec_bytes_Inr
      read_record_sequence_length charge_charges split: if_split_asm)

interpretation dictionary_index: budgeted_codec OcbDictionaryIndexV1_encode_without_checksum
    OcbDictionaryIndexV1_write_to OcbDictionaryIndexV1_fields OcbDictionaryIndexV1_read_from_bytes_with_budget
    "''OCB dictionary index crc mismatch''" "\<lambda>x. dix_version x = 1" dictionary_index_retained
    "\<lambda>crc x. x\<lparr>dix_crc32c := crc\<rparr>"
  by unfold_locales
    (auto simp: OcbDictionaryIndexV1_write_to_def OcbDictionaryIndexV1_read_from_bytes_with_budget_def
      OcbDictionaryIndexV1_encode_Inr has_trailer_dictionary_index
      intro: oreads_dictionary_index OcbDictionaryIndexV1_fields_charge)

section \<open>Values: round trip\<close>

fun value_ends :: "nat \<Rightarrow> bytes list \<Rightarrow> nat list" where
  "value_ends n [] = []"
| "value_ends n (v # vs) = (n + length v) # value_ends (n + length v) vs"

abbreviation write_ends :: "nat \<Rightarrow> bytes list \<Rightarrow> bytes" where
  "write_ends n vs \<equiv> concat (map (\<lambda>e. write_u64 (of_nat e)) (value_ends n vs))"

text \<open>What the code calls a well-formed value table, with lengths that fit the width field.\<close>

definition dictionary_values_ok :: "OcbDictionaryValuesV1 \<Rightarrow> bool" where
  "dictionary_values_ok x \<longleftrightarrow> dv_version x = 1 \<and> length (dv_values x) < 2 ^ 32 - 1 \<and>
     (dv_value_kind x = DictValue_FixedBytes \<longrightarrow> (\<forall>v\<in>set (dv_values x). length v < 2 ^ 32))"

definition dictionary_values_retained :: "host \<Rightarrow> OcbDictionaryValuesV1 \<Rightarrow> nat" where
  "dictionary_values_retained h x =
     length (dv_values x) * host_size_of h TyVecU8 + sum_list (map length (dv_values x))"

definition OcbDictionaryValuesV1_layout :: "OcbDictionaryValuesV1 \<Rightarrow> bytes" where
  "OcbDictionaryValuesV1_layout self =
     OCB_DICTIONARY_VALUES_MAGIC_V1 @ write_u16 (dv_version self) @ write_u16 OCB_DICTIONARY_VALUES_V1_HEADER_LEN @
     write_u16 (OcbDictionaryValueKindV1_to_u16 (dv_value_kind self)) @ write_u16 0 @
     write_u32 (of_nat (length (dv_values self))) @ write_u32 (dv_fixed_width self) @
     write_u64 (of_nat (length (concat (dv_values self)))) @ write_u32 0 @ write_u32 0 @
     write_u64 0 @ write_ends 0 (dv_values self) @ concat (dv_values self) @ write_u32 0"

lemma push_dictionary_values:
  "for_each (push_dictionary_value x) vs (data, offs) = Inr r \<longleftrightarrow>
     (\<forall>v\<in>set vs. dv_value_kind x = DictValue_FixedBytes \<longrightarrow> of_nat (length v) = dv_fixed_width x) \<and>
     r = (data @ concat vs, offs @ map of_nat (value_ends (length data) vs))"
proof (induction vs arbitrary: data offs)
  case Nil
  then show ?case by auto
next
  case (Cons v vs)
  have "for_each (push_dictionary_value x) (v # vs) (data, offs) = Inr r \<longleftrightarrow>
      (dv_value_kind x = DictValue_FixedBytes \<longrightarrow> of_nat (length v) = dv_fixed_width x) \<and>
      for_each (push_dictionary_value x) vs (data @ v, offs @ [of_nat (length (data @ v))]) = Inr r"
    by (auto simp: push_dictionary_value_def sbind_eq_Inr Let_def)
  with Cons.IH [of "data @ v"] show ?case by auto
qed

lemma OcbDictionaryValuesV1_encode_Inr:
  assumes "OcbDictionaryValuesV1_encode_without_checksum x = Inr buf"
  shows "buf = OcbDictionaryValuesV1_layout x"
    and "dv_value_kind x = DictValue_FixedBytes \<Longrightarrow> v \<in> set (dv_values x) \<Longrightarrow>
      of_nat (length v) = dv_fixed_width x"
  using assms
  by (auto simp: OcbDictionaryValuesV1_encode_without_checksum_def OcbDictionaryValuesV1_layout_def
      sbind_eq_Inr u32_try_from_Some push_dictionary_values comp_def split: if_split_asm)

lemma has_trailer_dictionary_values: "has_trailer (OcbDictionaryValuesV1_layout x)"
  unfolding OcbDictionaryValuesV1_layout_def by (intro has_trailer_intros)

lemma length_write_ends: "length (write_ends n vs) = 8 * length vs"
  by (induction vs arbitrary: n) auto

lemma reads_check_dictionary_offsets:
  assumes "n + sum_list (map length vs) \<le> D" and "D < 2 ^ 64"
    and "kind = DictValue_FixedBytes \<longrightarrow> (\<forall>v\<in>set vs. length v < 2 ^ 32 \<and> of_nat (length v) = fw)"
  shows "reads (check_dictionary_offsets kind fw (of_nat D) (length vs) (of_nat n)) (write_ends n vs)
      (of_nat (n + sum_list (map length vs)))"
  using assms
proof (induction vs arbitrary: n)
  case Nil
  then show ?case by (simp add: reads_ret)
next
  case (Cons v vs)
  have lt: "n + length v < 2 ^ 64" "n < 2 ^ 64" using Cons.prems(1,2) by simp_all
  have 1: "\<not> ((of_nat n :: u64) > of_nat (n + length v) \<or> (of_nat (n + length v) :: u64) > of_nat D)"
    using Cons.prems(1,2) lt by (simp add: word_less_nat_alt unat_of_nat_u64 del: of_nat_add)
  have "of_nat (n + length v) - of_nat n = (of_nat (length v) :: u64)" by simp
  moreover have "kind = DictValue_FixedBytes \<Longrightarrow> (of_nat (length v) :: u64) = ucast fw"
    using Cons.prems(3) by (auto simp: word_unat_eq_iff unat_of_nat_u32 unat_of_nat_u64)
  ultimately have 2: "\<not> (kind = DictValue_FixedBytes \<and> (of_nat (n + length v) :: u64) - of_nat n \<noteq> ucast fw)"
    by simp
  have IH: "reads (check_dictionary_offsets kind fw (of_nat D) (length vs) (of_nat (n + length v)))
      (write_ends (n + length v) vs) (of_nat (n + length v + sum_list (map length vs)))"
    using Cons.prems by (intro Cons.IH) auto
  have "reads (check_dictionary_offsets kind fw (of_nat D) (Suc (length vs)) (of_nat n))
      (write_u64 (of_nat (n + length v)) @ write_ends (n + length v) vs)
      (of_nat (n + length v + sum_list (map length vs)))"
    unfolding check_dictionary_offsets.simps
    by (rule reads_bind [OF reads_u64] reads_if_not [OF 1] reads_if_not [OF 2] IH)+
  then show ?case by (simp add: add.assoc)
qed

lemma reads_dictionary_values:
  assumes "host_ready h" and "length data \<le> isize_max"
    and "data = pre @ concat vs" and "length pre = n"
  shows "reads (read_dictionary_values h data (length vs) (of_nat n)) (write_ends n vs) vs"
  using assms
proof (induction vs arbitrary: n pre)
  case Nil
  then show ?case by (simp add: reads_ret)
next
  case (Cons v vs)
  have len: "n + length v \<le> isize_max" using Cons.prems(2-4) by simp
  then have lt: "n + length v < 2 ^ 64" "n < 2 ^ 64" using isize_max_less by (blast, auto simp: isize_max_def)
  have slice: "slice n (n + length v) data = v" using Cons.prems(3,4) by (simp add: slice_def)
  have copy: "copy_bytes_fallibly h (slice n (n + length v) data) msg = Inr v" for msg
    using len by (simp add: slice allocate_ready(2) [OF Cons.prems(1), of "length v"])
  have try_from: "ok_or (usize_try_from (unat (of_nat n :: u64))) e = Inr n"
      "ok_or (usize_try_from (unat (of_nat (n + length v) :: u64))) e = Inr (n + length v)" for e :: ArcadiaTioError
    using lt by (simp_all add: unat_of_nat_u64 usize_max_def del: of_nat_add)
  have IH: "reads (read_dictionary_values h data (length vs) (of_nat (n + length v))) (write_ends (n + length v) vs) vs"
    using Cons.prems by (intro Cons.IH [where pre = "pre @ v"]) auto
  have "reads (read_dictionary_values h data (Suc (length vs)) (of_nat n))
      (write_u64 (of_nat (n + length v)) @ write_ends (n + length v) vs) (v # vs)"
    unfolding read_dictionary_values.simps
    by (rule reads_bind [OF reads_u64] reads_try [OF try_from(1)] reads_try [OF try_from(2)]
        reads_try [OF copy] reads_bind_ret [OF IH] refl)+
  then show ?case by simp
qed

lemma oreads_dictionary_values:
  assumes "OcbDictionaryValuesV1_encode_without_checksum x = Inr buf" and "dictionary_values_ok x"
    and "host_ready h" and "fits b (dictionary_values_retained h x)" and "N \<le> isize_max"
  shows "oreads N 0 [] (OcbDictionaryValuesV1_fields h N crc b) buf
      (x\<lparr>dv_crc32c := crc\<rparr>, charged b (dictionary_values_retained h x))"
proof -
  let ?vs = "dv_values x" let ?n = "length ?vs" let ?D = "length (concat ?vs)"
  note ok = assms(2) [unfolded dictionary_values_ok_def] and N = isize_max_less_usize_max [OF assms(5)]
  have D: "?D = sum_list (map length ?vs)" by (simp add: length_concat)
  have fit: "?n * host_size_of h TyVecU8 + ?D \<le> isize_max"
    using assms(4) by (simp add: fits_def dictionary_values_retained_def D)
  then have fit1: "?n * host_size_of h TyVecU8 \<le> isize_max" and fit2: "?D \<le> isize_max" by simp_all
  have lt: "?n * host_size_of h TyVecU8 + ?D < 2 ^ 64" "?D < 2 ^ 64" using fit fit2 isize_max_less by blast+
  have n: "?n < 2 ^ 32" using ok by simp
  have cnt: "ok_or (checked_add (of_nat ?n :: u32) 1) e = Inr (of_nat (Suc ?n))" for e :: ArcadiaTioError
    using ok by (simp add: checked_add_def unat_of_nat_u32 [OF n])
  have count: "Suc ?n = unat (ucast (of_nat (Suc ?n) :: u32) :: u64)"
    using ok by (simp add: unat_of_nat_u32 del: of_nat_Suc)
  have fixed: "dv_value_kind x = DictValue_FixedBytes \<longrightarrow>
      (\<forall>v\<in>set ?vs. length v < 2 ^ 32 \<and> of_nat (length v) = dv_fixed_width x)"
    using ok OcbDictionaryValuesV1_encode_Inr(2) [OF assms(1)] by blast
  have pass1: "reads (check_dictionary_offsets (dv_value_kind x) (dv_fixed_width x) (of_nat ?D) ?n 0)
      (write_ends 0 ?vs) (of_nat ?D)"
    using reads_check_dictionary_offsets [of 0 ?vs ?D, OF _ lt(2) fixed] by (simp add: D)
  have pass2: "reads (read_dictionary_values h (concat ?vs) ?n 0) (write_ends 0 ?vs) ?vs"
    using reads_dictionary_values [OF assms(3) fit2, of "[]" ?vs 0] by simp
  note vec = checked_materialized_vec_bytes_ready [OF assms(3) fit1]
  have u64: "ok_or (u64_try_from ?D) e = Inr (of_nat ?D)" for e :: ArcadiaTioError
    using lt(2) by (simp add: u64_try_from_def)
  have mat: "checked_materialized_sum [of_nat (?n * host_size_of h TyVecU8), of_nat ?D] =
      Inr (of_nat (dictionary_values_retained h x))"
    using checked_materialized_sum_of_nats [of "[?n * host_size_of h TyVecU8, ?D]"] lt(1)
    by (simp add: dictionary_values_retained_def D)
  have data: "?D = unat (of_nat ?D :: u64)" using lt(2) by (simp add: unat_of_nat_u64)
  have len: "Suc ?n * 8 + 4 \<le> length (write_u64 0 @ write_ends 0 ?vs @ concat ?vs @ write_u32 0)"
    by (simp add: length_write_ends)
  have dlen: "?D + 4 \<le> length (concat ?vs @ write_u32 0)" by simp
  show ?thesis
    unfolding OcbDictionaryValuesV1_fields_def OcbDictionaryValuesV1_encode_Inr(1) [OF assms(1)]
      OcbDictionaryValuesV1_layout_def
    by (rule oreads_bind [OF pass1] oreads_bind [OF pass2] oreads_try [OF cnt] oreads_try [OF vec]
        oreads_try [OF u64] oreads_try [OF mat] oreads_try [OF charge_fits [OF assms(4)]]
        oreads_try [OF try_vec_with_capacity_ready(1) [OF assms(3) fit1]]
        oreads_let [where w = ?n] oreads_rewinds
        oreads_count [OF N count len] oreads_payload [OF N data dlen]
        oreads_range [OF N] oreads_slice oreads_mark reads_intros
      | simp add: ok; fail)+
qed

section \<open>Values: what a successful read has charged\<close>

lemma check_dictionary_offsets_last:
  "check_dictionary_offsets kind fw D n prev c = Inr (fin, c') \<Longrightarrow> prev \<le> D \<Longrightarrow> prev \<le> fin \<and> fin \<le> D"
proof (induction n arbitrary: prev c)
  case 0
  then show ?case by (simp add: reader_Inr)
next
  case (Suc n)
  then obtain next_offset c1 where "prev \<le> next_offset" "next_offset \<le> D"
    "check_dictionary_offsets kind fw D n next_offset c1 = Inr (fin, c')"
    by (auto simp: reader_Inr not_less split: if_splits)
  with Suc.IH [of next_offset c1] show ?case by auto
qed

lemma check_read_dictionary:
  assumes "check_dictionary_offsets kind fw D n prev c = Inr (fin, c1)"
    and "read_dictionary_values h data n prev c = Inr (vs, c2)"
    and "prev \<le> D" and "length data = unat D"
  shows "length vs = n \<and> unat fin = unat prev + sum_list (map length vs)"
  using assms
proof (induction n arbitrary: prev c vs)
  case 0
  then show ?case by (auto simp: reader_Inr)
next
  case (Suc n)
  from Suc.prems(1) obtain o1 d where o1: "read_u64 c = Inr (o1, d)" and le: "prev \<le> o1" "o1 \<le> D"
    and rest: "check_dictionary_offsets kind fw D n o1 d = Inr (fin, c1)"
    by (auto simp: reader_Inr not_less split: if_splits)
  from Suc.prems(2) o1 obtain v vs' where
    v: "copy_bytes_fallibly h (slice (unat prev) (unat o1) data)
      ''OCB dictionary-entry allocation failed within resource limit'' = Inr v"
    and rest': "read_dictionary_values h data n o1 d = Inr (vs', c2)" and vs: "vs = v # vs'"
    by (auto simp: reader_Inr)
  from v have "length v = unat o1 - unat prev"
    using le Suc.prems(4)
    by (auto simp: copy_bytes_fallibly_def word_le_nat_alt split: if_splits)
  with Suc.IH [OF rest rest' le(2) Suc.prems(4)] le show ?case
    by (simp add: vs word_le_nat_alt)
qed

lemma keeps_bytes_check_dictionary_offsets [simp]: "keeps_bytes (check_dictionary_offsets kind fw D n prev)"
  by (induction n arbitrary: prev) (auto intro!: keeps_bytes_intros)

lemma keeps_bytes_read_dictionary_values [simp]: "keeps_bytes (read_dictionary_values h data n prev)"
  by (induction n arbitrary: prev) (auto intro!: keeps_bytes_intros)

lemma OcbDictionaryValuesV1_fields_charge:
  assumes "OcbDictionaryValuesV1_fields h N crc b c = Inr ((x, b'), c')" and N: "length (cur_bytes c) = N"
  shows "charges b b' (dictionary_values_retained h x)"
proof -
  from assms(1) obtain kind fw D n p1 p2 m v r p3 where
    chk: "check_dictionary_offsets kind fw D n 0 (c\<lparr>cur_pos := p1\<rparr>) = Inr (D, c\<lparr>cur_pos := p2\<rparr>)"
    and m: "checked_payload_len N p2 D ''OCB dictionary values data length'' = Inr m"
    and v: "checked_materialized_vec_bytes h TyVecU8 n = Inr v"
    and r: "checked_materialized_sum [v, of_nat m] = Inr r"
    and b': "charge b r = Inr b'"
    and rd: "read_dictionary_values h (slice p2 (p2 + m) (cur_bytes c)) n 0 (c\<lparr>cur_pos := p1\<rparr>) =
        Inr (dv_values x, c\<lparr>cur_pos := p3\<rparr>)"
    unfolding OcbDictionaryValuesV1_fields_def
    by (auto simp: keeps_bytes_Inr Let_def try_vec_with_capacity_def u64_try_from_Some
        usize_checked_add_def split: if_split_asm)
  from m have D: "m = unat D" and "p2 + m + 4 \<le> N" by (simp_all add: checked_payload_len_Inr)
  then have "length (slice p2 (p2 + m) (cur_bytes c)) = unat D" using N by simp
  from check_read_dictionary [OF chk rd _ this] have "length (dv_values x) = n"
    "unat D = sum_list (map length (dv_values x))" by simp_all
  moreover have "of_nat m = D" by (simp add: D)
  ultimately have "unat r = dictionary_values_retained h x"
    using checked_materialized_sum_Inr [OF r] checked_materialized_vec_bytes_Inr [OF v]
    by (simp add: dictionary_values_retained_def)
  with charge_charges [OF b'] show ?thesis by simp
qed

interpretation dictionary_values: budgeted_codec OcbDictionaryValuesV1_encode_without_checksum
    OcbDictionaryValuesV1_write_to OcbDictionaryValuesV1_fields OcbDictionaryValuesV1_read_from_bytes_with_budget
    "''OCB dictionary values crc mismatch''" dictionary_values_ok dictionary_values_retained
    "\<lambda>crc x. x\<lparr>dv_crc32c := crc\<rparr>"
  by unfold_locales
    (auto simp: OcbDictionaryValuesV1_write_to_def OcbDictionaryValuesV1_read_from_bytes_with_budget_def
      has_trailer_dictionary_values dest: OcbDictionaryValuesV1_encode_Inr(1)
      intro: oreads_dictionary_values OcbDictionaryValuesV1_fields_charge)

end
