(* ===== verification/Roots.thy ===== *)
theory Roots
  imports Body_Ref
begin

text \<open>
  Root objects of a file (\<open>OcbRootV1\<close> and \<open>OcbRootV2\<close> of \<open>format.rs\<close>): the entry points from which
  all metadata of one snapshot is reached.  A root is a fixed-size sealed object; a version-2
  root adds the generation chain and the rows appended by its commit.
\<close>

section \<open>Version 1\<close>

definition OCB_ROOT_MAGIC_V1 :: bytes where
  "OCB_ROOT_MAGIC_V1 = [0x4F, 0x43, 0x42, 0x52, 0x4F, 0x4F, 0x54, 0x31]"

definition OCB_ROOT_V1_LEN :: u16 where
  "OCB_ROOT_V1_LEN = 220"

record OcbRootV1 =
  root1_version :: u16
  root1_flags :: u32
  root1_row_count :: u64
  root1_column_count :: u32
  root1_row_group_count :: u32
  root1_dictionary_count :: u32
  root1_schema_ref :: OcbBodyRefV2
  root1_dictionary_index_ref :: OcbBodyRefV2
  root1_row_group_index_ref :: OcbBodyRefV2
  root1_ordering_proof_ref :: OcbBodyRefV2
  root1_debug_json_ref :: OcbBodyRefV2
  root1_created_unix_nanos :: u64
  root1_content_flags :: u64
  root1_crc32c :: u32

definition OcbRootV1_layout :: "OcbRootV1 \<Rightarrow> bytes" where
  "OcbRootV1_layout self =
     OCB_ROOT_MAGIC_V1 @
     write_u16 (root1_version self) @
     write_u16 OCB_ROOT_V1_LEN @
     write_u32 (root1_flags self) @
     write_u64 (root1_row_count self) @
     write_u32 (root1_column_count self) @
     write_u32 (root1_row_group_count self) @
     write_u32 (root1_dictionary_count self) @
     write_u32 0 @
     OcbBodyRefV2_write_to (root1_schema_ref self) @
     OcbBodyRefV2_write_to (root1_dictionary_index_ref self) @
     OcbBodyRefV2_write_to (root1_row_group_index_ref self) @
     OcbBodyRefV2_write_to (root1_ordering_proof_ref self) @
     OcbBodyRefV2_write_to (root1_debug_json_ref self) @
     write_u64 (root1_created_unix_nanos self) @
     write_u64 (root1_content_flags self) @
     write_u32 0"

definition OcbRootV1_encode_without_checksum :: "OcbRootV1 \<Rightarrow> bytes result" where
  "OcbRootV1_encode_without_checksum self =
     (if br_kind (root1_schema_ref self) \<noteq> BodyKind_Schema
      then Inl (ocb_invalid_input ''OCB root schema_ref must reference schema'')
      else if br_kind (root1_row_group_index_ref self) \<noteq> BodyKind_RowGroupIndex
      then Inl (ocb_invalid_input ''OCB root row_group_index_ref must reference row-group index'')
      else if \<not> is_null (root1_dictionary_index_ref self)
              \<and> br_kind (root1_dictionary_index_ref self) \<noteq> BodyKind_DictionaryIndex
      then Inl (ocb_invalid_input ''OCB root dictionary_index_ref must reference dictionary index'')
      else if \<not> is_null (root1_ordering_proof_ref self)
              \<and> br_kind (root1_ordering_proof_ref self) \<noteq> BodyKind_OrderingProof
      then Inl (ocb_invalid_input ''OCB root ordering_proof_ref must reference ordering proof'')
      else if \<not> is_null (root1_debug_json_ref self)
              \<and> br_kind (root1_debug_json_ref self) \<noteq> BodyKind_DebugJsonMetadata
      then Inl (ocb_invalid_input ''OCB root debug_json_ref must reference debug JSON metadata'')
      else Inr (OcbRootV1_layout self))"

definition OcbRootV1_write_to :: "OcbRootV1 \<Rightarrow> bytes result" where
  "OcbRootV1_write_to self =
     sbind (OcbRootV1_encode_without_checksum self) (\<lambda>buf. Inr (seal_object buf))"

definition OcbRootV1_fields :: "u32 \<Rightarrow> OcbRootV1 reader" where
  "OcbRootV1_fields actual_crc =
     rbind (read_exact_ocb 8) (\<lambda>magic.
     if magic \<noteq> OCB_ROOT_MAGIC_V1 then rfail (ocb_corrupt_file ''invalid OCB root magic'') else
     rbind read_u16 (\<lambda>version.
     if version \<noteq> 1 then rfail (ocb_unsupported_format ''unsupported OCB root version'') else
     rbind read_u16 (\<lambda>header_bytes.
     if header_bytes \<noteq> OCB_ROOT_V1_LEN
     then rfail (ocb_corrupt_file ''invalid OCB root header length'') else
     rbind read_u32 (\<lambda>flags.
     rbind read_u64 (\<lambda>row_count.
     rbind read_u32 (\<lambda>column_count.
     rbind read_u32 (\<lambda>row_group_count.
     rbind read_u32 (\<lambda>dictionary_count.
     rbind read_u32 (\<lambda>reserved0.
     rbind OcbBodyRefV2_read_from (\<lambda>schema_ref.
     rbind OcbBodyRefV2_read_from (\<lambda>dictionary_index_ref.
     rbind OcbBodyRefV2_read_from (\<lambda>row_group_index_ref.
     rbind OcbBodyRefV2_read_from (\<lambda>ordering_proof_ref.
     rbind OcbBodyRefV2_read_from (\<lambda>debug_json_ref.
     rbind read_u64 (\<lambda>created_unix_nanos.
     rbind read_u64 (\<lambda>content_flags.
     rret \<lparr>root1_version = version, root1_flags = flags, root1_row_count = row_count,
           root1_column_count = column_count, root1_row_group_count = row_group_count,
           root1_dictionary_count = dictionary_count, root1_schema_ref = schema_ref,
           root1_dictionary_index_ref = dictionary_index_ref,
           root1_row_group_index_ref = row_group_index_ref,
           root1_ordering_proof_ref = ordering_proof_ref, root1_debug_json_ref = debug_json_ref,
           root1_created_unix_nanos = created_unix_nanos, root1_content_flags = content_flags,
           root1_crc32c = actual_crc\<rparr>))))))))))))))))"

definition OcbRootV1_decode :: "bytes \<Rightarrow> OcbRootV1 result" where
  "OcbRootV1_decode buf =
     open_object ''OCB root crc mismatch'' buf (\<lambda>actual_crc buf. run_reader (OcbRootV1_fields actual_crc) buf)"

definition OcbRootV1_read_from :: "OcbRootV1 reader" where
  "OcbRootV1_read_from = rbind (read_exact_ocb (unat OCB_ROOT_V1_LEN)) (\<lambda>buf. rtry (OcbRootV1_decode buf) rret)"

section \<open>Version 2\<close>

definition OCB_FORMAT_MAJOR_V2 :: u16 where
  "OCB_FORMAT_MAJOR_V2 = 2"

definition OCB_ROOT_MAGIC_V2 :: bytes where
  "OCB_ROOT_MAGIC_V2 = [0x4F, 0x43, 0x42, 0x52, 0x4F, 0x4F, 0x54, 0x32]"

definition OCB_ROOT_V2_LEN :: u16 where
  "OCB_ROOT_V2_LEN = 456"

record OcbRootV2 =
  root2_version :: u16
  root2_flags :: u32
  root2_generation :: u64
  root2_previous_generation :: u64
  root2_previous_root_ref :: OcbBodyRefV2
  root2_append_base_row :: u64
  root2_append_row_count :: u64
  root2_append_base_row_group :: u32
  root2_append_row_group_count :: u32
  root2_row_count :: u64
  root2_column_count :: u32
  root2_row_group_count :: u32
  root2_dictionary_count :: u32
  root2_column_chunk_count :: u32
  root2_schema_ref :: OcbBodyRefV2
  root2_dictionary_index_ref :: OcbBodyRefV2
  root2_row_group_index_ref :: OcbBodyRefV2
  root2_ordering_proof_ref :: OcbBodyRefV2
  root2_debug_json_ref :: OcbBodyRefV2
  root2_first_key_tuple_ref :: OcbBodyRefV2
  root2_last_key_tuple_ref :: OcbBodyRefV2
  root2_append_first_key_tuple_ref :: OcbBodyRefV2
  root2_append_last_key_tuple_ref :: OcbBodyRefV2
  root2_commit_diagnostics_ref :: OcbBodyRefV2
  root2_created_unix_nanos :: u64
  root2_content_flags :: u64
  root2_crc32c :: u32

definition OcbRootV2_validate_ref_kinds :: "OcbRootV2 \<Rightarrow> unit result" where
  "OcbRootV2_validate_ref_kinds self =
     (if br_kind (root2_schema_ref self) \<noteq> BodyKind_Schema
      then Inl (ocb_invalid_input ''OCB root schema_ref must reference schema'')
      else if br_kind (root2_row_group_index_ref self) \<noteq> BodyKind_RowGroupIndex
      then Inl (ocb_invalid_input ''OCB root row_group_index_ref must reference row-group index'')
      else
     sbind (validate_optional_ref_kind (root2_dictionary_index_ref self) BodyKind_DictionaryIndex
       ''OCB root dictionary_index_ref must reference dictionary index'') (\<lambda>_.
     sbind (validate_optional_ref_kind (root2_ordering_proof_ref self) BodyKind_OrderingProof
       ''OCB root ordering_proof_ref must reference ordering proof'') (\<lambda>_.
     sbind (validate_optional_ref_kind (root2_debug_json_ref self) BodyKind_DebugJsonMetadata
       ''OCB root debug_json_ref must reference debug JSON metadata'') (\<lambda>_.
     sbind (validate_optional_ref_kind (root2_first_key_tuple_ref self) BodyKind_KeyTuple
       ''OCB root first_key_tuple_ref must reference key tuple'') (\<lambda>_.
     sbind (validate_optional_ref_kind (root2_last_key_tuple_ref self) BodyKind_KeyTuple
       ''OCB root last_key_tuple_ref must reference key tuple'') (\<lambda>_.
     sbind (validate_optional_ref_kind (root2_append_first_key_tuple_ref self) BodyKind_KeyTuple
       ''OCB root append_first_key_tuple_ref must reference key tuple'') (\<lambda>_.
     sbind (validate_optional_ref_kind (root2_append_last_key_tuple_ref self) BodyKind_KeyTuple
       ''OCB root append_last_key_tuple_ref must reference key tuple'') (\<lambda>_.
     sbind (validate_optional_ref_kinds (root2_commit_diagnostics_ref self)
       [BodyKind_DebugJsonMetadata, BodyKind_RowGroupIndexDelta]
       ''OCB root commit_diagnostics_ref must reference debug JSON metadata or row-group index delta'') (\<lambda>_.
     validate_optional_ref_kind (root2_previous_root_ref self) BodyKind_Root
       ''OCB root previous_root_ref must reference root object'')))))))))"

definition OcbRootV2_validate_references :: "OcbRootV2 \<Rightarrow> u64 \<Rightarrow> unit result" where
  "OcbRootV2_validate_references self file_len =
     sbind (OcbRootV2_validate_ref_kinds self) (\<lambda>_.
     sbind (OcbBodyRefV2_validate (root2_schema_ref self) BodyKind_Schema file_len) (\<lambda>_.
     sbind (OcbBodyRefV2_validate (root2_row_group_index_ref self) BodyKind_RowGroupIndex file_len) (\<lambda>_.
     sbind (validate_optional_ref (root2_dictionary_index_ref self) BodyKind_DictionaryIndex file_len) (\<lambda>_.
     sbind (validate_optional_ref (root2_ordering_proof_ref self) BodyKind_OrderingProof file_len) (\<lambda>_.
     sbind (validate_optional_ref (root2_debug_json_ref self) BodyKind_DebugJsonMetadata file_len) (\<lambda>_.
     sbind (validate_optional_ref (root2_first_key_tuple_ref self) BodyKind_KeyTuple file_len) (\<lambda>_.
     sbind (validate_optional_ref (root2_last_key_tuple_ref self) BodyKind_KeyTuple file_len) (\<lambda>_.
     sbind (validate_optional_ref (root2_append_first_key_tuple_ref self) BodyKind_KeyTuple file_len) (\<lambda>_.
     sbind (validate_optional_ref (root2_append_last_key_tuple_ref self) BodyKind_KeyTuple file_len) (\<lambda>_.
     sbind (validate_optional_ref_any_kind (root2_commit_diagnostics_ref self)
       [BodyKind_DebugJsonMetadata, BodyKind_RowGroupIndexDelta] file_len) (\<lambda>_.
     validate_optional_ref (root2_previous_root_ref self) BodyKind_Root file_len)))))))))))"

definition OcbRootV2_to_v1_root :: "OcbRootV2 \<Rightarrow> OcbRootV1" where
  "OcbRootV2_to_v1_root self =
     \<lparr>root1_version = 1, root1_flags = root2_flags self, root1_row_count = root2_row_count self,
      root1_column_count = root2_column_count self,
      root1_row_group_count = root2_row_group_count self,
      root1_dictionary_count = root2_dictionary_count self,
      root1_schema_ref = root2_schema_ref self,
      root1_dictionary_index_ref = root2_dictionary_index_ref self,
      root1_row_group_index_ref = root2_row_group_index_ref self,
      root1_ordering_proof_ref = root2_ordering_proof_ref self,
      root1_debug_json_ref = root2_debug_json_ref self,
      root1_created_unix_nanos = root2_created_unix_nanos self,
      root1_content_flags = root2_content_flags self,
      root1_crc32c = root2_crc32c self\<rparr>"

definition OcbRootV2_layout :: "OcbRootV2 \<Rightarrow> bytes" where
  "OcbRootV2_layout self =
     OCB_ROOT_MAGIC_V2 @
     write_u16 (root2_version self) @
     write_u16 OCB_ROOT_V2_LEN @
     write_u32 (root2_flags self) @
     write_u64 (root2_generation self) @
     write_u64 (root2_previous_generation self) @
     OcbBodyRefV2_write_to (root2_previous_root_ref self) @
     write_u64 (root2_append_base_row self) @
     write_u64 (root2_append_row_count self) @
     write_u32 (root2_append_base_row_group self) @
     write_u32 (root2_append_row_group_count self) @
     write_u64 (root2_row_count self) @
     write_u32 (root2_column_count self) @
     write_u32 (root2_row_group_count self) @
     write_u32 (root2_dictionary_count self) @
     write_u32 (root2_column_chunk_count self) @
     OcbBodyRefV2_write_to (root2_schema_ref self) @
     OcbBodyRefV2_write_to (root2_dictionary_index_ref self) @
     OcbBodyRefV2_write_to (root2_row_group_index_ref self) @
     OcbBodyRefV2_write_to (root2_ordering_proof_ref self) @
     OcbBodyRefV2_write_to (root2_debug_json_ref self) @
     OcbBodyRefV2_write_to (root2_first_key_tuple_ref self) @
     OcbBodyRefV2_write_to (root2_last_key_tuple_ref self) @
     OcbBodyRefV2_write_to (root2_append_first_key_tuple_ref self) @
     OcbBodyRefV2_write_to (root2_append_last_key_tuple_ref self) @
     OcbBodyRefV2_write_to (root2_commit_diagnostics_ref self) @
     write_u64 (root2_created_unix_nanos self) @
     write_u64 (root2_content_flags self) @
     write_u32 0 @
     write_u32 0"

definition OcbRootV2_encode_without_checksum :: "OcbRootV2 \<Rightarrow> bytes result" where
  "OcbRootV2_encode_without_checksum self =
     (if root2_version self \<noteq> OCB_FORMAT_MAJOR_V2
      then Inl (ocb_invalid_input ''OCB root version must be 2'') else
     sbind (OcbRootV2_validate_ref_kinds self) (\<lambda>_.
     sbind (ok_or (checked_add (root2_append_base_row self) (root2_append_row_count self))
       (ocb_invalid_input ''OCB root append row range overflows'')) (\<lambda>append_row_end.
     if append_row_end > root2_row_count self
     then Inl (ocb_invalid_input ''OCB root append row range exceeds total rows'') else
     sbind (ok_or (checked_add (root2_append_base_row_group self) (root2_append_row_group_count self))
       (ocb_invalid_input ''OCB root append row-group range overflows'')) (\<lambda>append_group_end.
     if append_group_end > root2_row_group_count self
     then Inl (ocb_invalid_input ''OCB root append row-group range exceeds total row groups'')
     else Inr (OcbRootV2_layout self)))))"

definition OcbRootV2_write_to :: "OcbRootV2 \<Rightarrow> bytes result" where
  "OcbRootV2_write_to self =
     sbind (OcbRootV2_encode_without_checksum self) (\<lambda>buf. Inr (seal_object buf))"

definition OcbRootV2_fields :: "u32 \<Rightarrow> OcbRootV2 reader" where
  "OcbRootV2_fields actual_crc =
     rbind (read_exact_ocb 8) (\<lambda>magic.
     if magic \<noteq> OCB_ROOT_MAGIC_V2 then rfail (ocb_corrupt_file ''invalid OCB root magic'') else
     rbind read_u16 (\<lambda>version.
     if version \<noteq> OCB_FORMAT_MAJOR_V2
     then rfail (ocb_unsupported_format ''unsupported OCB root version'') else
     rbind read_u16 (\<lambda>header_bytes.
     if header_bytes \<noteq> OCB_ROOT_V2_LEN
     then rfail (ocb_corrupt_file ''invalid OCB root header length'') else
     rbind read_u32 (\<lambda>flags.
     rbind read_u64 (\<lambda>generation.
     rbind read_u64 (\<lambda>previous_generation.
     rbind OcbBodyRefV2_read_from (\<lambda>previous_root_ref.
     rbind read_u64 (\<lambda>append_base_row.
     rbind read_u64 (\<lambda>append_row_count.
     rbind read_u32 (\<lambda>append_base_row_group.
     rbind read_u32 (\<lambda>append_row_group_count.
     rbind read_u64 (\<lambda>row_count.
     rbind read_u32 (\<lambda>column_count.
     rbind read_u32 (\<lambda>row_group_count.
     rbind read_u32 (\<lambda>dictionary_count.
     rbind read_u32 (\<lambda>column_chunk_count.
     rbind OcbBodyRefV2_read_from (\<lambda>schema_ref.
     rbind OcbBodyRefV2_read_from (\<lambda>dictionary_index_ref.
     rbind OcbBodyRefV2_read_from (\<lambda>row_group_index_ref.
     rbind OcbBodyRefV2_read_from (\<lambda>ordering_proof_ref.
     rbind OcbBodyRefV2_read_from (\<lambda>debug_json_ref.
     rbind OcbBodyRefV2_read_from (\<lambda>first_key_tuple_ref.
     rbind OcbBodyRefV2_read_from (\<lambda>last_key_tuple_ref.
     rbind OcbBodyRefV2_read_from (\<lambda>append_first_key_tuple_ref.
     rbind OcbBodyRefV2_read_from (\<lambda>append_last_key_tuple_ref.
     rbind OcbBodyRefV2_read_from (\<lambda>commit_diagnostics_ref.
     rbind read_u64 (\<lambda>created_unix_nanos.
     rbind read_u64 (\<lambda>content_flags.
     rbind read_u32 (\<lambda>reserved0.
     rret \<lparr>root2_version = version,
           root2_flags = flags,
           root2_generation = generation,
           root2_previous_generation = previous_generation,
           root2_previous_root_ref = previous_root_ref,
           root2_append_base_row = append_base_row,
           root2_append_row_count = append_row_count,
           root2_append_base_row_group = append_base_row_group,
           root2_append_row_group_count = append_row_group_count,
           root2_row_count = row_count,
           root2_column_count = column_count,
           root2_row_group_count = row_group_count,
           root2_dictionary_count = dictionary_count,
           root2_column_chunk_count = column_chunk_count,
           root2_schema_ref = schema_ref,
           root2_dictionary_index_ref = dictionary_index_ref,
           root2_row_group_index_ref = row_group_index_ref,
           root2_ordering_proof_ref = ordering_proof_ref,
           root2_debug_json_ref = debug_json_ref,
           root2_first_key_tuple_ref = first_key_tuple_ref,
           root2_last_key_tuple_ref = last_key_tuple_ref,
           root2_append_first_key_tuple_ref = append_first_key_tuple_ref,
           root2_append_last_key_tuple_ref = append_last_key_tuple_ref,
           root2_commit_diagnostics_ref = commit_diagnostics_ref,
           root2_created_unix_nanos = created_unix_nanos,
           root2_content_flags = content_flags,
           root2_crc32c = actual_crc\<rparr>)))))))))))))))))))))))))))))"

definition OcbRootV2_decode :: "bytes \<Rightarrow> OcbRootV2 result" where
  "OcbRootV2_decode buf =
     open_object ''OCB root crc mismatch'' buf (\<lambda>actual_crc buf. run_reader (OcbRootV2_fields actual_crc) buf)"

definition OcbRootV2_read_from :: "OcbRootV2 reader" where
  "OcbRootV2_read_from = rbind (read_exact_ocb (unat OCB_ROOT_V2_LEN)) (\<lambda>buf. rtry (OcbRootV2_decode buf) rret)"

section \<open>Round trips\<close>

lemma length_root_magic [simp]: "length OCB_ROOT_MAGIC_V1 = 8" "length OCB_ROOT_MAGIC_V2 = 8"
  by (simp_all add: OCB_ROOT_MAGIC_V1_def OCB_ROOT_MAGIC_V2_def)

lemma OcbRootV1_layout_facts:
  shows "has_trailer (OcbRootV1_layout x)" and "length (OcbRootV1_layout x) = 220"
  unfolding OcbRootV1_layout_def by (intro has_trailer_intros) simp

lemma OcbRootV1_encode_Inr: "OcbRootV1_encode_without_checksum x = Inr buf \<Longrightarrow> buf = OcbRootV1_layout x"
  by (auto simp: OcbRootV1_encode_without_checksum_def split: if_splits)

lemma OcbRootV1_fields_layout:
  assumes "root1_version x = 1"
  shows "oreads N 0 [] (OcbRootV1_fields crc) (OcbRootV1_layout x) (x\<lparr>root1_crc32c := crc\<rparr>)"
  unfolding OcbRootV1_fields_def OcbRootV1_layout_def
  by (rule reads_intros | simp add: assms; fail)+

interpretation root1: sealed_codec OcbRootV1_encode_without_checksum OcbRootV1_write_to OcbRootV1_decode "''OCB root crc mismatch''"
  by unfold_locales
    (auto simp: OcbRootV1_write_to_def OcbRootV1_decode_def open_object_rejects OcbRootV1_layout_facts
      dest!: OcbRootV1_encode_Inr)

lemma OcbRootV1_decode_write:
  assumes "OcbRootV1_write_to x = Inr bs" and "root1_version x = 1"
  shows "OcbRootV1_decode bs = Inr (x\<lparr>root1_crc32c := crc32c (OcbRootV1_layout x)\<rparr>)"
proof -
  from assms(1) have "bs = seal_object (OcbRootV1_layout x)"
    by (auto simp: OcbRootV1_write_to_def sbind_eq_Inr dest: OcbRootV1_encode_Inr)
  then show ?thesis
    using oreads_run [OF OcbRootV1_fields_layout [OF assms(2)]]
    by (simp add: OcbRootV1_decode_def open_object_seal OcbRootV1_layout_facts)
qed

lemma OcbRootV2_layout_facts:
  shows "has_trailer (OcbRootV2_layout x)" and "length (OcbRootV2_layout x) = 456"
  unfolding OcbRootV2_layout_def by (intro has_trailer_intros) simp

lemma OcbRootV2_encode_Inr:
  assumes "OcbRootV2_encode_without_checksum x = Inr buf"
  shows "buf = OcbRootV2_layout x" and "root2_version x = 2"
  using assms
  by (auto simp: OcbRootV2_encode_without_checksum_def OCB_FORMAT_MAJOR_V2_def sbind_eq_Inr split: if_splits)

lemma OcbRootV2_fields_layout:
  assumes "root2_version x = 2"
  shows "oreads N 0 [] (OcbRootV2_fields crc) (OcbRootV2_layout x) (x\<lparr>root2_crc32c := crc\<rparr>)"
  unfolding OcbRootV2_fields_def OcbRootV2_layout_def
  by (rule reads_intros | simp add: assms OCB_FORMAT_MAJOR_V2_def; fail)+

interpretation root2: sealed_codec OcbRootV2_encode_without_checksum OcbRootV2_write_to OcbRootV2_decode "''OCB root crc mismatch''"
  by unfold_locales
    (auto simp: OcbRootV2_write_to_def OcbRootV2_decode_def open_object_rejects OcbRootV2_layout_facts
      dest!: OcbRootV2_encode_Inr(1))

lemma OcbRootV2_decode_write:
  assumes "OcbRootV2_write_to x = Inr bs"
  shows "OcbRootV2_decode bs = Inr (x\<lparr>root2_crc32c := crc32c (OcbRootV2_layout x)\<rparr>)"
proof -
  from assms have "bs = seal_object (OcbRootV2_layout x)" and v: "root2_version x = 2"
    by (auto simp: OcbRootV2_write_to_def sbind_eq_Inr dest: OcbRootV2_encode_Inr)
  then show ?thesis
    using oreads_run [OF OcbRootV2_fields_layout [OF v]]
    by (simp add: OcbRootV2_decode_def open_object_seal OcbRootV2_layout_facts)
qed

lemma reads_OcbRootV1:
  assumes "OcbRootV1_write_to x = Inr bs" and "root1_version x = 1"
  shows "reads OcbRootV1_read_from bs (x\<lparr>root1_crc32c := crc32c (OcbRootV1_layout x)\<rparr>)"
proof -
  have "length bs = 220"
    using assms(1) OcbRootV1_layout_facts [of x]
    by (auto simp: OcbRootV1_write_to_def sbind_eq_Inr dest!: OcbRootV1_encode_Inr)
  then show ?thesis
    unfolding OcbRootV1_read_from_def
    by (intro rbind_exact_decode OcbRootV1_decode_write assms) (simp add: OCB_ROOT_V1_LEN_def)
qed

lemma reads_OcbRootV2:
  assumes "OcbRootV2_write_to x = Inr bs"
  shows "reads OcbRootV2_read_from bs (x\<lparr>root2_crc32c := crc32c (OcbRootV2_layout x)\<rparr>)"
proof -
  have "length bs = 456"
    using assms OcbRootV2_layout_facts [of x]
    by (auto simp: OcbRootV2_write_to_def sbind_eq_Inr dest!: OcbRootV2_encode_Inr(1))
  then show ?thesis
    unfolding OcbRootV2_read_from_def
    by (intro rbind_exact_decode OcbRootV2_decode_write assms) (simp add: OCB_ROOT_V2_LEN_def)
qed

section \<open>Reference checks of a version-2 root\<close>

lemma OcbRootV2_validate_ref_kinds_errs [errs_intros]:
  assumes "\<And>m. P (ocb_invalid_input m)"
  shows "errs P (OcbRootV2_validate_ref_kinds r)"
  unfolding OcbRootV2_validate_ref_kinds_def
  by (intro errs_intros assms)

lemma OcbRootV2_validate_references_Inr:
  "OcbRootV2_validate_references r file_len = Inr u \<longleftrightarrow>
     OcbRootV2_validate_ref_kinds r = Inr () \<and>
     ref_in_file (root2_schema_ref r) BodyKind_Schema file_len \<and>
     ref_in_file (root2_row_group_index_ref r) BodyKind_RowGroupIndex file_len \<and>
     optional_ref_in_file (root2_dictionary_index_ref r) [BodyKind_DictionaryIndex] file_len \<and>
     optional_ref_in_file (root2_ordering_proof_ref r) [BodyKind_OrderingProof] file_len \<and>
     optional_ref_in_file (root2_debug_json_ref r) [BodyKind_DebugJsonMetadata] file_len \<and>
     optional_ref_in_file (root2_first_key_tuple_ref r) [BodyKind_KeyTuple] file_len \<and>
     optional_ref_in_file (root2_last_key_tuple_ref r) [BodyKind_KeyTuple] file_len \<and>
     optional_ref_in_file (root2_append_first_key_tuple_ref r) [BodyKind_KeyTuple] file_len \<and>
     optional_ref_in_file (root2_append_last_key_tuple_ref r) [BodyKind_KeyTuple] file_len \<and>
     optional_ref_in_file (root2_commit_diagnostics_ref r)
       [BodyKind_DebugJsonMetadata, BodyKind_RowGroupIndexDelta] file_len \<and>
     optional_ref_in_file (root2_previous_root_ref r) [BodyKind_Root] file_len"
  by (simp only: OcbRootV2_validate_references_def sbind_unit_Inr OcbBodyRefV2_validate_Inr
      optional_ref_Inr)

text \<open>A root of an empty file, the input of the witnesses.\<close>

definition example_root :: OcbRootV2 where
  "example_root =
     \<lparr>root2_version = 2, root2_flags = 0, root2_generation = 1, root2_previous_generation = 0,
      root2_previous_root_ref = OcbBodyRefV2_NULL, root2_append_base_row = 0,
      root2_append_row_count = 0, root2_append_base_row_group = 0, root2_append_row_group_count = 0,
      root2_row_count = 0, root2_column_count = 1, root2_row_group_count = 0,
      root2_dictionary_count = 0, root2_column_chunk_count = 0,
      root2_schema_ref = OcbBodyRefV2_new 4096 88 BodyKind_Schema 0,
      root2_dictionary_index_ref = OcbBodyRefV2_NULL,
      root2_row_group_index_ref = OcbBodyRefV2_new 4184 36 BodyKind_RowGroupIndex 0,
      root2_ordering_proof_ref = OcbBodyRefV2_NULL, root2_debug_json_ref = OcbBodyRefV2_NULL,
      root2_first_key_tuple_ref = OcbBodyRefV2_NULL, root2_last_key_tuple_ref = OcbBodyRefV2_NULL,
      root2_append_first_key_tuple_ref = OcbBodyRefV2_NULL,
      root2_append_last_key_tuple_ref = OcbBodyRefV2_NULL,
      root2_commit_diagnostics_ref = OcbBodyRefV2_NULL, root2_created_unix_nanos = 0,
      root2_content_flags = 0, root2_crc32c = 0\<rparr>"

lemma example_root_written:
  "OcbRootV2_write_to example_root = Inr (seal_object (OcbRootV2_layout example_root))"
  by (simp add: OcbRootV2_write_to_def OcbRootV2_encode_without_checksum_def OCB_FORMAT_MAJOR_V2_def
      OcbRootV2_validate_ref_kinds_def validate_optional_ref_kind_def validate_optional_ref_kinds_def
      checked_add_def example_root_def OcbBodyRefV2_new_def)

lemma OcbRootV2_write_to_length: "OcbRootV2_write_to x = Inr bs \<Longrightarrow> length bs = 456"
  using OcbRootV2_layout_facts [of x]
  by (auto simp: OcbRootV2_write_to_def sbind_eq_Inr dest!: OcbRootV2_encode_Inr(1))

section \<open>Properties\<close>

text \<open>C30. A version-2 root that the writer accepts is read back field by field from the front
  of any byte stream that starts with it, with the checksum it was sealed with.\<close>

theorem OcbRootV2_round_trip:
  assumes "OcbRootV2_write_to x = Inr bs"
  shows "OcbRootV2_read_from (cursor_new (bs @ rest)) =
    Inr (x\<lparr>root2_crc32c := crc32c (OcbRootV2_layout x)\<rparr>, \<lparr>cur_bytes = bs @ rest, cur_pos = 456\<rparr>)"
  using reads_OcbRootV2 [OF assms] OcbRootV2_write_to_length [OF assms]
  by (simp add: reads_def cursor_new_def)

theorem OcbRootV2_round_trip_witness:
  "\<exists>bs. OcbRootV2_write_to example_root = Inr bs \<and>
     OcbRootV2_read_from (cursor_new (bs @ [7, 7])) =
       Inr (example_root\<lparr>root2_crc32c := crc32c (OcbRootV2_layout example_root)\<rparr>,
            \<lparr>cur_bytes = bs @ [7, 7], cur_pos = 456\<rparr>)"
proof -
  have "OcbRootV2_write_to example_root = Inr (seal_object (OcbRootV2_layout example_root))"
    by (rule example_root_written)
  from OcbRootV2_round_trip [OF this] this show ?thesis by blast
qed

text \<open>C31. Any corruption of a stored version-2 root that is confined to four consecutive bytes
  of its body is refused as a corrupt file.\<close>

theorem OcbRootV2_burst_rejected:
  assumes "OcbRootV2_write_to x = Inr (p @ w @ q)" and "4 \<le> length q"
    and "length v = length w" and "length w \<le> 4" and "v \<noteq> w"
  shows "OcbRootV2_decode (p @ v @ q) = Inl (ocb_corrupt_file ''OCB root crc mismatch'')"
  using assms by (rule root2.body_burst_rejected)

theorem OcbRootV2_burst_rejected_witness:
  "\<exists>q. OcbRootV2_write_to example_root = Inr ([] @ [0x4F] @ q) \<and>
     OcbRootV2_decode ([] @ [0] @ q) = Inl (ocb_corrupt_file ''OCB root crc mismatch'')"
proof -
  obtain q where q: "OcbRootV2_write_to example_root = Inr ([] @ [0x4F] @ q)" and len: "4 \<le> length q"
  proof
    show "OcbRootV2_write_to example_root = Inr ([] @ [0x4F] @ drop 1 (seal_object (OcbRootV2_layout example_root)))"
      by (simp add: example_root_written seal_object_def write_u32_at_end_def OcbRootV2_layout_facts)
        (simp add: OcbRootV2_layout_def OCB_ROOT_MAGIC_V2_def)
    show "4 \<le> length (drop 1 (seal_object (OcbRootV2_layout example_root)))"
      using OcbRootV2_layout_facts [of example_root] by simp
  qed
  from OcbRootV2_burst_rejected [OF q len, of "[0]"] q show ?thesis by auto
qed

end
