(* ===== verification/Root_Slot.thy ===== *)
theory Root_Slot
  imports Roots
begin

text \<open>
  Root slots (\<open>OcbRootSlotV2\<close> of \<open>format.rs\<close>): the two small sealed records of a version-2
  bootstrap page that name the committed roots.  A commit rewrites one slot; a reader checks a
  slot against the file and against the root it points at before it uses it.
\<close>

section \<open>Slots\<close>

definition OCB_ROOT_SLOT_MAGIC_V2 :: bytes where
  "OCB_ROOT_SLOT_MAGIC_V2 = [0x4F, 0x43, 0x42, 0x53, 0x4C, 0x54, 0x32, 0x00]"

definition OCB_ROOT_SLOT_V2_COUNT :: nat where
  "OCB_ROOT_SLOT_V2_COUNT = 2"

definition OCB_ROOT_SLOT_V2_LEN :: nat where
  "OCB_ROOT_SLOT_V2_LEN = 160"

record OcbRootSlotV2 =
  slot_version :: u16
  slot_slot_id :: u16
  slot_flags :: u16
  slot_generation :: u64
  slot_root_ref :: OcbBodyRefV2
  slot_previous_generation :: u64
  slot_previous_root_ref :: OcbBodyRefV2
  slot_commit_diagnostics_ref :: OcbBodyRefV2
  slot_committed_unix_nanos :: u64
  slot_writer_version :: bytes
  slot_crc32c :: u32

definition OcbRootSlotV2_empty :: "u16 \<Rightarrow> OcbRootSlotV2" where
  "OcbRootSlotV2_empty slot_id =
     \<lparr>slot_version = OCB_FORMAT_MAJOR_V2, slot_slot_id = slot_id, slot_flags = 0,
      slot_generation = 0, slot_root_ref = OcbBodyRefV2_NULL, slot_previous_generation = 0,
      slot_previous_root_ref = OcbBodyRefV2_NULL, slot_commit_diagnostics_ref = OcbBodyRefV2_NULL,
      slot_committed_unix_nanos = 0, slot_writer_version = replicate 16 0, slot_crc32c = 0\<rparr>"

definition OcbRootSlotV2_new ::
  "u16 \<Rightarrow> u64 \<Rightarrow> OcbBodyRefV2 \<Rightarrow> u64 \<Rightarrow> OcbBodyRefV2 \<Rightarrow> OcbBodyRefV2 \<Rightarrow> OcbRootSlotV2" where
  "OcbRootSlotV2_new slot_id generation root_ref previous_generation previous_root_ref commit_diagnostics_ref =
     \<lparr>slot_version = OCB_FORMAT_MAJOR_V2, slot_slot_id = slot_id, slot_flags = 0,
      slot_generation = generation, slot_root_ref = root_ref,
      slot_previous_generation = previous_generation, slot_previous_root_ref = previous_root_ref,
      slot_commit_diagnostics_ref = commit_diagnostics_ref, slot_committed_unix_nanos = 0,
      slot_writer_version = replicate 16 0, slot_crc32c = 0\<rparr>"

definition OcbRootSlotV2_is_empty :: "OcbRootSlotV2 \<Rightarrow> bool" where
  "OcbRootSlotV2_is_empty self \<longleftrightarrow> is_null (slot_root_ref self)"

definition OcbRootSlotV2_validate_candidate :: "OcbRootSlotV2 \<Rightarrow> u16 \<Rightarrow> u64 \<Rightarrow> unit result" where
  "OcbRootSlotV2_validate_candidate self expected_slot_id file_len =
     (if slot_slot_id self \<noteq> expected_slot_id
      then Inl (ocb_corrupt_file ''OCB root slot id does not match table position'')
      else if OcbRootSlotV2_is_empty self
      then Inl (ocb_corrupt_file ''OCB root slot is empty'')
      else sbind (OcbBodyRefV2_validate (slot_root_ref self) BodyKind_Root file_len) (\<lambda>_.
      if br_length (slot_root_ref self) \<noteq> ucast OCB_ROOT_V2_LEN
      then Inl (ocb_corrupt_file ''OCB root slot root_ref length is invalid'')
      else sbind (if \<not> is_null (slot_previous_root_ref self)
                  then OcbBodyRefV2_validate (slot_previous_root_ref self) BodyKind_Root file_len
                  else Inr ()) (\<lambda>_.
      validate_optional_ref_any_kind (slot_commit_diagnostics_ref self)
        [BodyKind_DebugJsonMetadata, BodyKind_RowGroupIndexDelta] file_len)))"

definition OcbRootSlotV2_validate_root :: "OcbRootSlotV2 \<Rightarrow> OcbRootV2 \<Rightarrow> unit result" where
  "OcbRootSlotV2_validate_root self root =
     (if root2_generation root \<noteq> slot_generation self
      then Inl (ocb_corrupt_file ''OCB root generation does not match root slot'')
      else if root2_previous_generation root \<noteq> slot_previous_generation self
      then Inl (ocb_corrupt_file ''OCB root previous_generation does not match root slot'')
      else if root2_previous_root_ref root \<noteq> slot_previous_root_ref self
      then Inl (ocb_corrupt_file ''OCB root previous_root_ref does not match root slot'')
      else if root2_commit_diagnostics_ref root \<noteq> slot_commit_diagnostics_ref self
      then Inl (ocb_corrupt_file ''OCB root commit diagnostics ref does not match root slot'')
      else Inr ())"

definition OcbRootSlotV2_layout :: "OcbRootSlotV2 \<Rightarrow> bytes" where
  "OcbRootSlotV2_layout self =
     OCB_ROOT_SLOT_MAGIC_V2 @
     write_u16 (slot_version self) @
     write_u16 (of_nat OCB_ROOT_SLOT_V2_LEN) @
     write_u16 (slot_slot_id self) @
     write_u16 (slot_flags self) @
     write_u64 (slot_generation self) @
     OcbBodyRefV2_write_to (slot_root_ref self) @
     write_u64 (slot_previous_generation self) @
     OcbBodyRefV2_write_to (slot_previous_root_ref self) @
     OcbBodyRefV2_write_to (slot_commit_diagnostics_ref self) @
     write_u64 (slot_committed_unix_nanos self) @
     slot_writer_version self @
     write_u32 0 @
     write_u32 0"

definition OcbRootSlotV2_encode_without_checksum :: "OcbRootSlotV2 \<Rightarrow> bytes result" where
  "OcbRootSlotV2_encode_without_checksum self =
     (if slot_version self \<noteq> OCB_FORMAT_MAJOR_V2
      then Inl (ocb_invalid_input ''OCB root slot version must be 2'')
      else if unat (slot_slot_id self) \<ge> OCB_ROOT_SLOT_V2_COUNT
      then Inl (ocb_invalid_input ''OCB root slot id is out of range'')
      else if \<not> is_null (slot_root_ref self) \<and> br_kind (slot_root_ref self) \<noteq> BodyKind_Root
      then Inl (ocb_invalid_input ''OCB root slot root_ref must reference root object'')
      else if \<not> is_null (slot_root_ref self)
              \<and> br_length (slot_root_ref self) \<noteq> ucast OCB_ROOT_V2_LEN
      then Inl (ocb_invalid_input ''OCB root slot root_ref length must match v2 root length'')
      else if \<not> is_null (slot_previous_root_ref self)
              \<and> br_kind (slot_previous_root_ref self) \<noteq> BodyKind_Root
      then Inl (ocb_invalid_input ''OCB root slot previous_root_ref must reference root object'')
      else if \<not> is_null (slot_commit_diagnostics_ref self)
              \<and> br_kind (slot_commit_diagnostics_ref self) \<noteq> BodyKind_DebugJsonMetadata
              \<and> br_kind (slot_commit_diagnostics_ref self) \<noteq> BodyKind_RowGroupIndexDelta
      then Inl (ocb_invalid_input ''OCB root slot commit_diagnostics_ref must reference debug JSON metadata or row-group index delta'')
      else Inr (OcbRootSlotV2_layout self))"

definition OcbRootSlotV2_write_to :: "OcbRootSlotV2 \<Rightarrow> bytes result" where
  "OcbRootSlotV2_write_to self =
     sbind (OcbRootSlotV2_encode_without_checksum self) (\<lambda>buf. Inr (seal_object buf))"

text \<open>\<open>to_bytes\<close> copies the 160 written bytes into an array of that length.\<close>

definition OcbRootSlotV2_to_bytes :: "OcbRootSlotV2 \<Rightarrow> bytes result" where
  "OcbRootSlotV2_to_bytes self = OcbRootSlotV2_write_to self"

definition OcbRootSlotV2_fields :: "u32 \<Rightarrow> OcbRootSlotV2 reader" where
  "OcbRootSlotV2_fields actual_crc =
     rbind (read_exact_ocb 8) (\<lambda>magic.
     if magic \<noteq> OCB_ROOT_SLOT_MAGIC_V2
     then rfail (ocb_corrupt_file ''invalid OCB root slot magic'') else
     rbind read_u16 (\<lambda>version.
     if version \<noteq> OCB_FORMAT_MAJOR_V2
     then rfail (ocb_unsupported_format ''unsupported OCB root slot version'') else
     rbind read_u16 (\<lambda>header_bytes.
     if unat header_bytes \<noteq> OCB_ROOT_SLOT_V2_LEN
     then rfail (ocb_corrupt_file ''invalid OCB root slot header length'') else
     rbind read_u16 (\<lambda>slot_id.
     if unat slot_id \<ge> OCB_ROOT_SLOT_V2_COUNT
     then rfail (ocb_corrupt_file ''invalid OCB root slot id'') else
     rbind read_u16 (\<lambda>flags.
     rbind read_u64 (\<lambda>generation.
     rbind OcbBodyRefV2_read_from (\<lambda>root_ref.
     rbind read_u64 (\<lambda>previous_generation.
     rbind OcbBodyRefV2_read_from (\<lambda>previous_root_ref.
     rbind OcbBodyRefV2_read_from (\<lambda>commit_diagnostics_ref.
     rbind read_u64 (\<lambda>committed_unix_nanos.
     rbind (read_exact_ocb 16) (\<lambda>writer_version.
     rbind read_u32 (\<lambda>reserved0.
     rret \<lparr>slot_version = version, slot_slot_id = slot_id, slot_flags = flags,
           slot_generation = generation, slot_root_ref = root_ref,
           slot_previous_generation = previous_generation,
           slot_previous_root_ref = previous_root_ref,
           slot_commit_diagnostics_ref = commit_diagnostics_ref,
           slot_committed_unix_nanos = committed_unix_nanos,
           slot_writer_version = writer_version, slot_crc32c = actual_crc\<rparr>)))))))))))))"

definition OcbRootSlotV2_decode :: "bytes \<Rightarrow> OcbRootSlotV2 result" where
  "OcbRootSlotV2_decode buf =
     open_object ''OCB root slot crc mismatch'' buf
       (\<lambda>actual_crc buf. run_reader (OcbRootSlotV2_fields actual_crc) buf)"

definition OcbRootSlotV2_read_from :: "OcbRootSlotV2 reader" where
  "OcbRootSlotV2_read_from =
     rbind (read_exact_ocb OCB_ROOT_SLOT_V2_LEN) (\<lambda>buf. rtry (OcbRootSlotV2_decode buf) rret)"

section \<open>Round trip\<close>

text \<open>A slot value of the code: the writer version is an array of sixteen bytes.\<close>

definition slot_ok :: "OcbRootSlotV2 \<Rightarrow> bool" where
  "slot_ok s \<longleftrightarrow> length (slot_writer_version s) = 16"

lemma slot_ok_constructors [simp]:
  "slot_ok (OcbRootSlotV2_empty i)" "slot_ok (OcbRootSlotV2_new i g r pg pr d)"
  by (simp_all add: slot_ok_def OcbRootSlotV2_empty_def OcbRootSlotV2_new_def)

lemma length_slot_magic [simp]: "length OCB_ROOT_SLOT_MAGIC_V2 = 8"
  by (simp add: OCB_ROOT_SLOT_MAGIC_V2_def)

lemma OcbRootSlotV2_layout_facts:
  shows "has_trailer (OcbRootSlotV2_layout x)"
    and "slot_ok x \<Longrightarrow> length (OcbRootSlotV2_layout x) = 160"
  unfolding OcbRootSlotV2_layout_def by (intro has_trailer_intros) (simp add: slot_ok_def)

lemma OcbRootSlotV2_encode_Inr:
  assumes "OcbRootSlotV2_encode_without_checksum x = Inr buf"
  shows "buf = OcbRootSlotV2_layout x" and "slot_version x = 2" and "\<not> OCB_ROOT_SLOT_V2_COUNT \<le> unat (slot_slot_id x)"
  using assms
  by (auto simp: OcbRootSlotV2_encode_without_checksum_def OCB_FORMAT_MAJOR_V2_def split: if_splits)

lemma OcbRootSlotV2_fields_layout:
  assumes "slot_version x = 2" and "\<not> OCB_ROOT_SLOT_V2_COUNT \<le> unat (slot_slot_id x)" and "slot_ok x"
  shows "oreads N 0 [] (OcbRootSlotV2_fields crc) (OcbRootSlotV2_layout x) (x\<lparr>slot_crc32c := crc\<rparr>)"
  unfolding OcbRootSlotV2_fields_def OcbRootSlotV2_layout_def
  by (rule reads_intros assms(2) | simp add: assms(1) assms(3) [unfolded slot_ok_def] OCB_FORMAT_MAJOR_V2_def
      OCB_ROOT_SLOT_V2_LEN_def; fail)+

interpretation root_slot: sealed_codec OcbRootSlotV2_encode_without_checksum OcbRootSlotV2_write_to
    OcbRootSlotV2_decode "''OCB root slot crc mismatch''"
  by unfold_locales
    (auto simp: OcbRootSlotV2_write_to_def OcbRootSlotV2_decode_def open_object_rejects
      OcbRootSlotV2_layout_facts dest!: OcbRootSlotV2_encode_Inr(1))

lemma OcbRootSlotV2_write_to_Inr:
  assumes "OcbRootSlotV2_write_to x = Inr bs"
  shows "bs = seal_object (OcbRootSlotV2_layout x)" and "slot_version x = 2"
    and "\<not> OCB_ROOT_SLOT_V2_COUNT \<le> unat (slot_slot_id x)" and "slot_ok x \<Longrightarrow> length bs = 160"
  using assms OcbRootSlotV2_layout_facts(2) [of x]
  by (auto simp: OcbRootSlotV2_write_to_def sbind_eq_Inr dest: OcbRootSlotV2_encode_Inr)

definition slot_stored :: "OcbRootSlotV2 \<Rightarrow> OcbRootSlotV2" where
  "slot_stored x = x\<lparr>slot_crc32c := crc32c (OcbRootSlotV2_layout x)\<rparr>"

lemma OcbRootSlotV2_decode_write:
  assumes "OcbRootSlotV2_write_to x = Inr bs" and "slot_ok x"
  shows "OcbRootSlotV2_decode bs = Inr (slot_stored x)"
proof -
  note w = OcbRootSlotV2_write_to_Inr [OF assms(1)]
  show ?thesis
    using oreads_run [OF OcbRootSlotV2_fields_layout [OF w(2,3) assms(2)]]
    by (simp add: w(1) OcbRootSlotV2_decode_def open_object_seal OcbRootSlotV2_layout_facts slot_stored_def)
qed

lemma reads_OcbRootSlotV2:
  assumes "OcbRootSlotV2_write_to x = Inr bs" and "slot_ok x"
  shows "reads OcbRootSlotV2_read_from bs (slot_stored x)"
  unfolding OcbRootSlotV2_read_from_def
  by (intro rbind_exact_decode OcbRootSlotV2_decode_write assms)
    (simp add: OcbRootSlotV2_write_to_Inr(4) [OF assms] OCB_ROOT_SLOT_V2_LEN_def)

section \<open>Candidate checks\<close>

lemma OcbRootSlotV2_validate_candidate_Inr:
  "OcbRootSlotV2_validate_candidate s i file_len = Inr u \<longleftrightarrow>
     slot_slot_id s = i \<and>
     ref_in_file (slot_root_ref s) BodyKind_Root file_len \<and>
     br_length (slot_root_ref s) = 456 \<and>
     optional_ref_in_file (slot_previous_root_ref s) [BodyKind_Root] file_len \<and>
     optional_ref_in_file (slot_commit_diagnostics_ref s)
       [BodyKind_DebugJsonMetadata, BodyKind_RowGroupIndexDelta] file_len"
proof -
  have prev: "(if \<not> is_null r then OcbBodyRefV2_validate r BodyKind_Root file_len else Inr ()) = Inr () \<longleftrightarrow>
      optional_ref_in_file r [BodyKind_Root] file_len" for r
    by (auto simp: OcbBodyRefV2_validate_Inr optional_ref_in_file_def ref_in_file_def)
  show ?thesis
    unfolding OcbRootSlotV2_validate_candidate_def OcbRootSlotV2_is_empty_def OCB_ROOT_V2_LEN_def
    by (auto simp: sbind_unit_Inr OcbBodyRefV2_validate_Inr optional_ref_Inr prev ref_in_file_def
        simp del: not_not)
qed

lemma OcbRootSlotV2_validate_root_Inr:
  "OcbRootSlotV2_validate_root s r = Inr u \<longleftrightarrow>
     root2_generation r = slot_generation s \<and>
     root2_previous_generation r = slot_previous_generation s \<and>
     root2_previous_root_ref r = slot_previous_root_ref s \<and>
     root2_commit_diagnostics_ref r = slot_commit_diagnostics_ref s"
  by (auto simp: OcbRootSlotV2_validate_root_def)

lemma OcbRootSlotV2_validate_root_errs [errs_intros]:
  "(\<And>m. P (ocb_corrupt_file m)) \<Longrightarrow> errs P (OcbRootSlotV2_validate_root s r)"
  unfolding OcbRootSlotV2_validate_root_def by (intro errs_intros) auto

end
