(* ===== verification/Bootstrap.thy ===== *)
theory Bootstrap
  imports Root_Slot
begin

text \<open>
  Bootstrap pages (\<open>OcbBootstrapPageV1\<close> and \<open>OcbBootstrapPageV2\<close> of \<open>format.rs\<close>): the first 4096
  bytes of a file.  A version-1 page names the only root.  A version-2 page holds two root
  slots that are sealed on their own: its checksum leaves the slot table out, so that a commit
  may rewrite a slot in place.
\<close>

section \<open>Version 1\<close>

definition OCB_BOOTSTRAP_MAGIC_V1 :: bytes where
  "OCB_BOOTSTRAP_MAGIC_V1 = [0x54, 0x49, 0x4F, 0x4F, 0x43, 0x42, 0x31, 0x00]"

definition OCB_FORMAT_MAJOR_V1 :: u16 where
  "OCB_FORMAT_MAJOR_V1 = 1"

definition OCB_FORMAT_MINOR_V1 :: u16 where
  "OCB_FORMAT_MINOR_V1 = 0"

definition OCB_BOOTSTRAP_PAGE_V1_LEN :: nat where
  "OCB_BOOTSTRAP_PAGE_V1_LEN = 4096"

record OcbBootstrapPageV1 =
  bp1_format_major :: u16
  bp1_format_minor :: u16
  bp1_flags :: u32
  bp1_page_size :: u32
  bp1_file_uuid :: bytes
  bp1_root_ref :: OcbBodyRefV2
  bp1_crc32c :: u32

definition OcbBootstrapPageV1_new :: "bytes \<Rightarrow> OcbBodyRefV2 \<Rightarrow> OcbBootstrapPageV1" where
  "OcbBootstrapPageV1_new file_uuid root_ref =
     \<lparr>bp1_format_major = OCB_FORMAT_MAJOR_V1, bp1_format_minor = OCB_FORMAT_MINOR_V1,
      bp1_flags = 0, bp1_page_size = of_nat OCB_BOOTSTRAP_PAGE_V1_LEN,
      bp1_file_uuid = file_uuid, bp1_root_ref = root_ref, bp1_crc32c = 0\<rparr>"

definition OcbBootstrapPageV1_header :: "OcbBootstrapPageV1 \<Rightarrow> bytes" where
  "OcbBootstrapPageV1_header self =
     OCB_BOOTSTRAP_MAGIC_V1 @
     write_u16 (bp1_format_major self) @
     write_u16 (bp1_format_minor self) @
     write_u32 (bp1_flags self) @
     write_u32 (bp1_page_size self) @
     bp1_file_uuid self @
     OcbBodyRefV2_write_to (bp1_root_ref self)"

definition OcbBootstrapPageV1_layout :: "OcbBootstrapPageV1 \<Rightarrow> bytes" where
  "OcbBootstrapPageV1_layout self =
     vec_resize (OCB_BOOTSTRAP_PAGE_V1_LEN - 4) 0 (OcbBootstrapPageV1_header self) @ write_u32 0"

definition OcbBootstrapPageV1_encode_without_checksum :: "OcbBootstrapPageV1 \<Rightarrow> bytes result" where
  "OcbBootstrapPageV1_encode_without_checksum self =
     (if unat (bp1_page_size self) \<noteq> OCB_BOOTSTRAP_PAGE_V1_LEN
      then Inl (ocb_invalid_input ''OCB bootstrap page_size must match reserved bootstrap page length'')
      else if \<not> is_null (bp1_root_ref self) \<and> br_kind (bp1_root_ref self) \<noteq> BodyKind_Root
      then Inl (ocb_invalid_input ''OCB bootstrap root_ref must reference root object'')
      else Inr (OcbBootstrapPageV1_layout self))"

definition OcbBootstrapPageV1_write_to :: "OcbBootstrapPageV1 \<Rightarrow> bytes result" where
  "OcbBootstrapPageV1_write_to self =
     sbind (OcbBootstrapPageV1_encode_without_checksum self) (\<lambda>buf. Inr (seal_object buf))"

definition OcbBootstrapPageV1_fields :: "u32 \<Rightarrow> OcbBootstrapPageV1 reader" where
  "OcbBootstrapPageV1_fields actual_crc =
     rbind (read_exact_ocb 8) (\<lambda>magic.
     if magic \<noteq> OCB_BOOTSTRAP_MAGIC_V1
     then rfail (ocb_corrupt_file ''invalid OCB bootstrap magic'') else
     rbind read_u16 (\<lambda>format_major.
     rbind read_u16 (\<lambda>format_minor.
     if format_major \<noteq> OCB_FORMAT_MAJOR_V1 \<or> format_minor > OCB_FORMAT_MINOR_V1
     then rfail (ocb_unsupported_format ''unsupported OCB bootstrap format version'') else
     rbind read_u32 (\<lambda>flags.
     rbind read_u32 (\<lambda>page_size.
     if unat page_size \<noteq> OCB_BOOTSTRAP_PAGE_V1_LEN
     then rfail (ocb_corrupt_file ''invalid OCB bootstrap page size'') else
     rbind (read_exact_ocb 16) (\<lambda>file_uuid.
     rbind OcbBodyRefV2_read_from (\<lambda>root_ref.
     rret \<lparr>bp1_format_major = format_major, bp1_format_minor = format_minor, bp1_flags = flags,
           bp1_page_size = page_size, bp1_file_uuid = file_uuid, bp1_root_ref = root_ref,
           bp1_crc32c = actual_crc\<rparr>)))))))"

definition OcbBootstrapPageV1_decode :: "bytes \<Rightarrow> OcbBootstrapPageV1 result" where
  "OcbBootstrapPageV1_decode buf =
     open_object ''OCB bootstrap crc mismatch'' buf
       (\<lambda>actual_crc buf. run_reader (OcbBootstrapPageV1_fields actual_crc) buf)"

definition OcbBootstrapPageV1_read_from :: "OcbBootstrapPageV1 reader" where
  "OcbBootstrapPageV1_read_from =
     rbind (read_exact_ocb OCB_BOOTSTRAP_PAGE_V1_LEN) (\<lambda>buf. rtry (OcbBootstrapPageV1_decode buf) rret)"

section \<open>Version 2\<close>

definition OCB_BOOTSTRAP_MAGIC_V2 :: bytes where
  "OCB_BOOTSTRAP_MAGIC_V2 = [0x54, 0x49, 0x4F, 0x4F, 0x43, 0x42, 0x32, 0x00]"

definition OCB_FORMAT_MINOR_V2 :: u16 where
  "OCB_FORMAT_MINOR_V2 = 0"

definition OCB_BOOTSTRAP_PAGE_V2_LEN :: nat where
  "OCB_BOOTSTRAP_PAGE_V2_LEN = OCB_BOOTSTRAP_PAGE_V1_LEN"

definition OCB_ROOT_SLOT_TABLE_V2_OFFSET :: nat where
  "OCB_ROOT_SLOT_TABLE_V2_OFFSET = 64"

definition OCB_ROOT_SLOT_TABLE_V2_LEN :: nat where
  "OCB_ROOT_SLOT_TABLE_V2_LEN = OCB_ROOT_SLOT_V2_COUNT * OCB_ROOT_SLOT_V2_LEN"

record OcbBootstrapPageV2 =
  bp2_format_major :: u16
  bp2_format_minor :: u16
  bp2_flags :: u32
  bp2_page_size :: u32
  bp2_file_uuid :: bytes
  bp2_root_slot_bytes :: "bytes list"
  bp2_crc32c :: u32

text \<open>\<open>root_slots\<close> is an array of \<open>OCB_ROOT_SLOT_V2_COUNT\<close> slots.\<close>

definition OcbBootstrapPageV2_new :: "bytes \<Rightarrow> OcbRootSlotV2 list \<Rightarrow> OcbBootstrapPageV2 result" where
  "OcbBootstrapPageV2_new file_uuid root_slots =
     sbind (try_map OcbRootSlotV2_to_bytes root_slots) (\<lambda>root_slot_bytes.
     Inr \<lparr>bp2_format_major = OCB_FORMAT_MAJOR_V2, bp2_format_minor = OCB_FORMAT_MINOR_V2,
          bp2_flags = 0, bp2_page_size = of_nat OCB_BOOTSTRAP_PAGE_V2_LEN,
          bp2_file_uuid = file_uuid, bp2_root_slot_bytes = root_slot_bytes, bp2_crc32c = 0\<rparr>)"

definition decoded_root_slots :: "OcbBootstrapPageV2 \<Rightarrow> OcbRootSlotV2 result list" where
  "decoded_root_slots self = map (run_reader OcbRootSlotV2_read_from) (bp2_root_slot_bytes self)"

definition OcbBootstrapPageV2_header :: "OcbBootstrapPageV2 \<Rightarrow> bytes" where
  "OcbBootstrapPageV2_header self =
     OCB_BOOTSTRAP_MAGIC_V2 @
     write_u16 (bp2_format_major self) @
     write_u16 (bp2_format_minor self) @
     write_u32 (bp2_flags self) @
     write_u32 (bp2_page_size self) @
     bp2_file_uuid self"

definition OcbBootstrapPageV2_layout :: "OcbBootstrapPageV2 \<Rightarrow> bytes" where
  "OcbBootstrapPageV2_layout self =
     vec_resize (OCB_BOOTSTRAP_PAGE_V2_LEN - 4) 0
       (vec_resize OCB_ROOT_SLOT_TABLE_V2_OFFSET 0 (OcbBootstrapPageV2_header self)
        @ concat (bp2_root_slot_bytes self))
     @ write_u32 0"

definition OcbBootstrapPageV2_encode_without_checksum :: "OcbBootstrapPageV2 \<Rightarrow> bytes result" where
  "OcbBootstrapPageV2_encode_without_checksum self =
     (if unat (bp2_page_size self) \<noteq> OCB_BOOTSTRAP_PAGE_V2_LEN
      then Inl (ocb_invalid_input ''OCB bootstrap page_size must match reserved bootstrap page length'')
      else if bp2_format_major self \<noteq> OCB_FORMAT_MAJOR_V2 \<or> bp2_format_minor self > OCB_FORMAT_MINOR_V2
      then Inl (ocb_unsupported_format ''unsupported OCB bootstrap format version'')
      else Inr (OcbBootstrapPageV2_layout self))"

definition bootstrap_crc32c :: "bytes \<Rightarrow> u32 result" where
  "bootstrap_crc32c bs =
     (if length bs \<noteq> OCB_BOOTSTRAP_PAGE_V2_LEN
      then Inl (ocb_corrupt_file ''OCB bootstrap checksum requires one full bootstrap page'')
      else let slot_start = OCB_ROOT_SLOT_TABLE_V2_OFFSET;
               slot_end = slot_start + OCB_ROOT_SLOT_TABLE_V2_LEN;
               stable = take slot_start bs @ replicate (slot_end - slot_start) 0 @ drop slot_end bs
           in Inr (crc32c (write_u32_at_end stable 0)))"

definition OcbBootstrapPageV2_write_to :: "OcbBootstrapPageV2 \<Rightarrow> bytes result" where
  "OcbBootstrapPageV2_write_to self =
     sbind (OcbBootstrapPageV2_encode_without_checksum self) (\<lambda>buf.
     sbind (bootstrap_crc32c buf) (\<lambda>checksum.
     Inr (write_u32_at_end buf checksum)))"

definition OcbBootstrapPageV2_fields :: "u32 \<Rightarrow> bytes \<Rightarrow> OcbBootstrapPageV2 reader" where
  "OcbBootstrapPageV2_fields actual_crc buf =
     rbind (read_exact_ocb 8) (\<lambda>magic.
     if magic \<noteq> OCB_BOOTSTRAP_MAGIC_V2
     then rfail (ocb_corrupt_file ''invalid OCB bootstrap magic'') else
     rbind read_u16 (\<lambda>format_major.
     rbind read_u16 (\<lambda>format_minor.
     if format_major \<noteq> OCB_FORMAT_MAJOR_V2 \<or> format_minor > OCB_FORMAT_MINOR_V2
     then rfail (ocb_unsupported_format ''unsupported OCB bootstrap format version'') else
     rbind read_u32 (\<lambda>flags.
     rbind read_u32 (\<lambda>page_size.
     if unat page_size \<noteq> OCB_BOOTSTRAP_PAGE_V2_LEN
     then rfail (ocb_corrupt_file ''invalid OCB bootstrap page size'') else
     rbind (read_exact_ocb 16) (\<lambda>file_uuid.
     rret \<lparr>bp2_format_major = format_major, bp2_format_minor = format_minor, bp2_flags = flags,
           bp2_page_size = page_size, bp2_file_uuid = file_uuid,
           bp2_root_slot_bytes =
             map (\<lambda>idx. let start = OCB_ROOT_SLOT_TABLE_V2_OFFSET + idx * OCB_ROOT_SLOT_V2_LEN;
                             stop = start + OCB_ROOT_SLOT_V2_LEN
                         in slice start stop buf) [0..<OCB_ROOT_SLOT_V2_COUNT],
           bp2_crc32c = actual_crc\<rparr>))))))"

definition OcbBootstrapPageV2_decode :: "bytes \<Rightarrow> OcbBootstrapPageV2 result" where
  "OcbBootstrapPageV2_decode buf =
     sbind (read_u32_at_end buf) (\<lambda>actual_crc.
     sbind (bootstrap_crc32c buf) (\<lambda>expected_crc.
     if actual_crc \<noteq> expected_crc then Inl (ocb_corrupt_file ''OCB bootstrap crc mismatch'')
     else run_reader (OcbBootstrapPageV2_fields actual_crc buf) buf))"

definition OcbBootstrapPageV2_read_from :: "OcbBootstrapPageV2 reader" where
  "OcbBootstrapPageV2_read_from =
     rbind (read_exact_ocb OCB_BOOTSTRAP_PAGE_V2_LEN) (\<lambda>buf. rtry (OcbBootstrapPageV2_decode buf) rret)"

lemmas bootstrap_sizes =
  OCB_BOOTSTRAP_PAGE_V2_LEN_def OCB_BOOTSTRAP_PAGE_V1_LEN_def OCB_ROOT_SLOT_TABLE_V2_OFFSET_def
  OCB_ROOT_SLOT_TABLE_V2_LEN_def OCB_ROOT_SLOT_V2_COUNT_def OCB_ROOT_SLOT_V2_LEN_def

section \<open>Version 1: round trip\<close>

lemma length_bootstrap_magic [simp]: "length OCB_BOOTSTRAP_MAGIC_V1 = 8" "length OCB_BOOTSTRAP_MAGIC_V2 = 8"
  by (simp_all add: OCB_BOOTSTRAP_MAGIC_V1_def OCB_BOOTSTRAP_MAGIC_V2_def)

lemma OcbBootstrapPageV1_layout_facts:
  shows "has_trailer (OcbBootstrapPageV1_layout x)" and "length (OcbBootstrapPageV1_layout x) = 4096"
  unfolding OcbBootstrapPageV1_layout_def OCB_BOOTSTRAP_PAGE_V1_LEN_def
  by (intro has_trailer_intros) (simp add: vec_resize_def)

lemma OcbBootstrapPageV1_encode_Inr:
  assumes "OcbBootstrapPageV1_encode_without_checksum x = Inr buf"
  shows "buf = OcbBootstrapPageV1_layout x" and "unat (bp1_page_size x) = OCB_BOOTSTRAP_PAGE_V1_LEN"
  using assms by (auto simp: OcbBootstrapPageV1_encode_without_checksum_def split: if_splits)

lemma OcbBootstrapPageV1_fields_layout:
  assumes "bp1_format_major x = 1" and "bp1_format_minor x = 0" and "length (bp1_file_uuid x) = 16"
    and "unat (bp1_page_size x) = OCB_BOOTSTRAP_PAGE_V1_LEN"
  shows "oreads N 0 [] (OcbBootstrapPageV1_fields crc) (OcbBootstrapPageV1_layout x) (x\<lparr>bp1_crc32c := crc\<rparr>)"
proof -
  have layout: "OcbBootstrapPageV1_layout x =
      OCB_BOOTSTRAP_MAGIC_V1 @ write_u16 (bp1_format_major x) @ write_u16 (bp1_format_minor x) @
      write_u32 (bp1_flags x) @ write_u32 (bp1_page_size x) @ bp1_file_uuid x @
      OcbBodyRefV2_write_to (bp1_root_ref x) @ replicate 4024 0 @ write_u32 0"
    by (simp add: OcbBootstrapPageV1_layout_def OcbBootstrapPageV1_header_def vec_resize_longer
        OCB_BOOTSTRAP_PAGE_V1_LEN_def assms(3))
  show ?thesis
    unfolding OcbBootstrapPageV1_fields_def layout
    by (rule reads_intros | simp add: assms OCB_FORMAT_MAJOR_V1_def OCB_FORMAT_MINOR_V1_def; fail)+
qed

interpretation bootstrap1: sealed_codec OcbBootstrapPageV1_encode_without_checksum
    OcbBootstrapPageV1_write_to OcbBootstrapPageV1_decode "''OCB bootstrap crc mismatch''"
  by unfold_locales
    (auto simp: OcbBootstrapPageV1_write_to_def OcbBootstrapPageV1_decode_def open_object_rejects
      OcbBootstrapPageV1_layout_facts dest!: OcbBootstrapPageV1_encode_Inr(1))

lemma reads_OcbBootstrapPageV1:
  assumes "OcbBootstrapPageV1_write_to x = Inr bs"
    and "bp1_format_major x = 1" and "bp1_format_minor x = 0" and "length (bp1_file_uuid x) = 16"
  shows "reads OcbBootstrapPageV1_read_from bs (x\<lparr>bp1_crc32c := crc32c (OcbBootstrapPageV1_layout x)\<rparr>)"
proof -
  from assms(1) have bs: "bs = seal_object (OcbBootstrapPageV1_layout x)"
    and ps: "unat (bp1_page_size x) = OCB_BOOTSTRAP_PAGE_V1_LEN"
    by (auto simp: OcbBootstrapPageV1_write_to_def sbind_eq_Inr dest: OcbBootstrapPageV1_encode_Inr)
  have "OcbBootstrapPageV1_decode bs = Inr (x\<lparr>bp1_crc32c := crc32c (OcbBootstrapPageV1_layout x)\<rparr>)"
    using oreads_run [OF OcbBootstrapPageV1_fields_layout [OF assms(2-4) ps]]
    by (simp add: bs OcbBootstrapPageV1_decode_def open_object_seal OcbBootstrapPageV1_layout_facts)
  then show ?thesis
    unfolding OcbBootstrapPageV1_read_from_def
    by (rule rbind_exact_decode) (simp add: bs OcbBootstrapPageV1_layout_facts OCB_BOOTSTRAP_PAGE_V1_LEN_def)
qed

section \<open>Version 2: the checksum leaves the slot table out\<close>

definition page_ok :: "OcbBootstrapPageV2 \<Rightarrow> bool" where
  "page_ok p \<longleftrightarrow> length (bp2_file_uuid p) = 16 \<and> length (bp2_root_slot_bytes p) = 2 \<and>
     (\<forall>s\<in>set (bp2_root_slot_bytes p). length s = 160)"

lemma bootstrap_crc32c_slot_table:
  assumes "length a = 64" and "length t = 320" and "length t' = 320"
  shows "bootstrap_crc32c (a @ t @ b) = bootstrap_crc32c (a @ t' @ b)"
  using assms by (simp add: bootstrap_crc32c_def bootstrap_sizes Let_def)

lemma bootstrap_crc32c_trailer:
  assumes "length a = 4092"
  shows "bootstrap_crc32c (a @ write_u32 v) = bootstrap_crc32c (a @ write_u32 0)"
proof -
  have "bootstrap_crc32c (a @ write_u32 v) =
      Inr (crc32c ((take 64 a @ replicate 320 0 @ drop 384 a) @ write_u32 0))" for v
  proof -
    have "write_u32_at_end (take 64 a @ replicate 320 0 @ drop 384 a @ write_u32 v) 0 =
        (take 64 a @ replicate 320 0 @ drop 384 a) @ write_u32 0"
      using write_u32_at_end_append [of "write_u32 v" "take 64 a @ replicate 320 0 @ drop 384 a" 0] by simp
    then show ?thesis
      using assms by (simp add: bootstrap_crc32c_def bootstrap_sizes Let_def)
  qed
  then show ?thesis by simp
qed

lemma OcbBootstrapPageV2_fields_local:
  assumes "36 \<le> length a"
  shows "run_reader (OcbBootstrapPageV2_fields crc buf) (a @ r) = run_reader (OcbBootstrapPageV2_fields crc buf) a"
proof -
  have at: "read_exact_ocb n \<lparr>cur_bytes = a @ r, cur_pos = p\<rparr> =
        Inr (take n (drop p a), \<lparr>cur_bytes = a @ r, cur_pos = p + n\<rparr>)"
      "read_exact_ocb n \<lparr>cur_bytes = a, cur_pos = p\<rparr> =
        Inr (take n (drop p a), \<lparr>cur_bytes = a, cur_pos = p + n\<rparr>)" if "p + n \<le> 36" for n p
    using assms that by (simp_all add: read_exact_ocb_def)
  show ?thesis
    by (simp add: OcbBootstrapPageV2_fields_def run_reader_def cursor_new_def rbind_def rret_def
        rfail_def read_u16_def read_u32_def at)
qed

lemma OcbBootstrapPageV2_fields_slots:
  assumes "run_reader (OcbBootstrapPageV2_fields crc buf) a = Inr p"
  shows "run_reader (OcbBootstrapPageV2_fields crc buf') a =
      Inr (p\<lparr>bp2_root_slot_bytes := [slice 64 224 buf', slice 224 384 buf']\<rparr>)"
proof -
  from assms obtain c1 c2 c3 c4 c5 c6 where
    "read_exact_ocb 8 (cursor_new a) = Inr (OCB_BOOTSTRAP_MAGIC_V2, c1)"
    "read_u16 c1 = Inr (OCB_FORMAT_MAJOR_V2, c2)"
    "read_u16 c2 = Inr (bp2_format_minor p, c3)" "\<not> OCB_FORMAT_MINOR_V2 < bp2_format_minor p"
    "read_u32 c3 = Inr (bp2_flags p, c4)"
    "read_u32 c4 = Inr (bp2_page_size p, c5)" "unat (bp2_page_size p) = 4096"
    "read_exact_ocb 16 c5 = Inr (bp2_file_uuid p, c6)"
    "bp2_format_major p = OCB_FORMAT_MAJOR_V2" "bp2_crc32c p = crc"
    by (auto simp: OcbBootstrapPageV2_fields_def run_reader_def rbind_def rret_def rfail_def
        sbind_eq_Inr bootstrap_sizes split: if_splits)
  then show ?thesis
    by (simp add: OcbBootstrapPageV2_fields_def run_reader_def rbind_def rret_def
        bootstrap_sizes numeral_2_eq_2)
qed

text \<open>Rewriting the slot table in place leaves every other part of the page as it was.\<close>

lemma OcbBootstrapPageV2_decode_slot_table:
  assumes "length a = 64" and "length t = 320" and "length t' = 320" and "4 \<le> length b"
    and "OcbBootstrapPageV2_decode (a @ t @ b) = Inr p"
  shows "OcbBootstrapPageV2_decode (a @ t' @ b) =
      Inr (p\<lparr>bp2_root_slot_bytes := [take 160 t', drop 160 t']\<rparr>)"
proof -
  obtain crc where crc: "read_u32_at_end (a @ t @ b) = Inr crc"
    and "bootstrap_crc32c (a @ t @ b) = Inr crc"
    and p: "run_reader (OcbBootstrapPageV2_fields crc (a @ t @ b)) (a @ t @ b) = Inr p"
    using assms(5) by (auto simp: OcbBootstrapPageV2_decode_def sbind_eq_Inr split: if_splits)
  then have "bootstrap_crc32c (a @ t' @ b) = Inr crc"
    using bootstrap_crc32c_slot_table [OF assms(1-3)] by metis
  moreover have "read_u32_at_end (a @ t' @ b) = Inr crc"
    using crc assms(1-4) by (simp add: read_u32_at_end_def)
  moreover from p have "run_reader (OcbBootstrapPageV2_fields crc (a @ t @ b)) a = Inr p"
    using assms(1) by (simp add: OcbBootstrapPageV2_fields_local)
  note OcbBootstrapPageV2_fields_slots [OF this, of "a @ t' @ b"]
  ultimately show ?thesis
    using assms(1,3)
    by (simp add: OcbBootstrapPageV2_decode_def OcbBootstrapPageV2_fields_local slice_def)
qed

section \<open>Version 2: round trip\<close>

lemma OcbBootstrapPageV2_layout_split:
  assumes "page_ok x"
  shows "OcbBootstrapPageV2_layout x =
      (OcbBootstrapPageV2_header x @ replicate 28 0) @ concat (bp2_root_slot_bytes x) @ replicate 3708 0 @ write_u32 0"
    and "length (OcbBootstrapPageV2_header x) = 36"
    and "length (concat (bp2_root_slot_bytes x)) = 320"
proof -
  show h: "length (OcbBootstrapPageV2_header x) = 36"
    using assms by (simp add: OcbBootstrapPageV2_header_def page_ok_def)
  obtain s t where "bp2_root_slot_bytes x = [s, t]" "length s = 160" "length t = 160"
    using assms by (auto simp: page_ok_def length_Suc_conv numeral_2_eq_2)
  then show t: "length (concat (bp2_root_slot_bytes x)) = 320" by simp
  then show "OcbBootstrapPageV2_layout x =
      (OcbBootstrapPageV2_header x @ replicate 28 0) @ concat (bp2_root_slot_bytes x) @ replicate 3708 0 @ write_u32 0"
    by (simp add: OcbBootstrapPageV2_layout_def vec_resize_longer bootstrap_sizes h)
qed

lemma OcbBootstrapPageV2_fields_header:
  assumes "page_ok x" and "bp2_format_major x = 2" and "bp2_format_minor x = 0"
    and "unat (bp2_page_size x) = OCB_BOOTSTRAP_PAGE_V2_LEN"
  shows "reads (OcbBootstrapPageV2_fields crc buf) (OcbBootstrapPageV2_header x)
      (x\<lparr>bp2_root_slot_bytes := [slice 64 224 buf, slice 224 384 buf], bp2_crc32c := crc\<rparr>)"
  using assms(1) unfolding OcbBootstrapPageV2_fields_def OcbBootstrapPageV2_header_def page_ok_def
  by - (rule reads_intros | simp add: assms(2-4) OCB_FORMAT_MAJOR_V2_def OCB_FORMAT_MINOR_V2_def
      bootstrap_sizes numeral_2_eq_2; fail)+

lemma OcbBootstrapPageV2_write_to_Inr:
  assumes "OcbBootstrapPageV2_write_to x = Inr bs" and "page_ok x"
  obtains crc where
    "bs = (OcbBootstrapPageV2_header x @ replicate 28 0) @ concat (bp2_root_slot_bytes x) @
       replicate 3708 0 @ write_u32 crc"
    and "bootstrap_crc32c bs = Inr crc"
    and "unat (bp2_page_size x) = OCB_BOOTSTRAP_PAGE_V2_LEN"
    and "bp2_format_major x = 2" and "bp2_format_minor x = 0"
proof -
  note split = OcbBootstrapPageV2_layout_split [OF assms(2)]
  let ?body = "(OcbBootstrapPageV2_header x @ replicate 28 0) @ concat (bp2_root_slot_bytes x) @ replicate 3708 0"
  have layout: "OcbBootstrapPageV2_layout x = ?body @ write_u32 0" using split(1) by simp
  from assms(1) obtain crc where crc: "bootstrap_crc32c (OcbBootstrapPageV2_layout x) = Inr crc"
    and bs: "bs = write_u32_at_end (OcbBootstrapPageV2_layout x) crc"
    and rest: "unat (bp2_page_size x) = OCB_BOOTSTRAP_PAGE_V2_LEN"
      "bp2_format_major x = 2" "bp2_format_minor x = 0"
    by (auto simp: OcbBootstrapPageV2_write_to_def OcbBootstrapPageV2_encode_without_checksum_def
        OCB_FORMAT_MAJOR_V2_def OCB_FORMAT_MINOR_V2_def sbind_eq_Inr word_gt_0 split: if_splits)
  from bs have b: "bs = ?body @ write_u32 crc" by (simp only: layout write_u32_at_end_append length_writes)
  have "length ?body = 4092" using split(2,3) by simp
  from bootstrap_crc32c_trailer [OF this, of crc] crc have "bootstrap_crc32c bs = Inr crc"
    by (simp only: b layout)
  with b rest show thesis by (intro that) simp_all
qed

lemma reads_OcbBootstrapPageV2:
  assumes "OcbBootstrapPageV2_write_to x = Inr bs" and "page_ok x"
  shows "\<exists>crc. reads OcbBootstrapPageV2_read_from bs (x\<lparr>bp2_crc32c := crc\<rparr>)"
proof -
  from assms obtain crc where
    bs: "bs = (OcbBootstrapPageV2_header x @ replicate 28 0) @ concat (bp2_root_slot_bytes x) @
       replicate 3708 0 @ write_u32 crc"
    and crc: "bootstrap_crc32c bs = Inr crc"
    and fmt: "bp2_format_major x = 2" "bp2_format_minor x = 0"
      "unat (bp2_page_size x) = OCB_BOOTSTRAP_PAGE_V2_LEN"
    by (rule OcbBootstrapPageV2_write_to_Inr)
  note split = OcbBootstrapPageV2_layout_split [OF assms(2)]
  obtain s t where st: "bp2_root_slot_bytes x = [s, t]" "length s = 160" "length t = 160"
    using assms(2) by (auto simp: page_ok_def length_Suc_conv numeral_2_eq_2)
  have slots: "[slice 64 224 bs, slice 224 384 bs] = bp2_root_slot_bytes x"
    using st split(2) by (simp add: bs slice_def)
  have "run_reader (OcbBootstrapPageV2_fields crc bs) (OcbBootstrapPageV2_header x) = Inr (x\<lparr>bp2_crc32c := crc\<rparr>)"
    using reads_run [OF OcbBootstrapPageV2_fields_header [OF assms(2) fmt]] by (simp add: slots)
  then have "run_reader (OcbBootstrapPageV2_fields crc bs) bs = Inr (x\<lparr>bp2_crc32c := crc\<rparr>)"
    using split(2) by (subst (2) bs) (simp add: OcbBootstrapPageV2_fields_local)
  moreover have "read_u32_at_end bs = Inr crc"
    using read_u32_at_end_append [of "(OcbBootstrapPageV2_header x @ replicate 28 0) @
        concat (bp2_root_slot_bytes x) @ replicate 3708 0" crc] by (simp add: bs)
  ultimately have "OcbBootstrapPageV2_decode bs = Inr (x\<lparr>bp2_crc32c := crc\<rparr>)"
    by (simp add: OcbBootstrapPageV2_decode_def crc)
  moreover have "length bs = OCB_BOOTSTRAP_PAGE_V2_LEN"
    using split(2,3) by (simp add: bs bootstrap_sizes)
  ultimately show ?thesis
    unfolding OcbBootstrapPageV2_read_from_def by (blast intro: rbind_exact_decode)
qed

text \<open>The slots of a new page come back as they were put in.\<close>

lemma OcbBootstrapPageV2_new_slots:
  assumes "OcbBootstrapPageV2_new uuid slots = Inr p" and "length uuid = 16"
    and "length slots = 2" and "\<forall>s\<in>set slots. slot_ok s"
  shows "page_ok p" and "decoded_root_slots p = map (\<lambda>s. Inr (slot_stored s)) slots"
proof -
  from assms(3) obtain s t where slots: "slots = [s, t]"
    by (auto simp: length_Suc_conv numeral_2_eq_2)
  with assms(1,4) obtain bs bt where
    b: "OcbRootSlotV2_write_to s = Inr bs" "OcbRootSlotV2_write_to t = Inr bt"
    and p: "bp2_root_slot_bytes p = [bs, bt]" "bp2_file_uuid p = uuid"
    and ok: "slot_ok s" "slot_ok t"
    by (auto simp: OcbBootstrapPageV2_new_def OcbRootSlotV2_to_bytes_def sbind_eq_Inr)
  show "page_ok p"
    using b ok p assms(2) by (auto simp: page_ok_def dest: OcbRootSlotV2_write_to_Inr(4))
  show "decoded_root_slots p = map (\<lambda>s. Inr (slot_stored s)) slots"
    using reads_run [OF reads_OcbRootSlotV2] b ok by (simp add: decoded_root_slots_def p slots)
qed

end
