(* ===== verification/Collections.thy ===== *)
theory Collections
  imports Byte_IO "HOL-Library.AList"
begin

text \<open>
  The collections of the metadata reader and its stateful operations: hash maps as association
  lists in insertion order, the growth of hash tables, and operations that change a state which
  survives their failure.

  The iteration order of a hash map is unspecified in Rust.  The code iterates over one only to
  check every value, so the order can change which of several corrupt-file errors is reported
  and nothing else; the model uses the insertion order.
\<close>

section \<open>Hash maps\<close>

type_synonym ('k, 'v) hash_map = "('k \<times> 'v) list"

definition hash_get :: "('k, 'v) hash_map \<Rightarrow> 'k \<Rightarrow> 'v option" where
  "hash_get m k = map_of m k"

definition hash_insert :: "('k, 'v) hash_map \<Rightarrow> 'k \<Rightarrow> 'v \<Rightarrow> ('k, 'v) hash_map" where
  "hash_insert m k v = AList.update k v m"

definition hash_contains :: "('k, 'v) hash_map \<Rightarrow> 'k \<Rightarrow> bool" where
  "hash_contains m k \<longleftrightarrow> hash_get m k \<noteq> None"

definition hash_keys :: "('k, 'v) hash_map \<Rightarrow> 'k set" where
  "hash_keys m = set (map fst m)"

text \<open>
  \<open>try_reserve(additional)\<close> on a table of \<open>len\<close> entries: whether the table may hold that many entries is
  the host's answer; the layout of a table is not specified.
\<close>

definition hash_try_reserve :: "host \<Rightarrow> nat \<Rightarrow> nat \<Rightarrow> string \<Rightarrow> bool" where
  "hash_try_reserve h len additional site \<longleftrightarrow> host_alloc h site (len + additional)"

text \<open>The interface of a finite map, and what its clients rely on.\<close>

locale finite_map =
  fixes empty :: 'm
    and get :: "'m \<Rightarrow> 'k \<Rightarrow> 'v option"
    and put :: "'m \<Rightarrow> 'k \<Rightarrow> 'v \<Rightarrow> 'm"
    and keys :: "'m \<Rightarrow> 'k set"
    and wf :: "'m \<Rightarrow> bool"
  assumes wf_empty: "wf empty"
    and wf_put: "wf m \<Longrightarrow> wf (put m k v)"
    and keys_empty: "keys empty = {}"
    and keys_get: "k \<in> keys m \<longleftrightarrow> get m k \<noteq> None"
    and get_put: "get (put m k v) k' = (if k' = k then Some v else get m k')"
begin

lemma keys_put: "keys (put m k v) = insert k (keys m)"
  by (auto simp: keys_get get_put split: if_splits)

lemma get_empty: "get empty k = None"
  using keys_empty keys_get by blast

text \<open>Inserting a list of bindings with distinct new keys finds each of them again.\<close>

lemma get_fold_put:
  assumes "distinct (map f xs)" and "x \<in> set xs"
  shows "get (fold (\<lambda>x m. put m (f x) (g x)) xs m) (f x) = Some (g x)"
  using assms
proof (induction xs arbitrary: m)
  case Nil
  then show ?case by simp
next
  case (Cons y ys)
  have other: "get (fold (\<lambda>x m. put m (f x) (g x)) zs m') k = get m' k" if "k \<notin> f ` set zs" for zs m' k
    using that by (induction zs arbitrary: m') (auto simp: get_put)
  show ?case
  proof (cases "x = y")
    case True
    with Cons.prems(1) show ?thesis by (simp add: other get_put)
  next
    case False
    with Cons show ?thesis by simp
  qed
qed

end

interpretation hash: finite_map "[]" hash_get hash_insert hash_keys "\<lambda>m. distinct (map fst m)"
  by unfold_locales
    (auto simp: hash_get_def hash_insert_def hash_keys_def update_conv' distinct_update map_of_eq_None_iff
      domIff image_iff)

lemma hash_contains_keys: "hash_contains m k \<longleftrightarrow> k \<in> hash_keys m"
  by (simp add: hash_contains_def hash.keys_get)

lemma hash_insert_new: "k \<notin> hash_keys m \<Longrightarrow> hash_insert m k v = m @ [(k, v)]"
  by (induction m) (auto simp: hash_insert_def hash_keys_def)

lemma hash_get_map: "distinct (map f xs) \<Longrightarrow> x \<in> set xs \<Longrightarrow> hash_get (map (\<lambda>x. (f x, g x)) xs) (f x) = Some (g x)"
  by (auto simp: hash_get_def intro: map_of_is_SomeI simp: comp_def)

lemma hash_keys_map: "hash_keys (map (\<lambda>x. (f x, g x)) xs) = f ` set xs"
  by (auto simp: hash_keys_def)

section \<open>Loops that collect distinct keys\<close>

text \<open>A loop that checks every element and refuses a key it has seen.\<close>

lemma for_each_distinct:
  "for_each (\<lambda>x S. sbind (chk x) (\<lambda>_. if f x \<in> S then Inl e else Inr (insert (f x) S))) xs S = Inr T \<longleftrightarrow>
     (\<forall>x \<in> set xs. is_ok (chk x)) \<and> distinct (map f xs) \<and> f ` set xs \<inter> S = {} \<and> T = f ` set xs \<union> S"
proof (induction xs arbitrary: S)
  case Nil
  then show ?case by auto
next
  case (Cons x xs)
  show ?case
  proof (cases "chk x")
    case (Inl a)
    then show ?thesis by simp
  next
    case (Inr b)
    then show ?thesis using Cons.IH [of "insert (f x) S"] by auto
  qed
qed

section \<open>Operations on a state that survives failure\<close>

type_synonym ('s, 'a) action = "'s \<Rightarrow> 'a result \<times> 's"

definition aret :: "'a \<Rightarrow> ('s, 'a) action" where
  "aret x s = (Inr x, s)"

definition atry :: "'a result \<Rightarrow> ('s, 'a) action" where
  "atry r s = (r, s)"

definition abind :: "('s, 'a) action \<Rightarrow> ('a \<Rightarrow> ('s, 'b) action) \<Rightarrow> ('s, 'b) action" where
  "abind m k s = (case m s of (Inl e, t) \<Rightarrow> (Inl e, t) | (Inr x, t) \<Rightarrow> k x t)"

fun afor_each :: "('x \<Rightarrow> 'a \<Rightarrow> ('s, 'a) action) \<Rightarrow> 'x list \<Rightarrow> 'a \<Rightarrow> ('s, 'a) action" where
  "afor_each f [] acc = aret acc"
| "afor_each f (x # xs) acc = abind (f x acc) (\<lambda>acc. afor_each f xs acc)"

text \<open>
  \<open>keeps I m\<close>: the operation keeps the invariant whether it succeeds or fails;
  \<open>gives I m Q\<close>: from a state that satisfies \<open>I\<close>, every success satisfies \<open>Q\<close>.
\<close>

named_theorems keeps_intros "rules that prove that an operation keeps an invariant of its state"

definition keeps :: "('s \<Rightarrow> bool) \<Rightarrow> ('s, 'a) action \<Rightarrow> bool" where
  "keeps I m \<longleftrightarrow> (\<forall>s. I s \<longrightarrow> I (snd (m s)))"

lemma keepsD: "keeps I m \<Longrightarrow> I s \<Longrightarrow> I (snd (m s))"
  by (simp add: keeps_def)

lemma keeps_basic [keeps_intros]: "keeps I (aret x)" "keeps I (atry r)"
  by (simp_all add: keeps_def aret_def atry_def)

lemma keeps_bind [keeps_intros]: "keeps I m \<Longrightarrow> (\<And>x. keeps I (k x)) \<Longrightarrow> keeps I (abind m k)"
  by (auto simp: keeps_def abind_def split: prod.splits sum.splits)

lemma keeps_if [keeps_intros]:
  "(b \<Longrightarrow> keeps I m) \<Longrightarrow> (\<not> b \<Longrightarrow> keeps I n) \<Longrightarrow> keeps I (if b then m else n)"
  by simp

lemma keeps_for_each [keeps_intros]: "(\<And>x a. x \<in> set xs \<Longrightarrow> keeps I (f x a)) \<Longrightarrow> keeps I (afor_each f xs acc)"
  by (induction xs arbitrary: acc) (auto intro!: keeps_intros)

lemma keeps_option [keeps_intros]:
  "(z = None \<Longrightarrow> keeps I m) \<Longrightarrow> (\<And>x. z = Some x \<Longrightarrow> keeps I (k x)) \<Longrightarrow>
     keeps I (case z of None \<Rightarrow> m | Some x \<Rightarrow> k x)"
  by (cases z) simp_all

lemma abind_Inr:
  "abind m k s = (Inr y, u) \<longleftrightarrow> (\<exists>x t. m s = (Inr x, t) \<and> k x t = (Inr y, u))"
  by (auto simp: abind_def split: prod.splits sum.splits)

lemma atry_Inr: "atry r s = (Inr y, u) \<longleftrightarrow> r = Inr y \<and> u = s"
  by (auto simp: atry_def)

lemma aret_Inr: "aret x s = (Inr y, u) \<longleftrightarrow> y = x \<and> u = s"
  by (auto simp: aret_def)

lemmas action_Inr = abind_Inr atry_Inr aret_Inr

text \<open>A loop that succeeds ran its body successfully on every element, in order.\<close>

lemma afor_each_append:
  "afor_each f (xs @ ys) acc = abind (afor_each f xs acc) (\<lambda>acc. afor_each f ys acc)"
proof (induction xs arbitrary: acc)
  case Nil
  then show ?case by (rule ext) (simp add: abind_def aret_def)
next
  case (Cons x xs)
  show ?case
    by (rule ext) (simp add: Cons.IH abind_def split: prod.split sum.split)
qed

lemma afor_each_invariant:
  assumes "afor_each f xs acc s = (Inr acc', t)" and "P 0 acc s"
    and "\<And>i a u a' u'. i < length xs \<Longrightarrow> P i a u \<Longrightarrow> f (xs ! i) a u = (Inr a', u') \<Longrightarrow> P (Suc i) a' u'"
  shows "P (length xs) acc' t"
  using assms
proof (induction xs arbitrary: acc s P)
  case Nil
  then show ?case by (simp add: aret_Inr)
next
  case (Cons x xs)
  then obtain a u where x: "f x acc s = (Inr a, u)" and xs: "afor_each f xs a u = (Inr acc', t)"
    by (auto simp: abind_Inr)
  have "P (Suc 0) a u" using Cons.prems(3) [of 0] Cons.prems(2) x by simp
  with xs have "P (Suc (length xs)) acc' t"
  proof (rule Cons.IH [where P = "\<lambda>i. P (Suc i)"])
    fix i a u a' u'
    assume "i < length xs" "P (Suc i) a u" "f (xs ! i) a u = (Inr a', u')"
    then show "P (Suc (Suc i)) a' u'" using Cons.prems(3) [of "Suc i"] by simp
  qed
  then show ?case by simp
qed

section \<open>A lemma on maxima\<close>

lemma Max_insert_max: "finite S \<Longrightarrow> Max (insert (max a b) S) = Max (insert b (insert a S))" for a b :: nat
  by (cases "S = {}") (simp_all add: max.commute max.left_commute)

end
