(* ===== verification/Metadata.thy ===== *)
theory Metadata
  imports Object_Read Row_Group_Delta Dictionary Bootstrap Collections
begin

text \<open>
  The metadata of an opened file (\<open>OcbMetadataV1\<close> of \<open>read.rs\<close>): reading the objects a root refers
  to, applying a row-group index delta to the index it is based on, and the end of the part of the
  file a snapshot refers to.
\<close>

section \<open>Metadata\<close>

record OcbMetadataV1 =
  md_root :: OcbRootV1
  md_string_table :: OcbStringTableV1
  md_schema :: OcbSchemaV1
  md_dictionary_index :: "OcbDictionaryIndexV1 option"
  md_row_group_index :: OcbRowGroupIndexV1
  md_row_group_positions_by_id :: "(u32, usize) hash_map"
  md_ordering_proof :: "OcbOrderingProofV1 option"
  md_file_len :: u64
  md_appendable :: bool
  md_root_generation :: u64
  md_previous_root_generation :: "u64 option"
  md_resource_limits :: OcbResourceLimits
  md_open_metadata_materialized_bytes :: u64
  md_open_auxiliary_encoded_bytes :: u64

definition row_group_by_id :: "OcbMetadataV1 \<Rightarrow> u32 \<Rightarrow> OcbRowGroupDescV1 option" where
  "row_group_by_id self row_group_id =
     Option.bind (hash_get (md_row_group_positions_by_id self) row_group_id) (\<lambda>position.
     vec_get (rgi_row_groups (md_row_group_index self)) position)"

type_synonym budget = MetadataMaterializationBudget

definition read_metadata_objects_with_resource_limits ::
  "host \<Rightarrow> OcbReadCursor \<Rightarrow> u64 \<Rightarrow> OcbRootV1 \<Rightarrow> OcbResourceLimits \<Rightarrow> budget \<Rightarrow> (OcbMetadataV1 \<times> budget) result" where
  "read_metadata_objects_with_resource_limits h file file_len root resource_limits metadata_budget =
     sbind (read_object_bytes_with_resource_limits h file file_len (root1_schema_ref root)
        BodyKind_Schema resource_limits) (\<lambda>schema_bytes.
     sbind (OcbSchemaV1_read_from_bytes_with_budget h schema_bytes metadata_budget) (\<lambda>(schema, metadata_budget).
     sbind (read_object_bytes_with_resource_limits h file file_len (sch_string_table_ref schema)
        BodyKind_StringTable resource_limits) (\<lambda>string_table_bytes.
     sbind (OcbStringTableV1_read_from_bytes_with_budget h string_table_bytes metadata_budget) (\<lambda>(string_table, metadata_budget).
     sbind (if is_null (root1_dictionary_index_ref root) then Inr (None, metadata_budget)
            else sbind (read_object_bytes_with_resource_limits h file file_len (root1_dictionary_index_ref root)
                   BodyKind_DictionaryIndex resource_limits) (\<lambda>bs.
                 sbind (OcbDictionaryIndexV1_read_from_bytes_with_budget h bs metadata_budget) (\<lambda>(index, metadata_budget).
                 Inr (Some index, metadata_budget)))) (\<lambda>(dictionary_index, metadata_budget).
     sbind (read_object_bytes_with_resource_limits h file file_len (root1_row_group_index_ref root)
        BodyKind_RowGroupIndex resource_limits) (\<lambda>row_group_index_bytes.
     sbind (OcbRowGroupIndexV1_read_from_bytes_with_budget h row_group_index_bytes metadata_budget) (\<lambda>(row_group_index, metadata_budget).
     sbind (if is_null (root1_ordering_proof_ref root) then Inr (None, metadata_budget)
            else sbind (read_object_bytes_with_resource_limits h file file_len (root1_ordering_proof_ref root)
                   BodyKind_OrderingProof resource_limits) (\<lambda>bs.
                 sbind (OcbOrderingProofV1_read_from_bytes_with_budget h bs metadata_budget) (\<lambda>(proof, metadata_budget).
                 Inr (Some proof, metadata_budget)))) (\<lambda>(ordering_proof, metadata_budget).
     Inr (\<lparr>md_root = root, md_string_table = string_table, md_schema = schema,
           md_dictionary_index = dictionary_index, md_row_group_index = row_group_index,
           md_row_group_positions_by_id = [], md_ordering_proof = ordering_proof,
           md_file_len = file_len, md_appendable = False, md_root_generation = 0,
           md_previous_root_generation = None, md_resource_limits = resource_limits,
           md_open_metadata_materialized_bytes = charged_bytes metadata_budget,
           md_open_auxiliary_encoded_bytes = 0\<rparr>, metadata_budget)))))))))"

section \<open>Row-group index deltas\<close>

definition checked_retained_vec_bytes :: "host \<Rightarrow> rust_type \<Rightarrow> usize \<Rightarrow> u64 result" where
  "checked_retained_vec_bytes h ty count =
     sbind (ok_or (u64_try_from count)
        (ocb_corrupt_file ''OCB row-group index delta destination count exceeds u64'')) (\<lambda>count.
     ok_or (checked_mul count (of_nat (host_size_of h ty)))
        (ocb_corrupt_file ''OCB row-group index delta destination size overflows''))"

definition checked_delta_destination_len :: "usize \<Rightarrow> usize \<Rightarrow> usize result" where
  "checked_delta_destination_len base additional =
     ok_or (usize_checked_add base additional)
       (ocb_corrupt_file ''OCB row-group index delta destination length overflows'')"

definition row_group_index_delta_allocation_error :: ArcadiaTioError where
  "row_group_index_delta_allocation_error =
     Io (IoError IoKind_OutOfMemory ''OCB row-group index delta allocation failed within resource limit'')"

definition row_group_index_delta_destination_extension_bytes ::
  "host \<Rightarrow> OcbRowGroupIndexDeltaV1 \<Rightarrow> u64 result" where
  "row_group_index_delta_destination_extension_bytes h delta =
     sbind (checked_retained_vec_bytes h TyRowGroupDesc (length (rgd_row_groups delta))) (\<lambda>row_groups.
     sbind (checked_retained_vec_bytes h TyColumnChunkDesc (length (rgd_column_chunks delta))) (\<lambda>chunks.
     sbind (checked_retained_vec_bytes h TyColumnStats (length (rgd_stats delta))) (\<lambda>stats.
     sbind (checked_retained_vec_bytes h TyRowGroupOrderingProof
        (length (rgd_row_group_ordering_proofs delta))) (\<lambda>proofs.
     for_each (\<lambda>part bs. ok_or (checked_add bs part)
        (ocb_corrupt_file ''OCB row-group index delta destination size overflows''))
        [row_groups, chunks, stats, proofs] 0))))"

text \<open>
  \<open>Vec::try_reserve_exact\<close> of a vector of \<open>len\<close> elements that was allocated with exactly that
  capacity, as the object readers do.
\<close>

definition reserve_delta :: "host \<Rightarrow> rust_type \<Rightarrow> usize \<Rightarrow> usize \<Rightarrow> unit result" where
  "reserve_delta h ty len additional =
     (if additional = 0
         \<or> try_reserve_exact h ty (len + additional) ''OCB row-group index delta allocation failed within resource limit''
      then Inr () else Inl row_group_index_delta_allocation_error)"

text \<open>The ordering partition of a delta, and the proof it extends, if any.\<close>

definition delta_target_ordering_proof ::
  "OcbMetadataV1 \<Rightarrow> OcbRowGroupIndexDeltaV1 \<Rightarrow> OcbOrderingProofV1 option result" where
  "delta_target_ordering_proof metadata delta =
     (if rgd_row_group_ordering_proofs delta = [] then
        if rgd_base_ordering_proof_count delta \<noteq> 0 \<or> rgd_ordering_keys delta \<noteq> []
        then Inl (ocb_corrupt_file ''OCB row-group index delta ordering metadata is inconsistent'')
        else Inr None
      else if rgd_base_ordering_proof_count delta \<noteq> rgd_base_row_group_count delta
              \<or> length (rgd_row_group_ordering_proofs delta) \<noteq> length (rgd_row_groups delta)
        then Inl (ocb_corrupt_file ''OCB row-group index delta ordering partition does not match row-group delta'')
      else sbind (ok_or (md_ordering_proof metadata)
             (ocb_corrupt_file ''OCB row-group index delta requires ordering proof'')) (\<lambda>proof.
           if length (op_row_group_proofs proof) \<noteq> unat (rgd_base_ordering_proof_count delta)
           then Inl (ocb_corrupt_file ''OCB row-group index delta ordering base count does not match base proof'')
           else if op_keys proof \<noteq> rgd_ordering_keys delta
           then Inl (ocb_corrupt_file ''OCB row-group index delta ordering keys do not match base proof'')
           else Inr (Some proof)))"

definition apply_row_group_index_delta ::
  "host \<Rightarrow> OcbMetadataV1 \<Rightarrow> OcbRowGroupIndexDeltaV1 \<Rightarrow> budget \<Rightarrow> (OcbMetadataV1 \<times> budget) result" where
  "apply_row_group_index_delta h metadata delta metadata_budget =
     (let index = md_row_group_index metadata in
     if length (rgi_row_groups index) \<noteq> unat (rgd_base_row_group_count delta)
        \<or> length (rgi_column_chunks index) \<noteq> unat (rgd_base_column_chunk_count delta)
        \<or> length (rgi_stats index) \<noteq> unat (rgd_base_stat_count delta)
     then Inl (ocb_corrupt_file ''OCB row-group index delta base counts do not match base index'') else
     if rgd_flags delta \<noteq> rgi_flags index
     then Inl (ocb_corrupt_file ''OCB row-group index delta flags do not match base index'') else
     sbind (delta_target_ordering_proof metadata delta) (\<lambda>target_ordering_proof.
     sbind (checked_delta_destination_len (length (rgi_row_groups index)) (length (rgd_row_groups delta))) (\<lambda>_.
     sbind (checked_delta_destination_len (length (rgi_column_chunks index)) (length (rgd_column_chunks delta))) (\<lambda>_.
     sbind (checked_delta_destination_len (length (rgi_stats index)) (length (rgd_stats delta))) (\<lambda>_.
     sbind (case target_ordering_proof of
              None \<Rightarrow> Inr 0
            | Some proof \<Rightarrow> checked_delta_destination_len (length (op_row_group_proofs proof))
                (length (rgd_row_group_ordering_proofs delta))) (\<lambda>_.
     sbind (row_group_index_delta_destination_extension_bytes h delta) (\<lambda>extension.
     sbind (charge metadata_budget extension) (\<lambda>metadata_budget.
     sbind (reserve_delta h TyRowGroupDesc (length (rgi_row_groups index)) (length (rgd_row_groups delta))) (\<lambda>_.
     sbind (reserve_delta h TyColumnChunkDesc (length (rgi_column_chunks index)) (length (rgd_column_chunks delta))) (\<lambda>_.
     sbind (reserve_delta h TyColumnStats (length (rgi_stats index)) (length (rgd_stats delta))) (\<lambda>_.
     sbind (case target_ordering_proof of
              None \<Rightarrow> Inr ()
            | Some proof \<Rightarrow> reserve_delta h TyRowGroupOrderingProof (length (op_row_group_proofs proof))
                (length (rgd_row_group_ordering_proofs delta))) (\<lambda>_.
     let ordering_proof =
           (case target_ordering_proof of
              None \<Rightarrow> md_ordering_proof metadata
            | Some proof \<Rightarrow> Some (proof\<lparr>op_row_group_proofs :=
                op_row_group_proofs proof @ rgd_row_group_ordering_proofs delta\<rparr>));
         index = index\<lparr>rgi_row_groups := rgi_row_groups index @ rgd_row_groups delta,
                       rgi_column_chunks := rgi_column_chunks index @ rgd_column_chunks delta,
                       rgi_stats := rgi_stats index @ rgd_stats delta\<rparr> in
     Inr (metadata\<lparr>md_row_group_index := index, md_ordering_proof := ordering_proof\<rparr>, metadata_budget)))))))))))))"

definition read_metadata_objects_v2_with_resource_limits ::
  "host \<Rightarrow> OcbReadCursor \<Rightarrow> u64 \<Rightarrow> OcbRootV2 \<Rightarrow> OcbResourceLimits \<Rightarrow> budget \<Rightarrow> (OcbMetadataV1 \<times> budget) result" where
  "read_metadata_objects_v2_with_resource_limits h file file_len root resource_limits metadata_budget =
     sbind (read_metadata_objects_with_resource_limits h file file_len (OcbRootV2_to_v1_root root)
        resource_limits metadata_budget) (\<lambda>(metadata, metadata_budget).
     let metadata = metadata\<lparr>md_appendable := True, md_root_generation := root2_generation root,
           md_previous_root_generation :=
             (if \<not> is_null (root2_previous_root_ref root) then Some (root2_previous_generation root) else None)\<rparr> in
     sbind (if br_kind (root2_commit_diagnostics_ref root) = BodyKind_RowGroupIndexDelta
            then sbind (read_object_bytes_with_resource_limits h file file_len (root2_commit_diagnostics_ref root)
                   BodyKind_RowGroupIndexDelta resource_limits) (\<lambda>delta_bytes.
                 sbind (OcbRowGroupIndexDeltaV1_read_from_bytes_with_budget h delta_bytes metadata_budget) (\<lambda>(delta, metadata_budget).
                 apply_row_group_index_delta h metadata delta metadata_budget))
            else Inr (metadata, metadata_budget)) (\<lambda>(metadata, metadata_budget).
     Inr (metadata\<lparr>md_open_metadata_materialized_bytes := charged_bytes metadata_budget\<rparr>, metadata_budget)))"

definition read_metadata_objects_v2 :: "host \<Rightarrow> OcbReadCursor \<Rightarrow> u64 \<Rightarrow> OcbRootV2 \<Rightarrow> OcbMetadataV1 result" where
  "read_metadata_objects_v2 h file file_len root =
     sbind (read_metadata_objects_v2_with_resource_limits h file file_len root policy_a
        (budget_from_limits policy_a)) (\<lambda>(metadata, _). Inr metadata)"

section \<open>The extent of a snapshot\<close>

definition body_ref_end :: "OcbBodyRefV2 \<Rightarrow> u64 result" where
  "body_ref_end reference =
     ok_or (checked_add (br_offset reference) (br_length reference))
       (ocb_corrupt_file ''OCB body reference range overflows'')"

definition update_max_ref_end :: "u64 \<Rightarrow> OcbBodyRefV2 \<Rightarrow> u64 result" where
  "update_max_ref_end max_end reference =
     (if is_null reference then Inr max_end
      else sbind (body_ref_end reference) (\<lambda>stop. Inr (max max_end stop)))"

text \<open>The references of a snapshot in the order in which the code visits them.\<close>

definition snapshot_references :: "OcbRootSlotV2 \<Rightarrow> OcbRootV2 \<Rightarrow> OcbMetadataV1 \<Rightarrow> OcbBodyRefV2 list" where
  "snapshot_references slot root metadata =
     [slot_root_ref slot, slot_previous_root_ref slot, slot_commit_diagnostics_ref slot,
      root2_previous_root_ref root, root2_schema_ref root, root2_dictionary_index_ref root,
      root2_row_group_index_ref root, root2_ordering_proof_ref root, root2_debug_json_ref root,
      root2_first_key_tuple_ref root, root2_last_key_tuple_ref root,
      root2_append_first_key_tuple_ref root, root2_append_last_key_tuple_ref root,
      root2_commit_diagnostics_ref root, sch_string_table_ref (md_schema metadata)] @
     (case md_dictionary_index metadata of
        Some dictionary_index \<Rightarrow> map dict_values_ref (dix_dictionaries dictionary_index)
      | None \<Rightarrow> []) @
     concat (map (\<lambda>row_group. [rg_first_key_tuple_ref row_group, rg_last_key_tuple_ref row_group])
       (rgi_row_groups (md_row_group_index metadata))) @
     concat (map (\<lambda>chunk. [chunk_value_ref chunk, chunk_validity_ref chunk])
       (rgi_column_chunks (md_row_group_index metadata))) @
     (case md_ordering_proof metadata of
        Some ordering_proof \<Rightarrow>
          concat (map (\<lambda>proof. [rgop_first_tuple_ref proof, rgop_last_tuple_ref proof])
            (op_row_group_proofs ordering_proof))
      | None \<Rightarrow> [])"

definition selected_snapshot_referenced_end :: "OcbRootSlotV2 \<Rightarrow> OcbRootV2 \<Rightarrow> OcbMetadataV1 \<Rightarrow> u64 result" where
  "selected_snapshot_referenced_end slot root metadata =
     for_each (\<lambda>reference max_end. update_max_ref_end max_end reference)
       (snapshot_references slot root metadata) (of_nat OCB_BOOTSTRAP_PAGE_V2_LEN)"

section \<open>What a delta does\<close>

text \<open>
  A delta fits the metadata it is applied to when its base counts are the sizes of the index,
  its flags agree, and its ordering partition is either empty or extends the ordering proof by
  one entry per added row group under the same keys.
\<close>

definition delta_ordering_matches :: "OcbMetadataV1 \<Rightarrow> OcbRowGroupIndexDeltaV1 \<Rightarrow> bool" where
  "delta_ordering_matches m d \<longleftrightarrow>
     (if rgd_row_group_ordering_proofs d = []
      then rgd_base_ordering_proof_count d = 0 \<and> rgd_ordering_keys d = []
      else rgd_base_ordering_proof_count d = rgd_base_row_group_count d \<and>
           length (rgd_row_group_ordering_proofs d) = length (rgd_row_groups d) \<and>
           (case md_ordering_proof m of
              None \<Rightarrow> False
            | Some proof \<Rightarrow>
                length (op_row_group_proofs proof) = unat (rgd_base_ordering_proof_count d) \<and>
                op_keys proof = rgd_ordering_keys d))"

definition delta_matches :: "OcbMetadataV1 \<Rightarrow> OcbRowGroupIndexDeltaV1 \<Rightarrow> bool" where
  "delta_matches m d \<longleftrightarrow>
     length (rgi_row_groups (md_row_group_index m)) = unat (rgd_base_row_group_count d) \<and>
     length (rgi_column_chunks (md_row_group_index m)) = unat (rgd_base_column_chunk_count d) \<and>
     length (rgi_stats (md_row_group_index m)) = unat (rgd_base_stat_count d) \<and>
     rgi_flags (md_row_group_index m) = rgd_flags d \<and> delta_ordering_matches m d"

text \<open>The metadata with the delta appended; nothing that was there before is changed.\<close>

definition extend_proof :: "OcbRowGroupIndexDeltaV1 \<Rightarrow> OcbOrderingProofV1 \<Rightarrow> OcbOrderingProofV1" where
  "extend_proof d proof = proof\<lparr>op_row_group_proofs := op_row_group_proofs proof @ rgd_row_group_ordering_proofs d\<rparr>"

definition delta_applied :: "OcbMetadataV1 \<Rightarrow> OcbRowGroupIndexDeltaV1 \<Rightarrow> OcbMetadataV1" where
  "delta_applied m d =
     m\<lparr>md_row_group_index := (md_row_group_index m)
         \<lparr>rgi_row_groups := rgi_row_groups (md_row_group_index m) @ rgd_row_groups d,
          rgi_column_chunks := rgi_column_chunks (md_row_group_index m) @ rgd_column_chunks d,
          rgi_stats := rgi_stats (md_row_group_index m) @ rgd_stats d\<rparr>,
       md_ordering_proof := map_option (extend_proof d) (md_ordering_proof m)\<rparr>"

definition delta_extension :: "host \<Rightarrow> OcbRowGroupIndexDeltaV1 \<Rightarrow> nat" where
  "delta_extension h d =
     length (rgd_row_groups d) * host_size_of h TyRowGroupDesc +
     length (rgd_column_chunks d) * host_size_of h TyColumnChunkDesc +
     length (rgd_stats d) * host_size_of h TyColumnStats +
     length (rgd_row_group_ordering_proofs d) * host_size_of h TyRowGroupOrderingProof"

text \<open>The extended vectors can be allocated.\<close>

definition delta_fits_memory :: "host \<Rightarrow> OcbMetadataV1 \<Rightarrow> OcbRowGroupIndexDeltaV1 \<Rightarrow> bool" where
  "delta_fits_memory h m d \<longleftrightarrow>
     length (rgi_row_groups (md_row_group_index m) @ rgd_row_groups d) * host_size_of h TyRowGroupDesc \<le> isize_max \<and>
     length (rgi_column_chunks (md_row_group_index m) @ rgd_column_chunks d) * host_size_of h TyColumnChunkDesc \<le> isize_max \<and>
     length (rgi_stats (md_row_group_index m) @ rgd_stats d) * host_size_of h TyColumnStats \<le> isize_max \<and>
     (case md_ordering_proof m of
        None \<Rightarrow> True
      | Some proof \<Rightarrow> length (op_row_group_proofs proof @ rgd_row_group_ordering_proofs d) *
          host_size_of h TyRowGroupOrderingProof \<le> isize_max)"

text \<open>What Rust guarantees of the sizes of the stored types, whether or not allocations succeed.\<close>

definition host_sized :: "host \<Rightarrow> bool" where
  "host_sized h \<longleftrightarrow> (\<forall>ty. 0 < host_size_of h ty \<and> host_size_of h ty \<le> isize_max)"

lemma host_ready_sized: "host_ready h \<Longrightarrow> host_sized h"
  by (simp add: host_ready_def host_sized_def)

lemma host_size_less: "host_sized h \<Longrightarrow> host_size_of h ty < 2 ^ 64"
  using isize_max_less [of "host_size_of h ty"] by (simp add: host_sized_def)

lemma delta_target_ordering_proof_Inr:
  "delta_target_ordering_proof m d = Inr tgt \<longleftrightarrow>
     delta_ordering_matches m d \<and>
     tgt = (if rgd_row_group_ordering_proofs d = [] then None else md_ordering_proof m)"
  by (auto simp: delta_target_ordering_proof_def delta_ordering_matches_def sbind_eq_Inr split: if_splits option.splits)

lemma delta_target_ordering_proof_errs [errs_intros]:
  "(\<And>m. P (ocb_corrupt_file m)) \<Longrightarrow> errs P (delta_target_ordering_proof m d)"
  unfolding delta_target_ordering_proof_def by (auto intro!: errs_intros)

lemma extend_proof_none: "rgd_row_group_ordering_proofs d = [] \<Longrightarrow> map_option (extend_proof d) x = x"
  by (cases x) (simp_all add: extend_proof_def)

lemma checked_retained_vec_bytes_Inr:
  "host_sized h \<Longrightarrow> checked_retained_vec_bytes h ty n = Inr w \<Longrightarrow> unat w = n * host_size_of h ty"
  using host_size_less [of h ty]
  by (auto simp: checked_retained_vec_bytes_def sbind_eq_Inr u64_try_from_Some unat_of_nat_u64
      dest!: checked_mul_Some)

lemma checked_retained_vec_bytes_ready:
  assumes "host_ready h" and "n * host_size_of h ty \<le> isize_max"
  shows "checked_retained_vec_bytes h ty n = Inr (of_nat (n * host_size_of h ty))"
  using checked_materialized_vec_bytes_ready [OF assms] host_size_less [OF host_ready_sized [OF assms(1)], of ty]
  by (auto simp: checked_materialized_vec_bytes_def checked_retained_vec_bytes_def sbind_eq_Inr u64_try_from_Some)

lemma delta_extension_bytes_Inr:
  assumes "host_sized h" and "row_group_index_delta_destination_extension_bytes h d = Inr w"
  shows "unat w = delta_extension h d"
  using assms(2)
  by (auto simp: row_group_index_delta_destination_extension_bytes_def delta_extension_def sbind_eq_Inr
      dest!: checked_add_Some checked_retained_vec_bytes_Inr [OF assms(1)])

lemma delta_extension_bytes_ready:
  assumes "host_ready h" and "delta_extension h d \<le> isize_max"
  shows "row_group_index_delta_destination_extension_bytes h d = Inr (of_nat (delta_extension h d))"
proof -
  let ?parts = "[length (rgd_row_groups d) * host_size_of h TyRowGroupDesc,
     length (rgd_column_chunks d) * host_size_of h TyColumnChunkDesc,
     length (rgd_stats d) * host_size_of h TyColumnStats,
     length (rgd_row_group_ordering_proofs d) * host_size_of h TyRowGroupOrderingProof]"
  have sum: "sum_list ?parts = delta_extension h d" by (simp add: delta_extension_def)
  have "delta_extension h d < 2 ^ 64" using assms(2) by (rule isize_max_less)
  then have "checked_materialized_sum (map of_nat ?parts) = Inr (of_nat (sum_list ?parts))"
    by (intro checked_materialized_sum_of_nats) (simp only: sum)
  then have add: "is_ok (row_group_index_delta_destination_extension_bytes h d)"
    using assms(2) checked_retained_vec_bytes_ready [OF assms(1)]
    by (auto simp: row_group_index_delta_destination_extension_bytes_def checked_materialized_sum_def
        delta_extension_def sbind_eq_Inr)
  then obtain w where w: "row_group_index_delta_destination_extension_bytes h d = Inr w"
    by (auto simp: is_ok_def split: sum.splits)
  from delta_extension_bytes_Inr [OF host_ready_sized [OF assms(1)] w] have "w = of_nat (delta_extension h d)"
    by (metis of_nat_unat ucast_id)
  with w show ?thesis by simp
qed

lemma reserve_delta_ready:
  "host_ready h \<Longrightarrow> (len + n) * host_size_of h ty \<le> isize_max \<Longrightarrow> reserve_delta h ty len n = Inr ()"
  by (simp add: reserve_delta_def try_reserve_exact_def host_ready_def)

lemma checked_delta_destination_len_ready:
  assumes "host_ready h" and "(len + n) * host_size_of h ty \<le> isize_max"
  shows "checked_delta_destination_len len n = Inr (len + n)"
proof -
  have "0 < host_size_of h ty" using assms(1) by (simp add: host_ready_def)
  then have "(len + n) * 1 \<le> (len + n) * host_size_of h ty" by (intro mult_le_mono2) simp
  also note assms(2)
  finally have "len + n \<le> usize_max" by (intro isize_max_less_usize_max) simp
  then show ?thesis by (simp add: checked_delta_destination_len_def usize_checked_add_def usize_try_from_def)
qed

lemma apply_row_group_index_delta_sound:
  assumes "apply_row_group_index_delta h m d b = Inr (m', b')"
  shows "delta_matches m d" and "m' = delta_applied m d" and "host_sized h \<Longrightarrow> charges b b' (delta_extension h d)"
proof -
  have "\<exists>w. delta_matches m d \<and> m' = delta_applied m d \<and>
      row_group_index_delta_destination_extension_bytes h d = Inr w \<and> charge b w = Inr b'"
  proof (cases "rgd_row_group_ordering_proofs d = []")
    case True
    with assms show ?thesis
      by (auto simp: apply_row_group_index_delta_def Let_def sbind_eq_Inr delta_target_ordering_proof_Inr
          delta_matches_def delta_applied_def extend_proof_none [OF True] split: if_splits)
  next
    case False
    with assms show ?thesis
      by (cases "md_ordering_proof m")
        (auto simp: apply_row_group_index_delta_def Let_def sbind_eq_Inr delta_target_ordering_proof_Inr
          delta_ordering_matches_def delta_matches_def delta_applied_def extend_proof_def split: if_splits)
  qed
  then obtain w where dm: "delta_matches m d" and m': "m' = delta_applied m d"
    and w: "row_group_index_delta_destination_extension_bytes h d = Inr w" and b': "charge b w = Inr b'"
    by blast
  from dm m' show "delta_matches m d" "m' = delta_applied m d" .
  show "charges b b' (delta_extension h d)" if "host_sized h"
    using charge_charges [OF b'] delta_extension_bytes_Inr [OF that w] by simp
qed

lemma apply_row_group_index_delta_complete:
  assumes "delta_matches m d" and "host_ready h" and "delta_fits_memory h m d" and "fits b (delta_extension h d)"
  shows "apply_row_group_index_delta h m d b = Inr (delta_applied m d, charged b (delta_extension h d))"
proof -
  note ext = delta_extension_bytes_ready [OF assms(2)]
  have small: "delta_extension h d \<le> isize_max" using assms(4) by (simp add: fits_def)
  let ?i = "md_row_group_index m"
  have mem: "(length (rgi_row_groups ?i) + length (rgd_row_groups d)) * host_size_of h TyRowGroupDesc \<le> isize_max"
    "(length (rgi_column_chunks ?i) + length (rgd_column_chunks d)) * host_size_of h TyColumnChunkDesc \<le> isize_max"
    "(length (rgi_stats ?i) + length (rgd_stats d)) * host_size_of h TyColumnStats \<le> isize_max"
    using assms(3) by (simp_all add: delta_fits_memory_def)
  note ready = mem [THEN checked_delta_destination_len_ready [OF assms(2)]] mem [THEN reserve_delta_ready [OF assms(2)]]
  have counts: "length (rgi_row_groups ?i) = unat (rgd_base_row_group_count d)"
    "length (rgi_column_chunks ?i) = unat (rgd_base_column_chunk_count d)"
    "length (rgi_stats ?i) = unat (rgd_base_stat_count d)" "rgi_flags ?i = rgd_flags d"
    using assms(1) by (simp_all add: delta_matches_def)
  show ?thesis
  proof (cases "rgd_row_group_ordering_proofs d = []")
    case True
    then have "delta_target_ordering_proof m d = Inr None"
      using assms(1) by (simp add: delta_target_ordering_proof_Inr delta_matches_def)
    then show ?thesis
      by (simp add: apply_row_group_index_delta_def Let_def counts ready [unfolded counts]
          ext [OF small] charge_fits [OF assms(4)] delta_applied_def extend_proof_none [OF True])
  next
    case False
    with assms(1) obtain pr where p: "md_ordering_proof m = Some pr"
      by (auto simp: delta_matches_def delta_ordering_matches_def split: option.splits)
    then have "delta_target_ordering_proof m d = Inr (Some pr)"
      using assms(1) False by (simp add: delta_target_ordering_proof_Inr delta_matches_def)
    moreover have mem': "(length (op_row_group_proofs pr) + length (rgd_row_group_ordering_proofs d)) *
        host_size_of h TyRowGroupOrderingProof \<le> isize_max"
      using assms(3) p by (simp add: delta_fits_memory_def)
    note checked_delta_destination_len_ready [OF assms(2) mem'] reserve_delta_ready [OF assms(2) mem']
    ultimately show ?thesis
      by (simp add: apply_row_group_index_delta_def Let_def counts ready [unfolded counts] p
          ext [OF small] charge_fits [OF assms(4)] delta_applied_def extend_proof_def)
  qed
qed

section \<open>What opening the metadata charges\<close>

definition metadata_retained :: "host \<Rightarrow> OcbMetadataV1 \<Rightarrow> nat" where
  "metadata_retained h m =
     schema_retained h (md_schema m) + string_table_retained h (md_string_table m) +
     (case md_dictionary_index m of None \<Rightarrow> 0 | Some x \<Rightarrow> dictionary_index_retained h x) +
     row_group_index_retained h (md_row_group_index m) +
     (case md_ordering_proof m of None \<Rightarrow> 0 | Some x \<Rightarrow> ordering_proof_retained h x)"

lemma charges_trans: "charges a b m \<Longrightarrow> charges b c n \<Longrightarrow> charges a c (m + n)"
  by (simp add: charges_def)

lemma charges_refl: "budget_ok b \<Longrightarrow> charges b b 0"
  by (simp add: charges_def)

lemma charges_budget_ok: "charges a b n \<Longrightarrow> budget_ok b"
  by (simp add: charges_def)

text \<open>An optional object is read and charged, or absent and free.\<close>

lemma optional_object_charges:
  assumes "(if null then Inr (None, b) else sbind r (\<lambda>bs. sbind (rd bs b) (\<lambda>(x, b). Inr (Some x, b)))) = Inr (ox, b')"
    and "\<And>bs x b'. rd bs b = Inr (x, b') \<Longrightarrow> charges b b' (ret x)" and "budget_ok b"
  shows "charges b b' (case ox of None \<Rightarrow> 0 | Some x \<Rightarrow> ret x)"
  using assms by (auto simp: sbind_eq_Inr charges_refl split: if_splits)

lemma read_metadata_objects_charges:
  assumes "read_metadata_objects_with_resource_limits h file file_len root limits b = Inr (m, b')"
  shows "charges b b' (metadata_retained h m)"
proof -
  from assms obtain bs1 schema b1 bs2 strings b2 dict b3 bs3 index b4 pr where
    1: "OcbSchemaV1_read_from_bytes_with_budget h bs1 b = Inr (schema, b1)" and
    2: "OcbStringTableV1_read_from_bytes_with_budget h bs2 b1 = Inr (strings, b2)" and
    3: "(if is_null (root1_dictionary_index_ref root) then Inr (None, b2)
         else sbind (read_object_bytes_with_resource_limits h file file_len (root1_dictionary_index_ref root)
                BodyKind_DictionaryIndex limits) (\<lambda>bs.
              sbind (OcbDictionaryIndexV1_read_from_bytes_with_budget h bs b2) (\<lambda>(x, b). Inr (Some x, b)))) = Inr (dict, b3)" and
    4: "OcbRowGroupIndexV1_read_from_bytes_with_budget h bs3 b3 = Inr (index, b4)" and
    5: "(if is_null (root1_ordering_proof_ref root) then Inr (None, b4)
         else sbind (read_object_bytes_with_resource_limits h file file_len (root1_ordering_proof_ref root)
                BodyKind_OrderingProof limits) (\<lambda>bs.
              sbind (OcbOrderingProofV1_read_from_bytes_with_budget h bs b4) (\<lambda>(x, b). Inr (Some x, b)))) = Inr (pr, b')" and
    m: "md_schema m = schema" "md_string_table m = strings" "md_dictionary_index m = dict"
      "md_row_group_index m = index" "md_ordering_proof m = pr"
    unfolding read_metadata_objects_with_resource_limits_def
    by (elim sbind_pairE sbind_InrE) (rule that, assumption+, auto)
  note c1 = schema.rd_charges [OF 1] and c2 = string_table.rd_charges [OF 2]
  note c12 = charges_trans [OF c1 c2]
  have c3: "charges b2 b3 (case dict of None \<Rightarrow> 0 | Some x \<Rightarrow> dictionary_index_retained h x)"
    using 3 dictionary_index.rd_charges charges_budget_ok [OF c2]
    by (rule optional_object_charges [where rd = "OcbDictionaryIndexV1_read_from_bytes_with_budget h"])
  note c4 = row_group_index.rd_charges [OF 4]
  have c5: "charges b4 b' (case pr of None \<Rightarrow> 0 | Some x \<Rightarrow> ordering_proof_retained h x)"
    using 5 ordering_proof.rd_charges charges_budget_ok [OF c4]
    by (rule optional_object_charges [where rd = "OcbOrderingProofV1_read_from_bytes_with_budget h"])
  from charges_trans [OF charges_trans [OF charges_trans [OF c12 c3] c4] c5] show ?thesis
    by (simp add: metadata_retained_def m add.assoc)
qed

lemma metadata_retained_applied:
  assumes "delta_matches m d"
  shows "metadata_retained h (delta_applied m d) = metadata_retained h m + delta_extension h d"
  using assms
  by (cases "md_ordering_proof m")
    (auto simp: metadata_retained_def delta_applied_def delta_extension_def row_group_index_retained_def
      ordering_proof_retained_def extend_proof_def delta_matches_def delta_ordering_matches_def
      add_mult_distrib split: if_splits)

lemma metadata_retained_update [simp]:
  "metadata_retained h (m\<lparr>md_appendable := a, md_root_generation := g, md_previous_root_generation := p\<rparr>) = metadata_retained h m"
  "metadata_retained h (m\<lparr>md_open_metadata_materialized_bytes := n\<rparr>) = metadata_retained h m"
  by (simp_all add: metadata_retained_def)

text \<open>
  What opening charges is what the metadata retains, plus what parsing a delta retained on the way.
\<close>

lemma read_metadata_objects_v2_charges:
  assumes "read_metadata_objects_v2_with_resource_limits h file file_len root limits b = Inr (m, b')"
    and "host_sized h"
  shows "\<exists>n. charges b b' (metadata_retained h m + n) \<and>
      (if br_kind (root2_commit_diagnostics_ref root) = BodyKind_RowGroupIndexDelta
       then \<exists>d. n = row_group_delta_retained h d else n = 0) \<and>
      md_open_metadata_materialized_bytes m = charged_bytes b'"
proof -
  from assms(1) obtain m0 b0 m1 where
    0: "read_metadata_objects_with_resource_limits h file file_len (OcbRootV2_to_v1_root root) limits b = Inr (m0, b0)" and
    1: "(let metadata = m0\<lparr>md_appendable := True, md_root_generation := root2_generation root,
           md_previous_root_generation :=
             (if \<not> is_null (root2_previous_root_ref root) then Some (root2_previous_generation root) else None)\<rparr> in
        if br_kind (root2_commit_diagnostics_ref root) = BodyKind_RowGroupIndexDelta
        then sbind (read_object_bytes_with_resource_limits h file file_len (root2_commit_diagnostics_ref root)
               BodyKind_RowGroupIndexDelta limits) (\<lambda>delta_bytes.
             sbind (OcbRowGroupIndexDeltaV1_read_from_bytes_with_budget h delta_bytes b0) (\<lambda>(delta, b).
             apply_row_group_index_delta h metadata delta b))
        else Inr (metadata, b0)) = Inr (m1, b')" and
    m: "m = m1\<lparr>md_open_metadata_materialized_bytes := charged_bytes b'\<rparr>"
    unfolding read_metadata_objects_v2_with_resource_limits_def Let_def
    by (elim sbind_pairE) auto
  note c0 = read_metadata_objects_charges [OF 0]
  have "\<exists>n. charges b b' (metadata_retained h m1 + n) \<and>
      (if br_kind (root2_commit_diagnostics_ref root) = BodyKind_RowGroupIndexDelta
       then \<exists>d. n = row_group_delta_retained h d else n = 0)"
  proof (cases "br_kind (root2_commit_diagnostics_ref root) = BodyKind_RowGroupIndexDelta")
    case False
    with 1 c0 show ?thesis by (auto simp: Let_def)
  next
    case True
    with 1 obtain bs d b1 m2 where d: "OcbRowGroupIndexDeltaV1_read_from_bytes_with_budget h bs b0 = Inr (d, b1)"
      and a: "apply_row_group_index_delta h m2 d b1 = Inr (m1, b')"
      and m2: "metadata_retained h m2 = metadata_retained h m0"
      by (auto simp: Let_def elim!: sbind_pairE sbind_InrE)
    note s = apply_row_group_index_delta_sound [OF a]
    have "charges b b' (metadata_retained h m0 + row_group_delta_retained h d + delta_extension h d)"
      by (rule charges_trans [OF charges_trans [OF c0 row_group_delta.rd_charges [OF d]] s(3) [OF assms(2)]])
    then have "charges b b' (metadata_retained h m1 + row_group_delta_retained h d)"
      using metadata_retained_applied [OF s(1)] by (simp add: s(2) m2 ac_simps)
    with True show ?thesis by auto
  qed
  then show ?thesis by (simp add: m)
qed

section \<open>The extent of a snapshot\<close>

definition ref_stop :: "OcbBodyRefV2 \<Rightarrow> nat" where
  "ref_stop r = unat (br_offset r) + unat (br_length r)"

lemma update_max_ref_end_Inr:
  "update_max_ref_end e r = Inr e' \<longleftrightarrow>
     (is_null r \<and> e' = e) \<or> (\<not> is_null r \<and> ref_stop r < 2 ^ 64 \<and> unat e' = max (unat e) (ref_stop r))"
proof (cases "is_null r")
  case False
  have stop: "body_ref_end r = (if ref_stop r < 2 ^ 64 then Inr (of_nat (ref_stop r))
      else Inl (ocb_corrupt_file ''OCB body reference range overflows''))"
    by (simp add: body_ref_end_def checked_add_def ref_stop_def)
  have "max e (of_nat (ref_stop r)) = e' \<longleftrightarrow> unat e' = max (unat e) (ref_stop r)" if "ref_stop r < 2 ^ 64"
    using unat_of_nat_u64 [OF that] by (auto simp: word_unat_eq_iff max_def word_le_nat_alt)
  with False show ?thesis by (auto simp: update_max_ref_end_def stop)
next
  case True
  then show ?thesis by (auto simp: update_max_ref_end_def)
qed

text \<open>The end is the least upper bound of the bootstrap page and the ranges of all references.\<close>

lemma max_ref_end_fold:
  "for_each (\<lambda>r e. update_max_ref_end e r) rs e = Inr e' \<longleftrightarrow>
     (\<forall>r \<in> set rs. \<not> is_null r \<longrightarrow> ref_stop r < 2 ^ 64) \<and>
     unat e' = Max (insert (unat e) (ref_stop ` {r \<in> set rs. \<not> is_null r}))"
proof (induction rs arbitrary: e)
  case Nil
  then show ?case by (auto simp: word_unat_eq_iff)
next
  case (Cons r rs)
  let ?E = "\<lambda>x. insert x (ref_stop ` {r \<in> set rs. \<not> is_null r})"
  show ?case
  proof (cases "is_null r")
    case True
    then have "{x. (x = r \<or> x \<in> set rs) \<and> \<not> is_null x} = {x \<in> set rs. \<not> is_null x}" by auto
    then show ?thesis using True Cons.IH [of e] by (simp add: update_max_ref_end_def)
  next
    case False
    then have set: "insert (unat e) (ref_stop ` {x. (x = r \<or> x \<in> set rs) \<and> \<not> is_null x}) = insert (ref_stop r) (?E (unat e))"
      by auto
    have mx: "Max (?E (max (unat e) (ref_stop r))) = Max (insert (ref_stop r) (?E (unat e)))"
      by (rule Max_insert_max) simp
    show ?thesis
    proof (cases "ref_stop r < 2 ^ 64")
      case fits: True
      have lt: "max (unat e) (ref_stop r) < 2 ^ 64"
        using fits unsigned_less [of e, where ?'a = nat] by simp
      let ?e = "of_nat (max (unat e) (ref_stop r)) :: u64"
      have e: "unat ?e = max (unat e) (ref_stop r)" using lt by (rule unat_of_nat_u64)
      have upd: "update_max_ref_end e r = Inr ?e" using False fits e by (simp add: update_max_ref_end_Inr)
      have IH: "for_each (\<lambda>r e. update_max_ref_end e r) rs ?e = Inr e' \<longleftrightarrow>
          (\<forall>r \<in> set rs. \<not> is_null r \<longrightarrow> ref_stop r < 2 ^ 64) \<and> unat e' = Max (insert (ref_stop r) (?E (unat e)))"
        using Cons.IH [of ?e] unfolding e mx .
      show ?thesis using False fits IH by (simp add: upd set del: Max_insert)
    next
      case big: False
      then have "\<nexists>x. update_max_ref_end e r = Inr x" using False by (simp add: update_max_ref_end_Inr)
      then show ?thesis using False big by (auto simp: sbind_eq_Inr)
    qed
  qed
qed

section \<open>Properties\<close>

definition example_row_group :: OcbRowGroupDescV1 where
  "example_row_group =
     \<lparr>rg_row_group_id = 0, rg_flags = 0, rg_base_row = 0, rg_row_count = 2, rg_chunk_desc_begin = 0,
      rg_chunk_desc_count = 1, rg_stat_begin = 0, rg_stat_count = 0,
      rg_first_key_tuple_ref = OcbBodyRefV2_NULL, rg_last_key_tuple_ref = OcbBodyRefV2_NULL\<rparr>"

definition example_metadata :: OcbMetadataV1 where
  "example_metadata =
     \<lparr>md_root = OcbRootV2_to_v1_root example_root,
      md_string_table = \<lparr>st_version = 1, st_strings = [], st_crc32c = 0\<rparr>,
      md_schema = \<lparr>sch_version = 1, sch_string_table_ref = OcbBodyRefV2_new 5000 24 BodyKind_StringTable 0,
        sch_columns = [], sch_crc32c = 0\<rparr>,
      md_dictionary_index = None,
      md_row_group_index = \<lparr>rgi_version = 1, rgi_flags = 0, rgi_row_groups = [example_row_group],
        rgi_column_chunks = [example_chunk], rgi_stats = [], rgi_crc32c = 0\<rparr>,
      md_row_group_positions_by_id = [], md_ordering_proof = None,
      md_file_len = 6000, md_appendable = True, md_root_generation = 1, md_previous_root_generation = None,
      md_resource_limits = policy_a, md_open_metadata_materialized_bytes = 0,
      md_open_auxiliary_encoded_bytes = 0\<rparr>"

definition example_delta :: OcbRowGroupIndexDeltaV1 where
  "example_delta =
     \<lparr>rgd_version = 1, rgd_flags = 0, rgd_base_row_group_count = 1, rgd_base_column_chunk_count = 1,
      rgd_base_stat_count = 0, rgd_base_ordering_proof_count = 0,
      rgd_row_groups = [example_row_group\<lparr>rg_row_group_id := 1, rg_base_row := 2, rg_chunk_desc_begin := 1\<rparr>],
      rgd_column_chunks = [example_chunk\<lparr>chunk_row_group_id := 1\<rparr>], rgd_stats = [],
      rgd_ordering_keys = [], rgd_row_group_ordering_proofs = [], rgd_crc32c = 0\<rparr>"

text \<open>C21. Applying a row-group index delta succeeds exactly on deltas that fit the index they are
  applied to; the result is the index with the delta's row groups, chunks, statistics and
  ordering proofs appended and nothing else changed, and exactly the bytes the appended
  descriptors take are charged.\<close>

theorem apply_row_group_index_delta_iff:
  assumes "host_ready h" and "delta_fits_memory h m d" and "fits b (delta_extension h d)"
  shows "apply_row_group_index_delta h m d b = Inr r \<longleftrightarrow>
     delta_matches m d \<and> r = (delta_applied m d, charged b (delta_extension h d))"
proof
  assume r: "apply_row_group_index_delta h m d b = Inr r"
  then have "delta_matches m d" using apply_row_group_index_delta_sound(1) [of h m d b "fst r" "snd r"] by simp
  with apply_row_group_index_delta_complete [OF this assms] r
  show "delta_matches m d \<and> r = (delta_applied m d, charged b (delta_extension h d))" by simp
qed (auto intro: apply_row_group_index_delta_complete assms)

theorem apply_row_group_index_delta_iff_witness:
  "\<exists>m b. apply_row_group_index_delta example_host example_metadata example_delta (budget_new 1000) = Inr (m, b) \<and>
     map rg_row_group_id (rgi_row_groups (md_row_group_index m)) = [0, 1] \<and> charged_bytes b = 64"
proof -
  have "delta_fits_memory example_host example_metadata example_delta"
    by (simp add: delta_fits_memory_def example_host_def example_metadata_def example_delta_def isize_max_def)
  moreover have "fits (budget_new 1000) (delta_extension example_host example_delta)"
    by (simp add: fits_def delta_extension_def example_host_def example_delta_def isize_max_def budget_new_def)
  moreover have "delta_matches example_metadata example_delta"
    by (simp add: delta_matches_def delta_ordering_matches_def example_metadata_def example_delta_def)
  ultimately have "apply_row_group_index_delta example_host example_metadata example_delta (budget_new 1000) =
      Inr (delta_applied example_metadata example_delta,
        charged (budget_new 1000) (delta_extension example_host example_delta))"
    using apply_row_group_index_delta_iff [OF example_host_ready] by blast
  then show ?thesis
    by (simp add: delta_applied_def example_metadata_def example_delta_def example_row_group_def charged_def
        delta_extension_def example_host_def budget_new_def)
qed

text \<open>C26. The end of a snapshot is the largest end of the bootstrap page and of all ranges its
  references name; it is computed exactly when no reference overflows.\<close>

theorem selected_snapshot_referenced_end_is_max:
  "selected_snapshot_referenced_end slot root m = Inr e \<longleftrightarrow>
     (\<forall>r \<in> set (snapshot_references slot root m). is_null r \<or> ref_stop r < 2 ^ 64) \<and>
     unat e = Max (insert 4096 (ref_stop ` {r \<in> set (snapshot_references slot root m). \<not> is_null r}))"
proof -
  have "unat (of_nat OCB_BOOTSTRAP_PAGE_V2_LEN :: u64) = 4096" by (simp add: OCB_BOOTSTRAP_PAGE_V2_LEN_def OCB_BOOTSTRAP_PAGE_V1_LEN_def)
  then show ?thesis unfolding selected_snapshot_referenced_end_def max_ref_end_fold by auto
qed

theorem selected_snapshot_referenced_end_is_max_witness:
  "selected_snapshot_referenced_end (OcbRootSlotV2_empty 0) example_root example_metadata = Inr 5024"
proof -
  let ?refs = "snapshot_references (OcbRootSlotV2_empty 0) example_root example_metadata"
  have refs: "map ref_stop (filter (\<lambda>r. \<not> is_null r) ?refs) = [4184, 4220, 5024, 50]"
    by (simp add: snapshot_references_def OcbRootSlotV2_empty_def example_root_def example_metadata_def
        example_row_group_def example_chunk_def OcbBodyRefV2_new_def is_null_def OcbBodyRefV2_NULL_def ref_stop_def)
  have "ref_stop ` {r \<in> set ?refs. \<not> is_null r} = set (map ref_stop (filter (\<lambda>r. \<not> is_null r) ?refs))" by simp
  then have stops: "ref_stop ` {r \<in> set ?refs. \<not> is_null r} = {4184, 4220, 5024, 50}" unfolding refs by simp
  have "is_null r \<or> ref_stop r < 2 ^ 64" if "r \<in> set ?refs" for r
  proof (cases "is_null r")
    case False
    with that have "ref_stop r \<in> {4184, 4220, 5024, 50}" unfolding stops [symmetric] by blast
    then show ?thesis by auto
  qed simp
  moreover have "unat (5024 :: u64) = Max (insert 4096 (ref_stop ` {r \<in> set ?refs. \<not> is_null r}))"
    unfolding stops by simp
  ultimately show ?thesis unfolding selected_snapshot_referenced_end_is_max by blast
qed

end
