(* ===== verification/Aux_Cache.thy ===== *)
theory Aux_Cache
  imports Metadata
begin

text \<open>
  The open-scoped cache of auxiliary objects (\<open>OcbOpenAuxiliaryObjectCache\<close> of \<open>read.rs\<close>): dictionary
  values and key tuples are charged once and validated once per open, across all root candidates
  that are tried.  The cache is shared by the candidates, so its operations are actions on a
  state that survives their failure.
\<close>

section \<open>Keys and entries\<close>

record OcbAuxiliaryBodyRefKey =
  key_offset :: u64
  key_length :: u64
  key_kind :: u16
  key_flags :: u16
  key_checksum_kind :: u16
  key_reserved0 :: u16
  key_checksum :: u32
  key_reserved1 :: u32

definition OcbAuxiliaryBodyRefKey_from :: "OcbBodyRefV2 \<Rightarrow> OcbAuxiliaryBodyRefKey" where
  "OcbAuxiliaryBodyRefKey_from reference =
     \<lparr>key_offset = br_offset reference, key_length = br_length reference,
      key_kind = OcbBodyKindV1_to_u16 (br_kind reference), key_flags = br_flags reference,
      key_checksum_kind = OcbChecksumKindV1_to_u16 (br_checksum_kind reference),
      key_reserved0 = br_reserved0 reference, key_checksum = br_checksum reference,
      key_reserved1 = br_reserved1 reference\<rparr>"

record OcbDictionaryValuesSummary =
  dvs_value_kind :: OcbDictionaryValueKindV1
  dvs_entry_count :: u64
  dvs_fixed_width :: u32

datatype OcbAuxiliaryObjectState =
    Pending
  | KeyTupleValidated
  | DictionaryValues OcbDictionaryValuesSummary

record OcbOpenAuxiliaryObjectCache =
  aux_objects :: "(OcbAuxiliaryBodyRefKey, OcbAuxiliaryObjectState) hash_map"
  aux_total_unique_bytes :: u64
  aux_resource_limits :: OcbResourceLimits

definition OcbOpenAuxiliaryObjectCache_new :: "OcbResourceLimits \<Rightarrow> OcbOpenAuxiliaryObjectCache" where
  "OcbOpenAuxiliaryObjectCache_new resource_limits =
     \<lparr>aux_objects = [], aux_total_unique_bytes = 0, aux_resource_limits = resource_limits\<rparr>"

definition metadata_graph_allocation_error :: ArcadiaTioError where
  "metadata_graph_allocation_error =
     Io (IoError IoKind_OutOfMemory ''OCB metadata-graph allocation failed within resource limit'')"

text \<open>\<open>try_reserve(n).map_err(|_| metadata_graph_allocation_error())?\<close> on a table of \<open>len\<close> entries.\<close>

definition graph_reserve :: "host \<Rightarrow> nat \<Rightarrow> nat \<Rightarrow> unit result" where
  "graph_reserve h len additional =
     (if hash_try_reserve h len additional ''OCB metadata-graph allocation failed within resource limit''
      then Inr () else Inl metadata_graph_allocation_error)"

section \<open>Operations\<close>

type_synonym 'a cached = "(OcbOpenAuxiliaryObjectCache, 'a) action"

definition charge_unique :: "host \<Rightarrow> OcbBodyRefV2 \<Rightarrow> unit cached" where
  "charge_unique h reference self =
     (let key = OcbAuxiliaryBodyRefKey_from reference in
      if hash_contains (aux_objects self) key then (Inr (), self)
      else case checked_add (aux_total_unique_bytes self) (br_length reference) of
        None \<Rightarrow> (Inl (ocb_invalid_input ''OCB open auxiliary-object byte total overflows''), self)
      | Some total_unique_bytes \<Rightarrow>
          if total_unique_bytes > max_owned_selected_compressed_bytes (aux_resource_limits self)
          then (Inl (ocb_invalid_input ''OCB open auxiliary-object bytes exceed resource limit''), self)
          else case graph_reserve h (length (aux_objects self)) 1 of
            Inl e \<Rightarrow> (Inl e, self)
          | Inr _ \<Rightarrow>
              (Inr (), self\<lparr>aux_objects := hash_insert (aux_objects self) key Pending,
                            aux_total_unique_bytes := total_unique_bytes\<rparr>))"

text \<open>
  The references a visitor is called with, in order: \<open>visit_auxiliary_object_references\<close> and
  \<open>visit_optional_key_tuple\<close>, which skips absent references.
\<close>

definition visit_optional_key_tuple :: "OcbBodyRefV2 \<Rightarrow> (OcbBodyRefV2 \<times> OcbBodyKindV1) list" where
  "visit_optional_key_tuple reference = (if \<not> is_null reference then [(reference, BodyKind_KeyTuple)] else [])"

definition visit_auxiliary_object_references ::
  "OcbMetadataV1 \<Rightarrow> OcbRootV2 option \<Rightarrow> (OcbBodyRefV2 \<times> OcbBodyKindV1) list" where
  "visit_auxiliary_object_references metadata v2_root =
     (case md_dictionary_index metadata of
        Some dictionary_index \<Rightarrow>
          map (\<lambda>dictionary. (dict_values_ref dictionary, BodyKind_DictionaryValues)) (dix_dictionaries dictionary_index)
      | None \<Rightarrow> []) @
     concat (map (\<lambda>row_group. visit_optional_key_tuple (rg_first_key_tuple_ref row_group) @
                              visit_optional_key_tuple (rg_last_key_tuple_ref row_group))
       (rgi_row_groups (md_row_group_index metadata))) @
     (case md_ordering_proof metadata of
        Some ordering_proof \<Rightarrow>
          concat (map (\<lambda>proof. visit_optional_key_tuple (rgop_first_tuple_ref proof) @
                               visit_optional_key_tuple (rgop_last_tuple_ref proof))
            (op_row_group_proofs ordering_proof))
      | None \<Rightarrow> []) @
     (case v2_root of
        Some root \<Rightarrow>
          visit_optional_key_tuple (root2_first_key_tuple_ref root) @
          visit_optional_key_tuple (root2_last_key_tuple_ref root) @
          visit_optional_key_tuple (root2_append_first_key_tuple_ref root) @
          visit_optional_key_tuple (root2_append_last_key_tuple_ref root)
      | None \<Rightarrow> [])"

definition preflight_with :: "host \<Rightarrow> u64 \<Rightarrow> (OcbBodyRefV2 \<times> OcbBodyKindV1) list \<Rightarrow> unit cached" where
  "preflight_with h file_len visited =
     abind (afor_each (\<lambda>(reference, expected_kind) _.
        atry (OcbBodyRefV2_validate reference expected_kind file_len)) visited ()) (\<lambda>_.
     afor_each (\<lambda>(reference, _) _. charge_unique h reference) visited ())"

definition preflight :: "host \<Rightarrow> OcbMetadataV1 \<Rightarrow> OcbRootV2 option \<Rightarrow> unit cached" where
  "preflight h metadata v2_root =
     preflight_with h (md_file_len metadata) (visit_auxiliary_object_references metadata v2_root)"

definition dictionary_values_summary ::
  "host \<Rightarrow> OcbReadCursor \<Rightarrow> u64 \<Rightarrow> OcbBodyRefV2 \<Rightarrow> budget \<Rightarrow> (OcbDictionaryValuesSummary \<times> budget) cached" where
  "dictionary_values_summary h reader file_len reference metadata_budget self =
     (let key = OcbAuxiliaryBodyRefKey_from reference in
      case hash_get (aux_objects self) key of
        Some (DictionaryValues summary) \<Rightarrow> (Inr (summary, metadata_budget), self)
      | Some Pending \<Rightarrow>
          (case sbind (read_object_bytes_inner_with_limits h reader file_len reference BodyKind_DictionaryValues
                  (max_encoded_object_bytes (aux_resource_limits self)) (of_nat usize_max)) (\<lambda>values_bytes.
                OcbDictionaryValuesV1_read_from_bytes_with_budget h values_bytes metadata_budget) of
             Inl e \<Rightarrow> (Inl e, self)
           | Inr (values, metadata_budget) \<Rightarrow>
               let summary = \<lparr>dvs_value_kind = dv_value_kind values,
                              dvs_entry_count = of_nat (length (dv_values values)),
                              dvs_fixed_width = dv_fixed_width values\<rparr> in
               if hash_contains (aux_objects self) key
               then (Inr (summary, metadata_budget),
                     self\<lparr>aux_objects := hash_insert (aux_objects self) key (DictionaryValues summary)\<rparr>)
               else (Inl (ocb_corrupt_file ''OCB dictionary values reference disappeared after preflight''), self))
      | Some KeyTupleValidated \<Rightarrow>
          (Inl (ocb_corrupt_file ''OCB dictionary values reference was not preflighted''), self)
      | None \<Rightarrow>
          (Inl (ocb_corrupt_file ''OCB dictionary values reference was not preflighted''), self))"

definition validate_key_tuple :: "host \<Rightarrow> OcbReadCursor \<Rightarrow> u64 \<Rightarrow> OcbBodyRefV2 \<Rightarrow> unit cached" where
  "validate_key_tuple h reader file_len reference self =
     (if is_null reference then (Inr (), self) else
      let key = OcbAuxiliaryBodyRefKey_from reference in
      case hash_get (aux_objects self) key of
        Some KeyTupleValidated \<Rightarrow> (Inr (), self)
      | Some Pending \<Rightarrow>
          (case read_object_bytes_inner_with_limits h reader file_len reference BodyKind_KeyTuple
                  (max_encoded_object_bytes (aux_resource_limits self)) (of_nat usize_max) of
             Inl e \<Rightarrow> (Inl e, self)
           | Inr _ \<Rightarrow>
               if hash_contains (aux_objects self) key
               then (Inr (), self\<lparr>aux_objects := hash_insert (aux_objects self) key KeyTupleValidated\<rparr>)
               else (Inl (ocb_corrupt_file ''OCB key-tuple reference disappeared after preflight''), self))
      | Some (DictionaryValues _) \<Rightarrow>
          (Inl (ocb_corrupt_file ''OCB key-tuple reference was not preflighted''), self)
      | None \<Rightarrow>
          (Inl (ocb_corrupt_file ''OCB key-tuple reference was not preflighted''), self))"

section \<open>Keys identify references\<close>

lemma OcbAuxiliaryBodyRefKey_from_inject:
  "OcbAuxiliaryBodyRefKey_from r = OcbAuxiliaryBodyRefKey_from r' \<longleftrightarrow> r = r'"
  by (cases r; cases r')
    (auto simp: OcbAuxiliaryBodyRefKey_from_def body_kind.to_raw_inject checksum_kind.to_raw_inject)

section \<open>The cache invariant\<close>

text \<open>
  The total is the sum of the lengths of the references that were charged, each once, and stays
  within the limit; and every verdict in the cache is true of the file: a validated key tuple can
  be read, and a dictionary summary describes the values object at its reference.
\<close>

definition summary_of :: "OcbDictionaryValuesV1 \<Rightarrow> OcbDictionaryValuesSummary" where
  "summary_of values = \<lparr>dvs_value_kind = dv_value_kind values,
     dvs_entry_count = of_nat (length (dv_values values)), dvs_fixed_width = dv_fixed_width values\<rparr>"

definition accounting_ok :: "OcbOpenAuxiliaryObjectCache \<Rightarrow> bool" where
  "accounting_ok c \<longleftrightarrow>
     distinct (map fst (aux_objects c)) \<and>
     unat (aux_total_unique_bytes c) = (\<Sum>k \<in> hash_keys (aux_objects c). unat (key_length k)) \<and>
     aux_total_unique_bytes c \<le> max_owned_selected_compressed_bytes (aux_resource_limits c)"

definition entry_true ::
  "host \<Rightarrow> OcbReadCursor \<Rightarrow> u64 \<Rightarrow> OcbResourceLimits \<Rightarrow> OcbBodyRefV2 \<Rightarrow> OcbAuxiliaryObjectState \<Rightarrow> bool" where
  "entry_true h file file_len limits r st =
     (case st of
        Pending \<Rightarrow> True
      | KeyTupleValidated \<Rightarrow>
          is_ok (read_object_bytes_with_resource_limits h file file_len r BodyKind_KeyTuple limits)
      | DictionaryValues summary \<Rightarrow>
          (\<exists>bs values b b'. read_object_bytes_with_resource_limits h file file_len r BodyKind_DictionaryValues limits = Inr bs \<and>
             OcbDictionaryValuesV1_read_from_bytes_with_budget h bs b = Inr (values, b') \<and> summary = summary_of values))"

definition cache_inv :: "host \<Rightarrow> OcbReadCursor \<Rightarrow> u64 \<Rightarrow> OcbResourceLimits \<Rightarrow> OcbOpenAuxiliaryObjectCache \<Rightarrow> bool" where
  "cache_inv h file file_len limits c \<longleftrightarrow>
     aux_resource_limits c = limits \<and> accounting_ok c \<and>
     (\<forall>r st. hash_get (aux_objects c) (OcbAuxiliaryBodyRefKey_from r) = Some st \<longrightarrow>
        entry_true h file file_len limits r st)"

lemma cache_inv_new: "cache_inv h file file_len limits (OcbOpenAuxiliaryObjectCache_new limits)"
  by (simp add: cache_inv_def accounting_ok_def OcbOpenAuxiliaryObjectCache_new_def hash.get_empty hash.keys_empty)

text \<open>Recording a true verdict for a reference that was charged keeps the invariant.\<close>

lemma cache_inv_record:
  assumes "cache_inv h file file_len limits c"
    and "hash_contains (aux_objects c) (OcbAuxiliaryBodyRefKey_from r)"
    and "entry_true h file file_len limits r st"
  shows "cache_inv h file file_len limits
      (c\<lparr>aux_objects := hash_insert (aux_objects c) (OcbAuxiliaryBodyRefKey_from r) st\<rparr>)"
  using assms
  by (auto simp: cache_inv_def accounting_ok_def hash.keys_put hash_contains_keys insert_absorb hash.get_put
      OcbAuxiliaryBodyRefKey_from_inject hash.wf_put)

lemma keeps_charge_unique [keeps_intros]: "keeps (cache_inv h file file_len limits) (charge_unique h' r)"
  unfolding keeps_def
proof (intro allI impI)
  fix c assume inv: "cache_inv h file file_len limits c"
  let ?k = "OcbAuxiliaryBodyRefKey_from r"
  let ?c = "\<lambda>n. c\<lparr>aux_objects := hash_insert (aux_objects c) ?k Pending, aux_total_unique_bytes := n\<rparr>"
  have "cache_inv h file file_len limits (?c n)"
    if new: "\<not> hash_contains (aux_objects c) ?k"
      and n: "checked_add (aux_total_unique_bytes c) (br_length r) = Some n"
      and le: "n \<le> max_owned_selected_compressed_bytes (aux_resource_limits c)" for n
  proof -
    have "finite (hash_keys (aux_objects c))" by (simp add: hash_keys_def)
    moreover have "?k \<notin> hash_keys (aux_objects c)" using new by (simp add: hash_contains_keys)
    moreover have "key_length ?k = br_length r" by (simp add: OcbAuxiliaryBodyRefKey_from_def)
    moreover have "unat n = unat (aux_total_unique_bytes c) + unat (br_length r)" using n by (rule checked_add_Some)
    ultimately have "accounting_ok (?c n)"
      using inv le by (simp add: cache_inv_def accounting_ok_def hash.keys_put hash.wf_put)
    then show ?thesis
      using inv by (auto simp: cache_inv_def hash.get_put entry_true_def OcbAuxiliaryBodyRefKey_from_inject)
  qed
  then show "cache_inv h file file_len limits (snd (charge_unique h' r c))"
    using inv by (auto simp: charge_unique_def Let_def split: option.split sum.split)
qed

lemma keeps_dictionary_values_summary [keeps_intros]:
  "keeps (cache_inv h file file_len limits) (dictionary_values_summary h file file_len r b)"
  unfolding keeps_def
proof (intro allI impI)
  fix c assume inv: "cache_inv h file file_len limits c"
  then have lim: "aux_resource_limits c = limits" by (simp add: cache_inv_def)
  have ent: "entry_true h file file_len limits r (DictionaryValues (summary_of vs))"
    if "read_object_bytes_inner_with_limits h file file_len r BodyKind_DictionaryValues
          (max_encoded_object_bytes limits) (of_nat usize_max) = Inr bs"
      and "OcbDictionaryValuesV1_read_from_bytes_with_budget h bs b = Inr (vs, b')" for bs vs b'
    using that by (auto simp: entry_true_def read_object_bytes_with_resource_limits_def)
  show "cache_inv h file file_len limits (snd (dictionary_values_summary h file file_len r b c))"
    using inv
    by (auto simp: dictionary_values_summary_def Let_def lim sbind_eq_Inr summary_of_def [symmetric]
        intro!: cache_inv_record intro: ent split: option.split sum.split OcbAuxiliaryObjectState.split)
qed

lemma keeps_validate_key_tuple [keeps_intros]:
  "keeps (cache_inv h file file_len limits) (validate_key_tuple h file file_len r)"
  unfolding keeps_def
proof (intro allI impI)
  fix c assume inv: "cache_inv h file file_len limits c"
  then have lim: "aux_resource_limits c = limits" by (simp add: cache_inv_def)
  show "cache_inv h file file_len limits (snd (validate_key_tuple h file file_len r c))"
    using inv
    by (auto simp: validate_key_tuple_def Let_def lim entry_true_def read_object_bytes_with_resource_limits_def
        intro!: cache_inv_record split: option.split sum.split OcbAuxiliaryObjectState.split)
qed

lemma keeps_preflight [keeps_intros]: "keeps (cache_inv h file file_len limits) (preflight h' m root)"
  unfolding preflight_def preflight_with_def by (auto intro!: keeps_intros split: prod.split)

section \<open>What the operations establish\<close>

text \<open>After a preflight every visited reference is valid and charged.\<close>

lemma charge_unique_Inr:
  "charge_unique h r c = (Inr u, c') \<Longrightarrow>
     hash_contains (aux_objects c') (OcbAuxiliaryBodyRefKey_from r) \<and>
     hash_keys (aux_objects c) \<subseteq> hash_keys (aux_objects c')"
  by (auto simp: charge_unique_def Let_def hash_contains_keys hash.keys_put split: if_splits option.splits sum.splits)

lemma validate_key_tuple_Inr:
  assumes "validate_key_tuple h file file_len r c = (Inr u, c')" and "cache_inv h file file_len limits c"
    and "\<not> is_null r"
  shows "is_ok (read_object_bytes_with_resource_limits h file file_len r BodyKind_KeyTuple limits)"
proof -
  have lim: "aux_resource_limits c = limits" using assms(2) by (simp add: cache_inv_def)
  have cached: "entry_true h file file_len limits r st"
    if "hash_get (aux_objects c) (OcbAuxiliaryBodyRefKey_from r) = Some st" for st
    using that assms(2) by (simp add: cache_inv_def)
  show ?thesis
  proof (cases "hash_get (aux_objects c) (OcbAuxiliaryBodyRefKey_from r) = Some KeyTupleValidated")
    case True
    from cached [OF this] show ?thesis by (simp add: entry_true_def)
  next
    case False
    with assms(1,3) show ?thesis
      by (auto simp: validate_key_tuple_def Let_def read_object_bytes_with_resource_limits_def lim
          split: option.splits sum.splits OcbAuxiliaryObjectState.splits)
  qed
qed

lemma dictionary_values_summary_Inr:
  assumes "dictionary_values_summary h file file_len r b c = (Inr (s, b'), c')" and "cache_inv h file file_len limits c"
  shows "\<exists>bs vs b1 b2. read_object_bytes_with_resource_limits h file file_len r BodyKind_DictionaryValues limits = Inr bs \<and>
      OcbDictionaryValuesV1_read_from_bytes_with_budget h bs b1 = Inr (vs, b2) \<and> s = summary_of vs"
proof -
  have lim: "aux_resource_limits c = limits" using assms(2) by (simp add: cache_inv_def)
  have cached: "entry_true h file file_len limits r st"
    if "hash_get (aux_objects c) (OcbAuxiliaryBodyRefKey_from r) = Some st" for st
    using that assms(2) by (simp add: cache_inv_def)
  show ?thesis
  proof (cases "hash_get (aux_objects c) (OcbAuxiliaryBodyRefKey_from r)")
    case (Some st)
    show ?thesis
    proof (cases st)
      case Pending
      with Some assms(1) obtain bs vs where
        "read_object_bytes_with_resource_limits h file file_len r BodyKind_DictionaryValues limits = Inr bs"
        "OcbDictionaryValuesV1_read_from_bytes_with_budget h bs b = Inr (vs, b')" "s = summary_of vs"
        by (auto simp: dictionary_values_summary_def Let_def lim read_object_bytes_with_resource_limits_def
            sbind_eq_Inr summary_of_def [symmetric] split: sum.splits if_splits)
      then show ?thesis by blast
    next
      case (DictionaryValues sm)
      with Some assms(1) cached [OF Some] show ?thesis
        by (simp add: dictionary_values_summary_def Let_def entry_true_def)
    qed (use Some assms(1) in \<open>simp_all add: dictionary_values_summary_def Let_def\<close>)
  qed (use assms(1) in \<open>simp_all add: dictionary_values_summary_def Let_def\<close>)
qed

end
