(* ===== verification/Metadata_Graph.thy ===== *)
theory Metadata_Graph
  imports Aux_Cache
begin

text \<open>
  The metadata graph checks of \<open>read.rs\<close>: the relations between root, schema, dictionaries,
  row groups, chunk descriptors, statistics and the ordering proof that an opened file satisfies.
\<close>

section \<open>Root checks\<close>

datatype OcbOpenValidationMode = MetadataGraph | FullPayload

text \<open>\<open>iter().try_fold(0u64, |acc, g| acc.checked_add(g.row_count))\<close>\<close>

definition checked_row_sum :: "OcbRowGroupDescV1 list \<Rightarrow> u64 option" where
  "checked_row_sum row_groups =
     fold (\<lambda>row_group acc. Option.bind acc (\<lambda>acc. checked_add acc (rg_row_count row_group))) row_groups (Some 0)"

definition validate_v2_root_semantics :: "OcbRootV2 \<Rightarrow> OcbMetadataV1 \<Rightarrow> unit result" where
  "validate_v2_root_semantics root metadata =
     (let is_first_root = is_null (root2_previous_root_ref root) in
     sbind (if is_first_root then
              if root2_previous_generation root \<noteq> 0
              then Inl (ocb_corrupt_file ''OCB first root must not reference a previous generation'') else Inr ()
            else if checked_add (root2_previous_generation root) 1 \<noteq> Some (root2_generation root)
              then Inl (ocb_corrupt_file ''OCB root previous generation metadata is invalid'') else Inr ()) (\<lambda>_.
     sbind (ok_or (checked_add (root2_append_base_row root) (root2_append_row_count root))
        (ocb_corrupt_file ''OCB root append row range overflows'')) (\<lambda>append_row_end.
     if append_row_end > root2_row_count root
     then Inl (ocb_corrupt_file ''OCB root append row range exceeds total rows'') else
     sbind (ok_or (checked_add (root2_append_base_row_group root) (root2_append_row_group_count root))
        (ocb_corrupt_file ''OCB root append row-group range overflows'')) (\<lambda>append_group_end.
     if append_group_end > root2_row_group_count root
     then Inl (ocb_corrupt_file ''OCB root append row-group range exceeds total row groups'') else
     if (root2_append_row_count root = 0 \<or> root2_append_row_group_count root = 0)
        \<and> \<not> (is_first_root \<and> root2_row_count root = 0 \<and> root2_row_group_count root = 0)
     then Inl (ocb_corrupt_file ''OCB root append range must be non-empty'') else
     sbind (ok_or (checked_row_sum (filter (\<lambda>row_group.
          rg_row_group_id row_group \<ge> root2_append_base_row_group root
          \<and> rg_row_group_id row_group < append_group_end) (rgi_row_groups (md_row_group_index metadata))))
        (ocb_corrupt_file ''OCB root append row count overflows'')) (\<lambda>appended_rows.
     if appended_rows \<noteq> root2_append_row_count root
     then Inl (ocb_corrupt_file ''OCB root append row count does not match appended row groups'') else
     Inr ())))))"

definition validate_root_counts :: "OcbMetadataV1 \<Rightarrow> u32 \<Rightarrow> unit result" where
  "validate_root_counts metadata root_column_chunk_count =
     (let root = md_root metadata; index = md_row_group_index metadata in
     if unat (root1_column_count root) \<noteq> length (sch_columns (md_schema metadata))
     then Inl (ocb_corrupt_file ''OCB root column_count does not match schema'') else
     if unat (root1_row_group_count root) \<noteq> length (rgi_row_groups index)
     then Inl (ocb_corrupt_file ''OCB root row_group_count does not match row-group index'') else
     if unat root_column_chunk_count \<noteq> length (rgi_column_chunks index)
     then Inl (ocb_corrupt_file ''OCB root column_chunk_count does not match row-group index'') else
     if root1_dictionary_count root > 0 \<and> md_dictionary_index metadata = None
     then Inl (ocb_corrupt_file ''OCB root dictionary_count requires dictionary index'') else
     sbind (case md_dictionary_index metadata of
              Some dictionary_index \<Rightarrow>
                if length (dix_dictionaries dictionary_index) \<noteq> unat (root1_dictionary_count root)
                then Inl (ocb_corrupt_file ''OCB root dictionary_count does not match dictionary index'')
                else Inr ()
            | None \<Rightarrow> Inr ()) (\<lambda>_.
     sbind (ok_or (checked_row_sum (rgi_row_groups index))
        (ocb_corrupt_file ''OCB row_count overflows'')) (\<lambda>total_rows.
     if total_rows \<noteq> root1_row_count root
     then Inl (ocb_corrupt_file ''OCB root row_count does not match row groups'') else
     Inr ())))"

section \<open>Schema and dictionaries\<close>

type_synonym columns_by_id = "(u32, OcbColumnDescV1) hash_map"

definition check_schema_column ::
  "OcbMetadataV1 \<Rightarrow> OcbColumnDescV1 \<Rightarrow> columns_by_id \<times> bytes set \<Rightarrow> (columns_by_id \<times> bytes set) result" where
  "check_schema_column metadata column = (\<lambda>(columns_by_id, seen_names).
     if hash_contains columns_by_id (col_column_id column)
     then Inl (ocb_corrupt_file ''OCB schema has duplicate column ids'') else
     let columns_by_id = hash_insert columns_by_id (col_column_id column) column in
     sbind (ok_or (vec_get (st_strings (md_string_table metadata)) (unat (col_name_string_id column)))
        (ocb_corrupt_file ''OCB column name string id is out of range'')) (\<lambda>name.
     if name \<in> seen_names
     then Inl (ocb_corrupt_file ''OCB schema has duplicate column names'') else
     let seen_names = insert name seen_names in
     sbind (value_byte_width column) (\<lambda>_.
     if col_logical_kind column = Logical_DictionaryCode \<and> col_dictionary_id column = OCB_NULL_U32
     then Inl (ocb_corrupt_file ''OCB dictionary-coded column must reference a dictionary'') else
     if col_logical_kind column = Logical_DictionaryCode \<and> col_physical_type column = Phys_FixedBinary
     then Inl (ocb_corrupt_file ''OCB dictionary-coded column cannot use fixed-binary physical type'') else
     Inr (columns_by_id, seen_names))))"

definition validate_schema_graph :: "host \<Rightarrow> OcbMetadataV1 \<Rightarrow> columns_by_id result" where
  "validate_schema_graph h metadata =
     (let columns = sch_columns (md_schema metadata) in
     sbind (graph_reserve h 0 (length columns)) (\<lambda>_.
     sbind (graph_reserve h 0 (length columns)) (\<lambda>_.
     sbind (for_each (check_schema_column metadata) columns ([], {})) (\<lambda>(columns_by_id, _).
     Inr columns_by_id))))"

type_synonym dictionaries_by_id = "(u32, OcbDictionaryDescV1) hash_map"

definition check_dictionary ::
  "host \<Rightarrow> OcbReadCursor \<Rightarrow> OcbMetadataV1 \<Rightarrow> OcbDictionaryDescV1 \<Rightarrow>
     dictionaries_by_id \<times> bytes set \<times> budget \<Rightarrow> (dictionaries_by_id \<times> bytes set \<times> budget) cached" where
  "check_dictionary h file metadata dictionary = (\<lambda>(dictionaries_by_id, seen_names, metadata_budget).
     abind (atry (
       if hash_contains dictionaries_by_id (dict_dictionary_id dictionary)
       then Inl (ocb_corrupt_file ''OCB dictionary index has duplicate dictionary ids'') else
       sbind (ok_or (vec_get (st_strings (md_string_table metadata)) (unat (dict_name_string_id dictionary)))
          (ocb_corrupt_file ''OCB dictionary name string id is out of range'')) (\<lambda>name.
       if name \<in> seen_names
       then Inl (ocb_corrupt_file ''OCB dictionary index has duplicate dictionary names'') else
       Inr (hash_insert dictionaries_by_id (dict_dictionary_id dictionary) dictionary, insert name seen_names))))
     (\<lambda>(dictionaries_by_id, seen_names).
     abind (dictionary_values_summary h file (md_file_len metadata) (dict_values_ref dictionary) metadata_budget)
     (\<lambda>(values, metadata_budget).
     if dvs_value_kind values \<noteq> dict_value_kind dictionary
        \<or> dvs_entry_count values \<noteq> ucast (dict_entry_count dictionary)
     then atry (Inl (ocb_corrupt_file ''OCB dictionary values do not match dictionary index''))
     else aret (dictionaries_by_id, seen_names, metadata_budget))))"

definition check_column_dictionary :: "dictionaries_by_id \<Rightarrow> OcbColumnDescV1 \<Rightarrow> unit \<Rightarrow> unit result" where
  "check_column_dictionary dictionaries_by_id column _ =
     (if col_logical_kind column \<noteq> Logical_DictionaryCode then Inr () else
      sbind (ok_or (hash_get dictionaries_by_id (col_dictionary_id column))
         (ocb_corrupt_file ''OCB column references unknown dictionary'')) (\<lambda>dictionary.
      if dict_code_physical_type dictionary \<noteq> col_physical_type column
      then Inl (ocb_corrupt_file ''OCB dictionary code physical type does not match column'')
      else Inr ()))"

definition validate_dictionary_graph ::
  "host \<Rightarrow> OcbReadCursor \<Rightarrow> OcbMetadataV1 \<Rightarrow> columns_by_id \<Rightarrow> budget \<Rightarrow> budget cached" where
  "validate_dictionary_graph h file metadata columns_by_id metadata_budget =
     (case md_dictionary_index metadata of
        None \<Rightarrow>
          abind (atry (for_each (\<lambda>column _.
            if col_logical_kind column = Logical_DictionaryCode
            then Inl (ocb_corrupt_file ''OCB dictionary-coded column references missing dictionary index'')
            else Inr ()) (map snd columns_by_id) ())) (\<lambda>_.
          aret metadata_budget)
      | Some dictionary_index \<Rightarrow>
          abind (atry (graph_reserve h 0 (length (dix_dictionaries dictionary_index)))) (\<lambda>_.
          abind (atry (graph_reserve h 0 (length (dix_dictionaries dictionary_index)))) (\<lambda>_.
          abind (afor_each (check_dictionary h file metadata) (dix_dictionaries dictionary_index)
            ([], {}, metadata_budget)) (\<lambda>(dictionaries_by_id, _, metadata_budget).
          abind (atry (for_each (check_column_dictionary dictionaries_by_id) (map snd columns_by_id) ())) (\<lambda>_.
          aret metadata_budget)))))"

section \<open>Row groups\<close>

definition div_ceil :: "u64 \<Rightarrow> u64 \<Rightarrow> u64" where
  "div_ceil a b = (let d = a div b; r = a mod b in if r > 0 then d + 1 else d)"

definition validate_row_group_desc ::
  "OcbRowGroupDescV1 \<Rightarrow> usize \<Rightarrow> (u32, usize) hash_map \<times> u64 \<times> u64 \<times> u64 \<Rightarrow>
     ((u32, usize) hash_map \<times> u64 \<times> u64 \<times> u64) result" where
  "validate_row_group_desc row_group row_group_position =
     (\<lambda>(row_group_positions_by_id, expected_base_row, expected_chunk_begin, expected_stat_begin).
     if hash_contains row_group_positions_by_id (rg_row_group_id row_group)
     then Inl (ocb_corrupt_file ''OCB row-group index has duplicate row group ids'') else
     if rg_base_row row_group \<noteq> expected_base_row
     then Inl (ocb_corrupt_file ''OCB row-group base rows are not contiguous'') else
     if rg_chunk_desc_begin row_group \<noteq> expected_chunk_begin
     then Inl (ocb_corrupt_file ''OCB row-group chunk descriptor ranges are not contiguous'') else
     if rg_stat_begin row_group \<noteq> expected_stat_begin
     then Inl (ocb_corrupt_file ''OCB row-group stat ranges are not contiguous'') else
     sbind (ok_or (checked_add expected_base_row (rg_row_count row_group))
        (ocb_corrupt_file ''OCB row-group base row range overflows'')) (\<lambda>expected_base_row.
     sbind (ok_or (checked_add expected_chunk_begin (ucast (rg_chunk_desc_count row_group)))
        (ocb_corrupt_file ''OCB row-group chunk descriptor range overflows'')) (\<lambda>expected_chunk_begin.
     sbind (ok_or (checked_add expected_stat_begin (ucast (rg_stat_count row_group)))
        (ocb_corrupt_file ''OCB row-group stat descriptor range overflows'')) (\<lambda>expected_stat_begin.
     Inr (hash_insert row_group_positions_by_id (rg_row_group_id row_group) row_group_position,
          expected_base_row, expected_chunk_begin, expected_stat_begin)))))"

definition checked_chunks_for_row_group ::
  "OcbMetadataV1 \<Rightarrow> OcbRowGroupDescV1 \<Rightarrow> OcbColumnChunkDescV1 list result" where
  "checked_chunks_for_row_group metadata row_group =
     sbind (ok_or (usize_try_from (unat (rg_chunk_desc_begin row_group)))
        (ocb_corrupt_file ''OCB row-group chunk descriptor begin is too large'')) (\<lambda>begin.
     sbind (ok_or (usize_checked_add begin (unat (rg_chunk_desc_count row_group)))
        (ocb_corrupt_file ''OCB row-group chunk descriptor range overflows'')) (\<lambda>stop.
     ok_or (vec_get_range (rgi_column_chunks (md_row_group_index metadata)) begin stop)
        (ocb_corrupt_file ''OCB row-group chunk descriptor range is out of bounds'')))"

definition checked_stats_for_row_group ::
  "OcbMetadataV1 \<Rightarrow> OcbRowGroupDescV1 \<Rightarrow> OcbColumnStatsV1 list result" where
  "checked_stats_for_row_group metadata row_group =
     sbind (ok_or (usize_try_from (unat (rg_stat_begin row_group)))
        (ocb_corrupt_file ''OCB row-group stat descriptor begin is too large'')) (\<lambda>begin.
     sbind (ok_or (usize_checked_add begin (unat (rg_stat_count row_group)))
        (ocb_corrupt_file ''OCB row-group stat descriptor range overflows'')) (\<lambda>stop.
     ok_or (vec_get_range (rgi_stats (md_row_group_index metadata)) begin stop)
        (ocb_corrupt_file ''OCB row-group stat descriptor range is out of bounds'')))"

definition validate_chunk_desc ::
  "host \<Rightarrow> zstd \<Rightarrow> OcbReadCursor \<Rightarrow> OcbMetadataV1 \<Rightarrow> OcbRowGroupDescV1 \<Rightarrow> OcbColumnChunkDescV1 \<Rightarrow>
     columns_by_id \<Rightarrow> OcbOpenValidationMode \<Rightarrow> OcbResourceLimits \<Rightarrow> unit result" where
  "validate_chunk_desc h zstd file metadata row_group chunk columns_by_id validation resource_limits =
     (if chunk_row_group_id chunk \<noteq> rg_row_group_id row_group
     then Inl (ocb_corrupt_file ''OCB row-group chunk descriptor references a different row group'') else
     sbind (ok_or (hash_get columns_by_id (chunk_column_id chunk))
        (ocb_corrupt_file ''OCB chunk descriptor references unknown column'')) (\<lambda>column.
     if chunk_physical_type chunk \<noteq> col_physical_type column
     then Inl (ocb_corrupt_file ''OCB chunk descriptor does not match schema'') else
     if chunk_row_count chunk \<noteq> rg_row_count row_group
     then Inl (ocb_corrupt_file ''OCB chunk row_count does not match row group'') else
     sbind (expected_value_bytes column (chunk_row_count chunk)) (\<lambda>expected_bytes.
     if chunk_uncompressed_bytes chunk \<noteq> expected_bytes
     then Inl (ocb_corrupt_file ''OCB chunk byte length does not match row count and physical type'') else
     sbind (if \<not> is_null (chunk_validity_ref chunk) then
              if col_nullability column \<noteq> Nullability_Nullable
              then Inl (ocb_corrupt_file ''OCB non-null column chunk cannot have a validity bitmap'') else
              sbind (OcbBodyRefV2_validate (chunk_validity_ref chunk) BodyKind_ValidityBitmap (md_file_len metadata)) (\<lambda>_.
              if br_length (chunk_validity_ref chunk) \<noteq> div_ceil (chunk_row_count chunk) 8
              then Inl (ocb_corrupt_file ''OCB validity bitmap length does not match row count'') else Inr ())
            else Inr ()) (\<lambda>_.
     sbind (case validation of
              MetadataGraph \<Rightarrow>
                sbind (validate_column_chunk_object_header file (md_file_len metadata) chunk resource_limits) (\<lambda>_. Inr ())
            | FullPayload \<Rightarrow>
                validate_column_chunk_object_streaming h zstd file (md_file_len metadata) chunk resource_limits) (\<lambda>_.
     if \<not> is_null (chunk_validity_ref chunk) \<and> validation = FullPayload
     then sbind (read_object_bytes_with_resource_limits h file (md_file_len metadata) (chunk_validity_ref chunk)
            BodyKind_ValidityBitmap resource_limits) (\<lambda>validity.
          if of_nat (length validity) \<noteq> div_ceil (chunk_row_count chunk) 8
          then Inl (ocb_corrupt_file ''OCB validity bitmap length does not match row count'') else Inr ())
     else Inr ())))))"

definition validate_stat_desc :: "OcbRowGroupDescV1 \<Rightarrow> OcbColumnStatsV1 \<Rightarrow> columns_by_id \<Rightarrow> unit result" where
  "validate_stat_desc row_group stat columns_by_id =
     (if stat_row_group_id stat \<noteq> rg_row_group_id row_group
     then Inl (ocb_corrupt_file ''OCB row-group stat references a different row group'') else
     sbind (ok_or (hash_get columns_by_id (stat_column_id stat))
        (ocb_corrupt_file ''OCB stats descriptor references unknown column'')) (\<lambda>column.
     if stat_physical_type stat \<noteq> col_physical_type column
     then Inl (ocb_corrupt_file ''OCB stat dtype does not match schema column dtype'') else
     if stat_physical_type stat = Phys_FixedBinary
     then Inl (ocb_corrupt_file ''OCB fixed-binary columns do not support scalar stats'') else
     Inr ()))"

text \<open>The chunk and statistics loops of one row group.\<close>

definition check_row_group_chunks ::
  "host \<Rightarrow> zstd \<Rightarrow> OcbReadCursor \<Rightarrow> OcbMetadataV1 \<Rightarrow> columns_by_id \<Rightarrow> OcbOpenValidationMode \<Rightarrow>
     OcbResourceLimits \<Rightarrow> u32 set \<Rightarrow> OcbRowGroupDescV1 \<Rightarrow> unit result" where
  "check_row_group_chunks h zstd file metadata columns_by_id validation resource_limits expected_columns row_group =
     sbind (checked_chunks_for_row_group metadata row_group) (\<lambda>chunks.
     sbind (graph_reserve h 0 (length chunks)) (\<lambda>_.
     sbind (for_each (\<lambda>chunk chunk_columns.
       sbind (validate_chunk_desc h zstd file metadata row_group chunk columns_by_id validation resource_limits) (\<lambda>_.
       if chunk_column_id chunk \<in> chunk_columns
       then Inl (ocb_corrupt_file ''OCB row group has duplicate chunk descriptors for a column'')
       else Inr (insert (chunk_column_id chunk) chunk_columns))) chunks {}) (\<lambda>chunk_columns.
     if chunk_columns \<noteq> expected_columns
     then Inl (ocb_corrupt_file ''OCB row group chunk descriptors do not cover all schema columns'') else
     sbind (checked_stats_for_row_group metadata row_group) (\<lambda>stats.
     sbind (graph_reserve h 0 (length stats)) (\<lambda>_.
     sbind (for_each (\<lambda>stat stat_columns.
       sbind (validate_stat_desc row_group stat columns_by_id) (\<lambda>_.
       if stat_column_id stat \<in> stat_columns
       then Inl (ocb_corrupt_file ''OCB row group has duplicate stats for a column'')
       else Inr (insert (stat_column_id stat) stat_columns))) stats {}) (\<lambda>_.
     Inr ()))))))"

definition check_row_group ::
  "host \<Rightarrow> zstd \<Rightarrow> OcbReadCursor \<Rightarrow> OcbMetadataV1 \<Rightarrow> columns_by_id \<Rightarrow> OcbOpenValidationMode \<Rightarrow>
     OcbResourceLimits \<Rightarrow> u32 set \<Rightarrow> nat \<times> OcbRowGroupDescV1 \<Rightarrow> (u32, usize) hash_map \<times> u64 \<times> u64 \<times> u64 \<Rightarrow>
     ((u32, usize) hash_map \<times> u64 \<times> u64 \<times> u64) cached" where
  "check_row_group h zstd file metadata columns_by_id validation resource_limits expected_columns =
     (\<lambda>(row_group_position, row_group) acc.
     abind (atry (validate_row_group_desc row_group row_group_position acc)) (\<lambda>acc.
     abind (validate_key_tuple h file (md_file_len metadata) (rg_first_key_tuple_ref row_group)) (\<lambda>_.
     abind (validate_key_tuple h file (md_file_len metadata) (rg_last_key_tuple_ref row_group)) (\<lambda>_.
     abind (atry (check_row_group_chunks h zstd file metadata columns_by_id validation resource_limits
       expected_columns row_group)) (\<lambda>_.
     aret acc)))))"

definition validate_row_group_graph ::
  "host \<Rightarrow> zstd \<Rightarrow> OcbReadCursor \<Rightarrow> OcbMetadataV1 \<Rightarrow> columns_by_id \<Rightarrow> OcbOpenValidationMode \<Rightarrow>
     OcbResourceLimits \<Rightarrow> ((u32, usize) hash_map) cached" where
  "validate_row_group_graph h zstd file metadata columns_by_id validation resource_limits =
     (let row_groups = rgi_row_groups (md_row_group_index metadata) in
     abind (atry (graph_reserve h 0 (length columns_by_id))) (\<lambda>_.
     let expected_columns = hash_keys columns_by_id in
     abind (atry (graph_reserve h 0 (length row_groups))) (\<lambda>_.
     abind (afor_each (check_row_group h zstd file metadata columns_by_id validation resource_limits expected_columns)
       (List.enumerate 0 row_groups) ([], 0, 0, 0))
       (\<lambda>(row_group_positions_by_id, _, expected_chunk_begin, expected_stat_begin).
     if expected_chunk_begin \<noteq> of_nat (length (rgi_column_chunks (md_row_group_index metadata)))
     then atry (Inl (ocb_corrupt_file ''OCB row-group chunk descriptor ranges do not cover the chunk table'')) else
     if expected_stat_begin \<noteq> of_nat (length (rgi_stats (md_row_group_index metadata)))
     then atry (Inl (ocb_corrupt_file ''OCB row-group stat ranges do not cover the stats table'')) else
     aret row_group_positions_by_id))))"

section \<open>Ordering\<close>

definition check_ordering_key :: "columns_by_id \<Rightarrow> OcbOrderingKeyV1 \<Rightarrow> u32 set \<Rightarrow> u32 set result" where
  "check_ordering_key columns_by_id key seen_key_columns =
     sbind (ok_or (hash_get columns_by_id (okey_column_id key))
        (ocb_corrupt_file ''OCB ordering proof key references unknown column'')) (\<lambda>column.
     if col_physical_type column = Phys_FixedBinary
     then Inl (ocb_corrupt_file ''OCB fixed-binary column cannot be an ordering key'') else
     if okey_column_id key \<in> seen_key_columns
     then Inl (ocb_corrupt_file ''OCB ordering proof has duplicate key columns'')
     else Inr (insert (okey_column_id key) seen_key_columns))"

definition check_ordering_row_group ::
  "host \<Rightarrow> OcbReadCursor \<Rightarrow> OcbMetadataV1 \<Rightarrow> (u32, usize) hash_map \<Rightarrow> OcbRowGroupOrderingProofV1 \<Rightarrow>
     u32 set \<Rightarrow> (u32 set) cached" where
  "check_ordering_row_group h file metadata row_group_positions_by_id proof seen_proof_row_groups =
     (if \<not> hash_contains row_group_positions_by_id (rgop_row_group_id proof)
     then atry (Inl (ocb_corrupt_file ''OCB ordering proof references unknown row group'')) else
     if rgop_row_group_id proof \<in> seen_proof_row_groups
     then atry (Inl (ocb_corrupt_file ''OCB ordering proof has duplicate row-group proofs'')) else
     abind (validate_key_tuple h file (md_file_len metadata) (rgop_first_tuple_ref proof)) (\<lambda>_.
     abind (validate_key_tuple h file (md_file_len metadata) (rgop_last_tuple_ref proof)) (\<lambda>_.
     aret (insert (rgop_row_group_id proof) seen_proof_row_groups))))"

definition validate_ordering_graph ::
  "host \<Rightarrow> OcbReadCursor \<Rightarrow> OcbMetadataV1 \<Rightarrow> columns_by_id \<Rightarrow> (u32, usize) hash_map \<Rightarrow> unit cached" where
  "validate_ordering_graph h file metadata columns_by_id row_group_positions_by_id =
     (case md_ordering_proof metadata of
        None \<Rightarrow> aret ()
      | Some ordering_proof \<Rightarrow>
     if length (op_row_group_proofs ordering_proof) \<noteq> length (rgi_row_groups (md_row_group_index metadata))
     then atry (Inl (ocb_corrupt_file ''OCB ordering proof row-group count does not match row-group index'')) else
     abind (atry (graph_reserve h 0 (length (op_keys ordering_proof)))) (\<lambda>_.
     abind (atry (for_each (check_ordering_key columns_by_id) (op_keys ordering_proof) {})) (\<lambda>_.
     abind (atry (graph_reserve h 0 (length (op_row_group_proofs ordering_proof)))) (\<lambda>_.
     abind (afor_each (check_ordering_row_group h file metadata row_group_positions_by_id)
       (op_row_group_proofs ordering_proof) {}) (\<lambda>seen_proof_row_groups.
     abind (atry (graph_reserve h 0 (length row_group_positions_by_id))) (\<lambda>_.
     if seen_proof_row_groups \<noteq> hash_keys row_group_positions_by_id
     then atry (Inl (ocb_corrupt_file ''OCB ordering proof row groups do not cover row-group index''))
     else aret ()))))))"

section \<open>The whole graph\<close>

definition validate_metadata_graph ::
  "host \<Rightarrow> zstd \<Rightarrow> OcbReadCursor \<Rightarrow> OcbMetadataV1 \<Rightarrow> u32 \<Rightarrow> OcbOpenValidationMode \<Rightarrow> OcbResourceLimits \<Rightarrow>
     OcbRootV2 option \<Rightarrow> budget \<Rightarrow> ((u32, usize) hash_map \<times> budget) cached" where
  "validate_metadata_graph h zstd file metadata root_column_chunk_count validation resource_limits v2_root metadata_budget =
     abind (atry (validate_root_counts metadata root_column_chunk_count)) (\<lambda>_.
     abind (atry (validate_schema_graph h metadata)) (\<lambda>columns_by_id.
     abind (preflight h metadata v2_root) (\<lambda>_.
     abind (validate_dictionary_graph h file metadata columns_by_id metadata_budget) (\<lambda>metadata_budget.
     abind (validate_row_group_graph h zstd file metadata columns_by_id validation resource_limits) (\<lambda>row_group_positions_by_id.
     abind (validate_ordering_graph h file metadata columns_by_id row_group_positions_by_id) (\<lambda>_.
     abind (case v2_root of
              None \<Rightarrow> aret ()
            | Some root \<Rightarrow>
                afor_each (\<lambda>reference _. validate_key_tuple h file (md_file_len metadata) reference)
                  [root2_first_key_tuple_ref root, root2_last_key_tuple_ref root,
                   root2_append_first_key_tuple_ref root, root2_append_last_key_tuple_ref root] ()) (\<lambda>_.
     aret (row_group_positions_by_id, metadata_budget))))))))"

definition validate_v2_metadata_graph ::
  "host \<Rightarrow> zstd \<Rightarrow> OcbReadCursor \<Rightarrow> OcbMetadataV1 \<Rightarrow> OcbRootV2 \<Rightarrow> OcbOpenValidationMode \<Rightarrow>
     OcbResourceLimits \<Rightarrow> budget \<Rightarrow> ((u32, usize) hash_map \<times> budget) cached" where
  "validate_v2_metadata_graph h zstd file metadata root validation resource_limits metadata_budget =
     abind (atry (validate_v2_root_semantics root metadata)) (\<lambda>_.
     validate_metadata_graph h zstd file metadata (root2_column_chunk_count root) validation resource_limits
       (Some root) metadata_budget)"

section \<open>What accepted row groups satisfy\<close>

text \<open>Totals over the row groups before position \<open>i\<close>.\<close>

definition rows_before :: "OcbRowGroupDescV1 list \<Rightarrow> nat \<Rightarrow> nat" where
  "rows_before gs i = sum_list (map (\<lambda>g. unat (rg_row_count g)) (take i gs))"

definition chunks_before :: "OcbRowGroupDescV1 list \<Rightarrow> nat \<Rightarrow> nat" where
  "chunks_before gs i = sum_list (map (\<lambda>g. unat (rg_chunk_desc_count g)) (take i gs))"

definition stats_before :: "OcbRowGroupDescV1 list \<Rightarrow> nat \<Rightarrow> nat" where
  "stats_before gs i = sum_list (map (\<lambda>g. unat (rg_stat_count g)) (take i gs))"

lemmas before_defs = rows_before_def chunks_before_def stats_before_def

lemma before_Suc:
  "i < length gs \<Longrightarrow> rows_before gs (Suc i) = rows_before gs i + unat (rg_row_count (gs ! i))"
  "i < length gs \<Longrightarrow> chunks_before gs (Suc i) = chunks_before gs i + unat (rg_chunk_desc_count (gs ! i))"
  "i < length gs \<Longrightarrow> stats_before gs (Suc i) = stats_before gs i + unat (rg_stat_count (gs ! i))"
  by (simp_all add: before_defs take_Suc_conv_app_nth)

definition positions_of :: "OcbRowGroupDescV1 list \<Rightarrow> nat \<Rightarrow> (u32, usize) hash_map" where
  "positions_of gs n = map (\<lambda>i. (rg_row_group_id (gs ! i), i)) [0..<n]"

text \<open>The row groups tile the rows, the chunk table and the statistics table, in order and without gaps.\<close>

definition row_groups_tile :: "OcbRowGroupIndexV1 \<Rightarrow> nat \<Rightarrow> bool" where
  "row_groups_tile index n \<longleftrightarrow>
     distinct (map rg_row_group_id (take n (rgi_row_groups index))) \<and>
     (\<forall>i < n. unat (rg_base_row (rgi_row_groups index ! i)) = rows_before (rgi_row_groups index) i \<and>
        unat (rg_chunk_desc_begin (rgi_row_groups index ! i)) = chunks_before (rgi_row_groups index) i \<and>
        unat (rg_stat_begin (rgi_row_groups index ! i)) = stats_before (rgi_row_groups index) i)"

lemma validate_row_group_desc_Inr:
  "validate_row_group_desc g i (pos, base, cb, sb) = Inr acc \<longleftrightarrow>
     rg_row_group_id g \<notin> hash_keys pos \<and> rg_base_row g = base \<and> rg_chunk_desc_begin g = cb \<and> rg_stat_begin g = sb \<and>
     (\<exists>base' cb' sb'. checked_add base (rg_row_count g) = Some base' \<and>
        checked_add cb (ucast (rg_chunk_desc_count g)) = Some cb' \<and>
        checked_add sb (ucast (rg_stat_count g)) = Some sb' \<and>
        acc = (pos @ [(rg_row_group_id g, i)], base', cb', sb'))"
  by (auto simp: validate_row_group_desc_def hash_contains_keys sbind_eq_Inr hash_insert_new)

lemma row_group_loop:
  assumes "afor_each (check_row_group h zstd file m cols mode limits ex)
      (List.enumerate 0 (rgi_row_groups (md_row_group_index m))) ([], 0, 0, 0) s = (Inr (pos, base, cb, sb), t)"
  defines "gs \<equiv> rgi_row_groups (md_row_group_index m)"
  shows "row_groups_tile (md_row_group_index m) (length gs) \<and> pos = positions_of gs (length gs) \<and>
     unat base = rows_before gs (length gs) \<and> unat cb = chunks_before gs (length gs) \<and>
     unat sb = stats_before gs (length gs) \<and>
     (\<forall>i < length gs. check_row_group_chunks h zstd file m cols mode limits ex (gs ! i) = Inr ())"
proof -
  let ?P = "\<lambda>i (pos, base, cb, sb) s. row_groups_tile (md_row_group_index m) i \<and> pos = positions_of gs i \<and>
     unat base = rows_before gs i \<and> unat cb = chunks_before gs i \<and> unat sb = stats_before gs i \<and>
     (\<forall>j < i. check_row_group_chunks h zstd file m cols mode limits ex (gs ! j) = Inr ())"
  have "?P (length (List.enumerate 0 (rgi_row_groups (md_row_group_index m)))) (pos, base, cb, sb) t"
  proof (rule afor_each_invariant [where P = ?P, OF assms(1)])
    show "?P 0 ([], 0, 0, 0) s" by (simp add: row_groups_tile_def positions_of_def before_defs)
  next
    fix i a u a' u'
    assume "i < length (List.enumerate 0 (rgi_row_groups (md_row_group_index m)))" and P: "?P i a u"
      and f: "check_row_group h zstd file m cols mode limits ex
        (List.enumerate 0 (rgi_row_groups (md_row_group_index m)) ! i) a u = (Inr a', u')"
    then have i: "i < length gs" by (simp add: gs_def)
    obtain ps b c d where a: "a = (ps, b, c, d)" by (cases a)
    from P have ps: "ps = positions_of gs i" and before: "unat b = rows_before gs i" "unat c = chunks_before gs i"
      "unat d = stats_before gs i" and tile: "row_groups_tile (md_row_group_index m) i"
      and chk: "\<And>j. j < i \<Longrightarrow> check_row_group_chunks h zstd file m cols mode limits ex (gs ! j) = Inr ()"
      by (auto simp: a)
    from f i obtain b' c' d' where new: "rg_row_group_id (gs ! i) \<notin> hash_keys ps"
      and eq: "rg_base_row (gs ! i) = b" "rg_chunk_desc_begin (gs ! i) = c" "rg_stat_begin (gs ! i) = d"
      and add: "checked_add b (rg_row_count (gs ! i)) = Some b'"
        "checked_add c (ucast (rg_chunk_desc_count (gs ! i))) = Some c'"
        "checked_add d (ucast (rg_stat_count (gs ! i))) = Some d'"
      and a': "a' = (ps @ [(rg_row_group_id (gs ! i), i)], b', c', d')"
      and chk_i: "check_row_group_chunks h zstd file m cols mode limits ex (gs ! i) = Inr ()"
      by (auto simp: check_row_group_def a action_Inr validate_row_group_desc_Inr nth_enumerate_eq gs_def)
    have ids: "hash_keys ps = rg_row_group_id ` set (take i gs)"
      using i by (auto simp: ps positions_of_def hash_keys_map nth_image [symmetric] image_image atLeast0LessThan
          intro!: image_eqI)
    have "row_groups_tile (md_row_group_index m) (Suc i)"
      using tile new ids i eq before
      by (auto simp: row_groups_tile_def gs_def take_Suc_conv_app_nth less_Suc_eq)
    moreover have "ps @ [(rg_row_group_id (gs ! i), i)] = positions_of gs (Suc i)" by (simp add: ps positions_of_def)
    ultimately show "?P (Suc i) a' u'"
      using before_Suc [OF i] before chk chk_i checked_add_Some [OF add(1)] checked_add_Some [OF add(2)]
        checked_add_Some [OF add(3)]
      by (auto simp: a' less_Suc_eq)
  qed
  then show ?thesis by (simp add: gs_def)
qed

section \<open>What an accepted schema satisfies\<close>

definition schema_wf :: "OcbMetadataV1 \<Rightarrow> bool" where
  "schema_wf m \<longleftrightarrow>
     distinct (map col_column_id (sch_columns (md_schema m))) \<and>
     distinct (map (\<lambda>c. st_strings (md_string_table m) ! unat (col_name_string_id c)) (sch_columns (md_schema m))) \<and>
     (\<forall>c \<in> set (sch_columns (md_schema m)).
        unat (col_name_string_id c) < length (st_strings (md_string_table m)) \<and>
        (\<exists>w. value_byte_width c = Inr w) \<and>
        (col_logical_kind c = Logical_DictionaryCode \<longrightarrow>
           col_dictionary_id c \<noteq> OCB_NULL_U32 \<and> col_physical_type c \<noteq> Phys_FixedBinary))"

lemma check_schema_column_Inr:
  "check_schema_column m c (cols, names) = Inr acc \<longleftrightarrow>
     col_column_id c \<notin> hash_keys cols \<and>
     unat (col_name_string_id c) < length (st_strings (md_string_table m)) \<and>
     st_strings (md_string_table m) ! unat (col_name_string_id c) \<notin> names \<and>
     (\<exists>w. value_byte_width c = Inr w) \<and>
     (col_logical_kind c = Logical_DictionaryCode \<longrightarrow>
        col_dictionary_id c \<noteq> OCB_NULL_U32 \<and> col_physical_type c \<noteq> Phys_FixedBinary) \<and>
     acc = (cols @ [(col_column_id c, c)], insert (st_strings (md_string_table m) ! unat (col_name_string_id c)) names)"
  by (auto simp: check_schema_column_def hash_contains_keys Let_def sbind_eq_Inr vec_get_def hash_insert_new)

lemma schema_loop:
  assumes "for_each (check_schema_column m) cs (cols, names) = Inr (cols', names')"
  shows "cols' = cols @ map (\<lambda>c. (col_column_id c, c)) cs \<and>
     distinct (map col_column_id cs) \<and> col_column_id ` set cs \<inter> hash_keys cols = {} \<and>
     distinct (map (\<lambda>c. st_strings (md_string_table m) ! unat (col_name_string_id c)) cs) \<and>
     (\<lambda>c. st_strings (md_string_table m) ! unat (col_name_string_id c)) ` set cs \<inter> names = {} \<and>
     (\<forall>c \<in> set cs. unat (col_name_string_id c) < length (st_strings (md_string_table m)) \<and>
        (\<exists>w. value_byte_width c = Inr w) \<and>
        (col_logical_kind c = Logical_DictionaryCode \<longrightarrow>
           col_dictionary_id c \<noteq> OCB_NULL_U32 \<and> col_physical_type c \<noteq> Phys_FixedBinary))"
  using assms
proof (induction cs arbitrary: cols names)
  case Nil
  then show ?case by simp
next
  case (Cons c cs)
  then obtain acc where acc: "check_schema_column m c (cols, names) = Inr acc"
    and rest: "for_each (check_schema_column m) cs acc = Inr (cols', names')"
    by (auto simp: sbind_eq_Inr)
  note c = acc [unfolded check_schema_column_Inr]
  have acc': "acc = (cols @ [(col_column_id c, c)],
      insert (st_strings (md_string_table m) ! unat (col_name_string_id c)) names)" using c by blast
  have keys: "hash_keys (cols @ [(col_column_id c, c)]) = insert (col_column_id c) (hash_keys cols)"
    by (simp add: hash_keys_def)
  note IH = Cons.IH [OF rest [unfolded acc'], unfolded keys]
  from IH c show ?case by auto
qed

lemma validate_schema_graph_Inr:
  assumes "validate_schema_graph h m = Inr cols"
  shows "schema_wf m" and "cols = map (\<lambda>c. (col_column_id c, c)) (sch_columns (md_schema m))"
proof -
  from assms obtain names where
    "for_each (check_schema_column m) (sch_columns (md_schema m)) ([], {}) = Inr (cols, names)"
    by (auto simp: validate_schema_graph_def Let_def sbind_eq_Inr)
  from schema_loop [OF this] show "schema_wf m" "cols = map (\<lambda>c. (col_column_id c, c)) (sch_columns (md_schema m))"
    by (auto simp: schema_wf_def)
qed

section \<open>What accepted chunks satisfy\<close>

definition chunks_of :: "OcbMetadataV1 \<Rightarrow> OcbRowGroupDescV1 \<Rightarrow> OcbColumnChunkDescV1 list" where
  "chunks_of m g = slice (unat (rg_chunk_desc_begin g))
     (unat (rg_chunk_desc_begin g) + unat (rg_chunk_desc_count g)) (rgi_column_chunks (md_row_group_index m))"

definition stats_of :: "OcbMetadataV1 \<Rightarrow> OcbRowGroupDescV1 \<Rightarrow> OcbColumnStatsV1 list" where
  "stats_of m g = slice (unat (rg_stat_begin g))
     (unat (rg_stat_begin g) + unat (rg_stat_count g)) (rgi_stats (md_row_group_index m))"

text \<open>A chunk of a row group holds the group's rows of one schema column.\<close>

definition chunk_wf :: "OcbMetadataV1 \<Rightarrow> OcbRowGroupDescV1 \<Rightarrow> OcbColumnChunkDescV1 \<Rightarrow> bool" where
  "chunk_wf m g c \<longleftrightarrow>
     chunk_row_group_id c = rg_row_group_id g \<and> chunk_row_count c = rg_row_count g \<and>
     ref_in_file (chunk_value_ref c) BodyKind_ColumnChunk (md_file_len m) \<and>
     (\<exists>column \<in> set (sch_columns (md_schema m)).
        col_column_id column = chunk_column_id c \<and> chunk_physical_type c = col_physical_type column \<and>
        (\<exists>w. value_byte_width column = Inr w \<and>
           unat (chunk_uncompressed_bytes c) = unat (rg_row_count g) * unat w) \<and>
        (is_null (chunk_validity_ref c) \<or>
           (col_nullability column = Nullability_Nullable \<and>
            ref_in_file (chunk_validity_ref c) BodyKind_ValidityBitmap (md_file_len m) \<and>
            br_length (chunk_validity_ref c) = div_ceil (rg_row_count g) 8)))"

text \<open>A statistics entry of a row group belongs to it and has the scalar type of its column.\<close>

definition stat_wf :: "OcbMetadataV1 \<Rightarrow> OcbRowGroupDescV1 \<Rightarrow> OcbColumnStatsV1 \<Rightarrow> bool" where
  "stat_wf m g s \<longleftrightarrow>
     stat_row_group_id s = rg_row_group_id g \<and> stat_physical_type s \<noteq> Phys_FixedBinary \<and>
     (\<exists>column \<in> set (sch_columns (md_schema m)).
        col_column_id column = stat_column_id s \<and> stat_physical_type s = col_physical_type column)"

lemma hash_get_columns:
  assumes "hash_get (map (\<lambda>c. (col_column_id c, c)) cs) k = Some c"
  shows "c \<in> set cs \<and> col_column_id c = k"
  using map_of_SomeD [OF assms [unfolded hash_get_def]] by auto

lemma validate_column_chunk_object_header_ref:
  "validate_column_chunk_object_header file file_len c limits = Inr r \<Longrightarrow>
     ref_in_file (chunk_value_ref c) BodyKind_ColumnChunk file_len"
  by (auto simp: validate_column_chunk_object_header_def Let_def sbind_eq_Inr OcbBodyRefV2_validate_Inr)

lemma validate_column_chunk_object_streaming_ref:
  "validate_column_chunk_object_streaming h zstd file file_len c limits = Inr r \<Longrightarrow>
     ref_in_file (chunk_value_ref c) BodyKind_ColumnChunk file_len"
  by (auto simp: validate_column_chunk_object_streaming_def Let_def sbind_eq_Inr
      dest: validate_column_chunk_object_header_ref)

lemma validate_chunk_desc_Inr:
  assumes "validate_chunk_desc h zstd file m g c (map (\<lambda>c. (col_column_id c, c)) (sch_columns (md_schema m))) mode limits = Inr u"
  shows "chunk_wf m g c"
proof -
  let ?cols = "map (\<lambda>c. (col_column_id c, c)) (sch_columns (md_schema m))"
  from assms obtain column where get: "hash_get ?cols (chunk_column_id c) = Some column"
    and eq: "chunk_row_group_id c = rg_row_group_id g" "chunk_row_count c = rg_row_count g"
      "chunk_physical_type c = col_physical_type column"
    and bytes: "expected_value_bytes column (rg_row_count g) = Inr (chunk_uncompressed_bytes c)"
    and validity: "is_null (chunk_validity_ref c) \<or>
      (col_nullability column = Nullability_Nullable \<and>
       ref_in_file (chunk_validity_ref c) BodyKind_ValidityBitmap (md_file_len m) \<and>
       br_length (chunk_validity_ref c) = div_ceil (rg_row_count g) 8)"
    and obj: "ref_in_file (chunk_value_ref c) BodyKind_ColumnChunk (md_file_len m)"
    unfolding validate_chunk_desc_def
    by (auto simp: sbind_eq_Inr OcbBodyRefV2_validate_Inr
        dest: validate_column_chunk_object_header_ref validate_column_chunk_object_streaming_ref
        split: if_splits OcbOpenValidationMode.splits)
  from hash_get_columns [OF get] bytes eq validity obj show ?thesis
    by (auto simp: chunk_wf_def expected_value_bytes_Inr)
qed

lemma validate_chunk_desc_ok:
  "is_ok (validate_chunk_desc h zstd file m g c (map (\<lambda>c. (col_column_id c, c)) (sch_columns (md_schema m))) mode limits) \<Longrightarrow>
     chunk_wf m g c"
  by (cases "validate_chunk_desc h zstd file m g c (map (\<lambda>c. (col_column_id c, c)) (sch_columns (md_schema m))) mode limits")
    (auto dest: validate_chunk_desc_Inr)

lemma validate_stat_desc_ok:
  assumes "is_ok (validate_stat_desc g s (map (\<lambda>c. (col_column_id c, c)) (sch_columns (md_schema m))))"
  shows "stat_wf m g s"
  using assms by (auto simp: validate_stat_desc_def stat_wf_def sbind_def ok_or_def split: if_splits option.splits
      dest!: hash_get_columns)

lemma check_row_group_chunks_Inr:
  assumes "check_row_group_chunks h zstd file m (map (\<lambda>c. (col_column_id c, c)) (sch_columns (md_schema m))) mode limits ex g = Inr ()"
  shows "length (chunks_of m g) = unat (rg_chunk_desc_count g)" and "distinct (map chunk_column_id (chunks_of m g))"
    and "chunk_column_id ` set (chunks_of m g) = ex" and "\<forall>c \<in> set (chunks_of m g). chunk_wf m g c"
    and "length (stats_of m g) = unat (rg_stat_count g)" and "distinct (map stat_column_id (stats_of m g))"
    and "\<forall>s \<in> set (stats_of m g). stat_wf m g s"
  using assms
  by (auto simp: check_row_group_chunks_def sbind_eq_Inr checked_chunks_for_row_group_def checked_stats_for_row_group_def
      usize_checked_add_def vec_get_range_def for_each_distinct chunks_of_def stats_of_def
      split: if_splits intro: validate_chunk_desc_ok validate_stat_desc_ok)

section \<open>Well-formed metadata\<close>

definition row_group_wf :: "OcbMetadataV1 \<Rightarrow> OcbRowGroupDescV1 \<Rightarrow> bool" where
  "row_group_wf m g \<longleftrightarrow>
     length (chunks_of m g) = unat (rg_chunk_desc_count g) \<and>
     distinct (map chunk_column_id (chunks_of m g)) \<and>
     chunk_column_id ` set (chunks_of m g) = col_column_id ` set (sch_columns (md_schema m)) \<and>
     (\<forall>c \<in> set (chunks_of m g). chunk_wf m g c) \<and>
     length (stats_of m g) = unat (rg_stat_count g) \<and> distinct (map stat_column_id (stats_of m g)) \<and>
     (\<forall>s \<in> set (stats_of m g). stat_wf m g s)"

definition ordering_wf :: "OcbMetadataV1 \<Rightarrow> bool" where
  "ordering_wf m \<longleftrightarrow>
     (case md_ordering_proof m of
        None \<Rightarrow> True
      | Some proof \<Rightarrow>
          distinct (map okey_column_id (op_keys proof)) \<and>
          okey_column_id ` set (op_keys proof) \<subseteq> col_column_id ` set (sch_columns (md_schema m)) \<and>
          distinct (map rgop_row_group_id (op_row_group_proofs proof)) \<and>
          rgop_row_group_id ` set (op_row_group_proofs proof) =
            rg_row_group_id ` set (rgi_row_groups (md_row_group_index m)))"

definition metadata_wf :: "OcbMetadataV1 \<Rightarrow> bool" where
  "metadata_wf m \<longleftrightarrow>
     (let index = md_row_group_index m; n = length (rgi_row_groups index) in
      schema_wf m \<and>
      length (sch_columns (md_schema m)) = unat (root1_column_count (md_root m)) \<and>
      n = unat (root1_row_group_count (md_root m)) \<and>
      row_groups_tile index n \<and>
      rows_before (rgi_row_groups index) n = unat (root1_row_count (md_root m)) \<and>
      chunks_before (rgi_row_groups index) n = length (rgi_column_chunks index) \<and>
      stats_before (rgi_row_groups index) n = length (rgi_stats index) \<and>
      (\<forall>g \<in> set (rgi_row_groups index). row_group_wf m g) \<and>
      ordering_wf m)"

lemma checked_row_sum_Some:
  assumes "checked_row_sum gs = Some n"
  shows "unat n = rows_before gs (length gs)"
proof -
  let ?f = "\<lambda>g acc. Option.bind acc (\<lambda>acc. checked_add acc (rg_row_count g))"
  have none: "fold ?f gs None = None" for gs by (induction gs) simp_all
  have "fold ?f gs (Some a) = Some n \<Longrightarrow> unat n = unat a + sum_list (map (\<lambda>g. unat (rg_row_count g)) gs)" for a gs
  proof (induction gs arbitrary: a)
    case (Cons g gs)
    then show ?case
      by (cases "checked_add a (rg_row_count g)") (auto simp: none dest: checked_add_Some)
  qed simp
  from this [of gs 0] assms show ?thesis by (simp add: checked_row_sum_def rows_before_def)
qed

lemma check_ordering_key_fold:
  assumes "for_each (check_ordering_key (map (\<lambda>c. (col_column_id c, c)) cs)) ks S = Inr T"
  shows "distinct (map okey_column_id ks) \<and> okey_column_id ` set ks \<inter> S = {} \<and>
     okey_column_id ` set ks \<subseteq> col_column_id ` set cs"
  using assms
proof (induction ks arbitrary: S)
  case Nil
  then show ?case by simp
next
  case (Cons k ks)
  then obtain U where U: "check_ordering_key (map (\<lambda>c. (col_column_id c, c)) cs) k S = Inr U"
    and rest: "for_each (check_ordering_key (map (\<lambda>c. (col_column_id c, c)) cs)) ks U = Inr T"
    by (auto simp: sbind_eq_Inr)
  from U have "okey_column_id k \<in> col_column_id ` set cs" "okey_column_id k \<notin> S" "U = insert (okey_column_id k) S"
    by (auto simp: check_ordering_key_def sbind_eq_Inr split: if_splits dest!: hash_get_columns intro: rev_image_eqI)
  with Cons.IH [OF rest] show ?case by auto
qed

lemma ordering_row_group_fold:
  assumes "afor_each (check_ordering_row_group h file m pos) ps S s = (Inr T, t)"
  shows "distinct (map rgop_row_group_id ps) \<and> rgop_row_group_id ` set ps \<inter> S = {} \<and>
     T = rgop_row_group_id ` set ps \<union> S"
  using assms
proof (induction ps arbitrary: S s)
  case Nil
  then show ?case by (simp add: aret_Inr)
next
  case (Cons p ps)
  then obtain U u where U: "check_ordering_row_group h file m pos p S s = (Inr U, u)"
    and rest: "afor_each (check_ordering_row_group h file m pos) ps U u = (Inr T, t)"
    by (auto simp: abind_Inr)
  from U have "rgop_row_group_id p \<notin> S" "U = insert (rgop_row_group_id p) S"
    by (auto simp: check_ordering_row_group_def action_Inr split: if_splits)
  with Cons.IH [OF rest] show ?case by auto
qed

lemma hash_keys_positions: "hash_keys (positions_of gs (length gs)) = rg_row_group_id ` set gs"
  by (force simp: positions_of_def hash_keys_map in_set_conv_nth)

lemma validate_ordering_graph_Inr:
  assumes "validate_ordering_graph h file m (map (\<lambda>c. (col_column_id c, c)) (sch_columns (md_schema m)))
      (positions_of (rgi_row_groups (md_row_group_index m)) (length (rgi_row_groups (md_row_group_index m)))) s = (Inr u, t)"
  shows "ordering_wf m"
proof (cases "md_ordering_proof m")
  case (Some pr)
  with assms show ?thesis
    by (auto simp: validate_ordering_graph_def action_Inr ordering_wf_def hash_keys_positions
        dest!: check_ordering_key_fold ordering_row_group_fold split: if_splits)
qed (simp add: ordering_wf_def)

lemma validate_row_group_graph_Inr:
  assumes "validate_row_group_graph h zstd file m cols mode limits s = (Inr pos, t)"
    and "cols = map (\<lambda>c. (col_column_id c, c)) (sch_columns (md_schema m))"
  defines "gs \<equiv> rgi_row_groups (md_row_group_index m)"
  shows "row_groups_tile (md_row_group_index m) (length gs)" and "pos = positions_of gs (length gs)"
    and "chunks_before gs (length gs) = length (rgi_column_chunks (md_row_group_index m)) \<or>
       2 ^ 64 \<le> length (rgi_column_chunks (md_row_group_index m))"
    and "stats_before gs (length gs) = length (rgi_stats (md_row_group_index m)) \<or>
       2 ^ 64 \<le> length (rgi_stats (md_row_group_index m))"
    and "\<forall>g \<in> set gs. row_group_wf m g"
proof -
  from assms(1) obtain base cb sb u where
    loop: "afor_each (check_row_group h zstd file m cols mode limits (hash_keys cols))
      (List.enumerate 0 (rgi_row_groups (md_row_group_index m))) ([], 0, 0, 0) s = (Inr (pos, base, cb, sb), u)"
    and cb: "cb = of_nat (length (rgi_column_chunks (md_row_group_index m)))"
    and sb: "sb = of_nat (length (rgi_stats (md_row_group_index m)))"
    by (auto simp: validate_row_group_graph_def Let_def action_Inr split: if_splits)
  note L = row_group_loop [OF loop, folded gs_def]
  show "row_groups_tile (md_row_group_index m) (length gs)" "pos = positions_of gs (length gs)" using L by blast+
  show "chunks_before gs (length gs) = length (rgi_column_chunks (md_row_group_index m)) \<or>
      2 ^ 64 \<le> length (rgi_column_chunks (md_row_group_index m))"
    using L cb by (metis not_less unat_of_nat_u64)
  show "stats_before gs (length gs) = length (rgi_stats (md_row_group_index m)) \<or>
      2 ^ 64 \<le> length (rgi_stats (md_row_group_index m))"
    using L sb by (metis not_less unat_of_nat_u64)
  have "check_row_group_chunks h zstd file m (map (\<lambda>c. (col_column_id c, c)) (sch_columns (md_schema m)))
      mode limits (hash_keys cols) g = Inr ()" if "g \<in> set gs" for g
    using L that assms(2) by (auto simp: in_set_conv_nth)
  from check_row_group_chunks_Inr [OF this] show "\<forall>g \<in> set gs. row_group_wf m g"
    by (auto simp: row_group_wf_def assms(2) hash_keys_map)
qed

lemma validate_root_counts_Inr:
  assumes "validate_root_counts m n = Inr u"
  shows "length (sch_columns (md_schema m)) = unat (root1_column_count (md_root m))"
    and "length (rgi_row_groups (md_row_group_index m)) = unat (root1_row_group_count (md_root m))"
    and "length (rgi_column_chunks (md_row_group_index m)) = unat n"
    and "rows_before (rgi_row_groups (md_row_group_index m)) (length (rgi_row_groups (md_row_group_index m))) =
      unat (root1_row_count (md_root m))"
  using assms
  by (auto simp: validate_root_counts_def Let_def sbind_eq_Inr checked_row_sum_Some split: if_splits option.splits)

lemma validate_metadata_graph_wf:
  assumes "validate_metadata_graph h zstd file m n mode limits root b c = (Inr (pos, b'), c')"
    and "length (rgi_stats (md_row_group_index m)) < 2 ^ 64"
  shows "metadata_wf m \<and>
     pos = positions_of (rgi_row_groups (md_row_group_index m)) (length (rgi_row_groups (md_row_group_index m)))"
proof -
  from assms(1) obtain cols c1 c2 c3 u where
    counts: "validate_root_counts m n = Inr ()" and schema: "validate_schema_graph h m = Inr cols" and
    groups: "validate_row_group_graph h zstd file m cols mode limits c1 = (Inr pos, c2)" and
    order: "validate_ordering_graph h file m cols pos c2 = (Inr u, c3)"
    by (auto simp: validate_metadata_graph_def action_Inr)
  note s = validate_schema_graph_Inr [OF schema]
  note g = validate_row_group_graph_Inr [OF groups s(2)]
  note cnt = validate_root_counts_Inr [OF counts]
  have "length (rgi_column_chunks (md_row_group_index m)) < 2 ^ 64"
    using unsigned_less [of n, where ?'a = nat] by (simp add: cnt(3))
  moreover have "ordering_wf m" using validate_ordering_graph_Inr [of h "file" m c2 u c3] order s(2) g(2) by simp
  ultimately show ?thesis
    using s(1) g cnt assms(2) by (auto simp: metadata_wf_def Let_def)
qed

text \<open>Looking a row group up by its identifier finds exactly the row group that has it.\<close>

lemma row_group_by_id_positions:
  assumes "distinct (map rg_row_group_id (rgi_row_groups (md_row_group_index m)))"
    and "md_row_group_positions_by_id m =
      positions_of (rgi_row_groups (md_row_group_index m)) (length (rgi_row_groups (md_row_group_index m)))"
  shows "row_group_by_id m k = Some g \<longleftrightarrow> g \<in> set (rgi_row_groups (md_row_group_index m)) \<and> rg_row_group_id g = k"
proof -
  let ?gs = "rgi_row_groups (md_row_group_index m)"
  have dist: "distinct (map (\<lambda>i. rg_row_group_id (?gs ! i)) [0..<length ?gs])"
    using assms(1) by (simp add: distinct_conv_nth)
  have get: "hash_get (positions_of ?gs (length ?gs)) (rg_row_group_id (?gs ! i)) = Some i" if "i < length ?gs" for i
    using hash_get_map [OF dist, of i "\<lambda>i. i"] that by (simp add: positions_of_def)
  have pos: "\<exists>i < length ?gs. k = rg_row_group_id (?gs ! i) \<and> j = i"
    if "hash_get (positions_of ?gs (length ?gs)) k = Some j" for k j
    using map_of_SomeD [OF that [unfolded hash_get_def]] by (auto simp: positions_of_def)
  show ?thesis
  proof
    assume "row_group_by_id m k = Some g"
    then obtain j where "hash_get (positions_of ?gs (length ?gs)) k = Some j" "vec_get ?gs j = Some g"
      by (auto simp: row_group_by_id_def assms(2) bind_eq_Some_conv)
    with pos show "g \<in> set ?gs \<and> rg_row_group_id g = k" by (auto simp: vec_get_def)
  next
    assume "g \<in> set ?gs \<and> rg_row_group_id g = k"
    then obtain i where "i < length ?gs" "g = ?gs ! i" "k = rg_row_group_id (?gs ! i)" by (auto simp: in_set_conv_nth)
    with get show "row_group_by_id m k = Some g" by (simp add: row_group_by_id_def assms(2) vec_get_def)
  qed
qed

section \<open>The graph checks and the cache\<close>

lemma keeps_graph [keeps_intros]:
  "keeps (cache_inv h file (md_file_len m) limits) (validate_dictionary_graph h file m cols b)"
  "keeps (cache_inv h file (md_file_len m) limits) (validate_row_group_graph h zstd file m cols mode limits')"
  "keeps (cache_inv h file (md_file_len m) limits) (validate_ordering_graph h file m cols pos)"
  unfolding validate_dictionary_graph_def validate_row_group_graph_def validate_ordering_graph_def Let_def
    check_dictionary_def check_row_group_def check_ordering_row_group_def
  by (auto intro!: keeps_intros split: prod.split)

lemma keeps_validate_metadata_graph [keeps_intros]:
  "keeps (cache_inv h file (md_file_len m) limits) (validate_metadata_graph h zstd file m n mode limits' root b)"
  "keeps (cache_inv h file (md_file_len m) limits) (validate_v2_metadata_graph h zstd file m root2 mode limits' b)"
  unfolding validate_v2_metadata_graph_def validate_metadata_graph_def
  by (auto intro!: keeps_intros split: prod.split)

end
