(* ===== verification/Root_Selection.thy ===== *)
theory Root_Selection
  imports Metadata_Graph
begin

text \<open>
  Choosing the snapshot of a version-2 file (\<open>select_v2_metadata\<close>, \<open>choose_v2_metadata\<close> and the
  maintenance analysis of \<open>read.rs\<close>): the two root slots are admitted as candidates, candidates of
  conflicting generations are dropped, and the newest candidate whose snapshot validates wins.
  A corrupt candidate is discarded; any other failure ends the open.
\<close>

section \<open>Validating one candidate\<close>

record OcbRootCandidateV2 =
  cand_slot :: OcbRootSlotV2
  cand_root :: OcbRootV2

definition validate_commit_diagnostics ::
  "host \<Rightarrow> OcbReadCursor \<Rightarrow> u64 \<Rightarrow> OcbRootV2 \<Rightarrow> OcbResourceLimits \<Rightarrow> unit result" where
  "validate_commit_diagnostics h file file_len root resource_limits =
     (case br_kind (root2_commit_diagnostics_ref root) of
        BodyKind_Unknown \<Rightarrow> Inr ()
      | BodyKind_DebugJsonMetadata \<Rightarrow>
          validate_optional_object h file file_len (root2_commit_diagnostics_ref root)
            BodyKind_DebugJsonMetadata resource_limits
      | BodyKind_RowGroupIndexDelta \<Rightarrow>
          validate_optional_object h file file_len (root2_commit_diagnostics_ref root)
            BodyKind_RowGroupIndexDelta resource_limits
      | _ \<Rightarrow> Inl (ocb_corrupt_file ''OCB root commit_diagnostics_ref has invalid kind''))"

definition validate_v2_root_referenced_objects_with_scope ::
  "host \<Rightarrow> zstd \<Rightarrow> OcbReadCursor \<Rightarrow> u64 \<Rightarrow> OcbRootV2 \<Rightarrow> OcbOpenValidationMode \<Rightarrow> OcbResourceLimits \<Rightarrow>
     OcbMetadataV1 cached" where
  "validate_v2_root_referenced_objects_with_scope h zstd file file_len root validation resource_limits =
     (let metadata_budget = budget_from_limits resource_limits in
     abind (atry (read_metadata_objects_v2_with_resource_limits h file file_len root resource_limits metadata_budget))
     (\<lambda>(metadata, metadata_budget).
     abind (validate_v2_metadata_graph h zstd file metadata root validation resource_limits metadata_budget)
     (\<lambda>(row_group_positions_by_id, metadata_budget).
     let metadata = metadata\<lparr>md_row_group_positions_by_id := row_group_positions_by_id\<rparr> in
     abind (atry (validate_optional_object h file file_len (root2_debug_json_ref root)
        BodyKind_DebugJsonMetadata resource_limits)) (\<lambda>_.
     abind (atry (validate_commit_diagnostics h file file_len root resource_limits)) (\<lambda>_ auxiliary_objects.
     (Inr (metadata\<lparr>md_open_metadata_materialized_bytes := charged_bytes metadata_budget,
                    md_open_auxiliary_encoded_bytes := aux_total_unique_bytes auxiliary_objects\<rparr>),
      auxiliary_objects))))))"

definition validate_v2_root_referenced_metadata :: "host \<Rightarrow> zstd \<Rightarrow> OcbReadCursor \<Rightarrow> u64 \<Rightarrow> OcbRootV2 \<Rightarrow> unit result" where
  "validate_v2_root_referenced_metadata h zstd file file_len root =
     sbind (fst (validate_v2_root_referenced_objects_with_scope h zstd file file_len root MetadataGraph policy_a
       (OcbOpenAuxiliaryObjectCache_new policy_a))) (\<lambda>_. Inr ())"

section \<open>Admitting candidates\<close>

definition is_discardable_candidate_error :: "ArcadiaTioError \<Rightarrow> bool" where
  "is_discardable_candidate_error error \<longleftrightarrow> ocb_failure_cause error = Some Cause_CorruptFile"

text \<open>\<open>Err(err) if is_discardable_candidate_error(&err) => continue, Err(err) => return Err(err)\<close>\<close>

definition or_continue :: "'a result \<Rightarrow> ('a \<Rightarrow> 'b option result) \<Rightarrow> 'b option result" where
  "or_continue r k =
     (case r of
        Inr x \<Rightarrow> k x
      | Inl err \<Rightarrow> if is_discardable_candidate_error err then Inr None else Inl err)"

definition admit_candidate ::
  "host \<Rightarrow> OcbReadCursor \<Rightarrow> u64 \<Rightarrow> OcbResourceLimits \<Rightarrow> nat \<Rightarrow> OcbRootSlotV2 result \<Rightarrow> OcbRootCandidateV2 option result" where
  "admit_candidate h file file_len resource_limits idx slot_result =
     or_continue slot_result (\<lambda>slot.
     if OcbRootSlotV2_is_empty slot then Inr None else
     or_continue (OcbRootSlotV2_validate_candidate slot (of_nat idx) file_len) (\<lambda>_.
     or_continue (read_object_bytes_with_resource_limits h file file_len (slot_root_ref slot) BodyKind_Root resource_limits) (\<lambda>root_bytes.
     or_continue (run_reader OcbRootV2_read_from root_bytes) (\<lambda>root.
     or_continue (OcbRootV2_validate_references root file_len) (\<lambda>_.
     or_continue (OcbRootSlotV2_validate_root slot root) (\<lambda>_.
     Inr (Some \<lparr>cand_slot = slot, cand_root = root\<rparr>)))))))"

definition admit_candidates ::
  "host \<Rightarrow> OcbReadCursor \<Rightarrow> u64 \<Rightarrow> OcbResourceLimits \<Rightarrow> OcbBootstrapPageV2 \<Rightarrow> OcbRootCandidateV2 list result" where
  "admit_candidates h file file_len resource_limits bootstrap =
     for_each (\<lambda>(idx, slot_result) candidates.
       sbind (admit_candidate h file file_len resource_limits idx slot_result) (\<lambda>admitted.
       case admitted of None \<Rightarrow> Inr candidates | Some candidate \<Rightarrow> Inr (candidates @ [candidate])))
       (List.enumerate 0 (decoded_root_slots bootstrap)) []"

section \<open>Choosing a candidate\<close>

abbreviation cand_generation :: "OcbRootCandidateV2 \<Rightarrow> u64" where
  "cand_generation c \<equiv> slot_generation (cand_slot c)"

text \<open>\<open>candidates.iter().map(|c| c.slot.generation).max()\<close>\<close>

definition max_generation :: "OcbRootCandidateV2 list \<Rightarrow> u64 option" where
  "max_generation candidates =
     (case map cand_generation candidates of [] \<Rightarrow> None | g # gs \<Rightarrow> Some (fold max gs g))"

text \<open>The root reference of the first candidate of a generation, and whether another one differs from it.\<close>

definition conflicting_same_generation :: "OcbRootCandidateV2 list \<Rightarrow> u64 \<Rightarrow> bool" where
  "conflicting_same_generation candidates generation =
     (let first_ref = slot_root_ref (cand_slot (hd (filter (\<lambda>c. cand_generation c = generation) candidates)))
      in \<exists>c \<in> set candidates. cand_generation c = generation \<and> slot_root_ref (cand_slot c) \<noteq> first_ref)"

definition retain_other_generations :: "OcbRootCandidateV2 list \<Rightarrow> u64 \<Rightarrow> OcbRootCandidateV2 list" where
  "retain_other_generations candidates generation = filter (\<lambda>c. cand_generation c \<noteq> generation) candidates"

lemma max_generation_None: "max_generation cs = None \<longleftrightarrow> cs = []"
  by (auto simp: max_generation_def split: list.splits)

lemma fold_max_mem: "fold max gs g \<in> insert g (set gs)" for g :: "'a::linorder"
proof (induction gs arbitrary: g)
  case (Cons a gs)
  from Cons.IH [of "max a g"] show ?case by (auto simp: max_def split: if_splits)
qed simp

lemma fold_max_ge: "x \<in> insert g (set gs) \<Longrightarrow> x \<le> fold max gs g" for g :: "'a::linorder"
proof (induction gs arbitrary: g x)
  case (Cons a gs)
  have "max a g \<le> fold max gs (max a g)" by (rule Cons.IH) simp
  moreover have "y \<le> fold max gs (max a g)" if "y \<in> set gs" for y by (rule Cons.IH) (simp add: that)
  ultimately show ?case using Cons.prems by auto
qed simp

lemma max_generation_Some:
  assumes "max_generation cs = Some g"
  shows "\<exists>c \<in> set cs. cand_generation c = g" and "\<forall>c \<in> set cs. cand_generation c \<le> g"
proof -
  from assms obtain c cs' where cs: "cs = c # cs'" and g: "g = fold max (map cand_generation cs') (cand_generation c)"
    by (auto simp: max_generation_def split: list.splits)
  from fold_max_mem [of "map cand_generation cs'" "cand_generation c"] show "\<exists>c \<in> set cs. cand_generation c = g"
    by (auto simp: cs g)
  from fold_max_ge [of _ "cand_generation c" "map cand_generation cs'"] show "\<forall>c \<in> set cs. cand_generation c \<le> g"
    by (auto simp: cs g)
qed

lemma length_retain_less:
  "max_generation cs = Some g \<Longrightarrow> length (retain_other_generations cs g) < length cs"
  unfolding retain_other_generations_def
  by (drule max_generation_Some(1)) (auto intro: length_filter_less)

lemma length_takeWhile_less_iff: "length (takeWhile P xs) < length xs \<longleftrightarrow> (\<exists>x \<in> set xs. \<not> P x)"
  by (induction xs) auto

lemma selected_idx_less:
  "max_generation cs = Some g \<Longrightarrow> length (takeWhile (\<lambda>c. cand_generation c \<noteq> g) cs) < length cs"
  by (drule max_generation_Some(1)) (auto simp: length_takeWhile_less_iff)

function choose_loop ::
  "(OcbRootCandidateV2 \<Rightarrow> OcbMetadataV1 cached) \<Rightarrow> OcbRootCandidateV2 list \<Rightarrow> OcbMetadataV1 cached" where
  "choose_loop validate candidates auxiliary_objects =
     (case max_generation candidates of
        None \<Rightarrow> (Inl (ocb_corrupt_file ''OCB root selection found no valid root slot''), auxiliary_objects)
      | Some max_gen \<Rightarrow>
          if conflicting_same_generation candidates max_gen
          then choose_loop validate (retain_other_generations candidates max_gen) auxiliary_objects
          else
            let selected_idx = length (takeWhile (\<lambda>c. cand_generation c \<noteq> max_gen) candidates);
                candidate = candidates ! selected_idx;
                candidates = take selected_idx candidates @ drop (Suc selected_idx) candidates in
            (case validate candidate auxiliary_objects of
               (Inr metadata, auxiliary_objects) \<Rightarrow> (Inr metadata, auxiliary_objects)
             | (Inl err, auxiliary_objects) \<Rightarrow>
                 if is_discardable_candidate_error err
                 then choose_loop validate (retain_other_generations candidates max_gen) auxiliary_objects
                 else (Inl err, auxiliary_objects)))"
  by pat_completeness auto
termination
proof (relation "measure (\<lambda>(_, candidates, _). length candidates)", goal_cases)
  case (2 validate candidates aux g)
  then show ?case by (simp add: length_retain_less)
next
  case (3 validate candidates aux g idx candidate rest p err aux')
  have "length (retain_other_generations rest g) \<le> length rest"
    by (simp add: retain_other_generations_def)
  also have "length rest < length candidates"
    using selected_idx_less [OF 3(1)] 3(3,5) by simp
  finally show ?case by simp
qed simp

declare choose_loop.simps [simp del]

definition choose_v2_metadata ::
  "host \<Rightarrow> zstd \<Rightarrow> OcbReadCursor \<Rightarrow> u64 \<Rightarrow> OcbRootCandidateV2 list \<Rightarrow> OcbOpenValidationMode \<Rightarrow>
     OcbResourceLimits \<Rightarrow> OcbMetadataV1 result" where
  "choose_v2_metadata h zstd file file_len candidates validation resource_limits =
     fst (choose_loop (\<lambda>candidate. validate_v2_root_referenced_objects_with_scope h zstd file file_len
         (cand_root candidate) validation resource_limits)
       candidates (OcbOpenAuxiliaryObjectCache_new resource_limits))"

definition select_v2_metadata ::
  "host \<Rightarrow> zstd \<Rightarrow> OcbReadCursor \<Rightarrow> u64 \<Rightarrow> OcbBootstrapPageV2 \<Rightarrow> OcbOpenValidationMode \<Rightarrow>
     OcbResourceLimits \<Rightarrow> OcbMetadataV1 result" where
  "select_v2_metadata h zstd file file_len bootstrap validation resource_limits =
     sbind (admit_candidates h file file_len resource_limits bootstrap) (\<lambda>candidates.
     choose_v2_metadata h zstd file file_len candidates validation resource_limits)"

section \<open>What the choice does\<close>

text \<open>
  A generation is rejected when two of its candidates name different root objects, or when its
  candidate was validated and found corrupt (in some state \<open>a\<close> of the shared auxiliary cache
  that satisfies the cache's invariant \<open>I\<close>).
\<close>

definition rejected ::
  "(OcbOpenAuxiliaryObjectCache \<Rightarrow> bool) \<Rightarrow> (OcbRootCandidateV2 \<Rightarrow> OcbMetadataV1 cached) \<Rightarrow>
     OcbRootCandidateV2 list \<Rightarrow> u64 \<Rightarrow> bool" where
  "rejected I validate cs g \<longleftrightarrow>
     conflicting_same_generation cs g \<or>
     (\<exists>c \<in> set cs. cand_generation c = g \<and>
        (\<exists>a a' err. I a \<and> validate c a = (Inl err, a') \<and> is_discardable_candidate_error err))"

lemma retain_set: "set (retain_other_generations cs g) = {c \<in> set cs. cand_generation c \<noteq> g}"
  by (auto simp: retain_other_generations_def)

lemma conflicting_retain:
  "g \<noteq> h \<Longrightarrow> conflicting_same_generation (retain_other_generations cs h) g = conflicting_same_generation cs g"
proof -
  assume "g \<noteq> h"
  then have "filter (\<lambda>c. cand_generation c = g) (retain_other_generations cs h) = filter (\<lambda>c. cand_generation c = g) cs"
    unfolding retain_other_generations_def filter_filter by (intro filter_cong) auto
  with \<open>g \<noteq> h\<close> show ?thesis by (auto simp: conflicting_same_generation_def Let_def retain_set)
qed

lemma rejected_retain: "g \<noteq> h \<Longrightarrow> rejected I v (retain_other_generations cs h) g = rejected I v cs g"
  unfolding rejected_def by (simp add: conflicting_retain) (auto simp: retain_set)

lemma retain_removed:
  "i < length cs \<Longrightarrow> cand_generation (cs ! i) = g \<Longrightarrow>
     retain_other_generations (take i cs @ drop (Suc i) cs) g = retain_other_generations cs g"
  unfolding retain_other_generations_def
  by (subst (3) id_take_nth_drop [of i cs]) simp_all

text \<open>The candidate the body of the loop takes out, and the loop in one equation.\<close>

definition first_of_generation :: "OcbRootCandidateV2 list \<Rightarrow> u64 \<Rightarrow> OcbRootCandidateV2" where
  "first_of_generation cs g = cs ! length (takeWhile (\<lambda>c. cand_generation c \<noteq> g) cs)"

lemma first_of_generation:
  assumes "max_generation cs = Some g"
  shows "first_of_generation cs g \<in> set cs" and "cand_generation (first_of_generation cs g) = g"
  using nth_length_takeWhile [OF selected_idx_less [OF assms]] selected_idx_less [OF assms]
  by (simp_all add: first_of_generation_def)

lemma retain_rest:
  assumes "max_generation cs = Some g"
  defines "i \<equiv> length (takeWhile (\<lambda>c. cand_generation c \<noteq> g) cs)"
  shows "retain_other_generations (take i cs @ drop (Suc i) cs) g = retain_other_generations cs g"
  unfolding i_def
  using retain_removed [OF selected_idx_less [OF assms(1)]] first_of_generation(2) [OF assms(1)]
  by (simp add: first_of_generation_def)

lemma choose_loop_eq:
  assumes "max_generation cs = Some g"
  shows "choose_loop v cs a =
    (if conflicting_same_generation cs g then choose_loop v (retain_other_generations cs g) a
     else case v (first_of_generation cs g) a of
       (Inr m, a') \<Rightarrow> (Inr m, a')
     | (Inl err, a') \<Rightarrow> if is_discardable_candidate_error err
         then choose_loop v (retain_other_generations cs g) a' else (Inl err, a'))"
  by (subst choose_loop.simps)
    (simp add: assms retain_rest [OF assms] Let_def first_of_generation_def split: prod.split sum.split)

text \<open>
  The choice as a relation: \<open>chooses validate cs a r a'\<close> when, of the candidates \<open>cs\<close> and
  from the cache state \<open>a\<close>, the outcome is \<open>r\<close> and the cache ends as \<open>a'\<close>.
\<close>

abbreviation no_valid_root :: ArcadiaTioError where
  "no_valid_root \<equiv> ocb_corrupt_file ''OCB root selection found no valid root slot''"

inductive chooses ::
  "(OcbRootCandidateV2 \<Rightarrow> OcbMetadataV1 cached) \<Rightarrow> OcbRootCandidateV2 list \<Rightarrow> OcbOpenAuxiliaryObjectCache \<Rightarrow>
     OcbMetadataV1 result \<Rightarrow> OcbOpenAuxiliaryObjectCache \<Rightarrow> bool"
  for validate where
  none: "chooses validate [] a (Inl no_valid_root) a"
| conflict: "max_generation cs = Some g \<Longrightarrow> conflicting_same_generation cs g \<Longrightarrow>
    chooses validate (retain_other_generations cs g) a r a' \<Longrightarrow> chooses validate cs a r a'"
| discard: "max_generation cs = Some (cand_generation c) \<Longrightarrow> c \<in> set cs \<Longrightarrow>
    \<not> conflicting_same_generation cs (cand_generation c) \<Longrightarrow> validate c a = (Inl err, a1) \<Longrightarrow> is_discardable_candidate_error err \<Longrightarrow>
    chooses validate (retain_other_generations cs (cand_generation c)) a1 r a' \<Longrightarrow> chooses validate cs a r a'"
| abort: "max_generation cs = Some (cand_generation c) \<Longrightarrow> c \<in> set cs \<Longrightarrow>
    \<not> conflicting_same_generation cs (cand_generation c) \<Longrightarrow> validate c a = (Inl err, a') \<Longrightarrow> \<not> is_discardable_candidate_error err \<Longrightarrow>
    chooses validate cs a (Inl err) a'"
| win: "max_generation cs = Some (cand_generation c) \<Longrightarrow> c \<in> set cs \<Longrightarrow>
    \<not> conflicting_same_generation cs (cand_generation c) \<Longrightarrow> validate c a = (Inr m, a') \<Longrightarrow>
    chooses validate cs a (Inr m) a'"

lemma choose_loop_chooses: "choose_loop v cs a = (r, a') \<Longrightarrow> chooses v cs a r a'"
proof (induction "length cs" arbitrary: cs a rule: less_induct)
  case less
  show ?case
  proof (cases "max_generation cs")
    case None
    with less.prems show ?thesis
      by (subst (asm) choose_loop.simps) (auto simp: max_generation_None intro: chooses.none)
  next
    case (Some g)
    let ?c = "first_of_generation cs g"
    note c = first_of_generation [OF Some]
    have IH: "chooses v (retain_other_generations cs g) b r a'"
      if "choose_loop v (retain_other_generations cs g) b = (r, a')" for b
      by (rule less.hyps [OF length_retain_less [OF Some] that])
    have max: "max_generation cs = Some (cand_generation ?c)" using Some c(2) by simp
    from less.prems show ?thesis
      unfolding choose_loop_eq [OF Some]
      using Some c(1) chooses.discard [OF max c(1)] chooses.abort [OF max c(1)] chooses.win [OF max c(1)]
      by (auto simp: c(2) split: if_splits prod.splits sum.splits dest!: IH intro: chooses.conflict)
  qed
qed

text \<open>
  The caches the choice can hold when it comes to generation \<open>g\<close>: the one it starts with, or
  the one left behind by a candidate of a newer generation that was found corrupt, itself
  validated with such a cache.
\<close>

inductive cache_at ::
  "(OcbRootCandidateV2 \<Rightarrow> OcbMetadataV1 cached) \<Rightarrow> OcbRootCandidateV2 list \<Rightarrow> OcbOpenAuxiliaryObjectCache \<Rightarrow>
     u64 \<Rightarrow> OcbOpenAuxiliaryObjectCache \<Rightarrow> bool"
  for validate candidates a0 where
  start: "cache_at validate candidates a0 g a0"
| discarded: "cache_at validate candidates a0 (cand_generation d) a \<Longrightarrow> d \<in> set candidates \<Longrightarrow>
    \<not> conflicting_same_generation candidates (cand_generation d) \<Longrightarrow> g < cand_generation d \<Longrightarrow>
    validate d a = (Inl err, a') \<Longrightarrow> is_discardable_candidate_error err \<Longrightarrow> cache_at validate candidates a0 g a'"

text \<open>
  If one candidate is alone in its generation and validates with every cache the choice can hold
  there, and no newer candidate fails for another reason than corruption, the choice ends with
  the snapshot of a candidate that is at least as new.  The lemma follows the choice through the
  lists \<open>cs\<close> that are left of the original \<open>candidates\<close>.
\<close>

lemma chooses_live:
  assumes "chooses v cs a r a'" and "c \<in> set cs" and "set cs \<subseteq> set candidates"
    and "\<And>d. d \<in> set cs \<Longrightarrow>
      conflicting_same_generation cs (cand_generation d) = conflicting_same_generation candidates (cand_generation d)"
    and "\<And>d. d \<in> set cs \<Longrightarrow> cache_at v candidates a0 (cand_generation d) a"
    and alone: "\<not> conflicting_same_generation candidates (cand_generation c)"
    and good: "\<And>d a. d \<in> set candidates \<Longrightarrow> cand_generation d = cand_generation c \<Longrightarrow>
      cache_at v candidates a0 (cand_generation d) a \<Longrightarrow> is_ok (fst (v d a))"
    and newer: "\<And>d a err. d \<in> set candidates \<Longrightarrow> cand_generation c < cand_generation d \<Longrightarrow>
      \<not> conflicting_same_generation candidates (cand_generation d) \<Longrightarrow>
      cache_at v candidates a0 (cand_generation d) a \<Longrightarrow> fst (v d a) = Inl err \<Longrightarrow> is_discardable_candidate_error err"
  shows "\<exists>m d b b'. r = Inr m \<and> d \<in> set candidates \<and> cand_generation c \<le> cand_generation d \<and>
    \<not> conflicting_same_generation candidates (cand_generation d) \<and>
    cache_at v candidates a0 (cand_generation d) b \<and> v d b = (Inr m, b')"
  using assms(1-5)
proof (induction rule: chooses.induct)
  case (none a)
  then show ?case by simp
next
  case (conflict cs g a r a')
  then have "cand_generation c \<noteq> g" using alone by metis
  then show ?case
    using conflict by (intro conflict.IH) (auto simp: retain_set conflicting_retain)
next
  case (discard cs d a err a1 r a')
  have d: "d \<in> set candidates" "cache_at v candidates a0 (cand_generation d) a"
    "\<not> conflicting_same_generation candidates (cand_generation d)"
    using discard.hyps(2,3) discard.prems by auto
  have "\<not> is_ok (fst (v d a))" using discard.hyps(4) by (simp add: is_ok_def)
  then have "cand_generation d \<noteq> cand_generation c" using good d by metis
  moreover have "cache_at v candidates a0 (cand_generation e) a1" if "e \<in> set (retain_other_generations cs (cand_generation d))" for e
  proof (rule cache_at.discarded [OF d(2,1,3) _ discard.hyps(4,5)])
    show "cand_generation e < cand_generation d"
      using that max_generation_Some(2) [OF discard.hyps(1)] by (auto simp: retain_set order.order_iff_strict)
  qed
  ultimately show ?case
    using discard.prems by (intro discard.IH) (auto simp: retain_set conflicting_retain)
next
  case (abort cs d a err a')
  then have d: "d \<in> set candidates" "cache_at v candidates a0 (cand_generation d) a" "cand_generation c \<le> cand_generation d"
    "\<not> conflicting_same_generation candidates (cand_generation d)"
    using max_generation_Some(2) [OF abort.hyps(1)] by auto
  have "fst (v d a) = Inl err" using abort.hyps(4) by simp
  then show ?case
    using good [OF d(1) _ d(2)] newer [OF d(1) _ d(4,2)] d(3) abort.hyps(5) by (cases "cand_generation c = cand_generation d") (auto simp: is_ok_def)
next
  case (win cs d a m a')
  then show ?case using max_generation_Some(2) [OF win.hyps(1)] by (intro exI [of _ m] exI [of _ d]) auto
qed

lemmas choose_loop_live = chooses_live [OF choose_loop_chooses]

lemma rejected_newer:
  assumes "rejected I v cs g"
  shows "(\<forall>d \<in> set cs. P d \<longrightarrow> rejected I v cs (cand_generation d)) \<longleftrightarrow>
    (\<forall>d \<in> set (retain_other_generations cs g). P d \<longrightarrow> rejected I v (retain_other_generations cs g) (cand_generation d))"
proof -
  have "rejected I v (retain_other_generations cs g) (cand_generation d) = rejected I v cs (cand_generation d)"
    if "d \<in> set (retain_other_generations cs g)" for d
    using that by (simp add: retain_set rejected_retain)
  moreover have "rejected I v cs (cand_generation d)" if "d \<in> set cs - set (retain_other_generations cs g)" for d
    using that assms by (auto simp: retain_set)
  moreover have "set (retain_other_generations cs g) \<subseteq> set cs" by (auto simp: retain_set)
  ultimately show ?thesis by blast
qed

text \<open>A candidate that the choice reaches: alone in its generation, with every newer generation rejected.\<close>

definition reached ::
  "(OcbOpenAuxiliaryObjectCache \<Rightarrow> bool) \<Rightarrow> (OcbRootCandidateV2 \<Rightarrow> OcbMetadataV1 cached) \<Rightarrow>
     OcbRootCandidateV2 list \<Rightarrow> OcbRootCandidateV2 \<Rightarrow> bool" where
  "reached I validate cs c \<longleftrightarrow>
     c \<in> set cs \<and> \<not> conflicting_same_generation cs (cand_generation c) \<and>
     (\<forall>d \<in> set cs. cand_generation c < cand_generation d \<longrightarrow> rejected I validate cs (cand_generation d))"

lemma reached_max:
  "max_generation cs = Some (cand_generation c) \<Longrightarrow> c \<in> set cs \<Longrightarrow>
     \<not> conflicting_same_generation cs (cand_generation c) \<Longrightarrow> reached I v cs c"
  unfolding reached_def by (meson max_generation_Some(2) leD)

lemma reached_retain:
  assumes "reached I v (retain_other_generations cs g) c" and "rejected I v cs g"
  shows "reached I v cs c"
  using assms unfolding reached_def rejected_newer [OF assms(2)] by (auto simp: retain_set conflicting_retain)

text \<open>What an outcome means: the winner is valid, and a failure is that of a reached candidate or that nothing is left.\<close>

definition outcome_ok ::
  "(OcbOpenAuxiliaryObjectCache \<Rightarrow> bool) \<Rightarrow> (OcbRootCandidateV2 \<Rightarrow> OcbMetadataV1 cached) \<Rightarrow>
     OcbRootCandidateV2 list \<Rightarrow> OcbMetadataV1 result \<Rightarrow> OcbOpenAuxiliaryObjectCache \<Rightarrow> bool" where
  "outcome_ok I validate cs r a' \<longleftrightarrow>
     (r = Inl no_valid_root \<and> (\<forall>d \<in> set cs. rejected I validate cs (cand_generation d))) \<or>
     (\<exists>c a0. reached I validate cs c \<and> I a0 \<and> validate c a0 = (r, a') \<and>
        (\<forall>err. r = Inl err \<longrightarrow> \<not> is_discardable_candidate_error err))"

lemma outcome_retain:
  assumes "outcome_ok I v (retain_other_generations cs g) r a'" and "rejected I v cs g"
  shows "outcome_ok I v cs r a'"
  using assms(1) rejected_newer [OF assms(2), of "\<lambda>_. True"] reached_retain [OF _ assms(2)]
  unfolding outcome_ok_def by blast

locale snapshot_choice =
  fixes I :: "OcbOpenAuxiliaryObjectCache \<Rightarrow> bool" and validate :: "OcbRootCandidateV2 \<Rightarrow> OcbMetadataV1 cached"
  assumes validate_keeps: "keeps I (validate c)"
begin

lemma validate_inv: "validate c a = (r, a') \<Longrightarrow> I a \<Longrightarrow> I a'"
  using keepsD [OF validate_keeps, of a c] by simp

lemma chooses_inv: "chooses validate cs a r a' \<Longrightarrow> I a \<Longrightarrow> I a'"
  by (induction rule: chooses.induct) (auto dest: validate_inv)

lemma chooses_outcome: "chooses validate cs a r a' \<Longrightarrow> I a \<Longrightarrow> outcome_ok I validate cs r a'"
proof (induction rule: chooses.induct)
  case (none a)
  then show ?case by (simp add: outcome_ok_def)
next
  case (conflict cs g a r a')
  then show ?case by (meson outcome_retain rejected_def)
next
  case (discard cs c a err a1 r a')
  have "I a1" using discard.hyps(4) discard.prems by (rule validate_inv)
  moreover have "rejected I validate cs (cand_generation c)"
    using discard.hyps discard.prems unfolding rejected_def by blast
  ultimately show ?case using discard.IH by (blast intro: outcome_retain)
next
  case (abort cs c a err a')
  then show ?case unfolding outcome_ok_def using reached_max by blast
next
  case (win cs c a m a')
  then show ?case unfolding outcome_ok_def using reached_max by blast
qed

lemmas choose_outcome = chooses_outcome [OF choose_loop_chooses]
lemmas choose_inv = chooses_inv [OF choose_loop_chooses]

end

section \<open>The choice made by the reader\<close>

lemma keeps_try:
  "(\<And>x. r = Inr x \<Longrightarrow> keeps I (k x)) \<Longrightarrow> keeps I (abind (atry r) k)"
  by (cases r) (auto simp: keeps_def abind_def atry_def)

lemma read_metadata_objects_file_len:
  "read_metadata_objects_with_resource_limits h file file_len root limits b = Inr (m, b') \<Longrightarrow> md_file_len m = file_len"
  unfolding read_metadata_objects_with_resource_limits_def by (elim sbind_pairE sbind_InrE) auto

lemma delta_applied_file_len [simp]: "md_file_len (delta_applied m d) = md_file_len m"
  by (simp add: delta_applied_def)

lemma read_metadata_objects_v2_file_len:
  assumes "read_metadata_objects_v2_with_resource_limits h file file_len root limits b = Inr (m, b')"
  shows "md_file_len m = file_len"
  using assms unfolding read_metadata_objects_v2_with_resource_limits_def Let_def
  by (elim sbind_pairE sbind_InrE)
    (auto dest!: read_metadata_objects_file_len apply_row_group_index_delta_sound(2) split: if_splits elim!: sbind_pairE sbind_InrE)

lemma keeps_validate_v2_root [keeps_intros]:
  "keeps (cache_inv h file file_len limits)
     (validate_v2_root_referenced_objects_with_scope h zstd file file_len root mode limits)"
proof -
  have "keeps (cache_inv h file file_len limits) (\<lambda>a. (Inr (f a), a))" for f :: "OcbOpenAuxiliaryObjectCache \<Rightarrow> OcbMetadataV1"
    by (simp add: keeps_def)
  moreover have "keeps (cache_inv h file file_len limits) (validate_v2_metadata_graph h zstd file m root mode limits b)"
    if "md_file_len m = file_len" for m b
    using keeps_validate_metadata_graph(2) [of h "file" m] that by simp
  ultimately show ?thesis
    unfolding validate_v2_root_referenced_objects_with_scope_def Let_def
    by (intro keeps_try) (auto intro!: keeps_intros dest!: read_metadata_objects_v2_file_len split: prod.split)
qed

interpretation v2: snapshot_choice "cache_inv h file file_len limits"
  "\<lambda>c. validate_v2_root_referenced_objects_with_scope h zstd file file_len (cand_root c) mode limits"
  for h zstd "file" file_len mode limits
  by unfold_locales (rule keeps_validate_v2_root)

end
