(* ===== verification/Open_File.thy ===== *)
theory Open_File
  imports Root_Selection
begin

text \<open>
  Opening a file (\<open>read_metadata_from_source_with_validation_and_resource_limits\<close>,
  \<open>read_metadata_v1\<close> and \<open>read_metadata_v2\<close> of \<open>read.rs\<close>): the magic number selects the version; a
  version-1 file has one root, a version-2 file the root its slots select.  The lemmas collect
  what holds of the metadata of every file that opens.
\<close>

section \<open>The code\<close>

definition file_OcbBootstrapPageV1_read_from :: "OcbReadCursor \<Rightarrow> (OcbBootstrapPageV1 \<times> OcbReadCursor) result" where
  "file_OcbBootstrapPageV1_read_from reader =
     sbind (file_read_exact_ocb reader OCB_BOOTSTRAP_PAGE_V1_LEN) (\<lambda>(buf, reader).
     sbind (OcbBootstrapPageV1_decode buf) (\<lambda>page. Inr (page, reader)))"

definition file_OcbBootstrapPageV2_read_from :: "OcbReadCursor \<Rightarrow> (OcbBootstrapPageV2 \<times> OcbReadCursor) result" where
  "file_OcbBootstrapPageV2_read_from reader =
     sbind (file_read_exact_ocb reader OCB_BOOTSTRAP_PAGE_V2_LEN) (\<lambda>(buf, reader).
     sbind (OcbBootstrapPageV2_decode buf) (\<lambda>page. Inr (page, reader)))"

definition read_metadata_v1 ::
  "host \<Rightarrow> zstd \<Rightarrow> OcbReadCursor \<Rightarrow> u64 \<Rightarrow> OcbOpenValidationMode \<Rightarrow> OcbResourceLimits \<Rightarrow> OcbMetadataV1 result" where
  "read_metadata_v1 h zstd file file_len validation resource_limits =
     sbind (file_OcbBootstrapPageV1_read_from file) (\<lambda>(bootstrap, file).
     sbind (OcbBodyRefV2_validate (bp1_root_ref bootstrap) BodyKind_Root file_len) (\<lambda>_.
     if br_length (bp1_root_ref bootstrap) \<noteq> ucast OCB_ROOT_V1_LEN
     then Inl (ocb_corrupt_file ''OCB root object length is invalid'') else
     sbind (read_object_bytes_with_resource_limits h file file_len (bp1_root_ref bootstrap)
        BodyKind_Root resource_limits) (\<lambda>root_bytes.
     sbind (run_reader OcbRootV1_read_from root_bytes) (\<lambda>root.
     let metadata_budget = budget_from_limits resource_limits in
     sbind (read_metadata_objects_with_resource_limits h file file_len root resource_limits metadata_budget)
     (\<lambda>(metadata, metadata_budget).
     sbind (ok_or (checked_mul (root1_column_count (md_root metadata)) (root1_row_group_count (md_root metadata)))
        (ocb_corrupt_file ''OCB v1 root column chunk count overflows'')) (\<lambda>root_column_chunk_count.
     let auxiliary_objects = OcbOpenAuxiliaryObjectCache_new resource_limits in
     (case validate_metadata_graph h zstd file metadata root_column_chunk_count validation resource_limits
             None metadata_budget auxiliary_objects of
        (Inl err, _) \<Rightarrow> Inl err
      | (Inr (row_group_positions_by_id, metadata_budget), auxiliary_objects) \<Rightarrow>
          Inr (metadata\<lparr>md_row_group_positions_by_id := row_group_positions_by_id,
                        md_open_metadata_materialized_bytes := charged_bytes metadata_budget,
                        md_open_auxiliary_encoded_bytes := aux_total_unique_bytes auxiliary_objects\<rparr>))))))))"

definition read_metadata_v2 ::
  "host \<Rightarrow> zstd \<Rightarrow> OcbReadCursor \<Rightarrow> u64 \<Rightarrow> OcbOpenValidationMode \<Rightarrow> OcbResourceLimits \<Rightarrow> OcbMetadataV1 result" where
  "read_metadata_v2 h zstd file file_len validation resource_limits =
     sbind (file_OcbBootstrapPageV2_read_from file) (\<lambda>(bootstrap, file).
     select_v2_metadata h zstd file file_len bootstrap validation resource_limits)"

definition read_metadata_from_source_with_validation_and_resource_limits ::
  "host \<Rightarrow> zstd \<Rightarrow> OcbReadSource \<Rightarrow> OcbOpenValidationMode \<Rightarrow> OcbResourceLimits \<Rightarrow> OcbMetadataV1 result" where
  "read_metadata_from_source_with_validation_and_resource_limits h zstd source validation resource_limits =
     (let file = OcbReadSource_cursor source; file_len = rs_file_len source in
     if file_len < of_nat OCB_BOOTSTRAP_PAGE_V1_LEN
     then Inl (ocb_corrupt_file ''OCB file is shorter than bootstrap page'') else
     sbind (seek_start file 0) (\<lambda>file.
     sbind (file_read_exact_ocb file 8) (\<lambda>(magic, file).
     sbind (seek_start file 0) (\<lambda>file.
     if magic = OCB_BOOTSTRAP_MAGIC_V1 then read_metadata_v1 h zstd file file_len validation resource_limits
     else if magic = OCB_BOOTSTRAP_MAGIC_V2 then read_metadata_v2 h zstd file file_len validation resource_limits
     else Inl (ocb_unsupported_format ''invalid OCB bootstrap magic'')))))"

text \<open>\<open>opened\<close> is what \<open>OcbReadSource::open\<close> of the path returned.\<close>

definition read_metadata :: "host \<Rightarrow> zstd \<Rightarrow> OcbReadSource result \<Rightarrow> OcbMetadataV1 result" where
  "read_metadata h zstd opened =
     sbind opened (\<lambda>source.
     read_metadata_from_source_with_validation_and_resource_limits h zstd source MetadataGraph policy_a)"

section \<open>Every outcome of admission\<close>

lemma or_continue_Inr:
  "or_continue r k = Inr (Some c) \<longleftrightarrow> (\<exists>x. r = Inr x \<and> k x = Inr (Some c))"
  by (auto simp: or_continue_def split: sum.splits)

lemma admit_candidate_Some:
  "admit_candidate h file file_len limits idx r = Inr (Some c) \<longleftrightarrow>
     r = Inr (cand_slot c) \<and> \<not> OcbRootSlotV2_is_empty (cand_slot c) \<and>
     is_ok (OcbRootSlotV2_validate_candidate (cand_slot c) (of_nat idx) file_len) \<and>
     (\<exists>bs. read_object_bytes_with_resource_limits h file file_len (slot_root_ref (cand_slot c)) BodyKind_Root limits = Inr bs \<and>
        run_reader OcbRootV2_read_from bs = Inr (cand_root c)) \<and>
     is_ok (OcbRootV2_validate_references (cand_root c) file_len) \<and>
     is_ok (OcbRootSlotV2_validate_root (cand_slot c) (cand_root c))"
  by (cases c) (auto simp: admit_candidate_def or_continue_Inr is_ok_def split: if_splits sum.splits)

lemma for_each_admit:
  assumes "for_each (\<lambda>x cs. sbind (f x) (\<lambda>r. case r of None \<Rightarrow> Inr cs | Some c \<Rightarrow> Inr (cs @ [c]))) xs cs = Inr ds"
  shows "set ds = set cs \<union> {c. \<exists>x \<in> set xs. f x = Inr (Some c)} \<and> (\<forall>x \<in> set xs. is_ok (f x))"
  using assms
proof (induction xs arbitrary: cs)
  case (Cons x xs)
  then obtain r where r: "f x = Inr r" by (auto simp: sbind_eq_Inr)
  with Cons.prems Cons.IH [of "case r of None \<Rightarrow> cs | Some c \<Rightarrow> cs @ [c]"] show ?case
    by (cases r) auto
qed simp

lemma admit_candidates_set:
  assumes "admit_candidates h file file_len limits page = Inr cs"
  shows "c \<in> set cs \<longleftrightarrow>
     (\<exists>i < length (decoded_root_slots page).
        admit_candidate h file file_len limits i (decoded_root_slots page ! i) = Inr (Some c))"
proof -
  let ?f = "\<lambda>p. admit_candidate h file file_len limits (fst p) (snd p)"
  from assms have "for_each (\<lambda>p candidates. sbind (?f p) (\<lambda>r. case r of None \<Rightarrow> Inr candidates
      | Some c \<Rightarrow> Inr (candidates @ [c]))) (List.enumerate 0 (decoded_root_slots page)) [] = Inr cs"
    by (simp add: admit_candidates_def case_prod_unfold)
  from for_each_admit [OF this]
  have "c \<in> set cs \<longleftrightarrow> (\<exists>p \<in> set (List.enumerate 0 (decoded_root_slots page)). ?f p = Inr (Some c))" by simp
  also have "\<dots> \<longleftrightarrow> (\<exists>i < length (decoded_root_slots page). ?f (i, decoded_root_slots page ! i) = Inr (Some c))"
    unfolding Bex_def in_set_enumerate_eq by (metis add_0_right fst_conv minus_nat.diff_0 prod.collapse snd_conv zero_le)
  finally show ?thesis by simp
qed

section \<open>What holds of opened metadata\<close>

lemma metadata_wf_update [simp]:
  "metadata_wf (m\<lparr>md_row_group_positions_by_id := p\<rparr>) = metadata_wf m"
  "metadata_wf (m\<lparr>md_open_metadata_materialized_bytes := n\<rparr>) = metadata_wf m"
  "metadata_wf (m\<lparr>md_open_auxiliary_encoded_bytes := n\<rparr>) = metadata_wf m"
  by (cases "md_ordering_proof m";
      simp add: metadata_wf_def schema_wf_def row_group_wf_def chunks_of_def stats_of_def chunk_wf_def stat_wf_def ordering_wf_def)+

lemma metadata_retained_update' [simp]:
  "metadata_retained h (m\<lparr>md_row_group_positions_by_id := p\<rparr>) = metadata_retained h m"
  "metadata_retained h (m\<lparr>md_open_auxiliary_encoded_bytes := n\<rparr>) = metadata_retained h m"
  by (simp_all add: metadata_retained_def)

text \<open>Every chunk of well-formed metadata is a chunk of one of its row groups.\<close>

lemma prefix_sums_cover:
  fixes f :: "nat \<Rightarrow> nat"
  assumes "f 0 = 0" and "j < f n"
  shows "\<exists>i < n. f i \<le> j \<and> j < f (Suc i)"
  using assms(2)
proof (induction n)
  case 0
  then show ?case using assms(1) by simp
next
  case (Suc n)
  show ?case
  proof (cases "j < f n")
    case True
    with Suc.IH show ?thesis using less_SucI by blast
  next
    case False
    with Suc.prems show ?thesis by (intro exI [of _ n]) simp
  qed
qed

lemma metadata_wf_chunk:
  assumes "metadata_wf m" and "c \<in> set (rgi_column_chunks (md_row_group_index m))"
  shows "\<exists>g \<in> set (rgi_row_groups (md_row_group_index m)). chunk_wf m g c"
proof -
  let ?gs = "rgi_row_groups (md_row_group_index m)" and ?cs = "rgi_column_chunks (md_row_group_index m)"
  from assms(2) obtain j where j: "j < length ?cs" "c = ?cs ! j" by (auto simp: in_set_conv_nth)
  have "j < chunks_before ?gs (length ?gs)" using j(1) assms(1) unfolding metadata_wf_def Let_def by metis
  moreover have "chunks_before ?gs 0 = 0" by (simp add: before_defs)
  ultimately obtain i where i: "i < length ?gs" and le: "chunks_before ?gs i \<le> j" and lt: "j < chunks_before ?gs (Suc i)"
    using prefix_sums_cover by blast
  let ?g = "?gs ! i"
  have start: "unat (rg_chunk_desc_begin ?g) = chunks_before ?gs i" and wf: "row_group_wf m ?g"
    using assms(1) i by (simp_all add: metadata_wf_def Let_def row_groups_tile_def)
  have "j - chunks_before ?gs i < unat (rg_chunk_desc_count ?g)" using le lt before_Suc(2) [OF i] by simp
  then have "chunks_of m ?g ! (j - chunks_before ?gs i) = c" "j - chunks_before ?gs i < length (chunks_of m ?g)"
    using le j wf by (simp_all add: chunks_of_def slice_def start row_group_wf_def)
  then have "c \<in> set (chunks_of m ?g)" using nth_mem by metis
  with wf i show ?thesis by (auto simp: row_group_wf_def)
qed

text \<open>The references of the metadata itself, and that references lie inside the file.\<close>

definition metadata_references :: "OcbMetadataV1 \<Rightarrow> OcbBodyRefV2 list" where
  "metadata_references m =
     [sch_string_table_ref (md_schema m)] @
     (case md_dictionary_index m of Some x \<Rightarrow> map dict_values_ref (dix_dictionaries x) | None \<Rightarrow> []) @
     concat (map (\<lambda>g. [rg_first_key_tuple_ref g, rg_last_key_tuple_ref g]) (rgi_row_groups (md_row_group_index m))) @
     concat (map (\<lambda>c. [chunk_value_ref c, chunk_validity_ref c]) (rgi_column_chunks (md_row_group_index m))) @
     (case md_ordering_proof m of
        Some p \<Rightarrow> concat (map (\<lambda>x. [rgop_first_tuple_ref x, rgop_last_tuple_ref x]) (op_row_group_proofs p))
      | None \<Rightarrow> [])"

definition stays_in_file :: "u64 \<Rightarrow> OcbBodyRefV2 \<Rightarrow> bool" where
  "stays_in_file file_len r \<longleftrightarrow> is_null r \<or> ref_stop r \<le> unat file_len"

lemma stays_in_fileI:
  "ref_in_file r kind file_len \<Longrightarrow> stays_in_file file_len r"
  "optional_ref_in_file r kinds file_len \<Longrightarrow> stays_in_file file_len r"
  by (auto simp: stays_in_file_def ref_in_file_def optional_ref_in_file_def ref_stop_def)

lemma read_object_bytes_in_file:
  "read_object_bytes_with_resource_limits h file file_len r kind limits = Inr bs \<Longrightarrow> ref_in_file r kind file_len"
  by (auto simp: read_object_bytes_with_resource_limits_def read_object_bytes_inner_with_limits_def sbind_eq_Inr
      OcbBodyRefV2_validate_Inr)

lemma afor_each_atry:
  "afor_each (\<lambda>x _. atry (f x)) xs acc s = (Inr acc', t) \<Longrightarrow> x \<in> set xs \<Longrightarrow> is_ok (f x)"
  by (induction xs arbitrary: acc s) (auto simp: action_Inr)

lemma preflight_in_file:
  assumes "preflight h m root a = (Inr u, a')"
    and "(r, k) \<in> set (visit_auxiliary_object_references m root)"
  shows "ref_in_file r k (md_file_len m)"
proof -
  from assms(1) obtain u1 a1 where "afor_each (\<lambda>x _. atry (OcbBodyRefV2_validate (fst x) (snd x) (md_file_len m)))
      (visit_auxiliary_object_references m root) () a = (Inr u1, a1)"
    by (auto simp: preflight_def preflight_with_def action_Inr case_prod_unfold)
  from afor_each_atry [OF this assms(2)] show ?thesis
    by (auto simp: is_ok_def OcbBodyRefV2_validate_Inr split: sum.splits)
qed

lemma metadata_references_in_file:
  assumes "metadata_wf m" and "preflight h m root a = (Inr u, a')"
    and "stays_in_file (md_file_len m) (sch_string_table_ref (md_schema m))"
    and "r \<in> set (metadata_references m)"
  shows "stays_in_file (md_file_len m) r"
proof -
  note pre = preflight_in_file [OF assms(2), THEN stays_in_fileI(1)]
  have null: "stays_in_file (md_file_len m) r" if "is_null r" for r using that by (simp add: stays_in_file_def)
  have tuple: "stays_in_file (md_file_len m) r"
    if "set (visit_optional_key_tuple r) \<subseteq> set (visit_auxiliary_object_references m root)" for r
    using that pre [of r BodyKind_KeyTuple] null by (auto simp: visit_optional_key_tuple_def split: if_splits)
  have chunk: "stays_in_file (md_file_len m) (chunk_value_ref c)" "stays_in_file (md_file_len m) (chunk_validity_ref c)"
    if "c \<in> set (rgi_column_chunks (md_row_group_index m))" for c
    using metadata_wf_chunk [OF assms(1) that] by (auto simp: chunk_wf_def intro: stays_in_fileI null)
  from assms(4) consider
      "r = sch_string_table_ref (md_schema m)"
    | x d where "md_dictionary_index m = Some x" "d \<in> set (dix_dictionaries x)" "r = dict_values_ref d"
    | g where "g \<in> set (rgi_row_groups (md_row_group_index m))" "r \<in> {rg_first_key_tuple_ref g, rg_last_key_tuple_ref g}"
    | c where "c \<in> set (rgi_column_chunks (md_row_group_index m))" "r \<in> {chunk_value_ref c, chunk_validity_ref c}"
    | p x where "md_ordering_proof m = Some p" "x \<in> set (op_row_group_proofs p)" "r \<in> {rgop_first_tuple_ref x, rgop_last_tuple_ref x}"
    unfolding metadata_references_def
    by (cases "md_dictionary_index m"; cases "md_ordering_proof m") (simp; blast)+
  then show ?thesis
  proof cases
    case 2
    then show ?thesis by (intro pre [of _ BodyKind_DictionaryValues]) (auto simp: visit_auxiliary_object_references_def)
  next
    case 3
    then show ?thesis by (intro tuple) (auto simp: visit_auxiliary_object_references_def)
  next
    case 5
    then show ?thesis by (intro tuple) (auto simp: visit_auxiliary_object_references_def)
  qed (use assms(3) chunk in auto)
qed

text \<open>
  \<open>opened_ok\<close> collects what the reader promises of the metadata of an opened file: it is well
  formed, its lookup table lists its row groups, its retained vectors were paid for out of
  the metadata budget, every object it refers to lies inside the file, and its auxiliary
  objects fit the selected-bytes limit.
\<close>

definition opened_ok :: "host \<Rightarrow> u64 \<Rightarrow> OcbResourceLimits \<Rightarrow> OcbMetadataV1 \<Rightarrow> bool" where
  "opened_ok h file_len limits m \<longleftrightarrow>
     metadata_wf m \<and> md_file_len m = file_len \<and>
     md_row_group_positions_by_id m =
       positions_of (rgi_row_groups (md_row_group_index m)) (length (rgi_row_groups (md_row_group_index m))) \<and>
     metadata_retained h m \<le> unat (max_owned_decoded_materialized_bytes limits) \<and>
     (\<forall>r \<in> set (metadata_references m). stays_in_file file_len r) \<and>
     md_open_auxiliary_encoded_bytes m \<le> max_owned_selected_compressed_bytes limits"

lemma retained_stats_bound:
  assumes "host_sized h" and "metadata_retained h m < 2 ^ 64"
  shows "length (rgi_stats (md_row_group_index m)) < 2 ^ 64"
proof -
  have "0 < host_size_of h TyColumnStats" using assms(1) by (simp add: host_sized_def)
  then have "length (rgi_stats (md_row_group_index m)) * 1 \<le> length (rgi_stats (md_row_group_index m)) * host_size_of h TyColumnStats"
    by (intro mult_le_mono2) simp
  also have "\<dots> \<le> metadata_retained h m" by (simp add: metadata_retained_def row_group_index_retained_def)
  finally show ?thesis using assms(2) by simp
qed

lemma metadata_references_update [simp]:
  "metadata_references (m\<lparr>md_row_group_positions_by_id := p, md_open_metadata_materialized_bytes := x,
     md_open_auxiliary_encoded_bytes := y\<rparr>) = metadata_references m"
  by (simp add: metadata_references_def)

text \<open>Validated metadata whose vectors were charged to a fresh budget is fit to be handed out.\<close>

lemma opened_okI:
  assumes "validate_metadata_graph h zstd file m n mode limits root b a = (Inr (pos, b'), a')"
    and "charges (budget_from_limits limits) b (metadata_retained h m + k)" and "host_sized h"
    and "md_file_len m = file_len" and "cache_inv h file file_len limits a'"
    and "stays_in_file file_len (sch_string_table_ref (md_schema m))"
  shows "opened_ok h file_len limits (m\<lparr>md_row_group_positions_by_id := pos, md_open_metadata_materialized_bytes := x,
     md_open_auxiliary_encoded_bytes := aux_total_unique_bytes a'\<rparr>)"
proof -
  have le: "metadata_retained h m \<le> unat (max_owned_decoded_materialized_bytes limits)"
    using assms(2) by (auto simp: charges_def budget_from_limits_def budget_new_def budget_ok_def word_le_nat_alt)
  then have "length (rgi_stats (md_row_group_index m)) < 2 ^ 64"
    using unsigned_less [of "max_owned_decoded_materialized_bytes limits", where ?'a = nat] by (intro retained_stats_bound [OF assms(3)]) simp
  note wf = validate_metadata_graph_wf [OF assms(1) this]
  from assms(1) obtain a0 a1 where "preflight h m root a0 = (Inr (), a1)"
    by (auto simp: validate_metadata_graph_def action_Inr)
  from metadata_references_in_file [OF _ this] wf assms(4,6)
  have "\<forall>r \<in> set (metadata_references m). stays_in_file file_len r" by auto
  with wf le assms(4,5) show ?thesis
    by (auto simp: opened_ok_def cache_inv_def accounting_ok_def)
qed

lemma read_metadata_objects_strings_in_file:
  assumes "read_metadata_objects_with_resource_limits h file file_len root limits b = Inr (m, b')"
  shows "stays_in_file file_len (sch_string_table_ref (md_schema m))"
  using assms unfolding read_metadata_objects_with_resource_limits_def
  by (elim sbind_pairE sbind_InrE) (auto dest!: read_object_bytes_in_file [of _ _ _ _ BodyKind_StringTable] intro: stays_in_fileI)

lemma delta_applied_schema [simp]: "md_schema (delta_applied m d) = md_schema m"
  by (simp add: delta_applied_def)

lemma read_metadata_objects_v2_strings_in_file:
  assumes "read_metadata_objects_v2_with_resource_limits h file file_len root limits b = Inr (m, b')"
  shows "stays_in_file file_len (sch_string_table_ref (md_schema m))"
  using assms unfolding read_metadata_objects_v2_with_resource_limits_def Let_def
  by (elim sbind_pairE sbind_InrE)
    (auto dest!: read_metadata_objects_strings_in_file apply_row_group_index_delta_sound(2)
      split: if_splits elim!: sbind_pairE sbind_InrE)

lemma budget_from_limits_ok: "budget_ok (budget_from_limits limits)"
  by (simp add: budget_ok_def budget_from_limits_def budget_new_def)

lemma validate_v2_root_opened:
  assumes "validate_v2_root_referenced_objects_with_scope h zstd file file_len root mode limits a = (Inr m, a')"
    and "cache_inv h file file_len limits a" and "host_sized h"
  shows "opened_ok h file_len limits m"
proof -
  from assms(1) obtain m0 b0 pos b1 n a1 r2 where
    rd: "read_metadata_objects_v2_with_resource_limits h file file_len root limits (budget_from_limits limits) = Inr (m0, b0)" and
    graph: "validate_metadata_graph h zstd file m0 n mode limits r2 b0 a = (Inr (pos, b1), a1)" and
    m: "a' = a1" "m = m0\<lparr>md_row_group_positions_by_id := pos, md_open_metadata_materialized_bytes := charged_bytes b1,
      md_open_auxiliary_encoded_bytes := aux_total_unique_bytes a1\<rparr>"
    by (auto simp: validate_v2_root_referenced_objects_with_scope_def validate_v2_metadata_graph_def Let_def action_Inr)
  note len = read_metadata_objects_v2_file_len [OF rd]
  obtain k where "charges (budget_from_limits limits) b0 (metadata_retained h m0 + k)"
    using read_metadata_objects_v2_charges [OF rd assms(3)] by blast
  moreover have "cache_inv h file file_len limits a1"
    using keepsD [OF keeps_validate_v2_root assms(2), of zstd root mode] by (simp add: assms(1) m(1))
  ultimately show ?thesis unfolding m(2)
    by (rule opened_okI [OF graph _ assms(3) len _ read_metadata_objects_v2_strings_in_file [OF rd]])
qed

lemma select_v2_metadata_opened:
  assumes "select_v2_metadata h zstd file file_len page mode limits = Inr m" and "host_sized h"
  shows "opened_ok h file_len limits m"
proof -
  from assms(1) obtain cs a' where "choose_loop (\<lambda>c. validate_v2_root_referenced_objects_with_scope h zstd file file_len
      (cand_root c) mode limits) cs (OcbOpenAuxiliaryObjectCache_new limits) = (Inr m, a')"
    unfolding select_v2_metadata_def choose_v2_metadata_def by (elim sbind_InrE) (metis prod.collapse)
  from v2.choose_outcome [OF this cache_inv_new] assms(2) show ?thesis
    unfolding outcome_ok_def by (auto intro: validate_v2_root_opened)
qed

lemma read_metadata_v1_opened:
  assumes "read_metadata_v1 h zstd file file_len mode limits = Inr m" and "host_sized h"
  shows "opened_ok h file_len limits m"
proof -
  from assms(1) obtain "file'" root m0 b0 n pos b1 a1 where
    rd: "read_metadata_objects_with_resource_limits h file' file_len root limits (budget_from_limits limits) = Inr (m0, b0)" and
    graph: "validate_metadata_graph h zstd file' m0 n mode limits None b0 (OcbOpenAuxiliaryObjectCache_new limits)
      = (Inr (pos, b1), a1)" and
    m: "m = m0\<lparr>md_row_group_positions_by_id := pos, md_open_metadata_materialized_bytes := charged_bytes b1,
      md_open_auxiliary_encoded_bytes := aux_total_unique_bytes a1\<rparr>"
    unfolding read_metadata_v1_def Let_def
    by (elim sbind_pairE sbind_InrE) (auto split: if_splits prod.splits sum.splits elim!: sbind_pairE sbind_InrE)
  note len = read_metadata_objects_file_len [OF rd]
  have "charges (budget_from_limits limits) b0 (metadata_retained h m0 + 0)"
    using read_metadata_objects_charges [OF rd] by simp
  moreover have "cache_inv h file' file_len limits a1"
    using keepsD [OF keeps_validate_metadata_graph(1) cache_inv_new, of h "file'" m0 limits zstd n mode limits None b0]
    by (simp add: graph len)
  ultimately show ?thesis unfolding m
    by (rule opened_okI [OF graph _ assms(2) len _ read_metadata_objects_strings_in_file [OF rd]])
qed

lemma read_metadata_opened:
  assumes "read_metadata_from_source_with_validation_and_resource_limits h zstd source mode limits = Inr m"
    and "host_sized h"
  shows "opened_ok h (rs_file_len source) limits m"
  using assms
  by (auto simp: read_metadata_from_source_with_validation_and_resource_limits_def read_metadata_v2_def Let_def
      split: if_splits elim!: sbind_pairE sbind_InrE intro: read_metadata_v1_opened select_v2_metadata_opened)

end
