(* ===== verification/Maintenance.thy ===== *)
theory Maintenance
  imports Open_File
begin

text \<open>
  The maintenance analysis of a version-2 file (\<open>analyze_v2_maintenance\<close> of \<open>read.rs\<close>): the same
  admission and choice as opening, with a diagnostic for every candidate that is dropped and the
  extent of the selected snapshot.  The lemmas relate the analysis to opening.
\<close>

section \<open>The code\<close>

record OcbRootCandidateDiagnosticV2 =
  diag_slot_id :: "u16 option"
  diag_generation :: "u64 option"
  diag_message :: string

record OcbMaintenanceAnalysisV2 =
  ana_file_len :: u64
  ana_selected_slot_id :: u16
  ana_selected_root_generation :: u64
  ana_previous_root_generation :: "u64 option"
  ana_selected_root_end_offset :: u64
  ana_selected_snapshot_end_offset :: u64
  ana_metadata :: OcbMetadataV1
  ana_rejected_candidates :: "OcbRootCandidateDiagnosticV2 list"

definition root_candidate_diagnostic :: "u16 option \<Rightarrow> u64 option \<Rightarrow> string \<Rightarrow> OcbRootCandidateDiagnosticV2" where
  "root_candidate_diagnostic slot_id generation message =
     \<lparr>diag_slot_id = slot_id, diag_generation = generation, diag_message = message\<rparr>"

text \<open>
  \<open>if !is_discardable_candidate_error(&err) { return Err(err); } diagnostics.push(..); continue;\<close>
\<close>

definition or_diagnose ::
  "'a result \<Rightarrow> u16 \<Rightarrow> u64 option \<Rightarrow> string \<Rightarrow> OcbRootCandidateDiagnosticV2 list \<Rightarrow>
     ('a \<Rightarrow> (OcbRootCandidateV2 option \<times> OcbRootCandidateDiagnosticV2 list) result) \<Rightarrow>
     (OcbRootCandidateV2 option \<times> OcbRootCandidateDiagnosticV2 list) result" where
  "or_diagnose r slot_id generation text diagnostics k =
     (case r of
        Inr x \<Rightarrow> k x
      | Inl err \<Rightarrow>
          if \<not> is_discardable_candidate_error err then Inl err
          else Inr (None, diagnostics @ [root_candidate_diagnostic (Some slot_id) generation (text @ error_display err)]))"

definition analyze_candidate ::
  "host \<Rightarrow> OcbReadCursor \<Rightarrow> u64 \<Rightarrow> OcbResourceLimits \<Rightarrow> nat \<Rightarrow> OcbRootSlotV2 result \<Rightarrow>
     OcbRootCandidateDiagnosticV2 list \<Rightarrow> (OcbRootCandidateV2 option \<times> OcbRootCandidateDiagnosticV2 list) result" where
  "analyze_candidate h file file_len resource_limits idx slot_result diagnostics =
     (let slot_id = of_nat idx in
     or_diagnose slot_result slot_id None ''OCB root slot could not be decoded: '' diagnostics (\<lambda>slot.
     if OcbRootSlotV2_is_empty slot then Inr (None, diagnostics) else
     let generation = Some (slot_generation slot) in
     or_diagnose (OcbRootSlotV2_validate_candidate slot slot_id file_len) slot_id generation
       ''OCB root slot candidate is invalid: '' diagnostics (\<lambda>_.
     or_diagnose (read_object_bytes_with_resource_limits h file file_len (slot_root_ref slot) BodyKind_Root resource_limits)
       slot_id generation ''OCB root object could not be read: '' diagnostics (\<lambda>root_bytes.
     or_diagnose (run_reader OcbRootV2_read_from root_bytes) slot_id generation
       ''OCB root object could not be decoded: '' diagnostics (\<lambda>root.
     or_diagnose (OcbRootV2_validate_references root file_len) slot_id generation
       ''OCB root references are invalid: '' diagnostics (\<lambda>_.
     or_diagnose (OcbRootSlotV2_validate_root slot root) slot_id generation
       ''OCB root slot/root metadata is inconsistent: '' diagnostics (\<lambda>_.
     Inr (Some \<lparr>cand_slot = slot, cand_root = root\<rparr>, diagnostics))))))))"

definition analyze_candidates ::
  "host \<Rightarrow> OcbReadCursor \<Rightarrow> u64 \<Rightarrow> OcbResourceLimits \<Rightarrow> OcbBootstrapPageV2 \<Rightarrow>
     (OcbRootCandidateV2 list \<times> OcbRootCandidateDiagnosticV2 list) result" where
  "analyze_candidates h file file_len resource_limits bootstrap =
     for_each (\<lambda>(idx, slot_result) (candidates, diagnostics).
       sbind (analyze_candidate h file file_len resource_limits idx slot_result diagnostics) (\<lambda>(admitted, diagnostics).
       case admitted of
         None \<Rightarrow> Inr (candidates, diagnostics)
       | Some candidate \<Rightarrow> Inr (candidates @ [candidate], diagnostics)))
       (List.enumerate 0 (decoded_root_slots bootstrap)) ([], [])"

definition analysis_of ::
  "u64 \<Rightarrow> OcbRootCandidateV2 \<Rightarrow> OcbMetadataV1 \<Rightarrow> OcbRootCandidateDiagnosticV2 list \<Rightarrow> OcbMaintenanceAnalysisV2 result" where
  "analysis_of file_len candidate metadata diagnostics =
     sbind (body_ref_end (slot_root_ref (cand_slot candidate))) (\<lambda>selected_root_end_offset.
     sbind (selected_snapshot_referenced_end (cand_slot candidate) (cand_root candidate) metadata) (\<lambda>selected_snapshot_end_offset.
     Inr \<lparr>ana_file_len = file_len,
          ana_selected_slot_id = slot_slot_id (cand_slot candidate),
          ana_selected_root_generation = slot_generation (cand_slot candidate),
          ana_previous_root_generation =
            (if \<not> is_null (slot_previous_root_ref (cand_slot candidate))
             then Some (slot_previous_generation (cand_slot candidate)) else None),
          ana_selected_root_end_offset = selected_root_end_offset,
          ana_selected_snapshot_end_offset = selected_snapshot_end_offset,
          ana_metadata = metadata,
          ana_rejected_candidates = diagnostics\<rparr>))"

function analyze_loop ::
  "u64 \<Rightarrow> (OcbRootCandidateV2 \<Rightarrow> OcbMetadataV1 cached) \<Rightarrow> OcbRootCandidateV2 list \<Rightarrow>
     OcbRootCandidateDiagnosticV2 list \<Rightarrow> OcbMaintenanceAnalysisV2 cached" where
  "analyze_loop file_len validate candidates diagnostics auxiliary_objects =
     (case max_generation candidates of
        None \<Rightarrow> (Inl (ocb_corrupt_file ''OCB root selection found no valid root slot''), auxiliary_objects)
      | Some max_gen \<Rightarrow>
          if conflicting_same_generation candidates max_gen
          then analyze_loop file_len validate (retain_other_generations candidates max_gen)
            (diagnostics @ map (\<lambda>candidate. root_candidate_diagnostic (Some (slot_slot_id (cand_slot candidate)))
                 (Some (cand_generation candidate)) ''OCB root generation has conflicting root references'')
               (filter (\<lambda>candidate. cand_generation candidate = max_gen) candidates))
            auxiliary_objects
          else
            let selected_idx = length (takeWhile (\<lambda>c. cand_generation c \<noteq> max_gen) candidates);
                candidate = candidates ! selected_idx;
                candidates = take selected_idx candidates @ drop (Suc selected_idx) candidates in
            (case validate candidate auxiliary_objects of
               (Inr metadata, auxiliary_objects) \<Rightarrow> (analysis_of file_len candidate metadata diagnostics, auxiliary_objects)
             | (Inl err, auxiliary_objects) \<Rightarrow>
                 if \<not> is_discardable_candidate_error err then (Inl err, auxiliary_objects)
                 else analyze_loop file_len validate (retain_other_generations candidates max_gen)
                   (diagnostics @ [root_candidate_diagnostic (Some (slot_slot_id (cand_slot candidate)))
                      (Some (cand_generation candidate))
                      (''OCB selected root candidate failed validation: '' @ error_display err)])
                   auxiliary_objects))"
  by pat_completeness auto
termination
proof (relation "measure (\<lambda>(_, _, candidates, _, _). length candidates)", goal_cases)
  case (2 file_len validate candidates diagnostics aux g)
  then show ?case by (simp add: length_retain_less)
next
  case (3 file_len validate candidates diagnostics aux g idx candidate rest p err aux')
  have "length (retain_other_generations rest g) \<le> length rest"
    by (simp add: retain_other_generations_def)
  also have "length rest < length candidates"
    using selected_idx_less [OF 3(1)] 3(3,5) by simp
  finally show ?case by simp
qed simp

declare analyze_loop.simps [simp del]

definition analyze_v2_maintenance_from_bootstrap ::
  "host \<Rightarrow> zstd \<Rightarrow> OcbReadCursor \<Rightarrow> u64 \<Rightarrow> OcbBootstrapPageV2 \<Rightarrow> OcbOpenValidationMode \<Rightarrow>
     OcbResourceLimits \<Rightarrow> OcbMaintenanceAnalysisV2 result" where
  "analyze_v2_maintenance_from_bootstrap h zstd file file_len bootstrap validation resource_limits =
     sbind (analyze_candidates h file file_len resource_limits bootstrap) (\<lambda>(candidates, diagnostics).
     fst (analyze_loop file_len (\<lambda>candidate. validate_v2_root_referenced_objects_with_scope h zstd file file_len
         (cand_root candidate) validation resource_limits)
       candidates diagnostics (OcbOpenAuxiliaryObjectCache_new resource_limits)))"

definition analyze_v2_maintenance ::
  "host \<Rightarrow> zstd \<Rightarrow> OcbReadSource result \<Rightarrow> OcbOpenValidationMode \<Rightarrow> OcbMaintenanceAnalysisV2 result" where
  "analyze_v2_maintenance h zstd opened validation =
     sbind opened (\<lambda>source.
     let file = OcbReadSource_cursor source; file_len = rs_file_len source in
     if file_len < of_nat OCB_BOOTSTRAP_PAGE_V1_LEN
     then Inl (ocb_corrupt_file ''OCB file is shorter than bootstrap page'') else
     sbind (seek_start file 0) (\<lambda>file.
     sbind (file_read_exact_ocb file 8) (\<lambda>(magic, file).
     sbind (seek_start file 0) (\<lambda>file.
     if magic = OCB_BOOTSTRAP_MAGIC_V2
     then sbind (file_OcbBootstrapPageV2_read_from file) (\<lambda>(bootstrap, file).
       analyze_v2_maintenance_from_bootstrap h zstd file file_len bootstrap validation policy_a)
     else if magic = OCB_BOOTSTRAP_MAGIC_V1
     then Inl (ocb_unsupported_format ''OCB maintenance analysis requires an appendable OCB file'')
     else Inl (ocb_unsupported_format ''invalid OCB bootstrap magic'')))))"

section \<open>The analysis admits the candidates that opening admits\<close>

lemma or_diagnose_continue:
  "(\<And>x. map_sum id fst (k x) = k' x) \<Longrightarrow>
     map_sum id fst (or_diagnose r i g t d k) = or_continue r k'"
  by (simp add: or_diagnose_def or_continue_def split: sum.split)

lemma analyze_candidate_admit:
  "map_sum id fst (analyze_candidate h file file_len limits idx r d) = admit_candidate h file file_len limits idx r"
  unfolding analyze_candidate_def admit_candidate_def Let_def
  by (intro or_diagnose_continue) (auto intro!: or_diagnose_continue)

lemma for_each_analyze:
  assumes "\<And>x d. map_sum id fst (f x d) = g x"
  shows "map_sum id fst (for_each (\<lambda>x (cs, d). sbind (f x d) (\<lambda>(r, d). case r of None \<Rightarrow> Inr (cs, d)
       | Some c \<Rightarrow> Inr (cs @ [c], d))) xs (cs, d)) =
     for_each (\<lambda>x cs. sbind (g x) (\<lambda>r. case r of None \<Rightarrow> Inr cs | Some c \<Rightarrow> Inr (cs @ [c]))) xs cs"
proof (induction xs arbitrary: cs d)
  case (Cons x xs)
  show ?case
  proof (cases "f x d")
    case (Inl e)
    then show ?thesis using assms [of x d] by (simp add: sbind_def flip: assms [of x d])
  next
    case (Inr p)
    obtain r d' where p: "p = (r, d')" by (cases p)
    have g: "g x = Inr r" using assms [of x d] by (simp add: Inr p)
    show ?thesis by (cases r) (simp_all add: Inr p g Cons.IH [unfolded id_def])
  qed
qed simp

lemma analyze_candidates_admit:
  "map_sum id fst (analyze_candidates h file file_len limits page) = admit_candidates h file file_len limits page"
  using for_each_analyze [of "\<lambda>p d. analyze_candidate h file file_len limits (fst p) (snd p) d"
    "\<lambda>p. admit_candidate h file file_len limits (fst p) (snd p)", OF analyze_candidate_admit,
    of "List.enumerate 0 (decoded_root_slots page)" "[]" "[]"]
  by (simp add: analyze_candidates_def admit_candidates_def case_prod_unfold)

section \<open>The analysis selects what opening selects\<close>

lemma analyze_loop_eq:
  assumes "max_generation cs = Some g"
  shows "\<exists>d1 d2. analyze_loop n v cs d a =
    (if conflicting_same_generation cs g then analyze_loop n v (retain_other_generations cs g) d1 a
     else case v (first_of_generation cs g) a of
       (Inr m, a') \<Rightarrow> (analysis_of n (first_of_generation cs g) m d, a')
     | (Inl err, a') \<Rightarrow> if is_discardable_candidate_error err
         then analyze_loop n v (retain_other_generations cs g) (d2 err) a' else (Inl err, a'))"
  by (subst analyze_loop.simps)
    (auto simp: assms retain_rest [OF assms] Let_def first_of_generation_def split: prod.split sum.split)

context snapshot_choice
begin

lemma analyze_choose:
  assumes "choose_loop validate cs a = (r, a')" and "I a"
  shows "case r of
      Inl e \<Rightarrow> analyze_loop n validate cs d a = (Inl e, a')
    | Inr m \<Rightarrow> \<exists>c a0 d'. reached I validate cs c \<and> I a0 \<and> validate c a0 = (Inr m, a') \<and>
        analyze_loop n validate cs d a = (analysis_of n c m d', a')"
  using assms
proof (induction "length cs" arbitrary: cs d a rule: less_induct)
  case less
  show ?case
  proof (cases "max_generation cs")
    case None
    with less.prems show ?thesis by (subst (asm) choose_loop.simps) (auto simp: analyze_loop.simps)
  next
    case (Some g)
    let ?c = "first_of_generation cs g" and ?rest = "retain_other_generations cs g"
    note c = first_of_generation [OF Some]
    have max: "max_generation cs = Some (cand_generation ?c)" using Some c(2) by simp
    obtain d1 d2 where eq: "analyze_loop n validate cs d a =
      (if conflicting_same_generation cs g then analyze_loop n validate ?rest d1 a
       else case validate ?c a of
         (Inr m, a') \<Rightarrow> (analysis_of n ?c m d, a')
       | (Inl err, a') \<Rightarrow> if is_discardable_candidate_error err
           then analyze_loop n validate ?rest (d2 err) a' else (Inl err, a'))"
      using analyze_loop_eq [OF Some] by blast
    note IH = less.hyps [OF length_retain_less [OF Some]]
    have rest: ?thesis if "choose_loop validate ?rest b = (r, a')" "I b" "rejected I validate cs g"
      "analyze_loop n validate cs d a = analyze_loop n validate ?rest d' b" for d' b
      using IH [OF that(1,2), of d'] that(4) reached_retain [OF _ that(3)] by (fastforce split: sum.splits)
    show ?thesis
    proof (cases "conflicting_same_generation cs g")
      case True
      with less.prems eq show ?thesis
        by (intro rest [of a d1]) (simp_all add: choose_loop_eq [OF Some] rejected_def)
    next
      case False
      obtain r1 a1 where v: "validate ?c a = (r1, a1)" by (cases "validate ?c a")
      have "I a1" using v less.prems(2) by (rule validate_inv)
      have rej: "rejected I validate cs g" if "r1 = Inl e" "is_discardable_candidate_error e" for e
        using that v less.prems(2) c unfolding rejected_def by blast
      show ?thesis
      proof (cases r1)
        case (Inl e)
        with False less.prems eq v \<open>I a1\<close> show ?thesis
          by (auto simp: choose_loop_eq [OF Some] split: if_splits intro: rest rej)
      next
        case (Inr m)
        have "reached I validate cs ?c" using False c by (intro reached_max [OF max]) simp_all
        moreover have "r = Inr m" "a' = a1" using False less.prems(1) v Inr by (simp_all add: choose_loop_eq [OF Some])
        moreover have "analyze_loop n validate cs d a = (analysis_of n ?c m d, a1)" using False eq v Inr by simp
        ultimately show ?thesis using v Inr less.prems(2) by auto
      qed
    qed
  qed
qed

end

section \<open>The extent of the selected snapshot\<close>

lemma snapshot_references_split:
  "snapshot_references slot root m =
     [slot_root_ref slot, slot_previous_root_ref slot, slot_commit_diagnostics_ref slot,
      root2_previous_root_ref root, root2_schema_ref root, root2_dictionary_index_ref root,
      root2_row_group_index_ref root, root2_ordering_proof_ref root, root2_debug_json_ref root,
      root2_first_key_tuple_ref root, root2_last_key_tuple_ref root,
      root2_append_first_key_tuple_ref root, root2_append_last_key_tuple_ref root,
      root2_commit_diagnostics_ref root] @ metadata_references m"
  unfolding snapshot_references_def metadata_references_def by simp

lemma snapshot_in_file:
  assumes "admit_candidate h file file_len limits i r = Inr (Some c)" and "opened_ok h' file_len limits' m"
  shows "\<forall>r \<in> set (snapshot_references (cand_slot c) (cand_root c) m). stays_in_file file_len r"
proof -
  from assms(1) have
    slot: "OcbRootSlotV2_validate_candidate (cand_slot c) (of_nat i) file_len = Inr ()" and
    root: "OcbRootV2_validate_references (cand_root c) file_len = Inr ()"
    by (auto simp: admit_candidate_Some is_ok_def split: sum.splits)
  have "\<forall>r \<in> set (metadata_references m). stays_in_file file_len r" using assms(2) by (simp add: opened_ok_def)
  then show ?thesis
    unfolding snapshot_references_split set_append ball_Un
    using slot [unfolded OcbRootSlotV2_validate_candidate_Inr] root [unfolded OcbRootV2_validate_references_Inr]
    by (simp; blast intro: stays_in_fileI)
qed

text \<open>The analysis of an admitted winner succeeds, and the snapshot it measures ends inside the file.\<close>

lemma analysis_of_admitted:
  assumes "admit_candidate h file file_len limits i r = Inr (Some c)" and "opened_ok h' file_len limits' m"
    and "of_nat OCB_BOOTSTRAP_PAGE_V2_LEN \<le> file_len"
  shows "\<exists>an. analysis_of file_len c m d = Inr an \<and> ana_metadata an = m \<and>
     ana_selected_root_end_offset an \<le> ana_selected_snapshot_end_offset an \<and>
     ana_selected_snapshot_end_offset an \<le> file_len"
proof -
  let ?rs = "snapshot_references (cand_slot c) (cand_root c) m" and ?root = "slot_root_ref (cand_slot c)"
  let ?ends = "insert (unat (of_nat OCB_BOOTSTRAP_PAGE_V2_LEN :: u64)) (ref_stop ` {r \<in> set ?rs. \<not> is_null r})"
  note in_file = snapshot_in_file [OF assms(1,2)]
  have root: "ref_in_file ?root BodyKind_Root file_len"
    using assms(1) by (auto simp: admit_candidate_Some is_ok_def OcbRootSlotV2_validate_candidate_Inr split: sum.splits)
  have fits: "x \<le> unat file_len" if "x \<in> ?ends" for x
    using that in_file assms(3) by (auto simp: stays_in_file_def word_le_nat_alt)
  have lt: "unat file_len < 2 ^ 64" using unsigned_less [of file_len, where ?'a = nat] by simp
  have Max: "Max ?ends \<le> unat file_len" using fits by (intro Max.boundedI) auto
  have "selected_snapshot_referenced_end (cand_slot c) (cand_root c) m = Inr (of_nat (Max ?ends))"
    unfolding selected_snapshot_referenced_end_def max_ref_end_fold
  proof
    show "\<forall>r \<in> set ?rs. \<not> is_null r \<longrightarrow> ref_stop r < 2 ^ 64" using fits lt by (auto intro: le_less_trans)
    show "unat (of_nat (Max ?ends) :: u64) = Max ?ends"
      using le_less_trans [OF Max lt] by (rule unat_of_nat_u64)
  qed
  moreover have "body_ref_end ?root = Inr (of_nat (ref_stop ?root))"
    using root lt by (simp add: body_ref_end_def checked_add_def ref_stop_def ref_in_file_def)
  moreover have "ref_stop ?root \<le> Max ?ends"
    using root by (intro Max.coboundedI) (auto simp: ref_in_file_def snapshot_references_split)
  moreover have "unat (of_nat n :: u64) \<le> unat (of_nat (Max ?ends) :: u64)" "unat (of_nat (Max ?ends) :: u64) \<le> unat file_len"
    if "n \<le> Max ?ends" for n
    using that Max lt unat_of_nat_u64 [of n] unat_of_nat_u64 [of "Max ?ends"] by linarith+
  ultimately show ?thesis by (simp add: analysis_of_def word_le_nat_alt del: Max_insert)
qed

lemma analyze_select:
  assumes "host_sized h" and "of_nat OCB_BOOTSTRAP_PAGE_V2_LEN \<le> file_len"
  shows "case select_v2_metadata h zstd file file_len page mode limits of
      Inl e \<Rightarrow> analyze_v2_maintenance_from_bootstrap h zstd file file_len page mode limits = Inl e
    | Inr m \<Rightarrow> \<exists>an. analyze_v2_maintenance_from_bootstrap h zstd file file_len page mode limits = Inr an \<and>
        ana_metadata an = m \<and> ana_selected_root_end_offset an \<le> ana_selected_snapshot_end_offset an \<and>
        ana_selected_snapshot_end_offset an \<le> file_len"
proof (cases "analyze_candidates h file file_len limits page")
  case (Inl e)
  then have "admit_candidates h file file_len limits page = Inl e"
    using analyze_candidates_admit [of h "file" file_len limits page] by simp
  with Inl show ?thesis by (simp add: select_v2_metadata_def analyze_v2_maintenance_from_bootstrap_def)
next
  case (Inr p)
  obtain cs d where p: "p = (cs, d)" by (cases p)
  have adm: "admit_candidates h file file_len limits page = Inr cs"
    using analyze_candidates_admit [of h "file" file_len limits page] by (simp add: Inr p)
  let ?v = "\<lambda>c. validate_v2_root_referenced_objects_with_scope h zstd file file_len (cand_root c) mode limits"
  obtain r a' where r: "choose_loop ?v cs (OcbOpenAuxiliaryObjectCache_new limits) = (r, a')" by fastforce
  have sel: "select_v2_metadata h zstd file file_len page mode limits = r"
    by (simp add: select_v2_metadata_def choose_v2_metadata_def adm r)
  have ana: "analyze_v2_maintenance_from_bootstrap h zstd file file_len page mode limits =
      fst (analyze_loop file_len ?v cs d (OcbOpenAuxiliaryObjectCache_new limits))"
    by (simp add: analyze_v2_maintenance_from_bootstrap_def Inr p)
  note sim = v2.analyze_choose [OF r cache_inv_new, of file_len d]
  show ?thesis
  proof (cases r)
    case (Inl e)
    with sim show ?thesis by (simp add: sel ana)
  next
    case (Inr m)
    with sim obtain c d' where c: "c \<in> set cs" and an: "fst (analyze_loop file_len ?v cs d
        (OcbOpenAuxiliaryObjectCache_new limits)) = analysis_of file_len c m d'"
      by (auto simp: reached_def)
    from c obtain i s where "admit_candidate h file file_len limits i s = Inr (Some c)"
      using admit_candidates_set [OF adm] by blast
    from analysis_of_admitted [OF this select_v2_metadata_opened [OF sel [unfolded Inr] assms(1)] assms(2)]
    show ?thesis by (simp add: sel ana an Inr)
  qed
qed

end
