(* ===== verification/Example_File.thy ===== *)
theory Example_File
  imports Maintenance
begin

text \<open>
  A complete version-2 file, written with the encoders of the format: one fixed-binary column,
  one row group of one row, no dictionaries and no ordering proof; slot 0 holds the root, slot 1
  is empty.  It is the input at which the theorems about opening are instantiated.
\<close>

section \<open>The objects\<close>

definition written :: "bytes result \<Rightarrow> bytes" where
  "written r = (case r of Inr bs \<Rightarrow> bs | Inl _ \<Rightarrow> [])"

definition ex_strings :: OcbStringTableV1 where
  "ex_strings = \<lparr>st_version = 1, st_strings = [[0x78]], st_crc32c = 0\<rparr>"

definition ex_strings_bytes :: bytes where
  "ex_strings_bytes = written (OcbStringTableV1_write_to ex_strings)"

definition ex_column :: OcbColumnDescV1 where
  "ex_column =
     \<lparr>col_column_id = 1, col_name_string_id = 0, col_physical_type = Phys_FixedBinary,
      col_logical_kind = Logical_Plain, col_flags = 0, col_dictionary_id = OCB_NULL_U32, col_scale = 0,
      col_nullability = Nullability_NonNull, col_reserved0 = 0, col_fixed_binary_width = 2\<rparr>"

definition ex_schema :: OcbSchemaV1 where
  "ex_schema =
     \<lparr>sch_version = 1,
      sch_string_table_ref = OcbBodyRefV2_new 4096 29 BodyKind_StringTable (crc32c ex_strings_bytes),
      sch_columns = [ex_column], sch_crc32c = 0\<rparr>"

definition ex_schema_bytes :: bytes where
  "ex_schema_bytes = written (OcbSchemaV1_write_to ex_schema)"

definition ex_chunk_object :: OcbColumnChunkObjectV1 where
  "ex_chunk_object =
     \<lparr>cco_version = 1, cco_physical_type = Phys_FixedBinary, cco_codec = Codec_None, cco_flags = 0,
      cco_row_group_id = 0, cco_column_id = 1, cco_row_count = 1, cco_uncompressed_bytes = 2,
      cco_payload = [7, 9], cco_crc32c = 0\<rparr>"

definition ex_chunk_bytes :: bytes where
  "ex_chunk_bytes = written (OcbColumnChunkObjectV1_write_to ex_chunk_object)"

definition ex_chunk :: OcbColumnChunkDescV1 where
  "ex_chunk =
     \<lparr>chunk_row_group_id = 0, chunk_column_id = 1, chunk_physical_type = Phys_FixedBinary,
      chunk_codec = Codec_None, chunk_flags = 0,
      chunk_value_ref = OcbBodyRefV2_new 4213 50 BodyKind_ColumnChunk (crc32c ex_chunk_bytes),
      chunk_validity_ref = OcbBodyRefV2_NULL, chunk_row_count = 1, chunk_uncompressed_bytes = 2\<rparr>"

definition ex_group :: OcbRowGroupDescV1 where
  "ex_group =
     \<lparr>rg_row_group_id = 0, rg_flags = 0, rg_base_row = 0, rg_row_count = 1, rg_chunk_desc_begin = 0,
      rg_chunk_desc_count = 1, rg_stat_begin = 0, rg_stat_count = 0,
      rg_first_key_tuple_ref = OcbBodyRefV2_NULL, rg_last_key_tuple_ref = OcbBodyRefV2_NULL\<rparr>"

definition ex_index :: OcbRowGroupIndexV1 where
  "ex_index =
     \<lparr>rgi_version = 1, rgi_flags = 0, rgi_row_groups = [ex_group], rgi_column_chunks = [ex_chunk],
      rgi_stats = [], rgi_crc32c = 0\<rparr>"

definition ex_index_bytes :: bytes where
  "ex_index_bytes = written (OcbRowGroupIndexV1_write_to ex_index)"

definition ex_root :: OcbRootV2 where
  "ex_root = example_root
     \<lparr>root2_append_row_count := 1, root2_append_row_group_count := 1, root2_row_count := 1,
      root2_row_group_count := 1, root2_column_chunk_count := 1,
      root2_schema_ref := OcbBodyRefV2_new 4125 88 BodyKind_Schema (crc32c ex_schema_bytes),
      root2_row_group_index_ref := OcbBodyRefV2_new 4263 252 BodyKind_RowGroupIndex (crc32c ex_index_bytes)\<rparr>"

definition ex_root_bytes :: bytes where
  "ex_root_bytes = written (OcbRootV2_write_to ex_root)"

definition ex_slot :: OcbRootSlotV2 where
  "ex_slot = (OcbRootSlotV2_empty 0)
     \<lparr>slot_generation := 1,
      slot_root_ref := OcbBodyRefV2_new 4515 456 BodyKind_Root (crc32c ex_root_bytes)\<rparr>"

definition ex_page :: OcbBootstrapPageV2 where
  "ex_page = (case OcbBootstrapPageV2_new (replicate 16 0) [ex_slot, OcbRootSlotV2_empty 1] of
     Inr p \<Rightarrow> p | Inl _ \<Rightarrow> undefined)"

definition ex_page_bytes :: bytes where
  "ex_page_bytes = written (OcbBootstrapPageV2_write_to ex_page)"

definition ex_file :: bytes where
  "ex_file = ex_page_bytes @ ex_strings_bytes @ ex_schema_bytes @ ex_chunk_bytes @ ex_index_bytes @ ex_root_bytes"

section \<open>They are written and have the lengths their references give\<close>

lemma written_sealed:
  "wr = Inr (seal_object buf) \<Longrightarrow> has_trailer buf \<Longrightarrow> wr = Inr (written wr) \<and> length (written wr) = length buf"
  by (simp add: written_def has_trailer_length)

lemma ex_strings_written: "OcbStringTableV1_write_to ex_strings = Inr ex_strings_bytes \<and> length ex_strings_bytes = 29"
proof -
  let ?buf = "OcbStringTableV1_layout ex_strings (write_u32 1 @ [0x78])"
  have "OcbStringTableV1_write_to ex_strings = Inr (seal_object ?buf)"
    by (simp add: OcbStringTableV1_write_to_def OcbStringTableV1_encode_without_checksum_def ex_strings_def
        write_string_u32_def write_bytes_u32_def u32_try_from_def write_each_def OcbStringTableV1_layout_def)
  from written_sealed [OF this has_trailer_string_table] show ?thesis
    by (simp add: ex_strings_bytes_def OcbStringTableV1_layout_def)
qed

lemma ex_schema_written: "OcbSchemaV1_write_to ex_schema = Inr ex_schema_bytes \<and> length ex_schema_bytes = 88"
proof -
  obtain cols where cols: "OcbColumnDescV1_write_to ex_column = Inr cols"
    by (simp add: OcbColumnDescV1_write_to_def ex_column_def value_byte_width_def)
  let ?buf = "OcbSchemaV1_layout ex_schema cols"
  have "OcbSchemaV1_write_to ex_schema = Inr (seal_object ?buf)"
    by (simp add: OcbSchemaV1_write_to_def OcbSchemaV1_encode_without_checksum_def ex_schema_def cols
        u32_try_from_def write_each_def OcbSchemaV1_layout_def OcbBodyRefV2_new_def)
  from written_sealed [OF this has_trailer_schema] column_desc.wr_width [OF cols] show ?thesis
    by (simp add: ex_schema_bytes_def OcbSchemaV1_layout_def OCB_COLUMN_DESC_V1_LEN_def)
qed

lemma ex_chunk_written:
  "OcbColumnChunkObjectV1_write_to ex_chunk_object = Inr ex_chunk_bytes \<and> length ex_chunk_bytes = 50"
proof -
  have "OcbColumnChunkObjectV1_write_to ex_chunk_object = Inr (seal_object (OcbColumnChunkObjectV1_layout ex_chunk_object))"
    by (simp add: OcbColumnChunkObjectV1_write_to_def OcbColumnChunkObjectV1_encode_without_checksum_def
        check_primitive_value_bytes_def ex_chunk_object_def OcbColumnChunkObjectV1_layout_def)
  from written_sealed [OF this has_trailer_column_chunk] show ?thesis
    by (simp add: ex_chunk_bytes_def OcbColumnChunkObjectV1_layout_def ex_chunk_object_def)
qed

lemma ex_index_written: "OcbRowGroupIndexV1_write_to ex_index = Inr ex_index_bytes \<and> length ex_index_bytes = 252"
proof -
  obtain buf where enc: "OcbRowGroupIndexV1_encode_without_checksum ex_index = Inr buf" and len: "length buf = 252"
    by (simp add: OcbRowGroupIndexV1_encode_without_checksum_def ex_index_def ex_group_def ex_chunk_def write_each_def
        OcbRowGroupDescV1_write_to_def OcbColumnChunkDescV1_write_to_def u32_try_from_def OcbBodyRefV2_new_def)
  have "OcbRowGroupIndexV1_write_to ex_index = Inr (seal_object buf)"
    by (simp add: OcbRowGroupIndexV1_write_to_def enc)
  from written_sealed [OF this OcbRowGroupIndexV1_encode_has_trailer [OF enc]] len show ?thesis
    by (simp add: ex_index_bytes_def)
qed

lemma ex_root_written: "OcbRootV2_write_to ex_root = Inr ex_root_bytes \<and> length ex_root_bytes = 456"
proof -
  have "OcbRootV2_write_to ex_root = Inr (seal_object (OcbRootV2_layout ex_root))"
    by (simp add: OcbRootV2_write_to_def OcbRootV2_encode_without_checksum_def OCB_FORMAT_MAJOR_V2_def
        OcbRootV2_validate_ref_kinds_def validate_optional_ref_kind_def validate_optional_ref_kinds_def
        checked_add_def ex_root_def example_root_def OcbBodyRefV2_new_def)
  from written_sealed [OF this OcbRootV2_layout_facts(1)] OcbRootV2_layout_facts(2) show ?thesis
    by (simp add: ex_root_bytes_def)
qed

lemma ex_slot_ok: "slot_ok ex_slot"
  by (simp add: ex_slot_def slot_ok_def OcbRootSlotV2_empty_def)

lemma ex_page_new: "OcbBootstrapPageV2_new (replicate 16 0) [ex_slot, OcbRootSlotV2_empty 1] = Inr ex_page"
proof -
  have "is_ok (OcbRootSlotV2_to_bytes ex_slot)" "is_ok (OcbRootSlotV2_to_bytes (OcbRootSlotV2_empty 1))"
    by (simp_all add: OcbRootSlotV2_to_bytes_def OcbRootSlotV2_write_to_def OcbRootSlotV2_encode_without_checksum_def
        ex_slot_def OcbRootSlotV2_empty_def OCB_FORMAT_MAJOR_V2_def OCB_ROOT_SLOT_V2_COUNT_def OcbBodyRefV2_new_def
        validate_optional_ref_kind_def validate_optional_ref_kinds_def OcbRootSlotV2_is_empty_def is_null_def OcbBodyRefV2_NULL_def OCB_ROOT_V2_LEN_def)
  then show ?thesis by (auto simp: ex_page_def OcbBootstrapPageV2_new_def is_ok_def split: sum.splits)
qed

lemmas ex_page_slots = OcbBootstrapPageV2_new_slots [OF ex_page_new, simplified, OF ex_slot_ok]

lemma ex_page_written: "OcbBootstrapPageV2_write_to ex_page = Inr ex_page_bytes \<and> length ex_page_bytes = 4096"
proof -
  obtain bss where p: "ex_page = \<lparr>bp2_format_major = OCB_FORMAT_MAJOR_V2, bp2_format_minor = OCB_FORMAT_MINOR_V2,
      bp2_flags = 0, bp2_page_size = 4096, bp2_file_uuid = replicate 16 0, bp2_root_slot_bytes = bss, bp2_crc32c = 0\<rparr>"
    using ex_page_new by (auto simp: OcbBootstrapPageV2_new_def sbind_eq_Inr bootstrap_sizes dest: sym)
  have "bp2_format_major ex_page = OCB_FORMAT_MAJOR_V2" "bp2_format_minor ex_page = OCB_FORMAT_MINOR_V2"
    "bp2_page_size ex_page = 4096"
    by (subst p, simp)+
  then have "OcbBootstrapPageV2_encode_without_checksum ex_page = Inr (OcbBootstrapPageV2_layout ex_page)"
    by (simp add: OcbBootstrapPageV2_encode_without_checksum_def bootstrap_sizes)
  moreover have "length (OcbBootstrapPageV2_layout ex_page) = 4096"
    using OcbBootstrapPageV2_layout_split [OF ex_page_slots(1)] by simp
  ultimately have "is_ok (OcbBootstrapPageV2_write_to ex_page)"
    by (simp add: OcbBootstrapPageV2_write_to_def bootstrap_crc32c_def bootstrap_sizes Let_def)
  then have w: "OcbBootstrapPageV2_write_to ex_page = Inr ex_page_bytes"
    by (auto simp: ex_page_bytes_def written_def is_ok_def split: sum.splits)
  obtain crc where eq: "ex_page_bytes = (OcbBootstrapPageV2_header ex_page @ replicate 28 0) @ concat (bp2_root_slot_bytes ex_page) @
       replicate 3708 0 @ write_u32 crc"
    using OcbBootstrapPageV2_write_to_Inr [OF w ex_page_slots(1)] by blast
  from w OcbBootstrapPageV2_layout_split(2,3) [OF ex_page_slots(1)] show ?thesis by (subst (2) eq) simp
qed

lemmas ex_written = ex_strings_written ex_schema_written ex_chunk_written ex_index_written ex_root_written ex_page_written
lemmas ex_lengths = ex_written [THEN conjunct2]

lemma length_ex_file: "length ex_file = 4971"
  by (simp add: ex_file_def ex_lengths)

section \<open>Reading them back\<close>

abbreviation ex_source :: OcbReadSource where
  "ex_source \<equiv> memory_source 9 ex_file"

lemma ex_source_serves: "source_serves ex_source ex_file" "source_reliable ex_source" "rs_file_len ex_source = 4971"
  using memory_source_serves [of ex_file 9]
  by (simp_all add: memory_source_reliable length_ex_file) (simp add: memory_source_def length_ex_file)

lemma ex_read:
  assumes "rc_source c = ex_source" and "unat off + unat len \<le> 4971" and "kind \<noteq> BodyKind_Unknown"
    and "take (unat len) (drop (unat off) ex_file) = bs"
  shows "read_object_bytes_with_resource_limits example_host c 4971 (OcbBodyRefV2_new off len kind (crc32c bs)) kind policy_a = Inr bs"
proof -
  have "unat len \<le> 4971" using assms(2) by simp
  then have "len \<le> max_encoded_object_bytes policy_a"
    by (simp add: word_le_nat_alt policy_a_def OCB_POLICY_A_MAX_ENCODED_OBJECT_BYTES_def)
  moreover have "rs_file_len (rc_source c) = 4971" using assms(1) ex_source_serves(3) by simp
  ultimately show ?thesis
    using read_object_bytes_with_resource_limits_iff [of c ex_file example_host policy_a] assms ex_source_serves
      example_host_ready limits_ok_policy_a
    by (simp add: OcbBodyRefV2_new_def ref_in_file_def is_null_def referenced_def checksum_matches_def)
qed

lemma ex_reads:
  assumes "rc_source c = ex_source"
  shows "read_object_bytes_with_resource_limits example_host c 4971 (sch_string_table_ref ex_schema) BodyKind_StringTable policy_a = Inr ex_strings_bytes"
    and "read_object_bytes_with_resource_limits example_host c 4971 (root2_schema_ref ex_root) BodyKind_Schema policy_a = Inr ex_schema_bytes"
    and "read_object_bytes_with_resource_limits example_host c 4971 (root2_row_group_index_ref ex_root) BodyKind_RowGroupIndex policy_a = Inr ex_index_bytes"
    and "read_object_bytes_with_resource_limits example_host c 4971 (slot_root_ref ex_slot) BodyKind_Root policy_a = Inr ex_root_bytes"
  unfolding ex_schema_def ex_root_def ex_slot_def
  by (simp_all, (rule ex_read [OF assms], simp_all add: ex_file_def ex_lengths)+)

section \<open>Opening the file\<close>

definition ex_budget :: budget where
  "ex_budget = charged (charged (charged (budget_from_limits policy_a) 32) 33) 64"

definition ex_metadata :: OcbMetadataV1 where
  "ex_metadata =
     \<lparr>md_root = OcbRootV2_to_v1_root (ex_root\<lparr>root2_crc32c := crc32c (OcbRootV2_layout ex_root)\<rparr>),
      md_string_table = ex_strings\<lparr>st_crc32c := crc32c (written (OcbStringTableV1_encode_without_checksum ex_strings))\<rparr>,
      md_schema = ex_schema\<lparr>sch_crc32c := crc32c (written (OcbSchemaV1_encode_without_checksum ex_schema))\<rparr>,
      md_dictionary_index = None,
      md_row_group_index = ex_index\<lparr>rgi_crc32c := crc32c (written (OcbRowGroupIndexV1_encode_without_checksum ex_index))\<rparr>,
      md_row_group_positions_by_id = [], md_ordering_proof = None, md_file_len = 4971, md_appendable = True,
      md_root_generation = 1, md_previous_root_generation = None, md_resource_limits = policy_a,
      md_open_metadata_materialized_bytes = charged_bytes ex_budget, md_open_auxiliary_encoded_bytes = 0\<rparr>"

lemma ex_fits: "n \<le> 1000 \<Longrightarrow> unat (charged_bytes b) \<le> 1000 \<Longrightarrow> limit_bytes b = limit_bytes (budget_from_limits policy_a) \<Longrightarrow> fits b n"
  by (simp add: fits_def budget_from_limits_def budget_new_def policy_a_def isize_max_def
      OCB_POLICY_A_MAX_OWNED_DECODED_MATERIALIZED_BYTES_def)

lemma ex_budget_steps:
  "fits (budget_from_limits policy_a) 32" "fits (charged (budget_from_limits policy_a) 32) 33"
  "fits (charged (charged (budget_from_limits policy_a) 32) 33) 64"
  by (rule ex_fits; simp add: charged_def budget_from_limits_def budget_new_def)+

text \<open>Parsing what was written, with the budget the objects are charged to.\<close>

lemma written_Inr: "r = Inr bs \<Longrightarrow> bs = written r"
  by (simp add: written_def)

lemma ex_schema_read:
  "OcbSchemaV1_read_from_bytes_with_budget example_host ex_schema_bytes (budget_from_limits policy_a) =
     Inr (md_schema ex_metadata, charged (budget_from_limits policy_a) 32)"
  using schema.round_trip [OF conjunct1 [OF ex_schema_written] _ _ example_host_ready, of "budget_from_limits policy_a"]
    ex_budget_steps(1)
  by (auto simp: ex_lengths isize_max_def ex_metadata_def schema_retained_def example_host_def ex_schema_def
      dest!: written_Inr)

lemma ex_strings_read:
  "OcbStringTableV1_read_from_bytes_with_budget example_host ex_strings_bytes (charged (budget_from_limits policy_a) 32) =
     Inr (md_string_table ex_metadata, charged (charged (budget_from_limits policy_a) 32) 33)"
  using string_table.round_trip [OF conjunct1 [OF ex_strings_written] _ _ example_host_ready, of "charged (budget_from_limits policy_a) 32"]
    ex_budget_steps(2)
  by (auto simp: ex_lengths isize_max_def ex_metadata_def string_table_retained_def example_host_def ex_strings_def
      string_table_ok_def dest!: written_Inr)

lemma ex_index_read:
  "OcbRowGroupIndexV1_read_from_bytes_with_budget example_host ex_index_bytes (charged (charged (budget_from_limits policy_a) 32) 33) =
     Inr (md_row_group_index ex_metadata, ex_budget)"
  using row_group_index.round_trip [OF conjunct1 [OF ex_index_written] _ _ example_host_ready,
      of "charged (charged (budget_from_limits policy_a) 32) 33"] ex_budget_steps(3)
  by (auto simp: ex_lengths isize_max_def ex_metadata_def row_group_index_retained_def example_host_def ex_index_def
      ex_budget_def dest!: written_Inr)

lemma ex_objects_read:
  assumes "rc_source c = ex_source"
  defines "root \<equiv> ex_root\<lparr>root2_crc32c := crc32c (OcbRootV2_layout ex_root)\<rparr>"
  shows "read_metadata_objects_v2_with_resource_limits example_host c 4971 root policy_a (budget_from_limits policy_a) =
     Inr (ex_metadata, ex_budget)"
proof -
  have refs: "root1_schema_ref (OcbRootV2_to_v1_root root) = root2_schema_ref ex_root"
    "root1_row_group_index_ref (OcbRootV2_to_v1_root root) = root2_row_group_index_ref ex_root"
    "is_null (root1_dictionary_index_ref (OcbRootV2_to_v1_root root))"
    "is_null (root1_ordering_proof_ref (OcbRootV2_to_v1_root root))"
    "br_kind (root2_commit_diagnostics_ref root) = BodyKind_Unknown"
    "is_null (root2_previous_root_ref root)" "root2_generation root = 1"
    by (simp_all add: OcbRootV2_to_v1_root_def root_def ex_root_def example_root_def OcbBodyRefV2_NULL_def is_null_def)
  have strings: "sch_string_table_ref (md_schema ex_metadata) = sch_string_table_ref ex_schema"
    by (simp add: ex_metadata_def)
  show ?thesis
    using ex_reads [OF assms(1)]
    by (simp add: read_metadata_objects_v2_with_resource_limits_def read_metadata_objects_with_resource_limits_def
        refs ex_schema_read strings ex_strings_read ex_index_read)
      (simp add: ex_metadata_def root_def)
qed

text \<open>The chunk header is where its descriptor says.\<close>

lemma ex_chunk_header:
  assumes "rc_source c = ex_source"
  shows "\<exists>r. validate_column_chunk_object_header c 4971 ex_chunk policy_a = Inr r"
proof -
  have "take 44 (drop 4213 ex_file) = take 44 ex_chunk_bytes" by (simp add: ex_file_def ex_lengths)
  also have "\<dots> = take 44 (OcbColumnChunkObjectV1_layout ex_chunk_object)"
  proof -
    have "ex_chunk_bytes = seal_object (OcbColumnChunkObjectV1_layout ex_chunk_object)"
      using ex_chunk_written by (auto simp: OcbColumnChunkObjectV1_write_to_def sbind_eq_Inr OcbColumnChunkObjectV1_encode_Inr)
    moreover have "length (OcbColumnChunkObjectV1_layout ex_chunk_object) = 50"
      by (simp add: OcbColumnChunkObjectV1_layout_def ex_chunk_object_def)
    ultimately show ?thesis
      using take_seal_object [of "OcbColumnChunkObjectV1_layout ex_chunk_object", THEN arg_cong [where f = "take 44"]] by simp
  qed
  also have "\<dots> =
     [0x4F, 0x43, 0x42, 0x43, 0x48, 0x4B, 0x31, 0x00, 1, 0, 44, 0, 5, 0, 0, 0, 0, 0, 0, 0, 0, 0, 0, 0,
      1, 0, 0, 0, 1, 0, 0, 0, 0, 0, 0, 0, 2, 0, 0, 0, 0, 0, 0, 0]"
    by (simp add: OcbColumnChunkObjectV1_layout_def ex_chunk_object_def
      OCB_COLUMN_CHUNK_MAGIC_V1_def OCB_COLUMN_CHUNK_V1_HEADER_LEN_def write_u16_def write_u32_def write_u64_def
      to_le_bytes_def upt_rec)
  finally have hdr: "take 44 (drop 4213 ex_file) = \<dots>" .
  have rd: "file_read_exact_ocb (c\<lparr>rc_position := 4213\<rparr>) 44 = Inr (take 44 (drop 4213 ex_file), advanced (c\<lparr>rc_position := 4213\<rparr>) 44)"
    using file_read_exact_ocb_reliable [of "c\<lparr>rc_position := 4213\<rparr>" ex_file 44] assms ex_source_serves
    by (simp add: length_ex_file)
  show ?thesis
    using rd
    by (simp add: hdr slice_def header_u16_def header_u32_def header_u64_def OCB_COLUMN_CHUNK_MAGIC_V1_def
        OcbBodyRefV2_validate_def OcbBodyRefV2_new_def is_null_def
        validate_column_chunk_object_header_def ex_chunk_def OCB_COLUMN_CHUNK_V1_HEADER_LEN_def
        checked_sub_def checked_add_def policy_a_def OCB_POLICY_A_MAX_ENCODED_OBJECT_BYTES_def
        OCB_POLICY_A_MAX_COMPRESSED_CHUNK_BYTES_def OCB_POLICY_A_MAX_DECOMPRESSED_CHUNK_BYTES_def usize_max_def)
qed

text \<open>The graph of the metadata validates, with a cache that stays empty.\<close>

lemma ex_graph_reserve: "len + n \<le> 1000 \<Longrightarrow> graph_reserve example_host len n = Inr ()"
  by (simp add: graph_reserve_def hash_try_reserve_def example_host_def usize_max_def)

lemma ex_metadata_fields:
  "root1_column_count (md_root ex_metadata) = 1" "root1_row_group_count (md_root ex_metadata) = 1"
  "root1_dictionary_count (md_root ex_metadata) = 0" "root1_row_count (md_root ex_metadata) = 1"
  "sch_columns (md_schema ex_metadata) = [ex_column]" "st_strings (md_string_table ex_metadata) = [[0x78]]"
  "rgi_row_groups (md_row_group_index ex_metadata) = [ex_group]" "rgi_column_chunks (md_row_group_index ex_metadata) = [ex_chunk]"
  "rgi_stats (md_row_group_index ex_metadata) = []" "md_dictionary_index ex_metadata = None"
  "md_ordering_proof ex_metadata = None" "md_file_len ex_metadata = 4971"
  by (simp_all add: ex_metadata_def ex_root_def example_root_def OcbRootV2_to_v1_root_def ex_schema_def ex_strings_def ex_index_def)

lemma ex_column_fields:
  "col_column_id ex_column = 1" "col_name_string_id ex_column = 0" "col_physical_type ex_column = Phys_FixedBinary"
  "col_logical_kind ex_column = Logical_Plain" "value_byte_width ex_column = Inr 2"
  by (simp_all add: ex_column_def value_byte_width_def)

lemma ex_chunk_fields:
  "chunk_row_group_id ex_chunk = 0" "chunk_column_id ex_chunk = 1" "chunk_physical_type ex_chunk = Phys_FixedBinary"
  "chunk_row_count ex_chunk = 1" "chunk_uncompressed_bytes ex_chunk = 2" "is_null (chunk_validity_ref ex_chunk)"
  by (simp_all add: ex_chunk_def)

lemma ex_group_fields:
  "rg_row_group_id ex_group = 0" "rg_base_row ex_group = 0" "rg_row_count ex_group = 1" "rg_chunk_desc_begin ex_group = 0"
  "rg_chunk_desc_count ex_group = 1" "rg_stat_begin ex_group = 0" "rg_stat_count ex_group = 0"
  "is_null (rg_first_key_tuple_ref ex_group)" "is_null (rg_last_key_tuple_ref ex_group)"
  by (simp_all add: ex_group_def)

lemmas ex_fields = ex_metadata_fields ex_column_fields ex_chunk_fields ex_group_fields

lemma ex_chunks:
  assumes "rc_source c = ex_source"
  shows "check_row_group_chunks example_host zstd c ex_metadata [(1, ex_column)] MetadataGraph policy_a {1} ex_group = Inr ()"
proof -
  have "validate_chunk_desc example_host zstd c ex_metadata ex_group ex_chunk [(1, ex_column)] MetadataGraph policy_a = Inr ()"
    using ex_chunk_header [OF assms]
    by (auto simp: validate_chunk_desc_def ex_fields hash_get_def expected_value_bytes_def checked_mul_def)
  then show ?thesis
    by (simp add: check_row_group_chunks_def checked_chunks_for_row_group_def checked_stats_for_row_group_def
        ex_fields ex_graph_reserve vec_get_range_def slice_def usize_try_from_def usize_checked_add_def usize_max_def checked_add_def)
qed

lemma ex_graph:
  assumes "rc_source c = ex_source"
  defines "root \<equiv> ex_root\<lparr>root2_crc32c := crc32c (OcbRootV2_layout ex_root)\<rparr>"
  shows "validate_v2_metadata_graph example_host zstd c ex_metadata root MetadataGraph policy_a ex_budget a =
     (Inr ([(0, 0)], ex_budget), a)"
proof -
  have tuples: "is_null (root2_first_key_tuple_ref root)" "is_null (root2_last_key_tuple_ref root)"
    "is_null (root2_append_first_key_tuple_ref root)" "is_null (root2_append_last_key_tuple_ref root)"
    by (simp_all add: root_def ex_root_def example_root_def)
  have sem: "validate_v2_root_semantics root ex_metadata = Inr ()"
    by (simp add: validate_v2_root_semantics_def ex_fields root_def ex_root_def example_root_def
        checked_add_def checked_row_sum_def)
  have counts: "validate_root_counts ex_metadata (root2_column_chunk_count root) = Inr ()"
    by (simp add: validate_root_counts_def ex_fields checked_row_sum_def checked_add_def root_def ex_root_def)
  have schema: "validate_schema_graph example_host ex_metadata = Inr [(1, ex_column)]"
    by (simp add: validate_schema_graph_def ex_fields ex_graph_reserve check_schema_column_def
        hash_contains_def hash_get_def hash_insert_def vec_get_def)
  have pre: "preflight example_host ex_metadata (Some root) a = (Inr (), a)"
    by (simp add: preflight_def preflight_with_def visit_auxiliary_object_references_def visit_optional_key_tuple_def
        ex_fields tuples abind_def aret_def)
  have dict: "validate_dictionary_graph example_host c ex_metadata [(1, ex_column)] ex_budget a = (Inr ex_budget, a)"
    by (simp add: validate_dictionary_graph_def ex_fields check_column_dictionary_def abind_def aret_def atry_def)
  have desc: "validate_row_group_desc ex_group 0 ([], 0, 0, 0) = Inr ([(0, 0)], 1, 1, 0)"
    by (simp add: validate_row_group_desc_def ex_fields hash_contains_def hash_get_def hash_insert_def checked_add_def)
  have groups: "validate_row_group_graph example_host zstd c ex_metadata [(1, ex_column)] MetadataGraph policy_a a = (Inr [(0, 0)], a)"
    by (simp add: validate_row_group_graph_def ex_fields ex_graph_reserve check_row_group_def desc ex_chunks [OF assms(1)]
        hash_keys_def abind_def aret_def atry_def validate_key_tuple_def)
  have order: "validate_ordering_graph example_host c ex_metadata [(1, ex_column)] pos a = (Inr (), a)" for pos
    by (simp add: validate_ordering_graph_def ex_fields aret_def)
  show ?thesis
    by (simp add: validate_v2_metadata_graph_def validate_metadata_graph_def abind_def atry_def aret_def
        sem counts schema pre dict groups order validate_key_tuple_def tuples)
qed

abbreviation ex_zstd :: zstd where
  "ex_zstd \<equiv> \<lambda>_ _. None"

definition ex_candidate :: OcbRootCandidateV2 where
  "ex_candidate = \<lparr>cand_slot = slot_stored ex_slot, cand_root = ex_root\<lparr>root2_crc32c := crc32c (OcbRootV2_layout ex_root)\<rparr>\<rparr>"

definition ex_opened :: OcbMetadataV1 where
  "ex_opened = ex_metadata\<lparr>md_row_group_positions_by_id := [(0, 0)]\<rparr>"

lemma ex_validate:
  assumes "rc_source c = ex_source" and "aux_total_unique_bytes a = 0"
  shows "validate_v2_root_referenced_objects_with_scope example_host ex_zstd c 4971 (cand_root ex_candidate) MetadataGraph policy_a a =
     (Inr ex_opened, a)"
proof -
  let ?root = "ex_root\<lparr>root2_crc32c := crc32c (OcbRootV2_layout ex_root)\<rparr>"
  have "validate_optional_object example_host c 4971 (root2_debug_json_ref ?root) BodyKind_DebugJsonMetadata policy_a = Inr ()"
    "validate_commit_diagnostics example_host c 4971 ?root policy_a = Inr ()"
    by (simp_all add: validate_optional_object_def validate_commit_diagnostics_def ex_root_def example_root_def)
      (simp_all add: OcbBodyRefV2_NULL_def)
  moreover have "ex_opened\<lparr>md_open_metadata_materialized_bytes := charged_bytes ex_budget, md_open_auxiliary_encoded_bytes := 0\<rparr> = ex_opened"
    by (simp add: ex_opened_def ex_metadata_def)
  ultimately show ?thesis
    using ex_graph [OF assms(1)] ex_objects_read [OF assms(1)] assms(2)
    by (simp add: validate_v2_root_referenced_objects_with_scope_def ex_candidate_def abind_def atry_def Let_def ex_opened_def)
qed

lemma ex_admitted:
  assumes "rc_source c = ex_source"
  shows "admit_candidates example_host c 4971 policy_a (ex_page\<lparr>bp2_crc32c := crc\<rparr>) = Inr [ex_candidate]"
proof -
  have slots: "decoded_root_slots (ex_page\<lparr>bp2_crc32c := crc\<rparr>) = [Inr (slot_stored ex_slot), Inr (slot_stored (OcbRootSlotV2_empty 1))]"
    using ex_page_slots(2) by (simp add: decoded_root_slots_def)
  have empty: "OcbRootSlotV2_is_empty (slot_stored (OcbRootSlotV2_empty 1))"
    by (simp add: OcbRootSlotV2_is_empty_def slot_stored_def OcbRootSlotV2_empty_def)
  have ref: "slot_root_ref (slot_stored ex_slot) = slot_root_ref ex_slot" by (simp add: slot_stored_def)
  have "OcbRootSlotV2_validate_candidate (slot_stored ex_slot) 0 4971 = Inr ()"
    by (simp add: OcbRootSlotV2_validate_candidate_Inr slot_stored_def ex_slot_def OcbRootSlotV2_empty_def
        ref_in_file_def optional_ref_in_file_def OcbBodyRefV2_new_def is_null_def)
      (simp add: OcbBodyRefV2_NULL_def)
  moreover have "OcbRootV2_validate_references (cand_root ex_candidate) 4971 = Inr ()"
    by (simp add: OcbRootV2_validate_references_Inr ex_candidate_def ex_root_def example_root_def
        ref_in_file_def optional_ref_in_file_def OcbBodyRefV2_new_def is_null_def OcbRootV2_validate_ref_kinds_def
        validate_optional_ref_kind_def validate_optional_ref_kinds_def OcbBodyRefV2_NULL_def)
  moreover have "OcbRootSlotV2_validate_root (slot_stored ex_slot) (cand_root ex_candidate) = Inr ()"
    by (simp add: OcbRootSlotV2_validate_root_Inr slot_stored_def ex_slot_def OcbRootSlotV2_empty_def ex_candidate_def
        ex_root_def example_root_def)
  moreover have "run_reader OcbRootV2_read_from ex_root_bytes = Inr (cand_root ex_candidate)"
    using reads_run [OF reads_OcbRootV2 [OF conjunct1 [OF ex_root_written]]] by (simp add: ex_candidate_def)
  moreover have "\<not> OcbRootSlotV2_is_empty (slot_stored ex_slot)"
    by (simp add: OcbRootSlotV2_is_empty_def slot_stored_def ex_slot_def OcbBodyRefV2_new_def is_null_def)
  ultimately have "admit_candidate example_host c 4971 policy_a 0 (Inr (slot_stored ex_slot)) = Inr (Some ex_candidate)"
    using ex_reads(4) [OF assms] by (simp add: admit_candidate_Some) (simp add: ex_candidate_def ref)
  moreover have "admit_candidate example_host c 4971 policy_a 1 (Inr (slot_stored (OcbRootSlotV2_empty 1))) = Inr None"
    by (simp add: admit_candidate_def or_continue_def empty)
  ultimately show ?thesis by (simp add: admit_candidates_def slots)
qed

lemma ex_selected:
  assumes "rc_source c = ex_source"
  shows "select_v2_metadata example_host ex_zstd c 4971 (ex_page\<lparr>bp2_crc32c := crc\<rparr>) MetadataGraph policy_a = Inr ex_opened"
proof -
  have "max_generation [ex_candidate] = Some (cand_generation ex_candidate)" by (simp add: max_generation_def)
  moreover have "\<not> conflicting_same_generation [ex_candidate] (cand_generation ex_candidate)"
    by (simp add: conflicting_same_generation_def)
  moreover have "aux_total_unique_bytes (OcbOpenAuxiliaryObjectCache_new policy_a) = 0"
    by (simp add: OcbOpenAuxiliaryObjectCache_new_def)
  ultimately show ?thesis
    using ex_validate [OF assms] by (simp add: select_v2_metadata_def choose_v2_metadata_def ex_admitted [OF assms]
        choose_loop.simps [of _ "[ex_candidate]"])
qed

text \<open>The bootstrap page comes back, and the file opens.\<close>

lemma ex_bootstrap_read:
  assumes "rc_source c = ex_source" and "rc_position c = 0"
  shows "\<exists>crc c'. file_OcbBootstrapPageV2_read_from c = Inr (ex_page\<lparr>bp2_crc32c := crc\<rparr>, c') \<and> rc_source c' = ex_source"
proof -
  obtain crc where "reads OcbBootstrapPageV2_read_from ex_page_bytes (ex_page\<lparr>bp2_crc32c := crc\<rparr>)"
    using reads_OcbBootstrapPageV2 [OF conjunct1 [OF ex_page_written] ex_page_slots(1)] by blast
  from reads_run [OF this] have "OcbBootstrapPageV2_decode ex_page_bytes = Inr (ex_page\<lparr>bp2_crc32c := crc\<rparr>)"
    by (auto simp: OcbBootstrapPageV2_read_from_def run_reader_def rbind_def rtry_def rret_def read_exact_ocb_def
        sbind_eq_Inr ex_lengths bootstrap_sizes)
  moreover have "file_read_exact_ocb c 4096 = Inr (ex_page_bytes, advanced c 4096)"
    using file_read_exact_ocb_reliable [of c ex_file 4096] assms ex_source_serves
    by (simp add: length_ex_file) (simp add: ex_file_def ex_lengths)
  ultimately show ?thesis using assms(1) by (auto simp: file_OcbBootstrapPageV2_read_from_def bootstrap_sizes)
qed

lemma ex_file_opens:
  "read_metadata_from_source_with_validation_and_resource_limits example_host ex_zstd ex_source MetadataGraph policy_a = Inr ex_opened"
proof -
  let ?c = "OcbReadSource_cursor ex_source"
  have src: "rc_source ?c = ex_source" "rc_position ?c = 0" by (simp_all add: OcbReadSource_cursor_def)
  obtain crc where eq: "ex_page_bytes = (OcbBootstrapPageV2_header ex_page @ replicate 28 0) @ concat (bp2_root_slot_bytes ex_page) @
       replicate 3708 0 @ write_u32 crc"
    using OcbBootstrapPageV2_write_to_Inr [OF conjunct1 [OF ex_page_written] ex_page_slots(1)] by blast
  have "take 8 ex_page_bytes = OCB_BOOTSTRAP_MAGIC_V2" by (subst eq) (simp add: OcbBootstrapPageV2_header_def)
  then have "take 8 ex_file = OCB_BOOTSTRAP_MAGIC_V2" by (simp add: ex_file_def ex_lengths)
  then have magic: "file_read_exact_ocb (?c\<lparr>rc_position := 0\<rparr>) 8 = Inr (OCB_BOOTSTRAP_MAGIC_V2, advanced (?c\<lparr>rc_position := 0\<rparr>) 8)"
    using file_read_exact_ocb_reliable [of "?c\<lparr>rc_position := 0\<rparr>" ex_file 8] src ex_source_serves by (simp add: length_ex_file)
  obtain crc' c' where boot: "file_OcbBootstrapPageV2_read_from ((advanced (?c\<lparr>rc_position := 0\<rparr>) 8)\<lparr>rc_position := 0\<rparr>)
      = Inr (ex_page\<lparr>bp2_crc32c := crc'\<rparr>, c')" "rc_source c' = ex_source"
    using ex_bootstrap_read [of "(advanced (?c\<lparr>rc_position := 0\<rparr>) 8)\<lparr>rc_position := 0\<rparr>"] src by auto
  have neq: "OCB_BOOTSTRAP_MAGIC_V2 \<noteq> OCB_BOOTSTRAP_MAGIC_V1"
    by (simp add: OCB_BOOTSTRAP_MAGIC_V1_def OCB_BOOTSTRAP_MAGIC_V2_def)
  show ?thesis
    using magic boot(1) ex_selected [OF boot(2)] neq
    by (simp add: read_metadata_from_source_with_validation_and_resource_limits_def ex_source_serves(3) bootstrap_sizes
        read_metadata_v2_def)
qed

end
