(* ===== verification/Format_Properties.thy ===== *)
theory Format_Properties
  imports Example_File
begin

text \<open>
  The properties of the stored objects: what their validators accept, that what is written is
  read back, what a read charges, and that decoding obeys its limits.  Each rests on the
  lemmas of the component or on the interpretation of its codec locale.
\<close>

section \<open>References and slots\<close>

text \<open>A body reference is accepted exactly when it is present, has the expected kind and its
  range, computed without wrap-around, ends inside the file.\<close>

theorem OcbBodyRefV2_validate_exact:
  "OcbBodyRefV2_validate r kind file_len = Inr () \<longleftrightarrow>
     \<not> (br_offset r = 0 \<and> br_length r = 0 \<and> br_kind r = BodyKind_Unknown) \<and> br_kind r = kind \<and>
     unat (br_offset r) + unat (br_length r) \<le> unat file_len"
  unfolding OcbBodyRefV2_validate_Inr ref_in_file_def is_null_def by blast

text \<open>A root slot is a candidate exactly when it sits at its own position of the table, its
  root reference names a complete version-2 root inside the file, and its optional references
  are absent or name objects of the allowed kinds inside the file.\<close>

theorem OcbRootSlotV2_validate_candidate_exact:
  "OcbRootSlotV2_validate_candidate s i file_len = Inr () \<longleftrightarrow>
     slot_slot_id s = i \<and> ref_in_file (slot_root_ref s) BodyKind_Root file_len \<and> br_length (slot_root_ref s) = 456 \<and>
     optional_ref_in_file (slot_previous_root_ref s) [BodyKind_Root] file_len \<and>
     optional_ref_in_file (slot_commit_diagnostics_ref s) [BodyKind_DebugJsonMetadata, BodyKind_RowGroupIndexDelta] file_len"
  by (rule OcbRootSlotV2_validate_candidate_Inr)

text \<open>C28. Overwriting the slot table of a valid bootstrap page, which is how a new generation is
  committed, leaves a valid page that differs in its slots only: the page checksum does not
  cover them.\<close>

theorem slot_table_rewrite:
  assumes "length a = 64" and "length t = 320" and "length t' = 320" and "4 \<le> length b"
    and "OcbBootstrapPageV2_decode (a @ t @ b) = Inr p"
  shows "OcbBootstrapPageV2_decode (a @ t' @ b) = Inr (p\<lparr>bp2_root_slot_bytes := [take 160 t', drop 160 t']\<rparr>)"
  using assms by (rule OcbBootstrapPageV2_decode_slot_table)

lemma ex_page_decoded: "\<exists>p. OcbBootstrapPageV2_decode ex_page_bytes = Inr p"
proof -
  obtain crc where "reads OcbBootstrapPageV2_read_from ex_page_bytes (ex_page\<lparr>bp2_crc32c := crc\<rparr>)"
    using reads_OcbBootstrapPageV2 [OF conjunct1 [OF ex_page_written] ex_page_slots(1)] by blast
  from reads_run [OF this] show ?thesis
    by (auto simp: OcbBootstrapPageV2_read_from_def run_reader_def rbind_def rtry_def rret_def read_exact_ocb_def
        sbind_eq_Inr ex_lengths bootstrap_sizes)
qed

theorem slot_table_rewrite_witness:
  "\<exists>p. OcbBootstrapPageV2_decode (take 64 ex_page_bytes @ replicate 320 0 @ drop 384 ex_page_bytes) = Inr p \<and>
     bp2_root_slot_bytes p = [replicate 160 0, replicate 160 0]"
proof -
  obtain p where p: "OcbBootstrapPageV2_decode ex_page_bytes = Inr p" using ex_page_decoded by blast
  have "ex_page_bytes = take 64 ex_page_bytes @ take 320 (drop 64 ex_page_bytes) @ drop 384 ex_page_bytes"
    using append_take_drop_id [of 64 ex_page_bytes] append_take_drop_id [of 320 "drop 64 ex_page_bytes"] by simp
  with p have "OcbBootstrapPageV2_decode (take 64 ex_page_bytes @ take 320 (drop 64 ex_page_bytes) @ drop 384 ex_page_bytes) = Inr p"
    by metis
  from slot_table_rewrite [OF _ _ _ _ this, of "replicate 320 0"] show ?thesis by (simp add: ex_lengths)
qed

text \<open>C29. The slots a new version-2 page is made of are the slots that are decoded from the page
  after it was written and read back.\<close>

theorem new_page_slots_round_trip:
  assumes "OcbBootstrapPageV2_new uuid slots = Inr p" and "length uuid = 16"
    and "length slots = 2" and "\<forall>s\<in>set slots. slot_ok s" and "OcbBootstrapPageV2_write_to p = Inr bs"
  shows "\<exists>q. run_reader OcbBootstrapPageV2_read_from bs = Inr q \<and>
     decoded_root_slots q = map (\<lambda>s. Inr (slot_stored s)) slots"
proof -
  note new = OcbBootstrapPageV2_new_slots [OF assms(1-4)]
  obtain crc where "reads OcbBootstrapPageV2_read_from bs (p\<lparr>bp2_crc32c := crc\<rparr>)"
    using reads_OcbBootstrapPageV2 [OF assms(5) new(1)] by blast
  from reads_run [OF this] new(2) show ?thesis by (auto simp: decoded_root_slots_def)
qed

theorem new_page_slots_round_trip_witness:
  "\<exists>q. run_reader OcbBootstrapPageV2_read_from ex_page_bytes = Inr q \<and>
     decoded_root_slots q = [Inr (slot_stored ex_slot), Inr (slot_stored (OcbRootSlotV2_empty 1))]"
  using new_page_slots_round_trip [OF ex_page_new _ _ _ conjunct1 [OF ex_page_written]] ex_slot_ok by simp

section \<open>Round trips of the metadata objects\<close>

text \<open>A string table that the writer accepts, of valid UTF-8 strings, is read back whole and
  charges the budget exactly what it retains.\<close>

theorem OcbStringTableV1_round_trip:
  assumes "OcbStringTableV1_write_to x = Inr bs" and "string_table_ok x" and "length bs \<le> isize_max"
    and "host_ready h" and "fits b (string_table_retained h x)"
  shows "\<exists>buf. OcbStringTableV1_encode_without_checksum x = Inr buf \<and>
     OcbStringTableV1_read_from_bytes_with_budget h bs b =
       Inr (x\<lparr>st_crc32c := crc32c buf\<rparr>, charged b (string_table_retained h x))"
  using assms by (rule string_table.round_trip)

theorem OcbStringTableV1_round_trip_witness:
  "\<exists>x b. OcbStringTableV1_read_from_bytes_with_budget example_host ex_strings_bytes (budget_from_limits policy_a) = Inr (x, b) \<and>
     st_strings x = [[0x78]]"
  using OcbStringTableV1_round_trip [OF conjunct1 [OF ex_strings_written] _ _ example_host_ready, of "budget_from_limits policy_a"]
    ex_fits [of 33 "budget_from_limits policy_a"]
  by (auto simp: ex_lengths isize_max_def string_table_retained_def example_host_def ex_strings_def string_table_ok_def
      budget_from_limits_def budget_new_def)

text \<open>C36. A schema that the writer accepts is read back whole and charges exactly what it retains.\<close>

theorem OcbSchemaV1_round_trip:
  assumes "OcbSchemaV1_write_to x = Inr bs" and "sch_version x = 1" and "length bs \<le> isize_max"
    and "host_ready h" and "fits b (schema_retained h x)"
  shows "\<exists>buf. OcbSchemaV1_encode_without_checksum x = Inr buf \<and>
     OcbSchemaV1_read_from_bytes_with_budget h bs b =
       Inr (x\<lparr>sch_crc32c := crc32c buf\<rparr>, charged b (schema_retained h x))"
  using assms by (rule schema.round_trip)

theorem OcbSchemaV1_round_trip_witness:
  "\<exists>x b. OcbSchemaV1_read_from_bytes_with_budget example_host ex_schema_bytes (budget_from_limits policy_a) = Inr (x, b) \<and>
     sch_columns x = [ex_column]"
  using OcbSchemaV1_round_trip [OF conjunct1 [OF ex_schema_written] _ _ example_host_ready, of "budget_from_limits policy_a"]
    ex_budget_steps(1)
  by (auto simp: ex_lengths isize_max_def schema_retained_def example_host_def ex_schema_def)

text \<open>C33. A row-group index that the writer accepts is read back whole and charges exactly what it
  retains.\<close>

theorem OcbRowGroupIndexV1_round_trip:
  assumes "OcbRowGroupIndexV1_write_to x = Inr bs" and "rgi_version x = 1" and "length bs \<le> isize_max"
    and "host_ready h" and "fits b (row_group_index_retained h x)"
  shows "\<exists>buf. OcbRowGroupIndexV1_encode_without_checksum x = Inr buf \<and>
     OcbRowGroupIndexV1_read_from_bytes_with_budget h bs b =
       Inr (x\<lparr>rgi_crc32c := crc32c buf\<rparr>, charged b (row_group_index_retained h x))"
  using assms by (rule row_group_index.round_trip)

theorem OcbRowGroupIndexV1_round_trip_witness:
  "\<exists>x b. OcbRowGroupIndexV1_read_from_bytes_with_budget example_host ex_index_bytes (budget_from_limits policy_a) = Inr (x, b) \<and>
     rgi_row_groups x = [ex_group] \<and> rgi_column_chunks x = [ex_chunk]"
  using OcbRowGroupIndexV1_round_trip [OF conjunct1 [OF ex_index_written] _ _ example_host_ready, of "budget_from_limits policy_a"]
    ex_fits [of 64 "budget_from_limits policy_a"]
  by (auto simp: ex_lengths isize_max_def row_group_index_retained_def example_host_def ex_index_def
      budget_from_limits_def budget_new_def)

text \<open>C35. Dictionary values that the writer accepts are read back value by value, of every value
  kind, and charge exactly what they retain.\<close>

theorem OcbDictionaryValuesV1_round_trip:
  assumes "OcbDictionaryValuesV1_write_to x = Inr bs" and "dictionary_values_ok x" and "length bs \<le> isize_max"
    and "host_ready h" and "fits b (dictionary_values_retained h x)"
  shows "\<exists>buf. OcbDictionaryValuesV1_encode_without_checksum x = Inr buf \<and>
     OcbDictionaryValuesV1_read_from_bytes_with_budget h bs b =
       Inr (x\<lparr>dv_crc32c := crc32c buf\<rparr>, charged b (dictionary_values_retained h x))"
  using assms by (rule dictionary_values.round_trip)

definition ex_values :: OcbDictionaryValuesV1 where
  "ex_values = \<lparr>dv_version = 1, dv_value_kind = DictValue_FixedBytes, dv_fixed_width = 2,
     dv_values = [[1, 2], [3, 4]], dv_crc32c = 0\<rparr>"

lemma ex_values_written: "\<exists>bs. OcbDictionaryValuesV1_write_to ex_values = Inr bs \<and> length bs = 72"
proof -
  have "OcbDictionaryValuesV1_encode_without_checksum ex_values = Inr (OcbDictionaryValuesV1_layout ex_values)"
    by (simp add: OcbDictionaryValuesV1_encode_without_checksum_def push_dictionary_value_def ex_values_def u32_try_from_def
        OcbDictionaryValuesV1_layout_def Let_def)
  moreover have "length (OcbDictionaryValuesV1_layout ex_values) = 72"
    by (simp add: OcbDictionaryValuesV1_layout_def ex_values_def)
  ultimately show ?thesis by (simp add: OcbDictionaryValuesV1_write_to_def)
qed

theorem OcbDictionaryValuesV1_round_trip_witness:
  "\<exists>bs x b. OcbDictionaryValuesV1_write_to ex_values = Inr bs \<and>
     OcbDictionaryValuesV1_read_from_bytes_with_budget example_host bs (budget_from_limits policy_a) = Inr (x, b) \<and>
     dv_values x = [[1, 2], [3, 4]]"
proof -
  obtain bs where bs: "OcbDictionaryValuesV1_write_to ex_values = Inr bs" "length bs = 72" using ex_values_written by blast
  from OcbDictionaryValuesV1_round_trip [OF bs(1) _ _ example_host_ready, of "budget_from_limits policy_a"] bs(1)
    ex_fits [of 68 "budget_from_limits policy_a"]
  show ?thesis
    by (auto simp: bs(2) isize_max_def dictionary_values_ok_def dictionary_values_retained_def example_host_def ex_values_def
        budget_from_limits_def budget_new_def)
qed

text \<open>C37. An ordering proof that the writer accepts is read back whole and charges exactly what it
  retains.\<close>

theorem OcbOrderingProofV1_round_trip:
  assumes "OcbOrderingProofV1_write_to x = Inr bs" and "op_version x = 1" and "length bs \<le> isize_max"
    and "host_ready h" and "fits b (ordering_proof_retained h x)"
  shows "\<exists>buf. OcbOrderingProofV1_encode_without_checksum x = Inr buf \<and>
     OcbOrderingProofV1_read_from_bytes_with_budget h bs b =
       Inr (x\<lparr>op_crc32c := crc32c buf\<rparr>, charged b (ordering_proof_retained h x))"
  using assms by (rule ordering_proof.round_trip)

definition ex_ordering :: OcbOrderingProofV1 where
  "ex_ordering = \<lparr>op_version = 1, op_flags = 0,
     op_keys = [\<lparr>okey_column_id = 1, okey_direction = Direction_Descending, okey_null_order = NullOrder_NoNulls, okey_reserved0 = 0\<rparr>],
     op_row_group_proofs = [], op_crc32c = 0\<rparr>"

theorem OcbOrderingProofV1_round_trip_witness:
  "\<exists>bs x b. OcbOrderingProofV1_write_to ex_ordering = Inr bs \<and>
     OcbOrderingProofV1_read_from_bytes_with_budget example_host bs (budget_from_limits policy_a) = Inr (x, b) \<and>
     op_keys x = op_keys ex_ordering"
proof -
  obtain buf where enc: "OcbOrderingProofV1_encode_without_checksum ex_ordering = Inr buf" "length buf = 40"
    by (simp add: OcbOrderingProofV1_encode_without_checksum_def ex_ordering_def write_each_def
        OcbOrderingKeyV1_write_to_def u32_try_from_def u16_try_from_def)
  then have bs: "OcbOrderingProofV1_write_to ex_ordering = Inr (seal_object buf)"
    by (simp add: OcbOrderingProofV1_write_to_def)
  from OcbOrderingProofV1_round_trip [OF bs _ _ example_host_ready, of "budget_from_limits policy_a"] bs
    ex_fits [of 32 "budget_from_limits policy_a"]
  show ?thesis
    by (auto simp: enc isize_max_def ordering_proof_retained_def example_host_def ex_ordering_def
        budget_from_limits_def budget_new_def)
qed

text \<open>C34. A row-group index delta that the writer accepts is read back whole and charges exactly
  what it retains.\<close>

theorem OcbRowGroupIndexDeltaV1_round_trip:
  assumes "OcbRowGroupIndexDeltaV1_write_to x = Inr bs" and "rgd_version x = 1" and "length bs \<le> isize_max"
    and "host_ready h" and "fits b (row_group_delta_retained h x)"
  shows "\<exists>buf. OcbRowGroupIndexDeltaV1_encode_without_checksum x = Inr buf \<and>
     OcbRowGroupIndexDeltaV1_read_from_bytes_with_budget h bs b =
       Inr (x\<lparr>rgd_crc32c := crc32c buf\<rparr>, charged b (row_group_delta_retained h x))"
  using assms by (rule row_group_delta.round_trip)

theorem OcbRowGroupIndexDeltaV1_round_trip_witness:
  "\<exists>bs x b. OcbRowGroupIndexDeltaV1_write_to example_delta = Inr bs \<and>
     OcbRowGroupIndexDeltaV1_read_from_bytes_with_budget example_host bs (budget_from_limits policy_a) = Inr (x, b) \<and>
     rgd_row_groups x = rgd_row_groups example_delta"
proof -
  obtain buf where enc: "OcbRowGroupIndexDeltaV1_encode_without_checksum example_delta = Inr buf" "length buf = 276"
    by (simp add: OcbRowGroupIndexDeltaV1_encode_without_checksum_def example_delta_def write_each_def example_row_group_def
        example_chunk_def OcbRowGroupDescV1_write_to_def OcbColumnChunkDescV1_write_to_def u32_try_from_def u16_try_from_def)
  then have bs: "OcbRowGroupIndexDeltaV1_write_to example_delta = Inr (seal_object buf)"
    by (simp add: OcbRowGroupIndexDeltaV1_write_to_def)
  from OcbRowGroupIndexDeltaV1_round_trip [OF bs _ _ example_host_ready, of "budget_from_limits policy_a"] bs
    ex_fits [of 64 "budget_from_limits policy_a"]
  show ?thesis
    by (auto simp: enc isize_max_def row_group_delta_retained_def example_host_def example_delta_def
        budget_from_limits_def budget_new_def)
qed

section \<open>Budgets and limits\<close>

text \<open>A charge to the metadata budget is granted exactly when the total, computed without
  wrap-around, stays within the limit.\<close>

theorem charge_granted_iff:
  "(\<exists>b'. charge b n = Inr b') \<longleftrightarrow> unat (charged_bytes b) + unat n \<le> unat (limit_bytes b)"
  by (rule charge_Inr_iff)

text \<open>On any bytes at all, reading dictionary values that succeeds has charged the budget
  exactly what the values retain, and has not exceeded it.\<close>

theorem OcbDictionaryValuesV1_charges:
  assumes "OcbDictionaryValuesV1_read_from_bytes_with_budget h bs b = Inr (x, b')"
  shows "unat (charged_bytes b') = unat (charged_bytes b) + dictionary_values_retained h x \<and>
     charged_bytes b' \<le> limit_bytes b"
  using dictionary_values.rd_charges [OF assms] by (auto simp: charges_def budget_ok_def)

theorem OcbDictionaryValuesV1_charges_witness:
  "\<exists>bs x b'. OcbDictionaryValuesV1_read_from_bytes_with_budget example_host bs (budget_from_limits policy_a) = Inr (x, b') \<and>
     unat (charged_bytes b') = 68"
proof -
  obtain bs where bs: "OcbDictionaryValuesV1_write_to ex_values = Inr bs" "length bs = 72" using ex_values_written by blast
  from dictionary_values.round_trip [OF bs(1) _ _ example_host_ready, of "budget_from_limits policy_a"]
    ex_fits [of 68 "budget_from_limits policy_a"]
  obtain crc b' where rd: "OcbDictionaryValuesV1_read_from_bytes_with_budget example_host bs (budget_from_limits policy_a) =
      Inr (ex_values\<lparr>dv_crc32c := crc\<rparr>, b')"
    by (auto simp: bs(2) isize_max_def dictionary_values_ok_def dictionary_values_retained_def example_host_def ex_values_def
        budget_from_limits_def budget_new_def)
  from OcbDictionaryValuesV1_charges [OF rd] rd show ?thesis
    by (auto simp: dictionary_values_retained_def example_host_def ex_values_def budget_from_limits_def budget_new_def)
qed

text \<open>A limits policy is built exactly from direct-allocation limits the platform can address,
  and carries the six limits it was given.\<close>

theorem OcbResourceLimits_new_exact:
  "OcbResourceLimits_new enc cmp dec proj sel own = Inr l \<longleftrightarrow>
     unat enc \<le> isize_max \<and> unat cmp \<le> isize_max \<and> unat dec \<le> isize_max \<and> unat proj \<le> isize_max \<and>
     l = \<lparr>max_encoded_object_bytes = enc, max_compressed_chunk_bytes = cmp, max_decompressed_chunk_bytes = dec,
          max_projected_row_group_bytes = proj, max_owned_selected_compressed_bytes = sel,
          max_owned_decoded_materialized_bytes = own\<rparr>"
  by (auto simp: OcbResourceLimits_new_def sbind_eq_Inr)

section \<open>Column chunks\<close>

text \<open>C38. A column chunk object that the writer accepts is read back field by field, payload
  included.\<close>

theorem OcbColumnChunkObjectV1_round_trip:
  assumes "OcbColumnChunkObjectV1_write_to x = Inr bs" and "cco_version x = 1" and "length bs \<le> isize_max"
  shows "OcbColumnChunkObjectV1_read_from_bytes bs = Inr (x\<lparr>cco_crc32c := crc32c (OcbColumnChunkObjectV1_layout x)\<rparr>)"
  using assms by (rule OcbColumnChunkObjectV1_write_read)

theorem OcbColumnChunkObjectV1_round_trip_witness:
  "\<exists>x. OcbColumnChunkObjectV1_read_from_bytes ex_chunk_bytes = Inr x \<and> cco_payload x = [7, 9]"
  using OcbColumnChunkObjectV1_round_trip [OF conjunct1 [OF ex_chunk_written]]
  by (simp add: ex_lengths isize_max_def ex_chunk_object_def)

text \<open>C39. A decoded payload has exactly the length its header promises, and neither it nor the
  encoded payload exceeds the limit that was set for it.\<close>

theorem decode_payload_bounded:
  assumes "decode_payload_with_limits h zstd x maxc maxd = Inr out"
  shows "length out = unat (cco_uncompressed_bytes x) \<and> length out \<le> unat maxd \<and> length (cco_payload x) \<le> unat maxc"
  using decode_payload_with_limits_Inr [OF assms] by blast

theorem decode_payload_bounded_witness:
  "decode_payload_with_limits example_host ex_zstd ex_chunk_object 100 100 = Inr [7, 9] \<and> length [7, 9 :: u8] = unat (2 :: u64)"
proof -
  have "decode_payload_with_limits example_host ex_zstd ex_chunk_object 100 100 = Inr [7, 9]"
    by (simp add: decode_payload_with_limits_def uncompressed_value_bytes_def check_primitive_value_bytes_def
        copy_bytes_fallibly_def u64_try_from_def try_reserve_exact_def example_host_def isize_max_def ex_chunk_object_def)
  from decode_payload_bounded [OF this] this show ?thesis by (simp add: ex_chunk_object_def)
qed

text \<open>Decompressing with a bound returns bytes exactly when the expected size is within the
  bound and its buffer is granted, and the decompressor, run with the window the bound allows,
  ends cleanly after exactly that many bytes; the bytes are its output.\<close>

theorem decode_zstd_payload_bounded_exact:
  "decode_zstd_payload_bounded h zstd enc n m = Inr out \<longleftrightarrow>
     unat n + 1 < 2 ^ 64 \<and> n \<le> m \<and>
     try_reserve_exact h TyU8 (unat n) ''OCB decoded payload allocation failed within resource limit'' \<and>
     zstd enc (zstd_window_log_for_decoded_limit m) = Some \<lparr>zs_output = out, zs_clean_end = True\<rparr> \<and>
     length out = unat n"
  by (rule decode_zstd_payload_bounded_Inr)

section \<open>Object reads\<close>

text \<open>C27. On a reliable file with memory at hand, reading a referenced object succeeds exactly on
  references into the file that are within the size limit and match their checksum, and
  returns the bytes the file holds there.\<close>

theorem read_object_bytes_exact:
  assumes "source_serves (rc_source c) content" and "source_reliable (rc_source c)"
    and "host_ready h" and "limits_ok limits"
  shows "read_object_bytes_with_resource_limits h c (rs_file_len (rc_source c)) r kind limits = Inr bs \<longleftrightarrow>
     ref_in_file r kind (rs_file_len (rc_source c)) \<and> br_length r \<le> max_encoded_object_bytes limits \<and>
     bs = referenced r content \<and> checksum_matches r bs"
  using assms by (rule read_object_bytes_with_resource_limits_iff)

theorem read_object_bytes_exact_witness:
  "read_object_bytes_with_resource_limits example_host (OcbReadSource_cursor ex_source) 4971 (root2_schema_ref ex_root)
     BodyKind_Schema policy_a = Inr ex_schema_bytes"
proof -
  let ?c = "OcbReadSource_cursor ex_source"
  have "source_serves (rc_source ?c) ex_file" "source_reliable (rc_source ?c)" "rs_file_len (rc_source ?c) = 4971"
    using ex_source_serves by (simp_all add: OcbReadSource_cursor_def)
  from read_object_bytes_exact [OF this(1,2) example_host_ready limits_ok_policy_a, of "root2_schema_ref ex_root"
      BodyKind_Schema ex_schema_bytes] this(3)
  show ?thesis
    by (simp add: ex_root_def OcbBodyRefV2_new_def ref_in_file_def is_null_def referenced_def checksum_matches_def
        policy_a_def OCB_POLICY_A_MAX_ENCODED_OBJECT_BYTES_def)
      (simp add: ex_file_def ex_lengths)
qed

end
