(* ===== verification/Reader_Properties.thy ===== *)
theory Reader_Properties
  imports Format_Properties
begin

text \<open>
  The properties of opening a file: the auxiliary cache, the metadata graph, the choice of the
  snapshot, the maintenance analysis and the whole open, with their instances at the example
  file.
\<close>

section \<open>The auxiliary cache\<close>

text \<open>The cache of auxiliary objects is keyed by whole references: two references share an
  entry exactly when they are equal.\<close>

theorem auxiliary_key_exact: "OcbAuxiliaryBodyRefKey_from r = OcbAuxiliaryBodyRefKey_from s \<longleftrightarrow> r = s"
  by (rule OcbAuxiliaryBodyRefKey_from_inject)

text \<open>C23. The cache invariant: the recorded total is the sum of the lengths of the distinct
  references seen, it never exceeds the selected-bytes limit, and a recorded verdict is true of
  the file.  A new cache satisfies it and every operation keeps it, whether it succeeds or fails.\<close>

theorem auxiliary_cache_invariant:
  "cache_inv h c file_len limits (OcbOpenAuxiliaryObjectCache_new limits) \<and>
   keeps (cache_inv h c file_len limits) (charge_unique h' r) \<and>
   keeps (cache_inv h c file_len limits) (preflight h' m root) \<and>
   keeps (cache_inv h c file_len limits) (dictionary_values_summary h c file_len r b) \<and>
   keeps (cache_inv h c file_len limits) (validate_key_tuple h c file_len r)"
  by (intro conjI cache_inv_new keeps_intros)

text \<open>C24. A key tuple is accepted, from the cache or from the file, only when the object it names
  really is a readable key tuple of the file.\<close>

theorem validate_key_tuple_sound:
  assumes "validate_key_tuple h c file_len r a = (Inr (), a')" and "cache_inv h c file_len limits a" and "\<not> is_null r"
  shows "is_ok (read_object_bytes_with_resource_limits h c file_len r BodyKind_KeyTuple limits)"
  using validate_key_tuple_Inr [OF assms(1,2)] assms(3) by simp

definition ex_tuple_ref :: OcbBodyRefV2 where
  "ex_tuple_ref = OcbBodyRefV2_new 0 3 BodyKind_KeyTuple (crc32c [1, 2, 3])"

abbreviation ex_tuple_cursor :: OcbReadCursor where
  "ex_tuple_cursor \<equiv> OcbReadSource_cursor (memory_source 9 [1, 2, 3])"

theorem validate_key_tuple_sound_witness:
  "is_ok (read_object_bytes_with_resource_limits example_host ex_tuple_cursor 3 ex_tuple_ref BodyKind_KeyTuple policy_a)"
proof -
  let ?a = "snd (charge_unique example_host ex_tuple_ref (OcbOpenAuxiliaryObjectCache_new policy_a))"
  have src: "source_serves (memory_source 9 [1, 2, 3]) [1, 2, 3]" "source_reliable (memory_source 9 [1, 2, 3])"
      "rs_file_len (memory_source 9 [1, 2, 3]) = 3"
    using memory_source_serves [of "[1, 2, 3]" 9] by (simp_all add: memory_source_reliable) (simp add: memory_source_def)
  have inv: "cache_inv example_host ex_tuple_cursor 3 policy_a ?a"
    by (rule keepsD [OF keeps_charge_unique cache_inv_new])
  have a: "?a = \<lparr>aux_objects = [(OcbAuxiliaryBodyRefKey_from ex_tuple_ref, Pending)],
      aux_total_unique_bytes = 3, aux_resource_limits = policy_a\<rparr>"
    by (simp add: charge_unique_def OcbOpenAuxiliaryObjectCache_new_def hash_contains_def hash_get_def hash_insert_def
        ex_tuple_ref_def OcbBodyRefV2_new_def checked_add_def ex_graph_reserve policy_a_def
        OCB_POLICY_A_MAX_OWNED_SELECTED_COMPRESSED_BYTES_def)
  have "read_object_bytes_with_resource_limits example_host ex_tuple_cursor 3 ex_tuple_ref BodyKind_KeyTuple policy_a = Inr [1, 2, 3]"
    using read_object_bytes_with_resource_limits_iff [of ex_tuple_cursor "[1, 2, 3]" example_host policy_a ex_tuple_ref BodyKind_KeyTuple
        "[1, 2, 3]"] src example_host_ready limits_ok_policy_a
    by (simp add: OcbReadSource_cursor_def ex_tuple_ref_def OcbBodyRefV2_new_def ref_in_file_def is_null_def referenced_def
        checksum_matches_def policy_a_def OCB_POLICY_A_MAX_ENCODED_OBJECT_BYTES_def)
  then have "\<exists>a'. validate_key_tuple example_host ex_tuple_cursor 3 ex_tuple_ref ?a = (Inr (), a')"
    unfolding a by (auto simp: validate_key_tuple_def Let_def hash_get_def hash_contains_def read_object_bytes_with_resource_limits_def)
  then obtain a' where "validate_key_tuple example_host ex_tuple_cursor 3 ex_tuple_ref ?a = (Inr (), a')" ..
  moreover have "\<not> is_null ex_tuple_ref" by (simp add: ex_tuple_ref_def OcbBodyRefV2_new_def is_null_def)
  ultimately show ?thesis using validate_key_tuple_sound [OF _ inv] by blast
qed

section \<open>The metadata graph\<close>

text \<open>C18. Metadata that the graph validation accepts is well formed: column identifiers and names
  are unique, the row groups tile the rows, the chunk table and the statistics table without
  gaps or overlaps, every row group has one chunk of matching size per schema column, the
  totals are those of the root, and the ordering proof covers exactly the row groups; the
  lookup table that is returned lists every row group.\<close>

theorem validate_metadata_graph_sound:
  assumes "validate_metadata_graph h zstd c m n mode limits root b a = (Inr (pos, b'), a')"
    and "length (rgi_stats (md_row_group_index m)) < 2 ^ 64"
  shows "metadata_wf m \<and>
     pos = positions_of (rgi_row_groups (md_row_group_index m)) (length (rgi_row_groups (md_row_group_index m)))"
  using assms by (rule validate_metadata_graph_wf)

abbreviation ex_stored_root :: OcbRootV2 where
  "ex_stored_root \<equiv> ex_root\<lparr>root2_crc32c := crc32c (OcbRootV2_layout ex_root)\<rparr>"

theorem validate_metadata_graph_sound_witness:
  "metadata_wf ex_metadata \<and> positions_of [ex_group] 1 = [(0, 0)]"
proof -
  let ?c = "OcbReadSource_cursor ex_source" and ?a = "OcbOpenAuxiliaryObjectCache_new policy_a"
  have "rc_source ?c = ex_source" by (simp add: OcbReadSource_cursor_def)
  from ex_graph [OF this, of ex_zstd ?a]
  have "validate_metadata_graph example_host ex_zstd ?c ex_metadata (root2_column_chunk_count ex_stored_root) MetadataGraph policy_a
      (Some ex_stored_root) ex_budget ?a = (Inr ([(0, 0)], ex_budget), ?a)"
    by (auto simp: validate_v2_metadata_graph_def abind_def atry_def split: sum.splits)
  from validate_metadata_graph_sound [OF this] show ?thesis by (simp add: ex_fields)
qed

section \<open>Choosing the snapshot\<close>

text \<open>C15. The choice among the admitted roots ends with the snapshot of a candidate that is alone in
  its generation and validates, every newer generation having conflicting roots or a candidate
  found corrupt; or it fails, either because every generation is rejected in that way or with the
  error of a reached candidate whose failure is not corruption.\<close>

theorem choose_v2_metadata_outcome:
  "\<exists>a'. outcome_ok (cache_inv h c file_len limits)
     (\<lambda>cand. validate_v2_root_referenced_objects_with_scope h zstd c file_len (cand_root cand) mode limits)
     candidates (choose_v2_metadata h zstd c file_len candidates mode limits) a'"
  unfolding choose_v2_metadata_def
  using v2.choose_outcome [OF prod.collapse [symmetric] cache_inv_new] by blast

text \<open>The caches that the choice among the roots of a file can hold when it comes to a generation.\<close>

abbreviation v2_cache_at ::
  "host \<Rightarrow> zstd \<Rightarrow> OcbReadCursor \<Rightarrow> u64 \<Rightarrow> OcbRootCandidateV2 list \<Rightarrow> OcbOpenValidationMode \<Rightarrow> OcbResourceLimits \<Rightarrow>
     u64 \<Rightarrow> OcbOpenAuxiliaryObjectCache \<Rightarrow> bool" where
  "v2_cache_at h zstd c file_len candidates mode limits \<equiv>
     cache_at (\<lambda>d. validate_v2_root_referenced_objects_with_scope h zstd c file_len (cand_root d) mode limits)
       candidates (OcbOpenAuxiliaryObjectCache_new limits)"

text \<open>C16. Suppose some generation has candidates for a single root only, and they validate with every
  cache of auxiliary objects the choice can hold when it comes to that generation (the empty
  cache, or one left behind by newer candidates that were found corrupt); and suppose no newer
  candidate fails, with a cache the choice can hold there, for another reason than corruption.
  Then the choice succeeds, with the snapshot of a candidate that is at least as new.\<close>

theorem choose_v2_metadata_live:
  assumes "cand \<in> set candidates" and "\<not> conflicting_same_generation candidates (cand_generation cand)"
    and "\<And>d a. d \<in> set candidates \<Longrightarrow> cand_generation d = cand_generation cand \<Longrightarrow>
      v2_cache_at h zstd c file_len candidates mode limits (cand_generation d) a \<Longrightarrow>
      is_ok (fst (validate_v2_root_referenced_objects_with_scope h zstd c file_len (cand_root d) mode limits a))"
    and "\<And>d a err. d \<in> set candidates \<Longrightarrow> cand_generation cand < cand_generation d \<Longrightarrow>
      \<not> conflicting_same_generation candidates (cand_generation d) \<Longrightarrow>
      v2_cache_at h zstd c file_len candidates mode limits (cand_generation d) a \<Longrightarrow>
      fst (validate_v2_root_referenced_objects_with_scope h zstd c file_len (cand_root d) mode limits a) = Inl err \<Longrightarrow>
      is_discardable_candidate_error err"
  shows "\<exists>m d a a'. choose_v2_metadata h zstd c file_len candidates mode limits = Inr m \<and>
     d \<in> set candidates \<and> cand_generation cand \<le> cand_generation d \<and>
     \<not> conflicting_same_generation candidates (cand_generation d) \<and>
     v2_cache_at h zstd c file_len candidates mode limits (cand_generation d) a \<and>
     validate_v2_root_referenced_objects_with_scope h zstd c file_len (cand_root d) mode limits a = (Inr m, a')"
  unfolding choose_v2_metadata_def
  by (rule choose_loop_live [OF prod.collapse [symmetric] assms(1) subset_refl refl cache_at.start assms(2-4)])

text \<open>
  The instance has two candidates with key tuples.  The first key tuple of both is a readable
  object of the file; the last key tuple of the newer one names the same bytes with a wrong
  checksum, so that the newer candidate is found corrupt after both were charged to the cache.
  The older candidate names the readable key tuple twice and finds it in the cache.
\<close>

definition ex_key_ref :: OcbBodyRefV2 where
  "ex_key_ref = OcbBodyRefV2_new 4096 29 BodyKind_KeyTuple (crc32c ex_strings_bytes)"

definition ex_torn_key_ref :: OcbBodyRefV2 where
  "ex_torn_key_ref = OcbBodyRefV2_new 4096 29 BodyKind_KeyTuple (crc32c ex_strings_bytes + 1)"

definition ex_keyed_root :: "u64 \<Rightarrow> OcbBodyRefV2 \<Rightarrow> OcbRootV2" where
  "ex_keyed_root g last_ref =
     (let root = ex_root\<lparr>root2_generation := g, root2_first_key_tuple_ref := ex_key_ref, root2_last_key_tuple_ref := last_ref\<rparr>
      in root\<lparr>root2_crc32c := crc32c (OcbRootV2_layout root)\<rparr>)"

definition ex_keyed_candidate :: "u64 \<Rightarrow> OcbBodyRefV2 \<Rightarrow> OcbRootCandidateV2" where
  "ex_keyed_candidate g last_ref =
     \<lparr>cand_slot = (slot_stored ex_slot)\<lparr>slot_generation := g\<rparr>, cand_root = ex_keyed_root g last_ref\<rparr>"

definition ex_keyed_metadata :: "u64 \<Rightarrow> OcbBodyRefV2 \<Rightarrow> OcbMetadataV1" where
  "ex_keyed_metadata g last_ref =
     ex_metadata\<lparr>md_root := OcbRootV2_to_v1_root (ex_keyed_root g last_ref), md_root_generation := g\<rparr>"

lemma ex_keyed_objects_read:
  assumes "rc_source c = ex_source"
  shows "read_metadata_objects_v2_with_resource_limits example_host c 4971 (ex_keyed_root g r) policy_a (budget_from_limits policy_a) =
     Inr (ex_keyed_metadata g r, ex_budget)"
proof -
  have refs: "root1_schema_ref (OcbRootV2_to_v1_root (ex_keyed_root g r)) = root2_schema_ref ex_root"
    "root1_row_group_index_ref (OcbRootV2_to_v1_root (ex_keyed_root g r)) = root2_row_group_index_ref ex_root"
    "is_null (root1_dictionary_index_ref (OcbRootV2_to_v1_root (ex_keyed_root g r)))"
    "is_null (root1_ordering_proof_ref (OcbRootV2_to_v1_root (ex_keyed_root g r)))"
    "br_kind (root2_commit_diagnostics_ref (ex_keyed_root g r)) = BodyKind_Unknown"
    "is_null (root2_previous_root_ref (ex_keyed_root g r))" "root2_generation (ex_keyed_root g r) = g"
    by (simp_all add: OcbRootV2_to_v1_root_def ex_keyed_root_def Let_def ex_root_def example_root_def OcbBodyRefV2_NULL_def is_null_def)
  have strings: "sch_string_table_ref (md_schema ex_metadata) = sch_string_table_ref ex_schema"
    by (simp add: ex_metadata_def)
  show ?thesis
    using ex_reads [OF assms(1)]
    by (simp add: read_metadata_objects_v2_with_resource_limits_def read_metadata_objects_with_resource_limits_def
        refs ex_schema_read strings ex_strings_read ex_index_read)
      (simp add: ex_metadata_def ex_keyed_metadata_def)
qed

lemma ex_keyed_fields:
  "root1_column_count (md_root (ex_keyed_metadata g r)) = 1" "root1_row_group_count (md_root (ex_keyed_metadata g r)) = 1"
  "root1_dictionary_count (md_root (ex_keyed_metadata g r)) = 0" "root1_row_count (md_root (ex_keyed_metadata g r)) = 1"
  "md_schema (ex_keyed_metadata g r) = md_schema ex_metadata" "md_string_table (ex_keyed_metadata g r) = md_string_table ex_metadata"
  "md_row_group_index (ex_keyed_metadata g r) = md_row_group_index ex_metadata"
  "md_dictionary_index (ex_keyed_metadata g r) = None" "md_ordering_proof (ex_keyed_metadata g r) = None"
  "md_file_len (ex_keyed_metadata g r) = 4971"
  "root2_first_key_tuple_ref (ex_keyed_root g r) = ex_key_ref" "root2_last_key_tuple_ref (ex_keyed_root g r) = r"
  "is_null (root2_append_first_key_tuple_ref (ex_keyed_root g r))" "is_null (root2_append_last_key_tuple_ref (ex_keyed_root g r))"
  "root2_column_chunk_count (ex_keyed_root g r) = 1"
  by (simp_all add: ex_keyed_metadata_def ex_keyed_root_def Let_def OcbRootV2_to_v1_root_def ex_root_def example_root_def ex_fields)

lemma ex_keyed_graph:
  assumes "rc_source c = ex_source"
  shows "validate_v2_metadata_graph example_host zstd c (ex_keyed_metadata g r) (ex_keyed_root g r) MetadataGraph policy_a ex_budget =
     abind (preflight_with example_host 4971 (visit_optional_key_tuple ex_key_ref @ visit_optional_key_tuple r)) (\<lambda>_.
     abind (validate_key_tuple example_host c 4971 ex_key_ref) (\<lambda>_.
     abind (validate_key_tuple example_host c 4971 r) (\<lambda>_. aret ([(0, 0)], ex_budget))))"
proof -
  note fields = ex_keyed_fields [of g r] ex_fields
  let ?m = "ex_keyed_metadata g r" and ?root = "ex_keyed_root g r"
  have sem: "validate_v2_root_semantics ?root ?m = Inr ()"
    by (simp add: validate_v2_root_semantics_def fields ex_keyed_root_def ex_root_def example_root_def
        checked_add_def checked_row_sum_def)
  have counts: "validate_root_counts ?m (root2_column_chunk_count ?root) = Inr ()"
    by (simp add: validate_root_counts_def fields checked_row_sum_def checked_add_def)
  have schema: "validate_schema_graph example_host ?m = Inr [(1, ex_column)]"
    by (simp add: validate_schema_graph_def fields ex_graph_reserve check_schema_column_def
        hash_contains_def hash_get_def hash_insert_def vec_get_def)
  have pre: "preflight example_host ?m (Some ?root) =
      preflight_with example_host 4971 (visit_optional_key_tuple ex_key_ref @ visit_optional_key_tuple r)"
    by (simp add: preflight_def visit_auxiliary_object_references_def fields)
      (simp add: visit_optional_key_tuple_def fields)
  have dict: "validate_dictionary_graph example_host c ?m [(1, ex_column)] ex_budget = aret ex_budget"
    by (rule ext) (simp add: validate_dictionary_graph_def fields check_column_dictionary_def abind_def aret_def atry_def)
  have desc: "validate_row_group_desc ex_group 0 ([], 0, 0, 0) = Inr ([(0, 0)], 1, 1, 0)"
    by (simp add: validate_row_group_desc_def fields hash_contains_def hash_get_def hash_insert_def checked_add_def)
  have "validate_chunk_desc example_host zstd c ?m ex_group ex_chunk [(1, ex_column)] MetadataGraph policy_a = Inr ()"
    using ex_chunk_header [OF assms]
    by (auto simp: validate_chunk_desc_def fields hash_get_def expected_value_bytes_def checked_mul_def)
  then have chunks: "check_row_group_chunks example_host zstd c ?m [(1, ex_column)] MetadataGraph policy_a {1} ex_group = Inr ()"
    by (simp add: check_row_group_chunks_def checked_chunks_for_row_group_def checked_stats_for_row_group_def
        fields ex_graph_reserve vec_get_range_def slice_def usize_try_from_def usize_checked_add_def usize_max_def checked_add_def)
  have groups: "validate_row_group_graph example_host zstd c ?m [(1, ex_column)] MetadataGraph policy_a = aret [(0, 0)]"
    by (rule ext) (simp add: validate_row_group_graph_def fields ex_graph_reserve check_row_group_def desc chunks
        hash_keys_def abind_def aret_def atry_def validate_key_tuple_def)
  have order: "validate_ordering_graph example_host c ?m [(1, ex_column)] pos = aret ()" for pos
    by (simp add: validate_ordering_graph_def fields)
  have null: "validate_key_tuple example_host c 4971 s = aret ()" if "is_null s" for s
    using that by (simp add: validate_key_tuple_def aret_def fun_eq_iff)
  have step: "atry (Inr x) = aret x" "abind (aret x) k = k x" "abind m aret = m" "abind (abind m f) k = abind m (\<lambda>y. abind (f y) k)"
    for x :: 'x and k :: "'x \<Rightarrow> ('s, 'y) action" and m :: "('s, 'x) action" and f :: "'x \<Rightarrow> ('s, 'x) action"
    by (simp_all add: fun_eq_iff abind_def aret_def atry_def split: prod.split sum.split)
  show ?thesis
    by (simp add: validate_v2_metadata_graph_def validate_metadata_graph_def step
        sem counts schema pre dict groups order fields(10-12) null [OF fields(13)] null [OF fields(14)])
qed

text \<open>What the two key tuples do to the cache.\<close>

definition ex_left_cache :: OcbOpenAuxiliaryObjectCache where
  "ex_left_cache =
     \<lparr>aux_objects = [(OcbAuxiliaryBodyRefKey_from ex_key_ref, KeyTupleValidated), (OcbAuxiliaryBodyRefKey_from ex_torn_key_ref, Pending)],
      aux_total_unique_bytes = 58, aux_resource_limits = policy_a\<rparr>"

lemma ex_keys:
  "\<not> is_null ex_key_ref" "\<not> is_null ex_torn_key_ref" "ex_key_ref \<noteq> ex_torn_key_ref"
  "br_length ex_key_ref = 29" "br_length ex_torn_key_ref = 29"
  "OcbBodyRefV2_validate ex_key_ref BodyKind_KeyTuple 4971 = Inr ()"
  "OcbBodyRefV2_validate ex_torn_key_ref BodyKind_KeyTuple 4971 = Inr ()"
  by (simp_all add: ex_key_ref_def ex_torn_key_ref_def OcbBodyRefV2_new_def is_null_def OcbBodyRefV2_validate_def checked_add_def)

lemma ex_key_read:
  assumes "rc_source c = ex_source"
  shows "read_object_bytes_inner_with_limits example_host c 4971 ex_key_ref BodyKind_KeyTuple
      (max_encoded_object_bytes policy_a) (of_nat usize_max) = Inr ex_strings_bytes"
    and "read_object_bytes_inner_with_limits example_host c 4971 ex_torn_key_ref BodyKind_KeyTuple
      (max_encoded_object_bytes policy_a) (of_nat usize_max) = Inl (ocb_corrupt_file ''OCB body reference checksum mismatch'')"
proof -
  have "read_object_bytes_with_resource_limits example_host c 4971 ex_key_ref BodyKind_KeyTuple policy_a = Inr ex_strings_bytes"
    unfolding ex_key_ref_def by (rule ex_read [OF assms]) (simp_all add: ex_file_def ex_lengths)
  then show read: "read_object_bytes_inner_with_limits example_host c 4971 ex_key_ref BodyKind_KeyTuple
      (max_encoded_object_bytes policy_a) (of_nat usize_max) = Inr ex_strings_bytes"
    by (simp add: read_object_bytes_with_resource_limits_def)
  have same: "br_offset ex_torn_key_ref = br_offset ex_key_ref" "br_checksum_kind ex_torn_key_ref = ChecksumKind_Crc32c"
    "br_checksum_kind ex_key_ref = ChecksumKind_Crc32c" "br_checksum ex_torn_key_ref = br_checksum ex_key_ref + 1"
    by (simp_all add: ex_key_ref_def ex_torn_key_ref_def OcbBodyRefV2_new_def)
  from read show "read_object_bytes_inner_with_limits example_host c 4971 ex_torn_key_ref BodyKind_KeyTuple
      (max_encoded_object_bytes policy_a) (of_nat usize_max) = Inl (ocb_corrupt_file ''OCB body reference checksum mismatch'')"
    unfolding read_object_bytes_inner_with_limits_def same ex_keys
    by (auto simp: Let_def usize_try_from_def split: if_splits elim!: sbind_InrE sbind_pairE)
qed

lemma ex_key_cache:
  assumes "rc_source c = ex_source"
  defines "tuples \<equiv> \<lambda>r. abind (preflight_with example_host 4971 (visit_optional_key_tuple ex_key_ref @ visit_optional_key_tuple r)) (\<lambda>_.
     abind (validate_key_tuple example_host c 4971 ex_key_ref) (\<lambda>_.
     abind (validate_key_tuple example_host c 4971 r) (\<lambda>_. aret ([(0, 0)], ex_budget))))"
  shows "tuples ex_torn_key_ref (OcbOpenAuxiliaryObjectCache_new policy_a) =
       (Inl (ocb_corrupt_file ''OCB body reference checksum mismatch''), ex_left_cache)"
    and "\<exists>a. tuples ex_key_ref (OcbOpenAuxiliaryObjectCache_new policy_a) = (Inr ([(0, 0)], ex_budget), a)"
    and "tuples ex_key_ref ex_left_cache = (Inr ([(0, 0)], ex_budget), ex_left_cache)"
proof -
  have [simp]: "OcbAuxiliaryBodyRefKey_from ex_key_ref \<noteq> OcbAuxiliaryBodyRefKey_from ex_torn_key_ref"
      "OcbAuxiliaryBodyRefKey_from ex_torn_key_ref \<noteq> OcbAuxiliaryBodyRefKey_from ex_key_ref"
    using ex_keys(3) OcbAuxiliaryBodyRefKey_from_inject by metis+
  have lim: "max_owned_selected_compressed_bytes policy_a = 8589934592"
    by (simp add: policy_a_def OCB_POLICY_A_MAX_OWNED_SELECTED_COMPRESSED_BYTES_def)
  note run = preflight_with_def visit_optional_key_tuple_def ex_keys(1,2,4-) ex_key_read [OF assms(1)] charge_unique_def
    validate_key_tuple_def Let_def hash_contains_def hash_get_def hash_insert_def ex_graph_reserve checked_add_def lim
    abind_def aret_def atry_def OcbOpenAuxiliaryObjectCache_new_def ex_left_cache_def
  show "tuples ex_torn_key_ref (OcbOpenAuxiliaryObjectCache_new policy_a) =
       (Inl (ocb_corrupt_file ''OCB body reference checksum mismatch''), ex_left_cache)"
    by (simp add: tuples_def run)
  show "\<exists>a. tuples ex_key_ref (OcbOpenAuxiliaryObjectCache_new policy_a) = (Inr ([(0, 0)], ex_budget), a)"
    by (simp add: tuples_def run)
  show "tuples ex_key_ref ex_left_cache = (Inr ([(0, 0)], ex_budget), ex_left_cache)"
    by (simp add: tuples_def run)
qed

lemma ex_keyed_validates:
  assumes "rc_source c = ex_source"
  shows "validate_v2_root_referenced_objects_with_scope example_host ex_zstd c 4971
      (cand_root (ex_keyed_candidate 2 ex_torn_key_ref)) MetadataGraph policy_a (OcbOpenAuxiliaryObjectCache_new policy_a) =
      (Inl (ocb_corrupt_file ''OCB body reference checksum mismatch''), ex_left_cache)"
    and "a \<in> {OcbOpenAuxiliaryObjectCache_new policy_a, ex_left_cache} \<Longrightarrow>
      is_ok (fst (validate_v2_root_referenced_objects_with_scope example_host ex_zstd c 4971
        (cand_root (ex_keyed_candidate 1 ex_key_ref)) MetadataGraph policy_a a))"
proof -
  have rest: "validate_optional_object example_host c 4971 (root2_debug_json_ref (ex_keyed_root g r)) BodyKind_DebugJsonMetadata policy_a = Inr ()"
    "validate_commit_diagnostics example_host c 4971 (ex_keyed_root g r) policy_a = Inr ()" for g r
    by (simp_all add: validate_optional_object_def validate_commit_diagnostics_def ex_keyed_root_def Let_def ex_root_def example_root_def)
      (simp_all add: OcbBodyRefV2_NULL_def)
  note graph = ex_keyed_graph [OF assms] and cache = ex_key_cache [OF assms]
  have torn: "validate_v2_metadata_graph example_host ex_zstd c (ex_keyed_metadata 2 ex_torn_key_ref) (ex_keyed_root 2 ex_torn_key_ref)
      MetadataGraph policy_a ex_budget (OcbOpenAuxiliaryObjectCache_new policy_a) =
      (Inl (ocb_corrupt_file ''OCB body reference checksum mismatch''), ex_left_cache)"
    unfolding graph by (rule cache(1))
  have good: "\<exists>a'. validate_v2_metadata_graph example_host ex_zstd c (ex_keyed_metadata 1 ex_key_ref) (ex_keyed_root 1 ex_key_ref)
      MetadataGraph policy_a ex_budget a = (Inr ([(0, 0)], ex_budget), a')"
    if "a \<in> {OcbOpenAuxiliaryObjectCache_new policy_a, ex_left_cache}" for a
    unfolding graph using that cache(2,3) by blast
  show "validate_v2_root_referenced_objects_with_scope example_host ex_zstd c 4971
      (cand_root (ex_keyed_candidate 2 ex_torn_key_ref)) MetadataGraph policy_a (OcbOpenAuxiliaryObjectCache_new policy_a) =
      (Inl (ocb_corrupt_file ''OCB body reference checksum mismatch''), ex_left_cache)"
    using torn ex_keyed_objects_read [OF assms]
    by (simp add: validate_v2_root_referenced_objects_with_scope_def ex_keyed_candidate_def abind_def atry_def Let_def)
  show "is_ok (fst (validate_v2_root_referenced_objects_with_scope example_host ex_zstd c 4971
        (cand_root (ex_keyed_candidate 1 ex_key_ref)) MetadataGraph policy_a a))"
    if "a \<in> {OcbOpenAuxiliaryObjectCache_new policy_a, ex_left_cache}"
    using good [OF that] ex_keyed_objects_read [OF assms] rest
    by (auto simp: validate_v2_root_referenced_objects_with_scope_def ex_keyed_candidate_def abind_def atry_def Let_def)
qed

abbreviation ex_keyed_candidates :: "OcbRootCandidateV2 list" where
  "ex_keyed_candidates \<equiv> [ex_keyed_candidate 2 ex_torn_key_ref, ex_keyed_candidate 1 ex_key_ref]"

text \<open>Generation 2 starts from the empty cache; generation 1 from it or from what generation 2 leaves.\<close>

inductive_cases cache_atE: "cache_at v cs a0 g a"

lemma ex_caches:
  fixes a :: OcbOpenAuxiliaryObjectCache
  assumes "rc_source c = ex_source"
  defines "caches \<equiv> v2_cache_at example_host ex_zstd c 4971 ex_keyed_candidates MetadataGraph policy_a"
  shows "caches 2 a \<Longrightarrow> a = OcbOpenAuxiliaryObjectCache_new policy_a"
    and "caches 1 a \<Longrightarrow> a \<in> {OcbOpenAuxiliaryObjectCache_new policy_a, ex_left_cache}"
proof -
  have gen: "cand_generation (ex_keyed_candidate g r) = g" for g r by (simp add: ex_keyed_candidate_def)
  show two: "a = OcbOpenAuxiliaryObjectCache_new policy_a" if "caches 2 a" for a
    using that unfolding caches_def by (rule cache_atE) (auto simp: gen)
  show "a \<in> {OcbOpenAuxiliaryObjectCache_new policy_a, ex_left_cache}" if "caches 1 a"
    using that unfolding caches_def
  proof (rule cache_atE)
    fix d b err
    assume "v2_cache_at example_host ex_zstd c 4971 ex_keyed_candidates MetadataGraph policy_a (cand_generation d) b"
      and "d \<in> set ex_keyed_candidates" "1 < cand_generation d"
      and run: "validate_v2_root_referenced_objects_with_scope example_host ex_zstd c 4971 (cand_root d) MetadataGraph policy_a b = (Inl err, a)"
    then have "d = ex_keyed_candidate 2 ex_torn_key_ref" "b = OcbOpenAuxiliaryObjectCache_new policy_a"
      using two [of b] by (auto simp: gen caches_def)
    with run ex_keyed_validates(1) [OF assms(1)] show ?thesis by simp
  qed simp
qed

theorem choose_v2_metadata_live_witness:
  "is_ok (choose_v2_metadata example_host ex_zstd (OcbReadSource_cursor ex_source) 4971 ex_keyed_candidates MetadataGraph policy_a) \<and>
   \<not> is_ok (fst (validate_v2_root_referenced_objects_with_scope example_host ex_zstd (OcbReadSource_cursor ex_source) 4971
      (cand_root (hd ex_keyed_candidates)) MetadataGraph policy_a (OcbOpenAuxiliaryObjectCache_new policy_a)))"
proof -
  let ?c = "OcbReadSource_cursor ex_source"
  have src: "rc_source ?c = ex_source" by (simp add: OcbReadSource_cursor_def)
  have gen: "cand_generation (ex_keyed_candidate g r) = g" for g r by (simp add: ex_keyed_candidate_def)
  note caches = ex_caches [OF src] and runs = ex_keyed_validates [OF src]
  have "\<exists>m d a a'. choose_v2_metadata example_host ex_zstd ?c 4971 ex_keyed_candidates MetadataGraph policy_a = Inr m \<and>
     d \<in> set ex_keyed_candidates \<and> cand_generation (ex_keyed_candidate 1 ex_key_ref) \<le> cand_generation d \<and>
     \<not> conflicting_same_generation ex_keyed_candidates (cand_generation d) \<and>
     v2_cache_at example_host ex_zstd ?c 4971 ex_keyed_candidates MetadataGraph policy_a (cand_generation d) a \<and>
     validate_v2_root_referenced_objects_with_scope example_host ex_zstd ?c 4971 (cand_root d) MetadataGraph policy_a a = (Inr m, a')"
  proof (rule choose_v2_metadata_live)
    show "\<not> conflicting_same_generation ex_keyed_candidates (cand_generation (ex_keyed_candidate 1 ex_key_ref))"
      by (simp add: conflicting_same_generation_def gen)
    show "is_ok (fst (validate_v2_root_referenced_objects_with_scope example_host ex_zstd ?c 4971 (cand_root d) MetadataGraph policy_a a))"
      if "d \<in> set ex_keyed_candidates" "cand_generation d = cand_generation (ex_keyed_candidate 1 ex_key_ref)"
        "v2_cache_at example_host ex_zstd ?c 4971 ex_keyed_candidates MetadataGraph policy_a (cand_generation d) a" for d a
      using that caches(2) [of a] runs(2) [of a] by (auto simp: gen)
    show "is_discardable_candidate_error err"
      if "d \<in> set ex_keyed_candidates" "cand_generation (ex_keyed_candidate 1 ex_key_ref) < cand_generation d"
        "v2_cache_at example_host ex_zstd ?c 4971 ex_keyed_candidates MetadataGraph policy_a (cand_generation d) a"
        "fst (validate_v2_root_referenced_objects_with_scope example_host ex_zstd ?c 4971 (cand_root d) MetadataGraph policy_a a) = Inl err"
      for d a err
      using that caches(1) [of a] runs(1) by (auto simp: gen is_discardable_candidate_error_def)
  qed simp
  then show ?thesis using runs(1) by auto
qed

text \<open>C25. The candidates a file admits are the roots named by its slots that are not empty, sit at
  their own position, name a readable root object inside the file, and agree with that root,
  whose references lie inside the file.\<close>

theorem admitted_candidates_exact:
  assumes "admit_candidates h c file_len limits page = Inr cs"
  shows "cand \<in> set cs \<longleftrightarrow>
     (\<exists>i < length (decoded_root_slots page). decoded_root_slots page ! i = Inr (cand_slot cand) \<and>
        \<not> OcbRootSlotV2_is_empty (cand_slot cand) \<and>
        is_ok (OcbRootSlotV2_validate_candidate (cand_slot cand) (of_nat i) file_len) \<and>
        (\<exists>bs. read_object_bytes_with_resource_limits h c file_len (slot_root_ref (cand_slot cand)) BodyKind_Root limits = Inr bs \<and>
           run_reader OcbRootV2_read_from bs = Inr (cand_root cand)) \<and>
        is_ok (OcbRootV2_validate_references (cand_root cand) file_len) \<and>
        is_ok (OcbRootSlotV2_validate_root (cand_slot cand) (cand_root cand)))"
  unfolding admit_candidates_set [OF assms] admit_candidate_Some by blast

theorem admitted_candidates_exact_witness:
  "\<exists>i < length (decoded_root_slots ex_page). decoded_root_slots ex_page ! i = Inr (cand_slot ex_candidate)"
proof -
  have "ex_page\<lparr>bp2_crc32c := bp2_crc32c ex_page\<rparr> = ex_page" by simp
  then have "admit_candidates example_host (OcbReadSource_cursor ex_source) 4971 policy_a ex_page = Inr [ex_candidate]"
    using ex_admitted [of "OcbReadSource_cursor ex_source" "bp2_crc32c ex_page"] by (simp add: OcbReadSource_cursor_def)
  from admitted_candidates_exact [OF this, of ex_candidate] show ?thesis by auto
qed

text \<open>
  The selection ends with the error of the first slot that fails for another reason than
  corruption, whatever the other slots hold.
\<close>

lemma for_each_first_error:
  assumes "i < length xs" and "\<And>j s. j < i \<Longrightarrow> is_ok (f (xs ! j) s)" and "\<And>s. f (xs ! i) s = Inl err"
  shows "for_each f xs s = Inl err"
  using assms
proof (induction xs arbitrary: i s)
  case (Cons x xs)
  show ?case
  proof (cases i)
    case 0
    with Cons.prems(3) show ?thesis by simp
  next
    case (Suc k)
    then have "is_ok (f x s)" using Cons.prems(2) [of 0 s] by simp
    then obtain t where "f x s = Inr t" by (cases "f x s") (simp_all add: is_ok_def)
    moreover have "for_each f xs t = Inl err"
    proof (rule Cons.IH)
      show "is_ok (f (xs ! j) u)" if "j < k" for j u
        using Cons.prems(2) [of "Suc j" u] that Suc by simp
    qed (use Cons.prems Suc in simp_all)
    ultimately show ?thesis by simp
  qed
qed simp

lemma select_v2_metadata_slot_error:
  assumes "i < length (decoded_root_slots page)"
    and "\<And>j. j < i \<Longrightarrow> is_ok (admit_candidate h c file_len limits j (decoded_root_slots page ! j))"
    and "admit_candidate h c file_len limits i (decoded_root_slots page ! i) = Inl err"
  shows "select_v2_metadata h zstd c file_len page mode limits = Inl err"
proof -
  have "admit_candidates h c file_len limits page = Inl err"
    unfolding admit_candidates_def
  proof (rule for_each_first_error [where i = i])
    show "is_ok ((\<lambda>(idx, slot_result) candidates. sbind (admit_candidate h c file_len limits idx slot_result)
        (\<lambda>admitted. case admitted of None \<Rightarrow> Inr candidates | Some candidate \<Rightarrow> Inr (candidates @ [candidate])))
        (List.enumerate 0 (decoded_root_slots page) ! j) s)" if "j < i" for j s
      using assms(1) assms(2) [OF that] that
      by (auto simp: nth_enumerate_eq is_ok_def split: sum.splits option.splits)
  qed (use assms in \<open>simp_all add: nth_enumerate_eq\<close>)
  then show ?thesis by (simp add: select_v2_metadata_def)
qed

text \<open>
  A stored root whose schema reference has the wrong kind is such a failure: it is reported as
  invalid input instead of a corrupt file, so the selection does not fall back to the other slot.
\<close>

theorem wrong_kind_root_ends_open:
  assumes "i < length (decoded_root_slots page)" and "decoded_root_slots page ! i = Inr slot"
    and "\<And>j. j < i \<Longrightarrow> is_ok (admit_candidate h c file_len limits j (decoded_root_slots page ! j))"
    and "\<not> OcbRootSlotV2_is_empty slot" and "OcbRootSlotV2_validate_candidate slot (of_nat i) file_len = Inr ()"
    and "read_object_bytes_with_resource_limits h c file_len (slot_root_ref slot) BodyKind_Root limits = Inr bs"
    and "run_reader OcbRootV2_read_from bs = Inr root" and "br_kind (root2_schema_ref root) \<noteq> BodyKind_Schema"
  shows "select_v2_metadata h zstd c file_len page mode limits =
     Inl (ocb_invalid_input ''OCB root schema_ref must reference schema'')"
proof (rule select_v2_metadata_slot_error [OF assms(1) assms(3)])
  have "OcbRootV2_validate_references root file_len = Inl (ocb_invalid_input ''OCB root schema_ref must reference schema'')"
    using assms(8) by (simp add: OcbRootV2_validate_references_def OcbRootV2_validate_ref_kinds_def)
  with assms(2,4-7) show "admit_candidate h c file_len limits i (decoded_root_slots page ! i) =
      Inl (ocb_invalid_input ''OCB root schema_ref must reference schema'')"
    by (simp add: admit_candidate_def or_continue_def is_discardable_candidate_error_def)
qed

definition ex_bad_root :: OcbRootV2 where
  "ex_bad_root = example_root\<lparr>root2_schema_ref := OcbBodyRefV2_new 4096 88 BodyKind_KeyTuple 0\<rparr>"

definition ex_bad_file :: bytes where
  "ex_bad_file = replicate 4096 0 @ seal_object (OcbRootV2_layout ex_bad_root)"

definition ex_bad_slot :: OcbRootSlotV2 where
  "ex_bad_slot = (OcbRootSlotV2_empty 0)\<lparr>slot_generation := 1,
     slot_root_ref := OcbBodyRefV2_new 4096 456 BodyKind_Root (crc32c (seal_object (OcbRootV2_layout ex_bad_root)))\<rparr>"

lemma ex_bad_page:
  obtains page where "OcbBootstrapPageV2_new (replicate 16 0) [ex_bad_slot, OcbRootSlotV2_empty 1] = Inr page"
    and "decoded_root_slots page = [Inr (slot_stored ex_bad_slot), Inr (slot_stored (OcbRootSlotV2_empty 1))]"
proof -
  have "is_ok (OcbRootSlotV2_to_bytes ex_bad_slot)" "is_ok (OcbRootSlotV2_to_bytes (OcbRootSlotV2_empty 1))"
    by (simp_all add: OcbRootSlotV2_to_bytes_def OcbRootSlotV2_write_to_def OcbRootSlotV2_encode_without_checksum_def
        ex_bad_slot_def OcbRootSlotV2_empty_def OCB_FORMAT_MAJOR_V2_def OCB_ROOT_SLOT_V2_COUNT_def OcbBodyRefV2_new_def
        validate_optional_ref_kind_def validate_optional_ref_kinds_def OcbRootSlotV2_is_empty_def is_null_def OcbBodyRefV2_NULL_def OCB_ROOT_V2_LEN_def)
  then obtain page where page: "OcbBootstrapPageV2_new (replicate 16 0) [ex_bad_slot, OcbRootSlotV2_empty 1] = Inr page"
    by (auto simp: OcbBootstrapPageV2_new_def is_ok_def split: sum.splits)
  have "slot_ok ex_bad_slot" "slot_ok (OcbRootSlotV2_empty 1)"
    by (simp_all add: ex_bad_slot_def slot_ok_def OcbRootSlotV2_empty_def)
  with OcbBootstrapPageV2_new_slots(2) [OF page] page show ?thesis by (intro that [of page]) simp_all
qed

theorem wrong_kind_root_ends_open_witness:
  "\<exists>page. OcbBootstrapPageV2_new (replicate 16 0) [ex_bad_slot, OcbRootSlotV2_empty 1] = Inr page \<and>
     select_v2_metadata example_host ex_zstd (OcbReadSource_cursor (memory_source 9 ex_bad_file)) 4552 page MetadataGraph policy_a =
       Inl (ocb_invalid_input ''OCB root schema_ref must reference schema'')"
proof -
  obtain page where page: "OcbBootstrapPageV2_new (replicate 16 0) [ex_bad_slot, OcbRootSlotV2_empty 1] = Inr page"
    and slots: "decoded_root_slots page = [Inr (slot_stored ex_bad_slot), Inr (slot_stored (OcbRootSlotV2_empty 1))]"
    by (rule ex_bad_page)
  let ?bs = "seal_object (OcbRootV2_layout ex_bad_root)" and ?src = "memory_source 9 ex_bad_file"
  have lay: "length (OcbRootV2_layout ex_bad_root) = 456" and len: "length ?bs = 456"
    using OcbRootV2_layout_facts [of ex_bad_root] by simp_all
  have src: "source_serves ?src ex_bad_file" "source_reliable ?src" "rs_file_len ?src = 4552"
    using memory_source_serves [of ex_bad_file 9] len
    by (simp_all add: memory_source_reliable ex_bad_file_def) (simp add: memory_source_def)
  have slot: "\<not> OcbRootSlotV2_is_empty (slot_stored ex_bad_slot)"
    by (simp add: OcbRootSlotV2_is_empty_def slot_stored_def ex_bad_slot_def OcbBodyRefV2_new_def is_null_def)
  have candidate: "OcbRootSlotV2_validate_candidate (slot_stored ex_bad_slot) (of_nat 0) 4552 = Inr ()"
    by (simp add: OcbRootSlotV2_validate_candidate_Inr slot_stored_def ex_bad_slot_def OcbRootSlotV2_empty_def
        ref_in_file_def optional_ref_in_file_def OcbBodyRefV2_new_def is_null_def)
      (simp add: OcbBodyRefV2_NULL_def)
  have read: "read_object_bytes_with_resource_limits example_host (OcbReadSource_cursor ?src) 4552 (slot_root_ref (slot_stored ex_bad_slot))
      BodyKind_Root policy_a = Inr ?bs"
    using read_object_bytes_with_resource_limits_iff [of "OcbReadSource_cursor ?src" ex_bad_file example_host policy_a
        "slot_root_ref (slot_stored ex_bad_slot)" BodyKind_Root ?bs] src example_host_ready limits_ok_policy_a len
    by (simp add: OcbReadSource_cursor_def slot_stored_def ex_bad_slot_def OcbBodyRefV2_new_def ref_in_file_def is_null_def referenced_def
        checksum_matches_def policy_a_def OCB_POLICY_A_MAX_ENCODED_OBJECT_BYTES_def)
      (simp add: ex_bad_file_def)
  have "OcbRootV2_decode ?bs = Inr (ex_bad_root\<lparr>root2_crc32c := crc32c (OcbRootV2_layout ex_bad_root)\<rparr>)"
    using oreads_run [OF OcbRootV2_fields_layout [of ex_bad_root]]
    by (simp add: OcbRootV2_decode_def open_object_seal OcbRootV2_layout_facts ex_bad_root_def example_root_def)
  from reads_run [OF rbind_exact_decode [where decode = OcbRootV2_decode, OF this len]]
  have root: "run_reader OcbRootV2_read_from ?bs = Inr (ex_bad_root\<lparr>root2_crc32c := crc32c (OcbRootV2_layout ex_bad_root)\<rparr>)"
    by (simp add: OcbRootV2_read_from_def OCB_ROOT_V2_LEN_def)
  have kind: "br_kind (root2_schema_ref (ex_bad_root\<lparr>root2_crc32c := crc32c (OcbRootV2_layout ex_bad_root)\<rparr>)) \<noteq> BodyKind_Schema"
    by (simp add: ex_bad_root_def OcbBodyRefV2_new_def)
  from wrong_kind_root_ends_open [OF _ _ _ slot candidate read root kind, of page] page slots show ?thesis by auto
qed

section \<open>Opening a file\<close>

text \<open>C1. The metadata of every file that opens, of either version and in either validation mode, is
  well formed; its vectors take no more bytes than the metadata budget; every object it refers
  to lies inside the file; and its auxiliary objects fit the selected-bytes limit.\<close>

theorem opened_metadata_ok:
  assumes "read_metadata_from_source_with_validation_and_resource_limits h zstd src mode limits = Inr m" and "host_sized h"
  shows "metadata_wf m \<and> metadata_retained h m \<le> unat (max_owned_decoded_materialized_bytes limits) \<and>
     (\<forall>r \<in> set (metadata_references m). is_null r \<or> ref_stop r \<le> unat (rs_file_len src)) \<and>
     md_open_auxiliary_encoded_bytes m \<le> max_owned_selected_compressed_bytes limits"
  using read_metadata_opened [OF assms] by (simp add: opened_ok_def stays_in_file_def)

theorem opened_metadata_ok_witness:
  "read_metadata_from_source_with_validation_and_resource_limits example_host ex_zstd ex_source MetadataGraph policy_a = Inr ex_opened \<and>
   metadata_wf ex_opened"
  using opened_metadata_ok [OF ex_file_opens host_ready_sized [OF example_host_ready]] ex_file_opens by blast

text \<open>C22. In an opened file, looking up a row group by its identifier finds exactly the row group
  that has it.\<close>

theorem opened_row_group_by_id:
  assumes "read_metadata_from_source_with_validation_and_resource_limits h zstd src mode limits = Inr m" and "host_sized h"
  shows "row_group_by_id m k = Some g \<longleftrightarrow> g \<in> set (rgi_row_groups (md_row_group_index m)) \<and> rg_row_group_id g = k"
proof -
  note ok = read_metadata_opened [OF assms, unfolded opened_ok_def]
  then have "distinct (map rg_row_group_id (rgi_row_groups (md_row_group_index m)))"
    by (simp add: metadata_wf_def row_groups_tile_def Let_def)
  with ok show ?thesis by (intro row_group_by_id_positions) simp_all
qed

theorem opened_row_group_by_id_witness:
  "row_group_by_id ex_opened 0 = Some ex_group"
  using opened_row_group_by_id [OF ex_file_opens host_ready_sized [OF example_host_ready], of 0 ex_group]
  by (simp add: ex_opened_def ex_fields)

text \<open>On a file that can be read, opening refuses what is too short to hold a bootstrap page as
  corrupt, and what starts with no known magic number as an unsupported format.\<close>

theorem open_rejects_foreign_files:
  assumes "source_serves src content" and "source_reliable src"
    and "length content < 4096 \<or> take 8 content \<notin> {OCB_BOOTSTRAP_MAGIC_V1, OCB_BOOTSTRAP_MAGIC_V2}"
  shows "read_metadata_from_source_with_validation_and_resource_limits h zstd src mode limits =
     Inl (if length content < 4096 then ocb_corrupt_file ''OCB file is shorter than bootstrap page''
          else ocb_unsupported_format ''invalid OCB bootstrap magic'')"
proof -
  have len: "unat (rs_file_len src) = length content" using assms(1) by (simp add: source_serves_def)
  have short: "rs_file_len src < of_nat OCB_BOOTSTRAP_PAGE_V1_LEN \<longleftrightarrow> length content < 4096"
    by (simp add: word_less_nat_alt OCB_BOOTSTRAP_PAGE_V1_LEN_def len)
  have cur: "(OcbReadSource_cursor src)\<lparr>rc_position := 0\<rparr> = OcbReadSource_cursor src" by (simp add: OcbReadSource_cursor_def)
  show ?thesis
  proof (cases "length content < 4096")
    case False
    then have "file_read_exact_ocb (OcbReadSource_cursor src) 8 = Inr (take 8 content, advanced (OcbReadSource_cursor src) 8)"
      using file_read_exact_ocb_reliable [of "OcbReadSource_cursor src" content 8] assms(1,2)
      by (simp add: OcbReadSource_cursor_def)
    with False assms(3) show ?thesis
      by (simp add: read_metadata_from_source_with_validation_and_resource_limits_def short cur)
  qed (simp add: read_metadata_from_source_with_validation_and_resource_limits_def short)
qed

theorem open_rejects_foreign_files_witness:
  "read_metadata_from_source_with_validation_and_resource_limits example_host ex_zstd (memory_source 9 (replicate 5000 0)) MetadataGraph
     policy_a = Inl (ocb_unsupported_format ''invalid OCB bootstrap magic'')"
proof -
  have "hd (take 8 (replicate 5000 (0::u8))) = 0" by simp
  moreover have "hd OCB_BOOTSTRAP_MAGIC_V1 \<noteq> 0" "hd OCB_BOOTSTRAP_MAGIC_V2 \<noteq> 0"
    by (simp_all add: OCB_BOOTSTRAP_MAGIC_V1_def OCB_BOOTSTRAP_MAGIC_V2_def)
  ultimately have "take 8 (replicate 5000 (0::u8)) \<notin> {OCB_BOOTSTRAP_MAGIC_V1, OCB_BOOTSTRAP_MAGIC_V2}"
    by (metis insertE singletonD)
  with open_rejects_foreign_files [OF memory_source_serves memory_source_reliable, of "replicate 5000 0"] show ?thesis by simp
qed

section \<open>Maintenance analysis\<close>

text \<open>C17. The maintenance analysis of a version-2 file agrees with opening it: it fails with the same
  error, or it selects the same snapshot, and then the extent it reports covers the root and
  ends inside the file.\<close>

theorem analysis_agrees_with_open:
  assumes "host_sized h" and "of_nat OCB_BOOTSTRAP_PAGE_V2_LEN \<le> file_len"
  shows "case select_v2_metadata h zstd c file_len page mode limits of
      Inl e \<Rightarrow> analyze_v2_maintenance_from_bootstrap h zstd c file_len page mode limits = Inl e
    | Inr m \<Rightarrow> \<exists>an. analyze_v2_maintenance_from_bootstrap h zstd c file_len page mode limits = Inr an \<and>
        ana_metadata an = m \<and> ana_selected_root_end_offset an \<le> ana_selected_snapshot_end_offset an \<and>
        ana_selected_snapshot_end_offset an \<le> file_len"
  using assms by (rule analyze_select)

theorem analysis_agrees_with_open_witness:
  "\<exists>an. analyze_v2_maintenance_from_bootstrap example_host ex_zstd (OcbReadSource_cursor ex_source) 4971 ex_page MetadataGraph policy_a = Inr an \<and>
     ana_metadata an = ex_opened \<and> ana_selected_snapshot_end_offset an \<le> 4971"
proof -
  have "ex_page\<lparr>bp2_crc32c := bp2_crc32c ex_page\<rparr> = ex_page" by simp
  then have "select_v2_metadata example_host ex_zstd (OcbReadSource_cursor ex_source) 4971 ex_page MetadataGraph policy_a = Inr ex_opened"
    using ex_selected [of "OcbReadSource_cursor ex_source" "bp2_crc32c ex_page"] by (simp add: OcbReadSource_cursor_def)
  with analysis_agrees_with_open [OF host_ready_sized [OF example_host_ready], of 4971 ex_zstd "OcbReadSource_cursor ex_source"
      ex_page MetadataGraph policy_a]
  show ?thesis by (auto simp: bootstrap_sizes)
qed

end
