(* ===== verification/Bundle_Types.thy ===== *)
theory Bundle_Types
  imports Metadata_Graph
begin

text \<open>
  The public vocabulary of the column bundle reader (\<open>column_bundle.rs\<close>): column types, schema columns,
  dictionary and ordering descriptors, the summaries of references, chunks, statistics and row
  groups, predicate values with their comparison, and the read requests, plans and reports.  The
  fallible allocation helpers of \<open>column_bundle/execution.rs\<close> come first.

  A Rust \<open>String\<close> is the list of its bytes, as in the string table.  A floating-point value is its bit
  pattern; comparison reads it as IEEE 754 does.
\<close>

section \<open>Fallible allocation\<close>

definition resource_accounting_allocation_error :: ArcadiaTioError where
  "resource_accounting_allocation_error =
     Io (IoError IoKind_OutOfMemory ''OCB resource accounting allocation failed within resource limit'')"

definition column_bundle_allocation_error :: ArcadiaTioError where
  "column_bundle_allocation_error =
     Io (IoError IoKind_OutOfMemory ''OCB column-bundle allocation failed within resource limit'')"

definition try_column_bundle_vec_with_capacity :: "host \<Rightarrow> rust_type \<Rightarrow> usize \<Rightarrow> 'a list result" where
  "try_column_bundle_vec_with_capacity h ty capacity =
     (if try_reserve_exact h ty capacity ''OCB column-bundle allocation failed within resource limit''
      then Inr [] else Inl column_bundle_allocation_error)"

definition try_column_bundle_hash_map_with_capacity :: "host \<Rightarrow> usize \<Rightarrow> ('k, 'v) hash_map result" where
  "try_column_bundle_hash_map_with_capacity h capacity =
     (if hash_try_reserve h 0 capacity ''OCB column-bundle allocation failed within resource limit''
      then Inr [] else Inl column_bundle_allocation_error)"

definition try_column_bundle_hash_set_with_capacity :: "host \<Rightarrow> usize \<Rightarrow> 'a set result" where
  "try_column_bundle_hash_set_with_capacity h capacity =
     (if hash_try_reserve h 0 capacity ''OCB column-bundle allocation failed within resource limit''
      then Inr {} else Inl column_bundle_allocation_error)"

definition zeroed_vec_fallibly :: "host \<Rightarrow> rust_type \<Rightarrow> usize \<Rightarrow> 'a::zero list result" where
  "zeroed_vec_fallibly h ty len =
     sbind (try_column_bundle_vec_with_capacity h ty len) (\<lambda>vec. Inr (vec_resize len 0 vec))"

text \<open>
  Resizing a vector in place.  The spare capacity of a vector is not modelled: growing asks the
  host for the whole new length, so the model may report a failed allocation where a vector with
  spare capacity would not allocate.
\<close>

definition resize_vec_fallibly :: "host \<Rightarrow> rust_type \<Rightarrow> 'a list \<Rightarrow> usize \<Rightarrow> 'a \<Rightarrow> 'a list result" where
  "resize_vec_fallibly h ty vec len v =
     (if len > length vec \<and>
         \<not> try_reserve_exact h ty len ''OCB column-bundle allocation failed within resource limit''
      then Inl column_bundle_allocation_error else Inr (vec_resize len v vec))"

definition clone_column_bundle_string_fallibly :: "host \<Rightarrow> bytes \<Rightarrow> bytes result" where
  "clone_column_bundle_string_fallibly h s =
     (if try_reserve_exact h TyU8 (length s) ''OCB column-bundle allocation failed within resource limit''
      then Inr s else Inl column_bundle_allocation_error)"

definition clone_column_bundle_u32s_fallibly :: "host \<Rightarrow> u32 list \<Rightarrow> u32 list result" where
  "clone_column_bundle_u32s_fallibly h vs =
     sbind (try_column_bundle_vec_with_capacity h TyU32 (length vs)) (\<lambda>copy. Inr (copy @ vs))"

section \<open>Column types\<close>

datatype ColumnPhysicalType =
    Column_I32
  | Column_I64
  | Column_F32
  | Column_F64
  | Column_FixedBinary u32

fun ocb_physical_type :: "ColumnPhysicalType \<Rightarrow> OcbPhysicalTypeV1" where
  "ocb_physical_type Column_I32 = Phys_I32"
| "ocb_physical_type Column_I64 = Phys_I64"
| "ocb_physical_type Column_F32 = Phys_F32"
| "ocb_physical_type Column_F64 = Phys_F64"
| "ocb_physical_type (Column_FixedBinary _) = Phys_FixedBinary"

fun fixed_binary_width :: "ColumnPhysicalType \<Rightarrow> u32" where
  "fixed_binary_width (Column_FixedBinary w) = w"
| "fixed_binary_width _ = 0"

definition column_physical_type_from_desc :: "OcbColumnDescV1 \<Rightarrow> ColumnPhysicalType result" where
  "column_physical_type_from_desc column =
     (case col_physical_type column of
        Phys_I32 \<Rightarrow>
          if col_fixed_binary_width column \<noteq> 0
          then Inl (ocb_corrupt_file ''OCB primitive column has unexpected fixed-binary width'') else Inr Column_I32
      | Phys_I64 \<Rightarrow>
          if col_fixed_binary_width column \<noteq> 0
          then Inl (ocb_corrupt_file ''OCB primitive column has unexpected fixed-binary width'') else Inr Column_I64
      | Phys_F32 \<Rightarrow>
          if col_fixed_binary_width column \<noteq> 0
          then Inl (ocb_corrupt_file ''OCB primitive column has unexpected fixed-binary width'') else Inr Column_F32
      | Phys_F64 \<Rightarrow>
          if col_fixed_binary_width column \<noteq> 0
          then Inl (ocb_corrupt_file ''OCB primitive column has unexpected fixed-binary width'') else Inr Column_F64
      | Phys_FixedBinary \<Rightarrow>
          if col_fixed_binary_width column = 0
          then Inl (ocb_corrupt_file ''OCB fixed-binary column requires fixed width'')
          else Inr (Column_FixedBinary (col_fixed_binary_width column)))"

fun scalar_column_physical_type :: "OcbPhysicalTypeV1 \<Rightarrow> ColumnPhysicalType result" where
  "scalar_column_physical_type Phys_I32 = Inr Column_I32"
| "scalar_column_physical_type Phys_I64 = Inr Column_I64"
| "scalar_column_physical_type Phys_F32 = Inr Column_F32"
| "scalar_column_physical_type Phys_F64 = Inr Column_F64"
| "scalar_column_physical_type Phys_FixedBinary =
     Inl (ocb_corrupt_file ''OCB fixed-binary physical type requires schema width'')"

datatype ColumnLogicalKind =
    Column_Plain
  | Column_TimestampNanosLike
  | Column_ScaledInteger
  | Column_DictionaryCode
  | Column_EnumCode
  | Column_OpaqueKey

fun ColumnLogicalKind_from :: "OcbLogicalKindV1 \<Rightarrow> ColumnLogicalKind" where
  "ColumnLogicalKind_from Logical_Plain = Column_Plain"
| "ColumnLogicalKind_from Logical_TimestampNanosLike = Column_TimestampNanosLike"
| "ColumnLogicalKind_from Logical_ScaledInteger = Column_ScaledInteger"
| "ColumnLogicalKind_from Logical_DictionaryCode = Column_DictionaryCode"
| "ColumnLogicalKind_from Logical_EnumCode = Column_EnumCode"
| "ColumnLogicalKind_from Logical_OpaqueKey = Column_OpaqueKey"

record BundleColumn =
  bc_id :: u32
  bc_name :: bytes
  bc_physical_type :: ColumnPhysicalType
  bc_logical_kind :: ColumnLogicalKind
  bc_dictionary_id :: "u32 option"
  bc_scale :: i32
  bc_nullable :: bool

section \<open>Dictionaries and ordering\<close>

datatype DictionaryValueKind =
    DictionaryKind_Utf8
  | DictionaryKind_Bytes
  | DictionaryKind_FixedBytes
  | DictionaryKind_EnumLabels

fun DictionaryValueKind_from :: "OcbDictionaryValueKindV1 \<Rightarrow> DictionaryValueKind" where
  "DictionaryValueKind_from DictValue_Utf8 = DictionaryKind_Utf8"
| "DictionaryValueKind_from DictValue_Bytes = DictionaryKind_Bytes"
| "DictionaryValueKind_from DictValue_FixedBytes = DictionaryKind_FixedBytes"
| "DictionaryValueKind_from DictValue_EnumLabels = DictionaryKind_EnumLabels"

datatype DictionaryValues =
    DictionaryValues_Utf8 "bytes list"
  | DictionaryValues_Bytes "bytes list"
  | DictionaryValues_FixedBytes u32 "bytes list"
  | DictionaryValues_EnumLabels "bytes list"

record BundleDictionaryValues =
  bdv_dictionary_id :: u32
  bdv_name :: bytes
  bdv_value_kind :: DictionaryValueKind
  bdv_values :: DictionaryValues

record BundleDictionaryDescriptor =
  bdd_dictionary_id :: u32
  bdd_name :: bytes
  bdd_code_physical_type :: ColumnPhysicalType
  bdd_value_kind :: DictionaryValueKind
  bdd_entry_count :: u32

datatype BundleOrderingDirection =
    Bundle_Ascending
  | Bundle_Descending

fun BundleOrderingDirection_from :: "OcbOrderingDirectionV1 \<Rightarrow> BundleOrderingDirection" where
  "BundleOrderingDirection_from Direction_Ascending = Bundle_Ascending"
| "BundleOrderingDirection_from Direction_Descending = Bundle_Descending"

datatype BundleNullOrder =
    Bundle_NullsFirst
  | Bundle_NullsLast
  | Bundle_NoNulls

fun BundleNullOrder_from :: "OcbNullOrderV1 \<Rightarrow> BundleNullOrder" where
  "BundleNullOrder_from NullOrder_NullsFirst = Bundle_NullsFirst"
| "BundleNullOrder_from NullOrder_NullsLast = Bundle_NullsLast"
| "BundleNullOrder_from NullOrder_NoNulls = Bundle_NoNulls"

record BundleOrderingKey =
  bok_column_id :: u32
  bok_column_name :: bytes
  bok_direction :: BundleOrderingDirection
  bok_null_order :: BundleNullOrder

section \<open>Summaries\<close>

datatype ColumnBundleBodyKind =
    BundleBody_Unknown
  | BundleBody_Root
  | BundleBody_Schema
  | BundleBody_DictionaryIndex
  | BundleBody_DictionaryValues
  | BundleBody_RowGroupIndex
  | BundleBody_OrderingProof
  | BundleBody_ColumnChunk
  | BundleBody_StringTable
  | BundleBody_DebugJsonMetadata
  | BundleBody_ValidityBitmap
  | BundleBody_KeyTuple
  | BundleBody_RowGroupIndexDelta

fun ColumnBundleBodyKind_from :: "OcbBodyKindV1 \<Rightarrow> ColumnBundleBodyKind" where
  "ColumnBundleBodyKind_from BodyKind_Unknown = BundleBody_Unknown"
| "ColumnBundleBodyKind_from BodyKind_Root = BundleBody_Root"
| "ColumnBundleBodyKind_from BodyKind_Schema = BundleBody_Schema"
| "ColumnBundleBodyKind_from BodyKind_DictionaryIndex = BundleBody_DictionaryIndex"
| "ColumnBundleBodyKind_from BodyKind_DictionaryValues = BundleBody_DictionaryValues"
| "ColumnBundleBodyKind_from BodyKind_RowGroupIndex = BundleBody_RowGroupIndex"
| "ColumnBundleBodyKind_from BodyKind_OrderingProof = BundleBody_OrderingProof"
| "ColumnBundleBodyKind_from BodyKind_ColumnChunk = BundleBody_ColumnChunk"
| "ColumnBundleBodyKind_from BodyKind_StringTable = BundleBody_StringTable"
| "ColumnBundleBodyKind_from BodyKind_DebugJsonMetadata = BundleBody_DebugJsonMetadata"
| "ColumnBundleBodyKind_from BodyKind_ValidityBitmap = BundleBody_ValidityBitmap"
| "ColumnBundleBodyKind_from BodyKind_KeyTuple = BundleBody_KeyTuple"
| "ColumnBundleBodyKind_from BodyKind_RowGroupIndexDelta = BundleBody_RowGroupIndexDelta"

datatype ColumnBundleChecksumKind =
    BundleChecksum_None
  | BundleChecksum_Crc32c

fun ColumnBundleChecksumKind_from :: "OcbChecksumKindV1 \<Rightarrow> ColumnBundleChecksumKind" where
  "ColumnBundleChecksumKind_from ChecksumKind_None = BundleChecksum_None"
| "ColumnBundleChecksumKind_from ChecksumKind_Crc32c = BundleChecksum_Crc32c"

datatype ColumnBundleColumnChunkSummaryCodec =
    SummaryCodec_None
  | SummaryCodec_Zstd

fun ColumnBundleColumnChunkSummaryCodec_from :: "OcbChunkCodecV1 \<Rightarrow> ColumnBundleColumnChunkSummaryCodec" where
  "ColumnBundleColumnChunkSummaryCodec_from Codec_None = SummaryCodec_None"
| "ColumnBundleColumnChunkSummaryCodec_from Codec_Zstd = SummaryCodec_Zstd"

record ColumnBundleBodyRefSummary =
  brs_offset :: u64
  brs_length :: u64
  brs_kind :: ColumnBundleBodyKind
  brs_flags :: u16
  brs_checksum_kind :: ColumnBundleChecksumKind
  brs_checksum :: u32

record ColumnBundleColumnChunkSummary =
  ccs_row_group_id :: u32
  ccs_column_id :: u32
  ccs_column_name :: bytes
  ccs_physical_type :: ColumnPhysicalType
  ccs_logical_kind :: ColumnLogicalKind
  ccs_fixed_binary_width :: "u32 option"
  ccs_codec :: ColumnBundleColumnChunkSummaryCodec
  ccs_row_count :: u64
  ccs_compressed_bytes :: u64
  ccs_uncompressed_bytes :: u64
  ccs_value_ref :: ColumnBundleBodyRefSummary
  ccs_validity_ref :: "ColumnBundleBodyRefSummary option"

section \<open>Predicate values\<close>

datatype ColumnPredicateValue =
    Value_I32 i32
  | Value_I64 i64
  | Value_F32 u32
  | Value_F64 u64

fun ColumnPredicateValue_physical_type :: "ColumnPredicateValue \<Rightarrow> ColumnPhysicalType" where
  "ColumnPredicateValue_physical_type (Value_I32 _) = Column_I32"
| "ColumnPredicateValue_physical_type (Value_I64 _) = Column_I64"
| "ColumnPredicateValue_physical_type (Value_F32 _) = Column_F32"
| "ColumnPredicateValue_physical_type (Value_F64 _) = Column_F64"

fun from_stat :: "OcbStatScalarV1 \<Rightarrow> ColumnPredicateValue" where
  "from_stat (Scalar_I32 v) = Value_I32 v"
| "from_stat (Scalar_I64 v) = Value_I64 v"
| "from_stat (Scalar_F32 v) = Value_F32 v"
| "from_stat (Scalar_F64 v) = Value_F64 v"

datatype ordering =
    Ordering_Less
  | Ordering_Equal
  | Ordering_Greater

definition int_cmp :: "int \<Rightarrow> int \<Rightarrow> ordering" where
  "int_cmp a b = (if a < b then Ordering_Less else if a = b then Ordering_Equal else Ordering_Greater)"

text \<open>
  \<open>f32::partial_cmp\<close> and \<open>f64::partial_cmp\<close> on bit patterns.  A pattern is not a number when its
  exponent bits are all set and its fraction is not zero, that is, when its magnitude exceeds that
  of infinity; numbers are ordered by their signed magnitude, which identifies the two zeros.
\<close>

definition f32_is_nan :: "u32 \<Rightarrow> bool" where
  "f32_is_nan w \<longleftrightarrow> 0x7F800000 < w AND 0x7FFFFFFF"

definition f64_is_nan :: "u64 \<Rightarrow> bool" where
  "f64_is_nan w \<longleftrightarrow> 0x7FF0000000000000 < w AND 0x7FFFFFFFFFFFFFFF"

definition f32_magnitude :: "u32 \<Rightarrow> int" where
  "f32_magnitude w = (if bit w 31 then - uint (w AND 0x7FFFFFFF) else uint (w AND 0x7FFFFFFF))"

definition f64_magnitude :: "u64 \<Rightarrow> int" where
  "f64_magnitude w = (if bit w 63 then - uint (w AND 0x7FFFFFFFFFFFFFFF) else uint (w AND 0x7FFFFFFFFFFFFFFF))"

definition f32_partial_cmp :: "u32 \<Rightarrow> u32 \<Rightarrow> ordering option" where
  "f32_partial_cmp a b =
     (if f32_is_nan a \<or> f32_is_nan b then None else Some (int_cmp (f32_magnitude a) (f32_magnitude b)))"

definition f64_partial_cmp :: "u64 \<Rightarrow> u64 \<Rightarrow> ordering option" where
  "f64_partial_cmp a b =
     (if f64_is_nan a \<or> f64_is_nan b then None else Some (int_cmp (f64_magnitude a) (f64_magnitude b)))"

fun cmp_same_type :: "ColumnPredicateValue \<Rightarrow> ColumnPredicateValue \<Rightarrow> ordering result" where
  "cmp_same_type (Value_I32 left) (Value_I32 right) = Inr (int_cmp (sint left) (sint right))"
| "cmp_same_type (Value_I64 left) (Value_I64 right) = Inr (int_cmp (sint left) (sint right))"
| "cmp_same_type (Value_F32 left) (Value_F32 right) =
     ok_or (f32_partial_cmp left right) (ocb_invalid_input ''OCB f32 predicate/stat value cannot be NaN'')"
| "cmp_same_type (Value_F64 left) (Value_F64 right) =
     ok_or (f64_partial_cmp left right) (ocb_invalid_input ''OCB f64 predicate/stat value cannot be NaN'')"
| "cmp_same_type _ _ = Inl (ocb_invalid_input ''OCB predicate/stat type mismatch'')"

record ColumnBundleColumnStatsSummary =
  css_row_group_id :: u32
  css_column_id :: u32
  css_column_name :: bytes
  css_physical_type :: ColumnPhysicalType
  css_null_count :: u32
  css_min :: ColumnPredicateValue
  css_max :: ColumnPredicateValue

record ColumnBundleRowGroupSummary =
  rgs_row_group_id :: u32
  rgs_base_row :: u64
  rgs_row_count :: u64
  rgs_first_key_tuple_ref :: "ColumnBundleBodyRefSummary option"
  rgs_last_key_tuple_ref :: "ColumnBundleBodyRefSummary option"
  rgs_chunks :: "ColumnBundleColumnChunkSummary list"
  rgs_stats :: "ColumnBundleColumnStatsSummary list"

record ColumnBundleMetadata =
  cbm_format_name :: bytes
  cbm_appendable :: bool
  cbm_root_generation :: u64
  cbm_previous_root_generation :: "u64 option"
  cbm_row_count :: u64
  cbm_row_group_count :: u32
  cbm_column_chunk_count :: u32
  cbm_columns :: "BundleColumn list"
  cbm_dictionaries :: "BundleDictionaryDescriptor list"
  cbm_ordering_keys :: "BundleOrderingKey list"

section \<open>Requests, plans and reports\<close>

datatype ColumnProjection =
    Projection_All
  | Projection_Names "bytes list"

record RowGroupPredicate =
  pred_column :: bytes
  pred_lower :: "ColumnPredicateValue option"
  pred_upper :: "ColumnPredicateValue option"

definition RowGroupPredicate_new ::
  "bytes \<Rightarrow> ColumnPredicateValue option \<Rightarrow> ColumnPredicateValue option \<Rightarrow> RowGroupPredicate" where
  "RowGroupPredicate_new column lower upper = \<lparr>pred_column = column, pred_lower = lower, pred_upper = upper\<rparr>"

definition RowGroupPredicate_between ::
  "bytes \<Rightarrow> ColumnPredicateValue \<Rightarrow> ColumnPredicateValue \<Rightarrow> RowGroupPredicate" where
  "RowGroupPredicate_between column lower upper = RowGroupPredicate_new column (Some lower) (Some upper)"

definition RowGroupPredicate_equal :: "bytes \<Rightarrow> ColumnPredicateValue \<Rightarrow> RowGroupPredicate" where
  "RowGroupPredicate_equal column v = RowGroupPredicate_new column (Some v) (Some v)"

record ColumnBundleOrderingKeyRange =
  okr_key_index :: usize
  okr_lower :: "ColumnPredicateValue option"
  okr_upper :: "ColumnPredicateValue option"

record ResolvedRowGroupPredicate =
  rp_column_id :: u32
  rp_physical_type :: ColumnPhysicalType
  rp_lower :: "ColumnPredicateValue option"
  rp_upper :: "ColumnPredicateValue option"

record ColumnBundleReadReport =
  rr_requested_threads :: usize
  rr_effective_threads :: usize
  rr_selected_row_groups :: usize
  rr_pruned_row_groups :: usize
  rr_selected_column_chunks :: usize
  rr_fallback_reason :: "string option"

record ColumnBundleReadPlan =
  plan_projected_column_ids :: "u32 list"
  plan_row_group_ids :: "u32 list"
  plan_report :: ColumnBundleReadReport

record ColumnBundleReadOptions =
  ro_max_threads :: usize
  ro_validate_checksums :: bool
  ro_decode_dictionaries :: bool

definition ColumnBundleReadOptions_default :: ColumnBundleReadOptions where
  "ColumnBundleReadOptions_default =
     \<lparr>ro_max_threads = 1, ro_validate_checksums = True, ro_decode_dictionaries = False\<rparr>"

definition ColumnBundleReadOptions_parallel :: "usize \<Rightarrow> ColumnBundleReadOptions" where
  "ColumnBundleReadOptions_parallel max_threads = ColumnBundleReadOptions_default\<lparr>ro_max_threads := max_threads\<rparr>"

record ColumnBundleReadRequest =
  req_projection :: ColumnProjection
  req_predicates :: "RowGroupPredicate list"
  req_options :: ColumnBundleReadOptions

definition ColumnBundleReadRequest_default :: ColumnBundleReadRequest where
  "ColumnBundleReadRequest_default =
     \<lparr>req_projection = Projection_All, req_predicates = [], req_options = ColumnBundleReadOptions_default\<rparr>"

record ColumnBundleStrictReadPlanningOptions =
  max_selected_row_groups :: usize

section \<open>The order of predicate values\<close>

text \<open>
  Values of one type that are numbers compare like integers, their keys.
\<close>

fun value_key :: "ColumnPredicateValue \<Rightarrow> int option" where
  "value_key (Value_I32 v) = Some (sint v)"
| "value_key (Value_I64 v) = Some (sint v)"
| "value_key (Value_F32 v) = (if f32_is_nan v then None else Some (f32_magnitude v))"
| "value_key (Value_F64 v) = (if f64_is_nan v then None else Some (f64_magnitude v))"

lemma int_cmp_eqs [simp]:
  "int_cmp a b = Ordering_Less \<longleftrightarrow> a < b"
  "int_cmp a b = Ordering_Greater \<longleftrightarrow> b < a"
  "int_cmp a b = Ordering_Equal \<longleftrightarrow> a = b"
  "Ordering_Less = int_cmp a b \<longleftrightarrow> a < b"
  "Ordering_Greater = int_cmp a b \<longleftrightarrow> b < a"
  "Ordering_Equal = int_cmp a b \<longleftrightarrow> a = b"
  by (auto simp: int_cmp_def)

lemma cmp_same_type_Inr:
  "cmp_same_type v w = Inr r \<longleftrightarrow>
     ColumnPredicateValue_physical_type v = ColumnPredicateValue_physical_type w \<and>
     (\<exists>a b. value_key v = Some a \<and> value_key w = Some b \<and> r = int_cmp a b)"
  by (cases v; cases w) (auto simp: f32_partial_cmp_def f64_partial_cmp_def)

definition value_le :: "ColumnPredicateValue \<Rightarrow> ColumnPredicateValue \<Rightarrow> bool" where
  "value_le v w \<longleftrightarrow>
     ColumnPredicateValue_physical_type v = ColumnPredicateValue_physical_type w \<and>
     (\<exists>a b. value_key v = Some a \<and> value_key w = Some b \<and> a \<le> b)"

lemma value_le_cmp: "value_le v w \<longleftrightarrow> (\<exists>r. cmp_same_type v w = Inr r \<and> r \<noteq> Ordering_Greater)"
  by (auto simp: value_le_def cmp_same_type_Inr not_less)

lemma value_le_trans: "value_le u v \<Longrightarrow> value_le v w \<Longrightarrow> value_le u w"
  by (auto simp: value_le_def)

lemma cmp_same_type_Less_not_le: "cmp_same_type v w = Inr Ordering_Less \<Longrightarrow> \<not> value_le w v"
  by (auto simp: value_le_def cmp_same_type_Inr)

lemma cmp_same_type_Greater_not_le: "cmp_same_type v w = Inr Ordering_Greater \<Longrightarrow> \<not> value_le v w"
  by (auto simp: value_le_def cmp_same_type_Inr)

end
