(* ===== verification/Bundle_File.thy ===== *)
theory Bundle_File
  imports Bundle_Types Open_File
begin

text \<open>
  The opened bundle (\<open>ColumnBundleFile\<close> of \<open>column_bundle.rs\<close>): the checks and the resolution of schema
  columns when a file is opened (\<open>validate_metadata\<close> of \<open>planning.rs\<close>, the column resolution of
  \<open>materialize.rs\<close>), the metadata summary, and decoding a dictionary.
\<close>

section \<open>Opening\<close>

definition validate_metadata :: "OcbMetadataV1 \<Rightarrow> unit result" where
  "validate_metadata metadata =
     (if unat (root1_column_count (md_root metadata)) \<noteq> length (sch_columns (md_schema metadata))
     then Inl (ocb_corrupt_file ''OCB root column_count does not match schema'') else
     if unat (root1_row_group_count (md_root metadata)) \<noteq> length (rgi_row_groups (md_row_group_index metadata))
     then Inl (ocb_corrupt_file ''OCB root row_group_count does not match row-group index'') else
     if root1_dictionary_count (md_root metadata) > 0 \<and> md_dictionary_index metadata = None
     then Inl (ocb_corrupt_file ''OCB root dictionary_count requires dictionary index'') else
     sbind (case md_dictionary_index metadata of
              Some dictionary_index \<Rightarrow>
                if unat (root1_dictionary_count (md_root metadata)) \<noteq> length (dix_dictionaries dictionary_index)
                then Inl (ocb_corrupt_file ''OCB root dictionary_count does not match dictionary index'') else Inr ()
            | None \<Rightarrow> Inr ()) (\<lambda>_.
     sbind (case md_ordering_proof metadata of
              Some ordering_proof \<Rightarrow>
                if length (op_row_group_proofs ordering_proof) \<noteq> length (rgi_row_groups (md_row_group_index metadata))
                then Inl (ocb_corrupt_file ''OCB ordering proof row-group count does not match row-group index'') else Inr ()
            | None \<Rightarrow> Inr ()) (\<lambda>_.
     sbind (ok_or (checked_row_sum (rgi_row_groups (md_row_group_index metadata)))
        (ocb_corrupt_file ''OCB row_count overflows'')) (\<lambda>total_rows.
     if total_rows \<noteq> root1_row_count (md_root metadata)
     then Inl (ocb_corrupt_file ''OCB root row_count does not match row groups'') else
     Inr ()))))"

text \<open>One step of the preflight loop over the schema columns.\<close>

definition preflight_column ::
  "OcbMetadataV1 \<Rightarrow> OcbColumnDescV1 \<Rightarrow> u32 set \<times> bytes set \<times> u64 \<Rightarrow> (u32 set \<times> bytes set \<times> u64) result" where
  "preflight_column metadata column = (\<lambda>(seen_ids, seen_names, cloned_name_bytes).
     if col_column_id column \<in> seen_ids
     then Inl (ocb_corrupt_file ''OCB schema has duplicate column ids'') else
     sbind (ok_or (vec_get (st_strings (md_string_table metadata)) (unat (col_name_string_id column)))
        (ocb_corrupt_file ''OCB column name string id is out of range'')) (\<lambda>name.
     if name \<in> seen_names
     then Inl (ocb_corrupt_file ''OCB schema has duplicate column names'') else
     sbind (column_physical_type_from_desc column) (\<lambda>_.
     sbind (ok_or (u64_try_from (length name)) (ocb_corrupt_file ''OCB column name length exceeds u64'')) (\<lambda>name_bytes.
     sbind (ok_or (checked_add cloned_name_bytes name_bytes)
        (ocb_corrupt_file ''OCB resolved column name materialization size overflows'')) (\<lambda>cloned_name_bytes.
     Inr (insert (col_column_id column) seen_ids, insert name seen_names, cloned_name_bytes))))))"

definition preflight_resolved_columns_materialized_bytes :: "host \<Rightarrow> OcbMetadataV1 \<Rightarrow> u64 result" where
  "preflight_resolved_columns_materialized_bytes h metadata =
     (let columns = sch_columns (md_schema metadata) in
     sbind (ok_or (u64_try_from (length columns)) (ocb_corrupt_file ''OCB schema column count exceeds u64'')) (\<lambda>column_count.
     sbind (ok_or (checked_mul column_count (of_nat (host_size_of h TyBundleColumn)))
        (ocb_corrupt_file ''OCB resolved column descriptor materialization size overflows'')) (\<lambda>descriptor_bytes.
     sbind (try_column_bundle_hash_set_with_capacity h (length columns)) (\<lambda>seen_ids.
     sbind (try_column_bundle_hash_set_with_capacity h (length columns)) (\<lambda>seen_names.
     sbind (for_each (preflight_column metadata) columns (seen_ids, seen_names, 0)) (\<lambda>(_, _, cloned_name_bytes).
     ok_or (checked_add descriptor_bytes cloned_name_bytes)
       (ocb_corrupt_file ''OCB resolved column materialization size overflows'')))))))"

definition resolve_column :: "host \<Rightarrow> OcbMetadataV1 \<Rightarrow> OcbColumnDescV1 \<Rightarrow> BundleColumn result" where
  "resolve_column h metadata column =
     sbind (ok_or (vec_get (st_strings (md_string_table metadata)) (unat (col_name_string_id column)))
        (ocb_corrupt_file ''OCB column name string id is out of range'')) (\<lambda>name.
     sbind (clone_column_bundle_string_fallibly h name) (\<lambda>name.
     sbind (column_physical_type_from_desc column) (\<lambda>physical_type.
     Inr \<lparr>bc_id = col_column_id column, bc_name = name, bc_physical_type = physical_type,
          bc_logical_kind = ColumnLogicalKind_from (col_logical_kind column),
          bc_dictionary_id = (if col_dictionary_id column = OCB_NULL_U32 then None else Some (col_dictionary_id column)),
          bc_scale = col_scale column,
          bc_nullable = (col_nullability column = Nullability_Nullable)\<rparr>)))"

definition resolve_columns :: "host \<Rightarrow> OcbMetadataV1 \<Rightarrow> BundleColumn list result" where
  "resolve_columns h metadata =
     sbind (try_column_bundle_vec_with_capacity h TyBundleColumn (length (sch_columns (md_schema metadata)))) (\<lambda>columns.
     sbind (try_map (resolve_column h metadata) (sch_columns (md_schema metadata))) (\<lambda>resolved.
     Inr (sort_key bc_id (columns @ resolved))))"

record ColumnBundleFile =
  cbf_source :: OcbReadSource
  cbf_metadata :: OcbMetadataV1
  cbf_columns :: "BundleColumn list"
  cbf_resource_limits :: OcbResourceLimits

definition from_metadata ::
  "host \<Rightarrow> OcbReadSource \<Rightarrow> OcbMetadataV1 \<Rightarrow> OcbResourceLimits \<Rightarrow> ColumnBundleFile result" where
  "from_metadata h source metadata resource_limits =
     sbind (validate_metadata metadata) (\<lambda>_.
     let metadata_budget = budget_from_limits resource_limits in
     sbind (charge metadata_budget (md_open_metadata_materialized_bytes metadata)) (\<lambda>metadata_budget.
     sbind (preflight_resolved_columns_materialized_bytes h metadata) (\<lambda>resolved_columns_materialized_bytes.
     sbind (charge metadata_budget resolved_columns_materialized_bytes) (\<lambda>metadata_budget.
     sbind (resolve_columns h metadata) (\<lambda>columns.
     Inr \<lparr>cbf_source = source, cbf_metadata = metadata, cbf_columns = columns,
          cbf_resource_limits = resource_limits\<rparr>)))))"

datatype ColumnBundleOpenValidation = Validation_MetadataGraph | Validation_FullPayload

fun OcbOpenValidationMode_from :: "ColumnBundleOpenValidation \<Rightarrow> OcbOpenValidationMode" where
  "OcbOpenValidationMode_from Validation_MetadataGraph = MetadataGraph"
| "OcbOpenValidationMode_from Validation_FullPayload = FullPayload"

record ColumnBundleOpenOptions =
  oo_validation :: ColumnBundleOpenValidation

definition open_from_source_with_options_and_resource_limits ::
  "host \<Rightarrow> zstd \<Rightarrow> OcbReadSource \<Rightarrow> ColumnBundleOpenOptions \<Rightarrow> OcbResourceLimits \<Rightarrow> ColumnBundleFile result" where
  "open_from_source_with_options_and_resource_limits h zstd source options resource_limits =
     sbind (read_metadata_from_source_with_validation_and_resource_limits h zstd source
        (OcbOpenValidationMode_from (oo_validation options)) resource_limits) (\<lambda>metadata.
     from_metadata h source metadata resource_limits)"

text \<open>The source is what opening the path gives: an error, or the opened file.\<close>

definition open_with_options_and_resource_limits ::
  "host \<Rightarrow> zstd \<Rightarrow> OcbReadSource result \<Rightarrow> ColumnBundleOpenOptions \<Rightarrow> OcbResourceLimits \<Rightarrow> ColumnBundleFile result" where
  "open_with_options_and_resource_limits h zstd opened options resource_limits =
     sbind opened (\<lambda>source.
     open_from_source_with_options_and_resource_limits h zstd source options resource_limits)"

definition open_with_options ::
  "host \<Rightarrow> zstd \<Rightarrow> OcbReadSource result \<Rightarrow> ColumnBundleOpenOptions \<Rightarrow> ColumnBundleFile result" where
  "open_with_options h zstd opened options =
     open_with_options_and_resource_limits h zstd opened options policy_a"

definition open_with_resource_limits ::
  "host \<Rightarrow> zstd \<Rightarrow> OcbReadSource result \<Rightarrow> OcbResourceLimits \<Rightarrow> ColumnBundleFile result" where
  "open_with_resource_limits h zstd opened resource_limits =
     open_with_options_and_resource_limits h zstd opened \<lparr>oo_validation = Validation_MetadataGraph\<rparr> resource_limits"

section \<open>The metadata summary\<close>

definition metadata_dictionary :: "host \<Rightarrow> ColumnBundleFile \<Rightarrow> OcbDictionaryDescV1 \<Rightarrow> BundleDictionaryDescriptor result" where
  "metadata_dictionary h self dictionary =
     sbind (ok_or (vec_get (st_strings (md_string_table (cbf_metadata self))) (unat (dict_name_string_id dictionary)))
        (ocb_corrupt_file ''OCB dictionary name string id is out of range'')) (\<lambda>name.
     sbind (clone_column_bundle_string_fallibly h name) (\<lambda>name.
     sbind (scalar_column_physical_type (dict_code_physical_type dictionary)) (\<lambda>code_physical_type.
     Inr \<lparr>bdd_dictionary_id = dict_dictionary_id dictionary, bdd_name = name,
          bdd_code_physical_type = code_physical_type,
          bdd_value_kind = DictionaryValueKind_from (dict_value_kind dictionary),
          bdd_entry_count = dict_entry_count dictionary\<rparr>)))"

definition metadata_ordering_key :: "host \<Rightarrow> ColumnBundleFile \<Rightarrow> OcbOrderingKeyV1 \<Rightarrow> BundleOrderingKey result" where
  "metadata_ordering_key h self key =
     sbind (ok_or (List.find (\<lambda>column. bc_id column = okey_column_id key) (cbf_columns self))
        (ocb_corrupt_file ''OCB ordering key column id is out of range'')) (\<lambda>column.
     sbind (clone_column_bundle_string_fallibly h (bc_name column)) (\<lambda>column_name.
     Inr \<lparr>bok_column_id = okey_column_id key, bok_column_name = column_name,
          bok_direction = BundleOrderingDirection_from (okey_direction key),
          bok_null_order = BundleNullOrder_from (okey_null_order key)\<rparr>))"

definition metadata_column :: "host \<Rightarrow> BundleColumn \<Rightarrow> BundleColumn result" where
  "metadata_column h column =
     sbind (clone_column_bundle_string_fallibly h (bc_name column)) (\<lambda>name.
     Inr \<lparr>bc_id = bc_id column, bc_name = name, bc_physical_type = bc_physical_type column,
          bc_logical_kind = bc_logical_kind column, bc_dictionary_id = bc_dictionary_id column,
          bc_scale = bc_scale column, bc_nullable = bc_nullable column\<rparr>)"

text \<open>The bytes of a string literal.\<close>

definition str_bytes :: "string \<Rightarrow> bytes" where
  "str_bytes s = map of_char s"

definition ColumnBundleFile_metadata :: "host \<Rightarrow> ColumnBundleFile \<Rightarrow> ColumnBundleMetadata result" where
  "ColumnBundleFile_metadata h self =
     (let metadata = cbf_metadata self;
          dictionaries = (case md_dictionary_index metadata of None \<Rightarrow> [] | Some index \<Rightarrow> dix_dictionaries index);
          keys = (case md_ordering_proof metadata of None \<Rightarrow> [] | Some proof \<Rightarrow> op_keys proof) in
     sbind (try_column_bundle_vec_with_capacity h TyDictionaryDescriptor (length dictionaries)) (\<lambda>none.
     sbind (try_map (metadata_dictionary h self) dictionaries) (\<lambda>dictionaries.
     let dictionaries = none @ dictionaries in
     sbind (try_column_bundle_vec_with_capacity h TyBundleOrderingKey (length keys)) (\<lambda>none.
     sbind (try_map (metadata_ordering_key h self) keys) (\<lambda>ordering_keys.
     let ordering_keys = none @ ordering_keys in
     sbind (try_column_bundle_vec_with_capacity h TyBundleColumn (length (cbf_columns self))) (\<lambda>none.
     sbind (try_map (metadata_column h) (cbf_columns self)) (\<lambda>columns.
     let columns = none @ columns in
     sbind (ok_or (u32_try_from (length (rgi_column_chunks (md_row_group_index metadata))))
        (ocb_corrupt_file ''OCB column chunk count exceeds u32'')) (\<lambda>column_chunk_count.
     Inr \<lparr>cbm_format_name = str_bytes ''OCB'', cbm_appendable = md_appendable metadata,
          cbm_root_generation = md_root_generation metadata,
          cbm_previous_root_generation = md_previous_root_generation metadata,
          cbm_row_count = root1_row_count (md_root metadata),
          cbm_row_group_count = root1_row_group_count (md_root metadata),
          cbm_column_chunk_count = column_chunk_count, cbm_columns = columns,
          cbm_dictionaries = dictionaries, cbm_ordering_keys = ordering_keys\<rparr>))))))))"

section \<open>Dictionary values\<close>

definition dictionary_invalid_message :: "OcbDictionaryValueKindV1 \<Rightarrow> string option" where
  "dictionary_invalid_message kind =
     (case kind of
        DictValue_Utf8 \<Rightarrow> Some ''OCB UTF-8 dictionary value is invalid''
      | DictValue_EnumLabels \<Rightarrow> Some ''OCB enum-label dictionary value is invalid''
      | _ \<Rightarrow> None)"

definition preflight_dictionary_conversion_materialized_bytes :: "host \<Rightarrow> OcbDictionaryValuesV1 \<Rightarrow> u64 result" where
  "preflight_dictionary_conversion_materialized_bytes h raw =
     (case dictionary_invalid_message (dv_value_kind raw) of
        None \<Rightarrow> Inr 0
      | Some invalid_message \<Rightarrow>
     sbind (for_each (\<lambda>v _. if valid_utf8 v then Inr () else Inl (ocb_corrupt_file invalid_message)) (dv_values raw) ()) (\<lambda>_.
     sbind (ok_or (u64_try_from (length (dv_values raw)))
        (ocb_corrupt_file ''OCB dictionary value count exceeds u64'')) (\<lambda>value_count.
     ok_or (checked_mul value_count (of_nat (host_size_of h TyString)))
       (ocb_corrupt_file ''OCB dictionary string descriptor materialization size overflows''))))"

definition decode_utf8_dictionary_values :: "host \<Rightarrow> bytes list \<Rightarrow> string \<Rightarrow> bytes list result" where
  "decode_utf8_dictionary_values h vs invalid_message =
     sbind (try_column_bundle_vec_with_capacity h TyString (length vs)) (\<lambda>decoded.
     sbind (try_map (\<lambda>v. if valid_utf8 v then Inr v else Inl (ocb_corrupt_file invalid_message)) vs) (\<lambda>more.
     Inr (decoded @ more)))"

definition decode_dictionary_values :: "host \<Rightarrow> OcbDictionaryValuesV1 \<Rightarrow> DictionaryValues result" where
  "decode_dictionary_values h raw =
     (case dv_value_kind raw of
        DictValue_Utf8 \<Rightarrow>
          sbind (decode_utf8_dictionary_values h (dv_values raw) ''OCB UTF-8 dictionary value is invalid'')
            (\<lambda>vs. Inr (DictionaryValues_Utf8 vs))
      | DictValue_Bytes \<Rightarrow> Inr (DictionaryValues_Bytes (dv_values raw))
      | DictValue_FixedBytes \<Rightarrow> Inr (DictionaryValues_FixedBytes (dv_fixed_width raw) (dv_values raw))
      | DictValue_EnumLabels \<Rightarrow>
          sbind (decode_utf8_dictionary_values h (dv_values raw) ''OCB enum-label dictionary value is invalid'')
            (\<lambda>vs. Inr (DictionaryValues_EnumLabels vs)))"

definition dictionary_values :: "host \<Rightarrow> ColumnBundleFile \<Rightarrow> u32 \<Rightarrow> BundleDictionaryValues result" where
  "dictionary_values h self dictionary_id =
     (let metadata = cbf_metadata self;
          metadata_budget = budget_from_limits (cbf_resource_limits self) in
     sbind (ok_or (md_dictionary_index metadata)
        (ocb_invalid_input ''OCB file does not contain dictionaries'')) (\<lambda>dictionary_index.
     sbind (ok_or (List.find (\<lambda>dictionary. dict_dictionary_id dictionary = dictionary_id) (dix_dictionaries dictionary_index))
        (ocb_invalid_input ''OCB dictionary id not found'')) (\<lambda>dictionary.
     let file = OcbReadSource_cursor (cbf_source self) in
     sbind (read_object_bytes_with_resource_limits h file (md_file_len metadata) (dict_values_ref dictionary)
        BodyKind_DictionaryValues (cbf_resource_limits self)) (\<lambda>bs.
     sbind (OcbDictionaryValuesV1_read_from_bytes_with_budget h bs metadata_budget) (\<lambda>(raw_values, metadata_budget).
     if dv_value_kind raw_values \<noteq> dict_value_kind dictionary
     then Inl (ocb_corrupt_file ''OCB dictionary values kind does not match dictionary descriptor'') else
     if length (dv_values raw_values) \<noteq> unat (dict_entry_count dictionary)
     then Inl (ocb_corrupt_file ''OCB dictionary values entry count does not match descriptor'') else
     sbind (ok_or (vec_get (st_strings (md_string_table metadata)) (unat (dict_name_string_id dictionary)))
        (ocb_corrupt_file ''OCB dictionary name string id is out of range'')) (\<lambda>name.
     sbind (preflight_dictionary_conversion_materialized_bytes h raw_values) (\<lambda>conversion_materialized_bytes.
     sbind (ok_or (u64_try_from (length name)) (ocb_corrupt_file ''OCB dictionary name length exceeds u64'')) (\<lambda>name_bytes.
     sbind (ok_or (checked_add conversion_materialized_bytes name_bytes)
        (ocb_corrupt_file ''OCB dictionary result materialization size overflows'')) (\<lambda>returned_materialized_bytes.
     sbind (charge metadata_budget returned_materialized_bytes) (\<lambda>metadata_budget.
     sbind (clone_column_bundle_string_fallibly h name) (\<lambda>name.
     sbind (decode_dictionary_values h raw_values) (\<lambda>vs.
     Inr \<lparr>bdv_dictionary_id = dictionary_id, bdv_name = name,
          bdv_value_kind = DictionaryValueKind_from (dict_value_kind dictionary), bdv_values = vs\<rparr>))))))))))))"

section \<open>What an opened bundle satisfies\<close>

text \<open>A resolved column carries what its descriptor and the string table say.\<close>

definition resolves :: "OcbMetadataV1 \<Rightarrow> OcbColumnDescV1 \<Rightarrow> BundleColumn \<Rightarrow> bool" where
  "resolves m c b \<longleftrightarrow>
     bc_id b = col_column_id c \<and>
     unat (col_name_string_id c) < length (st_strings (md_string_table m)) \<and>
     bc_name b = st_strings (md_string_table m) ! unat (col_name_string_id c) \<and>
     column_physical_type_from_desc c = Inr (bc_physical_type b) \<and>
     bc_logical_kind b = ColumnLogicalKind_from (col_logical_kind c) \<and>
     bc_dictionary_id b = (if col_dictionary_id c = OCB_NULL_U32 then None else Some (col_dictionary_id c)) \<and>
     bc_scale b = col_scale c \<and> bc_nullable b = (col_nullability c = Nullability_Nullable)"

definition bundle_ok :: "ColumnBundleFile \<Rightarrow> bool" where
  "bundle_ok f \<longleftrightarrow>
     (let m = cbf_metadata f; groups = rgi_row_groups (md_row_group_index m) in
      metadata_wf m \<and> md_row_group_positions_by_id m = positions_of groups (length groups) \<and>
      sorted (map bc_id (cbf_columns f)) \<and> distinct (map bc_id (cbf_columns f)) \<and>
      distinct (map bc_name (cbf_columns f)) \<and>
      (\<forall>c \<in> set (sch_columns (md_schema m)). \<exists>b \<in> set (cbf_columns f). resolves m c b) \<and>
      (\<forall>b \<in> set (cbf_columns f). \<exists>c \<in> set (sch_columns (md_schema m)). resolves m c b))"

lemma column_physical_type_from_desc_Inr:
  "column_physical_type_from_desc c = Inr t \<Longrightarrow>
     ocb_physical_type t = col_physical_type c \<and> fixed_binary_width t = col_fixed_binary_width c"
  by (auto simp: column_physical_type_from_desc_def split: OcbPhysicalTypeV1.splits if_splits)

lemma clone_column_bundle_string_Inr: "clone_column_bundle_string_fallibly h s = Inr t \<Longrightarrow> t = s"
  by (auto simp: clone_column_bundle_string_fallibly_def split: if_splits)

lemma try_column_bundle_Inr:
  "try_column_bundle_vec_with_capacity h ty n = Inr v \<Longrightarrow> v = []"
  "try_column_bundle_hash_map_with_capacity h n = Inr m \<Longrightarrow> m = []"
  "try_column_bundle_hash_set_with_capacity h n = Inr S \<Longrightarrow> S = {}"
  by (auto simp: try_column_bundle_vec_with_capacity_def try_column_bundle_hash_map_with_capacity_def
      try_column_bundle_hash_set_with_capacity_def split: if_splits)

lemma resolve_column_Inr: "resolve_column h m c = Inr b \<Longrightarrow> resolves m c b"
  unfolding resolve_column_def
  by (elim sbind_InrE) (auto simp: resolves_def vec_get_def dest!: clone_column_bundle_string_Inr split: if_splits)

lemma resolve_columns_Inr:
  assumes "resolve_columns h m = Inr cols"
  shows "\<exists>bs. list_all2 (resolves m) (sch_columns (md_schema m)) bs \<and> cols = sort_key bc_id bs"
proof -
  from assms obtain bs where "try_map (resolve_column h m) (sch_columns (md_schema m)) = Inr bs" "cols = sort_key bc_id bs"
    unfolding resolve_columns_def by (auto elim!: sbind_InrE dest!: try_column_bundle_Inr(1))
  moreover from this(1) have "list_all2 (resolves m) (sch_columns (md_schema m)) bs"
    by (auto simp: try_map_Inr_iff elim!: list_all2_mono intro: resolve_column_Inr)
  ultimately show ?thesis by blast
qed

lemma resolves_images:
  assumes "list_all2 (resolves m) cs bs"
  shows "map bc_id bs = map col_column_id cs"
    and "map bc_name bs = map (\<lambda>c. st_strings (md_string_table m) ! unat (col_name_string_id c)) cs"
    and "\<forall>c \<in> set cs. \<exists>b \<in> set bs. resolves m c b" and "\<forall>b \<in> set bs. \<exists>c \<in> set cs. resolves m c b"
  using assms by (induction rule: list_all2_induct) (auto simp: resolves_def)

lemma distinct_map_sort_key: "distinct (map f (sort_key g xs)) = distinct (map f xs)"
  by (metis distinct_map distinct_sort inj_on_def set_sort length_sort card_distinct distinct_card)

lemma from_metadata_ok:
  assumes "from_metadata h source m limits = Inr f" and "opened_ok h file_len limits m"
  shows "bundle_ok f" and "cbf_metadata f = m" and "cbf_source f = source"
proof -
  from assms(1) obtain cols where cols: "resolve_columns h m = Inr cols" and
    f: "f = \<lparr>cbf_source = source, cbf_metadata = m, cbf_columns = cols, cbf_resource_limits = limits\<rparr>"
    unfolding from_metadata_def Let_def by (auto elim!: sbind_InrE)
  then show "cbf_metadata f = m" "cbf_source f = source" by simp_all
  from resolve_columns_Inr [OF cols] obtain bs where bs: "list_all2 (resolves m) (sch_columns (md_schema m)) bs"
    and eq: "cols = sort_key bc_id bs" by blast
  note im = resolves_images [OF bs]
  have "schema_wf m" using assms(2) by (simp add: opened_ok_def metadata_wf_def Let_def)
  then show "bundle_ok f"
    using assms(2) im by (simp add: bundle_ok_def f eq opened_ok_def distinct_map_sort_key schema_wf_def)
qed

theorem opened_bundle_ok:
  assumes "open_from_source_with_options_and_resource_limits h zstd source options limits = Inr f" and "host_sized h"
  shows "bundle_ok f"
proof -
  from assms(1) obtain m where
    m: "read_metadata_from_source_with_validation_and_resource_limits h zstd source
          (OcbOpenValidationMode_from (oo_validation options)) limits = Inr m"
    and f: "from_metadata h source m limits = Inr f"
    unfolding open_from_source_with_options_and_resource_limits_def by (auto elim!: sbind_InrE)
  show ?thesis by (rule from_metadata_ok(1) [OF f read_metadata_opened [OF m assms(2)]])
qed

text \<open>Looking a column up by its identifier or by its name.\<close>

lemma find_unique:
  assumes "distinct (map f xs)"
  shows "List.find (\<lambda>x. f x = k) xs = Some x \<longleftrightarrow> x \<in> set xs \<and> f x = k"
  using assms by (induction xs) auto

lemma bundle_find_column:
  "bundle_ok f \<Longrightarrow> List.find (\<lambda>b. bc_id b = k) (cbf_columns f) = Some b \<longleftrightarrow> b \<in> set (cbf_columns f) \<and> bc_id b = k"
  by (simp add: bundle_ok_def Let_def find_unique)

lemma bundle_row_group_by_id:
  assumes "bundle_ok f"
  shows "row_group_by_id (cbf_metadata f) k = Some g \<longleftrightarrow>
     g \<in> set (rgi_row_groups (md_row_group_index (cbf_metadata f))) \<and> rg_row_group_id g = k"
  using assms
  by (intro row_group_by_id_positions) (auto simp: bundle_ok_def metadata_wf_def row_groups_tile_def Let_def)

end
