(* ===== verification/Planning.thy ===== *)
theory Planning
  imports Bundle_File
begin

text \<open>
  Read planning (\<open>column_bundle.rs\<close> and \<open>column_bundle/planning.rs\<close>): resolving a projection and row-group
  predicates against the schema, pruning row groups by their statistics, plain and strict plans,
  the validation of plans, requests built from ordering-key ranges, and subsets of a plan.
\<close>

section \<open>Reports and options\<close>

definition OCB_FALLBACK_THREAD_CAP_ONE :: string where
  "OCB_FALLBACK_THREAD_CAP_ONE = ''thread_cap_one''"

definition OCB_FALLBACK_TOO_FEW_ROW_GROUPS :: string where
  "OCB_FALLBACK_TOO_FEW_ROW_GROUPS = ''too_few_row_groups''"

definition validate_read_options :: "ColumnBundleReadOptions \<Rightarrow> unit result" where
  "validate_read_options options =
     (if \<not> ro_validate_checksums options
     then Inl (Unimplemented ''OCB reads currently always validate checksums'') else
     if ro_decode_dictionaries options
     then Inl (Unimplemented ''OCB dictionary value decoding is not implemented yet'') else
     Inr ())"

text \<open>\<open>usize::saturating_mul\<close>.\<close>

definition usize_saturating_mul :: "usize \<Rightarrow> usize \<Rightarrow> usize" where
  "usize_saturating_mul a b = min usize_max (a * b)"

definition build_read_report :: "usize \<Rightarrow> usize \<Rightarrow> usize \<Rightarrow> usize \<Rightarrow> ColumnBundleReadReport" where
  "build_read_report requested_threads selected_row_groups pruned_row_groups selected_columns =
     (let requested_cap = max requested_threads 1;
          (effective_threads, fallback_reason) =
            (if requested_cap \<le> 1 then (1, Some OCB_FALLBACK_THREAD_CAP_ONE)
             else if selected_row_groups \<le> 1 then (1, Some OCB_FALLBACK_TOO_FEW_ROW_GROUPS)
             else (min requested_cap selected_row_groups, None)) in
     \<lparr>rr_requested_threads = requested_threads, rr_effective_threads = effective_threads,
      rr_selected_row_groups = selected_row_groups, rr_pruned_row_groups = pruned_row_groups,
      rr_selected_column_chunks = usize_saturating_mul selected_row_groups selected_columns,
      rr_fallback_reason = fallback_reason\<rparr>)"

definition execution_report_for_plan :: "ColumnBundleReadPlan \<Rightarrow> usize \<Rightarrow> ColumnBundleReadReport" where
  "execution_report_for_plan plan selected_row_groups =
     build_read_report (rr_requested_threads (plan_report plan)) selected_row_groups
       (rr_pruned_row_groups (plan_report plan)) (length (plan_projected_column_ids plan))"

section \<open>Chunks and statistics of a row group\<close>

definition column_chunks_for_row_group :: "OcbMetadataV1 \<Rightarrow> u64 \<Rightarrow> u32 \<Rightarrow> OcbColumnChunkDescV1 list result" where
  "column_chunks_for_row_group metadata begin count =
     sbind (ok_or (usize_try_from (unat begin))
        (ocb_corrupt_file ''OCB row-group chunk descriptor begin is too large'')) (\<lambda>begin.
     sbind (ok_or (usize_checked_add begin (unat count))
        (ocb_corrupt_file ''OCB row-group chunk descriptor range overflows'')) (\<lambda>stop.
     ok_or (vec_get_range (rgi_column_chunks (md_row_group_index metadata)) begin stop)
       (ocb_corrupt_file ''OCB row-group chunk descriptor range is out of bounds'')))"

definition stats_for_row_group :: "OcbMetadataV1 \<Rightarrow> u64 \<Rightarrow> u32 \<Rightarrow> OcbColumnStatsV1 list result" where
  "stats_for_row_group metadata begin count =
     sbind (ok_or (usize_try_from (unat begin))
        (ocb_corrupt_file ''OCB row-group stat descriptor begin is too large'')) (\<lambda>begin.
     sbind (ok_or (usize_checked_add begin (unat count))
        (ocb_corrupt_file ''OCB row-group stat descriptor range overflows'')) (\<lambda>stop.
     ok_or (vec_get_range (rgi_stats (md_row_group_index metadata)) begin stop)
       (ocb_corrupt_file ''OCB row-group stat descriptor range is out of bounds'')))"

definition stats_by_column_for_row_group ::
  "host \<Rightarrow> OcbMetadataV1 \<Rightarrow> OcbRowGroupDescV1 \<Rightarrow> (u32, OcbColumnStatsV1) hash_map result" where
  "stats_by_column_for_row_group h metadata row_group =
     sbind (stats_for_row_group metadata (rg_stat_begin row_group) (rg_stat_count row_group)) (\<lambda>stats.
     sbind (try_column_bundle_hash_map_with_capacity h (length stats)) (\<lambda>stats_by_column.
     for_each (\<lambda>stat stats_by_column.
       if stat_row_group_id stat \<noteq> rg_row_group_id row_group
       then Inl (ocb_corrupt_file ''OCB row-group stat references a different row group'') else
       if hash_contains stats_by_column (stat_column_id stat)
       then Inl (ocb_corrupt_file ''OCB row group has duplicate stats for a column'') else
       Inr (hash_insert stats_by_column (stat_column_id stat) stat)) stats stats_by_column))"

section \<open>Pruning\<close>

text \<open>
  The loop over the predicates, which may return early.
\<close>

fun stats_match_predicates ::
  "(u32, OcbColumnStatsV1) hash_map \<Rightarrow> ResolvedRowGroupPredicate list \<Rightarrow> bool result" where
  "stats_match_predicates stats_by_column [] = Inr True"
| "stats_match_predicates stats_by_column (predicate # predicates) =
     (case hash_get stats_by_column (rp_column_id predicate) of
        None \<Rightarrow> stats_match_predicates stats_by_column predicates
      | Some stat \<Rightarrow>
     sbind (scalar_column_physical_type (stat_physical_type stat)) (\<lambda>physical_type.
     if physical_type \<noteq> rp_physical_type predicate
     then Inl (ocb_corrupt_file ''OCB stat dtype does not match predicate column dtype'') else
     let min = from_stat (stat_min_value stat); max = from_stat (stat_max_value stat) in
     sbind (case rp_lower predicate of
              None \<Rightarrow> Inr False
            | Some lower \<Rightarrow> sbind (cmp_same_type max lower) (\<lambda>c. Inr (c = Ordering_Less))) (\<lambda>below.
     if below then Inr False else
     sbind (case rp_upper predicate of
              None \<Rightarrow> Inr False
            | Some upper \<Rightarrow> sbind (cmp_same_type min upper) (\<lambda>c. Inr (c = Ordering_Greater))) (\<lambda>above.
     if above then Inr False else
     stats_match_predicates stats_by_column predicates))))"

definition row_group_matches_predicates ::
  "host \<Rightarrow> OcbMetadataV1 \<Rightarrow> OcbRowGroupDescV1 \<Rightarrow> ResolvedRowGroupPredicate list \<Rightarrow> bool result" where
  "row_group_matches_predicates h metadata row_group predicates =
     (if predicates = [] then Inr True else
     sbind (stats_by_column_for_row_group h metadata row_group) (\<lambda>stats_by_column.
     stats_match_predicates stats_by_column predicates))"

definition require_predicate_stats_available ::
  "host \<Rightarrow> ColumnBundleFile \<Rightarrow> ResolvedRowGroupPredicate list \<Rightarrow> unit result" where
  "require_predicate_stats_available h self predicates =
     (if predicates = [] then Inr () else
     for_each (\<lambda>row_group _.
       sbind (stats_by_column_for_row_group h (cbf_metadata self) row_group) (\<lambda>stats_by_column.
       for_each (\<lambda>predicate _.
         case hash_get stats_by_column (rp_column_id predicate) of
           None \<Rightarrow> Inl (ocb_invalid_input
             ''OCB strict read planning requires row-group stats for every predicate column'')
         | Some stat \<Rightarrow>
             sbind (scalar_column_physical_type (stat_physical_type stat)) (\<lambda>physical_type.
             if physical_type \<noteq> rp_physical_type predicate
             then Inl (ocb_corrupt_file ''OCB stat dtype does not match predicate column dtype'')
             else Inr ())) predicates ()))
       (rgi_row_groups (md_row_group_index (cbf_metadata self))) ())"

section \<open>Projection and predicates\<close>

text \<open>\<open>HashMap::extend\<close> with the columns under their names; a later column replaces an earlier one.\<close>

definition columns_by_name :: "(bytes, 'v) hash_map \<Rightarrow> (BundleColumn \<Rightarrow> 'v) \<Rightarrow> BundleColumn list \<Rightarrow> (bytes, 'v) hash_map" where
  "columns_by_name by_name f columns = fold (\<lambda>column m. hash_insert m (bc_name column) (f column)) columns by_name"

definition resolve_projection :: "host \<Rightarrow> ColumnBundleFile \<Rightarrow> ColumnProjection \<Rightarrow> u32 list result" where
  "resolve_projection h self projection =
     (case projection of
        Projection_All \<Rightarrow>
          sbind (try_column_bundle_vec_with_capacity h TyU32 (length (cbf_columns self))) (\<lambda>selected.
          Inr (selected @ map bc_id (cbf_columns self)))
      | Projection_Names names \<Rightarrow>
          sbind (try_column_bundle_hash_map_with_capacity h (length (cbf_columns self))) (\<lambda>by_name.
          let by_name = columns_by_name by_name bc_id (cbf_columns self) in
          sbind (try_column_bundle_vec_with_capacity h TyU32 (length names)) (\<lambda>selected.
          sbind (try_column_bundle_hash_set_with_capacity h (length names)) (\<lambda>seen.
          sbind (for_each (\<lambda>name (selected, seen).
            sbind (ok_or (hash_get by_name name)
               (ocb_invalid_input ''OCB projection references an unknown column'')) (\<lambda>column_id.
            if column_id \<in> seen
            then Inl (ocb_invalid_input ''OCB projection contains duplicate columns'')
            else Inr (selected @ [column_id], insert column_id seen))) names (selected, seen)) (\<lambda>(selected, _).
          Inr selected)))))"

text \<open>The checks on one predicate or ordering-key range that the two request builders share.\<close>

definition check_bounds ::
  "ColumnPhysicalType \<Rightarrow> ColumnPredicateValue option \<Rightarrow> ColumnPredicateValue option \<Rightarrow> string \<Rightarrow> string \<Rightarrow> string \<Rightarrow> unit result" where
  "check_bounds physical_type lower upper fixed_message dtype_message order_message =
     (if (case physical_type of Column_FixedBinary _ \<Rightarrow> True | _ \<Rightarrow> False)
     then Inl (ocb_invalid_input fixed_message) else
     sbind (for_each (\<lambda>bound _.
       if ColumnPredicateValue_physical_type bound \<noteq> physical_type
       then Inl (ocb_invalid_input dtype_message) else Inr ())
       (List.map_filter (\<lambda>bound. bound) [lower, upper]) ()) (\<lambda>_.
     case (lower, upper) of
       (Some lower, Some upper) \<Rightarrow>
         sbind (cmp_same_type lower upper) (\<lambda>c.
         if c = Ordering_Greater then Inl (ocb_invalid_input order_message) else Inr ())
     | _ \<Rightarrow> Inr ()))"

definition resolve_predicate :: "(bytes, BundleColumn) hash_map \<Rightarrow> RowGroupPredicate \<Rightarrow> ResolvedRowGroupPredicate result" where
  "resolve_predicate by_name predicate =
     sbind (ok_or (hash_get by_name (pred_column predicate))
        (ocb_invalid_input ''OCB predicate references an unknown column'')) (\<lambda>column.
     if pred_lower predicate = None \<and> pred_upper predicate = None
     then Inl (ocb_invalid_input ''OCB predicate must include at least one bound'') else
     sbind (check_bounds (bc_physical_type column) (pred_lower predicate) (pred_upper predicate)
        ''OCB predicates over fixed-binary columns are not supported''
        ''OCB predicate bound dtype does not match column dtype''
        ''OCB predicate lower bound is greater than upper bound'') (\<lambda>_.
     Inr \<lparr>rp_column_id = bc_id column, rp_physical_type = bc_physical_type column,
          rp_lower = pred_lower predicate, rp_upper = pred_upper predicate\<rparr>))"

definition resolve_predicates ::
  "host \<Rightarrow> ColumnBundleFile \<Rightarrow> RowGroupPredicate list \<Rightarrow> ResolvedRowGroupPredicate list result" where
  "resolve_predicates h self predicates =
     sbind (try_column_bundle_hash_map_with_capacity h (length (cbf_columns self))) (\<lambda>by_name.
     let by_name = columns_by_name by_name (\<lambda>column. column) (cbf_columns self) in
     sbind (try_column_bundle_vec_with_capacity h TyResolvedPredicate (length predicates)) (\<lambda>resolved.
     sbind (try_map (resolve_predicate by_name) predicates) (\<lambda>more.
     Inr (resolved @ more))))"

section \<open>Plans\<close>

text \<open>The selection loop of both planners: the identifiers kept, and the number pruned.\<close>

definition select_row_groups ::
  "host \<Rightarrow> ColumnBundleFile \<Rightarrow> ResolvedRowGroupPredicate list \<Rightarrow> u32 list \<Rightarrow> (u32 list \<times> usize) result" where
  "select_row_groups h self predicates row_group_ids =
     for_each (\<lambda>row_group (row_group_ids, pruned_row_groups).
       sbind (row_group_matches_predicates h (cbf_metadata self) row_group predicates) (\<lambda>keep.
       if keep then Inr (row_group_ids @ [rg_row_group_id row_group], pruned_row_groups)
       else Inr (row_group_ids, pruned_row_groups + 1)))
       (rgi_row_groups (md_row_group_index (cbf_metadata self))) (row_group_ids, 0)"

definition plan_read :: "host \<Rightarrow> ColumnBundleFile \<Rightarrow> ColumnBundleReadRequest \<Rightarrow> ColumnBundleReadPlan result" where
  "plan_read h self request =
     sbind (validate_read_options (req_options request)) (\<lambda>_.
     sbind (resolve_projection h self (req_projection request)) (\<lambda>selected.
     sbind (resolve_predicates h self (req_predicates request)) (\<lambda>predicates.
     sbind (try_column_bundle_vec_with_capacity h TyU32
        (length (rgi_row_groups (md_row_group_index (cbf_metadata self))))) (\<lambda>row_group_ids.
     sbind (select_row_groups h self predicates row_group_ids) (\<lambda>(row_group_ids, pruned_row_groups).
     let report = build_read_report (ro_max_threads (req_options request)) (length row_group_ids)
           pruned_row_groups (length selected) in
     Inr \<lparr>plan_projected_column_ids = selected, plan_row_group_ids = row_group_ids, plan_report = report\<rparr>)))))"

definition plan_read_strict ::
  "host \<Rightarrow> ColumnBundleFile \<Rightarrow> ColumnBundleReadRequest \<Rightarrow> ColumnBundleStrictReadPlanningOptions \<Rightarrow>
     ColumnBundleReadPlan result" where
  "plan_read_strict h self request options =
     sbind (validate_read_options (req_options request)) (\<lambda>_.
     sbind (resolve_projection h self (req_projection request)) (\<lambda>selected.
     sbind (resolve_predicates h self (req_predicates request)) (\<lambda>predicates.
     sbind (require_predicate_stats_available h self predicates) (\<lambda>_.
     sbind (try_column_bundle_vec_with_capacity h TyU32
        (length (rgi_row_groups (md_row_group_index (cbf_metadata self))))) (\<lambda>row_group_ids.
     sbind (select_row_groups h self predicates row_group_ids) (\<lambda>(row_group_ids, pruned_row_groups).
     if length row_group_ids > max_selected_row_groups options
     then Inl (ocb_invalid_input ''OCB strict read plan selected more row groups than the caller cap'') else
     let report = build_read_report (ro_max_threads (req_options request)) (length row_group_ids)
           pruned_row_groups (length selected) in
     Inr \<lparr>plan_projected_column_ids = selected, plan_row_group_ids = row_group_ids, plan_report = report\<rparr>))))))"

definition validate_read_plan :: "host \<Rightarrow> ColumnBundleFile \<Rightarrow> ColumnBundleReadPlan \<Rightarrow> unit result" where
  "validate_read_plan h self plan =
     sbind (try_column_bundle_hash_set_with_capacity h (length (cbf_columns self))) (\<lambda>available_columns.
     let available_columns = available_columns \<union> set (map bc_id (cbf_columns self)) in
     sbind (try_column_bundle_hash_set_with_capacity h (length (plan_projected_column_ids plan))) (\<lambda>seen_columns.
     sbind (for_each (\<lambda>column_id seen_columns.
       if column_id \<notin> available_columns
       then Inl (ocb_invalid_input ''OCB read plan references an unknown projected column id'') else
       if column_id \<in> seen_columns
       then Inl (ocb_invalid_input ''OCB read plan contains duplicate projected column ids'') else
       Inr (insert column_id seen_columns)) (plan_projected_column_ids plan) seen_columns) (\<lambda>_.
     sbind (try_column_bundle_hash_set_with_capacity h (length (plan_row_group_ids plan))) (\<lambda>seen_row_groups.
     sbind (for_each (\<lambda>row_group_id seen_row_groups.
       if row_group_by_id (cbf_metadata self) row_group_id = None
       then Inl (ocb_invalid_input ''OCB read plan references an unknown row group id'') else
       if row_group_id \<in> seen_row_groups
       then Inl (ocb_invalid_input ''OCB read plan contains duplicate row group ids'') else
       Inr (insert row_group_id seen_row_groups)) (plan_row_group_ids plan) seen_row_groups) (\<lambda>_.
     Inr ())))))"

definition OCB_READ_PLAN_SUBSET_UNKNOWN_ROW_GROUP_ERROR :: string where
  "OCB_READ_PLAN_SUBSET_UNKNOWN_ROW_GROUP_ERROR =
     ''OCB read plan subset contains a row group id not present in the plan''"

definition OCB_READ_PLAN_SUBSET_DUPLICATE_ROW_GROUP_ERROR :: string where
  "OCB_READ_PLAN_SUBSET_DUPLICATE_ROW_GROUP_ERROR =
     ''OCB read plan subset contains duplicate row group ids''"

definition planned_row_group_subset :: "host \<Rightarrow> ColumnBundleReadPlan \<Rightarrow> u32 list \<Rightarrow> u32 list result" where
  "planned_row_group_subset h plan row_group_ids =
     sbind (try_column_bundle_hash_set_with_capacity h (length (plan_row_group_ids plan))) (\<lambda>planned.
     let planned = planned \<union> set (plan_row_group_ids plan) in
     sbind (try_column_bundle_hash_set_with_capacity h (length row_group_ids)) (\<lambda>requested.
     sbind (for_each (\<lambda>row_group_id requested.
       if row_group_id \<notin> planned
       then Inl (ocb_invalid_input OCB_READ_PLAN_SUBSET_UNKNOWN_ROW_GROUP_ERROR) else
       if row_group_id \<in> requested
       then Inl (ocb_invalid_input OCB_READ_PLAN_SUBSET_DUPLICATE_ROW_GROUP_ERROR) else
       Inr (insert row_group_id requested)) row_group_ids requested) (\<lambda>requested.
     sbind (try_column_bundle_vec_with_capacity h TyU32 (length (plan_row_group_ids plan))) (\<lambda>selected.
     Inr (selected @ filter (\<lambda>row_group_id. row_group_id \<in> requested) (plan_row_group_ids plan))))))"

section \<open>Requests from ordering-key ranges\<close>

definition ordering_range_predicate ::
  "host \<Rightarrow> ColumnBundleMetadata \<Rightarrow> ColumnBundleOrderingKeyRange \<Rightarrow> nat set \<times> RowGroupPredicate list \<Rightarrow>
     (nat set \<times> RowGroupPredicate list) result" where
  "ordering_range_predicate h metadata key_range = (\<lambda>(seen, predicates).
     if okr_key_index key_range \<in> seen
     then Inl (ocb_invalid_input ''OCB ordering range request contains duplicate key indexes'') else
     let seen = insert (okr_key_index key_range) seen in
     if okr_lower key_range = None \<and> okr_upper key_range = None
     then Inl (ocb_invalid_input ''OCB ordering range bound must include at least one side'') else
     sbind (ok_or (vec_get (cbm_ordering_keys metadata) (okr_key_index key_range))
        (ocb_invalid_input ''OCB ordering range references an unknown ordering key'')) (\<lambda>key.
     sbind (ok_or (List.find (\<lambda>column. bc_id column = bok_column_id key) (cbm_columns metadata))
        (ocb_corrupt_file ''OCB ordering key column is missing from metadata'')) (\<lambda>column.
     sbind (check_bounds (bc_physical_type column) (okr_lower key_range) (okr_upper key_range)
        ''OCB ordering range over fixed-binary columns is not supported''
        ''OCB ordering range bound dtype does not match ordering column dtype''
        ''OCB ordering range lower bound is greater than upper bound'') (\<lambda>_.
     sbind (clone_column_bundle_string_fallibly h (bok_column_name key)) (\<lambda>name.
     Inr (seen, predicates @ [RowGroupPredicate_new name (okr_lower key_range) (okr_upper key_range)]))))))"

definition from_ordering_key_ranges ::
  "host \<Rightarrow> ColumnBundleMetadata \<Rightarrow> ColumnProjection \<Rightarrow> ColumnBundleOrderingKeyRange list \<Rightarrow>
     ColumnBundleReadOptions \<Rightarrow> ColumnBundleReadRequest result" where
  "from_ordering_key_ranges h metadata projection ranges options =
     (if ranges = []
     then Inl (ocb_invalid_input ''OCB ordering range request requires at least one bound'') else
     let ranges = sort_key okr_key_index ranges in
     sbind (try_column_bundle_hash_set_with_capacity h (length ranges)) (\<lambda>seen.
     sbind (try_column_bundle_vec_with_capacity h TyRowGroupPredicate (length ranges)) (\<lambda>predicates.
     sbind (for_each (ordering_range_predicate h metadata) ranges (seen, predicates)) (\<lambda>(_, predicates).
     Inr \<lparr>req_projection = projection, req_predicates = predicates, req_options = options\<rparr>))))"

section \<open>Lookup tables\<close>

text \<open>A loop that fills a table and refuses a key it has already seen.\<close>

lemma for_each_hash:
  "for_each (\<lambda>x m. if P x then Inl e else if hash_contains m (f x) then Inl e' else Inr (hash_insert m (f x) (g x))) xs m0 = Inr m \<longleftrightarrow>
     (\<forall>x \<in> set xs. \<not> P x) \<and> distinct (map f xs) \<and> f ` set xs \<inter> hash_keys m0 = {} \<and>
     m = m0 @ map (\<lambda>x. (f x, g x)) xs"
proof (induction xs arbitrary: m0)
  case Nil
  then show ?case by auto
next
  case (Cons x xs)
  show ?case
  proof (cases "P x \<or> hash_contains m0 (f x)")
    case True
    then show ?thesis by (auto simp: hash_contains_keys)
  next
    case False
    then have "f x \<notin> hash_keys m0" by (simp add: hash_contains_keys)
    with False show ?thesis using Cons.IH [of "m0 @ [(f x, g x)]"]
      by (auto simp: hash_insert_new hash_keys_def)
  qed
qed

lemma hash_get_keyed:
  assumes "distinct (map f xs)"
  shows "hash_get (map (\<lambda>x. (f x, x)) xs) k = Some x \<longleftrightarrow> x \<in> set xs \<and> f x = k"
  using hash_get_map [OF assms, of x "\<lambda>x. x"] by (auto simp: hash_get_def dest: map_of_SomeD)

lemma columns_by_name_get:
  assumes "distinct (map bc_name cs)"
  shows "hash_get (columns_by_name [] f cs) name = Some v \<longleftrightarrow> (\<exists>c \<in> set cs. bc_name c = name \<and> v = f c)"
proof -
  have "hash_get (columns_by_name m f cs) name = Some v \<longleftrightarrow>
      (\<exists>c \<in> set cs. bc_name c = name \<and> v = f c) \<or> (name \<notin> bc_name ` set cs \<and> hash_get m name = Some v)" for m
    using assms
  proof (induction cs arbitrary: m)
    case Nil
    then show ?case by (simp add: columns_by_name_def)
  next
    case (Cons c cs)
    have step: "columns_by_name m f (c # cs) = columns_by_name (hash_insert m (bc_name c) (f c)) f cs"
      by (simp add: columns_by_name_def)
    have "distinct (map bc_name cs)" "bc_name c \<notin> bc_name ` set cs" using Cons.prems by simp_all
    then show ?case unfolding step Cons.IH [OF \<open>distinct (map bc_name cs)\<close>]
      by (auto simp: hash.get_put)
  qed
  from this [of "[]"] show ?thesis by (simp add: hash.get_empty)
qed

lemma stats_for_row_group_Inr:
  "stats_for_row_group m (rg_stat_begin g) (rg_stat_count g) = Inr ss \<Longrightarrow> ss = stats_of m g"
  by (auto simp: stats_for_row_group_def sbind_eq_Inr usize_checked_add_def vec_get_range_def stats_of_def split: if_splits)

lemma stats_by_column_get:
  assumes "stats_by_column_for_row_group h m g = Inr by_col"
  shows "hash_get by_col k = Some s \<longleftrightarrow> s \<in> set (stats_of m g) \<and> stat_column_id s = k"
proof -
  from assms have "by_col = map (\<lambda>s. (stat_column_id s, s)) (stats_of m g)" "distinct (map stat_column_id (stats_of m g))"
    unfolding stats_by_column_for_row_group_def
    by (auto elim!: sbind_InrE dest!: stats_for_row_group_Inr try_column_bundle_Inr(2) simp: for_each_hash hash_keys_def)
  then show ?thesis by (simp add: hash_get_keyed)
qed

section \<open>Pruning\<close>

text \<open>
  The statistics of a row group exclude a predicate when its interval lies beyond their range, and
  a value can occur in the row group when it lies within the range.
\<close>

definition excludes :: "OcbColumnStatsV1 \<Rightarrow> ColumnPredicateValue option \<Rightarrow> ColumnPredicateValue option \<Rightarrow> bool" where
  "excludes s lower upper \<longleftrightarrow>
     (case lower of None \<Rightarrow> False | Some l \<Rightarrow> cmp_same_type (from_stat (stat_max_value s)) l = Inr Ordering_Less) \<or>
     (case upper of None \<Rightarrow> False | Some u \<Rightarrow> cmp_same_type (from_stat (stat_min_value s)) u = Inr Ordering_Greater)"

definition covers :: "OcbColumnStatsV1 \<Rightarrow> ColumnPredicateValue \<Rightarrow> bool" where
  "covers s v \<longleftrightarrow> value_le (from_stat (stat_min_value s)) v \<and> value_le v (from_stat (stat_max_value s))"

definition admits :: "ColumnPredicateValue option \<Rightarrow> ColumnPredicateValue option \<Rightarrow> ColumnPredicateValue \<Rightarrow> bool" where
  "admits lower upper v \<longleftrightarrow>
     (case lower of None \<Rightarrow> True | Some l \<Rightarrow> value_le l v) \<and> (case upper of None \<Rightarrow> True | Some u \<Rightarrow> value_le v u)"

lemma excludes_no_value: "excludes s lower upper \<Longrightarrow> covers s v \<Longrightarrow> \<not> admits lower upper v"
  by (auto simp: excludes_def covers_def admits_def split: option.splits
      dest: value_le_trans cmp_same_type_Less_not_le cmp_same_type_Greater_not_le)

lemma stats_match_predicates_Inr:
  "stats_match_predicates by_col ps = Inr keep \<Longrightarrow>
     keep \<longleftrightarrow> \<not> (\<exists>p \<in> set ps. \<exists>s. hash_get by_col (rp_column_id p) = Some s \<and> excludes s (rp_lower p) (rp_upper p))"
proof (induction ps arbitrary: keep)
  case Nil
  then show ?case by simp
next
  case (Cons p ps)
  show ?case
  proof (cases "hash_get by_col (rp_column_id p)")
    case None
    with Cons show ?thesis by simp
  next
    case (Some s)
    with Cons.prems have "(keep \<longleftrightarrow> \<not> excludes s (rp_lower p) (rp_upper p) \<and> stats_match_predicates by_col ps = Inr True) \<and>
        (excludes s (rp_lower p) (rp_upper p) \<or> (\<exists>k. stats_match_predicates by_col ps = Inr k))"
      by (auto simp: sbind_eq_Inr Let_def excludes_def split: if_splits option.splits)
    with Cons.IH Some show ?thesis by auto
  qed
qed

text \<open>Whether the statistics of a row group prune it for a list of predicates.\<close>

definition pruned :: "OcbMetadataV1 \<Rightarrow> ResolvedRowGroupPredicate list \<Rightarrow> OcbRowGroupDescV1 \<Rightarrow> bool" where
  "pruned m ps g \<longleftrightarrow>
     (\<exists>p \<in> set ps. \<exists>s \<in> set (stats_of m g). stat_column_id s = rp_column_id p \<and> excludes s (rp_lower p) (rp_upper p))"

lemma row_group_matches_predicates_Inr:
  assumes "row_group_matches_predicates h m g ps = Inr keep"
  shows "keep \<longleftrightarrow> \<not> pruned m ps g"
proof (cases "ps = []")
  case True
  with assms show ?thesis by (simp add: row_group_matches_predicates_def pruned_def)
next
  case False
  with assms obtain by_col where "stats_by_column_for_row_group h m g = Inr by_col"
    and "stats_match_predicates by_col ps = Inr keep"
    by (auto simp: row_group_matches_predicates_def sbind_eq_Inr)
  from stats_match_predicates_Inr [OF this(2)] stats_by_column_get [OF this(1)] show ?thesis
    by (auto simp: pruned_def)
qed

lemma select_row_groups_Inr:
  assumes "select_row_groups h f ps [] = Inr (ids, n)"
  defines "groups \<equiv> rgi_row_groups (md_row_group_index (cbf_metadata f))"
  shows "ids = map rg_row_group_id (filter (\<lambda>g. \<not> pruned (cbf_metadata f) ps g) groups)"
    and "n = length (filter (pruned (cbf_metadata f) ps) groups)"
proof -
  let ?step = "\<lambda>g (ids, n). sbind (row_group_matches_predicates h (cbf_metadata f) g ps) (\<lambda>keep.
       if keep then Inr (ids @ [rg_row_group_id g], n) else Inr (ids, n + 1))"
  have "for_each ?step gs (ids0, n0) = Inr (ids, n) \<Longrightarrow>
      ids = ids0 @ map rg_row_group_id (filter (\<lambda>g. \<not> pruned (cbf_metadata f) ps g) gs) \<and>
      n = n0 + length (filter (pruned (cbf_metadata f) ps) gs)" for gs ids0 n0
  proof (induction gs arbitrary: ids0 n0)
    case Nil
    then show ?case by simp
  next
    case (Cons g gs)
    then obtain keep where keep: "row_group_matches_predicates h (cbf_metadata f) g ps = Inr keep"
      and rest: "for_each ?step gs (if keep then (ids0 @ [rg_row_group_id g], n0) else (ids0, n0 + 1)) = Inr (ids, n)"
      by (auto simp: sbind_eq_Inr split: if_splits)
    with row_group_matches_predicates_Inr [OF keep] show ?case
      by (cases keep) (auto dest!: Cons.IH)
  qed
  from this [of groups "[]" 0] assms(1)
  show "ids = map rg_row_group_id (filter (\<lambda>g. \<not> pruned (cbf_metadata f) ps g) groups)"
    and "n = length (filter (pruned (cbf_metadata f) ps) groups)"
    by (simp_all add: select_row_groups_def groups_def)
qed

section \<open>Plans\<close>

lemma for_each_select_names:
  "for_each (\<lambda>name (selected, seen).
     sbind (ok_or (lk name) e) (\<lambda>i. if i \<in> seen then Inl e' else Inr (selected @ [i], insert i seen))) names (sel, S) = Inr (sel', S') \<longleftrightarrow>
     (\<exists>ids. list_all2 (\<lambda>n i. lk n = Some i) names ids \<and> sel' = sel @ ids \<and> S' = S \<union> set ids \<and> distinct ids \<and> set ids \<inter> S = {})"
proof (induction names arbitrary: sel S)
  case Nil
  then show ?case by auto
next
  case (Cons n names)
  show ?case
  proof (cases "lk n")
    case None
    then show ?thesis by (auto simp: list_all2_Cons1)
  next
    case (Some i)
    show ?thesis
    proof (cases "i \<in> S")
      case True
      with Some show ?thesis by (auto simp: list_all2_Cons1)
    next
      case False
      have "(\<exists>ids. list_all2 (\<lambda>n i. lk n = Some i) (n # names) ids \<and> sel' = sel @ ids \<and> S' = S \<union> set ids \<and> distinct ids \<and> set ids \<inter> S = {}) \<longleftrightarrow>
          (\<exists>ids. list_all2 (\<lambda>n i. lk n = Some i) names ids \<and> sel' = sel @ i # ids \<and> S' = S \<union> set (i # ids) \<and>
             distinct (i # ids) \<and> set (i # ids) \<inter> S = {})"
        by (simp only: list_all2_Cons1 Some option.inject) (rule iffI; elim exE conjE; simp)
      with False Some show ?thesis using Cons.IH [of "sel @ [i]" "insert i S"] by (simp add: conj_commute conj_left_commute)
    qed
  qed
qed

lemma resolve_projection_Inr:
  assumes "bundle_ok f" and "resolve_projection h f projection = Inr ids"
  shows "distinct ids" and "set ids \<subseteq> bc_id ` set (cbf_columns f)"
    and "case projection of Projection_All \<Rightarrow> ids = map bc_id (cbf_columns f)
         | Projection_Names names \<Rightarrow>
             list_all2 (\<lambda>name i. \<exists>c \<in> set (cbf_columns f). bc_name c = name \<and> i = bc_id c) names ids"
proof -
  have dist: "distinct (map bc_id (cbf_columns f))" and names: "distinct (map bc_name (cbf_columns f))"
    using assms(1) by (simp_all add: bundle_ok_def Let_def)
  have "distinct ids \<and> set ids \<subseteq> bc_id ` set (cbf_columns f) \<and>
     (case projection of Projection_All \<Rightarrow> ids = map bc_id (cbf_columns f)
      | Projection_Names names \<Rightarrow>
          list_all2 (\<lambda>name i. \<exists>c \<in> set (cbf_columns f). bc_name c = name \<and> i = bc_id c) names ids)"
  proof (cases projection)
    case Projection_All
    with assms(2) dist show ?thesis
      by (auto simp: resolve_projection_def sbind_eq_Inr dest!: try_column_bundle_Inr(1))
  next
    case (Projection_Names ns)
    with assms(2) have all: "list_all2 (\<lambda>name i. \<exists>c \<in> set (cbf_columns f). bc_name c = name \<and> i = bc_id c) ns ids"
      and "distinct ids"
      by (auto simp: resolve_projection_def sbind_eq_Inr Let_def for_each_select_names columns_by_name_get [OF names]
          dest!: try_column_bundle_Inr)
    moreover from all have "set ids \<subseteq> bc_id ` set (cbf_columns f)"
      by (induction rule: list_all2_induct) auto
    ultimately show ?thesis by (simp add: Projection_Names)
  qed
  then show "distinct ids" "set ids \<subseteq> bc_id ` set (cbf_columns f)"
    "case projection of Projection_All \<Rightarrow> ids = map bc_id (cbf_columns f)
     | Projection_Names names \<Rightarrow>
         list_all2 (\<lambda>name i. \<exists>c \<in> set (cbf_columns f). bc_name c = name \<and> i = bc_id c) names ids"
    by blast+
qed

definition predicate_resolved :: "ColumnBundleFile \<Rightarrow> RowGroupPredicate \<Rightarrow> ResolvedRowGroupPredicate \<Rightarrow> bool" where
  "predicate_resolved f p r \<longleftrightarrow>
     (\<exists>c \<in> set (cbf_columns f). bc_name c = pred_column p \<and> rp_column_id r = bc_id c \<and>
        rp_physical_type r = bc_physical_type c) \<and>
     rp_lower r = pred_lower p \<and> rp_upper r = pred_upper p"

lemma resolve_predicates_Inr:
  assumes "bundle_ok f" and "resolve_predicates h f ps = Inr rs"
  shows "list_all2 (predicate_resolved f) ps rs"
proof -
  have names: "distinct (map bc_name (cbf_columns f))" using assms(1) by (simp add: bundle_ok_def Let_def)
  have one: "predicate_resolved f p r" if "resolve_predicate (columns_by_name [] (\<lambda>c. c) (cbf_columns f)) p = Inr r" for p r
  proof -
    from that obtain c where "c \<in> set (cbf_columns f)" "bc_name c = pred_column p"
      "r = \<lparr>rp_column_id = bc_id c, rp_physical_type = bc_physical_type c, rp_lower = pred_lower p, rp_upper = pred_upper p\<rparr>"
      unfolding resolve_predicate_def
      by (elim sbind_InrE) (auto simp: columns_by_name_get [OF names] sbind_eq_Inr split: if_splits)
    then show ?thesis by (auto simp: predicate_resolved_def intro: bexI [of _ c])
  qed
  from assms(2) have "try_map (resolve_predicate (columns_by_name [] (\<lambda>c. c) (cbf_columns f))) ps = Inr rs"
    by (auto simp: resolve_predicates_def sbind_eq_Inr Let_def dest!: try_column_bundle_Inr)
  then show ?thesis by (auto simp: try_map_Inr_iff elim!: list_all2_mono intro: one)
qed

text \<open>
  The statistics of a row group exclude one of the predicates of a request.
\<close>

definition request_prunes :: "ColumnBundleFile \<Rightarrow> RowGroupPredicate list \<Rightarrow> OcbRowGroupDescV1 \<Rightarrow> bool" where
  "request_prunes f ps g \<longleftrightarrow>
     (\<exists>p \<in> set ps. \<exists>c \<in> set (cbf_columns f). bc_name c = pred_column p \<and>
        (\<exists>s \<in> set (stats_of (cbf_metadata f) g). stat_column_id s = bc_id c \<and> excludes s (pred_lower p) (pred_upper p)))"

lemma pruned_request_prunes:
  assumes "list_all2 (predicate_resolved f) ps rs" and "distinct (map bc_name (cbf_columns f))"
  shows "pruned (cbf_metadata f) rs g \<longleftrightarrow> request_prunes f ps g"
  using assms(1)
proof (induction rule: list_all2_induct)
  case Nil
  then show ?case by (simp add: pruned_def request_prunes_def)
next
  case (Cons p ps r rs)
  have uniq: "c = d" if "c \<in> set (cbf_columns f)" "d \<in> set (cbf_columns f)" "bc_name c = bc_name d" for c d
    using that assms(2) by (auto simp: distinct_map inj_on_def)
  from Cons.hyps(1) obtain c where c: "c \<in> set (cbf_columns f)" "bc_name c = pred_column p" "rp_column_id r = bc_id c"
    "rp_lower r = pred_lower p" "rp_upper r = pred_upper p" by (auto simp: predicate_resolved_def)
  have "d = c" if "d \<in> set (cbf_columns f)" "bc_name d = pred_column p" for d
    using that c(1,2) by (intro uniq) simp_all
  with c have "(\<exists>s \<in> set (stats_of (cbf_metadata f) g). stat_column_id s = rp_column_id r \<and> excludes s (rp_lower r) (rp_upper r)) \<longleftrightarrow>
      (\<exists>c \<in> set (cbf_columns f). bc_name c = pred_column p \<and>
        (\<exists>s \<in> set (stats_of (cbf_metadata f) g). stat_column_id s = bc_id c \<and> excludes s (pred_lower p) (pred_upper p)))"
    by metis
  with Cons.IH show ?case by (auto simp: pruned_def request_prunes_def)
qed

text \<open>What a plan is made of.\<close>

lemma plan_read_Inr:
  assumes "bundle_ok f" and "plan_read h f request = Inr plan"
  defines "groups \<equiv> rgi_row_groups (md_row_group_index (cbf_metadata f))"
  shows "resolve_projection h f (req_projection request) = Inr (plan_projected_column_ids plan)"
    and "plan_row_group_ids plan = map rg_row_group_id (filter (\<lambda>g. \<not> request_prunes f (req_predicates request) g) groups)"
    and "plan_report plan = build_read_report (ro_max_threads (req_options request)) (length (plan_row_group_ids plan))
      (length groups - length (plan_row_group_ids plan)) (length (plan_projected_column_ids plan))"
    and "length (plan_row_group_ids plan) \<le> length groups"
proof -
  from assms(2) obtain selected rs ids n where
    sel: "resolve_projection h f (req_projection request) = Inr selected" and
    rs: "resolve_predicates h f (req_predicates request) = Inr rs" and
    ids: "select_row_groups h f rs [] = Inr (ids, n)" and
    plan: "plan = \<lparr>plan_projected_column_ids = selected, plan_row_group_ids = ids,
      plan_report = build_read_report (ro_max_threads (req_options request)) (length ids) n (length selected)\<rparr>"
    unfolding plan_read_def Let_def by (auto elim!: sbind_pairE sbind_InrE dest!: try_column_bundle_Inr(1))
  have eq: "pruned (cbf_metadata f) rs g \<longleftrightarrow> request_prunes f (req_predicates request) g" for g
    using resolve_predicates_Inr [OF assms(1) rs] assms(1) by (intro pruned_request_prunes) (simp_all add: bundle_ok_def Let_def)
  note sr = select_row_groups_Inr [OF ids, folded groups_def, unfolded eq]
  have "n = length groups - length ids"
    using sum_length_filter_compl [of "request_prunes f (req_predicates request)" groups] by (simp add: sr)
  with sr sel show "resolve_projection h f (req_projection request) = Inr (plan_projected_column_ids plan)"
    "plan_row_group_ids plan = map rg_row_group_id (filter (\<lambda>g. \<not> request_prunes f (req_predicates request) g) groups)"
    "plan_report plan = build_read_report (ro_max_threads (req_options request)) (length (plan_row_group_ids plan))
      (length groups - length (plan_row_group_ids plan)) (length (plan_projected_column_ids plan))"
    "length (plan_row_group_ids plan) \<le> length groups"
    by (simp_all add: plan)
qed

text \<open>Plans that name known columns and row groups, each at most once.\<close>

definition plan_ok :: "ColumnBundleFile \<Rightarrow> ColumnBundleReadPlan \<Rightarrow> bool" where
  "plan_ok f plan \<longleftrightarrow>
     distinct (plan_projected_column_ids plan) \<and> set (plan_projected_column_ids plan) \<subseteq> bc_id ` set (cbf_columns f) \<and>
     distinct (plan_row_group_ids plan) \<and>
     (\<forall>i \<in> set (plan_row_group_ids plan). row_group_by_id (cbf_metadata f) i \<noteq> None)"

lemma for_each_known_distinct:
  "for_each (\<lambda>x S. if \<not> K x then Inl e else if x \<in> S then Inl e' else Inr (insert x S)) xs S = Inr T \<longleftrightarrow>
     (\<forall>x \<in> set xs. K x) \<and> distinct xs \<and> set xs \<inter> S = {} \<and> T = S \<union> set xs"
  by (induction xs arbitrary: S) auto

lemmas known_distinct_simps = for_each_known_distinct [where K = "\<lambda>x. x \<in> A" for A]
  for_each_known_distinct [where K = "\<lambda>x. F x \<noteq> None" for F, simplified]

lemma validate_read_plan_Inr: "validate_read_plan h f plan = Inr u \<Longrightarrow> plan_ok f plan"
  unfolding validate_read_plan_def Let_def
  by (auto elim!: sbind_InrE dest!: try_column_bundle_Inr simp: known_distinct_simps plan_ok_def)

lemma validate_read_plan_ok:
  assumes "plan_ok f plan" and "validate_read_plan h f plan = Inl e"
  shows "e = column_bundle_allocation_error"
proof -
  have cols: "for_each (\<lambda>x S. if x \<notin> A then Inl e1 else if x \<in> S then Inl e2 else Inr (insert x S)) (plan_projected_column_ids plan) {} =
      Inr (set (plan_projected_column_ids plan))"
    if "bc_id ` set (cbf_columns f) = A" for A and e1 e2 :: ArcadiaTioError
    using assms(1) that by (auto simp: known_distinct_simps plan_ok_def)
  have groups: "for_each (\<lambda>x S. if row_group_by_id (cbf_metadata f) x = None then Inl e1 else if x \<in> S then Inl e2 else Inr (insert x S))
      (plan_row_group_ids plan) {} = Inr (set (plan_row_group_ids plan))" for e1 e2 :: ArcadiaTioError
    using assms(1) by (auto simp: known_distinct_simps plan_ok_def)
  show ?thesis using assms(2) cols groups
    by (auto simp: validate_read_plan_def Let_def sbind_eq_Inl try_column_bundle_hash_set_with_capacity_def split: if_splits)
qed

end
