(* ===== verification/Fingerprint.thy ===== *)
theory Fingerprint
  imports Planning
begin

text \<open>
  Row-group summaries (\<open>column_bundle.rs\<close>) and the snapshot fingerprints computed over them
  (\<open>column_bundle/planning.rs\<close>).  Each \<open>fp_\<close> function appends to a byte vector and is modelled by the bytes
  it appends; a fingerprint is the CRC-32C of such a vector in hexadecimal.
\<close>

section \<open>Encoding\<close>

definition fp_u8 :: "u8 \<Rightarrow> bytes" where
  "fp_u8 v = [v]"

definition fp_u16 :: "u16 \<Rightarrow> bytes" where
  "fp_u16 v = to_le_bytes 2 v"

definition fp_u32 :: "u32 \<Rightarrow> bytes" where
  "fp_u32 v = to_le_bytes 4 v"

definition fp_i32 :: "i32 \<Rightarrow> bytes" where
  "fp_i32 v = to_le_bytes 4 v"

definition fp_u64 :: "u64 \<Rightarrow> bytes" where
  "fp_u64 v = to_le_bytes 8 v"

definition fp_i64 :: "i64 \<Rightarrow> bytes" where
  "fp_i64 v = to_le_bytes 8 v"

definition fp_bool :: "bool \<Rightarrow> bytes" where
  "fp_bool v = fp_u8 (if v then 1 else 0)"

definition fp_str :: "bytes \<Rightarrow> bytes" where
  "fp_str v = fp_u64 (of_nat (length v)) @ v"

text \<open>\<open>format!("{:08x}", value)\<close>: eight lower-case hexadecimal digits, the most significant first.\<close>

definition hex_digit :: "u32 \<Rightarrow> u8" where
  "hex_digit d = (if d < 10 then 48 + ucast d else 87 + ucast d)"

definition fp_hex :: "bytes \<Rightarrow> bytes" where
  "fp_hex bs = map (\<lambda>i. hex_digit (drop_bit (4 * (7 - i)) (crc32c bs) AND 15)) [0..<8]"

definition fp_option_u32 :: "u32 option \<Rightarrow> bytes" where
  "fp_option_u32 v = (case v of Some v \<Rightarrow> fp_u8 1 @ fp_u32 v | None \<Rightarrow> fp_u8 0)"

fun fp_predicate_value :: "ColumnPredicateValue \<Rightarrow> bytes" where
  "fp_predicate_value (Value_I32 v) = fp_u8 1 @ fp_i32 v"
| "fp_predicate_value (Value_I64 v) = fp_u8 2 @ fp_i64 v"
| "fp_predicate_value (Value_F32 v) = fp_u8 3 @ fp_u32 v"
| "fp_predicate_value (Value_F64 v) = fp_u8 4 @ fp_u64 v"

fun fp_checksum_kind :: "ColumnBundleChecksumKind \<Rightarrow> bytes" where
  "fp_checksum_kind BundleChecksum_None = fp_u8 0"
| "fp_checksum_kind BundleChecksum_Crc32c = fp_u8 1"

fun fp_body_kind :: "ColumnBundleBodyKind \<Rightarrow> bytes" where
  "fp_body_kind BundleBody_Unknown = fp_u8 0"
| "fp_body_kind BundleBody_Root = fp_u8 1"
| "fp_body_kind BundleBody_Schema = fp_u8 2"
| "fp_body_kind BundleBody_DictionaryIndex = fp_u8 3"
| "fp_body_kind BundleBody_DictionaryValues = fp_u8 4"
| "fp_body_kind BundleBody_RowGroupIndex = fp_u8 5"
| "fp_body_kind BundleBody_OrderingProof = fp_u8 6"
| "fp_body_kind BundleBody_ColumnChunk = fp_u8 7"
| "fp_body_kind BundleBody_StringTable = fp_u8 8"
| "fp_body_kind BundleBody_DebugJsonMetadata = fp_u8 9"
| "fp_body_kind BundleBody_ValidityBitmap = fp_u8 10"
| "fp_body_kind BundleBody_KeyTuple = fp_u8 11"
| "fp_body_kind BundleBody_RowGroupIndexDelta = fp_u8 12"

fun fp_chunk_codec :: "ColumnBundleColumnChunkSummaryCodec \<Rightarrow> bytes" where
  "fp_chunk_codec SummaryCodec_None = fp_u8 0"
| "fp_chunk_codec SummaryCodec_Zstd = fp_u8 1"

fun fp_null_order :: "BundleNullOrder \<Rightarrow> bytes" where
  "fp_null_order Bundle_NullsFirst = fp_u8 1"
| "fp_null_order Bundle_NullsLast = fp_u8 2"
| "fp_null_order Bundle_NoNulls = fp_u8 3"

fun fp_ordering_direction :: "BundleOrderingDirection \<Rightarrow> bytes" where
  "fp_ordering_direction Bundle_Ascending = fp_u8 1"
| "fp_ordering_direction Bundle_Descending = fp_u8 2"

fun fp_dictionary_value_kind :: "DictionaryValueKind \<Rightarrow> bytes" where
  "fp_dictionary_value_kind DictionaryKind_Utf8 = fp_u8 1"
| "fp_dictionary_value_kind DictionaryKind_Bytes = fp_u8 2"
| "fp_dictionary_value_kind DictionaryKind_FixedBytes = fp_u8 3"
| "fp_dictionary_value_kind DictionaryKind_EnumLabels = fp_u8 4"

fun fp_column_logical_kind :: "ColumnLogicalKind \<Rightarrow> bytes" where
  "fp_column_logical_kind Column_Plain = fp_u8 0"
| "fp_column_logical_kind Column_TimestampNanosLike = fp_u8 1"
| "fp_column_logical_kind Column_ScaledInteger = fp_u8 2"
| "fp_column_logical_kind Column_DictionaryCode = fp_u8 3"
| "fp_column_logical_kind Column_EnumCode = fp_u8 4"
| "fp_column_logical_kind Column_OpaqueKey = fp_u8 5"

fun fp_column_physical_type :: "ColumnPhysicalType \<Rightarrow> bytes" where
  "fp_column_physical_type Column_I32 = fp_u8 1"
| "fp_column_physical_type Column_I64 = fp_u8 2"
| "fp_column_physical_type Column_F32 = fp_u8 3"
| "fp_column_physical_type Column_F64 = fp_u8 4"
| "fp_column_physical_type (Column_FixedBinary width) = fp_u8 5 @ fp_u32 width"

definition fp_body_ref_summary :: "ColumnBundleBodyRefSummary \<Rightarrow> bytes" where
  "fp_body_ref_summary body_ref =
     fp_u64 (brs_offset body_ref) @ fp_u64 (brs_length body_ref) @ fp_body_kind (brs_kind body_ref) @
     fp_u16 (brs_flags body_ref) @ fp_checksum_kind (brs_checksum_kind body_ref) @ fp_u32 (brs_checksum body_ref)"

definition fp_option_body_ref_summary :: "ColumnBundleBodyRefSummary option \<Rightarrow> bytes" where
  "fp_option_body_ref_summary v = (case v of Some v \<Rightarrow> fp_u8 1 @ fp_body_ref_summary v | None \<Rightarrow> fp_u8 0)"

definition fp_column_stats_summary :: "ColumnBundleColumnStatsSummary \<Rightarrow> bytes" where
  "fp_column_stats_summary stat =
     fp_u32 (css_row_group_id stat) @ fp_u32 (css_column_id stat) @ fp_str (css_column_name stat) @
     fp_column_physical_type (css_physical_type stat) @ fp_u32 (css_null_count stat) @
     fp_predicate_value (css_min stat) @ fp_predicate_value (css_max stat)"

definition fp_column_chunk_summary :: "ColumnBundleColumnChunkSummary \<Rightarrow> bytes" where
  "fp_column_chunk_summary chunk =
     fp_u32 (ccs_row_group_id chunk) @ fp_u32 (ccs_column_id chunk) @ fp_str (ccs_column_name chunk) @
     fp_column_physical_type (ccs_physical_type chunk) @ fp_column_logical_kind (ccs_logical_kind chunk) @
     fp_option_u32 (ccs_fixed_binary_width chunk) @ fp_chunk_codec (ccs_codec chunk) @
     fp_u64 (ccs_row_count chunk) @ fp_u64 (ccs_compressed_bytes chunk) @ fp_u64 (ccs_uncompressed_bytes chunk) @
     fp_body_ref_summary (ccs_value_ref chunk) @ fp_option_body_ref_summary (ccs_validity_ref chunk)"

definition fp_row_group_summary :: "ColumnBundleRowGroupSummary \<Rightarrow> bytes" where
  "fp_row_group_summary row_group =
     fp_u32 (rgs_row_group_id row_group) @ fp_u64 (rgs_base_row row_group) @ fp_u64 (rgs_row_count row_group) @
     fp_option_body_ref_summary (rgs_first_key_tuple_ref row_group) @
     fp_option_body_ref_summary (rgs_last_key_tuple_ref row_group) @
     fp_u32 (of_nat (length (rgs_chunks row_group))) @ concat (map fp_column_chunk_summary (rgs_chunks row_group)) @
     fp_u32 (of_nat (length (rgs_stats row_group))) @ concat (map fp_column_stats_summary (rgs_stats row_group))"

text \<open>The loop bodies of the declaration fingerprints, and the vectors they build.\<close>

definition fp_schema_column :: "BundleColumn \<Rightarrow> bytes" where
  "fp_schema_column column =
     fp_u32 (bc_id column) @ fp_str (bc_name column) @ fp_column_physical_type (bc_physical_type column) @
     fp_column_logical_kind (bc_logical_kind column) @ fp_option_u32 (bc_dictionary_id column) @
     fp_i32 (bc_scale column) @ fp_bool (bc_nullable column)"

definition schema_fingerprint_bytes :: "ColumnBundleMetadata \<Rightarrow> bytes" where
  "schema_fingerprint_bytes metadata =
     fp_str (str_bytes ''schema'') @ fp_str (cbm_format_name metadata) @ fp_bool (cbm_appendable metadata) @
     fp_u64 (cbm_row_count metadata) @ fp_u32 (cbm_row_group_count metadata) @
     fp_u32 (cbm_column_chunk_count metadata) @ fp_u32 (of_nat (length (cbm_columns metadata))) @
     concat (map fp_schema_column (cbm_columns metadata))"

definition fingerprint_schema :: "ColumnBundleMetadata \<Rightarrow> bytes" where
  "fingerprint_schema metadata = fp_hex (schema_fingerprint_bytes metadata)"

definition fp_dictionary :: "BundleDictionaryDescriptor \<Rightarrow> bytes" where
  "fp_dictionary dictionary =
     fp_u32 (bdd_dictionary_id dictionary) @ fp_str (bdd_name dictionary) @
     fp_column_physical_type (bdd_code_physical_type dictionary) @
     fp_dictionary_value_kind (bdd_value_kind dictionary) @ fp_u32 (bdd_entry_count dictionary)"

definition dictionaries_fingerprint_bytes :: "ColumnBundleMetadata \<Rightarrow> bytes" where
  "dictionaries_fingerprint_bytes metadata =
     fp_str (str_bytes ''dictionaries'') @ fp_u32 (of_nat (length (cbm_dictionaries metadata))) @
     concat (map fp_dictionary (cbm_dictionaries metadata))"

definition fingerprint_dictionaries :: "ColumnBundleMetadata \<Rightarrow> bytes" where
  "fingerprint_dictionaries metadata = fp_hex (dictionaries_fingerprint_bytes metadata)"

definition fp_ordering_key :: "BundleOrderingKey \<Rightarrow> bytes" where
  "fp_ordering_key key =
     fp_u32 (bok_column_id key) @ fp_str (bok_column_name key) @ fp_ordering_direction (bok_direction key) @
     fp_null_order (bok_null_order key)"

definition ordering_fingerprint_bytes :: "ColumnBundleMetadata \<Rightarrow> bytes" where
  "ordering_fingerprint_bytes metadata =
     fp_str (str_bytes ''ordering'') @ fp_u32 (of_nat (length (cbm_ordering_keys metadata))) @
     concat (map fp_ordering_key (cbm_ordering_keys metadata))"

definition fingerprint_ordering :: "ColumnBundleMetadata \<Rightarrow> bytes" where
  "fingerprint_ordering metadata = fp_hex (ordering_fingerprint_bytes metadata)"

definition row_groups_fingerprint_bytes :: "ColumnBundleRowGroupSummary list \<Rightarrow> bytes" where
  "row_groups_fingerprint_bytes row_groups =
     fp_str (str_bytes ''row_groups'') @ fp_u32 (of_nat (length row_groups)) @
     concat (map fp_row_group_summary row_groups)"

definition fingerprint_row_group_summaries :: "ColumnBundleRowGroupSummary list \<Rightarrow> bytes" where
  "fingerprint_row_group_summaries row_groups = fp_hex (row_groups_fingerprint_bytes row_groups)"

definition fp_selected_row_group :: "ColumnBundleRowGroupSummary \<Rightarrow> bytes" where
  "fp_selected_row_group row_group =
     fp_u32 (rgs_row_group_id row_group) @ fp_u64 (rgs_base_row row_group) @ fp_u64 (rgs_row_count row_group) @
     fp_u32 (of_nat (length (rgs_chunks row_group))) @ concat (map fp_column_chunk_summary (rgs_chunks row_group))"

definition selected_chunks_fingerprint_bytes :: "ColumnBundleRowGroupSummary list \<Rightarrow> bytes" where
  "selected_chunks_fingerprint_bytes row_groups =
     fp_str (str_bytes ''selected_chunks'') @ fp_u32 (of_nat (length row_groups)) @
     concat (map fp_selected_row_group row_groups)"

definition fingerprint_selected_chunks :: "ColumnBundleRowGroupSummary list \<Rightarrow> bytes" where
  "fingerprint_selected_chunks row_groups = fp_hex (selected_chunks_fingerprint_bytes row_groups)"

definition OCB_CERTIFICATION_FINGERPRINT_ALGORITHM :: string where
  "OCB_CERTIFICATION_FINGERPRINT_ALGORITHM = ''ocb.generic.crc32c.v1''"

record ColumnBundleSnapshotFingerprint =
  sf_algorithm :: bytes
  sf_schema :: bytes
  sf_dictionaries :: bytes
  sf_ordering :: bytes
  sf_row_groups :: bytes
  sf_combined :: bytes

definition snapshot_fingerprint_for_summaries ::
  "ColumnBundleMetadata \<Rightarrow> ColumnBundleRowGroupSummary list \<Rightarrow> ColumnBundleSnapshotFingerprint" where
  "snapshot_fingerprint_for_summaries metadata row_groups =
     (let schema = fingerprint_schema metadata;
          dictionaries = fingerprint_dictionaries metadata;
          ordering = fingerprint_ordering metadata;
          row_groups_fp = fingerprint_row_group_summaries row_groups;
          combined = fp_str (str_bytes OCB_CERTIFICATION_FINGERPRINT_ALGORITHM) @ fp_str schema @
            fp_str dictionaries @ fp_str ordering @ fp_str row_groups_fp in
      \<lparr>sf_algorithm = str_bytes OCB_CERTIFICATION_FINGERPRINT_ALGORITHM, sf_schema = schema,
       sf_dictionaries = dictionaries, sf_ordering = ordering, sf_row_groups = row_groups_fp,
       sf_combined = fp_hex combined\<rparr>)"

section \<open>Row-group summaries\<close>

definition body_ref_summary :: "OcbBodyRefV2 \<Rightarrow> ColumnBundleBodyRefSummary" where
  "body_ref_summary body_ref =
     \<lparr>brs_offset = br_offset body_ref, brs_length = br_length body_ref,
      brs_kind = ColumnBundleBodyKind_from (br_kind body_ref), brs_flags = br_flags body_ref,
      brs_checksum_kind = ColumnBundleChecksumKind_from (br_checksum_kind body_ref),
      brs_checksum = br_checksum body_ref\<rparr>"

definition checked_body_ref_summary :: "OcbBodyRefV2 \<Rightarrow> OcbBodyKindV1 \<Rightarrow> u64 \<Rightarrow> ColumnBundleBodyRefSummary result" where
  "checked_body_ref_summary body_ref expected_kind file_len =
     sbind (OcbBodyRefV2_validate body_ref expected_kind file_len) (\<lambda>_. Inr (body_ref_summary body_ref))"

definition checked_optional_body_ref_summary ::
  "OcbBodyRefV2 \<Rightarrow> OcbBodyKindV1 \<Rightarrow> u64 \<Rightarrow> ColumnBundleBodyRefSummary option result" where
  "checked_optional_body_ref_summary body_ref expected_kind file_len =
     (if is_null body_ref then Inr None else
      sbind (checked_body_ref_summary body_ref expected_kind file_len) (\<lambda>summary. Inr (Some summary)))"

definition column_chunk_compressed_payload_bytes :: "OcbBodyRefV2 \<Rightarrow> u64 result" where
  "column_chunk_compressed_payload_bytes value_ref =
     (let object_overhead = ucast OCB_COLUMN_CHUNK_V1_HEADER_LEN + 4 in
      ok_or (checked_sub (br_length value_ref) object_overhead)
        (ocb_corrupt_file ''OCB column chunk body reference is too short''))"

fun public_physical_type_from_chunk :: "OcbPhysicalTypeV1 \<Rightarrow> BundleColumn \<Rightarrow> ColumnPhysicalType result" where
  "public_physical_type_from_chunk physical_type column =
     (case (physical_type, bc_physical_type column) of
        (Phys_I32, Column_I32) \<Rightarrow> Inr Column_I32
      | (Phys_I64, Column_I64) \<Rightarrow> Inr Column_I64
      | (Phys_F32, Column_F32) \<Rightarrow> Inr Column_F32
      | (Phys_F64, Column_F64) \<Rightarrow> Inr Column_F64
      | (Phys_FixedBinary, Column_FixedBinary width) \<Rightarrow> Inr (Column_FixedBinary width)
      | _ \<Rightarrow> Inl (ocb_corrupt_file ''OCB column chunk dtype does not match schema column dtype''))"

definition column_by_id :: "ColumnBundleFile \<Rightarrow> u32 \<Rightarrow> BundleColumn result" where
  "column_by_id self column_id =
     ok_or (List.find (\<lambda>column. bc_id column = column_id) (cbf_columns self))
       (ocb_corrupt_file ''OCB metadata references an unknown column id'')"

definition build_chunk_summary ::
  "host \<Rightarrow> ColumnBundleFile \<Rightarrow> OcbColumnChunkDescV1 \<Rightarrow> ColumnBundleColumnChunkSummary result" where
  "build_chunk_summary h self chunk =
     sbind (column_by_id self (chunk_column_id chunk)) (\<lambda>column.
     sbind (public_physical_type_from_chunk (chunk_physical_type chunk) column) (\<lambda>physical_type.
     let fixed_binary_width = (case physical_type of Column_FixedBinary width \<Rightarrow> Some width | _ \<Rightarrow> None) in
     sbind (checked_body_ref_summary (chunk_value_ref chunk) BodyKind_ColumnChunk (md_file_len (cbf_metadata self))) (\<lambda>value_ref.
     sbind (checked_optional_body_ref_summary (chunk_validity_ref chunk) BodyKind_ValidityBitmap
        (md_file_len (cbf_metadata self))) (\<lambda>validity_ref.
     sbind (clone_column_bundle_string_fallibly h (bc_name column)) (\<lambda>column_name.
     sbind (column_chunk_compressed_payload_bytes (chunk_value_ref chunk)) (\<lambda>compressed_bytes.
     Inr \<lparr>ccs_row_group_id = chunk_row_group_id chunk, ccs_column_id = chunk_column_id chunk,
          ccs_column_name = column_name, ccs_physical_type = physical_type,
          ccs_logical_kind = bc_logical_kind column, ccs_fixed_binary_width = fixed_binary_width,
          ccs_codec = ColumnBundleColumnChunkSummaryCodec_from (chunk_codec chunk),
          ccs_row_count = chunk_row_count chunk, ccs_compressed_bytes = compressed_bytes,
          ccs_uncompressed_bytes = chunk_uncompressed_bytes chunk, ccs_value_ref = value_ref,
          ccs_validity_ref = validity_ref\<rparr>))))))"

definition build_stat_summary ::
  "host \<Rightarrow> ColumnBundleFile \<Rightarrow> OcbColumnStatsV1 \<Rightarrow> ColumnBundleColumnStatsSummary result" where
  "build_stat_summary h self stat =
     sbind (column_by_id self (stat_column_id stat)) (\<lambda>column.
     sbind (scalar_column_physical_type (stat_physical_type stat)) (\<lambda>physical_type.
     if physical_type \<noteq> bc_physical_type column
     then Inl (ocb_corrupt_file ''OCB row-group stat dtype does not match column dtype'') else
     sbind (clone_column_bundle_string_fallibly h (bc_name column)) (\<lambda>column_name.
     Inr \<lparr>css_row_group_id = stat_row_group_id stat, css_column_id = stat_column_id stat,
          css_column_name = column_name, css_physical_type = physical_type,
          css_null_count = stat_null_count stat, css_min = from_stat (stat_min_value stat),
          css_max = from_stat (stat_max_value stat)\<rparr>)))"

definition build_row_group_summary ::
  "host \<Rightarrow> ColumnBundleFile \<Rightarrow> OcbRowGroupDescV1 \<Rightarrow> u32 set option \<Rightarrow> ColumnBundleRowGroupSummary result" where
  "build_row_group_summary h self row_group projected_column_ids =
     (let metadata = cbf_metadata self; file_len = md_file_len metadata in
     sbind (column_chunks_for_row_group metadata (rg_chunk_desc_begin row_group) (rg_chunk_desc_count row_group)) (\<lambda>chunks.
     sbind (try_column_bundle_vec_with_capacity h TyChunkSummary (length chunks)) (\<lambda>chunk_summaries.
     sbind (for_each (\<lambda>chunk chunk_summaries.
       if chunk_row_group_id chunk \<noteq> rg_row_group_id row_group
       then Inl (ocb_corrupt_file ''OCB column chunk references a different row group'') else
       if (case projected_column_ids of Some selected \<Rightarrow> chunk_column_id chunk \<notin> selected | None \<Rightarrow> False)
       then Inr chunk_summaries else
       sbind (build_chunk_summary h self chunk) (\<lambda>summary.
       Inr (chunk_summaries @ [summary]))) chunks chunk_summaries) (\<lambda>chunk_summaries.
     sbind (stats_for_row_group metadata (rg_stat_begin row_group) (rg_stat_count row_group)) (\<lambda>stats.
     sbind (try_column_bundle_vec_with_capacity h TyStatsSummary (length stats)) (\<lambda>stat_summaries.
     sbind (for_each (\<lambda>stat stat_summaries.
       if stat_row_group_id stat \<noteq> rg_row_group_id row_group
       then Inl (ocb_corrupt_file ''OCB row-group stat references a different row group'') else
       sbind (build_stat_summary h self stat) (\<lambda>summary.
       Inr (stat_summaries @ [summary]))) stats stat_summaries) (\<lambda>stat_summaries.
     sbind (checked_optional_body_ref_summary (rg_first_key_tuple_ref row_group) BodyKind_KeyTuple file_len) (\<lambda>first_key_tuple_ref.
     sbind (checked_optional_body_ref_summary (rg_last_key_tuple_ref row_group) BodyKind_KeyTuple file_len) (\<lambda>last_key_tuple_ref.
     Inr \<lparr>rgs_row_group_id = rg_row_group_id row_group, rgs_base_row = rg_base_row row_group,
          rgs_row_count = rg_row_count row_group, rgs_first_key_tuple_ref = first_key_tuple_ref,
          rgs_last_key_tuple_ref = last_key_tuple_ref, rgs_chunks = chunk_summaries,
          rgs_stats = stat_summaries\<rparr>)))))))))"

definition build_row_group_summaries ::
  "host \<Rightarrow> ColumnBundleFile \<Rightarrow> u32 list \<Rightarrow> u32 set option \<Rightarrow> ColumnBundleRowGroupSummary list result" where
  "build_row_group_summaries h self row_group_ids projected_column_ids =
     (let row_group_count = length (rgi_row_groups (md_row_group_index (cbf_metadata self))) in
     sbind (try_column_bundle_vec_with_capacity h TyRowGroupSummary row_group_count) (\<lambda>summaries.
     sbind (try_column_bundle_hash_set_with_capacity h row_group_count) (\<lambda>seen.
     sbind (for_each (\<lambda>row_group_id (seen, summaries).
       if row_group_id \<in> seen
       then Inl (ocb_invalid_input ''OCB row-group summary request contains duplicate row group ids'') else
       sbind (ok_or (row_group_by_id (cbf_metadata self) row_group_id)
          (ocb_invalid_input ''OCB row-group summary request references an unknown row group id'')) (\<lambda>row_group.
       sbind (build_row_group_summary h self row_group projected_column_ids) (\<lambda>summary.
       Inr (insert row_group_id seen, summaries @ [summary])))) row_group_ids (seen, summaries)) (\<lambda>(_, summaries).
     Inr summaries))))"

definition row_group_summaries :: "host \<Rightarrow> ColumnBundleFile \<Rightarrow> ColumnBundleRowGroupSummary list result" where
  "row_group_summaries h self =
     build_row_group_summaries h self
       (map rg_row_group_id (rgi_row_groups (md_row_group_index (cbf_metadata self)))) None"

definition read_plan_row_group_summaries ::
  "host \<Rightarrow> ColumnBundleFile \<Rightarrow> ColumnBundleReadPlan \<Rightarrow> ColumnBundleRowGroupSummary list result" where
  "read_plan_row_group_summaries h self plan =
     sbind (validate_read_plan h self plan) (\<lambda>_.
     sbind (try_column_bundle_hash_set_with_capacity h (length (plan_projected_column_ids plan))) (\<lambda>projected_column_ids.
     let projected_column_ids = projected_column_ids \<union> set (plan_projected_column_ids plan) in
     build_row_group_summaries h self (plan_row_group_ids plan) (Some projected_column_ids)))"

section \<open>Certification\<close>

definition snapshot_fingerprint :: "host \<Rightarrow> ColumnBundleFile \<Rightarrow> ColumnBundleSnapshotFingerprint result" where
  "snapshot_fingerprint h self =
     sbind (ColumnBundleFile_metadata h self) (\<lambda>metadata.
     sbind (row_group_summaries h self) (\<lambda>row_groups.
     Inr (snapshot_fingerprint_for_summaries metadata row_groups)))"

record ColumnBundleReadPlanCertification =
  rpc_snapshot_fingerprint :: ColumnBundleSnapshotFingerprint
  rpc_file_len :: u64
  rpc_root_generation :: u64
  rpc_previous_root_generation :: "u64 option"
  rpc_row_count :: u64
  rpc_row_group_count :: u32
  rpc_report :: ColumnBundleReadReport
  rpc_row_groups :: "ColumnBundleRowGroupSummary list"
  rpc_selected_compressed_bytes :: u64
  rpc_selected_uncompressed_bytes :: u64
  rpc_selected_chunk_fingerprint :: bytes

definition certify_chunk :: "ColumnBundleColumnChunkSummary \<Rightarrow> u64 \<times> u64 \<Rightarrow> (u64 \<times> u64) result" where
  "certify_chunk chunk = (\<lambda>(selected_compressed_bytes, selected_uncompressed_bytes).
     sbind (ok_or (checked_add selected_compressed_bytes (ccs_compressed_bytes chunk))
        (ocb_corrupt_file ''OCB read plan certification compressed byte total overflows'')) (\<lambda>selected_compressed_bytes.
     sbind (ok_or (checked_add selected_uncompressed_bytes (ccs_uncompressed_bytes chunk))
        (ocb_corrupt_file ''OCB read plan certification uncompressed byte total overflows'')) (\<lambda>selected_uncompressed_bytes.
     Inr (selected_compressed_bytes, selected_uncompressed_bytes))))"

definition read_plan_certification ::
  "host \<Rightarrow> ColumnBundleFile \<Rightarrow> ColumnBundleReadPlan \<Rightarrow> ColumnBundleReadPlanCertification result" where
  "read_plan_certification h self plan =
     sbind (validate_read_plan h self plan) (\<lambda>_.
     sbind (ColumnBundleFile_metadata h self) (\<lambda>metadata.
     sbind (snapshot_fingerprint h self) (\<lambda>fingerprint.
     sbind (read_plan_row_group_summaries h self plan) (\<lambda>row_groups.
     sbind (for_each (\<lambda>row_group. for_each certify_chunk (rgs_chunks row_group)) row_groups (0, 0))
       (\<lambda>(selected_compressed_bytes, selected_uncompressed_bytes).
     Inr \<lparr>rpc_snapshot_fingerprint = fingerprint, rpc_file_len = md_file_len (cbf_metadata self),
          rpc_root_generation = cbm_root_generation metadata,
          rpc_previous_root_generation = cbm_previous_root_generation metadata,
          rpc_row_count = cbm_row_count metadata, rpc_row_group_count = cbm_row_group_count metadata,
          rpc_report = plan_report plan, rpc_row_groups = row_groups,
          rpc_selected_compressed_bytes = selected_compressed_bytes,
          rpc_selected_uncompressed_bytes = selected_uncompressed_bytes,
          rpc_selected_chunk_fingerprint = fingerprint_selected_chunks row_groups\<rparr>)))))"

end
