(* ===== verification/Admission.thy ===== *)
theory Admission
  imports Planning "HOL-Library.Multiset"
begin

text \<open>
  Resource admission of read plans (\<open>column_bundle/execution.rs\<close>): the footprint of a selected row group,
  and the checks that the row groups held at the same time stay within the limits, for owned
  reads, for any set of row groups in flight, for contiguous waves and for a sliding window.
\<close>

section \<open>Footprints\<close>

record SelectedResourceFootprint =
  srf_compressed_bytes :: u64
  srf_decoded_materialized_bytes :: u64
  srf_row_count :: u64

definition SelectedResourceFootprint_default :: SelectedResourceFootprint where
  "SelectedResourceFootprint_default =
     \<lparr>srf_compressed_bytes = 0, srf_decoded_materialized_bytes = 0, srf_row_count = 0\<rparr>"

definition chunks_for_row_group :: "OcbMetadataV1 \<Rightarrow> u64 \<Rightarrow> u32 \<Rightarrow> OcbColumnChunkDescV1 list result" where
  "chunks_for_row_group metadata begin desc_count =
     sbind (ok_or (usize_try_from (unat begin))
        (ocb_corrupt_file ''OCB row-group chunk descriptor begin is too large'')) (\<lambda>begin.
     sbind (ok_or (usize_checked_add begin (unat desc_count))
        (ocb_corrupt_file ''OCB row-group chunk descriptor range overflows'')) (\<lambda>stop.
     ok_or (vec_get_range (rgi_column_chunks (md_row_group_index metadata)) begin stop)
       (ocb_corrupt_file ''OCB row-group chunk descriptor range is out of bounds'')))"

text \<open>The first loop over the selected columns, which only validates, and one step of the second.\<close>

definition check_selected_chunk :: "OcbMetadataV1 \<Rightarrow> OcbColumnChunkDescV1 list \<Rightarrow> u32 \<Rightarrow> unit \<Rightarrow> unit result" where
  "check_selected_chunk metadata chunks column_id _ =
     (let object_overhead = ucast OCB_COLUMN_CHUNK_V1_HEADER_LEN + 4 in
     sbind (ok_or (List.find (\<lambda>chunk. chunk_column_id chunk = column_id) chunks)
        (ocb_corrupt_file ''OCB resource accounting selected chunk is missing'')) (\<lambda>chunk.
     sbind (OcbBodyRefV2_validate (chunk_value_ref chunk) BodyKind_ColumnChunk (md_file_len metadata)) (\<lambda>_.
     sbind (ok_or (checked_sub (br_length (chunk_value_ref chunk)) object_overhead)
        (ocb_corrupt_file ''OCB resource accounting column chunk object is too short'')) (\<lambda>_.
     if \<not> is_null (chunk_validity_ref chunk)
     then sbind (OcbBodyRefV2_validate (chunk_validity_ref chunk) BodyKind_ValidityBitmap (md_file_len metadata)) (\<lambda>_.
          if br_length (chunk_validity_ref chunk) \<noteq> div_ceil (chunk_row_count chunk) 8
          then Inl (ocb_corrupt_file ''OCB validity bitmap length does not match row count'') else Inr ())
     else Inr ()))))"

definition add_selected_chunk ::
  "OcbMetadataV1 \<Rightarrow> OcbColumnChunkDescV1 list \<Rightarrow> u32 \<Rightarrow> SelectedResourceFootprint \<Rightarrow> SelectedResourceFootprint result" where
  "add_selected_chunk metadata chunks column_id footprint =
     (let object_overhead = ucast OCB_COLUMN_CHUNK_V1_HEADER_LEN + 4; limits = md_resource_limits metadata in
     sbind (ok_or (List.find (\<lambda>chunk. chunk_column_id chunk = column_id) chunks)
        (ocb_corrupt_file ''OCB resource accounting selected chunk is missing'')) (\<lambda>chunk.
     sbind (OcbBodyRefV2_validate (chunk_value_ref chunk) BodyKind_ColumnChunk (md_file_len metadata)) (\<lambda>_.
     sbind (ok_or (checked_sub (br_length (chunk_value_ref chunk)) object_overhead)
        (ocb_corrupt_file ''OCB resource accounting column chunk object is too short'')) (\<lambda>encoded_bytes.
     if br_length (chunk_value_ref chunk) > max_encoded_object_bytes limits
     then Inl (ocb_invalid_input ''OCB encoded object exceeds resource limit'') else
     if encoded_bytes > max_compressed_chunk_bytes limits
     then Inl (ocb_invalid_input ''OCB encoded column chunk payload exceeds resource limit'') else
     if chunk_uncompressed_bytes chunk > max_decompressed_chunk_bytes limits
     then Inl (ocb_invalid_input ''OCB decoded column chunk payload exceeds resource limit'') else
     sbind (ok_or (checked_add (srf_compressed_bytes footprint) encoded_bytes)
        (ocb_corrupt_file ''OCB selected compressed byte accounting overflows'')) (\<lambda>compressed.
     sbind (ok_or (checked_add (srf_decoded_materialized_bytes footprint) (chunk_uncompressed_bytes chunk))
        (ocb_corrupt_file ''OCB selected decoded byte accounting overflows'')) (\<lambda>decoded.
     let footprint = footprint\<lparr>srf_compressed_bytes := compressed, srf_decoded_materialized_bytes := decoded\<rparr> in
     if is_null (chunk_validity_ref chunk) then Inr footprint else
     sbind (OcbBodyRefV2_validate (chunk_validity_ref chunk) BodyKind_ValidityBitmap (md_file_len metadata)) (\<lambda>_.
     let validity_bytes = div_ceil (chunk_row_count chunk) 8 in
     if br_length (chunk_validity_ref chunk) \<noteq> validity_bytes
     then Inl (ocb_corrupt_file ''OCB validity bitmap length does not match row count'') else
     if br_length (chunk_validity_ref chunk) > max_encoded_object_bytes limits
     then Inl (ocb_invalid_input ''OCB encoded object exceeds resource limit'') else
     sbind (ok_or (checked_add (srf_compressed_bytes footprint) validity_bytes)
        (ocb_corrupt_file ''OCB selected compressed byte accounting overflows'')) (\<lambda>compressed.
     sbind (ok_or (checked_add (srf_decoded_materialized_bytes footprint) validity_bytes)
        (ocb_corrupt_file ''OCB selected decoded byte accounting overflows'')) (\<lambda>decoded.
     Inr (footprint\<lparr>srf_compressed_bytes := compressed, srf_decoded_materialized_bytes := decoded\<rparr>))))))))))"

definition selected_resource_footprint_for_row_group_desc ::
  "OcbMetadataV1 \<Rightarrow> OcbRowGroupDescV1 \<Rightarrow> u32 list \<Rightarrow> SelectedResourceFootprint result" where
  "selected_resource_footprint_for_row_group_desc metadata row_group selected_column_ids =
     sbind (chunks_for_row_group metadata (rg_chunk_desc_begin row_group) (rg_chunk_desc_count row_group)) (\<lambda>chunks.
     sbind (for_each (check_selected_chunk metadata chunks) selected_column_ids ()) (\<lambda>_.
     let footprint = SelectedResourceFootprint_default\<lparr>srf_row_count := rg_row_count row_group\<rparr> in
     sbind (for_each (add_selected_chunk metadata chunks) selected_column_ids footprint) (\<lambda>footprint.
     if srf_decoded_materialized_bytes footprint > max_projected_row_group_bytes (md_resource_limits metadata)
     then Inl (ocb_invalid_input ''OCB projected decoded row group exceeds resource limit'') else
     Inr footprint)))"

section \<open>Row groups of a plan\<close>

text \<open>\<open>try_reserve(..).map_err(|_| resource_accounting_allocation_error())\<close>, on a set and on a vector.\<close>

definition accounting_reserve_set :: "host \<Rightarrow> usize \<Rightarrow> unit result" where
  "accounting_reserve_set h n =
     (if hash_try_reserve h 0 n ''OCB resource accounting allocation failed within resource limit''
      then Inr () else Inl resource_accounting_allocation_error)"

definition accounting_reserve_vec :: "host \<Rightarrow> rust_type \<Rightarrow> usize \<Rightarrow> unit result" where
  "accounting_reserve_vec h ty n =
     (if try_reserve_exact h ty n ''OCB resource accounting allocation failed within resource limit''
      then Inr () else Inl resource_accounting_allocation_error)"

definition selected_row_groups_for_plan :: "host \<Rightarrow> OcbMetadataV1 \<Rightarrow> ColumnBundleReadPlan \<Rightarrow> OcbRowGroupDescV1 list result" where
  "selected_row_groups_for_plan h metadata plan =
     sbind (accounting_reserve_set h (length (plan_row_group_ids plan))) (\<lambda>_.
     sbind (for_each (\<lambda>row_group_id seen_row_group_ids.
       if row_group_id \<in> seen_row_group_ids
       then Inl (ocb_invalid_input ''OCB read plan contains duplicate row group ids'')
       else Inr (insert row_group_id seen_row_group_ids)) (plan_row_group_ids plan) {}) (\<lambda>_.
     sbind (accounting_reserve_vec h TyReference (length (plan_row_group_ids plan))) (\<lambda>_.
     try_map (\<lambda>row_group_id. ok_or (row_group_by_id metadata row_group_id)
       (ocb_invalid_input ''OCB read plan references an unknown row group id'')) (plan_row_group_ids plan))))"

definition selected_resource_footprints_for_plan ::
  "host \<Rightarrow> OcbMetadataV1 \<Rightarrow> ColumnBundleReadPlan \<Rightarrow> SelectedResourceFootprint list result" where
  "selected_resource_footprints_for_plan h metadata plan =
     sbind (selected_row_groups_for_plan h metadata plan) (\<lambda>row_groups.
     sbind (accounting_reserve_vec h TyFootprint (length row_groups)) (\<lambda>_.
     try_map (\<lambda>row_group. selected_resource_footprint_for_row_group_desc metadata row_group
       (plan_projected_column_ids plan)) row_groups))"

definition max_row_count_for_plan :: "host \<Rightarrow> OcbMetadataV1 \<Rightarrow> ColumnBundleReadPlan \<Rightarrow> usize result" where
  "max_row_count_for_plan h metadata plan =
     sbind (selected_row_groups_for_plan h metadata plan) (\<lambda>row_groups.
     for_each (\<lambda>row_group max_rows.
       sbind (ok_or (usize_try_from (unat (rg_row_count row_group)))
          (ocb_invalid_input ''OCB reusable buffer row count does not fit usize'')) (\<lambda>row_count.
       Inr (max max_rows row_count))) row_groups 0)"

section \<open>Admission checks\<close>

definition validate_footprint_totals :: "SelectedResourceFootprint \<Rightarrow> OcbResourceLimits \<Rightarrow> unit result" where
  "validate_footprint_totals footprint resource_limits =
     (if srf_compressed_bytes footprint > max_owned_selected_compressed_bytes resource_limits
     then Inl (ocb_invalid_input ''OCB selected compressed bytes exceed resource limit'') else
     if srf_decoded_materialized_bytes footprint > max_owned_decoded_materialized_bytes resource_limits
     then Inl (ocb_invalid_input ''OCB decoded and materialized bytes exceed resource limit'') else
     Inr ())"

definition add_owned_footprint :: "SelectedResourceFootprint \<Rightarrow> SelectedResourceFootprint \<Rightarrow> SelectedResourceFootprint result" where
  "add_owned_footprint footprint sofar =
     sbind (ok_or (checked_add (srf_compressed_bytes sofar) (srf_compressed_bytes footprint))
        (ocb_corrupt_file ''OCB owned compressed byte accounting overflows'')) (\<lambda>compressed.
     sbind (ok_or (checked_add (srf_decoded_materialized_bytes sofar) (srf_decoded_materialized_bytes footprint))
        (ocb_corrupt_file ''OCB owned decoded byte accounting overflows'')) (\<lambda>decoded.
     Inr (sofar\<lparr>srf_compressed_bytes := compressed, srf_decoded_materialized_bytes := decoded\<rparr>)))"

definition validate_owned_plan_resource_limits :: "host \<Rightarrow> OcbMetadataV1 \<Rightarrow> ColumnBundleReadPlan \<Rightarrow> unit result" where
  "validate_owned_plan_resource_limits h metadata plan =
     sbind (selected_resource_footprints_for_plan h metadata plan) (\<lambda>footprints.
     sbind (for_each add_owned_footprint
       footprints SelectedResourceFootprint_default) (\<lambda>total.
     validate_footprint_totals total (md_resource_limits metadata)))"

text \<open>\<open>try_fold(0u64, |total, x| total.checked_add(x))\<close>.\<close>

definition checked_sum :: "u64 list \<Rightarrow> u64 option" where
  "checked_sum xs = fold (\<lambda>x acc. Option.bind acc (\<lambda>acc. checked_add acc x)) xs (Some 0)"

text \<open>
  The in-flight check sorts by each measure in turn, largest first, and adds up the first ones.
  The sort is unstable; the sum of a prefix does not depend on the order of equal keys.
\<close>

definition validate_in_flight_plan_resource_limits ::
  "host \<Rightarrow> OcbMetadataV1 \<Rightarrow> ColumnBundleReadPlan \<Rightarrow> usize \<Rightarrow> unit result" where
  "validate_in_flight_plan_resource_limits h metadata plan max_in_flight_row_groups =
     (if plan_row_group_ids plan = [] then Inr () else
     let reservation_count = min (max max_in_flight_row_groups 1) (length (plan_row_group_ids plan)) in
     sbind (selected_resource_footprints_for_plan h metadata plan) (\<lambda>footprints.
     let footprints = sort_key (\<lambda>footprint. - uint (srf_compressed_bytes footprint)) footprints in
     sbind (ok_or (checked_sum (map srf_compressed_bytes (take reservation_count footprints)))
        (ocb_corrupt_file ''OCB in-flight compressed byte accounting overflows'')) (\<lambda>compressed_bytes.
     let footprints = sort_key (\<lambda>footprint. - uint (srf_decoded_materialized_bytes footprint)) footprints in
     sbind (ok_or (checked_sum (map srf_decoded_materialized_bytes (take reservation_count footprints)))
        (ocb_corrupt_file ''OCB in-flight decoded byte accounting overflows'')) (\<lambda>decoded_materialized_bytes.
     validate_footprint_totals \<lparr>srf_compressed_bytes = compressed_bytes,
         srf_decoded_materialized_bytes = decoded_materialized_bytes, srf_row_count = 0\<rparr>
       (md_resource_limits metadata)))))"

text \<open>The fold that adds up footprints, and \<open>[T]::chunks\<close>.\<close>

definition fold_footprints :: "SelectedResourceFootprint list \<Rightarrow> SelectedResourceFootprint option" where
  "fold_footprints footprints =
     fold (\<lambda>footprint total. Option.bind total (\<lambda>total.
       Option.bind (checked_add (srf_compressed_bytes total) (srf_compressed_bytes footprint)) (\<lambda>compressed.
       Option.bind (checked_add (srf_decoded_materialized_bytes total) (srf_decoded_materialized_bytes footprint)) (\<lambda>decoded.
       Some (total\<lparr>srf_compressed_bytes := compressed, srf_decoded_materialized_bytes := decoded\<rparr>)))))
     footprints (Some SelectedResourceFootprint_default)"

function vec_chunks :: "nat \<Rightarrow> 'a list \<Rightarrow> 'a list list" where
  "vec_chunks n xs = (if n = 0 \<or> xs = [] then [] else take n xs # vec_chunks n (drop n xs))"
  by pat_completeness auto
termination by (relation "measure (\<lambda>(n, xs). length xs)") (auto simp: neq_Nil_conv)

declare vec_chunks.simps [simp del]

definition validate_contiguous_in_flight_plan_resource_limits ::
  "host \<Rightarrow> OcbMetadataV1 \<Rightarrow> ColumnBundleReadPlan \<Rightarrow> usize \<Rightarrow> unit result" where
  "validate_contiguous_in_flight_plan_resource_limits h metadata plan max_in_flight_row_groups =
     (let wave_size = max max_in_flight_row_groups 1 in
     sbind (selected_resource_footprints_for_plan h metadata plan) (\<lambda>footprints.
     for_each (\<lambda>wave _.
       sbind (ok_or (fold_footprints wave)
          (ocb_corrupt_file ''OCB in-flight resource accounting overflows'')) (\<lambda>total.
       validate_footprint_totals total (md_resource_limits metadata))) (vec_chunks wave_size footprints) ()))"

text \<open>One step of the sliding window: the oldest row group leaves, the next one enters.\<close>

definition slide_step ::
  "SelectedResourceFootprint list \<Rightarrow> nat \<Rightarrow> OcbResourceLimits \<Rightarrow> nat \<Rightarrow> SelectedResourceFootprint \<Rightarrow> SelectedResourceFootprint result" where
  "slide_step fs w limits next footprint =
     (let previous = fs ! (next - w) in
       sbind (ok_or (Option.bind (checked_sub (srf_compressed_bytes footprint) (srf_compressed_bytes previous))
            (\<lambda>bs. checked_add bs (srf_compressed_bytes (fs ! next))))
          (ocb_corrupt_file ''OCB sliding compressed byte accounting is inconsistent'')) (\<lambda>compressed.
       sbind (ok_or (Option.bind (checked_sub (srf_decoded_materialized_bytes footprint) (srf_decoded_materialized_bytes previous))
            (\<lambda>bs. checked_add bs (srf_decoded_materialized_bytes (fs ! next))))
          (ocb_corrupt_file ''OCB sliding decoded byte accounting is inconsistent'')) (\<lambda>decoded.
       let footprint = footprint\<lparr>srf_compressed_bytes := compressed, srf_decoded_materialized_bytes := decoded\<rparr> in
       sbind (validate_footprint_totals footprint limits) (\<lambda>_.
       Inr footprint))))"

definition validate_sliding_resource_footprints ::
  "SelectedResourceFootprint list \<Rightarrow> usize \<Rightarrow> OcbResourceLimits \<Rightarrow> unit result" where
  "validate_sliding_resource_footprints footprints max_in_flight_row_groups resource_limits =
     (if footprints = [] then Inr () else
     let window_size = min (max max_in_flight_row_groups 1) (length footprints) in
     sbind (ok_or (fold_footprints (take window_size footprints))
        (ocb_corrupt_file ''OCB sliding in-flight resource accounting overflows'')) (\<lambda>total.
     sbind (validate_footprint_totals total resource_limits) (\<lambda>_.
     sbind (for_each (slide_step footprints window_size resource_limits) [window_size..<length footprints] total) (\<lambda>_.
     Inr ()))))"

definition validate_sliding_in_flight_plan_resource_limits ::
  "host \<Rightarrow> OcbMetadataV1 \<Rightarrow> ColumnBundleReadPlan \<Rightarrow> usize \<Rightarrow> unit result" where
  "validate_sliding_in_flight_plan_resource_limits h metadata plan max_in_flight_row_groups =
     sbind (selected_resource_footprints_for_plan h metadata plan) (\<lambda>footprints.
     validate_sliding_resource_footprints footprints max_in_flight_row_groups (md_resource_limits metadata))"

section \<open>What the checks decide\<close>

definition compressed_total :: "SelectedResourceFootprint list \<Rightarrow> nat" where
  "compressed_total fs = sum_list (map (\<lambda>f. unat (srf_compressed_bytes f)) fs)"

definition decoded_total :: "SelectedResourceFootprint list \<Rightarrow> nat" where
  "decoded_total fs = sum_list (map (\<lambda>f. unat (srf_decoded_materialized_bytes f)) fs)"

text \<open>Row groups whose footprints together stay within the limits.\<close>

definition admitted :: "OcbResourceLimits \<Rightarrow> SelectedResourceFootprint list \<Rightarrow> bool" where
  "admitted limits fs \<longleftrightarrow>
     compressed_total fs \<le> unat (max_owned_selected_compressed_bytes limits) \<and>
     decoded_total fs \<le> unat (max_owned_decoded_materialized_bytes limits)"

definition total_footprint :: "nat \<Rightarrow> nat \<Rightarrow> SelectedResourceFootprint" where
  "total_footprint c d = \<lparr>srf_compressed_bytes = of_nat c, srf_decoded_materialized_bytes = of_nat d, srf_row_count = 0\<rparr>"

lemma totals_simps [simp]:
  "compressed_total [] = 0" "compressed_total (f # fs) = unat (srf_compressed_bytes f) + compressed_total fs"
  "compressed_total (fs @ gs) = compressed_total fs + compressed_total gs"
  "decoded_total [] = 0" "decoded_total (f # fs) = unat (srf_decoded_materialized_bytes f) + decoded_total fs"
  "decoded_total (fs @ gs) = decoded_total fs + decoded_total gs"
  by (simp_all add: compressed_total_def decoded_total_def)

lemma checked_add_of_nat:
  "a < 2 ^ 64 \<Longrightarrow> checked_add (of_nat a :: u64) b = (if a + unat b < 2 ^ 64 then Some (of_nat (a + unat b)) else None)"
  by (simp add: checked_add_def unat_of_nat_u64)

lemma validate_footprint_totals_total:
  assumes "c < 2 ^ 64" and "d < 2 ^ 64"
  shows "validate_footprint_totals (total_footprint c d) limits = Inr () \<longleftrightarrow>
     c \<le> unat (max_owned_selected_compressed_bytes limits) \<and> d \<le> unat (max_owned_decoded_materialized_bytes limits)"
  using assms by (auto simp: validate_footprint_totals_def total_footprint_def word_less_nat_alt unat_of_nat_u64 not_less)

lemma fold_footprints_eq:
  "fold_footprints fs =
     (if compressed_total fs < 2 ^ 64 \<and> decoded_total fs < 2 ^ 64
      then Some (total_footprint (compressed_total fs) (decoded_total fs)) else None)"
proof -
  let ?step = "\<lambda>f t. Option.bind t (\<lambda>t.
       Option.bind (checked_add (srf_compressed_bytes t) (srf_compressed_bytes f)) (\<lambda>c.
       Option.bind (checked_add (srf_decoded_materialized_bytes t) (srf_decoded_materialized_bytes f)) (\<lambda>d.
       Some (t\<lparr>srf_compressed_bytes := c, srf_decoded_materialized_bytes := d\<rparr>))))"
  have none: "fold ?step fs None = None" for fs by (induction fs) simp_all
  have "fold ?step fs (Some (total_footprint c d)) =
      (if c + compressed_total fs < 2 ^ 64 \<and> d + decoded_total fs < 2 ^ 64
       then Some (total_footprint (c + compressed_total fs) (d + decoded_total fs)) else None)"
    if "c < 2 ^ 64" "d < 2 ^ 64" for c d
    using that
  proof (induction fs arbitrary: c d)
    case Nil
    then show ?case by simp
  next
    case (Cons f fs)
    let ?c = "c + unat (srf_compressed_bytes f)" and ?d = "d + unat (srf_decoded_materialized_bytes f)"
    have "?step f (Some (total_footprint c d)) =
        (if ?c < 2 ^ 64 \<and> ?d < 2 ^ 64 then Some (total_footprint ?c ?d) else None)"
      using Cons.prems by (simp add: total_footprint_def checked_add_of_nat)
    with Cons.IH [of ?c ?d] none show ?case by (auto simp: add.assoc)
  qed
  from this [of 0 0] show ?thesis
    by (simp add: fold_footprints_def total_footprint_def SelectedResourceFootprint_default_def)
qed

lemma admitted_totals:
  "ok_or (fold_footprints fs) e = Inr t \<and> validate_footprint_totals t limits = Inr () \<longleftrightarrow>
     admitted limits fs \<and> t = total_footprint (compressed_total fs) (decoded_total fs)"
proof -
  have "admitted limits fs \<Longrightarrow> compressed_total fs < 2 ^ 64 \<and> decoded_total fs < 2 ^ 64"
    using unsigned_less [of "max_owned_selected_compressed_bytes limits", where ?'a = nat]
      unsigned_less [of "max_owned_decoded_materialized_bytes limits", where ?'a = nat]
    by (auto simp: admitted_def)
  then show ?thesis
    by (auto simp: fold_footprints_eq validate_footprint_totals_total admitted_def)
qed

lemma for_each_unit: "for_each f xs () = Inr u \<longleftrightarrow> (\<forall>x \<in> set xs. f x () = Inr ())"
  by (induction xs) (auto simp: sbind_eq_Inr)

lemma validate_contiguous_iff:
  "validate_contiguous_in_flight_plan_resource_limits h m plan k = Inr () \<longleftrightarrow>
     (\<exists>fs. selected_resource_footprints_for_plan h m plan = Inr fs \<and>
        (\<forall>wave \<in> set (vec_chunks (max k 1) fs). admitted (md_resource_limits m) wave))"
proof -
  have "sbind (ok_or (fold_footprints wave) e) (\<lambda>total. validate_footprint_totals total limits) = Inr () \<longleftrightarrow> admitted limits wave"
    for wave e limits
    using admitted_totals [of wave e _ limits] by (auto simp: sbind_eq_Inr)
  then show ?thesis
    by (simp add: validate_contiguous_in_flight_plan_resource_limits_def Let_def sbind_eq_Inr for_each_unit)
qed

subsection \<open>The sliding window\<close>

definition window :: "nat \<Rightarrow> 'a list \<Rightarrow> nat \<Rightarrow> 'a list" where
  "window w xs i = take w (drop i xs)"

abbreviation window_total :: "nat \<Rightarrow> SelectedResourceFootprint list \<Rightarrow> nat \<Rightarrow> SelectedResourceFootprint" where
  "window_total w fs i \<equiv> total_footprint (compressed_total (window w fs i)) (decoded_total (window w fs i))"

text \<open>Moving the window one place on drops its first element and takes one more.\<close>

lemma window_step:
  assumes "0 < w" and "i + w < length xs"
  shows "window w xs i @ [xs ! (i + w)] = xs ! i # window w xs (Suc i)"
proof -
  have "take (Suc w) (drop i xs) = window w xs i @ [xs ! (i + w)]"
    using assms by (simp add: window_def take_Suc_conv_app_nth)
  moreover have "take (Suc w) (drop i xs) = xs ! i # window w xs (Suc i)"
    using assms by (simp add: window_def Cons_nth_drop_Suc [symmetric, of i xs])
  ultimately show ?thesis by simp
qed

lemma window_totals:
  assumes "0 < w" and "i + w < length fs"
  shows "compressed_total (window w fs i) + unat (srf_compressed_bytes (fs ! (i + w))) =
       unat (srf_compressed_bytes (fs ! i)) + compressed_total (window w fs (Suc i))"
    and "decoded_total (window w fs i) + unat (srf_decoded_materialized_bytes (fs ! (i + w))) =
       unat (srf_decoded_materialized_bytes (fs ! i)) + decoded_total (window w fs (Suc i))"
  using arg_cong [OF window_step [OF assms], of compressed_total] arg_cong [OF window_step [OF assms], of decoded_total]
  by simp_all

lemma slide_bytes:
  assumes "t < 2 ^ 64" and "t + unat b = unat a + t'"
  shows "unat a \<le> t \<Longrightarrow> Option.bind (checked_sub (of_nat t :: u64) a) (\<lambda>x. checked_add x b) =
     (if t' < 2 ^ 64 then Some (of_nat t') else None)"
proof -
  assume le: "unat a \<le> t"
  then have "checked_sub (of_nat t :: u64) a = Some (of_nat (t - unat a))"
    using assms(1) by (simp add: checked_sub_def word_le_nat_alt unat_of_nat_u64)
  moreover have "t - unat a + unat b = t'" using le assms(2) by simp
  ultimately show ?thesis using assms(1) by (simp add: checked_add_of_nat)
qed

lemma total_footprint_update [simp]:
  "(total_footprint c d)\<lparr>srf_compressed_bytes := of_nat c', srf_decoded_materialized_bytes := of_nat d'\<rparr> = total_footprint c' d'"
  "srf_compressed_bytes (total_footprint c d) = of_nat c" "srf_decoded_materialized_bytes (total_footprint c d) = of_nat d"
  by (simp_all add: total_footprint_def)

lemma admitted_bounds:
  assumes "admitted limits fs"
  shows "compressed_total fs < 2 ^ 64" and "decoded_total fs < 2 ^ 64"
  using admitted_totals [of fs undefined "total_footprint (compressed_total fs) (decoded_total fs)" limits] assms
  by (auto simp: fold_footprints_eq split: if_splits)

lemma slide_step_window:
  assumes "0 < w" and "i + w < length fs" and "admitted limits (window w fs i)"
  shows "slide_step fs w limits (i + w) (window_total w fs i) = Inr t \<longleftrightarrow>
     admitted limits (window w fs (Suc i)) \<and> t = window_total w fs (Suc i)"
proof -
  have cons: "window w fs i = fs ! i # take (w - 1) (drop (Suc i) fs)"
    using assms(1,2) by (cases w) (simp_all add: window_def Cons_nth_drop_Suc [symmetric, of i fs])
  have le: "unat (srf_compressed_bytes (fs ! i)) \<le> compressed_total (window w fs i)"
    "unat (srf_decoded_materialized_bytes (fs ! i)) \<le> decoded_total (window w fs i)"
    by (simp_all add: cons)
  note eqs = slide_bytes [OF admitted_bounds(1) [OF assms(3)] window_totals(1) [OF assms(1,2)] le(1)]
    slide_bytes [OF admitted_bounds(2) [OF assms(3)] window_totals(2) [OF assms(1,2)] le(2)]
  have adm: "admitted limits (window w fs (Suc i)) \<Longrightarrow>
      compressed_total (window w fs (Suc i)) < 2 ^ 64 \<and> decoded_total (window w fs (Suc i)) < 2 ^ 64"
    using admitted_bounds by blast
  show ?thesis
  proof (cases "compressed_total (window w fs (Suc i)) < 2 ^ 64 \<and> decoded_total (window w fs (Suc i)) < 2 ^ 64")
    case True
    then have "validate_footprint_totals (window_total w fs (Suc i)) limits = Inr () \<longleftrightarrow> admitted limits (window w fs (Suc i))"
      by (simp add: validate_footprint_totals_total admitted_def)
    with True show ?thesis by (auto simp: slide_step_def Let_def eqs sbind_unit_Inr)
  next
    case False
    with adm show ?thesis by (auto simp: slide_step_def Let_def eqs sbind_eq_Inr split: if_splits)
  qed
qed

lemma sliding_loop:
  assumes "0 < w" and "i + w \<le> length fs" and "admitted limits (window w fs i)"
  shows "(\<exists>t. for_each (slide_step fs w limits) [i + w..<length fs] (window_total w fs i) = Inr t) \<longleftrightarrow>
     (\<forall>j. i < j \<and> j + w \<le> length fs \<longrightarrow> admitted limits (window w fs j))"
  using assms(2,3)
proof (induction "length fs - (i + w)" arbitrary: i)
  case 0
  then show ?case by auto
next
  case (Suc n)
  then have less: "i + w < length fs" by simp
  have split: "(\<forall>j. i < j \<and> j + w \<le> length fs \<longrightarrow> admitted limits (window w fs j)) \<longleftrightarrow>
      admitted limits (window w fs (Suc i)) \<and> (\<forall>j. Suc i < j \<and> j + w \<le> length fs \<longrightarrow> admitted limits (window w fs j))"
    (is "?L \<longleftrightarrow> ?R")
  proof
    assume ?L
    with less show ?R by (simp add: Suc_le_eq)
  next
    assume ?R
    then show ?L by (metis Suc_lessI)
  qed
  have "[i + w..<length fs] = (i + w) # [Suc i + w..<length fs]" using less by (simp add: upt_conv_Cons)
  then have "(\<exists>t. for_each (slide_step fs w limits) [i + w..<length fs] (window_total w fs i) = Inr t) \<longleftrightarrow>
      admitted limits (window w fs (Suc i)) \<and>
      (\<exists>t. for_each (slide_step fs w limits) [Suc i + w..<length fs] (window_total w fs (Suc i)) = Inr t)"
    using slide_step_window [OF assms(1) less Suc.prems(2)] by (simp add: sbind_eq_Inr)
  moreover have "admitted limits (window w fs (Suc i)) \<Longrightarrow>
      (\<exists>t. for_each (slide_step fs w limits) [Suc i + w..<length fs] (window_total w fs (Suc i)) = Inr t) \<longleftrightarrow>
      (\<forall>j. Suc i < j \<and> j + w \<le> length fs \<longrightarrow> admitted limits (window w fs j))"
    using Suc.hyps(2) less by (intro Suc.hyps(1)) simp_all
  ultimately show ?case using split by blast
qed

text \<open>The incremental check accepts exactly when every window of the given size stays within the limits.\<close>

lemma validate_sliding_iff:
  assumes "fs \<noteq> []" and w_def: "w = min (max k 1) (length fs)"
  shows "validate_sliding_resource_footprints fs k limits = Inr () \<longleftrightarrow>
     (\<forall>i. i + w \<le> length fs \<longrightarrow> admitted limits (window w fs i))"
proof -
  have w: "0 < w" "w \<le> length fs" using assms by (auto simp: w_def Suc_le_eq)
  have first: "take w fs = window w fs 0" by (simp add: window_def)
  have "validate_sliding_resource_footprints fs k limits = Inr () \<longleftrightarrow>
      admitted limits (window w fs 0) \<and>
      (\<exists>t. for_each (slide_step fs w limits) [0 + w..<length fs] (window_total w fs 0) = Inr t)"
  proof -
    have "validate_sliding_resource_footprints fs k limits = Inr () \<longleftrightarrow>
      (\<exists>t. (ok_or (fold_footprints (window w fs 0)) (ocb_corrupt_file ''OCB sliding in-flight resource accounting overflows'') = Inr t \<and>
        validate_footprint_totals t limits = Inr ()) \<and> (\<exists>t'. for_each (slide_step fs w limits) [w..<length fs] t = Inr t'))"
      using assms(1) unfolding validate_sliding_resource_footprints_def Let_def w_def [symmetric] first
      by (auto simp: sbind_eq_Inr)
    then show ?thesis unfolding admitted_totals by auto
  qed
  also have "\<dots> \<longleftrightarrow> admitted limits (window w fs 0) \<and> (\<forall>j. 0 < j \<and> j + w \<le> length fs \<longrightarrow> admitted limits (window w fs j))"
    using sliding_loop [of w 0 fs limits] w by auto
  also have "\<dots> \<longleftrightarrow> (\<forall>i. i + w \<le> length fs \<longrightarrow> admitted limits (window w fs i))"
    using w by (metis add_0 gr0I)
  finally show ?thesis .
qed

subsection \<open>Any row groups in flight\<close>

text \<open>The first elements of a list sorted with the largest first outweigh any others as many.\<close>

lemma top_sum:
  fixes f :: "'a \<Rightarrow> nat"
  assumes "sorted (map (\<lambda>x. - int (f x)) xs)" and "mset ys \<subseteq># mset xs" and "length ys \<le> k"
  shows "sum_list (map f ys) \<le> sum_list (map f (take k xs))"
  using assms
proof (induction xs arbitrary: ys k)
  case Nil
  then show ?case by simp
next
  case (Cons x xs)
  show ?case
  proof (cases "ys = []")
    case False
    define y where "y = (if x \<in> set ys then x else hd ys)"
    have y: "y \<in> set ys" using False by (simp add: y_def)
    have x: "mset (remove1 x ys) \<subseteq># mset xs" using Cons.prems(2) by (simp add: subset_eq_diff_conv)
    have "mset (remove1 y ys) \<subseteq># mset xs"
    proof (cases "x \<in> set ys")
      case True
      with x show ?thesis by (simp add: y_def)
    next
      case False
      with x have "mset ys \<subseteq># mset xs" by (simp add: remove1_idem)
      then show ?thesis by (metis diff_subset_eq_self mset_remove1 subset_mset.order_trans)
    qed
    moreover obtain k' where k: "k = Suc k'" using Cons.prems(3) False by (cases k) auto
    moreover have "length (remove1 y ys) \<le> k'" using Cons.prems(3) y k by (simp add: length_remove1)
    ultimately have "sum_list (map f (remove1 y ys)) \<le> sum_list (map f (take k' xs))"
      using Cons.prems(1) by (intro Cons.IH) simp_all
    moreover have "y \<in> set (x # xs)" using y Cons.prems(2) by (metis mset_subset_eqD set_mset_mset)
    then have "f y \<le> f x" using Cons.prems(1) by auto
    moreover have "sum_list (map f ys) = f y + sum_list (map f (remove1 y ys))" using y by (rule sum_list_map_remove1)
    ultimately show ?thesis by (simp add: k)
  qed simp
qed

lemma checked_sum_eq: "checked_sum xs = (if sum_list (map unat xs) < 2 ^ 64 then Some (of_nat (sum_list (map unat xs))) else None)"
proof -
  let ?step = "\<lambda>x acc. Option.bind acc (\<lambda>acc. checked_add acc x)"
  have none: "fold ?step xs None = None" for xs :: "u64 list" by (induction xs) simp_all
  have "fold ?step xs (Some (of_nat a)) =
      (if a + sum_list (map unat xs) < 2 ^ 64 then Some (of_nat (a + sum_list (map unat xs))) else None)" if "a < 2 ^ 64" for a
    using that
  proof (induction xs arbitrary: a)
    case (Cons x xs)
    with none Cons.IH [of "a + unat x"] show ?case by (auto simp: checked_add_of_nat add.assoc)
  qed simp
  from this [of 0] show ?thesis by (simp add: checked_sum_def)
qed

lemma compressed_total_sorted:
  assumes "mset ys \<subseteq># mset fs" and "length ys \<le> k"
  shows "compressed_total ys \<le> compressed_total (take k (sort_key (\<lambda>f. - uint (srf_compressed_bytes f)) fs))"
    and "decoded_total ys \<le> decoded_total (take k (sort_key (\<lambda>f. - uint (srf_decoded_materialized_bytes f)) fs))"
  unfolding compressed_total_def decoded_total_def
  by (rule top_sum; use assms in \<open>simp add: uint_nat [symmetric]\<close>)+

lemma validate_in_flight_iff:
  assumes "plan_row_group_ids plan \<noteq> []" and "selected_resource_footprints_for_plan h m plan = Inr fs"
  defines "limits \<equiv> md_resource_limits m" and "n \<equiv> length (plan_row_group_ids plan)"
  shows "validate_in_flight_plan_resource_limits h m plan k = Inr () \<longleftrightarrow>
     (\<forall>ys. mset ys \<subseteq># mset fs \<longrightarrow> length ys \<le> min (max k 1) n \<longrightarrow> admitted limits ys)"
proof -
  let ?c = "take (min (max k 1) n) (sort_key (\<lambda>f. - uint (srf_compressed_bytes f)) fs)"
  let ?fs = "sort_key (\<lambda>f. - uint (srf_compressed_bytes f)) fs"
  let ?d = "take (min (max k 1) n) (sort_key (\<lambda>f. - uint (srf_decoded_materialized_bytes f)) ?fs)"
  have sub: "mset ?c \<subseteq># mset fs" "mset ?d \<subseteq># mset fs"
    by (metis append_take_drop_id mset_append mset_sort mset_subset_eq_add_left)+
  have "validate_in_flight_plan_resource_limits h m plan k = Inr () \<longleftrightarrow>
      compressed_total ?c < 2 ^ 64 \<and> decoded_total ?d < 2 ^ 64 \<and>
      validate_footprint_totals (total_footprint (compressed_total ?c) (decoded_total ?d)) limits = Inr ()"
    using assms(1,2)
    by (auto simp: validate_in_flight_plan_resource_limits_def Let_def n_def limits_def sbind_eq_Inr checked_sum_eq comp_def
        compressed_total_def decoded_total_def total_footprint_def split: if_splits)
  also have "\<dots> \<longleftrightarrow> compressed_total ?c \<le> unat (max_owned_selected_compressed_bytes limits) \<and>
      decoded_total ?d \<le> unat (max_owned_decoded_materialized_bytes limits)"
    using unsigned_less [of "max_owned_selected_compressed_bytes limits", where ?'a = nat]
      unsigned_less [of "max_owned_decoded_materialized_bytes limits", where ?'a = nat]
    by (auto simp: validate_footprint_totals_total)
  also have "\<dots> \<longleftrightarrow> (\<forall>ys. mset ys \<subseteq># mset fs \<longrightarrow> length ys \<le> min (max k 1) n \<longrightarrow> admitted limits ys)"
  proof (intro iffI allI impI)
    fix ys assume le: "compressed_total ?c \<le> unat (max_owned_selected_compressed_bytes limits) \<and>
        decoded_total ?d \<le> unat (max_owned_decoded_materialized_bytes limits)"
      and ys: "mset ys \<subseteq># mset fs" "length ys \<le> min (max k 1) n"
    have "mset ys \<subseteq># mset ?fs" using ys(1) by simp
    with compressed_total_sorted(1) [OF ys] compressed_total_sorted(2) [OF _ ys(2), of ?fs] le
    show "admitted limits ys" by (auto simp: admitted_def)
  next
    assume "\<forall>ys. mset ys \<subseteq># mset fs \<longrightarrow> length ys \<le> min (max k 1) n \<longrightarrow> admitted limits ys"
    moreover have "length ?c \<le> min (max k 1) n" "length ?d \<le> min (max k 1) n" by (simp_all add: min_def max_def)
    ultimately have "admitted limits ?c" "admitted limits ?d" using sub by blast+
    then show "compressed_total ?c \<le> unat (max_owned_selected_compressed_bytes limits) \<and>
        decoded_total ?d \<le> unat (max_owned_decoded_materialized_bytes limits)" by (simp add: admitted_def)
  qed
  finally show ?thesis .
qed

subsection \<open>How the checks compare\<close>

lemma admitted_mono:
  assumes "mset ys \<subseteq># mset xs" and "admitted limits xs"
  shows "admitted limits ys"
proof -
  from assms(1) obtain zs where "mset xs = mset (ys @ zs)" by (metis ex_mset mset_append subset_mset.add_diff_inverse)
  then have "sum_list (map f xs) = sum_list (map f (ys @ zs))" for f :: "SelectedResourceFootprint \<Rightarrow> nat"
    by (simp only: sum_mset_sum_list [symmetric] mset_map)
  then have "compressed_total xs = compressed_total (ys @ zs)" "decoded_total xs = decoded_total (ys @ zs)"
    unfolding compressed_total_def decoded_total_def by blast+
  with assms(2) show ?thesis by (simp add: admitted_def)
qed

lemma vec_chunks_windows: "wave \<in> set (vec_chunks s xs) \<Longrightarrow> \<exists>i < length xs. wave = take s (drop i xs)"
proof (induction s xs rule: vec_chunks.induct)
  case (1 s xs)
  show ?case
  proof (cases "s = 0 \<or> xs = []")
    case True
    with "1.prems" show ?thesis by (simp add: vec_chunks.simps)
  next
    case False
    with "1.prems" consider "wave = take s xs" | "wave \<in> set (vec_chunks s (drop s xs))"
      by (subst (asm) vec_chunks.simps) auto
    then show ?thesis
    proof cases
      case 1
      with False show ?thesis by (intro exI [of _ 0]) simp
    next
      case 2
      from "1.IH" [OF False this] obtain i where "i < length (drop s xs)" "wave = take s (drop i (drop s xs))" by blast
      then show ?thesis by (intro exI [of _ "i + s"]) simp
    qed
  qed
qed

lemma wave_in_window:
  assumes "wave \<in> set (vec_chunks s fs)" and "0 < s"
  shows "\<exists>i. i + min s (length fs) \<le> length fs \<and> mset wave \<subseteq># mset (window (min s (length fs)) fs i)"
proof -
  from vec_chunks_windows [OF assms(1)] obtain i where i: "i < length fs" "wave = take s (drop i fs)" by blast
  show ?thesis
  proof (cases "i + s \<le> length fs")
    case True
    with i show ?thesis by (intro exI [of _ i]) (simp add: window_def min_def)
  next
    case False
    define w where "w = min s (length fs)"
    have le: "length fs - w \<le> i" using False by (auto simp: w_def min_def)
    have "window w fs (length fs - w) = drop (length fs - w) fs" by (simp add: window_def w_def)
    moreover have "wave = drop (i - (length fs - w)) (drop (length fs - w) fs)" using i False le by simp
    ultimately have "mset wave \<subseteq># mset (window w fs (length fs - w))"
      by (metis append_take_drop_id mset_append mset_subset_eq_add_right)
    then show ?thesis by (intro exI [of _ "length fs - w"]) (simp add: w_def)
  qed
qed

lemma footprints_length:
  "selected_resource_footprints_for_plan h m plan = Inr fs \<Longrightarrow> length fs = length (plan_row_group_ids plan)"
  unfolding selected_resource_footprints_for_plan_def selected_row_groups_for_plan_def
  by (auto elim!: sbind_InrE dest!: try_map_length)

lemma in_flight_sliding:
  assumes "validate_in_flight_plan_resource_limits h m plan k = Inr ()" and "plan_row_group_ids plan \<noteq> []"
  shows "validate_sliding_in_flight_plan_resource_limits h m plan k = Inr ()"
proof -
  from assms obtain fs where fs: "selected_resource_footprints_for_plan h m plan = Inr fs"
    by (auto simp: validate_in_flight_plan_resource_limits_def Let_def sbind_eq_Inr)
  note len = footprints_length [OF fs]
  have "admitted (md_resource_limits m) (window (min (max k 1) (length fs)) fs i)" if "i + min (max k 1) (length fs) \<le> length fs" for i
  proof -
    have "mset (window (min (max k 1) (length fs)) fs i) \<subseteq># mset fs"
      unfolding window_def by (metis append_take_drop_id mset_append mset_subset_eq_add_left mset_subset_eq_add_right subset_mset.order_trans)
    moreover have "length (window (min (max k 1) (length fs)) fs i) \<le> min (max k 1) (length (plan_row_group_ids plan))"
      by (simp add: window_def len min_def max_def)
    ultimately show ?thesis using assms(1) [unfolded validate_in_flight_iff [OF assms(2) fs]] by blast
  qed
  moreover have "fs \<noteq> []" using len assms(2) by auto
  ultimately show ?thesis
    using fs validate_sliding_iff [of fs _ k "md_resource_limits m"]
    by (simp add: validate_sliding_in_flight_plan_resource_limits_def)
qed

lemma sliding_contiguous:
  assumes "validate_sliding_in_flight_plan_resource_limits h m plan k = Inr ()"
  shows "validate_contiguous_in_flight_plan_resource_limits h m plan k = Inr ()"
proof -
  from assms obtain fs where fs: "selected_resource_footprints_for_plan h m plan = Inr fs"
    and ok: "validate_sliding_resource_footprints fs k (md_resource_limits m) = Inr ()"
    by (auto simp: validate_sliding_in_flight_plan_resource_limits_def sbind_eq_Inr)
  have "admitted (md_resource_limits m) wave" if w: "wave \<in> set (vec_chunks (max k 1) fs)" for wave
  proof -
    from w have ne: "fs \<noteq> []" by (auto simp: vec_chunks.simps)
    have "0 < max k 1" by simp
    from wave_in_window [OF w this] obtain i where "i + min (max k 1) (length fs) \<le> length fs"
      "mset wave \<subseteq># mset (window (min (max k 1) (length fs)) fs i)" by auto
    with ok [unfolded validate_sliding_iff [OF ne refl]] show ?thesis by (blast intro: admitted_mono)
  qed
  with fs show ?thesis by (auto simp: validate_contiguous_iff)
qed

subsection \<open>Owned reads\<close>

lemma add_owned_footprint_total:
  assumes "c < 2 ^ 64" and "d < 2 ^ 64"
  shows "add_owned_footprint f (total_footprint c d) = Inr t \<longleftrightarrow>
     c + unat (srf_compressed_bytes f) < 2 ^ 64 \<and> d + unat (srf_decoded_materialized_bytes f) < 2 ^ 64 \<and>
     t = total_footprint (c + unat (srf_compressed_bytes f)) (d + unat (srf_decoded_materialized_bytes f))"
  using assms unfolding add_owned_footprint_def total_footprint_update(2,3)
  by (simp only: checked_add_of_nat if_split) (auto simp: total_footprint_def)

lemma add_owned_footprints:
  assumes "c < 2 ^ 64" and "d < 2 ^ 64"
  shows "for_each add_owned_footprint fs (total_footprint c d) = Inr t \<longleftrightarrow>
     c + compressed_total fs < 2 ^ 64 \<and> d + decoded_total fs < 2 ^ 64 \<and>
     t = total_footprint (c + compressed_total fs) (d + decoded_total fs)"
  using assms
proof (induction fs arbitrary: c d)
  case Nil
  then show ?case by auto
next
  case (Cons f fs)
  let ?c = "c + unat (srf_compressed_bytes f)" and ?d = "d + unat (srf_decoded_materialized_bytes f)"
  have "for_each add_owned_footprint (f # fs) (total_footprint c d) = Inr t \<longleftrightarrow>
      ?c < 2 ^ 64 \<and> ?d < 2 ^ 64 \<and> for_each add_owned_footprint fs (total_footprint ?c ?d) = Inr t"
    by (auto simp: sbind_eq_Inr add_owned_footprint_total [OF Cons.prems])
  with Cons.IH [of ?c ?d] show ?case by (auto simp: add.assoc)
qed

lemma validate_owned_iff:
  "validate_owned_plan_resource_limits h m plan = Inr () \<longleftrightarrow>
     (\<exists>fs. selected_resource_footprints_for_plan h m plan = Inr fs \<and> admitted (md_resource_limits m) fs)"
proof -
  have zero: "SelectedResourceFootprint_default = total_footprint 0 0"
    by (simp add: total_footprint_def SelectedResourceFootprint_default_def)
  have "validate_owned_plan_resource_limits h m plan = Inr () \<longleftrightarrow>
      (\<exists>fs. selected_resource_footprints_for_plan h m plan = Inr fs \<and> compressed_total fs < 2 ^ 64 \<and> decoded_total fs < 2 ^ 64 \<and>
         validate_footprint_totals (total_footprint (compressed_total fs) (decoded_total fs)) (md_resource_limits m) = Inr ())"
    unfolding validate_owned_plan_resource_limits_def zero
    by (auto simp: sbind_eq_Inr add_owned_footprints [of 0 0, simplified])
  then show ?thesis using admitted_bounds [of "md_resource_limits m"]
    by (auto simp: validate_footprint_totals_total admitted_def)
qed

end
