(* ===== verification/Row_Group_Read.thy ===== *)
theory Row_Group_Read
  imports Admission
begin

text \<open>
  Reading one row group into owned arrays (\<open>column_bundle/execution.rs\<close>, from \<open>read_row_group\<close> on) and the
  value types it returns (\<open>column_bundle.rs\<close>).

  The code has an owned, a borrowed and a mutably borrowed enumeration of column values with the
  same constructors; the model has one datatype for the three.  A floating-point value is its bit
  pattern.  Of the attribution the code can collect, the counters are modelled and the durations are
  not: no operation reads a duration.
\<close>

section \<open>Values, validity and batches\<close>

datatype PrimitiveColumnValues =
    Values_I32 "i32 list"
  | Values_I64 "i64 list"
  | Values_F32 "u32 list"
  | Values_F64 "u64 list"
  | Values_FixedBinary u32 bytes

fun PrimitiveColumnValuesRef_physical_type :: "PrimitiveColumnValues \<Rightarrow> ColumnPhysicalType" where
  "PrimitiveColumnValuesRef_physical_type (Values_I32 _) = Column_I32"
| "PrimitiveColumnValuesRef_physical_type (Values_I64 _) = Column_I64"
| "PrimitiveColumnValuesRef_physical_type (Values_F32 _) = Column_F32"
| "PrimitiveColumnValuesRef_physical_type (Values_F64 _) = Column_F64"
| "PrimitiveColumnValuesRef_physical_type (Values_FixedBinary w _) = Column_FixedBinary w"

fun PrimitiveColumnValuesRef_len :: "PrimitiveColumnValues \<Rightarrow> usize" where
  "PrimitiveColumnValuesRef_len (Values_I32 vs) = length vs"
| "PrimitiveColumnValuesRef_len (Values_I64 vs) = length vs"
| "PrimitiveColumnValuesRef_len (Values_F32 vs) = length vs"
| "PrimitiveColumnValuesRef_len (Values_F64 vs) = length vs"
| "PrimitiveColumnValuesRef_len (Values_FixedBinary w bs) = (if w = 0 then 0 else length bs div unat w)"

definition PrimitiveColumnValuesRef_is_empty :: "PrimitiveColumnValues \<Rightarrow> bool" where
  "PrimitiveColumnValuesRef_is_empty self \<longleftrightarrow> PrimitiveColumnValuesRef_len self = 0"

record ValidityBitmap =
  vb_row_count :: u64
  vb_bytes :: bytes

text \<open>
  The owned bitmap indexes its bytes and panics, the value \<^const>\<open>None\<close>, when there are too few of
  them; the borrowed one reports an error.
\<close>

definition ValidityBitmap_is_valid :: "ValidityBitmap \<Rightarrow> u64 \<Rightarrow> bool result option" where
  "ValidityBitmap_is_valid self row =
     (if row \<ge> vb_row_count self
      then Some (Inl (ocb_invalid_input ''OCB validity bitmap row index is out of bounds'')) else
      case vec_get (vb_bytes self) (unat (row div 8)) of
        None \<Rightarrow> None
      | Some byte \<Rightarrow> Some (Inr (byte AND push_bit (unat (row mod 8)) 1 \<noteq> 0)))"

definition ValidityBitmapRef_is_valid :: "ValidityBitmap \<Rightarrow> u64 \<Rightarrow> bool result" where
  "ValidityBitmapRef_is_valid self row =
     (if row \<ge> vb_row_count self
      then Inl (ocb_invalid_input ''OCB validity bitmap row index is out of bounds'') else
      sbind (ok_or (vec_get (vb_bytes self) (unat (row div 8)))
         (ocb_invalid_input ''OCB validity bitmap storage is too small for row index'')) (\<lambda>byte.
      Inr (byte AND push_bit (unat (row mod 8)) 1 \<noteq> 0)))"

record ColumnArray =
  ca_column_id :: u32
  ca_name :: bytes
  ca_physical_type :: ColumnPhysicalType
  ca_logical_kind :: ColumnLogicalKind
  ca_dictionary_id :: "u32 option"
  ca_values :: PrimitiveColumnValues
  ca_validity :: "ValidityBitmap option"

record ColumnBatch =
  batch_row_group_id :: u32
  batch_base_row :: u64
  batch_row_count :: u64
  batch_columns :: "ColumnArray list"

section \<open>Decoding values\<close>

definition decoded_values_allocation_error :: ArcadiaTioError where
  "decoded_values_allocation_error =
     Io (IoError IoKind_OutOfMemory ''OCB decoded-value allocation failed within resource limit'')"

text \<open>\<open>chunks_exact(n)\<close>: the full pieces of length \<open>n\<close>; a shorter rest is left out.\<close>

function chunks_exact :: "nat \<Rightarrow> 'a list \<Rightarrow> 'a list list" where
  "chunks_exact n xs = (if n = 0 \<or> length xs < n then [] else take n xs # chunks_exact n (drop n xs))"
  by pat_completeness auto
termination by (relation "measure (\<lambda>(n, xs). length xs)") auto

declare chunks_exact.simps [simp del]

text \<open>An allocation names the unsigned type of the element's width, which is all that matters to it.\<close>

definition decode_primitive_chunks_fallibly ::
  "host \<Rightarrow> rust_type \<Rightarrow> bytes \<Rightarrow> nat \<Rightarrow> (bytes \<Rightarrow> 'a) \<Rightarrow> 'a list result" where
  "decode_primitive_chunks_fallibly h ty payload byte_width decode =
     (if \<not> try_reserve_exact h ty (length payload div byte_width)
        ''OCB decoded-value allocation failed within resource limit''
      then Inl decoded_values_allocation_error
      else Inr (map decode (chunks_exact byte_width payload)))"

definition decode_primitive_values :: "host \<Rightarrow> ColumnPhysicalType \<Rightarrow> bytes \<Rightarrow> PrimitiveColumnValues result" where
  "decode_primitive_values h physical_type payload =
     (case physical_type of
        Column_I32 \<Rightarrow>
          if length payload mod 4 \<noteq> 0
          then Inl (ocb_corrupt_file ''OCB i32 payload length is not aligned'')
          else sbind (decode_primitive_chunks_fallibly h TyU32 payload 4 from_le_bytes) (\<lambda>vs. Inr (Values_I32 vs))
      | Column_I64 \<Rightarrow>
          if length payload mod 8 \<noteq> 0
          then Inl (ocb_corrupt_file ''OCB i64 payload length is not aligned'')
          else sbind (decode_primitive_chunks_fallibly h TyU64 payload 8 from_le_bytes) (\<lambda>vs. Inr (Values_I64 vs))
      | Column_F32 \<Rightarrow>
          if length payload mod 4 \<noteq> 0
          then Inl (ocb_corrupt_file ''OCB f32 payload length is not aligned'')
          else sbind (decode_primitive_chunks_fallibly h TyU32 payload 4 from_le_bytes) (\<lambda>vs. Inr (Values_F32 vs))
      | Column_F64 \<Rightarrow>
          if length payload mod 8 \<noteq> 0
          then Inl (ocb_corrupt_file ''OCB f64 payload length is not aligned'')
          else sbind (decode_primitive_chunks_fallibly h TyU64 payload 8 from_le_bytes) (\<lambda>vs. Inr (Values_F64 vs))
      | Column_FixedBinary w \<Rightarrow>
          if w = 0
          then Inl (ocb_corrupt_file ''OCB fixed-binary column requires fixed width'') else
          if length payload mod unat w \<noteq> 0
          then Inl (ocb_corrupt_file ''OCB fixed-binary payload length is not aligned'')
          else Inr (Values_FixedBinary w payload))"

definition validate_and_decode_chunk_object ::
  "host \<Rightarrow> zstd \<Rightarrow> OcbColumnChunkObjectV1 \<Rightarrow> BundleColumn \<Rightarrow> OcbColumnChunkDescV1 \<Rightarrow> OcbResourceLimits \<Rightarrow> bytes result" where
  "validate_and_decode_chunk_object h zstd object column chunk resource_limits =
     (if cco_row_group_id object \<noteq> chunk_row_group_id chunk \<or> cco_column_id object \<noteq> chunk_column_id chunk
      then Inl (ocb_corrupt_file ''OCB column chunk object identity does not match descriptor'') else
      if cco_physical_type object \<noteq> ocb_physical_type (bc_physical_type column)
      then Inl (ocb_corrupt_file ''OCB column chunk object physical type does not match schema'') else
      if cco_codec object \<noteq> chunk_codec chunk
      then Inl (ocb_corrupt_file ''OCB column chunk object codec does not match descriptor'') else
      if cco_row_count object \<noteq> chunk_row_count chunk
      then Inl (ocb_corrupt_file ''OCB column chunk object row_count does not match descriptor'') else
      if cco_uncompressed_bytes object \<noteq> chunk_uncompressed_bytes chunk
      then Inl (ocb_corrupt_file ''OCB column chunk object byte length does not match descriptor'') else
      sbind (into_decoded_payload_with_limits h zstd object (max_compressed_chunk_bytes resource_limits)
        (max_decompressed_chunk_bytes resource_limits)) (\<lambda>payload.
      if of_nat (length payload) \<noteq> chunk_uncompressed_bytes chunk
      then Inl (ocb_corrupt_file ''OCB column chunk object byte length does not match descriptor'')
      else Inr payload))"

section \<open>Reading a row group\<close>

definition read_validity_bitmap ::
  "host \<Rightarrow> OcbReadSource \<Rightarrow> OcbMetadataV1 \<Rightarrow> OcbColumnChunkDescV1 \<Rightarrow> ValidityBitmap option result" where
  "read_validity_bitmap h source metadata chunk =
     (if is_null (chunk_validity_ref chunk) then Inr None else
      let expected_bytes = div_ceil (chunk_row_count chunk) 8 in
      sbind (read_object_bytes_with_resource_limits h (OcbReadSource_cursor source) (md_file_len metadata)
        (chunk_validity_ref chunk) BodyKind_ValidityBitmap (md_resource_limits metadata)) (\<lambda>bs.
      if of_nat (length bs) \<noteq> expected_bytes
      then Inl (ocb_corrupt_file ''OCB validity bitmap length does not match row count'')
      else Inr (Some \<lparr>vb_row_count = chunk_row_count chunk, vb_bytes = bs\<rparr>)))"

definition read_column_array ::
  "host \<Rightarrow> zstd \<Rightarrow> OcbReadSource \<Rightarrow> OcbMetadataV1 \<Rightarrow> BundleColumn \<Rightarrow> OcbColumnChunkDescV1 \<Rightarrow> u64 \<Rightarrow> ColumnArray result" where
  "read_column_array h zstd source metadata column chunk expected_rows =
     (if \<not> bc_nullable column \<and> \<not> is_null (chunk_validity_ref chunk)
      then Inl (ocb_corrupt_file ''OCB non-null column chunk cannot have a validity bitmap'') else
      if chunk_physical_type chunk \<noteq> ocb_physical_type (bc_physical_type column)
      then Inl (ocb_corrupt_file ''OCB chunk physical type does not match schema'') else
      if chunk_row_count chunk \<noteq> expected_rows
      then Inl (ocb_corrupt_file ''OCB chunk row_count does not match row group'') else
      sbind (read_column_chunk_from_source_with_resource_limits h source (md_file_len metadata) chunk
        (md_resource_limits metadata)) (\<lambda>object.
      sbind (validate_and_decode_chunk_object h zstd object column chunk (md_resource_limits metadata)) (\<lambda>payload.
      sbind (read_validity_bitmap h source metadata chunk) (\<lambda>validity.
      sbind (clone_column_bundle_string_fallibly h (bc_name column)) (\<lambda>name.
      sbind (decode_primitive_values h (bc_physical_type column) payload) (\<lambda>vs.
      Inr \<lparr>ca_column_id = bc_id column, ca_name = name, ca_physical_type = bc_physical_type column,
           ca_logical_kind = bc_logical_kind column, ca_dictionary_id = bc_dictionary_id column,
           ca_values = vs, ca_validity = validity\<rparr>))))))"

text \<open>The loop that indexes the chunk descriptors of a row group by their column.\<close>

definition chunk_by_column ::
  "host \<Rightarrow> OcbRowGroupDescV1 \<Rightarrow> OcbColumnChunkDescV1 list \<Rightarrow> (u32, OcbColumnChunkDescV1) hash_map result" where
  "chunk_by_column h row_group chunks =
     sbind (try_column_bundle_hash_map_with_capacity h (length chunks)) (\<lambda>by_column.
     for_each (\<lambda>chunk by_column.
       if chunk_row_group_id chunk \<noteq> rg_row_group_id row_group
       then Inl (ocb_corrupt_file ''OCB row-group chunk descriptor references a different row group'') else
       if hash_contains by_column (chunk_column_id chunk)
       then Inl (ocb_corrupt_file ''OCB row group has duplicate chunk descriptors for a column'')
       else Inr (hash_insert by_column (chunk_column_id chunk) chunk)) chunks by_column)"

definition read_row_group ::
  "host \<Rightarrow> zstd \<Rightarrow> OcbReadSource \<Rightarrow> OcbMetadataV1 \<Rightarrow> BundleColumn list \<Rightarrow> u32 \<Rightarrow> u32 list \<Rightarrow> ColumnBatch result" where
  "read_row_group h zstd source metadata columns row_group_id selected_column_ids =
     sbind (ok_or (row_group_by_id metadata row_group_id) (ocb_corrupt_file ''OCB row group not found'')) (\<lambda>row_group.
     sbind (chunks_for_row_group metadata (rg_chunk_desc_begin row_group) (rg_chunk_desc_count row_group)) (\<lambda>chunks.
     sbind (chunk_by_column h row_group chunks) (\<lambda>by_column.
     sbind (try_column_bundle_vec_with_capacity h TyColumnArray (length selected_column_ids)) (\<lambda>arrays.
     sbind (try_map (\<lambda>column_id.
       sbind (ok_or (List.find (\<lambda>column. bc_id column = column_id) columns)
          (ocb_corrupt_file ''OCB selected column not found'')) (\<lambda>column.
       sbind (ok_or (hash_get by_column column_id)
          (ocb_corrupt_file ''OCB row group is missing a selected column chunk'')) (\<lambda>chunk.
       read_column_array h zstd source metadata column chunk (rg_row_count row_group)))) selected_column_ids) (\<lambda>read.
     Inr \<lparr>batch_row_group_id = rg_row_group_id row_group, batch_base_row = rg_base_row row_group,
          batch_row_count = rg_row_count row_group, batch_columns = arrays @ read\<rparr>)))))"

section \<open>Reading with attribution\<close>

record OcbReadObjectAttribution =
  roa_bytes_read :: u64

definition OcbReadObjectAttribution_default :: OcbReadObjectAttribution where
  "OcbReadObjectAttribution_default = \<lparr>roa_bytes_read = 0\<rparr>"

record ReadAttributionAccumulator =
  raa_row_groups_materialized :: usize
  raa_column_chunks_materialized :: usize
  raa_bytes_read :: u64
  raa_compressed_bytes :: u64
  raa_uncompressed_bytes :: u64

definition ReadAttributionAccumulator_default :: ReadAttributionAccumulator where
  "ReadAttributionAccumulator_default =
     \<lparr>raa_row_groups_materialized = 0, raa_column_chunks_materialized = 0, raa_bytes_read = 0,
      raa_compressed_bytes = 0, raa_uncompressed_bytes = 0\<rparr>"

definition usize_saturating_add :: "usize \<Rightarrow> usize \<Rightarrow> usize" where
  "usize_saturating_add a b = min (a + b) usize_max"

definition ReadAttributionAccumulator_add ::
  "ReadAttributionAccumulator \<Rightarrow> ReadAttributionAccumulator \<Rightarrow> ReadAttributionAccumulator" where
  "ReadAttributionAccumulator_add self other =
     \<lparr>raa_row_groups_materialized = usize_saturating_add (raa_row_groups_materialized self) (raa_row_groups_materialized other),
      raa_column_chunks_materialized =
        usize_saturating_add (raa_column_chunks_materialized self) (raa_column_chunks_materialized other),
      raa_bytes_read = saturating_add (raa_bytes_read self) (raa_bytes_read other),
      raa_compressed_bytes = saturating_add (raa_compressed_bytes self) (raa_compressed_bytes other),
      raa_uncompressed_bytes = saturating_add (raa_uncompressed_bytes self) (raa_uncompressed_bytes other)\<rparr>"

definition add_object :: "ReadAttributionAccumulator \<Rightarrow> OcbReadObjectAttribution \<Rightarrow> ReadAttributionAccumulator" where
  "add_object self object = self\<lparr>raa_bytes_read := saturating_add (raa_bytes_read self) (roa_bytes_read object)\<rparr>"

text \<open>
  The attribution of an object is local to the read of that object: a failed read drops it, so the
  counter need only be right on success.
\<close>

definition read_object_bytes_with_attribution_and_resource_limits ::
  "host \<Rightarrow> OcbReadCursor \<Rightarrow> u64 \<Rightarrow> OcbBodyRefV2 \<Rightarrow> OcbBodyKindV1 \<Rightarrow> OcbReadObjectAttribution \<Rightarrow> OcbResourceLimits \<Rightarrow>
   (bytes \<times> OcbReadObjectAttribution) result" where
  "read_object_bytes_with_attribution_and_resource_limits h file file_len reference expected_kind attribution resource_limits =
     sbind (read_object_bytes_inner_with_limits h file file_len reference expected_kind
       (max_encoded_object_bytes resource_limits) (of_nat usize_max)) (\<lambda>bs.
     Inr (bs, attribution\<lparr>roa_bytes_read := saturating_add (roa_bytes_read attribution) (br_length reference)\<rparr>))"

definition read_column_chunk_from_source_with_attribution_and_resource_limits ::
  "host \<Rightarrow> OcbReadSource \<Rightarrow> u64 \<Rightarrow> OcbColumnChunkDescV1 \<Rightarrow> OcbReadObjectAttribution \<Rightarrow> OcbResourceLimits \<Rightarrow>
   (OcbColumnChunkObjectV1 \<times> OcbReadObjectAttribution) result" where
  "read_column_chunk_from_source_with_attribution_and_resource_limits h source file_len chunk attribution resource_limits =
     (let file = OcbReadSource_cursor source in
     sbind (validate_column_chunk_object_header file file_len chunk resource_limits) (\<lambda>_.
     sbind (read_object_bytes_with_attribution_and_resource_limits h file file_len (chunk_value_ref chunk)
        BodyKind_ColumnChunk attribution resource_limits) (\<lambda>(bs, attribution).
     sbind (OcbColumnChunkObjectV1_read_from_bytes bs) (\<lambda>object. Inr (object, attribution)))))"

definition read_column_chunk_attributed ::
  "host \<Rightarrow> OcbReadSource \<Rightarrow> u64 \<Rightarrow> OcbColumnChunkDescV1 \<Rightarrow> ReadAttributionAccumulator \<Rightarrow> OcbResourceLimits \<Rightarrow>
   (OcbColumnChunkObjectV1 \<times> ReadAttributionAccumulator) result" where
  "read_column_chunk_attributed h source file_len chunk attribution resource_limits =
     sbind (read_column_chunk_from_source_with_attribution_and_resource_limits h source file_len chunk
        OcbReadObjectAttribution_default resource_limits) (\<lambda>(object, object_attr).
     let attribution = add_object attribution object_attr in
     Inr (object, attribution
       \<lparr>raa_compressed_bytes := saturating_add (raa_compressed_bytes attribution) (of_nat (length (cco_payload object))),
        raa_uncompressed_bytes := saturating_add (raa_uncompressed_bytes attribution) (chunk_uncompressed_bytes chunk)\<rparr>))"

definition read_validity_bitmap_with_attribution ::
  "host \<Rightarrow> OcbReadSource \<Rightarrow> OcbMetadataV1 \<Rightarrow> OcbColumnChunkDescV1 \<Rightarrow> ReadAttributionAccumulator \<Rightarrow>
   (ValidityBitmap option \<times> ReadAttributionAccumulator) result" where
  "read_validity_bitmap_with_attribution h source metadata chunk attribution =
     (if is_null (chunk_validity_ref chunk) then Inr (None, attribution) else
      let expected_bytes = div_ceil (chunk_row_count chunk) 8 in
      sbind (read_object_bytes_with_attribution_and_resource_limits h (OcbReadSource_cursor source) (md_file_len metadata)
        (chunk_validity_ref chunk) BodyKind_ValidityBitmap OcbReadObjectAttribution_default
        (md_resource_limits metadata)) (\<lambda>(bs, object_attr).
      let attribution = add_object attribution object_attr in
      if of_nat (length bs) \<noteq> expected_bytes
      then Inl (ocb_corrupt_file ''OCB validity bitmap length does not match row count'')
      else Inr (Some \<lparr>vb_row_count = chunk_row_count chunk, vb_bytes = bs\<rparr>, attribution)))"

text \<open>The code returns the time spent decompressing beside the payload; the model the payload.\<close>

definition validate_and_decode_chunk_object_attributed ::
  "host \<Rightarrow> zstd \<Rightarrow> OcbColumnChunkObjectV1 \<Rightarrow> BundleColumn \<Rightarrow> OcbColumnChunkDescV1 \<Rightarrow> OcbResourceLimits \<Rightarrow> bytes result" where
  "validate_and_decode_chunk_object_attributed h zstd object column chunk resource_limits =
     (if cco_row_group_id object \<noteq> chunk_row_group_id chunk \<or> cco_column_id object \<noteq> chunk_column_id chunk
      then Inl (ocb_corrupt_file ''OCB column chunk object identity does not match descriptor'') else
      if cco_physical_type object \<noteq> ocb_physical_type (bc_physical_type column)
      then Inl (ocb_corrupt_file ''OCB column chunk object physical type does not match schema'') else
      if cco_codec object \<noteq> chunk_codec chunk
      then Inl (ocb_corrupt_file ''OCB column chunk object codec does not match descriptor'') else
      if cco_row_count object \<noteq> chunk_row_count chunk
      then Inl (ocb_corrupt_file ''OCB column chunk object row_count does not match descriptor'') else
      if cco_uncompressed_bytes object \<noteq> chunk_uncompressed_bytes chunk
      then Inl (ocb_corrupt_file ''OCB column chunk object byte length does not match descriptor'') else
      sbind (into_decoded_payload_with_limits h zstd object (max_compressed_chunk_bytes resource_limits)
        (max_decompressed_chunk_bytes resource_limits)) (\<lambda>payload.
      if of_nat (length payload) \<noteq> chunk_uncompressed_bytes chunk
      then Inl (ocb_corrupt_file ''OCB column chunk object byte length does not match descriptor'')
      else Inr payload))"

definition read_column_array_with_attribution ::
  "host \<Rightarrow> zstd \<Rightarrow> OcbReadSource \<Rightarrow> OcbMetadataV1 \<Rightarrow> BundleColumn \<Rightarrow> OcbColumnChunkDescV1 \<Rightarrow> u64 \<Rightarrow>
   (ColumnArray \<times> ReadAttributionAccumulator) result" where
  "read_column_array_with_attribution h zstd source metadata column chunk expected_rows =
     (if \<not> bc_nullable column \<and> \<not> is_null (chunk_validity_ref chunk)
      then Inl (ocb_corrupt_file ''OCB non-null column chunk cannot have a validity bitmap'') else
      if chunk_physical_type chunk \<noteq> ocb_physical_type (bc_physical_type column)
      then Inl (ocb_corrupt_file ''OCB chunk physical type does not match schema'') else
      if chunk_row_count chunk \<noteq> expected_rows
      then Inl (ocb_corrupt_file ''OCB chunk row_count does not match row group'') else
      sbind (read_column_chunk_attributed h source (md_file_len metadata) chunk ReadAttributionAccumulator_default
        (md_resource_limits metadata)) (\<lambda>(object, attribution).
      sbind (validate_and_decode_chunk_object_attributed h zstd object column chunk (md_resource_limits metadata)) (\<lambda>payload.
      sbind (read_validity_bitmap_with_attribution h source metadata chunk attribution) (\<lambda>(validity, attribution).
      sbind (decode_primitive_values h (bc_physical_type column) payload) (\<lambda>vs.
      sbind (clone_column_bundle_string_fallibly h (bc_name column)) (\<lambda>name.
      Inr (\<lparr>ca_column_id = bc_id column, ca_name = name, ca_physical_type = bc_physical_type column,
           ca_logical_kind = bc_logical_kind column, ca_dictionary_id = bc_dictionary_id column,
           ca_values = vs, ca_validity = validity\<rparr>, attribution)))))))"

definition read_row_group_with_attribution ::
  "host \<Rightarrow> zstd \<Rightarrow> OcbReadSource \<Rightarrow> OcbMetadataV1 \<Rightarrow> BundleColumn list \<Rightarrow> u32 \<Rightarrow> u32 list \<Rightarrow>
   (ColumnBatch \<times> ReadAttributionAccumulator) result" where
  "read_row_group_with_attribution h zstd source metadata columns row_group_id selected_column_ids =
     sbind (ok_or (row_group_by_id metadata row_group_id) (ocb_corrupt_file ''OCB row group not found'')) (\<lambda>row_group.
     sbind (chunks_for_row_group metadata (rg_chunk_desc_begin row_group) (rg_chunk_desc_count row_group)) (\<lambda>chunks.
     sbind (chunk_by_column h row_group chunks) (\<lambda>by_column.
     sbind (try_column_bundle_vec_with_capacity h TyColumnArray (length selected_column_ids)) (\<lambda>arrays.
     sbind (for_each (\<lambda>column_id (arrays, attribution).
       sbind (ok_or (List.find (\<lambda>column. bc_id column = column_id) columns)
          (ocb_corrupt_file ''OCB selected column not found'')) (\<lambda>column.
       sbind (ok_or (hash_get by_column column_id)
          (ocb_corrupt_file ''OCB row group is missing a selected column chunk'')) (\<lambda>chunk.
       sbind (read_column_array_with_attribution h zstd source metadata column chunk (rg_row_count row_group)) (\<lambda>(array, column_attr).
       Inr (arrays @ [array], ReadAttributionAccumulator_add attribution column_attr)))))
       selected_column_ids (arrays, ReadAttributionAccumulator_default)) (\<lambda>(arrays, attribution).
     Inr (\<lparr>batch_row_group_id = rg_row_group_id row_group, batch_base_row = rg_base_row row_group,
           batch_row_count = rg_row_count row_group, batch_columns = arrays\<rparr>,
          attribution\<lparr>raa_row_groups_materialized := 1, raa_column_chunks_materialized := length arrays\<rparr>))))))"

record ColumnBundleReadAttribution =
  cra_bytes_read :: u64
  cra_compressed_bytes :: u64
  cra_uncompressed_bytes :: u64
  cra_requested_threads :: usize
  cra_effective_threads :: usize
  cra_selected_row_groups :: usize
  cra_pruned_row_groups :: usize
  cra_selected_column_chunks :: usize
  cra_fallback_reason :: "string option"

definition attribution_from_accumulator ::
  "ReadAttributionAccumulator \<Rightarrow> ColumnBundleReadReport \<Rightarrow> ColumnBundleReadAttribution" where
  "attribution_from_accumulator accumulator report =
     \<lparr>cra_bytes_read = raa_bytes_read accumulator, cra_compressed_bytes = raa_compressed_bytes accumulator,
      cra_uncompressed_bytes = raa_uncompressed_bytes accumulator,
      cra_requested_threads = rr_requested_threads report, cra_effective_threads = rr_effective_threads report,
      cra_selected_row_groups = raa_row_groups_materialized accumulator,
      cra_pruned_row_groups = rr_pruned_row_groups report,
      cra_selected_column_chunks = raa_column_chunks_materialized accumulator,
      cra_fallback_reason = rr_fallback_reason report\<rparr>"

section \<open>Decoded values are the payload\<close>

text \<open>The bytes of column values: what decoding has to invert.\<close>

fun value_bytes :: "PrimitiveColumnValues \<Rightarrow> bytes" where
  "value_bytes (Values_I32 vs) = concat (map (to_le_bytes 4) vs)"
| "value_bytes (Values_I64 vs) = concat (map (to_le_bytes 8) vs)"
| "value_bytes (Values_F32 vs) = concat (map (to_le_bytes 4) vs)"
| "value_bytes (Values_F64 vs) = concat (map (to_le_bytes 8) vs)"
| "value_bytes (Values_FixedBinary w bs) = bs"

fun type_width :: "ColumnPhysicalType \<Rightarrow> nat" where
  "type_width Column_I32 = 4"
| "type_width Column_I64 = 8"
| "type_width Column_F32 = 4"
| "type_width Column_F64 = 8"
| "type_width (Column_FixedBinary w) = unat w"

lemma chunks_exact_Nil: "length xs < n \<Longrightarrow> chunks_exact n xs = []"
  by (simp add: chunks_exact.simps)

lemma chunks_exact_concat: "0 < n \<Longrightarrow> length xs mod n = 0 \<Longrightarrow> concat (chunks_exact n xs) = xs"
proof (induction n xs rule: chunks_exact.induct)
  case (1 n xs)
  show ?case
  proof (cases "length xs < n")
    case True
    with 1 show ?thesis by (simp add: chunks_exact_Nil)
  next
    case False
    then have "length (drop n xs) mod n = 0" using 1 by (simp add: le_mod_geq)
    with False 1 show ?thesis by (subst chunks_exact.simps) simp
  qed
qed

lemma chunks_exact_pieces: "c \<in> set (chunks_exact n xs) \<Longrightarrow> length c = n"
proof (induction n xs rule: chunks_exact.induct)
  case (1 n xs)
  then show ?case by (subst (asm) (2) chunks_exact.simps) (auto split: if_splits)
qed

lemma length_chunks_exact: "0 < n \<Longrightarrow> length (chunks_exact n xs) = length xs div n"
proof (induction n xs rule: chunks_exact.induct)
  case (1 n xs)
  then show ?case
    by (subst chunks_exact.simps) (auto simp: le_div_geq not_less)
qed

lemma chunks_exact_concat_map:
  assumes "\<And>v. v \<in> set vs \<Longrightarrow> length (f v) = n" and "0 < n"
  shows "chunks_exact n (concat (map f vs)) = map f vs"
  using assms
proof (induction vs)
  case Nil
  then show ?case by (simp add: chunks_exact_Nil)
next
  case (Cons v vs)
  then show ?case by (subst chunks_exact.simps) simp
qed

lemma decode_primitive_chunks:
  assumes "length payload mod n = 0" and "0 < n" and "8 * n = LENGTH('a)"
  shows "concat (map (to_le_bytes n) (map (from_le_bytes :: bytes \<Rightarrow> 'a::len word) (chunks_exact n payload))) = payload"
proof -
  have "to_le_bytes n (from_le_bytes c :: 'a word) = c" if "c \<in> set (chunks_exact n payload)" for c
    using to_from_le_bytes [where 'a = 'a, of c] chunks_exact_pieces [OF that] assms(3) by simp
  then have "map (to_le_bytes n) (map (from_le_bytes :: bytes \<Rightarrow> 'a word) (chunks_exact n payload)) = chunks_exact n payload"
    by (simp add: map_idI)
  then show ?thesis by (simp only: chunks_exact_concat [OF assms(2,1)])
qed

lemma decode_primitive_values_Inr:
  assumes "decode_primitive_values h t payload = Inr vs"
  shows "PrimitiveColumnValuesRef_physical_type vs = t" and "value_bytes vs = payload"
    and "0 < type_width t" and "length payload mod type_width t = 0"
    and "PrimitiveColumnValuesRef_len vs = length payload div type_width t"
  using assms
  by (auto simp: decode_primitive_values_def decode_primitive_chunks_fallibly_def decode_primitive_chunks
      length_chunks_exact unat_gt_0 simp del: map_map concat_map_singleton split: ColumnPhysicalType.splits if_splits)

lemma into_decoded_payload_Inr:
  assumes "into_decoded_payload_with_limits h zstd x maxc maxd = Inr out"
  shows "length out = unat (cco_uncompressed_bytes x)" and "length out \<le> unat maxd"
    and "length (cco_payload x) \<le> unat maxc"
proof -
  have "length out = unat (cco_uncompressed_bytes x) \<and> length out \<le> unat maxd \<and> length (cco_payload x) \<le> unat maxc"
  proof (cases "cco_codec x")
    case Codec_None
    with assms have "length out < 2 ^ 64" "of_nat (length out) = cco_uncompressed_bytes x" "out = cco_payload x"
      "cco_uncompressed_bytes x \<le> maxc" "cco_uncompressed_bytes x \<le> maxd"
      by (auto simp: into_decoded_payload_with_limits_def sbind_eq_Inr uncompressed_value_bytes_def u64_try_from_Some
          not_less split: if_splits)
    then show ?thesis using unat_of_nat_u64 [of "length out"] by (simp add: word_le_nat_alt)
  next
    case Codec_Zstd
    with assms show ?thesis
      by (auto simp: into_decoded_payload_with_limits_def sbind_eq_Inr uncompressed_value_bytes_def u64_try_from_Some
          decode_zstd_payload_bounded_Inr unat_of_nat_u64 not_less word_le_nat_alt split: if_splits)
  qed
  then show "length out = unat (cco_uncompressed_bytes x)" "length out \<le> unat maxd" "length (cco_payload x) \<le> unat maxc"
    by auto
qed

lemma validate_and_decode_Inr:
  assumes "validate_and_decode_chunk_object h zstd x column chunk limits = Inr payload"
  shows "length payload = unat (chunk_uncompressed_bytes chunk)"
    and "length payload \<le> unat (max_decompressed_chunk_bytes limits)"
    and "cco_physical_type x = ocb_physical_type (bc_physical_type column)"
    and "into_decoded_payload_with_limits h zstd x (max_compressed_chunk_bytes limits)
           (max_decompressed_chunk_bytes limits) = Inr payload"
proof -
  from assms show d: "into_decoded_payload_with_limits h zstd x (max_compressed_chunk_bytes limits)
      (max_decompressed_chunk_bytes limits) = Inr payload"
    and "cco_physical_type x = ocb_physical_type (bc_physical_type column)"
    by (auto simp: validate_and_decode_chunk_object_def sbind_eq_Inr split: if_splits)
  from assms have "cco_uncompressed_bytes x = chunk_uncompressed_bytes chunk"
    by (auto simp: validate_and_decode_chunk_object_def split: if_splits)
  then show "length payload = unat (chunk_uncompressed_bytes chunk)"
    "length payload \<le> unat (max_decompressed_chunk_bytes limits)"
    using into_decoded_payload_Inr [OF d] by simp_all
qed

lemma validate_and_decode_attributed:
  "validate_and_decode_chunk_object_attributed = validate_and_decode_chunk_object"
  by (simp add: fun_eq_iff validate_and_decode_chunk_object_attributed_def validate_and_decode_chunk_object_def)

lemma div_ceil_8: "(n + 7) div 8 = (if n mod 8 = 0 then n div 8 else n div 8 + 1)" for n :: nat
proof -
  have "n + 7 = 8 * (n div 8) + (n mod 8 + 7)" by simp
  then have "(n + 7) div 8 = n div 8 + (n mod 8 + 7) div 8" by (metis div_mult_self4 zero_neq_numeral)
  moreover have "(n mod 8 + 7) div 8 = (if n mod 8 = 0 then 0 else 1)"
    using mod_less_divisor [of 8 n] by (simp add: div_eq_0_iff le_div_geq)
  ultimately show ?thesis by simp
qed

lemma unat_div_ceil_8: "unat (div_ceil n 8) = (unat n + 7) div 8"
proof -
  have d: "unat (n div 8) = unat n div 8" and m: "unat (n mod 8) = unat n mod 8"
    by (simp_all add: unat_div unat_mod)
  have "unat n div 8 + 1 < 2 ^ 64" using unsigned_less [of n, where ?'a = nat] by simp
  then have "unat (n div 8 + 1) = unat n div 8 + 1"
    by (subst unat_word_ariths(1)) (simp add: d)
  moreover have "n mod 8 > 0 \<longleftrightarrow> unat n mod 8 \<noteq> 0" by (simp only: word_less_nat_alt m unat_0 neq0_conv)
  ultimately show ?thesis by (simp only: div_ceil_def Let_def div_ceil_8 d if_distrib [of unat]) simp
qed

lemma read_validity_bitmap_Inr:
  assumes "read_validity_bitmap h source m chunk = Inr (Some v)" and "source_serves source content"
  shows "\<not> is_null (chunk_validity_ref chunk)" and "vb_row_count v = chunk_row_count chunk"
    and "length (vb_bytes v) = (unat (chunk_row_count chunk) + 7) div 8"
    and "vb_bytes v = referenced (chunk_validity_ref chunk) content"
proof -
  from assms(1) obtain bs where
    rd: "read_object_bytes_with_resource_limits h (OcbReadSource_cursor source) (md_file_len m)
      (chunk_validity_ref chunk) BodyKind_ValidityBitmap (md_resource_limits m) = Inr bs"
    and len: "of_nat (length bs) = div_ceil (chunk_row_count chunk) 8"
    and v: "v = \<lparr>vb_row_count = chunk_row_count chunk, vb_bytes = bs\<rparr>" and "\<not> is_null (chunk_validity_ref chunk)"
    by (auto simp: read_validity_bitmap_def Let_def sbind_eq_Inr split: if_splits)
  then show "\<not> is_null (chunk_validity_ref chunk)" "vb_row_count v = chunk_row_count chunk" by simp_all
  from read_object_bytes_sound(3,4) [OF rd [unfolded read_object_bytes_with_resource_limits_def]] assms(2)
  have l: "length bs = unat (br_length (chunk_validity_ref chunk))"
    and "bs = referenced (chunk_validity_ref chunk) content"
    by (auto simp: OcbReadSource_cursor_def)
  then show "vb_bytes v = referenced (chunk_validity_ref chunk) content" using v by simp
  from l have "length bs < 2 ^ 64"
    using unsigned_less [of "br_length (chunk_validity_ref chunk)", where ?'a = nat] by simp
  with len show "length (vb_bytes v) = (unat (chunk_row_count chunk) + 7) div 8"
    using unat_of_nat_u64 [of "length bs"] unat_div_ceil_8 [of "chunk_row_count chunk"] v by simp
qed

section \<open>What a read returns\<close>

text \<open>
  An array of \<open>n\<close> rows of a column: values of the column's type, one per row, and at most a validity
  bitmap, with a bit per row, when the column is nullable.
\<close>

definition array_ok :: "BundleColumn \<Rightarrow> nat \<Rightarrow> ColumnArray \<Rightarrow> bool" where
  "array_ok b n a \<longleftrightarrow>
     ca_column_id a = bc_id b \<and> ca_name a = bc_name b \<and> ca_physical_type a = bc_physical_type b \<and>
     ca_logical_kind a = bc_logical_kind b \<and> ca_dictionary_id a = bc_dictionary_id b \<and>
     PrimitiveColumnValuesRef_physical_type (ca_values a) = bc_physical_type b \<and>
     PrimitiveColumnValuesRef_len (ca_values a) = n \<and>
     length (value_bytes (ca_values a)) = n * type_width (bc_physical_type b) \<and>
     (case ca_validity a of
        None \<Rightarrow> True
      | Some v \<Rightarrow> bc_nullable b \<and> unat (vb_row_count v) = n \<and> length (vb_bytes v) = (n + 7) div 8)"

lemma read_column_array_Inr:
  assumes "read_column_array h zstd source m column chunk rows = Inr a"
  obtains object payload where
    "read_column_chunk_from_source_with_resource_limits h source (md_file_len m) chunk (md_resource_limits m) = Inr object"
    and "validate_and_decode_chunk_object h zstd object column chunk (md_resource_limits m) = Inr payload"
    and "read_validity_bitmap h source m chunk = Inr (ca_validity a)"
    and "decode_primitive_values h (bc_physical_type column) payload = Inr (ca_values a)"
    and "chunk_row_count chunk = rows" and "bc_nullable column \<or> is_null (chunk_validity_ref chunk)"
    and "chunk_physical_type chunk = ocb_physical_type (bc_physical_type column)"
    and "a = \<lparr>ca_column_id = bc_id column, ca_name = bc_name column, ca_physical_type = bc_physical_type column,
           ca_logical_kind = bc_logical_kind column, ca_dictionary_id = bc_dictionary_id column,
           ca_values = ca_values a, ca_validity = ca_validity a\<rparr>"
proof -
  from assms show thesis
    unfolding read_column_array_def
    by (elim sbind_InrE if_split_asm [THEN iffD1, elim_format]) (auto split: if_splits elim!: sbind_InrE
        dest!: clone_column_bundle_string_Inr intro: that)
qed

text \<open>The width of a resolved column is the width its descriptor has in the file.\<close>

lemma resolves_width:
  assumes "resolves m c b" and "value_byte_width c = Inr w"
  shows "type_width (bc_physical_type b) = unat w"
proof -
  have "column_physical_type_from_desc c = Inr t \<Longrightarrow> type_width t = unat w" for t
    using assms(2) by (auto simp: column_physical_type_from_desc_def value_byte_width_def
        split: OcbPhysicalTypeV1.splits if_splits)
  then show ?thesis using assms(1) by (simp add: resolves_def)
qed

lemma read_column_array_ok:
  assumes rd: "read_column_array h zstd source m column chunk rows = Inr a" and "source_serves source content"
    and bytes: "unat (chunk_uncompressed_bytes chunk) = unat rows * type_width (bc_physical_type column)"
  shows "array_ok column (unat rows) a"
proof -
  from rd obtain object payload where
    d: "validate_and_decode_chunk_object h zstd object column chunk (md_resource_limits m) = Inr payload"
    and v: "read_validity_bitmap h source m chunk = Inr (ca_validity a)"
    and p: "decode_primitive_values h (bc_physical_type column) payload = Inr (ca_values a)"
    and c: "chunk_row_count chunk = rows" "bc_nullable column \<or> is_null (chunk_validity_ref chunk)"
    and a: "a = \<lparr>ca_column_id = bc_id column, ca_name = bc_name column, ca_physical_type = bc_physical_type column,
           ca_logical_kind = bc_logical_kind column, ca_dictionary_id = bc_dictionary_id column,
           ca_values = ca_values a, ca_validity = ca_validity a\<rparr>"
    by (rule read_column_array_Inr)
  note fields = arg_cong [OF a, of ca_column_id] arg_cong [OF a, of ca_name] arg_cong [OF a, of ca_physical_type]
    arg_cong [OF a, of ca_logical_kind] arg_cong [OF a, of ca_dictionary_id]
  have len: "length payload = unat rows * type_width (bc_physical_type column)"
    using validate_and_decode_Inr(1) [OF d] bytes by simp
  have "bc_nullable column \<and> unat (vb_row_count w) = unat rows \<and> length (vb_bytes w) = (unat rows + 7) div 8"
    if "ca_validity a = Some w" for w
    using read_validity_bitmap_Inr [OF v [unfolded that] assms(2)] c by simp
  then show ?thesis
    using fields decode_primitive_values_Inr [OF p] len by (simp add: array_ok_def split: option.splits)
qed

text \<open>Finding the chunk of a column in a row group of an opened bundle.\<close>

lemma chunks_for_row_group_Inr:
  "chunks_for_row_group m (rg_chunk_desc_begin g) (rg_chunk_desc_count g) = Inr cs \<Longrightarrow> cs = chunks_of m g"
  by (auto simp: chunks_for_row_group_def sbind_eq_Inr usize_checked_add_def vec_get_range_def chunks_of_def split: if_splits)

lemma chunk_by_column_get:
  assumes "chunk_by_column h g cs = Inr by_col"
  shows "hash_get by_col k = Some c \<longleftrightarrow> c \<in> set cs \<and> chunk_column_id c = k"
proof -
  from assms have "by_col = map (\<lambda>c. (chunk_column_id c, c)) cs" "distinct (map chunk_column_id cs)"
    unfolding chunk_by_column_def
    by (auto elim!: sbind_InrE dest!: try_column_bundle_Inr(2) simp: for_each_hash hash_keys_def)
  then show ?thesis by (simp add: hash_get_keyed)
qed

lemma bundle_chunk_bytes:
  assumes "bundle_ok f" and "row_group_by_id (cbf_metadata f) k = Some g"
    and "c \<in> set (chunks_of (cbf_metadata f) g)" and "b \<in> set (cbf_columns f)" and "chunk_column_id c = bc_id b"
  shows "unat (chunk_uncompressed_bytes c) = unat (rg_row_count g) * type_width (bc_physical_type b)"
    and "chunk_row_count c = rg_row_count g" and "chunk_physical_type c = ocb_physical_type (bc_physical_type b)"
proof -
  let ?m = "cbf_metadata f"
  have wf: "chunk_wf ?m g c"
    using assms(1,3) bundle_row_group_by_id [OF assms(1), of k g] assms(2)
    by (auto simp: bundle_ok_def metadata_wf_def row_group_wf_def Let_def)
  from wf obtain d w where d: "d \<in> set (sch_columns (md_schema ?m))" "col_column_id d = chunk_column_id c"
      "chunk_physical_type c = col_physical_type d" and w: "value_byte_width d = Inr w"
      and n: "unat (chunk_uncompressed_bytes c) = unat (rg_row_count g) * unat w"
    unfolding chunk_wf_def by auto
  obtain b' where b': "b' \<in> set (cbf_columns f)" "resolves ?m d b'"
    using assms(1) d(1) unfolding bundle_ok_def Let_def by blast
  then have "bc_id b' = bc_id b" using d(2) assms(5) by (simp add: resolves_def)
  then have "b' = b"
    using bundle_find_column [OF assms(1), of "bc_id b" b] bundle_find_column [OF assms(1), of "bc_id b" b'] assms(4) b'(1)
    by simp
  with b' w n d show "unat (chunk_uncompressed_bytes c) = unat (rg_row_count g) * type_width (bc_physical_type b)"
    "chunk_physical_type c = ocb_physical_type (bc_physical_type b)"
    using resolves_width [of ?m d b w]
    by (auto simp: resolves_def dest: column_physical_type_from_desc_Inr)
  from wf show "chunk_row_count c = rg_row_count g" by (simp add: chunk_wf_def)
qed

lemma read_row_group_Inr:
  assumes "read_row_group h zstd source m columns k ids = Inr batch"
  obtains g by_col where "row_group_by_id m k = Some g"
    and "chunk_by_column h g (chunks_of m g) = Inr by_col"
    and "list_all2 (\<lambda>i a. \<exists>b c. List.find (\<lambda>b. bc_id b = i) columns = Some b \<and> hash_get by_col i = Some c \<and>
          read_column_array h zstd source m b c (rg_row_count g) = Inr a) ids (batch_columns batch)"
    and "batch_row_group_id batch = rg_row_group_id g" and "batch_base_row batch = rg_base_row g"
    and "batch_row_count batch = rg_row_count g"
proof -
  from assms obtain g by_col arrays where g: "row_group_by_id m k = Some g"
    and bc: "chunk_by_column h g (chunks_of m g) = Inr by_col"
    and arrays: "try_map (\<lambda>i. sbind (ok_or (List.find (\<lambda>b. bc_id b = i) columns) (ocb_corrupt_file ''OCB selected column not found''))
      (\<lambda>b. sbind (ok_or (hash_get by_col i) (ocb_corrupt_file ''OCB row group is missing a selected column chunk''))
      (\<lambda>c. read_column_array h zstd source m b c (rg_row_count g)))) ids = Inr arrays"
    and batch: "batch = \<lparr>batch_row_group_id = rg_row_group_id g, batch_base_row = rg_base_row g,
          batch_row_count = rg_row_count g, batch_columns = arrays\<rparr>"
    unfolding read_row_group_def
    by (elim sbind_InrE) (auto dest!: chunks_for_row_group_Inr try_column_bundle_Inr(1))
  from arrays have "list_all2 (\<lambda>i a. \<exists>b c. List.find (\<lambda>b. bc_id b = i) columns = Some b \<and> hash_get by_col i = Some c \<and>
      read_column_array h zstd source m b c (rg_row_count g) = Inr a) ids arrays"
    unfolding try_map_Inr_iff by (rule list_all2_mono) (auto elim!: sbind_InrE)
  with g bc batch show thesis by (intro that) simp_all
qed

theorem read_row_group_typed:
  assumes rd: "read_row_group h zstd (cbf_source f) (cbf_metadata f) (cbf_columns f) k ids = Inr batch"
    and ok: "bundle_ok f" and "source_serves (cbf_source f) content"
  shows "\<exists>g. row_group_by_id (cbf_metadata f) k = Some g \<and> batch_row_group_id batch = k \<and>
     batch_base_row batch = rg_base_row g \<and> batch_row_count batch = rg_row_count g \<and>
     list_all2 (\<lambda>i a. \<exists>b \<in> set (cbf_columns f). bc_id b = i \<and> array_ok b (unat (rg_row_count g)) a) ids (batch_columns batch)"
proof -
  from rd obtain g by_col where g: "row_group_by_id (cbf_metadata f) k = Some g"
    and bc: "chunk_by_column h g (chunks_of (cbf_metadata f) g) = Inr by_col"
    and arrays: "list_all2 (\<lambda>i a. \<exists>b c. List.find (\<lambda>b. bc_id b = i) (cbf_columns f) = Some b \<and> hash_get by_col i = Some c \<and>
      read_column_array h zstd (cbf_source f) (cbf_metadata f) b c (rg_row_count g) = Inr a) ids (batch_columns batch)"
    and batch: "batch_row_group_id batch = rg_row_group_id g" "batch_base_row batch = rg_base_row g"
      "batch_row_count batch = rg_row_count g"
    by (rule read_row_group_Inr)
  from arrays have "list_all2 (\<lambda>i a. \<exists>b \<in> set (cbf_columns f). bc_id b = i \<and> array_ok b (unat (rg_row_count g)) a)
      ids (batch_columns batch)"
  proof (rule list_all2_mono, elim exE conjE)
    fix i a b c
    assume b: "List.find (\<lambda>b. bc_id b = i) (cbf_columns f) = Some b" and c: "hash_get by_col i = Some c"
      and a: "read_column_array h zstd (cbf_source f) (cbf_metadata f) b c (rg_row_count g) = Inr a"
    note b = b [unfolded bundle_find_column [OF ok]] and c = c [unfolded chunk_by_column_get [OF bc]]
    from read_column_array_ok [OF a assms(3)] bundle_chunk_bytes(1) [OF ok g, of c b] b c
    show "\<exists>b \<in> set (cbf_columns f). bc_id b = i \<and> array_ok b (unat (rg_row_count g)) a" by (intro bexI [of _ b]) auto
  qed
  with g batch bundle_row_group_by_id [OF ok] show ?thesis by auto
qed

section \<open>Attribution does not change a read\<close>

lemma read_object_bytes_attributed:
  "read_object_bytes_with_attribution_and_resource_limits h file file_len r kind attr limits =
     sbind (read_object_bytes_with_resource_limits h file file_len r kind limits) (\<lambda>bs.
     Inr (bs, attr\<lparr>roa_bytes_read := saturating_add (roa_bytes_read attr) (br_length r)\<rparr>))"
  by (simp add: read_object_bytes_with_attribution_and_resource_limits_def read_object_bytes_with_resource_limits_def)

lemma saturating_add_0 [simp]: "saturating_add 0 w = (w :: 'a::len word)"
  by (simp add: saturating_add_def checked_add_def)

text \<open>What a chunk read adds to the counters.\<close>

definition chunk_counted :: "OcbColumnChunkDescV1 \<Rightarrow> u64 \<Rightarrow> ReadAttributionAccumulator \<Rightarrow> ReadAttributionAccumulator" where
  "chunk_counted chunk compressed attr = attr
     \<lparr>raa_bytes_read := saturating_add (raa_bytes_read attr) (br_length (chunk_value_ref chunk)),
      raa_compressed_bytes := saturating_add (raa_compressed_bytes attr) compressed,
      raa_uncompressed_bytes := saturating_add (raa_uncompressed_bytes attr) (chunk_uncompressed_bytes chunk)\<rparr>"

definition validity_counted :: "OcbColumnChunkDescV1 \<Rightarrow> ReadAttributionAccumulator \<Rightarrow> ReadAttributionAccumulator" where
  "validity_counted chunk attr =
     (if is_null (chunk_validity_ref chunk) then attr
      else attr\<lparr>raa_bytes_read := saturating_add (raa_bytes_read attr) (br_length (chunk_validity_ref chunk))\<rparr>)"

lemma read_column_chunk_attributed_eq:
  "read_column_chunk_attributed h source file_len chunk attr limits =
     sbind (read_column_chunk_from_source_with_resource_limits h source file_len chunk limits) (\<lambda>object.
     Inr (object, chunk_counted chunk (of_nat (length (cco_payload object))) attr))"
  by (simp add: read_column_chunk_attributed_def read_column_chunk_from_source_with_attribution_and_resource_limits_def
      read_column_chunk_from_source_with_resource_limits_def read_column_chunk_from_reader_with_resource_limits_def
      read_object_bytes_attributed sbind_assoc Let_def OcbReadObjectAttribution_default_def add_object_def chunk_counted_def)

lemma read_validity_bitmap_attributed_eq:
  "read_validity_bitmap_with_attribution h source m chunk attr =
     sbind (read_validity_bitmap h source m chunk) (\<lambda>v. Inr (v, validity_counted chunk attr))"
  by (simp add: read_validity_bitmap_with_attribution_def read_validity_bitmap_def read_object_bytes_attributed
      sbind_assoc Let_def OcbReadObjectAttribution_default_def add_object_def validity_counted_def if_distrib [of "\<lambda>r. sbind r k" for k]
      cong: if_cong)

lemma read_column_array_attributed:
  "(\<exists>attr. read_column_array_with_attribution h zstd source m column chunk rows = Inr (a, attr)) \<longleftrightarrow>
     read_column_array h zstd source m column chunk rows = Inr a"
  by (auto simp: read_column_array_with_attribution_def read_column_array_def read_column_chunk_attributed_eq
      read_validity_bitmap_attributed_eq validate_and_decode_attributed sbind_assoc sbind_eq_Inr)

text \<open>A loop that collects results and folds what each of them adds.\<close>

lemma for_each_collect:
  "for_each (\<lambda>i (rs, t). sbind (F i) (\<lambda>(a, u). Inr (rs @ [a], add t u))) xs (rs0, t0) = Inr (rs, t) \<longleftrightarrow>
     (\<exists>ps. list_all2 (\<lambda>i p. F i = Inr p) xs ps \<and> rs = rs0 @ map fst ps \<and> t = fold (\<lambda>p t. add t (snd p)) ps t0)"
proof (induction xs arbitrary: rs0 t0)
  case Nil
  then show ?case by auto
next
  case (Cons x xs)
  show ?case
  proof (cases "F x")
    case (Inl e)
    then show ?thesis by (auto simp: list_all2_Cons1)
  next
    case (Inr p)
    then show ?thesis using Cons.IH by (cases p) (auto simp: list_all2_Cons1)
  qed
qed

lemma unat_saturating_add: "unat (saturating_add a b) = min (unat a + unat b) (2 ^ LENGTH('a) - 1)" for a b :: "'a::len word"
proof (cases "unat a + unat b < 2 ^ LENGTH('a)")
  case True
  then show ?thesis by (simp add: saturating_add_def checked_add_def unat_word_ariths)
next
  case False
  then show ?thesis by (simp add: saturating_add_def checked_add_def unsigned_minus_1_eq_mask mask_eq_exp_minus_1)
qed

text \<open>The bytes of the file that reading the chunk of a column takes.\<close>

definition chunk_read_bytes :: "OcbColumnChunkDescV1 \<Rightarrow> nat" where
  "chunk_read_bytes c = unat (br_length (chunk_value_ref c)) +
     (if is_null (chunk_validity_ref c) then 0 else unat (br_length (chunk_validity_ref c)))"

lemma read_column_array_attribution:
  assumes "read_column_array_with_attribution h zstd source m column chunk rows = Inr (a, attr)"
  shows "read_column_array h zstd source m column chunk rows = Inr a"
    and "unat (raa_bytes_read attr) = min (chunk_read_bytes chunk) (2 ^ 64 - 1)"
    and "raa_uncompressed_bytes attr = chunk_uncompressed_bytes chunk"
proof -
  show "read_column_array h zstd source m column chunk rows = Inr a"
    using assms by (auto simp: read_column_array_attributed [symmetric])
  from assms obtain w where "attr = validity_counted chunk (chunk_counted chunk w ReadAttributionAccumulator_default)"
    by (auto simp: read_column_array_with_attribution_def read_column_chunk_attributed_eq
        read_validity_bitmap_attributed_eq sbind_assoc sbind_eq_Inr split: if_splits)
  moreover have "unat (br_length (chunk_value_ref chunk)) \<le> 2 ^ 64 - 1"
    using unsigned_less [of "br_length (chunk_value_ref chunk)", where ?'a = nat] by simp
  ultimately show "unat (raa_bytes_read attr) = min (chunk_read_bytes chunk) (2 ^ 64 - 1)"
    and "raa_uncompressed_bytes attr = chunk_uncompressed_bytes chunk"
    by (auto simp: validity_counted_def chunk_counted_def ReadAttributionAccumulator_default_def chunk_read_bytes_def
        unat_saturating_add)
qed

lemma fold_attribution:
  assumes "list_all2 (\<lambda>p n. unat (raa_bytes_read (snd p)) = min n (2 ^ 64 - 1)) ps ns"
    and "unat (raa_bytes_read t) = min n0 (2 ^ 64 - 1)"
  shows "unat (raa_bytes_read (fold (\<lambda>p t. ReadAttributionAccumulator_add t (snd p)) ps t)) = min (n0 + sum_list ns) (2 ^ 64 - 1)"
  using assms
proof (induction ps ns arbitrary: t n0 rule: list_all2_induct)
  case Nil
  then show ?case by simp
next
  case (Cons p ps n ns)
  have "unat (raa_bytes_read (ReadAttributionAccumulator_add t (snd p))) = min (n0 + n) (2 ^ 64 - 1)"
    using Cons.hyps(1) Cons.prems by (simp add: ReadAttributionAccumulator_add_def unat_saturating_add)
  from Cons.IH [OF this] show ?case by (simp add: add.assoc)
qed

lemma list_all2_choose:
  "list_all2 (\<lambda>x y. \<exists>c. P x c \<and> Q y c) xs ys \<Longrightarrow> \<exists>cs. list_all2 P xs cs \<and> list_all2 Q ys cs"
  by (induction rule: list_all2_induct) (auto simp: list_all2_Cons1)

theorem read_row_group_attribution:
  assumes "read_row_group_with_attribution h zstd source m columns k ids = Inr (batch, attr)"
  shows "read_row_group h zstd source m columns k ids = Inr batch"
    and "raa_row_groups_materialized attr = 1" and "raa_column_chunks_materialized attr = length ids"
    and "\<exists>g cs. row_group_by_id m k = Some g \<and>
      list_all2 (\<lambda>i c. c \<in> set (chunks_of m g) \<and> chunk_column_id c = i) ids cs \<and>
      unat (raa_bytes_read attr) = min (\<Sum>c\<leftarrow>cs. chunk_read_bytes c) (2 ^ 64 - 1)"
proof -
  let ?F = "\<lambda>g by_col i.
       sbind (ok_or (List.find (\<lambda>column. bc_id column = i) columns) (ocb_corrupt_file ''OCB selected column not found'')) (\<lambda>column.
       sbind (ok_or (hash_get by_col i) (ocb_corrupt_file ''OCB row group is missing a selected column chunk'')) (\<lambda>chunk.
       read_column_array_with_attribution h zstd source m column chunk (rg_row_count g)))"
  from assms obtain g cs0 by_col arrays0 arrays t where g: "row_group_by_id m k = Some g"
    and cs0: "chunks_for_row_group m (rg_chunk_desc_begin g) (rg_chunk_desc_count g) = Inr cs0"
    and bc0: "chunk_by_column h g cs0 = Inr by_col"
    and cap0: "try_column_bundle_vec_with_capacity h TyColumnArray (length ids) = Inr arrays0"
    and loop0: "for_each (\<lambda>i (rs, t). sbind (?F g by_col i) (\<lambda>(a, u). Inr (rs @ [a], ReadAttributionAccumulator_add t u))) ids
          (arrays0, ReadAttributionAccumulator_default) = Inr (arrays, t)"
    and batch: "batch = \<lparr>batch_row_group_id = rg_row_group_id g, batch_base_row = rg_base_row g,
           batch_row_count = rg_row_count g, batch_columns = arrays\<rparr>"
    and attr: "attr = t\<lparr>raa_row_groups_materialized := 1, raa_column_chunks_materialized := length arrays\<rparr>"
    unfolding read_row_group_with_attribution_def sbind_assoc by (elim sbind_InrE) auto
  note [simp] = chunks_for_row_group_Inr [OF cs0] try_column_bundle_Inr(1) [OF cap0]
  note cs = cs0 [simplified] and bc = bc0 [simplified] and cap = cap0 [simplified]
  have loop: "for_each (\<lambda>i (rs, t). sbind (?F g by_col i) (\<lambda>(a, u). Inr (rs @ [a], ReadAttributionAccumulator_add t u))) ids
      ([], ReadAttributionAccumulator_default) = Inr (arrays, t)" using loop0 by simp
  from loop obtain ps where ps: "list_all2 (\<lambda>i p. ?F g by_col i = Inr p) ids ps" and arrays: "arrays = map fst ps"
    and t: "t = fold (\<lambda>p t. ReadAttributionAccumulator_add t (snd p)) ps ReadAttributionAccumulator_default"
    unfolding for_each_collect by auto
  let ?G = "\<lambda>i.
       sbind (ok_or (List.find (\<lambda>column. bc_id column = i) columns) (ocb_corrupt_file ''OCB selected column not found'')) (\<lambda>column.
       sbind (ok_or (hash_get by_col i) (ocb_corrupt_file ''OCB row group is missing a selected column chunk'')) (\<lambda>chunk.
       read_column_array h zstd source m column chunk (rg_row_count g)))"
  show "raa_row_groups_materialized attr = 1" by (simp add: attr)
  show "raa_column_chunks_materialized attr = length ids" using list_all2_lengthD [OF ps] by (simp add: attr arrays)
  have arr: "list_all2 (\<lambda>i a. ?G i = Inr a) ids arrays"
    unfolding arrays list_all2_map2
    by (rule list_all2_mono [OF ps]) (auto simp: sbind_eq_Inr intro: read_column_array_attribution(1))
  show "read_row_group h zstd source m columns k ids = Inr batch"
    using arr [folded try_map_Inr_iff] unfolding read_row_group_def by (simp only: g ok_or_simps sbind_Inr cs bc cap batch) simp
  have "list_all2 (\<lambda>i p. \<exists>c. (c \<in> set (chunks_of m g) \<and> chunk_column_id c = i) \<and>
      unat (raa_bytes_read (snd p)) = min (chunk_read_bytes c) (2 ^ 64 - 1)) ids ps"
    by (rule list_all2_mono [OF ps])
      (auto simp: sbind_eq_Inr chunk_by_column_get [OF bc] dest!: read_column_array_attribution(2))
  from list_all2_choose [OF this] obtain cs where
    cs: "list_all2 (\<lambda>i c. c \<in> set (chunks_of m g) \<and> chunk_column_id c = i) ids cs"
    and "list_all2 (\<lambda>p c. unat (raa_bytes_read (snd p)) = min (chunk_read_bytes c) (2 ^ 64 - 1)) ps cs" by (elim exE conjE)
  from this(2) have "list_all2 (\<lambda>p n. unat (raa_bytes_read (snd p)) = min n (2 ^ 64 - 1)) ps (map chunk_read_bytes cs)"
    unfolding list_all2_map2 .
  from fold_attribution [OF this, of ReadAttributionAccumulator_default 0]
  have "unat (raa_bytes_read attr) = min (\<Sum>c\<leftarrow>cs. chunk_read_bytes c) (2 ^ 64 - 1)"
    by (simp add: attr t ReadAttributionAccumulator_default_def)
  with g cs show "\<exists>g cs. row_group_by_id m k = Some g \<and>
      list_all2 (\<lambda>i c. c \<in> set (chunks_of m g) \<and> chunk_column_id c = i) ids cs \<and>
      unat (raa_bytes_read attr) = min (\<Sum>c\<leftarrow>cs. chunk_read_bytes c) (2 ^ 64 - 1)" by blast
qed

end
