(* ===== verification/Fill_Read.thy ===== *)
theory Fill_Read
  imports Row_Group_Read
begin

text \<open>
  Reading one row group into buffers the caller owns (\<open>column_bundle/materialize.rs\<close>, from
  \<open>ResolvedColumnFill\<close> on; the buffers are declared in \<open>column_bundle.rs\<close>).

  The fill indexes slices, which panics when they are too short.  An operation that may panic returns
  an option of a result, and \<^const>\<open>None\<close> is the panic.  After an error the contents of the buffers
  are unspecified and the caller must discard them, so the model returns no buffers then.
\<close>

section \<open>Operations that may panic\<close>

type_synonym 'a presult = "'a result option"

definition pbind :: "'a presult \<Rightarrow> ('a \<Rightarrow> 'b presult) \<Rightarrow> 'b presult" where
  "pbind p k = (case p of None \<Rightarrow> None | Some (Inl e) \<Rightarrow> Some (Inl e) | Some (Inr x) \<Rightarrow> k x)"

fun pfor_each :: "('a \<Rightarrow> 's \<Rightarrow> 's presult) \<Rightarrow> 'a list \<Rightarrow> 's \<Rightarrow> 's presult" where
  "pfor_each f [] s = Some (Inr s)"
| "pfor_each f (x # xs) s = pbind (f x s) (\<lambda>s. pfor_each f xs s)"

text \<open>
  Writing the elements of \<open>src\<close> over those of \<open>dst\<close> as far as both go (\<open>iter_mut().zip(..)\<close>), and over a
  prefix \<open>out[..n]\<close>, which panics when \<open>out\<close> is shorter.
\<close>

definition zip_write :: "'a list \<Rightarrow> 'a list \<Rightarrow> 'a list" where
  "zip_write dst src = take (length dst) src @ drop (length src) dst"

definition write_prefix :: "nat \<Rightarrow> 'a list \<Rightarrow> 'a list \<Rightarrow> 'a list presult" where
  "write_prefix n src out =
     (if n > length out then None else Some (Inr (zip_write (take n out) src @ drop n out)))"

section \<open>Buffers\<close>

text \<open>The capacity check of a mutable value slice.\<close>

fun validate_capacity :: "PrimitiveColumnValues \<Rightarrow> usize \<Rightarrow> unit result" where
  "validate_capacity (Values_FixedBinary w bs) row_count =
     (if w = 0 then Inl (ocb_invalid_input ''OCB fixed-binary fill buffer requires width > 0'') else
      sbind (ok_or (usize_checked_mul row_count (unat w))
         (ocb_invalid_input ''OCB fixed-binary fill byte count overflows'')) (\<lambda>expected_bytes.
      if length bs < expected_bytes
      then Inl (ocb_invalid_input ''OCB fill buffer value capacity is too small for row group'') else Inr ()))"
| "validate_capacity self row_count =
     (if PrimitiveColumnValuesRef_len self < row_count
      then Inl (ocb_invalid_input ''OCB fill buffer value capacity is too small for row group'') else Inr ())"

record ColumnBundleColumnFillBuffer =
  fb_column_name :: "bytes option"
  fb_column_id :: "u32 option"
  fb_values :: PrimitiveColumnValues
  fb_validity_bytes :: "bytes option"
  fb_allow_nulls :: bool

record ColumnBundleReadFillOptions =
  fo_validate_checksums :: bool

definition ColumnBundleReadFillOptions_default :: ColumnBundleReadFillOptions where
  "ColumnBundleReadFillOptions_default = \<lparr>fo_validate_checksums = True\<rparr>"

record ColumnBundleColumnFillReport =
  cfr_column_id :: u32
  cfr_rows_filled :: usize
  cfr_validity_filled :: bool

record ColumnBundleReadFillReport =
  rfr_row_group_id :: u32
  rfr_base_row :: u64
  rfr_row_count :: u64
  rfr_columns :: "ColumnBundleColumnFillReport list"

record ResolvedColumnFill =
  rcf_buffer_index :: usize
  rcf_column :: BundleColumn
  rcf_chunk :: OcbColumnChunkDescV1

section \<open>Writing values\<close>

definition fill_i32_values :: "bytes \<Rightarrow> usize \<Rightarrow> i32 list \<Rightarrow> i32 list presult" where
  "fill_i32_values payload row_count out =
     pbind (Some (ok_or (usize_checked_mul row_count 4)
        (ocb_corrupt_file ''OCB i32 payload byte length overflows''))) (\<lambda>expected_bytes.
     if length payload \<noteq> expected_bytes
     then Some (Inl (ocb_corrupt_file ''OCB i32 payload length does not match row count''))
     else write_prefix row_count (map from_le_bytes (chunks_exact 4 payload)) out)"

definition fill_i64_values :: "bytes \<Rightarrow> usize \<Rightarrow> i64 list \<Rightarrow> i64 list presult" where
  "fill_i64_values payload row_count out =
     pbind (Some (ok_or (usize_checked_mul row_count 8)
        (ocb_corrupt_file ''OCB i64 payload byte length overflows''))) (\<lambda>expected_bytes.
     if length payload \<noteq> expected_bytes
     then Some (Inl (ocb_corrupt_file ''OCB i64 payload length does not match row count''))
     else write_prefix row_count (map from_le_bytes (chunks_exact 8 payload)) out)"

definition fill_f32_values :: "bytes \<Rightarrow> usize \<Rightarrow> u32 list \<Rightarrow> u32 list presult" where
  "fill_f32_values payload row_count out =
     pbind (Some (ok_or (usize_checked_mul row_count 4)
        (ocb_corrupt_file ''OCB f32 payload byte length overflows''))) (\<lambda>expected_bytes.
     if length payload \<noteq> expected_bytes
     then Some (Inl (ocb_corrupt_file ''OCB f32 payload length does not match row count''))
     else write_prefix row_count (map from_le_bytes (chunks_exact 4 payload)) out)"

definition fill_f64_values :: "bytes \<Rightarrow> usize \<Rightarrow> u64 list \<Rightarrow> u64 list presult" where
  "fill_f64_values payload row_count out =
     pbind (Some (ok_or (usize_checked_mul row_count 8)
        (ocb_corrupt_file ''OCB f64 payload byte length overflows''))) (\<lambda>expected_bytes.
     if length payload \<noteq> expected_bytes
     then Some (Inl (ocb_corrupt_file ''OCB f64 payload length does not match row count''))
     else write_prefix row_count (map from_le_bytes (chunks_exact 8 payload)) out)"

definition fill_fixed_binary_values :: "bytes \<Rightarrow> usize \<Rightarrow> u32 \<Rightarrow> bytes \<Rightarrow> bytes presult" where
  "fill_fixed_binary_values payload row_count w out =
     (if w = 0 then Some (Inl (ocb_corrupt_file ''OCB fixed-binary column requires fixed width'')) else
      pbind (Some (ok_or (usize_checked_mul row_count (unat w))
         (ocb_corrupt_file ''OCB fixed-binary payload byte length overflows''))) (\<lambda>expected_bytes.
      if length payload \<noteq> expected_bytes
      then Some (Inl (ocb_corrupt_file ''OCB fixed-binary payload length does not match row count'')) else
      if length out < expected_bytes
      then Some (Inl (ocb_invalid_input ''OCB fill buffer value capacity is too small for row group''))
      else write_prefix expected_bytes payload out))"

fun fill_primitive_values :: "bytes \<Rightarrow> usize \<Rightarrow> PrimitiveColumnValues \<Rightarrow> PrimitiveColumnValues presult" where
  "fill_primitive_values payload row_count (Values_I32 out) =
     pbind (fill_i32_values payload row_count out) (\<lambda>out. Some (Inr (Values_I32 out)))"
| "fill_primitive_values payload row_count (Values_I64 out) =
     pbind (fill_i64_values payload row_count out) (\<lambda>out. Some (Inr (Values_I64 out)))"
| "fill_primitive_values payload row_count (Values_F32 out) =
     pbind (fill_f32_values payload row_count out) (\<lambda>out. Some (Inr (Values_F32 out)))"
| "fill_primitive_values payload row_count (Values_F64 out) =
     pbind (fill_f64_values payload row_count out) (\<lambda>out. Some (Inr (Values_F64 out)))"
| "fill_primitive_values payload row_count (Values_FixedBinary w bs) =
     pbind (fill_fixed_binary_values payload row_count w bs) (\<lambda>bs. Some (Inr (Values_FixedBinary w bs)))"

text \<open>
  Whether the chunk can be read straight into the buffer: the number of bytes at the front of the
  buffer it goes to.
\<close>

definition uncompressed_fixed_binary_direct_output ::
  "usize \<Rightarrow> ResolvedColumnFill \<Rightarrow> PrimitiveColumnValues \<Rightarrow> (u32 \<times> usize \<times> bytes) option presult" where
  "uncompressed_fixed_binary_direct_output row_count target vs =
     (if chunk_codec (rcf_chunk target) \<noteq> Codec_None \<or> chunk_physical_type (rcf_chunk target) \<noteq> Phys_FixedBinary
      then Some (Inr None) else
      case (bc_physical_type (rcf_column target), vs) of
        (Column_FixedBinary column_width, Values_FixedBinary buffer_width bs) \<Rightarrow>
          if buffer_width \<noteq> column_width then Some (Inr None) else
          pbind (Some (ok_or (usize_checked_mul row_count (unat column_width))
             (ocb_invalid_input ''OCB fixed-binary fill byte count overflows''))) (\<lambda>expected_bytes.
          if chunk_uncompressed_bytes (rcf_chunk target) \<noteq> of_nat expected_bytes then Some (Inr None) else
          if expected_bytes > length bs then None else Some (Inr (Some (buffer_width, expected_bytes, bs))))
      | _ \<Rightarrow> Some (Inr None))"

section \<open>Filling one column\<close>

definition read_uncompressed_fixed_binary_chunk_from_source_into_with_resource_limits ::
  "OcbReadSource \<Rightarrow> u64 \<Rightarrow> OcbColumnChunkDescV1 \<Rightarrow> nat \<Rightarrow> OcbResourceLimits \<Rightarrow> bytes result" where
  "read_uncompressed_fixed_binary_chunk_from_source_into_with_resource_limits source file_len chunk out_len resource_limits =
     read_uncompressed_fixed_binary_chunk_from_source_into_inner source file_len chunk out_len resource_limits"

definition read_uncompressed_fixed_binary_chunk_from_source_into_with_attribution_and_resource_limits ::
  "OcbReadSource \<Rightarrow> u64 \<Rightarrow> OcbColumnChunkDescV1 \<Rightarrow> nat \<Rightarrow> OcbReadObjectAttribution \<Rightarrow> OcbResourceLimits \<Rightarrow>
   (bytes \<times> OcbReadObjectAttribution) result" where
  "read_uncompressed_fixed_binary_chunk_from_source_into_with_attribution_and_resource_limits
     source file_len chunk out_len attribution resource_limits =
     sbind (read_uncompressed_fixed_binary_chunk_from_source_into_inner source file_len chunk out_len resource_limits) (\<lambda>out.
     Inr (out, attribution\<lparr>roa_bytes_read := saturating_add (roa_bytes_read attribution) (br_length (chunk_value_ref chunk))\<rparr>))"

text \<open>The second half of both fills: copying the validity bitmap that was read.\<close>

definition copy_validity ::
  "ValidityBitmap option \<Rightarrow> ColumnBundleColumnFillBuffer \<Rightarrow> ColumnBundleColumnFillBuffer presult" where
  "copy_validity validity buffer =
     pbind (Some (ok_or validity (ocb_corrupt_file ''OCB validity bitmap is missing after validation''))) (\<lambda>validity.
     pbind (Some (ok_or (fb_validity_bytes buffer)
        (ocb_invalid_input ''OCB fill buffer needs validity storage''))) (\<lambda>validity_bytes.
     pbind (write_prefix (length (vb_bytes validity)) (vb_bytes validity) validity_bytes) (\<lambda>validity_bytes.
     Some (Inr (buffer\<lparr>fb_validity_bytes := Some validity_bytes\<rparr>)))))"

definition fill_column_buffer ::
  "host \<Rightarrow> zstd \<Rightarrow> OcbReadSource \<Rightarrow> OcbMetadataV1 \<Rightarrow> usize \<Rightarrow> ResolvedColumnFill \<Rightarrow> ColumnBundleColumnFillBuffer \<Rightarrow>
   (ColumnBundleColumnFillReport \<times> ColumnBundleColumnFillBuffer) presult" where
  "fill_column_buffer h zstd source metadata row_count target buffer =
     pbind (uncompressed_fixed_binary_direct_output row_count target (fb_values buffer)) (\<lambda>direct.
     pbind (case direct of
         Some (w, out_len, bs) \<Rightarrow>
           pbind (Some (read_uncompressed_fixed_binary_chunk_from_source_into_with_resource_limits source
             (md_file_len metadata) (rcf_chunk target) out_len (md_resource_limits metadata))) (\<lambda>out.
           Some (Inr (buffer\<lparr>fb_values := Values_FixedBinary w (out @ drop out_len bs)\<rparr>)))
       | None \<Rightarrow>
           pbind (Some (read_column_chunk_from_source_with_resource_limits h source (md_file_len metadata)
             (rcf_chunk target) (md_resource_limits metadata))) (\<lambda>object.
           pbind (Some (validate_and_decode_chunk_object h zstd object (rcf_column target) (rcf_chunk target)
             (md_resource_limits metadata))) (\<lambda>payload.
           pbind (fill_primitive_values payload row_count (fb_values buffer)) (\<lambda>vs.
           Some (Inr (buffer\<lparr>fb_values := vs\<rparr>)))))) (\<lambda>buffer.
     pbind (if \<not> is_null (chunk_validity_ref (rcf_chunk target))
       then pbind (Some (read_validity_bitmap h source metadata (rcf_chunk target))) (\<lambda>validity.
            pbind (copy_validity validity buffer) (\<lambda>buffer. Some (Inr (True, buffer))))
       else Some (Inr (False, buffer))) (\<lambda>(validity_filled, buffer).
     Some (Inr (\<lparr>cfr_column_id = bc_id (rcf_column target), cfr_rows_filled = row_count,
                cfr_validity_filled = validity_filled\<rparr>, buffer)))))"

definition fill_column_buffer_with_attribution ::
  "host \<Rightarrow> zstd \<Rightarrow> OcbReadSource \<Rightarrow> OcbMetadataV1 \<Rightarrow> usize \<Rightarrow> ResolvedColumnFill \<Rightarrow> ColumnBundleColumnFillBuffer \<Rightarrow>
   ReadAttributionAccumulator \<Rightarrow>
   (ColumnBundleColumnFillReport \<times> ColumnBundleColumnFillBuffer \<times> ReadAttributionAccumulator) presult" where
  "fill_column_buffer_with_attribution h zstd source metadata row_count target buffer attribution =
     pbind (uncompressed_fixed_binary_direct_output row_count target (fb_values buffer)) (\<lambda>direct.
     pbind (case direct of
         Some (w, out_len, bs) \<Rightarrow>
           pbind (Some (read_uncompressed_fixed_binary_chunk_from_source_into_with_attribution_and_resource_limits source
             (md_file_len metadata) (rcf_chunk target) out_len OcbReadObjectAttribution_default
             (md_resource_limits metadata))) (\<lambda>(out, object_attr).
           let attribution = add_object attribution object_attr in
           Some (Inr (buffer\<lparr>fb_values := Values_FixedBinary w (out @ drop out_len bs)\<rparr>, attribution
             \<lparr>raa_compressed_bytes := saturating_add (raa_compressed_bytes attribution) (chunk_uncompressed_bytes (rcf_chunk target)),
              raa_uncompressed_bytes := saturating_add (raa_uncompressed_bytes attribution) (chunk_uncompressed_bytes (rcf_chunk target))\<rparr>)))
       | None \<Rightarrow>
           pbind (Some (read_column_chunk_attributed h source (md_file_len metadata)
             (rcf_chunk target) attribution (md_resource_limits metadata))) (\<lambda>(object, attribution).
           pbind (Some (validate_and_decode_chunk_object_attributed h zstd object (rcf_column target) (rcf_chunk target)
             (md_resource_limits metadata))) (\<lambda>payload.
           pbind (fill_primitive_values payload row_count (fb_values buffer)) (\<lambda>vs.
           Some (Inr (buffer\<lparr>fb_values := vs\<rparr>, attribution)))))) (\<lambda>(buffer, attribution).
     pbind (if \<not> is_null (chunk_validity_ref (rcf_chunk target))
       then pbind (Some (read_validity_bitmap_with_attribution h source metadata (rcf_chunk target) attribution)) (\<lambda>(validity, attribution).
            pbind (copy_validity validity buffer) (\<lambda>buffer. Some (Inr (True, buffer, attribution))))
       else Some (Inr (False, buffer, attribution))) (\<lambda>(validity_filled, buffer, attribution).
     Some (Inr (\<lparr>cfr_column_id = bc_id (rcf_column target), cfr_rows_filled = row_count,
                cfr_validity_filled = validity_filled\<rparr>, buffer, attribution)))))"

section \<open>Filling a row group\<close>

definition resolve_fill_column ::
  "ColumnBundleColumnFillBuffer \<Rightarrow> (u32, BundleColumn) hash_map \<Rightarrow> (bytes, BundleColumn) hash_map \<Rightarrow> BundleColumn option result" where
  "resolve_fill_column buffer by_id by_name =
     sbind (case fb_column_name buffer of
         Some name \<Rightarrow> sbind (ok_or (hash_get by_name name)
           (ocb_invalid_input ''OCB fill buffer references an unknown column name'')) (\<lambda>column. Inr (Some column))
       | None \<Rightarrow> Inr None) (\<lambda>by_name_column.
     sbind (case fb_column_id buffer of
         Some column_id \<Rightarrow> sbind (ok_or (hash_get by_id column_id)
           (ocb_invalid_input ''OCB fill buffer references an unknown column id'')) (\<lambda>column. Inr (Some column))
       | None \<Rightarrow> Inr None) (\<lambda>by_id_column.
     case (by_name_column, by_id_column) of
       (Some left, Some right) \<Rightarrow>
         if bc_id left \<noteq> bc_id right
         then Inl (ocb_invalid_input ''OCB fill buffer column name and id do not match'') else Inr (Some left)
     | (Some column, None) \<Rightarrow> Inr (Some column)
     | (None, Some column) \<Rightarrow> Inr (Some column)
     | (None, None) \<Rightarrow> Inr None))"

text \<open>One step of the loop that checks every buffer before any payload is read.\<close>

definition resolve_fill_buffer ::
  "OcbRowGroupDescV1 \<Rightarrow> usize \<Rightarrow> (u32, OcbColumnChunkDescV1) hash_map \<Rightarrow> (u32, BundleColumn) hash_map \<Rightarrow>
   (bytes, BundleColumn) hash_map \<Rightarrow> usize \<times> ColumnBundleColumnFillBuffer \<Rightarrow> u32 set \<times> ResolvedColumnFill list \<Rightarrow>
   (u32 set \<times> ResolvedColumnFill list) result" where
  "resolve_fill_buffer row_group row_count by_column by_id by_name =
     (\<lambda>(buffer_index, buffer) (seen_columns, resolved).
     sbind (resolve_fill_column buffer by_id by_name) (\<lambda>resolved_column.
     sbind (ok_or resolved_column (ocb_invalid_input ''OCB fill buffer must identify a column by name or id'')) (\<lambda>column.
     if bc_id column \<in> seen_columns
     then Inl (ocb_invalid_input ''OCB fill request contains duplicate column buffers'') else
     let seen_columns = insert (bc_id column) seen_columns in
     if PrimitiveColumnValuesRef_physical_type (fb_values buffer) \<noteq> bc_physical_type column
     then Inl (ocb_invalid_input ''OCB fill buffer dtype does not match column dtype'') else
     sbind (validate_capacity (fb_values buffer) row_count) (\<lambda>_.
     sbind (ok_or (hash_get by_column (bc_id column))
        (ocb_corrupt_file ''OCB row group is missing a selected column chunk'')) (\<lambda>chunk.
     if chunk_physical_type chunk \<noteq> ocb_physical_type (bc_physical_type column)
     then Inl (ocb_corrupt_file ''OCB chunk physical type does not match schema'') else
     if chunk_row_count chunk \<noteq> rg_row_count row_group
     then Inl (ocb_corrupt_file ''OCB chunk row_count does not match row group'') else
     if \<not> bc_nullable column \<and> \<not> is_null (chunk_validity_ref chunk)
     then Inl (ocb_corrupt_file ''OCB non-null column chunk cannot have a validity bitmap'') else
     sbind (if is_null (chunk_validity_ref chunk) then Inr () else
         if \<not> fb_allow_nulls buffer
         then Inl (ocb_invalid_input ''OCB fill buffer rejected nullable column chunk'') else
         sbind (ok_or (fb_validity_bytes buffer)
            (ocb_invalid_input ''OCB fill buffer needs validity storage for nullable column chunk'')) (\<lambda>validity_bytes.
         sbind (ok_or (usize_try_from (unat (div_ceil (chunk_row_count chunk) 8)))
            (ocb_invalid_input ''OCB fill validity byte count does not fit usize'')) (\<lambda>expected_validity_bytes.
         if length validity_bytes < expected_validity_bytes
         then Inl (ocb_invalid_input ''OCB fill buffer validity capacity is too small for row group'') else Inr ()))) (\<lambda>_.
     Inr (seen_columns, resolved @ [\<lparr>rcf_buffer_index = buffer_index, rcf_column = column, rcf_chunk = chunk\<rparr>])))))))"

text \<open>The part that both fills share: all checks, up to the admission of the selected columns.\<close>

definition resolve_fill_targets ::
  "host \<Rightarrow> OcbMetadataV1 \<Rightarrow> BundleColumn list \<Rightarrow> u32 \<Rightarrow> ColumnBundleColumnFillBuffer list \<Rightarrow>
   (OcbRowGroupDescV1 \<times> usize \<times> ResolvedColumnFill list) result" where
  "resolve_fill_targets h metadata columns row_group_id buffers =
     (if buffers = []
      then Inl (ocb_invalid_input ''OCB fill read requires at least one column buffer'') else
      sbind (ok_or (row_group_by_id metadata row_group_id)
         (ocb_invalid_input ''OCB fill read references an unknown row group'')) (\<lambda>row_group.
      sbind (ok_or (usize_try_from (unat (rg_row_count row_group)))
         (ocb_invalid_input ''OCB fill read row count does not fit usize'')) (\<lambda>row_count.
      sbind (chunks_for_row_group metadata (rg_chunk_desc_begin row_group) (rg_chunk_desc_count row_group)) (\<lambda>chunks.
      sbind (chunk_by_column h row_group chunks) (\<lambda>by_column.
      sbind (try_column_bundle_hash_map_with_capacity h (length columns)) (\<lambda>by_id.
      let by_id = fold (\<lambda>column m. hash_insert m (bc_id column) column) columns by_id in
      sbind (try_column_bundle_hash_map_with_capacity h (length columns)) (\<lambda>by_name.
      let by_name = fold (\<lambda>column m. hash_insert m (bc_name column) column) columns by_name in
      sbind (try_column_bundle_hash_set_with_capacity h (length buffers)) (\<lambda>seen_columns.
      sbind (accounting_reserve_vec h TyResolvedColumnFill (length buffers)) (\<lambda>_.
      sbind (for_each (resolve_fill_buffer row_group row_count by_column by_id by_name)
        (enumerate 0 buffers) (seen_columns, [])) (\<lambda>(seen_columns, resolved).
      sbind (accounting_reserve_vec h TyU32 (length resolved)) (\<lambda>_.
      let selected_column_ids = map (\<lambda>target. bc_id (rcf_column target)) resolved in
      sbind (selected_resource_footprint_for_row_group_desc metadata row_group selected_column_ids) (\<lambda>footprint.
      sbind (validate_footprint_totals footprint (md_resource_limits metadata)) (\<lambda>_.
      sbind (accounting_reserve_vec h TyColumnFillReport (length resolved)) (\<lambda>_.
      Inr (row_group, row_count, resolved)))))))))))))))"

definition read_row_group_into ::
  "host \<Rightarrow> zstd \<Rightarrow> OcbReadSource \<Rightarrow> OcbMetadataV1 \<Rightarrow> BundleColumn list \<Rightarrow> u32 \<Rightarrow> ColumnBundleColumnFillBuffer list \<Rightarrow>
   (ColumnBundleReadFillReport \<times> ColumnBundleColumnFillBuffer list) presult" where
  "read_row_group_into h zstd source metadata columns row_group_id buffers =
     pbind (Some (resolve_fill_targets h metadata columns row_group_id buffers)) (\<lambda>(row_group, row_count, resolved).
     pbind (pfor_each (\<lambda>target (reports, buffers).
       case vec_get buffers (rcf_buffer_index target) of
         None \<Rightarrow> None
       | Some buffer \<Rightarrow>
           pbind (fill_column_buffer h zstd source metadata row_count target buffer) (\<lambda>(report, buffer).
           Some (Inr (reports @ [report], buffers[rcf_buffer_index target := buffer]))))
       resolved ([], buffers)) (\<lambda>(reports, buffers).
     Some (Inr (\<lparr>rfr_row_group_id = rg_row_group_id row_group, rfr_base_row = rg_base_row row_group,
                rfr_row_count = rg_row_count row_group, rfr_columns = reports\<rparr>, buffers))))"

definition read_row_group_into_with_attribution ::
  "host \<Rightarrow> zstd \<Rightarrow> OcbReadSource \<Rightarrow> OcbMetadataV1 \<Rightarrow> BundleColumn list \<Rightarrow> u32 \<Rightarrow> ColumnBundleColumnFillBuffer list \<Rightarrow>
   (ColumnBundleReadFillReport \<times> ReadAttributionAccumulator \<times> ColumnBundleColumnFillBuffer list) presult" where
  "read_row_group_into_with_attribution h zstd source metadata columns row_group_id buffers =
     pbind (Some (resolve_fill_targets h metadata columns row_group_id buffers)) (\<lambda>(row_group, row_count, resolved).
     pbind (pfor_each (\<lambda>target (reports, buffers, attribution).
       case vec_get buffers (rcf_buffer_index target) of
         None \<Rightarrow> None
       | Some buffer \<Rightarrow>
           pbind (fill_column_buffer_with_attribution h zstd source metadata row_count target buffer attribution)
             (\<lambda>(report, buffer, attribution).
           Some (Inr (reports @ [report], buffers[rcf_buffer_index target := buffer], attribution))))
       resolved ([], buffers, ReadAttributionAccumulator_default)) (\<lambda>(reports, buffers, attribution).
     Some (Inr (\<lparr>rfr_row_group_id = rg_row_group_id row_group, rfr_base_row = rg_base_row row_group,
                rfr_row_count = rg_row_count row_group, rfr_columns = reports\<rparr>,
       attribution\<lparr>raa_row_groups_materialized := 1, raa_column_chunks_materialized := length reports\<rparr>, buffers))))"

section \<open>Reusable buffers\<close>

fun ReusablePrimitiveColumnValues_new :: "ColumnPhysicalType \<Rightarrow> PrimitiveColumnValues" where
  "ReusablePrimitiveColumnValues_new Column_I32 = Values_I32 []"
| "ReusablePrimitiveColumnValues_new Column_I64 = Values_I64 []"
| "ReusablePrimitiveColumnValues_new Column_F32 = Values_F32 []"
| "ReusablePrimitiveColumnValues_new Column_F64 = Values_F64 []"
| "ReusablePrimitiveColumnValues_new (Column_FixedBinary w) = Values_FixedBinary w []"

fun resize_for_rows :: "host \<Rightarrow> PrimitiveColumnValues \<Rightarrow> usize \<Rightarrow> PrimitiveColumnValues result" where
  "resize_for_rows h (Values_I32 vs) row_count = sbind (resize_vec_fallibly h TyU32 vs row_count 0) (\<lambda>vs. Inr (Values_I32 vs))"
| "resize_for_rows h (Values_I64 vs) row_count = sbind (resize_vec_fallibly h TyU64 vs row_count 0) (\<lambda>vs. Inr (Values_I64 vs))"
| "resize_for_rows h (Values_F32 vs) row_count = sbind (resize_vec_fallibly h TyU32 vs row_count 0) (\<lambda>vs. Inr (Values_F32 vs))"
| "resize_for_rows h (Values_F64 vs) row_count = sbind (resize_vec_fallibly h TyU64 vs row_count 0) (\<lambda>vs. Inr (Values_F64 vs))"
| "resize_for_rows h (Values_FixedBinary w bs) row_count =
     (if w = 0 then Inl (ocb_invalid_input ''OCB reusable fixed-binary buffer requires width > 0'') else
      sbind (ok_or (usize_checked_mul row_count (unat w))
         (ocb_invalid_input ''OCB reusable fixed-binary byte count overflows'')) (\<lambda>byte_count.
      sbind (resize_vec_fallibly h TyU8 bs byte_count 0) (\<lambda>bs. Inr (Values_FixedBinary w bs))))"

fun as_ref_values :: "PrimitiveColumnValues \<Rightarrow> usize \<Rightarrow> PrimitiveColumnValues result" where
  "as_ref_values (Values_I32 vs) rows =
     sbind (ok_or (vec_get_range vs 0 rows) (ocb_invalid_input ''OCB reusable i32 buffer is too small for filled rows''))
       (\<lambda>vs. Inr (Values_I32 vs))"
| "as_ref_values (Values_I64 vs) rows =
     sbind (ok_or (vec_get_range vs 0 rows) (ocb_invalid_input ''OCB reusable i64 buffer is too small for filled rows''))
       (\<lambda>vs. Inr (Values_I64 vs))"
| "as_ref_values (Values_F32 vs) rows =
     sbind (ok_or (vec_get_range vs 0 rows) (ocb_invalid_input ''OCB reusable f32 buffer is too small for filled rows''))
       (\<lambda>vs. Inr (Values_F32 vs))"
| "as_ref_values (Values_F64 vs) rows =
     sbind (ok_or (vec_get_range vs 0 rows) (ocb_invalid_input ''OCB reusable f64 buffer is too small for filled rows''))
       (\<lambda>vs. Inr (Values_F64 vs))"
| "as_ref_values (Values_FixedBinary w bs) rows =
     (if w = 0 then Inl (ocb_invalid_input ''OCB reusable fixed-binary buffer requires width > 0'') else
      sbind (ok_or (usize_checked_mul rows (unat w))
         (ocb_invalid_input ''OCB reusable fixed-binary byte count overflows'')) (\<lambda>byte_count.
      sbind (ok_or (vec_get_range bs 0 byte_count)
         (ocb_invalid_input ''OCB reusable fixed-binary buffer is too small for filled rows'')) (\<lambda>bs.
      Inr (Values_FixedBinary w bs))))"

record ColumnBundleReusableColumnBuffer =
  rcb_column_id :: u32
  rcb_name :: bytes
  rcb_physical_type :: ColumnPhysicalType
  rcb_logical_kind :: ColumnLogicalKind
  rcb_dictionary_id :: "u32 option"
  rcb_nullable :: bool
  rcb_values :: PrimitiveColumnValues
  rcb_validity_bytes :: bytes
  rcb_allow_nulls :: bool

definition nat_div_ceil :: "nat \<Rightarrow> nat \<Rightarrow> nat" where
  "nat_div_ceil a b = (let d = a div b; r = a mod b in if r > 0 then d + 1 else d)"

definition ColumnBundleReusableColumnBuffer_for_column ::
  "host \<Rightarrow> BundleColumn \<Rightarrow> usize \<Rightarrow> bool \<Rightarrow> ColumnBundleReusableColumnBuffer result" where
  "ColumnBundleReusableColumnBuffer_for_column h column row_capacity allow_nulls =
     sbind (resize_for_rows h (ReusablePrimitiveColumnValues_new (bc_physical_type column)) row_capacity) (\<lambda>vs.
     let validity_capacity = if allow_nulls then nat_div_ceil row_capacity 8 else 0 in
     sbind (clone_column_bundle_string_fallibly h (bc_name column)) (\<lambda>name.
     sbind (zeroed_vec_fallibly h TyU8 validity_capacity) (\<lambda>validity_bytes.
     Inr \<lparr>rcb_column_id = bc_id column, rcb_name = name, rcb_physical_type = bc_physical_type column,
          rcb_logical_kind = bc_logical_kind column, rcb_dictionary_id = bc_dictionary_id column,
          rcb_nullable = bc_nullable column, rcb_values = vs, rcb_validity_bytes = validity_bytes,
          rcb_allow_nulls = allow_nulls\<rparr>)))"

definition ColumnBundleReusableColumnBuffer_prepare_for_rows ::
  "host \<Rightarrow> ColumnBundleReusableColumnBuffer \<Rightarrow> usize \<Rightarrow> ColumnBundleReusableColumnBuffer result" where
  "ColumnBundleReusableColumnBuffer_prepare_for_rows h self row_count =
     sbind (resize_for_rows h (rcb_values self) row_count) (\<lambda>vs.
     sbind (if rcb_allow_nulls self
            then resize_vec_fallibly h TyU8 (rcb_validity_bytes self) (nat_div_ceil row_count 8) 0
            else Inr []) (\<lambda>validity_bytes.
     Inr (self\<lparr>rcb_values := vs, rcb_validity_bytes := validity_bytes\<rparr>)))"

definition as_fill_buffer :: "ColumnBundleReusableColumnBuffer \<Rightarrow> ColumnBundleColumnFillBuffer" where
  "as_fill_buffer self =
     \<lparr>fb_column_name = Some (rcb_name self), fb_column_id = Some (rcb_column_id self), fb_values = rcb_values self,
      fb_validity_bytes = (if rcb_allow_nulls self then Some (rcb_validity_bytes self) else None),
      fb_allow_nulls = rcb_allow_nulls self\<rparr>"

text \<open>
  A fill buffer borrows the storage of the reusable buffer it was made from, so what the fill
  writes is written there.
\<close>

definition write_back :: "ColumnBundleReusableColumnBuffer \<Rightarrow> ColumnBundleColumnFillBuffer \<Rightarrow> ColumnBundleReusableColumnBuffer" where
  "write_back self fill = self\<lparr>rcb_values := fb_values fill,
     rcb_validity_bytes := (case fb_validity_bytes fill of Some bs \<Rightarrow> bs | None \<Rightarrow> rcb_validity_bytes self)\<rparr>"

record ColumnBundleReusableColumnView =
  rcv_column_id :: u32
  rcv_name :: bytes
  rcv_physical_type :: ColumnPhysicalType
  rcv_logical_kind :: ColumnLogicalKind
  rcv_dictionary_id :: "u32 option"
  rcv_values :: PrimitiveColumnValues
  rcv_validity :: "ValidityBitmap option"

definition ColumnBundleReusableColumnBuffer_view ::
  "ColumnBundleReusableColumnBuffer \<Rightarrow> ColumnBundleColumnFillReport \<Rightarrow> ColumnBundleReusableColumnView result" where
  "ColumnBundleReusableColumnBuffer_view self report =
     (if cfr_column_id report \<noteq> rcb_column_id self
      then Inl (ocb_corrupt_file ''OCB reusable column report does not match buffer column'') else
      let rows = cfr_rows_filled report in
      sbind (as_ref_values (rcb_values self) rows) (\<lambda>vs.
      sbind (if cfr_validity_filled report
             then sbind (ok_or (vec_get_range (rcb_validity_bytes self) 0 (nat_div_ceil rows 8))
                    (ocb_invalid_input ''OCB reusable validity buffer is too small for filled rows'')) (\<lambda>bs.
                  Inr (Some \<lparr>vb_row_count = of_nat rows, vb_bytes = bs\<rparr>))
             else Inr None) (\<lambda>validity.
      Inr \<lparr>rcv_column_id = rcb_column_id self, rcv_name = rcb_name self, rcv_physical_type = rcb_physical_type self,
           rcv_logical_kind = rcb_logical_kind self, rcv_dictionary_id = rcb_dictionary_id self,
           rcv_values = vs, rcv_validity = validity\<rparr>)))"

record ColumnBundleReusableBuffers =
  rb_columns :: "ColumnBundleReusableColumnBuffer list"

definition ColumnBundleReusableBuffers_for_columns ::
  "host \<Rightarrow> BundleColumn list \<Rightarrow> usize \<Rightarrow> bool \<Rightarrow> ColumnBundleReusableBuffers result" where
  "ColumnBundleReusableBuffers_for_columns h columns row_capacity allow_nulls =
     sbind (try_column_bundle_vec_with_capacity h TyReusableColumnBuffer (length columns)) (\<lambda>buffers.
     sbind (try_map (\<lambda>column. ColumnBundleReusableColumnBuffer_for_column h column row_capacity allow_nulls) columns) (\<lambda>made.
     Inr \<lparr>rb_columns = buffers @ made\<rparr>))"

definition ColumnBundleReusableBuffers_prepare_for_rows ::
  "host \<Rightarrow> ColumnBundleReusableBuffers \<Rightarrow> usize \<Rightarrow> ColumnBundleReusableBuffers result" where
  "ColumnBundleReusableBuffers_prepare_for_rows h self row_count =
     sbind (try_map (\<lambda>column. ColumnBundleReusableColumnBuffer_prepare_for_rows h column row_count) (rb_columns self)) (\<lambda>columns.
     Inr (self\<lparr>rb_columns := columns\<rparr>))"

definition fill_buffers :: "host \<Rightarrow> ColumnBundleReusableBuffers \<Rightarrow> ColumnBundleColumnFillBuffer list result" where
  "fill_buffers h self =
     sbind (try_column_bundle_vec_with_capacity h TyFillBuffer (length (rb_columns self))) (\<lambda>buffers.
     Inr (buffers @ map as_fill_buffer (rb_columns self)))"

record ColumnBundleReusableBufferPool =
  rbp_buffers :: "ColumnBundleReusableBuffers list"

definition row_count_for_row_group :: "OcbMetadataV1 \<Rightarrow> u32 \<Rightarrow> usize result" where
  "row_count_for_row_group metadata row_group_id =
     sbind (ok_or (row_group_by_id metadata row_group_id)
        (ocb_invalid_input ''OCB reusable read references an unknown row group'')) (\<lambda>row_group.
     ok_or (usize_try_from (unat (rg_row_count row_group)))
       (ocb_invalid_input ''OCB reusable read row count does not fit usize''))"

definition read_row_group_into_reusable ::
  "host \<Rightarrow> zstd \<Rightarrow> OcbReadSource \<Rightarrow> OcbMetadataV1 \<Rightarrow> BundleColumn list \<Rightarrow> u32 \<Rightarrow> ColumnBundleReusableBuffers \<Rightarrow>
   (ColumnBundleReadFillReport \<times> ColumnBundleReusableBuffers) presult" where
  "read_row_group_into_reusable h zstd source metadata columns row_group_id reusable =
     pbind (Some (row_count_for_row_group metadata row_group_id)) (\<lambda>row_count.
     pbind (Some (ColumnBundleReusableBuffers_prepare_for_rows h reusable row_count)) (\<lambda>reusable.
     pbind (Some (fill_buffers h reusable)) (\<lambda>buffers.
     pbind (read_row_group_into h zstd source metadata columns row_group_id buffers) (\<lambda>(report, buffers).
     Some (Inr (report, reusable\<lparr>rb_columns := map2 write_back (rb_columns reusable) buffers\<rparr>))))))"

definition read_row_group_into_reusable_with_attribution ::
  "host \<Rightarrow> zstd \<Rightarrow> OcbReadSource \<Rightarrow> OcbMetadataV1 \<Rightarrow> BundleColumn list \<Rightarrow> u32 \<Rightarrow> ColumnBundleReusableBuffers \<Rightarrow>
   (ColumnBundleReadFillReport \<times> ReadAttributionAccumulator \<times> ColumnBundleReusableBuffers) presult" where
  "read_row_group_into_reusable_with_attribution h zstd source metadata columns row_group_id reusable =
     pbind (Some (row_count_for_row_group metadata row_group_id)) (\<lambda>row_count.
     pbind (Some (ColumnBundleReusableBuffers_prepare_for_rows h reusable row_count)) (\<lambda>reusable.
     pbind (Some (fill_buffers h reusable)) (\<lambda>buffers.
     pbind (read_row_group_into_with_attribution h zstd source metadata columns row_group_id buffers) (\<lambda>(report, attribution, buffers).
     Some (Inr (report, attribution, reusable\<lparr>rb_columns := map2 write_back (rb_columns reusable) buffers\<rparr>))))))"

text \<open>The view of a filled batch: a report and the buffers it is about.\<close>

record ColumnBundleReusableBatchView =
  rbv_report :: ColumnBundleReadFillReport
  rbv_buffers :: ColumnBundleReusableBuffers

definition ColumnBundleReusableBatchView_column ::
  "ColumnBundleReusableBatchView \<Rightarrow> usize \<Rightarrow> ColumnBundleReusableColumnView result" where
  "ColumnBundleReusableBatchView_column self index =
     sbind (ok_or (vec_get (rb_columns (rbv_buffers self)) index)
        (ocb_invalid_input ''OCB reusable view column index is out of bounds'')) (\<lambda>buffer.
     sbind (ok_or (vec_get (rfr_columns (rbv_report self)) index)
        (ocb_invalid_input ''OCB reusable view column report is missing'')) (\<lambda>report.
     ColumnBundleReusableColumnBuffer_view buffer report))"

definition ColumnBundleReusableBatchView_row_group_id :: "ColumnBundleReusableBatchView \<Rightarrow> u32" where
  "ColumnBundleReusableBatchView_row_group_id self = rfr_row_group_id (rbv_report self)"

definition ColumnBundleReusableBatchView_base_row :: "ColumnBundleReusableBatchView \<Rightarrow> u64" where
  "ColumnBundleReusableBatchView_base_row self = rfr_base_row (rbv_report self)"

definition ColumnBundleReusableBatchView_row_count :: "ColumnBundleReusableBatchView \<Rightarrow> u64" where
  "ColumnBundleReusableBatchView_row_count self = rfr_row_count (rbv_report self)"

definition ColumnBundleReusableBatchView_column_count :: "ColumnBundleReusableBatchView \<Rightarrow> usize" where
  "ColumnBundleReusableBatchView_column_count self = length (rfr_columns (rbv_report self))"

section \<open>Laws of operations that may panic\<close>

lemma pbind_simps [simp]:
  "pbind None k = None" "pbind (Some (Inl e)) k = Some (Inl e)" "pbind (Some (Inr x)) k = k x"
  by (simp_all add: pbind_def)

lemma pbind_eq_Inr: "pbind p k = Some (Inr y) \<longleftrightarrow> (\<exists>x. p = Some (Inr x) \<and> k x = Some (Inr y))"
  by (auto simp: pbind_def split: option.splits sum.splits)

lemma pbind_InrE: "pbind p k = Some (Inr z) \<Longrightarrow> (\<And>x. p = Some (Inr x) \<Longrightarrow> k x = Some (Inr z) \<Longrightarrow> thesis) \<Longrightarrow> thesis"
  by (auto simp: pbind_eq_Inr)

lemma pbind_pairE:
  "pbind p (\<lambda>(x, y). k x y) = Some (Inr z) \<Longrightarrow> (\<And>x y. p = Some (Inr (x, y)) \<Longrightarrow> k x y = Some (Inr z) \<Longrightarrow> thesis) \<Longrightarrow> thesis"
  by (auto simp: pbind_eq_Inr)

text \<open>An operation is safe when it does not panic.\<close>

definition safe :: "'a presult \<Rightarrow> bool" where
  "safe p \<longleftrightarrow> p \<noteq> None"

named_theorems safe_intros

lemma safe_Some [safe_intros]: "safe (Some r)"
  by (simp add: safe_def)

lemma safe_pbind [safe_intros]: "safe p \<Longrightarrow> (\<And>x. p = Some (Inr x) \<Longrightarrow> safe (k x)) \<Longrightarrow> safe (pbind p k)"
  by (auto simp: safe_def pbind_def split: option.splits sum.splits)

lemma safe_if [safe_intros]: "(b \<Longrightarrow> safe p) \<Longrightarrow> (\<not> b \<Longrightarrow> safe q) \<Longrightarrow> safe (if b then p else q)"
  by simp

lemma safe_case_option [safe_intros]:
  "(x = None \<Longrightarrow> safe p) \<Longrightarrow> (\<And>y. x = Some y \<Longrightarrow> safe (q y)) \<Longrightarrow> safe (case x of None \<Rightarrow> p | Some y \<Rightarrow> q y)"
  by (cases x) simp_all

lemma safe_case_prod [safe_intros]: "(\<And>x y. z = (x, y) \<Longrightarrow> safe (f x y)) \<Longrightarrow> safe (case z of (x, y) \<Rightarrow> f x y)"
  by (cases z) simp

lemma safe_write_prefix: "n \<le> length out \<Longrightarrow> safe (write_prefix n src out)"
  by (simp add: write_prefix_def safe_def)

lemma pfor_each_safe:
  assumes "I s" and "\<And>x s. x \<in> set xs \<Longrightarrow> I s \<Longrightarrow> safe (f x s)"
    and "\<And>x s s'. x \<in> set xs \<Longrightarrow> I s \<Longrightarrow> f x s = Some (Inr s') \<Longrightarrow> I s'"
  shows "safe (pfor_each f xs s)"
  using assms
proof (induction xs arbitrary: s)
  case Nil
  then show ?case by (simp add: safe_Some)
next
  case (Cons x xs)
  have "safe (pfor_each f xs s')" if "f x s = Some (Inr s')" for s'
  proof (rule Cons.IH)
    show "I s'" using Cons.prems(3) [of x s s'] Cons.prems(1) that by simp
    show "\<And>y t. y \<in> set xs \<Longrightarrow> I t \<Longrightarrow> safe (f y t)" by (rule Cons.prems(2)) simp_all
    show "\<And>y t t'. y \<in> set xs \<Longrightarrow> I t \<Longrightarrow> f y t = Some (Inr t') \<Longrightarrow> I t'" by (rule Cons.prems(3)) simp_all
  qed
  with Cons.prems(1,2) show ?case by (auto intro!: safe_pbind)
qed

lemma write_prefix_Inr:
  "write_prefix n src out = Some (Inr r) \<and> length src = n \<longleftrightarrow> n \<le> length out \<and> length src = n \<and> r = src @ drop n out"
  by (auto simp: write_prefix_def zip_write_def)

section \<open>Filled values\<close>

text \<open>The first \<open>n\<close> rows of a buffer, and the rest of it.\<close>

fun values_take :: "nat \<Rightarrow> PrimitiveColumnValues \<Rightarrow> PrimitiveColumnValues" where
  "values_take n (Values_I32 vs) = Values_I32 (take n vs)"
| "values_take n (Values_I64 vs) = Values_I64 (take n vs)"
| "values_take n (Values_F32 vs) = Values_F32 (take n vs)"
| "values_take n (Values_F64 vs) = Values_F64 (take n vs)"
| "values_take n (Values_FixedBinary w bs) = Values_FixedBinary w (take (n * unat w) bs)"

fun values_drop :: "nat \<Rightarrow> PrimitiveColumnValues \<Rightarrow> PrimitiveColumnValues" where
  "values_drop n (Values_I32 vs) = Values_I32 (drop n vs)"
| "values_drop n (Values_I64 vs) = Values_I64 (drop n vs)"
| "values_drop n (Values_F32 vs) = Values_F32 (drop n vs)"
| "values_drop n (Values_F64 vs) = Values_F64 (drop n vs)"
| "values_drop n (Values_FixedBinary w bs) = Values_FixedBinary w (drop (n * unat w) bs)"

text \<open>A fill puts the decoded payload into the first rows and leaves the rest alone.\<close>

definition filled :: "nat \<Rightarrow> bytes \<Rightarrow> PrimitiveColumnValues \<Rightarrow> PrimitiveColumnValues \<Rightarrow> bool" where
  "filled n payload old new \<longleftrightarrow>
     PrimitiveColumnValuesRef_physical_type new = PrimitiveColumnValuesRef_physical_type old \<and>
     value_bytes (values_take n new) = payload \<and> values_drop n new = values_drop n old"

lemma usize_checked_mul_Some: "usize_checked_mul a b = Some c \<longleftrightarrow> c = a * b \<and> a * b \<le> usize_max"
  by (auto simp: usize_checked_mul_def)

lemma validate_capacity_Inr:
  "validate_capacity vs n = Inr () \<longleftrightarrow>
     (case vs of Values_FixedBinary w bs \<Rightarrow> w \<noteq> 0 \<and> n * unat w \<le> usize_max \<and> n * unat w \<le> length bs
      | _ \<Rightarrow> n \<le> PrimitiveColumnValuesRef_len vs)"
  by (cases vs) (auto simp: sbind_eq_Inr usize_checked_mul_Some not_less split: if_splits)

lemma write_words:
  assumes "length payload = n * k" and "0 < k" and "8 * k = LENGTH('a::len)" and "n \<le> length out"
  shows "write_prefix n (map (from_le_bytes :: bytes \<Rightarrow> 'a word) (chunks_exact k payload)) out =
      Some (Inr (map from_le_bytes (chunks_exact k payload) @ drop n out))"
    and "concat (map (to_le_bytes k) (map (from_le_bytes :: bytes \<Rightarrow> 'a word) (chunks_exact k payload))) = payload"
    and "length (map (from_le_bytes :: bytes \<Rightarrow> 'a word) (chunks_exact k payload)) = n"
proof -
  show len: "length (map (from_le_bytes :: bytes \<Rightarrow> 'a word) (chunks_exact k payload)) = n"
    using assms(1,2) by (simp add: length_chunks_exact)
  then show "write_prefix n (map (from_le_bytes :: bytes \<Rightarrow> 'a word) (chunks_exact k payload)) out =
      Some (Inr (map from_le_bytes (chunks_exact k payload) @ drop n out))"
    using assms(4) by (simp add: write_prefix_def zip_write_def)
  show "concat (map (to_le_bytes k) (map (from_le_bytes :: bytes \<Rightarrow> 'a word) (chunks_exact k payload))) = payload"
    using assms by (intro decode_primitive_chunks) simp_all
qed

lemmas fill_defs = fill_i32_values_def fill_i64_values_def fill_f32_values_def fill_f64_values_def
  fill_fixed_binary_values_def

lemma fill_primitive_values_safe: "validate_capacity vs n = Inr () \<Longrightarrow> safe (fill_primitive_values payload n vs)"
  unfolding validate_capacity_Inr
  by (cases vs) (auto simp: fill_defs usize_checked_mul_Some intro!: safe_intros safe_write_prefix)

lemma write_words_Inr:
  assumes "write_prefix n (map (from_le_bytes :: bytes \<Rightarrow> 'a word) (chunks_exact k payload)) out = Some (Inr out')"
    and "length payload = n * k" and "0 < k" and "8 * k = LENGTH('a::len)"
  shows "concat (map (to_le_bytes k) (take n out')) = payload \<and> drop n out' = drop n out"
proof -
  have "n \<le> length out" using assms(1) by (auto simp: write_prefix_def split: if_splits)
  note w = write_words [OF assms(2-4) this]
  from assms(1) have "out' = map from_le_bytes (chunks_exact k payload) @ drop n out" by (simp add: w(1))
  then show ?thesis using w(2,3) by simp
qed

lemma fill_words_Inr:
  assumes "pbind (Some (ok_or (usize_checked_mul n k) e)) (\<lambda>m. if length payload \<noteq> m then Some (Inl e')
      else write_prefix n (map (from_le_bytes :: bytes \<Rightarrow> 'a word) (chunks_exact k payload)) out) = Some (Inr out')"
    and "0 < k" and "8 * k = LENGTH('a::len)"
  shows "concat (map (to_le_bytes k) (take n out')) = payload" and "drop n out' = drop n out" and "length payload = n * k"
proof -
  from assms(1) show len: "length payload = n * k"
    by (auto simp: pbind_eq_Inr usize_checked_mul_Some split: if_splits)
  from assms(1) have "write_prefix n (map (from_le_bytes :: bytes \<Rightarrow> 'a word) (chunks_exact k payload)) out = Some (Inr out')"
    by (auto simp: pbind_eq_Inr split: if_splits)
  from write_words_Inr [OF this len assms(2,3)]
  show "concat (map (to_le_bytes k) (take n out')) = payload" "drop n out' = drop n out" by auto
qed

lemma fill_primitive_values_Inr:
  assumes "fill_primitive_values payload n vs = Some (Inr vs')"
  shows "filled n payload vs vs' \<and> length payload = n * type_width (PrimitiveColumnValuesRef_physical_type vs)"
proof (cases vs)
  case (Values_I32 out)
  with assms obtain out' where "fill_i32_values payload n out = Some (Inr out')" "vs' = Values_I32 out'"
    by (auto elim!: pbind_InrE)
  with Values_I32 fill_words_Inr [OF this(1) [unfolded fill_i32_values_def]] show ?thesis by (simp add: filled_def)
next
  case (Values_I64 out)
  with assms obtain out' where "fill_i64_values payload n out = Some (Inr out')" "vs' = Values_I64 out'"
    by (auto elim!: pbind_InrE)
  with Values_I64 fill_words_Inr [OF this(1) [unfolded fill_i64_values_def]] show ?thesis by (simp add: filled_def)
next
  case (Values_F32 out)
  with assms obtain out' where "fill_f32_values payload n out = Some (Inr out')" "vs' = Values_F32 out'"
    by (auto elim!: pbind_InrE)
  with Values_F32 fill_words_Inr [OF this(1) [unfolded fill_f32_values_def]] show ?thesis by (simp add: filled_def)
next
  case (Values_F64 out)
  with assms obtain out' where "fill_f64_values payload n out = Some (Inr out')" "vs' = Values_F64 out'"
    by (auto elim!: pbind_InrE)
  with Values_F64 fill_words_Inr [OF this(1) [unfolded fill_f64_values_def]] show ?thesis by (simp add: filled_def)
next
  case (Values_FixedBinary w bs)
  with assms obtain bs' where f: "fill_fixed_binary_values payload n w bs = Some (Inr bs')" "vs' = Values_FixedBinary w bs'"
    by (auto elim!: pbind_InrE)
  then have "length payload = n * unat w" "bs' = payload @ drop (n * unat w) bs"
    by (auto simp: fill_fixed_binary_values_def pbind_eq_Inr usize_checked_mul_Some write_prefix_def zip_write_def split: if_splits)
  with Values_FixedBinary f(2) show ?thesis by (simp add: filled_def)
qed

lemma words_bytes_inject:
  assumes eq: "concat (map (to_le_bytes k) vs) = concat (map (to_le_bytes k) ws)" and k: "LENGTH('a) = 8 * k"
  shows "vs = (ws :: 'a::len word list)"
proof -
  have pos: "0 < k" using len_gt_0 [where ?'a = 'a] unfolding k by simp
  have b: "chunks_exact k (concat (map (to_le_bytes k) us)) = map (to_le_bytes k) us" for us :: "'a word list"
    using pos by (intro chunks_exact_concat_map) simp_all
  have m: "map (to_le_bytes k) vs = map (to_le_bytes k) ws" using arg_cong [OF eq, of "chunks_exact k"] unfolding b .
  have i: "inj (to_le_bytes k :: 'a word \<Rightarrow> bytes)" by (rule injI) (rule to_le_bytes_inject [OF k])
  show ?thesis using m i by (rule map_injective)
qed

lemma value_bytes_inject:
  "PrimitiveColumnValuesRef_physical_type v = PrimitiveColumnValuesRef_physical_type w \<Longrightarrow> value_bytes v = value_bytes w \<Longrightarrow> v = w"
  by (cases v; cases w) (simp_all, (erule words_bytes_inject, simp)+)

text \<open>A filled buffer starts with the values that decoding the payload gives.\<close>

lemma filled_decode:
  assumes "filled n payload old new" and "decode_primitive_values h (PrimitiveColumnValuesRef_physical_type old) payload = Inr vs"
  shows "values_take n new = vs"
proof (rule value_bytes_inject)
  have "PrimitiveColumnValuesRef_physical_type (values_take n new) = PrimitiveColumnValuesRef_physical_type new"
    by (cases new) auto
  then show "PrimitiveColumnValuesRef_physical_type (values_take n new) = PrimitiveColumnValuesRef_physical_type vs"
    using assms decode_primitive_values_Inr(1) [OF assms(2)] by (simp add: filled_def)
  show "value_bytes (values_take n new) = value_bytes vs"
    using assms decode_primitive_values_Inr(2) [OF assms(2)] by (simp add: filled_def)
qed

section \<open>A fill equals a read\<close>

text \<open>
  Reading the chunk straight into the buffer gives the payload, or the error, of the decoder, so
  the fill of a column is the decoder followed by the copy.
\<close>

definition decoded_chunk ::
  "host \<Rightarrow> zstd \<Rightarrow> OcbReadSource \<Rightarrow> OcbMetadataV1 \<Rightarrow> BundleColumn \<Rightarrow> OcbColumnChunkDescV1 \<Rightarrow> bytes result" where
  "decoded_chunk h zstd source m column chunk =
     sbind (read_column_chunk_from_source_with_resource_limits h source (md_file_len m) chunk (md_resource_limits m)) (\<lambda>object.
     validate_and_decode_chunk_object h zstd object column chunk (md_resource_limits m))"

lemma read_chunk_object:
  assumes rd: "read_column_chunk_from_source_with_resource_limits h src (rs_file_len src) chunk limits = Inr obj"
    and "source_serves src content" and "source_reliable src" and "host_ready h" and "limits_ok limits"
    and fb: "chunk_physical_type chunk = Phys_FixedBinary"
  shows "\<exists>flags P crc. obj = chunk_object chunk flags P crc \<and> length P = unat (br_length (chunk_value_ref chunk)) - 48 \<and>
      length P \<le> unat (max_compressed_chunk_bytes limits) \<and>
      chunk_uncompressed_bytes chunk \<le> max_decompressed_chunk_bytes limits \<and>
      (chunk_codec chunk = Codec_None \<longrightarrow> length P = unat (chunk_uncompressed_bytes chunk))"
proof -
  let ?f = "OcbReadSource_cursor src"
  have src: "rc_source ?f = src" by (simp add: OcbReadSource_cursor_def)
  have s: "source_serves (rc_source ?f) content" "source_reliable (rc_source ?f)" using assms(2,3) by (simp_all add: src)
  from rd obtain hdr file' where hdr: "validate_column_chunk_object_header ?f (rs_file_len (rc_source ?f)) chunk limits = Inr (hdr, file')"
    unfolding read_column_chunk_from_source_with_resource_limits_def read_column_chunk_from_reader_with_resource_limits_def src
    by (auto elim!: sbind_InrE)
  obtain flags P t where f: "hdr = chunk_header chunk flags" and B: "referenced (chunk_value_ref chunk) content = hdr @ P @ t"
    and P: "length P = unat (br_length (chunk_value_ref chunk)) - 48" and t: "length t = 4"
    using accepted_chunk [OF hdr s(1)] by metis
  have prim: "check_primitive_value_bytes ocb_corrupt_file (chunk_physical_type chunk) (chunk_row_count chunk)
      (chunk_uncompressed_bytes chunk) = Inr ()" by (simp add: check_primitive_value_bytes_def fb)
  from read_column_chunk_accepted [OF s assms(4,5) prim hdr [unfolded f] B [unfolded f] P t] rd
  have "obj = chunk_object chunk flags P (from_le_bytes t)"
    by (auto simp: read_column_chunk_from_source_with_resource_limits_def src split: if_splits)
  moreover note v = validate_column_chunk_object_header_sound [OF hdr s(1)]
  have "chunk_codec chunk = Codec_None \<longrightarrow> length P = unat (chunk_uncompressed_bytes chunk)" using P v(6) by linarith
  moreover have "length P \<le> unat (max_compressed_chunk_bytes limits)" using P v(9) by linarith
  ultimately show ?thesis using P v(10) by blast
qed

lemma decoded_uncompressed:
  assumes "source_serves src content" and "source_reliable src" and "host_ready h"
    and "limits_ok (md_resource_limits m)" and len: "md_file_len m = rs_file_len src"
    and fb: "chunk_physical_type chunk = Phys_FixedBinary" "chunk_codec chunk = Codec_None"
    and ty: "ocb_physical_type (bc_physical_type column) = Phys_FixedBinary"
    and n: "unat (chunk_uncompressed_bytes chunk) = n"
  shows "read_uncompressed_fixed_binary_chunk_from_source_into_with_resource_limits src (md_file_len m) chunk n
      (md_resource_limits m) = decoded_chunk h zstd src m column chunk"
proof -
  let ?l = "md_resource_limits m"
  have src: "rc_source (OcbReadSource_cursor src) = src" by (simp add: OcbReadSource_cursor_def)
  have br: "unat (br_length (chunk_value_ref chunk)) = 48 + n"
    if "is_ok (validate_column_chunk_object_header (OcbReadSource_cursor src) (rs_file_len src) chunk ?l)"
  proof -
    from that obtain r where "validate_column_chunk_object_header (OcbReadSource_cursor src) (rs_file_len src) chunk ?l = Inr r"
      by (cases "validate_column_chunk_object_header (OcbReadSource_cursor src) (rs_file_len src) chunk ?l") auto
    then show ?thesis
      using validate_column_chunk_object_header_sound(6) [of "OcbReadSource_cursor src" "rs_file_len src" chunk ?l "fst r" "snd r" content]
        assms(1) fb(2) n by (simp add: src)
  qed
  have "validate_and_decode_chunk_object h zstd obj column chunk ?l = Inr (cco_payload obj)"
    if "read_column_chunk_from_source_with_resource_limits h src (rs_file_len src) chunk ?l = Inr obj" for obj
  proof -
    from read_chunk_object [OF that assms(1-4) fb(1)] fb(2) obtain flags P crc where
      o: "obj = chunk_object chunk flags P crc" and P: "length P \<le> unat (max_compressed_chunk_bytes ?l)"
        "chunk_uncompressed_bytes chunk \<le> max_decompressed_chunk_bytes ?l" "length P = unat (chunk_uncompressed_bytes chunk)"
      by auto
    then have "of_nat (length P) = chunk_uncompressed_bytes chunk" by simp
    moreover have "length P < 2 ^ 64" using P(3) unsigned_less [of "chunk_uncompressed_bytes chunk", where ?'a = nat] by simp
    ultimately show ?thesis
      using P fb ty
      by (simp add: o validate_and_decode_chunk_object_def into_decoded_payload_with_limits_def chunk_object_def
          uncompressed_value_bytes_def check_primitive_value_bytes_def u64_try_from_def not_less word_le_nat_alt)
  qed
  then show ?thesis
    using direct_fill_matches_read [OF assms(1-4) fb br]
    unfolding read_uncompressed_fixed_binary_chunk_from_source_into_with_resource_limits_def decoded_chunk_def len
    by (cases "read_column_chunk_from_source_with_resource_limits h src (rs_file_len src) chunk ?l") simp_all
qed

text \<open>What the checks before the fill ensure of a column and its buffer.\<close>

definition target_ok :: "nat \<Rightarrow> ResolvedColumnFill \<Rightarrow> ColumnBundleColumnFillBuffer \<Rightarrow> bool" where
  "target_ok n t b \<longleftrightarrow>
     PrimitiveColumnValuesRef_physical_type (fb_values b) = bc_physical_type (rcf_column t) \<and>
     validate_capacity (fb_values b) n = Inr () \<and>
     chunk_physical_type (rcf_chunk t) = ocb_physical_type (bc_physical_type (rcf_column t)) \<and>
     unat (chunk_row_count (rcf_chunk t)) = n \<and>
     (bc_nullable (rcf_column t) \<or> is_null (chunk_validity_ref (rcf_chunk t))) \<and>
     (is_null (chunk_validity_ref (rcf_chunk t)) \<or>
        (\<exists>vb. fb_validity_bytes b = Some vb \<and> (n + 7) div 8 \<le> length vb))"

lemma direct_output_Some:
  assumes "uncompressed_fixed_binary_direct_output n t vs = Some (Inr (Some (w, len, bs)))"
  shows "chunk_codec (rcf_chunk t) = Codec_None" and "chunk_physical_type (rcf_chunk t) = Phys_FixedBinary"
    and "bc_physical_type (rcf_column t) = Column_FixedBinary w" and "vs = Values_FixedBinary w bs"
    and "len = n * unat w" and "len \<le> length bs" and "chunk_uncompressed_bytes (rcf_chunk t) = of_nat len"
    and "len \<le> usize_max"
  using assms
  by (auto simp: uncompressed_fixed_binary_direct_output_def pbind_eq_Inr usize_checked_mul_Some
      split: if_splits ColumnPhysicalType.splits PrimitiveColumnValues.splits)

lemma direct_output_safe:
  assumes "validate_capacity vs n = Inr ()"
  shows "safe (uncompressed_fixed_binary_direct_output n t vs)"
proof (cases vs)
  case (Values_FixedBinary w bs)
  then show ?thesis
    using assms [unfolded validate_capacity_Inr]
    by (cases "bc_physical_type (rcf_column t)")
      (auto simp: uncompressed_fixed_binary_direct_output_def usize_checked_mul_Some intro!: safe_intros)
qed (cases "bc_physical_type (rcf_column t)"; simp add: uncompressed_fixed_binary_direct_output_def safe_def)+

text \<open>The value part of a fill, whichever way the payload is read.\<close>

definition fill_values ::
  "host \<Rightarrow> zstd \<Rightarrow> OcbReadSource \<Rightarrow> OcbMetadataV1 \<Rightarrow> nat \<Rightarrow> ResolvedColumnFill \<Rightarrow> ColumnBundleColumnFillBuffer \<Rightarrow>
   ColumnBundleColumnFillBuffer presult" where
  "fill_values h zstd source m n t b =
     pbind (uncompressed_fixed_binary_direct_output n t (fb_values b)) (\<lambda>direct.
     case direct of
       Some (w, out_len, bs) \<Rightarrow>
         pbind (Some (read_uncompressed_fixed_binary_chunk_from_source_into_with_resource_limits source
           (md_file_len m) (rcf_chunk t) out_len (md_resource_limits m))) (\<lambda>out.
         Some (Inr (b\<lparr>fb_values := Values_FixedBinary w (out @ drop out_len bs)\<rparr>)))
     | None \<Rightarrow>
         pbind (Some (read_column_chunk_from_source_with_resource_limits h source (md_file_len m)
           (rcf_chunk t) (md_resource_limits m))) (\<lambda>object.
         pbind (Some (validate_and_decode_chunk_object h zstd object (rcf_column t) (rcf_chunk t)
           (md_resource_limits m))) (\<lambda>payload.
         pbind (fill_primitive_values payload n (fb_values b)) (\<lambda>vs.
         Some (Inr (b\<lparr>fb_values := vs\<rparr>))))))"

lemma pbind_assoc: "pbind (pbind p f) g = pbind p (\<lambda>x. pbind (f x) g)"
  by (auto simp: pbind_def split: option.splits sum.splits)

lemma fill_column_buffer_eq:
  "fill_column_buffer h zstd source m n t b =
     pbind (fill_values h zstd source m n t b) (\<lambda>b.
     pbind (if \<not> is_null (chunk_validity_ref (rcf_chunk t))
       then pbind (Some (read_validity_bitmap h source m (rcf_chunk t))) (\<lambda>validity.
            pbind (copy_validity validity b) (\<lambda>b. Some (Inr (True, b))))
       else Some (Inr (False, b))) (\<lambda>(validity_filled, b).
     Some (Inr (\<lparr>cfr_column_id = bc_id (rcf_column t), cfr_rows_filled = n, cfr_validity_filled = validity_filled\<rparr>, b))))"
  unfolding fill_column_buffer_def fill_values_def pbind_assoc ..

lemma fill_values_Inr:
  assumes "fill_values h zstd src m n t b = Some (Inr b')" and ok: "target_ok n t b"
    and src: "source_serves src content" "source_reliable src" "host_ready h"
      "limits_ok (md_resource_limits m)" "md_file_len m = rs_file_len src"
  shows "\<exists>payload vs. decoded_chunk h zstd src m (rcf_column t) (rcf_chunk t) = Inr payload \<and>
      b' = b\<lparr>fb_values := vs\<rparr> \<and> filled n payload (fb_values b) vs"
proof -
  from assms(1) obtain direct where d: "uncompressed_fixed_binary_direct_output n t (fb_values b) = Some (Inr direct)"
    unfolding fill_values_def by (auto elim!: pbind_InrE)
  show ?thesis
  proof (cases direct)
    case None
    with assms(1) d obtain payload vs where "decoded_chunk h zstd src m (rcf_column t) (rcf_chunk t) = Inr payload"
      and "fill_primitive_values payload n (fb_values b) = Some (Inr vs)" and "b' = b\<lparr>fb_values := vs\<rparr>"
      by (auto simp: fill_values_def decoded_chunk_def elim!: pbind_InrE)
    with fill_primitive_values_Inr show ?thesis by blast
  next
    case (Some p)
    obtain w len bs where p: "p = (w, len, bs)" by (cases p)
    note o = direct_output_Some [OF d [unfolded Some p]]
    have len: "unat (chunk_uncompressed_bytes (rcf_chunk t)) = len"
      using o(7,8) by (simp add: unat_of_nat_u64 usize_max_def)
    have "ocb_physical_type (bc_physical_type (rcf_column t)) = Phys_FixedBinary" by (simp add: o(3))
    note eq = decoded_uncompressed [OF src o(2,1) this len, of zstd]
    from assms(1) d Some p obtain out where out: "decoded_chunk h zstd src m (rcf_column t) (rcf_chunk t) = Inr out"
      and b': "b' = b\<lparr>fb_values := Values_FixedBinary w (out @ drop len bs)\<rparr>"
      by (auto simp: fill_values_def eq elim!: pbind_InrE)
    have "length out = len" using out len by (auto simp: decoded_chunk_def elim!: sbind_InrE dest: validate_and_decode_Inr(1))
    then have "filled n out (fb_values b) (Values_FixedBinary w (out @ drop len bs))"
      using o(4,5,6) by (simp add: filled_def)
    with out b' show ?thesis by blast
  qed
qed

text \<open>
  A buffer agrees with an array: its first rows are the array's values, the rest is as before, and
  so for the validity bitmap when the array has one.
\<close>

definition buffer_agrees ::
  "nat \<Rightarrow> ColumnBundleColumnFillBuffer \<Rightarrow> ColumnArray \<Rightarrow> ColumnBundleColumnFillReport \<Rightarrow> ColumnBundleColumnFillBuffer \<Rightarrow> bool" where
  "buffer_agrees n old a r new \<longleftrightarrow>
     values_take n (fb_values new) = ca_values a \<and> values_drop n (fb_values new) = values_drop n (fb_values old) \<and>
     r = \<lparr>cfr_column_id = ca_column_id a, cfr_rows_filled = n, cfr_validity_filled = (ca_validity a \<noteq> None)\<rparr> \<and>
     (case ca_validity a of
        None \<Rightarrow> fb_validity_bytes new = fb_validity_bytes old
      | Some v \<Rightarrow> (\<exists>vb. fb_validity_bytes old = Some vb \<and>
          fb_validity_bytes new = Some (vb_bytes v @ drop (length (vb_bytes v)) vb)))"

lemma copy_validity_Inr:
  assumes "copy_validity validity b = Some (Inr b')"
  shows "\<exists>v vb. validity = Some v \<and> fb_validity_bytes b = Some vb \<and>
     b' = b\<lparr>fb_validity_bytes := Some (vb_bytes v @ drop (length (vb_bytes v)) vb)\<rparr>"
  using assms by (auto simp: copy_validity_def pbind_eq_Inr write_prefix_def zip_write_def split: if_splits)

lemma read_column_array_decoded:
  assumes "read_column_array h zstd src m column chunk rows = Inr a"
  shows "\<exists>payload. decoded_chunk h zstd src m column chunk = Inr payload \<and>
      decode_primitive_values h (bc_physical_type column) payload = Inr (ca_values a)"
    and "read_validity_bitmap h src m chunk = Inr (ca_validity a)" and "ca_column_id a = bc_id column"
proof -
  from assms obtain object payload where
    "read_column_chunk_from_source_with_resource_limits h src (md_file_len m) chunk (md_resource_limits m) = Inr object"
    "validate_and_decode_chunk_object h zstd object column chunk (md_resource_limits m) = Inr payload"
    "read_validity_bitmap h src m chunk = Inr (ca_validity a)"
    "decode_primitive_values h (bc_physical_type column) payload = Inr (ca_values a)"
    and a: "a = \<lparr>ca_column_id = bc_id column, ca_name = bc_name column, ca_physical_type = bc_physical_type column,
           ca_logical_kind = bc_logical_kind column, ca_dictionary_id = bc_dictionary_id column,
           ca_values = ca_values a, ca_validity = ca_validity a\<rparr>"
    by (rule read_column_array_Inr)
  then show "\<exists>payload. decoded_chunk h zstd src m column chunk = Inr payload \<and>
      decode_primitive_values h (bc_physical_type column) payload = Inr (ca_values a)"
    and "read_validity_bitmap h src m chunk = Inr (ca_validity a)" by (auto simp: decoded_chunk_def)
  show "ca_column_id a = bc_id column" using arg_cong [OF a, of ca_column_id] by simp
qed

lemma fill_column_buffer_agrees:
  assumes fill: "fill_column_buffer h zstd src m n t b = Some (Inr (r, b'))" and ok: "target_ok n t b"
    and src: "source_serves src content" "source_reliable src" "host_ready h"
      "limits_ok (md_resource_limits m)" "md_file_len m = rs_file_len src"
    and rd: "read_column_array h zstd src m (rcf_column t) (rcf_chunk t) rows = Inr a"
  shows "buffer_agrees n b a r b'"
proof -
  note a = read_column_array_decoded [OF rd]
  from fill obtain b1 v where b1: "fill_values h zstd src m n t b = Some (Inr b1)"
    and v: "(if \<not> is_null (chunk_validity_ref (rcf_chunk t))
       then pbind (Some (read_validity_bitmap h src m (rcf_chunk t))) (\<lambda>validity.
            pbind (copy_validity validity b1) (\<lambda>b. Some (Inr (True, b))))
       else Some (Inr (False, b1))) = Some (Inr (v, b'))"
    and r: "r = \<lparr>cfr_column_id = bc_id (rcf_column t), cfr_rows_filled = n, cfr_validity_filled = v\<rparr>"
    unfolding fill_column_buffer_eq by (auto elim!: pbind_InrE)
  from fill_values_Inr [OF b1 ok src] obtain payload vs where
    "decoded_chunk h zstd src m (rcf_column t) (rcf_chunk t) = Inr payload"
    and b1': "b1 = b\<lparr>fb_values := vs\<rparr>" and f: "filled n payload (fb_values b) vs" by blast
  with a(1) ok have vals: "values_take n vs = ca_values a" by (auto simp: target_ok_def intro: filled_decode)
  show ?thesis
  proof (cases "is_null (chunk_validity_ref (rcf_chunk t))")
    case True
    then have "ca_validity a = None" using a(2) by (simp add: read_validity_bitmap_def)
    with True v vals f show ?thesis by (auto simp: buffer_agrees_def r a(3) b1' filled_def)
  next
    case False
    with v a(2) have "copy_validity (ca_validity a) b1 = Some (Inr b')" "v" by (auto simp: pbind_eq_Inr)
    with copy_validity_Inr vals f show ?thesis by (auto simp: buffer_agrees_def r a(3) b1' filled_def dest!: copy_validity_Inr)
  qed
qed

lemma fill_column_buffer_safe:
  assumes ok: "target_ok n t b" and "source_serves src content"
  shows "safe (fill_column_buffer h zstd src m n t b)"
proof -
  have cap: "validate_capacity (fb_values b) n = Inr ()" using ok by (simp add: target_ok_def)
  have "safe (fill_values h zstd src m n t b)"
    unfolding fill_values_def
    by (intro safe_intros direct_output_safe fill_primitive_values_safe cap)
  moreover have "safe (copy_validity v b1)"
    if "fill_values h zstd src m n t b = Some (Inr b1)" "read_validity_bitmap h src m (rcf_chunk t) = Inr v"
      "\<not> is_null (chunk_validity_ref (rcf_chunk t))" for b1 v
  proof -
    have vb: "fb_validity_bytes b1 = fb_validity_bytes b"
      using that(1) unfolding fill_values_def by (auto elim!: pbind_InrE split: option.splits)
    show ?thesis
      unfolding copy_validity_def
    proof (intro safe_intros safe_write_prefix)
      fix v' bs assume "Some (ok_or v (ocb_corrupt_file ''OCB validity bitmap is missing after validation'')) = Some (Inr v')"
        "Some (ok_or (fb_validity_bytes b1) (ocb_invalid_input ''OCB fill buffer needs validity storage'')) = Some (Inr bs)"
      then have "read_validity_bitmap h src m (rcf_chunk t) = Inr (Some v')" "fb_validity_bytes b = Some bs"
        using that(2) vb by auto
      with read_validity_bitmap_Inr(3) [OF this(1) assms(2)] ok that(3) show "length (vb_bytes v') \<le> length bs"
        by (auto simp: target_ok_def)
    qed
  qed
  ultimately show ?thesis
    unfolding fill_column_buffer_eq by (intro safe_intros) auto
qed

text \<open>The check loop pairs every buffer with a target that fits it, in order.\<close>

lemma upt_length_Cons: "[k..<k + length (x # xs)] = k # [Suc k..<Suc k + length xs]"
  by (simp add: upt_conv_Cons del: upt_Suc)

lemma resolve_fill_column_Inr:
  assumes "resolve_fill_column b by_id by_name = Inr (Some c)"
  shows "(\<exists>k. hash_get by_id k = Some c) \<or> (\<exists>k. hash_get by_name k = Some c)"
  using assms by (auto simp: resolve_fill_column_def sbind_eq_Inr split: option.splits if_splits)

lemma resolve_fill_buffer_Inr:
  assumes "resolve_fill_buffer g n by_column by_id by_name (i, b) (seen, res) = Inr (seen', res')"
    and "unat (rg_row_count g) = n"
  shows "\<exists>t. res' = res @ [t] \<and> rcf_buffer_index t = i \<and> target_ok n t b \<and>
      hash_get by_column (bc_id (rcf_column t)) = Some (rcf_chunk t) \<and> chunk_row_count (rcf_chunk t) = rg_row_count g \<and>
      ((\<exists>k. hash_get by_id k = Some (rcf_column t)) \<or> (\<exists>k. hash_get by_name k = Some (rcf_column t)))"
  using assms
  unfolding resolve_fill_buffer_def target_ok_def
  by (auto simp: sbind_eq_Inr Let_def unat_div_ceil_8 dest!: resolve_fill_column_Inr split: if_splits simp del: validate_capacity.simps)

lemma resolve_fill_buffers_Inr:
  assumes "for_each (resolve_fill_buffer g n by_column by_id by_name) (enumerate k buffers) (seen, res) = Inr (seen', res')"
    and "unat (rg_row_count g) = n"
  shows "\<exists>ts. res' = res @ ts \<and> list_all2 (\<lambda>b t. target_ok n t b \<and>
      hash_get by_column (bc_id (rcf_column t)) = Some (rcf_chunk t) \<and> chunk_row_count (rcf_chunk t) = rg_row_count g \<and>
      ((\<exists>k. hash_get by_id k = Some (rcf_column t)) \<or> (\<exists>k. hash_get by_name k = Some (rcf_column t)))) buffers ts \<and>
      map rcf_buffer_index ts = [k..<k + length buffers]"
  using assms
proof (induction buffers arbitrary: k seen res)
  case Nil
  then show ?case by simp
next
  case (Cons b bs)
  from Cons.prems(1) obtain seen1 res1 where
    step: "resolve_fill_buffer g n by_column by_id by_name (k, b) (seen, res) = Inr (seen1, res1)"
    and rest: "for_each (resolve_fill_buffer g n by_column by_id by_name) (enumerate (Suc k) bs) (seen1, res1) = Inr (seen', res')"
    by (auto elim!: sbind_InrE)
  from resolve_fill_buffer_Inr [OF step Cons.prems(2)] obtain t where t: "res1 = res @ [t]" "rcf_buffer_index t = k"
    and tok: "target_ok n t b \<and> hash_get by_column (bc_id (rcf_column t)) = Some (rcf_chunk t) \<and>
      chunk_row_count (rcf_chunk t) = rg_row_count g \<and>
      ((\<exists>k. hash_get by_id k = Some (rcf_column t)) \<or> (\<exists>k. hash_get by_name k = Some (rcf_column t)))" by auto
  from Cons.IH [OF rest Cons.prems(2)] obtain ts where "res' = res1 @ ts"
    "map rcf_buffer_index ts = [Suc k..<Suc k + length bs]"
    "list_all2 (\<lambda>b t. target_ok n t b \<and> hash_get by_column (bc_id (rcf_column t)) = Some (rcf_chunk t) \<and>
      chunk_row_count (rcf_chunk t) = rg_row_count g \<and>
      ((\<exists>k. hash_get by_id k = Some (rcf_column t)) \<or> (\<exists>k. hash_get by_name k = Some (rcf_column t)))) bs ts"
    by blast
  with t tok show ?case unfolding upt_length_Cons by (intro exI [of _ "t # ts"]) simp
qed

text \<open>The fill loop visits the buffers in order and changes each once.\<close>

definition fill_step :: "('t \<Rightarrow> nat) \<Rightarrow> ('t \<Rightarrow> 'b \<Rightarrow> ('r \<times> 'b) presult) \<Rightarrow> 't \<Rightarrow> 'r list \<times> 'b list \<Rightarrow> ('r list \<times> 'b list) presult" where
  "fill_step idx F = (\<lambda>t (rs, bs). case vec_get bs (idx t) of None \<Rightarrow> None
     | Some b \<Rightarrow> pbind (F t b) (\<lambda>(r, b). Some (Inr (rs @ [r], bs[idx t := b]))))"

lemma fill_step_at:
  "idx t = length pre \<Longrightarrow>
     fill_step idx F t (rs, pre @ b # bs) = pbind (F t b) (\<lambda>(r, b'). Some (Inr (rs @ [r], (pre @ [b']) @ bs)))"
  by (simp add: fill_step_def vec_get_def)

lemma fill_loop_Inr:
  assumes "pfor_each (fill_step idx F) ts (rs, pre @ bs) = Some (Inr (rs', full'))"
    and "map idx ts = [length pre..<length pre + length bs]"
  shows "\<exists>qs bs'. full' = pre @ bs' \<and> rs' = rs @ qs \<and>
     list_all2 (\<lambda>tb qb. F (fst tb) (snd tb) = Some (Inr qb)) (zip ts bs) (zip qs bs') \<and>
     length qs = length bs \<and> length bs' = length bs"
  using assms
proof (induction bs arbitrary: ts rs pre)
  case Nil
  then show ?case by simp
next
  case (Cons b bs)
  then obtain t ts' where ts: "ts = t # ts'" "idx t = length pre"
    "map idx ts' = [length (pre @ [b])..<length (pre @ [b]) + length bs]"
    unfolding upt_length_Cons by (auto simp: Cons_eq_map_conv simp del: upt_Suc)
  with Cons.prems(1) obtain q b' where q: "F t b = Some (Inr (q, b'))"
    and rest: "pfor_each (fill_step idx F) ts' (rs @ [q], (pre @ [b']) @ bs) = Some (Inr (rs', full'))"
    by (auto simp: fill_step_at elim!: pbind_InrE)
  have "map idx ts' = [length (pre @ [b'])..<length (pre @ [b']) + length bs]" using ts(3) by simp
  from Cons.IH [OF rest this] obtain qs bs' where "full' = (pre @ [b']) @ bs'" "rs' = (rs @ [q]) @ qs"
    "list_all2 (\<lambda>tb qb. F (fst tb) (snd tb) = Some (Inr qb)) (zip ts' bs) (zip qs bs')"
    "length qs = length bs" "length bs' = length bs" by blast
  with q ts(1) show ?case by (intro exI [of _ "q # qs"] exI [of _ "b' # bs'"]) simp
qed

lemma fill_loop_safe:
  assumes "list_all2 (\<lambda>b t. safe (F t b)) bs ts" and "map idx ts = [length pre..<length pre + length bs]"
  shows "safe (pfor_each (fill_step idx F) ts (rs, pre @ bs))"
  using assms
proof (induction bs arbitrary: ts rs pre)
  case Nil
  then show ?case by (simp add: safe_Some)
next
  case (Cons b bs)
  then obtain t ts' where ts: "ts = t # ts'" "idx t = length pre"
    "map idx ts' = [length (pre @ [b])..<length (pre @ [b]) + length bs]"
    unfolding upt_length_Cons by (auto simp: Cons_eq_map_conv simp del: upt_Suc)
  have "safe (pfor_each (fill_step idx F) ts' (rs @ [q], (pre @ [b']) @ bs))" for q b'
    using Cons.prems(1) ts by (intro Cons.IH) auto
  then have "safe (pbind (F t b) (\<lambda>(r, b'). pfor_each (fill_step idx F) ts' (rs @ [r], (pre @ [b']) @ bs)))"
    using Cons.prems(1) ts(1) by (intro safe_intros) simp_all
  then show ?case by (simp add: ts(1) fill_step_at [of idx t, OF ts(2)] pbind_assoc case_prod_unfold)
qed

lemma hash_get_fold:
  "hash_get (fold (\<lambda>x m. hash_insert m (f x) x) xs m) key = Some v \<Longrightarrow> v \<in> set xs \<or> hash_get m key = Some v"
proof (induction xs arbitrary: m)
  case (Cons x xs)
  then show ?case using Cons.IH [of "hash_insert m (f x) x"] by (auto simp: hash.get_put split: if_splits)
qed simp

lemma resolve_fill_targets_Inr:
  assumes "resolve_fill_targets h m columns k buffers = Inr (g, n, ts)"
  shows "row_group_by_id m k = Some g" and "n = unat (rg_row_count g)"
    and "\<exists>by_col. chunk_by_column h g (chunks_of m g) = Inr by_col \<and> list_all2 (\<lambda>b t. target_ok n t b \<and>
       hash_get by_col (bc_id (rcf_column t)) = Some (rcf_chunk t) \<and> chunk_row_count (rcf_chunk t) = rg_row_count g \<and>
       rcf_column t \<in> set columns) buffers ts"
    and "map rcf_buffer_index ts = [0..<length buffers]"
proof -
  let ?by_id = "fold (\<lambda>column m. hash_insert m (bc_id column) column) columns []"
  let ?by_name = "fold (\<lambda>column m. hash_insert m (bc_name column) column) columns []"
  from assms obtain by_col seen where g: "row_group_by_id m k = Some g" and n: "n = unat (rg_row_count g)"
    and bc: "chunk_by_column h g (chunks_of m g) = Inr by_col"
    and loop: "for_each (resolve_fill_buffer g n by_col ?by_id ?by_name) (enumerate 0 buffers) ({}, []) = Inr (seen, ts)"
    unfolding resolve_fill_targets_def Let_def
    by (auto elim!: sbind_InrE dest!: try_column_bundle_Inr chunks_for_row_group_Inr split: if_splits)
  show "row_group_by_id m k = Some g" "n = unat (rg_row_count g)" by (fact g, fact n)
  from resolve_fill_buffers_Inr [OF loop n [symmetric]] bc
  show "\<exists>by_col. chunk_by_column h g (chunks_of m g) = Inr by_col \<and> list_all2 (\<lambda>b t. target_ok n t b \<and>
       hash_get by_col (bc_id (rcf_column t)) = Some (rcf_chunk t) \<and> chunk_row_count (rcf_chunk t) = rg_row_count g \<and>
       rcf_column t \<in> set columns) buffers ts" and "map rcf_buffer_index ts = [0..<length buffers]"
    by (auto elim!: list_all2_mono simp: hash.get_empty dest!: hash_get_fold)
qed

lemma fill_report_column:
  assumes "fill_column_buffer h zstd src m n t b = Some (Inr (r, b'))"
  shows "cfr_column_id r = bc_id (rcf_column t)"
proof -
  from assms obtain v where "r = \<lparr>cfr_column_id = bc_id (rcf_column t), cfr_rows_filled = n, cfr_validity_filled = v\<rparr>"
    unfolding fill_column_buffer_eq by (auto elim!: pbind_InrE)
  then show ?thesis by simp
qed

theorem read_row_group_into_no_panic:
  assumes "source_serves source content"
  shows "read_row_group_into h zstd source m columns k buffers \<noteq> None"
proof (cases "resolve_fill_targets h m columns k buffers")
  case (Inl e)
  then show ?thesis by (simp add: read_row_group_into_def)
next
  case (Inr r)
  obtain g n ts where r: "r = (g, n, ts)" by (cases r)
  note t = resolve_fill_targets_Inr [OF Inr [unfolded r]]
  from t(3) have "list_all2 (\<lambda>b t. safe (fill_column_buffer h zstd source m n t b)) buffers ts"
    by (auto elim!: list_all2_mono intro: fill_column_buffer_safe [OF _ assms])
  from fill_loop_safe [OF this, of rcf_buffer_index "[]" "[]"] t(4)
  have "safe (pfor_each (fill_step rcf_buffer_index (fill_column_buffer h zstd source m n)) ts ([], buffers))" by simp
  then have "safe (read_row_group_into h zstd source m columns k buffers)"
    unfolding read_row_group_into_def fill_step_def [symmetric] Inr r by (auto intro!: safe_intros)
  then show ?thesis by (simp add: safe_def)
qed

theorem read_row_group_into_eq_read:
  assumes fill: "read_row_group_into h zstd (cbf_source f) (cbf_metadata f) (cbf_columns f) k buffers = Some (Inr (report, buffers'))"
    and rd: "read_row_group h zstd (cbf_source f) (cbf_metadata f) (cbf_columns f) k
      (map cfr_column_id (rfr_columns report)) = Inr batch"
    and ok: "bundle_ok f"
    and src: "source_serves (cbf_source f) content" "source_reliable (cbf_source f)" "host_ready h"
      "limits_ok (md_resource_limits (cbf_metadata f))" "md_file_len (cbf_metadata f) = rs_file_len (cbf_source f)"
  shows "length buffers' = length buffers" and "length (rfr_columns report) = length buffers"
    and "length (batch_columns batch) = length buffers"
    and "\<forall>i < length buffers. buffer_agrees (unat (batch_row_count batch)) (buffers ! i) (batch_columns batch ! i)
      (rfr_columns report ! i) (buffers' ! i)"
    and "rfr_row_group_id report = batch_row_group_id batch" and "rfr_base_row report = batch_base_row batch"
    and "rfr_row_count report = batch_row_count batch"
proof -
  let ?m = "cbf_metadata f"
  from fill obtain g n ts rs where t: "resolve_fill_targets h ?m (cbf_columns f) k buffers = Inr (g, n, ts)"
    and loop: "pfor_each (fill_step rcf_buffer_index (fill_column_buffer h zstd (cbf_source f) ?m n)) ts ([], buffers) = Some (Inr (rs, buffers'))"
    and report: "report = \<lparr>rfr_row_group_id = rg_row_group_id g, rfr_base_row = rg_base_row g,
                rfr_row_count = rg_row_count g, rfr_columns = rs\<rparr>"
    unfolding read_row_group_into_def fill_step_def [symmetric] by (auto elim!: pbind_InrE)
  note r = resolve_fill_targets_Inr [OF t]
  from fill_loop_Inr [of rcf_buffer_index _ ts "[]" "[]", simplified, OF loop r(4)]
  have L: "list_all2 (\<lambda>tb qb. fill_column_buffer h zstd (cbf_source f) ?m n (fst tb) (snd tb) = Some (Inr qb)) (zip ts buffers) (zip rs buffers')"
    "length rs = length buffers" "length buffers' = length buffers" by auto
  from r(3) obtain by_col where bc: "chunk_by_column h g (chunks_of ?m g) = Inr by_col"
    and T: "list_all2 (\<lambda>b t. target_ok n t b \<and> hash_get by_col (bc_id (rcf_column t)) = Some (rcf_chunk t) \<and>
      chunk_row_count (rcf_chunk t) = rg_row_count g \<and> rcf_column t \<in> set (cbf_columns f)) buffers ts" by blast
  from rd obtain g' by_col' where g': "row_group_by_id ?m k = Some g'" "chunk_by_column h g' (chunks_of ?m g') = Inr by_col'"
    and A: "list_all2 (\<lambda>i a. \<exists>b c. List.find (\<lambda>b. bc_id b = i) (cbf_columns f) = Some b \<and> hash_get by_col' i = Some c \<and>
          read_column_array h zstd (cbf_source f) ?m b c (rg_row_count g') = Inr a) (map cfr_column_id rs) (batch_columns batch)"
    and batch: "batch_row_group_id batch = rg_row_group_id g'" "batch_base_row batch = rg_base_row g'"
      "batch_row_count batch = rg_row_count g'"
    by (rule read_row_group_Inr) (auto simp: report)
  have same: "g' = g" "by_col' = by_col" using g' r(1) bc by auto
  show "length buffers' = length buffers" "length (rfr_columns report) = length buffers" using L by (simp_all add: report)
  show "length (batch_columns batch) = length buffers" using list_all2_lengthD [OF A] L(2) by simp
  show "rfr_row_group_id report = batch_row_group_id batch" "rfr_base_row report = batch_base_row batch"
    "rfr_row_count report = batch_row_count batch" using batch by (simp_all add: report same)
  show "\<forall>i < length buffers. buffer_agrees (unat (batch_row_count batch)) (buffers ! i) (batch_columns batch ! i)
      (rfr_columns report ! i) (buffers' ! i)"
  proof (intro allI impI)
    fix i assume i: "i < length buffers"
    have lt: "length ts = length buffers" using list_all2_lengthD [OF T] by simp
    have F: "fill_column_buffer h zstd (cbf_source f) ?m n (ts ! i) (buffers ! i) = Some (Inr (rs ! i, buffers' ! i))"
      using list_all2_nthD [OF L(1), of i] i lt L(2,3) by simp
    have id: "cfr_column_id (rs ! i) = bc_id (rcf_column (ts ! i))"
      by (rule fill_report_column [OF F])
    note T' = list_all2_nthD [OF T i]
    from list_all2_nthD [OF A, of i] i L(2) id obtain b c where
      "List.find (\<lambda>b. bc_id b = bc_id (rcf_column (ts ! i))) (cbf_columns f) = Some b" "hash_get by_col (bc_id (rcf_column (ts ! i))) = Some c"
      "read_column_array h zstd (cbf_source f) ?m b c (rg_row_count g) = Inr (batch_columns batch ! i)"
      by (auto simp: same)
    moreover have "List.find (\<lambda>b. bc_id b = bc_id (rcf_column (ts ! i))) (cbf_columns f) = Some (rcf_column (ts ! i))"
      using T' by (simp add: bundle_find_column [OF ok])
    ultimately have "read_column_array h zstd (cbf_source f) ?m (rcf_column (ts ! i)) (rcf_chunk (ts ! i)) (rg_row_count g) = Inr (batch_columns batch ! i)"
      using T' by simp
    from fill_column_buffer_agrees [OF F _ src this] T'
    show "buffer_agrees (unat (batch_row_count batch)) (buffers ! i) (batch_columns batch ! i) (rfr_columns report ! i) (buffers' ! i)"
      by (simp add: report batch same r(2))
  qed
qed

end
