(* ===== verification/Worker_Pool.thy ===== *)
theory Worker_Pool
  imports Fill_Read
begin

text \<open>
  The worker pool of bounded parallel preparation (\<open>parallel_prepare.rs\<close>): the bounded task queue, the
  progress signal, the shared observations and the worker loop.

  Threads interleave at their accesses to shared state.  Each thread is deterministic, so a thread is a
  program counter and a function from the shared state to its next shared state; \<^const>\<open>None\<close> is a thread
  that is blocked.  Waiting on a condition variable is the guard the thread tests again when it is woken:
  \<open>TaskQueue::pop\<close> waits until there is a task or the queue is closed, \<open>wait_for_change\<close> until the
  generation differs from the one observed or the pool is cancelled; every change of these is followed by a
  notification of the variable.  The steps of the scheduler are in \<open>Ordered_Commit\<close>.

  The generation of the progress signal is a \<open>u64\<close> that grows by one with every notification; the model
  counts without wrapping, and \<open>generation_bound\<close> of \<open>Ordered_Progress\<close> bounds it by the number of tasks.
  Elapsed times are not modelled: the counts of wait episodes are.  The hooks \<open>before_publish\<close> and
  \<open>after_publish\<close> are test hooks; the library passes functions that do nothing.
\<close>

section \<open>Tasks, contexts and reports\<close>

text \<open>\<open>format!("{}", n)\<close> of a \<open>usize\<close>.\<close>

fun decimal :: "nat \<Rightarrow> string" where
  "decimal n = (if n < 10 then [char_of (48 + n)] else decimal (n div 10) @ [char_of (48 + n mod 10)])"

declare decimal.simps [simp del]

datatype ColumnBundleVisitControl = Visit_Continue | Visit_Stop

record ColumnBundleReadCursorReport =
  ccr_base_report :: ColumnBundleReadReport
  ccr_batches_yielded :: usize
  ccr_rows_yielded :: u64
  ccr_max_in_flight_row_groups_observed :: usize
  ccr_cancelled :: bool

record ColumnBundleParallelPrepareOptions =
  ppo_max_in_flight_row_groups :: usize

definition ColumnBundleParallelPrepareOptions_default :: ColumnBundleParallelPrepareOptions where
  "ColumnBundleParallelPrepareOptions_default = \<lparr>ppo_max_in_flight_row_groups = 1\<rparr>"

record ColumnBundleParallelPrepareContext =
  ctx_selected_row_group_ordinal :: usize
  ctx_row_group_id :: u32
  ctx_base_row :: u64
  ctx_row_end :: u64
  ctx_row_count :: u64
  ctx_worker_id :: usize

record ColumnBundleParallelPrepareWorkerReport =
  pwr_worker_id :: usize
  pwr_row_groups_completed :: usize
  pwr_rows_completed :: u64

record ParallelPrepareTaskSpec =
  pts_selected_row_group_ordinal :: usize
  pts_row_group_id :: u32
  pts_base_row :: u64
  pts_row_end :: u64
  pts_row_count :: u64

datatype OrderedCommitMode = Sliding | Windowed

datatype OrderedCommitPanicMode = ConvertToError | Propagate

record ParallelPrepareRuntimeOptions =
  pro_task_queue_capacity :: usize
  pro_result_queue_capacity :: usize

definition production :: "usize \<Rightarrow> ParallelPrepareRuntimeOptions" where
  "production started_workers =
     (let capacity = max started_workers 1 in
     \<lparr>pro_task_queue_capacity = capacity, pro_result_queue_capacity = capacity\<rparr>)"

record 'a ParallelPrepareMessage =
  msg_context :: ColumnBundleParallelPrepareContext
  msg_prepared :: "'a result"

section \<open>The task queue and its progress signal\<close>

record TaskQueue =
  tq_capacity :: usize
  tq_tasks :: "ParallelPrepareTaskSpec list"
  tq_closed :: bool
  tq_progress_notifications :: bool
  tq_generation :: nat

datatype TaskPush = Pushed | Full | Closed

definition TaskQueue_new :: "usize \<Rightarrow> bool \<Rightarrow> TaskQueue" where
  "TaskQueue_new capacity progress_notifications =
     \<lparr>tq_capacity = max capacity 1, tq_tasks = [], tq_closed = False,
      tq_progress_notifications = progress_notifications, tq_generation = 0\<rparr>"

definition try_push :: "TaskQueue \<Rightarrow> ParallelPrepareTaskSpec \<Rightarrow> TaskPush \<times> TaskQueue" where
  "try_push self task =
     (if tq_closed self then (Closed, self)
      else if length (tq_tasks self) \<ge> tq_capacity self then (Full, self)
      else (Pushed, self\<lparr>tq_tasks := tq_tasks self @ [task]\<rparr>))"

definition try_push_window :: "TaskQueue \<Rightarrow> ParallelPrepareTaskSpec list \<Rightarrow> TaskPush \<times> TaskQueue" where
  "try_push_window self tasks =
     (if tq_closed self then (Closed, self)
      else if length tasks > tq_capacity self - length (tq_tasks self) then (Full, self)
      else (Pushed, self\<lparr>tq_tasks := tq_tasks self @ tasks\<rparr>))"

text \<open>What \<open>pop\<close> returns while it holds the lock; \<^const>\<open>None\<close> when it waits.  The notification follows.\<close>

definition TaskQueue_pop :: "TaskQueue \<Rightarrow> bool \<Rightarrow> (ParallelPrepareTaskSpec option \<times> TaskQueue) option" where
  "TaskQueue_pop self cancelled =
     (if cancelled then Some (None, self) else
      case tq_tasks self of
        task # tasks \<Rightarrow> Some (Some task, self\<lparr>tq_tasks := tasks\<rparr>)
      | [] \<Rightarrow> if tq_closed self then Some (None, self) else None)"

definition notify_progress :: "TaskQueue \<Rightarrow> TaskQueue" where
  "notify_progress self =
     (if tq_progress_notifications self then self\<lparr>tq_generation := tq_generation self + 1\<rparr> else self)"

definition TaskQueue_close :: "TaskQueue \<Rightarrow> TaskQueue" where
  "TaskQueue_close self = notify_progress (self\<lparr>tq_closed := True\<rparr>)"

definition progress_snapshot :: "TaskQueue \<Rightarrow> nat option" where
  "progress_snapshot self = (if tq_progress_notifications self then Some (tq_generation self) else None)"

definition enable_progress_notifications :: "TaskQueue \<Rightarrow> TaskQueue" where
  "enable_progress_notifications self = self\<lparr>tq_progress_notifications := True\<rparr>"

text \<open>Whether \<open>wait_for_change(observed, cancelled)\<close> returns, and what.\<close>

definition wait_for_progress :: "TaskQueue \<Rightarrow> nat \<Rightarrow> bool \<Rightarrow> bool option" where
  "wait_for_progress self observed cancelled =
     (if tq_generation self = observed \<and> \<not> cancelled then None else Some (\<not> cancelled))"

section \<open>Shared observations\<close>

record SharedObservations =
  obs_active_workers :: usize
  obs_max_active_workers :: usize
  obs_pending_results :: usize
  obs_pending_rows :: u64
  obs_max_pending_results :: usize
  obs_max_pending_rows :: u64
  obs_result_queue_full_wait_count :: usize

definition SharedObservations_new :: SharedObservations where
  "SharedObservations_new =
     \<lparr>obs_active_workers = 0, obs_max_active_workers = 0, obs_pending_results = 0, obs_pending_rows = 0,
      obs_max_pending_results = 0, obs_max_pending_rows = 0, obs_result_queue_full_wait_count = 0\<rparr>"

definition worker_started :: "SharedObservations \<Rightarrow> SharedObservations" where
  "worker_started self =
     (let active = obs_active_workers self + 1 in
     self\<lparr>obs_active_workers := active, obs_max_active_workers := max (obs_max_active_workers self) active\<rparr>)"

text \<open>Dropping the \<open>ActiveWorkerGuard\<close>.\<close>

definition worker_stopped :: "SharedObservations \<Rightarrow> SharedObservations" where
  "worker_stopped self = self\<lparr>obs_active_workers := obs_active_workers self - 1\<rparr>"

definition result_completed :: "SharedObservations \<Rightarrow> u64 \<Rightarrow> SharedObservations" where
  "result_completed self rows =
     (let pending_rows = obs_pending_rows self + rows;
          pending_results = obs_pending_results self + 1 in
     self\<lparr>obs_pending_rows := pending_rows, obs_pending_results := pending_results,
       obs_max_pending_results := max (obs_max_pending_results self) pending_results,
       obs_max_pending_rows := max (obs_max_pending_rows self) pending_rows\<rparr>)"

definition result_committed :: "SharedObservations \<Rightarrow> u64 \<Rightarrow> SharedObservations" where
  "result_committed self rows =
     self\<lparr>obs_pending_rows := obs_pending_rows self - rows, obs_pending_results := obs_pending_results self - 1\<rparr>"

section \<open>The worker loop\<close>

record WorkerExecutionReport =
  wer_worker_id :: usize
  wer_row_groups_completed :: usize
  wer_rows_completed :: u64
  wer_attribution :: ReadAttributionAccumulator

definition WorkerExecutionReport_new :: "usize \<Rightarrow> WorkerExecutionReport" where
  "WorkerExecutionReport_new worker_id =
     \<lparr>wer_worker_id = worker_id, wer_row_groups_completed = 0, wer_rows_completed = 0,
      wer_attribution = ReadAttributionAccumulator_default\<rparr>"

text \<open>
  Where a worker is in its loop: in \<open>pop\<close>; holding a task before it notifies, before it tests
  \<open>cancelled\<close>, and while it reads and prepares; at the head of the publication loop, before
  \<open>try_send\<close> with the generation it observed, waiting for progress, after \<open>try_send\<close> before it notifies;
  or at its end, its sender dropped.
\<close>

datatype 'a worker_pc =
    Popping
  | Popped ParallelPrepareTaskSpec
  | Ready ParallelPrepareTaskSpec
  | Running ParallelPrepareTaskSpec
  | Publishing "'a ParallelPrepareMessage"
  | Sending "'a ParallelPrepareMessage" "nat option"
  | Waiting "'a ParallelPrepareMessage" nat
  | Sent
  | Finished

record 'a worker =
  wk_pc :: "'a worker_pc"
  wk_report :: WorkerExecutionReport
  wk_full_wait_started :: bool

record 'a pool =
  pl_task_queue :: TaskQueue
  pl_cancelled :: bool
  pl_results :: "'a ParallelPrepareMessage list"
  pl_result_queue_capacity :: usize
  pl_receiver_dropped :: bool
  pl_observations :: SharedObservations
  pl_workers :: "'a worker list"

type_synonym 'm read_fn = "ColumnBundleParallelPrepareContext \<Rightarrow> ('m \<times> ReadAttributionAccumulator) presult"
type_synonym ('m, 'a) prepare_fn = "ColumnBundleParallelPrepareContext \<Rightarrow> 'm \<Rightarrow> 'a presult"

definition context_of :: "usize \<Rightarrow> ParallelPrepareTaskSpec \<Rightarrow> ColumnBundleParallelPrepareContext" where
  "context_of worker_id task =
     \<lparr>ctx_selected_row_group_ordinal = pts_selected_row_group_ordinal task,
      ctx_row_group_id = pts_row_group_id task, ctx_base_row = pts_base_row task, ctx_row_end = pts_row_end task,
      ctx_row_count = pts_row_count task, ctx_worker_id = worker_id\<rparr>"

definition worker_panic_error :: "ColumnBundleParallelPrepareContext \<Rightarrow> ArcadiaTioError" where
  "worker_panic_error context = Io (IoError IoKind_Other
     (''OCB parallel-prepare worker panicked at selected row-group ordinal '' @
      decimal (ctx_selected_row_group_ordinal context)))"

text \<open>
  The body of \<open>catch_unwind\<close>: the rows decoded and the attribution are recorded when the read succeeds,
  also when the preparation fails or panics.
\<close>

definition run_task ::
  "'m read_fn \<Rightarrow> ('m, 'a) prepare_fn \<Rightarrow> ColumnBundleParallelPrepareContext \<Rightarrow> WorkerExecutionReport \<Rightarrow>
   'a result \<times> u64 \<times> WorkerExecutionReport" where
  "run_task read prepare context report =
     (case read context of
        None \<Rightarrow> (Inl (worker_panic_error context), 0, report)
      | Some (Inl e) \<Rightarrow> (Inl e, 0, report)
      | Some (Inr (materialized, attribution)) \<Rightarrow>
          (case prepare context materialized of None \<Rightarrow> Inl (worker_panic_error context) | Some prepared \<Rightarrow> prepared,
           ctx_row_count context,
           report\<lparr>wer_attribution := ReadAttributionAccumulator_add (wer_attribution report) attribution\<rparr>))"

text \<open>\<open>try_send\<close> on the bounded channel.\<close>

datatype TrySend = Send_Ok | Send_Full | Send_Disconnected

definition try_send :: "'a pool \<Rightarrow> 'a ParallelPrepareMessage \<Rightarrow> TrySend \<times> 'a pool" where
  "try_send p message =
     (if pl_receiver_dropped p then (Send_Disconnected, p)
      else if length (pl_results p) \<ge> pl_result_queue_capacity p then (Send_Full, p)
      else (Send_Ok, p\<lparr>pl_results := pl_results p @ [message]\<rparr>))"

definition set_worker :: "usize \<Rightarrow> 'a worker \<Rightarrow> 'a pool \<Rightarrow> 'a pool" where
  "set_worker w x p = p\<lparr>pl_workers := (pl_workers p)[w := x]\<rparr>"

text \<open>The next step of worker \<open>w\<close>.\<close>

definition worker_next :: "'m read_fn \<Rightarrow> ('m, 'a) prepare_fn \<Rightarrow> usize \<Rightarrow> 'a pool \<Rightarrow> 'a pool option" where
  "worker_next read prepare w p =
     (let x = pl_workers p ! w; queue = pl_task_queue p; goto = (\<lambda>pc. set_worker w (x\<lparr>wk_pc := pc\<rparr>)) in
     case wk_pc x of
       Popping \<Rightarrow> (case TaskQueue_pop queue (pl_cancelled p) of
           None \<Rightarrow> None
         | Some (None, _) \<Rightarrow> Some (goto Finished p)
         | Some (Some task, queue) \<Rightarrow> Some (goto (Popped task) (p\<lparr>pl_task_queue := queue\<rparr>)))
     | Popped task \<Rightarrow> Some (goto (Ready task) (p\<lparr>pl_task_queue := notify_progress queue\<rparr>))
     | Ready task \<Rightarrow>
         if pl_cancelled p then Some (goto Finished p)
         else Some (goto (Running task) (p\<lparr>pl_observations := worker_started (pl_observations p)\<rparr>))
     | Running task \<Rightarrow>
         let context = context_of w task; (prepared, decoded_rows, report) = run_task read prepare context (wk_report x);
             report = report\<lparr>wer_row_groups_completed := usize_saturating_add (wer_row_groups_completed report) 1,
               wer_rows_completed := saturating_add (wer_rows_completed report) decoded_rows\<rparr> in
         Some (set_worker w \<lparr>wk_pc = Publishing \<lparr>msg_context = context, msg_prepared = prepared\<rparr>,
               wk_report = report, wk_full_wait_started = False\<rparr>
           (p\<lparr>pl_observations := result_completed (worker_stopped (pl_observations p)) decoded_rows\<rparr>))
     | Publishing message \<Rightarrow>
         if pl_cancelled p then Some (goto Finished p) else Some (goto (Sending message (progress_snapshot queue)) p)
     | Sending message progress \<Rightarrow>
         (case try_send p message of
           (Send_Ok, p) \<Rightarrow> Some (goto Sent p)
         | (Send_Full, _) \<Rightarrow>
             let observations = (if wk_full_wait_started x then pl_observations p
                   else (pl_observations p)\<lparr>obs_result_queue_full_wait_count :=
                          obs_result_queue_full_wait_count (pl_observations p) + 1\<rparr>) in
             (case progress of
               Some observed \<Rightarrow> Some (set_worker w (x\<lparr>wk_pc := Waiting message observed, wk_full_wait_started := True\<rparr>)
                 (p\<lparr>pl_observations := observations\<rparr>))
             | None \<Rightarrow> Some (set_worker w (x\<lparr>wk_pc := Publishing message, wk_full_wait_started := True\<rparr>)
                 (p\<lparr>pl_observations := observations, pl_task_queue := enable_progress_notifications queue\<rparr>)))
         | (Send_Disconnected, _) \<Rightarrow> Some (goto Finished p))
     | Waiting message observed \<Rightarrow>
         (case wait_for_progress queue observed (pl_cancelled p) of
           None \<Rightarrow> None
         | Some True \<Rightarrow> Some (goto (Publishing message) p)
         | Some False \<Rightarrow> Some (goto Finished p))
     | Sent \<Rightarrow> Some (goto Popping (p\<lparr>pl_task_queue := notify_progress queue\<rparr>))
     | Finished \<Rightarrow> None)"

end
