(* ===== verification/Ordered_Commit.thy ===== *)
theory Ordered_Commit
  imports Worker_Pool Admission
begin

text \<open>
  The coordinator of bounded parallel preparation (\<open>parallel_prepare.rs\<close>): it queues the tasks, receives
  the results in any order and commits them in the order of their ordinals, either with a sliding window
  of tasks in flight or window by window.

  As in \<open>Worker_Pool\<close>, a coordinator is a program counter with its local variables and a deterministic
  function to the next state.  \<open>pool_step\<close> interleaves the workers and the coordinator.
\<close>

section \<open>Coordinator state\<close>

record CoordinatorReport =
  cor_row_groups_queued :: usize
  cor_row_groups_ordered_committed :: usize
  cor_rows_ordered_committed :: u64
  cor_max_in_flight_row_groups_observed :: usize
  cor_capacity_wait_count :: usize
  cor_task_queue_full_wait_count :: usize
  cor_ordered_frontier_wait_count :: usize
  cor_cancelled :: bool

definition CoordinatorReport_default :: CoordinatorReport where
  "CoordinatorReport_default =
     \<lparr>cor_row_groups_queued = 0, cor_row_groups_ordered_committed = 0, cor_rows_ordered_committed = 0,
      cor_max_in_flight_row_groups_observed = 0, cor_capacity_wait_count = 0, cor_task_queue_full_wait_count = 0,
      cor_ordered_frontier_wait_count = 0, cor_cancelled = False\<rparr>"

type_synonym 'a pending_map = "(usize, 'a ParallelPrepareMessage) hash_map"

text \<open>\<open>BTreeMap::remove\<close>.\<close>

definition pending_remove :: "'a pending_map \<Rightarrow> usize \<Rightarrow> 'a ParallelPrepareMessage option \<times> 'a pending_map" where
  "pending_remove pending ordinal = (hash_get pending ordinal, filter (\<lambda>(k, _). k \<noteq> ordinal) pending)"

definition insert_pending :: "'a pending_map \<Rightarrow> 'a ParallelPrepareMessage \<Rightarrow> 'a pending_map result" where
  "insert_pending pending message =
     (let ordinal = ctx_selected_row_group_ordinal (msg_context message) in
     if hash_contains pending ordinal
     then Inl (Io (IoError IoKind_Other ''OCB parallel prepare produced a duplicate row-group ordinal''))
     else Inr (hash_insert pending ordinal message))"

definition disconnected_worker_error :: ArcadiaTioError where
  "disconnected_worker_error =
     Io (IoError IoKind_Other ''OCB parallel-prepare workers ended before the ordered frontier resolved'')"

text \<open>
  The commit callback is a closure that owns a state: it returns its result, or panics, and its new state.
\<close>

type_synonym ('a, 's) commit_fn =
  "ColumnBundleParallelPrepareContext \<Rightarrow> 'a \<Rightarrow> 's \<Rightarrow> ColumnBundleVisitControl presult \<times> 's"

definition invoke_ordered_commit ::
  "OrderedCommitPanicMode \<Rightarrow> ('a, 's) commit_fn \<Rightarrow> ColumnBundleParallelPrepareContext \<Rightarrow> 'a \<Rightarrow> 's \<Rightarrow>
   ColumnBundleVisitControl presult \<times> 's" where
  "invoke_ordered_commit panic_mode ordered_commit context prepared s =
     (case panic_mode of
        ConvertToError \<Rightarrow>
          (case ordered_commit context prepared s of
             (None, s) \<Rightarrow> (Some (Inl (Io (IoError IoKind_Other
                 (''OCB ordered commit panicked at selected row-group ordinal '' @
                  decimal (ctx_selected_row_group_ordinal context))))), s)
           | (Some r, s) \<Rightarrow> (Some r, s))
      | Propagate \<Rightarrow> ordered_commit context prepared s)"

text \<open>
  Where a coordinator is.  \<open>C_Head\<close> is the head of its outer loop.  \<open>C_Push\<close> and \<open>C_Full\<close> are before
  \<open>try_push\<close> and, when that finds the queue full, before \<open>try_recv\<close>, with the generation observed;
  \<open>C_Wait\<close> waits for progress; \<open>C_Received\<close> holds a message before it notifies and keeps it, and
  tells whether it came while the queue was full;
  \<open>C_Close\<close> closes the queue after the last push; \<open>C_Recv\<close> is the blocking receive.  \<open>C_Drain\<close> is the
  commit loop of the sliding coordinator; \<open>C_Window\<close>, \<open>C_Fill\<close>, \<open>C_Collect\<close>, \<open>C_Check\<close> and \<open>C_Commit\<close> are
  the stages of a window.
\<close>

datatype 'a coordinator_pc =
    C_Head
  | C_Drain
  | C_Window
  | C_Fill
  | C_Push "nat option"
  | C_Full "nat option"
  | C_Wait nat
  | C_Received "'a ParallelPrepareMessage" bool
  | C_Close
  | C_Collect
  | C_Recv
  | C_Check usize
  | C_Commit usize

text \<open>
  The local variables of both coordinators: \<open>next_to_commit\<close> and \<open>stop_launching\<close> belong to the sliding one,
  \<open>window_start\<close> and \<open>window_end\<close> to the windowed one.
\<close>

record ('a, 's) coordinator =
  co_pc :: "'a coordinator_pc"
  co_report :: CoordinatorReport
  co_next_to_queue :: usize
  co_next_to_commit :: usize
  co_window_start :: usize
  co_window_end :: usize
  co_pending :: "'a pending_map"
  co_stop_launching :: bool
  co_task_full_wait_started :: bool
  co_commit_state :: 's

definition coordinator_start :: "'s \<Rightarrow> ('a, 's) coordinator" where
  "coordinator_start s =
     \<lparr>co_pc = C_Head, co_report = CoordinatorReport_default, co_next_to_queue = 0, co_next_to_commit = 0,
      co_window_start = 0, co_window_end = 0, co_pending = [], co_stop_launching = False,
      co_task_full_wait_started = False, co_commit_state = s\<rparr>"

text \<open>A coordinator goes on, or returns a report or an error, or unwinds (\<^const>\<open>None\<close>).\<close>

datatype ('a, 's) progress_to =
    Goes_On "('a, 's) coordinator"
  | Returns "CoordinatorReport presult" 's

definition goto :: "'a coordinator_pc \<Rightarrow> ('a, 's) coordinator \<Rightarrow> ('a, 's) progress_to" where
  "goto pc c = Goes_On (c\<lparr>co_pc := pc\<rparr>)"

definition fails :: "ArcadiaTioError \<Rightarrow> ('a, 's) coordinator \<Rightarrow> ('a, 's) progress_to" where
  "fails e c = Returns (Some (Inl e)) (co_commit_state c)"

definition cancel :: "'a pool \<Rightarrow> 'a pool" where
  "cancel p = p\<lparr>pl_cancelled := True\<rparr>"

definition close_task_full_wait :: "('a, 's) coordinator \<Rightarrow> ('a, 's) coordinator" where
  "close_task_full_wait c = c\<lparr>co_task_full_wait_started := False\<rparr>"

definition count_frontier_wait :: "bool \<Rightarrow> CoordinatorReport \<Rightarrow> CoordinatorReport" where
  "count_frontier_wait capacity_wait report = report
     \<lparr>cor_ordered_frontier_wait_count := usize_saturating_add (cor_ordered_frontier_wait_count report) 1,
      cor_capacity_wait_count := (if capacity_wait then usize_saturating_add (cor_capacity_wait_count report) 1
        else cor_capacity_wait_count report)\<rparr>"

text \<open>A task was pushed: \<open>in_flight\<close> counts from the first ordinal that is not retired.\<close>

definition count_queued :: "usize \<Rightarrow> CoordinatorReport \<Rightarrow> CoordinatorReport" where
  "count_queued retired report =
     (let queued = usize_saturating_add (cor_row_groups_queued report) 1 in
     report\<lparr>cor_row_groups_queued := queued,
       cor_max_in_flight_row_groups_observed := max (cor_max_in_flight_row_groups_observed report) (queued - retired)\<rparr>)"

definition count_committed :: "u64 \<Rightarrow> CoordinatorReport \<Rightarrow> CoordinatorReport" where
  "count_committed rows report = report
     \<lparr>cor_row_groups_ordered_committed := usize_saturating_add (cor_row_groups_ordered_committed report) 1,
      cor_rows_ordered_committed := saturating_add (cor_rows_ordered_committed report) rows\<rparr>"

text \<open>
  The channel: a receive on an empty channel reports the disconnection when every worker has dropped its
  sender.
\<close>

definition disconnected :: "'a pool \<Rightarrow> bool" where
  "disconnected p \<longleftrightarrow> list_all (\<lambda>x. wk_pc x = Finished) (pl_workers p)"

datatype 'a received = Message "'a ParallelPrepareMessage" "'a pool" | Nothing | Disconnected

definition try_recv :: "'a pool \<Rightarrow> 'a received" where
  "try_recv p =
     (case pl_results p of
        message # rest \<Rightarrow> Message message (p\<lparr>pl_results := rest\<rparr>)
      | [] \<Rightarrow> if disconnected p then Disconnected else Nothing)"

text \<open>
  Committing a prepared result: the commit callback, the counts and, when the callback stops, the
  cancellation and the end of the coordinator.
\<close>

definition commit_prepared ::
  "OrderedCommitPanicMode \<Rightarrow> ('a, 's) commit_fn \<Rightarrow> ColumnBundleParallelPrepareContext \<Rightarrow> 'a \<Rightarrow>
   (('a, 's) coordinator \<Rightarrow> ('a, 's) progress_to) \<Rightarrow> 'a pool \<Rightarrow> ('a, 's) coordinator \<Rightarrow> 'a pool \<times> ('a, 's) progress_to" where
  "commit_prepared panic_mode ordered_commit context prepared continue p c =
     (case invoke_ordered_commit panic_mode ordered_commit context prepared (co_commit_state c) of
        (None, s) \<Rightarrow> (p, Returns None s)
      | (Some (Inl e), s) \<Rightarrow> (p, Returns (Some (Inl e)) s)
      | (Some (Inr control), s) \<Rightarrow>
          let report = count_committed (ctx_row_count context)
                ((co_report c)\<lparr>cor_cancelled := cor_cancelled (co_report c) \<or> control = Visit_Stop\<rparr>);
              p = p\<lparr>pl_observations := result_committed (pl_observations p) (ctx_row_count context)\<rparr>;
              c = c\<lparr>co_report := report, co_commit_state := s\<rparr> in
          if cor_cancelled report then (cancel p, Returns (Some (Inr report)) s) else (p, continue c))"

section \<open>Steps both coordinators share\<close>

text \<open>
  \<open>try_push\<close> of the next task: what follows a push, and that a full queue starts a wait episode.
\<close>

definition push_next ::
  "ParallelPrepareTaskSpec list \<Rightarrow> usize \<Rightarrow> nat option \<Rightarrow> (('a, 's) coordinator \<Rightarrow> ('a, 's) progress_to) \<Rightarrow>
   'a pool \<Rightarrow> ('a, 's) coordinator \<Rightarrow> 'a pool \<times> ('a, 's) progress_to" where
  "push_next tasks retired progress continue p c =
     (case try_push (pl_task_queue p) (tasks ! co_next_to_queue c) of
        (Pushed, queue) \<Rightarrow>
          (p\<lparr>pl_task_queue := queue\<rparr>,
           continue ((close_task_full_wait c)\<lparr>co_next_to_queue := usize_saturating_add (co_next_to_queue c) 1,
             co_report := count_queued retired (co_report c)\<rparr>))
      | (Full, _) \<Rightarrow>
          (p, goto (C_Full progress) (if co_task_full_wait_started c then c
             else c\<lparr>co_task_full_wait_started := True,
               co_report := (co_report c)\<lparr>cor_task_queue_full_wait_count :=
                 usize_saturating_add (cor_task_queue_full_wait_count (co_report c)) 1\<rparr>\<rparr>))
      | (Closed, _) \<Rightarrow> (p, fails disconnected_worker_error c))"

text \<open>
  The queue was full: receive a result if there is one, otherwise wait for progress, or ask for
  notifications first when they were off.
\<close>

definition receive_when_full ::
  "nat option \<Rightarrow> 'a coordinator_pc \<Rightarrow> 'a pool \<Rightarrow> ('a, 's) coordinator \<Rightarrow> 'a pool \<times> ('a, 's) progress_to" where
  "receive_when_full progress again p c =
     (case try_recv p of
        Message message p \<Rightarrow> (p, goto (C_Received message True) c)
      | Nothing \<Rightarrow>
          (case progress of
             Some observed \<Rightarrow> (p, goto (C_Wait observed) c)
           | None \<Rightarrow> (p\<lparr>pl_task_queue := enable_progress_notifications (pl_task_queue p)\<rparr>, goto again c))
      | Disconnected \<Rightarrow> (p, fails disconnected_worker_error c))"

definition wait_then ::
  "nat \<Rightarrow> 'a coordinator_pc \<Rightarrow> 'a pool \<Rightarrow> ('a, 's) coordinator \<Rightarrow> ('a pool \<times> ('a, 's) progress_to) option" where
  "wait_then observed again p c =
     (case wait_for_progress (pl_task_queue p) observed (pl_cancelled p) of
        None \<Rightarrow> None
      | Some _ \<Rightarrow> Some (p, goto again c))"

text \<open>The blocking receive.\<close>

definition receive_blocking :: "'a pool \<Rightarrow> ('a, 's) coordinator \<Rightarrow> ('a pool \<times> ('a, 's) progress_to) option" where
  "receive_blocking p c =
     (case try_recv p of
        Message message p \<Rightarrow> Some (p, goto (C_Received message False) c)
      | Nothing \<Rightarrow> None
      | Disconnected \<Rightarrow> Some (p, fails disconnected_worker_error c))"

text \<open>A message was received: the notification, then the message joins the pending ones.\<close>

definition keep_received ::
  "'a ParallelPrepareMessage \<Rightarrow> 'a coordinator_pc \<Rightarrow> 'a pool \<Rightarrow> ('a, 's) coordinator \<Rightarrow> 'a pool \<times> ('a, 's) progress_to" where
  "keep_received message again p c =
     (p\<lparr>pl_task_queue := notify_progress (pl_task_queue p)\<rparr>,
      case insert_pending (co_pending c) message of
        Inl e \<Rightarrow> fails e c
      | Inr pending \<Rightarrow> goto again (c\<lparr>co_pending := pending\<rparr>))"

section \<open>The sliding coordinator\<close>

definition sliding_drain ::
  "ParallelPrepareTaskSpec list \<Rightarrow> usize \<Rightarrow> OrderedCommitPanicMode \<Rightarrow> ('a, 's) commit_fn \<Rightarrow>
   'a pool \<Rightarrow> ('a, 's) coordinator \<Rightarrow> 'a pool \<times> ('a, 's) progress_to" where
  "sliding_drain tasks max_in_flight panic_mode ordered_commit p c =
     (case pending_remove (co_pending c) (co_next_to_commit c) of
        (Some message, pending) \<Rightarrow>
          (case msg_prepared message of
             Inr prepared \<Rightarrow>
               commit_prepared panic_mode ordered_commit (msg_context message) prepared
                 (\<lambda>c. goto C_Drain (c\<lparr>co_next_to_commit := usize_saturating_add (co_next_to_commit c) 1\<rparr>))
                 p (c\<lparr>co_pending := pending\<rparr>)
           | Inl e \<Rightarrow> (cancel p, fails e c))
      | (None, _) \<Rightarrow>
          if co_next_to_commit c = length tasks then (p, Returns (Some (Inr (co_report c))) (co_commit_state c)) else
          let in_flight = cor_row_groups_queued (co_report c) - co_next_to_commit c;
              more = (\<not> co_stop_launching c \<and> co_next_to_queue c < length tasks) in
          if more \<and> in_flight < max_in_flight then (p, goto (C_Push (progress_snapshot (pl_task_queue p))) c)
          else (p, goto C_Recv ((close_task_full_wait c)
            \<lparr>co_report := count_frontier_wait (more \<and> in_flight \<ge> max_in_flight) (co_report c)\<rparr>)))"

definition coordinate_sliding_ordered_commit ::
  "ParallelPrepareTaskSpec list \<Rightarrow> usize \<Rightarrow> OrderedCommitPanicMode \<Rightarrow> ('a, 's) commit_fn \<Rightarrow>
   'a pool \<Rightarrow> ('a, 's) coordinator \<Rightarrow> ('a pool \<times> ('a, 's) progress_to) option" where
  "coordinate_sliding_ordered_commit tasks max_in_flight panic_mode ordered_commit p c =
     (case co_pc c of
        C_Head \<Rightarrow> Some (p,
          if co_next_to_commit c < length tasks then goto C_Drain c
          else Returns (Some (Inr (co_report c))) (co_commit_state c))
      | C_Drain \<Rightarrow> Some (sliding_drain tasks max_in_flight panic_mode ordered_commit p c)
      | C_Push progress \<Rightarrow> Some (push_next tasks (co_next_to_commit c) progress
          (\<lambda>c. goto (if co_next_to_queue c = length tasks then C_Close else C_Head) c) p c)
      | C_Close \<Rightarrow> Some (p\<lparr>pl_task_queue := TaskQueue_close (pl_task_queue p)\<rparr>, goto C_Head c)
      | C_Full progress \<Rightarrow> Some (receive_when_full progress C_Head p c)
      | C_Wait observed \<Rightarrow> wait_then observed C_Head p c
      | C_Received message _ \<Rightarrow> Some (keep_received message C_Head p
          ((close_task_full_wait c)\<lparr>co_stop_launching := co_stop_launching c \<or> \<not> is_ok (msg_prepared message)\<rparr>))
      | C_Recv \<Rightarrow> receive_blocking p c
      | _ \<Rightarrow> None)"

section \<open>The windowed coordinator\<close>

definition open_window ::
  "ParallelPrepareTaskSpec list \<Rightarrow> usize \<Rightarrow> 'a pool \<Rightarrow> ('a, 's) coordinator \<Rightarrow> 'a pool \<times> ('a, 's) progress_to" where
  "open_window tasks window_size p c =
     (let window_start = co_window_start c; window_end = min (usize_saturating_add window_start window_size) (length tasks);
          c = c\<lparr>co_window_end := window_end, co_next_to_queue := window_start\<rparr> in
     if \<not> tq_progress_notifications (pl_task_queue p) then (p, goto C_Window c) else (p, goto C_Fill c))"

definition push_window ::
  "ParallelPrepareTaskSpec list \<Rightarrow> 'a pool \<Rightarrow> ('a, 's) coordinator \<Rightarrow> 'a pool \<times> ('a, 's) progress_to" where
  "push_window tasks p c =
     (case try_push_window (pl_task_queue p) (slice (co_window_start c) (co_window_end c) tasks) of
        (Pushed, queue) \<Rightarrow>
          let queued = co_window_end c - co_window_start c; report = co_report c in
          (p\<lparr>pl_task_queue := queue\<rparr>, goto C_Fill (c\<lparr>co_next_to_queue := co_window_end c,
             co_report := report\<lparr>cor_row_groups_queued := usize_saturating_add (cor_row_groups_queued report) queued,
               cor_max_in_flight_row_groups_observed := max (cor_max_in_flight_row_groups_observed report) queued\<rparr>\<rparr>))
      | (Full, _) \<Rightarrow> (p\<lparr>pl_task_queue := enable_progress_notifications (pl_task_queue p)\<rparr>, goto C_Fill c)
      | (Closed, _) \<Rightarrow> (p, fails disconnected_worker_error c))"

definition check_window ::
  "usize \<Rightarrow> 'a pool \<Rightarrow> ('a, 's) coordinator \<Rightarrow> 'a pool \<times> ('a, 's) progress_to" where
  "check_window ordinal p c =
     (if ordinal < co_window_end c then
        case hash_get (co_pending c) ordinal of
          Some message \<Rightarrow>
            (case msg_prepared message of
               Inl e \<Rightarrow> (cancel p, fails e c)
             | Inr _ \<Rightarrow> (p, goto (C_Check (ordinal + 1)) c))
        | None \<Rightarrow> (p, goto (C_Check (ordinal + 1)) c)
      else (p, goto (C_Commit (co_window_start c)) c))"

definition commit_window ::
  "usize \<Rightarrow> OrderedCommitPanicMode \<Rightarrow> ('a, 's) commit_fn \<Rightarrow> usize \<Rightarrow>
   'a pool \<Rightarrow> ('a, 's) coordinator \<Rightarrow> 'a pool \<times> ('a, 's) progress_to" where
  "commit_window window_size panic_mode ordered_commit ordinal p c =
     (if ordinal < co_window_end c then
        case pending_remove (co_pending c) ordinal of
          (None, _) \<Rightarrow> (p, fails disconnected_worker_error c)
        | (Some message, pending) \<Rightarrow>
            (case msg_prepared message of
               Inl e \<Rightarrow> (p, fails e c)
             | Inr prepared \<Rightarrow>
                 commit_prepared panic_mode ordered_commit (msg_context message) prepared
                   (goto (C_Commit (ordinal + 1))) p (c\<lparr>co_pending := pending\<rparr>))
      else (p, goto C_Head (c\<lparr>co_window_start := co_window_start c + window_size\<rparr>)))"

definition coordinate_windowed_ordered_commit ::
  "ParallelPrepareTaskSpec list \<Rightarrow> usize \<Rightarrow> OrderedCommitPanicMode \<Rightarrow> ('a, 's) commit_fn \<Rightarrow>
   'a pool \<Rightarrow> ('a, 's) coordinator \<Rightarrow> ('a pool \<times> ('a, 's) progress_to) option" where
  "coordinate_windowed_ordered_commit tasks window_size panic_mode ordered_commit p c =
     (case co_pc c of
        C_Head \<Rightarrow> Some (
          if co_window_start c < length tasks then open_window tasks window_size p c
          else (p, Returns (Some (Inr (co_report c))) (co_commit_state c)))
      | C_Window \<Rightarrow> Some (push_window tasks p c)
      | C_Fill \<Rightarrow> Some (p,
          if co_next_to_queue c < co_window_end c then goto (C_Push (progress_snapshot (pl_task_queue p))) c
          else if co_window_end c = length tasks then goto C_Close c
          else goto C_Collect c)
      | C_Push progress \<Rightarrow> Some (push_next tasks (co_window_start c) progress (goto C_Fill) p c)
      | C_Full progress \<Rightarrow> Some (receive_when_full progress C_Fill p c)
      | C_Wait observed \<Rightarrow> wait_then observed C_Fill p c
      | C_Received message filling \<Rightarrow>
          Some (keep_received message (if filling then C_Fill else C_Collect) p (if filling then close_task_full_wait c else c))
      | C_Close \<Rightarrow> Some (p\<lparr>pl_task_queue := TaskQueue_close (pl_task_queue p)\<rparr>, goto C_Collect c)
      | C_Collect \<Rightarrow> Some (p,
          if length (co_pending c) < co_window_end c - co_window_start c
          then goto C_Recv (c\<lparr>co_report := count_frontier_wait True (co_report c)\<rparr>)
          else goto (C_Check (co_window_start c)) c)
      | C_Recv \<Rightarrow> receive_blocking p c
      | C_Check ordinal \<Rightarrow> Some (check_window ordinal p c)
      | C_Commit ordinal \<Rightarrow> Some (commit_window window_size panic_mode ordered_commit ordinal p c)
      | C_Drain \<Rightarrow> None)"

section \<open>Running the pool\<close>

text \<open>
  The thread that coordinates: after the coordinator returns or unwinds, the pool is cancelled unless
  everything was committed, the queue is closed, the receiver is dropped and the workers are joined.
\<close>

datatype ('a, 's) main_thread =
    Coordinating "('a, 's) coordinator"
  | Cancelling "CoordinatorReport presult" 's
  | Closing "CoordinatorReport presult" 's
  | Dropping "CoordinatorReport presult" 's
  | Joining "CoordinatorReport presult" 's
  | Joined "CoordinatorReport presult" 's

definition main_next ::
  "('a pool \<Rightarrow> ('a, 's) coordinator \<Rightarrow> ('a pool \<times> ('a, 's) progress_to) option) \<Rightarrow>
   'a pool \<Rightarrow> ('a, 's) main_thread \<Rightarrow> ('a pool \<times> ('a, 's) main_thread) option" where
  "main_next coordinate p thread =
     (case thread of
        Coordinating c \<Rightarrow>
          (case coordinate p c of
             None \<Rightarrow> None
           | Some (p, Goes_On c) \<Rightarrow> Some (p, Coordinating c)
           | Some (p, Returns r s) \<Rightarrow> Some (p, Cancelling r s))
      | Cancelling r s \<Rightarrow>
          Some (case r of Some (Inr report) \<Rightarrow> if cor_cancelled report then cancel p else p | _ \<Rightarrow> cancel p, Closing r s)
      | Closing r s \<Rightarrow> Some (p\<lparr>pl_task_queue := TaskQueue_close (pl_task_queue p)\<rparr>, Dropping r s)
      | Dropping r s \<Rightarrow> Some (p\<lparr>pl_receiver_dropped := True\<rparr>, Joining r s)
      | Joining r s \<Rightarrow> if disconnected p then Some (p, Joined r s) else None
      | Joined r s \<Rightarrow> None)"

text \<open>One step of the threads: any worker that is not blocked, or the coordinating thread.\<close>

inductive pool_step ::
  "'m read_fn \<Rightarrow> ('m, 'a) prepare_fn \<Rightarrow>
   ('a pool \<Rightarrow> ('a, 's) coordinator \<Rightarrow> ('a pool \<times> ('a, 's) progress_to) option) \<Rightarrow>
   'a pool \<times> ('a, 's) main_thread \<Rightarrow> 'a pool \<times> ('a, 's) main_thread \<Rightarrow> bool"
  for read prepare coordinate where
  worker_moves: "w < length (pl_workers p) \<Longrightarrow> worker_next read prepare w p = Some p' \<Longrightarrow>
    pool_step read prepare coordinate (p, t) (p', t)"
| main_moves: "main_next coordinate p t = Some (p', t') \<Longrightarrow> pool_step read prepare coordinate (p, t) (p', t')"

definition pool_start :: "ParallelPrepareRuntimeOptions \<Rightarrow> bool \<Rightarrow> usize \<Rightarrow> 'a pool" where
  "pool_start runtime progress_notifications_required started_workers =
     \<lparr>pl_task_queue = TaskQueue_new (pro_task_queue_capacity runtime) progress_notifications_required,
      pl_cancelled = False, pl_results = [], pl_result_queue_capacity = max (pro_result_queue_capacity runtime) 1,
      pl_receiver_dropped = False, pl_observations = SharedObservations_new,
      pl_workers = map (\<lambda>worker_id. \<lparr>wk_pc = Popping, wk_report = WorkerExecutionReport_new worker_id,
        wk_full_wait_started = False\<rparr>) [0..<started_workers]\<rparr>"

definition coordinate_ordered_commit ::
  "OrderedCommitMode \<Rightarrow> ParallelPrepareTaskSpec list \<Rightarrow> usize \<Rightarrow> OrderedCommitPanicMode \<Rightarrow> ('a, 's) commit_fn \<Rightarrow>
   'a pool \<Rightarrow> ('a, 's) coordinator \<Rightarrow> ('a pool \<times> ('a, 's) progress_to) option" where
  "coordinate_ordered_commit commit_mode =
     (case commit_mode of Sliding \<Rightarrow> coordinate_sliding_ordered_commit | Windowed \<Rightarrow> coordinate_windowed_ordered_commit)"

record ColumnBundleParallelPrepareReport =
  ppr_cursor_report :: ColumnBundleReadCursorReport
  ppr_attribution :: ColumnBundleReadAttribution
  ppr_requested_workers :: usize
  ppr_started_workers :: usize
  ppr_max_active_workers_observed :: usize
  ppr_row_groups_queued :: usize
  ppr_row_groups_completed :: usize
  ppr_row_groups_ordered_committed :: usize
  ppr_rows_completed :: u64
  ppr_rows_ordered_committed :: u64
  ppr_max_in_flight_row_groups_observed :: usize
  ppr_max_pending_results_observed :: usize
  ppr_max_pending_rows_observed :: u64
  ppr_capacity_wait_count :: usize
  ppr_task_queue_full_wait_count :: usize
  ppr_result_queue_full_wait_count :: usize
  ppr_ordered_frontier_wait_count :: usize
  ppr_ordered_terminal_completed :: bool
  ppr_worker_reports :: "ColumnBundleParallelPrepareWorkerReport list"

record BoundedOrderedOutcome =
  boo_report :: ColumnBundleParallelPrepareReport
  boo_attribution_accumulator :: ReadAttributionAccumulator

definition empty_report :: "ColumnBundleReadReport \<Rightarrow> usize \<Rightarrow> ColumnBundleParallelPrepareReport" where
  "empty_report base_report requested_workers =
     \<lparr>ppr_cursor_report = \<lparr>ccr_base_report = base_report, ccr_batches_yielded = 0, ccr_rows_yielded = 0,
        ccr_max_in_flight_row_groups_observed = 0, ccr_cancelled = False\<rparr>,
      ppr_attribution = attribution_from_accumulator ReadAttributionAccumulator_default base_report,
      ppr_requested_workers = requested_workers, ppr_started_workers = 0, ppr_max_active_workers_observed = 0,
      ppr_row_groups_queued = 0, ppr_row_groups_completed = 0, ppr_row_groups_ordered_committed = 0,
      ppr_rows_completed = 0, ppr_rows_ordered_committed = 0, ppr_max_in_flight_row_groups_observed = 0,
      ppr_max_pending_results_observed = 0, ppr_max_pending_rows_observed = 0, ppr_capacity_wait_count = 0,
      ppr_task_queue_full_wait_count = 0, ppr_result_queue_full_wait_count = 0, ppr_ordered_frontier_wait_count = 0,
      ppr_ordered_terminal_completed = True, ppr_worker_reports = []\<rparr>"

text \<open>The report of a pool whose workers are joined.\<close>

definition bounded_ordered_outcome ::
  "ColumnBundleReadReport \<Rightarrow> usize \<Rightarrow> usize \<Rightarrow> usize \<Rightarrow> CoordinatorReport \<Rightarrow> 'a pool \<Rightarrow> BoundedOrderedOutcome" where
  "bounded_ordered_outcome base_report requested_workers started_workers tasks_len coordinator p =
     (let worker_reports = map wk_report (pl_workers p); observations = pl_observations p;
          accumulator = foldl ReadAttributionAccumulator_add ReadAttributionAccumulator_default (map wer_attribution worker_reports);
          row_groups_completed = foldl usize_saturating_add 0 (map wer_row_groups_completed worker_reports);
          rows_completed = foldl saturating_add 0 (map wer_rows_completed worker_reports) in
     \<lparr>boo_report = \<lparr>ppr_cursor_report = \<lparr>ccr_base_report = base_report,
          ccr_batches_yielded = cor_row_groups_ordered_committed coordinator,
          ccr_rows_yielded = cor_rows_ordered_committed coordinator,
          ccr_max_in_flight_row_groups_observed = cor_max_in_flight_row_groups_observed coordinator,
          ccr_cancelled = cor_cancelled coordinator\<rparr>,
        ppr_attribution = attribution_from_accumulator accumulator base_report,
        ppr_requested_workers = requested_workers, ppr_started_workers = started_workers,
        ppr_max_active_workers_observed = obs_max_active_workers observations,
        ppr_row_groups_queued = cor_row_groups_queued coordinator,
        ppr_row_groups_completed = row_groups_completed,
        ppr_row_groups_ordered_committed = cor_row_groups_ordered_committed coordinator,
        ppr_rows_completed = rows_completed,
        ppr_rows_ordered_committed = cor_rows_ordered_committed coordinator,
        ppr_max_in_flight_row_groups_observed = cor_max_in_flight_row_groups_observed coordinator,
        ppr_max_pending_results_observed = obs_max_pending_results observations,
        ppr_max_pending_rows_observed = obs_max_pending_rows observations,
        ppr_capacity_wait_count = cor_capacity_wait_count coordinator,
        ppr_task_queue_full_wait_count = cor_task_queue_full_wait_count coordinator,
        ppr_result_queue_full_wait_count = obs_result_queue_full_wait_count observations,
        ppr_ordered_frontier_wait_count = cor_ordered_frontier_wait_count coordinator,
        ppr_ordered_terminal_completed =
          (\<not> cor_cancelled coordinator \<and> cor_row_groups_ordered_committed coordinator = tasks_len),
        ppr_worker_reports = sort_key pwr_worker_id (map (\<lambda>worker.
          \<lparr>pwr_worker_id = wer_worker_id worker, pwr_row_groups_completed = wer_row_groups_completed worker,
           pwr_rows_completed = wer_rows_completed worker\<rparr>) worker_reports)\<rparr>,
      boo_attribution_accumulator = accumulator\<rparr>)"

text \<open>
  \<open>execute_bounded_ordered_with_runtime\<close>: the outcomes of the possible interleavings.  The commit state is
  part of the outcome, also when an error is returned or the commit callback panics.
\<close>

inductive execute_bounded_ordered_with_runtime ::
  "ParallelPrepareTaskSpec list \<Rightarrow> ColumnBundleReadReport \<Rightarrow> ColumnBundleParallelPrepareOptions \<Rightarrow>
   ParallelPrepareRuntimeOptions \<Rightarrow> OrderedCommitMode \<Rightarrow> OrderedCommitPanicMode \<Rightarrow>
   'm read_fn \<Rightarrow> ('m, 'a) prepare_fn \<Rightarrow> ('a, 's) commit_fn \<Rightarrow> 's \<Rightarrow> BoundedOrderedOutcome presult \<Rightarrow> 's \<Rightarrow> bool"
  for tasks base_report options runtime commit_mode commit_panic_mode read prepare ordered_commit s where
  no_capacity: "ppo_max_in_flight_row_groups options = 0 \<Longrightarrow>
    execute_bounded_ordered_with_runtime tasks base_report options runtime commit_mode commit_panic_mode read prepare
      ordered_commit s
      (Some (Inl (ocb_invalid_input ''OCB parallel prepare max_in_flight_row_groups must be greater than zero''))) s"
| task_count: "ppo_max_in_flight_row_groups options \<noteq> 0 \<Longrightarrow> length tasks \<noteq> rr_selected_row_groups base_report \<Longrightarrow>
    execute_bounded_ordered_with_runtime tasks base_report options runtime commit_mode commit_panic_mode read prepare
      ordered_commit s
      (Some (Inl (ocb_invalid_input ''OCB parallel prepare task count does not match execution report''))) s"
| no_tasks: "ppo_max_in_flight_row_groups options \<noteq> 0 \<Longrightarrow> length tasks = rr_selected_row_groups base_report \<Longrightarrow>
    tasks = [] \<Longrightarrow>
    execute_bounded_ordered_with_runtime tasks base_report options runtime commit_mode commit_panic_mode read prepare
      ordered_commit s
      (Some (Inr \<lparr>boo_report = empty_report (base_report\<lparr>rr_effective_threads := 0\<rparr>) (rr_requested_threads base_report),
        boo_attribution_accumulator = ReadAttributionAccumulator_default\<rparr>)) s"
| ran: "ppo_max_in_flight_row_groups options \<noteq> 0 \<Longrightarrow> length tasks = rr_selected_row_groups base_report \<Longrightarrow>
    tasks \<noteq> [] \<Longrightarrow> max_in_flight = ppo_max_in_flight_row_groups options \<Longrightarrow>
    started_workers = min (min (rr_effective_threads base_report) max_in_flight) (length tasks) \<Longrightarrow>
    window_size = min max_in_flight (length tasks) \<Longrightarrow>
    (pool_step read prepare (coordinate_ordered_commit commit_mode tasks max_in_flight commit_panic_mode ordered_commit))\<^sup>*\<^sup>*
      (pool_start runtime (commit_mode = Sliding \<or> pro_task_queue_capacity runtime < window_size \<or>
          pro_result_queue_capacity runtime < window_size) started_workers,
       Coordinating (coordinator_start s))
      (p, Joined r s') \<Longrightarrow>
    outcome = map_option (map_sum id (\<lambda>coordinator. bounded_ordered_outcome
      (base_report\<lparr>rr_effective_threads := started_workers\<rparr>) (rr_requested_threads base_report) started_workers
      (length tasks) coordinator p)) r \<Longrightarrow>
    execute_bounded_ordered_with_runtime tasks base_report options runtime commit_mode commit_panic_mode read prepare
      ordered_commit s outcome s'"

definition execute_bounded_ordered ::
  "ParallelPrepareTaskSpec list \<Rightarrow> ColumnBundleReadReport \<Rightarrow> ColumnBundleParallelPrepareOptions \<Rightarrow>
   OrderedCommitMode \<Rightarrow> OrderedCommitPanicMode \<Rightarrow>
   'm read_fn \<Rightarrow> ('m, 'a) prepare_fn \<Rightarrow> ('a, 's) commit_fn \<Rightarrow> 's \<Rightarrow> BoundedOrderedOutcome presult \<Rightarrow> 's \<Rightarrow> bool" where
  "execute_bounded_ordered tasks base_report options =
     execute_bounded_ordered_with_runtime tasks base_report options
       (production (min (min (rr_effective_threads base_report) (ppo_max_in_flight_row_groups options)) (length tasks)))"

text \<open>The read of \<open>execute_parallel_prepare_with_runtime\<close> checks the batch against its context.\<close>

definition checked_read ::
  "(u32 \<Rightarrow> (ColumnBatch \<times> ReadAttributionAccumulator) presult) \<Rightarrow> ColumnBatch read_fn" where
  "checked_read read context =
     pbind (read (ctx_row_group_id context)) (\<lambda>(batch, attribution).
     if batch_row_group_id batch \<noteq> ctx_row_group_id context \<or> batch_base_row batch \<noteq> ctx_base_row context \<or>
        batch_row_count batch \<noteq> ctx_row_count context
     then Some (Inl (ocb_corrupt_file ''OCB parallel prepare decoded batch context does not match row-group metadata''))
     else Some (Inr (batch, attribution)))"

definition execute_parallel_prepare_with_runtime ::
  "ParallelPrepareTaskSpec list \<Rightarrow> ColumnBundleReadReport \<Rightarrow> ColumnBundleParallelPrepareOptions \<Rightarrow>
   ParallelPrepareRuntimeOptions \<Rightarrow> (u32 \<Rightarrow> (ColumnBatch \<times> ReadAttributionAccumulator) presult) \<Rightarrow>
   (ColumnBatch, 'a) prepare_fn \<Rightarrow> ('a, 's) commit_fn \<Rightarrow> 's \<Rightarrow> ColumnBundleParallelPrepareReport presult \<Rightarrow> 's \<Rightarrow> bool" where
  "execute_parallel_prepare_with_runtime tasks base_report options runtime read prepare ordered_commit s outcome s' \<longleftrightarrow>
     (\<exists>bounded. execute_bounded_ordered_with_runtime tasks base_report options runtime Sliding ConvertToError
         (checked_read read) prepare ordered_commit s bounded s' \<and>
       outcome = map_option (map_sum id boo_report) bounded)"

definition execute_parallel_prepare ::
  "ParallelPrepareTaskSpec list \<Rightarrow> ColumnBundleReadReport \<Rightarrow> ColumnBundleParallelPrepareOptions \<Rightarrow>
   (u32 \<Rightarrow> (ColumnBatch \<times> ReadAttributionAccumulator) presult) \<Rightarrow>
   (ColumnBatch, 'a) prepare_fn \<Rightarrow> ('a, 's) commit_fn \<Rightarrow> 's \<Rightarrow> ColumnBundleParallelPrepareReport presult \<Rightarrow> 's \<Rightarrow> bool" where
  "execute_parallel_prepare tasks base_report options =
     execute_parallel_prepare_with_runtime tasks base_report options
       (production (min (min (rr_effective_threads base_report) (ppo_max_in_flight_row_groups options)) (length tasks)))"

end
