(* ===== verification/Ordered_Invariant.thy ===== *)
theory Ordered_Invariant
  imports Ordered_Commit
begin

text \<open>
  What the threads of \<open>Ordered_Commit\<close> keep invariant.  Every ordinal that is queued and not retired is in
  exactly one place: in the task queue, with one worker, in the result channel or with the coordinator.
  The messages are the results of their tasks, and the commits so far are those of a sequential run.
\<close>

section \<open>A sequential run\<close>

text \<open>The result of a task, and the message of worker \<open>w\<close> for it.\<close>

definition prepared_result ::
  "'m read_fn \<Rightarrow> ('m, 'a) prepare_fn \<Rightarrow> ColumnBundleParallelPrepareContext \<Rightarrow> 'a result" where
  "prepared_result read prepare context =
     (case pbind (read context) (\<lambda>(materialized, _). prepare context materialized) of
        None \<Rightarrow> Inl (worker_panic_error context)
      | Some prepared \<Rightarrow> prepared)"

definition message_of ::
  "'m read_fn \<Rightarrow> ('m, 'a) prepare_fn \<Rightarrow> usize \<Rightarrow> ParallelPrepareTaskSpec \<Rightarrow> 'a ParallelPrepareMessage" where
  "message_of read prepare w task =
     \<lparr>msg_context = context_of w task, msg_prepared = prepared_result read prepare (context_of w task)\<rparr>"

text \<open>What was committed: row groups and rows.\<close>

type_synonym committed = "usize \<times> u64"

text \<open>
  Committing results one after the other until one fails, the callback fails, panics or stops; the flag
  tells that it stopped.
\<close>

fun commit_all ::
  "OrderedCommitPanicMode \<Rightarrow> ('a, 's) commit_fn \<Rightarrow> 'a ParallelPrepareMessage list \<Rightarrow> committed \<Rightarrow> 's \<Rightarrow>
   (committed \<times> bool) presult \<times> 's" where
  "commit_all panic_mode commit [] done s = (Some (Inr (done, False)), s)"
| "commit_all panic_mode commit (m # ms) done s =
     (case msg_prepared m of
        Inl e \<Rightarrow> (Some (Inl e), s)
      | Inr prepared \<Rightarrow>
          (case invoke_ordered_commit panic_mode commit (msg_context m) prepared s of
             (None, s) \<Rightarrow> (None, s)
           | (Some (Inl e), s) \<Rightarrow> (Some (Inl e), s)
           | (Some (Inr control), s) \<Rightarrow>
               let done = (fst done + 1, saturating_add (snd done) (ctx_row_count (msg_context m))) in
               if control = Visit_Stop then (Some (Inr (done, True)), s) else commit_all panic_mode commit ms done s))"

text \<open>Window by window: a window with a failed result is not committed at all.\<close>

definition first_error :: "'a ParallelPrepareMessage list \<Rightarrow> ArcadiaTioError option" where
  "first_error ms = (case filter (\<lambda>m. \<not> is_ok (msg_prepared m)) ms of m # _ \<Rightarrow> Some (projl (msg_prepared m)) | [] \<Rightarrow> None)"

fun commit_windows ::
  "OrderedCommitPanicMode \<Rightarrow> ('a, 's) commit_fn \<Rightarrow> 'a ParallelPrepareMessage list list \<Rightarrow> committed \<Rightarrow> 's \<Rightarrow>
   (committed \<times> bool) presult \<times> 's" where
  "commit_windows panic_mode commit [] done s = (Some (Inr (done, False)), s)"
| "commit_windows panic_mode commit (win # wins) done s =
     (case first_error win of
        Some e \<Rightarrow> (Some (Inl e), s)
      | None \<Rightarrow>
          (case commit_all panic_mode commit win done s of
             (Some (Inr (done, False)), s) \<Rightarrow> commit_windows panic_mode commit wins done s
           | outcome \<Rightarrow> outcome))"

definition summary :: "CoordinatorReport \<Rightarrow> committed \<times> bool" where
  "summary report =
     ((cor_row_groups_ordered_committed report, cor_rows_ordered_committed report), cor_cancelled report)"

definition outcome_of :: "CoordinatorReport presult \<Rightarrow> (committed \<times> bool) presult" where
  "outcome_of r = map_option (map_sum id summary) r"

section \<open>Where the ordinals are\<close>

abbreviation task_ordinal :: "ParallelPrepareTaskSpec \<Rightarrow> usize" where
  "task_ordinal \<equiv> pts_selected_row_group_ordinal"

abbreviation message_ordinal :: "'a ParallelPrepareMessage \<Rightarrow> usize" where
  "message_ordinal m \<equiv> ctx_selected_row_group_ordinal (msg_context m)"

fun held_tasks :: "'a worker_pc \<Rightarrow> ParallelPrepareTaskSpec list" where
  "held_tasks (Popped t) = [t]"
| "held_tasks (Ready t) = [t]"
| "held_tasks (Running t) = [t]"
| "held_tasks _ = []"

fun held_messages :: "'a worker_pc \<Rightarrow> 'a ParallelPrepareMessage list" where
  "held_messages (Publishing m) = [m]"
| "held_messages (Sending m _) = [m]"
| "held_messages (Waiting m _) = [m]"
| "held_messages _ = []"

definition held_ordinals :: "'a worker \<Rightarrow> usize multiset" where
  "held_ordinals x = mset (map task_ordinal (held_tasks (wk_pc x)) @ map message_ordinal (held_messages (wk_pc x)))"

definition pool_ordinals :: "'a pool \<Rightarrow> usize multiset" where
  "pool_ordinals p =
     mset (map task_ordinal (tq_tasks (pl_task_queue p))) + (\<Sum>x\<in>#mset (pl_workers p). held_ordinals x) +
     mset (map message_ordinal (pl_results p))"

definition pool_tasks :: "'a pool \<Rightarrow> ParallelPrepareTaskSpec set" where
  "pool_tasks p = set (tq_tasks (pl_task_queue p)) \<union> (\<Union>x\<in>set (pl_workers p). set (held_tasks (wk_pc x)))"

definition pool_messages :: "'a pool \<Rightarrow> 'a ParallelPrepareMessage set" where
  "pool_messages p = set (pl_results p) \<union> (\<Union>x\<in>set (pl_workers p). set (held_messages (wk_pc x)))"

text \<open>
  The invariant of the pool while the coordinator runs: the ordinals from \<open>lo\<close> up to \<open>hi\<close> are in the pool or
  among the messages \<open>kept\<close> by the coordinator, each once.
\<close>

definition message_ok ::
  "'m read_fn \<Rightarrow> ('m, 'a) prepare_fn \<Rightarrow> ParallelPrepareTaskSpec list \<Rightarrow> usize \<Rightarrow> 'a ParallelPrepareMessage \<Rightarrow> bool" where
  "message_ok read prepare tasks W m \<longleftrightarrow> (\<exists>w<W. \<exists>t\<in>set tasks. m = message_of read prepare w t)"

definition pool_inv ::
  "'m read_fn \<Rightarrow> ('m, 'a) prepare_fn \<Rightarrow> ParallelPrepareTaskSpec list \<Rightarrow> usize \<Rightarrow> usize \<Rightarrow> usize \<Rightarrow>
   'a ParallelPrepareMessage list \<Rightarrow> 'a pool \<Rightarrow> bool" where
  "pool_inv read prepare tasks W lo hi kept p \<longleftrightarrow>
     length (pl_workers p) = W \<and> 0 < W \<and> lo \<le> hi \<and> hi \<le> length tasks \<and>
     \<not> pl_cancelled p \<and> \<not> pl_receiver_dropped p \<and>
     0 < tq_capacity (pl_task_queue p) \<and> 0 < pl_result_queue_capacity p \<and>
     pool_ordinals p + mset (map message_ordinal kept) = mset [lo..<hi] \<and>
     pool_tasks p \<subseteq> set tasks \<and> (\<forall>m \<in> pool_messages p \<union> set kept. message_ok read prepare tasks W m) \<and>
     (tq_closed (pl_task_queue p) \<longrightarrow> hi = length tasks) \<and>
     (\<forall>x \<in> set (pl_workers p). wk_pc x = Finished \<longrightarrow> tq_closed (pl_task_queue p) \<and> tq_tasks (pl_task_queue p) = [])"

lemma run_task_prepared: "fst (run_task read prepare context report) = prepared_result read prepare context"
  by (auto simp: run_task_def prepared_result_def pbind_def split: option.splits sum.splits)

lemma message_of_simps [simp]:
  "message_ordinal (message_of read prepare w t) = task_ordinal t"
  "msg_context (message_of read prepare w t) = context_of w t"
  "ctx_row_count (context_of w t) = pts_row_count t"
  "ctx_selected_row_group_ordinal (context_of w t) = task_ordinal t"
  by (simp_all add: message_of_def context_of_def)

lemma queue_ops_simps [simp]:
  "tq_tasks (notify_progress q) = tq_tasks q" "tq_closed (notify_progress q) = tq_closed q"
  "tq_capacity (notify_progress q) = tq_capacity q"
  "tq_progress_notifications (notify_progress q) = tq_progress_notifications q"
  "tq_tasks (enable_progress_notifications q) = tq_tasks q"
  "tq_closed (enable_progress_notifications q) = tq_closed q"
  "tq_capacity (enable_progress_notifications q) = tq_capacity q"
  "tq_progress_notifications (enable_progress_notifications q)"
  "tq_generation (enable_progress_notifications q) = tq_generation q"
  "tq_tasks (TaskQueue_close q) = tq_tasks q" "tq_closed (TaskQueue_close q)"
  "tq_capacity (TaskQueue_close q) = tq_capacity q"
  "tq_progress_notifications (TaskQueue_close q) = tq_progress_notifications q"
  by (simp_all add: notify_progress_def enable_progress_notifications_def TaskQueue_close_def)

lemma set_worker_simps [simp]:
  "pl_task_queue (set_worker w x p) = pl_task_queue p" "pl_cancelled (set_worker w x p) = pl_cancelled p"
  "pl_results (set_worker w x p) = pl_results p"
  "pl_result_queue_capacity (set_worker w x p) = pl_result_queue_capacity p"
  "pl_receiver_dropped (set_worker w x p) = pl_receiver_dropped p"
  "pl_observations (set_worker w x p) = pl_observations p"
  "pl_workers (set_worker w x p) = (pl_workers p)[w := x]"
  by (simp_all add: set_worker_def)

section \<open>A worker step keeps the invariant of the pool\<close>

text \<open>Replacing one worker exchanges what it holds.\<close>

lemma sum_workers_update:
  assumes "w < length xs"
  shows "(\<Sum>x\<in>#mset (xs[w := x]). f x) + f (xs ! w) = (\<Sum>x\<in>#mset xs. f x) + (f x :: 'b multiset)"
proof -
  have "mset (xs[w := x]) + {#xs ! w#} = mset xs + {#x#}"
    using assms by (simp add: mset_update)
  then have "(\<Sum>x\<in>#mset (xs[w := x]) + {#xs ! w#}. f x) = (\<Sum>x\<in>#mset xs + {#x#}. f x)" by simp
  then show ?thesis by (simp add: ac_simps)
qed

lemma pool_ordinals_worker:
  assumes "w < length (pl_workers p)" and "pl_workers p' = (pl_workers p)[w := x]"
    and "mset (map task_ordinal (tq_tasks (pl_task_queue p'))) + mset (map message_ordinal (pl_results p')) + held_ordinals x =
      mset (map task_ordinal (tq_tasks (pl_task_queue p))) + mset (map message_ordinal (pl_results p)) +
      held_ordinals (pl_workers p ! w)"
  shows "pool_ordinals p' = pool_ordinals p"
proof -
  let ?s = "\<Sum>x\<in>#mset (pl_workers p). held_ordinals x" and ?t = "\<Sum>x\<in>#mset (pl_workers p'). held_ordinals x"
  let ?q = "\<lambda>p. mset (map task_ordinal (tq_tasks (pl_task_queue p))) + mset (map message_ordinal (pl_results p))"
  have "?t + held_ordinals (pl_workers p ! w) = ?s + held_ordinals x"
    using sum_workers_update [OF assms(1), of held_ordinals x] assms(2) by simp
  with assms(3) have "(?q p' + held_ordinals x) + (?t + held_ordinals (pl_workers p ! w)) =
      (?q p + held_ordinals (pl_workers p ! w)) + (?s + held_ordinals x)" by (simp only:)
  then have "?q p' + ?t + (held_ordinals x + held_ordinals (pl_workers p ! w)) =
      ?q p + ?s + (held_ordinals x + held_ordinals (pl_workers p ! w))" by (simp only: ac_simps)
  then have "?q p' + ?t = ?q p + ?s" by (simp only: add_right_cancel)
  then show ?thesis unfolding pool_ordinals_def by (simp only: ac_simps)
qed

text \<open>
  What a worker step does: the shared state it leaves, and that it neither loses nor invents a task or a
  message.
\<close>

lemma worker_next_cases:
  assumes "worker_next read prepare w p = Some p'"
  obtains x where "pl_workers p' = (pl_workers p)[w := x]"
    and "pl_cancelled p' = pl_cancelled p" and "pl_receiver_dropped p' = pl_receiver_dropped p"
    and "pl_result_queue_capacity p' = pl_result_queue_capacity p"
    and "tq_capacity (pl_task_queue p') = tq_capacity (pl_task_queue p)"
    and "tq_closed (pl_task_queue p') = tq_closed (pl_task_queue p)"
    and "\<not> pl_cancelled p \<Longrightarrow> \<not> pl_receiver_dropped p \<Longrightarrow>
      mset (map task_ordinal (tq_tasks (pl_task_queue p'))) + mset (map message_ordinal (pl_results p')) + held_ordinals x =
      mset (map task_ordinal (tq_tasks (pl_task_queue p))) + mset (map message_ordinal (pl_results p)) +
      held_ordinals (pl_workers p ! w)"
    and "set (tq_tasks (pl_task_queue p')) \<union> set (held_tasks (wk_pc x)) \<subseteq>
      set (tq_tasks (pl_task_queue p)) \<union> set (held_tasks (wk_pc (pl_workers p ! w)))"
    and "set (pl_results p') \<union> set (held_messages (wk_pc x)) \<subseteq>
      set (pl_results p) \<union> set (held_messages (wk_pc (pl_workers p ! w))) \<union>
      message_of read prepare w ` set (held_tasks (wk_pc (pl_workers p ! w)))"
    and "\<not> pl_cancelled p \<Longrightarrow> \<not> pl_receiver_dropped p \<Longrightarrow> wk_pc x = Finished \<Longrightarrow>
      tq_closed (pl_task_queue p) \<and> tq_tasks (pl_task_queue p) = [] \<and> pl_task_queue p' = pl_task_queue p"
    and "set (tq_tasks (pl_task_queue p')) \<subseteq> set (tq_tasks (pl_task_queue p))"
proof (cases "wk_pc (pl_workers p ! w)")
  case Popping
  with assms show ?thesis
    by (auto simp: worker_next_def Let_def TaskQueue_pop_def held_ordinals_def intro!: that split: if_splits list.splits)
next
  case (Popped t)
  with assms show ?thesis by (auto simp: worker_next_def Let_def held_ordinals_def intro!: that)
next
  case (Ready t)
  with assms show ?thesis by (auto simp: worker_next_def Let_def held_ordinals_def intro!: that split: if_splits)
next
  case (Running t)
  obtain r n rep where run: "run_task read prepare (context_of w t) (wk_report (pl_workers p ! w)) = (r, n, rep)"
    by (metis prod_cases3)
  then have "r = prepared_result read prepare (context_of w t)"
    using run_task_prepared [of read prepare "context_of w t" "wk_report (pl_workers p ! w)"] by simp
  then show ?thesis
    using assms Running run by (auto simp: worker_next_def Let_def held_ordinals_def message_of_def intro!: that)
next
  case (Publishing m)
  with assms show ?thesis by (auto simp: worker_next_def Let_def held_ordinals_def intro!: that split: if_splits)
next
  case (Sending m g)
  show ?thesis
  proof (cases "pl_receiver_dropped p \<or> length (pl_results p) < pl_result_queue_capacity p")
    case True
    with assms Sending show ?thesis
      by (auto simp: worker_next_def Let_def try_send_def held_ordinals_def intro!: that split: if_splits)
  next
    case False
    with assms Sending show ?thesis
      by (cases g) (auto simp: worker_next_def Let_def try_send_def held_ordinals_def intro!: that)
  qed
next
  case (Waiting m g)
  with assms show ?thesis
    by (cases "pl_cancelled p") (auto simp: worker_next_def Let_def wait_for_progress_def held_ordinals_def intro!: that
      split: if_splits)
next
  case Sent
  with assms show ?thesis by (auto simp: worker_next_def Let_def held_ordinals_def intro!: that)
next
  case Finished
  with assms show ?thesis by (simp add: worker_next_def Let_def)
qed

lemma worker_next_length: "worker_next read prepare w p = Some p' \<Longrightarrow> length (pl_workers p') = length (pl_workers p)"
  by (erule worker_next_cases) simp

lemma pool_inv_worker:
  assumes inv: "pool_inv read prepare tasks W lo hi kept p"
    and w: "w < length (pl_workers p)" and step: "worker_next read prepare w p = Some p'"
  shows "pool_inv read prepare tasks W lo hi kept p'"
  using step
proof (cases rule: worker_next_cases)
  case (1 x)
  from inv have live: "\<not> pl_cancelled p" "\<not> pl_receiver_dropped p" by (simp_all add: pool_inv_def)
  let ?old = "wk_pc (pl_workers p ! w)"
  have old: "pl_workers p ! w \<in> set (pl_workers p)" using w by simp
  have workers: "set (pl_workers p') \<subseteq> insert x (set (pl_workers p))" using 1(1) set_update_subset_insert by metis
  have "set (held_tasks ?old) \<subseteq> pool_tasks p" "set (held_messages ?old) \<subseteq> pool_messages p"
    using old by (auto simp: pool_tasks_def pool_messages_def)
  moreover have "pool_tasks p' \<subseteq> pool_tasks p \<union> (set (tq_tasks (pl_task_queue p')) \<union> set (held_tasks (wk_pc x)))"
    "pool_messages p' \<subseteq> pool_messages p \<union> (set (pl_results p') \<union> set (held_messages (wk_pc x)))"
    using workers by (auto simp: pool_tasks_def pool_messages_def)
  moreover have "set (tq_tasks (pl_task_queue p)) \<subseteq> pool_tasks p" "set (pl_results p) \<subseteq> pool_messages p"
    by (auto simp: pool_tasks_def pool_messages_def)
  ultimately have sub: "pool_tasks p' \<subseteq> pool_tasks p"
      "pool_messages p' \<subseteq> pool_messages p \<union> message_of read prepare w ` pool_tasks p"
    using 1(8,9) by blast+
  have "message_ok read prepare tasks W (message_of read prepare w t)" if "t \<in> pool_tasks p" for t
    using that inv w by (auto simp: message_ok_def pool_inv_def)
  with sub(2) inv have "\<forall>m \<in> pool_messages p' \<union> set kept. message_ok read prepare tasks W m"
    unfolding pool_inv_def by blast
  moreover have "pool_tasks p' \<subseteq> set tasks" using sub(1) inv unfolding pool_inv_def by blast
  moreover have "pool_ordinals p' = pool_ordinals p" by (rule pool_ordinals_worker [OF w 1(1)]) (use 1(7) live in simp)
  moreover have "\<forall>y \<in> set (pl_workers p'). wk_pc y = Finished \<longrightarrow>
      tq_closed (pl_task_queue p') \<and> tq_tasks (pl_task_queue p') = []"
  proof (intro ballI impI)
    fix y assume y: "y \<in> set (pl_workers p')" "wk_pc y = Finished"
    then have "y = x \<or> y \<in> set (pl_workers p)" using workers by blast
    then show "tq_closed (pl_task_queue p') \<and> tq_tasks (pl_task_queue p') = []"
      using y(2) 1(6,10,11) live inv by (auto simp: pool_inv_def)
  qed
  moreover have "length (pl_workers p') = length (pl_workers p)" using 1(1) by simp
  ultimately show ?thesis
    using inv unfolding pool_inv_def 1(2-6) by (elim conjE, intro conjI) simp_all
qed

section \<open>What the coordinator does to the pool\<close>

lemma pool_inv_observations [simp]:
  "pool_inv read prepare tasks W lo hi kept (p\<lparr>pl_observations := obs\<rparr>) = pool_inv read prepare tasks W lo hi kept p"
  by (simp add: pool_inv_def pool_ordinals_def pool_tasks_def pool_messages_def)

lemma pool_inv_queue:
  assumes "tq_tasks queue = tq_tasks (pl_task_queue p)" "tq_capacity queue = tq_capacity (pl_task_queue p)"
    and "tq_closed queue = tq_closed (pl_task_queue p) \<or> tq_closed queue \<and> hi = length tasks"
  shows "pool_inv read prepare tasks W lo hi kept p \<Longrightarrow> pool_inv read prepare tasks W lo hi kept (p\<lparr>pl_task_queue := queue\<rparr>)"
  using assms by (auto simp: pool_inv_def pool_ordinals_def pool_tasks_def pool_messages_def)

lemma pool_inv_queue_ops:
  assumes "pool_inv read prepare tasks W lo hi kept p"
  shows "pool_inv read prepare tasks W lo hi kept (p\<lparr>pl_task_queue := notify_progress (pl_task_queue p)\<rparr>)"
    and "pool_inv read prepare tasks W lo hi kept (p\<lparr>pl_task_queue := enable_progress_notifications (pl_task_queue p)\<rparr>)"
    and "hi = length tasks \<Longrightarrow> pool_inv read prepare tasks W lo hi kept (p\<lparr>pl_task_queue := TaskQueue_close (pl_task_queue p)\<rparr>)"
  by (rule pool_inv_queue [OF _ _ _ assms]; simp)+

definition ordinals :: "ParallelPrepareTaskSpec list \<Rightarrow> bool" where
  "ordinals tasks \<longleftrightarrow> map task_ordinal tasks = [0..<length tasks]"

lemma ordinals_nth: "ordinals tasks \<Longrightarrow> i < length tasks \<Longrightarrow> task_ordinal (tasks ! i) = i"
  unfolding ordinals_def by (metis add.left_neutral length_map nth_map nth_upt)

lemma ordinals_mem: "ordinals tasks \<Longrightarrow> t \<in> set tasks \<Longrightarrow> t = tasks ! task_ordinal t \<and> task_ordinal t < length tasks"
  by (auto simp: in_set_conv_nth ordinals_nth)

lemma message_ok_nth:
  assumes "message_ok read prepare tasks W m" and "ordinals tasks"
  obtains w where "w < W" and "m = message_of read prepare w (tasks ! message_ordinal m)"
  using assms ordinals_mem by (fastforce simp: message_ok_def)

lemma pool_inv_push:
  assumes "pool_inv read prepare tasks W lo hi kept p" and "ordinals tasks" and "hi' \<le> length tasks" and "hi \<le> hi'"
    and "\<not> tq_closed (pl_task_queue p)"
  shows "pool_inv read prepare tasks W lo hi' kept
    (p\<lparr>pl_task_queue := (pl_task_queue p)\<lparr>tq_tasks := tq_tasks (pl_task_queue p) @ slice hi hi' tasks\<rparr>\<rparr>)"
proof -
  have "map task_ordinal (slice hi hi' tasks) = [hi..<hi']"
    using assms(2-4) by (intro nth_equalityI) (auto simp: slice_def ordinals_nth)
  moreover have "mset [lo..<hi'] = mset [lo..<hi] + mset [hi..<hi']"
    using assms(1,4) by (metis le_add_diff_inverse mset_append pool_inv_def upt_add_eq_append)
  moreover have "set (slice hi hi' tasks) \<subseteq> set tasks"
    by (auto simp: slice_def dest: in_set_takeD in_set_dropD)
  ultimately show ?thesis
    using assms by (auto simp: pool_inv_def pool_ordinals_def pool_tasks_def pool_messages_def ac_simps)
qed

lemma pool_inv_receive:
  assumes "pool_inv read prepare tasks W lo hi kept p" and "pl_results p = m # rest"
  shows "pool_inv read prepare tasks W lo hi (m # kept) (p\<lparr>pl_results := rest\<rparr>)"
  using assms by (auto simp: pool_inv_def pool_ordinals_def pool_tasks_def pool_messages_def ac_simps)

lemma pool_inv_kept_cong:
  "pool_inv read prepare tasks W lo hi kept p \<Longrightarrow> mset kept = mset kept' \<Longrightarrow> pool_inv read prepare tasks W lo hi kept' p"
  by (auto simp: pool_inv_def dest: mset_eq_setD)

lemma pool_inv_kept:
  assumes "pool_inv read prepare tasks W lo hi kept p"
  shows "distinct (map message_ordinal kept)" and "message_ordinal ` set kept \<subseteq> {lo..<hi}"
    and "m \<in> set kept \<Longrightarrow> message_ok read prepare tasks W m"
proof -
  have sub: "mset (map message_ordinal kept) \<subseteq># mset [lo..<hi]"
    using assms by (metis mset_subset_eq_add_right pool_inv_def)
  show "distinct (map message_ordinal kept)"
    unfolding distinct_count_atmost_1
  proof
    fix a
    have "count (mset (map message_ordinal kept)) a \<le> count (mset [lo..<hi]) a"
      using sub by (rule mset_subset_eq_count)
    also have "\<dots> \<le> 1" by (simp add: count_mset_set')
    finally show "count (mset (map message_ordinal kept)) a = (if a \<in> set (map message_ordinal kept) then 1 else 0)"
      by (metis count_mset_0_iff le_less less_one)
  qed
  show "message_ordinal ` set kept \<subseteq> {lo..<hi}"
    using set_mset_mono [OF sub] by simp
  show "m \<in> set kept \<Longrightarrow> message_ok read prepare tasks W m" using assms by (simp add: pool_inv_def)
qed

lemma pool_inv_retire:
  assumes "pool_inv read prepare tasks W lo hi kept p" and "mset kept = add_mset m (mset kept')" and "message_ordinal m = lo"
  shows "pool_inv read prepare tasks W (lo + 1) hi kept' p"
proof -
  from assms(2) have kept: "set kept = insert m (set kept')" "mset (map message_ordinal kept) = add_mset lo (mset (map message_ordinal kept'))"
    using assms(3) by (metis set_mset_add_mset_insert set_mset_mset) (simp add: assms(2,3))
  have "lo < hi" using pool_inv_kept(2) [OF assms(1)] kept(1) assms(3) by auto
  then have "mset [lo..<hi] = add_mset lo (mset [lo + 1..<hi])" by (simp only: upt_conv_Cons) simp
  with assms(1) kept(2) have "pool_ordinals p + mset (map message_ordinal kept') = mset [lo + 1..<hi]"
    unfolding pool_inv_def by simp
  with kept(1) assms(1) \<open>lo < hi\<close> show ?thesis unfolding pool_inv_def by (simp del: mset_upt mset_map)
qed

text \<open>When every worker has finished and no result is left, the coordinator keeps all that is in flight.\<close>

lemma pool_inv_disconnected:
  assumes "pool_inv read prepare tasks W lo hi kept p" and "pl_results p = []" and "disconnected p"
  shows "mset (map message_ordinal kept) = mset [lo..<hi]" and "tq_closed (pl_task_queue p)"
proof -
  have fin: "wk_pc x = Finished" if "x \<in> set (pl_workers p)" for x
    using assms(3) that by (simp add: disconnected_def list_all_iff)
  have held: "(\<Sum>x\<in>#mset (pl_workers p). held_ordinals x) = {#}" using fin by (simp add: held_ordinals_def)
  have "hd (pl_workers p) \<in> set (pl_workers p)" using assms(1) by (cases "pl_workers p") (auto simp: pool_inv_def)
  then have "tq_closed (pl_task_queue p) \<and> tq_tasks (pl_task_queue p) = []" using assms(1) fin unfolding pool_inv_def by blast
  moreover from this have "pool_ordinals p = {#}" unfolding pool_ordinals_def held by (simp add: assms(2))
  ultimately show "mset (map message_ordinal kept) = mset [lo..<hi]" "tq_closed (pl_task_queue p)"
    using assms(1) by (simp_all add: pool_inv_def)
qed

end
