(* ===== verification/Ordered_Runs.thy ===== *)
theory Ordered_Runs
  imports Ordered_Invariant
begin

text \<open>
  The runs of the two coordinators refine a sequential run.  The interface of a coordinator is an invariant
  that its own steps and those of the workers keep, and what it promises of the value it returns.
\<close>

section \<open>Coordinators and their invariants\<close>

definition leads_to ::
  "('a pool \<Rightarrow> ('a, 's) coordinator \<Rightarrow> bool) \<Rightarrow> (CoordinatorReport presult \<Rightarrow> 's \<Rightarrow> bool) \<Rightarrow>
   'a pool \<times> ('a, 's) progress_to \<Rightarrow> bool" where
  "leads_to holds result_ok = (\<lambda>(p, next). case next of Goes_On c \<Rightarrow> holds p c | Returns r s \<Rightarrow> result_ok r s)"

locale coordination =
  fixes read :: "'m read_fn"
    and prepare :: "('m, 'a) prepare_fn"
    and coordinate :: "'a pool \<Rightarrow> ('a, 's) coordinator \<Rightarrow> ('a pool \<times> ('a, 's) progress_to) option"
    and inv :: "'a pool \<Rightarrow> ('a, 's) coordinator \<Rightarrow> bool"
    and result_ok :: "CoordinatorReport presult \<Rightarrow> 's \<Rightarrow> bool"
  assumes worker_keeps: "inv p c \<Longrightarrow> w < length (pl_workers p) \<Longrightarrow> worker_next read prepare w p = Some p' \<Longrightarrow> inv p' c"
    and coordinator_keeps: "inv p c \<Longrightarrow> coordinate p c = Some st \<Longrightarrow> leads_to inv result_ok st"
begin

text \<open>The invariant of the thread that coordinates.\<close>

definition thread_inv :: "'a pool \<times> ('a, 's) main_thread \<Rightarrow> bool" where
  "thread_inv = (\<lambda>(p, t). case t of
     Coordinating c \<Rightarrow> inv p c
   | Cancelling r s \<Rightarrow> result_ok r s
   | Closing r s \<Rightarrow> result_ok r s
   | Dropping r s \<Rightarrow> result_ok r s
   | Joining r s \<Rightarrow> result_ok r s
   | Joined r s \<Rightarrow> result_ok r s)"

lemma thread_inv_step:
  assumes "pool_step read prepare coordinate st st'" and "thread_inv st"
  shows "thread_inv st'"
  using assms(1)
proof cases
  case (worker_moves w p p' t)
  then show ?thesis using assms(2) worker_keeps by (auto simp: thread_inv_def split: main_thread.splits)
next
  case (main_moves p t p' t')
  then show ?thesis using assms(2)
    by (auto simp: thread_inv_def main_next_def leads_to_def split: main_thread.splits option.splits progress_to.splits
      prod.splits if_splits dest: coordinator_keeps)
qed

lemma thread_inv_run:
  assumes "(pool_step read prepare coordinate)\<^sup>*\<^sup>* st st'" and "thread_inv st"
  shows "thread_inv st'"
  using assms by (induction rule: rtranclp_induct) (auto intro: thread_inv_step)

lemma run_result:
  assumes "(pool_step read prepare coordinate)\<^sup>*\<^sup>* (p, Coordinating c) (p', Joined r s)" and "inv p c"
  shows "result_ok r s"
  using thread_inv_run [OF assms(1)] assms(2) by (simp add: thread_inv_def)

lemma run_invariant:
  assumes "(pool_step read prepare coordinate)\<^sup>*\<^sup>* (p, Coordinating c) (p', Coordinating c')" and "inv p c"
  shows "inv p' c'"
  using thread_inv_run [OF assms(1)] assms(2) by (simp add: thread_inv_def)

end

section \<open>The commits so far\<close>

abbreviation messages :: "'m read_fn \<Rightarrow> ('m, 'a) prepare_fn \<Rightarrow> ParallelPrepareTaskSpec list \<Rightarrow> (usize \<Rightarrow> usize) \<Rightarrow>
    usize \<Rightarrow> usize \<Rightarrow> 'a ParallelPrepareMessage list" where
  "messages read prepare tasks ws lo hi \<equiv> map (\<lambda>i. message_of read prepare (ws i) (tasks ! i)) [lo..<hi]"

definition kept :: "('a, 's) coordinator \<Rightarrow> 'a ParallelPrepareMessage list" where
  "kept c = (case co_pc c of C_Received m _ \<Rightarrow> [m] | _ \<Rightarrow> []) @ map snd (co_pending c)"

definition keys_ok :: "'a pending_map \<Rightarrow> bool" where
  "keys_ok pending \<longleftrightarrow> (\<forall>(k, m) \<in> set pending. k = message_ordinal m)"

lemma keys_ok_distinct:
  assumes "pool_inv read prepare tasks W lo hi (ms @ map snd pending) p" and "keys_ok pending"
  shows "distinct (map fst pending)"
proof -
  have "map fst pending = map message_ordinal (map snd pending)" using assms(2) by (auto simp: keys_ok_def)
  with pool_inv_kept(1) [OF assms(1)] show ?thesis by (simp only: map_append distinct_append)
qed

lemma mset_remove_key:
  assumes "map_of xs k = Some m" and "distinct (map fst xs)"
  shows "mset (map snd xs) = add_mset m (mset (map snd (filter (\<lambda>(k', _). k' \<noteq> k) xs)))"
  using assms
proof (induction xs)
  case Nil
  then show ?case by simp
next
  case (Cons x xs)
  have "filter (\<lambda>(k', _). k' \<noteq> k) xs = xs" if "k \<notin> fst ` set xs"
    using that by (force simp: filter_id_conv)
  with Cons show ?case by (cases x) (auto simp del: mset_filter mset_map split: if_splits)
qed

lemma pending_remove_Some:
  assumes "pending_remove pending k = (Some m, rest)" and "distinct (map fst pending)" and "keys_ok pending"
  shows "mset (map snd pending) = add_mset m (mset (map snd rest))" and "keys_ok rest" and "message_ordinal m = k"
    and "m \<in> set (map snd pending)"
  using assms mset_remove_key [of pending k m]
  by (auto simp: pending_remove_def hash_get_def keys_ok_def dest: map_of_SomeD intro: rev_image_eqI)

lemma insert_pending_ok:
  assumes "pool_inv read prepare tasks W lo hi (m # map snd pending) p" and "keys_ok pending"
  shows "insert_pending pending m = Inr (pending @ [(message_ordinal m, m)])"
    and "keys_ok (pending @ [(message_ordinal m, m)])"
proof -
  have "message_ordinal m \<notin> fst ` set pending"
    using pool_inv_kept(1) [OF assms(1)] assms(2)
    by (force simp: keys_ok_def)
  moreover have "AList.update k v xs = xs @ [(k, v)]" if "k \<notin> fst ` set xs" for k v and xs :: "'b pending_map"
    using that by (induction xs) auto
  ultimately show "insert_pending pending m = Inr (pending @ [(message_ordinal m, m)])"
    by (auto simp: insert_pending_def Let_def hash_contains_def hash_get_def hash_insert_def map_of_eq_None_iff image_iff)
  show "keys_ok (pending @ [(message_ordinal m, m)])" using assms(2) by (simp add: keys_ok_def)
qed

text \<open>
  The first \<open>k\<close> results, of the tasks as some workers prepared them, were committed with \<open>rows\<close> rows and led
  to the callback state \<open>s\<close>: a sequential run over them and any further results goes on from there.
\<close>

definition history ::
  "'m read_fn \<Rightarrow> ('m, 'a) prepare_fn \<Rightarrow> ParallelPrepareTaskSpec list \<Rightarrow> OrderedCommitPanicMode \<Rightarrow> ('a, 's) commit_fn \<Rightarrow>
   usize \<Rightarrow> 's \<Rightarrow> (usize \<Rightarrow> usize) \<Rightarrow> committed \<Rightarrow> 's \<Rightarrow> bool" where
  "history read prepare tasks panic_mode commit W s0 ws done s \<longleftrightarrow>
     (\<forall>i. ws i < W) \<and>
     (\<forall>rest. commit_all panic_mode commit (messages read prepare tasks ws 0 (fst done) @ rest) (0, 0) s0 =
        commit_all panic_mode commit rest done s)"

lemma history_start: "0 < W \<Longrightarrow> history read prepare tasks panic_mode commit W s (\<lambda>_. 0) (0, 0) s"
  by (simp add: history_def)

lemma messages_Suc_update:
  "messages read prepare tasks (ws(k := w)) 0 (Suc k) = messages read prepare tasks ws 0 k @ [message_of read prepare w (tasks ! k)]"
  by simp

lemma history_commit:
  assumes "history read prepare tasks panic_mode commit W s0 ws (k, rows) s" and "w < W"
    and "prepared_result read prepare (context_of w (tasks ! k)) = Inr prepared"
    and "invoke_ordered_commit panic_mode commit (context_of w (tasks ! k)) prepared s = (Some (Inr Visit_Continue), s')"
  shows "history read prepare tasks panic_mode commit W s0 (ws(k := w)) (k + 1, saturating_add rows (pts_row_count (tasks ! k))) s'"
proof -
  have "commit_all panic_mode commit (messages read prepare tasks ws 0 k @ message_of read prepare w (tasks ! k) # rest) (0, 0) s0 =
      commit_all panic_mode commit rest (k + 1, saturating_add rows (pts_row_count (tasks ! k))) s'" for rest
    using assms(1,3,4) by (simp add: history_def) (simp add: message_of_def)
  with assms(1,2) show ?thesis
    unfolding history_def fst_conv Suc_eq_plus1 [symmetric] messages_Suc_update by simp
qed

text \<open>Where a sequential run ends: all results up to \<open>k\<close> were committed and the next one ends it.\<close>

lemma history_result:
  assumes "history read prepare tasks panic_mode commit W s0 ws (k, rows) s" and "w < W" and "k < length tasks"
    and "\<And>rest. commit_all panic_mode commit (message_of read prepare w (tasks ! k) # rest) (k, rows) s = out"
  shows "\<exists>ws. (\<forall>i. ws i < W) \<and>
    commit_all panic_mode commit (messages read prepare tasks ws 0 (length tasks)) (0, 0) s0 = out"
proof (intro exI conjI)
  show "\<forall>i. (ws(k := w)) i < W" using assms(1,2) by (simp add: history_def)
  have "[0..<length tasks] = [0..<k] @ k # [Suc k..<length tasks]"
    using assms(3) upt_add_eq_append [of 0 k "length tasks - k"] by (simp add: upt_conv_Cons)
  then have "messages read prepare tasks (ws(k := w)) 0 (length tasks) =
      messages read prepare tasks ws 0 k @ message_of read prepare w (tasks ! k) #
      messages read prepare tasks (ws(k := w)) (Suc k) (length tasks)"
    by simp
  then show "commit_all panic_mode commit (messages read prepare tasks (ws(k := w)) 0 (length tasks)) (0, 0) s0 = out"
    using assms(1,4) by (simp only: history_def fst_conv)
qed

section \<open>The sliding coordinator\<close>

definition sliding_more :: "ParallelPrepareTaskSpec list \<Rightarrow> usize \<Rightarrow> ('a, 's) coordinator \<Rightarrow> bool" where
  "sliding_more tasks max_in_flight c \<longleftrightarrow>
     \<not> co_stop_launching c \<and> co_next_to_queue c < length tasks \<and> co_next_to_queue c < co_next_to_commit c + max_in_flight"

text \<open>The invariant of the local variables: for every program counter, and for the one reached.\<close>

definition sliding_locals ::
  "'m read_fn \<Rightarrow> ('m, 'a) prepare_fn \<Rightarrow> ParallelPrepareTaskSpec list \<Rightarrow> usize \<Rightarrow> OrderedCommitPanicMode \<Rightarrow> ('a, 's) commit_fn \<Rightarrow>
   usize \<Rightarrow> 's \<Rightarrow> ('a, 's) coordinator \<Rightarrow> bool" where
  "sliding_locals read prepare tasks max_in_flight panic_mode commit W s0 c \<longleftrightarrow>
     (let k = co_next_to_commit c; q = co_next_to_queue c; report = co_report c in
     ordinals tasks \<and> length tasks \<le> usize_max \<and> 0 < max_in_flight \<and> keys_ok (co_pending c) \<and>
     q \<le> k + max_in_flight \<and> cor_row_groups_queued report = q \<and> cor_row_groups_ordered_committed report = k \<and>
     \<not> cor_cancelled report \<and> cor_max_in_flight_row_groups_observed report \<le> max_in_flight \<and>
     (co_stop_launching c \<longrightarrow> (\<exists>m \<in> snd ` set (co_pending c). \<not> is_ok (msg_prepared m))) \<and>
     (\<exists>ws. history read prepare tasks panic_mode commit W s0 ws (k, cor_rows_ordered_committed report) (co_commit_state c)))"

definition sliding_at :: "ParallelPrepareTaskSpec list \<Rightarrow> usize \<Rightarrow> ('a, 's) coordinator \<Rightarrow> bool" where
  "sliding_at tasks max_in_flight c \<longleftrightarrow>
     (case co_pc c of
        C_Head \<Rightarrow> True
      | C_Drain \<Rightarrow> True
      | C_Push _ \<Rightarrow> sliding_more tasks max_in_flight c
      | C_Full _ \<Rightarrow> sliding_more tasks max_in_flight c
      | C_Wait _ \<Rightarrow> sliding_more tasks max_in_flight c
      | C_Close \<Rightarrow> co_next_to_queue c = length tasks
      | C_Recv \<Rightarrow> co_next_to_commit c < length tasks \<and> \<not> sliding_more tasks max_in_flight c \<and>
          hash_get (co_pending c) (co_next_to_commit c) = None
      | C_Received _ _ \<Rightarrow> True
      | _ \<Rightarrow> False)"

definition sliding_inv ::
  "'m read_fn \<Rightarrow> ('m, 'a) prepare_fn \<Rightarrow> ParallelPrepareTaskSpec list \<Rightarrow> usize \<Rightarrow> OrderedCommitPanicMode \<Rightarrow> ('a, 's) commit_fn \<Rightarrow>
   usize \<Rightarrow> 's \<Rightarrow> 'a pool \<Rightarrow> ('a, 's) coordinator \<Rightarrow> bool" where
  "sliding_inv read prepare tasks max_in_flight panic_mode commit W s0 p c \<longleftrightarrow>
     pool_inv read prepare tasks W (co_next_to_commit c) (co_next_to_queue c) (kept c) p \<and>
     sliding_locals read prepare tasks max_in_flight panic_mode commit W s0 c \<and> sliding_at tasks max_in_flight c"

definition sliding_result_ok ::
  "'m read_fn \<Rightarrow> ('m, 'a) prepare_fn \<Rightarrow> ParallelPrepareTaskSpec list \<Rightarrow> OrderedCommitPanicMode \<Rightarrow> ('a, 's) commit_fn \<Rightarrow>
   usize \<Rightarrow> 's \<Rightarrow> CoordinatorReport presult \<Rightarrow> 's \<Rightarrow> bool" where
  "sliding_result_ok read prepare tasks panic_mode commit W s0 r s \<longleftrightarrow>
     (\<exists>ws. (\<forall>i. ws i < W) \<and>
       commit_all panic_mode commit (messages read prepare tasks ws 0 (length tasks)) (0, 0) s0 = (outcome_of r, s))"

lemma sliding_inv_worker:
  "sliding_inv read prepare tasks max_in_flight panic_mode commit W s0 p c \<Longrightarrow>
   w < length (pl_workers p) \<Longrightarrow> worker_next read prepare w p = Some p' \<Longrightarrow>
   sliding_inv read prepare tasks max_in_flight panic_mode commit W s0 p' c"
  by (auto simp: sliding_inv_def intro: pool_inv_worker)

lemma sliding_frame [simp]:
  "sliding_locals read prepare tasks max_in_flight panic_mode commit W s0 (c\<lparr>co_pc := pc\<rparr>) =
   sliding_locals read prepare tasks max_in_flight panic_mode commit W s0 c"
  "sliding_locals read prepare tasks max_in_flight panic_mode commit W s0 (c\<lparr>co_task_full_wait_started := b\<rparr>) =
   sliding_locals read prepare tasks max_in_flight panic_mode commit W s0 c"
  "sliding_more tasks max_in_flight (c\<lparr>co_pc := pc\<rparr>) = sliding_more tasks max_in_flight c"
  "sliding_more tasks max_in_flight (c\<lparr>co_task_full_wait_started := b\<rparr>) = sliding_more tasks max_in_flight c"
  "kept (c\<lparr>co_task_full_wait_started := b\<rparr>) = kept c" "kept (c\<lparr>co_report := report\<rparr>) = kept c"
  "kept (c\<lparr>co_stop_launching := b\<rparr>) = kept c"
  by (simp_all add: sliding_locals_def sliding_more_def kept_def)

lemma usize_saturating_add_eq: "a + b \<le> usize_max \<Longrightarrow> usize_saturating_add a b = a + b"
  by (simp add: usize_saturating_add_def)

text \<open>Taking the next result from the pending ones: what the invariant says of it.\<close>

lemma sliding_next_message:
  assumes "sliding_inv read prepare tasks max_in_flight panic_mode commit W s0 p c" and "co_pc c = C_Drain"
    and "pending_remove (co_pending c) (co_next_to_commit c) = (Some m, rest)"
  obtains w where "w < W" and "co_next_to_commit c < length tasks"
    and "m = message_of read prepare w (tasks ! co_next_to_commit c)"
    and "pool_inv read prepare tasks W (co_next_to_commit c + 1) (co_next_to_queue c) (map snd rest) p" and "keys_ok rest"
    and "mset (map snd (co_pending c)) = add_mset m (mset (map snd rest))"
proof -
  let ?k = "co_next_to_commit c" and ?q = "co_next_to_queue c"
  have pool: "pool_inv read prepare tasks W ?k ?q (map snd (co_pending c)) p"
    using assms(1,2) by (simp add: sliding_inv_def kept_def)
  have keys: "keys_ok (co_pending c)" and ord: "ordinals tasks"
    using assms(1) by (simp_all add: sliding_inv_def sliding_locals_def Let_def)
  note removed = pending_remove_Some [OF assms(3) keys_ok_distinct [of _ _ _ _ _ _ "[]", simplified, OF pool keys] keys]
  have "message_ok read prepare tasks W m" using pool_inv_kept(3) [OF pool] removed(4) by simp
  then obtain w where w: "w < W" "m = message_of read prepare w (tasks ! message_ordinal m)" using ord by (rule message_ok_nth)
  have "?k < length tasks" using pool_inv_kept(2) [OF pool] removed(3,4) pool by (force simp: pool_inv_def)
  then show thesis using that w removed(1-3) pool_inv_retire [OF pool removed(1,3)] by simp
qed


lemma leads_to_simps [simp]:
  "leads_to holds result_ok (p, Goes_On c) = holds p c" "leads_to holds result_ok (p, Returns r s) = result_ok r s"
  "leads_to holds result_ok (p, goto pc c) = holds p (c\<lparr>co_pc := pc\<rparr>)"
  by (simp_all add: leads_to_def goto_def)

lemma not_Visit_Continue [simp]: "control \<noteq> Visit_Continue \<longleftrightarrow> control = Visit_Stop"
  by (cases control) simp_all

lemma sliding_commit:
  assumes inv: "sliding_inv read prepare tasks max_in_flight panic_mode commit W s0 p c" and pc: "co_pc c = C_Drain"
    and rem: "pending_remove (co_pending c) (co_next_to_commit c) = (Some m, rest)"
  shows "leads_to (sliding_inv read prepare tasks max_in_flight panic_mode commit W s0)
    (sliding_result_ok read prepare tasks panic_mode commit W s0) (sliding_drain tasks max_in_flight panic_mode commit p c)"
proof -
  let ?k = "co_next_to_commit c" and ?r = "co_report c" and ?s = "co_commit_state c"
  obtain w where w: "w < W" and k: "?k < length tasks" and m: "m = message_of read prepare w (tasks ! ?k)"
    and pool: "pool_inv read prepare tasks W (?k + 1) (co_next_to_queue c) (map snd rest) p" and keys: "keys_ok rest"
    and ms: "mset (map snd (co_pending c)) = add_mset m (mset (map snd rest))"
    using inv pc rem by (rule sliding_next_message)
  have loc: "sliding_locals read prepare tasks max_in_flight panic_mode commit W s0 c" using inv by (simp add: sliding_inv_def)
  then obtain ws where h: "history read prepare tasks panic_mode commit W s0 ws (?k, cor_rows_ordered_committed ?r) ?s"
    unfolding sliding_locals_def Let_def by blast
  have ctx: "msg_context m = context_of w (tasks ! ?k)" "msg_prepared m = prepared_result read prepare (context_of w (tasks ! ?k))"
    by (simp_all add: m message_of_def)
  note ends = history_result [OF h w k, folded m]
  show ?thesis
  proof (cases "msg_prepared m")
    case (Inl e)
    then show ?thesis using ends [of "(Some (Inl e), ?s)"] rem
      by (simp add: sliding_drain_def fails_def sliding_result_ok_def outcome_of_def)
  next
    case (Inr v)
    show ?thesis
    proof (cases "\<exists>s'. invoke_ordered_commit panic_mode commit (msg_context m) v ?s = (Some (Inr Visit_Continue), s')")
      case True
      then obtain s' where inv_c: "invoke_ordered_commit panic_mode commit (msg_context m) v ?s = (Some (Inr Visit_Continue), s')" ..
      have "history read prepare tasks panic_mode commit W s0 (ws(?k := w))
          (?k + 1, saturating_add (cor_rows_ordered_committed ?r) (pts_row_count (tasks ! ?k))) s'"
        by (rule history_commit [OF h w]) (use Inr inv_c ctx in simp_all)
      moreover have "set (map snd (co_pending c)) = insert m (set (map snd rest))"
        using ms by (metis set_mset_add_mset_insert set_mset_mset)
      moreover have "?k + 1 \<le> usize_max" using loc k by (simp add: sliding_locals_def Let_def)
      ultimately show ?thesis
        using inv Inr inv_c rem pool keys ctx loc
        by (auto simp: sliding_drain_def commit_prepared_def sliding_inv_def sliding_locals_def sliding_at_def kept_def Let_def
          count_committed_def usize_saturating_add_eq)
    next
      case False
      then show ?thesis
        using ends [of "case invoke_ordered_commit panic_mode commit (msg_context m) v ?s of
            (None, s) \<Rightarrow> (None, s) | (Some (Inl e), s) \<Rightarrow> (Some (Inl e), s)
          | (Some (Inr _), s) \<Rightarrow> (Some (Inr ((?k + 1, saturating_add (cor_rows_ordered_committed ?r) (ctx_row_count (msg_context m))), True)), s)"]
        Inr rem k loc
        by (auto simp: sliding_drain_def commit_prepared_def sliding_result_ok_def outcome_of_def summary_def Let_def
          count_committed_def sliding_locals_def usize_saturating_add_eq
          split: prod.splits option.splits sum.splits ColumnBundleVisitControl.splits)
    qed
  qed
qed


lemma sliding_in_flight:
  assumes "sliding_inv read prepare tasks max_in_flight panic_mode commit W s0 p c"
  shows "sliding_more tasks max_in_flight c \<longleftrightarrow> (\<not> co_stop_launching c \<and> co_next_to_queue c < length tasks \<and>
    cor_row_groups_queued (co_report c) - co_next_to_commit c < max_in_flight)"
  using assms by (auto simp: sliding_inv_def sliding_more_def sliding_locals_def Let_def pool_inv_def)

lemma sliding_no_message:
  assumes inv: "sliding_inv read prepare tasks max_in_flight panic_mode commit W s0 p c" and pc: "co_pc c = C_Drain"
    and rem: "pending_remove (co_pending c) (co_next_to_commit c) = (None, rest)"
  shows "leads_to (sliding_inv read prepare tasks max_in_flight panic_mode commit W s0)
    (sliding_result_ok read prepare tasks panic_mode commit W s0) (sliding_drain tasks max_in_flight panic_mode commit p c)"
proof (cases "co_next_to_commit c = length tasks")
  case True
  from inv obtain ws where h: "history read prepare tasks panic_mode commit W s0 ws
      (co_next_to_commit c, cor_rows_ordered_committed (co_report c)) (co_commit_state c)"
    unfolding sliding_inv_def sliding_locals_def Let_def by blast
  then have "(\<forall>i. ws i < W) \<and> commit_all panic_mode commit (messages read prepare tasks ws 0 (length tasks)) (0, 0) s0 =
      (outcome_of (Some (Inr (co_report c))), co_commit_state c)"
    using inv spec [of "\<lambda>rest. commit_all panic_mode commit (messages read prepare tasks ws 0 (length tasks) @ rest) (0, 0) s0 =
        commit_all panic_mode commit rest (length tasks, cor_rows_ordered_committed (co_report c)) (co_commit_state c)" "[]"]
    by (simp add: history_def True outcome_of_def summary_def sliding_inv_def sliding_locals_def Let_def)
  with True rem show ?thesis by (auto simp: sliding_drain_def sliding_result_ok_def)
next
  case False
  have less: "co_next_to_commit c < length tasks" using inv False by (auto simp: sliding_inv_def pool_inv_def)
  have get: "hash_get (co_pending c) (co_next_to_commit c) = None" using rem by (simp add: pending_remove_def)
  show ?thesis
  proof (cases "sliding_more tasks max_in_flight c")
    case True
    then show ?thesis using inv False rem pc sliding_in_flight [OF inv]
      by (simp add: sliding_drain_def Let_def sliding_inv_def sliding_at_def kept_def)
  next
    case no: False
    let ?c = "\<lambda>b. c\<lparr>co_task_full_wait_started := False, co_report := count_frontier_wait b (co_report c)\<rparr>"
    have "sliding_inv read prepare tasks max_in_flight panic_mode commit W s0 p ((?c b)\<lparr>co_pc := C_Recv\<rparr>)" for b
      using inv no less get pc
      by (simp add: sliding_inv_def sliding_at_def kept_def sliding_locals_def sliding_more_def Let_def count_frontier_wait_def)
    then show ?thesis using False rem no sliding_in_flight [OF inv]
      by (auto simp: sliding_drain_def Let_def close_task_full_wait_def)
  qed
qed


text \<open>What both coordinators do to the pool when they push one task, receive a result and keep it.\<close>

lemma pool_inv_push_next:
  assumes "pool_inv read prepare tasks W lo hi ms p" and "ordinals tasks" and "hi < length tasks"
    and "try_push (pl_task_queue p) (tasks ! hi) = (push, queue)"
  shows "push \<noteq> Closed" and "push = Pushed \<Longrightarrow> pool_inv read prepare tasks W lo (hi + 1) ms (p\<lparr>pl_task_queue := queue\<rparr>)"
proof -
  have open_queue: "\<not> tq_closed (pl_task_queue p)" using assms(1,3) by (auto simp: pool_inv_def)
  then show "push \<noteq> Closed" using assms(4) by (auto simp: try_push_def split: if_splits)
  have "slice hi (hi + 1) tasks = [tasks ! hi]"
    using assms(3) by (simp add: slice_def take_Suc_conv_app_nth drop_take Cons_nth_drop_Suc [symmetric])
  with pool_inv_push [OF assms(1,2), of "hi + 1"] assms(3) open_queue
  show "push = Pushed \<Longrightarrow> pool_inv read prepare tasks W lo (hi + 1) ms (p\<lparr>pl_task_queue := queue\<rparr>)"
    using assms(4) by (auto simp: try_push_def split: if_splits)
qed

lemma pool_inv_keep:
  assumes "pool_inv read prepare tasks W lo hi (m # map snd pending) p"
  shows "pool_inv read prepare tasks W lo hi (map snd (pending @ [(message_ordinal m, m)]))
    (p\<lparr>pl_task_queue := notify_progress (pl_task_queue p)\<rparr>)"
  using pool_inv_queue_ops(1) [OF pool_inv_kept_cong [OF assms]] by simp

lemma sliding_push:
  assumes inv: "sliding_inv read prepare tasks max_in_flight panic_mode commit W s0 p c" and pc: "co_pc c = C_Push progress"
  shows "leads_to (sliding_inv read prepare tasks max_in_flight panic_mode commit W s0) result_ok
    (push_next tasks (co_next_to_commit c) progress
          (\<lambda>c. goto (if co_next_to_queue c = length tasks then C_Close else C_Head) c) p c)"
proof -
  let ?q = "co_next_to_queue c"
  obtain push queue where push: "try_push (pl_task_queue p) (tasks ! ?q) = (push, queue)" by fastforce
  have pool: "pool_inv read prepare tasks W (co_next_to_commit c) ?q (map snd (co_pending c)) p"
    and more: "sliding_more tasks max_in_flight c"
    and loc: "sliding_locals read prepare tasks max_in_flight panic_mode commit W s0 c"
    using inv pc by (simp_all add: sliding_inv_def kept_def sliding_at_def)
  have ord: "ordinals tasks" "?q < length tasks" using loc more by (simp_all add: sliding_locals_def sliding_more_def Let_def)
  note pushed = pool_inv_push_next [OF pool ord push]
  show ?thesis
  proof (cases push)
    case Pushed
    then show ?thesis using push pushed(2) loc more
      by (auto simp: push_next_def sliding_inv_def sliding_at_def kept_def sliding_locals_def sliding_more_def Let_def
        close_task_full_wait_def count_queued_def usize_saturating_add_eq)
  next
    case Full
    then show ?thesis using push pool loc more
      by (auto simp: push_next_def sliding_inv_def sliding_at_def kept_def sliding_locals_def sliding_more_def Let_def)
  next
    case Closed
    with pushed(1) show ?thesis by simp
  qed
qed

text \<open>The channel is never disconnected while the coordinator needs a result.\<close>

lemma sliding_connected:
  assumes inv: "sliding_inv read prepare tasks max_in_flight panic_mode commit W s0 p c"
    and pc: "co_pc c = C_Full progress \<or> co_pc c = C_Recv" and "pl_results p = []"
  shows "\<not> disconnected p"
proof
  assume disc: "disconnected p"
  let ?k = "co_next_to_commit c" and ?q = "co_next_to_queue c"
  have pool: "pool_inv read prepare tasks W ?k ?q (map snd (co_pending c)) p"
    and loc: "sliding_locals read prepare tasks max_in_flight panic_mode commit W s0 c"
    using inv pc by (auto simp: sliding_inv_def kept_def)
  note all = pool_inv_disconnected [OF pool assms(3) disc]
  have q: "?q = length tasks" using pool all(2) by (simp add: pool_inv_def)
  with inv pc have recv: "co_pc c = C_Recv" by (auto simp: sliding_inv_def sliding_at_def sliding_more_def)
  then have "?k < length tasks" and "hash_get (co_pending c) ?k = None" using inv by (simp_all add: sliding_inv_def sliding_at_def)
  moreover have "?k \<in> set (map message_ordinal (map snd (co_pending c)))"
    using all(1) q \<open>?k < length tasks\<close> by (metis atLeastLessThan_iff atLeastLessThan_upt le_refl set_mset_mset)
  ultimately show False
    using loc by (force simp: sliding_locals_def Let_def keys_ok_def hash_get_def map_of_eq_None_iff)
qed

lemma sliding_received:
  assumes inv: "sliding_inv read prepare tasks max_in_flight panic_mode commit W s0 p c"
    and pc: "co_pc c = C_Full progress \<or> co_pc c = C_Recv" and "pl_results p = m # rest"
  shows "sliding_inv read prepare tasks max_in_flight panic_mode commit W s0 (p\<lparr>pl_results := rest\<rparr>) (c\<lparr>co_pc := C_Received m b\<rparr>)"
proof -
  have "pool_inv read prepare tasks W (co_next_to_commit c) (co_next_to_queue c) (map snd (co_pending c)) p"
    using inv pc by (auto simp: sliding_inv_def kept_def)
  from pool_inv_receive [OF this assms(3)] inv show ?thesis by (simp add: sliding_inv_def kept_def sliding_at_def)
qed

lemma sliding_keep:
  assumes inv: "sliding_inv read prepare tasks max_in_flight panic_mode commit W s0 p c" and pc: "co_pc c = C_Received m b"
  shows "leads_to (sliding_inv read prepare tasks max_in_flight panic_mode commit W s0) result_ok
    (keep_received m C_Head p
          ((close_task_full_wait c)\<lparr>co_stop_launching := co_stop_launching c \<or> \<not> is_ok (msg_prepared m)\<rparr>))"
proof -
  have pool: "pool_inv read prepare tasks W (co_next_to_commit c) (co_next_to_queue c) (m # map snd (co_pending c)) p"
    and loc: "sliding_locals read prepare tasks max_in_flight panic_mode commit W s0 c"
    using inv pc by (simp_all add: sliding_inv_def kept_def)
  then have keys: "keys_ok (co_pending c)" by (simp add: sliding_locals_def Let_def)
  show ?thesis
    using insert_pending_ok [OF pool keys] pool_inv_keep [OF pool] loc
    by (auto simp: keep_received_def sliding_inv_def kept_def sliding_at_def sliding_locals_def Let_def close_task_full_wait_def)
qed

lemma sliding_keeps:
  assumes inv: "sliding_inv read prepare tasks max_in_flight panic_mode commit W s0 p c"
    and step: "coordinate_sliding_ordered_commit tasks max_in_flight panic_mode commit p c = Some st"
  shows "leads_to (sliding_inv read prepare tasks max_in_flight panic_mode commit W s0)
    (sliding_result_ok read prepare tasks panic_mode commit W s0) st"
proof (cases "co_pc c")
  case C_Head
  have drain: "sliding_inv read prepare tasks max_in_flight panic_mode commit W s0 p (c\<lparr>co_pc := C_Drain\<rparr>)"
    using inv C_Head by (simp add: sliding_inv_def kept_def sliding_at_def)
  show ?thesis
  proof (cases "co_next_to_commit c < length tasks")
    case True
    with step C_Head drain show ?thesis by (auto simp: coordinate_sliding_ordered_commit_def)
  next
    case False
    have pool: "pool_inv read prepare tasks W (co_next_to_commit c) (co_next_to_queue c) (map snd (co_pending c)) p"
      using inv C_Head by (simp add: sliding_inv_def kept_def)
    have k: "co_next_to_commit c = length tasks" using False pool by (simp add: pool_inv_def)
    have keys: "keys_ok (co_pending c)" using inv by (simp add: sliding_inv_def sliding_locals_def Let_def)
    have "co_pending c = []" using pool_inv_kept(2) [OF pool] pool k by (auto simp: pool_inv_def)
    then have "pending_remove (co_pending c) (co_next_to_commit c) = (None, [])"
      by (simp add: pending_remove_def hash_get_def)
    with sliding_no_message [OF drain] k step C_Head show ?thesis
      by (auto simp: coordinate_sliding_ordered_commit_def sliding_drain_def)
  qed
next
  case C_Drain
  with step sliding_commit [OF inv C_Drain] sliding_no_message [OF inv C_Drain] show ?thesis
    by (cases "pending_remove (co_pending c) (co_next_to_commit c)"; cases "fst (pending_remove (co_pending c) (co_next_to_commit c))")
      (auto simp: coordinate_sliding_ordered_commit_def)
next
  case (C_Push progress)
  with step sliding_push [OF inv C_Push] show ?thesis by (auto simp: coordinate_sliding_ordered_commit_def)
next
  case (C_Full progress)
  show ?thesis
  proof (cases "pl_results p")
    case Nil
    have "sliding_inv read prepare tasks max_in_flight panic_mode commit W s0 p (c\<lparr>co_pc := C_Wait n\<rparr>)" for n
      using inv C_Full by (simp add: sliding_inv_def kept_def sliding_at_def)
    moreover have "sliding_inv read prepare tasks max_in_flight panic_mode commit W s0
        (p\<lparr>pl_task_queue := enable_progress_notifications (pl_task_queue p)\<rparr>) (c\<lparr>co_pc := C_Head\<rparr>)"
      using inv C_Full by (simp add: sliding_inv_def kept_def sliding_at_def pool_inv_queue_ops(2))
    ultimately show ?thesis
      using sliding_connected [OF inv _ Nil, of progress] step C_Full Nil
      by (auto simp: coordinate_sliding_ordered_commit_def receive_when_full_def try_recv_def split: option.splits)
  next
    case (Cons m rest)
    with step C_Full sliding_received [OF inv _ Cons, of progress] show ?thesis
      by (auto simp: coordinate_sliding_ordered_commit_def receive_when_full_def try_recv_def)
  qed
next
  case (C_Wait n)
  with step inv show ?thesis
    by (auto simp: coordinate_sliding_ordered_commit_def wait_then_def sliding_inv_def kept_def sliding_at_def split: option.splits)
next
  case (C_Received m b)
  with step sliding_keep [OF inv C_Received] show ?thesis by (auto simp: coordinate_sliding_ordered_commit_def)
next
  case C_Close
  with step inv show ?thesis
    by (auto simp: coordinate_sliding_ordered_commit_def sliding_inv_def kept_def sliding_at_def pool_inv_queue_ops(3))
next
  case C_Recv
  show ?thesis
  proof (cases "pl_results p")
    case Nil
    with step C_Recv sliding_connected [OF inv _ Nil] show ?thesis
      by (auto simp: coordinate_sliding_ordered_commit_def receive_blocking_def try_recv_def)
  next
    case (Cons m rest)
    with step C_Recv sliding_received [OF inv _ Cons] show ?thesis
      by (auto simp: coordinate_sliding_ordered_commit_def receive_blocking_def try_recv_def)
  qed
qed (use inv in \<open>simp_all add: sliding_inv_def sliding_at_def\<close>)

interpretation sliding: coordination read prepare
  "coordinate_sliding_ordered_commit tasks max_in_flight panic_mode commit"
  "sliding_inv read prepare tasks max_in_flight panic_mode commit W s0"
  "sliding_result_ok read prepare tasks panic_mode commit W s0"
  for read prepare tasks max_in_flight panic_mode commit W s0
  by unfold_locales (auto intro: sliding_inv_worker sliding_keeps)

end
