(* ===== verification/Windowed_Runs.thy ===== *)
theory Windowed_Runs
  imports Ordered_Runs
begin

text \<open>
  The runs of the windowed coordinator refine a sequential run that commits window by window and commits
  nothing of a window that has a failed result.
\<close>

section \<open>The windows committed so far\<close>

definition window_history ::
  "'m read_fn \<Rightarrow> ('m, 'a) prepare_fn \<Rightarrow> ParallelPrepareTaskSpec list \<Rightarrow> usize \<Rightarrow> OrderedCommitPanicMode \<Rightarrow> ('a, 's) commit_fn \<Rightarrow>
   usize \<Rightarrow> 's \<Rightarrow> (usize \<Rightarrow> usize) \<Rightarrow> committed \<Rightarrow> 's \<Rightarrow> bool" where
  "window_history read prepare tasks window_size panic_mode commit W s0 ws done s \<longleftrightarrow>
     (\<forall>i. ws i < W) \<and>
     (\<forall>rest. (fst done = length tasks \<longrightarrow> rest = []) \<longrightarrow>
        commit_windows panic_mode commit (vec_chunks window_size (messages read prepare tasks ws 0 (fst done) @ rest)) (0, 0) s0 =
        commit_windows panic_mode commit (vec_chunks window_size rest) done s)"

text \<open>Inside the commit loop of a window that ends at \<open>e\<close>: the results from \<open>fst done\<close> on are still to be committed.\<close>

definition window_commits ::
  "'m read_fn \<Rightarrow> ('m, 'a) prepare_fn \<Rightarrow> ParallelPrepareTaskSpec list \<Rightarrow> usize \<Rightarrow> OrderedCommitPanicMode \<Rightarrow> ('a, 's) commit_fn \<Rightarrow>
   usize \<Rightarrow> 's \<Rightarrow> (usize \<Rightarrow> usize) \<Rightarrow> usize \<Rightarrow> committed \<Rightarrow> 's \<Rightarrow> bool" where
  "window_commits read prepare tasks window_size panic_mode commit W s0 ws e done s \<longleftrightarrow>
     (\<forall>i. ws i < W) \<and>
     (\<forall>rest. (e = length tasks \<longrightarrow> rest = []) \<longrightarrow>
        commit_windows panic_mode commit (vec_chunks window_size (messages read prepare tasks ws 0 e @ rest)) (0, 0) s0 =
        (case commit_all panic_mode commit (messages read prepare tasks ws (fst done) e) done s of
           (Some (Inr (done, False)), s) \<Rightarrow> commit_windows panic_mode commit (vec_chunks window_size rest) done s
         | outcome \<Rightarrow> outcome))"

lemma vec_chunks_window:
  assumes "0 < n" and "win \<noteq> []" and "length win = n \<or> length win < n \<and> rest = []"
  shows "vec_chunks n (win @ rest) = win # vec_chunks n rest"
  using assms by (subst vec_chunks.simps) auto

lemma messages_split: "lo \<le> m \<Longrightarrow> m \<le> hi \<Longrightarrow>
    messages read prepare tasks ws lo hi = messages read prepare tasks ws lo m @ messages read prepare tasks ws m hi"
  using upt_add_eq_append [of lo m "hi - m"] by simp

lemma window_history_start: "0 < W \<Longrightarrow> window_history read prepare tasks window_size panic_mode commit W s (\<lambda>_. 0) (0, 0) s"
  by (simp add: window_history_def)

lemma window_history_cong:
  assumes "window_history read prepare tasks window_size panic_mode commit W s0 ws done s"
    and "\<forall>i. ws' i < W" and "\<forall>i < fst done. ws' i = ws i"
  shows "window_history read prepare tasks window_size panic_mode commit W s0 ws' done s"
proof -
  have eq: "messages read prepare tasks ws' 0 (fst done) = messages read prepare tasks ws 0 (fst done)" using assms(3) by simp
  show ?thesis unfolding window_history_def eq using assms(1,2) by (simp add: window_history_def)
qed

lemma first_error_None: "first_error ms = None \<longleftrightarrow> (\<forall>m \<in> set ms. is_ok (msg_prepared m))"
  by (auto simp: first_error_def filter_empty_conv split: list.splits dest: filter_eq_ConsD)

lemma first_error_append:
  "(\<forall>m \<in> set ms. is_ok (msg_prepared m)) \<Longrightarrow> msg_prepared m = Inl e \<Longrightarrow> first_error (ms @ m # ms') = Some e"
  by (auto simp: first_error_def filter_empty_conv split: list.splits)

text \<open>A window starting at \<open>st\<close> and ending at \<open>e\<close>: it is the next one of the sequential run.\<close>

lemma window_history_window:
  assumes h: "window_history read prepare tasks window_size panic_mode commit W s0 ws (st, rows) s"
    and st: "st < length tasks" and e: "e = min (st + window_size) (length tasks)" and n: "0 < window_size"
    and rest: "e = length tasks \<longrightarrow> rest = []"
  shows "commit_windows panic_mode commit (vec_chunks window_size (messages read prepare tasks ws 0 e @ rest)) (0, 0) s0 =
    commit_windows panic_mode commit (messages read prepare tasks ws st e # vec_chunks window_size rest) (st, rows) s"
proof -
  let ?w = "messages read prepare tasks ws st e"
  have split: "messages read prepare tasks ws 0 e @ rest = messages read prepare tasks ws 0 st @ (?w @ rest)"
    using messages_split [of 0 st e] st e by simp
  have "length ?w = e - st" by simp
  then have "vec_chunks window_size (?w @ rest) = ?w # vec_chunks window_size rest"
    using st e n rest by (intro vec_chunks_window) (auto simp: min_def split: if_splits)
  with h st show ?thesis unfolding window_history_def split by simp
qed

lemma window_commits_start:
  assumes "window_history read prepare tasks window_size panic_mode commit W s0 ws (st, rows) s"
    and "st < length tasks" and "e = min (st + window_size) (length tasks)" and "0 < window_size"
    and "first_error (messages read prepare tasks ws st e) = None"
  shows "window_commits read prepare tasks window_size panic_mode commit W s0 ws e (st, rows) s"
  unfolding window_commits_def
proof (intro conjI allI impI)
  show "ws i < W" for i using assms(1) by (simp add: window_history_def)
next
  fix rest :: "'b ParallelPrepareMessage list"
  assume "e = length tasks \<longrightarrow> rest = []"
  from window_history_window [OF assms(1-4) this] assms(5)
  show "commit_windows panic_mode commit (vec_chunks window_size (messages read prepare tasks ws 0 e @ rest)) (0, 0) s0 =
    (case commit_all panic_mode commit (messages read prepare tasks ws (fst (st, rows)) e) (st, rows) s of
           (Some (Inr (done, False)), s) \<Rightarrow> commit_windows panic_mode commit (vec_chunks window_size rest) done s
         | outcome \<Rightarrow> outcome)"
    by simp
qed

lemma window_commits_end:
  assumes "window_commits read prepare tasks window_size panic_mode commit W s0 ws e (e, rows) s"
  shows "window_history read prepare tasks window_size panic_mode commit W s0 ws (e, rows) s"
  using assms by (simp add: window_commits_def window_history_def)

lemma window_commits_next:
  assumes h: "window_commits read prepare tasks window_size panic_mode commit W s0 ws e (k, rows) s" and "k < e"
    and "prepared_result read prepare (context_of (ws k) (tasks ! k)) = Inr prepared"
    and "invoke_ordered_commit panic_mode commit (context_of (ws k) (tasks ! k)) prepared s = (Some (Inr Visit_Continue), s')"
  shows "window_commits read prepare tasks window_size panic_mode commit W s0 ws e
    (k + 1, saturating_add rows (pts_row_count (tasks ! k))) s'"
proof -
  have "messages read prepare tasks ws k e = message_of read prepare (ws k) (tasks ! k) # messages read prepare tasks ws (k + 1) e"
    using \<open>k < e\<close> by (simp add: upt_conv_Cons)
  then have "commit_all panic_mode commit (messages read prepare tasks ws k e) (k, rows) s =
      commit_all panic_mode commit (messages read prepare tasks ws (k + 1) e) (k + 1, saturating_add rows (pts_row_count (tasks ! k))) s'"
    using assms(3,4) by simp (simp add: message_of_def)
  with h show ?thesis unfolding window_commits_def fst_conv by simp
qed

definition windowed_result_ok ::
  "'m read_fn \<Rightarrow> ('m, 'a) prepare_fn \<Rightarrow> ParallelPrepareTaskSpec list \<Rightarrow> usize \<Rightarrow> OrderedCommitPanicMode \<Rightarrow> ('a, 's) commit_fn \<Rightarrow>
   usize \<Rightarrow> 's \<Rightarrow> CoordinatorReport presult \<Rightarrow> 's \<Rightarrow> bool" where
  "windowed_result_ok read prepare tasks window_size panic_mode commit W s0 r s \<longleftrightarrow>
     (\<exists>ws. (\<forall>i. ws i < W) \<and>
       commit_windows panic_mode commit (vec_chunks window_size (messages read prepare tasks ws 0 (length tasks))) (0, 0) s0 =
       (outcome_of r, s))"

lemma window_commits_result:
  assumes h: "window_commits read prepare tasks window_size panic_mode commit W s0 ws e (k, rows) s" and "k < e" "e \<le> length tasks"
    and "\<And>rest. commit_all panic_mode commit (message_of read prepare (ws k) (tasks ! k) # rest) (k, rows) s = (outcome_of r, s')"
    and "\<And>done. r \<noteq> Some (Inr done) \<or> cor_cancelled done"
  shows "windowed_result_ok read prepare tasks window_size panic_mode commit W s0 r s'"
proof -
  have "messages read prepare tasks ws k e = message_of read prepare (ws k) (tasks ! k) # messages read prepare tasks ws (k + 1) e"
    using \<open>k < e\<close> by (simp add: upt_conv_Cons)
  then have c: "commit_all panic_mode commit (messages read prepare tasks ws k e) (k, rows) s = (outcome_of r, s')"
    using assms(4) by simp
  have all: "messages read prepare tasks ws 0 (length tasks) = messages read prepare tasks ws 0 e @ messages read prepare tasks ws e (length tasks)"
    using messages_split [of 0 e "length tasks"] assms(3) by simp
  have "(case (outcome_of r, s') of (Some (Inr (done, False)), s) \<Rightarrow> x done s | out \<Rightarrow> out) = (outcome_of r, s')" for x
  proof (cases r)
    case (Some x)
    with assms(5) show ?thesis by (cases x) (auto simp: outcome_of_def summary_def)
  qed (simp add: outcome_of_def)
  then have "commit_windows panic_mode commit (vec_chunks window_size (messages read prepare tasks ws 0 (length tasks))) (0, 0) s0 =
      (outcome_of r, s')"
    using h unfolding window_commits_def fst_conv c all by (auto simp del: upt_Suc)
  with h show ?thesis by (auto simp: windowed_result_ok_def window_commits_def)
qed


section \<open>The invariant of the windowed coordinator\<close>

text \<open>The first ordinal that is not retired.\<close>

definition window_low :: "ParallelPrepareTaskSpec list \<Rightarrow> ('a, 's) coordinator \<Rightarrow> usize" where
  "window_low tasks c = (case co_pc c of C_Commit i \<Rightarrow> i | _ \<Rightarrow> min (co_window_start c) (length tasks))"

definition windowed_locals ::
  "ParallelPrepareTaskSpec list \<Rightarrow> usize \<Rightarrow> ('a, 's) coordinator \<Rightarrow> bool" where
  "windowed_locals tasks window_size c \<longleftrightarrow>
     (let report = co_report c in
     ordinals tasks \<and> length tasks \<le> usize_max \<and> 0 < window_size \<and> keys_ok (co_pending c) \<and>
     cor_row_groups_queued report = co_next_to_queue c \<and> \<not> cor_cancelled report \<and>
     cor_max_in_flight_row_groups_observed report \<le> window_size)"

definition in_window :: "ParallelPrepareTaskSpec list \<Rightarrow> usize \<Rightarrow> ('a, 's) coordinator \<Rightarrow> bool" where
  "in_window tasks window_size c \<longleftrightarrow>
     co_window_start c < length tasks \<and> co_window_end c = min (co_window_start c + window_size) (length tasks) \<and>
     co_window_start c \<le> co_next_to_queue c \<and> co_next_to_queue c \<le> co_window_end c"

definition windowed_at :: "ParallelPrepareTaskSpec list \<Rightarrow> usize \<Rightarrow> ('a, 's) coordinator \<Rightarrow> bool" where
  "windowed_at tasks window_size c \<longleftrightarrow>
     (case co_pc c of
        C_Head \<Rightarrow> co_next_to_queue c = min (co_window_start c) (length tasks)
      | C_Window \<Rightarrow> in_window tasks window_size c \<and> co_next_to_queue c = co_window_start c
      | C_Fill \<Rightarrow> in_window tasks window_size c
      | C_Push _ \<Rightarrow> in_window tasks window_size c \<and> co_next_to_queue c < co_window_end c
      | C_Full _ \<Rightarrow> in_window tasks window_size c \<and> co_next_to_queue c < co_window_end c
      | C_Wait _ \<Rightarrow> in_window tasks window_size c \<and> co_next_to_queue c < co_window_end c
      | C_Received _ filling \<Rightarrow> in_window tasks window_size c \<and> (\<not> filling \<longrightarrow> co_next_to_queue c = co_window_end c)
      | C_Close \<Rightarrow> in_window tasks window_size c \<and> co_next_to_queue c = co_window_end c \<and> co_window_end c = length tasks
      | C_Collect \<Rightarrow> in_window tasks window_size c \<and> co_next_to_queue c = co_window_end c
      | C_Recv \<Rightarrow> in_window tasks window_size c \<and> co_next_to_queue c = co_window_end c \<and>
          length (co_pending c) < co_window_end c - co_window_start c
      | C_Check i \<Rightarrow> in_window tasks window_size c \<and> co_next_to_queue c = co_window_end c \<and>
          length (co_pending c) \<ge> co_window_end c - co_window_start c \<and> co_window_start c \<le> i \<and> i \<le> co_window_end c \<and>
          (\<forall>m \<in> snd ` set (co_pending c). message_ordinal m < i \<longrightarrow> is_ok (msg_prepared m))
      | C_Commit i \<Rightarrow> in_window tasks window_size c \<and> co_next_to_queue c = co_window_end c \<and>
          length (co_pending c) \<ge> co_window_end c - i \<and> co_window_start c \<le> i \<and> i \<le> co_window_end c
      | C_Drain \<Rightarrow> False)"

definition windowed_history ::
  "'m read_fn \<Rightarrow> ('m, 'a) prepare_fn \<Rightarrow> ParallelPrepareTaskSpec list \<Rightarrow> usize \<Rightarrow> OrderedCommitPanicMode \<Rightarrow> ('a, 's) commit_fn \<Rightarrow>
   usize \<Rightarrow> 's \<Rightarrow> ('a, 's) coordinator \<Rightarrow> bool" where
  "windowed_history read prepare tasks window_size panic_mode commit W s0 c \<longleftrightarrow>
     (let low = window_low tasks c; done = (low, cor_rows_ordered_committed (co_report c)) in
     cor_row_groups_ordered_committed (co_report c) = low \<and>
     (case co_pc c of
        C_Commit i \<Rightarrow> \<exists>ws.
          window_commits read prepare tasks window_size panic_mode commit W s0 ws (co_window_end c) done (co_commit_state c) \<and>
          (\<forall>m \<in> snd ` set (co_pending c). is_ok (msg_prepared m) \<and>
             m = message_of read prepare (ws (message_ordinal m)) (tasks ! message_ordinal m))
      | _ \<Rightarrow> \<exists>ws. window_history read prepare tasks window_size panic_mode commit W s0 ws done (co_commit_state c)))"

definition windowed_inv ::
  "'m read_fn \<Rightarrow> ('m, 'a) prepare_fn \<Rightarrow> ParallelPrepareTaskSpec list \<Rightarrow> usize \<Rightarrow> OrderedCommitPanicMode \<Rightarrow> ('a, 's) commit_fn \<Rightarrow>
   usize \<Rightarrow> 's \<Rightarrow> 'a pool \<Rightarrow> ('a, 's) coordinator \<Rightarrow> bool" where
  "windowed_inv read prepare tasks window_size panic_mode commit W s0 p c \<longleftrightarrow>
     pool_inv read prepare tasks W (window_low tasks c) (co_next_to_queue c) (kept c) p \<and>
     windowed_locals tasks window_size c \<and> windowed_at tasks window_size c \<and>
     windowed_history read prepare tasks window_size panic_mode commit W s0 c"

lemma windowed_inv_worker:
  "windowed_inv read prepare tasks window_size panic_mode commit W s0 p c \<Longrightarrow>
   w < length (pl_workers p) \<Longrightarrow> worker_next read prepare w p = Some p' \<Longrightarrow>
   windowed_inv read prepare tasks window_size panic_mode commit W s0 p' c"
  by (auto simp: windowed_inv_def intro: pool_inv_worker)

lemma windowed_frame [simp]:
  "windowed_locals tasks window_size (c\<lparr>co_pc := pc\<rparr>) = windowed_locals tasks window_size c"
  "windowed_locals tasks window_size (c\<lparr>co_task_full_wait_started := b\<rparr>) = windowed_locals tasks window_size c"
  "in_window tasks window_size (c\<lparr>co_pc := pc\<rparr>) = in_window tasks window_size c"
  "in_window tasks window_size (c\<lparr>co_task_full_wait_started := b\<rparr>) = in_window tasks window_size c"
  "in_window tasks window_size (c\<lparr>co_report := report\<rparr>) = in_window tasks window_size c"
  "in_window tasks window_size (c\<lparr>co_pending := pending\<rparr>) = in_window tasks window_size c"
  by (simp_all add: windowed_locals_def in_window_def)

lemmas windowed_defs = windowed_inv_def windowed_at_def windowed_history_def window_low_def kept_def Let_def

text \<open>When the coordinator keeps as many results as the window has, it keeps all of them.\<close>

lemma pool_inv_all_kept:
  assumes "pool_inv read prepare tasks W lo hi ms p" and "hi - lo \<le> length ms"
  shows "mset (map message_ordinal ms) = mset [lo..<hi]"
proof -
  have eq: "pool_ordinals p + mset (map message_ordinal ms) = mset [lo..<hi]" using assms(1) by (simp add: pool_inv_def)
  have "size (pool_ordinals p) + length ms = hi - lo" using arg_cong [OF eq, of size] by simp
  with assms(2) have "size (pool_ordinals p) = 0" by linarith
  then have "pool_ordinals p = {#}" by simp
  with eq show ?thesis by simp
qed

lemma pending_has:
  assumes "mset (map message_ordinal (map snd pending)) = mset [lo..<hi]" and "keys_ok pending" and "lo \<le> i" and "i < hi"
  obtains m where "hash_get pending i = Some m" and "m \<in> snd ` set pending" and "message_ordinal m = i"
proof -
  have "i \<in> set (map message_ordinal (map snd pending))" using assms(1,3,4) by (metis atLeastLessThan_iff atLeastLessThan_upt set_mset_mset)
  then have "i \<in> fst ` set pending" using assms(2) by (force simp: keys_ok_def)
  then obtain m where m: "map_of pending i = Some m" by (metis map_of_eq_None_iff not_None_eq)
  then have "(i, m) \<in> set pending" by (rule map_of_SomeD)
  with m that assms(2) show thesis by (force simp: keys_ok_def hash_get_def)
qed


text \<open>Every kept result is the message of the worker its context names.\<close>

lemma message_ok_worker:
  assumes "message_ok read prepare tasks W m" and "ordinals tasks"
  shows "m = message_of read prepare (ctx_worker_id (msg_context m)) (tasks ! message_ordinal m)"
    and "ctx_worker_id (msg_context m) < W"
proof -
  obtain w where w: "w < W" "m = message_of read prepare w (tasks ! message_ordinal m)"
    using assms by (rule message_ok_nth)
  have "ctx_worker_id (msg_context m) = w" by (subst w(2)) (simp add: context_of_def)
  with w show "m = message_of read prepare (ctx_worker_id (msg_context m)) (tasks ! message_ordinal m)"
    "ctx_worker_id (msg_context m) < W" by simp_all
qed

definition pending_workers :: "'a pending_map \<Rightarrow> (usize \<Rightarrow> usize) \<Rightarrow> usize \<Rightarrow> usize" where
  "pending_workers pending ws i = (case hash_get pending i of Some m \<Rightarrow> ctx_worker_id (msg_context m) | None \<Rightarrow> ws i)"

lemma pending_workers_message:
  assumes pool: "pool_inv read prepare tasks W lo hi (map snd pending) p" and keys: "keys_ok pending" and ord: "ordinals tasks"
    and "m \<in> snd ` set pending"
  shows "m = message_of read prepare (pending_workers pending ws (message_ordinal m)) (tasks ! message_ordinal m)"
proof -
  have "distinct (map fst pending)" using keys_ok_distinct [of _ _ _ _ _ _ "[]"] pool keys by simp
  moreover have "(message_ordinal m, m) \<in> set pending" using assms(4) keys by (force simp: keys_ok_def)
  ultimately have "hash_get pending (message_ordinal m) = Some m" by (simp add: hash_get_def)
  moreover have "message_ok read prepare tasks W m" using pool_inv_kept(3) [OF pool, of m] assms(4) by simp
  ultimately show ?thesis using message_ok_worker(1) [OF _ ord] by (simp add: pending_workers_def)
qed

lemma pending_workers_bounds:
  assumes pool: "pool_inv read prepare tasks W lo hi (map snd pending) p" and keys: "keys_ok pending" and ord: "ordinals tasks"
    and ws: "\<forall>i. ws i < W"
  shows "\<forall>i. pending_workers pending ws i < W" and "\<forall>i < lo. pending_workers pending ws i = ws i"
proof -
  have get: "message_ok read prepare tasks W m \<and> lo \<le> i" if "hash_get pending i = Some m" for i m
  proof -
    from that have "(i, m) \<in> set pending" by (auto simp: hash_get_def dest: map_of_SomeD)
    then have "m \<in> set (map snd pending)" "i = message_ordinal m" using keys by (force simp: keys_ok_def)+
    then show ?thesis using pool_inv_kept(2,3) [OF pool] by force
  qed
  show "\<forall>i. pending_workers pending ws i < W"
    using ws by (auto simp: pending_workers_def split: option.splits dest!: get intro: message_ok_worker(2) [OF _ ord])
  show "\<forall>i < lo. pending_workers pending ws i = ws i"
    using get by (fastforce simp: pending_workers_def split: option.splits)
qed

lemma windowed_window_facts:
  assumes "windowed_inv read prepare tasks window_size panic_mode commit W s0 p c" and "co_pc c = C_Check i"
  shows "pool_inv read prepare tasks W (co_window_start c) (co_window_end c) (map snd (co_pending c)) p"
    and "keys_ok (co_pending c)" "ordinals tasks" "0 < window_size"
    and "mset (map message_ordinal (map snd (co_pending c))) = mset [co_window_start c..<co_window_end c]"
    and "co_window_start c < length tasks" "co_window_end c = min (co_window_start c + window_size) (length tasks)"
proof -
  show pool: "pool_inv read prepare tasks W (co_window_start c) (co_window_end c) (map snd (co_pending c)) p"
  proof -
    have "window_low tasks c = co_window_start c" "co_next_to_queue c = co_window_end c" "kept c = map snd (co_pending c)"
      using assms by (simp_all add: windowed_defs in_window_def)
    with assms(1) show ?thesis by (simp add: windowed_inv_def)
  qed
  show "keys_ok (co_pending c)" "ordinals tasks" "0 < window_size"
    using assms by (simp_all add: windowed_inv_def windowed_locals_def Let_def)
  show "mset (map message_ordinal (map snd (co_pending c))) = mset [co_window_start c..<co_window_end c]"
    using pool_inv_all_kept [OF pool] assms by (simp add: windowed_defs)
  show "co_window_start c < length tasks" "co_window_end c = min (co_window_start c + window_size) (length tasks)"
    using assms by (simp_all add: windowed_defs in_window_def)
qed

text \<open>The end of the check: every result of the window is good, and the commit loop begins.\<close>

lemma windowed_all_ok:
  assumes inv: "windowed_inv read prepare tasks window_size panic_mode commit W s0 p c" and pc: "co_pc c = C_Check i"
    and i: "i = co_window_end c"
  shows "windowed_inv read prepare tasks window_size panic_mode commit W s0 p (c\<lparr>co_pc := C_Commit (co_window_start c)\<rparr>)"
proof -
  note facts = windowed_window_facts [OF inv pc]
  let ?st = "co_window_start c" and ?e = "co_window_end c" and ?rows = "cor_rows_ordered_committed (co_report c)"
  obtain ws where h: "window_history read prepare tasks window_size panic_mode commit W s0 ws (?st, ?rows) (co_commit_state c)"
    using inv pc facts(6) by (auto simp: windowed_defs min_def)
  then have "\<forall>i. ws i < W" by (simp add: window_history_def)
  note bounds = pending_workers_bounds [OF facts(1-3) this]
  let ?ws = "pending_workers (co_pending c) ws"
  have h': "window_history read prepare tasks window_size panic_mode commit W s0 ?ws (?st, ?rows) (co_commit_state c)"
    by (rule window_history_cong [OF h]) (use bounds in simp_all)
  have good: "is_ok (msg_prepared m)" if "m \<in> snd ` set (co_pending c)" for m
    using that inv pc i pool_inv_kept(2) [OF facts(1)] by (force simp: windowed_defs)
  have "is_ok (msg_prepared (message_of read prepare (?ws j) (tasks ! j)))" if "?st \<le> j" "j < ?e" for j
  proof -
    obtain m where m: "m \<in> snd ` set (co_pending c)" "message_ordinal m = j"
      using facts(5,2) \<open>?st \<le> j\<close> \<open>j < ?e\<close> by (rule pending_has)
    with pending_workers_message [OF facts(1-3) m(1), of ws] good [OF m(1)] show ?thesis by simp
  qed
  then have "first_error (messages read prepare tasks ?ws ?st ?e) = None" by (auto simp: first_error_None)
  note start = window_commits_start [OF h' facts(6,7,4) this]
  show ?thesis
    unfolding windowed_inv_def
  proof (intro conjI)
    let ?c = "c\<lparr>co_pc := C_Commit ?st\<rparr>"
    show "pool_inv read prepare tasks W (window_low tasks ?c) (co_next_to_queue ?c) (kept ?c) p"
      using inv pc facts(1) by (simp add: windowed_defs)
    show "windowed_locals tasks window_size ?c" using inv by (simp add: windowed_inv_def)
    show "windowed_at tasks window_size ?c" using inv pc by (auto simp: windowed_defs in_window_def)
    show "windowed_history read prepare tasks window_size panic_mode commit W s0 ?c"
      using start good pending_workers_message [OF facts(1-3), of _ ws] inv pc facts(6)
      by (auto simp: windowed_defs min_def intro!: exI [of _ ?ws])
  qed
qed

lemma windowed_check:
  assumes inv: "windowed_inv read prepare tasks window_size panic_mode commit W s0 p c" and pc: "co_pc c = C_Check i"
  shows "leads_to (windowed_inv read prepare tasks window_size panic_mode commit W s0)
    (windowed_result_ok read prepare tasks window_size panic_mode commit W s0) (check_window i p c)"
proof (cases "i < co_window_end c")
  case False
  with inv pc have "i = co_window_end c" by (simp add: windowed_defs)
  with windowed_all_ok [OF inv pc] show ?thesis by (simp add: check_window_def)
next
  case True
  note facts = windowed_window_facts [OF inv pc]
  let ?st = "co_window_start c" and ?e = "co_window_end c" and ?rows = "cor_rows_ordered_committed (co_report c)"
  have st: "?st \<le> i" using inv pc by (simp add: windowed_defs)
  obtain m where m: "hash_get (co_pending c) i = Some m" "m \<in> snd ` set (co_pending c)" "message_ordinal m = i"
    using facts(5,2) st True by (rule pending_has)
  show ?thesis
  proof (cases "msg_prepared m")
    case (Inr v)
    have "m' = m" if "m' \<in> snd ` set (co_pending c)" "message_ordinal m' = i" for m'
      using pool_inv_kept(1) [OF facts(1)] that m(2,3) by (auto simp: distinct_map inj_on_def)
    from this [OF imageI] have "\<forall>x \<in> set (co_pending c). message_ordinal (snd x) = i \<longrightarrow> is_ok (msg_prepared (snd x))"
      using Inr by (metis is_ok_simps(2))
    then have "windowed_inv read prepare tasks window_size panic_mode commit W s0 p (c\<lparr>co_pc := C_Check (i + 1)\<rparr>)"
      using inv pc True by (auto simp: windowed_defs less_Suc_eq)
    then show ?thesis using True m Inr by (simp add: check_window_def)
  next
    case (Inl e)
    obtain ws where h: "window_history read prepare tasks window_size panic_mode commit W s0 ws (?st, ?rows) (co_commit_state c)"
      using inv pc facts(6) by (auto simp: windowed_defs min_def)
    then have "\<forall>i. ws i < W" by (simp add: window_history_def)
    note bounds = pending_workers_bounds [OF facts(1-3) this]
    let ?ws = "pending_workers (co_pending c) ws"
    have h': "window_history read prepare tasks window_size panic_mode commit W s0 ?ws (?st, ?rows) (co_commit_state c)"
      by (rule window_history_cong [OF h]) (use bounds in simp_all)
    have mi: "m = message_of read prepare (?ws i) (tasks ! i)"
      using pending_workers_message [OF facts(1-3) m(2), of ws] m(3) by simp
    have "is_ok (msg_prepared (message_of read prepare (?ws j) (tasks ! j)))" if "?st \<le> j" "j < i" for j
    proof -
      have "j < ?e" using \<open>j < i\<close> True by simp
      obtain m' where m': "m' \<in> snd ` set (co_pending c)" "message_ordinal m' = j"
        using facts(5,2) \<open>?st \<le> j\<close> \<open>j < ?e\<close> by (rule pending_has)
      then have "is_ok (msg_prepared m')" using inv pc \<open>j < i\<close> by (auto simp: windowed_defs)
      then show ?thesis using pending_workers_message [OF facts(1-3) m'(1), of ws] m'(2) by simp
    qed
    then have "first_error (messages read prepare tasks ?ws ?st i @ m # messages read prepare tasks ?ws (i + 1) ?e) = Some e"
      using Inl by (intro first_error_append) auto
    moreover have "messages read prepare tasks ?ws ?st ?e = messages read prepare tasks ?ws ?st i @ m # messages read prepare tasks ?ws (i + 1) ?e"
      using messages_split [of ?st i ?e] st True mi by (simp add: upt_conv_Cons)
    ultimately have "first_error (messages read prepare tasks ?ws ?st ?e) = Some e" by simp
    moreover have all: "messages read prepare tasks ?ws 0 (length tasks) =
        messages read prepare tasks ?ws 0 ?e @ messages read prepare tasks ?ws ?e (length tasks)"
      by (rule messages_split) (use facts(7) in simp_all)
    ultimately have "commit_windows panic_mode commit (vec_chunks window_size (messages read prepare tasks ?ws 0 (length tasks))) (0, 0) s0 =
        (Some (Inl e), co_commit_state c)"
      using window_history_window [OF h' facts(6,7,4), of "messages read prepare tasks ?ws ?e (length tasks)"]
      unfolding all by simp
    with bounds(1) have "windowed_result_ok read prepare tasks window_size panic_mode commit W s0 (Some (Inl e)) (co_commit_state c)"
      by (auto simp: windowed_result_ok_def outcome_of_def)
    then show ?thesis using True m Inl by (simp add: check_window_def fails_def)
  qed
qed


section \<open>The commit loop of a window\<close>

lemma windowed_commit:
  assumes inv: "windowed_inv read prepare tasks window_size panic_mode commit W s0 p c" and pc: "co_pc c = C_Commit i"
    and i: "i < co_window_end c"
  shows "leads_to (windowed_inv read prepare tasks window_size panic_mode commit W s0)
    (windowed_result_ok read prepare tasks window_size panic_mode commit W s0)
    (commit_window window_size panic_mode commit i p c)"
proof -
  let ?e = "co_window_end c" and ?r = "co_report c" and ?s = "co_commit_state c"
  have pool: "pool_inv read prepare tasks W i ?e (map snd (co_pending c)) p"
    using inv pc by (auto simp: windowed_defs)
  have loc: "windowed_locals tasks window_size c" and keys: "keys_ok (co_pending c)" and e: "?e \<le> length tasks"
    and count: "cor_row_groups_ordered_committed ?r = i"
    and len: "?e - i \<le> length (co_pending c)" "length (map snd (co_pending c)) = length (co_pending c)"
    using inv pc by (auto simp: windowed_defs windowed_locals_def in_window_def)
  obtain ws where h: "window_commits read prepare tasks window_size panic_mode commit W s0 ws ?e (i, cor_rows_ordered_committed ?r) ?s"
    and good: "\<And>m. m \<in> snd ` set (co_pending c) \<Longrightarrow> is_ok (msg_prepared m) \<and>
        m = message_of read prepare (ws (message_ordinal m)) (tasks ! message_ordinal m)"
    using inv pc by (auto simp: windowed_defs)
  have all: "mset (map message_ordinal (map snd (co_pending c))) = mset [i..<?e]"
    by (rule pool_inv_all_kept [OF pool]) (use len in simp)
  obtain m where m: "hash_get (co_pending c) i = Some m" "m \<in> snd ` set (co_pending c)" "message_ordinal m = i"
    using all keys le_refl i by (rule pending_has)
  then obtain rest where rem: "pending_remove (co_pending c) i = (Some m, rest)" by (simp add: pending_remove_def)
  have dist: "distinct (map fst (co_pending c))" using keys_ok_distinct [of _ _ _ _ _ _ "[]"] pool keys by simp
  note removed = pending_remove_Some [OF rem dist keys]
  have mw: "m = message_of read prepare (ws i) (tasks ! i)" using good [OF m(2)] m(3) by simp
  then have ctx: "msg_context m = context_of (ws i) (tasks ! i)" "msg_prepared m = prepared_result read prepare (context_of (ws i) (tasks ! i))"
    by (simp_all add: message_of_def)
  obtain v where v: "msg_prepared m = Inr v" using good [OF m(2)] by (cases "msg_prepared m") (auto simp: is_ok_def)
  note ends = window_commits_result [OF h i e, folded mw]
  have small: "i + 1 \<le> usize_max" using loc e i by (simp add: windowed_locals_def Let_def)
  show ?thesis
  proof (cases "\<exists>s'. invoke_ordered_commit panic_mode commit (msg_context m) v ?s = (Some (Inr Visit_Continue), s')")
    case True
    then obtain s' where inv_c: "invoke_ordered_commit panic_mode commit (msg_context m) v ?s = (Some (Inr Visit_Continue), s')" ..
    have next_h: "window_commits read prepare tasks window_size panic_mode commit W s0 ws ?e
        (i + 1, saturating_add (cor_rows_ordered_committed ?r) (pts_row_count (tasks ! i))) s'"
      by (rule window_commits_next [OF h i]) (use v inv_c ctx in simp_all)
    have sub: "snd ` set rest \<subseteq> snd ` set (co_pending c)" using rem by (auto simp: pending_remove_def)
    have "length (co_pending c) = length rest + 1" using arg_cong [OF removed(1), of size] by simp
    then have len': "?e - (i + 1) \<le> length rest" using len by simp
    let ?c = "c\<lparr>co_pending := rest, co_report := count_committed (pts_row_count (tasks ! i)) (?r\<lparr>cor_cancelled := False\<rparr>),
      co_commit_state := s', co_pc := C_Commit (i + 1)\<rparr>"
    have "windowed_inv read prepare tasks window_size panic_mode commit W s0 p ?c"
      unfolding windowed_inv_def
    proof (intro conjI)
      show "pool_inv read prepare tasks W (window_low tasks ?c) (co_next_to_queue ?c) (kept ?c) p"
        using pool_inv_retire [OF pool removed(1,3)] inv pc by (simp add: windowed_defs)
      show "windowed_locals tasks window_size ?c"
        using loc removed(2) by (simp add: windowed_locals_def Let_def count_committed_def)
      show "windowed_at tasks window_size ?c" using inv pc i len' by (simp add: windowed_defs in_window_def)
      show "windowed_history read prepare tasks window_size panic_mode commit W s0 ?c"
      proof -
        have "\<forall>m \<in> snd ` set rest. is_ok (msg_prepared m) \<and>
            m = message_of read prepare (ws (message_ordinal m)) (tasks ! message_ordinal m)" using good sub by blast
        with next_h count small show ?thesis
          by (auto simp: windowed_defs count_committed_def usize_saturating_add_eq intro!: exI [of _ ws])
      qed
    qed
    then show ?thesis
      using i rem v inv_c ctx loc
      by (simp add: commit_window_def commit_prepared_def Let_def windowed_locals_def count_committed_def)
        (simp add: windowed_inv_def)
  next
    case False
    obtain out s' where out: "invoke_ordered_commit panic_mode commit (msg_context m) v ?s = (out, s')" by fastforce
    show ?thesis
    proof (cases out)
      case None
      with ends [of None s'] out v i rem show ?thesis
        by (simp add: commit_window_def commit_prepared_def outcome_of_def)
    next
      case (Some x)
      show ?thesis
      proof (cases x)
        case (Inl e)
        with Some ends [of "Some (Inl e)" s'] out v i rem show ?thesis
          by (simp add: commit_window_def commit_prepared_def outcome_of_def)
      next
        case (Inr control)
        with Some False out have stop: "control = Visit_Stop" by (cases control) auto
        let ?report = "count_committed (ctx_row_count (msg_context m)) (?r\<lparr>cor_cancelled := True\<rparr>)"
        have "windowed_result_ok read prepare tasks window_size panic_mode commit W s0 (Some (Inr ?report)) s'"
          by (rule ends) (use Some Inr stop out v count small in
            \<open>auto simp: outcome_of_def summary_def count_committed_def usize_saturating_add_eq\<close>)
        then show ?thesis
          using Some Inr stop out v i rem loc
          by (simp add: commit_window_def commit_prepared_def Let_def count_committed_def)
      qed
    qed
  qed
qed

lemma windowed_window_done:
  assumes inv: "windowed_inv read prepare tasks window_size panic_mode commit W s0 p c" and pc: "co_pc c = C_Commit i"
    and i: "\<not> i < co_window_end c"
  shows "windowed_inv read prepare tasks window_size panic_mode commit W s0 p
    (c\<lparr>co_window_start := co_window_start c + window_size, co_pc := C_Head\<rparr>)"
proof -
  have i: "i = co_window_end c" using i inv pc by (simp add: windowed_defs)
  have e: "co_window_end c = min (co_window_start c + window_size) (length tasks)" "co_next_to_queue c = co_window_end c"
    using inv pc by (simp_all add: windowed_defs in_window_def)
  obtain ws where "window_commits read prepare tasks window_size panic_mode commit W s0 ws (co_window_end c)
      (co_window_end c, cor_rows_ordered_committed (co_report c)) (co_commit_state c)"
    using inv pc i by (auto simp: windowed_defs)
  then have "window_history read prepare tasks window_size panic_mode commit W s0 ws
      (co_window_end c, cor_rows_ordered_committed (co_report c)) (co_commit_state c)" by (rule window_commits_end)
  then show ?thesis using inv pc i e by (auto simp: windowed_defs windowed_locals_def)
qed


section \<open>Queueing and receiving\<close>

lemma windowed_low_start:
  assumes "windowed_inv read prepare tasks window_size panic_mode commit W s0 p c" and "in_window tasks window_size c"
    and "\<forall>i. co_pc c \<noteq> C_Commit i"
  shows "pool_inv read prepare tasks W (co_window_start c) (co_next_to_queue c) (kept c) p"
proof -
  have "window_low tasks c = co_window_start c"
    using assms(2,3) by (auto simp: window_low_def in_window_def split: coordinator_pc.splits)
  with assms(1) show ?thesis by (simp add: windowed_inv_def)
qed

lemma windowed_push:
  assumes inv: "windowed_inv read prepare tasks window_size panic_mode commit W s0 p c" and pc: "co_pc c = C_Push progress"
  shows "leads_to (windowed_inv read prepare tasks window_size panic_mode commit W s0) result_ok
    (push_next tasks (co_window_start c) progress (goto C_Fill) p c)"
proof -
  let ?q = "co_next_to_queue c"
  have win: "in_window tasks window_size c" "?q < co_window_end c" using inv pc by (simp_all add: windowed_defs)
  have pool: "pool_inv read prepare tasks W (co_window_start c) ?q (map snd (co_pending c)) p"
    using windowed_low_start [OF inv win(1)] pc by (simp add: kept_def)
  have ord: "ordinals tasks" and q: "?q < length tasks"
    using inv win by (simp_all add: windowed_inv_def windowed_locals_def in_window_def Let_def)
  obtain push queue where push: "try_push (pl_task_queue p) (tasks ! ?q) = (push, queue)" by fastforce
  note pushed = pool_inv_push_next [OF pool ord q push]
  show ?thesis
  proof (cases push)
    case Pushed
    then show ?thesis using push pushed(2) inv pc win q
      by (auto simp: push_next_def windowed_defs windowed_locals_def in_window_def close_task_full_wait_def count_queued_def
        usize_saturating_add_eq)
  next
    case Full
    then show ?thesis using push inv pc by (auto simp: push_next_def windowed_defs windowed_locals_def)
  next
    case Closed
    with pushed(1) show ?thesis by simp
  qed
qed

lemma windowed_push_window:
  assumes inv: "windowed_inv read prepare tasks window_size panic_mode commit W s0 p c" and pc: "co_pc c = C_Window"
  shows "leads_to (windowed_inv read prepare tasks window_size panic_mode commit W s0) result_ok (push_window tasks p c)"
proof -
  let ?st = "co_window_start c" and ?e = "co_window_end c"
  have win: "in_window tasks window_size c" "co_next_to_queue c = ?st" using inv pc by (simp_all add: windowed_defs)
  have pool: "pool_inv read prepare tasks W ?st ?st (map snd (co_pending c)) p"
    using windowed_low_start [OF inv win(1)] pc win(2) by (simp add: kept_def)
  have e: "?st < ?e" "?e \<le> length tasks" "?e - ?st \<le> window_size" and ord: "ordinals tasks" and small: "length tasks \<le> usize_max"
    using inv win by (auto simp: windowed_inv_def windowed_locals_def in_window_def Let_def)
  have open_queue: "\<not> tq_closed (pl_task_queue p)" using pool e by (auto simp: pool_inv_def)
  note pushed = pool_inv_push [OF pool ord e(2) less_imp_le [OF e(1)] open_queue]
  have "windowed_inv read prepare tasks window_size panic_mode commit W s0
      (p\<lparr>pl_task_queue := (pl_task_queue p)\<lparr>tq_tasks := tq_tasks (pl_task_queue p) @ slice ?st ?e tasks\<rparr>\<rparr>)
      (c\<lparr>co_next_to_queue := ?e,
         co_report := (co_report c)\<lparr>cor_row_groups_queued := usize_saturating_add (cor_row_groups_queued (co_report c)) (?e - ?st),
           cor_max_in_flight_row_groups_observed := max (cor_max_in_flight_row_groups_observed (co_report c)) (?e - ?st)\<rparr>,
         co_pc := C_Fill\<rparr>)"
    using inv pc pushed e small win(2)
    by (auto simp: windowed_defs windowed_locals_def in_window_def usize_saturating_add_eq)
  moreover have "windowed_inv read prepare tasks window_size panic_mode commit W s0
      (p\<lparr>pl_task_queue := enable_progress_notifications (pl_task_queue p)\<rparr>) (c\<lparr>co_pc := C_Fill\<rparr>)"
    using inv pc by (auto simp: windowed_defs intro: pool_inv_queue_ops(2))
  ultimately show ?thesis
    using open_queue by (auto simp: push_window_def try_push_window_def Let_def)
qed

text \<open>The channel is never disconnected while the window is not complete.\<close>

lemma windowed_connected:
  assumes inv: "windowed_inv read prepare tasks window_size panic_mode commit W s0 p c"
    and pc: "co_pc c = C_Full progress \<or> co_pc c = C_Recv" and "pl_results p = []"
  shows "\<not> disconnected p"
proof
  assume disc: "disconnected p"
  have win: "in_window tasks window_size c" "co_next_to_queue c < co_window_end c \<or>
      co_next_to_queue c = co_window_end c \<and> length (co_pending c) < co_window_end c - co_window_start c"
    using inv pc by (auto simp: windowed_defs)
  have pool: "pool_inv read prepare tasks W (co_window_start c) (co_next_to_queue c) (map snd (co_pending c)) p"
    using windowed_low_start [OF inv win(1)] pc by (auto simp: kept_def)
  note all = pool_inv_disconnected [OF pool assms(3) disc]
  have "co_next_to_queue c = length tasks" using pool all(2) by (simp add: pool_inv_def)
  with win have "length (co_pending c) < co_next_to_queue c - co_window_start c" by (auto simp: in_window_def)
  with arg_cong [OF all(1), of size] show False by simp
qed

lemma windowed_received:
  assumes inv: "windowed_inv read prepare tasks window_size panic_mode commit W s0 p c"
    and pc: "co_pc c = C_Full progress \<and> b \<or> co_pc c = C_Recv \<and> \<not> b" and "pl_results p = m # rest"
  shows "windowed_inv read prepare tasks window_size panic_mode commit W s0 (p\<lparr>pl_results := rest\<rparr>) (c\<lparr>co_pc := C_Received m b\<rparr>)"
proof -
  have "pool_inv read prepare tasks W (window_low tasks c) (co_next_to_queue c) (map snd (co_pending c)) p"
    using inv pc by (auto simp: windowed_inv_def kept_def)
  from pool_inv_receive [OF this assms(3)] inv pc show ?thesis by (auto simp: windowed_defs)
qed

lemma windowed_keep:
  assumes inv: "windowed_inv read prepare tasks window_size panic_mode commit W s0 p c" and pc: "co_pc c = C_Received m filling"
  shows "leads_to (windowed_inv read prepare tasks window_size panic_mode commit W s0) result_ok
    (keep_received m (if filling then C_Fill else C_Collect) p (if filling then close_task_full_wait c else c))"
proof -
  have pool: "pool_inv read prepare tasks W (window_low tasks c) (co_next_to_queue c) (m # map snd (co_pending c)) p"
    using inv pc by (simp add: windowed_inv_def kept_def)
  have keys: "keys_ok (co_pending c)" using inv by (simp add: windowed_inv_def windowed_locals_def Let_def)
  show ?thesis
    using insert_pending_ok [OF pool keys] pool_inv_keep [OF pool] inv pc
    by (auto simp: keep_received_def windowed_defs windowed_locals_def close_task_full_wait_def)
qed


lemma windowed_finished:
  assumes inv: "windowed_inv read prepare tasks window_size panic_mode commit W s0 p c" and pc: "co_pc c = C_Head"
    and "\<not> co_window_start c < length tasks"
  shows "windowed_result_ok read prepare tasks window_size panic_mode commit W s0 (Some (Inr (co_report c))) (co_commit_state c)"
proof -
  let ?r = "co_report c"
  have fin: "cor_row_groups_ordered_committed ?r = length tasks" "\<not> cor_cancelled ?r"
    using inv pc assms(3) by (simp_all add: windowed_defs windowed_locals_def)
  obtain ws where "window_history read prepare tasks window_size panic_mode commit W s0 ws
      (length tasks, cor_rows_ordered_committed ?r) (co_commit_state c)"
    using inv pc assms(3) by (auto simp: windowed_defs)
  then have "(\<forall>i. ws i < W) \<and> commit_windows panic_mode commit
      (vec_chunks window_size (messages read prepare tasks ws 0 (length tasks))) (0, 0) s0 =
      (outcome_of (Some (Inr ?r)), co_commit_state c)"
    using fin unfolding window_history_def fst_conv by (simp add: vec_chunks.simps outcome_of_def summary_def)
  then show ?thesis by (auto simp: windowed_result_ok_def)
qed

lemma windowed_keeps:
  assumes inv: "windowed_inv read prepare tasks window_size panic_mode commit W s0 p c"
    and step: "coordinate_windowed_ordered_commit tasks window_size panic_mode commit p c = Some st"
  shows "leads_to (windowed_inv read prepare tasks window_size panic_mode commit W s0)
    (windowed_result_ok read prepare tasks window_size panic_mode commit W s0) st"
proof (cases "co_pc c")
  case C_Head
  show ?thesis
  proof (cases "co_window_start c < length tasks")
    case True
    let ?st = "co_window_start c" and ?e = "min (usize_saturating_add (co_window_start c) window_size) (length tasks)"
    have e: "?e = min (?st + window_size) (length tasks)"
      using inv by (auto simp: windowed_inv_def windowed_locals_def Let_def usize_saturating_add_def min_def)
    have "windowed_inv read prepare tasks window_size panic_mode commit W s0 p
        (c\<lparr>co_window_end := ?e, co_next_to_queue := ?st, co_pc := pc\<rparr>)" if "pc = C_Window \<or> pc = C_Fill" for pc
      using that inv C_Head True e by (auto simp: windowed_defs windowed_locals_def in_window_def)
    then show ?thesis using step C_Head True
      by (auto simp: coordinate_windowed_ordered_commit_def open_window_def Let_def)
  next
    case False
    with windowed_finished [OF inv C_Head] step C_Head show ?thesis by (auto simp: coordinate_windowed_ordered_commit_def)
  qed
next
  case C_Window
  with step windowed_push_window [OF inv C_Window] show ?thesis by (auto simp: coordinate_windowed_ordered_commit_def)
next
  case C_Fill
  with step inv show ?thesis by (auto simp: coordinate_windowed_ordered_commit_def windowed_defs in_window_def)
next
  case (C_Push progress)
  with step windowed_push [OF inv C_Push] show ?thesis by (auto simp: coordinate_windowed_ordered_commit_def)
next
  case (C_Full progress)
  show ?thesis
  proof (cases "pl_results p")
    case Nil
    have "windowed_inv read prepare tasks window_size panic_mode commit W s0 p (c\<lparr>co_pc := C_Wait n\<rparr>)" for n
      using inv C_Full by (simp add: windowed_defs)
    moreover have "windowed_inv read prepare tasks window_size panic_mode commit W s0
        (p\<lparr>pl_task_queue := enable_progress_notifications (pl_task_queue p)\<rparr>) (c\<lparr>co_pc := C_Fill\<rparr>)"
      using inv C_Full by (auto simp: windowed_defs intro: pool_inv_queue_ops(2))
    ultimately show ?thesis
      using windowed_connected [OF inv _ Nil, of progress] step C_Full Nil
      by (auto simp: coordinate_windowed_ordered_commit_def receive_when_full_def try_recv_def split: option.splits)
  next
    case (Cons m rest)
    with step C_Full windowed_received [OF inv _ Cons, of progress True] show ?thesis
      by (auto simp: coordinate_windowed_ordered_commit_def receive_when_full_def try_recv_def)
  qed
next
  case (C_Wait n)
  with step inv show ?thesis
    by (auto simp: coordinate_windowed_ordered_commit_def wait_then_def windowed_defs split: option.splits)
next
  case (C_Received m b)
  with step windowed_keep [OF inv C_Received] show ?thesis by (auto simp: coordinate_windowed_ordered_commit_def)
next
  case C_Close
  have "pool_inv read prepare tasks W (window_low tasks c) (co_next_to_queue c) (kept c)
      (p\<lparr>pl_task_queue := TaskQueue_close (pl_task_queue p)\<rparr>)"
    by (rule pool_inv_queue_ops(3)) (use inv C_Close in \<open>auto simp: windowed_inv_def windowed_at_def\<close>)
  with step inv C_Close show ?thesis by (auto simp: coordinate_windowed_ordered_commit_def windowed_defs)
next
  case C_Collect
  have "pool_inv read prepare tasks W (co_window_start c) (co_next_to_queue c) (map snd (co_pending c)) p"
    using windowed_low_start [OF inv] inv C_Collect by (simp add: windowed_inv_def windowed_at_def kept_def)
  then have "\<forall>x \<in> set (co_pending c). \<not> message_ordinal (snd x) < co_window_start c" by (force dest: pool_inv_kept(2))
  with step inv C_Collect show ?thesis
    by (auto simp: coordinate_windowed_ordered_commit_def windowed_defs windowed_locals_def in_window_def count_frontier_wait_def)
next
  case C_Recv
  show ?thesis
  proof (cases "pl_results p")
    case Nil
    with step C_Recv windowed_connected [OF inv _ Nil] show ?thesis
      by (auto simp: coordinate_windowed_ordered_commit_def receive_blocking_def try_recv_def)
  next
    case (Cons m rest)
    with step C_Recv windowed_received [OF inv _ Cons, of _ False] show ?thesis
      by (auto simp: coordinate_windowed_ordered_commit_def receive_blocking_def try_recv_def)
  qed
next
  case (C_Check i)
  with step windowed_check [OF inv C_Check] show ?thesis by (auto simp: coordinate_windowed_ordered_commit_def)
next
  case (C_Commit i)
  with step windowed_commit [OF inv C_Commit] windowed_window_done [OF inv C_Commit] show ?thesis
    by (cases "i < co_window_end c") (auto simp: coordinate_windowed_ordered_commit_def commit_window_def)
next
  case C_Drain
  with inv show ?thesis by (simp add: windowed_inv_def windowed_at_def)
qed

interpretation windowed: coordination read prepare
  "coordinate_windowed_ordered_commit tasks window_size panic_mode commit"
  "windowed_inv read prepare tasks window_size panic_mode commit W s0"
  "windowed_result_ok read prepare tasks window_size panic_mode commit W s0"
  for read prepare tasks window_size panic_mode commit W s0
  by unfold_locales (auto intro: windowed_inv_worker windowed_keeps)

end
