(* ===== verification/Ordered_Progress.thy ===== *)
theory Ordered_Progress
  imports Windowed_Runs
begin

text \<open>
  The pool of \<open>Ordered_Commit\<close> always ends: no run is infinite, and a state whose workers are not joined has
  a next step.

  A run is finite because every step moves a task towards its commit, or else is part of a retry (a snapshot of
  the progress signal, a full queue, a wait) that can only be repeated after another thread has moved a
  task.  No state is stuck because a thread that waits for progress observed a queue that is still full or that
  another thread has just changed and is about to announce.
\<close>

section \<open>The weight of a pool\<close>

text \<open>How far the tasks of the pool are from their commit.\<close>

fun worker_weight :: "'a worker_pc \<Rightarrow> nat" where
  "worker_weight Popping = 1"
| "worker_weight (Popped _) = 9"
| "worker_weight (Ready _) = 8"
| "worker_weight (Running _) = 7"
| "worker_weight (Publishing _) = 6"
| "worker_weight (Sending _ _) = 6"
| "worker_weight (Waiting _ _) = 6"
| "worker_weight Sent = 2"
| "worker_weight Finished = 0"

definition pool_weight :: "'a pool \<Rightarrow> nat" where
  "pool_weight p =
     9 * length (tq_tasks (pl_task_queue p)) + (\<Sum>x\<leftarrow>pl_workers p. worker_weight (wk_pc x)) + 3 * length (pl_results p) +
     (if tq_progress_notifications (pl_task_queue p) then 0 else 1)"

text \<open>
  How far a thread is from being blocked while no task moves: a snapshot is fresh when the signal has not
  changed since.
\<close>

fun fresh :: "TaskQueue \<Rightarrow> nat option \<Rightarrow> bool" where
  "fresh queue None = (\<not> tq_progress_notifications queue)"
| "fresh queue (Some g) = (g = tq_generation queue)"

fun worker_spin :: "TaskQueue \<Rightarrow> 'a worker_pc \<Rightarrow> nat" where
  "worker_spin queue (Publishing _) = 3"
| "worker_spin queue (Sending _ progress) = (if fresh queue progress then 2 else 5)"
| "worker_spin queue (Waiting _ g) = (if fresh queue (Some g) then 1 else 4)"
| "worker_spin queue _ = 0"

definition pool_spin :: "'a pool \<Rightarrow> nat" where
  "pool_spin p = (\<Sum>x\<leftarrow>pl_workers p. worker_spin (pl_task_queue p) (wk_pc x))"

lemma sum_list_map_update:
  fixes f :: "'b \<Rightarrow> nat"
  assumes "w < length xs"
  shows "(\<Sum>x\<leftarrow>xs[w := y]. f x) + f (xs ! w) = (\<Sum>x\<leftarrow>xs. f x) + f y"
  using assms by (induction xs arbitrary: w) (auto split: nat.splits)

lemma fresh_simps [simp]:
  "fresh (queue\<lparr>tq_tasks := ts\<rparr>) progress = fresh queue progress"
  "fresh queue (progress_snapshot queue)"
  by (cases progress) (simp_all add: progress_snapshot_def)

lemma notify_progress_generation [simp]:
  "tq_generation (notify_progress queue) =
    (if tq_progress_notifications queue then tq_generation queue + 1 else tq_generation queue)"
  by (simp add: notify_progress_def)

lemma worker_spin_tasks [simp]: "worker_spin (queue\<lparr>tq_tasks := ts\<rparr>) pc = worker_spin queue pc"
  by (cases pc) simp_all

text \<open>The share of one worker and of the queues in the weight.\<close>

definition local_weight :: "'a pool \<Rightarrow> 'a worker_pc \<Rightarrow> nat" where
  "local_weight p pc =
     9 * length (tq_tasks (pl_task_queue p)) + worker_weight pc + 3 * length (pl_results p) +
     (if tq_progress_notifications (pl_task_queue p) then 0 else 1)"

definition same_signal :: "'a pool \<Rightarrow> 'a pool \<Rightarrow> bool" where
  "same_signal p p' \<longleftrightarrow> tq_generation (pl_task_queue p') = tq_generation (pl_task_queue p) \<and>
     tq_progress_notifications (pl_task_queue p') = tq_progress_notifications (pl_task_queue p)"

lemma same_signal_spin:
  assumes "same_signal p p'"
  shows "worker_spin (pl_task_queue p') pc = worker_spin (pl_task_queue p) pc"
proof -
  have "fresh (pl_task_queue p') g = fresh (pl_task_queue p) g" for g
    using assms by (cases g) (simp_all add: same_signal_def)
  with assms show ?thesis by (cases pc) (simp_all add: same_signal_def)
qed

lemma pool_weight_worker:
  assumes "w < length (pl_workers p)" and "pl_workers p' = (pl_workers p)[w := x]"
  shows "pool_weight p' + local_weight p (wk_pc (pl_workers p ! w)) = pool_weight p + local_weight p' (wk_pc x)"
    and "same_signal p p' \<Longrightarrow> pool_spin p' + worker_spin (pl_task_queue p) (wk_pc (pl_workers p ! w)) =
      pool_spin p + worker_spin (pl_task_queue p) (wk_pc x)"
  using sum_list_map_update [OF assms(1), of "\<lambda>x. worker_weight (wk_pc x)" x]
    sum_list_map_update [OF assms(1), of "\<lambda>x. worker_spin (pl_task_queue p) (wk_pc x)" x] assms(2)
  by (simp_all add: pool_weight_def local_weight_def pool_spin_def same_signal_spin)

lemma worker_next_local:
  assumes "worker_next read prepare w p = Some p'"
  obtains x where "pl_workers p' = (pl_workers p)[w := x]"
    and "local_weight p' (wk_pc x) + tq_generation (pl_task_queue p') \<le>
      local_weight p (wk_pc (pl_workers p ! w)) + tq_generation (pl_task_queue p)"
    and "local_weight p' (wk_pc x) < local_weight p (wk_pc (pl_workers p ! w)) \<or>
      local_weight p' (wk_pc x) = local_weight p (wk_pc (pl_workers p ! w)) \<and> same_signal p p' \<and>
      worker_spin (pl_task_queue p) (wk_pc x) < worker_spin (pl_task_queue p) (wk_pc (pl_workers p ! w))"
proof (cases "wk_pc (pl_workers p ! w)")
  case Popping
  with assms show ?thesis
    by (auto simp: worker_next_def Let_def TaskQueue_pop_def local_weight_def intro!: that split: if_splits list.splits)
next
  case (Popped t)
  with assms show ?thesis by (auto simp: worker_next_def Let_def local_weight_def intro!: that)
next
  case (Ready t)
  with assms show ?thesis by (auto simp: worker_next_def Let_def local_weight_def intro!: that split: if_splits)
next
  case (Running t)
  obtain r n rep where "run_task read prepare (context_of w t) (wk_report (pl_workers p ! w)) = (r, n, rep)"
    by (metis prod_cases3)
  with assms Running show ?thesis by (auto simp: worker_next_def Let_def local_weight_def intro!: that)
next
  case (Publishing m)
  with assms show ?thesis
    by (auto simp: worker_next_def Let_def local_weight_def same_signal_def intro!: that split: if_splits)
next
  case (Sending m g)
  show ?thesis
  proof (cases "pl_receiver_dropped p \<or> length (pl_results p) < pl_result_queue_capacity p")
    case True
    with assms Sending show ?thesis
      by (auto simp: worker_next_def Let_def try_send_def local_weight_def intro!: that split: if_splits)
  next
    case False
    with assms Sending show ?thesis
      by (cases g) (auto simp: worker_next_def Let_def try_send_def local_weight_def same_signal_def intro!: that split: if_splits)
  qed
next
  case (Waiting m g)
  with assms show ?thesis
    by (cases "pl_cancelled p") (auto simp: worker_next_def Let_def wait_for_progress_def local_weight_def same_signal_def
      intro!: that split: if_splits)
next
  case Sent
  with assms show ?thesis by (auto simp: worker_next_def Let_def local_weight_def intro!: that)
next
  case Finished
  with assms show ?thesis by (simp add: worker_next_def Let_def)
qed

lemma worker_decreases:
  assumes w: "w < length (pl_workers p)" and step: "worker_next read prepare w p = Some p'"
  shows "pool_weight p' < pool_weight p \<or> pool_weight p' = pool_weight p \<and> same_signal p p' \<and> pool_spin p' < pool_spin p"
    and "pool_weight p' + tq_generation (pl_task_queue p') \<le> pool_weight p + tq_generation (pl_task_queue p)"
proof -
  obtain x where x: "pl_workers p' = (pl_workers p)[w := x]"
    and le: "local_weight p' (wk_pc x) + tq_generation (pl_task_queue p') \<le>
      local_weight p (wk_pc (pl_workers p ! w)) + tq_generation (pl_task_queue p)"
    and less: "local_weight p' (wk_pc x) < local_weight p (wk_pc (pl_workers p ! w)) \<or>
      local_weight p' (wk_pc x) = local_weight p (wk_pc (pl_workers p ! w)) \<and> same_signal p p' \<and>
      worker_spin (pl_task_queue p) (wk_pc x) < worker_spin (pl_task_queue p) (wk_pc (pl_workers p ! w))"
    using step by (rule worker_next_local)
  note weight = pool_weight_worker [OF w x]
  from weight(1) le show "pool_weight p' + tq_generation (pl_task_queue p') \<le> pool_weight p + tq_generation (pl_task_queue p)"
    by linarith
  from less weight show "pool_weight p' < pool_weight p \<or>
      pool_weight p' = pool_weight p \<and> same_signal p p' \<and> pool_spin p' < pool_spin p" by linarith
qed


section \<open>No wakeup is lost\<close>

text \<open>
  A thread that observed a generation of the progress signal and waits has seen notifications on, and while
  the generation is the same the queue it waits for is still full, or another thread has just changed
  it and is about to notify.
\<close>

fun is_received :: "'a coordinator_pc \<Rightarrow> bool" where
  "is_received (C_Received _ _) = True"
| "is_received _ = False"

definition observed_ok :: "'a pool \<Rightarrow> nat \<Rightarrow> bool" where
  "observed_ok p g \<longleftrightarrow> tq_progress_notifications (pl_task_queue p) \<and> g \<le> tq_generation (pl_task_queue p)"

fun worker_awake :: "'a coordinator_pc \<Rightarrow> 'a pool \<Rightarrow> 'a worker_pc \<Rightarrow> bool" where
  "worker_awake pc p (Sending _ (Some g)) = observed_ok p g"
| "worker_awake pc p (Waiting _ g) = (observed_ok p g \<and>
     (g = tq_generation (pl_task_queue p) \<longrightarrow> pl_result_queue_capacity p \<le> length (pl_results p) \<or> is_received pc))"
| "worker_awake pc p _ = True"

definition tasks_full :: "'a pool \<Rightarrow> bool" where
  "tasks_full p \<longleftrightarrow> tq_capacity (pl_task_queue p) \<le> length (tq_tasks (pl_task_queue p)) \<or>
     (\<exists>i < length (pl_workers p). \<exists>t. wk_pc (pl_workers p ! i) = Popped t)"

definition results_empty :: "'a pool \<Rightarrow> bool" where
  "results_empty p \<longleftrightarrow> pl_results p = [] \<or> (\<exists>i < length (pl_workers p). wk_pc (pl_workers p ! i) = Sent)"

fun coordinator_awake :: "'a pool \<Rightarrow> 'a coordinator_pc \<Rightarrow> bool" where
  "coordinator_awake p (C_Push (Some g)) = observed_ok p g"
| "coordinator_awake p (C_Full (Some g)) = (observed_ok p g \<and> (g = tq_generation (pl_task_queue p) \<longrightarrow> tasks_full p))"
| "coordinator_awake p (C_Wait g) = (observed_ok p g \<and> (g = tq_generation (pl_task_queue p) \<longrightarrow> tasks_full p \<and> results_empty p))"
| "coordinator_awake p _ = True"

definition awake :: "'a pool \<Rightarrow> 'a coordinator_pc \<Rightarrow> bool" where
  "awake p pc \<longleftrightarrow> (\<forall>i < length (pl_workers p). worker_awake pc p (wk_pc (pl_workers p ! i))) \<and> coordinator_awake p pc"

lemma worker_awake_mono:
  assumes "worker_awake pc p x"
    and "tq_progress_notifications (pl_task_queue p) \<longrightarrow> tq_progress_notifications (pl_task_queue p')"
    and "tq_generation (pl_task_queue p) \<le> tq_generation (pl_task_queue p')"
    and "pl_result_queue_capacity p' = pl_result_queue_capacity p"
    and "tq_generation (pl_task_queue p) = tq_generation (pl_task_queue p') \<Longrightarrow> tq_progress_notifications (pl_task_queue p) \<Longrightarrow>
      length (pl_results p) \<le> length (pl_results p') \<or> is_received pc'"
    and "tq_generation (pl_task_queue p) = tq_generation (pl_task_queue p') \<Longrightarrow> tq_progress_notifications (pl_task_queue p) \<Longrightarrow>
      is_received pc \<Longrightarrow> is_received pc'"
  shows "worker_awake pc' p' x"
  using assms
  by (cases "(pc, p, x)" rule: worker_awake.cases) (auto simp: observed_ok_def)

text \<open>What a worker step does to the signal and to the queues the coordinator waits for.\<close>

lemma worker_next_signal:
  assumes step: "worker_next read prepare w p = Some p'"
    and live: "\<not> pl_cancelled p" "\<not> pl_receiver_dropped p"
    and ok: "worker_awake pc p (wk_pc (pl_workers p ! w))"
  obtains x where "pl_workers p' = (pl_workers p)[w := x]" and "worker_awake pc p' (wk_pc x)"
    and "tq_progress_notifications (pl_task_queue p) \<longrightarrow> tq_progress_notifications (pl_task_queue p')"
    and "tq_generation (pl_task_queue p) \<le> tq_generation (pl_task_queue p')"
    and "length (pl_results p) \<le> length (pl_results p')"
    and "tq_capacity (pl_task_queue p') = tq_capacity (pl_task_queue p)"
    and "length (tq_tasks (pl_task_queue p)) \<le> length (tq_tasks (pl_task_queue p')) \<or> (\<exists>t. wk_pc x = Popped t)"
    and "pl_results p' = pl_results p \<or> wk_pc x = Sent"
    and "\<And>t. wk_pc (pl_workers p ! w) = Popped t \<or> wk_pc (pl_workers p ! w) = Sent \<Longrightarrow>
      tq_progress_notifications (pl_task_queue p) \<Longrightarrow> tq_generation (pl_task_queue p) < tq_generation (pl_task_queue p')"
proof (cases "wk_pc (pl_workers p ! w)")
  case Popping
  with step show ?thesis
    by (auto simp: worker_next_def Let_def TaskQueue_pop_def intro!: that split: if_splits list.splits)
next
  case (Popped t)
  with step show ?thesis by (auto simp: worker_next_def Let_def intro!: that)
next
  case (Ready t)
  with step live show ?thesis by (auto simp: worker_next_def Let_def intro!: that)
next
  case (Running t)
  obtain r n rep where "run_task read prepare (context_of w t) (wk_report (pl_workers p ! w)) = (r, n, rep)"
    by (metis prod_cases3)
  with step Running show ?thesis by (auto simp: worker_next_def Let_def intro!: that)
next
  case (Publishing m)
  with step live show ?thesis
    by (auto simp: worker_next_def Let_def progress_snapshot_def observed_ok_def intro!: that)
next
  case (Sending m g)
  show ?thesis
  proof (cases "length (pl_results p) < pl_result_queue_capacity p")
    case True
    with step live Sending show ?thesis by (auto simp: worker_next_def Let_def try_send_def intro!: that)
  next
    case False
    with step live Sending ok show ?thesis
      by (cases g) (auto simp: worker_next_def Let_def try_send_def observed_ok_def intro!: that)
  qed
next
  case (Waiting m g)
  with step live show ?thesis
    by (auto simp: worker_next_def Let_def wait_for_progress_def intro!: that split: if_splits)
next
  case Sent
  with step show ?thesis by (auto simp: worker_next_def Let_def intro!: that)
next
  case Finished
  with step show ?thesis by (simp add: worker_next_def Let_def)
qed

lemma exists_other:
  assumes "\<exists>i < length xs. P (xs ! i)" and "\<not> P (xs ! w)"
  shows "\<exists>i < length xs. P (xs[w := x] ! i)"
  using assms by (metis nth_list_update_neq)

lemma worker_next_queues:
  assumes w: "w < length (pl_workers p)" and step: "worker_next read prepare w p = Some p'"
    and live: "\<not> pl_cancelled p" "\<not> pl_receiver_dropped p"
    and ok: "worker_awake pc p (wk_pc (pl_workers p ! w))"
    and signal: "tq_progress_notifications (pl_task_queue p)" "tq_generation (pl_task_queue p) = tq_generation (pl_task_queue p')"
  shows "tasks_full p \<Longrightarrow> tasks_full p'" and "results_empty p \<Longrightarrow> results_empty p'"
  using step live ok
proof (atomize (full), cases rule: worker_next_signal)
  case (1 x)
  have old: "\<not> (\<exists>t. wk_pc (pl_workers p ! w) = Popped t)" "wk_pc (pl_workers p ! w) \<noteq> Sent"
    using 1(9) signal by (metis less_irrefl)+
  have new: "pl_workers p' ! w = x" "w < length (pl_workers p')" "length (pl_workers p') = length (pl_workers p)"
    using 1(1) w by simp_all
  note keep = exists_other [of "pl_workers p" "\<lambda>x. \<exists>t. wk_pc x = Popped t" w x, OF _ old(1), folded 1(1)]
    exists_other [of "pl_workers p" "\<lambda>x. wk_pc x = Sent" w x, OF _ old(2), folded 1(1)]
  have "tasks_full p'" if "tasks_full p"
  proof (cases "\<exists>t. wk_pc x = Popped t")
    case True
    then show ?thesis using new(1,2) unfolding tasks_full_def by blast
  next
    case False
    then have "length (tq_tasks (pl_task_queue p)) \<le> length (tq_tasks (pl_task_queue p'))" using 1(7) by blast
    then show ?thesis using that keep(1) new(3) 1(6) unfolding tasks_full_def by auto
  qed
  moreover have "results_empty p'" if "results_empty p"
  proof (cases "wk_pc x = Sent")
    case True
    then show ?thesis using new(1,2) unfolding results_empty_def by blast
  next
    case False
    then have "pl_results p' = pl_results p" using 1(8) by blast
    then show ?thesis using that keep(2) new(3) unfolding results_empty_def by auto
  qed
  ultimately show "(tasks_full p \<longrightarrow> tasks_full p') \<and> (results_empty p \<longrightarrow> results_empty p')" by blast
qed

lemma awake_worker:
  assumes "awake p pc" and w: "w < length (pl_workers p)" and step: "worker_next read prepare w p = Some p'"
    and live: "\<not> pl_cancelled p" "\<not> pl_receiver_dropped p"
  shows "awake p' pc"
proof -
  have ok: "worker_awake pc p (wk_pc (pl_workers p ! i))" if "i < length (pl_workers p)" for i
    using that assms(1) by (simp add: awake_def)
  obtain x where x: "pl_workers p' = (pl_workers p)[w := x]" "worker_awake pc p' (wk_pc x)"
    "tq_progress_notifications (pl_task_queue p) \<longrightarrow> tq_progress_notifications (pl_task_queue p')"
    "tq_generation (pl_task_queue p) \<le> tq_generation (pl_task_queue p')"
    "length (pl_results p) \<le> length (pl_results p')"
    using step live ok [OF w] by (rule worker_next_signal)
  have cap: "pl_result_queue_capacity p' = pl_result_queue_capacity p" using step by (rule worker_next_cases)
  note queues = worker_next_queues [OF w step live ok [OF w]]
  have "worker_awake pc p' (wk_pc (pl_workers p' ! i))" if i: "i < length (pl_workers p')" for i
  proof (cases "i = w")
    case True
    with x(1,2) w show ?thesis by simp
  next
    case False
    with i x(1) have "pl_workers p' ! i = pl_workers p ! i" "i < length (pl_workers p)" by simp_all
    then show ?thesis using worker_awake_mono [OF ok x(3,4) cap] x(5) by simp
  qed
  moreover have "coordinator_awake p' pc"
    using assms(1) x(3,4) queues
    by (cases "(p, pc)" rule: coordinator_awake.cases) (auto simp: awake_def observed_ok_def)
  ultimately show ?thesis by (simp add: awake_def)
qed


section \<open>Steps of a coordinator\<close>

lemma awake_step:
  assumes "awake p pc" and "pl_workers p' = pl_workers p" and "pl_result_queue_capacity p' = pl_result_queue_capacity p"
    and "tq_progress_notifications (pl_task_queue p) \<longrightarrow> tq_progress_notifications (pl_task_queue p')"
    and "tq_generation (pl_task_queue p) \<le> tq_generation (pl_task_queue p')"
    and "tq_generation (pl_task_queue p) = tq_generation (pl_task_queue p') \<Longrightarrow> tq_progress_notifications (pl_task_queue p) \<Longrightarrow>
      (length (pl_results p) \<le> length (pl_results p') \<or> is_received pc') \<and> (is_received pc \<longrightarrow> is_received pc')"
    and "coordinator_awake p' pc'"
  shows "awake p' pc'"
  using assms(1,2,6,7) worker_awake_mono [of pc p _ p' pc', OF _ assms(4,5,3)] by (auto simp: awake_def)

text \<open>
  The weight of a coordinator adds to that of the pool; \<open>lower\<close> compares a state with the next one.
\<close>

fun next_weight :: "(('a, 's) coordinator \<Rightarrow> nat) \<Rightarrow> ('a, 's) progress_to \<Rightarrow> nat" where
  "next_weight weight (Goes_On c) = weight c"
| "next_weight weight (Returns _ _) = 4"

definition lower ::
  "(('a, 's) coordinator \<Rightarrow> nat) \<Rightarrow> (TaskQueue \<Rightarrow> ('a, 's) coordinator \<Rightarrow> nat) \<Rightarrow> 'a pool \<Rightarrow> ('a, 's) coordinator \<Rightarrow>
   'a pool \<times> ('a, 's) progress_to \<Rightarrow> bool" where
  "lower weight spin p c = (\<lambda>(p', out).
     pl_workers p' = pl_workers p \<and>
     pool_weight p' + next_weight weight out + tq_generation (pl_task_queue p') \<le>
       pool_weight p + weight c + tq_generation (pl_task_queue p) \<and>
     (pool_weight p' + next_weight weight out < pool_weight p + weight c \<or>
      pool_weight p' + next_weight weight out = pool_weight p + weight c \<and> same_signal p p' \<and>
        (\<exists>c'. out = Goes_On c' \<and> spin (pl_task_queue p') c' < spin (pl_task_queue p) c)))"

definition sliding_weight :: "ParallelPrepareTaskSpec list \<Rightarrow> ('a, 's) coordinator \<Rightarrow> nat" where
  "sliding_weight tasks c =
     11 * (length tasks - co_next_to_queue c) + length (co_pending c) +
     (case co_pc c of C_Received _ _ \<Rightarrow> 2 | C_Close \<Rightarrow> 1 | _ \<Rightarrow> 0) + 5"

definition sliding_spin :: "TaskQueue \<Rightarrow> ('a, 's) coordinator \<Rightarrow> nat" where
  "sliding_spin queue c =
     (case co_pc c of
        C_Head \<Rightarrow> 6
      | C_Drain \<Rightarrow> 5
      | C_Push progress \<Rightarrow> if fresh queue progress then 4 else 10
      | C_Full progress \<Rightarrow> if fresh queue progress then 3 else 9
      | C_Wait g \<Rightarrow> if fresh queue (Some g) then 1 else 8
      | C_Recv \<Rightarrow> 4
      | _ \<Rightarrow> 0)"

lemmas lower_defs = lower_def pool_weight_def same_signal_def

lemma pending_remove_length:
  "pending_remove pending k = (Some m, rest) \<Longrightarrow> length rest < length pending"
  unfolding pending_remove_def hash_get_def
  by (auto dest!: map_of_SomeD intro!: length_filter_less)

lemma sliding_drain_lower:
  assumes inv: "sliding_inv read prepare tasks max_in_flight panic_mode commit W s0 p c" and pc: "co_pc c = C_Drain"
  shows "lower (sliding_weight tasks) sliding_spin p c (sliding_drain tasks max_in_flight panic_mode commit p c)"
proof (cases "pending_remove (co_pending c) (co_next_to_commit c)")
  case (Pair m rest)
  show ?thesis
  proof (cases m)
    case None
    with Pair pc show ?thesis
      by (auto simp: sliding_drain_def Let_def lower_defs goto_def sliding_weight_def sliding_spin_def close_task_full_wait_def)
  next
    case (Some m')
    with Pair pc pending_remove_length [of "co_pending c" "co_next_to_commit c" m' rest] show ?thesis
      by (auto simp: sliding_drain_def Let_def lower_defs goto_def fails_def cancel_def sliding_weight_def commit_prepared_def
        split: sum.splits prod.splits option.splits)
  qed
qed


lemma sliding_lower:
  assumes inv: "sliding_inv read prepare tasks max_in_flight panic_mode commit W s0 p c"
    and step: "coordinate_sliding_ordered_commit tasks max_in_flight panic_mode commit p c = Some st"
  shows "lower (sliding_weight tasks) sliding_spin p c st"
proof (cases "co_pc c")
  case C_Head
  with step show ?thesis
    by (cases "co_next_to_commit c < length tasks")
      (auto simp: coordinate_sliding_ordered_commit_def lower_defs goto_def sliding_weight_def sliding_spin_def)
next
  case C_Drain
  with step sliding_drain_lower [OF inv C_Drain] show ?thesis by (auto simp: coordinate_sliding_ordered_commit_def)
next
  case (C_Push progress)
  have "sliding_more tasks max_in_flight c" "length tasks \<le> usize_max"
    using inv C_Push by (simp_all add: sliding_inv_def sliding_at_def sliding_locals_def Let_def)
  with step C_Push show ?thesis
    by (auto simp: coordinate_sliding_ordered_commit_def push_next_def try_push_def lower_defs goto_def fails_def
      sliding_weight_def sliding_spin_def close_task_full_wait_def sliding_more_def usize_saturating_add_eq split: if_splits)
next
  case (C_Full progress)
  with step show ?thesis
    by (cases progress) (auto simp: coordinate_sliding_ordered_commit_def receive_when_full_def try_recv_def lower_defs goto_def
      fails_def sliding_weight_def sliding_spin_def split: list.splits if_splits)
next
  case (C_Wait g)
  have live: "\<not> pl_cancelled p" using inv by (simp add: sliding_inv_def pool_inv_def)
  with step C_Wait show ?thesis
    by (auto simp: coordinate_sliding_ordered_commit_def wait_then_def wait_for_progress_def lower_defs goto_def
      sliding_weight_def sliding_spin_def split: if_splits)
next
  case (C_Received m b)
  have pool: "pool_inv read prepare tasks W (co_next_to_commit c) (co_next_to_queue c) (m # map snd (co_pending c)) p"
    and keys: "keys_ok (co_pending c)"
    using inv C_Received by (simp_all add: sliding_inv_def kept_def sliding_locals_def Let_def)
  from step C_Received insert_pending_ok(1) [OF pool keys] show ?thesis
    by (auto simp: coordinate_sliding_ordered_commit_def keep_received_def lower_defs goto_def
      sliding_weight_def close_task_full_wait_def)
next
  case C_Close
  with step show ?thesis
    by (auto simp: coordinate_sliding_ordered_commit_def lower_defs goto_def sliding_weight_def TaskQueue_close_def)
next
  case C_Recv
  with step show ?thesis
    by (auto simp: coordinate_sliding_ordered_commit_def receive_blocking_def try_recv_def lower_defs goto_def fails_def
      sliding_weight_def split: list.splits if_splits)
qed (use inv in \<open>simp_all add: sliding_inv_def sliding_at_def\<close>)

text \<open>The coordinator keeps its own wakeups and those of the workers.\<close>

lemma push_next_awake:
  assumes "awake p (co_pc c)" and "co_pc c = C_Push progress" and "push_next tasks k progress continue p c = (p', Goes_On c')"
    and "\<And>c. continue c = goto (pc c) c" "\<And>c. pc c = C_Close \<or> pc c = C_Head \<or> pc c = C_Fill"
  shows "awake p' (co_pc c')"
proof -
  have pc: "coordinator_awake p'' (pc c)" "\<not> is_received (pc c)" for p'' c using assms(5) [of c] by auto
  obtain push queue where push: "try_push (pl_task_queue p) (tasks ! co_next_to_queue c) = (push, queue)" by fastforce
  show ?thesis
  proof (cases push)
    case Pushed
    with push assms(2-4) pc show ?thesis
      by (auto simp: push_next_def goto_def try_push_def split: if_splits intro!: awake_step [OF assms(1)])
  next
    case Full
    with push assms(1-3) have "tasks_full p" "p' = p" "co_pc c' = C_Full progress"
      by (auto simp: push_next_def goto_def try_push_def tasks_full_def split: if_splits)
    moreover have "coordinator_awake p (C_Push progress)" using assms(1,2) by (simp add: awake_def)
    ultimately show ?thesis
      using assms(2) by (cases progress) (auto intro!: awake_step [OF assms(1)])
  next
    case Closed
    with push assms(3) show ?thesis by (simp add: push_next_def fails_def)
  qed
qed

lemma receive_when_full_awake:
  assumes "awake p (co_pc c)" and "co_pc c = C_Full progress" and "receive_when_full progress again p c = (p', Goes_On c')"
    and "again = C_Head \<or> again = C_Fill"
  shows "awake p' (co_pc c')"
proof (cases "try_recv p")
  case (Message m p'')
  with assms(1-3) show ?thesis
    by (auto simp: receive_when_full_def goto_def try_recv_def split: list.splits if_splits intro!: awake_step [OF assms(1)])
next
  case Nothing
  then have "results_empty p" by (auto simp: try_recv_def results_empty_def split: list.splits if_splits)
  moreover have "coordinator_awake p (C_Full progress)" using assms(1,2) by (simp add: awake_def)
  ultimately show ?thesis
    using Nothing assms(2-4) by (cases progress) (auto simp: receive_when_full_def goto_def intro!: awake_step [OF assms(1)])
next
  case Disconnected
  with assms(3) show ?thesis by (simp add: receive_when_full_def fails_def)
qed

lemma keep_received_awake:
  assumes "awake p pc" and "keep_received m again p c = (p', Goes_On c')" and "again = C_Head \<or> again = C_Fill \<or> again = C_Collect"
  shows "awake p' (co_pc c')"
  using assms(2,3)
  by (auto simp: keep_received_def goto_def fails_def split: sum.splits if_splits intro!: awake_step [OF assms(1)])

lemma receive_blocking_awake:
  assumes "awake p pc" and "receive_blocking p c = Some (p', Goes_On c')"
  shows "awake p' (co_pc c')"
  using assms(2)
  by (auto simp: receive_blocking_def try_recv_def goto_def fails_def split: list.splits if_splits intro!: awake_step [OF assms(1)])

lemma commit_prepared_Goes_On:
  assumes "commit_prepared panic_mode commit context prepared continue p c = (p', Goes_On c')"
  obtains obs c'' where "p' = p\<lparr>pl_observations := obs\<rparr>" and "continue c'' = Goes_On c'"
  using assms unfolding commit_prepared_def Let_def
  by (auto split: prod.splits option.splits sum.splits if_splits)

lemma awake_observations [simp]: "awake (p\<lparr>pl_observations := obs\<rparr>) pc = awake p pc"
proof -
  have "worker_awake pc (p\<lparr>pl_observations := obs\<rparr>) x = worker_awake pc p x" for x
    by (cases "(pc, p, x)" rule: worker_awake.cases) (simp_all add: observed_ok_def)
  moreover have "coordinator_awake (p\<lparr>pl_observations := obs\<rparr>) pc = coordinator_awake p pc"
    by (cases "(p, pc)" rule: coordinator_awake.cases) (simp_all add: observed_ok_def tasks_full_def results_empty_def)
  ultimately show ?thesis by (simp add: awake_def)
qed

lemma sliding_drain_awake:
  assumes "awake p (co_pc c)" and "co_pc c = C_Drain" and "sliding_drain tasks max_in_flight panic_mode commit p c = (p', Goes_On c')"
  shows "awake p' (co_pc c')"
proof (cases "pending_remove (co_pending c) (co_next_to_commit c)")
  case (Pair m rest)
  show ?thesis
  proof (cases m)
    case None
    with Pair assms(2,3) show ?thesis
      by (auto simp: sliding_drain_def Let_def goto_def progress_snapshot_def observed_ok_def split: if_splits
        intro!: awake_step [OF assms(1)])
  next
    case (Some m')
    show ?thesis
    proof (cases "msg_prepared m'")
      case (Inl e)
      with Some Pair assms(3) show ?thesis by (simp add: sliding_drain_def fails_def)
    next
      case (Inr v)
      with Some Pair assms(3) obtain obs where "p' = p\<lparr>pl_observations := obs\<rparr>" "co_pc c' = C_Drain"
        by (auto simp: sliding_drain_def goto_def elim!: commit_prepared_Goes_On)
      with assms(1,2) show ?thesis by simp
    qed
  qed
qed

lemma sliding_awake:
  assumes inv: "sliding_inv read prepare tasks max_in_flight panic_mode commit W s0 p c" and aw: "awake p (co_pc c)"
    and step: "coordinate_sliding_ordered_commit tasks max_in_flight panic_mode commit p c = Some (p', Goes_On c')"
  shows "awake p' (co_pc c')"
proof (cases "co_pc c")
  case C_Head
  with step show ?thesis
    by (auto simp: coordinate_sliding_ordered_commit_def goto_def split: if_splits intro!: awake_step [OF aw])
next
  case C_Drain
  with step sliding_drain_awake [OF aw C_Drain] show ?thesis by (auto simp: coordinate_sliding_ordered_commit_def)
next
  case (C_Push progress)
  show ?thesis
    by (rule push_next_awake [OF aw C_Push, where pc = "\<lambda>c. if co_next_to_queue c = length tasks then C_Close else C_Head"])
      (use step C_Push in \<open>auto simp: coordinate_sliding_ordered_commit_def\<close>)
next
  case (C_Full progress)
  with step receive_when_full_awake [OF aw C_Full] show ?thesis by (auto simp: coordinate_sliding_ordered_commit_def)
next
  case (C_Wait g)
  with step show ?thesis
    by (auto simp: coordinate_sliding_ordered_commit_def wait_then_def goto_def split: option.splits intro!: awake_step [OF aw])
next
  case (C_Received m b)
  with step show ?thesis
    by (auto simp: coordinate_sliding_ordered_commit_def intro: keep_received_awake [OF aw, where again = C_Head])
next
  case C_Close
  with step show ?thesis
    by (auto simp: coordinate_sliding_ordered_commit_def goto_def TaskQueue_close_def intro!: awake_step [OF aw])
next
  case C_Recv
  with step receive_blocking_awake [OF aw] show ?thesis by (auto simp: coordinate_sliding_ordered_commit_def)
qed (use inv in \<open>simp_all add: sliding_inv_def sliding_at_def\<close>)


section \<open>Steps of the windowed coordinator\<close>

definition windowed_weight :: "ParallelPrepareTaskSpec list \<Rightarrow> ('a, 's) coordinator \<Rightarrow> nat" where
  "windowed_weight tasks c =
     11 * (length tasks - co_next_to_queue c) + length (co_pending c) + 2 * (length tasks - co_window_start c) +
     (case co_pc c of
        C_Received _ filling \<Rightarrow> if filling then 3 else 2
      | C_Collect \<Rightarrow> 0 | C_Recv \<Rightarrow> 0 | C_Check _ \<Rightarrow> 0 | C_Commit _ \<Rightarrow> 0 | _ \<Rightarrow> 1) + 5"

definition windowed_spin :: "ParallelPrepareTaskSpec list \<Rightarrow> TaskQueue \<Rightarrow> ('a, 's) coordinator \<Rightarrow> nat" where
  "windowed_spin tasks queue c =
     (case co_pc c of
        C_Head \<Rightarrow> 20
      | C_Window \<Rightarrow> 19
      | C_Fill \<Rightarrow> 8
      | C_Push progress \<Rightarrow> if fresh queue progress then 7 else 14
      | C_Full progress \<Rightarrow> if fresh queue progress then 6 else 13
      | C_Wait g \<Rightarrow> if fresh queue (Some g) then 5 else 12
      | C_Close \<Rightarrow> 1
      | C_Collect \<Rightarrow> length tasks + 5
      | C_Recv \<Rightarrow> length tasks + 4
      | C_Check i \<Rightarrow> length tasks - i + 2
      | C_Commit _ \<Rightarrow> 1
      | _ \<Rightarrow> 0)"

lemma commit_window_lower:
  assumes inv: "windowed_inv read prepare tasks window_size panic_mode commit W s0 p c" and pc: "co_pc c = C_Commit i"
  shows "lower (windowed_weight tasks) (windowed_spin tasks) p c (commit_window window_size panic_mode commit i p c)"
proof (cases "i < co_window_end c")
  case False
  have "co_window_start c < length tasks" "0 < window_size"
    using inv pc by (simp_all add: windowed_inv_def windowed_at_def in_window_def windowed_locals_def Let_def)
  with False pc show ?thesis by (auto simp: commit_window_def lower_defs goto_def windowed_weight_def)
next
  case True
  show ?thesis
  proof (cases "pending_remove (co_pending c) i")
    case (Pair m rest)
    show ?thesis
    proof (cases m)
      case None
      with Pair True pc show ?thesis by (auto simp: commit_window_def lower_defs fails_def windowed_weight_def)
    next
      case (Some m')
      with Pair True pc pending_remove_length [of "co_pending c" i m' rest] show ?thesis
        by (auto simp: commit_window_def Let_def lower_defs goto_def fails_def cancel_def windowed_weight_def commit_prepared_def
          split: sum.splits prod.splits option.splits)
    qed
  qed
qed

lemma windowed_lower:
  assumes inv: "windowed_inv read prepare tasks window_size panic_mode commit W s0 p c"
    and step: "coordinate_windowed_ordered_commit tasks window_size panic_mode commit p c = Some st"
  shows "lower (windowed_weight tasks) (windowed_spin tasks) p c st"
proof (cases "co_pc c")
  case C_Head
  have "co_next_to_queue c = min (co_window_start c) (length tasks)" using inv C_Head by (simp add: windowed_inv_def windowed_at_def)
  with step C_Head show ?thesis
    by (cases "co_window_start c < length tasks")
      (auto simp: coordinate_windowed_ordered_commit_def open_window_def Let_def lower_defs goto_def windowed_weight_def windowed_spin_def
        split: if_splits)
next
  case C_Window
  have "co_next_to_queue c = co_window_start c" "co_window_start c < co_window_end c" "co_window_end c \<le> length tasks"
    using inv C_Window by (auto simp: windowed_inv_def windowed_at_def in_window_def windowed_locals_def Let_def)
  moreover from this have "length (slice (co_window_start c) (co_window_end c) tasks) = co_window_end c - co_window_start c"
    by (simp add: slice_def)
  ultimately show ?thesis using step C_Window
    by (auto simp: coordinate_windowed_ordered_commit_def push_window_def try_push_window_def Let_def lower_defs goto_def fails_def
      windowed_weight_def windowed_spin_def split: if_splits)
next
  case C_Fill
  with step show ?thesis
    by (auto simp: coordinate_windowed_ordered_commit_def lower_defs goto_def windowed_weight_def windowed_spin_def split: if_splits)
next
  case (C_Push progress)
  have "co_next_to_queue c < length tasks" "length tasks \<le> usize_max"
    using inv C_Push by (auto simp: windowed_inv_def windowed_at_def windowed_locals_def in_window_def Let_def)
  with step C_Push show ?thesis
    by (auto simp: coordinate_windowed_ordered_commit_def push_next_def try_push_def lower_defs goto_def fails_def
      windowed_weight_def windowed_spin_def close_task_full_wait_def usize_saturating_add_eq split: if_splits)
next
  case (C_Full progress)
  with step show ?thesis
    by (cases progress) (auto simp: coordinate_windowed_ordered_commit_def receive_when_full_def try_recv_def lower_defs goto_def
      fails_def windowed_weight_def windowed_spin_def split: list.splits if_splits)
next
  case (C_Wait g)
  have live: "\<not> pl_cancelled p" using inv by (simp add: windowed_inv_def pool_inv_def)
  with step C_Wait show ?thesis
    by (auto simp: coordinate_windowed_ordered_commit_def wait_then_def wait_for_progress_def lower_defs goto_def
      windowed_weight_def windowed_spin_def split: if_splits)
next
  case (C_Received m b)
  have pool: "pool_inv read prepare tasks W (window_low tasks c) (co_next_to_queue c) (m # map snd (co_pending c)) p"
    and keys: "keys_ok (co_pending c)"
    using inv C_Received by (simp_all add: windowed_inv_def kept_def windowed_locals_def Let_def)
  from step C_Received insert_pending_ok(1) [OF pool keys] show ?thesis
    by (auto simp: coordinate_windowed_ordered_commit_def keep_received_def lower_defs goto_def
      windowed_weight_def close_task_full_wait_def)
next
  case C_Close
  with step show ?thesis
    by (auto simp: coordinate_windowed_ordered_commit_def lower_defs goto_def windowed_weight_def TaskQueue_close_def)
next
  case C_Collect
  with step show ?thesis
    by (auto simp: coordinate_windowed_ordered_commit_def lower_defs goto_def windowed_weight_def windowed_spin_def split: if_splits)
next
  case C_Recv
  with step show ?thesis
    by (auto simp: coordinate_windowed_ordered_commit_def receive_blocking_def try_recv_def lower_defs goto_def fails_def
      windowed_weight_def split: list.splits if_splits)
next
  case (C_Check i)
  have "co_window_end c \<le> length tasks" using inv C_Check by (simp add: windowed_inv_def windowed_at_def in_window_def)
  with step C_Check show ?thesis
    by (auto simp: coordinate_windowed_ordered_commit_def check_window_def lower_defs goto_def fails_def cancel_def
      windowed_weight_def windowed_spin_def split: if_splits option.splits sum.splits)
next
  case (C_Commit i)
  with step commit_window_lower [OF inv C_Commit] show ?thesis by (auto simp: coordinate_windowed_ordered_commit_def)
next
  case C_Drain
  with inv show ?thesis by (simp add: windowed_inv_def windowed_at_def)
qed

lemma windowed_awake:
  assumes inv: "windowed_inv read prepare tasks window_size panic_mode commit W s0 p c" and aw: "awake p (co_pc c)"
    and step: "coordinate_windowed_ordered_commit tasks window_size panic_mode commit p c = Some (p', Goes_On c')"
  shows "awake p' (co_pc c')"
proof (cases "co_pc c")
  case C_Head
  with step show ?thesis
    by (auto simp: coordinate_windowed_ordered_commit_def open_window_def Let_def goto_def split: if_splits intro!: awake_step [OF aw])
next
  case C_Window
  with step show ?thesis
    by (auto simp: coordinate_windowed_ordered_commit_def push_window_def try_push_window_def Let_def goto_def fails_def
      split: if_splits intro!: awake_step [OF aw])
next
  case C_Fill
  with step show ?thesis
    by (auto simp: coordinate_windowed_ordered_commit_def goto_def progress_snapshot_def observed_ok_def
      split: if_splits intro!: awake_step [OF aw])
next
  case (C_Push progress)
  show ?thesis
    by (rule push_next_awake [OF aw C_Push, where pc = "\<lambda>c. C_Fill"])
      (use step C_Push in \<open>auto simp: coordinate_windowed_ordered_commit_def\<close>)
next
  case (C_Full progress)
  with step receive_when_full_awake [OF aw C_Full] show ?thesis by (auto simp: coordinate_windowed_ordered_commit_def)
next
  case (C_Wait g)
  with step show ?thesis
    by (auto simp: coordinate_windowed_ordered_commit_def wait_then_def goto_def split: option.splits intro!: awake_step [OF aw])
next
  case (C_Received m b)
  with step show ?thesis
    by (cases b) (auto simp: coordinate_windowed_ordered_commit_def
      intro: keep_received_awake [OF aw, where again = C_Fill] keep_received_awake [OF aw, where again = C_Collect])
next
  case C_Close
  with step show ?thesis
    by (auto simp: coordinate_windowed_ordered_commit_def goto_def TaskQueue_close_def intro!: awake_step [OF aw])
next
  case C_Collect
  with step show ?thesis
    by (auto simp: coordinate_windowed_ordered_commit_def goto_def split: if_splits intro!: awake_step [OF aw])
next
  case C_Recv
  with step receive_blocking_awake [OF aw] show ?thesis by (auto simp: coordinate_windowed_ordered_commit_def)
next
  case (C_Check i)
  with step show ?thesis
    by (auto simp: coordinate_windowed_ordered_commit_def check_window_def goto_def fails_def
      split: if_splits option.splits sum.splits intro!: awake_step [OF aw])
next
  case (C_Commit i)
  show ?thesis
  proof (cases "i < co_window_end c")
    case False
    with C_Commit step show ?thesis
      by (auto simp: coordinate_windowed_ordered_commit_def commit_window_def goto_def intro!: awake_step [OF aw])
  next
    case True
    with C_Commit step obtain obs where "p' = p\<lparr>pl_observations := obs\<rparr>" "co_pc c' = C_Commit (i + 1)"
      by (auto simp: coordinate_windowed_ordered_commit_def commit_window_def fails_def goto_def
        split: prod.splits option.splits sum.splits elim!: commit_prepared_Goes_On)
    then show ?thesis using C_Commit by (auto intro!: awake_step [OF aw])
  qed
next
  case C_Drain
  with inv show ?thesis by (simp add: windowed_inv_def windowed_at_def)
qed


section \<open>A blocked coordinator leaves a worker that can move\<close>

lemma worker_blocked:
  assumes "worker_next read prepare w p = None" and "\<not> pl_cancelled p"
  shows "wk_pc (pl_workers p ! w) = Finished \<or>
    wk_pc (pl_workers p ! w) = Popping \<and> tq_tasks (pl_task_queue p) = [] \<and> \<not> tq_closed (pl_task_queue p) \<or>
    (\<exists>m. wk_pc (pl_workers p ! w) = Waiting m (tq_generation (pl_task_queue p)))"
proof (cases "wk_pc (pl_workers p ! w)")
  case Popping
  with assms show ?thesis
    by (auto simp: worker_next_def Let_def TaskQueue_pop_def split: option.splits list.splits if_splits)
next
  case (Sending m g)
  with assms show ?thesis
    by (cases g) (auto simp: worker_next_def Let_def try_send_def split: if_splits)
next
  case (Waiting m g)
  with assms show ?thesis by (auto simp: worker_next_def Let_def wait_for_progress_def split: if_splits)
qed (use assms in \<open>auto simp: worker_next_def Let_def split: prod.splits\<close>)

text \<open>When all workers are blocked and there are no results, there are no tasks left either.\<close>

lemma all_blocked:
  assumes pool: "pool_inv read prepare tasks W lo hi ms p" and aw: "awake p pc" and "\<not> is_received pc"
    and blocked: "\<forall>w < length (pl_workers p). worker_next read prepare w p = None" and "pl_results p = []"
  shows "tq_tasks (pl_task_queue p) = []" and "mset (map message_ordinal ms) = mset [lo..<hi]"
    and "\<And>i t. i < length (pl_workers p) \<Longrightarrow> wk_pc (pl_workers p ! i) \<noteq> Popped t"
proof -
  have live: "\<not> pl_cancelled p" "0 < pl_result_queue_capacity p" "0 < length (pl_workers p)"
    using pool by (simp_all add: pool_inv_def)
  have idle: "wk_pc (pl_workers p ! w) = Finished \<or>
      wk_pc (pl_workers p ! w) = Popping \<and> tq_tasks (pl_task_queue p) = []" if w: "w < length (pl_workers p)" for w
  proof -
    have "worker_awake pc p (wk_pc (pl_workers p ! w))" using aw w by (simp add: awake_def)
    then show ?thesis using worker_blocked [of read prepare w p] blocked w live assms(3,5) by auto
  qed
  have "tq_tasks (pl_task_queue p) = []" if "wk_pc (pl_workers p ! 0) = Finished"
    using that live(3) pool by (force simp: pool_inv_def)
  with idle [OF live(3)] show none: "tq_tasks (pl_task_queue p) = []" by blast
  show "wk_pc (pl_workers p ! i) \<noteq> Popped t" if "i < length (pl_workers p)" for i t using idle [OF that] by auto
  have "held_ordinals x = {#}" if "x \<in> set (pl_workers p)" for x
  proof -
    from that obtain i where "i < length (pl_workers p)" "x = pl_workers p ! i" by (auto simp: in_set_conv_nth)
    with idle [of i] show ?thesis by (auto simp: held_ordinals_def)
  qed
  then have "(\<Sum>x\<in>#mset (pl_workers p). held_ordinals x) = {#}" by simp
  then have "pool_ordinals p = {#}" unfolding pool_ordinals_def by (simp only: none assms(5)) simp
  with pool show "mset (map message_ordinal ms) = mset [lo..<hi]" by (simp add: pool_inv_def)
qed

lemma blocked_wait:
  assumes pool: "pool_inv read prepare tasks W lo hi ms p" and aw: "awake p (C_Wait g)"
    and "wait_for_progress (pl_task_queue p) g (pl_cancelled p) = None"
  shows "\<exists>w < length (pl_workers p). worker_next read prepare w p \<noteq> None"
proof (rule ccontr)
  assume "\<not> ?thesis"
  then have blocked: "\<forall>w < length (pl_workers p). worker_next read prepare w p = None" by blast
  have "g = tq_generation (pl_task_queue p)" using assms(3) by (auto simp: wait_for_progress_def split: if_splits)
  with aw have full: "tasks_full p" and empty: "results_empty p" by (simp_all add: awake_def)
  have live: "\<not> pl_cancelled p" using pool by (simp add: pool_inv_def)
  have "wk_pc (pl_workers p ! w) \<noteq> Sent" if "w < length (pl_workers p)" for w
    using worker_blocked [of read prepare w p] blocked that live by auto
  with empty have "pl_results p = []" by (auto simp: results_empty_def)
  from all_blocked [OF pool aw _ blocked this] full show False
    using pool by (auto simp: tasks_full_def pool_inv_def)
qed

lemma sliding_blocked:
  assumes inv: "sliding_inv read prepare tasks max_in_flight panic_mode commit W s0 p c" and aw: "awake p (co_pc c)"
    and step: "coordinate_sliding_ordered_commit tasks max_in_flight panic_mode commit p c = None"
  shows "\<exists>w < length (pl_workers p). worker_next read prepare w p \<noteq> None"
proof -
  consider g where "co_pc c = C_Wait g" | "co_pc c = C_Recv"
    using step inv by (auto simp: coordinate_sliding_ordered_commit_def sliding_inv_def sliding_at_def split: coordinator_pc.splits)
  then show ?thesis
  proof cases
    case 1
    with inv have "pool_inv read prepare tasks W (co_next_to_commit c) (co_next_to_queue c) (kept c) p" by (simp add: sliding_inv_def)
    moreover have "wait_for_progress (pl_task_queue p) g (pl_cancelled p) = None"
      using step 1 by (auto simp: coordinate_sliding_ordered_commit_def wait_then_def split: option.splits)
    ultimately show ?thesis using aw 1 by (intro blocked_wait) auto
  next
    case 2
    have pool: "pool_inv read prepare tasks W (co_next_to_commit c) (co_next_to_queue c) (map snd (co_pending c)) p"
      and loc: "sliding_locals read prepare tasks max_in_flight panic_mode commit W s0 c"
      using inv 2 by (simp_all add: sliding_inv_def kept_def)
    have res: "pl_results p = []"
      using step 2 by (auto simp: coordinate_sliding_ordered_commit_def receive_blocking_def try_recv_def split: list.splits if_splits)
    show ?thesis
    proof (rule ccontr)
      assume "\<not> ?thesis"
      then have blocked: "\<forall>w < length (pl_workers p). worker_next read prepare w p = None" by blast
      have all: "mset (map message_ordinal (map snd (co_pending c))) = mset [co_next_to_commit c..<co_next_to_queue c]"
        using all_blocked(2) [OF pool aw _ blocked res] 2 by simp
      have get: "hash_get (co_pending c) (co_next_to_commit c) = None" and more: "\<not> sliding_more tasks max_in_flight c"
        and less: "co_next_to_commit c < length tasks"
        using inv 2 by (simp_all add: sliding_inv_def sliding_at_def)
      have keys: "keys_ok (co_pending c)" using loc by (simp add: sliding_locals_def Let_def)
      have "\<not> co_next_to_commit c < co_next_to_queue c"
      proof
        assume "co_next_to_commit c < co_next_to_queue c"
        with all keys le_refl obtain m where "hash_get (co_pending c) (co_next_to_commit c) = Some m" by (rule pending_has)
        with get show False by simp
      qed
      moreover have "co_next_to_commit c \<le> co_next_to_queue c" using pool by (simp add: pool_inv_def)
      ultimately have "co_next_to_queue c = co_next_to_commit c" and "co_pending c = []" using all by simp_all
      with loc more less show False by (simp add: sliding_locals_def sliding_more_def Let_def)
    qed
  qed
qed

lemma windowed_blocked:
  assumes inv: "windowed_inv read prepare tasks window_size panic_mode commit W s0 p c" and aw: "awake p (co_pc c)"
    and step: "coordinate_windowed_ordered_commit tasks window_size panic_mode commit p c = None"
  shows "\<exists>w < length (pl_workers p). worker_next read prepare w p \<noteq> None"
proof -
  consider g where "co_pc c = C_Wait g" | "co_pc c = C_Recv"
    using step inv by (auto simp: coordinate_windowed_ordered_commit_def windowed_inv_def windowed_at_def split: coordinator_pc.splits)
  then show ?thesis
  proof cases
    case 1
    with inv have "pool_inv read prepare tasks W (window_low tasks c) (co_next_to_queue c) (kept c) p" by (simp add: windowed_inv_def)
    moreover have "wait_for_progress (pl_task_queue p) g (pl_cancelled p) = None"
      using step 1 by (auto simp: coordinate_windowed_ordered_commit_def wait_then_def split: option.splits)
    ultimately show ?thesis using aw 1 by (intro blocked_wait) auto
  next
    case 2
    have win: "in_window tasks window_size c" "co_next_to_queue c = co_window_end c"
      "length (co_pending c) < co_window_end c - co_window_start c"
      using inv 2 by (simp_all add: windowed_inv_def windowed_at_def)
    have pool: "pool_inv read prepare tasks W (co_window_start c) (co_next_to_queue c) (map snd (co_pending c)) p"
      using windowed_low_start [OF inv win(1)] 2 by (simp add: kept_def)
    have res: "pl_results p = []"
      using step 2 by (auto simp: coordinate_windowed_ordered_commit_def receive_blocking_def try_recv_def split: list.splits if_splits)
    show ?thesis
    proof (rule ccontr)
      assume "\<not> ?thesis"
      then have blocked: "\<forall>w < length (pl_workers p). worker_next read prepare w p = None" by blast
      have "mset (map message_ordinal (map snd (co_pending c))) = mset [co_window_start c..<co_next_to_queue c]"
        using all_blocked(2) [OF pool aw _ blocked res] 2 by simp
      from arg_cong [OF this, of size] win show False by simp
    qed
  qed
qed


section \<open>Every run ends\<close>

text \<open>A pool without tasks and messages, which the workers leave as it is.\<close>

definition idle :: "'a pool \<Rightarrow> bool" where
  "idle p \<longleftrightarrow> pool_tasks p = {} \<and> pool_messages p = {}"

lemma idle_worker:
  assumes "idle p" and "w < length (pl_workers p)" and "worker_next read prepare w p = Some p'"
  shows "idle p'"
  using assms(3)
proof (cases rule: worker_next_cases)
  case (1 x)
  have "pl_workers p ! w \<in> set (pl_workers p)" using assms(2) by simp
  then have old: "held_tasks (wk_pc (pl_workers p ! w)) = []" "held_messages (wk_pc (pl_workers p ! w)) = []"
    "tq_tasks (pl_task_queue p) = []" "pl_results p = []"
    using assms(1) by (auto simp: idle_def pool_tasks_def pool_messages_def)
  have "set (pl_workers p') \<subseteq> insert x (set (pl_workers p))" using 1(1) set_update_subset_insert by metis
  then show ?thesis using 1(8,9) old assms(1) by (fastforce simp: idle_def pool_tasks_def pool_messages_def)
qed

lemma pool_inv_idle:
  assumes "pool_inv read prepare tasks W lo lo ms p"
  shows "idle p"
proof -
  have "pool_ordinals p = {#}" using assms by (simp add: pool_inv_def)
  then have "tq_tasks (pl_task_queue p) = []" "pl_results p = []" "\<forall>x \<in> set (pl_workers p). held_ordinals x = {#}"
    by (simp_all add: pool_ordinals_def)
  then show ?thesis by (auto simp: idle_def pool_tasks_def pool_messages_def held_ordinals_def)
qed

text \<open>What a coordinator leaves behind: unless it failed or was stopped, an idle pool.\<close>

definition left_ok :: "CoordinatorReport presult \<Rightarrow> 'a pool \<Rightarrow> bool" where
  "left_ok r p \<longleftrightarrow> (case r of Some (Inr report) \<Rightarrow> cor_cancelled report \<or> idle p | _ \<Rightarrow> True)"

lemma commit_prepared_Returns:
  assumes "commit_prepared panic_mode commit context prepared continue p c = (p', Returns r s)"
    and "\<And>c. \<exists>c'. continue c = Goes_On c'"
  shows "left_ok r p'"
proof -
  have "continue c \<noteq> Returns r s" for c using assms(2) [of c] by auto
  with assms(1) show ?thesis unfolding commit_prepared_def Let_def
    by (auto simp: left_ok_def split: prod.splits option.splits sum.splits if_splits)
qed

lemma sliding_left:
  assumes inv: "sliding_inv read prepare tasks max_in_flight panic_mode commit W s0 p c"
    and step: "coordinate_sliding_ordered_commit tasks max_in_flight panic_mode commit p c = Some (p', Returns r s)"
  shows "left_ok r p'"
proof -
  have idle: "idle p" if "\<not> co_next_to_commit c < length tasks"
  proof -
    have "pool_inv read prepare tasks W (co_next_to_commit c) (co_next_to_queue c) (kept c) p"
      using inv by (simp add: sliding_inv_def)
    moreover from this that have "co_next_to_queue c = co_next_to_commit c" by (simp add: pool_inv_def)
    ultimately show ?thesis by (auto intro: pool_inv_idle)
  qed
  show ?thesis
  proof (cases "co_pc c = C_Drain")
    case True
    obtain m rest where rem: "pending_remove (co_pending c) (co_next_to_commit c) = (m, rest)" by fastforce
    show ?thesis
    proof (cases m)
      case None
      with True rem step idle show ?thesis
        by (auto simp: coordinate_sliding_ordered_commit_def sliding_drain_def Let_def goto_def left_ok_def split: if_splits)
    next
      case (Some m')
      with True rem step show ?thesis
        by (cases "msg_prepared m'") (auto simp: coordinate_sliding_ordered_commit_def sliding_drain_def fails_def goto_def left_ok_def
          dest: commit_prepared_Returns)
    qed
  next
    case False
    with step idle show ?thesis
      by (auto simp: coordinate_sliding_ordered_commit_def push_next_def receive_when_full_def wait_then_def keep_received_def
        receive_blocking_def goto_def fails_def left_ok_def
        split: coordinator_pc.splits TaskPush.splits prod.splits received.splits option.splits sum.splits if_splits)
  qed
qed

lemma windowed_left:
  assumes inv: "windowed_inv read prepare tasks window_size panic_mode commit W s0 p c"
    and step: "coordinate_windowed_ordered_commit tasks window_size panic_mode commit p c = Some (p', Returns r s)"
  shows "left_ok r p'"
proof -
  have idle: "idle p" if "\<not> co_window_start c < length tasks" "co_pc c = C_Head"
  proof -
    have "pool_inv read prepare tasks W (length tasks) (length tasks) (kept c) p"
      using inv that by (auto simp: windowed_inv_def windowed_at_def window_low_def)
    then show ?thesis by (rule pool_inv_idle)
  qed
  show ?thesis
  proof (cases "\<exists>i. co_pc c = C_Commit i")
    case True
    then obtain i where i: "co_pc c = C_Commit i" ..
    obtain m rest where rem: "pending_remove (co_pending c) i = (m, rest)" by fastforce
    have on: "\<exists>c'. goto (C_Commit (i + 1)) c = Goes_On c'" for c :: "('b, 'c) coordinator" by (simp add: goto_def)
    show ?thesis
    proof (cases m)
      case None
      with i rem step show ?thesis
        by (auto simp: coordinate_windowed_ordered_commit_def commit_window_def fails_def goto_def left_ok_def split: if_splits)
    next
      case (Some m')
      with i rem step show ?thesis
        by (cases "msg_prepared m'") (auto simp: coordinate_windowed_ordered_commit_def commit_window_def fails_def goto_def [where pc = C_Head]
          left_ok_def split: if_splits dest: commit_prepared_Returns [OF _ on, simplified])
    qed
  next
    case False
    with step idle show ?thesis
      by (auto simp: coordinate_windowed_ordered_commit_def open_window_def push_window_def push_next_def receive_when_full_def
        wait_then_def keep_received_def receive_blocking_def check_window_def goto_def fails_def left_ok_def Let_def
        split: coordinator_pc.splits TaskPush.splits prod.splits received.splits option.splits sum.splits if_splits)
  qed
qed


text \<open>
  The contract of a coordinator that makes progress: its steps lower a weight, keep the wakeups, leave a
  worker that can move when it is blocked, and leave the pool idle when everything is committed.
\<close>

locale live_coordination = coordination read prepare coordinate inv result_ok
  for read :: "'m read_fn"
    and prepare :: "('m, 'a) prepare_fn"
    and coordinate :: "'a pool \<Rightarrow> ('a, 's) coordinator \<Rightarrow> ('a pool \<times> ('a, 's) progress_to) option"
    and inv :: "'a pool \<Rightarrow> ('a, 's) coordinator \<Rightarrow> bool"
    and result_ok :: "CoordinatorReport presult \<Rightarrow> 's \<Rightarrow> bool" +
  fixes weight :: "('a, 's) coordinator \<Rightarrow> nat"
    and spin :: "TaskQueue \<Rightarrow> ('a, 's) coordinator \<Rightarrow> nat"
  assumes inv_live: "inv p c \<Longrightarrow> \<not> pl_cancelled p \<and> \<not> pl_receiver_dropped p"
    and spin_signal: "same_signal p p' \<Longrightarrow> spin (pl_task_queue p') c = spin (pl_task_queue p) c"
    and step_lower: "inv p c \<Longrightarrow> coordinate p c = Some st \<Longrightarrow> lower weight spin p c st"
    and keeps_awake: "inv p c \<Longrightarrow> awake p (co_pc c) \<Longrightarrow> coordinate p c = Some (p', Goes_On c') \<Longrightarrow> awake p' (co_pc c')"
    and blocked: "inv p c \<Longrightarrow> awake p (co_pc c) \<Longrightarrow> coordinate p c = None \<Longrightarrow>
      \<exists>w < length (pl_workers p). worker_next read prepare w p \<noteq> None"
    and leaves: "inv p c \<Longrightarrow> coordinate p c = Some (p', Returns r s) \<Longrightarrow> left_ok r p'"
begin

definition settled :: "'a pool \<Rightarrow> bool" where
  "settled p \<longleftrightarrow> pl_cancelled p \<or> idle p"

definition state_inv :: "'a pool \<times> ('a, 's) main_thread \<Rightarrow> bool" where
  "state_inv st \<longleftrightarrow> thread_inv st \<and> (case snd st of
     Coordinating c \<Rightarrow> awake (fst st) (co_pc c)
   | Cancelling r s \<Rightarrow> left_ok r (fst st)
   | Closing r s \<Rightarrow> settled (fst st)
   | _ \<Rightarrow> settled (fst st) \<and> tq_closed (pl_task_queue (fst st)))"

definition main_weight :: "('a, 's) main_thread \<Rightarrow> nat" where
  "main_weight t = (case t of Coordinating c \<Rightarrow> weight c | Cancelling _ _ \<Rightarrow> 4 | Closing _ _ \<Rightarrow> 3 | Dropping _ _ \<Rightarrow> 2
     | Joining _ _ \<Rightarrow> 1 | Joined _ _ \<Rightarrow> 0)"

definition main_spin :: "TaskQueue \<Rightarrow> ('a, 's) main_thread \<Rightarrow> nat" where
  "main_spin queue t = (case t of Coordinating c \<Rightarrow> spin queue c | _ \<Rightarrow> 0)"

definition state_weight :: "'a pool \<times> ('a, 's) main_thread \<Rightarrow> nat" where
  "state_weight = (\<lambda>(p, t). pool_weight p + main_weight t)"

definition state_spin :: "'a pool \<times> ('a, 's) main_thread \<Rightarrow> nat" where
  "state_spin = (\<lambda>(p, t). pool_spin p + main_spin (pl_task_queue p) t)"

lemma worker_keeps_idle:
  assumes "w < length (pl_workers p)" and "worker_next read prepare w p = Some p'"
  shows "settled p \<Longrightarrow> settled p'" and "left_ok r p \<Longrightarrow> left_ok r p'"
    and "tq_closed (pl_task_queue p') = tq_closed (pl_task_queue p)"
proof -
  have "pl_cancelled p' = pl_cancelled p" using assms(2) by (rule worker_next_cases)
  with idle_worker [OF _ assms] show "settled p \<Longrightarrow> settled p'" "left_ok r p \<Longrightarrow> left_ok r p'"
    by (auto simp: settled_def left_ok_def split: option.splits sum.splits)
  show "tq_closed (pl_task_queue p') = tq_closed (pl_task_queue p)" using assms(2) by (rule worker_next_cases)
qed

lemma state_inv_worker:
  assumes inv: "state_inv (p, t)" and w: "w < length (pl_workers p)" and step: "worker_next read prepare w p = Some p'"
  shows "state_inv (p', t)"
proof -
  have "thread_inv (p', t)"
    by (rule thread_inv_step [OF pool_step.worker_moves [OF w step]]) (use inv in \<open>simp add: state_inv_def\<close>)
  moreover have "awake p' (co_pc c)" if "t = Coordinating c" for c
  proof -
    from inv that have "inv p c" and aw: "awake p (co_pc c)" by (simp_all add: state_inv_def thread_inv_def)
    then have "\<not> pl_cancelled p" "\<not> pl_receiver_dropped p" using inv_live by blast+
    with aw w step show ?thesis by (rule awake_worker)
  qed
  ultimately show ?thesis
    using inv worker_keeps_idle [OF w step] by (auto simp: state_inv_def split: main_thread.splits)
qed

lemma idle_frame [simp]:
  "idle (p\<lparr>pl_cancelled := b\<rparr>) = idle p" "idle (p\<lparr>pl_receiver_dropped := b\<rparr>) = idle p"
  "idle (p\<lparr>pl_task_queue := TaskQueue_close (pl_task_queue p)\<rparr>) = idle p"
  by (simp_all add: idle_def pool_tasks_def pool_messages_def)

lemma state_inv_main:
  assumes inv: "state_inv (p, t)" and step: "main_next coordinate p t = Some (p', t')"
  shows "state_inv (p', t')"
proof -
  have thread: "thread_inv (p', t')"
    by (rule thread_inv_step [OF pool_step.main_moves [OF step]]) (use inv in \<open>simp add: state_inv_def\<close>)
  show ?thesis
  proof (cases t)
    case (Coordinating c)
    with inv have c: "inv p c" "awake p (co_pc c)" by (simp_all add: state_inv_def thread_inv_def)
    show ?thesis
    proof (cases "coordinate p c")
      case None
      with step Coordinating show ?thesis by (simp add: main_next_def)
    next
      case (Some a)
      with step Coordinating thread keeps_awake [OF c] leaves [OF c(1)] show ?thesis
        by (cases a; cases "snd a") (auto simp: main_next_def state_inv_def)
    qed
  next
    case (Cancelling r s)
    with step inv thread show ?thesis
      by (cases r) (auto simp: main_next_def state_inv_def settled_def left_ok_def cancel_def split: sum.splits)
  next
    case (Closing r s)
    with step inv thread show ?thesis by (auto simp: main_next_def state_inv_def settled_def)
  next
    case (Dropping r s)
    with step inv thread show ?thesis by (auto simp: main_next_def state_inv_def settled_def)
  next
    case (Joining r s)
    with step inv thread show ?thesis by (auto simp: main_next_def state_inv_def settled_def split: if_splits)
  next
    case (Joined r s)
    with step show ?thesis by (simp add: main_next_def)
  qed
qed

lemma state_inv_step:
  assumes "state_inv st" and "pool_step read prepare coordinate st st'"
  shows "state_inv st'"
  using assms(2,1) by cases (auto intro: state_inv_worker state_inv_main)

lemma state_inv_run:
  assumes "(pool_step read prepare coordinate)\<^sup>*\<^sup>* st st'" and "state_inv st"
  shows "state_inv st'"
  using assms by (induction rule: rtranclp_induct) (auto intro: state_inv_step)

text \<open>Every step lowers the weight, or keeps it and spends a retry; the generation of the signal is paid for.\<close>

lemma step_decreases:
  assumes "state_inv st" and "pool_step read prepare coordinate st st'"
  shows "(st', st) \<in> measures [state_weight, state_spin]"
    and "state_weight st' + tq_generation (pl_task_queue (fst st')) \<le> state_weight st + tq_generation (pl_task_queue (fst st))"
  using assms(2)
proof (atomize (full), cases)
  case (worker_moves w p p' t)
  have "main_spin (pl_task_queue p') t = main_spin (pl_task_queue p) t" if "same_signal p p'"
    using spin_signal [OF that] by (cases t) (simp_all add: main_spin_def)
  with worker_decreases [OF worker_moves(3,4)] worker_moves(1,2)
  show "(st', st) \<in> measures [state_weight, state_spin] \<and>
      state_weight st' + tq_generation (pl_task_queue (fst st')) \<le> state_weight st + tq_generation (pl_task_queue (fst st))"
    by (auto simp: state_weight_def state_spin_def)
next
  case (main_moves p t p' t')
  show "(st', st) \<in> measures [state_weight, state_spin] \<and>
      state_weight st' + tq_generation (pl_task_queue (fst st')) \<le> state_weight st + tq_generation (pl_task_queue (fst st))"
  proof (cases t)
    case (Coordinating c)
    with assms(1) main_moves(1) have "inv p c" by (simp add: state_inv_def thread_inv_def)
    moreover obtain out where out: "coordinate p c = Some (p', out)"
      and t': "t' = (case out of Goes_On c \<Rightarrow> Coordinating c | Returns r s \<Rightarrow> Cancelling r s)"
      using main_moves(3) Coordinating by (auto simp: main_next_def split: option.splits prod.splits progress_to.splits)
    ultimately have low: "lower weight spin p c (p', out)" by (auto intro: step_lower)
    then have workers: "pl_workers p' = pl_workers p" by (simp add: lower_def)
    have spin: "pool_spin p' = pool_spin p" if "same_signal p p'"
      by (simp add: pool_spin_def workers same_signal_spin [OF that])
    from low spin out t' Coordinating main_moves(1,2) show ?thesis
      by (cases out) (auto simp: lower_def state_weight_def state_spin_def main_weight_def main_spin_def)
  qed (use main_moves in \<open>auto simp: main_next_def state_weight_def main_weight_def pool_weight_def cancel_def TaskQueue_close_def
      split: option.splits sum.splits if_splits\<close>)
qed

lemma generation_bound:
  assumes "(pool_step read prepare coordinate)\<^sup>*\<^sup>* st st'" and "state_inv st"
  shows "tq_generation (pl_task_queue (fst st')) \<le> state_weight st + tq_generation (pl_task_queue (fst st))"
proof -
  have "state_weight st' + tq_generation (pl_task_queue (fst st')) \<le> state_weight st + tq_generation (pl_task_queue (fst st))"
    using assms
  proof (induction rule: rtranclp_induct)
    case (step st1 st2)
    with step_decreases(2) [OF state_inv_run [OF step(1)] step(2)] show ?case by simp
  qed simp
  then show ?thesis by simp
qed

lemma no_infinite_run:
  assumes "state_inv (run 0)"
  shows "\<not> (\<forall>i. pool_step read prepare coordinate (run i) (run (Suc i)))"
proof
  assume steps: "\<forall>i. pool_step read prepare coordinate (run i) (run (Suc i))"
  have "state_inv (run i)" for i by (induction i) (use assms steps state_inv_step in auto)
  then have "(run (Suc i), run i) \<in> measures [state_weight, state_spin]" for i using steps step_decreases(1) by blast
  moreover have "wf (measures [state_weight, state_spin])" by simp
  ultimately show False by (auto simp: wf_iff_no_infinite_down_chain)
qed

text \<open>A state that is not joined has a next step.\<close>

lemma worker_can_move:
  assumes "settled p" and "tq_closed (pl_task_queue p)" and "\<not> disconnected p"
  shows "\<exists>w < length (pl_workers p). worker_next read prepare w p \<noteq> None"
proof -
  from assms(3) obtain w where w: "w < length (pl_workers p)" "wk_pc (pl_workers p ! w) \<noteq> Finished"
    by (auto simp: disconnected_def list_all_length)
  have "worker_next read prepare w p \<noteq> None"
  proof (cases "pl_cancelled p")
    case True
    with w(2) show ?thesis
      by (auto simp: worker_next_def Let_def TaskQueue_pop_def try_send_def wait_for_progress_def
        split: worker_pc.splits prod.splits option.splits if_splits)
  next
    case False
    have "pl_workers p ! w \<in> set (pl_workers p)" using w(1) by simp
    with assms(1) False have "held_messages (wk_pc (pl_workers p ! w)) = []"
      by (auto simp: settled_def idle_def pool_messages_def)
    then have "wk_pc (pl_workers p ! w) \<noteq> Waiting m g" for m g by auto
    with worker_blocked [of read prepare w p] False w(2) assms(2) show ?thesis by blast
  qed
  with w(1) show ?thesis by blast
qed

lemma progress:
  assumes inv: "state_inv (p, t)" and "\<And>r s. t \<noteq> Joined r s"
  shows "\<exists>st'. pool_step read prepare coordinate (p, t) st'"
proof (cases "main_next coordinate p t")
  case (Some a)
  then show ?thesis by (cases a) (auto intro: pool_step.main_moves)
next
  case None
  have "\<exists>w < length (pl_workers p). worker_next read prepare w p \<noteq> None"
  proof (cases t)
    case (Coordinating c)
    with None have "coordinate p c = None" by (auto simp: main_next_def split: option.splits progress_to.splits prod.splits)
    with inv Coordinating show ?thesis by (intro blocked) (auto simp: state_inv_def thread_inv_def)
  next
    case (Joining r s)
    with None inv show ?thesis by (intro worker_can_move) (auto simp: main_next_def state_inv_def split: if_splits)
  qed (use None assms(2) in \<open>auto simp: main_next_def\<close>)
  then show ?thesis by (auto intro: pool_step.worker_moves)
qed

lemma reaches_join:
  assumes "state_inv st"
  shows "\<exists>p r s. (pool_step read prepare coordinate)\<^sup>*\<^sup>* st (p, Joined r s)"
  using assms
proof (induction st rule: wf_induct_rule [OF wf_measures [of "[state_weight, state_spin]"]])
  case (1 st)
  show ?case
  proof (cases "\<exists>r s. snd st = Joined r s")
    case True
    then show ?thesis by (metis prod.collapse rtranclp.rtrancl_refl)
  next
    case False
    with progress [of "fst st" "snd st"] 1(2) obtain st' where step: "pool_step read prepare coordinate st st'" by auto
    with 1 step_decreases(1) state_inv_step have "\<exists>p r s. (pool_step read prepare coordinate)\<^sup>*\<^sup>* st' (p, Joined r s)" by blast
    with step show ?thesis by (meson converse_rtranclp_into_rtranclp)
  qed
qed

end

lemma coordinator_inv_live:
  "sliding_inv read prepare tasks max_in_flight panic_mode commit W s0 p c \<Longrightarrow> \<not> pl_cancelled p \<and> \<not> pl_receiver_dropped p"
  "windowed_inv read prepare tasks window_size panic_mode commit W s0 p c \<Longrightarrow> \<not> pl_cancelled p \<and> \<not> pl_receiver_dropped p"
  by (simp_all add: sliding_inv_def windowed_inv_def pool_inv_def)

interpretation sliding_live: live_coordination read prepare
  "coordinate_sliding_ordered_commit tasks max_in_flight panic_mode commit"
  "sliding_inv read prepare tasks max_in_flight panic_mode commit W s0"
  "sliding_result_ok read prepare tasks panic_mode commit W s0"
  "sliding_weight tasks" sliding_spin
  for read prepare tasks max_in_flight panic_mode commit W s0
proof unfold_locales
  fix p p' :: "'b pool" and c :: "('b, 'c) coordinator"
  assume same: "same_signal p p'"
  have "fresh (pl_task_queue p') g = fresh (pl_task_queue p) g" for g
    using same by (cases g) (simp_all add: same_signal_def)
  with same show "sliding_spin (pl_task_queue p') c = sliding_spin (pl_task_queue p) c"
    by (simp add: sliding_spin_def same_signal_def split: coordinator_pc.splits)
qed (blast intro: sliding_lower sliding_awake sliding_blocked sliding_left dest: coordinator_inv_live)+

interpretation windowed_live: live_coordination read prepare
  "coordinate_windowed_ordered_commit tasks window_size panic_mode commit"
  "windowed_inv read prepare tasks window_size panic_mode commit W s0"
  "windowed_result_ok read prepare tasks window_size panic_mode commit W s0"
  "windowed_weight tasks" "windowed_spin tasks"
  for read prepare tasks window_size panic_mode commit W s0
proof unfold_locales
  fix p p' :: "'b pool" and c :: "('b, 'c) coordinator"
  assume same: "same_signal p p'"
  have "fresh (pl_task_queue p') g = fresh (pl_task_queue p) g" for g
    using same by (cases g) (simp_all add: same_signal_def)
  with same show "windowed_spin tasks (pl_task_queue p') c = windowed_spin tasks (pl_task_queue p) c"
    by (simp add: windowed_spin_def same_signal_def split: coordinator_pc.splits)
qed (blast intro: windowed_lower windowed_awake windowed_blocked windowed_left dest: coordinator_inv_live)+

end
