(* ===== verification/Ordered_Properties.thy ===== *)
theory Ordered_Properties
  imports Ordered_Progress
begin

text \<open>
  The properties of bounded parallel preparation: whatever the threads do, the call ends, and its outcome is
  that of a sequential run over the same tasks.
\<close>

section \<open>The first state\<close>

lemma pool_inv_start:
  assumes "0 < W"
  shows "pool_inv read prepare tasks W 0 0 [] (pool_start runtime notifications W)"
  using assms
  by (auto simp: pool_inv_def pool_start_def TaskQueue_new_def pool_ordinals_def pool_tasks_def pool_messages_def held_ordinals_def)

lemma sliding_inv_start:
  assumes "0 < W" and "0 < max_in_flight" and "ordinals tasks" and "length tasks \<le> usize_max"
  shows "sliding_inv read prepare tasks max_in_flight panic_mode commit W s (pool_start runtime notifications W) (coordinator_start s)"
  using assms pool_inv_start [OF assms(1)]
  by (auto intro: history_start simp: sliding_inv_def sliding_locals_def sliding_at_def coordinator_start_def kept_def keys_ok_def
    CoordinatorReport_default_def Let_def)

lemma windowed_inv_start:
  assumes "0 < W" and "0 < window_size" and "ordinals tasks" and "length tasks \<le> usize_max"
  shows "windowed_inv read prepare tasks window_size panic_mode commit W s (pool_start runtime notifications W) (coordinator_start s)"
  using assms pool_inv_start [OF assms(1)]
  by (auto intro: window_history_start simp: windowed_defs windowed_locals_def coordinator_start_def keys_ok_def CoordinatorReport_default_def)

lemma awake_start: "awake (pool_start runtime notifications W) (co_pc (coordinator_start s))"
  by (simp add: awake_def pool_start_def coordinator_start_def)

lemma live_start:
  assumes "0 < W" and "0 < max_in_flight" and "ordinals tasks" and "length tasks \<le> usize_max"
  shows "live_coordination.state_inv (sliding_inv read prepare tasks max_in_flight panic_mode commit W s)
      (sliding_result_ok read prepare tasks panic_mode commit W s)
      (pool_start runtime notifications W, Coordinating (coordinator_start s))"
    and "live_coordination.state_inv (windowed_inv read prepare tasks max_in_flight panic_mode commit W s)
      (windowed_result_ok read prepare tasks max_in_flight panic_mode commit W s)
      (pool_start runtime notifications W, Coordinating (coordinator_start s))"
  by (simp_all add: sliding_inv_start [OF assms] windowed_inv_start [OF assms] awake_start sliding_live.state_inv_def windowed_live.state_inv_def sliding.thread_inv_def windowed.thread_inv_def)

text \<open>The calls the theorems are about: some tasks, numbered in order, with a worker and room for one in flight.\<close>

definition started_workers ::
  "ParallelPrepareTaskSpec list \<Rightarrow> ColumnBundleReadReport \<Rightarrow> ColumnBundleParallelPrepareOptions \<Rightarrow> usize" where
  "started_workers tasks base_report options =
     min (min (rr_effective_threads base_report) (ppo_max_in_flight_row_groups options)) (length tasks)"

definition runnable ::
  "ParallelPrepareTaskSpec list \<Rightarrow> ColumnBundleReadReport \<Rightarrow> ColumnBundleParallelPrepareOptions \<Rightarrow> bool" where
  "runnable tasks base_report options \<longleftrightarrow>
     tasks \<noteq> [] \<and> ordinals tasks \<and> length tasks \<le> usize_max \<and> length tasks = rr_selected_row_groups base_report \<and>
     0 < rr_effective_threads base_report \<and> 0 < ppo_max_in_flight_row_groups options"

definition pool_first ::
  "ParallelPrepareTaskSpec list \<Rightarrow> ColumnBundleReadReport \<Rightarrow> ColumnBundleParallelPrepareOptions \<Rightarrow>
   ParallelPrepareRuntimeOptions \<Rightarrow> OrderedCommitMode \<Rightarrow> 's \<Rightarrow> 'a pool \<times> ('a, 's) main_thread" where
  "pool_first tasks base_report options runtime commit_mode s =
     (let window_size = min (ppo_max_in_flight_row_groups options) (length tasks) in
     (pool_start runtime (commit_mode = Sliding \<or> pro_task_queue_capacity runtime < window_size \<or>
        pro_result_queue_capacity runtime < window_size) (started_workers tasks base_report options),
      Coordinating (coordinator_start s)))"

definition bounded_summary :: "BoundedOrderedOutcome \<Rightarrow> committed \<times> bool" where
  "bounded_summary outcome = (let report = boo_report outcome in
     ((ppr_row_groups_ordered_committed report, ppr_rows_ordered_committed report),
      ccr_cancelled (ppr_cursor_report report)))"

lemma started_workers_pos: "runnable tasks base_report options \<Longrightarrow> 0 < started_workers tasks base_report options"
  by (cases tasks) (auto simp: runnable_def started_workers_def)

lemma ran_cases:
  assumes "execute_bounded_ordered_with_runtime tasks base_report options runtime commit_mode panic_mode read prepare commit s outcome s'"
    and "runnable tasks base_report options"
  obtains p r where
    "(pool_step read prepare (coordinate_ordered_commit commit_mode tasks (ppo_max_in_flight_row_groups options) panic_mode commit))\<^sup>*\<^sup>*
      (pool_first tasks base_report options runtime commit_mode s) (p, Joined r s')"
    and "map_option (map_sum id bounded_summary) outcome = outcome_of r"
  using assms(1)
proof cases
  case (ran max_in_flight W window_size p r)
  have "map_option (map_sum id bounded_summary) outcome = outcome_of r"
  proof -
    have "bounded_summary \<circ> (\<lambda>coordinator. bounded_ordered_outcome base requested W n coordinator p) = summary" for base requested W n
      by (simp add: fun_eq_iff bounded_summary_def summary_def bounded_ordered_outcome_def Let_def)
    then show ?thesis unfolding ran(8) outcome_of_def by (simp add: option.map_comp sum.map_comp id_def comp_def)
  qed
  with ran show thesis by (intro that) (simp_all add: pool_first_def started_workers_def Let_def)
qed (use assms(2) in \<open>auto simp: runnable_def\<close>)

lemma run_cases:
  assumes "runnable tasks base_report options"
    and "(pool_step read prepare (coordinate_ordered_commit commit_mode tasks (ppo_max_in_flight_row_groups options) panic_mode commit))\<^sup>*\<^sup>*
      (pool_first tasks base_report options runtime commit_mode s) (p, Joined r s')"
  shows "\<exists>outcome. execute_bounded_ordered_with_runtime tasks base_report options runtime commit_mode panic_mode read prepare commit s outcome s'"
proof (rule exI)
  note run = assms(2) [unfolded pool_first_def started_workers_def Let_def]
  show "execute_bounded_ordered_with_runtime tasks base_report options runtime commit_mode panic_mode read prepare commit s
      (map_option (map_sum id (\<lambda>coordinator. bounded_ordered_outcome
        (base_report\<lparr>rr_effective_threads := started_workers tasks base_report options\<rparr>) (rr_requested_threads base_report)
        (started_workers tasks base_report options) (length tasks) coordinator p)) r) s'"
    unfolding started_workers_def
    by (rule execute_bounded_ordered_with_runtime.ran [OF _ _ _ refl refl refl run refl]) (use assms(1) in \<open>auto simp: runnable_def\<close>)
qed

lemma coordinate_modes [simp]:
  "coordinate_ordered_commit Sliding = coordinate_sliding_ordered_commit"
  "coordinate_ordered_commit Windowed = coordinate_windowed_ordered_commit"
  by (simp_all add: coordinate_ordered_commit_def)

lemma first_live:
  assumes "runnable tasks base_report options"
  shows "live_coordination.state_inv
      (sliding_inv read prepare tasks (ppo_max_in_flight_row_groups options) panic_mode commit (started_workers tasks base_report options) s)
      (sliding_result_ok read prepare tasks panic_mode commit (started_workers tasks base_report options) s)
      (pool_first tasks base_report options runtime commit_mode s)"
    and "live_coordination.state_inv
      (windowed_inv read prepare tasks (ppo_max_in_flight_row_groups options) panic_mode commit (started_workers tasks base_report options) s)
      (windowed_result_ok read prepare tasks (ppo_max_in_flight_row_groups options) panic_mode commit
        (started_workers tasks base_report options) s)
      (pool_first tasks base_report options runtime commit_mode s)"
proof -
  have start: "0 < started_workers tasks base_report options" "0 < ppo_max_in_flight_row_groups options" "ordinals tasks"
    "length tasks \<le> usize_max"
    using assms started_workers_pos by (auto simp: runnable_def)
  show "live_coordination.state_inv
      (sliding_inv read prepare tasks (ppo_max_in_flight_row_groups options) panic_mode commit (started_workers tasks base_report options) s)
      (sliding_result_ok read prepare tasks panic_mode commit (started_workers tasks base_report options) s)
      (pool_first tasks base_report options runtime commit_mode s)"
    unfolding pool_first_def Let_def by (rule live_start(1) [OF start])
  show "live_coordination.state_inv
      (windowed_inv read prepare tasks (ppo_max_in_flight_row_groups options) panic_mode commit (started_workers tasks base_report options) s)
      (windowed_result_ok read prepare tasks (ppo_max_in_flight_row_groups options) panic_mode commit
        (started_workers tasks base_report options) s)
      (pool_first tasks base_report options runtime commit_mode s)"
    unfolding pool_first_def Let_def by (rule live_start(2) [OF start])
qed

lemma first_reaches_join:
  assumes "runnable tasks base_report options"
  shows "\<exists>p r s'. (pool_step read prepare
      (coordinate_ordered_commit commit_mode tasks (ppo_max_in_flight_row_groups options) panic_mode commit))\<^sup>*\<^sup>*
    (pool_first tasks base_report options runtime commit_mode s) (p, Joined r s')"
  by (cases commit_mode)
    (simp_all add: sliding_live.reaches_join [OF first_live(1) [OF assms]] windowed_live.reaches_join [OF first_live(2) [OF assms]])

lemma windowed_outcome:
  assumes "runnable tasks base_report options"
    and "execute_bounded_ordered_with_runtime tasks base_report options runtime Windowed panic_mode read prepare commit s outcome s'"
  shows "\<exists>r. windowed_result_ok read prepare tasks (ppo_max_in_flight_row_groups options) panic_mode commit
      (started_workers tasks base_report options) s r s' \<and> map_option (map_sum id bounded_summary) outcome = outcome_of r"
proof -
  let ?W = "started_workers tasks base_report options" and ?n = "ppo_max_in_flight_row_groups options"
  obtain p r where run: "(pool_step read prepare (coordinate_ordered_commit Windowed tasks ?n panic_mode commit))\<^sup>*\<^sup>*
      (pool_first tasks base_report options runtime Windowed s) (p, Joined r s')"
    and out: "map_option (map_sum id bounded_summary) outcome = outcome_of r"
    using assms(2,1) by (rule ran_cases)
  have inv: "windowed_inv read prepare tasks ?n panic_mode commit ?W s (pool_start runtime b ?W) (coordinator_start s)" for b
    by (rule windowed_inv_start) (use assms(1) started_workers_pos in \<open>auto simp: runnable_def\<close>)
  from run obtain b where "(pool_step read prepare (coordinate_windowed_ordered_commit tasks ?n panic_mode commit))\<^sup>*\<^sup>*
      (pool_start runtime b ?W, Coordinating (coordinator_start s)) (p, Joined r s')"
    by (simp add: pool_first_def Let_def)
  from windowed.run_result [OF this inv] out show ?thesis by blast
qed

lemma outcome_exists:
  assumes "runnable tasks base_report options"
  shows "\<exists>outcome s'. execute_bounded_ordered_with_runtime tasks base_report options runtime commit_mode panic_mode read prepare commit s outcome s'"
proof -
  obtain p r s' where run: "(pool_step read prepare
      (coordinate_ordered_commit commit_mode tasks (ppo_max_in_flight_row_groups options) panic_mode commit))\<^sup>*\<^sup>*
    (pool_first tasks base_report options runtime commit_mode s) (p, Joined r s')"
    using first_reaches_join [OF assms, where read = read and prepare = prepare and commit_mode = commit_mode and
      panic_mode = panic_mode and commit = commit and runtime = runtime and s = s] by blast
  show ?thesis using run_cases [OF assms run] by blast
qed

text \<open>The ordinals in flight are consecutive, and no more than allowed.\<close>

lemma in_flight_range:
  assumes "runnable tasks base_report options"
    and "(pool_step read prepare (coordinate_ordered_commit commit_mode tasks (ppo_max_in_flight_row_groups options) panic_mode commit))\<^sup>*\<^sup>*
      (pool_first tasks base_report options runtime commit_mode s) (p, Coordinating c)"
  obtains lo hi where "pool_ordinals p + mset (map message_ordinal (kept c)) = mset [lo..<hi]"
    and "hi - lo \<le> ppo_max_in_flight_row_groups options" and "hi \<le> length tasks"
proof -
  let ?W = "started_workers tasks base_report options" and ?n = "ppo_max_in_flight_row_groups options"
  have start: "0 < ?W" "0 < ?n" "ordinals tasks" "length tasks \<le> usize_max"
    using assms(1) started_workers_pos by (auto simp: runnable_def)
  show thesis
  proof (cases commit_mode)
    case Sliding
    with assms(2) have "sliding_inv read prepare tasks ?n panic_mode commit ?W s p c"
      by (auto simp: pool_first_def Let_def intro: sliding.run_invariant sliding_inv_start [OF start])
    then show thesis
      by (intro that [of "co_next_to_commit c" "co_next_to_queue c"])
        (auto simp: sliding_inv_def sliding_locals_def pool_inv_def Let_def)
  next
    case Windowed
    with assms(2) have inv: "windowed_inv read prepare tasks ?n panic_mode commit ?W s p c"
      by (auto simp: pool_first_def Let_def intro: windowed.run_invariant windowed_inv_start [OF start])
    then have "co_next_to_queue c - window_low tasks c \<le> ?n"
      by (auto simp: windowed_inv_def windowed_at_def window_low_def in_window_def split: coordinator_pc.splits)
    with inv show thesis
      by (intro that [of "window_low tasks c" "co_next_to_queue c"]) (auto simp: windowed_inv_def windowed_locals_def pool_inv_def)
  qed
qed

section \<open>Properties\<close>

text \<open>C2. A call of the sliding mode refines a sequential run: for some assignment of workers to tasks, the
  row groups and rows committed, whether the callback stopped, the error or panic, and the final state of the
  callback are those of reading, preparing and committing the tasks one after the other in plan order,
  up to the first failure.\<close>

theorem sliding_refines_sequential:
  assumes "runnable tasks base_report options"
    and "execute_bounded_ordered_with_runtime tasks base_report options runtime Sliding panic_mode read prepare commit s outcome s'"
  shows "\<exists>ws. (\<forall>i. ws i < started_workers tasks base_report options) \<and>
    commit_all panic_mode commit (messages read prepare tasks ws 0 (length tasks)) (0, 0) s =
      (map_option (map_sum id bounded_summary) outcome, s')"
proof -
  let ?W = "started_workers tasks base_report options"
  obtain p r where run: "(pool_step read prepare (coordinate_ordered_commit Sliding tasks (ppo_max_in_flight_row_groups options) panic_mode commit))\<^sup>*\<^sup>*
      (pool_first tasks base_report options runtime Sliding s) (p, Joined r s')"
    and out: "map_option (map_sum id bounded_summary) outcome = outcome_of r"
    using assms(2,1) by (rule ran_cases)
  have inv: "sliding_inv read prepare tasks (ppo_max_in_flight_row_groups options) panic_mode commit ?W s
      (pool_start runtime True ?W) (coordinator_start s)"
    by (rule sliding_inv_start) (use assms(1) started_workers_pos in \<open>auto simp: runnable_def\<close>)
  from run have "(pool_step read prepare (coordinate_sliding_ordered_commit tasks (ppo_max_in_flight_row_groups options) panic_mode commit))\<^sup>*\<^sup>*
      (pool_start runtime True ?W, Coordinating (coordinator_start s)) (p, Joined r s')"
    by (simp add: pool_first_def Let_def)
  from sliding.run_result [OF this inv] show ?thesis unfolding out by (simp add: sliding_result_ok_def)
qed

text \<open>C3. A call of the windowed mode refines a sequential run over the windows of the plan: a window with a
  failed task ends the call with the error of its first failed task and commits nothing of that window.\<close>

theorem windowed_refines_sequential:
  assumes "runnable tasks base_report options"
    and "execute_bounded_ordered_with_runtime tasks base_report options runtime Windowed panic_mode read prepare commit s outcome s'"
  shows "\<exists>ws. (\<forall>i. ws i < started_workers tasks base_report options) \<and>
    commit_windows panic_mode commit
      (vec_chunks (ppo_max_in_flight_row_groups options) (messages read prepare tasks ws 0 (length tasks))) (0, 0) s =
      (map_option (map_sum id bounded_summary) outcome, s')"
  using windowed_outcome [OF assms] by (auto simp: windowed_result_ok_def)


text \<open>C4. No call runs forever: there is no infinite interleaving of the coordinating thread and the workers, in
  either mode and for all queue capacities.\<close>

theorem bounded_ordered_terminates:
  assumes "runnable tasks base_report options" and "run 0 = pool_first tasks base_report options runtime commit_mode s"
  shows "\<not> (\<forall>i. pool_step read prepare
    (coordinate_ordered_commit commit_mode tasks (ppo_max_in_flight_row_groups options) panic_mode commit) (run i) (run (Suc i)))"
proof (cases commit_mode)
  case Sliding
  from sliding_live.no_infinite_run [of _ _ _ _ _ _ _ _ run, 
      OF first_live(1) [OF assms(1), where read = read and prepare = prepare and panic_mode = panic_mode and commit = commit
        and s = s and runtime = runtime and commit_mode = commit_mode, folded assms(2)]]
  show ?thesis unfolding Sliding coordinate_modes .
next
  case Windowed
  from windowed_live.no_infinite_run [of _ _ _ _ _ _ _ _ run, 
      OF first_live(2) [OF assms(1), where read = read and prepare = prepare and panic_mode = panic_mode and commit = commit
        and s = s and runtime = runtime and commit_mode = commit_mode, folded assms(2)]]
  show ?thesis unfolding Windowed coordinate_modes .
qed

text \<open>C5. No call is stuck: in every state the threads reach, some thread can take a step, or the workers are
  joined and the call returns.\<close>

theorem bounded_ordered_no_deadlock:
  assumes "runnable tasks base_report options"
    and "(pool_step read prepare (coordinate_ordered_commit commit_mode tasks (ppo_max_in_flight_row_groups options) panic_mode commit))\<^sup>*\<^sup>*
      (pool_first tasks base_report options runtime commit_mode s) (p, t)"
  shows "(\<exists>r s'. t = Joined r s') \<or> (\<exists>st. pool_step read prepare
    (coordinate_ordered_commit commit_mode tasks (ppo_max_in_flight_row_groups options) panic_mode commit) (p, t) st)"
proof (cases "\<exists>r s'. t = Joined r s'")
  case False
  show ?thesis
  proof (cases commit_mode)
    case Sliding
    note inv = sliding_live.state_inv_run [OF assms(2) [unfolded Sliding coordinate_modes] first_live(1) [OF assms(1)]]
    from sliding_live.progress [OF inv] False show ?thesis unfolding Sliding coordinate_modes by blast
  next
    case Windowed
    note inv = windowed_live.state_inv_run [OF assms(2) [unfolded Windowed coordinate_modes] first_live(2) [OF assms(1)]]
    from windowed_live.progress [OF inv] False show ?thesis unfolding Windowed coordinate_modes by blast
  qed
qed simp

text \<open>C6. At most \<open>max_in_flight_row_groups\<close> row groups are launched and not yet retired: those in the task queue,
  with the workers, in the result channel and kept by the coordinator together.\<close>

theorem bounded_ordered_in_flight:
  assumes "runnable tasks base_report options"
    and "(pool_step read prepare (coordinate_ordered_commit commit_mode tasks (ppo_max_in_flight_row_groups options) panic_mode commit))\<^sup>*\<^sup>*
      (pool_first tasks base_report options runtime commit_mode s) (p, Coordinating c)"
  shows "size (pool_ordinals p) + length (kept c) \<le> ppo_max_in_flight_row_groups options"
proof -
  obtain lo hi where range: "pool_ordinals p + mset (map message_ordinal (kept c)) = mset [lo..<hi]"
    and "hi - lo \<le> ppo_max_in_flight_row_groups options"
    using assms by (rule in_flight_range)
  moreover from arg_cong [OF range, of size] have "size (pool_ordinals p) + length (kept c) = hi - lo" by simp
  ultimately show ?thesis by simp
qed


section \<open>Examples\<close>

text \<open>
  Three row groups, two workers and two row groups in flight; the callback collects the row-group ids.  In the
  second example the read of row group 1 fails.
\<close>

definition ex_tasks :: "ParallelPrepareTaskSpec list" where
  "ex_tasks = map (\<lambda>i. \<lparr>pts_selected_row_group_ordinal = i, pts_row_group_id = of_nat i, pts_base_row = of_nat (4 * i),
     pts_row_end = of_nat (4 * i + 4), pts_row_count = 4\<rparr>) [0..<3]"

definition ex_base_report :: ColumnBundleReadReport where
  "ex_base_report = build_read_report 2 3 0 1"

definition ex_options :: ColumnBundleParallelPrepareOptions where
  "ex_options = \<lparr>ppo_max_in_flight_row_groups = 2\<rparr>"

definition ex_read :: "unit read_fn" where
  "ex_read context = Some (Inr ((), ReadAttributionAccumulator_default))"

definition ex_failing_read :: "unit read_fn" where
  "ex_failing_read context =
     Some (if ctx_row_group_id context = 1 then Inl (ocb_corrupt_file ''unreadable'') else Inr ((), ReadAttributionAccumulator_default))"

definition ex_prepare :: "(unit, u32) prepare_fn" where
  "ex_prepare context batch = Some (Inr (ctx_row_group_id context))"

definition ex_commit :: "(u32, u32 list) commit_fn" where
  "ex_commit context prepared s = (Some (Inr Visit_Continue), s @ [prepared])"

lemma ex_runnable: "runnable ex_tasks ex_base_report ex_options"
  by (simp add: runnable_def ex_tasks_def ex_base_report_def ex_options_def ordinals_def build_read_report_def Let_def usize_max_def
    upt_rec)

lemma ex_tasks_length: "length ex_tasks = 3"
  by (simp add: ex_tasks_def)

lemma ex_messages:
  "messages read ex_prepare ex_tasks ws 0 3 =
    map (\<lambda>i. message_of read ex_prepare (ws i) (ex_tasks ! i)) [0, 1, 2]"
  by (simp add: upt_rec numeral_2_eq_2)

lemma ex_message:
  assumes "i < 3"
  shows "message_of ex_read ex_prepare w (ex_tasks ! i) =
      \<lparr>msg_context = context_of w (ex_tasks ! i), msg_prepared = Inr (of_nat i)\<rparr>"
    and "message_of ex_failing_read ex_prepare w (ex_tasks ! i) =
      \<lparr>msg_context = context_of w (ex_tasks ! i),
       msg_prepared = (if i = 1 then Inl (ocb_corrupt_file ''unreadable'') else Inr (of_nat i))\<rparr>"
  using assms
  by (auto simp: message_of_def prepared_result_def ex_read_def ex_failing_read_def ex_prepare_def ex_tasks_def context_of_def pbind_def
    less_Suc_eq numeral_3_eq_3)

theorem sliding_refines_sequential_witness:
  "\<exists>outcome. execute_bounded_ordered_with_runtime ex_tasks ex_base_report ex_options (production 2) Sliding ConvertToError
     ex_read ex_prepare ex_commit [] outcome [0, 1, 2]"
proof -
  obtain outcome s' where out: "execute_bounded_ordered_with_runtime ex_tasks ex_base_report ex_options (production 2) Sliding
      ConvertToError ex_read ex_prepare ex_commit [] outcome s'"
    using first_reaches_join [OF ex_runnable] run_cases [OF ex_runnable] by metis
  obtain ws where "commit_all ConvertToError ex_commit (messages ex_read ex_prepare ex_tasks ws 0 3) (0, 0) [] =
      (map_option (map_sum id bounded_summary) outcome, s')"
    using sliding_refines_sequential [OF ex_runnable out] by (auto simp: ex_tasks_length)
  then have "s' = [0, 1, 2]"
    unfolding ex_messages by (simp add: ex_message invoke_ordered_commit_def ex_commit_def)
  with out show ?thesis by blast
qed

theorem windowed_refines_sequential_witness:
  "\<exists>outcome. execute_bounded_ordered_with_runtime ex_tasks ex_base_report ex_options (production 2) Windowed ConvertToError
     ex_failing_read ex_prepare ex_commit [] outcome [] \<and>
     map_option (map_sum id bounded_summary) outcome = Some (Inl (ocb_corrupt_file ''unreadable''))"
proof -
  obtain outcome s' where out: "execute_bounded_ordered_with_runtime ex_tasks ex_base_report ex_options (production 2) Windowed
      ConvertToError ex_failing_read ex_prepare ex_commit [] outcome s'"
    using first_reaches_join [OF ex_runnable] run_cases [OF ex_runnable] by metis
  obtain ws where "commit_windows ConvertToError ex_commit
      (vec_chunks 2 (messages ex_failing_read ex_prepare ex_tasks ws 0 3)) (0, 0) [] =
      (map_option (map_sum id bounded_summary) outcome, s')"
    using windowed_refines_sequential [OF ex_runnable out] by (auto simp: ex_tasks_length ex_options_def)
  then have "s' = [] \<and> map_option (map_sum id bounded_summary) outcome = Some (Inl (ocb_corrupt_file ''unreadable''))"
    unfolding ex_messages by (simp add: ex_message vec_chunks.simps first_error_def)
  with out show ?thesis by blast
qed

theorem bounded_ordered_terminates_witness:
  "\<exists>i :: nat. \<not> pool_step ex_read ex_prepare (coordinate_ordered_commit Windowed ex_tasks 2 ConvertToError ex_commit)
     (pool_first ex_tasks ex_base_report ex_options (production 2) Windowed [])
     (pool_first ex_tasks ex_base_report ex_options (production 2) Windowed [])"
  using bounded_ordered_terminates [OF ex_runnable, where run = "\<lambda>_. pool_first ex_tasks ex_base_report ex_options (production 2) Windowed []"
      and read = ex_read and prepare = ex_prepare and panic_mode = ConvertToError and commit = ex_commit, OF refl]
  by (simp add: ex_options_def)

theorem bounded_ordered_no_deadlock_witness:
  "\<exists>st. pool_step ex_read ex_prepare (coordinate_ordered_commit Windowed ex_tasks 2 ConvertToError ex_commit)
     (pool_first ex_tasks ex_base_report ex_options (production 2) Windowed []) st"
  using bounded_ordered_no_deadlock [OF ex_runnable, where commit_mode = Windowed and s = "[]" and runtime = "production 2"
      and read = ex_read and prepare = ex_prepare and panic_mode = ConvertToError and commit = ex_commit
      and p = "fst (pool_first ex_tasks ex_base_report ex_options (production 2) Windowed ([] :: u32 list))"
      and t = "snd (pool_first ex_tasks ex_base_report ex_options (production 2) Windowed ([] :: u32 list))"]
  by (simp add: ex_options_def pool_first_def Let_def)

text \<open>Steps of the coordinating thread alone.\<close>

fun main_steps ::
  "('a pool \<Rightarrow> ('a, 's) coordinator \<Rightarrow> ('a pool \<times> ('a, 's) progress_to) option) \<Rightarrow> nat \<Rightarrow>
   'a pool \<times> ('a, 's) main_thread \<Rightarrow> ('a pool \<times> ('a, 's) main_thread) option" where
  "main_steps coordinate 0 st = Some st"
| "main_steps coordinate (Suc n) st =
     (case main_next coordinate (fst st) (snd st) of None \<Rightarrow> None | Some st \<Rightarrow> main_steps coordinate n st)"

lemma main_steps_reach: "main_steps coordinate n st = Some st' \<Longrightarrow> (pool_step read prepare coordinate)\<^sup>*\<^sup>* st st'"
proof (induction n arbitrary: st)
  case (Suc n)
  then obtain st1 where "main_next coordinate (fst st) (snd st) = Some st1" "main_steps coordinate n st1 = Some st'"
    by (auto split: option.splits)
  with Suc.IH show ?case
    by (metis converse_rtranclp_into_rtranclp pool_step.main_moves prod.collapse)
qed simp

lemma ex_two_queued:
  obtains p c where "main_steps (coordinate_ordered_commit Sliding ex_tasks 2 ConvertToError ex_commit) 6
      (pool_first ex_tasks ex_base_report ex_options (production 2) Sliding []) = Some (p, Coordinating c)"
    and "tq_tasks (pl_task_queue p) = [ex_tasks ! 0, ex_tasks ! 1]" and "pl_results p = []" and "\<forall>x \<in> set (pl_workers p). wk_pc x = Popping"
proof -
  have small: "Suc 0 \<le> usize_max" "Suc (Suc 0) \<le> usize_max" by (simp_all add: usize_max_def)
  have len: "length ex_tasks = Suc (Suc (Suc 0))" by (simp add: ex_tasks_length)
  show thesis
    by (rule that, simp add: eval_nat_numeral main_next_def pool_first_def pool_start_def coordinator_start_def
      coordinate_sliding_ordered_commit_def sliding_drain_def pending_remove_def hash_get_def goto_def push_next_def try_push_def
      TaskQueue_new_def production_def Let_def CoordinatorReport_default_def count_queued_def close_task_full_wait_def
      usize_saturating_add_def min_absorb1 small len, simp_all)
qed

theorem bounded_ordered_in_flight_witness:
  "\<exists>p c. (pool_step ex_read ex_prepare (coordinate_ordered_commit Sliding ex_tasks 2 ConvertToError ex_commit))\<^sup>*\<^sup>*
      (pool_first ex_tasks ex_base_report ex_options (production 2) Sliding []) (p, Coordinating c) \<and>
     size (pool_ordinals p) = 2 \<and> size (pool_ordinals p) + length (kept c) \<le> 2"
proof -
  obtain p c where run: "main_steps (coordinate_ordered_commit Sliding ex_tasks 2 ConvertToError ex_commit) 6
      (pool_first ex_tasks ex_base_report ex_options (production 2) Sliding []) = Some (p, Coordinating c)"
    and queued: "tq_tasks (pl_task_queue p) = [ex_tasks ! 0, ex_tasks ! 1]" "pl_results p = []"
      "\<forall>x \<in> set (pl_workers p). wk_pc x = Popping"
    by (rule ex_two_queued)
  have "(\<Sum>x\<in>#mset (pl_workers p). held_ordinals x) = {#}" using queued(3) by (simp add: held_ordinals_def)
  then have "size (pool_ordinals p) = 2" unfolding pool_ordinals_def by (simp only: queued(1,2)) simp
  with main_steps_reach [OF run] bounded_ordered_in_flight [OF ex_runnable, of _ _ Sliding ConvertToError ex_commit "production 2" "[]" p c]
  show ?thesis by (fastforce simp: ex_options_def)
qed

end
