(* ===== verification/Fixed_Binary.thy ===== *)
theory Fixed_Binary
  imports Fill_Read
begin

text \<open>
  Fixed-binary records (\<open>column_bundle.rs\<close>): the view of a fixed-binary column as records, the projection of
  little-endian fields into typed buffers, and the reusable projection buffers.

  The code has a mutable, a borrowed and an owned enumeration of field values with the same
  constructors; the model has one datatype.  The wall time in the projection report is not modelled.
\<close>

section \<open>Field types and values\<close>

datatype FixedBinaryFieldType =
    Field_U8
  | Field_I8
  | Field_U16Le
  | Field_I16Le
  | Field_U32Le
  | Field_I32Le
  | Field_U64Le
  | Field_I64Le

fun byte_width :: "FixedBinaryFieldType \<Rightarrow> usize" where
  "byte_width Field_U8 = 1"
| "byte_width Field_I8 = 1"
| "byte_width Field_U16Le = 2"
| "byte_width Field_I16Le = 2"
| "byte_width Field_U32Le = 4"
| "byte_width Field_I32Le = 4"
| "byte_width Field_U64Le = 8"
| "byte_width Field_I64Le = 8"

datatype FixedBinaryFieldValues =
    FieldValues_U8 "8 word list"
  | FieldValues_I8 "8 word list"
  | FieldValues_U16 "16 word list"
  | FieldValues_I16 "16 word list"
  | FieldValues_U32 "32 word list"
  | FieldValues_I32 "32 word list"
  | FieldValues_U64 "64 word list"
  | FieldValues_I64 "64 word list"

fun FixedBinaryFieldValuesMut_field_type :: "FixedBinaryFieldValues \<Rightarrow> FixedBinaryFieldType" where
  "FixedBinaryFieldValuesMut_field_type (FieldValues_U8 _) = Field_U8"
| "FixedBinaryFieldValuesMut_field_type (FieldValues_I8 _) = Field_I8"
| "FixedBinaryFieldValuesMut_field_type (FieldValues_U16 _) = Field_U16Le"
| "FixedBinaryFieldValuesMut_field_type (FieldValues_I16 _) = Field_I16Le"
| "FixedBinaryFieldValuesMut_field_type (FieldValues_U32 _) = Field_U32Le"
| "FixedBinaryFieldValuesMut_field_type (FieldValues_I32 _) = Field_I32Le"
| "FixedBinaryFieldValuesMut_field_type (FieldValues_U64 _) = Field_U64Le"
| "FixedBinaryFieldValuesMut_field_type (FieldValues_I64 _) = Field_I64Le"

fun FixedBinaryFieldValuesMut_len :: "FixedBinaryFieldValues \<Rightarrow> usize" where
  "FixedBinaryFieldValuesMut_len (FieldValues_U8 vs) = length vs"
| "FixedBinaryFieldValuesMut_len (FieldValues_I8 vs) = length vs"
| "FixedBinaryFieldValuesMut_len (FieldValues_U16 vs) = length vs"
| "FixedBinaryFieldValuesMut_len (FieldValues_I16 vs) = length vs"
| "FixedBinaryFieldValuesMut_len (FieldValues_U32 vs) = length vs"
| "FixedBinaryFieldValuesMut_len (FieldValues_I32 vs) = length vs"
| "FixedBinaryFieldValuesMut_len (FieldValues_U64 vs) = length vs"
| "FixedBinaryFieldValuesMut_len (FieldValues_I64 vs) = length vs"

text \<open>The typed accessors of a borrowed field.\<close>

fun as_u8 :: "FixedBinaryFieldValues \<Rightarrow> 8 word list result" where
  "as_u8 (FieldValues_U8 vs) = Inr vs"
| "as_u8 _ = Inl (ocb_invalid_input ''OCB fixed-binary projected field is not u8'')"

fun as_i8 :: "FixedBinaryFieldValues \<Rightarrow> 8 word list result" where
  "as_i8 (FieldValues_I8 vs) = Inr vs"
| "as_i8 _ = Inl (ocb_invalid_input ''OCB fixed-binary projected field is not i8'')"

fun as_u16 :: "FixedBinaryFieldValues \<Rightarrow> 16 word list result" where
  "as_u16 (FieldValues_U16 vs) = Inr vs"
| "as_u16 _ = Inl (ocb_invalid_input ''OCB fixed-binary projected field is not u16'')"

fun as_i16 :: "FixedBinaryFieldValues \<Rightarrow> 16 word list result" where
  "as_i16 (FieldValues_I16 vs) = Inr vs"
| "as_i16 _ = Inl (ocb_invalid_input ''OCB fixed-binary projected field is not i16'')"

fun as_u32 :: "FixedBinaryFieldValues \<Rightarrow> 32 word list result" where
  "as_u32 (FieldValues_U32 vs) = Inr vs"
| "as_u32 _ = Inl (ocb_invalid_input ''OCB fixed-binary projected field is not u32'')"

fun as_i32 :: "FixedBinaryFieldValues \<Rightarrow> 32 word list result" where
  "as_i32 (FieldValues_I32 vs) = Inr vs"
| "as_i32 _ = Inl (ocb_invalid_input ''OCB fixed-binary projected field is not i32'')"

fun as_u64 :: "FixedBinaryFieldValues \<Rightarrow> 64 word list result" where
  "as_u64 (FieldValues_U64 vs) = Inr vs"
| "as_u64 _ = Inl (ocb_invalid_input ''OCB fixed-binary projected field is not u64'')"

fun as_i64 :: "FixedBinaryFieldValues \<Rightarrow> 64 word list result" where
  "as_i64 (FieldValues_I64 vs) = Inr vs"
| "as_i64 _ = Inl (ocb_invalid_input ''OCB fixed-binary projected field is not i64'')"

section \<open>Projection requests\<close>

record FixedBinaryFieldProjectionMut =
  fp_offset :: u32
  fp_values :: FixedBinaryFieldValues

record FixedBinaryProjectionReport =
  fpr_rows_projected :: usize
  fpr_fields_projected :: usize

record FixedBinaryProjectedField =
  pf_name :: "bytes option"
  pf_offset :: u32
  pf_field_type :: FixedBinaryFieldType

definition FixedBinaryProjectedField_new :: "u32 \<Rightarrow> FixedBinaryFieldType \<Rightarrow> FixedBinaryProjectedField" where
  "FixedBinaryProjectedField_new off field_type = \<lparr>pf_name = None, pf_offset = off, pf_field_type = field_type\<rparr>"

definition with_name :: "FixedBinaryProjectedField \<Rightarrow> bytes \<Rightarrow> FixedBinaryProjectedField" where
  "with_name self name = self\<lparr>pf_name := Some name\<rparr>"

record FixedBinaryRecordProjection =
  frp_column_id :: "u32 option"
  frp_column_name :: "bytes option"
  frp_expected_width :: u32
  frp_allow_nulls :: bool
  frp_fields :: "FixedBinaryProjectedField list"

definition by_column_name :: "bytes \<Rightarrow> u32 \<Rightarrow> FixedBinaryRecordProjection" where
  "by_column_name name expected_width =
     \<lparr>frp_column_id = None, frp_column_name = Some name, frp_expected_width = expected_width, frp_allow_nulls = False, frp_fields = []\<rparr>"

definition by_column_id :: "u32 \<Rightarrow> u32 \<Rightarrow> FixedBinaryRecordProjection" where
  "by_column_id column_id expected_width =
     \<lparr>frp_column_id = Some column_id, frp_column_name = None, frp_expected_width = expected_width, frp_allow_nulls = False, frp_fields = []\<rparr>"

definition FixedBinaryRecordProjection_allow_nulls :: "FixedBinaryRecordProjection \<Rightarrow> bool \<Rightarrow> FixedBinaryRecordProjection" where
  "FixedBinaryRecordProjection_allow_nulls self allow_nulls = self\<lparr>frp_allow_nulls := allow_nulls\<rparr>"

definition FixedBinaryRecordProjection_field :: "FixedBinaryRecordProjection \<Rightarrow> FixedBinaryProjectedField \<Rightarrow> FixedBinaryRecordProjection" where
  "FixedBinaryRecordProjection_field self field = self\<lparr>frp_fields := frp_fields self @ [field]\<rparr>"

definition FixedBinaryRecordProjection_fields :: "FixedBinaryRecordProjection \<Rightarrow> FixedBinaryProjectedField list \<Rightarrow> FixedBinaryRecordProjection" where
  "FixedBinaryRecordProjection_fields self fs = self\<lparr>frp_fields := fs\<rparr>"

section \<open>Record views\<close>

record FixedBinaryRecordView =
  frv_width :: u32
  frv_bytes :: bytes

definition FixedBinaryRecordView_new :: "u32 \<Rightarrow> bytes \<Rightarrow> FixedBinaryRecordView result" where
  "FixedBinaryRecordView_new w bs =
     sbind (ok_or (usize_try_from (unat w)) (ocb_invalid_input ''OCB fixed-binary record width does not fit usize'')) (\<lambda>width_usize.
     if width_usize = 0
     then Inl (ocb_invalid_input ''OCB fixed-binary record width must be greater than zero'') else
     if length bs mod width_usize \<noteq> 0
     then Inl (ocb_invalid_input ''OCB fixed-binary record bytes are not aligned to record width'')
     else Inr \<lparr>frv_width = w, frv_bytes = bs\<rparr>)"

text \<open>A view whose public width field was set to zero panics when its records are counted.\<close>

definition FixedBinaryRecordView_len :: "FixedBinaryRecordView \<Rightarrow> usize option" where
  "FixedBinaryRecordView_len self =
     (if frv_width self = 0 then None else Some (length (frv_bytes self) div unat (frv_width self)))"

definition FixedBinaryRecordView_is_empty :: "FixedBinaryRecordView \<Rightarrow> bool" where
  "FixedBinaryRecordView_is_empty self \<longleftrightarrow> frv_bytes self = []"

definition FixedBinaryRecordView_row :: "FixedBinaryRecordView \<Rightarrow> usize \<Rightarrow> bytes result" where
  "FixedBinaryRecordView_row self row =
     (let w = unat (frv_width self) in
     sbind (ok_or (usize_checked_mul row w) (ocb_invalid_input ''OCB fixed-binary row offset overflows'')) (\<lambda>start.
     sbind (ok_or (usize_checked_add start w) (ocb_invalid_input ''OCB fixed-binary row end offset overflows'')) (\<lambda>stop.
     ok_or (vec_get_range (frv_bytes self) start stop) (ocb_invalid_input ''OCB fixed-binary row index is out of bounds''))))"

fun fixed_binary_records :: "PrimitiveColumnValues \<Rightarrow> FixedBinaryRecordView result" where
  "fixed_binary_records (Values_FixedBinary w bs) = FixedBinaryRecordView_new w bs"
| "fixed_binary_records _ =
     Inl (ocb_invalid_input ''OCB fixed-binary record projection requires a fixed-binary column'')"

text \<open>
  The bytes of one field in the first \<open>rows\<close> records.  Splitting into records of width zero panics,
  and so does indexing beyond the end of a record.
\<close>

definition field_rows :: "bytes \<Rightarrow> usize \<Rightarrow> usize \<Rightarrow> usize \<Rightarrow> usize \<Rightarrow> bytes list option" where
  "field_rows bs w off n rows =
     (if w = 0 then None else
      those (map (\<lambda>row. if off + n \<le> length row then Some (slice off (off + n) row) else None)
        (take rows (chunks_exact w bs))))"

definition project_rows :: "bytes \<Rightarrow> usize \<Rightarrow> usize \<Rightarrow> usize \<Rightarrow> usize \<Rightarrow> 'a::len word list \<Rightarrow> 'a word list presult" where
  "project_rows bs w off n rows out =
     (if rows > length out then None else
      case field_rows bs w off n rows of
        None \<Rightarrow> None
      | Some fs \<Rightarrow> write_prefix rows (map from_le_bytes fs) out)"

fun project_fixed_binary_field ::
  "bytes \<Rightarrow> usize \<Rightarrow> usize \<Rightarrow> usize \<Rightarrow> FixedBinaryFieldValues \<Rightarrow> FixedBinaryFieldValues presult" where
  "project_fixed_binary_field bs w off rows (FieldValues_U8 out) =
     pbind (project_rows bs w off 1 rows out) (\<lambda>out. Some (Inr (FieldValues_U8 out)))"
| "project_fixed_binary_field bs w off rows (FieldValues_I8 out) =
     pbind (project_rows bs w off 1 rows out) (\<lambda>out. Some (Inr (FieldValues_I8 out)))"
| "project_fixed_binary_field bs w off rows (FieldValues_U16 out) =
     pbind (project_rows bs w off 2 rows out) (\<lambda>out. Some (Inr (FieldValues_U16 out)))"
| "project_fixed_binary_field bs w off rows (FieldValues_I16 out) =
     pbind (project_rows bs w off 2 rows out) (\<lambda>out. Some (Inr (FieldValues_I16 out)))"
| "project_fixed_binary_field bs w off rows (FieldValues_U32 out) =
     pbind (project_rows bs w off 4 rows out) (\<lambda>out. Some (Inr (FieldValues_U32 out)))"
| "project_fixed_binary_field bs w off rows (FieldValues_I32 out) =
     pbind (project_rows bs w off 4 rows out) (\<lambda>out. Some (Inr (FieldValues_I32 out)))"
| "project_fixed_binary_field bs w off rows (FieldValues_U64 out) =
     pbind (project_rows bs w off 8 rows out) (\<lambda>out. Some (Inr (FieldValues_U64 out)))"
| "project_fixed_binary_field bs w off rows (FieldValues_I64 out) =
     pbind (project_rows bs w off 8 rows out) (\<lambda>out. Some (Inr (FieldValues_I64 out)))"

text \<open>
  The loop over the fields.  On an error the outputs of the fields before it have been written and
  the caller must discard them, so the model returns none.
\<close>

definition project_field ::
  "FixedBinaryRecordView \<Rightarrow> usize \<Rightarrow> FixedBinaryFieldProjectionMut \<Rightarrow> FixedBinaryFieldProjectionMut presult" where
  "project_field self rows field =
     (let w = unat (frv_width self) in
     pbind (Some (ok_or (usize_try_from (unat (fp_offset field)))
        (ocb_invalid_input ''OCB fixed-binary field offset does not fit usize''))) (\<lambda>off.
     pbind (Some (ok_or (usize_checked_add off (byte_width (FixedBinaryFieldValuesMut_field_type (fp_values field))))
        (ocb_invalid_input ''OCB fixed-binary field end offset overflows''))) (\<lambda>stop.
     if stop > w
     then Some (Inl (ocb_invalid_input ''OCB fixed-binary field extends past record width'')) else
     if FixedBinaryFieldValuesMut_len (fp_values field) < rows
     then Some (Inl (ocb_invalid_input ''OCB fixed-binary field output buffer is too small'')) else
     pbind (project_fixed_binary_field (frv_bytes self) w off rows (fp_values field)) (\<lambda>vs.
     Some (Inr (field\<lparr>fp_values := vs\<rparr>))))))"

fun ptry_map :: "('a \<Rightarrow> 'b presult) \<Rightarrow> 'a list \<Rightarrow> 'b list presult" where
  "ptry_map f [] = Some (Inr [])"
| "ptry_map f (x # xs) = pbind (f x) (\<lambda>y. pbind (ptry_map f xs) (\<lambda>ys. Some (Inr (y # ys))))"

definition project_fields_inner ::
  "FixedBinaryRecordView \<Rightarrow> FixedBinaryFieldProjectionMut list \<Rightarrow> (usize \<times> FixedBinaryFieldProjectionMut list) presult" where
  "project_fields_inner self fs =
     (case FixedBinaryRecordView_len self of
        None \<Rightarrow> None
      | Some rows \<Rightarrow> pbind (ptry_map (project_field self rows) fs) (\<lambda>fs. Some (Inr (rows, fs))))"

definition project_fields ::
  "FixedBinaryRecordView \<Rightarrow> FixedBinaryFieldProjectionMut list \<Rightarrow> (usize \<times> FixedBinaryFieldProjectionMut list) presult" where
  "project_fields self fs = project_fields_inner self fs"

definition project_fields_with_report ::
  "FixedBinaryRecordView \<Rightarrow> FixedBinaryFieldProjectionMut list \<Rightarrow>
   (FixedBinaryProjectionReport \<times> FixedBinaryFieldProjectionMut list) presult" where
  "project_fields_with_report self fs =
     (let fields_projected = length fs in
     pbind (project_fields_inner self fs) (\<lambda>(rows_projected, fs).
     Some (Inr (\<lparr>fpr_rows_projected = rows_projected, fpr_fields_projected = fields_projected\<rparr>, fs))))"

section \<open>Reusable projection buffers\<close>

fun ReusableFixedBinaryFieldValues_new :: "host \<Rightarrow> FixedBinaryFieldType \<Rightarrow> usize \<Rightarrow> FixedBinaryFieldValues result" where
  "ReusableFixedBinaryFieldValues_new h Field_U8 capacity = sbind (zeroed_vec_fallibly h TyU8 capacity) (\<lambda>vs. Inr (FieldValues_U8 vs))"
| "ReusableFixedBinaryFieldValues_new h Field_I8 capacity = sbind (zeroed_vec_fallibly h TyU8 capacity) (\<lambda>vs. Inr (FieldValues_I8 vs))"
| "ReusableFixedBinaryFieldValues_new h Field_U16Le capacity = sbind (zeroed_vec_fallibly h TyU16 capacity) (\<lambda>vs. Inr (FieldValues_U16 vs))"
| "ReusableFixedBinaryFieldValues_new h Field_I16Le capacity = sbind (zeroed_vec_fallibly h TyU16 capacity) (\<lambda>vs. Inr (FieldValues_I16 vs))"
| "ReusableFixedBinaryFieldValues_new h Field_U32Le capacity = sbind (zeroed_vec_fallibly h TyU32 capacity) (\<lambda>vs. Inr (FieldValues_U32 vs))"
| "ReusableFixedBinaryFieldValues_new h Field_I32Le capacity = sbind (zeroed_vec_fallibly h TyU32 capacity) (\<lambda>vs. Inr (FieldValues_I32 vs))"
| "ReusableFixedBinaryFieldValues_new h Field_U64Le capacity = sbind (zeroed_vec_fallibly h TyU64 capacity) (\<lambda>vs. Inr (FieldValues_U64 vs))"
| "ReusableFixedBinaryFieldValues_new h Field_I64Le capacity = sbind (zeroed_vec_fallibly h TyU64 capacity) (\<lambda>vs. Inr (FieldValues_I64 vs))"

fun field_values_take :: "nat \<Rightarrow> FixedBinaryFieldValues \<Rightarrow> FixedBinaryFieldValues" where
  "field_values_take n (FieldValues_U8 vs) = FieldValues_U8 (take n vs)"
| "field_values_take n (FieldValues_I8 vs) = FieldValues_I8 (take n vs)"
| "field_values_take n (FieldValues_U16 vs) = FieldValues_U16 (take n vs)"
| "field_values_take n (FieldValues_I16 vs) = FieldValues_I16 (take n vs)"
| "field_values_take n (FieldValues_U32 vs) = FieldValues_U32 (take n vs)"
| "field_values_take n (FieldValues_I32 vs) = FieldValues_I32 (take n vs)"
| "field_values_take n (FieldValues_U64 vs) = FieldValues_U64 (take n vs)"
| "field_values_take n (FieldValues_I64 vs) = FieldValues_I64 (take n vs)"

definition values_ref :: "FixedBinaryFieldValues \<Rightarrow> usize \<Rightarrow> FixedBinaryFieldValues result" where
  "values_ref self row_count =
     (if FixedBinaryFieldValuesMut_len self < row_count
      then Inl (ocb_invalid_input ''OCB fixed-binary projection buffer is too small for row group'')
      else Inr (field_values_take row_count self))"

record ColumnBundleFixedBinaryProjectedFieldBuffer =
  pfb_name :: "bytes option"
  pfb_offset :: u32
  pfb_values :: FixedBinaryFieldValues

record ColumnBundleFixedBinaryProjectionBuffer =
  pb_source_column_id :: u32
  pb_source_column_name :: bytes
  pb_source_width :: u32
  pb_fields :: "ColumnBundleFixedBinaryProjectedFieldBuffer list"
  pb_row_count :: usize

definition for_projection ::
  "host \<Rightarrow> BundleColumn \<Rightarrow> FixedBinaryRecordProjection \<Rightarrow> usize \<Rightarrow> ColumnBundleFixedBinaryProjectionBuffer result" where
  "for_projection h source_column projection capacity =
     sbind (try_column_bundle_vec_with_capacity h TyProjectedFieldBuffer (length (frp_fields projection))) (\<lambda>fs.
     sbind (try_map (\<lambda>field.
       sbind (case pf_name field of
           None \<Rightarrow> Inr None
         | Some name \<Rightarrow> sbind (clone_column_bundle_string_fallibly h name) (\<lambda>name. Inr (Some name))) (\<lambda>name.
       sbind (ReusableFixedBinaryFieldValues_new h (pf_field_type field) capacity) (\<lambda>vs.
       Inr \<lparr>pfb_name = name, pfb_offset = pf_offset field, pfb_values = vs\<rparr>))) (frp_fields projection)) (\<lambda>made.
     sbind (clone_column_bundle_string_fallibly h (bc_name source_column)) (\<lambda>name.
     Inr \<lparr>pb_source_column_id = bc_id source_column, pb_source_column_name = name,
          pb_source_width = frp_expected_width projection, pb_fields = fs @ made, pb_row_count = 0\<rparr>)))"

definition project_record_field ::
  "FixedBinaryRecordView \<Rightarrow> FixedBinaryProjectedField \<times> ColumnBundleFixedBinaryProjectedFieldBuffer \<Rightarrow>
   ColumnBundleFixedBinaryProjectedFieldBuffer presult" where
  "project_record_field records = (\<lambda>(spec, field).
     if pfb_offset field \<noteq> pf_offset spec \<or> FixedBinaryFieldValuesMut_field_type (pfb_values field) \<noteq> pf_field_type spec
     then Some (Inl (ocb_invalid_input ''OCB fixed-binary projection buffer field does not match projection'')) else
     pbind (project_fields_inner records [\<lparr>fp_offset = pf_offset spec, fp_values = pfb_values field\<rparr>]) (\<lambda>(_, fs).
     Some (Inr (field\<lparr>pfb_values := fp_values (hd fs)\<rparr>))))"

definition project_records ::
  "ColumnBundleFixedBinaryProjectionBuffer \<Rightarrow> FixedBinaryRecordView \<Rightarrow> FixedBinaryRecordProjection \<Rightarrow>
   (FixedBinaryProjectionReport \<times> ColumnBundleFixedBinaryProjectionBuffer) presult" where
  "project_records self records projection =
     (case FixedBinaryRecordView_len records of
        None \<Rightarrow> None
      | Some rows \<Rightarrow>
     if pb_source_width self \<noteq> frp_expected_width projection \<or> frv_width records \<noteq> frp_expected_width projection
     then Some (Inl (ocb_invalid_input ''OCB fixed-binary projection source width does not match projection'')) else
     if length (pb_fields self) \<noteq> length (frp_fields projection)
     then Some (Inl (ocb_invalid_input ''OCB fixed-binary projection buffer field count does not match projection'')) else
     pbind (ptry_map (project_record_field records) (zip (frp_fields projection) (pb_fields self))) (\<lambda>fs.
     Some (Inr (\<lparr>fpr_rows_projected = rows, fpr_fields_projected = length (frp_fields projection)\<rparr>,
                self\<lparr>pb_fields := fs, pb_row_count := rows\<rparr>))))"

record FixedBinaryProjectedFieldView =
  fv_name :: "bytes option"
  fv_offset :: u32
  fv_field_type :: FixedBinaryFieldType
  fv_values :: FixedBinaryFieldValues

record FixedBinaryProjectedBatchView =
  bv_row_group_id :: u32
  bv_base_row :: u64
  bv_row_count :: u64
  bv_source_column_id :: u32
  bv_source_column_name :: bytes
  bv_source_width :: u32
  bv_fields :: "ColumnBundleFixedBinaryProjectedFieldBuffer list"

definition ColumnBundleFixedBinaryProjectionBuffer_view ::
  "ColumnBundleFixedBinaryProjectionBuffer \<Rightarrow> u32 \<Rightarrow> u64 \<Rightarrow> FixedBinaryProjectedBatchView" where
  "ColumnBundleFixedBinaryProjectionBuffer_view self row_group_id base_row =
     \<lparr>bv_row_group_id = row_group_id, bv_base_row = base_row, bv_row_count = of_nat (pb_row_count self),
      bv_source_column_id = pb_source_column_id self, bv_source_column_name = pb_source_column_name self,
      bv_source_width = pb_source_width self, bv_fields = pb_fields self\<rparr>"

definition FixedBinaryProjectedBatchView_field_count :: "FixedBinaryProjectedBatchView \<Rightarrow> usize" where
  "FixedBinaryProjectedBatchView_field_count self = length (bv_fields self)"

definition FixedBinaryProjectedBatchView_field :: "FixedBinaryProjectedBatchView \<Rightarrow> usize \<Rightarrow> FixedBinaryProjectedFieldView result" where
  "FixedBinaryProjectedBatchView_field self index =
     sbind (ok_or (vec_get (bv_fields self) index)
        (ocb_invalid_input ''OCB fixed-binary projected field index is out of bounds'')) (\<lambda>field.
     sbind (ok_or (usize_try_from (unat (bv_row_count self)))
        (ocb_invalid_input ''OCB fixed-binary projected row count does not fit usize'')) (\<lambda>row_count.
     sbind (values_ref (pfb_values field) row_count) (\<lambda>vs.
     Inr \<lparr>fv_name = pfb_name field, fv_offset = pfb_offset field,
          fv_field_type = FixedBinaryFieldValuesMut_field_type (pfb_values field), fv_values = vs\<rparr>)))"

definition field_by_name :: "FixedBinaryProjectedBatchView \<Rightarrow> bytes \<Rightarrow> FixedBinaryProjectedFieldView result" where
  "field_by_name self name =
     sbind (for_each (\<lambda>(index, field) matched.
       if pfb_name field = Some name
       then if matched \<noteq> None
            then Inl (ocb_invalid_input ''OCB fixed-binary projected field name is ambiguous'')
            else Inr (Some index)
       else Inr matched) (enumerate 0 (bv_fields self)) None) (\<lambda>matched.
     sbind (ok_or matched (ocb_invalid_input ''OCB fixed-binary projected field name is unknown'')) (\<lambda>index.
     FixedBinaryProjectedBatchView_field self index))"

section \<open>Checking projections\<close>

definition validate_fixed_binary_record_projection ::
  "BundleColumn list \<Rightarrow> ColumnBundleReadPlan \<Rightarrow> FixedBinaryRecordProjection \<Rightarrow> BundleColumn result" where
  "validate_fixed_binary_record_projection columns plan projection =
     (if frp_expected_width projection = 0
      then Inl (ocb_invalid_input ''OCB fixed-binary projection expected_width must be greater than zero'') else
      if frp_fields projection = []
      then Inl (ocb_invalid_input ''OCB fixed-binary projection requires at least one field'') else
      if frp_column_id projection = None \<and> frp_column_name projection = None
      then Inl (ocb_invalid_input ''OCB fixed-binary projection must identify a source column'') else
      sbind (case frp_column_id projection of
          Some column_id \<Rightarrow> sbind (ok_or (List.find (\<lambda>column. bc_id column = column_id) columns)
            (ocb_invalid_input ''OCB fixed-binary projection references an unknown column id'')) (\<lambda>column. Inr (Some column))
        | None \<Rightarrow> Inr None) (\<lambda>by_id_column.
      sbind (case frp_column_name projection of
          Some column_name \<Rightarrow> sbind (ok_or (List.find (\<lambda>column. bc_name column = column_name) columns)
            (ocb_invalid_input ''OCB fixed-binary projection references an unknown column name'')) (\<lambda>column. Inr (Some column))
        | None \<Rightarrow> Inr None) (\<lambda>by_name_column.
      sbind (case (by_id_column, by_name_column) of
          (Some left, Some right) \<Rightarrow>
            if bc_id left \<noteq> bc_id right
            then Inl (ocb_invalid_input ''OCB fixed-binary projection column name and id do not match'') else Inr left
        | (Some column, None) \<Rightarrow> Inr column
        | (None, Some column) \<Rightarrow> Inr column
        | (None, None) \<Rightarrow> Inl (ocb_invalid_input ''OCB fixed-binary projection must identify a source column'')) (\<lambda>source_column.
      if bc_id source_column \<notin> set (plan_projected_column_ids plan)
      then Inl (ocb_invalid_input ''OCB fixed-binary projection source column is not in the read plan projection'') else
      sbind (case bc_physical_type source_column of
          Column_FixedBinary w \<Rightarrow>
            if w = frp_expected_width projection then Inr ()
            else Inl (ocb_invalid_input ''OCB fixed-binary projection expected_width does not match source column'')
        | _ \<Rightarrow> Inl (ocb_invalid_input ''OCB fixed-binary projection source column must be fixed-binary'')) (\<lambda>_.
      if bc_nullable source_column \<and> \<not> frp_allow_nulls projection
      then Inl (ocb_invalid_input ''OCB fixed-binary projection source column is nullable'') else
      sbind (ok_or (usize_try_from (unat (frp_expected_width projection)))
         (ocb_invalid_input ''OCB fixed-binary projection expected_width does not fit usize'')) (\<lambda>w.
      sbind (for_each (\<lambda>field _.
        sbind (ok_or (usize_try_from (unat (pf_offset field)))
           (ocb_invalid_input ''OCB fixed-binary projection field offset does not fit usize'')) (\<lambda>off.
        sbind (ok_or (usize_checked_add off (byte_width (pf_field_type field)))
           (ocb_invalid_input ''OCB fixed-binary projection field end offset overflows'')) (\<lambda>stop.
        if stop > w
        then Inl (ocb_invalid_input ''OCB fixed-binary projection field extends past record width'')
        else Inr ()))) (frp_fields projection) ()) (\<lambda>_.
      Inr source_column)))))))"

text \<open>
  The arm with neither column is unreachable in the code: the check before it excludes the case,
  so the error the model has there is never returned.
\<close>

definition validate_fixed_binary_projection_buffer ::
  "ColumnBundleFixedBinaryProjectionBuffer \<Rightarrow> FixedBinaryRecordProjection \<Rightarrow> unit result" where
  "validate_fixed_binary_projection_buffer buffer projection =
     (if (case frp_column_id projection of Some column_id \<Rightarrow> pb_source_column_id buffer \<noteq> column_id | None \<Rightarrow> False)
         \<or> (case frp_column_name projection of Some column_name \<Rightarrow> pb_source_column_name buffer \<noteq> column_name | None \<Rightarrow> False)
         \<or> pb_source_width buffer \<noteq> frp_expected_width projection
         \<or> length (pb_fields buffer) \<noteq> length (frp_fields projection)
      then Inl (ocb_invalid_input ''OCB fixed-binary projection buffer does not match projection'') else
      for_each (\<lambda>(spec, field) _.
        if pf_offset spec \<noteq> pfb_offset field \<or> pf_field_type spec \<noteq> FixedBinaryFieldValuesMut_field_type (pfb_values field)
        then Inl (ocb_invalid_input ''OCB fixed-binary projection buffer field does not match projection'')
        else Inr ()) (zip (frp_fields projection) (pb_fields buffer)) ())"

text \<open>The loop that looks the source column up in a batch, which stops at the first match.\<close>

fun find_source_column ::
  "ColumnBundleReusableBatchView \<Rightarrow> FixedBinaryRecordProjection \<Rightarrow> usize list \<Rightarrow> ColumnBundleReusableColumnView option result" where
  "find_source_column view projection [] = Inr None"
| "find_source_column view projection (index # rest) =
     sbind (ColumnBundleReusableBatchView_column view index) (\<lambda>column.
     if frp_column_id projection = Some (rcv_column_id column) \<or> frp_column_name projection = Some (rcv_name column)
     then Inr (Some column) else find_source_column view projection rest)"

definition project_fixed_binary_reusable_batch ::
  "ColumnBundleReusableBatchView \<Rightarrow> FixedBinaryRecordProjection \<Rightarrow> ColumnBundleFixedBinaryProjectionBuffer \<Rightarrow>
   (FixedBinaryProjectionReport \<times> ColumnBundleFixedBinaryProjectionBuffer) presult" where
  "project_fixed_binary_reusable_batch view projection projection_buffer =
     pbind (Some (find_source_column view projection [0..<ColumnBundleReusableBatchView_column_count view])) (\<lambda>source_column.
     pbind (Some (ok_or source_column
        (ocb_invalid_input ''OCB fixed-binary projection source column is not in the batch''))) (\<lambda>source_column.
     if \<not> frp_allow_nulls projection \<and> rcv_validity source_column \<noteq> None
     then Some (Inl (ocb_invalid_input ''OCB fixed-binary projection source column contains nulls'')) else
     if pb_source_column_id projection_buffer \<noteq> rcv_column_id source_column
        \<or> pb_source_column_name projection_buffer \<noteq> rcv_name source_column
     then Some (Inl (ocb_invalid_input ''OCB fixed-binary projection buffer source column does not match batch'')) else
     pbind (Some (fixed_binary_records (rcv_values source_column))) (\<lambda>records.
     if frv_width records \<noteq> frp_expected_width projection
     then Some (Inl (ocb_invalid_input ''OCB fixed-binary projection source width does not match projection''))
     else project_records projection_buffer records projection)))"

section \<open>What a projection writes\<close>

lemma usize_try_from_le: "n \<le> usize_max \<Longrightarrow> usize_try_from n = Some n"
  by simp

lemma usize_try_from_u32 [simp]: "usize_try_from (unat (w :: u32)) = Some (unat w)"
  by simp

lemma chunks_exact_nth: "i < length xs div n \<Longrightarrow> chunks_exact n xs ! i = slice (i * n) (i * n + n) xs"
proof (induction n xs arbitrary: i rule: chunks_exact.induct)
  case (1 n xs)
  then have n: "0 < n" "n \<le> length xs" by (auto simp: not_less Suc_le_eq intro: gr0I) (metis div_less less_nat_zero_code not_le)
  then have unf: "chunks_exact n xs = take n xs # chunks_exact n (drop n xs)" by (subst chunks_exact.simps) simp
  show ?case
  proof (cases i)
    case 0
    then show ?thesis by (simp add: unf slice_def)
  next
    case (Suc j)
    have "j < length (drop n xs) div n" using 1(2) n Suc by (simp add: le_div_geq)
    with 1(1) n have "chunks_exact n (drop n xs) ! j = slice (j * n) (j * n + n) (drop n xs)" by simp
    then show ?thesis by (simp add: unf Suc slice_def add.commute add.left_commute)
  qed
qed

lemma those_map_Some: "(\<And>x. x \<in> set xs \<Longrightarrow> f x = Some (g x)) \<Longrightarrow> those (map f xs) = Some (map g xs)"
  by (induction xs) auto

lemma slice_slice: "off + n \<le> w \<Longrightarrow> slice off (off + n) (slice a (a + w) xs) = slice (a + off) (a + off + n) xs"
  by (simp add: slice_def drop_take add.commute)

lemma field_rows_Some:
  assumes "0 < w" and "off + n \<le> w" and "rows \<le> length bs div w"
  shows "field_rows bs w off n rows = Some (map (\<lambda>r. slice (r * w + off) (r * w + off + n) bs) [0..<rows])"
proof -
  have rows: "take rows (chunks_exact w bs) = map (\<lambda>r. slice (r * w) (r * w + w) bs) [0..<rows]"
    using assms(1,3) by (intro nth_equalityI) (simp_all add: length_chunks_exact chunks_exact_nth)
  have len: "length (slice (r * w) (r * w + w) bs) = w" if "r < rows" for r
  proof -
    have "r < length bs div w" using that assms(3) by simp
    then have "Suc r * w \<le> length bs" by (metis Suc_leI div_times_less_eq_dividend le_trans mult_le_mono1)
    then show ?thesis by simp
  qed
  show ?thesis
    using assms(1,2) len
    by (auto simp: field_rows_def rows comp_def slice_slice intro!: those_map_Some)
qed

lemma project_rows_eq:
  assumes "0 < w" and "off + n \<le> w" and "rows \<le> length bs div w" and "rows \<le> length out"
  shows "project_rows bs w off n rows out =
     Some (Inr (map (\<lambda>r. from_le_bytes (slice (r * w + off) (r * w + off + n) bs)) [0..<rows] @ drop rows out))"
  using assms by (simp add: project_rows_def field_rows_Some write_prefix_def zip_write_def comp_def)

text \<open>The bytes of a value of a field buffer.\<close>

fun field_nth :: "FixedBinaryFieldValues \<Rightarrow> nat \<Rightarrow> bytes" where
  "field_nth (FieldValues_U8 vs) i = to_le_bytes 1 (vs ! i)"
| "field_nth (FieldValues_I8 vs) i = to_le_bytes 1 (vs ! i)"
| "field_nth (FieldValues_U16 vs) i = to_le_bytes 2 (vs ! i)"
| "field_nth (FieldValues_I16 vs) i = to_le_bytes 2 (vs ! i)"
| "field_nth (FieldValues_U32 vs) i = to_le_bytes 4 (vs ! i)"
| "field_nth (FieldValues_I32 vs) i = to_le_bytes 4 (vs ! i)"
| "field_nth (FieldValues_U64 vs) i = to_le_bytes 8 (vs ! i)"
| "field_nth (FieldValues_I64 vs) i = to_le_bytes 8 (vs ! i)"

text \<open>
  A projected field: value \<open>r\<close> of the buffer is the field of record \<open>r\<close>, for every record, and the
  buffer is otherwise unchanged.
\<close>

definition projected :: "bytes \<Rightarrow> nat \<Rightarrow> nat \<Rightarrow> nat \<Rightarrow> FixedBinaryFieldValues \<Rightarrow> FixedBinaryFieldValues \<Rightarrow> bool" where
  "projected bs w off rows old new \<longleftrightarrow>
     FixedBinaryFieldValuesMut_field_type new = FixedBinaryFieldValuesMut_field_type old \<and>
     FixedBinaryFieldValuesMut_len new = FixedBinaryFieldValuesMut_len old \<and>
     (\<forall>r < rows. field_nth new r =
        slice (r * w + off) (r * w + off + byte_width (FixedBinaryFieldValuesMut_field_type old)) bs) \<and>
     (\<forall>r. rows \<le> r \<and> r < FixedBinaryFieldValuesMut_len old \<longrightarrow> field_nth new r = field_nth old r)"

lemma row_field_bytes:
  assumes "0 < w" and "off + n \<le> w" and "r < length bs div w" and "LENGTH('a::len) = 8 * n"
  shows "to_le_bytes n (from_le_bytes (slice (r * w + off) (r * w + off + n) bs) :: 'a word) = slice (r * w + off) (r * w + off + n) bs"
proof -
  have "Suc r * w \<le> length bs" using assms(3) by (metis Suc_leI div_times_less_eq_dividend le_trans mult_le_mono1)
  then have "r * w + off + n \<le> length bs" using assms(2) by simp
  then have "length (slice (r * w + off) (r * w + off + n) bs) = n" by simp
  with to_from_le_bytes [where ?'a = 'a, of "slice (r * w + off) (r * w + off + n) bs"] assms(4) show ?thesis by simp
qed

lemma project_fixed_binary_field_projected:
  assumes "0 < w" and "off + byte_width (FixedBinaryFieldValuesMut_field_type vs) \<le> w" and "rows \<le> length bs div w"
    and "rows \<le> FixedBinaryFieldValuesMut_len vs"
  shows "\<exists>vs'. project_fixed_binary_field bs w off rows vs = Some (Inr vs') \<and> projected bs w off rows vs vs'"
  using assms
  by (cases vs) (auto simp: project_rows_eq projected_def nth_append row_field_bytes row_field_bytes [where n = 1, simplified]
      row_field_bytes [where n = 2, simplified])

text \<open>A field fits when it ends inside the record and its buffer has room for every record.\<close>

definition field_fits :: "nat \<Rightarrow> nat \<Rightarrow> FixedBinaryFieldProjectionMut \<Rightarrow> bool" where
  "field_fits w rows f \<longleftrightarrow>
     unat (fp_offset f) + byte_width (FixedBinaryFieldValuesMut_field_type (fp_values f)) \<le> w \<and>
     rows \<le> FixedBinaryFieldValuesMut_len (fp_values f)"

lemma project_field_cases:
  assumes "0 < unat (frv_width view)" and rows: "rows = length (frv_bytes view) div unat (frv_width view)"
  shows "field_fits (unat (frv_width view)) rows f \<Longrightarrow> \<exists>vs. project_field view rows f = Some (Inr (f\<lparr>fp_values := vs\<rparr>)) \<and>
      projected (frv_bytes view) (unat (frv_width view)) (unat (fp_offset f)) rows (fp_values f) vs"
    and "\<not> field_fits (unat (frv_width view)) rows f \<Longrightarrow> \<exists>msg. project_field view rows f = Some (Inl (ocb_invalid_input msg))"
proof -
  have w: "unat (frv_width view) \<le> usize_max" by simp
  show "\<exists>vs. project_field view rows f = Some (Inr (f\<lparr>fp_values := vs\<rparr>)) \<and>
      projected (frv_bytes view) (unat (frv_width view)) (unat (fp_offset f)) rows (fp_values f) vs" if "field_fits (unat (frv_width view)) rows f"
  proof -
    let ?n = "unat (fp_offset f) + byte_width (FixedBinaryFieldValuesMut_field_type (fp_values f))"
    have "?n \<le> usize_max" using that w unfolding field_fits_def by linarith
    with that project_fixed_binary_field_projected [OF assms(1), of "unat (fp_offset f)" "fp_values f" rows "frv_bytes view"]
    show ?thesis by (auto simp: field_fits_def project_field_def Let_def usize_checked_add_def usize_try_from_le rows)
  qed
  show "\<exists>msg. project_field view rows f = Some (Inl (ocb_invalid_input msg))" if "\<not> field_fits (unat (frv_width view)) rows f"
    using that
    by (cases "usize_checked_add (unat (fp_offset f)) (byte_width (FixedBinaryFieldValuesMut_field_type (fp_values f)))")
      (auto simp: field_fits_def project_field_def Let_def usize_checked_add_def usize_try_from_le)
qed

lemma ptry_map_Inr: "ptry_map f xs = Some (Inr ys) \<longleftrightarrow> list_all2 (\<lambda>x y. f x = Some (Inr y)) xs ys"
proof (induction xs arbitrary: ys)
  case (Cons x xs)
  then show ?case by (auto simp: pbind_eq_Inr list_all2_Cons1)
qed auto

lemma safe_ptry_map: "(\<And>x. x \<in> set xs \<Longrightarrow> safe (f x)) \<Longrightarrow> safe (ptry_map f xs)"
  by (induction xs) (auto intro!: safe_intros)

lemma FixedBinaryRecordView_new_Inr:
  "FixedBinaryRecordView_new w bs = Inr view \<longleftrightarrow>
     w \<noteq> 0 \<and> length bs mod unat w = 0 \<and> view = \<lparr>frv_width = w, frv_bytes = bs\<rparr>"
  by (auto simp: FixedBinaryRecordView_new_def unat_eq_zero split: if_splits)

theorem project_fields_spec:
  assumes "FixedBinaryRecordView_new w bs = Inr view"
    and rows_def: "rows = length bs div unat w"
  shows "project_fields view fs \<noteq> None"
    and "(\<exists>r. project_fields view fs = Some (Inr r)) \<longleftrightarrow> (\<forall>f \<in> set fs. field_fits (unat w) rows f)"
    and "project_fields view fs = Some (Inr (n, fs')) \<Longrightarrow> n = rows \<and>
      list_all2 (\<lambda>f f'. fp_offset f' = fp_offset f \<and>
        projected bs (unat w) (unat (fp_offset f)) rows (fp_values f) (fp_values f')) fs fs'"
proof -
  have w: "0 < unat w" and v: "view = \<lparr>frv_width = w, frv_bytes = bs\<rparr>"
    using assms(1) by (auto simp: FixedBinaryRecordView_new_Inr unat_gt_0)
  have len: "FixedBinaryRecordView_len view = Some rows" using w by (auto simp: FixedBinaryRecordView_len_def v rows_def)
  have ok: "\<exists>vs. project_field view rows f = Some (Inr (f\<lparr>fp_values := vs\<rparr>)) \<and>
      projected bs (unat w) (unat (fp_offset f)) rows (fp_values f) vs" if "field_fits (unat w) rows f" for f
    using project_field_cases(1) [of view rows f] that w by (simp add: v rows_def)
  have bad: "\<exists>msg. project_field view rows f = Some (Inl (ocb_invalid_input msg))" if "\<not> field_fits (unat w) rows f" for f
    using project_field_cases(2) [of view rows f] that w by (simp add: v rows_def)
  have "safe (project_field view rows f)" for f using ok [of f] bad [of f] by (cases "field_fits (unat w) rows f") (auto simp: safe_def)
  then have "safe (project_fields view fs)"
    unfolding project_fields_def project_fields_inner_def len by (auto intro!: safe_intros safe_ptry_map)
  then show "project_fields view fs \<noteq> None" by (simp add: safe_def)
  have iff: "project_fields view fs = Some (Inr (n, gs)) \<longleftrightarrow> n = rows \<and> list_all2 (\<lambda>f g. project_field view rows f = Some (Inr g)) fs gs" for n gs
    by (auto simp: project_fields_def project_fields_inner_def len pbind_eq_Inr ptry_map_Inr)
  have "(\<exists>gs. list_all2 (\<lambda>f g. project_field view rows f = Some (Inr g)) fs gs) \<longleftrightarrow> (\<forall>f \<in> set fs. field_fits (unat w) rows f)"
  proof
    assume "\<exists>gs. list_all2 (\<lambda>f g. project_field view rows f = Some (Inr g)) fs gs"
    then show "\<forall>f \<in> set fs. field_fits (unat w) rows f" using bad by (fastforce simp: list_all2_conv_all_nth in_set_conv_nth)
  next
    assume "\<forall>f \<in> set fs. field_fits (unat w) rows f"
    then show "\<exists>gs. list_all2 (\<lambda>f g. project_field view rows f = Some (Inr g)) fs gs"
    proof (induction fs)
      case (Cons f fs)
      then obtain vs gs where "project_field view rows f = Some (Inr (f\<lparr>fp_values := vs\<rparr>))"
        "list_all2 (\<lambda>f g. project_field view rows f = Some (Inr g)) fs gs" using ok [of f] by auto
      then show ?case by (intro exI [of _ "f\<lparr>fp_values := vs\<rparr> # gs"]) simp
    qed (auto intro: exI [of _ "[]"])
  qed
  with iff show "(\<exists>r. project_fields view fs = Some (Inr r)) \<longleftrightarrow> (\<forall>f \<in> set fs. field_fits (unat w) rows f)" by auto
  assume "project_fields view fs = Some (Inr (n, fs'))"
  then have n: "n = rows" and L: "list_all2 (\<lambda>f g. project_field view rows f = Some (Inr g)) fs fs'" using iff by auto
  have "fp_offset g = fp_offset f \<and> projected bs (unat w) (unat (fp_offset f)) rows (fp_values f) (fp_values g)"
    if "project_field view rows f = Some (Inr g)" for f g
    using ok [of f] bad [of f] that by (cases "field_fits (unat w) rows f") auto
  with L n show "n = rows \<and> list_all2 (\<lambda>f f'. fp_offset f' = fp_offset f \<and>
        projected bs (unat w) (unat (fp_offset f)) rows (fp_values f) (fp_values f')) fs fs'"
    by (auto elim!: list_all2_mono)
qed

end
