(* ===== verification/Bundle_Read.thy ===== *)
theory Bundle_Read
  imports Ordered_Commit Fixed_Binary
begin

text \<open>
  Executing read plans (\<open>column_bundle.rs\<close>): reading the batches of a plan, visiting them one by one, preparing
  them in parallel, and the checks of reusable buffers.

  With more than one thread the row groups are read by the pool of \<open>Ordered_Commit\<close>.  An operation that may
  run the pool is a relation between its arguments and its possible outcomes.  A visitor is a closure that
  owns a state, and an outcome of a visit has the state the visitor was left in.
\<close>

section \<open>Options, outcomes and reports\<close>

record ColumnBundleReadOutcome =
  ro_batches :: "ColumnBatch list"
  ro_report :: ColumnBundleReadReport

record ColumnBundleReadAttributedOutcome =
  rao_outcome :: ColumnBundleReadOutcome
  rao_attribution :: ColumnBundleReadAttribution

record ColumnBundleReadAttributedCursorReport =
  rac_cursor_report :: ColumnBundleReadCursorReport
  rac_attribution :: ColumnBundleReadAttribution

record ColumnBundleReadCursorOptions =
  co_max_in_flight_row_groups :: usize
  co_ordered :: bool

definition ColumnBundleReadCursorOptions_default :: ColumnBundleReadCursorOptions where
  "ColumnBundleReadCursorOptions_default = \<lparr>co_max_in_flight_row_groups = 1, co_ordered = True\<rparr>"

definition validate_read_cursor_options :: "ColumnBundleReadCursorOptions \<Rightarrow> unit result" where
  "validate_read_cursor_options options =
     (if co_max_in_flight_row_groups options = 0
      then Inl (ocb_invalid_input ''OCB read cursor max_in_flight_row_groups must be greater than zero'') else
      if \<not> co_ordered options
      then Inl (Unimplemented ''OCB read cursor unordered mode is not implemented yet'') else
      Inr ())"

definition validate_read_fill_options :: "ColumnBundleReadFillOptions \<Rightarrow> unit result" where
  "validate_read_fill_options options =
     (if \<not> fo_validate_checksums options
      then Inl (Unimplemented ''OCB fill reads currently always validate checksums'') else
      Inr ())"

text \<open>An outcome is the error of a failed step or one of those of what follows.\<close>

definition attempt :: "(ArcadiaTioError \<Rightarrow> 'o) \<Rightarrow> 'a result \<Rightarrow> ('a \<Rightarrow> 'o \<Rightarrow> bool) \<Rightarrow> 'o \<Rightarrow> bool" where
  "attempt failed r k outcome \<longleftrightarrow> (case r of Inl e \<Rightarrow> outcome = failed e | Inr x \<Rightarrow> k x outcome)"

definition returned :: "ArcadiaTioError \<Rightarrow> 'a presult" where
  "returned e = Some (Inl e)"

definition left :: "'s \<Rightarrow> ArcadiaTioError \<Rightarrow> 'a presult \<times> 's" where
  "left s e = (Some (Inl e), s)"

section \<open>Buffers for a plan\<close>

definition projected_columns_for_plan :: "host \<Rightarrow> BundleColumn list \<Rightarrow> ColumnBundleReadPlan \<Rightarrow> BundleColumn list result" where
  "projected_columns_for_plan h columns plan =
     sbind (try_column_bundle_vec_with_capacity h TyReference (length (plan_projected_column_ids plan))) (\<lambda>projected.
     sbind (try_map (\<lambda>column_id. ok_or (List.find (\<lambda>column. bc_id column = column_id) columns)
        (ocb_corrupt_file ''OCB selected column not found'')) (plan_projected_column_ids plan)) (\<lambda>found.
     Inr (projected @ found)))"

definition reusable_column_matches :: "ColumnBundleReusableColumnBuffer \<Rightarrow> BundleColumn \<Rightarrow> bool" where
  "reusable_column_matches buffer column \<longleftrightarrow>
     rcb_column_id buffer = bc_id column \<and> rcb_name buffer = bc_name column \<and>
     rcb_physical_type buffer = bc_physical_type column \<and> rcb_logical_kind buffer = bc_logical_kind column \<and>
     rcb_dictionary_id buffer = bc_dictionary_id column \<and> rcb_nullable buffer = bc_nullable column \<and>
     PrimitiveColumnValuesRef_physical_type (rcb_values buffer) = bc_physical_type column"

definition validate_reusable_buffer_pool ::
  "host \<Rightarrow> ColumnBundleReusableBufferPool \<Rightarrow> ColumnBundleReadPlan \<Rightarrow> BundleColumn list \<Rightarrow> unit result" where
  "validate_reusable_buffer_pool h pool plan columns =
     (if rbp_buffers pool = []
      then Inl (ocb_invalid_input ''OCB reusable visitor requires at least one buffer slot'') else
      sbind (projected_columns_for_plan h columns plan) (\<lambda>projected_columns.
      if projected_columns = []
      then Inl (ocb_invalid_input ''OCB reusable visitor requires at least one projected column'') else
      for_each (\<lambda>slot _.
        if length (rb_columns slot) \<noteq> length projected_columns
        then Inl (ocb_invalid_input ''OCB reusable visitor buffer slot does not match plan projection'') else
        for_each (\<lambda>(buffer, column) _.
          if \<not> reusable_column_matches buffer column
          then Inl (ocb_invalid_input ''OCB reusable visitor buffer column does not match plan projection'') else
          Inr ()) (zip (rb_columns slot) projected_columns) ()) (rbp_buffers pool) ()))"

text \<open>One column of a reusable slot.\<close>

definition add_slot_column :: "u64 \<Rightarrow> bool \<Rightarrow> BundleColumn \<Rightarrow> u64 \<Rightarrow> u64 result" where
  "add_slot_column row_capacity allow_nulls column slot_bytes =
     sbind (case bc_physical_type column of
         Column_I32 \<Rightarrow> Inr 4
       | Column_F32 \<Rightarrow> Inr 4
       | Column_I64 \<Rightarrow> Inr 8
       | Column_F64 \<Rightarrow> Inr 8
       | Column_FixedBinary w \<Rightarrow>
           if w = 0 then Inl (ocb_corrupt_file ''OCB reusable fixed-binary column has zero width'') else Inr (ucast w)) (\<lambda>value_width.
     sbind (ok_or (checked_mul row_capacity value_width)
        (ocb_invalid_input ''OCB reusable buffer value allocation accounting overflows'')) (\<lambda>value_bytes.
     sbind (ok_or (checked_add slot_bytes value_bytes)
        (ocb_invalid_input ''OCB reusable buffer slot accounting overflows'')) (\<lambda>slot_bytes.
     if allow_nulls
     then ok_or (checked_add slot_bytes (div_ceil row_capacity 8))
        (ocb_invalid_input ''OCB reusable validity allocation accounting overflows'')
     else Inr slot_bytes)))"

definition validate_reusable_pool_allocation_resource_limits ::
  "OcbMetadataV1 \<Rightarrow> BundleColumn list \<Rightarrow> usize \<Rightarrow> usize \<Rightarrow> bool \<Rightarrow> unit result" where
  "validate_reusable_pool_allocation_resource_limits metadata columns row_capacity slot_count allow_nulls =
     sbind (ok_or (u64_try_from row_capacity)
        (ocb_invalid_input ''OCB reusable buffer row capacity does not fit resource accounting'')) (\<lambda>row_capacity.
     sbind (for_each (add_slot_column row_capacity allow_nulls) columns 0) (\<lambda>slot_bytes.
     if slot_bytes > max_projected_row_group_bytes (md_resource_limits metadata)
     then Inl (ocb_invalid_input ''OCB reusable buffer slot exceeds projected row-group resource limit'') else
     sbind (ok_or (u64_try_from slot_count)
        (ocb_invalid_input ''OCB reusable buffer slot count does not fit resource accounting'')) (\<lambda>slot_count.
     sbind (ok_or (checked_mul slot_bytes slot_count)
        (ocb_invalid_input ''OCB reusable buffer pool accounting overflows'')) (\<lambda>total_bytes.
     if total_bytes > max_owned_decoded_materialized_bytes (md_resource_limits metadata)
     then Inl (ocb_invalid_input ''OCB reusable buffer pool exceeds decoded materialization resource limit'') else
     Inr ()))))"

definition reusable_buffer_pool_for_plan ::
  "host \<Rightarrow> ColumnBundleFile \<Rightarrow> ColumnBundleReadPlan \<Rightarrow> usize \<Rightarrow> bool \<Rightarrow> ColumnBundleReusableBufferPool result" where
  "reusable_buffer_pool_for_plan h self plan max_in_flight_row_groups allow_nulls =
     sbind (validate_read_plan h self plan) (\<lambda>_.
     if max_in_flight_row_groups = 0
     then Inl (ocb_invalid_input ''OCB reusable buffer pool requires at least one in-flight row group'') else
     sbind (projected_columns_for_plan h (cbf_columns self) plan) (\<lambda>projected_columns.
     sbind (max_row_count_for_plan h (cbf_metadata self) plan) (\<lambda>row_capacity.
     sbind (validate_sliding_in_flight_plan_resource_limits h (cbf_metadata self) plan max_in_flight_row_groups) (\<lambda>_.
     sbind (validate_reusable_pool_allocation_resource_limits (cbf_metadata self) projected_columns row_capacity
        max_in_flight_row_groups allow_nulls) (\<lambda>_.
     sbind (try_column_bundle_vec_with_capacity h TyReusableBuffers max_in_flight_row_groups) (\<lambda>buffers.
     sbind (try_map (\<lambda>_. ColumnBundleReusableBuffers_for_columns h projected_columns row_capacity allow_nulls)
        [0..<max_in_flight_row_groups]) (\<lambda>made.
     Inr \<lparr>rbp_buffers = buffers @ made\<rparr>)))))))"

definition projection_field_widths :: "FixedBinaryRecordProjection \<Rightarrow> u64 option" where
  "projection_field_widths projection =
     fold (\<lambda>field acc. Option.bind acc (\<lambda>acc. checked_add acc (of_nat (byte_width (pf_field_type field)))))
       (frp_fields projection) (Some 0)"

definition validate_fixed_binary_projection_resource_limits ::
  "host \<Rightarrow> OcbMetadataV1 \<Rightarrow> ColumnBundleReadPlan \<Rightarrow> FixedBinaryRecordProjection \<Rightarrow> usize \<Rightarrow> unit result" where
  "validate_fixed_binary_projection_resource_limits h metadata plan projection row_capacity =
     sbind (ok_or (projection_field_widths projection)
        (ocb_invalid_input ''OCB fixed-binary projection field-width accounting overflows'')) (\<lambda>field_widths.
     sbind (ok_or (Option.bind (u64_try_from row_capacity) (\<lambda>rows. checked_mul rows field_widths))
        (ocb_invalid_input ''OCB fixed-binary projection buffer accounting overflows'')) (\<lambda>buffer_bytes.
     if buffer_bytes > max_owned_decoded_materialized_bytes (md_resource_limits metadata)
     then Inl (ocb_invalid_input ''OCB fixed-binary projection buffer exceeds decoded materialization resource limit'') else
     sbind (selected_resource_footprints_for_plan h metadata plan) (\<lambda>footprints.
     for_each (\<lambda>footprint _.
       sbind (ok_or (Option.bind (checked_mul (srf_row_count footprint) field_widths)
            (\<lambda>bytes. checked_add bytes (srf_decoded_materialized_bytes footprint)))
          (ocb_invalid_input ''OCB fixed-binary projection row-group accounting overflows'')) (\<lambda>projected_bytes.
       if projected_bytes > max_projected_row_group_bytes (md_resource_limits metadata)
       then Inl (ocb_invalid_input ''OCB fixed-binary projection exceeds projected row-group resource limit'') else
       Inr ())) footprints ())))"

definition fixed_binary_projection_buffer_for_plan ::
  "host \<Rightarrow> ColumnBundleFile \<Rightarrow> ColumnBundleReadPlan \<Rightarrow> FixedBinaryRecordProjection \<Rightarrow>
   ColumnBundleFixedBinaryProjectionBuffer result" where
  "fixed_binary_projection_buffer_for_plan h self plan projection =
     sbind (validate_read_plan h self plan) (\<lambda>_.
     sbind (validate_fixed_binary_record_projection (cbf_columns self) plan projection) (\<lambda>source_column.
     sbind (validate_in_flight_plan_resource_limits h (cbf_metadata self) plan 1) (\<lambda>_.
     sbind (max_row_count_for_plan h (cbf_metadata self) plan) (\<lambda>row_capacity.
     sbind (validate_fixed_binary_projection_resource_limits h (cbf_metadata self) plan projection row_capacity) (\<lambda>_.
     for_projection h source_column projection row_capacity)))))"

section \<open>One row group\<close>

definition read_row_group_by_id :: "host \<Rightarrow> zstd \<Rightarrow> ColumnBundleFile \<Rightarrow> u32 \<Rightarrow> ColumnBatch result" where
  "read_row_group_by_id h zstd self row_group_id =
     sbind (try_column_bundle_vec_with_capacity h TyU32 (length (cbf_columns self))) (\<lambda>projected_column_ids.
     let projected_column_ids = projected_column_ids @ map bc_id (cbf_columns self) in
     sbind (try_column_bundle_vec_with_capacity h TyU32 1) (\<lambda>row_group_ids.
     let plan = \<lparr>plan_projected_column_ids = projected_column_ids, plan_row_group_ids = row_group_ids @ [row_group_id],
                 plan_report = build_read_report 1 1 0 (length (cbf_columns self))\<rparr> in
     sbind (validate_read_plan h self plan) (\<lambda>_.
     sbind (validate_owned_plan_resource_limits h (cbf_metadata self) plan) (\<lambda>_.
     read_row_group h zstd (cbf_source self) (cbf_metadata self) (cbf_columns self) row_group_id
       (plan_projected_column_ids plan)))))"

definition ColumnBundleFile_read_row_group_into ::
  "host \<Rightarrow> zstd \<Rightarrow> ColumnBundleFile \<Rightarrow> u32 \<Rightarrow> ColumnBundleColumnFillBuffer list \<Rightarrow> ColumnBundleReadFillOptions \<Rightarrow>
   (ColumnBundleReadFillReport \<times> ColumnBundleColumnFillBuffer list) presult" where
  "ColumnBundleFile_read_row_group_into h zstd self row_group_id buffers options =
     pbind (Some (validate_read_fill_options options)) (\<lambda>_.
     read_row_group_into h zstd (cbf_source self) (cbf_metadata self) (cbf_columns self) row_group_id buffers)"

section \<open>Tasks\<close>

definition task_spec ::
  "string \<Rightarrow> string \<Rightarrow> OcbMetadataV1 \<Rightarrow> usize \<times> u32 \<Rightarrow> ParallelPrepareTaskSpec result" where
  "task_spec not_found overflows metadata = (\<lambda>(selected_row_group_ordinal, row_group_id).
     sbind (ok_or (row_group_by_id metadata row_group_id) (ocb_corrupt_file not_found)) (\<lambda>row_group.
     sbind (ok_or (checked_add (rg_base_row row_group) (rg_row_count row_group)) (ocb_corrupt_file overflows)) (\<lambda>row_end.
     Inr \<lparr>pts_selected_row_group_ordinal = selected_row_group_ordinal, pts_row_group_id = row_group_id,
          pts_base_row = rg_base_row row_group, pts_row_end = row_end, pts_row_count = rg_row_count row_group\<rparr>)))"

definition bounded_ordered_tasks_for_plan ::
  "host \<Rightarrow> ColumnBundleFile \<Rightarrow> ColumnBundleReadPlan \<Rightarrow> ParallelPrepareTaskSpec list result" where
  "bounded_ordered_tasks_for_plan h self plan =
     sbind (try_column_bundle_vec_with_capacity h TyTaskSpec (length (plan_row_group_ids plan))) (\<lambda>tasks.
     sbind (try_map (task_spec ''OCB bounded scheduler row group not found'' ''OCB bounded scheduler row range overflows''
        (cbf_metadata self)) (enumerate 0 (plan_row_group_ids plan))) (\<lambda>pushed.
     Inr (tasks @ pushed)))"

definition parallel_prepare_tasks_and_report ::
  "host \<Rightarrow> ColumnBundleFile \<Rightarrow> ColumnBundleReadPlan \<Rightarrow> u32 list \<Rightarrow> ColumnBundleParallelPrepareOptions \<Rightarrow>
   (ParallelPrepareTaskSpec list \<times> ColumnBundleReadReport) result" where
  "parallel_prepare_tasks_and_report h self plan row_group_ids options =
     sbind (validate_read_plan h self plan) (\<lambda>_.
     sbind (planned_row_group_subset h plan row_group_ids) (\<lambda>selected_row_group_ids.
     let report = execution_report_for_plan plan (length selected_row_group_ids) in
     sbind (clone_column_bundle_u32s_fallibly h (plan_projected_column_ids plan)) (\<lambda>projected_column_ids.
     sbind (clone_column_bundle_u32s_fallibly h selected_row_group_ids) (\<lambda>selected.
     sbind (validate_sliding_in_flight_plan_resource_limits h (cbf_metadata self)
        \<lparr>plan_projected_column_ids = projected_column_ids, plan_row_group_ids = selected, plan_report = report\<rparr>
        (ppo_max_in_flight_row_groups options)) (\<lambda>_.
     sbind (try_column_bundle_vec_with_capacity h TyTaskSpec (length selected_row_group_ids)) (\<lambda>tasks.
     sbind (try_map (task_spec ''OCB parallel prepare row group not found'' ''OCB parallel prepare row range overflows''
        (cbf_metadata self)) (enumerate 0 selected_row_group_ids)) (\<lambda>pushed.
     Inr (tasks @ pushed, report))))))))"

text \<open>\<open>__validate_plan_row_group_subset_for_private_adapter\<close>.\<close>

definition validate_plan_row_group_subset :: "host \<Rightarrow> ColumnBundleFile \<Rightarrow> ColumnBundleReadPlan \<Rightarrow> u32 list \<Rightarrow> u32 list result" where
  "validate_plan_row_group_subset h self plan row_group_ids =
     sbind (validate_read_plan h self plan) (\<lambda>_. planned_row_group_subset h plan row_group_ids)"

section \<open>Parallel preparation\<close>

definition parallel_prepare_plan_row_groups ::
  "host \<Rightarrow> zstd \<Rightarrow> ColumnBundleFile \<Rightarrow> ColumnBundleReadPlan \<Rightarrow> u32 list \<Rightarrow> ColumnBundleParallelPrepareOptions \<Rightarrow>
   (ColumnBatch, 'a) prepare_fn \<Rightarrow> ('a, 's) commit_fn \<Rightarrow> 's \<Rightarrow> ColumnBundleParallelPrepareReport presult \<times> 's \<Rightarrow> bool" where
  "parallel_prepare_plan_row_groups h zstd self plan row_group_ids options prepare ordered_commit s =
     attempt (left s) (parallel_prepare_tasks_and_report h self plan row_group_ids options) (\<lambda>(tasks, report) (outcome, s').
       execute_parallel_prepare tasks report options
         (\<lambda>row_group_id. Some (read_row_group_with_attribution h zstd (cbf_source self) (cbf_metadata self) (cbf_columns self)
            row_group_id (plan_projected_column_ids plan)))
         prepare ordered_commit s outcome s')"

section \<open>Reading all batches\<close>

text \<open>The reads the workers run: they never panic.\<close>

definition batch_read :: "host \<Rightarrow> zstd \<Rightarrow> ColumnBundleFile \<Rightarrow> ColumnBundleReadPlan \<Rightarrow> ColumnBatch read_fn" where
  "batch_read h zstd self plan context =
     Some (sbind (read_row_group h zstd (cbf_source self) (cbf_metadata self) (cbf_columns self)
       (ctx_row_group_id context) (plan_projected_column_ids plan)) (\<lambda>batch.
     Inr (batch, ReadAttributionAccumulator_default)))"

definition attributed_read :: "host \<Rightarrow> zstd \<Rightarrow> ColumnBundleFile \<Rightarrow> ColumnBundleReadPlan \<Rightarrow> ColumnBatch read_fn" where
  "attributed_read h zstd self plan context =
     Some (read_row_group_with_attribution h zstd (cbf_source self) (cbf_metadata self) (cbf_columns self)
       (ctx_row_group_id context) (plan_projected_column_ids plan))"

definition push_batch :: "(ColumnBatch, ColumnBatch list) commit_fn" where
  "push_batch _ batch batches = (Some (Inr Visit_Continue), batches @ [batch])"

definition execute_plan ::
  "host \<Rightarrow> zstd \<Rightarrow> ColumnBundleFile \<Rightarrow> ColumnBundleReadPlan \<Rightarrow> ColumnBatch list presult \<Rightarrow> bool" where
  "execute_plan h zstd self plan =
     attempt returned (validate_owned_plan_resource_limits h (cbf_metadata self) plan) (\<lambda>_ out.
     if plan_row_group_ids plan = [] then out = Some (Inr []) else
     if rr_effective_threads (plan_report plan) \<le> 1
     then out = Some (
       sbind (try_column_bundle_vec_with_capacity h TyColumnBatch (length (plan_row_group_ids plan))) (\<lambda>batches.
       sbind (try_map (\<lambda>row_group_id. read_row_group h zstd (cbf_source self) (cbf_metadata self) (cbf_columns self)
          row_group_id (plan_projected_column_ids plan)) (plan_row_group_ids plan)) (\<lambda>read.
       Inr (batches @ read))))
     else
       attempt returned (try_column_bundle_vec_with_capacity h TyColumnBatch (length (plan_row_group_ids plan))) (\<lambda>batches.
       attempt returned (bounded_ordered_tasks_for_plan h self plan) (\<lambda>tasks out.
         \<exists>outcome batches'. execute_bounded_ordered tasks (plan_report plan)
             \<lparr>ppo_max_in_flight_row_groups = rr_effective_threads (plan_report plan)\<rparr> Windowed Propagate
             (batch_read h zstd self plan) (\<lambda>_ batch. Some (Inr batch)) push_batch batches outcome batches' \<and>
           out = pbind outcome (\<lambda>_. Some (Inr batches')))) out)"

definition execute_plan_with_attribution ::
  "host \<Rightarrow> zstd \<Rightarrow> ColumnBundleFile \<Rightarrow> ColumnBundleReadPlan \<Rightarrow> (ColumnBatch list \<times> ReadAttributionAccumulator) presult \<Rightarrow> bool" where
  "execute_plan_with_attribution h zstd self plan =
     attempt returned (validate_owned_plan_resource_limits h (cbf_metadata self) plan) (\<lambda>_ out.
     if plan_row_group_ids plan = [] then out = Some (Inr ([], ReadAttributionAccumulator_default)) else
     if rr_effective_threads (plan_report plan) \<le> 1
     then out = Some (
       sbind (try_column_bundle_vec_with_capacity h TyColumnBatch (length (plan_row_group_ids plan))) (\<lambda>batches.
       for_each (\<lambda>row_group_id (batches, attribution).
         sbind (read_row_group_with_attribution h zstd (cbf_source self) (cbf_metadata self) (cbf_columns self)
            row_group_id (plan_projected_column_ids plan)) (\<lambda>(batch, row_attr).
         Inr (batches @ [batch], ReadAttributionAccumulator_add attribution row_attr)))
         (plan_row_group_ids plan) (batches, ReadAttributionAccumulator_default)))
     else
       attempt returned (try_column_bundle_vec_with_capacity h TyColumnBatch (length (plan_row_group_ids plan))) (\<lambda>batches.
       attempt returned (bounded_ordered_tasks_for_plan h self plan) (\<lambda>tasks out.
         \<exists>outcome batches'. execute_bounded_ordered tasks (plan_report plan)
             \<lparr>ppo_max_in_flight_row_groups = rr_effective_threads (plan_report plan)\<rparr> Windowed Propagate
             (attributed_read h zstd self plan) (\<lambda>_ batch. Some (Inr batch)) push_batch batches outcome batches' \<and>
           out = pbind outcome (\<lambda>outcome. Some (Inr (batches', boo_attribution_accumulator outcome))))) out)"

text \<open>
  The plan that is executed: a copy of the given one with the chosen row groups and the report of their
  execution.
\<close>

definition execution_plan_for ::
  "host \<Rightarrow> ColumnBundleReadPlan \<Rightarrow> u32 list \<Rightarrow> bool \<Rightarrow> ColumnBundleReadPlan result" where
  "execution_plan_for h plan row_group_ids clone_ids =
     (let report = execution_report_for_plan plan (length row_group_ids) in
     sbind (clone_column_bundle_u32s_fallibly h (plan_projected_column_ids plan)) (\<lambda>projected_column_ids.
     sbind (if clone_ids then clone_column_bundle_u32s_fallibly h row_group_ids else Inr row_group_ids) (\<lambda>row_group_ids.
     Inr \<lparr>plan_projected_column_ids = projected_column_ids, plan_row_group_ids = row_group_ids, plan_report = report\<rparr>)))"

definition read_plan_batches ::
  "host \<Rightarrow> zstd \<Rightarrow> ColumnBundleFile \<Rightarrow> ColumnBundleReadPlan \<Rightarrow> ColumnBundleReadOutcome presult \<Rightarrow> bool" where
  "read_plan_batches h zstd self plan =
     attempt returned (validate_read_plan h self plan) (\<lambda>_.
     attempt returned (execution_plan_for h plan (plan_row_group_ids plan) True) (\<lambda>execution_plan out.
       \<exists>batches. execute_plan h zstd self execution_plan batches \<and>
         out = pbind batches (\<lambda>batches. Some (Inr \<lparr>ro_batches = batches, ro_report = plan_report execution_plan\<rparr>))))"

definition read_plan_row_groups ::
  "host \<Rightarrow> zstd \<Rightarrow> ColumnBundleFile \<Rightarrow> ColumnBundleReadPlan \<Rightarrow> u32 list \<Rightarrow> ColumnBundleReadOutcome presult \<Rightarrow> bool" where
  "read_plan_row_groups h zstd self plan row_group_ids =
     attempt returned (validate_read_plan h self plan) (\<lambda>_.
     attempt returned (planned_row_group_subset h plan row_group_ids) (\<lambda>selected_row_group_ids.
     attempt returned (execution_plan_for h plan selected_row_group_ids False) (\<lambda>execution_plan out.
       \<exists>batches. execute_plan h zstd self execution_plan batches \<and>
         out = pbind batches (\<lambda>batches. Some (Inr \<lparr>ro_batches = batches, ro_report = plan_report execution_plan\<rparr>)))))"

definition attributed_outcome ::
  "ColumnBundleReadPlan \<Rightarrow> (ColumnBatch list \<times> ReadAttributionAccumulator) presult \<Rightarrow> ColumnBundleReadAttributedOutcome presult" where
  "attributed_outcome execution_plan out =
     pbind out (\<lambda>(batches, accumulator). Some (Inr
       \<lparr>rao_outcome = \<lparr>ro_batches = batches, ro_report = plan_report execution_plan\<rparr>,
        rao_attribution = attribution_from_accumulator accumulator (plan_report execution_plan)\<rparr>))"

definition read_plan_batches_with_attribution_and_plan_ns ::
  "host \<Rightarrow> zstd \<Rightarrow> ColumnBundleFile \<Rightarrow> ColumnBundleReadPlan \<Rightarrow> ColumnBundleReadAttributedOutcome presult \<Rightarrow> bool" where
  "read_plan_batches_with_attribution_and_plan_ns h zstd self plan =
     attempt returned (validate_read_plan h self plan) (\<lambda>_.
     attempt returned (execution_plan_for h plan (plan_row_group_ids plan) True) (\<lambda>execution_plan out.
       \<exists>read. execute_plan_with_attribution h zstd self execution_plan read \<and> out = attributed_outcome execution_plan read))"

definition read_plan_batches_with_attribution ::
  "host \<Rightarrow> zstd \<Rightarrow> ColumnBundleFile \<Rightarrow> ColumnBundleReadPlan \<Rightarrow> ColumnBundleReadAttributedOutcome presult \<Rightarrow> bool" where
  "read_plan_batches_with_attribution h zstd self plan = read_plan_batches_with_attribution_and_plan_ns h zstd self plan"

definition read_plan_row_groups_with_attribution ::
  "host \<Rightarrow> zstd \<Rightarrow> ColumnBundleFile \<Rightarrow> ColumnBundleReadPlan \<Rightarrow> u32 list \<Rightarrow> ColumnBundleReadAttributedOutcome presult \<Rightarrow> bool" where
  "read_plan_row_groups_with_attribution h zstd self plan row_group_ids =
     attempt returned (validate_read_plan h self plan) (\<lambda>_.
     attempt returned (planned_row_group_subset h plan row_group_ids) (\<lambda>selected_row_group_ids.
     attempt returned (execution_plan_for h plan selected_row_group_ids False) (\<lambda>execution_plan out.
       \<exists>read. execute_plan_with_attribution h zstd self execution_plan read \<and> out = attributed_outcome execution_plan read)))"

definition read_batches_with_report ::
  "host \<Rightarrow> zstd \<Rightarrow> ColumnBundleFile \<Rightarrow> ColumnBundleReadRequest \<Rightarrow> ColumnBundleReadOutcome presult \<Rightarrow> bool" where
  "read_batches_with_report h zstd self request =
     attempt returned (plan_read h self request) (read_plan_batches h zstd self)"

definition read_batches ::
  "host \<Rightarrow> zstd \<Rightarrow> ColumnBundleFile \<Rightarrow> ColumnBundleReadRequest \<Rightarrow> ColumnBatch list presult \<Rightarrow> bool" where
  "read_batches h zstd self request out \<longleftrightarrow>
     (\<exists>outcome. read_batches_with_report h zstd self request outcome \<and>
        out = pbind outcome (\<lambda>outcome. Some (Inr (ro_batches outcome))))"

definition read_batches_with_attribution ::
  "host \<Rightarrow> zstd \<Rightarrow> ColumnBundleFile \<Rightarrow> ColumnBundleReadRequest \<Rightarrow> ColumnBundleReadAttributedOutcome presult \<Rightarrow> bool" where
  "read_batches_with_attribution h zstd self request =
     attempt returned (plan_read h self request) (read_plan_batches_with_attribution_and_plan_ns h zstd self)"

section \<open>Visiting batches\<close>

type_synonym 's visitor = "ColumnBatch \<Rightarrow> 's \<Rightarrow> ColumnBundleVisitControl presult \<times> 's"

definition cursor_report_start :: "ColumnBundleReadPlan \<Rightarrow> ColumnBundleReadCursorReport" where
  "cursor_report_start plan =
     \<lparr>ccr_base_report = plan_report plan, ccr_batches_yielded = 0, ccr_rows_yielded = 0,
      ccr_max_in_flight_row_groups_observed = 0, ccr_cancelled = False\<rparr>"

definition count_batch :: "u64 \<Rightarrow> ColumnBundleReadCursorReport \<Rightarrow> ColumnBundleReadCursorReport" where
  "count_batch row_count report = report
     \<lparr>ccr_batches_yielded := usize_saturating_add (ccr_batches_yielded report) 1,
      ccr_rows_yielded := saturating_add (ccr_rows_yielded report) row_count\<rparr>"

definition wave_size :: "ColumnBundleReadPlan \<Rightarrow> ColumnBundleReadCursorOptions \<Rightarrow> usize" where
  "wave_size plan cursor_options =
     min (max (rr_effective_threads (plan_report plan)) 1) (max (co_max_in_flight_row_groups cursor_options) 1)"

text \<open>The serial loops.\<close>

fun visit_serially ::
  "(u32 \<Rightarrow> ColumnBatch result) \<Rightarrow> 's visitor \<Rightarrow> u32 list \<Rightarrow> ColumnBundleReadCursorReport \<Rightarrow> 's \<Rightarrow>
   ColumnBundleReadCursorReport presult \<times> 's" where
  "visit_serially read visitor [] report s = (Some (Inr report), s)"
| "visit_serially read visitor (row_group_id # row_group_ids) report s =
     (case read row_group_id of
        Inl e \<Rightarrow> (Some (Inl e), s)
      | Inr batch \<Rightarrow>
          (case visitor batch s of
             (None, s) \<Rightarrow> (None, s)
           | (Some (Inl e), s) \<Rightarrow> (Some (Inl e), s)
           | (Some (Inr Visit_Continue), s) \<Rightarrow>
               visit_serially read visitor row_group_ids (count_batch (batch_row_count batch) report) s
           | (Some (Inr Visit_Stop), s) \<Rightarrow>
               (Some (Inr ((count_batch (batch_row_count batch) report)\<lparr>ccr_cancelled := True\<rparr>)), s)))"

fun visit_serially_with_attribution ::
  "(u32 \<Rightarrow> (ColumnBatch \<times> ReadAttributionAccumulator) result) \<Rightarrow> 's visitor \<Rightarrow> u32 list \<Rightarrow>
   ColumnBundleReadCursorReport \<Rightarrow> ReadAttributionAccumulator \<Rightarrow> 's \<Rightarrow>
   (ColumnBundleReadCursorReport \<times> ReadAttributionAccumulator) presult \<times> 's" where
  "visit_serially_with_attribution read visitor [] report accumulator s = (Some (Inr (report, accumulator)), s)"
| "visit_serially_with_attribution read visitor (row_group_id # row_group_ids) report accumulator s =
     (case read row_group_id of
        Inl e \<Rightarrow> (Some (Inl e), s)
      | Inr (batch, row_attr) \<Rightarrow>
          let accumulator = ReadAttributionAccumulator_add accumulator row_attr in
          (case visitor batch s of
             (None, s) \<Rightarrow> (None, s)
           | (Some (Inl e), s) \<Rightarrow> (Some (Inl e), s)
           | (Some (Inr Visit_Continue), s) \<Rightarrow>
               visit_serially_with_attribution read visitor row_group_ids (count_batch (batch_row_count batch) report) accumulator s
           | (Some (Inr Visit_Stop), s) \<Rightarrow>
               (Some (Inr ((count_batch (batch_row_count batch) report)\<lparr>ccr_cancelled := True\<rparr>, accumulator)), s)))"

definition visit_execution_plan ::
  "host \<Rightarrow> zstd \<Rightarrow> ColumnBundleFile \<Rightarrow> ColumnBundleReadPlan \<Rightarrow> ColumnBundleReadCursorOptions \<Rightarrow> 's visitor \<Rightarrow> 's \<Rightarrow>
   ColumnBundleReadCursorReport presult \<times> 's \<Rightarrow> bool" where
  "visit_execution_plan h zstd self plan cursor_options visitor s out =
     (if plan_row_group_ids plan = [] then out = (Some (Inr (cursor_report_start plan)), s) else
      attempt (left s) (validate_contiguous_in_flight_plan_resource_limits h (cbf_metadata self) plan
        (wave_size plan cursor_options)) (\<lambda>_ out.
      if wave_size plan cursor_options \<le> 1
      then out = visit_serially (\<lambda>row_group_id. read_row_group h zstd (cbf_source self) (cbf_metadata self)
             (cbf_columns self) row_group_id (plan_projected_column_ids plan)) visitor (plan_row_group_ids plan)
             ((cursor_report_start plan)\<lparr>ccr_max_in_flight_row_groups_observed := 1\<rparr>) s
      else
        attempt (left s) (bounded_ordered_tasks_for_plan h self plan) (\<lambda>tasks out.
          \<exists>outcome s'. execute_bounded_ordered tasks (plan_report plan)
              \<lparr>ppo_max_in_flight_row_groups = wave_size plan cursor_options\<rparr> Windowed Propagate
              (batch_read h zstd self plan) (\<lambda>_ batch. Some (Inr batch)) (\<lambda>_. visitor) s outcome s' \<and>
            out = (pbind outcome (\<lambda>outcome. Some (Inr
              ((ppr_cursor_report (boo_report outcome))\<lparr>ccr_base_report := plan_report plan\<rparr>))), s')) out) out)"

definition attributed_cursor_report ::
  "ColumnBundleReadPlan \<Rightarrow> ColumnBundleReadCursorReport \<Rightarrow> ReadAttributionAccumulator \<Rightarrow> ColumnBundleReadAttributedCursorReport" where
  "attributed_cursor_report plan cursor_report accumulator =
     \<lparr>rac_cursor_report = cursor_report, rac_attribution = attribution_from_accumulator accumulator (plan_report plan)\<rparr>"

definition visit_execution_plan_with_attribution ::
  "host \<Rightarrow> zstd \<Rightarrow> ColumnBundleFile \<Rightarrow> ColumnBundleReadPlan \<Rightarrow> ColumnBundleReadCursorOptions \<Rightarrow> 's visitor \<Rightarrow> 's \<Rightarrow>
   ColumnBundleReadAttributedCursorReport presult \<times> 's \<Rightarrow> bool" where
  "visit_execution_plan_with_attribution h zstd self plan cursor_options visitor s out =
     (if plan_row_group_ids plan = []
      then out = (Some (Inr (attributed_cursor_report plan (cursor_report_start plan) ReadAttributionAccumulator_default)), s) else
      attempt (left s) (validate_contiguous_in_flight_plan_resource_limits h (cbf_metadata self) plan
        (wave_size plan cursor_options)) (\<lambda>_ out.
      if wave_size plan cursor_options \<le> 1
      then out = (case visit_serially_with_attribution (\<lambda>row_group_id. read_row_group_with_attribution h zstd (cbf_source self)
               (cbf_metadata self) (cbf_columns self) row_group_id (plan_projected_column_ids plan)) visitor
               (plan_row_group_ids plan) ((cursor_report_start plan)\<lparr>ccr_max_in_flight_row_groups_observed := 1\<rparr>)
               ReadAttributionAccumulator_default s of
             (r, s') \<Rightarrow> (pbind r (\<lambda>(report, accumulator). Some (Inr (attributed_cursor_report plan report accumulator))), s'))
      else
        attempt (left s) (bounded_ordered_tasks_for_plan h self plan) (\<lambda>tasks out.
          \<exists>outcome s'. execute_bounded_ordered tasks (plan_report plan)
              \<lparr>ppo_max_in_flight_row_groups = wave_size plan cursor_options\<rparr> Windowed Propagate
              (attributed_read h zstd self plan) (\<lambda>_ batch. Some (Inr batch)) (\<lambda>_. visitor) s outcome s' \<and>
            out = (pbind outcome (\<lambda>outcome. Some (Inr (attributed_cursor_report plan
              ((ppr_cursor_report (boo_report outcome))\<lparr>ccr_base_report := plan_report plan\<rparr>)
              (boo_attribution_accumulator outcome)))), s')) out) out)"

definition visit_plan_batches ::
  "host \<Rightarrow> zstd \<Rightarrow> ColumnBundleFile \<Rightarrow> ColumnBundleReadPlan \<Rightarrow> ColumnBundleReadCursorOptions \<Rightarrow> 's visitor \<Rightarrow> 's \<Rightarrow>
   ColumnBundleReadCursorReport presult \<times> 's \<Rightarrow> bool" where
  "visit_plan_batches h zstd self plan cursor_options visitor s =
     attempt (left s) (validate_read_plan h self plan) (\<lambda>_.
     attempt (left s) (validate_read_cursor_options cursor_options) (\<lambda>_.
     attempt (left s) (execution_plan_for h plan (plan_row_group_ids plan) True) (\<lambda>execution_plan.
     visit_execution_plan h zstd self execution_plan cursor_options visitor s)))"

definition visit_plan_batches_with_attribution_and_plan_ns ::
  "host \<Rightarrow> zstd \<Rightarrow> ColumnBundleFile \<Rightarrow> ColumnBundleReadPlan \<Rightarrow> ColumnBundleReadCursorOptions \<Rightarrow> 's visitor \<Rightarrow> 's \<Rightarrow>
   ColumnBundleReadAttributedCursorReport presult \<times> 's \<Rightarrow> bool" where
  "visit_plan_batches_with_attribution_and_plan_ns h zstd self plan cursor_options visitor s =
     attempt (left s) (validate_read_plan h self plan) (\<lambda>_.
     attempt (left s) (validate_read_cursor_options cursor_options) (\<lambda>_.
     attempt (left s) (execution_plan_for h plan (plan_row_group_ids plan) True) (\<lambda>execution_plan.
     visit_execution_plan_with_attribution h zstd self execution_plan cursor_options visitor s)))"

definition visit_plan_batches_with_attribution ::
  "host \<Rightarrow> zstd \<Rightarrow> ColumnBundleFile \<Rightarrow> ColumnBundleReadPlan \<Rightarrow> ColumnBundleReadCursorOptions \<Rightarrow> 's visitor \<Rightarrow> 's \<Rightarrow>
   ColumnBundleReadAttributedCursorReport presult \<times> 's \<Rightarrow> bool" where
  "visit_plan_batches_with_attribution h zstd self plan cursor_options visitor =
     visit_plan_batches_with_attribution_and_plan_ns h zstd self plan cursor_options visitor"

definition visit_plan_row_groups ::
  "host \<Rightarrow> zstd \<Rightarrow> ColumnBundleFile \<Rightarrow> ColumnBundleReadPlan \<Rightarrow> u32 list \<Rightarrow> ColumnBundleReadCursorOptions \<Rightarrow> 's visitor \<Rightarrow> 's \<Rightarrow>
   ColumnBundleReadCursorReport presult \<times> 's \<Rightarrow> bool" where
  "visit_plan_row_groups h zstd self plan row_group_ids cursor_options visitor s =
     attempt (left s) (validate_read_plan h self plan) (\<lambda>_.
     attempt (left s) (validate_read_cursor_options cursor_options) (\<lambda>_.
     attempt (left s) (planned_row_group_subset h plan row_group_ids) (\<lambda>selected_row_group_ids.
     attempt (left s) (execution_plan_for h plan selected_row_group_ids False) (\<lambda>execution_plan.
     visit_execution_plan h zstd self execution_plan cursor_options visitor s))))"

definition visit_plan_row_groups_with_attribution ::
  "host \<Rightarrow> zstd \<Rightarrow> ColumnBundleFile \<Rightarrow> ColumnBundleReadPlan \<Rightarrow> u32 list \<Rightarrow> ColumnBundleReadCursorOptions \<Rightarrow> 's visitor \<Rightarrow> 's \<Rightarrow>
   ColumnBundleReadAttributedCursorReport presult \<times> 's \<Rightarrow> bool" where
  "visit_plan_row_groups_with_attribution h zstd self plan row_group_ids cursor_options visitor s =
     attempt (left s) (validate_read_plan h self plan) (\<lambda>_.
     attempt (left s) (validate_read_cursor_options cursor_options) (\<lambda>_.
     attempt (left s) (planned_row_group_subset h plan row_group_ids) (\<lambda>selected_row_group_ids.
     attempt (left s) (execution_plan_for h plan selected_row_group_ids False) (\<lambda>execution_plan.
     visit_execution_plan_with_attribution h zstd self execution_plan cursor_options visitor s))))"

definition visit_batches ::
  "host \<Rightarrow> zstd \<Rightarrow> ColumnBundleFile \<Rightarrow> ColumnBundleReadRequest \<Rightarrow> ColumnBundleReadCursorOptions \<Rightarrow> 's visitor \<Rightarrow> 's \<Rightarrow>
   ColumnBundleReadCursorReport presult \<times> 's \<Rightarrow> bool" where
  "visit_batches h zstd self request cursor_options visitor s =
     attempt (left s) (plan_read h self request) (\<lambda>plan. visit_plan_batches h zstd self plan cursor_options visitor s)"

definition visit_batches_with_attribution ::
  "host \<Rightarrow> zstd \<Rightarrow> ColumnBundleFile \<Rightarrow> ColumnBundleReadRequest \<Rightarrow> ColumnBundleReadCursorOptions \<Rightarrow> 's visitor \<Rightarrow> 's \<Rightarrow>
   ColumnBundleReadAttributedCursorReport presult \<times> 's \<Rightarrow> bool" where
  "visit_batches_with_attribution h zstd self request cursor_options visitor s =
     attempt (left s) (plan_read h self request) (\<lambda>plan.
       visit_plan_batches_with_attribution_and_plan_ns h zstd self plan cursor_options visitor s)"

end
