(* ===== verification/Plan_Runs.thy ===== *)
theory Plan_Runs
  imports Bundle_Read Ordered_Properties
begin

text \<open>
  Executing a plan with the pool gives what reading its row groups one after the other gives.
\<close>

section \<open>The tasks of a plan\<close>

lemma row_range_fits:
  assumes "bundle_ok f" and "row_group_by_id (cbf_metadata f) k = Some g"
  shows "checked_add (rg_base_row g) (rg_row_count g) = Some (rg_base_row g + rg_row_count g)"
proof -
  let ?index = "md_row_group_index (cbf_metadata f)" and ?gs = "rgi_row_groups (md_row_group_index (cbf_metadata f))"
  have wf: "row_groups_tile ?index (length ?gs)" "rows_before ?gs (length ?gs) = unat (root1_row_count (md_root (cbf_metadata f)))"
    using assms(1) unfolding bundle_ok_def metadata_wf_def Let_def by blast+
  from assms(2) [unfolded bundle_row_group_by_id [OF assms(1)]] obtain i where i: "i < length ?gs" "?gs ! i = g" by (auto simp: in_set_conv_nth)
  then have "unat (rg_base_row g) + unat (rg_row_count g) = rows_before ?gs (Suc i)"
    using wf(1) by (auto simp: row_groups_tile_def rows_before_def take_Suc_conv_app_nth)
  also have "\<dots> \<le> rows_before ?gs (length ?gs)"
    unfolding rows_before_def by (metis append_take_drop_id le_add1 map_append sum_list_append take_all_iff linorder_le_cases)
  also have "\<dots> < 2 ^ 64" unfolding wf(2) using unsigned_less [of "root1_row_count (md_root (cbf_metadata f))", where ?'a = nat] by simp
  finally show ?thesis by (simp add: checked_add_def)
qed

lemma task_specs:
  assumes "bundle_ok f" and "\<forall>i \<in> set ids. row_group_by_id (cbf_metadata f) i \<noteq> None"
  obtains tasks where "try_map (task_spec not_found overflows (cbf_metadata f)) (enumerate n ids) = Inr tasks"
    and "map pts_row_group_id tasks = ids" and "map pts_selected_row_group_ordinal tasks = [n..<n + length ids]"
  using assms(2)
proof (induction ids arbitrary: n thesis)
  case Nil
  then show ?case by simp
next
  case (Cons i ids)
  from Cons.prems(2) obtain g where g: "row_group_by_id (cbf_metadata f) i = Some g" by auto
  obtain tasks where tasks: "try_map (task_spec not_found overflows (cbf_metadata f)) (enumerate (Suc n) ids) = Inr tasks"
    "map pts_row_group_id tasks = ids" "map pts_selected_row_group_ordinal tasks = [Suc n..<Suc n + length ids]"
    using Cons.IH [of "Suc n"] Cons.prems(2) by auto
  obtain t where t: "task_spec not_found overflows (cbf_metadata f) (n, i) = Inr t"
    "pts_row_group_id t = i" "pts_selected_row_group_ordinal t = n"
    by (simp add: task_spec_def g row_range_fits [OF assms(1) g])
  show ?case
  proof (rule Cons.prems(1) [of "t # tasks"])
    show "map pts_selected_row_group_ordinal (t # tasks) = [n..<n + length (i # ids)]"
      using tasks(3) t(3) by (subst upt_conv_Cons) simp_all
  qed (simp_all add: t tasks)
qed

text \<open>A plan whose row groups are known has tasks as soon as there is room for them.\<close>

lemma bounded_ordered_tasks:
  assumes "bundle_ok f" and "\<forall>i \<in> set (plan_row_group_ids plan). row_group_by_id (cbf_metadata f) i \<noteq> None"
    and "try_column_bundle_vec_with_capacity h TyTaskSpec (length (plan_row_group_ids plan)) = Inr ([] :: ParallelPrepareTaskSpec list)"
  obtains tasks where "bounded_ordered_tasks_for_plan h f plan = Inr tasks"
    and "map pts_row_group_id tasks = plan_row_group_ids plan" and "ordinals tasks"
proof -
  obtain tasks where tasks: "try_map (task_spec ''OCB bounded scheduler row group not found''
      ''OCB bounded scheduler row range overflows'' (cbf_metadata f)) (enumerate 0 (plan_row_group_ids plan)) = Inr tasks"
    "map pts_row_group_id tasks = plan_row_group_ids plan"
    "map pts_selected_row_group_ordinal tasks = [0..<0 + length (plan_row_group_ids plan)]"
    using assms(1,2) by (rule task_specs)
  have "length tasks = length (plan_row_group_ids plan)" using tasks(2) by (metis length_map)
  with tasks assms(3) show thesis by (intro that [of tasks]) (simp_all add: bounded_ordered_tasks_for_plan_def ordinals_def)
qed

lemma bounded_ordered_task_rows:
  assumes "bounded_ordered_tasks_for_plan h f plan = Inr tasks" and "t \<in> set tasks"
  shows "pts_row_group_id t \<in> set (plan_row_group_ids plan) \<and>
    (\<exists>g. row_group_by_id (cbf_metadata f) (pts_row_group_id t) = Some g \<and> pts_row_count t = rg_row_count g)"
proof -
  from assms obtain i k where "(i, k) \<in> set (enumerate 0 (plan_row_group_ids plan))"
    "task_spec ''OCB bounded scheduler row group not found'' ''OCB bounded scheduler row range overflows'' (cbf_metadata f) (i, k) = Inr t"
    by (auto simp: bounded_ordered_tasks_for_plan_def sbind_eq_Inr try_map_Inr_iff list_all2_conv_all_nth in_set_conv_nth
        dest!: try_column_bundle_Inr(1)) (metis (no_types, lifting) nth_mem surj_pair)
  then show ?thesis by (auto simp: task_spec_def sbind_eq_Inr in_set_enumerate_eq)
qed

section \<open>Collecting the batches\<close>

lemma concat_vec_chunks: "0 < n \<Longrightarrow> concat (vec_chunks n xs) = xs"
  by (induction n xs rule: vec_chunks.induct) (subst vec_chunks.simps, simp)

lemma try_map_cong_map: "(\<And>x. x \<in> set xs \<Longrightarrow> f (p x) = g x) \<Longrightarrow> try_map f (map p xs) = try_map g xs"
  by (induction xs) simp_all

lemma try_map_append: "try_map f (xs @ ys) = sbind (try_map f xs) (\<lambda>us. sbind (try_map f ys) (\<lambda>vs. Inr (us @ vs)))"
  by (induction xs) (auto simp: sbind_def split: sum.splits)

lemma commit_all_push:
  assumes "\<forall>m \<in> set ms. is_ok (msg_prepared m)"
  shows "\<exists>d bs. try_map msg_prepared ms = Inr bs \<and>
    commit_all Propagate push_batch ms done s = (Some (Inr (d, False)), s @ bs)"
  using assms
proof (induction ms arbitrary: "done" s)
  case Nil
  then show ?case by simp
next
  case (Cons m ms)
  then obtain b where b: "msg_prepared m = Inr b" by (auto simp: is_ok_def split: sum.splits)
  from Cons.IH [of _ "s @ [b]"] Cons.prems show ?case
    by (fastforce simp: b invoke_ordered_commit_def push_batch_def Let_def)
qed

lemma first_error_try_map: "first_error ms = Some e \<Longrightarrow> try_map msg_prepared ms = Inl e"
  by (induction ms) (auto simp: first_error_def is_ok_def sbind_def split: sum.splits list.splits)

lemma commit_windows_push:
  "commit_windows Propagate push_batch wins done s = (r, s') \<Longrightarrow>
     pbind r (\<lambda>_. Some (Inr s')) = Some (map_sum id (\<lambda>bs. s @ bs) (try_map msg_prepared (concat wins)))"
proof (induction wins arbitrary: "done" s)
  case Nil
  then show ?case by auto
next
  case (Cons win wins)
  show ?case
  proof (cases "first_error win")
    case (Some e)
    with Cons.prems first_error_try_map [OF Some] show ?thesis by (auto simp: try_map_append)
  next
    case None
    then have "\<forall>m \<in> set win. is_ok (msg_prepared m)" by (simp add: first_error_None)
    from commit_all_push [OF this, of "done" s] obtain d bs where bs: "try_map msg_prepared win = Inr bs"
      and run: "commit_all Propagate push_batch win done s = (Some (Inr (d, False)), s @ bs)" by blast
    from Cons.prems None run have "commit_windows Propagate push_batch wins d (s @ bs) = (r, s')" by simp
    from Cons.IH [OF this] show ?thesis
      by (cases "try_map msg_prepared (concat wins)") (simp_all add: try_map_append bs)
  qed
qed

section \<open>Reading with the pool\<close>

text \<open>The reference: the row groups of the plan read one after the other.\<close>

abbreviation plan_row_group :: "host \<Rightarrow> zstd \<Rightarrow> ColumnBundleFile \<Rightarrow> ColumnBundleReadPlan \<Rightarrow> u32 \<Rightarrow> ColumnBatch result" where
  "plan_row_group h zstd f plan row_group_id \<equiv>
     read_row_group h zstd (cbf_source f) (cbf_metadata f) (cbf_columns f) row_group_id (plan_projected_column_ids plan)"

definition read_serially :: "host \<Rightarrow> zstd \<Rightarrow> ColumnBundleFile \<Rightarrow> ColumnBundleReadPlan \<Rightarrow> ColumnBatch list result" where
  "read_serially h zstd f plan =
     sbind (validate_owned_plan_resource_limits h (cbf_metadata f) plan) (\<lambda>_.
     sbind (if plan_row_group_ids plan = [] then Inr []
       else try_column_bundle_vec_with_capacity h TyColumnBatch (length (plan_row_group_ids plan))) (\<lambda>batches.
     sbind (try_map (plan_row_group h zstd f plan) (plan_row_group_ids plan)) (\<lambda>read.
     Inr (batches @ read))))"

abbreviation prepare_batch :: "(ColumnBatch, ColumnBatch) prepare_fn" where
  "prepare_batch \<equiv> \<lambda>_ batch. Some (Inr batch)"

lemma batch_prepared:
  "prepared_result (batch_read h zstd f plan) prepare_batch context = plan_row_group h zstd f plan (ctx_row_group_id context)"
  by (auto simp: prepared_result_def batch_read_def pbind_def sbind_def split: sum.splits)

lemma messages_batches:
  assumes "map pts_row_group_id tasks = plan_row_group_ids plan"
  shows "try_map msg_prepared (messages (batch_read h zstd f plan) prepare_batch tasks ws 0 (length tasks)) =
    try_map (plan_row_group h zstd f plan) (plan_row_group_ids plan)"
proof -
  have "try_map msg_prepared (messages (batch_read h zstd f plan) prepare_batch tasks ws 0 (length tasks)) =
      try_map (\<lambda>i. plan_row_group h zstd f plan (pts_row_group_id (tasks ! i))) [0..<length tasks]"
    by (rule try_map_cong_map) (simp add: message_of_def batch_prepared context_of_def)
  also have "\<dots> = try_map (plan_row_group h zstd f plan) (map (\<lambda>i. pts_row_group_id (tasks ! i)) [0..<length tasks])"
    by (rule try_map_cong_map [symmetric]) simp
  also have "map (\<lambda>i. pts_row_group_id (tasks ! i)) [0..<length tasks] = map pts_row_group_id tasks"
    by (rule nth_equalityI) simp_all
  finally show ?thesis unfolding assms .
qed

lemma pbind_const_map: "pbind (map_option (map_sum id g) r) (\<lambda>_. k) = pbind r (\<lambda>_. k)"
  by (auto simp: pbind_def split: option.splits sum.splits)

lemma run_batches:
  assumes "runnable tasks report options" and "map pts_row_group_id tasks = plan_row_group_ids plan"
    and "execute_bounded_ordered tasks report options Windowed Propagate (batch_read h zstd f plan) prepare_batch push_batch s outcome s'"
  shows "pbind outcome (\<lambda>_. Some (Inr s')) =
    Some (map_sum id (\<lambda>bs. s @ bs) (try_map (plan_row_group h zstd f plan) (plan_row_group_ids plan)))"
proof -
  let ?ms = "\<lambda>ws. messages (batch_read h zstd f plan) prepare_batch tasks ws 0 (length tasks)"
  from windowed_outcome [OF assms(1) assms(3) [unfolded execute_bounded_ordered_def]] obtain ws where
    run: "commit_windows Propagate push_batch (vec_chunks (ppo_max_in_flight_row_groups options) (?ms ws)) (0, 0) s =
      (map_option (map_sum id bounded_summary) outcome, s')"
    by (auto simp: windowed_result_ok_def)
  have "0 < ppo_max_in_flight_row_groups options" using assms(1) by (simp add: runnable_def)
  from commit_windows_push [OF run] concat_vec_chunks [OF this, of "?ms ws"] messages_batches [OF assms(2), of h zstd f ws]
  show ?thesis by (simp add: pbind_const_map)
qed

lemma room_for_tasks:
  assumes "host_ready h" and "host_size_of h TyTaskSpec \<le> host_size_of h TyColumnBatch"
    and "try_column_bundle_vec_with_capacity h TyColumnBatch n = Inr (batches :: ColumnBatch list)"
  shows "try_column_bundle_vec_with_capacity h TyTaskSpec n = Inr ([] :: ParallelPrepareTaskSpec list)"
proof -
  have "n * host_size_of h TyTaskSpec \<le> n * host_size_of h TyColumnBatch" using assms(2) by (rule mult_le_mono2)
  also have "\<dots> \<le> isize_max"
    using assms(3) by (auto simp: try_column_bundle_vec_with_capacity_def try_reserve_exact_def Let_def split: if_splits)
  finally show ?thesis
    using assms(1) by (auto simp: try_column_bundle_vec_with_capacity_def try_reserve_exact_def Let_def host_ready_def)
qed

text \<open>Every outcome of executing a plan is that of the serial read, and there is one.\<close>

lemma plan_ok_length:
  assumes "plan_ok f plan"
  shows "length (plan_row_group_ids plan) \<le> usize_max"
proof -
  have "length (plan_row_group_ids plan) = card (set (plan_row_group_ids plan))" using assms by (simp add: plan_ok_def distinct_card)
  also have "\<dots> \<le> card (UNIV :: u32 set)" by (rule card_mono) simp_all
  finally show ?thesis by (simp add: card_word usize_max_def)
qed

lemma execute_plan_serial:
  assumes "bundle_ok f" and "host_ready h" and "host_size_of h TyTaskSpec \<le> host_size_of h TyColumnBatch"
    and "plan_ok f plan" and "rr_selected_row_groups (plan_report plan) = length (plan_row_group_ids plan)"
  shows "execute_plan h zstd f plan out \<longleftrightarrow> out = Some (read_serially h zstd f plan)"
proof -
  let ?ids = "plan_row_group_ids plan" and ?threads = "rr_effective_threads (plan_report plan)"
  let ?options = "\<lparr>ppo_max_in_flight_row_groups = ?threads\<rparr>"
  note len = plan_ok_length [OF assms(4)]
  have pool: "(\<exists>outcome batches'. execute_bounded_ordered tasks (plan_report plan) ?options Windowed Propagate
        (batch_read h zstd f plan) prepare_batch push_batch s outcome batches' \<and> out = pbind outcome (\<lambda>_. Some (Inr batches'))) \<longleftrightarrow>
      out = Some (map_sum id (\<lambda>bs. s @ bs) (try_map (plan_row_group h zstd f plan) ?ids))"
    if t: "map pts_row_group_id tasks = ?ids" "ordinals tasks" and "?ids \<noteq> []" "1 < ?threads" for tasks s
  proof -
    have "length tasks = length ?ids" using t(1) by (metis length_map)
    then have run: "runnable tasks (plan_report plan) ?options"
      using that assms(5) len by (auto simp: runnable_def)
    obtain outcome s' where "execute_bounded_ordered tasks (plan_report plan) ?options Windowed Propagate
        (batch_read h zstd f plan) prepare_batch push_batch s outcome s'"
      using outcome_exists [OF run, where commit_mode = Windowed and panic_mode = Propagate and read = "batch_read h zstd f plan"
          and prepare = prepare_batch and commit = push_batch and s = s] unfolding execute_bounded_ordered_def by blast
    with run_batches [OF run t(1)] show ?thesis by metis
  qed
  show ?thesis
  proof (cases "?ids = [] \<or> ?threads \<le> 1 \<or> \<not> is_ok (validate_owned_plan_resource_limits h (cbf_metadata f) plan) \<or>
      \<not> is_ok (try_column_bundle_vec_with_capacity h TyColumnBatch (length ?ids) :: ColumnBatch list result)")
    case True
    then show ?thesis
      by (auto simp: execute_plan_def read_serially_def attempt_def returned_def is_ok_def split: sum.splits)
  next
    case False
    then obtain batches where ne: "?ids \<noteq> []" "1 < ?threads" "validate_owned_plan_resource_limits h (cbf_metadata f) plan = Inr ()"
      and room: "try_column_bundle_vec_with_capacity h TyColumnBatch (length ?ids) = Inr (batches :: ColumnBatch list)"
      by (auto simp: is_ok_def split: sum.splits)
    obtain tasks where tasks: "bounded_ordered_tasks_for_plan h f plan = Inr tasks" "map pts_row_group_id tasks = ?ids" "ordinals tasks"
      using bounded_ordered_tasks [OF assms(1) _ room_for_tasks [OF assms(2,3) room]] assms(4) by (auto simp: plan_ok_def)
    from pool [OF tasks(2,3) ne(1,2), of batches] ne room tasks(1) show ?thesis
      by (cases "try_map (plan_row_group h zstd f plan) ?ids") (simp_all add: execute_plan_def read_serially_def attempt_def)
  qed
qed

section \<open>Visiting with the pool\<close>

definition cursor_summary :: "ColumnBundleReadCursorReport \<Rightarrow> committed \<times> bool" where
  "cursor_summary report = ((ccr_batches_yielded report, ccr_rows_yielded report), ccr_cancelled report)"

text \<open>When every result is there, committing window by window is committing all.\<close>

lemma commit_all_append:
  "commit_all mode commit (ms @ ms') done s =
     (case commit_all mode commit ms done s of
        (Some (Inr (done, False)), s) \<Rightarrow> commit_all mode commit ms' done s
      | outcome \<Rightarrow> outcome)"
  by (induction ms arbitrary: "done" s) (auto simp: Let_def split: sum.splits prod.splits option.splits)

lemma commit_windows_all:
  assumes "\<forall>m \<in> set (concat wins). is_ok (msg_prepared m)"
  shows "commit_windows mode commit wins done s = commit_all mode commit (concat wins) done s"
  using assms
proof (induction wins arbitrary: "done" s)
  case (Cons win wins)
  then have "first_error win = None" by (simp add: first_error_None)
  with Cons show ?case by (auto simp: commit_all_append split: prod.splits option.splits sum.splits bool.splits)
qed simp

text \<open>Committing the batches with a visitor is visiting them one after the other.\<close>

lemma commit_all_visits:
  assumes "list_all2 (\<lambda>m i. \<exists>b. msg_prepared m = Inr b \<and> read i = Inr b \<and> ctx_row_count (msg_context m) = batch_row_count b) ms ids"
    and "ccr_batches_yielded report + length ids \<le> usize_max" and "\<not> ccr_cancelled report"
  shows "commit_all Propagate (\<lambda>_. visitor) ms (ccr_batches_yielded report, ccr_rows_yielded report) s =
    apfst (map_option (map_sum id cursor_summary)) (visit_serially read visitor ids report s)"
  using assms
proof (induction arbitrary: report s rule: list_all2_induct)
  case Nil
  then show ?case by (simp add: cursor_summary_def)
next
  case (Cons m ms i ids)
  then obtain b where b: "msg_prepared m = Inr b" "read i = Inr b" "ctx_row_count (msg_context m) = batch_row_count b" by blast
  let ?report = "count_batch (batch_row_count b) report"
  have sat: "ccr_batches_yielded ?report = ccr_batches_yielded report + 1"
    "ccr_rows_yielded ?report = saturating_add (ccr_rows_yielded report) (batch_row_count b)" "ccr_cancelled ?report = ccr_cancelled report"
    using Cons.prems(1) by (simp_all add: count_batch_def usize_saturating_add_def)
  have IH: "commit_all Propagate (\<lambda>_. visitor) ms (ccr_batches_yielded report + 1, saturating_add (ccr_rows_yielded report) (batch_row_count b)) s =
    apfst (map_option (map_sum id cursor_summary)) (visit_serially read visitor ids ?report s)" for s
    using Cons.IH [of ?report s] Cons.prems by (simp add: sat id_def)
  obtain r s' where v: "visitor b s = (r, s')" by fastforce
  show ?case
  proof (cases r)
    case (Some res)
    show ?thesis
    proof (cases res)
      case (Inr control)
      then show ?thesis using IH Cons.prems(2) Some v sat
        by (cases control) (simp_all add: b invoke_ordered_commit_def Let_def id_def, simp add: cursor_summary_def)
    qed (simp add: b invoke_ordered_commit_def v Some)
  qed (simp add: b invoke_ordered_commit_def v)
qed

lemma outcome_cursor:
  assumes "execute_bounded_ordered_with_runtime tasks base_report options runtime mode panic_mode read prepare commit s outcome s'"
  shows "map_option (map_sum id cursor_summary) (pbind outcome (\<lambda>outcome. Some (Inr
      ((ppr_cursor_report (boo_report outcome))\<lparr>ccr_base_report := report\<rparr>)))) =
    map_option (map_sum id bounded_summary) outcome"
  using assms
proof cases
  case (ran max_in_flight W window_size p r)
  have "cursor_summary ((ppr_cursor_report (boo_report (bounded_ordered_outcome b q w n c p)))\<lparr>ccr_base_report := report\<rparr>) =
      bounded_summary (bounded_ordered_outcome b q w n c p)" for b q w n c
    by (simp add: cursor_summary_def bounded_summary_def bounded_ordered_outcome_def Let_def)
  then show ?thesis unfolding ran(8) by (cases r) (auto simp: pbind_def map_sum_def split: sum.splits)
qed (simp_all add: pbind_def cursor_summary_def bounded_summary_def empty_report_def)

lemma visit_serially_observed:
  "apfst (map_option (map_sum id cursor_summary)) (visit_serially read visitor ids (report\<lparr>ccr_max_in_flight_row_groups_observed := n\<rparr>) s) =
   apfst (map_option (map_sum id cursor_summary)) (visit_serially read visitor ids report s)"
proof (induction ids arbitrary: report s)
  case Nil
  then show ?case by (simp add: cursor_summary_def)
next
  case (Cons i ids)
  have count: "count_batch k (report\<lparr>ccr_max_in_flight_row_groups_observed := n\<rparr>) =
      (count_batch k report)\<lparr>ccr_max_in_flight_row_groups_observed := n\<rparr>" for k
    by (simp add: count_batch_def)
  from Cons.IH show ?case
    by (auto simp: count cursor_summary_def [of "_\<lparr>ccr_cancelled := True\<rparr>"] split: sum.splits option.splits prod.splits ColumnBundleVisitControl.splits)
qed

lemma run_visits:
  assumes "runnable tasks report options" and "map pts_row_group_id tasks = plan_row_group_ids plan"
    and "\<And>t. t \<in> set tasks \<Longrightarrow> \<exists>b. plan_row_group h zstd f plan (pts_row_group_id t) = Inr b \<and> batch_row_count b = pts_row_count t"
    and "execute_bounded_ordered tasks report options Windowed Propagate (batch_read h zstd f plan) prepare_batch (\<lambda>_. visitor) s outcome s'"
  shows "(map_option (map_sum id bounded_summary) outcome, s') =
    apfst (map_option (map_sum id cursor_summary)) (visit_serially (plan_row_group h zstd f plan) visitor (plan_row_group_ids plan)
      (cursor_report_start plan) s)"
proof -
  let ?ms = "\<lambda>ws. messages (batch_read h zstd f plan) prepare_batch tasks ws 0 (length tasks)"
  from windowed_outcome [OF assms(1) assms(4) [unfolded execute_bounded_ordered_def]] obtain ws where
    run: "commit_windows Propagate (\<lambda>_. visitor) (vec_chunks (ppo_max_in_flight_row_groups options) (?ms ws)) (0, 0) s =
      (map_option (map_sum id bounded_summary) outcome, s')"
    by (auto simp: windowed_result_ok_def)
  have len: "length tasks = length (plan_row_group_ids plan)" using assms(2) by (metis length_map)
  have ms: "list_all2 (\<lambda>m i. \<exists>b. msg_prepared m = Inr b \<and> plan_row_group h zstd f plan i = Inr b \<and>
      ctx_row_count (msg_context m) = batch_row_count b) (?ms ws) (plan_row_group_ids plan)"
    unfolding list_all2_conv_all_nth assms(2) [symmetric]
    using assms(3) [OF nth_mem] by (force simp: message_of_def batch_prepared context_of_def)
  then have "\<forall>m \<in> set (?ms ws). is_ok (msg_prepared m)"
    by (auto simp: list_all2_conv_all_nth in_set_conv_nth is_ok_def split: sum.splits)
  moreover have n: "0 < ppo_max_in_flight_row_groups options" using assms(1) by (simp add: runnable_def)
  ultimately have "commit_all Propagate (\<lambda>_. visitor) (?ms ws) (0, 0) s = (map_option (map_sum id bounded_summary) outcome, s')"
    using run commit_windows_all [of "vec_chunks (ppo_max_in_flight_row_groups options) (?ms ws)" Propagate "\<lambda>_. visitor" "(0, 0)" s] by (simp add: concat_vec_chunks)
  moreover have "length (plan_row_group_ids plan) \<le> usize_max" using assms(1) len by (simp add: runnable_def)
  ultimately show ?thesis
    using commit_all_visits [OF ms, of "cursor_report_start plan" visitor s] by (simp add: cursor_report_start_def)
qed

text \<open>
  Visiting a plan whose row groups can all be read: whatever the number of threads and of row groups in flight,
  the visitor ends in the state, and the report has the counts, of the serial loop.
\<close>

lemma visit_execution_plan_serial:
  assumes "bundle_ok f" and "plan_ok f plan" and "rr_selected_row_groups (plan_report plan) = length (plan_row_group_ids plan)"
    and "try_column_bundle_vec_with_capacity h TyTaskSpec (length (plan_row_group_ids plan)) = Inr ([] :: ParallelPrepareTaskSpec list)"
    and "validate_contiguous_in_flight_plan_resource_limits h (cbf_metadata f) plan (wave_size plan options) = Inr ()"
    and "\<forall>i \<in> set (plan_row_group_ids plan). is_ok (plan_row_group h zstd f plan i)"
    and "visit_execution_plan h zstd f plan options visitor s (out, s')"
  shows "(map_option (map_sum id cursor_summary) out, s') =
    apfst (map_option (map_sum id cursor_summary)) (visit_serially (plan_row_group h zstd f plan) visitor (plan_row_group_ids plan)
      (cursor_report_start plan) s)"
proof (cases "plan_row_group_ids plan = [] \<or> wave_size plan options \<le> 1")
  case True
  with assms(5,7) have "(out, s') = visit_serially (plan_row_group h zstd f plan) visitor (plan_row_group_ids plan)
      (if plan_row_group_ids plan = [] then cursor_report_start plan
       else (cursor_report_start plan)\<lparr>ccr_max_in_flight_row_groups_observed := 1\<rparr>) s"
    by (auto simp: visit_execution_plan_def attempt_def split: if_splits)
  from arg_cong [OF this, of "apfst (map_option (map_sum id cursor_summary))"] show ?thesis
    by (simp add: visit_serially_observed split: if_splits)
next
  case False
  let ?options = "\<lparr>ppo_max_in_flight_row_groups = wave_size plan options\<rparr>"
  have known: "\<forall>i \<in> set (plan_row_group_ids plan). row_group_by_id (cbf_metadata f) i \<noteq> None"
    using assms(2) by (simp add: plan_ok_def)
  obtain tasks where tasks: "bounded_ordered_tasks_for_plan h f plan = Inr tasks"
    "map pts_row_group_id tasks = plan_row_group_ids plan" "ordinals tasks"
    using bounded_ordered_tasks [OF assms(1) known assms(4)] by auto
  have len: "length tasks = length (plan_row_group_ids plan)" using tasks(2) by (metis length_map)
  from False assms(5,7) tasks(1) obtain outcome where
    run: "execute_bounded_ordered tasks (plan_report plan) ?options Windowed Propagate (batch_read h zstd f plan) prepare_batch (\<lambda>_. visitor) s outcome s'"
    and out: "out = pbind outcome (\<lambda>outcome. Some (Inr ((ppr_cursor_report (boo_report outcome))\<lparr>ccr_base_report := plan_report plan\<rparr>)))"
    by (auto simp: visit_execution_plan_def attempt_def)
  have "runnable tasks (plan_report plan) ?options"
    using False assms(3) tasks(2,3) len plan_ok_length [OF assms(2)] by (auto simp: runnable_def wave_size_def)
  moreover have "\<exists>b. plan_row_group h zstd f plan (pts_row_group_id t) = Inr b \<and> batch_row_count b = pts_row_count t" if "t \<in> set tasks" for t
    using bounded_ordered_task_rows [OF tasks(1) that] assms(6)
    by (fastforce simp: is_ok_def elim: read_row_group_Inr split: sum.splits)
  ultimately show ?thesis
    using run_visits [OF _ tasks(2) _ run] outcome_cursor [OF run [unfolded execute_bounded_ordered_def], of "plan_report plan"]
    unfolding out by simp
qed

end
