(* ===== verification/Example_Bundle.thy ===== *)
theory Example_Bundle
  imports Example_File Fixed_Binary
begin

text \<open>
  The example file opened as a column bundle, and its row group read and filled: the input at which the
  theorems about bundles are instantiated.
\<close>

definition ex_bundle_column :: BundleColumn where
  "ex_bundle_column =
     \<lparr>bc_id = 1, bc_name = [0x78], bc_physical_type = Column_FixedBinary 2, bc_logical_kind = ColumnLogicalKind_from Logical_Plain,
      bc_dictionary_id = None, bc_scale = 0, bc_nullable = False\<rparr>"

definition ex_bundle :: ColumnBundleFile where
  "ex_bundle =
     \<lparr>cbf_source = ex_source, cbf_metadata = ex_opened, cbf_columns = [ex_bundle_column], cbf_resource_limits = policy_a\<rparr>"

text \<open>The host of the example grants every reservation.\<close>

lemma ex_reserve [simp]:
  "n \<le> 1000 \<Longrightarrow> try_reserve_exact example_host ty n context"
  "n \<le> 1000 \<Longrightarrow> hash_try_reserve example_host 0 n context"
  by (simp_all add: try_reserve_exact_def hash_try_reserve_def example_host_def isize_max_def usize_max_def)

lemmas ex_allocations = try_column_bundle_vec_with_capacity_def try_column_bundle_hash_map_with_capacity_def
  try_column_bundle_hash_set_with_capacity_def clone_column_bundle_string_fallibly_def
  accounting_reserve_vec_def accounting_reserve_set_def

lemma ex_opened_fields:
  "root1_column_count (md_root ex_opened) = 1" "root1_row_group_count (md_root ex_opened) = 1"
  "root1_dictionary_count (md_root ex_opened) = 0" "root1_row_count (md_root ex_opened) = 1"
  "sch_columns (md_schema ex_opened) = [ex_column]" "st_strings (md_string_table ex_opened) = [[0x78]]"
  "rgi_row_groups (md_row_group_index ex_opened) = [ex_group]" "rgi_column_chunks (md_row_group_index ex_opened) = [ex_chunk]"
  "rgi_stats (md_row_group_index ex_opened) = []" "md_dictionary_index ex_opened = None"
  "md_ordering_proof ex_opened = None" "md_file_len ex_opened = 4971" "md_resource_limits ex_opened = policy_a"
  "md_row_group_positions_by_id ex_opened = [(0, 0)]" "md_open_metadata_materialized_bytes ex_opened = charged_bytes ex_budget"
  by (simp_all add: ex_opened_def ex_metadata_fields) (simp_all add: ex_metadata_def)

lemma ex_resolved:
  "column_physical_type_from_desc ex_column = Inr (Column_FixedBinary 2)"
  "resolve_columns example_host ex_opened = Inr [ex_bundle_column]"
proof -
  show t: "column_physical_type_from_desc ex_column = Inr (Column_FixedBinary 2)"
    by (simp add: column_physical_type_from_desc_def ex_column_def)
  show "resolve_columns example_host ex_opened = Inr [ex_bundle_column]"
    by (simp add: resolve_columns_def ex_opened_fields resolve_column_def t ex_allocations vec_get_def)
      (simp add: ex_bundle_column_def ex_column_def OCB_NULL_U32_def)
qed

lemma ex_size: "host_size_of example_host TyBundleColumn = 32"
  by (simp add: example_host_def)

lemma ex_charges:
  "\<exists>b b'. charge (budget_from_limits policy_a) (charged_bytes ex_budget) = Inr b \<and> charge b 33 = Inr b'"
  by (simp add: charge_def checked_add_def ex_budget_def charged_def budget_from_limits_def budget_new_def policy_a_def
      OCB_POLICY_A_MAX_OWNED_DECODED_MATERIALIZED_BYTES_def)

lemma ex_bundle_opens:
  "open_from_source_with_options_and_resource_limits example_host ex_zstd ex_source
     \<lparr>oo_validation = Validation_MetadataGraph\<rparr> policy_a = Inr ex_bundle"
proof -
  have v: "validate_metadata ex_opened = Inr ()"
    by (simp add: validate_metadata_def ex_opened_fields checked_row_sum_def checked_add_def ex_group_fields)
  have pre: "preflight_resolved_columns_materialized_bytes example_host ex_opened = Inr 33"
    by (simp add: preflight_resolved_columns_materialized_bytes_def ex_opened_fields preflight_column_def ex_resolved
        ex_allocations vec_get_def u64_try_from_def checked_mul_def checked_add_def ex_column_fields ex_size)
  have "from_metadata example_host ex_source ex_opened policy_a = Inr ex_bundle"
    using ex_charges by (auto simp: from_metadata_def v pre ex_resolved ex_opened_fields ex_bundle_def)
  then show ?thesis
    by (simp add: open_from_source_with_options_and_resource_limits_def ex_file_opens)
qed

lemma ex_bundle_ok: "bundle_ok ex_bundle"
  by (rule opened_bundle_ok [OF ex_bundle_opens host_ready_sized [OF example_host_ready]])

text \<open>The stored chunk read back, the batch of the row group, and a buffer filled with it.\<close>

definition ex_batch :: ColumnBatch where
  "ex_batch = \<lparr>batch_row_group_id = 0, batch_base_row = 0, batch_row_count = 1,
     batch_columns = [\<lparr>ca_column_id = 1, ca_name = [0x78], ca_physical_type = Column_FixedBinary 2,
       ca_logical_kind = ColumnLogicalKind_from Logical_Plain, ca_dictionary_id = None,
       ca_values = Values_FixedBinary 2 [7, 9], ca_validity = None\<rparr>]\<rparr>"

definition ex_buffer :: "bytes \<Rightarrow> ColumnBundleColumnFillBuffer" where
  "ex_buffer bs = \<lparr>fb_column_name = None, fb_column_id = Some 1, fb_values = Values_FixedBinary 2 bs,
     fb_validity_bytes = None, fb_allow_nulls = False\<rparr>"

definition ex_fill_report :: ColumnBundleReadFillReport where
  "ex_fill_report = \<lparr>rfr_row_group_id = 0, rfr_base_row = 0, rfr_row_count = 1,
     rfr_columns = [\<lparr>cfr_column_id = 1, cfr_rows_filled = 1, cfr_validity_filled = False\<rparr>]\<rparr>"

lemma ex_chunk_read:
  "read_column_chunk_from_source_with_resource_limits example_host ex_source 4971 ex_chunk policy_a =
     Inr (ex_chunk_object\<lparr>cco_crc32c := crc32c (OcbColumnChunkObjectV1_layout ex_chunk_object)\<rparr>)"
proof -
  let ?c = "OcbReadSource_cursor ex_source"
  have src: "rc_source ?c = ex_source" by (simp add: OcbReadSource_cursor_def)
  have "read_object_bytes_with_resource_limits example_host ?c 4971 (chunk_value_ref ex_chunk) BodyKind_ColumnChunk policy_a = Inr ex_chunk_bytes"
    unfolding ex_chunk_def by simp (rule ex_read [OF src], simp_all add: ex_file_def ex_lengths)
  then show ?thesis
    using ex_chunk_header [OF src] OcbColumnChunkObjectV1_write_read [OF conjunct1 [OF ex_chunk_written]]
    by (auto simp: read_column_chunk_from_source_with_resource_limits_def read_column_chunk_from_reader_with_resource_limits_def
        ex_lengths isize_max_def ex_chunk_object_def)
qed

lemma ex_lookups:
  "row_group_by_id ex_opened 0 = Some ex_group" "chunks_for_row_group ex_opened 0 1 = Inr [ex_chunk]"
  "chunk_by_column example_host ex_group [ex_chunk] = Inr [(1, ex_chunk)]"
  by (simp_all add: row_group_by_id_def ex_opened_fields hash_get_def vec_get_def chunks_for_row_group_def usize_try_from_def
      usize_checked_add_def usize_max_def vec_get_range_def slice_def chunk_by_column_def ex_allocations ex_fields
      hash_contains_def hash_insert_def)

lemma ex_payload:
  "validate_and_decode_chunk_object example_host ex_zstd
     (ex_chunk_object\<lparr>cco_crc32c := crc\<rparr>) ex_bundle_column ex_chunk policy_a = Inr [7, 9]"
  by (simp add: validate_and_decode_chunk_object_def into_decoded_payload_with_limits_def uncompressed_value_bytes_def
      check_primitive_value_bytes_def ex_chunk_object_def ex_chunk_def ex_bundle_column_def u64_try_from_def policy_a_def
      OCB_POLICY_A_MAX_COMPRESSED_CHUNK_BYTES_def OCB_POLICY_A_MAX_DECOMPRESSED_CHUNK_BYTES_def)

lemma ex_bundle_column_fields:
  "bc_id ex_bundle_column = 1" "bc_name ex_bundle_column = [0x78]" "bc_physical_type ex_bundle_column = Column_FixedBinary 2"
  "\<not> bc_nullable ex_bundle_column" "bc_dictionary_id ex_bundle_column = None"
  "bc_logical_kind ex_bundle_column = ColumnLogicalKind_from Logical_Plain"
  by (simp_all add: ex_bundle_column_def)

lemma ex_batch_read:
  "read_row_group example_host ex_zstd ex_source ex_opened [ex_bundle_column] 0 [1] = Inr ex_batch"
proof -
  have "read_column_array example_host ex_zstd ex_source ex_opened ex_bundle_column ex_chunk 1 = Inr (hd (batch_columns ex_batch))"
    by (simp add: read_column_array_def ex_bundle_column_fields ex_fields ex_opened_fields ex_chunk_read ex_payload
        read_validity_bitmap_def ex_allocations decode_primitive_values_def ex_batch_def)
  then show ?thesis
    by (simp add: read_row_group_def ex_lookups ex_fields ex_allocations ex_bundle_column_fields hash_get_def)
      (simp add: ex_batch_def)
qed

lemma ex_footprint:
  "selected_resource_footprint_for_row_group_desc ex_opened ex_group [1] =
     Inr \<lparr>srf_compressed_bytes = 2, srf_decoded_materialized_bytes = 2, srf_row_count = 1\<rparr>"
  "validate_footprint_totals \<lparr>srf_compressed_bytes = 2, srf_decoded_materialized_bytes = 2, srf_row_count = 1\<rparr> policy_a = Inr ()"
proof -
  have ref: "OcbBodyRefV2_validate (chunk_value_ref ex_chunk) BodyKind_ColumnChunk 4971 = Inr ()" "br_length (chunk_value_ref ex_chunk) = 50"
    by (simp_all add: OcbBodyRefV2_validate_Inr ex_chunk_def OcbBodyRefV2_new_def ref_in_file_def is_null_def)
  show "selected_resource_footprint_for_row_group_desc ex_opened ex_group [1] =
     Inr \<lparr>srf_compressed_bytes = 2, srf_decoded_materialized_bytes = 2, srf_row_count = 1\<rparr>"
    by (simp add: selected_resource_footprint_for_row_group_desc_def ex_lookups ex_fields check_selected_chunk_def add_selected_chunk_def
        ex_opened_fields ref SelectedResourceFootprint_default_def OCB_COLUMN_CHUNK_V1_HEADER_LEN_def checked_sub_def checked_add_def
        policy_a_def OCB_POLICY_A_MAX_ENCODED_OBJECT_BYTES_def OCB_POLICY_A_MAX_COMPRESSED_CHUNK_BYTES_def
        OCB_POLICY_A_MAX_DECOMPRESSED_CHUNK_BYTES_def OCB_POLICY_A_MAX_PROJECTED_ROW_GROUP_BYTES_def)
  show "validate_footprint_totals \<lparr>srf_compressed_bytes = 2, srf_decoded_materialized_bytes = 2, srf_row_count = 1\<rparr> policy_a = Inr ()"
    by (simp add: validate_footprint_totals_def policy_a_def OCB_POLICY_A_MAX_OWNED_DECODED_MATERIALIZED_BYTES_def
        OCB_POLICY_A_MAX_OWNED_SELECTED_COMPRESSED_BYTES_def)
qed

lemma ex_filled:
  "read_row_group_into example_host ex_zstd ex_source ex_opened [ex_bundle_column] 0 [ex_buffer [0, 0, 5]] =
     Some (Inr (ex_fill_report, [ex_buffer [7, 9, 5]]))"
proof -
  let ?t = "\<lparr>rcf_buffer_index = 0, rcf_column = ex_bundle_column, rcf_chunk = ex_chunk\<rparr>"
  have t: "resolve_fill_targets example_host ex_opened [ex_bundle_column] 0 [ex_buffer [0, 0, 5]] = Inr (ex_group, 1, [?t])"
    using ex_footprint
    by (auto simp: resolve_fill_targets_def ex_lookups ex_fields ex_allocations ex_bundle_column_fields ex_opened_fields
      resolve_fill_buffer_def resolve_fill_column_def ex_buffer_def hash_get_def hash_insert_def usize_try_from_def
      usize_checked_mul_def usize_max_def)
  have "read_uncompressed_fixed_binary_chunk_from_source_into_inner ex_source 4971 ex_chunk 2 policy_a = Inr [7, 9]"
    using direct_fill_matches_read [OF ex_source_serves(1,2) example_host_ready limits_ok_policy_a, of ex_chunk 2]
    by (simp add: ex_chunk_fields ex_source_serves(3) ex_chunk_read) (simp add: ex_chunk_def ex_chunk_object_def OcbBodyRefV2_new_def)
  moreover have codec: "chunk_codec ex_chunk = Codec_None" by (simp add: ex_chunk_def)
  ultimately have "fill_column_buffer example_host ex_zstd ex_source ex_opened 1 ?t (ex_buffer [0, 0, 5]) =
     Some (Inr (hd (rfr_columns ex_fill_report), ex_buffer [7, 9, 5]))"
    by (simp add: fill_column_buffer_def uncompressed_fixed_binary_direct_output_def ex_buffer_def ex_fields ex_bundle_column_fields
      ex_opened_fields read_uncompressed_fixed_binary_chunk_from_source_into_with_resource_limits_def usize_checked_mul_def usize_try_from_def
      usize_max_def ex_fill_report_def codec)
  then show ?thesis
    by (simp add: read_row_group_into_def t ex_group_fields vec_get_def) (simp add: ex_fill_report_def)
qed

text \<open>A plan that reads it.\<close>

definition ex_plan :: ColumnBundleReadPlan where
  "ex_plan = \<lparr>plan_projected_column_ids = [1], plan_row_group_ids = [0], plan_report = build_read_report 4 1 0 1\<rparr>"

lemma ex_plan_valid: "validate_read_plan example_host ex_bundle ex_plan = Inr ()"
  by (simp add: validate_read_plan_def ex_plan_def ex_bundle_def ex_allocations ex_bundle_column_fields ex_lookups)

lemma ex_plan_footprints:
  "plan_row_group_ids p = [0] \<Longrightarrow> plan_projected_column_ids p = [1] \<Longrightarrow>
   selected_resource_footprints_for_plan example_host ex_opened p =
     Inr [\<lparr>srf_compressed_bytes = 2, srf_decoded_materialized_bytes = 2, srf_row_count = 1\<rparr>]"
  by (simp add: selected_resource_footprints_for_plan_def selected_row_groups_for_plan_def ex_allocations ex_lookups ex_footprint)

section \<open>A bundle with statistics\<close>

text \<open>
  Two row groups of one row in a 32-bit integer column, with the values from 1 to 3 in the statistics of the first
  and from 4 to 9 in those of the second.
\<close>

definition ex_stats_column :: OcbColumnDescV1 where
  "ex_stats_column = ex_column\<lparr>col_physical_type := Phys_I32, col_fixed_binary_width := 0\<rparr>"

definition ex_stats_chunk :: "u32 \<Rightarrow> OcbColumnChunkDescV1" where
  "ex_stats_chunk k = ex_chunk\<lparr>chunk_row_group_id := k, chunk_physical_type := Phys_I32, chunk_uncompressed_bytes := 4\<rparr>"

definition ex_stats_group :: "u32 \<Rightarrow> OcbRowGroupDescV1" where
  "ex_stats_group k = ex_group\<lparr>rg_row_group_id := k, rg_base_row := ucast k, rg_chunk_desc_begin := ucast k,
     rg_stat_begin := ucast k, rg_stat_count := 1\<rparr>"

definition ex_stat :: "u32 \<Rightarrow> i32 \<Rightarrow> i32 \<Rightarrow> OcbColumnStatsV1" where
  "ex_stat k low high = \<lparr>stat_row_group_id = k, stat_column_id = 1, stat_physical_type = Phys_I32, stat_flags = 0,
     stat_null_count = 0, stat_min_value = Scalar_I32 low, stat_max_value = Scalar_I32 high\<rparr>"

definition ex_stats_metadata :: OcbMetadataV1 where
  "ex_stats_metadata = ex_opened
     \<lparr>md_root := (md_root ex_opened)\<lparr>root1_row_count := 2, root1_row_group_count := 2\<rparr>,
      md_schema := (md_schema ex_opened)\<lparr>sch_columns := [ex_stats_column]\<rparr>,
      md_row_group_index := (md_row_group_index ex_opened)\<lparr>rgi_row_groups := [ex_stats_group 0, ex_stats_group 1],
        rgi_column_chunks := [ex_stats_chunk 0, ex_stats_chunk 1], rgi_stats := [ex_stat 0 1 3, ex_stat 1 4 9]\<rparr>,
      md_row_group_positions_by_id := [(0, 0), (1, 1)]\<rparr>"

definition ex_stats_bundle :: ColumnBundleFile where
  "ex_stats_bundle = ex_bundle\<lparr>cbf_metadata := ex_stats_metadata,
     cbf_columns := [ex_bundle_column\<lparr>bc_physical_type := Column_I32\<rparr>]\<rparr>"

lemma ex_stats_fields:
  "root1_column_count (md_root ex_stats_metadata) = 1" "root1_row_group_count (md_root ex_stats_metadata) = 2"
  "root1_row_count (md_root ex_stats_metadata) = 2" "sch_columns (md_schema ex_stats_metadata) = [ex_stats_column]"
  "st_strings (md_string_table ex_stats_metadata) = [[0x78]]"
  "rgi_row_groups (md_row_group_index ex_stats_metadata) = [ex_stats_group 0, ex_stats_group 1]"
  "rgi_column_chunks (md_row_group_index ex_stats_metadata) = [ex_stats_chunk 0, ex_stats_chunk 1]"
  "rgi_stats (md_row_group_index ex_stats_metadata) = [ex_stat 0 1 3, ex_stat 1 4 9]"
  "md_ordering_proof ex_stats_metadata = None" "md_file_len ex_stats_metadata = 4971"
  "md_row_group_positions_by_id ex_stats_metadata = [(0, 0), (1, 1)]"
  by (simp_all add: ex_stats_metadata_def ex_opened_fields)

lemma ex_stats_slices:
  "chunks_of ex_stats_metadata (ex_stats_group 0) = [ex_stats_chunk 0]" "chunks_of ex_stats_metadata (ex_stats_group 1) = [ex_stats_chunk 1]"
  "stats_of ex_stats_metadata (ex_stats_group 0) = [ex_stat 0 1 3]" "stats_of ex_stats_metadata (ex_stats_group 1) = [ex_stat 1 4 9]"
  by (simp_all add: chunks_of_def stats_of_def ex_stats_fields ex_stats_group_def ex_group_def slice_def)

lemma ex_stats_row_group:
  assumes "k = 0 \<or> k = 1"
  shows "row_group_wf ex_stats_metadata (ex_stats_group k)"
proof -
  have "chunk_wf ex_stats_metadata (ex_stats_group k) (ex_stats_chunk k)"
    by (auto simp: chunk_wf_def ex_stats_chunk_def ex_stats_group_def ex_group_def ex_stats_fields ex_chunk_def ref_in_file_def
        OcbBodyRefV2_new_def is_null_def OcbBodyRefV2_NULL_def ex_stats_column_def ex_column_def value_byte_width_def)
  moreover have "stat_wf ex_stats_metadata (ex_stats_group k) (ex_stat k low high)" for low high
    by (simp add: stat_wf_def ex_stat_def ex_stats_group_def ex_stats_fields ex_stats_column_def ex_column_def)
  moreover have "rg_chunk_desc_count (ex_stats_group k) = 1" "rg_stat_count (ex_stats_group k) = 1"
    "chunk_column_id (ex_stats_chunk k) = 1" "col_column_id ex_stats_column = 1"
    by (simp_all add: ex_stats_group_def ex_group_def ex_stats_chunk_def ex_chunk_def ex_stats_column_def ex_column_def)
  ultimately show ?thesis using assms
    by (elim disjE) (simp_all add: row_group_wf_def ex_stats_slices ex_stats_fields)
qed

lemma ex_stats_bundle_ok: "bundle_ok ex_stats_bundle"
proof -
  have "row_groups_tile (md_row_group_index ex_stats_metadata) (Suc (Suc 0))"
    by (auto simp: row_groups_tile_def ex_stats_fields ex_stats_group_def ex_group_def rows_before_def chunks_before_def stats_before_def
        less_Suc_eq)
  moreover have "schema_wf ex_stats_metadata"
    by (simp add: schema_wf_def ex_stats_fields ex_stats_column_def ex_column_def value_byte_width_def)
  moreover have counts: "rg_row_count (ex_stats_group k) = 1" "rg_chunk_desc_count (ex_stats_group k) = 1" "rg_stat_count (ex_stats_group k) = 1" for k
    by (simp_all add: ex_stats_group_def ex_group_def)
  ultimately have "metadata_wf ex_stats_metadata"
    using ex_stats_row_group [of 0] ex_stats_row_group [of 1]
    by (simp add: metadata_wf_def ex_stats_fields ordering_wf_def rows_before_def chunks_before_def stats_before_def counts)
  then show ?thesis
    by (simp add: bundle_ok_def ex_stats_bundle_def ex_bundle_def ex_bundle_column_def ex_stats_fields positions_of_def resolves_def
        ex_stats_column_def ex_column_def column_physical_type_from_desc_def ex_stats_group_def
        OCB_NULL_U32_def)
qed

end
