(* ===== verification/Bundle_Properties.thy ===== *)
theory Bundle_Properties
  imports Plan_Runs Example_Bundle
begin

text \<open>
  The properties of column bundles: reading row groups, filling buffers, planning, executing plans and the
  memory they hold.  The example at which they are instantiated is the opened file of \<open>Example_Bundle\<close>.
\<close>

section \<open>Lemmas on executed plans\<close>

lemma execution_plan_for_Inr:
  assumes "execution_plan_for h plan ids b = Inr p"
  shows "p = \<lparr>plan_projected_column_ids = plan_projected_column_ids plan, plan_row_group_ids = ids,
    plan_report = execution_report_for_plan plan (length ids)\<rparr>"
  using assms
  by (auto simp: execution_plan_for_def Let_def sbind_eq_Inr clone_column_bundle_u32s_fallibly_def
      dest!: try_column_bundle_Inr(1) split: if_splits)

lemma execution_report_selected:
  "rr_selected_row_groups (execution_report_for_plan plan n) = n" "0 < rr_effective_threads (execution_report_for_plan plan n)"
  by (simp_all add: execution_report_for_plan_def build_read_report_def Let_def)

lemma execution_plan_ok:
  assumes "plan_ok f plan" and "execution_plan_for h plan (plan_row_group_ids plan) b = Inr p"
  shows "plan_ok f p" and "rr_selected_row_groups (plan_report p) = length (plan_row_group_ids p)"
    and "plan_row_group_ids p = plan_row_group_ids plan" and "plan_projected_column_ids p = plan_projected_column_ids plan"
  using assms(1) execution_plan_for_Inr [OF assms(2)] by (simp_all add: plan_ok_def execution_report_selected)

lemma planned_subset:
  assumes "plan_ok f plan" and "planned_row_group_subset h plan ids = Inr selected"
  shows "plan_ok f (plan\<lparr>plan_row_group_ids := selected\<rparr>)"
  using assms
  by (auto simp: plan_ok_def planned_row_group_subset_def Let_def sbind_eq_Inr dest!: try_column_bundle_Inr)

text \<open>What the ordinals of a range of tasks hold is admitted when every window of the plan is.\<close>

lemma mset_take_drop: "mset (take n (drop m xs)) \<subseteq># mset xs"
proof -
  have "mset (take n (drop m xs)) \<subseteq># mset (drop m xs)" by (metis append_take_drop_id mset_append mset_subset_eq_add_left)
  also have "\<dots> \<subseteq># mset xs" by (metis append_take_drop_id mset_append mset_subset_eq_add_right)
  finally show ?thesis .
qed

lemma range_in_window:
  assumes "i \<le> lo" and "lo - i + (hi - lo) \<le> w" and "i + w \<le> length xs"
  shows "map ((!) xs) [lo..<hi] = take (hi - lo) (drop (lo - i) (window w xs i))"
proof (rule nth_equalityI)
  show "length (map ((!) xs) [lo..<hi]) = length (take (hi - lo) (drop (lo - i) (window w xs i)))"
    using assms by (simp add: window_def)
  fix j
  assume "j < length (map ((!) xs) [lo..<hi])"
  with assms show "map ((!) xs) [lo..<hi] ! j = take (hi - lo) (drop (lo - i) (window w xs i)) ! j"
    by (simp add: window_def)
qed

lemma admitted_range:
  assumes "validate_sliding_resource_footprints fs n limits = Inr ()" and "hi - lo \<le> n" and "hi \<le> length fs"
  shows "admitted limits (map ((!) fs) [lo..<hi])"
proof (cases "lo < hi")
  case False
  then show ?thesis by (simp add: admitted_def compressed_total_def decoded_total_def)
next
  case True
  let ?w = "min (max n 1) (length fs)" and ?i = "min lo (length fs - min (max n 1) (length fs))"
  from True assms(3) have "fs \<noteq> []" by auto
  then have "admitted limits (window ?w fs ?i)"
    using assms(1) validate_sliding_iff [of fs ?w n limits] by simp
  moreover have "mset (map ((!) fs) [lo..<hi]) \<subseteq># mset (window ?w fs ?i)"
  proof -
    have "?i \<le> lo" "lo - ?i + (hi - lo) \<le> ?w" "?i + ?w \<le> length fs" using assms(2,3) True by linarith+
    from range_in_window [OF this] show ?thesis by (simp add: mset_take_drop)
  qed
  ultimately show ?thesis by (rule admitted_mono [rotated])
qed

section \<open>Row groups\<close>

text \<open>C11. A row group of an opened bundle that is read has the identity and the rows of its descriptor and one
  array per requested column, in order, each of the physical type of its column and with as many values as the
  row group has rows.\<close>

theorem read_row_group_well_typed:
  assumes "open_from_source_with_options_and_resource_limits h zstd source options limits = Inr f"
    and "host_sized h" and "source_serves source content"
    and "read_row_group h zstd source (cbf_metadata f) (cbf_columns f) k ids = Inr batch"
  shows "\<exists>g. row_group_by_id (cbf_metadata f) k = Some g \<and> batch_row_group_id batch = k \<and>
     batch_base_row batch = rg_base_row g \<and> batch_row_count batch = rg_row_count g \<and>
     list_all2 (\<lambda>i a. \<exists>b \<in> set (cbf_columns f). bc_id b = i \<and> array_ok b (unat (rg_row_count g)) a) ids (batch_columns batch)"
proof -
  have "cbf_source f = source"
    using assms(1) by (auto simp: open_from_source_with_options_and_resource_limits_def from_metadata_def Let_def elim!: sbind_InrE)
  with assms(3,4) opened_bundle_ok [OF assms(1,2)] show ?thesis by (intro read_row_group_typed) simp_all
qed

theorem read_row_group_well_typed_witness:
  "\<exists>g. row_group_by_id (cbf_metadata ex_bundle) 0 = Some g \<and> batch_row_group_id ex_batch = 0 \<and>
     batch_base_row ex_batch = rg_base_row g \<and> batch_row_count ex_batch = rg_row_count g \<and>
     list_all2 (\<lambda>i a. \<exists>b \<in> set (cbf_columns ex_bundle). bc_id b = i \<and> array_ok b (unat (rg_row_count g)) a) [1] (batch_columns ex_batch)"
  by (rule read_row_group_well_typed [OF ex_bundle_opens host_ready_sized [OF example_host_ready] ex_source_serves(1)])
    (simp add: ex_bundle_def ex_batch_read)

text \<open>C12. Filling the buffers of a caller with a row group gives what reading it into owned arrays gives: as many
  reports and arrays as buffers, the first rows of every buffer the values of its array, the rest of the buffer
  as it was, and the same row group.\<close>

theorem fill_agrees_with_read:
  assumes "read_row_group_into h zstd (cbf_source f) (cbf_metadata f) (cbf_columns f) k buffers = Some (Inr (report, buffers'))"
    and "read_row_group h zstd (cbf_source f) (cbf_metadata f) (cbf_columns f) k (map cfr_column_id (rfr_columns report)) = Inr batch"
    and "bundle_ok f" and "source_serves (cbf_source f) content" and "source_reliable (cbf_source f)" and "host_ready h"
    and "limits_ok (md_resource_limits (cbf_metadata f))" and "md_file_len (cbf_metadata f) = rs_file_len (cbf_source f)"
  shows "length buffers' = length buffers \<and> length (rfr_columns report) = length buffers \<and> length (batch_columns batch) = length buffers \<and>
    (\<forall>i < length buffers. buffer_agrees (unat (batch_row_count batch)) (buffers ! i) (batch_columns batch ! i)
      (rfr_columns report ! i) (buffers' ! i)) \<and>
    rfr_row_group_id report = batch_row_group_id batch \<and> rfr_base_row report = batch_base_row batch \<and>
    rfr_row_count report = batch_row_count batch"
  using read_row_group_into_eq_read [OF assms] by blast

theorem fill_agrees_with_read_witness:
  "buffer_agrees 1 (ex_buffer [0, 0, 5]) (batch_columns ex_batch ! 0) (rfr_columns ex_fill_report ! 0) (ex_buffer [7, 9, 5])"
proof -
  have "map cfr_column_id (rfr_columns ex_fill_report) = [1]" "batch_row_count ex_batch = 1"
    by (simp_all add: ex_fill_report_def ex_batch_def)
  then show ?thesis
    using fill_agrees_with_read [of example_host ex_zstd ex_bundle 0 "[ex_buffer [0, 0, 5]]" ex_fill_report "[ex_buffer [7, 9, 5]]"
        ex_batch ex_file] ex_bundle_ok ex_source_serves example_host_ready limits_ok_policy_a ex_filled ex_batch_read
    by (simp add: ex_bundle_def ex_opened_fields)
qed

section \<open>Planning\<close>

text \<open>C10. A plan loses no row: when the predicates of the request admit the values of a row and the statistics of
  its row group cover them, the plan reads that row group.  It names known columns and row groups only, each once.\<close>

theorem plan_read_keeps_rows:
  assumes "bundle_ok f" and "plan_read h f request = Inr plan"
    and "g \<in> set (rgi_row_groups (md_row_group_index (cbf_metadata f)))"
    and "\<forall>p \<in> set (req_predicates request). admits (pred_lower p) (pred_upper p) (row (pred_column p)) \<and>
      (\<forall>c \<in> set (cbf_columns f). bc_name c = pred_column p \<longrightarrow>
        (\<forall>s \<in> set (stats_of (cbf_metadata f) g). stat_column_id s = bc_id c \<longrightarrow> covers s (row (pred_column p))))"
  shows "rg_row_group_id g \<in> set (plan_row_group_ids plan) \<and> plan_ok f plan"
proof -
  note plan = plan_read_Inr [OF assms(1,2)]
  have "\<not> request_prunes f (req_predicates request) g"
    using assms(4) excludes_no_value unfolding request_prunes_def by blast
  with plan(2) assms(3) have "rg_row_group_id g \<in> set (plan_row_group_ids plan)" by auto
  moreover have "distinct (map rg_row_group_id (rgi_row_groups (md_row_group_index (cbf_metadata f))))"
    using assms(1) by (simp add: bundle_ok_def metadata_wf_def row_groups_tile_def Let_def)
  then have "distinct (plan_row_group_ids plan)" unfolding plan(2) by (rule distinct_map_filter)
  moreover have "row_group_by_id (cbf_metadata f) i \<noteq> None" if "i \<in> set (plan_row_group_ids plan)" for i
    using that bundle_row_group_by_id [OF assms(1), of i] unfolding plan(2) by auto
  ultimately show ?thesis using resolve_projection_Inr [OF assms(1) plan(1)] by (simp add: plan_ok_def)
qed

definition ex_request :: ColumnBundleReadRequest where
  "ex_request = \<lparr>req_projection = Projection_All,
     req_predicates = [\<lparr>pred_column = [0x78], pred_lower = Some (Value_I32 5), pred_upper = None\<rparr>],
     req_options = ColumnBundleReadOptions_default\<rparr>"

lemma ex_planned:
  obtains plan where "plan_read example_host ex_stats_bundle ex_request = Inr plan" and "plan_row_group_ids plan = [1]"
proof -
  have cols: "cbf_columns ex_stats_bundle = [ex_bundle_column\<lparr>bc_physical_type := Column_I32\<rparr>]" "cbf_metadata ex_stats_bundle = ex_stats_metadata"
    by (simp_all add: ex_stats_bundle_def)
  have ids: "rg_row_group_id (ex_stats_group k) = k" for k by (simp add: ex_stats_group_def)
  have stats: "stats_by_column_for_row_group example_host ex_stats_metadata (ex_stats_group 0) = Inr [(1, ex_stat 0 1 3)]"
    "stats_by_column_for_row_group example_host ex_stats_metadata (ex_stats_group 1) = Inr [(1, ex_stat 1 4 9)]"
    by (simp_all add: stats_by_column_for_row_group_def stats_for_row_group_def usize_try_from_def usize_checked_add_def usize_max_def
        vec_get_range_def slice_def ex_stats_fields ex_stats_group_def ex_group_def ex_allocations ex_stat_def hash_contains_def hash_get_def hash_insert_def)
  show thesis
    by (rule that [where plan = "\<lparr>plan_projected_column_ids = [1], plan_row_group_ids = [1], plan_report = build_read_report
        (ro_max_threads ColumnBundleReadOptions_default) 1 1 1\<rparr>"])
      (simp_all add: plan_read_def ex_request_def cols validate_read_options_def ColumnBundleReadOptions_default_def resolve_projection_def
        resolve_predicates_def resolve_predicate_def columns_by_name_def check_bounds_def ex_allocations ex_bundle_column_fields hash_get_def hash_insert_def
        select_row_groups_def row_group_matches_predicates_def stats ex_stats_fields ex_stat_def int_cmp_def ids List.map_filter_def)
qed

theorem plan_read_keeps_rows_witness:
  "\<exists>plan. plan_read example_host ex_stats_bundle ex_request = Inr plan \<and> plan_row_group_ids plan = [1] \<and>
     rg_row_group_id (ex_stats_group 1) \<in> set (plan_row_group_ids plan) \<and> plan_ok ex_stats_bundle plan"
proof -
  obtain plan where plan: "plan_read example_host ex_stats_bundle ex_request = Inr plan" "plan_row_group_ids plan = [1]" by (rule ex_planned)
  have m: "cbf_metadata ex_stats_bundle = ex_stats_metadata" by (simp add: ex_stats_bundle_def)
  have "rg_row_group_id (ex_stats_group 1) \<in> set (plan_row_group_ids plan) \<and> plan_ok ex_stats_bundle plan"
    by (rule plan_read_keeps_rows [OF ex_stats_bundle_ok plan(1), where row = "\<lambda>_. Value_I32 6"])
      (simp_all add: m ex_stats_fields ex_request_def admits_def covers_def ex_stats_slices ex_stat_def value_le_def)
  with plan show ?thesis by blast
qed

section \<open>Executing plans\<close>

text \<open>C7. Reading a plan with any number of threads has exactly one outcome, the one of reading its row groups
  one after the other: the same batches in the same order, or the same error.\<close>

theorem parallel_read_is_serial:
  assumes "bundle_ok f" and "host_ready h" and "host_size_of h TyTaskSpec \<le> host_size_of h TyColumnBatch"
  shows "read_plan_batches h zstd f plan out \<longleftrightarrow>
    out = Some (sbind (validate_read_plan h f plan) (\<lambda>_.
      sbind (execution_plan_for h plan (plan_row_group_ids plan) True) (\<lambda>p.
      sbind (read_serially h zstd f p) (\<lambda>batches. Inr \<lparr>ro_batches = batches, ro_report = plan_report p\<rparr>))))"
proof (cases "validate_read_plan h f plan")
  case (Inl e)
  then show ?thesis by (simp add: read_plan_batches_def attempt_def returned_def)
next
  case (Inr u)
  from validate_read_plan_Inr [OF Inr] have ok: "plan_ok f plan" .
  show ?thesis
  proof (cases "execution_plan_for h plan (plan_row_group_ids plan) True")
    case (Inr p)
    note p = execution_plan_ok [OF ok Inr]
    have "execute_plan h zstd f p batches \<longleftrightarrow> batches = Some (read_serially h zstd f p)" for batches
      by (rule execute_plan_serial [OF assms p(1,2)])
    with Inr \<open>validate_read_plan h f plan = Inr u\<close> show ?thesis
      by (cases "read_serially h zstd f p") (simp_all add: read_plan_batches_def attempt_def)
  qed (use Inr in \<open>simp add: read_plan_batches_def attempt_def returned_def\<close>)
qed

lemma ex_execution_plan:
  "execution_plan_for example_host ex_plan (plan_row_group_ids ex_plan) True =
     Inr (ex_plan\<lparr>plan_report := execution_report_for_plan ex_plan (Suc 0)\<rparr>)"
  by (simp add: execution_plan_for_def ex_plan_def clone_column_bundle_u32s_fallibly_def ex_allocations)

theorem parallel_read_is_serial_witness:
  "read_plan_batches example_host ex_zstd ex_bundle ex_plan
     (Some (Inr \<lparr>ro_batches = [ex_batch], ro_report = execution_report_for_plan ex_plan (Suc 0)\<rparr>))"
proof -
  let ?p = "ex_plan\<lparr>plan_report := execution_report_for_plan ex_plan (Suc 0)\<rparr>"
  have "plan_row_group_ids ?p = [0]" "plan_projected_column_ids ?p = [1]" by (simp_all add: ex_plan_def)
  moreover from this have "validate_owned_plan_resource_limits example_host ex_opened ?p = Inr ()"
    by (simp add: validate_owned_iff ex_plan_footprints admitted_def compressed_total_def decoded_total_def ex_opened_fields policy_a_def
        OCB_POLICY_A_MAX_OWNED_DECODED_MATERIALIZED_BYTES_def OCB_POLICY_A_MAX_OWNED_SELECTED_COMPRESSED_BYTES_def)
  ultimately have "read_serially example_host ex_zstd ex_bundle ?p = Inr [ex_batch]"
    by (simp add: read_serially_def ex_bundle_def ex_allocations ex_batch_read)
  moreover have sizes: "host_size_of example_host TyTaskSpec \<le> host_size_of example_host TyColumnBatch"
    by (simp add: example_host_def)
  ultimately show ?thesis
    using parallel_read_is_serial [OF ex_bundle_ok example_host_ready sizes, where zstd = ex_zstd and plan = ex_plan]
    by (simp add: ex_plan_valid ex_execution_plan)
qed

text \<open>C8. Visiting a plan whose row groups can be read is independent of the number of threads and of row groups
  in flight: the visitor is called on the batches in order until it stops or fails, so it ends in the state of the
  serial loop, and the report has its counts.\<close>

theorem visit_is_serial:
  assumes "bundle_ok f" and "validate_read_plan h f plan = Inr ()" and "validate_read_cursor_options options = Inr ()"
    and "execution_plan_for h plan (plan_row_group_ids plan) True = Inr p"
    and "validate_contiguous_in_flight_plan_resource_limits h (cbf_metadata f) p (wave_size p options) = Inr ()"
    and "try_column_bundle_vec_with_capacity h TyTaskSpec (length (plan_row_group_ids plan)) = Inr ([] :: ParallelPrepareTaskSpec list)"
    and "\<forall>i \<in> set (plan_row_group_ids plan). is_ok (plan_row_group h zstd f plan i)"
    and "visit_plan_batches h zstd f plan options visitor s (out, s')"
  shows "(map_option (map_sum id cursor_summary) out, s') =
    apfst (map_option (map_sum id cursor_summary)) (visit_serially (plan_row_group h zstd f plan) visitor (plan_row_group_ids plan)
      (cursor_report_start p) s)"
proof -
  note p = execution_plan_ok [OF validate_read_plan_Inr [OF assms(2)] assms(4)]
  from assms(2,3,4,8) have "visit_execution_plan h zstd f p options visitor s (out, s')"
    by (simp add: visit_plan_batches_def attempt_def)
  from visit_execution_plan_serial [OF assms(1) p(1,2) _ assms(5) _ this] assms(6,7) show ?thesis by (simp add: p(3,4))
qed

theorem visit_is_serial_witness:
  "\<exists>out s'. visit_plan_batches example_host ex_zstd ex_bundle ex_plan \<lparr>co_max_in_flight_row_groups = 2, co_ordered = True\<rparr>
       (\<lambda>batch s. (Some (Inr Visit_Continue), s @ [batch_row_group_id batch])) [] (out, s') \<and>
     map_option (map_sum id cursor_summary) out = Some (Inr ((1, 1), False)) \<and> s' = [0]"
proof -
  let ?p = "ex_plan\<lparr>plan_report := execution_report_for_plan ex_plan (Suc 0)\<rparr>"
    and ?options = "\<lparr>co_max_in_flight_row_groups = 2, co_ordered = True\<rparr>"
    and ?visitor = "\<lambda>batch s. (Some (Inr Visit_Continue), s @ [batch_row_group_id batch])"
  have ids: "plan_row_group_ids ex_plan = [0]" "plan_projected_column_ids ex_plan = [1]" "wave_size ?p ?options = 1"
    by (simp_all add: ex_plan_def wave_size_def execution_report_for_plan_def build_read_report_def)
  have opts: "validate_read_cursor_options ?options = Inr ()" by (simp add: validate_read_cursor_options_def)
  have limits: "validate_contiguous_in_flight_plan_resource_limits example_host (cbf_metadata ex_bundle) ?p (wave_size ?p ?options) = Inr ()"
    by (simp add: validate_contiguous_iff ex_plan_footprints ids ex_bundle_def vec_chunks.simps admitted_def compressed_total_def decoded_total_def
        ex_opened_fields policy_a_def OCB_POLICY_A_MAX_OWNED_DECODED_MATERIALIZED_BYTES_def OCB_POLICY_A_MAX_OWNED_SELECTED_COMPRESSED_BYTES_def)
  have room: "try_column_bundle_vec_with_capacity example_host TyTaskSpec (length (plan_row_group_ids ex_plan)) = Inr ([] :: ParallelPrepareTaskSpec list)"
    by (simp add: ids ex_allocations)
  have read: "plan_row_group example_host ex_zstd ex_bundle ex_plan 0 = Inr ex_batch" by (simp add: ex_bundle_def ids ex_batch_read)
  then have readable: "\<forall>i \<in> set (plan_row_group_ids ex_plan). is_ok (plan_row_group example_host ex_zstd ex_bundle ex_plan i)"
    by (simp add: ids is_ok_def)
  have "\<exists>r. visit_plan_batches example_host ex_zstd ex_bundle ex_plan ?options ?visitor [] r"
    using limits by (simp add: visit_plan_batches_def attempt_def visit_execution_plan_def ids ex_plan_valid opts ex_execution_plan [unfolded ids(1)])
  then obtain out s' where run: "visit_plan_batches example_host ex_zstd ex_bundle ex_plan ?options ?visitor [] (out, s')"
    by auto
  from visit_is_serial [OF ex_bundle_ok ex_plan_valid opts ex_execution_plan limits room readable run]
  have "map_option (map_sum id cursor_summary) out = Some (Inr ((1, 1), False)) \<and> s' = [0]"
    unfolding ids(1) by (simp add: read count_batch_def cursor_report_start_def usize_saturating_add_def usize_max_def saturating_add_def
        cursor_summary_def ex_batch_def checked_add_def)
  with run show ?thesis by blast
qed

text \<open>C9. Parallel preparation holds its memory limits: whatever the threads do, the row groups queued, being
  read, waiting in the channel or kept by the coordinator together stay within the byte limits of the file.\<close>

theorem parallel_prepare_within_limits:
  assumes "bundle_ok f" and "parallel_prepare_tasks_and_report h f plan row_group_ids options = Inr (tasks, report)"
    and "tasks \<noteq> []" and "0 < ppo_max_in_flight_row_groups options"
    and "(pool_step read prepare (coordinate_ordered_commit Sliding tasks (ppo_max_in_flight_row_groups options) panic_mode commit))\<^sup>*\<^sup>*
      (pool_first tasks report options runtime Sliding s) (p, Coordinating c)"
  shows "\<exists>fs. selected_resource_footprints_for_plan h (cbf_metadata f)
      (plan\<lparr>plan_row_group_ids := map pts_row_group_id tasks, plan_report := report\<rparr>) = Inr fs \<and>
    admitted (md_resource_limits (cbf_metadata f))
      (map ((!) fs) (sorted_list_of_multiset (pool_ordinals p + mset (map message_ordinal (kept c)))))"
proof -
  let ?n = "ppo_max_in_flight_row_groups options" and ?m = "cbf_metadata f"
  obtain selected where ok: "validate_read_plan h f plan = Inr ()" and sel: "planned_row_group_subset h plan row_group_ids = Inr selected"
    and report: "report = execution_report_for_plan plan (length selected)"
    and sliding: "validate_sliding_in_flight_plan_resource_limits h ?m (plan\<lparr>plan_row_group_ids := selected, plan_report := report\<rparr>) ?n = Inr ()"
    and made: "try_map (task_spec ''OCB parallel prepare row group not found'' ''OCB parallel prepare row range overflows'' ?m)
      (enumerate 0 selected) = Inr tasks"
    using assms(2)
    by (cases plan) (auto simp: parallel_prepare_tasks_and_report_def Let_def clone_column_bundle_u32s_fallibly_def
        elim!: sbind_InrE dest!: try_column_bundle_Inr(1))
  note plan = planned_subset [OF validate_read_plan_Inr [OF ok] sel]
  have "\<forall>i \<in> set selected. row_group_by_id ?m i \<noteq> None" using plan by (simp add: plan_ok_def)
  from task_specs [OF assms(1) this, of "''OCB parallel prepare row group not found''" "''OCB parallel prepare row range overflows''" 0] made
  have tasks: "map pts_row_group_id tasks = selected" "map pts_selected_row_group_ordinal tasks = [0..<length selected]"
    by auto
  then have len: "length tasks = length selected" by (metis length_map)
  have "runnable tasks report options"
    using assms(3,4) tasks(2) plan_ok_length [OF plan] len by (simp add: runnable_def ordinals_def report execution_report_selected)
  from in_flight_range [OF this assms(5)] obtain lo hi where
    range: "pool_ordinals p + mset (map message_ordinal (kept c)) = mset [lo..<hi]" and lohi: "hi - lo \<le> ?n" "hi \<le> length tasks" .
  obtain fs where fs: "selected_resource_footprints_for_plan h ?m (plan\<lparr>plan_row_group_ids := selected, plan_report := report\<rparr>) = Inr fs"
    and valid: "validate_sliding_resource_footprints fs ?n (md_resource_limits ?m) = Inr ()"
    using sliding by (auto simp: validate_sliding_in_flight_plan_resource_limits_def sbind_eq_Inr)
  have "sorted_list_of_multiset (mset [lo..<hi]) = [lo..<hi]" by (simp add: sort_upt)
  then show ?thesis
    using fs admitted_range [OF valid lohi(1)] lohi(2) footprints_length [OF fs] unfolding tasks(1) range by (auto simp: len)
qed

theorem parallel_prepare_within_limits_witness:
  "\<exists>tasks report fs. parallel_prepare_tasks_and_report example_host ex_bundle ex_plan [0] \<lparr>ppo_max_in_flight_row_groups = 2\<rparr> = Inr (tasks, report) \<and>
     (let (p, t) = pool_first tasks report \<lparr>ppo_max_in_flight_row_groups = 2\<rparr> (production 1) Sliding [] in
      \<exists>c. t = Coordinating c \<and> admitted policy_a (map ((!) fs) (sorted_list_of_multiset
        (pool_ordinals (p :: u32 pool) + mset (map message_ordinal (kept (c :: (u32, u32 list) coordinator)))))))"
proof -
  let ?options = "\<lparr>ppo_max_in_flight_row_groups = 2\<rparr>"
  have ids: "plan_row_group_ids ex_plan = [0]" "plan_projected_column_ids ex_plan = [1]" and m: "cbf_metadata ex_bundle = ex_opened"
    by (simp_all add: ex_plan_def ex_bundle_def)
  have sel: "planned_row_group_subset example_host ex_plan [0] = Inr [0]"
    by (simp add: planned_row_group_subset_def ids ex_allocations)
  have sliding: "validate_sliding_in_flight_plan_resource_limits example_host (cbf_metadata ex_bundle)
      \<lparr>plan_projected_column_ids = [1], plan_row_group_ids = [0], plan_report = r\<rparr> 2 = Inr ()" for r
    by (simp add: validate_sliding_in_flight_plan_resource_limits_def m ex_plan_footprints validate_sliding_iff window_def admitted_def
        compressed_total_def decoded_total_def ex_opened_fields policy_a_def OCB_POLICY_A_MAX_OWNED_DECODED_MATERIALIZED_BYTES_def
        OCB_POLICY_A_MAX_OWNED_SELECTED_COMPRESSED_BYTES_def)
  obtain task report where made: "parallel_prepare_tasks_and_report example_host ex_bundle ex_plan [0] ?options = Inr ([task], report)"
    by (simp add: parallel_prepare_tasks_and_report_def ex_plan_valid sel clone_column_bundle_u32s_fallibly_def ids ex_allocations m
        sliding [unfolded m] task_spec_def ex_lookups ex_fields checked_add_def)
  obtain p c where first: "pool_first [task] report ?options (production 1) Sliding [] = (p :: u32 pool, Coordinating (c :: (u32, u32 list) coordinator))"
    by (simp add: pool_first_def)
  have "(pool_step read prepare (coordinate_ordered_commit Sliding [task] (ppo_max_in_flight_row_groups ?options) mode commit))\<^sup>*\<^sup>*
      (pool_first [task] report ?options (production 1) Sliding []) (p, Coordinating c)" for read prepare mode commit
    unfolding first by simp
  from parallel_prepare_within_limits [OF ex_bundle_ok made _ _ this] first made show ?thesis
    by (fastforce simp: ex_bundle_def ex_opened_fields)
qed

end
