(* ===== verification/Compact_L2.thy ===== *)
theory Compact_L2
  imports Bundle_Read
begin

text \<open>
  Compact L2 payloads (\<open>compact_l2.rs\<close>): the envelope checks of 168-byte records, the split of a record into
  typed lanes (physical v2) and back, and the reconstruction of records from the columns of a batch.

  Fixed-size arrays are lists, and \<open>record_ok\<close> states their lengths.  Writing into a borrowed
  buffer returns the buffer with the result, since a failing write leaves it partly written.
\<close>

section \<open>Constants\<close>

definition COMPACT_L2_FIXED_BINARY_SCHEMA_VERSION_V1 :: u16 where
  "COMPACT_L2_FIXED_BINARY_SCHEMA_VERSION_V1 = 1"

definition COMPACT_L2_DAY_KEY_COLUMN_NAME :: string where
  "COMPACT_L2_DAY_KEY_COLUMN_NAME = ''day_key''"

definition COMPACT_L2_CHANNEL_ID_COLUMN_NAME :: string where
  "COMPACT_L2_CHANNEL_ID_COLUMN_NAME = ''channel_id''"

definition COMPACT_L2_BIZ_INDEX_COLUMN_NAME :: string where
  "COMPACT_L2_BIZ_INDEX_COLUMN_NAME = ''biz_index''"

definition COMPACT_L2_RECEIVE_NANO_COLUMN_NAME :: string where
  "COMPACT_L2_RECEIVE_NANO_COLUMN_NAME = ''receive_nano''"

definition COMPACT_L2_SOURCE_ORDINAL_COLUMN_NAME :: string where
  "COMPACT_L2_SOURCE_ORDINAL_COLUMN_NAME = ''source_ordinal''"

definition COMPACT_L2_RECORD_KIND_COLUMN_NAME :: string where
  "COMPACT_L2_RECORD_KIND_COLUMN_NAME = ''record_kind''"

definition COMPACT_L2_PHYSICAL_V2_HEADER_BYTES_11_12_COLUMN_NAME :: string where
  "COMPACT_L2_PHYSICAL_V2_HEADER_BYTES_11_12_COLUMN_NAME = ''payload_header_bytes_11_12''"

definition COMPACT_L2_PHYSICAL_V2_EXCHANGE_TIME_COLUMN_NAME :: string where
  "COMPACT_L2_PHYSICAL_V2_EXCHANGE_TIME_COLUMN_NAME = ''payload_exchange_time''"

definition COMPACT_L2_PHYSICAL_V2_SYMBOL_COLUMN_NAME :: string where
  "COMPACT_L2_PHYSICAL_V2_SYMBOL_COLUMN_NAME = ''payload_symbol''"

definition COMPACT_L2_PHYSICAL_V2_BODY_BYTES_80_86_COLUMN_NAME :: string where
  "COMPACT_L2_PHYSICAL_V2_BODY_BYTES_80_86_COLUMN_NAME = ''payload_body_bytes_80_86''"

definition COMPACT_L2_PHYSICAL_V2_BODY_WORD_OFFSETS :: "u16 list" where
  "COMPACT_L2_PHYSICAL_V2_BODY_WORD_OFFSETS = [88, 96, 104, 112, 120, 128, 136, 144, 152, 160]"

definition COMPACT_L2_FIXED_INGRESS_MAGIC :: bytes where
  "COMPACT_L2_FIXED_INGRESS_MAGIC = [0x41, 0x4C, 0x49, 0x52]"

definition COMPACT_L2_FIXED_INGRESS_HEADER_LEN_V1 :: u16 where
  "COMPACT_L2_FIXED_INGRESS_HEADER_LEN_V1 = 80"

definition COMPACT_L2_FIXED_BINARY_RECORD_WIDTH_V1 :: u32 where
  "COMPACT_L2_FIXED_BINARY_RECORD_WIDTH_V1 = 168"

definition COMPACT_L2_RECORD_KIND_ORDER :: u8 where
  "COMPACT_L2_RECORD_KIND_ORDER = 1"

definition COMPACT_L2_RECORD_KIND_TRADE :: u8 where
  "COMPACT_L2_RECORD_KIND_TRADE = 2"

definition COMPACT_L2_SOURCE_FAMILY_LF_KUNGFU :: u8 where
  "COMPACT_L2_SOURCE_FAMILY_LF_KUNGFU = 1"

definition COMPACT_L2_SOURCE_FAMILY_ARCADIA_NATIVE :: u8 where
  "COMPACT_L2_SOURCE_FAMILY_ARCADIA_NATIVE = 2"

definition COMPACT_L2_SOURCE_FAMILY_SYNTHETIC :: u8 where
  "COMPACT_L2_SOURCE_FAMILY_SYNTHETIC = 3"

record CompactL2PhysicalV2BodyWordColumn =
  bwc_offset :: u16
  bwc_column_name :: string

definition COMPACT_L2_PHYSICAL_V2_BODY_WORD_COLUMNS :: "CompactL2PhysicalV2BodyWordColumn list" where
  "COMPACT_L2_PHYSICAL_V2_BODY_WORD_COLUMNS =
     [\<lparr>bwc_offset = 88, bwc_column_name = ''payload_body_word_88''\<rparr>,
      \<lparr>bwc_offset = 96, bwc_column_name = ''payload_body_word_96''\<rparr>,
      \<lparr>bwc_offset = 104, bwc_column_name = ''payload_body_word_104''\<rparr>,
      \<lparr>bwc_offset = 112, bwc_column_name = ''payload_body_word_112''\<rparr>,
      \<lparr>bwc_offset = 120, bwc_column_name = ''payload_body_word_120''\<rparr>,
      \<lparr>bwc_offset = 128, bwc_column_name = ''payload_body_word_128''\<rparr>,
      \<lparr>bwc_offset = 136, bwc_column_name = ''payload_body_word_136''\<rparr>,
      \<lparr>bwc_offset = 144, bwc_column_name = ''payload_body_word_144''\<rparr>,
      \<lparr>bwc_offset = 152, bwc_column_name = ''payload_body_word_152''\<rparr>,
      \<lparr>bwc_offset = 160, bwc_column_name = ''payload_body_word_160''\<rparr>]"

definition compact_l2_physical_v2_body_word_column_name :: "u16 \<Rightarrow> string option" where
  "compact_l2_physical_v2_body_word_column_name off =
     (if off = 88 then Some ''payload_body_word_88'' else
      if off = 96 then Some ''payload_body_word_96'' else
      if off = 104 then Some ''payload_body_word_104'' else
      if off = 112 then Some ''payload_body_word_112'' else
      if off = 120 then Some ''payload_body_word_120'' else
      if off = 128 then Some ''payload_body_word_128'' else
      if off = 136 then Some ''payload_body_word_136'' else
      if off = 144 then Some ''payload_body_word_144'' else
      if off = 152 then Some ''payload_body_word_152'' else
      if off = 160 then Some ''payload_body_word_160'' else None)"

section \<open>Errors and conversions\<close>

definition payload_header_error :: "string \<Rightarrow> ArcadiaTioError" where
  "payload_header_error message = ocb_diagnostic Kind_PayloadHeaderMismatch message"

definition scalar_payload_mismatch :: "string \<Rightarrow> ArcadiaTioError" where
  "scalar_payload_mismatch message = ocb_diagnostic Kind_PayloadHeaderMismatch message"

definition compact_l2_v2_batch_error :: "string \<Rightarrow> ArcadiaTioError" where
  "compact_l2_v2_batch_error message = ocb_diagnostic Kind_PayloadHeaderMismatch message"

text \<open>Debug formatting of a name without special characters; and the conversions between signed and unsigned integers.\<close>

definition quoted :: "string \<Rightarrow> string" where
  "quoted name = [CHR 0x22] @ name @ [CHR 0x22]"

definition u8_try_from_i32 :: "i32 \<Rightarrow> u8 option" where
  "u8_try_from_i32 v = (if 0 \<le> sint v \<and> sint v < 2 ^ 8 then Some (ucast v) else None)"

definition u32_try_from_i32 :: "i32 \<Rightarrow> u32 option" where
  "u32_try_from_i32 v = (if 0 \<le> sint v then Some v else None)"

definition i32_try_from_i64 :: "i64 \<Rightarrow> i32 option" where
  "i32_try_from_i64 v = (if - (2 ^ 31) \<le> sint v \<and> sint v < 2 ^ 31 then Some (ucast v) else None)"

definition u64_try_from_i64 :: "i64 \<Rightarrow> u64 option" where
  "u64_try_from_i64 v = (if 0 \<le> sint v then Some v else None)"

definition u32_from_day_key :: "i32 \<Rightarrow> u32 result" where
  "u32_from_day_key v = ok_or (u32_try_from_i32 v) (compact_l2_v2_batch_error ''compact-L2 day_key is negative'')"

definition i32_from_channel_id :: "i64 \<Rightarrow> i32 result" where
  "i32_from_channel_id v = ok_or (i32_try_from_i64 v) (compact_l2_v2_batch_error ''compact-L2 channel_id does not fit i32'')"

definition u64_from_source_ordinal :: "i64 \<Rightarrow> u64 result" where
  "u64_from_source_ordinal v = ok_or (u64_try_from_i64 v) (compact_l2_v2_batch_error ''compact-L2 source_ordinal is negative'')"

section \<open>The envelope of a record\<close>

datatype CompactL2RecordKind = RecordKind_Order | RecordKind_Trade

fun CompactL2RecordKind_code :: "CompactL2RecordKind \<Rightarrow> u8" where
  "CompactL2RecordKind_code RecordKind_Order = COMPACT_L2_RECORD_KIND_ORDER"
| "CompactL2RecordKind_code RecordKind_Trade = COMPACT_L2_RECORD_KIND_TRADE"

record CompactL2FixedBinaryHeaderV1 =
  lh_magic :: bytes
  lh_schema_version :: u16
  lh_header_len :: u16
  lh_record_len :: u16
  lh_record_kind :: CompactL2RecordKind
  lh_source_family :: u8
  lh_exchange_id :: u8
  lh_trading_day :: u32
  lh_channel_id :: i32
  lh_biz_index :: i64
  lh_source_ordinal :: u64
  lh_receive_nano :: i64
  lh_exchange_time :: i64

definition decode_record_kind :: "u8 \<Rightarrow> CompactL2RecordKind result" where
  "decode_record_kind b =
     (if b = COMPACT_L2_RECORD_KIND_ORDER then Inr RecordKind_Order else
      if b = COMPACT_L2_RECORD_KIND_TRADE then Inr RecordKind_Trade else
      Inl (payload_header_error ''compact-L2 fixed-ingress record kind mismatch''))"

definition check_variant_padding :: "bytes \<Rightarrow> CompactL2RecordKind \<Rightarrow> unit result" where
  "check_variant_padding rec record_kind =
     (case record_kind of
        RecordKind_Order \<Rightarrow>
          if rec ! 82 \<noteq> 0 \<or> (from_le_bytes (slice 104 112 rec) :: i64) \<noteq> 0 \<or>
             (from_le_bytes (slice 112 120 rec) :: i64) \<noteq> 0 \<or> (from_le_bytes (slice 152 160 rec) :: i64) \<noteq> 0
          then Inl (payload_header_error ''compact-L2 fixed-ingress order variant padding is nonzero'') else Inr ()
      | RecordKind_Trade \<Rightarrow>
          if rec ! 83 \<noteq> 0 \<or> rec ! 86 \<noteq> 0
          then Inl (payload_header_error ''compact-L2 fixed-ingress trade variant padding is nonzero'') else Inr ())"

definition decode_compact_l2_fixed_binary_header_v1 :: "bytes \<Rightarrow> CompactL2FixedBinaryHeaderV1 result" where
  "decode_compact_l2_fixed_binary_header_v1 rec =
     (if length rec \<noteq> unat COMPACT_L2_FIXED_BINARY_RECORD_WIDTH_V1
      then Inl (ocb_diagnostic Kind_FixedBinaryWidthMismatch
        (''compact-L2 fixed-binary record width mismatch: expected='' @ decimal (unat COMPACT_L2_FIXED_BINARY_RECORD_WIDTH_V1) @
         '' observed='' @ decimal (length rec))) else
      let magic = slice 0 4 rec in
      if magic \<noteq> COMPACT_L2_FIXED_INGRESS_MAGIC
      then Inl (payload_header_error ''compact-L2 fixed-ingress magic mismatch'') else
      let schema_version = from_le_bytes (slice 4 6 rec) in
      if schema_version \<noteq> COMPACT_L2_FIXED_BINARY_SCHEMA_VERSION_V1
      then Inl (ocb_diagnostic Kind_UnsupportedSchemaVersion
        (''unsupported compact-L2 fixed-ingress schema version: '' @ decimal (unat schema_version))) else
      let header_len = from_le_bytes (slice 6 8 rec) in
      if header_len \<noteq> COMPACT_L2_FIXED_INGRESS_HEADER_LEN_V1
      then Inl (payload_header_error ''compact-L2 fixed-ingress header length mismatch'') else
      let record_len = from_le_bytes (slice 8 10 rec) in
      if record_len \<noteq> ucast COMPACT_L2_FIXED_BINARY_RECORD_WIDTH_V1
      then Inl (payload_header_error ''compact-L2 fixed-ingress record length mismatch'') else
      sbind (decode_record_kind (rec ! 10)) (\<lambda>record_kind.
      let source_family = rec ! 11 in
      if \<not> (source_family = COMPACT_L2_SOURCE_FAMILY_LF_KUNGFU \<or> source_family = COMPACT_L2_SOURCE_FAMILY_ARCADIA_NATIVE \<or>
             source_family = COMPACT_L2_SOURCE_FAMILY_SYNTHETIC)
      then Inl (payload_header_error ''compact-L2 fixed-ingress source family mismatch'') else
      let exchange_id = rec ! 12 in
      if exchange_id > 2
      then Inl (payload_header_error ''compact-L2 fixed-ingress exchange id mismatch'') else
      if rec ! 13 \<noteq> 0 \<or> (from_le_bytes (slice 14 16 rec) :: u16) \<noteq> 0
      then Inl (payload_header_error ''compact-L2 fixed-ingress reserved header field is nonzero'') else
      if list_ex (\<lambda>byte. byte \<noteq> 0) (slice 65 80 rec)
      then Inl (payload_header_error ''compact-L2 fixed-ingress reserved header tail is nonzero'') else
      let trading_day = from_le_bytes (slice 16 20 rec); channel_id = from_le_bytes (slice 20 24 rec);
          biz_index = from_le_bytes (slice 24 32 rec); source_ordinal = from_le_bytes (slice 32 40 rec);
          receive_nano = from_le_bytes (slice 40 48 rec); exchange_time = from_le_bytes (slice 48 56 rec) in
      if trading_day = 0
      then Inl (payload_header_error ''compact-L2 fixed-ingress trading day is zero'') else
      if sint channel_id \<le> 0
      then Inl (payload_header_error ''compact-L2 fixed-ingress ChannelID is invalid'') else
      if sint biz_index \<le> 0
      then Inl (payload_header_error ''compact-L2 fixed-ingress BizIndex is invalid'') else
      if rec ! 87 \<noteq> 0
      then Inl (payload_header_error ''compact-L2 fixed-ingress reserved compact field is nonzero'') else
      sbind (check_variant_padding rec record_kind) (\<lambda>_.
      Inr \<lparr>lh_magic = magic, lh_schema_version = schema_version, lh_header_len = header_len, lh_record_len = record_len,
           lh_record_kind = record_kind, lh_source_family = source_family, lh_exchange_id = exchange_id,
           lh_trading_day = trading_day, lh_channel_id = channel_id, lh_biz_index = biz_index,
           lh_source_ordinal = source_ordinal, lh_receive_nano = receive_nano, lh_exchange_time = exchange_time\<rparr>)))"

section \<open>Records as typed lanes\<close>

record CompactL2PhysicalV2Record =
  lr_record_kind :: CompactL2RecordKind
  lr_source_family :: u8
  lr_exchange_id :: u8
  lr_trading_day :: u32
  lr_channel_id :: i32
  lr_biz_index :: i64
  lr_source_ordinal :: u64
  lr_receive_nano :: i64
  lr_exchange_time :: i64
  lr_symbol :: bytes
  lr_body_bytes_80_86 :: bytes
  lr_body_words_88_160 :: "i64 list"

text \<open>The lengths the array types give.\<close>

definition record_ok :: "CompactL2PhysicalV2Record \<Rightarrow> bool" where
  "record_ok r \<longleftrightarrow> length (lr_symbol r) = 9 \<and> length (lr_body_bytes_80_86 r) = 7 \<and> length (lr_body_words_88_160 r) = 10"

definition from_fixed_binary_v1 :: "bytes \<Rightarrow> CompactL2PhysicalV2Record result" where
  "from_fixed_binary_v1 rec =
     sbind (decode_compact_l2_fixed_binary_header_v1 rec) (\<lambda>header.
     Inr \<lparr>lr_record_kind = lh_record_kind header, lr_source_family = lh_source_family header,
          lr_exchange_id = lh_exchange_id header, lr_trading_day = lh_trading_day header,
          lr_channel_id = lh_channel_id header, lr_biz_index = lh_biz_index header,
          lr_source_ordinal = lh_source_ordinal header, lr_receive_nano = lh_receive_nano header,
          lr_exchange_time = lh_exchange_time header, lr_symbol = slice 56 65 rec,
          lr_body_bytes_80_86 = slice 80 87 rec,
          lr_body_words_88_160 = map (\<lambda>off. from_le_bytes (slice off (off + 8) rec)) (map unat COMPACT_L2_PHYSICAL_V2_BODY_WORD_OFFSETS)\<rparr>)"

definition from_fixed_binary_v1_with_scalar_columns ::
  "bytes \<Rightarrow> i32 \<Rightarrow> i64 \<Rightarrow> i64 \<Rightarrow> i64 \<Rightarrow> i64 \<Rightarrow> i32 \<Rightarrow> CompactL2PhysicalV2Record result" where
  "from_fixed_binary_v1_with_scalar_columns rec day_key channel_id biz_index receive_nano source_ordinal record_kind =
     sbind (from_fixed_binary_v1 rec) (\<lambda>decoded.
     if u32_try_from_i32 day_key \<noteq> Some (lr_trading_day decoded)
     then Inl (scalar_payload_mismatch ''day_key scalar/payload mismatch'') else
     if channel_id \<noteq> scast (lr_channel_id decoded)
     then Inl (scalar_payload_mismatch ''channel_id scalar/payload mismatch'') else
     if biz_index \<noteq> lr_biz_index decoded
     then Inl (scalar_payload_mismatch ''biz_index scalar/payload mismatch'') else
     if receive_nano \<noteq> lr_receive_nano decoded
     then Inl (scalar_payload_mismatch ''receive_nano scalar/payload mismatch'') else
     if u64_try_from_i64 source_ordinal \<noteq> Some (lr_source_ordinal decoded)
     then Inl (scalar_payload_mismatch ''source_ordinal scalar/payload mismatch'') else
     if record_kind \<noteq> ucast (CompactL2RecordKind_code (lr_record_kind decoded))
     then Inl (scalar_payload_mismatch ''record_kind scalar/payload mismatch'') else
     Inr decoded)"

text \<open>\<open>buffer[off..off + src.len()].copy_from_slice(src)\<close>, inside the buffer.\<close>

definition copy_at :: "usize \<Rightarrow> 'a list \<Rightarrow> 'a list \<Rightarrow> 'a list" where
  "copy_at off src buffer = take off buffer @ src @ drop (off + length src) buffer"

fun copy_words :: "(usize \<times> i64) list \<Rightarrow> bytes \<Rightarrow> bytes" where
  "copy_words [] buffer = buffer"
| "copy_words ((off, w) # ws) buffer = copy_words ws (copy_at off (to_le_bytes 8 w) buffer)"

definition to_fixed_binary_v1 :: "CompactL2PhysicalV2Record \<Rightarrow> bytes result" where
  "to_fixed_binary_v1 self =
     (let rec = replicate (unat COMPACT_L2_FIXED_BINARY_RECORD_WIDTH_V1) 0;
          rec = copy_at 0 COMPACT_L2_FIXED_INGRESS_MAGIC rec;
          rec = copy_at 4 (to_le_bytes 2 COMPACT_L2_FIXED_BINARY_SCHEMA_VERSION_V1) rec;
          rec = copy_at 6 (to_le_bytes 2 COMPACT_L2_FIXED_INGRESS_HEADER_LEN_V1) rec;
          rec = copy_at 8 (to_le_bytes 2 (ucast COMPACT_L2_FIXED_BINARY_RECORD_WIDTH_V1 :: u16)) rec;
          rec = rec[10 := CompactL2RecordKind_code (lr_record_kind self)];
          rec = rec[11 := lr_source_family self];
          rec = rec[12 := lr_exchange_id self];
          rec = rec[13 := 0];
          rec = copy_at 14 (to_le_bytes 2 (0 :: u16)) rec;
          rec = copy_at 16 (to_le_bytes 4 (lr_trading_day self)) rec;
          rec = copy_at 20 (to_le_bytes 4 (lr_channel_id self)) rec;
          rec = copy_at 24 (to_le_bytes 8 (lr_biz_index self)) rec;
          rec = copy_at 32 (to_le_bytes 8 (lr_source_ordinal self)) rec;
          rec = copy_at 40 (to_le_bytes 8 (lr_receive_nano self)) rec;
          rec = copy_at 48 (to_le_bytes 8 (lr_exchange_time self)) rec;
          rec = copy_at 56 (lr_symbol self) rec;
          rec = copy_at 65 (replicate 15 0) rec;
          rec = copy_at 80 (lr_body_bytes_80_86 self) rec;
          rec = rec[87 := 0];
          rec = copy_words (zip (map unat COMPACT_L2_PHYSICAL_V2_BODY_WORD_OFFSETS) (lr_body_words_88_160 self)) rec in
      sbind (decode_compact_l2_fixed_binary_header_v1 rec) (\<lambda>_. Inr rec))"

section \<open>Columns of a batch\<close>

record CompactL2PhysicalV2BatchView =
  lv_row_count :: usize
  lv_day_key :: "i32 list"
  lv_channel_id :: "i64 list"
  lv_biz_index :: "i64 list"
  lv_receive_nano :: "i64 list"
  lv_source_ordinal :: "i64 list"
  lv_record_kind :: "i32 list"
  lv_header_bytes_11_12 :: bytes
  lv_exchange_time :: "i64 list"
  lv_symbol :: bytes
  lv_body_bytes_80_86 :: bytes
  lv_body_words_88_160 :: "i64 list list"

definition column_named :: "ColumnBatch \<Rightarrow> string \<Rightarrow> ColumnArray result" where
  "column_named batch name =
     ok_or (List.find (\<lambda>column. ca_name column = str_bytes name) (batch_columns batch))
       (compact_l2_v2_batch_error (''compact-L2 column '' @ quoted name @ '' missing''))"

definition row_count_mismatch :: "string \<Rightarrow> usize \<Rightarrow> usize \<Rightarrow> ArcadiaTioError" where
  "row_count_mismatch name row_count observed = compact_l2_v2_batch_error
     (''compact-L2 column '' @ quoted name @ '' row count mismatch: expected='' @ decimal row_count @ '' observed='' @ decimal observed)"

definition unexpected_physical_type :: "string \<Rightarrow> ArcadiaTioError" where
  "unexpected_physical_type name =
     compact_l2_v2_batch_error (''compact-L2 column '' @ quoted name @ '' has unexpected physical type'')"

definition compact_l2_column_i32 :: "ColumnBatch \<Rightarrow> string \<Rightarrow> usize \<Rightarrow> i32 list result" where
  "compact_l2_column_i32 batch name row_count =
     sbind (column_named batch name) (\<lambda>column.
     case ca_values column of
       Values_I32 vs \<Rightarrow> if length vs = row_count then Inr vs else Inl (row_count_mismatch name row_count (length vs))
     | _ \<Rightarrow> Inl (unexpected_physical_type name))"

definition compact_l2_column_i64 :: "ColumnBatch \<Rightarrow> string \<Rightarrow> usize \<Rightarrow> i64 list result" where
  "compact_l2_column_i64 batch name row_count =
     sbind (column_named batch name) (\<lambda>column.
     case ca_values column of
       Values_I64 vs \<Rightarrow> if length vs = row_count then Inr vs else Inl (row_count_mismatch name row_count (length vs))
     | _ \<Rightarrow> Inl (unexpected_physical_type name))"

definition compact_l2_column_fixed_binary :: "ColumnBatch \<Rightarrow> string \<Rightarrow> usize \<Rightarrow> u32 \<Rightarrow> bytes result" where
  "compact_l2_column_fixed_binary batch name row_count expected_width =
     sbind (column_named batch name) (\<lambda>column.
     case ca_values column of
       Values_FixedBinary w bs \<Rightarrow>
         if w = expected_width
         then sbind (ok_or (usize_checked_mul row_count (unat expected_width))
                (compact_l2_v2_batch_error ''compact-L2 fixed-binary column expected length overflows'')) (\<lambda>expected_len.
              if length bs = expected_len then Inr bs
              else Inl (compact_l2_v2_batch_error (''compact-L2 column '' @ quoted name @ '' byte length mismatch: expected='' @
                decimal expected_len @ '' observed='' @ decimal (length bs))))
         else Inl (ocb_diagnostic Kind_FixedBinaryWidthMismatch (''compact-L2 column '' @ quoted name @
                '' fixed-binary width mismatch: expected='' @ decimal (unat expected_width) @ '' observed='' @ decimal (unat w)))
     | _ \<Rightarrow> Inl (unexpected_physical_type name))"

definition from_column_batch :: "ColumnBatch \<Rightarrow> CompactL2PhysicalV2BatchView result" where
  "from_column_batch batch =
     sbind (ok_or (usize_try_from (unat (batch_row_count batch)))
        (compact_l2_v2_batch_error ''compact-L2 physical-v2 row count exceeds addressable memory'')) (\<lambda>row_count.
     sbind (compact_l2_column_i32 batch COMPACT_L2_DAY_KEY_COLUMN_NAME row_count) (\<lambda>day_key.
     sbind (compact_l2_column_i64 batch COMPACT_L2_CHANNEL_ID_COLUMN_NAME row_count) (\<lambda>channel_id.
     sbind (compact_l2_column_i64 batch COMPACT_L2_BIZ_INDEX_COLUMN_NAME row_count) (\<lambda>biz_index.
     sbind (compact_l2_column_i64 batch COMPACT_L2_RECEIVE_NANO_COLUMN_NAME row_count) (\<lambda>receive_nano.
     sbind (compact_l2_column_i64 batch COMPACT_L2_SOURCE_ORDINAL_COLUMN_NAME row_count) (\<lambda>source_ordinal.
     sbind (compact_l2_column_i32 batch COMPACT_L2_RECORD_KIND_COLUMN_NAME row_count) (\<lambda>record_kind.
     sbind (compact_l2_column_fixed_binary batch COMPACT_L2_PHYSICAL_V2_HEADER_BYTES_11_12_COLUMN_NAME row_count 2) (\<lambda>header_bytes.
     sbind (compact_l2_column_i64 batch COMPACT_L2_PHYSICAL_V2_EXCHANGE_TIME_COLUMN_NAME row_count) (\<lambda>exchange_time.
     sbind (compact_l2_column_fixed_binary batch COMPACT_L2_PHYSICAL_V2_SYMBOL_COLUMN_NAME row_count 9) (\<lambda>symbol.
     sbind (compact_l2_column_fixed_binary batch COMPACT_L2_PHYSICAL_V2_BODY_BYTES_80_86_COLUMN_NAME row_count 7) (\<lambda>body_bytes.
     sbind (try_map (\<lambda>column. compact_l2_column_i64 batch (bwc_column_name column) row_count)
        COMPACT_L2_PHYSICAL_V2_BODY_WORD_COLUMNS) (\<lambda>body_words.
     if length body_words \<noteq> 10
     then Inl (compact_l2_v2_batch_error ''compact-L2 physical-v2 body word lane count mismatch'') else
     Inr \<lparr>lv_row_count = row_count, lv_day_key = day_key, lv_channel_id = channel_id, lv_biz_index = biz_index,
          lv_receive_nano = receive_nano, lv_source_ordinal = source_ordinal, lv_record_kind = record_kind,
          lv_header_bytes_11_12 = header_bytes, lv_exchange_time = exchange_time, lv_symbol = symbol,
          lv_body_bytes_80_86 = body_bytes, lv_body_words_88_160 = body_words\<rparr>))))))))))))"

definition compact_l2_validate_lane_len :: "string \<Rightarrow> usize \<Rightarrow> usize \<Rightarrow> unit result" where
  "compact_l2_validate_lane_len name observed_len expected_len =
     (if observed_len = expected_len then Inr ()
      else Inl (compact_l2_v2_batch_error (''compact-L2 physical-v2 column '' @ quoted name @
        '' length mismatch: expected='' @ decimal expected_len @ '' observed='' @ decimal observed_len)))"

definition CompactL2PhysicalV2BatchView_validate :: "CompactL2PhysicalV2BatchView \<Rightarrow> unit result" where
  "CompactL2PhysicalV2BatchView_validate self =
     (let n = lv_row_count self in
     sbind (compact_l2_validate_lane_len COMPACT_L2_DAY_KEY_COLUMN_NAME (length (lv_day_key self)) n) (\<lambda>_.
     sbind (compact_l2_validate_lane_len COMPACT_L2_CHANNEL_ID_COLUMN_NAME (length (lv_channel_id self)) n) (\<lambda>_.
     sbind (compact_l2_validate_lane_len COMPACT_L2_BIZ_INDEX_COLUMN_NAME (length (lv_biz_index self)) n) (\<lambda>_.
     sbind (compact_l2_validate_lane_len COMPACT_L2_RECEIVE_NANO_COLUMN_NAME (length (lv_receive_nano self)) n) (\<lambda>_.
     sbind (compact_l2_validate_lane_len COMPACT_L2_SOURCE_ORDINAL_COLUMN_NAME (length (lv_source_ordinal self)) n) (\<lambda>_.
     sbind (compact_l2_validate_lane_len COMPACT_L2_RECORD_KIND_COLUMN_NAME (length (lv_record_kind self)) n) (\<lambda>_.
     sbind (ok_or (usize_checked_mul n 2)
        (compact_l2_v2_batch_error ''compact-L2 physical-v2 header byte lane length overflows'')) (\<lambda>expected.
     sbind (compact_l2_validate_lane_len COMPACT_L2_PHYSICAL_V2_HEADER_BYTES_11_12_COLUMN_NAME
        (length (lv_header_bytes_11_12 self)) expected) (\<lambda>_.
     sbind (compact_l2_validate_lane_len COMPACT_L2_PHYSICAL_V2_EXCHANGE_TIME_COLUMN_NAME (length (lv_exchange_time self)) n) (\<lambda>_.
     sbind (ok_or (usize_checked_mul n 9)
        (compact_l2_v2_batch_error ''compact-L2 physical-v2 symbol lane length overflows'')) (\<lambda>expected.
     sbind (compact_l2_validate_lane_len COMPACT_L2_PHYSICAL_V2_SYMBOL_COLUMN_NAME (length (lv_symbol self)) expected) (\<lambda>_.
     sbind (ok_or (usize_checked_mul n 7)
        (compact_l2_v2_batch_error ''compact-L2 physical-v2 body byte lane length overflows'')) (\<lambda>expected.
     sbind (compact_l2_validate_lane_len COMPACT_L2_PHYSICAL_V2_BODY_BYTES_80_86_COLUMN_NAME
        (length (lv_body_bytes_80_86 self)) expected) (\<lambda>_.
     for_each (\<lambda>(column, lane) _. compact_l2_validate_lane_len (bwc_column_name column) (length lane) n)
       (zip COMPACT_L2_PHYSICAL_V2_BODY_WORD_COLUMNS (lv_body_words_88_160 self)) ()))))))))))))))"

text \<open>A step that may fail or panic while a buffer is being written, and the words of one row.\<close>

definition wtry :: "'a presult \<Rightarrow> bytes \<Rightarrow> ('a \<Rightarrow> unit presult \<times> bytes) \<Rightarrow> unit presult \<times> bytes" where
  "wtry r out k = (case r of None \<Rightarrow> (None, out) | Some (Inl e) \<Rightarrow> (Some (Inl e), out) | Some (Inr x) \<Rightarrow> k x)"

definition at_row :: "'a list \<Rightarrow> usize \<Rightarrow> 'a presult" where
  "at_row lane row = map_option Inr (vec_get lane row)"

definition bytes_at_row :: "bytes \<Rightarrow> usize \<Rightarrow> usize \<Rightarrow> bytes presult" where
  "bytes_at_row lane w row = map_option Inr (vec_get_range lane (row * w) (row * w + w))"

fun write_words :: "usize \<Rightarrow> (usize \<times> i64 list) list \<Rightarrow> bytes \<Rightarrow> unit presult \<times> bytes" where
  "write_words row [] out = (Some (Inr ()), out)"
| "write_words row ((off, lane) # lanes) out =
     wtry (at_row lane row) out (\<lambda>w. write_words row lanes (copy_at off (to_le_bytes 8 w) out))"

definition write_fixed_binary_v1_payload_unchecked ::
  "CompactL2PhysicalV2BatchView \<Rightarrow> usize \<Rightarrow> bytes \<Rightarrow> unit presult \<times> bytes" where
  "write_fixed_binary_v1_payload_unchecked self row out =
     (if row \<ge> lv_row_count self
      then (Some (Inl (compact_l2_v2_batch_error ''compact-L2 physical-v2 row index out of bounds'')), out) else
      if length out \<noteq> unat COMPACT_L2_FIXED_BINARY_RECORD_WIDTH_V1
      then (Some (Inl (ocb_diagnostic Kind_FixedBinaryWidthMismatch
        (''compact-L2 physical-v2 output width mismatch: expected='' @ decimal (unat COMPACT_L2_FIXED_BINARY_RECORD_WIDTH_V1) @
         '' observed='' @ decimal (length out)))), out) else
      let out = replicate (length out) 0;
          out = copy_at 0 COMPACT_L2_FIXED_INGRESS_MAGIC out;
          out = copy_at 4 (to_le_bytes 2 COMPACT_L2_FIXED_BINARY_SCHEMA_VERSION_V1) out;
          out = copy_at 6 (to_le_bytes 2 COMPACT_L2_FIXED_INGRESS_HEADER_LEN_V1) out;
          out = copy_at 8 (to_le_bytes 2 (ucast COMPACT_L2_FIXED_BINARY_RECORD_WIDTH_V1 :: u16)) out in
      wtry (at_row (lv_record_kind self) row) out (\<lambda>record_kind.
      wtry (Some (ok_or (u8_try_from_i32 record_kind)
        (compact_l2_v2_batch_error ''compact-L2 physical-v2 record_kind does not fit u8''))) out (\<lambda>record_kind.
      let out = out[10 := record_kind] in
      wtry (bytes_at_row (lv_header_bytes_11_12 self) 2 row) out (\<lambda>header_bytes.
      let out = copy_at 11 header_bytes out in
      wtry (at_row (lv_day_key self) row) out (\<lambda>day_key.
      wtry (Some (u32_from_day_key day_key)) out (\<lambda>day_key.
      let out = copy_at 16 (to_le_bytes 4 day_key) out in
      wtry (at_row (lv_channel_id self) row) out (\<lambda>channel_id.
      wtry (Some (i32_from_channel_id channel_id)) out (\<lambda>channel_id.
      let out = copy_at 20 (to_le_bytes 4 channel_id) out in
      wtry (at_row (lv_biz_index self) row) out (\<lambda>biz_index.
      let out = copy_at 24 (to_le_bytes 8 biz_index) out in
      wtry (at_row (lv_source_ordinal self) row) out (\<lambda>source_ordinal.
      wtry (Some (u64_from_source_ordinal source_ordinal)) out (\<lambda>source_ordinal.
      let out = copy_at 32 (to_le_bytes 8 source_ordinal) out in
      wtry (at_row (lv_receive_nano self) row) out (\<lambda>receive_nano.
      let out = copy_at 40 (to_le_bytes 8 receive_nano) out in
      wtry (at_row (lv_exchange_time self) row) out (\<lambda>exchange_time.
      let out = copy_at 48 (to_le_bytes 8 exchange_time) out in
      wtry (bytes_at_row (lv_symbol self) 9 row) out (\<lambda>symbol.
      let out = copy_at 56 symbol out in
      wtry (bytes_at_row (lv_body_bytes_80_86 self) 7 row) out (\<lambda>body_bytes.
      let out = copy_at 80 body_bytes out in
      case write_words row (zip (map unat COMPACT_L2_PHYSICAL_V2_BODY_WORD_OFFSETS) (lv_body_words_88_160 self)) out of
        (r, out) \<Rightarrow>
      wtry r out (\<lambda>_.
      wtry (Some (decode_compact_l2_fixed_binary_header_v1 out)) out (\<lambda>_.
      (Some (Inr ()), out))))))))))))))))))"

definition write_fixed_binary_v1_payload :: "CompactL2PhysicalV2BatchView \<Rightarrow> usize \<Rightarrow> bytes \<Rightarrow> unit presult \<times> bytes" where
  "write_fixed_binary_v1_payload self row out =
     wtry (Some (CompactL2PhysicalV2BatchView_validate self)) out (\<lambda>_. write_fixed_binary_v1_payload_unchecked self row out)"

fun append_rows :: "CompactL2PhysicalV2BatchView \<Rightarrow> usize \<Rightarrow> usize list \<Rightarrow> bytes \<Rightarrow> unit presult \<times> bytes" where
  "append_rows self start [] out = (Some (Inr ()), out)"
| "append_rows self start (row # rows) out =
     (let base = start + row * unat COMPACT_L2_FIXED_BINARY_RECORD_WIDTH_V1 in
      case write_fixed_binary_v1_payload_unchecked self row (slice base (base + unat COMPACT_L2_FIXED_BINARY_RECORD_WIDTH_V1) out) of
        (r, written) \<Rightarrow> wtry r (copy_at base written out) (\<lambda>_. append_rows self start rows (copy_at base written out)))"

definition append_fixed_binary_v1_payloads :: "host \<Rightarrow> CompactL2PhysicalV2BatchView \<Rightarrow> bytes \<Rightarrow> unit presult \<times> bytes" where
  "append_fixed_binary_v1_payloads h self out =
     wtry (Some (CompactL2PhysicalV2BatchView_validate self)) out (\<lambda>_.
     wtry (Some (ok_or (usize_checked_mul (lv_row_count self) (unat COMPACT_L2_FIXED_BINARY_RECORD_WIDTH_V1))
        (compact_l2_v2_batch_error ''compact-L2 physical-v2 reconstructed payload length overflows''))) out (\<lambda>additional.
     wtry (Some (ok_or (usize_checked_add (length out) additional)
        (compact_l2_v2_batch_error ''compact-L2 physical-v2 reconstructed payload length overflows''))) out (\<lambda>stop.
     if additional > 0 \<and> \<not> try_reserve_exact h TyU8 stop ''compact-L2 reconstructed payload allocation failed within resource limit''
     then (Some (Inl (Io (IoError IoKind_OutOfMemory ''compact-L2 reconstructed payload allocation failed within resource limit''))), out) else
     append_rows self (length out) [0..<lv_row_count self] (vec_resize stop 0 out))))"

end
