(* ===== verification/Compact_Lanes.thy ===== *)
theory Compact_Lanes
  imports Compact_L2
begin

text \<open>
  Splitting compact L2 records into lanes loses nothing: the split and the reconstruction are inverse to each
  other, and a batch of lanes is written back as the records it was made from.
\<close>

section \<open>Writing a buffer of zeros from left to right\<close>

definition padded :: "bytes \<Rightarrow> bytes" where
  "padded p = p @ replicate (168 - length p) 0"

lemma padded_Nil: "replicate 168 0 = padded []"
  by (simp add: padded_def)

lemma padded_full: "length p = 168 \<Longrightarrow> padded p = p"
  by (simp add: padded_def)

lemma padded_copy:
  "length p \<le> a \<Longrightarrow> a + length src \<le> 168 \<Longrightarrow> copy_at a src (padded p) = padded (p @ replicate (a - length p) 0 @ src)"
  by (simp add: copy_at_def padded_def min_def)

lemma padded_update: "i = length p \<Longrightarrow> i < 168 \<Longrightarrow> (padded p)[i := v] = padded (p @ [v])"
  by (cases "168 - length p") (auto simp: padded_def)

lemmas padded_simps = padded_copy padded_update padded_full

lemma slice_step: "i < length xs \<Longrightarrow> slice i (Suc i) xs = [xs ! i]"
  by (simp add: slice_def take_Suc_conv_app_nth hd_drop_conv_nth take_Suc)

lemma slice_mid: "length p = a \<Longrightarrow> length x = b - a \<Longrightarrow> a \<le> b \<Longrightarrow> slice a b (p @ x @ s) = x"
  by (simp add: slice_def)

section \<open>The bytes of a record\<close>

definition payload :: "u8 \<Rightarrow> bytes \<Rightarrow> u32 \<Rightarrow> i32 \<Rightarrow> i64 \<Rightarrow> u64 \<Rightarrow> i64 \<Rightarrow> i64 \<Rightarrow> bytes \<Rightarrow> bytes \<Rightarrow> i64 list \<Rightarrow> bytes" where
  "payload kind header_bytes trading_day channel_id biz_index source_ordinal receive_nano exchange_time symbol body_bytes ws =
     COMPACT_L2_FIXED_INGRESS_MAGIC @ to_le_bytes 2 COMPACT_L2_FIXED_BINARY_SCHEMA_VERSION_V1 @
     to_le_bytes 2 COMPACT_L2_FIXED_INGRESS_HEADER_LEN_V1 @ to_le_bytes 2 (ucast COMPACT_L2_FIXED_BINARY_RECORD_WIDTH_V1 :: u16) @
     [kind] @ header_bytes @ [0] @ replicate 2 0 @ to_le_bytes 4 trading_day @ to_le_bytes 4 channel_id @ to_le_bytes 8 biz_index @
     to_le_bytes 8 source_ordinal @ to_le_bytes 8 receive_nano @ to_le_bytes 8 exchange_time @ symbol @ replicate 15 0 @
     body_bytes @ [0] @ concat (map (to_le_bytes 8) ws)"

definition record_payload :: "CompactL2PhysicalV2Record \<Rightarrow> bytes" where
  "record_payload r = payload (CompactL2RecordKind_code (lr_record_kind r)) [lr_source_family r, lr_exchange_id r] (lr_trading_day r)
     (lr_channel_id r) (lr_biz_index r) (lr_source_ordinal r) (lr_receive_nano r) (lr_exchange_time r) (lr_symbol r)
     (lr_body_bytes_80_86 r) (lr_body_words_88_160 r)"

lemma words_of_ten:
  assumes "length ws = 10"
  obtains a b c d e f g h i j where "ws = [a, b, c, d, e, f, g, h, i, j]"
  using assms by (auto simp: length_Suc_conv numeral_eq_Suc)

lemma length_magic [simp]: "length COMPACT_L2_FIXED_INGRESS_MAGIC = 4"
  by (simp add: COMPACT_L2_FIXED_INGRESS_MAGIC_def)

lemma width [simp]: "unat COMPACT_L2_FIXED_BINARY_RECORD_WIDTH_V1 = 168"
  by (simp add: COMPACT_L2_FIXED_BINARY_RECORD_WIDTH_V1_def)

lemma length_payload:
  assumes "length header_bytes = 2" and "length symbol = 9" and "length body_bytes = 7" and "length ws = 10"
  shows "length (payload kind header_bytes day ch biz ord rcv exch symbol body_bytes ws) = 168"
  using assms by (auto simp: payload_def elim!: words_of_ten)

lemma payload_slices:
  assumes "length header_bytes = 2" and "length symbol = 9" and "length body_bytes = 7" and "length ws = 10"
    and "r = payload kind header_bytes day ch biz ord rcv exch symbol body_bytes ws"
  shows "slice 0 4 r = COMPACT_L2_FIXED_INGRESS_MAGIC" and "slice 4 6 r = to_le_bytes 2 COMPACT_L2_FIXED_BINARY_SCHEMA_VERSION_V1"
    and "slice 6 8 r = to_le_bytes 2 COMPACT_L2_FIXED_INGRESS_HEADER_LEN_V1"
    and "slice 8 10 r = to_le_bytes 2 (ucast COMPACT_L2_FIXED_BINARY_RECORD_WIDTH_V1 :: u16)"
    and "r ! 10 = kind" and "slice 11 13 r = header_bytes" and "r ! 11 = header_bytes ! 0" and "r ! 12 = header_bytes ! 1"
    and "slice 16 20 r = to_le_bytes 4 day" and "slice 20 24 r = to_le_bytes 4 ch" and "slice 24 32 r = to_le_bytes 8 biz"
    and "slice 32 40 r = to_le_bytes 8 ord" and "slice 40 48 r = to_le_bytes 8 rcv" and "slice 48 56 r = to_le_bytes 8 exch"
    and "slice 56 65 r = symbol" and "slice 80 87 r = body_bytes"
    and "map (\<lambda>off. slice off (off + 8) r) (map unat COMPACT_L2_PHYSICAL_V2_BODY_WORD_OFFSETS) = map (to_le_bytes 8) ws"
proof -
  obtain w0 w1 w2 w3 w4 w5 w6 w7 w8 w9 where "ws = [w0, w1, w2, w3, w4, w5, w6, w7, w8, w9]" using assms(4) by (rule words_of_ten)
  moreover obtain b0 b1 where "header_bytes = [b0, b1]" using assms(1) by (auto simp: length_Suc_conv numeral_eq_Suc)
  ultimately show "slice 0 4 r = COMPACT_L2_FIXED_INGRESS_MAGIC" and "slice 4 6 r = to_le_bytes 2 COMPACT_L2_FIXED_BINARY_SCHEMA_VERSION_V1"
    and "slice 6 8 r = to_le_bytes 2 COMPACT_L2_FIXED_INGRESS_HEADER_LEN_V1"
    and "slice 8 10 r = to_le_bytes 2 (ucast COMPACT_L2_FIXED_BINARY_RECORD_WIDTH_V1 :: u16)"
    and "r ! 10 = kind" and "slice 11 13 r = header_bytes" and "r ! 11 = header_bytes ! 0" and "r ! 12 = header_bytes ! 1"
    and "slice 16 20 r = to_le_bytes 4 day" and "slice 20 24 r = to_le_bytes 4 ch" and "slice 24 32 r = to_le_bytes 8 biz"
    and "slice 32 40 r = to_le_bytes 8 ord" and "slice 40 48 r = to_le_bytes 8 rcv" and "slice 48 56 r = to_le_bytes 8 exch"
    and "slice 56 65 r = symbol" and "slice 80 87 r = body_bytes"
    and "map (\<lambda>off. slice off (off + 8) r) (map unat COMPACT_L2_PHYSICAL_V2_BODY_WORD_OFFSETS) = map (to_le_bytes 8) ws"
    using assms(2,3) unfolding assms(5)
    by (simp_all add: payload_def slice_def nth_append COMPACT_L2_PHYSICAL_V2_BODY_WORD_OFFSETS_def)
qed

lemma to_fixed_binary_v1_payload:
  assumes "record_ok r"
  shows "to_fixed_binary_v1 r = sbind (decode_compact_l2_fixed_binary_header_v1 (record_payload r)) (\<lambda>_. Inr (record_payload r))"
proof -
  obtain w0 w1 w2 w3 w4 w5 w6 w7 w8 w9 where "lr_body_words_88_160 r = [w0, w1, w2, w3, w4, w5, w6, w7, w8, w9]"
    using assms unfolding record_ok_def by (auto elim: words_of_ten)
  then show ?thesis
    using assms unfolding to_fixed_binary_v1_def record_ok_def width padded_Nil
    by (simp add: padded_simps Let_def COMPACT_L2_PHYSICAL_V2_BODY_WORD_OFFSETS_def record_payload_def payload_def)
qed

section \<open>Accepted records\<close>

lemma le_slice:
  fixes w :: "'a::len word"
  assumes "from_le_bytes (slice a b xs) = w" and "LENGTH('a) = 8 * n" and "b = a + n" and "b \<le> length xs"
  shows "slice a b xs = to_le_bytes n w"
  using to_from_le_bytes [of "slice a b xs", where 'a = 'a] assms by simp

lemma decode_record_kind_Inr: "decode_record_kind b = Inr kind \<longleftrightarrow> b = CompactL2RecordKind_code kind"
  by (cases kind) (auto simp: decode_record_kind_def COMPACT_L2_RECORD_KIND_ORDER_def COMPACT_L2_RECORD_KIND_TRADE_def)

lemma checked_Inr: "(if b then Inl e else r) = Inr y \<longleftrightarrow> \<not> b \<and> r = Inr y"
  by simp

lemma decode_header_checks:
  assumes "decode_compact_l2_fixed_binary_header_v1 rec = Inr header"
  shows "length rec = 168 \<and> slice 0 4 rec = COMPACT_L2_FIXED_INGRESS_MAGIC \<and>
    from_le_bytes (slice 4 6 rec) = COMPACT_L2_FIXED_BINARY_SCHEMA_VERSION_V1 \<and>
    from_le_bytes (slice 6 8 rec) = COMPACT_L2_FIXED_INGRESS_HEADER_LEN_V1 \<and>
    from_le_bytes (slice 8 10 rec) = (ucast COMPACT_L2_FIXED_BINARY_RECORD_WIDTH_V1 :: u16) \<and>
    rec ! 13 = 0 \<and> from_le_bytes (slice 14 16 rec) = (0 :: u16) \<and> \<not> list_ex (\<lambda>byte. byte \<noteq> 0) (slice 65 80 rec) \<and> rec ! 87 = 0 \<and>
    rec ! 10 = CompactL2RecordKind_code (lh_record_kind header) \<and>
    rec ! 11 = lh_source_family header \<and> rec ! 12 = lh_exchange_id header \<and>
    from_le_bytes (slice 16 20 rec) = lh_trading_day header \<and> from_le_bytes (slice 20 24 rec) = lh_channel_id header \<and>
    from_le_bytes (slice 24 32 rec) = lh_biz_index header \<and> from_le_bytes (slice 32 40 rec) = lh_source_ordinal header \<and>
    from_le_bytes (slice 40 48 rec) = lh_receive_nano header \<and> from_le_bytes (slice 48 56 rec) = lh_exchange_time header"
  using assms
  by (simp only: decode_compact_l2_fixed_binary_header_v1_def Let_def width checked_Inr sbind_eq_Inr decode_record_kind_Inr sum.inject)
    (elim exE conjE, hypsubst, simp only: simp_thms CompactL2FixedBinaryHeaderV1.simps de_Morgan_disj)

lemma decode_header_Inr:
  assumes "decode_compact_l2_fixed_binary_header_v1 rec = Inr header"
  shows "length rec = 168" and "slice 0 4 rec = COMPACT_L2_FIXED_INGRESS_MAGIC"
    and "slice 4 6 rec = to_le_bytes 2 COMPACT_L2_FIXED_BINARY_SCHEMA_VERSION_V1"
    and "slice 6 8 rec = to_le_bytes 2 COMPACT_L2_FIXED_INGRESS_HEADER_LEN_V1"
    and "slice 8 10 rec = to_le_bytes 2 (ucast COMPACT_L2_FIXED_BINARY_RECORD_WIDTH_V1 :: u16)"
    and "rec ! 10 = CompactL2RecordKind_code (lh_record_kind header)" and "rec ! 11 = lh_source_family header"
    and "rec ! 12 = lh_exchange_id header" and "rec ! 13 = 0" and "slice 14 16 rec = replicate 2 0"
    and "slice 16 20 rec = to_le_bytes 4 (lh_trading_day header)" and "slice 20 24 rec = to_le_bytes 4 (lh_channel_id header)"
    and "slice 24 32 rec = to_le_bytes 8 (lh_biz_index header)" and "slice 32 40 rec = to_le_bytes 8 (lh_source_ordinal header)"
    and "slice 40 48 rec = to_le_bytes 8 (lh_receive_nano header)" and "slice 48 56 rec = to_le_bytes 8 (lh_exchange_time header)"
    and "slice 65 80 rec = replicate 15 0" and "rec ! 87 = 0"
proof -
  note checks = decode_header_checks [OF assms]
  then have len: "length rec = 168" and flags: "from_le_bytes (slice 14 16 rec) = (0 :: u16)"
    and zero: "\<not> list_ex (\<lambda>byte. byte \<noteq> 0) (slice 65 80 rec)"
    by - (elim conjE, assumption)+
  from zero show "slice 65 80 rec = replicate 15 0" by (intro replicate_eqI) (auto simp: list_ex_iff len)
  have "slice 14 16 rec = to_le_bytes 2 (0 :: u16)" by (rule le_slice, rule flags) (simp_all add: len)
  then show "slice 14 16 rec = replicate 2 0" by (simp only: to_le_bytes_0)
  from checks show "length rec = 168" and "slice 0 4 rec = COMPACT_L2_FIXED_INGRESS_MAGIC"
    and "rec ! 10 = CompactL2RecordKind_code (lh_record_kind header)" and "rec ! 13 = 0" and "rec ! 87 = 0"
    and "rec ! 11 = lh_source_family header" and "rec ! 12 = lh_exchange_id header"
    by - (elim conjE, assumption)+
  from checks show "slice 4 6 rec = to_le_bytes 2 COMPACT_L2_FIXED_BINARY_SCHEMA_VERSION_V1"
    and "slice 6 8 rec = to_le_bytes 2 COMPACT_L2_FIXED_INGRESS_HEADER_LEN_V1"
    and "slice 8 10 rec = to_le_bytes 2 (ucast COMPACT_L2_FIXED_BINARY_RECORD_WIDTH_V1 :: u16)"
    and "slice 16 20 rec = to_le_bytes 4 (lh_trading_day header)" and "slice 20 24 rec = to_le_bytes 4 (lh_channel_id header)"
    and "slice 24 32 rec = to_le_bytes 8 (lh_biz_index header)" and "slice 32 40 rec = to_le_bytes 8 (lh_source_ordinal header)"
    and "slice 40 48 rec = to_le_bytes 8 (lh_receive_nano header)" and "slice 48 56 rec = to_le_bytes 8 (lh_exchange_time header)"
    by - (elim conjE, rule le_slice, assumption, simp, simp, simp add: len)+
qed

lemma words_slice:
  assumes "length rec = 168"
  shows "concat (map (to_le_bytes 8) (map (\<lambda>off. from_le_bytes (slice off (off + 8) rec) :: i64)
      (map unat COMPACT_L2_PHYSICAL_V2_BODY_WORD_OFFSETS))) = slice 88 168 rec"
proof -
  have word: "to_le_bytes 8 (from_le_bytes (slice off (off + 8) rec) :: i64) = slice off (off + 8) rec" if "off + 8 \<le> 168" for off
    using to_from_le_bytes [of "slice off (off + 8) rec", where 'a = 64] that assms by simp
  show ?thesis
    using word [of 88] word [of 96] word [of 104] word [of 112] word [of 120] word [of 128] word [of 136] word [of 144] word [of 152] word [of 160]
    by (simp add: COMPACT_L2_PHYSICAL_V2_BODY_WORD_OFFSETS_def slice_append_assoc slice_append)
qed

lemma decoded_payload:
  assumes "decode_compact_l2_fixed_binary_header_v1 rec = Inr header"
  shows "payload (CompactL2RecordKind_code (lh_record_kind header)) [lh_source_family header, lh_exchange_id header] (lh_trading_day header)
      (lh_channel_id header) (lh_biz_index header) (lh_source_ordinal header) (lh_receive_nano header) (lh_exchange_time header)
      (slice 56 65 rec) (slice 80 87 rec)
      (map (\<lambda>off. from_le_bytes (slice off (off + 8) rec)) (map unat COMPACT_L2_PHYSICAL_V2_BODY_WORD_OFFSETS)) = rec"
proof -
  note d = decode_header_Inr [OF assms]
  have "slice 10 11 rec = [rec ! 10]" "slice 11 12 rec = [rec ! 11]" "slice 12 13 rec = [rec ! 12]" "slice 13 14 rec = [rec ! 13]"
    "slice 87 88 rec = [rec ! 87]"
    using slice_step [of 10 rec] slice_step [of 11 rec] slice_step [of 12 rec] slice_step [of 13 rec] slice_step [of 87 rec]
    by (simp_all add: d(1))
  note bytes = this
  have "rec = slice 0 4 rec @ slice 4 6 rec @ slice 6 8 rec @ slice 8 10 rec @ slice 10 11 rec @ (slice 11 12 rec @ slice 12 13 rec) @
      slice 13 14 rec @ slice 14 16 rec @ slice 16 20 rec @ slice 20 24 rec @ slice 24 32 rec @ slice 32 40 rec @ slice 40 48 rec @
      slice 48 56 rec @ slice 56 65 rec @ slice 65 80 rec @ slice 80 87 rec @ slice 87 88 rec @ slice 88 168 rec"
    by (simp add: slice_append_assoc slice_append) (simp add: slice_def d(1))
  also have "\<dots> = payload (CompactL2RecordKind_code (lh_record_kind header)) [lh_source_family header, lh_exchange_id header]
      (lh_trading_day header) (lh_channel_id header) (lh_biz_index header) (lh_source_ordinal header) (lh_receive_nano header)
      (lh_exchange_time header) (slice 56 65 rec) (slice 80 87 rec)
      (map (\<lambda>off. from_le_bytes (slice off (off + 8) rec)) (map unat COMPACT_L2_PHYSICAL_V2_BODY_WORD_OFFSETS))"
    unfolding payload_def words_slice [OF d(1)] by (simp only: d(2-18) bytes append.simps)
  finally show ?thesis by (rule sym)
qed

lemma from_fixed_binary_v1_payload:
  assumes "from_fixed_binary_v1 rec = Inr r"
  shows "record_ok r" and "record_payload r = rec"
proof -
  obtain header where header: "decode_compact_l2_fixed_binary_header_v1 rec = Inr header"
    using assms by (auto simp: from_fixed_binary_v1_def elim: sbind_InrE)
  note d = decode_header_Inr(1) [OF header]
  from assms show "record_ok r"
    by (auto simp: from_fixed_binary_v1_def header record_ok_def d COMPACT_L2_PHYSICAL_V2_BODY_WORD_OFFSETS_def)
  from assms show "record_payload r = rec"
    by (auto simp: from_fixed_binary_v1_def header record_payload_def decoded_payload [OF header] simp del: map_map)
qed

lemma code_inject: "CompactL2RecordKind_code k = CompactL2RecordKind_code l \<longleftrightarrow> k = l"
  by (cases k; cases l) (simp_all add: COMPACT_L2_RECORD_KIND_ORDER_def COMPACT_L2_RECORD_KIND_TRADE_def)

lemma le_bytes_iff:
  fixes v w :: "32 word" and x y :: "64 word"
  shows "to_le_bytes 4 v = to_le_bytes 4 w \<longleftrightarrow> v = w" and "to_le_bytes 8 x = to_le_bytes 8 y \<longleftrightarrow> x = y"
  using to_le_bytes_inject [of 4 v w] to_le_bytes_inject [of 8 x y] by auto

lemma record_payload_inject:
  assumes "record_ok r" and "record_ok s" and "record_payload r = record_payload s"
  shows "r = s"
proof (rule CompactL2PhysicalV2Record.equality)
  have "length (lr_symbol q) = 9" "length (lr_body_bytes_80_86 q) = 7" "length (lr_body_words_88_160 q) = 10"
    if "record_ok q" for q using that by (simp_all add: record_ok_def)
  note sl = payload_slices [OF _ this record_payload_def, simplified]
  note r = sl [OF assms(1,1,1)] and s = sl [OF assms(2,2,2), folded assms(3)]
  from r(5) s(5) show "lr_record_kind r = lr_record_kind s" by (simp add: code_inject)
  from r(7,8) s(7,8) show "lr_source_family r = lr_source_family s" "lr_exchange_id r = lr_exchange_id s" by simp_all
  from r(9-14) s(9-14) show "lr_trading_day r = lr_trading_day s" "lr_channel_id r = lr_channel_id s" "lr_biz_index r = lr_biz_index s"
    "lr_source_ordinal r = lr_source_ordinal s" "lr_receive_nano r = lr_receive_nano s" "lr_exchange_time r = lr_exchange_time s"
    by (simp_all add: le_bytes_iff)
  from r(15,16) s(15,16) show "lr_symbol r = lr_symbol s" "lr_body_bytes_80_86 r = lr_body_bytes_80_86 s" by simp_all
  have "inj (to_le_bytes 8 :: i64 \<Rightarrow> bytes)" by (simp add: inj_def le_bytes_iff)
  with r(17) s(17) show "lr_body_words_88_160 r = lr_body_words_88_160 s" by (metis inj_map_eq_map)
qed simp

section \<open>Lanes of a batch\<close>

text \<open>Row \<open>row\<close> of the lanes is the split of a record, its scalar columns included.\<close>

definition row_splits :: "CompactL2PhysicalV2BatchView \<Rightarrow> usize \<Rightarrow> bytes \<Rightarrow> bool" where
  "row_splits view row rec \<longleftrightarrow>
     (\<exists>r. from_fixed_binary_v1_with_scalar_columns rec (lv_day_key view ! row) (lv_channel_id view ! row) (lv_biz_index view ! row)
        (lv_receive_nano view ! row) (lv_source_ordinal view ! row) (lv_record_kind view ! row) = Inr r \<and>
      slice (row * 2) (row * 2 + 2) (lv_header_bytes_11_12 view) = [lr_source_family r, lr_exchange_id r] \<and>
      lv_exchange_time view ! row = lr_exchange_time r \<and> slice (row * 9) (row * 9 + 9) (lv_symbol view) = lr_symbol r \<and>
      slice (row * 7) (row * 7 + 7) (lv_body_bytes_80_86 view) = lr_body_bytes_80_86 r \<and>
      map (\<lambda>lane. lane ! row) (lv_body_words_88_160 view) = lr_body_words_88_160 r)"

lemma u8_try_from_code: "u8_try_from_i32 (ucast (CompactL2RecordKind_code kind)) = Some (CompactL2RecordKind_code kind)"
  by (cases kind) (simp_all add: u8_try_from_i32_def COMPACT_L2_RECORD_KIND_ORDER_def COMPACT_L2_RECORD_KIND_TRADE_def)

lemma i32_try_from_scast: "i32_try_from_i64 (scast ch) = Some ch" for ch :: "32 word"
proof -
  have "- (2 ^ 31) \<le> sint ch" "sint ch < 2 ^ 31" using sint_ge [of ch] sint_lt [of ch] by simp_all
  moreover have "sint (scast ch :: 64 word) = sint ch"
    by (intro sint_up_scast) (simp add: is_up)
  moreover have "ucast (scast ch :: 64 word) = ch" by (rule bit_word_eqI) (simp add: bit_simps)
  ultimately show ?thesis by (simp add: i32_try_from_i64_def)
qed

lemma lane_len_Inr: "compact_l2_validate_lane_len name n m = Inr u \<longleftrightarrow> n = m"
  by (simp add: compact_l2_validate_lane_len_def)

lemma checked_mul_Inr: "ok_or (usize_checked_mul n k) e = Inr m \<longleftrightarrow> m = n * k \<and> n * k \<le> usize_max"
  by (auto simp: ok_or_def usize_checked_mul_def usize_try_from_def)

lemma validate_Inr:
  assumes "CompactL2PhysicalV2BatchView_validate view = Inr ()" and "length (lv_body_words_88_160 view) = 10"
  shows "length (lv_day_key view) = lv_row_count view" "length (lv_channel_id view) = lv_row_count view"
    "length (lv_biz_index view) = lv_row_count view" "length (lv_receive_nano view) = lv_row_count view"
    "length (lv_source_ordinal view) = lv_row_count view" "length (lv_record_kind view) = lv_row_count view"
    "length (lv_header_bytes_11_12 view) = lv_row_count view * 2" "length (lv_exchange_time view) = lv_row_count view"
    "length (lv_symbol view) = lv_row_count view * 9" "length (lv_body_bytes_80_86 view) = lv_row_count view * 7"
    "\<forall>lane \<in> set (lv_body_words_88_160 view). length lane = lv_row_count view"
proof -
  note v = assms(1) [unfolded CompactL2PhysicalV2BatchView_validate_def Let_def sbind_eq_Inr lane_len_Inr checked_mul_Inr]
  then show "length (lv_day_key view) = lv_row_count view" "length (lv_channel_id view) = lv_row_count view"
    "length (lv_biz_index view) = lv_row_count view" "length (lv_receive_nano view) = lv_row_count view"
    "length (lv_source_ordinal view) = lv_row_count view" "length (lv_record_kind view) = lv_row_count view"
    "length (lv_header_bytes_11_12 view) = lv_row_count view * 2" "length (lv_exchange_time view) = lv_row_count view"
    "length (lv_symbol view) = lv_row_count view * 9" "length (lv_body_bytes_80_86 view) = lv_row_count view * 7"
    by blast+
  obtain a b c d e f g h i j where w: "lv_body_words_88_160 view = [a, b, c, d, e, f, g, h, i, j]" using assms(2) by (rule words_of_ten)
  from v show "\<forall>lane \<in> set (lv_body_words_88_160 view). length lane = lv_row_count view"
    by (auto simp: w COMPACT_L2_PHYSICAL_V2_BODY_WORD_COLUMNS_def sbind_eq_Inr lane_len_Inr)
qed

lemma wtry_simps [simp]:
  "wtry (Some (Inr x)) out k = k x" "wtry (Some (Inl e)) out k = (Some (Inl e), out)" "wtry None out k = (None, out)"
  by (simp_all add: wtry_def)

lemma at_row_Inr: "row < length lane \<Longrightarrow> at_row lane row = Some (Inr (lane ! row))"
  by (simp add: at_row_def vec_get_def)

lemma bytes_at_row_Inr: "row < n \<Longrightarrow> length lane = n * w \<Longrightarrow> bytes_at_row lane w row = Some (Inr (slice (row * w) (row * w + w) lane))"
  using mult_le_mono1 [of "Suc row" n w] by (simp add: bytes_at_row_def vec_get_range_def)

lemma row_words_written:
  "\<forall>lane \<in> set lanes. row < length lane \<Longrightarrow>
     write_words row (zip offs lanes) out = (Some (Inr ()), copy_words (zip offs (map (\<lambda>lane. lane ! row) lanes)) out)"
proof (induction offs arbitrary: lanes out)
  case (Cons off offs)
  then show ?case by (cases lanes) (simp_all add: at_row_Inr)
qed simp

lemma scalar_columns_Inr:
  assumes "from_fixed_binary_v1_with_scalar_columns rec day_key channel_id biz_index receive_nano source_ordinal record_kind = Inr r"
  shows "from_fixed_binary_v1 rec = Inr r" and "u32_from_day_key day_key = Inr (lr_trading_day r)"
    and "i32_from_channel_id channel_id = Inr (lr_channel_id r)" and "biz_index = lr_biz_index r" and "receive_nano = lr_receive_nano r"
    and "u64_from_source_ordinal source_ordinal = Inr (lr_source_ordinal r)"
    and "u8_try_from_i32 record_kind = Some (CompactL2RecordKind_code (lr_record_kind r))"
proof -
  note c = assms [unfolded from_fixed_binary_v1_with_scalar_columns_def sbind_eq_Inr checked_Inr not_not sum.inject]
  then show "from_fixed_binary_v1 rec = Inr r" and "u32_from_day_key day_key = Inr (lr_trading_day r)"
    and "i32_from_channel_id channel_id = Inr (lr_channel_id r)" and "biz_index = lr_biz_index r" and "receive_nano = lr_receive_nano r"
    and "u64_from_source_ordinal source_ordinal = Inr (lr_source_ordinal r)"
    and "u8_try_from_i32 record_kind = Some (CompactL2RecordKind_code (lr_record_kind r))"
    by (auto simp: u32_from_day_key_def i32_from_channel_id_def u64_from_source_ordinal_def i32_try_from_scast u8_try_from_code ok_or_def)
qed

lemma short_zeros: "replicate 2 (0 :: u8) = [0, 0]" "replicate 3 (0 :: u8) = [0, 0, 0]"
  by (simp_all add: numeral_eq_Suc)

lemma write_row:
  assumes "CompactL2PhysicalV2BatchView_validate view = Inr ()" and "length (lv_body_words_88_160 view) = 10"
    and "row < lv_row_count view" and "length out = 168" and "row_splits view row rec"
  shows "write_fixed_binary_v1_payload_unchecked view row out = (Some (Inr ()), rec)"
proof -
  note len = validate_Inr [OF assms(1,2)]
  obtain r where split: "from_fixed_binary_v1_with_scalar_columns rec (lv_day_key view ! row) (lv_channel_id view ! row) (lv_biz_index view ! row)
        (lv_receive_nano view ! row) (lv_source_ordinal view ! row) (lv_record_kind view ! row) = Inr r"
    and lanes: "slice (row * 2) (row * 2 + 2) (lv_header_bytes_11_12 view) = [lr_source_family r, lr_exchange_id r]"
      "lv_exchange_time view ! row = lr_exchange_time r" "slice (row * 9) (row * 9 + 9) (lv_symbol view) = lr_symbol r"
      "slice (row * 7) (row * 7 + 7) (lv_body_bytes_80_86 view) = lr_body_bytes_80_86 r"
      "map (\<lambda>lane. lane ! row) (lv_body_words_88_160 view) = lr_body_words_88_160 r"
    using assms(5) unfolding row_splits_def by blast
  note scalars = scalar_columns_Inr [OF split]
  note r = from_fixed_binary_v1_payload [OF scalars(1)]
  obtain header where decoded: "decode_compact_l2_fixed_binary_header_v1 (record_payload r) = Inr header"
    using scalars(1) r(2) by (auto simp: from_fixed_binary_v1_def elim: sbind_InrE)
  note bytes = bytes_at_row_Inr [OF assms(3) len(7), unfolded lanes(1)] bytes_at_row_Inr [OF assms(3) len(9), unfolded lanes(3)]
    bytes_at_row_Inr [OF assms(3) len(10), unfolded lanes(4)]
  have ws: "\<forall>lane \<in> set (lv_body_words_88_160 view). row < length lane" using len(11) assms(3) by simp
  obtain w0 w1 w2 w3 w4 w5 w6 w7 w8 w9 where words: "lr_body_words_88_160 r = [w0, w1, w2, w3, w4, w5, w6, w7, w8, w9]"
    using r(1) unfolding record_ok_def by (auto elim: words_of_ten)
  have "copy_words (zip (map unat COMPACT_L2_PHYSICAL_V2_BODY_WORD_OFFSETS) (lr_body_words_88_160 r)) (copy_at 80 (lr_body_bytes_80_86 r)
      (copy_at 56 (lr_symbol r) (copy_at 48 (to_le_bytes 8 (lr_exchange_time r)) (copy_at 40 (to_le_bytes 8 (lr_receive_nano r))
      (copy_at 32 (to_le_bytes 8 (lr_source_ordinal r)) (copy_at 24 (to_le_bytes 8 (lr_biz_index r)) (copy_at 20 (to_le_bytes 4 (lr_channel_id r))
      (copy_at 16 (to_le_bytes 4 (lr_trading_day r)) (copy_at 11 [lr_source_family r, lr_exchange_id r]
      ((copy_at 8 (to_le_bytes 2 (ucast COMPACT_L2_FIXED_BINARY_RECORD_WIDTH_V1 :: u16)) (copy_at 6 (to_le_bytes 2 COMPACT_L2_FIXED_INGRESS_HEADER_LEN_V1)
      (copy_at 4 (to_le_bytes 2 COMPACT_L2_FIXED_BINARY_SCHEMA_VERSION_V1) (copy_at 0 COMPACT_L2_FIXED_INGRESS_MAGIC (replicate 168 0)))))
        [10 := CompactL2RecordKind_code (lr_record_kind r)])))))))))) = record_payload r"
    using r(1) unfolding record_ok_def padded_Nil words
    by (simp add: padded_simps COMPACT_L2_PHYSICAL_V2_BODY_WORD_OFFSETS_def record_payload_def payload_def words short_zeros)
  then show ?thesis
    using assms(3,4) r(2) decoded unfolding write_fixed_binary_v1_payload_unchecked_def
    by (simp add: Let_def at_row_Inr bytes len scalars lanes(2,5) row_words_written [OF ws] ok_or_def)
qed

lemma append_rows_records:
  assumes "CompactL2PhysicalV2BatchView_validate view = Inr ()" and "length (lv_body_words_88_160 view) = 10"
    and "length recs = lv_row_count view" and "\<forall>row < lv_row_count view. row_splits view row (recs ! row)"
  shows "k \<le> lv_row_count view \<Longrightarrow> length done' = start + k * 168 \<Longrightarrow> append_rows view start [k..<lv_row_count view]
      (done' @ replicate ((lv_row_count view - k) * 168) 0) = (Some (Inr ()), done' @ concat (drop k recs))"
proof (induction "lv_row_count view - k" arbitrary: k done')
  case 0
  then show ?case using assms(3) by simp
next
  case (Suc n)
  then have k: "k < lv_row_count view" and zeros: "(lv_row_count view - k) * 168 = 168 + (lv_row_count view - Suc k) * 168" by simp_all
  from k assms(4) have row: "row_splits view k (recs ! k)" by blast
  then have len: "length (recs ! k) = 168"
    by (auto simp: row_splits_def from_fixed_binary_v1_with_scalar_columns_def from_fixed_binary_v1_def elim!: sbind_InrE dest!: decode_header_Inr(1))
  let ?rest = "replicate ((lv_row_count view - Suc k) * 168) 0 :: bytes"
  have mid: "slice (start + k * 168) (start + k * 168 + 168) (done' @ replicate 168 0 @ ?rest) = replicate 168 0"
    using Suc.prems(2) by (intro slice_mid) simp_all
  have copy: "copy_at (start + k * 168) (recs ! k) (done' @ replicate 168 0 @ ?rest) = (done' @ recs ! k) @ ?rest"
    using Suc.prems(2) len by (simp add: copy_at_def)
  have "drop k recs = recs ! k # drop (Suc k) recs" using k assms(3) by (simp add: Cons_nth_drop_Suc)
  moreover have "append_rows view start [Suc k..<lv_row_count view] ((done' @ recs ! k) @ ?rest) =
      (Some (Inr ()), (done' @ recs ! k) @ concat (drop (Suc k) recs))"
    by (rule Suc.hyps(1)) (use Suc.hyps(2) Suc.prems(2) k len in simp_all)
  ultimately show ?case
    using write_row [OF assms(1,2) k _ row, of "replicate 168 0"] k
    by (simp add: zeros replicate_add upt_conv_Cons mid copy del: replicate.simps)
qed

section \<open>Round trips\<close>

text \<open>C13. Splitting a compact record into lanes and writing it back are inverse to each other: an accepted record is
  reconstructed byte for byte from its lanes, and lanes that can be written are read back unchanged.\<close>

theorem compact_record_round_trip:
  "from_fixed_binary_v1 rec = Inr r \<longleftrightarrow> record_ok r \<and> to_fixed_binary_v1 r = Inr rec"
proof
  assume split: "from_fixed_binary_v1 rec = Inr r"
  then obtain header where "decode_compact_l2_fixed_binary_header_v1 rec = Inr header"
    by (auto simp: from_fixed_binary_v1_def elim: sbind_InrE)
  with from_fixed_binary_v1_payload [OF split] show "record_ok r \<and> to_fixed_binary_v1 r = Inr rec"
    by (simp add: to_fixed_binary_v1_payload)
next
  assume r: "record_ok r \<and> to_fixed_binary_v1 r = Inr rec"
  then obtain header where rec: "rec = record_payload r" and "decode_compact_l2_fixed_binary_header_v1 rec = Inr header"
    by (auto simp: to_fixed_binary_v1_payload elim!: sbind_InrE)
  then obtain s where split: "from_fixed_binary_v1 rec = Inr s" by (simp add: from_fixed_binary_v1_def)
  from from_fixed_binary_v1_payload [OF this] r rec have "s = r" by (intro record_payload_inject) simp_all
  with split show "from_fixed_binary_v1 rec = Inr r" by simp
qed

lemma column_lengths:
  "compact_l2_column_i32 batch name n = Inr v \<Longrightarrow> length v = n"
  "compact_l2_column_i64 batch name n = Inr w \<Longrightarrow> length w = n"
  "compact_l2_column_fixed_binary batch name n k = Inr bs \<Longrightarrow> length bs = n * unat k \<and> n * unat k \<le> usize_max"
  by (auto simp: compact_l2_column_i32_def compact_l2_column_i64_def compact_l2_column_fixed_binary_def usize_checked_mul_def usize_try_from_def
      split: PrimitiveColumnValues.splits if_splits elim!: sbind_InrE)

lemma from_column_batch_valid:
  assumes "from_column_batch batch = Inr view"
  shows "CompactL2PhysicalV2BatchView_validate view = Inr ()" and "length (lv_body_words_88_160 view) = 10"
proof -
  from assms obtain ws where ws: "try_map (\<lambda>column. compact_l2_column_i64 batch (bwc_column_name column) (lv_row_count view))
        COMPACT_L2_PHYSICAL_V2_BODY_WORD_COLUMNS = Inr ws" "lv_body_words_88_160 view = ws" "length ws = 10"
    by (auto simp: from_column_batch_def checked_Inr elim!: sbind_InrE)
  then show "length (lv_body_words_88_160 view) = 10" by simp
  from ws(1) have "list_all2 (\<lambda>_ lane. length lane = lv_row_count view) COMPACT_L2_PHYSICAL_V2_BODY_WORD_COLUMNS ws"
    unfolding try_map_Inr_iff by (rule list_all2_mono) (rule column_lengths(2))
  then have "\<forall>lane \<in> set ws. length lane = lv_row_count view" by (auto simp: list_all2_conv_all_nth in_set_conv_nth)
  then have "for_each (\<lambda>(column, lane) _. compact_l2_validate_lane_len (bwc_column_name column) (length lane) (lv_row_count view))
      (zip columns ws) () = Inr ()" for columns
    by (induction columns arbitrary: ws) (auto simp: zip_Cons1 compact_l2_validate_lane_len_def split: list.splits)
  moreover from assms have "length (lv_day_key view) = lv_row_count view" "length (lv_channel_id view) = lv_row_count view"
    "length (lv_biz_index view) = lv_row_count view" "length (lv_receive_nano view) = lv_row_count view"
    "length (lv_source_ordinal view) = lv_row_count view" "length (lv_record_kind view) = lv_row_count view"
    "length (lv_header_bytes_11_12 view) = lv_row_count view * 2" "length (lv_exchange_time view) = lv_row_count view"
    "length (lv_symbol view) = lv_row_count view * 9" "length (lv_body_bytes_80_86 view) = lv_row_count view * 7"
    "lv_row_count view * 9 \<le> usize_max"
    by (auto simp: from_column_batch_def checked_Inr elim!: sbind_InrE dest!: column_lengths)
  ultimately show "CompactL2PhysicalV2BatchView_validate view = Inr ()"
    by (simp add: CompactL2PhysicalV2BatchView_validate_def Let_def compact_l2_validate_lane_len_def ws(2) usize_checked_mul_def usize_try_from_def ok_or_def)
qed

text \<open>C14. A batch whose columns are the split of compact records is written back as exactly these records: after the bytes
  already in the output come the records one after the other, byte for byte, and nothing else.\<close>

theorem batch_reconstructs_records:
  assumes "from_column_batch batch = Inr view" and "length recs = lv_row_count view"
    and "\<forall>row < lv_row_count view. row_splits view row (recs ! row)"
    and "host_ready h" and "length out + lv_row_count view * 168 \<le> isize_max"
  shows "append_fixed_binary_v1_payloads h view out = (Some (Inr ()), out @ concat recs)"
proof -
  note valid = from_column_batch_valid [OF assms(1)]
  have "vec_resize (length out + lv_row_count view * 168) 0 out = out @ replicate ((lv_row_count view - 0) * 168) 0"
    by (simp add: vec_resize_longer)
  moreover have "try_reserve_exact h TyU8 (length out + lv_row_count view * 168) msg" for msg
    using assms(4,5) by (simp add: try_reserve_exact_def host_ready_def)
  ultimately show ?thesis
    using append_rows_records [OF valid assms(2,3), of 0 out "length out"] assms(5)
    by (simp add: append_fixed_binary_v1_payloads_def valid usize_checked_mul_def usize_checked_add_def usize_try_from_def ok_or_def
        usize_max_def isize_max_def)
qed

definition ex_record :: CompactL2PhysicalV2Record where
  "ex_record = \<lparr>lr_record_kind = RecordKind_Order, lr_source_family = 1, lr_exchange_id = 2, lr_trading_day = 20240102, lr_channel_id = 5,
     lr_biz_index = 7, lr_source_ordinal = 0, lr_receive_nano = 11, lr_exchange_time = 13, lr_symbol = [54, 48, 48, 48, 48, 48, 0, 0, 0],
     lr_body_bytes_80_86 = [66, 76, 0, 1, 2, 3, 4], lr_body_words_88_160 = [1, 2, 0, 0, 5, 6, 7, 8, 0, 10]\<rparr>"

lemma ex_record_split: "from_fixed_binary_v1 (record_payload ex_record) = Inr ex_record"
  by code_simp

definition ex_lane :: "string \<Rightarrow> PrimitiveColumnValues \<Rightarrow> ColumnArray" where
  "ex_lane name vs = \<lparr>ca_column_id = 0, ca_name = str_bytes name, ca_physical_type = PrimitiveColumnValuesRef_physical_type vs,
     ca_logical_kind = Column_Plain, ca_dictionary_id = None, ca_values = vs, ca_validity = None\<rparr>"

definition ex_lanes :: ColumnBatch where
  "ex_lanes = \<lparr>batch_row_group_id = 0, batch_base_row = 0, batch_row_count = 1, batch_columns =
     [ex_lane ''day_key'' (Values_I32 [20240102]), ex_lane ''channel_id'' (Values_I64 [5]), ex_lane ''biz_index'' (Values_I64 [7]),
      ex_lane ''receive_nano'' (Values_I64 [11]), ex_lane ''source_ordinal'' (Values_I64 [0]), ex_lane ''record_kind'' (Values_I32 [1]),
      ex_lane ''payload_header_bytes_11_12'' (Values_FixedBinary 2 [1, 2]), ex_lane ''payload_exchange_time'' (Values_I64 [13]),
      ex_lane ''payload_symbol'' (Values_FixedBinary 9 [54, 48, 48, 48, 48, 48, 0, 0, 0]),
      ex_lane ''payload_body_bytes_80_86'' (Values_FixedBinary 7 [66, 76, 0, 1, 2, 3, 4]),
      ex_lane ''payload_body_word_88'' (Values_I64 [1]), ex_lane ''payload_body_word_96'' (Values_I64 [2]),
      ex_lane ''payload_body_word_104'' (Values_I64 [0]), ex_lane ''payload_body_word_112'' (Values_I64 [0]),
      ex_lane ''payload_body_word_120'' (Values_I64 [5]), ex_lane ''payload_body_word_128'' (Values_I64 [6]),
      ex_lane ''payload_body_word_136'' (Values_I64 [7]), ex_lane ''payload_body_word_144'' (Values_I64 [8]),
      ex_lane ''payload_body_word_152'' (Values_I64 [0]), ex_lane ''payload_body_word_160'' (Values_I64 [10])]\<rparr>"

definition ex_view :: CompactL2PhysicalV2BatchView where
  "ex_view = \<lparr>lv_row_count = 1, lv_day_key = [20240102], lv_channel_id = [5], lv_biz_index = [7], lv_receive_nano = [11],
     lv_source_ordinal = [0], lv_record_kind = [1], lv_header_bytes_11_12 = [1, 2], lv_exchange_time = [13],
     lv_symbol = [54, 48, 48, 48, 48, 48, 0, 0, 0], lv_body_bytes_80_86 = [66, 76, 0, 1, 2, 3, 4],
     lv_body_words_88_160 = [[1], [2], [0], [0], [5], [6], [7], [8], [0], [10]]\<rparr>"

lemma str_bytes_eq: "str_bytes a = str_bytes b \<longleftrightarrow> a = b"
proof -
  have "inj (of_char :: char \<Rightarrow> u8)"
  proof (rule injI)
    fix c d :: char assume "(of_char c :: u8) = of_char d"
    then have "(of_nat (of_char c) :: u8) = of_nat (of_char d)" by (simp only: of_nat_of_char)
    then have "(of_char c :: nat) mod 256 = of_char d mod 256" by (simp add: word_of_nat_eq_iff take_bit_eq_mod del: of_char_mod_256)
    then show "c = d" by simp
  qed
  then show ?thesis by (simp add: str_bytes_def inj_map_eq_map)
qed

lemmas ex_lane_fields = ex_lane_def [THEN arg_cong [where f = ca_name], simplified] ex_lane_def [THEN arg_cong [where f = ca_values], simplified]

lemma ex_lanes_view: "from_column_batch ex_lanes = Inr ex_view"
  by (simp add: from_column_batch_def ex_lanes_def ex_view_def compact_l2_column_i32_def compact_l2_column_i64_def compact_l2_column_fixed_binary_def
    column_named_def ex_lane_fields str_bytes_eq COMPACT_L2_PHYSICAL_V2_BODY_WORD_COLUMNS_def usize_try_from_def usize_checked_mul_def usize_max_def
    COMPACT_L2_DAY_KEY_COLUMN_NAME_def COMPACT_L2_CHANNEL_ID_COLUMN_NAME_def COMPACT_L2_BIZ_INDEX_COLUMN_NAME_def
    COMPACT_L2_RECEIVE_NANO_COLUMN_NAME_def COMPACT_L2_SOURCE_ORDINAL_COLUMN_NAME_def COMPACT_L2_RECORD_KIND_COLUMN_NAME_def
    COMPACT_L2_PHYSICAL_V2_HEADER_BYTES_11_12_COLUMN_NAME_def COMPACT_L2_PHYSICAL_V2_EXCHANGE_TIME_COLUMN_NAME_def
    COMPACT_L2_PHYSICAL_V2_SYMBOL_COLUMN_NAME_def COMPACT_L2_PHYSICAL_V2_BODY_BYTES_80_86_COLUMN_NAME_def)

lemma ex_row_splits: "row_splits ex_view 0 (record_payload ex_record)"
  by (simp add: row_splits_def from_fixed_binary_v1_with_scalar_columns_def ex_record_split)
    (simp add: ex_view_def ex_record_def u32_try_from_i32_def u64_try_from_i64_def slice_def COMPACT_L2_RECORD_KIND_ORDER_def)

theorem batch_reconstructs_records_witness:
  "append_fixed_binary_v1_payloads example_host ex_view [9] = (Some (Inr ()), 9 # record_payload ex_record)"
  using batch_reconstructs_records [OF ex_lanes_view, of "[record_payload ex_record]" example_host "[9]"] ex_row_splits example_host_ready
  by (simp add: ex_view_def isize_max_def)

end
