(* ===== verification/Spec2Isabelle.thy ===== *)
theory Spec2Isabelle
  imports Reader_Properties Fingerprint Ordered_Properties Bundle_Properties Compact_Lanes
begin

text \<open>
  Verification of the OCB reader core, the crate \<open>src/crates/arcadia-tio-ocb-core\<close>.

  \<^bold>\<open>The program.\<close> An OCB file ("ordered column bundle") is a bootstrap page at offset 0, followed by
  objects that refer to each other by body references: position, length, kind and checksum. A version-1
  bootstrap page names one root object; a version-2 page holds a table of two root slots, and a
  writer commits a new snapshot by appending objects and overwriting one slot. The root names the
  schema, the dictionary index, the row-group index (version 2: a base index and possibly a delta
  of appended row groups), and an optional ordering proof; the row-group index lists row groups,
  their column chunks and their statistics. Opening a file selects the newest root that
  validates, reads the objects it names within the caller's resource limits, and checks that they
  agree with each other. The reader then fetches column chunks, raw or zstd-compressed, through positioned
  reads. On top of it a column bundle plans reads (which columns, and which row groups the statistics do not
  exclude), admits them against the resource limits, decodes the chunks into typed arrays, and executes plans
  serially or through a pool of workers whose results are committed in the order of the plan. Compact L2 payloads
  are one use of it: 168-byte records stored whole or split into lanes.

  \<^bold>\<open>How it is modelled.\<close> The model is a shallow embedding, one definition per Rust function and one record
  or datatype per Rust type, under the Rust names. Machine integers are words of their width, so
  that unchecked arithmetic wraps and \<open>checked_add\<close> fails exactly as in the code; \<open>usize\<close> values of
  lengths are naturals with the conversion \<open>usize_try_from\<close> written out. A Rust \<open>Result\<close> is
  \<open>ArcadiaTioError + 'a\<close>, and every early return is a branch with the code's error code and message.
  Functions that mutate a budget, a cursor or a cache take it as an argument and return it updated.
  Loops are structural recursions or folds over the list they run over; the two loops whose recursion is not
  structural (\<open>choose_loop\<close>, \<open>analyze_loop\<close>, over the generations still to be tried, and the exact read over the bytes still
  missing) are total functions with a termination measure. A function that may panic returns an option of a
  result. The worker pool is a step relation between the coordinator and the workers (\<open>pool_step\<close>), and an
  operation that runs it is a relation between its arguments and its outcomes; that every run ends is a
  theorem. No fuel is used anywhere.

  What is not code of the crate is a parameter. \<open>zstd\<close> stands for the zstd decompressor: what it
  writes for an input, and whether it ended cleanly. \<open>host\<close> stands for the allocator (which
  reservations succeed) and for the sizes the compiler gives the metadata structs; where a
  property needs these sizes to be positive, it says \<open>host_sized\<close>. \<open>OcbReadSource\<close> stands for the opened
  file: what every positioned read returns, short reads and errors included.

  \<^bold>\<open>Theories and sources.\<close>
  \<^item> \<open>Prelude\<close>: result and option combinators, little-endian bytes, checked arithmetic, lists.
  \<^item> \<open>Errors\<close> (\<open>error.rs\<close>, and \<open>OcbErrorKind\<close> of \<open>column_bundle.rs\<close>): error values, display, classification.
  \<^item> \<open>Resource_Limits\<close> (\<open>resource_limits.rs\<close>): the limits policy and the metadata budget.
  \<^item> \<open>Crc32c\<close>, \<open>Byte_IO\<close>, \<open>Codec\<close>, \<open>Format_Enums\<close>, \<open>Body_Ref\<close> (\<open>format.rs\<close>): checksums, readers and writers,
    record sequences, enumerations, body references.
  \<^item> \<open>Roots\<close>, \<open>Root_Slot\<close>, \<open>Bootstrap\<close>, \<open>String_Table\<close>, \<open>Schema\<close>, \<open>Dictionary\<close>, \<open>Ordering_Proof\<close>, \<open>Row_Groups\<close>,
    \<open>Row_Group_Delta\<close>, \<open>Column_Chunk\<close> (\<open>format.rs\<close>): one theory per stored object, its encoder, decoder and checks.
  \<^item> \<open>Read_Source\<close>, \<open>Object_Read\<close> (\<open>read.rs\<close>): the cursor over positioned reads; reading a referenced object, a
    column chunk, the direct fill and the streaming validation.
  \<^item> \<open>Collections\<close>, \<open>Metadata\<close>, \<open>Aux_Cache\<close>, \<open>Metadata_Graph\<close> (\<open>read.rs\<close>): hash maps, the objects of a root and the
    application of a delta, the cache of auxiliary objects, the validation of the graph.
  \<^item> \<open>Root_Selection\<close>, \<open>Open_File\<close>, \<open>Maintenance\<close> (\<open>read.rs\<close>): the choice of the snapshot, opening, and the
    analysis that repeats the choice with diagnostics.
  \<^item> \<open>Example_File\<close>: a complete version-2 file, on which witnesses of the reader properties are evaluated.
  \<^item> \<open>Bundle_Types\<close>, \<open>Bundle_File\<close> (\<open>column_bundle.rs\<close>, \<open>column_bundle/materialize.rs\<close>): the public vocabulary, opening a
    bundle over a source, resolved columns, the metadata summary, dictionary values.
  \<^item> \<open>Planning\<close>, \<open>Fingerprint\<close> (\<open>column_bundle/planning.rs\<close>, \<open>column_bundle.rs\<close>): projections, predicates, pruning, plans and
    their validation; summaries, fingerprints and plan certification.
  \<^item> \<open>Admission\<close>, \<open>Row_Group_Read\<close> (\<open>column_bundle/execution.rs\<close>, \<open>column_bundle/attribution.rs\<close>): footprints and limits of
    owned, windowed and sliding reads; decoding a row group into owned arrays, with and without attribution.
  \<^item> \<open>Fill_Read\<close>, \<open>Fixed_Binary\<close> (\<open>column_bundle/materialize.rs\<close>, \<open>column_bundle.rs\<close>): filling buffers of the caller and
    reusable buffers; record views and projections of fixed-binary columns.
  \<^item> \<open>Worker_Pool\<close>, \<open>Ordered_Commit\<close> (\<open>parallel_prepare.rs\<close>): the task queue, the channel, the workers; the sliding and the
    windowed coordinator, cancellation and panics.
  \<^item> \<open>Ordered_Invariant\<close>, \<open>Ordered_Runs\<close>, \<open>Windowed_Runs\<close>, \<open>Ordered_Progress\<close>: the invariant of the pool, what the two
    coordinators have done at each point of a run, measures and absence of deadlock.
  \<^item> \<open>Bundle_Read\<close> (\<open>column_bundle.rs\<close>): executing plans, visits, parallel preparation, buffers for a plan; \<open>Plan_Runs\<close>: its
    runs reduced to serial loops; \<open>Example_Bundle\<close>: opened bundles for the witnesses.
  \<^item> \<open>Compact_L2\<close>, \<open>Compact_Lanes\<close> (\<open>compact_l2.rs\<close>): compact records, their lanes, batches of lanes.
  \<^item> \<open>Format_Properties\<close>, \<open>Reader_Properties\<close>, \<open>Ordered_Properties\<close>, \<open>Bundle_Properties\<close>: the properties of the stored
    format, of the reader, of the ordered pool, and of plans; those of compact records stand in \<open>Compact_Lanes\<close>.

  \<^bold>\<open>Interfaces.\<close> The locales state what one component relies on in another: a stored record codec (in
  \<open>Codec\<close>) from which the round trip and the exact budget charge of record sequences follow once, and the
  choice of a snapshot by any validator that keeps an invariant (in \<open>Root_Selection\<close>). Each is interpreted on the
  definitions of the code.

  \<^bold>\<open>What is shown.\<close> Opened metadata is well formed, stays inside the file and within the limits; the choice of
  the snapshot takes the newest conflict-free valid generation; it succeeds when one validates with every cache of auxiliary
  objects the choice can hold there and newer candidates fail for corruption only (\<open>cache_at\<close> in \<open>Root_Selection\<close>); the
  analysis agrees with it; a root with a schema reference of the wrong kind ends the selection as invalid input
  (\<open>wrong_kind_root_ends_open\<close>), where the crate's README promises a corrupt-file error;
  both fast paths of chunk reading equal the plain one, error for error; every stored object that the writer accepts is read back;
  corruption of a root is detected; budgets are charged exactly. A finished run of the pool returns what committing
  the tasks in order returns, under every interleaving; no run is infinite, none is stuck, and the tasks in flight stay
  within their limit. Reading a plan has one outcome whatever the number of threads; visiting one calls the visitor as
  the serial loop does; a plan loses no row its predicates admit; a row group that is read is well typed, and filling
  buffers agrees with it; parallel preparation stays within the byte limits. Compact records and their lanes convert
  into each other without loss.

  \<^bold>\<open>Abstractions of the pool.\<close> A step of a worker or of the coordinator is one critical section or one channel
  operation; waiting on the condition variable is a state that a change of the progress generation ends, and the generation is a natural
  number, which a run cannot carry past its bound. Times in the reports are left out.

  \<^bold>\<open>Not modelled.\<close> Opening a path, wall-clock fields and debug formatting (I/O, or values that are only written);
  visits into reusable buffer slots, which the workers share under mutexes; the second parallel reader (\<open>parallel_read.rs\<close>);
  JSON parsing through \<open>serde_json\<close> and the reports over files and manifests (\<open>manifest.rs\<close>, \<open>certification.rs\<close>); the
  wrapper crates around a native library.
\<close>

end
